(* ===== verification/Fsbl_Prelude.thy ===== *)
theory Fsbl_Prelude
  imports Main "HOL-Library.Word"
begin

text \<open>
  Types, fact collections and generic lemmas shared by the whole development.

  The C types \<open>u8\<close>, \<open>u32\<close> and \<open>u64\<close> are words of the same width, so every sum, shift
  and mask wraps exactly as in the C code.  \<open>zx\<close> is the implicit widening of a 32-bit
  value that C performs when it meets a 64-bit one.
\<close>

unbundle bit_operations_syntax

type_synonym u8 = "8 word"
type_synonym u16 = "16 word"
type_synonym u32 = "32 word"
type_synonym u64 = "64 word"

abbreviation zx :: "u32 \<Rightarrow> u64" where
  "zx x \<equiv> ucast x"

abbreviation lo32 :: "u64 \<Rightarrow> u32" where
  "lo32 x \<equiv> ucast x"

text \<open>Unfolding equations of the constants of the headers.\<close>

named_theorems hw "values of the registers, masks and codes of the C headers"

text \<open>Weakest-precondition equations of the operations.\<close>

named_theorems wp_eq "weakest precondition equations"

named_theorems ends_eq "total-correctness equations"

named_theorems answers_intro "what an operation answers"

text \<open>Introduction rules of the frame calculus and of the termination calculus.\<close>

named_theorems keeps_intro "invariants kept by operations"
named_theorems returns_intro "operations that return"

section \<open>Lists\<close>

lemma nth_list_update_unat_neq [simp]:
  "i \<noteq> j \<Longrightarrow> xs[unat i := x] ! unat j = xs ! unat (j :: 'a::len word)"
  by (simp add: word_unat_eq_iff)

lemma take_list_update_same_length:
  "length (take n (xs[i := x])) = length (take n xs)"
  by simp

lemma sum_list_update_word:
  fixes xs :: "'a::len word list"
  shows "i < length xs \<Longrightarrow> sum_list (xs[i := x]) = sum_list xs - xs ! i + x"
proof (induction xs arbitrary: i)
  case Nil
  then show ?case by simp
next
  case (Cons y ys)
  then show ?case by (cases i) (simp_all add: algebra_simps)
qed

lemma foldl_plus_sum_list:
  "foldl (+) (a :: 'a::comm_monoid_add) xs = a + sum_list xs"
  by (induction xs arbitrary: a) (simp_all add: add.assoc)

lemma sum_list_split_last:
  fixes xs :: "'a::comm_monoid_add list"
  assumes "n < length xs" and "length xs = Suc n"
  shows "sum_list xs = sum_list (take n xs) + xs ! n"
proof -
  have "xs = take n xs @ [xs ! n]"
    using assms by (metis lessI order_refl take_Suc_conv_app_nth take_all)
  then have "sum_list xs = sum_list (take n xs @ [xs ! n])"
    by simp
  then show ?thesis by simp
qed

section \<open>Chains of error checks\<close>

lemma if_error: "e \<noteq> z \<Longrightarrow> ((if c then e else x) = z) = (\<not> c \<and> x = z)"
  and if_status: "((if s \<noteq> z then s else x) = z) = (s = z \<and> x = z)"
  and if_ok: "e \<noteq> z \<Longrightarrow> ((if c then z else e) = z) = c"
  for e x z s :: u32
  by auto

section \<open>Words\<close>

lemma xor_minus_one_eq_not: "(x :: 'a::len word) XOR (- 1) = NOT x"
  by simp

lemma eq_not_iff_sum: "(y :: 'a::len word) = NOT x \<longleftrightarrow> x + y = - 1"
proof
  assume "y = NOT x"
  then have "y = - x - 1" by (simp add: not_eq_complement)
  then show "x + y = - 1" by simp
next
  assume "x + y = - 1"
  then have "y = - x - 1" by (simp add: algebra_simps eq_neg_iff_add_eq_0)
  then show "y = NOT x" by (simp add: not_eq_complement)
qed

lemma unat_zx: "unat (zx x) = unat x"
proof -
  have "unat x < 2 ^ 32" using unsigned_less [of x] by simp
  then show ?thesis by (simp add: unsigned_ucast_eq unsigned_take_bit_eq take_bit_nat_eq_self)
qed

lemma zx_le: "zx x \<le> zx y \<longleftrightarrow> x \<le> y" and zx_less: "zx x < zx y \<longleftrightarrow> x < y"
  by (simp_all add: word_le_nat_alt word_less_nat_alt unat_zx)

lemma zx_lo32: "(x :: u64) < 2 ^ 32 \<Longrightarrow> zx (lo32 x) = x"
  by (simp add: word_unat_eq_iff unat_zx unsigned_ucast_eq unsigned_take_bit_eq
      take_bit_nat_eq_self word_less_nat_alt)

lemma bits_clear_set:
  "((x AND NOT m) OR m) AND m = (m :: 'a::len word)"
  by (rule bit_word_eqI) (auto simp: bit_simps)

lemma bits_or_and [simp]: "(x OR m) AND m = (m :: 'a::len word)"
  by (rule bit_word_eqI) (auto simp: bit_simps)

lemma bits_andnot_and [simp]: "(x AND NOT m) AND m = (0 :: 'a::len word)"
  by (rule bit_word_eqI) (auto simp: bit_simps)

lemma bits_andnot_or_neg:
  "((x AND NOT m) OR k) AND NOT m = (x OR k) AND NOT (m :: 'a::len word)"
  by (rule bit_word_eqI) (auto simp: bit_simps)

lemma word_and_mono_zero:
  "x AND m = (0 :: 'a::len word) \<Longrightarrow> (x AND y) AND m = 0"
  by (metis and.assoc and.commute and_zero_eq)

end
