(* ===== verification/Fsbl_Hw.thy ===== *)
theory Fsbl_Hw
  imports Fsbl_Prelude
begin

text \<open>
  Register addresses, bit masks, status codes and image-header constants of the first
  stage boot loader, transcribed from the headers under \<open>src/SDK/FSBL\<close> with the names
  of the source.  All of them are 32-bit unsigned values; where the code meets one in
  64-bit arithmetic the models widen it with \<open>zx\<close>.  Their values are in the collection
  \<open>hw\<close>, so a proof unfolds them only where the value matters.
\<close>

section \<open>Status codes (\<open>xfsbl_error.h\<close>)\<close>

definition XFSBL_ERROR_STAGE_1 :: u32 where [hw]: "XFSBL_ERROR_STAGE_1 = 0x0000"
definition XFSBL_ERROR_STAGE_2 :: u32 where [hw]: "XFSBL_ERROR_STAGE_2 = 0x2000"
definition XFSBL_ERROR_STAGE_3 :: u32 where [hw]: "XFSBL_ERROR_STAGE_3 = 0x4000"
definition XFSBL_ERROR_STAGE_4 :: u32 where [hw]: "XFSBL_ERROR_STAGE_4 = 0x6000"
definition XFSBL_PSU_INIT_FAILED :: u32 where [hw]: "XFSBL_PSU_INIT_FAILED = 0x0800"
definition XFSBL_EXEC_COMPLETED :: u32 where [hw]: "XFSBL_EXEC_COMPLETED = 0x1"
definition XFSBL_SUCCESS :: u32 where [hw]: "XFSBL_SUCCESS = 0x0"
definition XFSBL_STATUS_JTAG :: u32 where [hw]: "XFSBL_STATUS_JTAG = 0x1"
definition XFSBL_SUCCESS_NOT_PARTITION_OWNER :: u32 where [hw]: "XFSBL_SUCCESS_NOT_PARTITION_OWNER = 0x2"
definition XFSBL_STATUS_CONTINUE_PARTITION_LOAD :: u32 where [hw]: "XFSBL_STATUS_CONTINUE_PARTITION_LOAD = 0x3"
definition XFSBL_STATUS_CONTINUE_OTHER_HANDOFF :: u32 where [hw]: "XFSBL_STATUS_CONTINUE_OTHER_HANDOFF = 0x4"
definition XFSBL_STATUS_SECONDARY_BOOT_MODE :: u32 where [hw]: "XFSBL_STATUS_SECONDARY_BOOT_MODE = 0x5"
definition XFSBL_ERROR_UNSUPPORTED_BOOT_MODE :: u32 where [hw]: "XFSBL_ERROR_UNSUPPORTED_BOOT_MODE = 0x6"
definition XFSBL_WDT_INIT_FAILED :: u32 where [hw]: "XFSBL_WDT_INIT_FAILED = 0x7"
definition XFSBL_ERROR_SYSTEM_WDT_RESET :: u32 where [hw]: "XFSBL_ERROR_SYSTEM_WDT_RESET = 0x9"
definition XFSBL_ERROR_UNSUPPORTED_QSPI :: u32 where [hw]: "XFSBL_ERROR_UNSUPPORTED_QSPI = 0xB"
definition XFSBL_ERROR_QSPI_INIT :: u32 where [hw]: "XFSBL_ERROR_QSPI_INIT = 0xC"
definition XFSBL_ERROR_NO_OF_PARTITIONS :: u32 where [hw]: "XFSBL_ERROR_NO_OF_PARTITIONS = 0xD"
definition XFSBL_ERROR_PPD :: u32 where [hw]: "XFSBL_ERROR_PPD = 0xE"
definition XFSBL_ERROR_XIP_AUTH_ENC_PRESENT :: u32 where [hw]: "XFSBL_ERROR_XIP_AUTH_ENC_PRESENT = 0xF"
definition XFSBL_ERROR_XIP_EXEC_ADDRESS :: u32 where [hw]: "XFSBL_ERROR_XIP_EXEC_ADDRESS = 0x10"
definition XFSBL_ERROR_PARTITION_LENGTH :: u32 where [hw]: "XFSBL_ERROR_PARTITION_LENGTH = 0x11"
definition XFSBL_ERROR_INVALID_CHECKSUM_TYPE :: u32 where [hw]: "XFSBL_ERROR_INVALID_CHECKSUM_TYPE = 0x12"
definition XFSBL_ERROR_INVALID_CPU_TYPE :: u32 where [hw]: "XFSBL_ERROR_INVALID_CPU_TYPE = 0x13"
definition XFSBL_ERROR_LS_CPU_TYPE :: u32 where [hw]: "XFSBL_ERROR_LS_CPU_TYPE = 0x14"
definition XFSBL_ERROR_INVALID_DEST_DEVICE :: u32 where [hw]: "XFSBL_ERROR_INVALID_DEST_DEVICE = 0x15"
definition XFSBL_ERROR_PH_CHECKSUM_FAILED :: u32 where [hw]: "XFSBL_ERROR_PH_CHECKSUM_FAILED = 0x17"
definition XFSBL_ERROR_PWR_UP_CPU :: u32 where [hw]: "XFSBL_ERROR_PWR_UP_CPU = 0x18"
definition XFSBL_ERROR_QSPI_LENGTH :: u32 where [hw]: "XFSBL_ERROR_QSPI_LENGTH = 0x19"
definition XFSBL_ERROR_INVALID_QSPI_CONNECTION :: u32 where [hw]: "XFSBL_ERROR_INVALID_QSPI_CONNECTION = 0x1A"
definition XFSBL_ERROR_IHT_CHECKSUM :: u32 where [hw]: "XFSBL_ERROR_IHT_CHECKSUM = 0x21"
definition XFSBL_ERROR_QSPI_READ :: u32 where [hw]: "XFSBL_ERROR_QSPI_READ = 0x22"
definition XFSBL_ERROR_HANDOFF_CPUID :: u32 where [hw]: "XFSBL_ERROR_HANDOFF_CPUID = 0x23"
definition XFSBL_ERROR_LOAD_ADDRESS :: u32 where [hw]: "XFSBL_ERROR_LOAD_ADDRESS = 0x24"
definition XFSBL_ERROR_HOOK_BEFORE_BITSTREAM_DOWNLOAD :: u32 where [hw]: "XFSBL_ERROR_HOOK_BEFORE_BITSTREAM_DOWNLOAD = 0x25"
definition XFSBL_ERROR_HOOK_AFTER_BITSTREAM_DOWNLOAD :: u32 where [hw]: "XFSBL_ERROR_HOOK_AFTER_BITSTREAM_DOWNLOAD = 0x26"
definition XFSBL_ERROR_HOOK_BEFORE_HANDOFF :: u32 where [hw]: "XFSBL_ERROR_HOOK_BEFORE_HANDOFF = 0x27"
definition XFSBL_ERROR_SD_INIT :: u32 where [hw]: "XFSBL_ERROR_SD_INIT = 0x28"
definition XFSBL_ERROR_SD_F_OPEN :: u32 where [hw]: "XFSBL_ERROR_SD_F_OPEN = 0x29"
definition XFSBL_ERROR_SD_F_LSEEK :: u32 where [hw]: "XFSBL_ERROR_SD_F_LSEEK = 0x2A"
definition XFSBL_ERROR_SD_F_READ :: u32 where [hw]: "XFSBL_ERROR_SD_F_READ = 0x2B"
definition XFSBL_ERROR_NAND_INIT :: u32 where [hw]: "XFSBL_ERROR_NAND_INIT = 0x2C"
definition XFSBL_ERROR_NAND_READ :: u32 where [hw]: "XFSBL_ERROR_NAND_READ = 0x2D"
definition XFSBL_ERROR_ADDRESS :: u32 where [hw]: "XFSBL_ERROR_ADDRESS = 0x2E"
definition XFSBL_ERROR_SPK_RSA_DECRYPT :: u32 where [hw]: "XFSBL_ERROR_SPK_RSA_DECRYPT = 0x2F"
definition XFSBL_ERROR_SPK_SIGNATURE :: u32 where [hw]: "XFSBL_ERROR_SPK_SIGNATURE = 0x30"
definition XFSBL_ERROR_PART_RSA_DECRYPT :: u32 where [hw]: "XFSBL_ERROR_PART_RSA_DECRYPT = 0x31"
definition XFSBL_ERROR_PART_SIGNATURE :: u32 where [hw]: "XFSBL_ERROR_PART_SIGNATURE = 0x32"
definition XFSBL_ERROR_CSUDMA_INIT_FAIL :: u32 where [hw]: "XFSBL_ERROR_CSUDMA_INIT_FAIL = 0x34"
definition XFSBL_ERROR_DECRYPTION_FAIL :: u32 where [hw]: "XFSBL_ERROR_DECRYPTION_FAIL = 0x36"
definition XFSBL_ERROR_BITSTREAM_LOAD_FAIL :: u32 where [hw]: "XFSBL_ERROR_BITSTREAM_LOAD_FAIL = 0x37"
definition XFSBL_ERROR_BITSTREAM_GCM_TAG_MISMATCH :: u32 where [hw]: "XFSBL_ERROR_BITSTREAM_GCM_TAG_MISMATCH = 0x38"
definition XFSBL_ERROR_BITSTREAM_DECRYPTION_FAIL :: u32 where [hw]: "XFSBL_ERROR_BITSTREAM_DECRYPTION_FAIL = 0x3A"
definition XFSBL_ERROR_SECURE_NOT_ENABLED :: u32 where [hw]: "XFSBL_ERROR_SECURE_NOT_ENABLED = 0x3B"
definition XFSBL_ERROR_PL_POWER_UP :: u32 where [hw]: "XFSBL_ERROR_PL_POWER_UP = 0x3E"
definition XFSBL_ERROR_A53_0_POWER_UP :: u32 where [hw]: "XFSBL_ERROR_A53_0_POWER_UP = 0x3F"
definition XFSBL_ERROR_A53_1_POWER_UP :: u32 where [hw]: "XFSBL_ERROR_A53_1_POWER_UP = 0x40"
definition XFSBL_ERROR_A53_2_POWER_UP :: u32 where [hw]: "XFSBL_ERROR_A53_2_POWER_UP = 0x41"
definition XFSBL_ERROR_A53_3_POWER_UP :: u32 where [hw]: "XFSBL_ERROR_A53_3_POWER_UP = 0x42"
definition XFSBL_ERROR_R5_0_POWER_UP :: u32 where [hw]: "XFSBL_ERROR_R5_0_POWER_UP = 0x43"
definition XFSBL_ERROR_R5_1_POWER_UP :: u32 where [hw]: "XFSBL_ERROR_R5_1_POWER_UP = 0x44"
definition XFSBL_ERROR_R5_L_POWER_UP :: u32 where [hw]: "XFSBL_ERROR_R5_L_POWER_UP = 0x45"
definition XFSBL_ERROR_R5_0_TCM_POWER_UP :: u32 where [hw]: "XFSBL_ERROR_R5_0_TCM_POWER_UP = 0x46"
definition XFSBL_ERROR_R5_1_TCM_POWER_UP :: u32 where [hw]: "XFSBL_ERROR_R5_1_TCM_POWER_UP = 0x47"
definition XFSBL_ERROR_R5_L_TCM_POWER_UP :: u32 where [hw]: "XFSBL_ERROR_R5_L_TCM_POWER_UP = 0x48"
definition XFSBL_ERROR_UNSUPPORTED_CLUSTER_ID :: u32 where [hw]: "XFSBL_ERROR_UNSUPPORTED_CLUSTER_ID = 0x49"
definition XFSBL_ERROR_I2C_INIT :: u32 where [hw]: "XFSBL_ERROR_I2C_INIT = 0x4A"
definition XFSBL_ERROR_I2C_WRITE :: u32 where [hw]: "XFSBL_ERROR_I2C_WRITE = 0x4B"
definition XFSBL_ERROR_DDR_ECC_INIT :: u32 where [hw]: "XFSBL_ERROR_DDR_ECC_INIT = 0x4C"
definition XFSBL_ERROR_TCM_ECC_INIT :: u32 where [hw]: "XFSBL_ERROR_TCM_ECC_INIT = 0x4D"
definition XFSBL_ERROR_UNSUPPORTED_HANDOFF :: u32 where [hw]: "XFSBL_ERROR_UNSUPPORTED_HANDOFF = 0x4E"
definition XFSBL_ERROR_PARTITION_CHECKSUM_FAILED :: u32 where [hw]: "XFSBL_ERROR_PARTITION_CHECKSUM_FAILED = 0x4F"
definition XFSBL_ERROR_PM_INIT :: u32 where [hw]: "XFSBL_ERROR_PM_INIT = 0x50"
definition XFSBL_ERROR_PROTECTION_CFG :: u32 where [hw]: "XFSBL_ERROR_PROTECTION_CFG = 0x51"
definition XFSBL_ERROR_UNAVAILABLE_CPU :: u32 where [hw]: "XFSBL_ERROR_UNAVAILABLE_CPU = 0x52"
definition XFSBL_ERROR_GT_LANE_SELECTION :: u32 where [hw]: "XFSBL_ERROR_GT_LANE_SELECTION = 0x53"
definition XFSBL_ERROR_I2C_SET_SCLK :: u32 where [hw]: "XFSBL_ERROR_I2C_SET_SCLK = 0x54"
definition XFSBL_ERROR_PMU_GLOBAL_REQ_ISO :: u32 where [hw]: "XFSBL_ERROR_PMU_GLOBAL_REQ_ISO = 0x55"
definition XFSBL_ERROR_AES_INITIALIZE :: u32 where [hw]: "XFSBL_ERROR_AES_INITIALIZE = 0x56"
definition XFSBL_ERROR_QSPI_MANUAL_START :: u32 where [hw]: "XFSBL_ERROR_QSPI_MANUAL_START = 0x57"
definition XFSBL_ERROR_QSPI_PRESCALER_CLK :: u32 where [hw]: "XFSBL_ERROR_QSPI_PRESCALER_CLK = 0x58"
definition XFSBL_ERROR_RSA_INITIALIZE :: u32 where [hw]: "XFSBL_ERROR_RSA_INITIALIZE = 0x59"
definition XFSBL_ERROR_CHUNK_HASH_COMPARISON :: u32 where [hw]: "XFSBL_ERROR_CHUNK_HASH_COMPARISON = 0x60"
definition XFSBL_ERROR_PROVIDED_BUF_HASH_STORE :: u32 where [hw]: "XFSBL_ERROR_PROVIDED_BUF_HASH_STORE = 0x61"
definition XFSBL_ERROR_BLOCK_SIZE_SEC_BS :: u32 where [hw]: "XFSBL_ERROR_BLOCK_SIZE_SEC_BS = 0x63"
definition XFSBL_ERROR_IMAGE_HEADER_ACOFFSET :: u32 where [hw]: "XFSBL_ERROR_IMAGE_HEADER_ACOFFSET = 0x64"
definition XFSBL_ERROR_PPK_VERIFICATION :: u32 where [hw]: "XFSBL_ERROR_PPK_VERIFICATION = 0x65"
definition XFSBL_ERROR_SPKID_VERIFICATION :: u32 where [hw]: "XFSBL_ERROR_SPKID_VERIFICATION = 0x66"
definition XSFBL_ERROR_PPK_SELECT_ISREVOKED :: u32 where [hw]: "XSFBL_ERROR_PPK_SELECT_ISREVOKED = 0x67"
definition XFSBL_ERROR_BH_RSA_DECRYPT :: u32 where [hw]: "XFSBL_ERROR_BH_RSA_DECRYPT = 0x68"
definition XFSBL_ERROR_BH_SIGNATURE :: u32 where [hw]: "XFSBL_ERROR_BH_SIGNATURE = 0x69"
definition XFSBL_ERROR_BH_AUTH_IS_NOTALLOWED :: u32 where [hw]: "XFSBL_ERROR_BH_AUTH_IS_NOTALLOWED = 0x70"
definition XFSBL_ERROR_USER_EFUSE_ISREVOKED :: u32 where [hw]: "XFSBL_ERROR_USER_EFUSE_ISREVOKED = 0x72"
definition XFSBL_ERROR_OUT_OF_RANGE_USER_EFUSE :: u32 where [hw]: "XFSBL_ERROR_OUT_OF_RANGE_USER_EFUSE = 0x73"
definition XFSBL_ERROR_INVALID_EFUSE_SELECT :: u32 where [hw]: "XFSBL_ERROR_INVALID_EFUSE_SELECT = 0x74"
definition XFSBL_BITSTREAM_NOT_LOADED :: u32 where [hw]: "XFSBL_BITSTREAM_NOT_LOADED = 0x77"
definition XFSBL_ERROR_SHA2_NOT_SUPPORTED :: u32 where [hw]: "XFSBL_ERROR_SHA2_NOT_SUPPORTED = 0x78"
definition XFSBL_FAILURE :: u32 where [hw]: "XFSBL_FAILURE = 0x3FFFFFFF"

section \<open>Registers and memory map (\<open>xfsbl_hw.h\<close>)\<close>

definition CSU_BASEADDR :: u32 where [hw]: "CSU_BASEADDR = 0xFFCA0000"
definition CSU_CSU_SSS_CFG :: u32 where [hw]: "CSU_CSU_SSS_CFG = CSU_BASEADDR + 0x00000008"
definition CSU_CSU_SSS_CFG_PCAP_SSS_MASK :: u32 where [hw]: "CSU_CSU_SSS_CFG_PCAP_SSS_MASK = 0x0000000F"
definition CSU_CSU_SSS_CFG_PCAP_SSS_SHIFT :: u32 where [hw]: "CSU_CSU_SSS_CFG_PCAP_SSS_SHIFT = 0"
definition CSU_AES_RESET :: u32 where [hw]: "CSU_AES_RESET = CSU_BASEADDR + 0x00001010"
definition CSU_AES_RESET_RESET_MASK :: u32 where [hw]: "CSU_AES_RESET_RESET_MASK = 0x00000001"
definition CSU_PCAP_STATUS :: u32 where [hw]: "CSU_PCAP_STATUS = CSU_BASEADDR + 0x00003010"
definition CSU_PCAP_STATUS_PL_INIT_MASK :: u32 where [hw]: "CSU_PCAP_STATUS_PL_INIT_MASK = 0x00000004"
definition CSU_PCAP_STATUS_PCAP_WR_IDLE_MASK :: u32 where [hw]: "CSU_PCAP_STATUS_PCAP_WR_IDLE_MASK = 0x00000001"
definition CSU_PCAP_STATUS_PL_DONE_MASK :: u32 where [hw]: "CSU_PCAP_STATUS_PL_DONE_MASK = 0x00000008"
definition CSU_PCAP_STATUS_PL_CFG_RST_MASK :: u32 where [hw]: "CSU_PCAP_STATUS_PL_CFG_RST_MASK = 0x00000040"
definition CSU_PCAP_RDWR :: u32 where [hw]: "CSU_PCAP_RDWR = CSU_BASEADDR + 0x00003004"
definition CSU_PCAP_PROG :: u32 where [hw]: "CSU_PCAP_PROG = CSU_BASEADDR + 0x00003000"
definition CSU_PCAP_PROG_PCFG_PROG_B_MASK :: u32 where [hw]: "CSU_PCAP_PROG_PCFG_PROG_B_MASK = 0x00000001"
definition CSU_CSU_MULTI_BOOT :: u32 where [hw]: "CSU_CSU_MULTI_BOOT = CSU_BASEADDR + 0x00000010"
definition CSU_SHA_RESET :: u32 where [hw]: "CSU_SHA_RESET = CSU_BASEADDR + 0x00002004"
definition CSU_SHA_RESET_RESET_MASK :: u32 where [hw]: "CSU_SHA_RESET_RESET_MASK = 0x00000001"
definition CSU_PCAP_RESET :: u32 where [hw]: "CSU_PCAP_RESET = CSU_BASEADDR + 0x0000300C"
definition CSU_PCAP_RESET_RESET_MASK :: u32 where [hw]: "CSU_PCAP_RESET_RESET_MASK = 0x00000001"
definition CSU_PCAP_CTRL :: u32 where [hw]: "CSU_PCAP_CTRL = CSU_BASEADDR + 0x00003008"
definition CSU_PCAP_CTRL_PCAP_PR_MASK :: u32 where [hw]: "CSU_PCAP_CTRL_PCAP_PR_MASK = 0x00000001"
definition CSU_IDCODE :: u32 where [hw]: "CSU_IDCODE = CSU_BASEADDR + 0x00000040"
definition CSU_IDCODE_SVD_SHIFT :: u32 where [hw]: "CSU_IDCODE_SVD_SHIFT = 12"
definition CSU_IDCODE_SVD_MASK :: u32 where [hw]: "CSU_IDCODE_SVD_MASK = push_bit (unat CSU_IDCODE_SVD_SHIFT) 0x7"
definition CSU_IDCODE_DEVICE_CODE_SHIFT :: u32 where [hw]: "CSU_IDCODE_DEVICE_CODE_SHIFT = 15"
definition CSU_IDCODE_DEVICE_CODE_MASK :: u32 where [hw]: "CSU_IDCODE_DEVICE_CODE_MASK = push_bit (unat CSU_IDCODE_DEVICE_CODE_SHIFT) 0xF"
definition EFUSE_BASEADDR :: u32 where [hw]: "EFUSE_BASEADDR = 0xFFCC0000"
definition EFUSE_SEC_CTRL :: u32 where [hw]: "EFUSE_SEC_CTRL = EFUSE_BASEADDR + 0x00001058"
definition EFUSE_SEC_CTRL_ENC_ONLY_MASK :: u32 where [hw]: "EFUSE_SEC_CTRL_ENC_ONLY_MASK = 0x00000004"
definition EFUSE_SEC_CTRL_RSA_EN_MASK :: u32 where [hw]: "EFUSE_SEC_CTRL_RSA_EN_MASK = 0x03FFF800"
definition EFUSE_SEC_CTRL_PPK0_RVK_MASK :: u32 where [hw]: "EFUSE_SEC_CTRL_PPK0_RVK_MASK = 0x18000000"
definition EFUSE_SEC_CTRL_PPK1_RVK_MASK :: u32 where [hw]: "EFUSE_SEC_CTRL_PPK1_RVK_MASK = 0xC0000000"
definition EFUSE_IPDISABLE :: u32 where [hw]: "EFUSE_IPDISABLE = EFUSE_BASEADDR + 0x00001018"
definition EFUSE_IPDISABLE_GPU_DIS_MASK :: u32 where [hw]: "EFUSE_IPDISABLE_GPU_DIS_MASK = 0x00000020"
definition EFUSE_IPDISABLE_APU3_DIS_MASK :: u32 where [hw]: "EFUSE_IPDISABLE_APU3_DIS_MASK = 0x00000008"
definition EFUSE_IPDISABLE_APU2_DIS_MASK :: u32 where [hw]: "EFUSE_IPDISABLE_APU2_DIS_MASK = 0x00000004"
definition EFUSE_IPDISABLE_VCU_DIS_MASK :: u32 where [hw]: "EFUSE_IPDISABLE_VCU_DIS_MASK = 0x00000100"
definition EFUSE_PPK0 :: u32 where [hw]: "EFUSE_PPK0 = (EFUSE_BASEADDR + 0x000010A0)"
definition EFUSE_PPK1 :: u32 where [hw]: "EFUSE_PPK1 = (EFUSE_BASEADDR + 0x000010D0)"
definition EFUSE_SPKID :: u32 where [hw]: "EFUSE_SPKID = (EFUSE_BASEADDR + 0x0000105C)"
definition CRF_APB_BASEADDR :: u32 where [hw]: "CRF_APB_BASEADDR = 0xFD1A0000"
definition CRF_APB_RST_FPD_APU :: u32 where [hw]: "CRF_APB_RST_FPD_APU = CRF_APB_BASEADDR + 0x00000104"
definition CRF_APB_RST_FPD_APU_ACPU0_RESET_MASK :: u32 where [hw]: "CRF_APB_RST_FPD_APU_ACPU0_RESET_MASK = 0x00000001"
definition CRF_APB_RST_FPD_APU_APU_L2_RESET_MASK :: u32 where [hw]: "CRF_APB_RST_FPD_APU_APU_L2_RESET_MASK = 0x00000100"
definition CRF_APB_ACPU_CTRL :: u32 where [hw]: "CRF_APB_ACPU_CTRL = CRF_APB_BASEADDR + 0x00000060"
definition CRF_APB_ACPU_CTRL_CLKACT_FULL_MASK :: u32 where [hw]: "CRF_APB_ACPU_CTRL_CLKACT_FULL_MASK = 0x01000000"
definition CRF_APB_ACPU_CTRL_CLKACT_HALF_MASK :: u32 where [hw]: "CRF_APB_ACPU_CTRL_CLKACT_HALF_MASK = 0x02000000"
definition CRF_APB_RST_FPD_APU_ACPU1_RESET_MASK :: u32 where [hw]: "CRF_APB_RST_FPD_APU_ACPU1_RESET_MASK = 0x00000002"
definition CRF_APB_RST_FPD_APU_ACPU2_RESET_MASK :: u32 where [hw]: "CRF_APB_RST_FPD_APU_ACPU2_RESET_MASK = 0x00000004"
definition CRF_APB_RST_FPD_APU_ACPU3_RESET_MASK :: u32 where [hw]: "CRF_APB_RST_FPD_APU_ACPU3_RESET_MASK = 0x00000008"
definition CRF_APB_RST_FPD_APU_ACPU3_PWRON_RESET_MASK :: u32 where [hw]: "CRF_APB_RST_FPD_APU_ACPU3_PWRON_RESET_MASK = 0x00002000"
definition CRF_APB_RST_FPD_APU_ACPU2_PWRON_RESET_MASK :: u32 where [hw]: "CRF_APB_RST_FPD_APU_ACPU2_PWRON_RESET_MASK = 0x00001000"
definition CRF_APB_RST_FPD_APU_ACPU1_PWRON_RESET_MASK :: u32 where [hw]: "CRF_APB_RST_FPD_APU_ACPU1_PWRON_RESET_MASK = 0x00000800"
definition CRF_APB_RST_FPD_APU_ACPU0_PWRON_RESET_MASK :: u32 where [hw]: "CRF_APB_RST_FPD_APU_ACPU0_PWRON_RESET_MASK = 0x00000400"
definition CRL_APB_BASEADDR :: u32 where [hw]: "CRL_APB_BASEADDR = 0xFF5E0000"
definition CRL_APB_CPU_R5_CTRL :: u32 where [hw]: "CRL_APB_CPU_R5_CTRL = CRL_APB_BASEADDR + 0x00000090"
definition CRL_APB_CPU_R5_CTRL_CLKACT_MASK :: u32 where [hw]: "CRL_APB_CPU_R5_CTRL_CLKACT_MASK = 0x01000000"
definition CRL_APB_RST_LPD_TOP :: u32 where [hw]: "CRL_APB_RST_LPD_TOP = CRL_APB_BASEADDR + 0x0000023C"
definition CRL_APB_RST_LPD_TOP_RPU_R50_RESET_MASK :: u32 where [hw]: "CRL_APB_RST_LPD_TOP_RPU_R50_RESET_MASK = 0x00000001"
definition CRL_APB_RST_LPD_TOP_RPU_AMBA_RESET_MASK :: u32 where [hw]: "CRL_APB_RST_LPD_TOP_RPU_AMBA_RESET_MASK = 0x00000004"
definition CRL_APB_RST_LPD_TOP_RPU_R51_RESET_MASK :: u32 where [hw]: "CRL_APB_RST_LPD_TOP_RPU_R51_RESET_MASK = 0x00000002"
definition CRL_APB_BOOT_MODE_USER :: u32 where [hw]: "CRL_APB_BOOT_MODE_USER = CRL_APB_BASEADDR + 0x00000200"
definition CRL_APB_BOOT_MODE_USER_BOOT_MODE_MASK :: u32 where [hw]: "CRL_APB_BOOT_MODE_USER_BOOT_MODE_MASK = 0x0000000F"
definition CRL_APB_RESET_CTRL :: u32 where [hw]: "CRL_APB_RESET_CTRL = CRL_APB_BASEADDR + 0x00000218"
definition CRL_APB_RESET_CTRL_SOFT_RESET_MASK :: u32 where [hw]: "CRL_APB_RESET_CTRL_SOFT_RESET_MASK = 0x00000010"
definition CRL_APB_RESET_REASON :: u32 where [hw]: "CRL_APB_RESET_REASON = CRL_APB_BASEADDR + 0x00000220"
definition CRL_APB_RESET_REASON_PMU_SYS_RESET_MASK :: u32 where [hw]: "CRL_APB_RESET_REASON_PMU_SYS_RESET_MASK = 0x00000004"
definition CRL_APB_RESET_REASON_PSONLY_RESET_REQ_MASK :: u32 where [hw]: "CRL_APB_RESET_REASON_PSONLY_RESET_REQ_MASK = 0x00000008"
definition CRL_APB_RPLL_CTRL :: u32 where [hw]: "CRL_APB_RPLL_CTRL = CRL_APB_BASEADDR + 0x00000030"
definition CRL_APB_RPLL_CTRL_BYPASS_MASK :: u32 where [hw]: "CRL_APB_RPLL_CTRL_BYPASS_MASK = 0x00000008"
definition APU_BASEADDR :: u32 where [hw]: "APU_BASEADDR = 0xFD5C0000"
definition APU_CONFIG_0 :: u32 where [hw]: "APU_CONFIG_0 = APU_BASEADDR + 0x00000020"
definition APU_RVBARADDR0L :: u32 where [hw]: "APU_RVBARADDR0L = APU_BASEADDR + 0x00000040"
definition APU_RVBARADDR0H :: u32 where [hw]: "APU_RVBARADDR0H = APU_BASEADDR + 0x00000044"
definition APU_RVBARADDR1L :: u32 where [hw]: "APU_RVBARADDR1L = APU_BASEADDR + 0x00000048"
definition APU_RVBARADDR1H :: u32 where [hw]: "APU_RVBARADDR1H = APU_BASEADDR + 0x0000004C"
definition APU_RVBARADDR2L :: u32 where [hw]: "APU_RVBARADDR2L = APU_BASEADDR + 0x00000050"
definition APU_RVBARADDR2H :: u32 where [hw]: "APU_RVBARADDR2H = APU_BASEADDR + 0x00000054"
definition APU_RVBARADDR3L :: u32 where [hw]: "APU_RVBARADDR3L = APU_BASEADDR + 0x00000058"
definition APU_RVBARADDR3H :: u32 where [hw]: "APU_RVBARADDR3H = APU_BASEADDR + 0x0000005C"
definition PMU_GLOBAL_BASEADDR :: u32 where [hw]: "PMU_GLOBAL_BASEADDR = 0xFFD80000"
definition PMU_GLOBAL_GLOB_GEN_STORAGE6 :: u32 where [hw]: "PMU_GLOBAL_GLOB_GEN_STORAGE6 = PMU_GLOBAL_BASEADDR + 0x48"
definition PMU_GLOBAL_GLOB_GEN_STORAGE5 :: u32 where [hw]: "PMU_GLOBAL_GLOB_GEN_STORAGE5 = PMU_GLOBAL_BASEADDR + 0x44"
definition PMU_GLOBAL_GLOB_GEN_STORAGE4 :: u32 where [hw]: "PMU_GLOBAL_GLOB_GEN_STORAGE4 = PMU_GLOBAL_BASEADDR + 0x40"
definition PMU_GLOBAL_PERS_GLOB_GEN_STORAGE4 :: u32 where [hw]: "PMU_GLOBAL_PERS_GLOB_GEN_STORAGE4 = PMU_GLOBAL_BASEADDR + 0x00000060"
definition PMU_GLOBAL_PERS_GLOB_GEN_STORAGE7 :: u32 where [hw]: "PMU_GLOBAL_PERS_GLOB_GEN_STORAGE7 = PMU_GLOBAL_BASEADDR + 0x0000006C"
definition PMU_GLOBAL_GLOBAL_CNTRL :: u32 where [hw]: "PMU_GLOBAL_GLOBAL_CNTRL = PMU_GLOBAL_BASEADDR + 0x00000000"
definition PMU_GLOBAL_GLOBAL_CNTRL_MB_SLEEP_MASK :: u32 where [hw]: "PMU_GLOBAL_GLOBAL_CNTRL_MB_SLEEP_MASK = 0x00010000"
definition PMU_GLOBAL_GLOBAL_CNTRL_FW_IS_PRESENT_MASK :: u32 where [hw]: "PMU_GLOBAL_GLOBAL_CNTRL_FW_IS_PRESENT_MASK = 0x00000010"
definition PMU_GLOBAL_PS_CNTRL :: u32 where [hw]: "PMU_GLOBAL_PS_CNTRL = ( PMU_GLOBAL_BASEADDR + 0x4)"
definition PMU_GLOBAL_PS_CNTRL_PROG_ENABLE_MASK :: u32 where [hw]: "PMU_GLOBAL_PS_CNTRL_PROG_ENABLE_MASK = 0x2"
definition PMU_GLOBAL_PS_CNTRL_PROG_GATE_MASK :: u32 where [hw]: "PMU_GLOBAL_PS_CNTRL_PROG_GATE_MASK = 0x1"
definition PMU_GLOBAL_AIB_CNTRL :: u32 where [hw]: "PMU_GLOBAL_AIB_CNTRL = PMU_GLOBAL_BASEADDR + 0x600"
definition PMU_GLOBAL_AIB_STATUS :: u32 where [hw]: "PMU_GLOBAL_AIB_STATUS = PMU_GLOBAL_BASEADDR + 0x604"
definition PMU_GLOBAL_REQ_PWRUP_INT_EN :: u32 where [hw]: "PMU_GLOBAL_REQ_PWRUP_INT_EN = PMU_GLOBAL_BASEADDR + 0x00000118"
definition PMU_GLOBAL_REQ_PWRUP_TRIG :: u32 where [hw]: "PMU_GLOBAL_REQ_PWRUP_TRIG = PMU_GLOBAL_BASEADDR + 0x00000120"
definition PMU_GLOBAL_REQ_PWRUP_STATUS :: u32 where [hw]: "PMU_GLOBAL_REQ_PWRUP_STATUS = PMU_GLOBAL_BASEADDR + 0x00000110"
definition PMU_GLOBAL_PWR_STATE_PL_MASK :: u32 where [hw]: "PMU_GLOBAL_PWR_STATE_PL_MASK = 0x00800000"
definition PMU_GLOBAL_PWR_STATE_FP_MASK :: u32 where [hw]: "PMU_GLOBAL_PWR_STATE_FP_MASK = 0x00400000"
definition PMU_GLOBAL_PWR_STATE_TCM1B_MASK :: u32 where [hw]: "PMU_GLOBAL_PWR_STATE_TCM1B_MASK = 0x00008000"
definition PMU_GLOBAL_PWR_STATE_TCM1A_MASK :: u32 where [hw]: "PMU_GLOBAL_PWR_STATE_TCM1A_MASK = 0x00004000"
definition PMU_GLOBAL_PWR_STATE_TCM0B_MASK :: u32 where [hw]: "PMU_GLOBAL_PWR_STATE_TCM0B_MASK = 0x00002000"
definition PMU_GLOBAL_PWR_STATE_TCM0A_MASK :: u32 where [hw]: "PMU_GLOBAL_PWR_STATE_TCM0A_MASK = 0x00001000"
definition PMU_GLOBAL_PWR_STATE_R5_1_MASK :: u32 where [hw]: "PMU_GLOBAL_PWR_STATE_R5_1_MASK = 0x00000800"
definition PMU_GLOBAL_PWR_STATE_R5_0_MASK :: u32 where [hw]: "PMU_GLOBAL_PWR_STATE_R5_0_MASK = 0x00000400"
definition PMU_GLOBAL_PWR_STATE_L2_BANK0_MASK :: u32 where [hw]: "PMU_GLOBAL_PWR_STATE_L2_BANK0_MASK = 0x00000080"
definition PMU_GLOBAL_PWR_STATE_ACPU3_MASK :: u32 where [hw]: "PMU_GLOBAL_PWR_STATE_ACPU3_MASK = 0x00000008"
definition PMU_GLOBAL_PWR_STATE_ACPU2_MASK :: u32 where [hw]: "PMU_GLOBAL_PWR_STATE_ACPU2_MASK = 0x00000004"
definition PMU_GLOBAL_PWR_STATE_ACPU1_MASK :: u32 where [hw]: "PMU_GLOBAL_PWR_STATE_ACPU1_MASK = 0x00000002"
definition PMU_GLOBAL_PWR_STATE_ACPU0_MASK :: u32 where [hw]: "PMU_GLOBAL_PWR_STATE_ACPU0_MASK = 0x00000001"
definition PMU_GLOBAL_ERROR_STATUS_1 :: u32 where [hw]: "PMU_GLOBAL_ERROR_STATUS_1 = PMU_GLOBAL_BASEADDR + 0x00000530"
definition PMU_GLOBAL_ERROR_STATUS_1_LPD_SWDT_MASK :: u32 where [hw]: "PMU_GLOBAL_ERROR_STATUS_1_LPD_SWDT_MASK = 0x00001000"
definition PMU_GLOBAL_ERROR_SRST_EN_1 :: u32 where [hw]: "PMU_GLOBAL_ERROR_SRST_EN_1 = PMU_GLOBAL_BASEADDR + 0x0000056C"
definition PMU_GLOBAL_ERROR_SRST_EN_1_LPD_SWDT_MASK :: u32 where [hw]: "PMU_GLOBAL_ERROR_SRST_EN_1_LPD_SWDT_MASK = 0x00001000"
definition PMU_GLOBAL_ERROR_SRST_DIS_1 :: u32 where [hw]: "PMU_GLOBAL_ERROR_SRST_DIS_1 = PMU_GLOBAL_BASEADDR + 0x00000570"
definition PMU_GLOBAL_ERROR_EN_1 :: u32 where [hw]: "PMU_GLOBAL_ERROR_EN_1 = PMU_GLOBAL_BASEADDR + 0x000005A0"
definition PMU_GLOBAL_REQ_ISO_INT_EN :: u32 where [hw]: "PMU_GLOBAL_REQ_ISO_INT_EN = PMU_GLOBAL_BASEADDR + 0x00000318"
definition PMU_GLOBAL_REQ_ISO_INT_EN_PL_NONPCAP_MASK :: u32 where [hw]: "PMU_GLOBAL_REQ_ISO_INT_EN_PL_NONPCAP_MASK = 0x00000004"
definition PMU_GLOBAL_REQ_ISO_TRIG :: u32 where [hw]: "PMU_GLOBAL_REQ_ISO_TRIG = PMU_GLOBAL_BASEADDR + 0x00000320"
definition PMU_GLOBAL_REQ_ISO_STATUS :: u32 where [hw]: "PMU_GLOBAL_REQ_ISO_STATUS = PMU_GLOBAL_BASEADDR + 0x00000310"
definition RPU_BASEADDR :: u32 where [hw]: "RPU_BASEADDR = 0xFF9A0000"
definition RPU_RPU_GLBL_CNTL :: u32 where [hw]: "RPU_RPU_GLBL_CNTL = RPU_BASEADDR + 0x00000000"
definition RPU_RPU_GLBL_CNTL_SLSPLIT_MASK :: u32 where [hw]: "RPU_RPU_GLBL_CNTL_SLSPLIT_MASK = 0x00000008"
definition RPU_RPU_GLBL_CNTL_TCM_COMB_MASK :: u32 where [hw]: "RPU_RPU_GLBL_CNTL_TCM_COMB_MASK = 0x00000040"
definition RPU_RPU_GLBL_CNTL_SLCLAMP_MASK :: u32 where [hw]: "RPU_RPU_GLBL_CNTL_SLCLAMP_MASK = 0x00000010"
definition RPU_RPU_0_CFG :: u32 where [hw]: "RPU_RPU_0_CFG = RPU_BASEADDR + 0x00000100"
definition RPU_RPU_0_CFG_VINITHI_SHIFT :: u32 where [hw]: "RPU_RPU_0_CFG_VINITHI_SHIFT = 2"
definition RPU_RPU_0_CFG_VINITHI_MASK :: u32 where [hw]: "RPU_RPU_0_CFG_VINITHI_MASK = 0x00000004"
definition RPU_RPU_0_CFG_NCPUHALT_MASK :: u32 where [hw]: "RPU_RPU_0_CFG_NCPUHALT_MASK = 0x00000001"
definition RPU_RPU_1_CFG :: u32 where [hw]: "RPU_RPU_1_CFG = RPU_BASEADDR + 0x00000200"
definition RPU_RPU_1_CFG_VINITHI_SHIFT :: u32 where [hw]: "RPU_RPU_1_CFG_VINITHI_SHIFT = 2"
definition RPU_RPU_1_CFG_VINITHI_MASK :: u32 where [hw]: "RPU_RPU_1_CFG_VINITHI_MASK = 0x00000004"
definition RPU_RPU_1_CFG_NCPUHALT_MASK :: u32 where [hw]: "RPU_RPU_1_CFG_NCPUHALT_MASK = 0x00000001"
definition IPI_BASEADDR :: u32 where [hw]: "IPI_BASEADDR = 0xFF300000"
definition IPI_PMU_0_TRIG :: u32 where [hw]: "IPI_PMU_0_TRIG = IPI_BASEADDR + 0x00030000"
definition IPI_PMU_0_TRIG_PMU_0_MASK :: u32 where [hw]: "IPI_PMU_0_TRIG_PMU_0_MASK = 0x00010000"
definition IPI_PMU_0_IER :: u32 where [hw]: "IPI_PMU_0_IER = IPI_BASEADDR + 0x00030018"
definition IPI_PMU_0_IER_PMU_0_MASK :: u32 where [hw]: "IPI_PMU_0_IER_PMU_0_MASK = 0x00010000"
definition SERDES_BASEADDR :: u32 where [hw]: "SERDES_BASEADDR = 0xFD400000"
definition SERDES_ICM_CFG0 :: u32 where [hw]: "SERDES_ICM_CFG0 = SERDES_BASEADDR + 0x00010010"
definition SERDES_ICM_CFG0_L1_ICM_CFG_SHIFT :: u32 where [hw]: "SERDES_ICM_CFG0_L1_ICM_CFG_SHIFT = 4"
definition SERDES_ICM_CFG0_L1_ICM_CFG_MASK :: u32 where [hw]: "SERDES_ICM_CFG0_L1_ICM_CFG_MASK = 0x00000070"
definition SERDES_ICM_CFG0_L0_ICM_CFG_MASK :: u32 where [hw]: "SERDES_ICM_CFG0_L0_ICM_CFG_MASK = 0x00000007"
definition SERDES_ICM_CFG1 :: u32 where [hw]: "SERDES_ICM_CFG1 = SERDES_BASEADDR + 0x00010014"
definition SERDES_ICM_CFG1_L3_ICM_CFG_SHIFT :: u32 where [hw]: "SERDES_ICM_CFG1_L3_ICM_CFG_SHIFT = 4"
definition SERDES_ICM_CFG1_L3_ICM_CFG_MASK :: u32 where [hw]: "SERDES_ICM_CFG1_L3_ICM_CFG_MASK = 0x00000070"
definition SERDES_ICM_CFG1_L2_ICM_CFG_MASK :: u32 where [hw]: "SERDES_ICM_CFG1_L2_ICM_CFG_MASK = 0x00000007"
definition GPIO_BASEADDR :: u32 where [hw]: "GPIO_BASEADDR = 0xFF0A0000"
definition GPIO_DATA_1 :: u32 where [hw]: "GPIO_DATA_1 = GPIO_BASEADDR + 0x00000044"
definition GPIO_DIRM_1 :: u32 where [hw]: "GPIO_DIRM_1 = GPIO_BASEADDR + 0x00000244"
definition GPIO_OEN_1 :: u32 where [hw]: "GPIO_OEN_1 = GPIO_BASEADDR + 0x00000248"
definition IOU_SLCR_BASEADDR :: u32 where [hw]: "IOU_SLCR_BASEADDR = 0xFF180000"
definition IOU_SLCR_SD_CDN_CTRL :: u32 where [hw]: "IOU_SLCR_SD_CDN_CTRL = IOU_SLCR_BASEADDR + 0x0000035C"
definition IOU_SLCR_SD_CDN_CTRL_SD1_CDN_CTRL_MASK :: u32 where [hw]: "IOU_SLCR_SD_CDN_CTRL_SD1_CDN_CTRL_MASK = 0x00010000"
definition IOU_SLCR_SD_CDN_CTRL_SD0_CDN_CTRL_MASK :: u32 where [hw]: "IOU_SLCR_SD_CDN_CTRL_SD0_CDN_CTRL_MASK = 0x00000001"
definition ADMA_CH0_BASEADDR :: u32 where [hw]: "ADMA_CH0_BASEADDR = 0xFFA80000"
definition ADMA_CH0_ZDMA_CH_STATUS :: u32 where [hw]: "ADMA_CH0_ZDMA_CH_STATUS = ADMA_CH0_BASEADDR + 0x0000011C"
definition ADMA_CH0_ZDMA_CH_STATUS_STATE_MASK :: u32 where [hw]: "ADMA_CH0_ZDMA_CH_STATUS_STATE_MASK = 0x00000003"
definition ADMA_CH0_ZDMA_CH_STATUS_STATE_DONE :: u32 where [hw]: "ADMA_CH0_ZDMA_CH_STATUS_STATE_DONE = 0x00000000"
definition ADMA_CH0_ZDMA_CH_STATUS_STATE_ERR :: u32 where [hw]: "ADMA_CH0_ZDMA_CH_STATUS_STATE_ERR = 0x00000003"
definition ADMA_CH0_ZDMA_CH_CTRL0 :: u32 where [hw]: "ADMA_CH0_ZDMA_CH_CTRL0 = ADMA_CH0_BASEADDR + 0x00000110"
definition ADMA_CH0_ZDMA_CH_CTRL0_POINT_TYPE_MASK :: u32 where [hw]: "ADMA_CH0_ZDMA_CH_CTRL0_POINT_TYPE_MASK = 0x00000040"
definition ADMA_CH0_ZDMA_CH_CTRL0_POINT_TYPE_NORMAL :: u32 where [hw]: "ADMA_CH0_ZDMA_CH_CTRL0_POINT_TYPE_NORMAL = 0x00000000"
definition ADMA_CH0_ZDMA_CH_CTRL0_MODE_MASK :: u32 where [hw]: "ADMA_CH0_ZDMA_CH_CTRL0_MODE_MASK = 0x00000030"
definition ADMA_CH0_ZDMA_CH_CTRL0_MODE_WR_ONLY :: u32 where [hw]: "ADMA_CH0_ZDMA_CH_CTRL0_MODE_WR_ONLY = 0x00000010"
definition ADMA_CH0_ZDMA_CH_CTRL0_TOTAL_BYTE_COUNT :: u32 where [hw]: "ADMA_CH0_ZDMA_CH_CTRL0_TOTAL_BYTE_COUNT = ADMA_CH0_BASEADDR + 0x00000188"
definition ADMA_CH0_ZDMA_CH_WR_ONLY_WORD0 :: u32 where [hw]: "ADMA_CH0_ZDMA_CH_WR_ONLY_WORD0 = ADMA_CH0_BASEADDR + 0x00000148"
definition ADMA_CH0_ZDMA_CH_WR_ONLY_WORD1 :: u32 where [hw]: "ADMA_CH0_ZDMA_CH_WR_ONLY_WORD1 = ADMA_CH0_BASEADDR + 0x0000014C"
definition ADMA_CH0_ZDMA_CH_WR_ONLY_WORD2 :: u32 where [hw]: "ADMA_CH0_ZDMA_CH_WR_ONLY_WORD2 = ADMA_CH0_BASEADDR + 0x00000150"
definition ADMA_CH0_ZDMA_CH_WR_ONLY_WORD3 :: u32 where [hw]: "ADMA_CH0_ZDMA_CH_WR_ONLY_WORD3 = ADMA_CH0_BASEADDR + 0x00000154"
definition ADMA_CH0_ZDMA_CH_DST_DSCR_WORD0 :: u32 where [hw]: "ADMA_CH0_ZDMA_CH_DST_DSCR_WORD0 = ADMA_CH0_BASEADDR + 0x00000138"
definition ADMA_CH0_ZDMA_CH_DST_DSCR_WORD0_LSB_MASK :: u32 where [hw]: "ADMA_CH0_ZDMA_CH_DST_DSCR_WORD0_LSB_MASK = 0xFFFFFFFF"
definition ADMA_CH0_ZDMA_CH_DST_DSCR_WORD1 :: u32 where [hw]: "ADMA_CH0_ZDMA_CH_DST_DSCR_WORD1 = ADMA_CH0_BASEADDR + 0x0000013C"
definition ADMA_CH0_ZDMA_CH_DST_DSCR_WORD1_MSB_MASK :: u32 where [hw]: "ADMA_CH0_ZDMA_CH_DST_DSCR_WORD1_MSB_MASK = 0x0001FFFF"
definition ADMA_CH0_ZDMA_CH_SRC_DSCR_WORD2 :: u32 where [hw]: "ADMA_CH0_ZDMA_CH_SRC_DSCR_WORD2 = ADMA_CH0_BASEADDR + 0x00000130"
definition ADMA_CH0_ZDMA_CH_DST_DSCR_WORD2 :: u32 where [hw]: "ADMA_CH0_ZDMA_CH_DST_DSCR_WORD2 = ADMA_CH0_BASEADDR + 0x00000140"
definition ADMA_CH0_ZDMA_CH_SRC_DSCR_WORD1 :: u32 where [hw]: "ADMA_CH0_ZDMA_CH_SRC_DSCR_WORD1 = ADMA_CH0_BASEADDR + 0x0000012C"
definition ADMA_CH0_ZDMA_CH_SRC_DSCR_WORD0 :: u32 where [hw]: "ADMA_CH0_ZDMA_CH_SRC_DSCR_WORD0 = ADMA_CH0_BASEADDR + 0x00000128"
definition ADMA_CH0_ZDMA_CH_SRC_DSCR_WORD3 :: u32 where [hw]: "ADMA_CH0_ZDMA_CH_SRC_DSCR_WORD3 = ADMA_CH0_BASEADDR + 0x00000134"
definition ADMA_CH0_ZDMA_CH_DST_DSCR_WORD3 :: u32 where [hw]: "ADMA_CH0_ZDMA_CH_DST_DSCR_WORD3 = ADMA_CH0_BASEADDR + 0x00000144"
definition ADMA_CH0_ZDMA_CH_CTRL2 :: u32 where [hw]: "ADMA_CH0_ZDMA_CH_CTRL2 = ADMA_CH0_BASEADDR + 0x00000200"
definition ADMA_CH0_ZDMA_CH_CTRL2_EN_MASK :: u32 where [hw]: "ADMA_CH0_ZDMA_CH_CTRL2_EN_MASK = 0x00000001"
definition ADMA_CH0_ZDMA_CH_ISR :: u32 where [hw]: "ADMA_CH0_ZDMA_CH_ISR = ADMA_CH0_BASEADDR + 0x00000100"
definition ADMA_CH0_ZDMA_CH_ISR_DMA_DONE_MASK :: u32 where [hw]: "ADMA_CH0_ZDMA_CH_ISR_DMA_DONE_MASK = 0x00000400"
definition AMS_PS_SYSMON_BASEADDR :: u32 where [hw]: "AMS_PS_SYSMON_BASEADDR = 0xFFA50800"
definition XFSBL_PS_SYSMON_CONFIGREG1 :: u32 where [hw]: "XFSBL_PS_SYSMON_CONFIGREG1 = 0xFFA50904"
definition XFSBL_PS_SYSMON_CONFIGREG3 :: u32 where [hw]: "XFSBL_PS_SYSMON_CONFIGREG3 = 0xFFA5090C"
definition XFSBL_PS_SYSMON_CFGREG1_ALRM_DISBL_MASK :: u32 where [hw]: "XFSBL_PS_SYSMON_CFGREG1_ALRM_DISBL_MASK = 0x0F0E"
definition XFSBL_PS_SYSMON_CFGREG3_ALRM_DISBL_MASK :: u32 where [hw]: "XFSBL_PS_SYSMON_CFGREG3_ALRM_DISBL_MASK = 0x3F"
definition AMS_PS_SYSMON_ANALOG_BUS :: u32 where [hw]: "AMS_PS_SYSMON_ANALOG_BUS = AMS_PS_SYSMON_BASEADDR + 0x00000114"
definition ACPU_GIC_BASEADDR :: u32 where [hw]: "ACPU_GIC_BASEADDR = 0xF9000000"
definition ACPU_GIC_GICD_ICENBLR0 :: u32 where [hw]: "ACPU_GIC_GICD_ICENBLR0 = ACPU_GIC_BASEADDR + 0x00010180"
definition ACPU_GIC_GICD_ICENBLR1 :: u32 where [hw]: "ACPU_GIC_GICD_ICENBLR1 = ACPU_GIC_BASEADDR + 0x00010184"
definition ACPU_GIC_GICD_ICENBLR2 :: u32 where [hw]: "ACPU_GIC_GICD_ICENBLR2 = ACPU_GIC_BASEADDR + 0x00010188"
definition ACPU_GIC_GICD_ICENBLR3 :: u32 where [hw]: "ACPU_GIC_GICD_ICENBLR3 = ACPU_GIC_BASEADDR + 0x0001018C"
definition ACPU_GIC_GICD_ICENBLR4 :: u32 where [hw]: "ACPU_GIC_GICD_ICENBLR4 = ACPU_GIC_BASEADDR + 0x00010190"
definition ACPU_GIC_GICD_ICENBLR5 :: u32 where [hw]: "ACPU_GIC_GICD_ICENBLR5 = ACPU_GIC_BASEADDR + 0x00010194"
definition ACPU_GIC_GICD_ICPENDR0 :: u32 where [hw]: "ACPU_GIC_GICD_ICPENDR0 = ACPU_GIC_BASEADDR + 0x00010280"
definition ACPU_GIC_GICD_ICPENDR1 :: u32 where [hw]: "ACPU_GIC_GICD_ICPENDR1 = ACPU_GIC_BASEADDR + 0x00010284"
definition ACPU_GIC_GICD_ICPENDR2 :: u32 where [hw]: "ACPU_GIC_GICD_ICPENDR2 = ACPU_GIC_BASEADDR + 0x00010288"
definition ACPU_GIC_GICD_ICPENDR3 :: u32 where [hw]: "ACPU_GIC_GICD_ICPENDR3 = ACPU_GIC_BASEADDR + 0x0001028C"
definition ACPU_GIC_GICD_ICPENDR4 :: u32 where [hw]: "ACPU_GIC_GICD_ICPENDR4 = ACPU_GIC_BASEADDR + 0x00010290"
definition ACPU_GIC_GICD_ICPENDR5 :: u32 where [hw]: "ACPU_GIC_GICD_ICPENDR5 = ACPU_GIC_BASEADDR + 0x00010294"
definition ACPU_GIC_GICD_ICACTIVER0 :: u32 where [hw]: "ACPU_GIC_GICD_ICACTIVER0 = ACPU_GIC_BASEADDR + 0x00010380"
definition ACPU_GIC_GICD_ICACTIVER1 :: u32 where [hw]: "ACPU_GIC_GICD_ICACTIVER1 = ACPU_GIC_BASEADDR + 0x00010384"
definition ACPU_GIC_GICD_ICACTIVER2 :: u32 where [hw]: "ACPU_GIC_GICD_ICACTIVER2 = ACPU_GIC_BASEADDR + 0x00010388"
definition ACPU_GIC_GICD_ICACTIVER3 :: u32 where [hw]: "ACPU_GIC_GICD_ICACTIVER3 = ACPU_GIC_BASEADDR + 0x0001038C"
definition ACPU_GIC_GICD_ICACTIVER4 :: u32 where [hw]: "ACPU_GIC_GICD_ICACTIVER4 = ACPU_GIC_BASEADDR + 0x00010390"
definition ACPU_GIC_GICD_ICACTIVER5 :: u32 where [hw]: "ACPU_GIC_GICD_ICACTIVER5 = ACPU_GIC_BASEADDR + 0x00010394"
definition ACPU_GIC_GICD_CPENDSGIR0 :: u32 where [hw]: "ACPU_GIC_GICD_CPENDSGIR0 = ACPU_GIC_BASEADDR + 0x00010F10"
definition ACPU_GIC_GICD_CPENDSGIR1 :: u32 where [hw]: "ACPU_GIC_GICD_CPENDSGIR1 = ACPU_GIC_BASEADDR + 0x00010F14"
definition ACPU_GIC_GICD_CPENDSGIR2 :: u32 where [hw]: "ACPU_GIC_GICD_CPENDSGIR2 = ACPU_GIC_BASEADDR + 0x00010F18"
definition ACPU_GIC_GICD_CPENDSGIR3 :: u32 where [hw]: "ACPU_GIC_GICD_CPENDSGIR3 = ACPU_GIC_BASEADDR + 0x00010F1C"
definition ACPU_GIC_GICD_INTR_ACK_REG :: u32 where [hw]: "ACPU_GIC_GICD_INTR_ACK_REG = ACPU_GIC_BASEADDR + 0x0002000C"
definition ACPU_GIC_GICD_END_INTR_REG :: u32 where [hw]: "ACPU_GIC_GICD_END_INTR_REG = ACPU_GIC_BASEADDR + 0x00020010"
definition XFSBL_ERROR_STATUS_REGISTER_OFFSET :: u32 where [hw]: "XFSBL_ERROR_STATUS_REGISTER_OFFSET = PMU_GLOBAL_PERS_GLOB_GEN_STORAGE4"
definition XFSBL_PMU_RAM_START_ADDRESS :: u32 where [hw]: "XFSBL_PMU_RAM_START_ADDRESS = 0xFFDC0000"
definition XFSBL_PMU_RAM_END_ADDRESS :: u32 where [hw]: "XFSBL_PMU_RAM_END_ADDRESS = 0xFFDDFFFF"
definition XFSBL_DUMMY_PL_ADDR :: u32 where [hw]: "XFSBL_DUMMY_PL_ADDR = 0xFFFFFFFF"
definition XFSBL_CLUSTER_ID_MASK :: u32 where [hw]: "XFSBL_CLUSTER_ID_MASK = 0x00000F00"
definition XFSBL_A53_PROCESSOR :: u32 where [hw]: "XFSBL_A53_PROCESSOR = 0x00000000"
definition XFSBL_R5_PROCESSOR :: u32 where [hw]: "XFSBL_R5_PROCESSOR = 0x00000100"
definition XFSBL_R5_USAGE_STATUS_REG :: u32 where [hw]: "XFSBL_R5_USAGE_STATUS_REG = PMU_GLOBAL_GLOB_GEN_STORAGE4"
definition XFSBL_R5_0_STATUS_MASK :: u32 where [hw]: "XFSBL_R5_0_STATUS_MASK = push_bit 1 1"
definition XFSBL_R5_1_STATUS_MASK :: u32 where [hw]: "XFSBL_R5_1_STATUS_MASK = push_bit 2 1"
definition XFSBL_R5_TCM_START_ADDRESS :: u32 where [hw]: "XFSBL_R5_TCM_START_ADDRESS = 0x0"
definition XFSBL_R5_BTCM_START_ADDRESS :: u32 where [hw]: "XFSBL_R5_BTCM_START_ADDRESS = 0x20000"
definition XFSBL_R50_HIGH_ATCM_START_ADDRESS :: u32 where [hw]: "XFSBL_R50_HIGH_ATCM_START_ADDRESS = 0xFFE00000"
definition XFSBL_R50_HIGH_BTCM_START_ADDRESS :: u32 where [hw]: "XFSBL_R50_HIGH_BTCM_START_ADDRESS = 0xFFE20000"
definition XFSBL_R51_HIGH_ATCM_START_ADDRESS :: u32 where [hw]: "XFSBL_R51_HIGH_ATCM_START_ADDRESS = 0xFFE90000"
definition XFSBL_R51_HIGH_BTCM_START_ADDRESS :: u32 where [hw]: "XFSBL_R51_HIGH_BTCM_START_ADDRESS = 0xFFEB0000"
definition XFSBL_R5_TCM_BANK_LENGTH :: u32 where [hw]: "XFSBL_R5_TCM_BANK_LENGTH = 0x10000"
definition XFSBL_WDT_MASK :: u32 where [hw]: "XFSBL_WDT_MASK = PMU_GLOBAL_ERROR_SRST_EN_1_LPD_SWDT_MASK"
definition XFSBL_QSPI_LINEAR_BASE_ADDRESS_START :: u32 where [hw]: "XFSBL_QSPI_LINEAR_BASE_ADDRESS_START = 0xC0000000"
definition XFSBL_QSPI_LINEAR_BASE_ADDRESS_END :: u32 where [hw]: "XFSBL_QSPI_LINEAR_BASE_ADDRESS_END = 0xDFFFFFFF"
definition XFSBL_PS_DDR_START_ADDRESS :: u32 where [hw]: "XFSBL_PS_DDR_START_ADDRESS = 0x0"
definition XFSBL_DDR_STATUS_REGISTER_OFFSET :: u32 where [hw]: "XFSBL_DDR_STATUS_REGISTER_OFFSET = PMU_GLOBAL_PERS_GLOB_GEN_STORAGE7"
definition DDR_STATUS_FLAG_MASK :: u32 where [hw]: "DDR_STATUS_FLAG_MASK = push_bit 3 1"
definition ZDMA_TRANSFER_MAX_LEN :: u32 where [hw]: "ZDMA_TRANSFER_MAX_LEN = (0x3FFFFFFF - 7)"
definition EFUSE_IPDISABLE_CG_MASK :: u32 where [hw]: "EFUSE_IPDISABLE_CG_MASK = (EFUSE_IPDISABLE_GPU_DIS_MASK OR EFUSE_IPDISABLE_APU2_DIS_MASK OR EFUSE_IPDISABLE_APU3_DIS_MASK)"
definition XFSBL_OCM_START_ADDRESS :: u32 where [hw]: "XFSBL_OCM_START_ADDRESS = 0xFFFEA000"
definition XFSBL_OCM_END_ADDRESS :: u32 where [hw]: "XFSBL_OCM_END_ADDRESS = 0xFFFFFFFF"
definition XFSBL_R5_0_TCM :: u32 where [hw]: "XFSBL_R5_0_TCM = 0x1"
definition XFSBL_R5_1_TCM :: u32 where [hw]: "XFSBL_R5_1_TCM = 0x2"
definition XFSBL_R5_L_TCM :: u32 where [hw]: "XFSBL_R5_L_TCM = 0x3"
definition XFSBL_SYSTEM_RESET :: u32 where [hw]: "XFSBL_SYSTEM_RESET = 0"
definition XFSBL_PS_ONLY_RESET :: u32 where [hw]: "XFSBL_PS_ONLY_RESET = 1"
definition XFSBL_APU_ONLY_RESET :: u32 where [hw]: "XFSBL_APU_ONLY_RESET = 2"
definition PS_SYSMON_ANALOG_BUS_VAL :: u32 where [hw]: "PS_SYSMON_ANALOG_BUS_VAL = 0x00003210"

section \<open>Image header (\<open>xfsbl_image_header.h\<close>)\<close>

definition XIH_MIN_PARTITIONS :: u32 where [hw]: "XIH_MIN_PARTITIONS = 1"
definition XIH_MAX_PARTITIONS :: u32 where [hw]: "XIH_MAX_PARTITIONS = 32"
definition XIH_PARTITION_WORD_LENGTH :: u32 where [hw]: "XIH_PARTITION_WORD_LENGTH = 0x4"
definition XIH_BH_IMAGE_ATTRB_OFFSET :: u32 where [hw]: "XIH_BH_IMAGE_ATTRB_OFFSET = 0x44"
definition XIH_BH_IH_TABLE_OFFSET :: u32 where [hw]: "XIH_BH_IH_TABLE_OFFSET = 0x98"
definition XIH_BH_IMAGE_ATTRB_RSA_MASK :: u32 where [hw]: "XIH_BH_IMAGE_ATTRB_RSA_MASK = 0xC000"
definition XIH_BH_IMAGE_ATTRB_PUF_BH_MASK :: u32 where [hw]: "XIH_BH_IMAGE_ATTRB_PUF_BH_MASK = 0x00C0"
definition XIH_BH_IMAGE_ATTRB_SHA2_MASK :: u32 where [hw]: "XIH_BH_IMAGE_ATTRB_SHA2_MASK = 0x3000"
definition XIH_BH_IV_OFFSET :: u32 where [hw]: "XIH_BH_IV_OFFSET = 0xA0"
definition XIH_BH_IV_LENGTH :: u32 where [hw]: "XIH_BH_IV_LENGTH = 0x10"
definition XIH_BH_MIN_SIZE :: u32 where [hw]: "XIH_BH_MIN_SIZE = 0x000008B8"
definition XIH_BH_MAX_SIZE :: u32 where [hw]: "XIH_BH_MAX_SIZE = (XIH_BH_MIN_SIZE + (0x00000182 * 4))"
definition XIH_FIELD_LEN :: u32 where [hw]: "XIH_FIELD_LEN = 4"
definition XIH_IHT_LEN :: u32 where [hw]: "XIH_IHT_LEN = 64"
definition XIH_PH_LEN :: u32 where [hw]: "XIH_PH_LEN = 64"
definition XIH_IHT_AC_OFFSET :: u32 where [hw]: "XIH_IHT_AC_OFFSET = 0x10"
definition XIH_IHT_PPD_SAME :: u32 where [hw]: "XIH_IHT_PPD_SAME = 0x0"
definition XIH_IHT_PPD_QSPI32 :: u32 where [hw]: "XIH_IHT_PPD_QSPI32 = 0x1"
definition XIH_IHT_PPD_QSPI24 :: u32 where [hw]: "XIH_IHT_PPD_QSPI24 = 0x2"
definition XIH_IHT_PPD_NAND :: u32 where [hw]: "XIH_IHT_PPD_NAND = 0x3"
definition XIH_IHT_PPD_SD_0 :: u32 where [hw]: "XIH_IHT_PPD_SD_0 = 0x4"
definition XIH_IHT_PPD_SD_1 :: u32 where [hw]: "XIH_IHT_PPD_SD_1 = 0x5"
definition XIH_IHT_PPD_SD_LS :: u32 where [hw]: "XIH_IHT_PPD_SD_LS = 0x6"
definition XIH_IHT_PPD_MMC :: u32 where [hw]: "XIH_IHT_PPD_MMC = 0x7"
definition XIH_IHT_PPD_USB :: u32 where [hw]: "XIH_IHT_PPD_USB = 0x8"
definition XIH_IHT_PPD_SATA :: u32 where [hw]: "XIH_IHT_PPD_SATA = 0xB"
definition XIH_PH_ATTRB_VEC_LOCATION_MASK :: u32 where [hw]: "XIH_PH_ATTRB_VEC_LOCATION_MASK = 0x800000"
definition XIH_PH_ATTR_BLOCK_SIZE_MASK :: u32 where [hw]: "XIH_PH_ATTR_BLOCK_SIZE_MASK = 0x700000"
definition XIH_PH_ATTRB_ENDIAN_MASK :: u32 where [hw]: "XIH_PH_ATTRB_ENDIAN_MASK = 0x40000"
definition XIH_PH_ATTRB_PART_OWNER_MASK :: u32 where [hw]: "XIH_PH_ATTRB_PART_OWNER_MASK = 0x30000"
definition XIH_PH_ATTRB_RSA_SIGNATURE_MASK :: u32 where [hw]: "XIH_PH_ATTRB_RSA_SIGNATURE_MASK = 0x8000"
definition XIH_PH_ATTRB_CHECKSUM_MASK :: u32 where [hw]: "XIH_PH_ATTRB_CHECKSUM_MASK = 0x7000"
definition XIH_PH_ATTRB_DEST_CPU_MASK :: u32 where [hw]: "XIH_PH_ATTRB_DEST_CPU_MASK = 0x0F00"
definition XIH_PH_ATTRB_ENCRYPTION_MASK :: u32 where [hw]: "XIH_PH_ATTRB_ENCRYPTION_MASK = 0x0080"
definition XIH_PH_ATTRB_DEST_DEVICE_MASK :: u32 where [hw]: "XIH_PH_ATTRB_DEST_DEVICE_MASK = 0x0070"
definition XIH_PH_ATTRB_A53_EXEC_ST_MASK :: u32 where [hw]: "XIH_PH_ATTRB_A53_EXEC_ST_MASK = 0x0008"
definition XIH_PH_ATTRB_TARGET_EL_MASK :: u32 where [hw]: "XIH_PH_ATTRB_TARGET_EL_MASK = 0x0006"
definition XIH_PH_ATTRB_TR_SECURE_MASK :: u32 where [hw]: "XIH_PH_ATTRB_TR_SECURE_MASK = 0x0001"
definition XIH_PH_ATTRB_PART_OWNER_FSBL :: u32 where [hw]: "XIH_PH_ATTRB_PART_OWNER_FSBL = 0x00000"
definition XIH_PH_ATTRB_RSA_SIGNATURE :: u32 where [hw]: "XIH_PH_ATTRB_RSA_SIGNATURE = 0x8000"
definition XIH_PH_ATTRB_NOCHECKSUM :: u32 where [hw]: "XIH_PH_ATTRB_NOCHECKSUM = 0x0000"
definition XIH_PH_ATTRB_CHECKSUM_MD5 :: u32 where [hw]: "XIH_PH_ATTRB_CHECKSUM_MD5 = 0x1000"
definition XIH_PH_ATTRB_HASH_SHA3 :: u32 where [hw]: "XIH_PH_ATTRB_HASH_SHA3 = 0x3000"
definition XIH_PH_ATTRB_DEST_CPU_NONE :: u32 where [hw]: "XIH_PH_ATTRB_DEST_CPU_NONE = 0x0000"
definition XIH_PH_ATTRB_DEST_CPU_A53_0 :: u32 where [hw]: "XIH_PH_ATTRB_DEST_CPU_A53_0 = 0x100"
definition XIH_PH_ATTRB_DEST_CPU_A53_1 :: u32 where [hw]: "XIH_PH_ATTRB_DEST_CPU_A53_1 = 0x200"
definition XIH_PH_ATTRB_DEST_CPU_A53_2 :: u32 where [hw]: "XIH_PH_ATTRB_DEST_CPU_A53_2 = 0x300"
definition XIH_PH_ATTRB_DEST_CPU_A53_3 :: u32 where [hw]: "XIH_PH_ATTRB_DEST_CPU_A53_3 = 0x400"
definition XIH_PH_ATTRB_DEST_CPU_R5_0 :: u32 where [hw]: "XIH_PH_ATTRB_DEST_CPU_R5_0 = 0x500"
definition XIH_PH_ATTRB_DEST_CPU_R5_1 :: u32 where [hw]: "XIH_PH_ATTRB_DEST_CPU_R5_1 = 0x600"
definition XIH_PH_ATTRB_DEST_CPU_R5_L :: u32 where [hw]: "XIH_PH_ATTRB_DEST_CPU_R5_L = 0x700"
definition XIH_PH_ATTRB_DEST_CPU_PMU :: u32 where [hw]: "XIH_PH_ATTRB_DEST_CPU_PMU = 0x800"
definition XIH_PH_ATTRB_ENCRYPTION :: u32 where [hw]: "XIH_PH_ATTRB_ENCRYPTION = 0x80"
definition XIH_PH_ATTRB_DEST_DEVICE_NONE :: u32 where [hw]: "XIH_PH_ATTRB_DEST_DEVICE_NONE = 0x0000"
definition XIH_PH_ATTRB_DEST_DEVICE_PS :: u32 where [hw]: "XIH_PH_ATTRB_DEST_DEVICE_PS = 0x0010"
definition XIH_PH_ATTRB_DEST_DEVICE_PL :: u32 where [hw]: "XIH_PH_ATTRB_DEST_DEVICE_PL = 0x0020"
definition XIH_PH_ATTRB_DEST_DEVICE_PMU :: u32 where [hw]: "XIH_PH_ATTRB_DEST_DEVICE_PMU = 0x0030"
definition XIH_PH_ATTRB_A53_EXEC_ST_AA32 :: u32 where [hw]: "XIH_PH_ATTRB_A53_EXEC_ST_AA32 = 0x0008"
definition XIH_PH_ATTRB_A53_EXEC_ST_AA64 :: u32 where [hw]: "XIH_PH_ATTRB_A53_EXEC_ST_AA64 = 0x0000"
definition XIH_AC_ATTRB_PPK_SELECT_MASK :: u32 where [hw]: "XIH_AC_ATTRB_PPK_SELECT_MASK = 0x30000"
definition XIH_INVALID_EXEC_ST :: u32 where [hw]: "XIH_INVALID_EXEC_ST = 0xFFFF"
definition XIH_ATTRB_VECTOR_LOCATION_SHIFT :: u32 where [hw]: "XIH_ATTRB_VECTOR_LOCATION_SHIFT = 23"
definition XIH_ATTRB_BLOCK_SIZE_SHIFT :: u32 where [hw]: "XIH_ATTRB_BLOCK_SIZE_SHIFT = 20"
definition XIH_ATTRB_A53_EXEC_ST_SHIFT_DIFF :: u32 where [hw]: "XIH_ATTRB_A53_EXEC_ST_SHIFT_DIFF = 3"
definition XIH_ATTRB_ENDIAN_SHIFT_DIFF :: u32 where [hw]: "XIH_ATTRB_ENDIAN_SHIFT_DIFF = 17"
definition XIH_ATTRB_TR_SECURE_SHIFT_DIFF :: u32 where [hw]: "XIH_ATTRB_TR_SECURE_SHIFT_DIFF = 2"
definition XIH_ATTRB_TARGET_EL_SHIFT_DIFF :: u32 where [hw]: "XIH_ATTRB_TARGET_EL_SHIFT_DIFF = 2"
definition XIH_PART_FLAGS_DEST_CPU_A53_0 :: u32 where [hw]: "XIH_PART_FLAGS_DEST_CPU_A53_0 = 0x00"
definition XIH_PART_FLAGS_DEST_CPU_A53_1 :: u32 where [hw]: "XIH_PART_FLAGS_DEST_CPU_A53_1 = 0x20"
definition XIH_PART_FLAGS_DEST_CPU_A53_2 :: u32 where [hw]: "XIH_PART_FLAGS_DEST_CPU_A53_2 = 0x40"
definition XIH_PART_FLAGS_DEST_CPU_A53_3 :: u32 where [hw]: "XIH_PART_FLAGS_DEST_CPU_A53_3 = 0x60"
definition XFSBL_MAX_ENTRIES_FOR_ATF :: u32 where [hw]: "XFSBL_MAX_ENTRIES_FOR_ATF = 8"
definition XFSBL_MUL_MEGABYTES :: u32 where [hw]: "XFSBL_MUL_MEGABYTES = (1024 * 1024)"

section \<open>Boot stages, boot modes, exit flags (\<open>xfsbl_main.h\<close>)\<close>

definition XFSBL_RUNNING :: u32 where [hw]: "XFSBL_RUNNING = 0xFFFF"
definition XFSBL_COMPLETED :: u32 where [hw]: "XFSBL_COMPLETED = 0x0"
definition XFSBL_IMAGE_SEARCH_OFFSET :: u32 where [hw]: "XFSBL_IMAGE_SEARCH_OFFSET = 0x8000"
definition XFSBL_NO_HANDOFFEXIT :: u32 where [hw]: "XFSBL_NO_HANDOFFEXIT = 0x0"
definition XFSBL_HANDOFFEXIT :: u32 where [hw]: "XFSBL_HANDOFFEXIT = 0x1"
definition XFSBL_HANDOFFEXIT_32 :: u32 where [hw]: "XFSBL_HANDOFFEXIT_32 = 0x2"
definition XFSBL_JTAG_BOOT_MODE :: u32 where [hw]: "XFSBL_JTAG_BOOT_MODE = 0x0"
definition XFSBL_QSPI24_BOOT_MODE :: u32 where [hw]: "XFSBL_QSPI24_BOOT_MODE = 0x1"
definition XFSBL_QSPI32_BOOT_MODE :: u32 where [hw]: "XFSBL_QSPI32_BOOT_MODE = 0x2"
definition XFSBL_SD0_BOOT_MODE :: u32 where [hw]: "XFSBL_SD0_BOOT_MODE = 0x3"
definition XFSBL_NAND_BOOT_MODE :: u32 where [hw]: "XFSBL_NAND_BOOT_MODE = 0x4"
definition XFSBL_SD1_BOOT_MODE :: u32 where [hw]: "XFSBL_SD1_BOOT_MODE = 0x5"
definition XFSBL_EMMC_BOOT_MODE :: u32 where [hw]: "XFSBL_EMMC_BOOT_MODE = 0x6"
definition XFSBL_USB_BOOT_MODE :: u32 where [hw]: "XFSBL_USB_BOOT_MODE = 0x7"
definition XFSBL_SD1_LS_BOOT_MODE :: u32 where [hw]: "XFSBL_SD1_LS_BOOT_MODE = 0xE"
definition XFSBL_STAGE1 :: u32 where [hw]: "XFSBL_STAGE1 = 0x1"
definition XFSBL_STAGE2 :: u32 where [hw]: "XFSBL_STAGE2 = 0x2"
definition XFSBL_STAGE3 :: u32 where [hw]: "XFSBL_STAGE3 = 0x3"
definition XFSBL_STAGE4 :: u32 where [hw]: "XFSBL_STAGE4 = 0x4"
definition XFSBL_STAGE_ERR :: u32 where [hw]: "XFSBL_STAGE_ERR = 0x5"
definition XFSBL_STAGE_DEFAULT :: u32 where [hw]: "XFSBL_STAGE_DEFAULT = 0x6"
definition BLOCK_SIZE_A53_64 :: u32 where [hw]: "BLOCK_SIZE_A53_64 = 0x200000"
definition NUM_BLOCKS_A53_64 :: u32 where [hw]: "NUM_BLOCKS_A53_64 = 0x400"
definition BLOCK_SIZE_A53_64_HIGH :: u32 where [hw]: "BLOCK_SIZE_A53_64_HIGH = 0x40000000"
definition ATTRIB_MEMORY_A53_64 :: u32 where [hw]: "ATTRIB_MEMORY_A53_64 = 0x705"
definition ATTRIB_RESERVED_A53 :: u32 where [hw]: "ATTRIB_RESERVED_A53 = 0x0"
definition XFSBL_ECC_INIT_VAL_WORD :: u32 where [hw]: "XFSBL_ECC_INIT_VAL_WORD = 0xDEADBEEF"
definition XFSBL_R50_TCM_ECC_INIT_STATUS :: u32 where [hw]: "XFSBL_R50_TCM_ECC_INIT_STATUS = 0x00000001"
definition XFSBL_R51_TCM_ECC_INIT_STATUS :: u32 where [hw]: "XFSBL_R51_TCM_ECC_INIT_STATUS = 0x00000002"
definition XFSBL_R5_LOVEC_VALUE :: u32 where [hw]: "XFSBL_R5_LOVEC_VALUE = 0xEAFEFFFE"
definition XFSBL_RUNNING_ON_A53 :: u32 where [hw]: "XFSBL_RUNNING_ON_A53 = push_bit 2 0x1"
definition XFSBL_STATE_PROC_INFO_MASK :: u32 where [hw]: "XFSBL_STATE_PROC_INFO_MASK = 0x6"

section \<open>Configuration (\<open>xfsbl_config.h\<close>)\<close>

definition XFSBL_DDR_TEMP_ADDRESS :: u32 where [hw]: "XFSBL_DDR_TEMP_ADDRESS = 0x100000"
definition XFSBL_DDR_TEMP_BUFFER_ADDRESS :: u32 where [hw]: "XFSBL_DDR_TEMP_BUFFER_ADDRESS = 0x4000000"

section \<open>Miscellaneous (\<open>xfsbl_misc.h\<close>)\<close>

definition XFSBL_SD_DRV_NUM_0 :: u32 where [hw]: "XFSBL_SD_DRV_NUM_0 = 0"
definition XFSBL_SD_DRV_NUM_1 :: u32 where [hw]: "XFSBL_SD_DRV_NUM_1 = 1"

section \<open>Bitstream loader (\<open>xfsbl_bs.h\<close>)\<close>

definition PL_DONE_POLL_COUNT :: u32 where [hw]: "PL_DONE_POLL_COUNT = 100000000"
definition PL_RESET_PERIOD_IN_US :: u32 where [hw]: "PL_RESET_PERIOD_IN_US = 1"
definition XFSBL_PL_PWRUP_WAIT_MICROSEC :: u32 where [hw]: "XFSBL_PL_PWRUP_WAIT_MICROSEC = 0"
definition XFSBL_DESTINATION_PCAP_ADDR :: u32 where [hw]: "XFSBL_DESTINATION_PCAP_ADDR = 0xFFFFFFFF"
definition READ_BUFFER_SIZE :: u32 where [hw]: "READ_BUFFER_SIZE = (56*1024)"
definition HASH_BUFFER_SIZE :: u32 where [hw]: "HASH_BUFFER_SIZE = (7*1024)"

section \<open>Authentication certificate (\<open>xfsbl_authentication.h\<close>)\<close>

definition XFSBL_HASH_TYPE_SHA3 :: u32 where [hw]: "XFSBL_HASH_TYPE_SHA3 = 48"
definition XFSBL_SPK_SIZE :: u32 where [hw]: "XFSBL_SPK_SIZE = (512+512+64)"
definition XFSBL_PPK_SIZE :: u32 where [hw]: "XFSBL_PPK_SIZE = XFSBL_SPK_SIZE"
definition XFSBL_PPK_MOD_SIZE :: u32 where [hw]: "XFSBL_PPK_MOD_SIZE = 512"
definition XFSBL_PPK_MOD_EXT_SIZE :: u32 where [hw]: "XFSBL_PPK_MOD_EXT_SIZE = 512"
definition XFSBL_SPK_MOD_SIZE :: u32 where [hw]: "XFSBL_SPK_MOD_SIZE = XFSBL_PPK_MOD_SIZE"
definition XFSBL_SPK_MOD_EXT_SIZE :: u32 where [hw]: "XFSBL_SPK_MOD_EXT_SIZE = XFSBL_PPK_MOD_EXT_SIZE"
definition XFSBL_SPK_SIG_SIZE :: u32 where [hw]: "XFSBL_SPK_SIG_SIZE = 512"
definition XFSBL_BHDR_SIG_SIZE :: u32 where [hw]: "XFSBL_BHDR_SIG_SIZE = 512"
definition XFSBL_FSBL_SIG_SIZE :: u32 where [hw]: "XFSBL_FSBL_SIG_SIZE = 512"
definition XFSBL_RSA_AC_ALIGN :: u32 where [hw]: "XFSBL_RSA_AC_ALIGN = 64"
definition XFSBL_SPKID_AC_ALIGN :: u32 where [hw]: "XFSBL_SPKID_AC_ALIGN = 4"
definition XFSBL_AUTH_HEADER_SIZE :: u32 where [hw]: "XFSBL_AUTH_HEADER_SIZE = 8"
definition XFSBL_AUTH_CERT_USER_DATA :: u32 where [hw]: "XFSBL_AUTH_CERT_USER_DATA = (64 - XFSBL_AUTH_HEADER_SIZE)"
definition XFSBL_AUTH_CERT_MIN_SIZE :: u32 where [hw]: "XFSBL_AUTH_CERT_MIN_SIZE = (XFSBL_AUTH_HEADER_SIZE + XFSBL_AUTH_CERT_USER_DATA + XFSBL_PPK_SIZE + XFSBL_SPK_SIZE + XFSBL_SPK_SIG_SIZE + XFSBL_BHDR_SIG_SIZE + XFSBL_FSBL_SIG_SIZE)"
definition XFSBL_AUTH_CERT_PPK_OFFSET :: u32 where [hw]: "XFSBL_AUTH_CERT_PPK_OFFSET = 0x40"
definition XFSBL_AUTH_CERT_SPK_OFFSET :: u32 where [hw]: "XFSBL_AUTH_CERT_SPK_OFFSET = 0x480"
definition XFSBL_AUTH_CERT_SPK_SIG_OFFSET :: u32 where [hw]: "XFSBL_AUTH_CERT_SPK_SIG_OFFSET = 0x8C0"
definition XFSBL_AH_ATTR_SPK_ID_FUSE_SEL_MASK :: u32 where [hw]: "XFSBL_AH_ATTR_SPK_ID_FUSE_SEL_MASK = 0xC0000"
definition XFSBL_AH_ATTR_SPK_ID_FUSE_SEL_SHIFT :: u32 where [hw]: "XFSBL_AH_ATTR_SPK_ID_FUSE_SEL_SHIFT = 18"
definition XFSBL_SPKID_EFUSE :: u32 where [hw]: "XFSBL_SPKID_EFUSE = 1"
definition XFSBL_USER_EFUSE :: u32 where [hw]: "XFSBL_USER_EFUSE = 2"
definition XFSBL_USER_EFUSE_MIN_VALUE :: u32 where [hw]: "XFSBL_USER_EFUSE_MIN_VALUE = 1"
definition XFSBL_USER_EFUSE_MAX_VALUE :: u32 where [hw]: "XFSBL_USER_EFUSE_MAX_VALUE = 256"
definition XFSBL_WORD_LEN_IN_BYTES :: u32 where [hw]: "XFSBL_WORD_LEN_IN_BYTES = 4"
definition XFSBL_WORD_SHIFT :: u32 where [hw]: "XFSBL_WORD_SHIFT = 32"
definition XFSBL_USER_EFUSE_ADDR :: u32 where [hw]: "XFSBL_USER_EFUSE_ADDR = 0xFFCC1020"

section \<open>CSU DMA (\<open>xfsbl_csu_dma.h\<close>)\<close>

definition XFSBL_CSU_SSS_SRC_SRC_DMA :: u32 where [hw]: "XFSBL_CSU_SSS_SRC_SRC_DMA = 0x5"
definition XFSBL_CSU_SSS_SRC_DEST_DMA :: u32 where [hw]: "XFSBL_CSU_SSS_SRC_DEST_DMA = 0x50"
definition XFSBL_CSU_SSS_DMA_MASK :: u32 where [hw]: "XFSBL_CSU_SSS_DMA_MASK = 0xF000"

section \<open>Handoff (\<open>xfsbl_handoff.c\<close>)\<close>

definition XFSBL_CPU_POWER_UP :: u32 where [hw]: "XFSBL_CPU_POWER_UP = 0x1"
definition XFSBL_CPU_SWRST :: u32 where [hw]: "XFSBL_CPU_SWRST = 0x2"
definition APU_CONFIG_0_AA64N32_MASK_CPU0 :: u32 where [hw]: "APU_CONFIG_0_AA64N32_MASK_CPU0 = 0x1"
definition APU_CONFIG_0_AA64N32_MASK_CPU1 :: u32 where [hw]: "APU_CONFIG_0_AA64N32_MASK_CPU1 = 0x2"
definition APU_CONFIG_0_AA64N32_MASK_CPU2 :: u32 where [hw]: "APU_CONFIG_0_AA64N32_MASK_CPU2 = 0x4"
definition APU_CONFIG_0_AA64N32_MASK_CPU3 :: u32 where [hw]: "APU_CONFIG_0_AA64N32_MASK_CPU3 = 0x8"
definition APU_CONFIG_0_VINITHI_MASK_CPU0 :: u32 where [hw]: "APU_CONFIG_0_VINITHI_MASK_CPU0 = 0x100"
definition APU_CONFIG_0_VINITHI_MASK_CPU1 :: u32 where [hw]: "APU_CONFIG_0_VINITHI_MASK_CPU1 = 0x200"
definition APU_CONFIG_0_VINITHI_MASK_CPU2 :: u32 where [hw]: "APU_CONFIG_0_VINITHI_MASK_CPU2 = 0x400"
definition APU_CONFIG_0_VINITHI_MASK_CPU3 :: u32 where [hw]: "APU_CONFIG_0_VINITHI_MASK_CPU3 = 0x800"
definition APU_CONFIG_0_VINITHI_SHIFT_CPU0 :: u32 where [hw]: "APU_CONFIG_0_VINITHI_SHIFT_CPU0 = 8"
definition APU_CONFIG_0_VINITHI_SHIFT_CPU1 :: u32 where [hw]: "APU_CONFIG_0_VINITHI_SHIFT_CPU1 = 9"
definition APU_CONFIG_0_VINITHI_SHIFT_CPU2 :: u32 where [hw]: "APU_CONFIG_0_VINITHI_SHIFT_CPU2 = 10"
definition APU_CONFIG_0_VINITHI_SHIFT_CPU3 :: u32 where [hw]: "APU_CONFIG_0_VINITHI_SHIFT_CPU3 = 11"
definition OTHER_CPU_HANDOFF :: u32 where [hw]: "OTHER_CPU_HANDOFF = 0x0"
definition A53_0_32_HANDOFF_TO_A53_0_64 :: u32 where [hw]: "A53_0_32_HANDOFF_TO_A53_0_64 = 0x2"

section \<open>Partition loader (\<open>xfsbl_partition_load.c\<close>)\<close>

definition XFSBL_PARTITION_IV_MASK :: u32 where [hw]: "XFSBL_PARTITION_IV_MASK = 0xFF"

section \<open>Initialisation (\<open>xfsbl_initialization.c\<close>)\<close>

definition XFSBL_APU_RESET_MASK :: u32 where [hw]: "XFSBL_APU_RESET_MASK = push_bit 16 1"
definition XFSBL_APU_RESET_BIT :: u32 where [hw]: "XFSBL_APU_RESET_BIT = 16"

section \<open>Miscellaneous (\<open>xfsbl_misc.c\<close>)\<close>

definition XFSBL_BASE_FILE_NAME_LEN_SD_0 :: u32 where [hw]: "XFSBL_BASE_FILE_NAME_LEN_SD_0 = 8"
definition XFSBL_BASE_FILE_NAME_LEN_SD_1 :: u32 where [hw]: "XFSBL_BASE_FILE_NAME_LEN_SD_1 = 11"
definition XFSBL_NUM_DIGITS_IN_FILE_NAME :: u32 where [hw]: "XFSBL_NUM_DIGITS_IN_FILE_NAME = 4"

section \<open>QSPI (\<open>xfsbl_qspi.h\<close>)\<close>

definition READ_ID_CMD :: u32 where [hw]: "READ_ID_CMD = 0x9F"
definition FAST_READ_CMD_24BIT :: u32 where [hw]: "FAST_READ_CMD_24BIT = 0x0B"
definition DUAL_READ_CMD_24BIT :: u32 where [hw]: "DUAL_READ_CMD_24BIT = 0x3B"
definition QUAD_READ_CMD_24BIT :: u32 where [hw]: "QUAD_READ_CMD_24BIT = 0x6B"
definition SLOW_READ_CMD_32BIT :: u32 where [hw]: "SLOW_READ_CMD_32BIT = 0x13"
definition FAST_READ_CMD_32BIT :: u32 where [hw]: "FAST_READ_CMD_32BIT = 0x0C"
definition DUAL_READ_CMD_32BIT :: u32 where [hw]: "DUAL_READ_CMD_32BIT = 0x3C"
definition QUAD_READ_CMD_32BIT :: u32 where [hw]: "QUAD_READ_CMD_32BIT = 0x6C"
definition WRITE_ENABLE_CMD :: u32 where [hw]: "WRITE_ENABLE_CMD = 0x06"
definition BANK_REG_RD_CMD :: u32 where [hw]: "BANK_REG_RD_CMD = 0x16"
definition BANK_REG_WR_CMD :: u32 where [hw]: "BANK_REG_WR_CMD = 0x17"
definition EXTADD_REG_RD_CMD :: u32 where [hw]: "EXTADD_REG_RD_CMD = 0xC8"
definition EXTADD_REG_WR_CMD :: u32 where [hw]: "EXTADD_REG_WR_CMD = 0xC5"
definition DUMMY_CLOCKS :: u32 where [hw]: "DUMMY_CLOCKS = 8"
definition DMA_DATA_TRAN_SIZE :: u32 where [hw]: "DMA_DATA_TRAN_SIZE = 0x20000000"
definition FLASH_SIZE_16MB :: u32 where [hw]: "FLASH_SIZE_16MB = 0x1000000"
definition BANKSIZE :: u32 where [hw]: "BANKSIZE = FLASH_SIZE_16MB"
definition SINGLEBANKSIZE :: u32 where [hw]: "SINGLEBANKSIZE = BANKSIZE"
definition BANKMASK :: u32 where [hw]: "BANKMASK = (0xFFFFFFFF AND NOT (BANKSIZE - 1))"
definition SINGLEBANKMASK :: u32 where [hw]: "SINGLEBANKMASK = BANKMASK"
definition MICRON_ID :: u32 where [hw]: "MICRON_ID = 0x20"
definition SPANSION_ID :: u32 where [hw]: "SPANSION_ID = 0x01"
definition WINBOND_ID :: u32 where [hw]: "WINBOND_ID = 0xEF"
definition MACRONIX_ID :: u32 where [hw]: "MACRONIX_ID = 0xC2"
definition ISSI_ID :: u32 where [hw]: "ISSI_ID = 0x9D"
definition FLASH_SIZE_ID_64M :: u32 where [hw]: "FLASH_SIZE_ID_64M = 0x17"
definition FLASH_SIZE_ID_128M :: u32 where [hw]: "FLASH_SIZE_ID_128M = 0x18"
definition FLASH_SIZE_ID_256M :: u32 where [hw]: "FLASH_SIZE_ID_256M = 0x19"
definition FLASH_SIZE_ID_512M :: u32 where [hw]: "FLASH_SIZE_ID_512M = 0x20"
definition FLASH_SIZE_ID_1G :: u32 where [hw]: "FLASH_SIZE_ID_1G = 0x21"
definition FLASH_SIZE_ID_2G :: u32 where [hw]: "FLASH_SIZE_ID_2G = 0x22"
definition MACRONIX_FLASH_SIZE_ID_512M :: u32 where [hw]: "MACRONIX_FLASH_SIZE_ID_512M = 0x1A"
definition MACRONIX_FLASH_SIZE_ID_1G :: u32 where [hw]: "MACRONIX_FLASH_SIZE_ID_1G = 0x1B"
definition FLASH_SIZE_64M :: u32 where [hw]: "FLASH_SIZE_64M = 0x0800000"
definition FLASH_SIZE_128M :: u32 where [hw]: "FLASH_SIZE_128M = 0x1000000"
definition FLASH_SIZE_256M :: u32 where [hw]: "FLASH_SIZE_256M = 0x2000000"
definition FLASH_SIZE_512M :: u32 where [hw]: "FLASH_SIZE_512M = 0x4000000"
definition FLASH_SIZE_1G :: u32 where [hw]: "FLASH_SIZE_1G = 0x8000000"
definition FLASH_SIZE_2G :: u32 where [hw]: "FLASH_SIZE_2G = 0x10000000"

section \<open>USB requests (\<open>xfsbl_usb.h\<close>)\<close>

definition XFSBL_REQ_TYPE_MASK :: u32 where [hw]: "XFSBL_REQ_TYPE_MASK = 0x60"
definition XFSBL_CMD_STDREQ :: u32 where [hw]: "XFSBL_CMD_STDREQ = 0x00"
definition XFSBL_CMD_CLASSREQ :: u32 where [hw]: "XFSBL_CMD_CLASSREQ = 0x20"
definition XFSBL_REQ_GET_STATUS :: u32 where [hw]: "XFSBL_REQ_GET_STATUS = 0x00"
definition XFSBL_REQ_SET_FEATURE :: u32 where [hw]: "XFSBL_REQ_SET_FEATURE = 0x03"
definition XFSBL_REQ_SET_ADDRESS :: u32 where [hw]: "XFSBL_REQ_SET_ADDRESS = 0x05"
definition XFSBL_REQ_GET_DESCRIPTOR :: u32 where [hw]: "XFSBL_REQ_GET_DESCRIPTOR = 0x06"
definition XFSBL_REQ_GET_CONFIGURATION :: u32 where [hw]: "XFSBL_REQ_GET_CONFIGURATION = 0x08"
definition XFSBL_REQ_SET_CONFIGURATION :: u32 where [hw]: "XFSBL_REQ_SET_CONFIGURATION = 0x09"
definition XFSBL_REQ_SET_INTERFACE :: u32 where [hw]: "XFSBL_REQ_SET_INTERFACE = 0x0B"
definition XFSBL_REQ_SET_SEL :: u32 where [hw]: "XFSBL_REQ_SET_SEL = 0x30"
definition XFSBL_ENDPOINT_HALT :: u32 where [hw]: "XFSBL_ENDPOINT_HALT = 0x00"
definition XFSBL_TYPE_DEVICE_DESC :: u32 where [hw]: "XFSBL_TYPE_DEVICE_DESC = 0x01"
definition XFSBL_TYPE_CONFIG_DESC :: u32 where [hw]: "XFSBL_TYPE_CONFIG_DESC = 0x02"
definition XFSBL_TYPE_STRING_DESC :: u32 where [hw]: "XFSBL_TYPE_STRING_DESC = 0x03"
definition XFSBL_TYPE_DEVICE_QUALIFIER :: u32 where [hw]: "XFSBL_TYPE_DEVICE_QUALIFIER = 0x06"
definition XFSBL_TYPE_BOS_DESC :: u32 where [hw]: "XFSBL_TYPE_BOS_DESC = 0x0F"
definition XFSBL_STATUS_MASK :: u32 where [hw]: "XFSBL_STATUS_MASK = 0x3"
definition XFSBL_STATUS_DEVICE :: u32 where [hw]: "XFSBL_STATUS_DEVICE = 0x0"
definition XFSBL_STATUS_ENDPOINT :: u32 where [hw]: "XFSBL_STATUS_ENDPOINT = 0x2"
definition DFU_STATUS_SIZE :: u32 where [hw]: "DFU_STATUS_SIZE = 6"
definition XFSBL_USB_ENDPOINT_NUMBER_MASK :: u32 where [hw]: "XFSBL_USB_ENDPOINT_NUMBER_MASK = 0xF"
definition XFSBL_USB_ENDPOINT_DIR_MASK :: u32 where [hw]: "XFSBL_USB_ENDPOINT_DIR_MASK = 0x80"

section \<open>Firmware download (\<open>xfsbl_dfu_util.h\<close>)\<close>

definition USB_DEVICE_DESC :: u32 where [hw]: "USB_DEVICE_DESC = 0x01"
definition USB_CONFIG_DESC :: u32 where [hw]: "USB_CONFIG_DESC = 0x02"
definition USB_INTERFACE_CFG_DESC :: u32 where [hw]: "USB_INTERFACE_CFG_DESC = 0x04"
definition USB_ENDPOINT_CFG_DESC :: u32 where [hw]: "USB_ENDPOINT_CFG_DESC = 0x05"
definition STRING_SIZE :: u32 where [hw]: "STRING_SIZE = 128"
definition DFU_MAX_TRANSFER :: u32 where [hw]: "DFU_MAX_TRANSFER = 1024"
definition DFU_STATUS_OK :: u32 where [hw]: "DFU_STATUS_OK = 0x00"
definition DFU_DETACH :: u32 where [hw]: "DFU_DETACH = 0x0"
definition DFU_DNLOAD :: u32 where [hw]: "DFU_DNLOAD = 0x1"
definition DFU_GETSTATUS :: u32 where [hw]: "DFU_GETSTATUS = 0x3"
definition DFU_ALT_SETTING :: u32 where [hw]: "DFU_ALT_SETTING = 0x1"
definition STATE_APP_IDLE :: u32 where [hw]: "STATE_APP_IDLE = 0x00"
definition STATE_APP_DETACH :: u32 where [hw]: "STATE_APP_DETACH = 0x01"
definition STATE_DFU_IDLE :: u32 where [hw]: "STATE_DFU_IDLE = 0x02"
definition STATE_DFU_DOWNLOAD_SYNC :: u32 where [hw]: "STATE_DFU_DOWNLOAD_SYNC = 0x03"
definition STATE_DFU_DOWNLOAD_BUSY :: u32 where [hw]: "STATE_DFU_DOWNLOAD_BUSY = 0x04"
definition STATE_DFU_DOWNLOAD_IDLE :: u32 where [hw]: "STATE_DFU_DOWNLOAD_IDLE = 0x05"
definition STATE_DFU_ERROR :: u32 where [hw]: "STATE_DFU_ERROR = 0x0A"

section \<open>USB descriptors (\<open>xfsbl_dfu_util.c\<close>)\<close>

definition DFUFUNC_DESCR :: u32 where [hw]: "DFUFUNC_DESCR = 0x21"
definition USB_MODES_NUM :: u32 where [hw]: "USB_MODES_NUM = 2"
definition STRING_DESCRIPTORS_NUM :: u32 where [hw]: "STRING_DESCRIPTORS_NUM = 6"

section \<open>USB download (\<open>xfsbl_usb.c\<close>)\<close>

definition XFSBL_REQ_REPLY_LEN :: u32 where [hw]: "XFSBL_REQ_REPLY_LEN = 1024"
definition XFSBL_DOWNLOAD_COMPLETE :: u32 where [hw]: "XFSBL_DOWNLOAD_COMPLETE = 2"

section \<open>Evaluation boards (\<open>xfsbl_board.h\<close>)\<close>

definition GPIO_MIO31_MASK :: u32 where [hw]: "GPIO_MIO31_MASK = 0x00000020"
definition IIC_SCLK_RATE_IOEXP :: u32 where [hw]: "IIC_SCLK_RATE_IOEXP = 400000"
definition IIC_SCLK_RATE_I2CMUX :: u32 where [hw]: "IIC_SCLK_RATE_I2CMUX = 600000"
definition IOEXPANDER1_ADDR :: u32 where [hw]: "IOEXPANDER1_ADDR = 0x20"
definition PCA9544A_ADDR :: u32 where [hw]: "PCA9544A_ADDR = 0x75"
definition MAX15301_ADDR :: u32 where [hw]: "MAX15301_ADDR = 0x18"
definition TCA9548A_ADDR :: u32 where [hw]: "TCA9548A_ADDR = 0x74"
definition IRPS5401_ADDR :: u32 where [hw]: "IRPS5401_ADDR = 0x44"
definition IRPS5401_SWC_ADDR :: u32 where [hw]: "IRPS5401_SWC_ADDR = 0x45"
definition MAX_SIZE :: u32 where [hw]: "MAX_SIZE = 32"
definition CMD_CFG_0_REG :: u32 where [hw]: "CMD_CFG_0_REG = 0x06"
definition CMD_OUTPUT_0_REG :: u32 where [hw]: "CMD_OUTPUT_0_REG = 0x02"
definition DATA_OUTPUT :: u32 where [hw]: "DATA_OUTPUT = 0x0"
definition DATA_COMMON_CFG :: u32 where [hw]: "DATA_COMMON_CFG = 0xE0"
definition DATA_GT_L0_DP_CFG :: u32 where [hw]: "DATA_GT_L0_DP_CFG = 0x1"
definition DATA_GT_L1_DP_CFG :: u32 where [hw]: "DATA_GT_L1_DP_CFG = 0x2"
definition DATA_GT_L2_USB_CFG :: u32 where [hw]: "DATA_GT_L2_USB_CFG = 0x4"
definition DATA_GT_L3_SATA_CFG :: u32 where [hw]: "DATA_GT_L3_SATA_CFG = 0x8"
definition ICM_CFG_VAL_PWRDN :: u32 where [hw]: "ICM_CFG_VAL_PWRDN = 0x0"
definition ICM_CFG_VAL_PCIE :: u32 where [hw]: "ICM_CFG_VAL_PCIE = 0x1"
definition ICM_CFG_VAL_SATA :: u32 where [hw]: "ICM_CFG_VAL_SATA = 0x2"
definition ICM_CFG_VAL_USB :: u32 where [hw]: "ICM_CFG_VAL_USB = 0x3"
definition ICM_CFG_VAL_DP :: u32 where [hw]: "ICM_CFG_VAL_DP = 0x4"
definition CMD_CH_2_REG :: u32 where [hw]: "CMD_CH_2_REG = 0x06"
definition CMD_ON_OFF_CFG :: u32 where [hw]: "CMD_ON_OFF_CFG = 0x02"
definition ON_OFF_CFG_VAL :: u32 where [hw]: "ON_OFF_CFG_VAL = 0x16"
definition DELAY_1_US :: u32 where [hw]: "DELAY_1_US = 0x1"
definition DELAY_5_US :: u32 where [hw]: "DELAY_5_US = 0x5"
definition CMD_CH_2_REG_IRPS :: u32 where [hw]: "CMD_CH_2_REG_IRPS = 0x04"
definition CMD_PAGE_CFG :: u32 where [hw]: "CMD_PAGE_CFG = 0x00"
definition DATA_SWC_CFG :: u32 where [hw]: "DATA_SWC_CFG = 0x02"
definition DATA_SWD_CFG :: u32 where [hw]: "DATA_SWD_CFG = 0x03"
definition CMD_OPERATION_CFG :: u32 where [hw]: "CMD_OPERATION_CFG = 0x01"
definition OPERATION_VAL :: u32 where [hw]: "OPERATION_VAL = 0x80"
definition CMD_VOUT_MODE_CFG :: u32 where [hw]: "CMD_VOUT_MODE_CFG = 0x20"
definition DATA_VOUT_MODE_VAL :: u32 where [hw]: "DATA_VOUT_MODE_VAL = 0x14"
definition CMD_VOUT_MAX_CFG :: u32 where [hw]: "CMD_VOUT_MAX_CFG = 0x24"
definition DATA_VOUT_MAX_VAL_L :: u32 where [hw]: "DATA_VOUT_MAX_VAL_L = 0x00"
definition DATA_VOUT_MAX_VAL_H :: u32 where [hw]: "DATA_VOUT_MAX_VAL_H = 0x80"
definition CMD_VOUT_CMD_CFG :: u32 where [hw]: "CMD_VOUT_CMD_CFG = 0x21"
definition CMD_VOUT_UV_WARN_LIMIT :: u32 where [hw]: "CMD_VOUT_UV_WARN_LIMIT = 0x43"
definition CMD_VOUT_UV_FAULT_LIMIT :: u32 where [hw]: "CMD_VOUT_UV_FAULT_LIMIT = 0x44"
definition CMD_VOUT_OV_WARN_LIMIT :: u32 where [hw]: "CMD_VOUT_OV_WARN_LIMIT = 0x42"
definition CMD_VOUT_OV_FAULT_LIMIT :: u32 where [hw]: "CMD_VOUT_OV_FAULT_LIMIT = 0x40"
definition MULTIRECORD_HEADER_SIZE :: u32 where [hw]: "MULTIRECORD_HEADER_SIZE = 0x5"
definition DC_LOAD :: u32 where [hw]: "DC_LOAD = 0x2"
definition SET_VADJ_0V0 :: u32 where [hw]: "SET_VADJ_0V0 = 0x0"
definition SET_VADJ_1V2 :: u32 where [hw]: "SET_VADJ_1V2 = 0x1"
definition SET_VADJ_1V5 :: u32 where [hw]: "SET_VADJ_1V5 = 0x2"
definition SET_VADJ_1V8 :: u32 where [hw]: "SET_VADJ_1V8 = 0x3"
definition VOUT_CMDL_1V2 :: u32 where [hw]: "VOUT_CMDL_1V2 = 0x33"
definition VOUT_CMDH_1V2 :: u32 where [hw]: "VOUT_CMDH_1V2 = 0x13"
definition VOUT_OV_WARNL_1V2 :: u32 where [hw]: "VOUT_OV_WARNL_1V2 = 0xCD"
definition VOUT_OV_WARNH_1V2 :: u32 where [hw]: "VOUT_OV_WARNH_1V2 = 0x15"
definition VOUT_OV_FAULTL_1V2 :: u32 where [hw]: "VOUT_OV_FAULTL_1V2 = 0x66"
definition VOUT_OV_FAULTH_1V2 :: u32 where [hw]: "VOUT_OV_FAULTH_1V2 = 0x16"
definition VOUT_UV_WARNL_1V2 :: u32 where [hw]: "VOUT_UV_WARNL_1V2 = 0xCD"
definition VOUT_UV_WARNH_1V2 :: u32 where [hw]: "VOUT_UV_WARNH_1V2 = 0x10"
definition VOUT_UV_FAULTL_1V2 :: u32 where [hw]: "VOUT_UV_FAULTL_1V2 = 0x00"
definition VOUT_UV_FAULTH_1V2 :: u32 where [hw]: "VOUT_UV_FAULTH_1V2 = 0x10"
definition VOUT_CMDL_1V5 :: u32 where [hw]: "VOUT_CMDL_1V5 = 0x00"
definition VOUT_CMDH_1V5 :: u32 where [hw]: "VOUT_CMDH_1V5 = 0x18"
definition VOUT_OV_WARNL_1V5 :: u32 where [hw]: "VOUT_OV_WARNL_1V5 = 0x66"
definition VOUT_OV_WARNH_1V5 :: u32 where [hw]: "VOUT_OV_WARNH_1V5 = 0x1A"
definition VOUT_OV_FAULTL_1V5 :: u32 where [hw]: "VOUT_OV_FAULTL_1V5 = 0x33"
definition VOUT_OV_FAULTH_1V5 :: u32 where [hw]: "VOUT_OV_FAULTH_1V5 = 0x1B"
definition VOUT_UV_WARNL_1V5 :: u32 where [hw]: "VOUT_UV_WARNL_1V5 = 0x9A"
definition VOUT_UV_WARNH_1V5 :: u32 where [hw]: "VOUT_UV_WARNH_1V5 = 0x15"
definition VOUT_UV_FAULTL_1V5 :: u32 where [hw]: "VOUT_UV_FAULTL_1V5 = 0xCD"
definition VOUT_UV_FAULTH_1V5 :: u32 where [hw]: "VOUT_UV_FAULTH_1V5 = 0x14"
definition VOUT_CMDL_1V8 :: u32 where [hw]: "VOUT_CMDL_1V8 = 0xCD"
definition VOUT_CMDH_1V8 :: u32 where [hw]: "VOUT_CMDH_1V8 = 0x1C"
definition VOUT_OV_WARNL_1V8 :: u32 where [hw]: "VOUT_OV_WARNL_1V8 = 0x33"
definition VOUT_OV_WARNH_1V8 :: u32 where [hw]: "VOUT_OV_WARNH_1V8 = 0x1F"
definition VOUT_OV_FAULTL_1V8 :: u32 where [hw]: "VOUT_OV_FAULTL_1V8 = 0x00"
definition VOUT_OV_FAULTH_1V8 :: u32 where [hw]: "VOUT_OV_FAULTH_1V8 = 0x20"
definition VOUT_UV_WARNL_1V8 :: u32 where [hw]: "VOUT_UV_WARNL_1V8 = 0x66"
definition VOUT_UV_WARNH_1V8 :: u32 where [hw]: "VOUT_UV_WARNH_1V8 = 0x1A"
definition VOUT_UV_FAULTL_1V8 :: u32 where [hw]: "VOUT_UV_FAULTL_1V8 = 0x33"
definition VOUT_UV_FAULTH_1V8 :: u32 where [hw]: "VOUT_UV_FAULTH_1V8 = 0x1B"

end
