(* ===== verification/Fsbl_Machine.thy ===== *)
theory Fsbl_Machine
  imports Fsbl_Hw
begin

text \<open>
  The state of the first stage boot loader and the monad its functions are written in.

  The state is the global \<open>FsblInstance\<close> (\<open>XFsblPs\<close> of \<open>xfsbl_main.h\<close>), extended with
  the static variables of the C files and with the history of the loader's interaction with
  the hardware.  Everything outside the repository (memory-mapped registers, the board
  support package, the crypto library, the generated \<open>psu_init\<close>, flash chips) is a
  \<^emph>\<open>world\<close>: functions that answer each read and each external call from the history so
  far.  No law is assumed of a world, so a theorem without a hypothesis about it holds for
  every device behaviour, changing registers and failing calls included.
\<close>

section \<open>Image header structures (\<open>xfsbl_image_header.h\<close>)\<close>

record XFsblPs_ImageHeaderTable =
  IHT_Version :: u32
  NoOfPartitions :: u32
  PartitionHeaderAddress :: u32
  Reserved_0xC :: u32
  IHT_AuthCertificateOffset :: u32
  PartitionPresentDevice :: u32
  IHT_Reserved :: "u32 list"
  IHT_Checksum :: u32

record XFsblPs_PartitionHeader =
  EncryptedDataWordLength :: u32
  UnEncryptedDataWordLength :: u32
  TotalDataWordLength :: u32
  NextPartitionOffset :: u32
  DestinationExecutionAddress :: u64
  DestinationLoadAddress :: u64
  DataWordOffset :: u32
  PartitionAttributes :: u32
  SectionCount :: u32
  ChecksumWordOffset :: u32
  ImageHeaderOffset :: u32
  AuthCertificateOffset :: u32
  PH_Iv :: u32
  PH_Checksum :: u32

record XFsblPs_PartitionEntry =
  EntryPoint :: u64
  PartitionFlags :: u64

record XFsblPs_ATFHandoffParams =
  MagicValue :: string
  NumEntries :: u32
  Entry :: "XFsblPs_PartitionEntry list"

section \<open>The loader instance (\<open>xfsbl_main.h\<close>)\<close>

record XFsblPs_HandoffValues =
  CpuSettings :: u32
  HandoffAddress :: u64

text \<open>
  \<open>XFsblPs_DeviceOps\<close> is a structure of function pointers that the boot-device selection
  fills with one of these families.
\<close>

datatype XFsblPs_DeviceOps = NoOps | Qspi24Ops | Qspi32Ops | NandOps | SdOps | UsbOps

record XFsblPs =
  FsblVersion :: u32
  PresentStage :: u32
  ProcessorID :: u32
  A53ExecState :: u32
  BootHdrAttributes :: u32
  ImageOffsetAddress :: u32
  ImageHeaderTable :: XFsblPs_ImageHeaderTable
  PartitionHeader :: "XFsblPs_PartitionHeader list"
  ErrorCode :: u32
  PrimaryBootDevice :: u32
  SecondaryBootDevice :: u32
  DeviceOps :: XFsblPs_DeviceOps
  HandoffCpuNo :: u32
  ResetReason :: u32
  TcmEccInitStatus :: u32
  HandoffValues :: "XFsblPs_HandoffValues list"

section \<open>Interaction with the hardware\<close>

text \<open>
  Calls that leave the modelled code: the board support package (caches, delays, platform
  and silicon version, memory barriers), the generated \<open>psu_init.c\<close>, the CSU DMA, AES,
  SHA-3 and RSA drivers, the power-management and watchdog drivers, and the flash drivers
  behind \<open>DeviceInit\<close> and \<open>DeviceCopy\<close>.  Writes to the registers of the AES engine, whose
  offsets belong to its driver, are calls of their own (\<open>AesKupWrite\<close> and the following);
  \<open>AesNextBlockWords\<close> is the length it finds in the third word of its vector.
  \<open>CsuDmaTransferLast\<close> is a transfer with the end-of-message flag.  \<open>AdmaData\<close> is never a
  step of the history: it names the bytes that the general-purpose DMA delivers.
\<close>

datatype bsp =
    Usleep u32 | DCacheDisable | DCacheEnable | DCacheFlush | Barrier
  | PlatformInfo | PSVersion | ClusterIdReg | SetTlb u64 u32 | RegisterHandlers

datatype psu =
    PsuInit | PsuIsolationRemoval | PsuPlResetConfig | PsuProtection | PsuProtectionLock

datatype dev =
    DeviceInit XFsblPs_DeviceOps u32
  | DeviceCopy XFsblPs_DeviceOps u32 u64 u32
  | BoardInit | SaveData | RestoreData

datatype dma =
    CsuDmaLookupConfig | CsuDmaCfgInitialize | CsuDmaTransfer u64 u32 | CsuDmaTransferLast u64 u32
  | CsuDmaWaitForDone | CsuDmaIntrClear | CsuDmaGetConfig | CsuDmaSetEndian u32
  | AdmaData u64 u64 u32

datatype crypto =
    AesInitialize "u8 list" | AesDecrypt u64 u64 u32
  | AesDecryptInit u32 u64 | AesDecryptUpdate u64 u32 | AesKeySelNLoad | AesWaitForDone
  | AesKupWrite | AesKupClear | AesStartMsg | AesNextBlockWords | AesGcmTagOk | AesPcapWaitForDone
  | SssInitialize | SssAes
  | Sha3Initialize | Sha3Start | Sha3PadSelection | Sha3Update u64 u32 | Sha3ReadHash | Sha3Finish
  | Sha3Digest u64 u32
  | RsaInitialize u64 u64 u64 | RsaPublicEncrypt u64 | RsaSignVerification "u8 list"

datatype drv =
    WdtLookup | WdtInit | WdtSetPrescale | WdtSetCounterReset | WdtEnableOutput | WdtStart
  | WdtRestart | WdtStop | WdtReady
  | IpiLookup | IpiCfgInitialize | InitXilpm | SetConfiguration

text \<open>
  The flash drivers.  A message of the QSPI driver has the bytes to send or the address of the buffer to
  fill (\<open>RxLocal\<close> is the 10-byte buffer of \<open>xfsbl_qspi.c\<close>), the number of bytes, the width of the bus
  and the flags; a transfer sends a list of messages in one selection of the chip.  The constants of the
  driver, which the code only passes on or compares, are constructors.
\<close>

datatype qspi_connection = QspiSingle | QspiStacked | QspiParallel | QspiUnknown
datatype qspi_cs = CsLower | CsUpper | CsBoth
datatype qspi_bus = BusLower | BusBoth
datatype qspi_width = WidthUnset | SelectSpi | SelectDualSpi | SelectQuadSpi
datatype qspi_flag = FlagTx | FlagRx | FlagStripe
datatype qspi_rx = RxLocal | RxAddr u64

record XQspiPsu_Msg =
  TxBfr :: "u8 list option"
  RxBfr :: "qspi_rx option"
  ByteCount :: u32
  BusWidth :: qspi_width
  MsgFlags :: "qspi_flag list"

datatype qspi =
    QspiLookupConfig | QspiCfgInitialize | QspiSetOptions | QspiSetClkPrescaler
  | QspiSelectFlash qspi_cs qspi_bus | QspiTransfer "XQspiPsu_Msg list"

datatype nand = NandLookupConfig | NandCfgInitialize | NandIsBlockBad u32 | NandRead u64 u64 u64

datatype sd = SdMount u32 | SdOpen string | SdSeek u32 | SdRead u64 u32 | SdClose

text \<open>
  The USB driver.  Its interrupt handler calls back with events: a reset of the bus, or a setup packet of the
  host (a field of the world says which).  The two directions of an endpoint are 1 (in) and 0 (out).
\<close>

record SetupPacket =
  bRequestType :: u8
  bRequest :: u8
  wValue :: u16
  wIndex :: u16
  wLength :: u16

datatype usb_event = UsbReset | UsbSetup SetupPacket
datatype usb_state = UsbDefault | UsbAddress | UsbConfigured | UsbOther

datatype usb =
    UsbClear | UsbLookupConfig | UsbCfgInitialize | UsbSetSpeed | UsbEnableIntr | UsbStart | UsbStop | UsbIntrHandler
  | IsSuperSpeed | EpBufferSend "u8 list" | EpBufferRecv u64 u32 | EpBufferRecvTmp u32 | EpSetStall u8 u8
  | IsEpStalled u8 u8 | SetDeviceAddress u16 | SetAppState usb_state | SetIsConfigDone u32
  | UsbDmaDst u64 u32 | UsbDmaSrc u64 u32

text \<open>
  The I2C driver, which the initialisation of the boards and the dynamic initialisation of the memory use: a send of bytes to an
  address of the bus, a receive of a number of bytes, the question whether the bus is busy, and the wait for the idle bus
  (\<open>Xil_poll_timeout\<close> of the board support package) with its time limit.
\<close>

datatype iic =
    IicLookupConfig | IicCfgInitialize | IicSetSClk u32 | IicMasterSendPolled "u8 list" u32 | IicMasterRecvPolled u32 u32
  | IicWaitIdle u32 | IicBusIsBusy

text \<open>The interface of the firmware download over USB (\<open>xfsbl_dfu_util.h\<close>).\<close>

record XFsblPs_DfuIf =
  CurrState :: u8
  NextState :: u8
  CurrStatus :: u8
  GotReset :: u8
  CurrentInf :: u32
  GotDnloadRqst :: u8
  TotalBytesDnloaded :: u32
  DfuWaitForInterrupt :: u8
  RuntimeToDfu :: u8

datatype ext = Bsp bsp | Psu psu | Dev dev | Dma dma | Crypto crypto | Drv drv | Qspi qspi | Nand nand | Sd sd | Usb usb | Iic iic

text \<open>
  One step of the history: a register read with the value it returned, a register write,
  or an external call with its result.  The most recent step is first.
\<close>

datatype io = Rd u32 u32 | Wr u32 u32 | Ext ext u32

text \<open>
  The world: the value of a register read, the result of an external call, the bytes that
  a call delivers into a buffer, all as functions of the history; and the build
  configuration that the code takes from the generated \<open>xparameters.h\<close>, from the
  switches of \<open>xfsbl_config.h\<close> and from the board support package (the codes of the
  simulation platforms and of the silicon versions).
\<close>

record world =
  reg_in :: "io list \<Rightarrow> u32 \<Rightarrow> u32"
  ext_ret :: "io list \<Rightarrow> ext \<Rightarrow> u32"
  ext_byte :: "io list \<Rightarrow> ext \<Rightarrow> nat \<Rightarrow> u8"
  cfg_ddr_end :: u64
  cfg_hi_ddr :: "(u64 \<times> u64) option"
  cfg_early_handoff :: bool
  cfg_wdt_mask :: "u32 option"
  cfg_ddr_ecc :: bool
  cfg_xilpm :: bool
  cfg_ipi :: bool
  cfg_qspi :: bool
  cfg_nand :: bool
  cfg_sd0 :: bool
  cfg_sd1 :: bool
  cfg_qspi_mode :: qspi_connection
  nand_block_size :: u32
  usb_events :: "io list \<Rightarrow> usb_event list"
  usb_app_state :: "io list \<Rightarrow> usb_state"
  XST_FAILURE :: u32
  XPLAT_ZYNQ_ULTRA_MP :: u32
  XPLAT_ZYNQ_ULTRA_MPQEMU :: u32
  XPS_VERSION_1 :: u32
  XPS_VERSION_2 :: u32
  atf_params_addr :: u32
  image_header_addr :: u64
  auth_buffer_addr :: u64
  ppk_key_addr :: u64
  hash_addr :: u64
  read_buffer_addr :: u64
  ac_offset_addr :: u64
  secure_hdr_addr :: u64
  aes_iv_addr :: u64
  XSECURE_SECURE_HDR_SIZE :: u32
  XSECURE_SECURE_GCM_TAG_SIZE :: u32

record fsbl = XFsblPs +
  ATFHandoffParams :: XFsblPs_ATFHandoffParams
  CpuIndexEarlyHandoff :: u32
  Iv :: "nat \<Rightarrow> u8"
  AuthBuffer :: "nat \<Rightarrow> u8"
  EfusePpkKey :: "nat \<Rightarrow> u8"
  ReadBuffer :: "nat \<Rightarrow> u8"
  QspiFlashSize :: u32
  QspiFlashMake :: u32
  ReadCommand :: u32
  IssiIdFlag :: u8
  FlashMsg :: "XQspiPsu_Msg list"
  DfuObj :: XFsblPs_DfuIf
  DownloadDone :: u32
  UsbReply :: "u8 list"
  DfuReply :: "u8 list"
  trace :: "io list"

text \<open>
  The instance as the C start-up code leaves it: \<open>FsblInstance\<close> and the other static
  variables are zero but for the version field.  The arrays have their C lengths.
\<close>

definition fsbl_init :: fsbl where
  "fsbl_init = \<lparr>FsblVersion = 3, PresentStage = 0, ProcessorID = 0, A53ExecState = 0,
     BootHdrAttributes = 0, ImageOffsetAddress = 0,
     ImageHeaderTable = \<lparr>IHT_Version = 0, NoOfPartitions = 0, PartitionHeaderAddress = 0,
       Reserved_0xC = 0, IHT_AuthCertificateOffset = 0, PartitionPresentDevice = 0,
       IHT_Reserved = replicate 9 0, IHT_Checksum = 0\<rparr>,
     PartitionHeader = replicate 32 \<lparr>EncryptedDataWordLength = 0, UnEncryptedDataWordLength = 0,
       TotalDataWordLength = 0, NextPartitionOffset = 0, DestinationExecutionAddress = 0,
       DestinationLoadAddress = 0, DataWordOffset = 0, PartitionAttributes = 0, SectionCount = 0,
       ChecksumWordOffset = 0, ImageHeaderOffset = 0, AuthCertificateOffset = 0, PH_Iv = 0,
       PH_Checksum = 0\<rparr>,
     ErrorCode = 0, PrimaryBootDevice = 0, SecondaryBootDevice = 0, DeviceOps = NoOps,
     HandoffCpuNo = 0, ResetReason = 0, TcmEccInitStatus = 0,
     HandoffValues = replicate 10 \<lparr>CpuSettings = 0, HandoffAddress = 0\<rparr>,
     ATFHandoffParams = \<lparr>MagicValue = [], NumEntries = 0,
       Entry = replicate 8 \<lparr>EntryPoint = 0, PartitionFlags = 0\<rparr>\<rparr>,
     CpuIndexEarlyHandoff = 0, Iv = (\<lambda>_. 0), AuthBuffer = (\<lambda>_. 0), EfusePpkKey = (\<lambda>_. 0),
     ReadBuffer = (\<lambda>_. 0),
     QspiFlashSize = 0, QspiFlashMake = 0, ReadCommand = 0, IssiIdFlag = 0,
     FlashMsg = replicate 5 \<lparr>TxBfr = None, RxBfr = None, ByteCount = 0, BusWidth = WidthUnset, MsgFlags = []\<rparr>,
     DfuObj = \<lparr>CurrState = 0, NextState = 0, CurrStatus = 0, GotReset = 0, CurrentInf = 0, GotDnloadRqst = 0,
       TotalBytesDnloaded = 0, DfuWaitForInterrupt = 0, RuntimeToDfu = 0\<rparr>,
     DownloadDone = 0, UsbReply = replicate 1024 0, DfuReply = replicate 6 0,
     trace = []\<rparr>"

text \<open>
  A world that answers every read with zero and every call with success; the examples start
  from it.
\<close>

definition quiet_world :: world where
  "quiet_world = \<lparr>reg_in = (\<lambda>_ _. 0), ext_ret = (\<lambda>_ _. 0), ext_byte = (\<lambda>_ _ _. 0),
     cfg_ddr_end = 0x7FFFFFFF, cfg_hi_ddr = None, cfg_early_handoff = False, cfg_wdt_mask = None,
     cfg_ddr_ecc = False, cfg_xilpm = True, cfg_ipi = True,
     cfg_qspi = True, cfg_nand = True, cfg_sd0 = True, cfg_sd1 = True,
     cfg_qspi_mode = QspiSingle, nand_block_size = 0x20000,
     usb_events = (\<lambda>_. []), usb_app_state = (\<lambda>_. UsbDefault), XST_FAILURE = 1,
     XPLAT_ZYNQ_ULTRA_MP = 1, XPLAT_ZYNQ_ULTRA_MPQEMU = 3,
     XPS_VERSION_1 = 0, XPS_VERSION_2 = 1, atf_params_addr = 0xFFFE9000, image_header_addr = 0xFFFD0000,
     auth_buffer_addr = 0xFFFD1000, ppk_key_addr = 0xFFFD0F00, hash_addr = 0xFFFDFF00,
     read_buffer_addr = 0xFFFD2000, ac_offset_addr = 0xFFFE0000,
     secure_hdr_addr = 0xFFFDFE00, aes_iv_addr = 0xFFCA1040, XSECURE_SECURE_HDR_SIZE = 48,
     XSECURE_SECURE_GCM_TAG_SIZE = 16\<rparr>"

section \<open>The monad\<close>

text \<open>
  How a run leaves the loader for good: the jump of \<open>XFsbl_Exit\<close> with its address and
  flags, the soft reset of the whole system, the endless wait of an APU-only restart that
  fails, an access outside a fixed-size array of the instance, or a copy from flash that is
  longer than \<open>ReadBuffer\<close>; the last two the C code would perform as a memory corruption and
  the model reports as such.
\<close>

datatype exit = HandoffTo u64 u32 | SoftReset | WaitForever | OutOfBounds | BufferOverflow

datatype 'a res = Ret 'a | Halted exit

text \<open>\<open>None\<close> is a run that never returns (an endless polling loop).\<close>

type_synonym 'a prog = "fsbl \<Rightarrow> ('a res \<times> fsbl) option"

definition retM :: "'a \<Rightarrow> 'a prog" where
  "retM x = (\<lambda>s. Some (Ret x, s))"

definition haltM :: "exit \<Rightarrow> 'a prog" where
  "haltM e = (\<lambda>s. Some (Halted e, s))"

definition getM :: "(fsbl \<Rightarrow> 'a) \<Rightarrow> 'a prog" where
  "getM f = (\<lambda>s. Some (Ret (f s), s))"

definition modM :: "(fsbl \<Rightarrow> fsbl) \<Rightarrow> unit prog" where
  "modM g = (\<lambda>s. Some (Ret (), g s))"

definition bindM :: "'a prog \<Rightarrow> ('a \<Rightarrow> 'b prog) \<Rightarrow> 'b prog" where
  "bindM m f = (\<lambda>s. case m s of
       None \<Rightarrow> None
     | Some (r, t) \<Rightarrow> (case r of Ret x \<Rightarrow> f x t | Halted e \<Rightarrow> Some (Halted e, t)))"

definition seqM :: "'a prog \<Rightarrow> 'b prog \<Rightarrow> 'b prog" where
  "seqM m n = bindM m (\<lambda>_. n)"

definition whenM :: "bool \<Rightarrow> unit prog \<Rightarrow> unit prog" where
  "whenM b m = (if b then m else retM ())"

text \<open>
  The recurring \<open>Status = f(); if (XFSBL_SUCCESS != Status) { Status = E; goto END; }\<close>:
  \<open>tryM\<close> passes the failing status on, \<open>tryM_as\<close> replaces it by \<open>E\<close>.
\<close>

definition tryM :: "u32 prog \<Rightarrow> u32 prog \<Rightarrow> u32 prog" where
  "tryM m k = bindM m (\<lambda>Status. if Status \<noteq> XFSBL_SUCCESS then retM Status else k)"

definition tryM_as :: "u32 \<Rightarrow> u32 prog \<Rightarrow> u32 prog \<Rightarrow> u32 prog" where
  "tryM_as E m k = bindM m (\<lambda>Status. if Status \<noteq> XFSBL_SUCCESS then retM E else k)"

text \<open>Register access and external calls extend the history.\<close>

definition logM :: "io \<Rightarrow> unit prog" where
  "logM e = modM (\<lambda>s. s\<lparr>trace := e # trace s\<rparr>)"

definition XFsbl_In32 :: "world \<Rightarrow> u32 \<Rightarrow> u32 prog" where
  "XFsbl_In32 W a = bindM (getM (\<lambda>s. reg_in W (trace s) a)) (\<lambda>v. seqM (logM (Rd a v)) (retM v))"

definition XFsbl_Out32 :: "u32 \<Rightarrow> u32 \<Rightarrow> unit prog" where
  "XFsbl_Out32 a v = logM (Wr a v)"

definition extM :: "world \<Rightarrow> ext \<Rightarrow> u32 prog" where
  "extM W c = bindM (getM (\<lambda>s. ext_ret W (trace s) c)) (\<lambda>v. seqM (logM (Ext c v)) (retM v))"

definition callM :: "world \<Rightarrow> ext \<Rightarrow> unit prog" where
  "callM W c = seqM (extM W c) (retM ())"

text \<open>
  A call that fills a buffer: the status and the bytes it delivered, as a function of the
  byte offset.
\<close>

definition copyM :: "world \<Rightarrow> ext \<Rightarrow> (u32 \<times> (nat \<Rightarrow> u8)) prog" where
  "copyM W c = bindM (getM (\<lambda>s. ext_byte W (trace s) c))
     (\<lambda>b. bindM (extM W c) (\<lambda>Status. retM (Status, b)))"

text \<open>Straight-line code: the statements of a block, in order.\<close>

primrec seqsM :: "unit prog list \<Rightarrow> unit prog" where
  "seqsM [] = retM ()"
| "seqsM (m # ms) = seqM m (seqsM ms)"

text \<open>The read-modify-write of one register.\<close>

definition rmwM :: "world \<Rightarrow> u32 \<Rightarrow> (u32 \<Rightarrow> u32) \<Rightarrow> unit prog" where
  "rmwM W a f = bindM (XFsbl_In32 W a) (\<lambda>RegValue. XFsbl_Out32 a (f RegValue))"

text \<open>
  The polling loop \<open>do RegVal = XFsbl_In32(a) & m; while (RegVal != v)\<close>: it reads until
  the masked value satisfies the condition, for ever if it never does.
\<close>

partial_function (option) poll_trace :: "world \<Rightarrow> u32 \<Rightarrow> (u32 \<Rightarrow> bool) \<Rightarrow> io list \<Rightarrow> io list option" where
  "poll_trace W a ok h =
     (if ok (reg_in W h a) then Some (Rd a (reg_in W h a) # h)
      else poll_trace W a ok (Rd a (reg_in W h a) # h))"

definition pollM :: "world \<Rightarrow> u32 \<Rightarrow> (u32 \<Rightarrow> bool) \<Rightarrow> unit prog" where
  "pollM W a ok = (\<lambda>s. case poll_trace W a ok (trace s) of
       None \<Rightarrow> None
     | Some h \<Rightarrow> Some (Ret (), s\<lparr>trace := h\<rparr>))"

text \<open>A loop: \<open>f\<close> is its body, which ends it with \<open>Inl\<close> or goes on with \<open>Inr\<close>.\<close>

partial_function (option) iterM :: "('a \<Rightarrow> ('b + 'a) prog) \<Rightarrow> 'a \<Rightarrow> fsbl \<Rightarrow> ('b res \<times> fsbl) option" where
  "iterM f x s = (case f x s of
       None \<Rightarrow> None
     | Some (r, t) \<Rightarrow> (case r of
         Halted e \<Rightarrow> Some (Halted e, t)
       | Ret z \<Rightarrow> (case z of Inl y \<Rightarrow> Some (Ret y, t) | Inr x' \<Rightarrow> iterM f x' t)))"

text \<open>An access to element \<open>i\<close> of an array of the instance with \<open>n\<close> elements.\<close>

definition boundM :: "u32 \<Rightarrow> nat \<Rightarrow> unit prog" where
  "boundM i n = (if unat i < n then retM () else haltM OutOfBounds)"

definition get_PartitionHeader :: "u32 \<Rightarrow> XFsblPs_PartitionHeader prog" where
  "get_PartitionHeader i = seqM (boundM i 32) (getM (\<lambda>s. PartitionHeader s ! unat i))"

section \<open>Weakest preconditions\<close>

text \<open>
  \<open>wp m Q H s\<close>: if \<open>m\<close> returns \<open>x\<close> in a state \<open>t\<close> then \<open>Q x t\<close>, and if it leaves the
  loader through \<open>e\<close> then \<open>H e t\<close>.  \<open>wp\<close> says nothing of a run that never ends;
  \<open>returns\<close> (below) is the other half.
\<close>

definition wp :: "'a prog \<Rightarrow> ('a \<Rightarrow> fsbl \<Rightarrow> bool) \<Rightarrow> (exit \<Rightarrow> fsbl \<Rightarrow> bool) \<Rightarrow> fsbl \<Rightarrow> bool" where
  "wp m Q H s \<longleftrightarrow> (case m s of
       None \<Rightarrow> True
     | Some (r, t) \<Rightarrow> (case r of Ret x \<Rightarrow> Q x t | Halted e \<Rightarrow> H e t))"

lemma wp_ret [wp_eq]: "wp (retM x) Q H s = Q x s"
  by (simp add: wp_def retM_def)

lemma wp_halt [wp_eq]: "wp (haltM e) Q H s = H e s"
  by (simp add: wp_def haltM_def)

lemma wp_get [wp_eq]: "wp (getM f) Q H s = Q (f s) s"
  by (simp add: wp_def getM_def)

lemma wp_mod [wp_eq]: "wp (modM g) Q H s = Q () (g s)"
  by (simp add: wp_def modM_def)

lemma wp_bind [wp_eq]: "wp (bindM m f) Q H s = wp m (\<lambda>x. wp (f x) Q H) H s"
  by (simp add: wp_def bindM_def split: option.splits res.splits prod.splits)

lemma wp_seq [wp_eq]: "wp (seqM m n) Q H s = wp m (\<lambda>_. wp n Q H) H s"
  by (simp add: seqM_def wp_bind)

lemma wp_if [wp_eq]:
  "wp (if b then m else n) Q H s = (if b then wp m Q H s else wp n Q H s)"
  by simp

lemma wp_when [wp_eq]: "wp (whenM b m) Q H s = (if b then wp m Q H s else Q () s)"
  by (simp add: whenM_def wp_ret)

lemma wp_try [wp_eq]:
  "wp (tryM m k) Q H s = wp m (\<lambda>x t. if x \<noteq> XFSBL_SUCCESS then Q x t else wp k Q H t) H s"
  by (simp add: tryM_def wp_def bindM_def retM_def split: option.splits res.splits)

lemma wp_try_as [wp_eq]:
  "wp (tryM_as E m k) Q H s = wp m (\<lambda>x t. if x \<noteq> XFSBL_SUCCESS then Q E t else wp k Q H t) H s"
  by (simp add: tryM_as_def wp_def bindM_def retM_def split: option.splits res.splits)

lemma wp_log [wp_eq]: "wp (logM e) Q H s = Q () (s\<lparr>trace := e # trace s\<rparr>)"
  by (simp add: logM_def wp_mod)

lemma wp_In32 [wp_eq]:
  "wp (XFsbl_In32 W a) Q H s =
     Q (reg_in W (trace s) a) (s\<lparr>trace := Rd a (reg_in W (trace s) a) # trace s\<rparr>)"
  by (simp add: XFsbl_In32_def wp_eq)

lemma wp_Out32 [wp_eq]: "wp (XFsbl_Out32 a v) Q H s = Q () (s\<lparr>trace := Wr a v # trace s\<rparr>)"
  by (simp add: XFsbl_Out32_def wp_eq)

lemma wp_ext [wp_eq]:
  "wp (extM W c) Q H s =
     Q (ext_ret W (trace s) c) (s\<lparr>trace := Ext c (ext_ret W (trace s) c) # trace s\<rparr>)"
  by (simp add: extM_def wp_eq)

lemma wp_call [wp_eq]:
  "wp (callM W c) Q H s = Q () (s\<lparr>trace := Ext c (ext_ret W (trace s) c) # trace s\<rparr>)"
  by (simp add: callM_def wp_eq)

lemma wp_copy [wp_eq]:
  "wp (copyM W c) Q H s =
     Q (ext_ret W (trace s) c, ext_byte W (trace s) c)
       (s\<lparr>trace := Ext c (ext_ret W (trace s) c) # trace s\<rparr>)"
  by (simp add: copyM_def wp_eq)

lemma wp_seqs_Nil [wp_eq]: "wp (seqsM []) Q H s = Q () s"
  by (simp add: wp_ret)

lemma wp_seqs_Cons [wp_eq]: "wp (seqsM (m # ms)) Q H s = wp m (\<lambda>_. wp (seqsM ms) Q H) H s"
  by (simp add: wp_seq)

lemma wp_rmw [wp_eq]:
  "wp (rmwM W a f) Q H s =
     Q () (s\<lparr>trace := Wr a (f (reg_in W (trace s) a)) # Rd a (reg_in W (trace s) a) # trace s\<rparr>)"
  by (simp add: rmwM_def wp_eq)

lemma wp_bound [wp_eq]:
  "wp (boundM i n) Q H s = (if unat i < n then Q () s else H OutOfBounds s)"
  by (simp add: boundM_def wp_eq)

lemma wp_get_PartitionHeader [wp_eq]:
  "wp (get_PartitionHeader i) Q H s =
     (if unat i < 32 then Q (PartitionHeader s ! unat i) s else H OutOfBounds s)"
  by (simp add: get_PartitionHeader_def wp_eq)

lemma wp_mono:
  assumes "wp m Q H s"
    and "\<And>x t. Q x t \<Longrightarrow> Q' x t" and "\<And>e t. H e t \<Longrightarrow> H' e t"
  shows "wp m Q' H' s"
  using assms by (cases "m s") (auto simp: wp_def split: res.splits)

lemma wp_conj:
  assumes "wp m Q H s" and "wp m Q' H' s"
  shows "wp m (\<lambda>x t. Q x t \<and> Q' x t) (\<lambda>e t. H e t \<and> H' e t) s"
  using assms by (cases "m s") (auto simp: wp_def split: res.splits)

lemma wp_True: "wp m (\<lambda>_ _. True) (\<lambda>_ _. True) s"
  by (simp add: wp_def split: option.splits res.splits prod.splits)

text \<open>What a program returns, whatever its steps do.\<close>

lemma wp_bind_any: "(\<And>x t. wp (f x) Q (\<lambda>_ _. True) t) \<Longrightarrow> wp (bindM m f) Q (\<lambda>_ _. True) s"
  by (auto simp: wp_bind intro: wp_mono [OF wp_True])

lemma wp_seq_any: "(\<And>t. wp n Q (\<lambda>_ _. True) t) \<Longrightarrow> wp (seqM m n) Q (\<lambda>_ _. True) s"
  by (simp add: seqM_def wp_bind_any)

lemma wp_Ret: "wp m Q H s \<Longrightarrow> m s = Some (Ret x, t) \<Longrightarrow> Q x t"
  by (simp add: wp_def)

lemma wp_Halted: "wp m Q H s \<Longrightarrow> m s = Some (Halted e, t) \<Longrightarrow> H e t"
  by (simp add: wp_def)

text \<open>A polling loop ends with a read that satisfies its condition.\<close>

lemma poll_trace_Some:
  assumes "poll_trace W a ok h = Some h'"
  shows "\<exists>v vs. h' = Rd a v # map (Rd a) vs @ h \<and> ok v \<and> (\<forall>u\<in>set vs. \<not> ok u)"
proof (rule poll_trace.raw_induct
    [where P = "\<lambda>W a ok h h'. \<exists>v vs. h' = Rd a v # map (Rd a) vs @ h \<and> ok v \<and> (\<forall>u\<in>set vs. \<not> ok u)",
      OF _ assms])
  fix f W a ok h h'
  assume IH: "\<And>W a ok h h'. f W a ok h = Some h' \<Longrightarrow>
      \<exists>v vs. h' = Rd a v # map (Rd a) vs @ h \<and> ok v \<and> (\<forall>u\<in>set vs. \<not> ok u)"
    and eq: "(if ok (reg_in W h a) then Some (Rd a (reg_in W h a) # h)
       else f W a ok (Rd a (reg_in W h a) # h)) = Some h'"
  let ?x = "reg_in W h a"
  show "\<exists>v vs. h' = Rd a v # map (Rd a) vs @ h \<and> ok v \<and> (\<forall>u\<in>set vs. \<not> ok u)"
  proof (cases "ok ?x")
    case True
    with eq have "h' = Rd a ?x # map (Rd a) [] @ h" by simp
    with True show ?thesis by fastforce
  next
    case False
    with eq have "f W a ok (Rd a ?x # h) = Some h'" by simp
    then obtain v vs where "h' = Rd a v # map (Rd a) vs @ Rd a ?x # h" "ok v" "\<forall>u\<in>set vs. \<not> ok u"
      using IH by blast
    then have "h' = Rd a v # map (Rd a) (vs @ [?x]) @ h \<and> ok v \<and> (\<forall>u\<in>set (vs @ [?x]). \<not> ok u)"
      using False by simp
    then show ?thesis by blast
  qed
qed

lemma wp_poll:
  assumes "\<And>v vs. ok v \<Longrightarrow> \<forall>u\<in>set vs. \<not> ok u \<Longrightarrow>
      Q () (s\<lparr>trace := Rd a v # map (Rd a) vs @ trace s\<rparr>)"
  shows "wp (pollM W a ok) Q H s"
  using assms by (auto simp: wp_def pollM_def split: option.splits dest: poll_trace_Some)

text \<open>
  \<open>ends m Q s\<close>: \<open>m\<close> returns some \<open>x\<close> in a state \<open>t\<close> with \<open>Q x t\<close>.  This is total: the run
  ends, and without leaving the loader.
\<close>

definition ends :: "'a prog \<Rightarrow> ('a \<Rightarrow> fsbl \<Rightarrow> bool) \<Rightarrow> fsbl \<Rightarrow> bool" where
  "ends m Q s \<longleftrightarrow> (\<exists>x t. m s = Some (Ret x, t) \<and> Q x t)"

lemma ends_wp: "ends m Q s \<Longrightarrow> wp m Q H s"
  by (auto simp: ends_def wp_def)

lemma ends_iff: "ends m Q s \<longleftrightarrow> m s \<noteq> None \<and> wp m Q (\<lambda>_ _. False) s"
  by (auto simp: ends_def wp_def split: option.splits res.splits)

lemma ends_mono: "ends m Q s \<Longrightarrow> (\<And>x t. Q x t \<Longrightarrow> Q' x t) \<Longrightarrow> ends m Q' s"
  by (auto simp: ends_def)

lemma ends_ret [ends_eq]: "ends (retM x) Q s = Q x s"
  and ends_get [ends_eq]: "ends (getM f) Q s = Q (f s) s"
  by (simp_all add: ends_def retM_def getM_def)

lemma ends_mod [ends_eq]: "ends (modM g) Q s = Q () (g s)"
  by (simp add: ends_def modM_def)

lemma ends_bind [ends_eq]: "ends (bindM m f) Q s = ends m (\<lambda>x. ends (f x) Q) s"
  by (auto simp: ends_def bindM_def split: option.splits res.splits prod.splits)

lemma ends_seq [ends_eq]: "ends (seqM m n) Q s = ends m (\<lambda>_. ends n Q) s"
  by (simp add: seqM_def ends_bind)

lemma ends_if [ends_eq]: "ends (if b then m else n) Q s = (if b then ends m Q s else ends n Q s)"
  by simp

lemma ends_when [ends_eq]: "ends (whenM b m) Q s = (if b then ends m Q s else Q () s)"
  by (simp add: whenM_def ends_ret)

lemma ends_try [ends_eq]:
  "ends (tryM m k) Q s = ends m (\<lambda>x t. if x \<noteq> XFSBL_SUCCESS then Q x t else ends k Q t) s"
  by (auto simp: tryM_def ends_def bindM_def retM_def split: option.splits res.splits if_splits)

lemma ends_try_as [ends_eq]:
  "ends (tryM_as E m k) Q s = ends m (\<lambda>x t. if x \<noteq> XFSBL_SUCCESS then Q E t else ends k Q t) s"
  by (auto simp: tryM_as_def ends_def bindM_def retM_def split: option.splits res.splits if_splits)

lemma ends_log [ends_eq]: "ends (logM e) Q s = Q () (s\<lparr>trace := e # trace s\<rparr>)"
  by (simp add: logM_def ends_eq)

lemma ends_In32 [ends_eq]:
  "ends (XFsbl_In32 W a) Q s =
     Q (reg_in W (trace s) a) (s\<lparr>trace := Rd a (reg_in W (trace s) a) # trace s\<rparr>)"
  by (simp add: XFsbl_In32_def ends_eq)

lemma ends_Out32 [ends_eq]: "ends (XFsbl_Out32 a v) Q s = Q () (s\<lparr>trace := Wr a v # trace s\<rparr>)"
  by (simp add: XFsbl_Out32_def ends_eq)

lemma ends_ext [ends_eq]:
  "ends (extM W c) Q s = Q (ext_ret W (trace s) c) (s\<lparr>trace := Ext c (ext_ret W (trace s) c) # trace s\<rparr>)"
  by (simp add: extM_def ends_eq)

lemma ends_call [ends_eq]:
  "ends (callM W c) Q s = Q () (s\<lparr>trace := Ext c (ext_ret W (trace s) c) # trace s\<rparr>)"
  by (simp add: callM_def ends_eq)

lemma ends_copy [ends_eq]:
  "ends (copyM W c) Q s =
     Q (ext_ret W (trace s) c, ext_byte W (trace s) c)
       (s\<lparr>trace := Ext c (ext_ret W (trace s) c) # trace s\<rparr>)"
  by (simp add: copyM_def ends_eq)

lemma ends_seqs_Nil [ends_eq]: "ends (seqsM []) Q s = Q () s"
  by (simp add: ends_ret)

lemma ends_seqs_Cons [ends_eq]: "ends (seqsM (m # ms)) Q s = ends m (\<lambda>_. ends (seqsM ms) Q) s"
  by (simp add: ends_seq)

lemma ends_rmw [ends_eq]:
  "ends (rmwM W a f) Q s =
     Q () (s\<lparr>trace := Wr a (f (reg_in W (trace s) a)) # Rd a (reg_in W (trace s) a) # trace s\<rparr>)"
  by (simp add: rmwM_def ends_eq)

lemma ends_bound [ends_eq]: "ends (boundM i n) Q s = (unat i < n \<and> Q () s)"
  by (auto simp: boundM_def ends_eq) (simp add: ends_def haltM_def)

lemma ends_get_PartitionHeader [ends_eq]:
  "ends (get_PartitionHeader i) Q s = (unat i < 32 \<and> Q (PartitionHeader s ! unat i) s)"
  by (simp add: get_PartitionHeader_def ends_eq)

text \<open>A polling loop whose condition holds at once.\<close>

lemma ends_poll:
  "ok (reg_in W (trace s) a) \<Longrightarrow> Q () (s\<lparr>trace := Rd a (reg_in W (trace s) a) # trace s\<rparr>) \<Longrightarrow>
   ends (pollM W a ok) Q s"
  by (simp add: ends_def pollM_def poll_trace.simps)

text \<open>One turn of a loop.\<close>

lemma ends_iter:
  assumes "ends (f x) (\<lambda>z t. case z of Inl y \<Rightarrow> Q y t | Inr x' \<Rightarrow> ends (iterM f x') Q t) s"
  shows "ends (iterM f x) Q s"
proof -
  obtain z t where "f x s = Some (Ret z, t)" "case z of Inl y \<Rightarrow> Q y t | Inr x' \<Rightarrow> ends (iterM f x') Q t"
    using assms by (auto simp: ends_def)
  then show ?thesis by (cases z) (auto simp: ends_def iterM.simps [of f x s])
qed

section \<open>Invariants kept by an operation\<close>

text \<open>
  \<open>keeps E I m\<close>: from a state with \<open>I\<close>, \<open>m\<close> ends in a state with \<open>I\<close>, and it leaves the
  loader only through an exit allowed by \<open>E\<close>.
\<close>

definition keeps :: "(exit \<Rightarrow> bool) \<Rightarrow> (fsbl \<Rightarrow> bool) \<Rightarrow> 'a prog \<Rightarrow> bool" where
  "keeps E I m \<longleftrightarrow> (\<forall>s. I s \<longrightarrow> wp m (\<lambda>_. I) (\<lambda>e t. E e \<and> I t) s)"

abbreviation any_exit :: "exit \<Rightarrow> bool" where
  "any_exit \<equiv> \<lambda>_. True"

abbreviation no_exit :: "exit \<Rightarrow> bool" where
  "no_exit \<equiv> \<lambda>_. False"

lemma keepsD: "keeps E I m \<Longrightarrow> I s \<Longrightarrow> wp m (\<lambda>_. I) (\<lambda>e t. E e \<and> I t) s"
  by (simp add: keeps_def)

lemma keeps_Some: "keeps E I m \<Longrightarrow> I s \<Longrightarrow> m s = Some (r, t) \<Longrightarrow> I t"
  by (cases r) (force simp: keeps_def wp_def)+

lemma keeps_Halted: "keeps E I m \<Longrightarrow> I s \<Longrightarrow> m s = Some (Halted e, t) \<Longrightarrow> E e"
  by (force simp: keeps_def wp_def)

lemma keeps_ret [keeps_intro]: "keeps E I (retM x)"
  and keeps_get [keeps_intro]: "keeps E I (getM f)"
  by (simp_all add: keeps_def wp_eq)

lemma keeps_halt [keeps_intro]: "E e \<Longrightarrow> keeps E I (haltM e)"
  by (simp add: keeps_def wp_eq)

lemma keeps_bound [keeps_intro]: "E OutOfBounds \<or> unat i < n \<Longrightarrow> keeps E I (boundM i n)"
  by (auto simp: keeps_def wp_eq)

lemma keeps_mod: "(\<And>s. I s \<Longrightarrow> I (g s)) \<Longrightarrow> keeps E I (modM g)"
  by (simp add: keeps_def wp_eq)

lemma keeps_bind [keeps_intro]:
  "keeps E I m \<Longrightarrow> (\<And>x. keeps E I (f x)) \<Longrightarrow> keeps E I (bindM m f)"
  by (auto simp: keeps_def wp_bind intro: wp_mono)

text \<open>What is read from the state may be used afterwards.\<close>

lemma keeps_get_bind:
  "(\<And>s. I s \<Longrightarrow> keeps E I (k (f s))) \<Longrightarrow> keeps E I (bindM (getM f) k)"
  by (simp add: keeps_def wp_eq)

lemma keeps_get_header_bind:
  "E OutOfBounds \<or> unat i < 32 \<Longrightarrow> (\<And>s. I s \<Longrightarrow> keeps E I (k (PartitionHeader s ! unat i))) \<Longrightarrow>
   keeps E I (bindM (get_PartitionHeader i) k)"
  by (auto simp: keeps_def wp_eq)

lemma keeps_seq [keeps_intro]: "keeps E I m \<Longrightarrow> keeps E I n \<Longrightarrow> keeps E I (seqM m n)"
  by (simp add: seqM_def keeps_bind)

lemma keeps_if [keeps_intro]:
  "(b \<Longrightarrow> keeps E I m) \<Longrightarrow> (\<not> b \<Longrightarrow> keeps E I n) \<Longrightarrow> keeps E I (if b then m else n)"
  by simp

lemma keeps_when [keeps_intro]: "(b \<Longrightarrow> keeps E I m) \<Longrightarrow> keeps E I (whenM b m)"
  by (simp add: whenM_def keeps_ret)

lemma keeps_try [keeps_intro]: "keeps E I m \<Longrightarrow> keeps E I k \<Longrightarrow> keeps E I (tryM m k)"
  by (simp add: tryM_def keeps_bind keeps_ret)

lemma keeps_try_as [keeps_intro]: "keeps E I m \<Longrightarrow> keeps E I k \<Longrightarrow> keeps E I (tryM_as F m k)"
  by (simp add: tryM_as_def keeps_bind keeps_ret)

lemma keeps_seqs_Nil [keeps_intro]: "keeps E I (seqsM [])"
  by (simp add: keeps_ret)

lemma keeps_seqs_Cons [keeps_intro]:
  "keeps E I m \<Longrightarrow> keeps E I (seqsM ms) \<Longrightarrow> keeps E I (seqsM (m # ms))"
  by (simp add: keeps_seq)

lemma keeps_get_PartitionHeader [keeps_intro]:
  "E OutOfBounds \<or> unat i < 32 \<Longrightarrow> keeps E I (get_PartitionHeader i)"
  by (simp add: get_PartitionHeader_def keeps_intro)

lemma keeps_case_prod [keeps_intro]:
  "(\<And>x y. z = (x, y) \<Longrightarrow> keeps E I (f x y)) \<Longrightarrow> keeps E I (case z of (x, y) \<Rightarrow> f x y)"
  by (simp split: prod.split)

lemma keeps_case_option [keeps_intro]:
  "keeps E I m \<Longrightarrow> (\<And>x. keeps E I (f x)) \<Longrightarrow> keeps E I (case z of None \<Rightarrow> m | Some x \<Rightarrow> f x)"
  by (simp split: option.split)

lemma keeps_case_sum [keeps_intro]:
  "(\<And>x. keeps E I (f x)) \<Longrightarrow> (\<And>y. keeps E I (g y)) \<Longrightarrow> keeps E I (case z of Inl x \<Rightarrow> f x | Inr y \<Rightarrow> g y)"
  by (simp split: sum.split)

lemma keeps_seqs: "(\<And>m. m \<in> set ms \<Longrightarrow> keeps E I m) \<Longrightarrow> keeps E I (seqsM ms)"
  by (induction ms) (auto intro!: keeps_intro)

text \<open>An invariant of the body, with the variables of the loop, is one of the loop.\<close>

lemma iterM_wp:
  assumes "\<And>x s. I x s \<Longrightarrow> wp (f x) (\<lambda>z t. case z of Inl y \<Rightarrow> Q y t | Inr x' \<Rightarrow> I x' t) H s" and "I x s"
  shows "wp (iterM f x) Q H s"
proof -
  have "g = f \<longrightarrow> I x s \<longrightarrow> (case y of (r, t) \<Rightarrow> case r of Ret z \<Rightarrow> Q z t | Halted e \<Rightarrow> H e t)"
    if "iterM g x s = Some y" for g y
  proof (rule iterM.raw_induct [where P = "\<lambda>g x s y. g = f \<longrightarrow> I x s \<longrightarrow>
      (case y of (r, t) \<Rightarrow> case r of Ret z \<Rightarrow> Q z t | Halted e \<Rightarrow> H e t)" and xa = "((g, x), s)" and y = y,
      unfolded prod.case, OF _ that])
    fix loop :: "('a \<Rightarrow> ('b + 'a) prog) \<Rightarrow> 'a \<Rightarrow> fsbl \<Rightarrow> ('b res \<times> fsbl) option" and g x s y
    assume IH: "\<And>g x s y. loop g x s = Some y \<Longrightarrow> g = f \<longrightarrow> I x s \<longrightarrow>
        (case y of (r, t) \<Rightarrow> case r of Ret z \<Rightarrow> Q z t | Halted e \<Rightarrow> H e t)"
      and step: "(case g x s of None \<Rightarrow> None
        | Some (r, t) \<Rightarrow> (case r of Ret z \<Rightarrow> (case z of Inl y \<Rightarrow> Some (Ret y, t) | Inr x' \<Rightarrow> loop g x' t)
           | Halted e \<Rightarrow> Some (Halted e, t))) = Some y"
    show "g = f \<longrightarrow> I x s \<longrightarrow> (case y of (r, t) \<Rightarrow> case r of Ret z \<Rightarrow> Q z t | Halted e \<Rightarrow> H e t)"
    proof (intro impI)
      assume [simp]: "g = f" and "I x s"
      have "wp (f x) (\<lambda>z t. case z of Inl y \<Rightarrow> Q y t | Inr x' \<Rightarrow> I x' t) H s" using assms(1) \<open>I x s\<close> .
      with step IH [of f] show "case y of (r, t) \<Rightarrow> case r of Ret z \<Rightarrow> Q z t | Halted e \<Rightarrow> H e t"
        by (force simp: wp_def split: option.splits res.splits sum.splits prod.splits)
    qed
  qed
  then show ?thesis using assms(2) by (auto simp: wp_def split: option.splits)
qed

lemma keeps_iter: "(\<And>x. keeps E I (f x)) \<Longrightarrow> keeps E I (iterM f x)"
  unfolding keeps_def
proof (intro allI impI)
  fix s assume "\<And>x. \<forall>s. I s \<longrightarrow> wp (f x) (\<lambda>_. I) (\<lambda>e t. E e \<and> I t) s" and "I s"
  then show "wp (iterM f x) (\<lambda>_. I) (\<lambda>e t. E e \<and> I t) s"
    by (intro iterM_wp [where I = "\<lambda>_. I"]) (auto elim: wp_mono split: sum.split)
qed

text \<open>
  The interface between the hardware and a component: an invariant of the instance that
  every step of the history respects.  All register-level operations keep such an invariant;
  what is proved in the locale holds for each of the invariants the components interpret
  it with.
\<close>

locale io_closed =
  fixes I :: "fsbl \<Rightarrow> bool"
  assumes io_step: "I s \<Longrightarrow> I (s\<lparr>trace := e # trace s\<rparr>)"
begin

lemma io_reads: "I s \<Longrightarrow> I (s\<lparr>trace := map (Rd a) vs @ trace s\<rparr>)"
proof (induction vs)
  case (Cons v vs)
  then have "I (s\<lparr>trace := map (Rd a) vs @ trace s\<rparr>)" by simp
  from io_step [OF this, of "Rd a v"] show ?case by simp
qed simp

lemma keeps_log: "keeps E I (logM e)"
  by (simp add: keeps_def wp_eq io_step)

lemma keeps_In32: "keeps E I (XFsbl_In32 W a)"
  by (simp add: keeps_def wp_eq io_step)

lemma keeps_Out32: "keeps E I (XFsbl_Out32 a v)"
  by (simp add: keeps_def wp_eq io_step)

lemma keeps_ext: "keeps E I (extM W c)"
  by (simp add: keeps_def wp_eq io_step)

lemma keeps_call: "keeps E I (callM W c)"
  by (simp add: keeps_def wp_eq io_step)

lemma keeps_copy: "keeps E I (copyM W c)"
  by (simp add: keeps_def wp_eq io_step)

lemma keeps_rmw: "keeps E I (rmwM W a f)"
  by (simp add: rmwM_def keeps_bind keeps_In32 keeps_Out32)

lemma keeps_poll: "keeps E I (pollM W a ok)"
  unfolding keeps_def
proof (intro allI impI)
  fix s assume "I s"
  show "wp (pollM W a ok) (\<lambda>_. I) (\<lambda>e t. E e \<and> I t) s"
  proof (rule wp_poll)
    fix v vs
    have "I (s\<lparr>trace := map (Rd a) (v # vs) @ trace s\<rparr>)"
      using \<open>I s\<close> by (rule io_reads)
    then show "I (s\<lparr>trace := Rd a v # map (Rd a) vs @ trace s\<rparr>)" by simp
  qed
qed

lemmas io_keeps = keeps_log keeps_In32 keeps_Out32 keeps_ext keeps_call keeps_copy keeps_rmw keeps_poll

end

text \<open>
  The same for an invariant that all steps keep but the \<open>noisy\<close> ones, to which no access of a register belongs.
\<close>

locale quiet_io =
  fixes I :: "fsbl \<Rightarrow> bool" and noisy :: "io \<Rightarrow> bool"
  assumes quiet_step: "I s \<Longrightarrow> \<not> noisy e \<Longrightarrow> I (s\<lparr>trace := e # trace s\<rparr>)"
    and registers_quiet: "\<not> noisy (Rd a v)" "\<not> noisy (Wr a v)"
begin

lemma quiet_reads: "I s \<Longrightarrow> I (s\<lparr>trace := map (Rd a) vs @ trace s\<rparr>)"
proof (induction vs)
  case (Cons v vs)
  then have "I (s\<lparr>trace := map (Rd a) vs @ trace s\<rparr>)" by simp
  from quiet_step [OF this, of "Rd a v"] show ?case by (simp add: registers_quiet)
qed simp

lemma quiet_In32: "keeps E I (XFsbl_In32 W a)"
  and quiet_Out32: "keeps E I (XFsbl_Out32 a v)"
  by (simp_all add: keeps_def wp_eq quiet_step registers_quiet)

lemma quiet_rmw: "keeps E I (rmwM W a f)"
  unfolding rmwM_def by (intro keeps_intro quiet_In32 quiet_Out32)

lemma quiet_ext: "(\<And>v. \<not> noisy (Ext c v)) \<Longrightarrow> keeps E I (extM W c)"
  and quiet_call: "(\<And>v. \<not> noisy (Ext c v)) \<Longrightarrow> keeps E I (callM W c)"
  and quiet_copy: "(\<And>v. \<not> noisy (Ext c v)) \<Longrightarrow> keeps E I (copyM W c)"
  by (simp_all add: keeps_def wp_eq quiet_step)

lemma quiet_poll: "keeps E I (pollM W a ok)"
  unfolding keeps_def
proof (intro allI impI)
  fix s assume "I s"
  show "wp (pollM W a ok) (\<lambda>_. I) (\<lambda>e t. E e \<and> I t) s"
  proof (rule wp_poll)
    fix v vs
    have "I (s\<lparr>trace := map (Rd a) (v # vs) @ trace s\<rparr>)"
      using \<open>I s\<close> by (rule quiet_reads)
    then show "I (s\<lparr>trace := Rd a v # map (Rd a) vs @ trace s\<rparr>)" by simp
  qed
qed

lemmas quiet_keeps = quiet_In32 quiet_Out32 quiet_rmw quiet_poll quiet_ext quiet_call quiet_copy

end

text \<open>A predicate that does not mention the history at all is such an invariant.\<close>

locale io_stable =
  fixes I :: "fsbl \<Rightarrow> bool"
  assumes io_indep: "I (s\<lparr>trace := h\<rparr>) = I s"

sublocale io_stable \<subseteq> io_closed I
  by unfold_locales (simp add: io_indep)

text \<open>Operations that only extend the history.\<close>

interpretation still: io_stable "\<lambda>t. t\<lparr>trace := []\<rparr> = s\<lparr>trace := []\<rparr>" for s
  by unfold_locales simp

text \<open>
  An invariant that the buffers of the loader and its record of initialised memories do not
  affect either: the operations that load, check and decrypt a partition keep it.
\<close>

locale buffers_closed = io_closed +
  assumes ReadBuffer_step: "I s \<Longrightarrow> I (s\<lparr>ReadBuffer := b\<rparr>)"
    and AuthBuffer_step: "I s \<Longrightarrow> I (s\<lparr>AuthBuffer := b\<rparr>)"
    and EfusePpkKey_step: "I s \<Longrightarrow> I (s\<lparr>EfusePpkKey := b\<rparr>)"
    and TcmEccInitStatus_step: "I s \<Longrightarrow> I (s\<lparr>TcmEccInitStatus := f\<rparr>)"
begin

lemma keeps_ReadBuffer: "keeps E I (modM (\<lambda>s. s\<lparr>ReadBuffer := g s\<rparr>))"
  and keeps_AuthBuffer: "keeps E I (modM (\<lambda>s. s\<lparr>AuthBuffer := g s\<rparr>))"
  and keeps_EfusePpkKey: "keeps E I (modM (\<lambda>s. s\<lparr>EfusePpkKey := g s\<rparr>))"
  and keeps_TcmEccInitStatus: "keeps E I (modM (\<lambda>s. s\<lparr>TcmEccInitStatus := h s\<rparr>))"
  by (auto intro!: keeps_mod ReadBuffer_step AuthBuffer_step EfusePpkKey_step TcmEccInitStatus_step)

lemmas buffer_keeps = keeps_ReadBuffer keeps_AuthBuffer keeps_EfusePpkKey keeps_TcmEccInitStatus

end

section \<open>What success establishes\<close>

text \<open>
  \<open>establishes I Q m\<close>: from a state with \<open>I\<close>, if \<open>m\<close> returns \<open>XFSBL_SUCCESS\<close> then \<open>Q\<close>
  holds.  In a chain of calls it is enough that one of them establishes \<open>Q\<close>, that the ones
  before it keep \<open>I\<close> and the ones after it keep \<open>Q\<close>.
\<close>

definition establishes :: "(fsbl \<Rightarrow> bool) \<Rightarrow> (fsbl \<Rightarrow> bool) \<Rightarrow> u32 prog \<Rightarrow> bool" where
  "establishes I Q m \<longleftrightarrow> (\<forall>s. I s \<longrightarrow> wp m (\<lambda>x t. x = XFSBL_SUCCESS \<longrightarrow> Q t) (\<lambda>_ _. True) s)"

lemma establishesD: "establishes I Q m \<Longrightarrow> I s \<Longrightarrow> m s = Some (Ret XFSBL_SUCCESS, t) \<Longrightarrow> Q t"
  by (auto simp: establishes_def wp_def)

lemma establishes_fail: "x \<noteq> XFSBL_SUCCESS \<Longrightarrow> establishes I Q (retM x)"
  by (simp add: establishes_def wp_eq)

lemma establishes_keeps: "keeps any_exit Q m \<Longrightarrow> (\<And>s. I s \<Longrightarrow> Q s) \<Longrightarrow> establishes I Q m"
  by (fastforce simp: establishes_def keeps_def intro: wp_mono)

lemma establishes_if:
  "(b \<Longrightarrow> establishes I Q m) \<Longrightarrow> (\<not> b \<Longrightarrow> establishes I Q n) \<Longrightarrow> establishes I Q (if b then m else n)"
  by simp

lemma establishes_bind:
  "keeps any_exit I m \<Longrightarrow> (\<And>x. establishes I Q (f x)) \<Longrightarrow> establishes I Q (bindM m f)"
  unfolding establishes_def keeps_def wp_bind by (blast intro: wp_mono)

lemma establishes_get_bind:
  "(\<And>s. I s \<Longrightarrow> establishes I Q (k (f s))) \<Longrightarrow> establishes I Q (bindM (getM f) k)"
  by (simp add: establishes_def wp_eq)

lemma establishes_seq:
  "keeps any_exit I m \<Longrightarrow> establishes I Q n \<Longrightarrow> establishes I Q (seqM m n)"
  by (simp add: seqM_def establishes_bind)

lemma establishes_try_second:
  "keeps any_exit I m \<Longrightarrow> establishes I Q k \<Longrightarrow> establishes I Q (tryM m k)"
  by (simp add: tryM_def establishes_bind establishes_if establishes_fail)

lemma establishes_try_as_second:
  "keeps any_exit I m \<Longrightarrow> establishes I Q k \<Longrightarrow> F \<noteq> XFSBL_SUCCESS \<Longrightarrow> establishes I Q (tryM_as F m k)"
  by (simp add: tryM_as_def establishes_bind establishes_if establishes_fail)

lemma establishes_try_chain:
  assumes "establishes I J m" and "establishes J Q k"
  shows "establishes I Q (tryM m k)"
  unfolding establishes_def wp_try
proof (intro allI impI)
  fix s assume "I s"
  with assms(1) have "wp m (\<lambda>x t. x = XFSBL_SUCCESS \<longrightarrow> J t) (\<lambda>_ _. True) s"
    by (simp add: establishes_def)
  then show "wp m (\<lambda>x t. if x \<noteq> XFSBL_SUCCESS then x = XFSBL_SUCCESS \<longrightarrow> Q t
      else wp k (\<lambda>x t. x = XFSBL_SUCCESS \<longrightarrow> Q t) (\<lambda>_ _. True) t) (\<lambda>_ _. True) s"
    by (rule wp_mono) (use assms(2) in \<open>auto simp: establishes_def\<close>)
qed

lemma establishes_try_first:
  assumes "establishes I Q m" and "keeps any_exit Q k"
  shows "establishes I Q (tryM m k)"
  unfolding establishes_def wp_try
proof (intro allI impI)
  fix s assume "I s"
  with assms(1) have "wp m (\<lambda>x t. x = XFSBL_SUCCESS \<longrightarrow> Q t) (\<lambda>_ _. True) s"
    by (simp add: establishes_def)
  then show "wp m (\<lambda>x t. if x \<noteq> XFSBL_SUCCESS then x = XFSBL_SUCCESS \<longrightarrow> Q t
      else wp k (\<lambda>x t. x = XFSBL_SUCCESS \<longrightarrow> Q t) (\<lambda>_ _. True) t) (\<lambda>_ _. True) s"
    by (rule wp_mono) (use assms(2) in \<open>auto simp: keeps_def intro: wp_mono\<close>)
qed

lemma establishes_try_as_first:
  assumes "establishes I Q m" and "keeps any_exit Q k" and "F \<noteq> XFSBL_SUCCESS"
  shows "establishes I Q (tryM_as F m k)"
  unfolding establishes_def wp_try_as
proof (intro allI impI)
  fix s assume "I s"
  with assms(1) have "wp m (\<lambda>x t. x = XFSBL_SUCCESS \<longrightarrow> Q t) (\<lambda>_ _. True) s"
    by (simp add: establishes_def)
  then show "wp m (\<lambda>x t. if x \<noteq> XFSBL_SUCCESS then F = XFSBL_SUCCESS \<longrightarrow> Q t
      else wp k (\<lambda>x t. x = XFSBL_SUCCESS \<longrightarrow> Q t) (\<lambda>_ _. True) t) (\<lambda>_ _. True) s"
    by (rule wp_mono) (use assms(2,3) in \<open>auto simp: keeps_def intro: wp_mono\<close>)
qed

lemma establishes_mono: "establishes I Q m \<Longrightarrow> (\<And>s. Q s \<Longrightarrow> Q' s) \<Longrightarrow> establishes I Q' m"
  by (auto simp: establishes_def intro: wp_mono)

lemma establishes_case_prod:
  "(\<And>x y. z = (x, y) \<Longrightarrow> establishes I Q (f x y)) \<Longrightarrow> establishes I Q (case z of (x, y) \<Rightarrow> f x y)"
  by (simp split: prod.split)

lemma establishes_get_bind_value:
  "(\<And>x. establishes (\<lambda>s. I s \<and> f s = x) Q (k x)) \<Longrightarrow> establishes I Q (bindM (getM f) k)"
  by (simp add: establishes_def wp_eq)

lemma establishes_In32_bind:
  "(\<And>s. I s \<Longrightarrow> I (s\<lparr>trace := Rd a (reg_in W (trace s) a) # trace s\<rparr>) \<and> establishes I Q (k (reg_in W (trace s) a))) \<Longrightarrow>
   establishes I Q (bindM (XFsbl_In32 W a) k)"
  by (simp add: establishes_def wp_eq)

section \<open>What the history contains\<close>

text \<open>\<open>unwritten a h\<close>: no step of the history \<open>h\<close> writes register \<open>a\<close>.\<close>

definition unwritten :: "u32 \<Rightarrow> io list \<Rightarrow> bool" where
  "unwritten a h \<longleftrightarrow> (\<forall>e\<in>set h. case e of Wr b v \<Rightarrow> b \<noteq> a | _ \<Rightarrow> True)"

lemma unwritten_simps [simp]:
  "unwritten a []" "unwritten a (Rd b v # h) = unwritten a h" "unwritten a (Ext c v # h) = unwritten a h"
  "unwritten a (Wr b v # h) \<longleftrightarrow> b \<noteq> a \<and> unwritten a h"
  "unwritten a (h @ g) \<longleftrightarrow> unwritten a h \<and> unwritten a g" "unwritten a (map (Rd b) vs)"
  by (auto simp: unwritten_def)

text \<open>
  \<open>since h0 P\<close>: the history has grown from \<open>h0\<close> by a part with \<open>P\<close>.  \<open>contains B pre\<close>: that
  part has a block of steps with \<open>B\<close> (most recent step first), preceded by a part with \<open>pre\<close>.
\<close>

definition since :: "io list \<Rightarrow> (io list \<Rightarrow> bool) \<Rightarrow> fsbl \<Rightarrow> bool" where
  "since h0 P s \<longleftrightarrow> (\<exists>h. trace s = h @ h0 \<and> P h)"

definition contains :: "(io list \<Rightarrow> bool) \<Rightarrow> (io list \<Rightarrow> bool) \<Rightarrow> io list \<Rightarrow> bool" where
  "contains B pre h \<longleftrightarrow> (\<exists>later b earlier. h = later @ b @ earlier \<and> B b \<and> pre earlier)"

lemma contains_now: "B b \<Longrightarrow> pre h \<Longrightarrow> contains B pre (b @ h)"
  unfolding contains_def by (metis append_Nil)

lemma contains_later: "contains B pre h \<Longrightarrow> contains B pre (e # h)"
  unfolding contains_def by (metis append_Cons)

lemma contains_any: "contains (\<lambda>b. b = []) (\<lambda>_. True) h"
  unfolding contains_def by (intro exI [of _ h] exI [of _ "[]"]) simp

lemma contains_mono: "contains B pre h \<Longrightarrow> (\<And>h. pre h \<Longrightarrow> pre' h) \<Longrightarrow> contains B pre' h"
  by (auto simp: contains_def)

lemma since_start: "since (trace s) (contains (\<lambda>b. b = []) (\<lambda>_. True)) s"
  by (simp add: since_def contains_any)

lemma since_mono: "since h0 P s \<Longrightarrow> (\<And>h. P h \<Longrightarrow> P' h) \<Longrightarrow> since h0 P' s"
  by (auto simp: since_def)

lemma since_now:
  "since h0 pre s \<Longrightarrow> trace t = b @ trace s \<Longrightarrow> B b \<Longrightarrow> since h0 (contains B pre) t"
  by (auto simp: since_def intro: contains_now)

interpretation happened: buffers_closed "since h0 (contains B pre)" for h0 B pre
  by unfold_locales (auto simp: since_def dest: contains_later [where e = "_"])


lemma establishes_frame:
  assumes "establishes I Q m" and "keeps any_exit F m"
  shows "establishes (\<lambda>s. I s \<and> F s) (\<lambda>s. Q s \<and> F s) m"
  unfolding establishes_def
proof (intro allI impI)
  fix s assume "I s \<and> F s"
  with assms have "wp m (\<lambda>x t. x = XFSBL_SUCCESS \<longrightarrow> Q t) (\<lambda>_ _. True) s" "wp m (\<lambda>_. F) (\<lambda>e t. True \<and> F t) s"
    by (simp_all add: establishes_def keeps_def)
  from wp_conj [OF this] show "wp m (\<lambda>x t. x = XFSBL_SUCCESS \<longrightarrow> Q t \<and> F t) (\<lambda>_ _. True) s"
    by (rule wp_mono) auto
qed

section \<open>Operations that return\<close>

definition returns :: "'a prog \<Rightarrow> bool" where
  "returns m \<longleftrightarrow> (\<forall>s. m s \<noteq> None)"

lemma returnsD: "returns m \<Longrightarrow> \<exists>r t. m s = Some (r, t)"
  by (auto simp: returns_def)

lemma returns_ret [returns_intro]: "returns (retM x)"
  and returns_halt [returns_intro]: "returns (haltM e)"
  and returns_get [returns_intro]: "returns (getM f)"
  and returns_mod [returns_intro]: "returns (modM g)"
  by (simp_all add: returns_def retM_def haltM_def getM_def modM_def)

lemma returns_bind [returns_intro]:
  "returns m \<Longrightarrow> (\<And>x. returns (f x)) \<Longrightarrow> returns (bindM m f)"
  by (auto simp: returns_def bindM_def split: option.splits res.splits)

lemma returns_seq [returns_intro]: "returns m \<Longrightarrow> returns n \<Longrightarrow> returns (seqM m n)"
  by (simp add: seqM_def returns_bind)

lemma returns_if [returns_intro]: "returns m \<Longrightarrow> returns n \<Longrightarrow> returns (if b then m else n)"
  by simp

lemma returns_when [returns_intro]: "returns m \<Longrightarrow> returns (whenM b m)"
  by (simp add: whenM_def returns_ret)

lemma returns_try [returns_intro]: "returns m \<Longrightarrow> returns k \<Longrightarrow> returns (tryM m k)"
  by (simp add: tryM_def returns_bind returns_ret)

lemma returns_try_as [returns_intro]: "returns m \<Longrightarrow> returns k \<Longrightarrow> returns (tryM_as E m k)"
  by (simp add: tryM_as_def returns_bind returns_ret)

lemma returns_seqs_Nil [returns_intro]: "returns (seqsM [])"
  by (simp add: returns_ret)

lemma returns_seqs_Cons [returns_intro]:
  "returns m \<Longrightarrow> returns (seqsM ms) \<Longrightarrow> returns (seqsM (m # ms))"
  by (simp add: returns_seq)

lemma returns_case_prod [returns_intro]:
  "(\<And>x y. returns (f x y)) \<Longrightarrow> returns (case z of (x, y) \<Rightarrow> f x y)"
  by (simp split: prod.split)

lemma returns_log [returns_intro]: "returns (logM e)"
  and returns_In32 [returns_intro]: "returns (XFsbl_In32 W a)"
  and returns_Out32 [returns_intro]: "returns (XFsbl_Out32 a v)"
  and returns_ext [returns_intro]: "returns (extM W c)"
  and returns_call [returns_intro]: "returns (callM W c)"
  and returns_copy [returns_intro]: "returns (copyM W c)"
  and returns_rmw [returns_intro]: "returns (rmwM W a g)"
  and returns_bound [returns_intro]: "returns (boundM i n)"
  and returns_get_PartitionHeader [returns_intro]: "returns (get_PartitionHeader i)"
  by (simp_all add: logM_def XFsbl_In32_def XFsbl_Out32_def extM_def callM_def copyM_def rmwM_def
      boundM_def get_PartitionHeader_def returns_intro)

lemma returns_poll: "(\<And>h. poll_trace W a ok h \<noteq> None) \<Longrightarrow> returns (pollM W a ok)"
  by (auto simp: returns_def pollM_def split: option.splits)

lemma returns_case_option [returns_intro]:
  "returns m \<Longrightarrow> (\<And>x. returns (f x)) \<Longrightarrow> returns (case z of None \<Rightarrow> m | Some x \<Rightarrow> f x)"
  by (simp split: option.split)

lemma returns_case_sum [returns_intro]:
  "(\<And>x. returns (f x)) \<Longrightarrow> (\<And>y. returns (g y)) \<Longrightarrow> returns (case z of Inl x \<Rightarrow> f x | Inr y \<Rightarrow> g y)"
  by (simp split: sum.split)

lemma returns_seqs: "(\<And>m. m \<in> set ms \<Longrightarrow> returns m) \<Longrightarrow> returns (seqsM ms)"
  by (induction ms) (auto intro!: returns_intro)

text \<open>A loop whose body returns and decreases a measure.\<close>

lemma returns_iter:
  assumes "\<And>x. P x \<Longrightarrow> returns (f x)" and "P x"
    and "\<And>x s x' t. P x \<Longrightarrow> f x s = Some (Ret (Inr x'), t) \<Longrightarrow> P x' \<and> m x' < (m x :: nat)"
  shows "returns (iterM f x)"
proof -
  have "iterM f x s \<noteq> None" for s
    using assms(2)
  proof (induction "m x" arbitrary: x s rule: less_induct)
    case less
    obtain r t where step: "f x s = Some (r, t)" using returnsD [OF assms(1) [OF less.prems]] by blast
    show ?case
    proof (cases "\<exists>x'. r = Ret (Inr x')")
      case True
      then obtain x' where "r = Ret (Inr x')" by blast
      with step less assms(3) [OF less.prems, of s x' t] show ?thesis by (subst iterM.simps) auto
    next
      case False
      with step show ?thesis by (subst iterM.simps) (auto split: res.split sum.split)
    qed
  qed
  then show ?thesis by (simp add: returns_def)
qed

text \<open>An operation that returns but does not come back leaves the loader.\<close>

lemma leaves_total:
  assumes "returns m" and "wp m (\<lambda>_ _. False) H s"
  shows "\<exists>e t. m s = Some (Halted e, t) \<and> H e t"
proof -
  obtain r t where "m s = Some (r, t)" using returnsD [OF assms(1)] by blast
  with assms(2) show ?thesis by (cases r) (simp_all add: wp_def)
qed

section \<open>Answers\<close>

text \<open>
  \<open>answers Q m\<close>: whatever the state \<open>m\<close> starts from, what it returns satisfies \<open>Q\<close> together
  with the final state.
\<close>

definition answers :: "('a \<Rightarrow> fsbl \<Rightarrow> bool) \<Rightarrow> 'a prog \<Rightarrow> bool" where
  "answers Q m \<longleftrightarrow> (\<forall>s. wp m Q (\<lambda>_ _. True) s)"

lemma answersD: "answers Q m \<Longrightarrow> m s = Some (Ret x, t) \<Longrightarrow> Q x t"
  unfolding answers_def by (blast intro: wp_Ret)

lemma answers_ret [answers_intro]: "(\<And>t. Q x t) \<Longrightarrow> answers Q (retM x)"
  by (simp add: answers_def wp_eq)

lemma answers_halt [answers_intro]: "answers Q (haltM e)"
  by (simp add: answers_def wp_eq)

lemma answers_bind [answers_intro]: "(\<And>x. answers Q (f x)) \<Longrightarrow> answers Q (bindM m f)"
  by (auto simp: answers_def wp_eq intro: wp_mono [OF wp_True])

lemma answers_bind_after: "answers R m \<Longrightarrow> (\<And>x s. R x s \<Longrightarrow> wp (f x) Q (\<lambda>_ _. True) s) \<Longrightarrow> answers Q (bindM m f)"
  unfolding answers_def wp_bind by (intro allI, rule wp_mono, erule spec) simp_all

lemma answers_seq [answers_intro]: "answers Q n \<Longrightarrow> answers Q (seqM m n)"
  by (simp add: seqM_def answers_bind)

lemma answers_if [answers_intro]:
  "(b \<Longrightarrow> answers Q m) \<Longrightarrow> (\<not> b \<Longrightarrow> answers Q n) \<Longrightarrow> answers Q (if b then m else n)"
  by simp

lemma answers_try [answers_intro]:
  "answers (\<lambda>x t. x = XFSBL_SUCCESS \<or> Q x t) m \<Longrightarrow> answers Q k \<Longrightarrow> answers Q (tryM m k)"
  unfolding answers_def wp_try by (intro allI, rule wp_mono, erule spec) auto

lemma answers_try_as [answers_intro]:
  "(\<And>t. Q F t) \<Longrightarrow> answers Q k \<Longrightarrow> answers Q (tryM_as F m k)"
  by (auto simp: answers_def wp_eq intro!: wp_mono [OF wp_True])

lemma answers_case_option [answers_intro]:
  "answers Q m \<Longrightarrow> (\<And>x. answers Q (f x)) \<Longrightarrow> answers Q (case z of None \<Rightarrow> m | Some x \<Rightarrow> f x)"
  by (simp split: option.split)

lemma answers_case_sum [answers_intro]:
  "(\<And>x. answers Q (f x)) \<Longrightarrow> (\<And>y. answers Q (g y)) \<Longrightarrow> answers Q (case z of Inl x \<Rightarrow> f x | Inr y \<Rightarrow> g y)"
  by (simp split: sum.split)

lemma answers_case_prod [answers_intro]:
  "(\<And>x y. answers Q (f x y)) \<Longrightarrow> answers Q (case z of (x, y) \<Rightarrow> f x y)"
  by (simp split: prod.split)

lemma answers_mono: "answers Q m \<Longrightarrow> (\<And>x t. Q x t \<Longrightarrow> Q' x t) \<Longrightarrow> answers Q' m"
  by (auto simp: answers_def intro: wp_mono)

end
