(* ===== verification/Fsbl_Image_Header.thy ===== *)
theory Fsbl_Image_Header
  imports Fsbl_Machine
begin

text \<open>
  The image header of \<open>xfsbl_image_header.c\<close>: decoding of the image header table and of
  the partition headers, their checksum, the validation of every field, the reading loop
  and the entries handed to the ARM trusted firmware.

  A structure read from flash is decoded from its 64 bytes (\<open>iht_of_bytes\<close>,
  \<open>ph_of_bytes\<close>); the code's cast of the structure to \<open>u32[]\<close> for the checksum is the word
  view \<open>iht_words\<close>, \<open>ph_words\<close>.
\<close>

section \<open>Attribute fields of a partition header\<close>

definition XFsbl_GetPartitionOwner :: "XFsblPs_PartitionHeader \<Rightarrow> u32" where
  "XFsbl_GetPartitionOwner p = PartitionAttributes p AND XIH_PH_ATTRB_PART_OWNER_MASK"

definition XFsbl_IsRsaSignaturePresent :: "XFsblPs_PartitionHeader \<Rightarrow> u32" where
  "XFsbl_IsRsaSignaturePresent p = PartitionAttributes p AND XIH_PH_ATTRB_RSA_SIGNATURE_MASK"

definition XFsbl_GetChecksumType :: "XFsblPs_PartitionHeader \<Rightarrow> u32" where
  "XFsbl_GetChecksumType p = PartitionAttributes p AND XIH_PH_ATTRB_CHECKSUM_MASK"

definition XFsbl_GetDestinationCpu :: "XFsblPs_PartitionHeader \<Rightarrow> u32" where
  "XFsbl_GetDestinationCpu p = PartitionAttributes p AND XIH_PH_ATTRB_DEST_CPU_MASK"

definition XFsbl_IsEncrypted :: "XFsblPs_PartitionHeader \<Rightarrow> u32" where
  "XFsbl_IsEncrypted p = PartitionAttributes p AND XIH_PH_ATTRB_ENCRYPTION_MASK"

definition XFsbl_GetDestinationDevice :: "XFsblPs_PartitionHeader \<Rightarrow> u32" where
  "XFsbl_GetDestinationDevice p = PartitionAttributes p AND XIH_PH_ATTRB_DEST_DEVICE_MASK"

definition XFsbl_GetA53ExecState :: "XFsblPs_PartitionHeader \<Rightarrow> u32" where
  "XFsbl_GetA53ExecState p = PartitionAttributes p AND XIH_PH_ATTRB_A53_EXEC_ST_MASK"

definition XFsbl_GetVectorLocation :: "XFsblPs_PartitionHeader \<Rightarrow> u32" where
  "XFsbl_GetVectorLocation p = PartitionAttributes p AND XIH_PH_ATTRB_VEC_LOCATION_MASK"

definition XFsbl_GetBlockSize :: "XFsblPs_PartitionHeader \<Rightarrow> u32" where
  "XFsbl_GetBlockSize p =
     (let Size = drop_bit (unat XIH_ATTRB_BLOCK_SIZE_SHIFT)
                   (PartitionAttributes p AND XIH_PH_ATTR_BLOCK_SIZE_MASK)
      in if Size \<noteq> 0 then push_bit (unat Size) 2 * XFSBL_MUL_MEGABYTES else Size)"

section \<open>Structures in memory\<close>

definition le32 :: "(nat \<Rightarrow> u8) \<Rightarrow> nat \<Rightarrow> u32" where
  "le32 b i = ucast (b i) OR push_bit 8 (ucast (b (i + 1))) OR
     push_bit 16 (ucast (b (i + 2))) OR push_bit 24 (ucast (b (i + 3)))"

definition le64 :: "(nat \<Rightarrow> u8) \<Rightarrow> nat \<Rightarrow> u64" where
  "le64 b i = zx (le32 b i) OR push_bit 32 (zx (le32 b (i + 4)))"

definition iht_of_bytes :: "(nat \<Rightarrow> u8) \<Rightarrow> XFsblPs_ImageHeaderTable" where
  "iht_of_bytes b = \<lparr>IHT_Version = le32 b 0, NoOfPartitions = le32 b 4,
     PartitionHeaderAddress = le32 b 8, Reserved_0xC = le32 b 12,
     IHT_AuthCertificateOffset = le32 b 16, PartitionPresentDevice = le32 b 20,
     IHT_Reserved = map (\<lambda>k. le32 b (24 + 4 * k)) [0..<9], IHT_Checksum = le32 b 60\<rparr>"

definition ph_of_bytes :: "(nat \<Rightarrow> u8) \<Rightarrow> XFsblPs_PartitionHeader" where
  "ph_of_bytes b = \<lparr>EncryptedDataWordLength = le32 b 0, UnEncryptedDataWordLength = le32 b 4,
     TotalDataWordLength = le32 b 8, NextPartitionOffset = le32 b 12,
     DestinationExecutionAddress = le64 b 16, DestinationLoadAddress = le64 b 24,
     DataWordOffset = le32 b 32, PartitionAttributes = le32 b 36, SectionCount = le32 b 40,
     ChecksumWordOffset = le32 b 44, ImageHeaderOffset = le32 b 48,
     AuthCertificateOffset = le32 b 52, PH_Iv = le32 b 56, PH_Checksum = le32 b 60\<rparr>"

definition iht_words :: "XFsblPs_ImageHeaderTable \<Rightarrow> u32 list" where
  "iht_words t = [IHT_Version t, NoOfPartitions t, PartitionHeaderAddress t, Reserved_0xC t,
     IHT_AuthCertificateOffset t, PartitionPresentDevice t] @
     map (\<lambda>k. IHT_Reserved t ! k) [0..<9] @ [IHT_Checksum t]"

definition ph_words :: "XFsblPs_PartitionHeader \<Rightarrow> u32 list" where
  "ph_words p = [EncryptedDataWordLength p, UnEncryptedDataWordLength p,
     TotalDataWordLength p, NextPartitionOffset p,
     lo32 (DestinationExecutionAddress p), lo32 (drop_bit 32 (DestinationExecutionAddress p)),
     lo32 (DestinationLoadAddress p), lo32 (drop_bit 32 (DestinationLoadAddress p)),
     DataWordOffset p, PartitionAttributes p, SectionCount p, ChecksumWordOffset p,
     ImageHeaderOffset p, AuthCertificateOffset p, PH_Iv p, PH_Checksum p]"

text \<open>For the examples: the bytes of a list of words, the way the flash holds them.  Nothing in the loader encodes a header.\<close>

definition bytes_of :: "u32 list \<Rightarrow> nat \<Rightarrow> u8" where
  "bytes_of ws k = ucast (drop_bit (8 * (k mod 4)) (ws ! (k div 4)))"

section \<open>Checksum\<close>

text \<open>The loop \<open>for (Count = 0; Count < Length - 1; Count++) Checksum += Buffer[Count]\<close>.\<close>

function checksum_loop :: "u32 list \<Rightarrow> nat \<Rightarrow> nat \<Rightarrow> u32 \<Rightarrow> u32" where
  "checksum_loop Buffer n Count Checksum =
     (if Count < n then checksum_loop Buffer n (Count + 1) (Checksum + Buffer ! Count)
      else Checksum)"
  by pat_completeness auto

termination
  by (relation "measure (\<lambda>(Buffer, n, Count, Checksum). n - Count)") auto

declare checksum_loop.simps [simp del]

definition XFsbl_ValidateChecksum :: "u32 list \<Rightarrow> u32 \<Rightarrow> u32" where
  "XFsbl_ValidateChecksum Buffer Length =
     (if Length < 2 then XFSBL_FAILURE
      else let Checksum = checksum_loop Buffer (unat (Length - 1)) 0 0 XOR 0xFFFFFFFF
           in if Buffer ! unat (Length - 1) \<noteq> Checksum then XFSBL_FAILURE else XFSBL_SUCCESS)"

section \<open>Validation\<close>

definition XFsbl_ValidateImageHeaderTable :: "XFsblPs_ImageHeaderTable \<Rightarrow> u32" where
  "XFsbl_ValidateImageHeaderTable t =
     (if XFsbl_ValidateChecksum (iht_words t) (XIH_IHT_LEN div XIH_PARTITION_WORD_LENGTH)
           \<noteq> XFSBL_SUCCESS then XFSBL_ERROR_IHT_CHECKSUM
      else if PartitionPresentDevice t < XIH_IHT_PPD_SAME \<or>
              PartitionPresentDevice t > XIH_IHT_PPD_SATA then XFSBL_ERROR_PPD
      else if PartitionPresentDevice t \<noteq> XIH_IHT_PPD_SAME
        then XFSBL_STATUS_SECONDARY_BOOT_MODE
      else if NoOfPartitions t \<le> XIH_MIN_PARTITIONS \<or> NoOfPartitions t > XIH_MAX_PARTITIONS
        then XFSBL_ERROR_NO_OF_PARTITIONS
      else XFSBL_SUCCESS)"

text \<open>
  The address check.  The ranges of DDR come from the generated \<open>xparameters.h\<close>
  (\<open>cfg_ddr_end\<close>, \<open>cfg_hi_ddr\<close>); all comparisons are on 64-bit addresses.
\<close>

definition XFsbl_CheckValidMemoryAddress :: "world \<Rightarrow> u64 \<Rightarrow> u32 \<Rightarrow> u32 \<Rightarrow> u32" where
  "XFsbl_CheckValidMemoryAddress W Address CpuId DevId =
     (if CpuId = XIH_PH_ATTRB_DEST_CPU_PMU \<and> Address \<ge> zx XFSBL_PMU_RAM_START_ADDRESS \<and>
         Address < zx XFSBL_PMU_RAM_END_ADDRESS then XFSBL_SUCCESS
      else if (CpuId = XIH_PH_ATTRB_DEST_CPU_R5_0 \<or> CpuId = XIH_PH_ATTRB_DEST_CPU_R5_1) \<and>
         (Address \<ge> zx XFSBL_R5_TCM_START_ADDRESS \<and>
          Address < zx (XFSBL_R5_TCM_START_ADDRESS + XFSBL_R5_TCM_BANK_LENGTH) \<or>
          Address \<ge> zx XFSBL_R5_BTCM_START_ADDRESS \<and>
          Address < zx (XFSBL_R5_BTCM_START_ADDRESS + XFSBL_R5_TCM_BANK_LENGTH))
        then XFSBL_SUCCESS
      else if CpuId = XIH_PH_ATTRB_DEST_CPU_R5_L \<and> Address \<ge> zx XFSBL_R5_TCM_START_ADDRESS \<and>
         Address < zx (XFSBL_R5_TCM_START_ADDRESS + XFSBL_R5_TCM_BANK_LENGTH * 4)
        then XFSBL_SUCCESS
      else if Address \<ge> zx XFSBL_PS_DDR_START_ADDRESS \<and> Address \<le> cfg_ddr_end W
        then XFSBL_SUCCESS
      else if (case cfg_hi_ddr W of None \<Rightarrow> False
               | Some (start, end_) \<Rightarrow> Address \<ge> start \<and> Address \<le> end_) then XFSBL_SUCCESS
      else if Address \<ge> zx XFSBL_OCM_START_ADDRESS \<and> Address < zx XFSBL_OCM_END_ADDRESS
        then XFSBL_SUCCESS
      else if DevId = XIH_PH_ATTRB_DEST_DEVICE_PL \<and> Address = zx XFSBL_DUMMY_PL_ADDR
        then XFSBL_SUCCESS
      else XFSBL_ERROR_ADDRESS)"

text \<open>
  The length rules of \<open>XFsbl_ValidatePartitionHeader\<close> (\<open>True\<close>: accepted), then the checks
  that follow them, and the whole function.
\<close>

definition XFsbl_PartitionLengthsValid :: "bool \<Rightarrow> bool \<Rightarrow> XFsblPs_PartitionHeader \<Rightarrow> bool" where
  "XFsbl_PartitionLengthsValid IsAuthenticated IsEncrypted p =
     (if \<not> IsAuthenticated \<and> \<not> IsEncrypted then
        \<not> (UnEncryptedDataWordLength p \<noteq> EncryptedDataWordLength p \<or>
           EncryptedDataWordLength p \<noteq> TotalDataWordLength p)
      else if IsAuthenticated \<and> \<not> IsEncrypted then
        \<not> (UnEncryptedDataWordLength p \<noteq> EncryptedDataWordLength p \<or>
           EncryptedDataWordLength p \<ge> TotalDataWordLength p)
      else if \<not> IsAuthenticated \<and> IsEncrypted then
        \<not> (UnEncryptedDataWordLength p \<ge> EncryptedDataWordLength p \<or>
           EncryptedDataWordLength p \<noteq> TotalDataWordLength p)
      else
        \<not> (UnEncryptedDataWordLength p \<ge> EncryptedDataWordLength p \<or>
           EncryptedDataWordLength p \<ge> TotalDataWordLength p))"

definition XFsbl_ValidatePartitionTarget ::
  "world \<Rightarrow> XFsblPs_PartitionHeader \<Rightarrow> u32 \<Rightarrow> u32 \<Rightarrow> u32" where
  "XFsbl_ValidatePartitionTarget W p RunningCpu DestinationCpu =
     (let Status = XFsbl_CheckValidMemoryAddress W (DestinationLoadAddress p) DestinationCpu
                     (XFsbl_GetDestinationDevice p)
      in if Status \<noteq> XFSBL_SUCCESS then Status
      else if (RunningCpu = XIH_PH_ATTRB_DEST_CPU_R5_0 \<or>
               RunningCpu = XIH_PH_ATTRB_DEST_CPU_R5_L) \<and>
              (DestinationCpu = XIH_PH_ATTRB_DEST_CPU_A53_0 \<or>
               DestinationCpu = XIH_PH_ATTRB_DEST_CPU_A53_1 \<or>
               DestinationCpu = XIH_PH_ATTRB_DEST_CPU_A53_2 \<or>
               DestinationCpu = XIH_PH_ATTRB_DEST_CPU_A53_3) \<and>
              DestinationLoadAddress p < 0x80000 then XFSBL_ERROR_ADDRESS
      else if XFsbl_GetChecksumType p \<noteq> XIH_PH_ATTRB_NOCHECKSUM \<and>
              XFsbl_GetChecksumType p \<noteq> XIH_PH_ATTRB_CHECKSUM_MD5 \<and>
              XFsbl_GetChecksumType p \<noteq> XIH_PH_ATTRB_HASH_SHA3
        then XFSBL_ERROR_INVALID_CHECKSUM_TYPE
      else if DestinationCpu > XIH_PH_ATTRB_DEST_CPU_PMU then XFSBL_ERROR_INVALID_CPU_TYPE
      else if (DestinationCpu = XIH_PH_ATTRB_DEST_CPU_R5_0 \<or>
               DestinationCpu = XIH_PH_ATTRB_DEST_CPU_R5_1) \<and>
              RunningCpu = XIH_PH_ATTRB_DEST_CPU_R5_L \<or>
              DestinationCpu = XIH_PH_ATTRB_DEST_CPU_R5_L \<and>
              RunningCpu = XIH_PH_ATTRB_DEST_CPU_R5_0 then XFSBL_ERROR_LS_CPU_TYPE
      else if XFsbl_GetDestinationDevice p > XIH_PH_ATTRB_DEST_DEVICE_PMU
        then XFSBL_ERROR_INVALID_DEST_DEVICE
      else XFSBL_SUCCESS)"

definition XFsbl_ValidatePartitionFields ::
  "world \<Rightarrow> u32 \<Rightarrow> XFsblPs_PartitionHeader \<Rightarrow> u32 \<Rightarrow> u32 \<Rightarrow> u32" where
  "XFsbl_ValidatePartitionFields W EncOnly p RunningCpu ResetType =
     (let IsEncrypted = (XFsbl_IsEncrypted p = XIH_PH_ATTRB_ENCRYPTION);
          IsAuthenticated = (XFsbl_IsRsaSignaturePresent p = XIH_PH_ATTRB_RSA_SIGNATURE);
          DestinationCpu = (if XFsbl_GetDestinationCpu p = XIH_PH_ATTRB_DEST_CPU_NONE
                            then RunningCpu else XFsbl_GetDestinationCpu p)
      in if EncOnly \<noteq> 0 \<and> \<not> IsEncrypted then XFSBL_FAILURE
      else if ResetType = XFSBL_APU_ONLY_RESET \<and>
           \<not> (XFsbl_GetDestinationCpu p \<le> XIH_PH_ATTRB_DEST_CPU_A53_3 \<and>
              XFsbl_GetDestinationCpu p \<ge> XIH_PH_ATTRB_DEST_CPU_A53_0)
        then XFSBL_SUCCESS_NOT_PARTITION_OWNER
      else if UnEncryptedDataWordLength p = 0 \<and> (IsAuthenticated \<or> IsEncrypted)
        then XFSBL_ERROR_XIP_AUTH_ENC_PRESENT
      else if UnEncryptedDataWordLength p = 0 \<and>
           (DestinationExecutionAddress p < zx XFSBL_QSPI_LINEAR_BASE_ADDRESS_START \<or>
            DestinationExecutionAddress p > zx XFSBL_QSPI_LINEAR_BASE_ADDRESS_END)
        then XFSBL_ERROR_XIP_EXEC_ADDRESS
      else if \<not> XFsbl_PartitionLengthsValid IsAuthenticated IsEncrypted p
        then XFSBL_ERROR_PARTITION_LENGTH
      else XFsbl_ValidatePartitionTarget W p RunningCpu DestinationCpu)"

definition XFsbl_ValidatePartitionHeader ::
  "world \<Rightarrow> XFsblPs_PartitionHeader \<Rightarrow> u32 \<Rightarrow> u32 \<Rightarrow> u32 prog" where
  "XFsbl_ValidatePartitionHeader W p RunningCpu ResetType =
     bindM (XFsbl_In32 W EFUSE_SEC_CTRL) (\<lambda>RegVal.
       retM (XFsbl_ValidatePartitionFields W (RegVal AND EFUSE_SEC_CTRL_ENC_ONLY_MASK)
               p RunningCpu ResetType))"

section \<open>Handoff parameters for the trusted firmware\<close>

definition ATF_PartitionFlags :: "u32 \<Rightarrow> u32" where
  "ATF_PartitionFlags Attrs =
     (let PartitionFlags =
        drop_bit (unat XIH_ATTRB_A53_EXEC_ST_SHIFT_DIFF)
          (Attrs AND XIH_PH_ATTRB_A53_EXEC_ST_MASK) OR
        drop_bit (unat XIH_ATTRB_ENDIAN_SHIFT_DIFF)
          (Attrs AND XIH_PH_ATTRB_ENDIAN_MASK) OR
        push_bit (unat XIH_ATTRB_TR_SECURE_SHIFT_DIFF)
          (Attrs AND XIH_PH_ATTRB_TR_SECURE_MASK) OR
        push_bit (unat XIH_ATTRB_TARGET_EL_SHIFT_DIFF)
          (Attrs AND XIH_PH_ATTRB_TARGET_EL_MASK);
        DestCpu = Attrs AND XIH_PH_ATTRB_DEST_CPU_MASK
      in if DestCpu = XIH_PH_ATTRB_DEST_CPU_A53_0
           then PartitionFlags OR XIH_PART_FLAGS_DEST_CPU_A53_0
         else if DestCpu = XIH_PH_ATTRB_DEST_CPU_A53_1
           then PartitionFlags OR XIH_PART_FLAGS_DEST_CPU_A53_1
         else if DestCpu = XIH_PH_ATTRB_DEST_CPU_A53_2
           then PartitionFlags OR XIH_PART_FLAGS_DEST_CPU_A53_2
         else PartitionFlags OR XIH_PART_FLAGS_DEST_CPU_A53_3)"

definition XFsbl_SetATFHandoffParameters :: "XFsblPs_PartitionHeader \<Rightarrow> u32 \<Rightarrow> unit prog" where
  "XFsbl_SetATFHandoffParameters p EntryCount =
     seqM (boundM EntryCount 8)
       (modM (\<lambda>s. s\<lparr>ATFHandoffParams := ATFHandoffParams s
          \<lparr>MagicValue := (if EntryCount = 0 then ''XLNX'' else MagicValue (ATFHandoffParams s)),
           NumEntries := EntryCount + 1,
           Entry := (Entry (ATFHandoffParams s))[unat EntryCount :=
             \<lparr>EntryPoint = DestinationExecutionAddress p,
              PartitionFlags = zx (ATF_PartitionFlags (PartitionAttributes p))\<rparr>]\<rparr>\<rparr>))"

section \<open>Reading the image header\<close>

text \<open>
  One turn of the loop over the partitions: copy the header (from the boot device, or from
  the buffer in on-chip memory when there is no device to read), and record an entry for
  the trusted firmware.  It returns the status with the updated \<open>PartitionHeaderAddress\<close>
  and \<open>EntryCount\<close>.
\<close>

definition set_PartitionHeader :: "u32 \<Rightarrow> XFsblPs_PartitionHeader \<Rightarrow> unit prog" where
  "set_PartitionHeader i p = seqM (boundM i 32)
     (modM (\<lambda>s. s\<lparr>PartitionHeader := (PartitionHeader s)[unat i := p]\<rparr>))"

definition ReadImageHeader_note ::
  "u32 \<Rightarrow> u32 \<Rightarrow> u32 \<Rightarrow> (u32 \<times> u32 \<times> u32) prog" where
  "ReadImageHeader_note RunningCpu PartitionIndex EntryCount =
     bindM (get_PartitionHeader PartitionIndex) (\<lambda>p.
       let DestnCPU = (if XFsbl_GetDestinationCpu p = XIH_PH_ATTRB_DEST_CPU_NONE
                       then RunningCpu else XFsbl_GetDestinationCpu p);
           NextAddress = NextPartitionOffset p * XIH_PARTITION_WORD_LENGTH
       in if PartitionIndex > 1 \<and> EntryCount < XFSBL_MAX_ENTRIES_FOR_ATF \<and>
             DestinationExecutionAddress p \<noteq> 0 \<and>
             DestnCPU \<ge> XIH_PH_ATTRB_DEST_CPU_A53_0 \<and> DestnCPU \<le> XIH_PH_ATTRB_DEST_CPU_A53_3
          then seqM (XFsbl_SetATFHandoffParameters p EntryCount)
                 (retM (XFSBL_SUCCESS, NextAddress, EntryCount + 1))
          else retM (XFSBL_SUCCESS, NextAddress, EntryCount))"

text \<open>
  Without device operations the header is taken from \<open>ReadBuffer\<close>, which holds the authenticated image
  header.  The code does not compare the offset with the size of the buffer; the buffer is a function
  here, and what lies behind its end are further values of that function.
\<close>

definition ReadImageHeader_step ::
  "world \<Rightarrow> XFsblPs_DeviceOps option \<Rightarrow> u32 \<Rightarrow> u32 \<Rightarrow> u32 \<Rightarrow> u32 \<Rightarrow> u32 \<Rightarrow> u32 \<Rightarrow>
   (u32 \<times> u32 \<times> u32) prog" where
  "ReadImageHeader_step W Ops FlashImageOffsetAddress RunningCpu ImageHeaderTableAddressOffset
      PartitionIndex Address EntryCount =
     (case Ops of
        Some ops \<Rightarrow>
          bindM (copyM W (Dev (DeviceCopy ops (FlashImageOffsetAddress + Address)
                   (image_header_addr W + 64 + 64 * zx PartitionIndex) XIH_PH_LEN)))
            (\<lambda>(Status, b). seqM (set_PartitionHeader PartitionIndex (ph_of_bytes b))
              (if Status \<noteq> XFSBL_SUCCESS then retM (Status, Address, EntryCount)
               else ReadImageHeader_note RunningCpu PartitionIndex EntryCount))
      | None \<Rightarrow>
          bindM (getM ReadBuffer) (\<lambda>b.
            seqM (set_PartitionHeader PartitionIndex (ph_of_bytes
                   (\<lambda>k. b (unat (Address - ImageHeaderTableAddressOffset) + k))))
              (ReadImageHeader_note RunningCpu PartitionIndex EntryCount)))"

text \<open>The loop, with the number of partitions still to read.\<close>

primrec ReadImageHeader_loop ::
  "world \<Rightarrow> XFsblPs_DeviceOps option \<Rightarrow> u32 \<Rightarrow> u32 \<Rightarrow> u32 \<Rightarrow> nat \<Rightarrow> u32 \<Rightarrow> u32 \<Rightarrow> u32 \<Rightarrow> u32 prog" where
  "ReadImageHeader_loop W Ops Flash RunningCpu TableOffset 0 PartitionIndex Address EntryCount =
     retM XFSBL_SUCCESS"
| "ReadImageHeader_loop W Ops Flash RunningCpu TableOffset (Suc n) PartitionIndex Address EntryCount =
     bindM (ReadImageHeader_step W Ops Flash RunningCpu TableOffset PartitionIndex Address EntryCount)
       (\<lambda>(Status, NextAddress, EntryCount').
          if Status \<noteq> XFSBL_SUCCESS then retM Status
          else ReadImageHeader_loop W Ops Flash RunningCpu TableOffset n (PartitionIndex + 1)
                 NextAddress EntryCount')"

definition ReadImageHeader_table ::
  "world \<Rightarrow> XFsblPs_DeviceOps option \<Rightarrow> u32 \<Rightarrow> u32 \<Rightarrow> u32 prog" where
  "ReadImageHeader_table W Ops FlashImageOffsetAddress ImageHeaderTableAddressOffset =
     (case Ops of
        Some ops \<Rightarrow>
          bindM (copyM W (Dev (DeviceCopy ops
                   (FlashImageOffsetAddress + ImageHeaderTableAddressOffset)
                   (image_header_addr W) XIH_IHT_LEN)))
            (\<lambda>(Status, b). seqM (modM (\<lambda>s. s\<lparr>ImageHeaderTable := iht_of_bytes b\<rparr>))
               (retM Status))
      | None \<Rightarrow>
          seqM (modM (\<lambda>s. s\<lparr>ImageHeaderTable := iht_of_bytes (ReadBuffer s)\<rparr>))
            (retM XFSBL_SUCCESS))"

definition ReadImageHeader_partitions ::
  "world \<Rightarrow> XFsblPs_DeviceOps option \<Rightarrow> u32 \<Rightarrow> u32 \<Rightarrow> u32 \<Rightarrow> u32 prog" where
  "ReadImageHeader_partitions W Ops FlashImageOffsetAddress RunningCpu ImageHeaderTableAddressOffset =
     bindM (getM ImageHeaderTable) (\<lambda>t.
       let Status = XFsbl_ValidateImageHeaderTable t
       in if Status = XFSBL_STATUS_SECONDARY_BOOT_MODE then retM XFSBL_SUCCESS
          else if Status \<noteq> XFSBL_SUCCESS then retM Status
          else tryM (ReadImageHeader_loop W Ops FlashImageOffsetAddress RunningCpu
                       ImageHeaderTableAddressOffset (unat (NoOfPartitions t)) 0
                       (PartitionHeaderAddress t * XIH_PARTITION_WORD_LENGTH) 0)
                 (seqM (XFsbl_Out32 PMU_GLOBAL_GLOB_GEN_STORAGE6 (atf_params_addr W))
                    (retM XFSBL_SUCCESS)))"

definition XFsbl_ReadImageHeader ::
  "world \<Rightarrow> XFsblPs_DeviceOps option \<Rightarrow> u32 \<Rightarrow> u32 \<Rightarrow> u32 \<Rightarrow> u32 prog" where
  "XFsbl_ReadImageHeader W Ops FlashImageOffsetAddress RunningCpu ImageHeaderTableAddressOffset =
     tryM (ReadImageHeader_table W Ops FlashImageOffsetAddress ImageHeaderTableAddressOffset)
       (ReadImageHeader_partitions W Ops FlashImageOffsetAddress RunningCpu
          ImageHeaderTableAddressOffset)"

section \<open>The checksum rule\<close>

lemma checksum_loop_sum:
  assumes "n \<le> length Buffer" and "Count \<le> n"
  shows "checksum_loop Buffer n Count a = a + sum_list (drop Count (take n Buffer))"
  using assms
proof (induction Buffer n Count a rule: checksum_loop.induct)
  case (1 Buffer n Count a)
  show ?case
  proof (cases "Count < n")
    case True
    then have "drop Count (take n Buffer) = Buffer ! Count # drop (Suc Count) (take n Buffer)"
      using 1 by (metis Cons_nth_drop_Suc length_take min.absorb2 nth_take)
    with True 1 show ?thesis
      by (simp add: checksum_loop.simps [of Buffer n Count] add.assoc)
  next
    case False
    with 1 have "Count = n" by simp
    then show ?thesis by (simp add: checksum_loop.simps [of Buffer n n])
  qed
qed

lemma ValidateChecksum_cases:
  "XFsbl_ValidateChecksum Buffer Length \<noteq> XFSBL_SUCCESS \<Longrightarrow>
   XFsbl_ValidateChecksum Buffer Length = XFSBL_FAILURE"
  by (auto simp: XFsbl_ValidateChecksum_def Let_def)

lemma ValidateChecksum_sum:
  assumes "unat Length \<le> length Buffer"
  shows "XFsbl_ValidateChecksum Buffer Length = XFSBL_SUCCESS \<longleftrightarrow>
    2 \<le> Length \<and> sum_list (take (unat Length) Buffer) = - 1"
proof (cases "Length < 2")
  case True
  then show ?thesis by (simp add: XFsbl_ValidateChecksum_def hw not_le [symmetric])
next
  case False
  define n where "n = unat (Length - 1)"
  have "Length \<noteq> 0"
    using False by auto
  then have n: "unat Length = Suc n"
    by (simp add: n_def unat_minus_one unat_gt_0)
  have take: "take (Suc n) Buffer = take n Buffer @ [Buffer ! n]"
    using assms n by (simp add: take_Suc_conv_app_nth)
  have "Buffer ! n = NOT (sum_list (take n Buffer)) \<longleftrightarrow>
      sum_list (take n Buffer) + Buffer ! n = - 1"
    by (rule eq_not_iff_sum)
  moreover have "x XOR 4294967295 = NOT x" for x :: u32
  proof -
    have "(4294967295 :: u32) = - 1" by simp
    then show ?thesis by (simp only: xor_minus_one_eq_not)
  qed
  moreover have "2 \<le> Length" "\<not> Length < 2"
    using False by simp_all
  ultimately show ?thesis
    using assms n take
    by (simp add: XFsbl_ValidateChecksum_def n_def [symmetric] checksum_loop_sum hw Let_def)
qed

text \<open>
  The interface of the checksum: a structure that the code casts to \<open>Length\<close> words.
\<close>

locale checksummed =
  fixes words :: "'a \<Rightarrow> u32 list" and Length :: u32
  assumes words_length: "length (words x) = unat Length" and two_words: "2 \<le> Length"
begin

lemma valid_iff: "XFsbl_ValidateChecksum (words x) Length = XFSBL_SUCCESS \<longleftrightarrow> sum_list (words x) = - 1"
  using ValidateChecksum_sum [of Length "words x"] two_words by (simp add: words_length)

lemma one_word_corrupted:
  assumes "XFsbl_ValidateChecksum (words x) Length = XFSBL_SUCCESS"
    and "words y = (words x)[i := w]" and "i < unat Length" and "w \<noteq> words x ! i"
  shows "XFsbl_ValidateChecksum (words y) Length = XFSBL_FAILURE"
proof (rule ValidateChecksum_cases)
  have "sum_list (words y) = - 1 - words x ! i + w"
    using assms by (simp add: valid_iff words_length sum_list_update_word)
  then have "sum_list (words y) \<noteq> - 1"
    using assms(4) by (metis add_diff_cancel_left' diff_add_cancel add.commute add_right_cancel)
  then show "XFsbl_ValidateChecksum (words y) Length \<noteq> XFSBL_SUCCESS"
    by (simp add: valid_iff)
qed

end

interpretation iht: checksummed iht_words "XIH_IHT_LEN div XIH_PARTITION_WORD_LENGTH"
  by unfold_locales (simp_all add: iht_words_def hw)

interpretation ph: checksummed ph_words "XIH_PH_LEN div XIH_PARTITION_WORD_LENGTH"
  by unfold_locales (simp_all add: ph_words_def hw)

lemma le32_bytes_of: "le32 (bytes_of ws) (4 * k) = ws ! k"
proof -
  have "bytes_of ws (4 * k + j) = ucast (drop_bit (8 * j) (ws ! k))" if "j < 4" for j
    using that by (simp add: bytes_of_def)
  from this [of 0] this [of 1] this [of 2] this [of 3] have b: "bytes_of ws (4 * k) = ucast (ws ! k)"
    "bytes_of ws (4 * k + 1) = ucast (drop_bit 8 (ws ! k))"
    "bytes_of ws (4 * k + 2) = ucast (drop_bit 16 (ws ! k))"
    "bytes_of ws (4 * k + 3) = ucast (drop_bit 24 (ws ! k))"
    by simp_all
  show ?thesis
  proof (rule bit_word_eqI)
    fix n assume "n < LENGTH(32)"
    then consider "n < 8" | "8 \<le> n" "n < 16" | "16 \<le> n" "n < 24" | "24 \<le> n" "n < 32"
      by force
    then show "bit (le32 (bytes_of ws) (4 * k)) n = bit (ws ! k) n"
      unfolding le32_def b by cases (auto simp: bit_simps)
  qed
qed

lemma lo32_le64: "lo32 (le64 b i) = le32 b i"
  by (rule bit_word_eqI) (auto simp: le64_def bit_simps)

lemma hi32_le64: "lo32 (drop_bit 32 (le64 b i)) = le32 b (i + 4)"
  by (rule bit_word_eqI) (auto simp: le64_def bit_simps dest: bit_imp_le_length)

lemma iht_words_of_bytes: "iht_words (iht_of_bytes b) = map (\<lambda>k. le32 b (4 * k)) [0..<16]"
  by (simp add: iht_words_def iht_of_bytes_def upt_rec)

lemma ph_words_of_bytes: "ph_words (ph_of_bytes b) = map (\<lambda>k. le32 b (4 * k)) [0..<16]"
  by (simp add: ph_words_def ph_of_bytes_def upt_rec lo32_le64 hi32_le64)

lemma ValidateImageHeaderTable_ok_iff:
  "XFsbl_ValidateImageHeaderTable t = XFSBL_SUCCESS \<longleftrightarrow>
     sum_list (iht_words t) = - 1 \<and> PartitionPresentDevice t = XIH_IHT_PPD_SAME \<and>
     2 \<le> NoOfPartitions t \<and> NoOfPartitions t \<le> 32"
proof -
  have two: "(2 \<le> n) = (\<not> n \<le> 1)" for n :: u32
    by (simp add: word_le_nat_alt) linarith
  show ?thesis
    unfolding XFsbl_ValidateImageHeaderTable_def iht.valid_iff
    by (auto simp: hw two not_le)
qed


section \<open>Addresses a partition may be loaded to\<close>

definition load_region :: "world \<Rightarrow> u32 \<Rightarrow> u32 \<Rightarrow> u64 set" where
  "load_region W CpuId DevId =
     (if CpuId = XIH_PH_ATTRB_DEST_CPU_PMU then {0xFFDC0000..<0xFFDDFFFF} else {}) \<union>
     (if CpuId = XIH_PH_ATTRB_DEST_CPU_R5_0 \<or> CpuId = XIH_PH_ATTRB_DEST_CPU_R5_1
      then {0..<0x10000} \<union> {0x20000..<0x30000} else {}) \<union>
     (if CpuId = XIH_PH_ATTRB_DEST_CPU_R5_L then {0..<0x40000} else {}) \<union>
     {0..cfg_ddr_end W} \<union>
     (case cfg_hi_ddr W of None \<Rightarrow> {} | Some (a, b) \<Rightarrow> {a..b}) \<union>
     {0xFFFEA000..<0xFFFFFFFF} \<union>
     (if DevId = XIH_PH_ATTRB_DEST_DEVICE_PL then {0xFFFFFFFF} else {})"

lemma CheckValidMemoryAddress_cases:
  "XFsbl_CheckValidMemoryAddress W Address CpuId DevId =
     (if Address \<in> load_region W CpuId DevId then XFSBL_SUCCESS else XFSBL_ERROR_ADDRESS)"
proof -
  have addr: "zx XFSBL_PMU_RAM_START_ADDRESS = 0xFFDC0000" "zx XFSBL_PMU_RAM_END_ADDRESS = 0xFFDDFFFF"
    "zx XFSBL_R5_TCM_START_ADDRESS = 0"
    "zx (XFSBL_R5_TCM_START_ADDRESS + XFSBL_R5_TCM_BANK_LENGTH) = 0x10000"
    "zx XFSBL_R5_BTCM_START_ADDRESS = 0x20000"
    "zx (XFSBL_R5_BTCM_START_ADDRESS + XFSBL_R5_TCM_BANK_LENGTH) = 0x30000"
    "zx (XFSBL_R5_TCM_START_ADDRESS + XFSBL_R5_TCM_BANK_LENGTH * 4) = 0x40000"
    "zx XFSBL_PS_DDR_START_ADDRESS = 0" "zx XFSBL_OCM_START_ADDRESS = 0xFFFEA000"
    "zx XFSBL_OCM_END_ADDRESS = 0xFFFFFFFF" "zx XFSBL_DUMMY_PL_ADDR = 0xFFFFFFFF"
    by (simp_all add: hw)
  have "XFSBL_ERROR_ADDRESS \<noteq> XFSBL_SUCCESS" by (simp add: hw)
  then have "(Address \<in> load_region W CpuId DevId) =
      (XFsbl_CheckValidMemoryAddress W Address CpuId DevId = XFSBL_SUCCESS)"
    unfolding load_region_def XFsbl_CheckValidMemoryAddress_def addr
    by (cases "cfg_hi_ddr W") (auto split: if_splits prod.splits)
  moreover have "XFsbl_CheckValidMemoryAddress W Address CpuId DevId \<noteq> XFSBL_SUCCESS \<Longrightarrow>
      XFsbl_CheckValidMemoryAddress W Address CpuId DevId = XFSBL_ERROR_ADDRESS"
    unfolding XFsbl_CheckValidMemoryAddress_def by presburger
  ultimately show ?thesis by auto
qed

lemma mask_bit15: "(x AND 0x8000 = 0x8000) = bit (x :: u32) 15"
  and mask_bit7: "(x AND 0x80 = 0x80) = bit (x :: u32) 7"
proof -
  have *: "(x AND push_bit n 1 = push_bit n 1) = bit x n" if "n < 32" for n and x :: u32
    using that by (auto simp: bit_eq_iff [where 'a = "32 word"] bit_simps)
  show "(x AND 0x8000 = 0x8000) = bit (x :: u32) 15" using * [of 15 x] by simp
  show "(x AND 0x80 = 0x80) = bit (x :: u32) 7" using * [of 7 x] by simp
qed

lemma IsEncrypted_bit: "(XFsbl_IsEncrypted p = XIH_PH_ATTRB_ENCRYPTION) = bit (PartitionAttributes p) 7"
  by (simp add: XFsbl_IsEncrypted_def hw mask_bit7)

lemma IsRsaSignaturePresent_bit:
  "(XFsbl_IsRsaSignaturePresent p = XIH_PH_ATTRB_RSA_SIGNATURE) = bit (PartitionAttributes p) 15"
  by (simp add: XFsbl_IsRsaSignaturePresent_def hw mask_bit15)

lemma PartitionLengthsValid_iff:
  "XFsbl_PartitionLengthsValid a e p \<longleftrightarrow>
     UnEncryptedDataWordLength p \<le> EncryptedDataWordLength p \<and>
     EncryptedDataWordLength p \<le> TotalDataWordLength p \<and>
     e = (UnEncryptedDataWordLength p \<noteq> EncryptedDataWordLength p) \<and>
     a = (EncryptedDataWordLength p \<noteq> TotalDataWordLength p)"
  by (cases a; cases e) (auto simp: XFsbl_PartitionLengthsValid_def)

definition dest_cpu :: "XFsblPs_PartitionHeader \<Rightarrow> u32 \<Rightarrow> u32" where
  "dest_cpu p RunningCpu = (if XFsbl_GetDestinationCpu p = XIH_PH_ATTRB_DEST_CPU_NONE
     then RunningCpu else XFsbl_GetDestinationCpu p)"

text \<open>What a partition header must satisfy, \<open>enc_only\<close> being the fuse that makes encryption mandatory.\<close>

definition header_acceptable :: "world \<Rightarrow> bool \<Rightarrow> u32 \<Rightarrow> u32 \<Rightarrow> XFsblPs_PartitionHeader \<Rightarrow> bool" where
  "header_acceptable W enc_only RunningCpu ResetType p \<longleftrightarrow>
     (let enc = bit (PartitionAttributes p) 7; auth = bit (PartitionAttributes p) 15;
          cpu = dest_cpu p RunningCpu;
          a53 = {XIH_PH_ATTRB_DEST_CPU_A53_0..XIH_PH_ATTRB_DEST_CPU_A53_3}
      in (enc_only \<longrightarrow> enc) \<and>
        (ResetType = XFSBL_APU_ONLY_RESET \<longrightarrow> XFsbl_GetDestinationCpu p \<in> a53) \<and>
        (UnEncryptedDataWordLength p = 0 \<longrightarrow> \<not> enc \<and> \<not> auth \<and>
           DestinationExecutionAddress p \<in> {0xC0000000..0xDFFFFFFF}) \<and>
        UnEncryptedDataWordLength p \<le> EncryptedDataWordLength p \<and>
        EncryptedDataWordLength p \<le> TotalDataWordLength p \<and>
        enc = (UnEncryptedDataWordLength p \<noteq> EncryptedDataWordLength p) \<and>
        auth = (EncryptedDataWordLength p \<noteq> TotalDataWordLength p) \<and>
        DestinationLoadAddress p \<in> load_region W cpu (XFsbl_GetDestinationDevice p) \<and>
        (RunningCpu \<in> {XIH_PH_ATTRB_DEST_CPU_R5_0, XIH_PH_ATTRB_DEST_CPU_R5_L} \<and>
           cpu \<in> {XIH_PH_ATTRB_DEST_CPU_A53_0, XIH_PH_ATTRB_DEST_CPU_A53_1,
                   XIH_PH_ATTRB_DEST_CPU_A53_2, XIH_PH_ATTRB_DEST_CPU_A53_3} \<longrightarrow>
         0x80000 \<le> DestinationLoadAddress p) \<and>
        XFsbl_GetChecksumType p \<in>
          {XIH_PH_ATTRB_NOCHECKSUM, XIH_PH_ATTRB_CHECKSUM_MD5, XIH_PH_ATTRB_HASH_SHA3} \<and>
        cpu \<le> XIH_PH_ATTRB_DEST_CPU_PMU \<and>
        (cpu \<in> {XIH_PH_ATTRB_DEST_CPU_R5_0, XIH_PH_ATTRB_DEST_CPU_R5_1} \<longrightarrow>
           RunningCpu \<noteq> XIH_PH_ATTRB_DEST_CPU_R5_L) \<and>
        (cpu = XIH_PH_ATTRB_DEST_CPU_R5_L \<longrightarrow> RunningCpu \<noteq> XIH_PH_ATTRB_DEST_CPU_R5_0) \<and>
        XFsbl_GetDestinationDevice p \<le> XIH_PH_ATTRB_DEST_DEVICE_PMU)"

lemma ValidatePartitionTarget_success:
  "XFsbl_ValidatePartitionTarget W p RunningCpu cpu = XFSBL_SUCCESS \<longleftrightarrow>
     DestinationLoadAddress p \<in> load_region W cpu (XFsbl_GetDestinationDevice p) \<and>
     (RunningCpu \<in> {XIH_PH_ATTRB_DEST_CPU_R5_0, XIH_PH_ATTRB_DEST_CPU_R5_L} \<and>
        cpu \<in> {XIH_PH_ATTRB_DEST_CPU_A53_0, XIH_PH_ATTRB_DEST_CPU_A53_1,
                XIH_PH_ATTRB_DEST_CPU_A53_2, XIH_PH_ATTRB_DEST_CPU_A53_3} \<longrightarrow>
      0x80000 \<le> DestinationLoadAddress p) \<and>
     XFsbl_GetChecksumType p \<in>
       {XIH_PH_ATTRB_NOCHECKSUM, XIH_PH_ATTRB_CHECKSUM_MD5, XIH_PH_ATTRB_HASH_SHA3} \<and>
     cpu \<le> XIH_PH_ATTRB_DEST_CPU_PMU \<and>
     (cpu \<in> {XIH_PH_ATTRB_DEST_CPU_R5_0, XIH_PH_ATTRB_DEST_CPU_R5_1} \<longrightarrow>
        RunningCpu \<noteq> XIH_PH_ATTRB_DEST_CPU_R5_L) \<and>
     (cpu = XIH_PH_ATTRB_DEST_CPU_R5_L \<longrightarrow> RunningCpu \<noteq> XIH_PH_ATTRB_DEST_CPU_R5_0) \<and>
     XFsbl_GetDestinationDevice p \<le> XIH_PH_ATTRB_DEST_DEVICE_PMU"
proof -
  have codes: "XFSBL_ERROR_ADDRESS \<noteq> XFSBL_SUCCESS" "XFSBL_ERROR_INVALID_CHECKSUM_TYPE \<noteq> XFSBL_SUCCESS"
    "XFSBL_ERROR_INVALID_CPU_TYPE \<noteq> XFSBL_SUCCESS" "XFSBL_ERROR_LS_CPU_TYPE \<noteq> XFSBL_SUCCESS"
    "XFSBL_ERROR_INVALID_DEST_DEVICE \<noteq> XFSBL_SUCCESS"
    by (simp_all add: hw)
  show ?thesis
    unfolding XFsbl_ValidatePartitionTarget_def CheckValidMemoryAddress_cases Let_def if_status
    by (simp add: if_error if_ok codes not_less not_le split del: if_split, argo)
qed

lemma ValidatePartitionFields_ok_iff:
  "XFsbl_ValidatePartitionFields W EncOnly p RunningCpu ResetType = XFSBL_SUCCESS \<longleftrightarrow>
     header_acceptable W (EncOnly \<noteq> 0) RunningCpu ResetType p"
proof -
  have codes: "XFSBL_FAILURE \<noteq> XFSBL_SUCCESS" "XFSBL_SUCCESS_NOT_PARTITION_OWNER \<noteq> XFSBL_SUCCESS"
    "XFSBL_ERROR_XIP_AUTH_ENC_PRESENT \<noteq> XFSBL_SUCCESS" "XFSBL_ERROR_XIP_EXEC_ADDRESS \<noteq> XFSBL_SUCCESS"
    "XFSBL_ERROR_PARTITION_LENGTH \<noteq> XFSBL_SUCCESS"
    by (simp_all add: hw)
  have xip: "zx XFSBL_QSPI_LINEAR_BASE_ADDRESS_START = 0xC0000000"
    "zx XFSBL_QSPI_LINEAR_BASE_ADDRESS_END = 0xDFFFFFFF"
    by (simp_all add: hw)
  show ?thesis
    unfolding XFsbl_ValidatePartitionFields_def header_acceptable_def IsEncrypted_bit
      IsRsaSignaturePresent_bit PartitionLengthsValid_iff Let_def dest_cpu_def [symmetric] xip
      ValidatePartitionTarget_success [symmetric]
    by (simp add: if_error codes not_less not_le split del: if_split, argo)
qed

section \<open>The entries for the trusted firmware\<close>

definition atf_eligible :: "u32 \<Rightarrow> XFsblPs_PartitionHeader \<Rightarrow> bool" where
  "atf_eligible RunningCpu p \<longleftrightarrow> DestinationExecutionAddress p \<noteq> 0 \<and>
     dest_cpu p RunningCpu \<ge> XIH_PH_ATTRB_DEST_CPU_A53_0 \<and>
     dest_cpu p RunningCpu \<le> XIH_PH_ATTRB_DEST_CPU_A53_3"

definition atf_entry :: "XFsblPs_PartitionHeader \<Rightarrow> XFsblPs_PartitionEntry" where
  "atf_entry p = \<lparr>EntryPoint = DestinationExecutionAddress p,
     PartitionFlags = zx (ATF_PartitionFlags (PartitionAttributes p))\<rparr>"

text \<open>The partitions announced to the trusted firmware: the first eight eligible ones after the first two.\<close>

definition atf_partitions :: "u32 \<Rightarrow> XFsblPs_PartitionHeader list \<Rightarrow> XFsblPs_PartitionHeader list" where
  "atf_partitions RunningCpu hs = take 8 (filter (atf_eligible RunningCpu) (drop 2 hs))"

definition atf_params_for :: "XFsblPs_PartitionHeader list \<Rightarrow> XFsblPs_ATFHandoffParams \<Rightarrow> bool" where
  "atf_params_for es a \<longleftrightarrow> take (length es) (Entry a) = map atf_entry es \<and>
     (es \<noteq> [] \<longrightarrow> NumEntries a = of_nat (length es) \<and> MagicValue a = ''XLNX'')"

definition instance_shape :: "fsbl \<Rightarrow> bool" where
  "instance_shape s \<longleftrightarrow> length (PartitionHeader s) = 32 \<and> length (Entry (ATFHandoffParams s)) = 8"

definition read_inv :: "u32 \<Rightarrow> nat \<Rightarrow> u32 \<Rightarrow> fsbl \<Rightarrow> bool" where
  "read_inv RunningCpu k e s \<longleftrightarrow> instance_shape s \<and>
     (let es = atf_partitions RunningCpu (take k (PartitionHeader s))
      in e = of_nat (length es) \<and> atf_params_for es (ATFHandoffParams s))"

lemma atf_partitions_length: "length (atf_partitions RunningCpu hs) \<le> 8"
  by (simp add: atf_partitions_def)

lemma atf_partitions_snoc:
  "atf_partitions RunningCpu (hs @ [p]) =
     (if 2 \<le> length hs \<and> length (atf_partitions RunningCpu hs) < 8 \<and> atf_eligible RunningCpu p
      then atf_partitions RunningCpu hs @ [p] else atf_partitions RunningCpu hs)"
proof (cases "2 \<le> length hs")
  case False
  then obtain j where "2 - length hs = Suc j" by (cases "2 - length hs") auto
  with False show ?thesis by (simp add: atf_partitions_def)
qed (auto simp: atf_partitions_def)

lemma atf_params_for_snoc:
  assumes "atf_params_for es a" and "length es < 8" and "length (Entry a) = 8"
  shows "atf_params_for (es @ [p])
    (a\<lparr>MagicValue := (if es = [] then ''XLNX'' else MagicValue a), NumEntries := of_nat (length es) + 1,
       Entry := (Entry a)[length es := atf_entry p]\<rparr>)"
  using assms by (auto simp: atf_params_for_def take_Suc_conv_app_nth add.commute)

lemma wp_ReadImageHeader_note:
  assumes "read_inv RunningCpu k e s" and "k < 32" and "i = of_nat k"
  shows "wp (ReadImageHeader_note RunningCpu i e)
    (\<lambda>(Status, a, e') t. Status = XFSBL_SUCCESS \<and> read_inv RunningCpu (Suc k) e' t) (\<lambda>_ _. False) s"
proof -
  let ?p = "PartitionHeader s ! k" and ?es = "atf_partitions RunningCpu (take k (PartitionHeader s))"
  have i: "unat i = k" and i1: "(1 < i) = (2 \<le> k)"
    using assms(2,3) by (auto simp: unat_of_nat word_less_nat_alt)
  have e: "e = of_nat (length ?es)" and params: "atf_params_for ?es (ATFHandoffParams s)"
    and len: "length (PartitionHeader s) = 32" "length (Entry (ATFHandoffParams s)) = 8"
    using assms(1) by (simp_all add: read_inv_def Let_def instance_shape_def)
  have les: "length ?es \<le> 8" by (rule atf_partitions_length)
  then have ue: "unat e = length ?es"
    unfolding e by (simp add: unat_of_nat)
  have snoc: "take (Suc k) (PartitionHeader s) = take k (PartitionHeader s) @ [?p]"
    using len assms(2) by (simp add: take_Suc_conv_app_nth)
  have e8: "(e < XFSBL_MAX_ENTRIES_FOR_ATF) = (length ?es < 8)"
    by (simp add: word_less_nat_alt ue hw)
  have e0: "(e = 0) = (?es = [])"
    using ue by (auto simp: unat_eq_zero)
  have "read_inv RunningCpu (Suc k) (e + 1)
      (s\<lparr>ATFHandoffParams := ATFHandoffParams s
         \<lparr>MagicValue := (if e = 0 then ''XLNX'' else MagicValue (ATFHandoffParams s)),
          NumEntries := e + 1, Entry := (Entry (ATFHandoffParams s))[unat e := atf_entry ?p]\<rparr>\<rparr>)"
    if "2 \<le> k" "length ?es < 8" "atf_eligible RunningCpu ?p"
    using atf_params_for_snoc [OF params that(2) len(2), of ?p] that len assms(2)
    by (simp add: read_inv_def instance_shape_def snoc atf_partitions_snoc ue e0 e [symmetric])
  moreover have "read_inv RunningCpu (Suc k) e s"
    if "\<not> (2 \<le> k \<and> length ?es < 8 \<and> atf_eligible RunningCpu ?p)"
    using that assms(1,2) len by (auto simp: read_inv_def snoc atf_partitions_snoc)
  ultimately show ?thesis
    using assms(2) les
    by (auto simp: ReadImageHeader_note_def XFsbl_SetATFHandoffParameters_def wp_eq i i1 e8 ue
        Let_def atf_eligible_def dest_cpu_def atf_entry_def [symmetric] split: if_splits)
qed


lemma wp_ReadImageHeader_step:
  assumes "read_inv RunningCpu k e s" and "k < 32" and "i = of_nat k"
  shows "wp (ReadImageHeader_step W Ops Flash RunningCpu T i a e)
    (\<lambda>(Status, a, e') t. instance_shape t \<and> (Status = XFSBL_SUCCESS \<longrightarrow> read_inv RunningCpu (Suc k) e' t))
    (\<lambda>_ _. False) s"
proof -
  have i: "unat i = k" using assms(2,3) by (simp add: unat_of_nat)
  have noted: "wp (ReadImageHeader_note RunningCpu i e)
      (\<lambda>(Status, a, e') t. instance_shape t \<and> (Status = XFSBL_SUCCESS \<longrightarrow> read_inv RunningCpu (Suc k) e' t))
      (\<lambda>_ _. False) u" if "read_inv RunningCpu k e u" for u
    by (rule wp_mono [OF wp_ReadImageHeader_note [OF that assms(2,3)]]) (auto simp: read_inv_def)
  show ?thesis
  proof (cases Ops)
    case None
    have "read_inv RunningCpu k e (s\<lparr>PartitionHeader := (PartitionHeader s)[k := p]\<rparr>)" for p
      using assms(1,2) by (simp add: read_inv_def instance_shape_def)
    with None show ?thesis
      using assms(2) by (auto simp: ReadImageHeader_step_def set_PartitionHeader_def wp_eq i noted)
  next
    case (Some ops)
    have "read_inv RunningCpu k e (s\<lparr>trace := h, PartitionHeader := (PartitionHeader s)[k := p]\<rparr>)" for p h
      using assms(1,2) by (simp add: read_inv_def instance_shape_def)
    moreover have "instance_shape (s\<lparr>trace := h, PartitionHeader := (PartitionHeader s)[k := p]\<rparr>)" for p h
      using assms(1) by (simp add: read_inv_def instance_shape_def)
    ultimately show ?thesis
      using Some assms(2) by (auto simp: ReadImageHeader_step_def set_PartitionHeader_def wp_eq i noted)
  qed
qed

lemma wp_ReadImageHeader_loop:
  "read_inv RunningCpu k e s \<Longrightarrow> k + n \<le> 32 \<Longrightarrow> i = of_nat k \<Longrightarrow>
   wp (ReadImageHeader_loop W Ops Flash RunningCpu T n i a e)
     (\<lambda>Status t. instance_shape t \<and> (Status = XFSBL_SUCCESS \<longrightarrow> (\<exists>e. read_inv RunningCpu (k + n) e t)))
     (\<lambda>_ _. False) s"
proof (induction n arbitrary: k i a e s)
  case 0
  then show ?case by (auto simp: wp_eq read_inv_def)
next
  case (Suc n)
  note IH = Suc.IH [of "Suc k"]
  have "wp (ReadImageHeader_step W Ops Flash RunningCpu T i a e)
    (\<lambda>(Status, a, e') t. instance_shape t \<and> (Status = XFSBL_SUCCESS \<longrightarrow> read_inv RunningCpu (Suc k) e' t))
    (\<lambda>_ _. False) s"
    using Suc.prems by (intro wp_ReadImageHeader_step) auto
  then show ?case
    unfolding ReadImageHeader_loop.simps wp_bind
  proof (rule wp_mono, goal_cases)
    case (1 x t)
    obtain Status a' e' where [simp]: "x = (Status, a', e')" by (cases x)
    show ?case
      using 1 Suc.prems by (auto simp: wp_eq intro!: IH [simplified])
  qed
qed

lemma returns_ReadImageHeader_note [returns_intro]: "returns (ReadImageHeader_note R i e)"
  by (auto simp: ReadImageHeader_note_def XFsbl_SetATFHandoffParameters_def Let_def intro!: returns_intro)

lemma returns_ReadImageHeader_step [returns_intro]:
  "returns (ReadImageHeader_step W Ops Flash R T i a e)"
  unfolding ReadImageHeader_step_def set_PartitionHeader_def
  by (cases Ops) (auto intro!: returns_intro)

lemma returns_ReadImageHeader_loop [returns_intro]:
  "returns (ReadImageHeader_loop W Ops Flash R T n i a e)"
  by (induction n arbitrary: i a e) (auto intro!: returns_intro)

lemma returns_ReadImageHeader [returns_intro]: "returns (XFsbl_ReadImageHeader W Ops Flash R T)"
  unfolding XFsbl_ReadImageHeader_def ReadImageHeader_table_def ReadImageHeader_partitions_def Let_def
  by (cases Ops) (auto intro!: returns_intro)


text \<open>An invariant that does not depend on the headers: reading them keeps it.\<close>

locale headers_closed = io_closed +
  assumes headers_step: "I s \<Longrightarrow> I (s\<lparr>PartitionHeader := hs\<rparr>)"
    and atf_step: "I s \<Longrightarrow> I (s\<lparr>ATFHandoffParams := a\<rparr>)"
begin

lemma keeps_ReadImageHeader_step: "keeps any_exit I (ReadImageHeader_step W Ops Flash R T i a e)"
proof -
  have "keeps any_exit I (ReadImageHeader_note R i e)"
    unfolding ReadImageHeader_note_def XFsbl_SetATFHandoffParameters_def Let_def
    by (auto intro!: keeps_intro keeps_mod atf_step)
  moreover have "keeps any_exit I (set_PartitionHeader i p)" for p
    unfolding set_PartitionHeader_def by (auto intro!: keeps_intro keeps_mod headers_step)
  ultimately show ?thesis
    unfolding ReadImageHeader_step_def
    by (cases Ops) (auto intro!: keeps_intro io_keeps)
qed

lemma keeps_ReadImageHeader_loop: "keeps any_exit I (ReadImageHeader_loop W Ops Flash R T n i a e)"
  by (induction n arbitrary: i a e) (auto intro!: keeps_intro keeps_ReadImageHeader_step)

lemma keeps_ReadImageHeader:
  assumes "\<And>s h. I s \<Longrightarrow> I (s\<lparr>ImageHeaderTable := h\<rparr>)"
  shows "keeps any_exit I (XFsbl_ReadImageHeader W Ops Flash R T)"
proof -
  have "keeps any_exit I (ReadImageHeader_table W Ops Flash T)"
    unfolding ReadImageHeader_table_def by (cases Ops) (auto intro!: keeps_intro io_keeps keeps_mod assms)
  moreover have "keeps any_exit I (ReadImageHeader_partitions W Ops Flash R T)"
    unfolding ReadImageHeader_partitions_def Let_def by (intro keeps_intro io_keeps keeps_ReadImageHeader_loop)
  ultimately show ?thesis
    unfolding XFsbl_ReadImageHeader_def by (intro keeps_intro)
qed

end

interpretation iht_frame: headers_closed "\<lambda>s. ImageHeaderTable s = h" for h
  by unfold_locales simp_all

text \<open>
  What a successful read leaves: a table of the boot device with 2 to 32 partitions, or a
  table that refers to a secondary device, and then the partition headers are untouched.
\<close>

definition header_read :: "XFsblPs_PartitionHeader list \<Rightarrow> fsbl \<Rightarrow> bool" where
  "header_read hs s \<longleftrightarrow> (let t = ImageHeaderTable s in
     if PartitionPresentDevice t = XIH_IHT_PPD_SAME
     then 2 \<le> NoOfPartitions t \<and> NoOfPartitions t \<le> 32 else PartitionHeader s = hs)"

lemma ReadImageHeader_establishes:
  "establishes (\<lambda>s. PartitionHeader s = hs) (header_read hs) (XFsbl_ReadImageHeader W Ops Flash R T)"
proof -
  have same: "PartitionPresentDevice h = XIH_IHT_PPD_SAME \<and> 2 \<le> NoOfPartitions h \<and> NoOfPartitions h \<le> 32"
    if "XFsbl_ValidateImageHeaderTable h = XFSBL_SUCCESS" for h
    using that by (simp add: ValidateImageHeaderTable_ok_iff)
  have sec: "PartitionPresentDevice h \<noteq> XIH_IHT_PPD_SAME"
    if "XFsbl_ValidateImageHeaderTable h = XFSBL_STATUS_SECONDARY_BOOT_MODE" for h
    using that by (auto simp: XFsbl_ValidateImageHeaderTable_def hw split: if_splits)
  have parts: "wp (ReadImageHeader_partitions W Ops Flash R T)
      (\<lambda>x t. x = XFSBL_SUCCESS \<longrightarrow> header_read hs t) (\<lambda>_ _. True) u"
    if "PartitionHeader u = hs" for u
    unfolding ReadImageHeader_partitions_def
    using that sec [of "ImageHeaderTable u"] same [of "ImageHeaderTable u"]
    by (auto simp: wp_eq Let_def header_read_def
        intro!: wp_mono [OF keepsD [OF iht_frame.keeps_ReadImageHeader_loop [of "ImageHeaderTable u" W Ops Flash R T], of u]])
  show ?thesis
    unfolding establishes_def XFsbl_ReadImageHeader_def ReadImageHeader_table_def
    using parts by (cases Ops) (auto simp: wp_eq)
qed

lemma ReadImageHeader_wp:
  assumes "instance_shape s"
  shows "wp (XFsbl_ReadImageHeader W Ops Flash RunningCpu T)
    (\<lambda>Status t. instance_shape t \<and>
       (Status = XFSBL_SUCCESS \<and> PartitionPresentDevice (ImageHeaderTable t) = XIH_IHT_PPD_SAME \<longrightarrow>
        (\<exists>e. read_inv RunningCpu (unat (NoOfPartitions (ImageHeaderTable t))) e t)))
    (\<lambda>_ _. False) s"
    (is "wp _ ?Q ?H s")
proof -
  let ?body = "\<lambda>h. (ReadImageHeader_loop W Ops Flash RunningCpu T (unat (NoOfPartitions h)) 0
       (PartitionHeaderAddress h * XIH_PARTITION_WORD_LENGTH) 0)"
  have loop: "wp (?body h) (\<lambda>Status t. (if Status \<noteq> XFSBL_SUCCESS then instance_shape t else
         instance_shape t \<and> (\<exists>e. read_inv RunningCpu (unat (NoOfPartitions h)) e t)) \<and> ImageHeaderTable t = h) ?H u"
    if "instance_shape u" "ImageHeaderTable u = h" "XFsbl_ValidateImageHeaderTable h = XFSBL_SUCCESS" for u h
  proof -
    have "unat (NoOfPartitions h) \<le> 32"
      using that(3) by (simp add: ValidateImageHeaderTable_ok_iff word_le_nat_alt)
    moreover have "read_inv RunningCpu 0 0 u"
      using that(1) by (simp add: read_inv_def atf_partitions_def atf_params_for_def)
    ultimately have "wp (?body h) (\<lambda>Status t. instance_shape t \<and>
        (Status = XFSBL_SUCCESS \<longrightarrow> (\<exists>e. read_inv RunningCpu (0 + unat (NoOfPartitions h)) e t))) ?H u"
      by (intro wp_ReadImageHeader_loop) auto
    from wp_conj [OF this keepsD [OF iht_frame.keeps_ReadImageHeader_loop [of h], of u]] that(2)
    show ?thesis by - (rule wp_mono, assumption, auto)
  qed
  have sec: "PartitionPresentDevice h \<noteq> XIH_IHT_PPD_SAME"
    if "XFsbl_ValidateImageHeaderTable h = XFSBL_STATUS_SECONDARY_BOOT_MODE" for h
    using that by (auto simp: XFsbl_ValidateImageHeaderTable_def hw split: if_splits)
  have "wp (ReadImageHeader_partitions W Ops Flash RunningCpu T) ?Q ?H u" if "instance_shape u" for u
    unfolding ReadImageHeader_partitions_def
    using that sec
    by (auto simp: wp_eq Let_def instance_shape_def read_inv_def cong: if_cong
        intro!: wp_mono [OF loop [of u "ImageHeaderTable u"]])
  moreover have "instance_shape (s\<lparr>ImageHeaderTable := h\<rparr>)" "instance_shape (s\<lparr>trace := g, ImageHeaderTable := h\<rparr>)"
    for g h using assms by (simp_all add: instance_shape_def)
  ultimately show ?thesis
    unfolding XFsbl_ReadImageHeader_def ReadImageHeader_table_def
    by (cases Ops) (auto simp: wp_eq)
qed

definition a53_number :: "u32 \<Rightarrow> u32" where
  "a53_number a = (let d = a AND XIH_PH_ATTRB_DEST_CPU_MASK
     in if d = XIH_PH_ATTRB_DEST_CPU_A53_0 then 0 else if d = XIH_PH_ATTRB_DEST_CPU_A53_1 then 1
        else if d = XIH_PH_ATTRB_DEST_CPU_A53_2 then 2 else 3)"

lemma ATF_PartitionFlags_cpu: "drop_bit 5 (ATF_PartitionFlags a) = a53_number a"
proof -
  define x where "x = drop_bit 3 (a AND 8) OR drop_bit 17 (a AND 0x40000) OR
    push_bit 2 (a AND 1) OR push_bit 2 (a AND 6)"
  have m: "(8 :: u32) = push_bit 3 1" "(0x40000 :: u32) = push_bit 18 1" "(1 :: u32) = mask 1"
    "(6 :: u32) = push_bit 1 (mask 1) OR push_bit 2 (mask 1)"
    by (simp_all add: mask_eq_exp_minus_1)
  have "drop_bit 5 x = 0"
    unfolding x_def m by (rule bit_word_eqI) (auto simp: bit_simps)
  moreover have "ATF_PartitionFlags a = x OR push_bit 5 (a53_number a)"
    by (simp add: ATF_PartitionFlags_def a53_number_def x_def Let_def hw)
  moreover have "drop_bit 5 (push_bit 5 (a53_number a)) = a53_number a"
    by (simp add: a53_number_def Let_def)
  ultimately show ?thesis by simp
qed

section \<open>An example image\<close>

text \<open>
  A flash with three partitions: the table and, at every other address, a plain partition
  for A53-0.
\<close>

definition example_table :: "u32 list" where
  "example_table = [0x01020000, 3, 0x40, 0, 0, 0, 0, 0, 0, 0, 0, 0, 0, 0, 0, 0xFEFDFFBC]"

definition example_partition :: "u32 list" where
  "example_partition = [0x10, 0x10, 0x10, 0x50, 0x80000, 0, 0x80000, 0, 0x400, 0x117, 1, 0, 0, 0, 0, 0]"

definition example_world :: world where
  "example_world = quiet_world\<lparr>ext_byte := (\<lambda>_ c k. case c of
       Dev (DeviceCopy ops src dst len) \<Rightarrow>
         if dst = 0xFFFD0000 then bytes_of example_table k else bytes_of example_partition k
     | _ \<Rightarrow> 0)\<rparr>"

lemma example_table_decoded:
  "iht_of_bytes (bytes_of example_table) = \<lparr>IHT_Version = 0x01020000, NoOfPartitions = 3,
     PartitionHeaderAddress = 0x40, Reserved_0xC = 0, IHT_AuthCertificateOffset = 0,
     PartitionPresentDevice = 0, IHT_Reserved = [0, 0, 0, 0, 0, 0, 0, 0, 0], IHT_Checksum = 0xFEFDFFBC\<rparr>"
proof -
  have "le32 (bytes_of example_table) n = example_table ! (n div 4)" if "n mod 4 = 0" for n
  proof -
    have "n = 4 * (n div 4)" using that by presburger
    then show ?thesis using le32_bytes_of [of example_table "n div 4"] by presburger
  qed
  then show ?thesis
    by (simp add: iht_of_bytes_def example_table_def upt_rec)
qed

lemma example_table_valid:
  "XFsbl_ValidateImageHeaderTable (iht_of_bytes (bytes_of example_table)) = XFSBL_SUCCESS"
  unfolding ValidateImageHeaderTable_ok_iff example_table_decoded
  by (simp add: iht_words_def hw upt_rec)

lemma example_partition_decoded:
  "ph_of_bytes (bytes_of example_partition) = \<lparr>EncryptedDataWordLength = 0x10,
     UnEncryptedDataWordLength = 0x10, TotalDataWordLength = 0x10, NextPartitionOffset = 0x50,
     DestinationExecutionAddress = 0x80000, DestinationLoadAddress = 0x80000,
     DataWordOffset = 0x400, PartitionAttributes = 0x117, SectionCount = 1, ChecksumWordOffset = 0,
     ImageHeaderOffset = 0, AuthCertificateOffset = 0, PH_Iv = 0, PH_Checksum = 0\<rparr>"
proof -
  have "le32 (bytes_of example_partition) n = example_partition ! (n div 4)" if "n mod 4 = 0" for n
  proof -
    have "n = 4 * (n div 4)" using that by presburger
    then show ?thesis using le32_bytes_of [of example_partition "n div 4"] by presburger
  qed
  then show ?thesis
    by (simp add: ph_of_bytes_def le64_def example_partition_def)
qed

lemma example_read:
  assumes "instance_shape s"
  shows "wp (XFsbl_ReadImageHeader example_world (Some Qspi24Ops) 0 XIH_PH_ATTRB_DEST_CPU_A53_0 0x80)
     (\<lambda>Status t. Status = XFSBL_SUCCESS \<and> ImageHeaderTable t = iht_of_bytes (bytes_of example_table) \<and>
       take 3 (PartitionHeader t) = replicate 3 (ph_of_bytes (bytes_of example_partition)))
     (\<lambda>_ _. False) s"
proof -
  note defs = XFsbl_ReadImageHeader_def ReadImageHeader_table_def ReadImageHeader_partitions_def
    ReadImageHeader_step_def set_PartitionHeader_def ReadImageHeader_note_def
    XFsbl_SetATFHandoffParameters_def
  have n: "unat (NoOfPartitions (iht_of_bytes (bytes_of example_table))) = Suc (Suc (Suc 0))"
    by (simp add: example_table_decoded)
  have codes: "XFSBL_SUCCESS \<noteq> XFSBL_STATUS_SECONDARY_BOOT_MODE" by (simp add: hw)
  have world: "ext_ret example_world h c = XFSBL_SUCCESS" "image_header_addr example_world = 0xFFFD0000"
    "ext_byte example_world h (Dev (DeviceCopy ops src dst len)) =
       (if dst = 0xFFFD0000 then bytes_of example_table else bytes_of example_partition)"
    for h c ops src dst len
    by (auto simp: example_world_def quiet_world_def hw)
  have take3: "take 3 (xs[0 := p, Suc 0 := p, 2 := p]) = replicate 3 p"
    if "length xs = 32" for xs and p :: XFsblPs_PartitionHeader
    using that by (intro nth_equalityI) (auto simp: nth_list_update)
  define p where "p = ph_of_bytes (bytes_of example_partition)"
  have p: "XFsbl_GetDestinationCpu p = XIH_PH_ATTRB_DEST_CPU_A53_0" "DestinationExecutionAddress p \<noteq> 0"
    by (simp_all add: p_def example_partition_decoded XFsbl_GetDestinationCpu_def hw)
  have hws: "XIH_PH_ATTRB_DEST_CPU_A53_0 \<noteq> XIH_PH_ATTRB_DEST_CPU_NONE" "0 < XFSBL_MAX_ENTRIES_FOR_ATF"
    "XIH_PH_ATTRB_DEST_CPU_A53_0 \<le> XIH_PH_ATTRB_DEST_CPU_A53_3"
    by (simp_all add: hw)
  have len: "length (PartitionHeader s) = 32"
    using assms by (simp add: instance_shape_def)
  show ?thesis
    unfolding p_def [symmetric]
    by (simp add: defs wp_eq world example_table_valid n codes Let_def p hws len take3 p_def [symmetric])
qed

section \<open>Properties\<close>

text \<open>C15: For every partition header, running CPU and reset type, validation reads the
  security fuses once, changes nothing else, and returns success exactly for the acceptable
  headers: the encryption and RSA bits agree with the three lengths, an empty partition
  executes in place from QSPI, the load address lies in the memory of the destination CPU,
  and the CPU, device and checksum fields are valid.\<close>

theorem ValidatePartitionHeader_accepts:
  "\<exists>Status. XFsbl_ValidatePartitionHeader W p RunningCpu ResetType s =
      Some (Ret Status, s\<lparr>trace := Rd EFUSE_SEC_CTRL (reg_in W (trace s) EFUSE_SEC_CTRL) # trace s\<rparr>) \<and>
    (Status = XFSBL_SUCCESS) =
      header_acceptable W (reg_in W (trace s) EFUSE_SEC_CTRL AND EFUSE_SEC_CTRL_ENC_ONLY_MASK \<noteq> 0)
        RunningCpu ResetType p"
  by (simp add: XFsbl_ValidatePartitionHeader_def bindM_def XFsbl_In32_def getM_def seqM_def logM_def
      modM_def retM_def ValidatePartitionFields_ok_iff)

text \<open>The image header table is accepted exactly when its sixteen words sum to minus
  one, it belongs to the boot device and it announces 2 to 32 partitions.\<close>

lemma ValidateImageHeaderTable_success:
  "XFsbl_ValidateImageHeaderTable t = XFSBL_SUCCESS \<longleftrightarrow>
     sum_list (iht_words t) = - 1 \<and> PartitionPresentDevice t = XIH_IHT_PPD_SAME \<and>
     2 \<le> NoOfPartitions t \<and> NoOfPartitions t \<le> 32"
  by (rule ValidateImageHeaderTable_ok_iff)

text \<open>C13: A corrupted image header table is found.  When the 64 bytes of a table that is accepted arrive
  with any single one of their sixteen words changed, whatever the change, the table is refused
  with the error of the checksum.\<close>

theorem ValidateImageHeaderTable_corrupted:
  assumes "XFsbl_ValidateImageHeaderTable (iht_of_bytes b) = XFSBL_SUCCESS"
    and "k < 16" and "le32 b' (4 * k) \<noteq> le32 b (4 * k)"
    and "\<forall>j<16. j \<noteq> k \<longrightarrow> le32 b' (4 * j) = le32 b (4 * j)"
  shows "XFsbl_ValidateImageHeaderTable (iht_of_bytes b') = XFSBL_ERROR_IHT_CHECKSUM"
proof -
  have "XFsbl_ValidateChecksum (iht_words (iht_of_bytes b))
      (XIH_IHT_LEN div XIH_PARTITION_WORD_LENGTH) = XFSBL_SUCCESS"
    using assms(1) by (auto simp: XFsbl_ValidateImageHeaderTable_def hw split: if_splits)
  moreover have "iht_words (iht_of_bytes b') = (iht_words (iht_of_bytes b))[k := le32 b' (4 * k)]"
    unfolding iht_words_of_bytes using assms(2,4) by (intro nth_equalityI) (auto simp: nth_list_update)
  moreover have "le32 b' (4 * k) \<noteq> iht_words (iht_of_bytes b) ! k"
    using assms(2,3) by (simp add: iht_words_of_bytes)
  ultimately have "XFsbl_ValidateChecksum (iht_words (iht_of_bytes b'))
      (XIH_IHT_LEN div XIH_PARTITION_WORD_LENGTH) = XFSBL_FAILURE"
    using assms(2) by (intro iht.one_word_corrupted) (auto simp: hw)
  then show ?thesis
    by (simp add: XFsbl_ValidateImageHeaderTable_def hw)
qed

lemma ValidateImageHeaderTable_corrupted_witness:
  "XFsbl_ValidateImageHeaderTable (iht_of_bytes (bytes_of (example_table[1 := 7]))) =
     XFSBL_ERROR_IHT_CHECKSUM"
proof (rule ValidateImageHeaderTable_corrupted [OF example_table_valid])
  show "1 < (16 :: nat)" by simp
  show "le32 (bytes_of (example_table[1 := 7])) (4 * 1) \<noteq> le32 (bytes_of example_table) (4 * 1)"
    unfolding le32_bytes_of by (simp add: example_table_def)
  show "\<forall>j<16. j \<noteq> 1 \<longrightarrow>
      le32 (bytes_of (example_table[1 := 7])) (4 * j) = le32 (bytes_of example_table) (4 * j)"
    unfolding le32_bytes_of by simp
qed

text \<open>C28: Reading the image header never leaves the arrays of the instance, whatever the
  flash delivers; it always returns, and when it succeeds with the partitions on the boot
  device, the structure handed to the trusted firmware lists the first eight eligible
  partitions after the first two, in order, with their count and the magic string.\<close>

theorem ReadImageHeader_entries:
  assumes "instance_shape s"
  shows "\<exists>Status t. XFsbl_ReadImageHeader W Ops Flash RunningCpu T s = Some (Ret Status, t) \<and>
    instance_shape t \<and>
    (Status = XFSBL_SUCCESS \<and> PartitionPresentDevice (ImageHeaderTable t) = XIH_IHT_PPD_SAME \<longrightarrow>
     atf_params_for (atf_partitions RunningCpu
       (take (unat (NoOfPartitions (ImageHeaderTable t))) (PartitionHeader t))) (ATFHandoffParams t))"
proof -
  obtain r t where run: "XFsbl_ReadImageHeader W Ops Flash RunningCpu T s = Some (r, t)"
    using returnsD [OF returns_ReadImageHeader] by blast
  with ReadImageHeader_wp [OF assms, of W Ops Flash RunningCpu T] show ?thesis
    by (cases r) (auto simp: wp_def read_inv_def Let_def)
qed

lemma ReadImageHeader_entries_witness:
  "\<exists>t. XFsbl_ReadImageHeader example_world (Some Qspi24Ops) 0 XIH_PH_ATTRB_DEST_CPU_A53_0 0x80 fsbl_init
      = Some (Ret XFSBL_SUCCESS, t) \<and>
    NumEntries (ATFHandoffParams t) = 1 \<and>
    Entry (ATFHandoffParams t) ! 0 = atf_entry (ph_of_bytes (bytes_of example_partition))"
proof -
  have shape: "instance_shape fsbl_init" by (simp add: instance_shape_def fsbl_init_def)
  obtain Status t where run: "XFsbl_ReadImageHeader example_world (Some Qspi24Ops) 0
      XIH_PH_ATTRB_DEST_CPU_A53_0 0x80 fsbl_init = Some (Ret Status, t)"
    and inv: "instance_shape t" and main: "Status = XFSBL_SUCCESS \<and> PartitionPresentDevice (ImageHeaderTable t) = XIH_IHT_PPD_SAME \<longrightarrow>
     atf_params_for (atf_partitions XIH_PH_ATTRB_DEST_CPU_A53_0
       (take (unat (NoOfPartitions (ImageHeaderTable t))) (PartitionHeader t))) (ATFHandoffParams t)"
    using ReadImageHeader_entries [OF shape] by metis
  have ok: "Status = XFSBL_SUCCESS" "ImageHeaderTable t = iht_of_bytes (bytes_of example_table)"
      "take 3 (PartitionHeader t) = replicate 3 (ph_of_bytes (bytes_of example_partition))"
    using wp_Ret [OF example_read [OF shape] run] by simp_all
  have r3: "replicate 3 x = [x, x, x]" for x :: XFsblPs_PartitionHeader
    by (simp add: numeral_3_eq_3)
  have "atf_eligible XIH_PH_ATTRB_DEST_CPU_A53_0 (ph_of_bytes (bytes_of example_partition))"
    by (simp add: atf_eligible_def example_partition_decoded dest_cpu_def XFsbl_GetDestinationCpu_def hw)
  then have "atf_params_for [ph_of_bytes (bytes_of example_partition)] (ATFHandoffParams t)"
    using main ok r3 by (simp add: example_table_decoded atf_partitions_def hw)
  then show ?thesis
    using run ok(1) inv by (auto simp: atf_params_for_def instance_shape_def take_Suc_conv_app_nth)
qed

text \<open>The flags handed to the trusted firmware: bit 0 is the execution state, bit 1 the
  endianness, bit 2 the security state, bits 3 and 4 the exception level of the partition
  attributes, and the bits from 5 up are the number of the A53 core.\<close>

lemma ATF_PartitionFlags_fields:
  fixes a :: u32
  shows "bit (ATF_PartitionFlags a) 0 = bit a 3 \<and> bit (ATF_PartitionFlags a) 1 = bit a 18 \<and>
    bit (ATF_PartitionFlags a) 2 = bit a 0 \<and> bit (ATF_PartitionFlags a) 3 = bit a 1 \<and>
    bit (ATF_PartitionFlags a) 4 = bit a 2 \<and> drop_bit 5 (ATF_PartitionFlags a) = a53_number a"
  unfolding ATF_PartitionFlags_cpu ATF_PartitionFlags_def Let_def
  by (simp add: hw bit_simps a53_number_def Let_def)

text \<open>A partition without a destination CPU is announced to the trusted firmware when the
  loader runs on A53-0 (which is then its destination), but its flags name core 3.\<close>

theorem ATF_no_destination:
  assumes "XFsbl_GetDestinationCpu p = XIH_PH_ATTRB_DEST_CPU_NONE" and "DestinationExecutionAddress p \<noteq> 0"
  shows "atf_eligible XIH_PH_ATTRB_DEST_CPU_A53_0 p \<and>
    drop_bit 5 (ATF_PartitionFlags (PartitionAttributes p)) = 3"
  using assms
  by (simp add: atf_eligible_def dest_cpu_def ATF_PartitionFlags_cpu a53_number_def XFsbl_GetDestinationCpu_def hw)

lemma ATF_no_destination_witness:
  "atf_eligible XIH_PH_ATTRB_DEST_CPU_A53_0
     (ph_of_bytes (bytes_of example_partition)\<lparr>PartitionAttributes := 0x10\<rparr>) \<and>
   drop_bit 5 (ATF_PartitionFlags 0x10) = 3"
  using ATF_no_destination [of "ph_of_bytes (bytes_of example_partition)\<lparr>PartitionAttributes := 0x10\<rparr>"]
  by (simp add: example_partition_decoded XFsbl_GetDestinationCpu_def hw)

end
