(* ===== verification/Fsbl_Misc.thy ===== *)
theory Fsbl_Misc
  imports Fsbl_Image_Header
begin

text \<open>
  The helpers of \<open>xfsbl_misc.c\<close>, the driver wrappers of \<open>xfsbl_misc_drivers.c\<close> and the
  hooks of \<open>xfsbl_hooks.c\<close>: strings and memory, the file name on an SD card, silicon
  identification, power-up and isolation requests to the PMU, the memory-to-memory DMA and
  the watchdog.
\<close>

section \<open>Strings and memory\<close>

text \<open>
  A C string is the list of its characters, without the final null byte.
\<close>

definition XFsbl_Strcat :: "string \<Rightarrow> string \<Rightarrow> string" where
  "XFsbl_Strcat Str1 Str2 = Str1 @ Str2"

fun XFsbl_Strcmp :: "string \<Rightarrow> string \<Rightarrow> int" where
  "XFsbl_Strcmp [] [] = 0"
| "XFsbl_Strcmp [] (c # cs) = - 1"
| "XFsbl_Strcmp (c # cs) [] = 1"
| "XFsbl_Strcmp (c # cs) (d # ds) =
     (if c = d then XFsbl_Strcmp cs ds
      else if (of_char c :: nat) < of_char d then - 1 else 1)"

text \<open>\<open>while (Len != 0) { *Dst++ = *Src++; Len--; }\<close>, with the offset \<open>i\<close> reached so far.\<close>

primrec XFsbl_MemCpy :: "nat \<Rightarrow> nat \<Rightarrow> (nat \<Rightarrow> u8) \<Rightarrow> (nat \<Rightarrow> u8) \<Rightarrow> nat \<Rightarrow> u8" where
  "XFsbl_MemCpy 0 i Dst Src = Dst"
| "XFsbl_MemCpy (Suc Len) i Dst Src = XFsbl_MemCpy Len (Suc i) (Dst(i := Src i)) Src"

lemma div10_less: "(n :: u32) div 10 \<noteq> 0 \<Longrightarrow> unat n div 10 < unat n"
  by (cases "n = 0") (auto simp: unat_gt_0)

text \<open>The digits of the file name, written from the last one backwards.\<close>

function sd_digits :: "nat \<Rightarrow> nat \<Rightarrow> u32 \<Rightarrow> string \<Rightarrow> string" where
  "sd_digits lo Index MultiBootNum Name =
     (if Index \<ge> lo then
        (let Value = MultiBootNum mod 10; Rest = MultiBootNum div 10;
             Name' = Name[Index := char_of (of_char (Name ! Index) + unat Value)]
         in if Rest = 0 then Name' else sd_digits lo (Index - 1) Rest Name')
      else Name)"
  by pat_completeness auto

termination
  by (relation "measure (\<lambda>(lo, Index, n, Name). unat n)") (auto simp: unat_div div10_less)

declare sd_digits.simps [simp del]

definition XFsbl_MakeSdFileName :: "u32 \<Rightarrow> u32 \<Rightarrow> string" where
  "XFsbl_MakeSdFileName MultibootReg DrvNum =
     (if MultibootReg = 0 then
        (if DrvNum = XFSBL_SD_DRV_NUM_0 then ''BOOT.BIN'' else ''1:/BOOT.BIN'')
      else if DrvNum = XFSBL_SD_DRV_NUM_0 then
        (let FileNameLen = unat XFSBL_BASE_FILE_NAME_LEN_SD_0
         in sd_digits (FileNameLen - unat XFSBL_NUM_DIGITS_IN_FILE_NAME) (FileNameLen - 1)
              MultibootReg ''BOOT0000.BIN'')
      else
        (let FileNameLen = unat XFSBL_BASE_FILE_NAME_LEN_SD_1
         in sd_digits (FileNameLen - unat XFSBL_NUM_DIGITS_IN_FILE_NAME) (FileNameLen - 1)
              MultibootReg ''1:/BOOT0000.BIN''))"

section \<open>Silicon identification\<close>

definition XFsbl_GetSiliconIdName :: "world \<Rightarrow> string prog" where
  "XFsbl_GetSiliconIdName W =
     bindM (XFsbl_In32 W CSU_IDCODE) (\<lambda>IdCode.
       let DevSvdId = drop_bit (unat CSU_IDCODE_SVD_SHIFT)
             (IdCode AND (CSU_IDCODE_DEVICE_CODE_MASK OR CSU_IDCODE_SVD_MASK));
           ZynqmpDevices = [(0x10, ''3''), (0x11, ''2''), (0x20, ''5''), (0x21, ''4''),
             (0x30, ''7''), (0x38, ''9''), (0x39, ''6''), (0x40, ''11''), (0x50, ''15''),
             (0x58, ''19''), (0x59, ''17'')]
       in retM (case map_of ZynqmpDevices DevSvdId of Some Name \<Rightarrow> Name | None \<Rightarrow> ''UNKN''))"

definition XFsbl_GetProcEng :: "world \<Rightarrow> string prog" where
  "XFsbl_GetProcEng W =
     bindM (XFsbl_In32 W CSU_IDCODE) (\<lambda>IdCode.
       let DevSvdId = drop_bit (unat CSU_IDCODE_SVD_SHIFT)
             (IdCode AND (CSU_IDCODE_DEVICE_CODE_MASK OR CSU_IDCODE_SVD_MASK))
       in bindM (XFsbl_In32 W EFUSE_IPDISABLE) (\<lambda>RegVal.
         if RegVal AND EFUSE_IPDISABLE_CG_MASK = EFUSE_IPDISABLE_CG_MASK then retM ''CG''
         else if DevSvdId = 0x20 \<or> DevSvdId = 0x21 \<or> DevSvdId = 0x30 then
           bindM (XFsbl_In32 W EFUSE_IPDISABLE) (\<lambda>RegVal.
             if RegVal AND EFUSE_IPDISABLE_VCU_DIS_MASK = EFUSE_IPDISABLE_VCU_DIS_MASK
             then retM ''EG'' else retM ''EV'')
         else retM ''EG''))"

definition XFsbl_CheckSupportedCpu :: "world \<Rightarrow> u32 \<Rightarrow> u32 prog" where
  "XFsbl_CheckSupportedCpu W CpuId =
     bindM (XFsbl_GetProcEng W) (\<lambda>ProcEng.
       if XFsbl_Strcmp ProcEng ''CG'' = 0 \<and>
          (CpuId = XIH_PH_ATTRB_DEST_CPU_A53_2 \<or> CpuId = XIH_PH_ATTRB_DEST_CPU_A53_3)
       then retM XFSBL_FAILURE else retM XFSBL_SUCCESS)"

section \<open>Requests to the PMU\<close>

definition XFsbl_PowerUpIsland :: "world \<Rightarrow> u32 \<Rightarrow> u32 prog" where
  "XFsbl_PowerUpIsland W PwrIslandMask =
     bindM (extM W (Bsp PlatformInfo)) (\<lambda>Platform.
       if Platform \<noteq> XPLAT_ZYNQ_ULTRA_MPQEMU W then
         let Mask = (if PwrIslandMask AND PMU_GLOBAL_PWR_STATE_R5_1_MASK = PMU_GLOBAL_PWR_STATE_R5_1_MASK
               then (PwrIslandMask AND NOT PMU_GLOBAL_PWR_STATE_R5_1_MASK) OR
                    PMU_GLOBAL_PWR_STATE_R5_0_MASK
               else PwrIslandMask)
         in seqM (seqsM
              [XFsbl_Out32 PMU_GLOBAL_REQ_PWRUP_INT_EN Mask,
               XFsbl_Out32 PMU_GLOBAL_REQ_PWRUP_TRIG Mask,
               pollM W PMU_GLOBAL_REQ_PWRUP_STATUS (\<lambda>v. v AND Mask = 0)])
            (retM XFSBL_SUCCESS)
       else retM XFSBL_SUCCESS)"

definition XFsbl_IsolationRestore :: "world \<Rightarrow> u32 \<Rightarrow> u32 prog" where
  "XFsbl_IsolationRestore W IsolationMask =
     bindM (extM W (Bsp PlatformInfo)) (\<lambda>Platform.
       if Platform \<noteq> XPLAT_ZYNQ_ULTRA_MPQEMU W then
         seqM (seqsM
            [XFsbl_Out32 PMU_GLOBAL_REQ_ISO_INT_EN IsolationMask,
             XFsbl_Out32 PMU_GLOBAL_REQ_ISO_TRIG IsolationMask,
             pollM W PMU_GLOBAL_REQ_ISO_STATUS (\<lambda>v. v AND IsolationMask = 0)])
           (retM XFSBL_SUCCESS)
       else retM XFSBL_SUCCESS)"

section \<open>Memory-to-memory DMA\<close>

definition XFsbl_AdmaCopy :: "world \<Rightarrow> u64 \<Rightarrow> u64 \<Rightarrow> u32 \<Rightarrow> u32 prog" where
  "XFsbl_AdmaCopy W DstAddr SrcAddr Size =
     seqM (seqsM
       [pollM W ADMA_CH0_ZDMA_CH_STATUS (\<lambda>v.
          v AND ADMA_CH0_ZDMA_CH_STATUS_STATE_MASK = ADMA_CH0_ZDMA_CH_STATUS_STATE_DONE \<or>
          v AND ADMA_CH0_ZDMA_CH_STATUS_STATE_MASK = ADMA_CH0_ZDMA_CH_STATUS_STATE_ERR),
        XFsbl_Out32 ADMA_CH0_ZDMA_CH_SRC_DSCR_WORD0
          (lo32 (SrcAddr AND zx ADMA_CH0_ZDMA_CH_DST_DSCR_WORD0_LSB_MASK)),
        XFsbl_Out32 ADMA_CH0_ZDMA_CH_SRC_DSCR_WORD1
          (lo32 (drop_bit 32 SrcAddr AND zx ADMA_CH0_ZDMA_CH_DST_DSCR_WORD1_MSB_MASK)),
        XFsbl_Out32 ADMA_CH0_ZDMA_CH_DST_DSCR_WORD0
          (lo32 (DstAddr AND zx ADMA_CH0_ZDMA_CH_DST_DSCR_WORD0_LSB_MASK)),
        XFsbl_Out32 ADMA_CH0_ZDMA_CH_DST_DSCR_WORD1
          (lo32 (drop_bit 32 DstAddr AND zx ADMA_CH0_ZDMA_CH_DST_DSCR_WORD1_MSB_MASK)),
        XFsbl_Out32 ADMA_CH0_ZDMA_CH_SRC_DSCR_WORD2 Size,
        XFsbl_Out32 ADMA_CH0_ZDMA_CH_DST_DSCR_WORD2 Size,
        rmwM W ADMA_CH0_ZDMA_CH_SRC_DSCR_WORD3 (\<lambda>v. v OR 1),
        rmwM W ADMA_CH0_ZDMA_CH_DST_DSCR_WORD3 (\<lambda>v. v OR 1),
        rmwM W ADMA_CH0_ZDMA_CH_CTRL2 (\<lambda>v. v OR ADMA_CH0_ZDMA_CH_CTRL2_EN_MASK),
        pollM W ADMA_CH0_ZDMA_CH_ISR (\<lambda>v.
          v AND ADMA_CH0_ZDMA_CH_ISR_DMA_DONE_MASK = ADMA_CH0_ZDMA_CH_ISR_DMA_DONE_MASK),
        rmwM W ADMA_CH0_ZDMA_CH_ISR (\<lambda>_. ADMA_CH0_ZDMA_CH_ISR_DMA_DONE_MASK)])
      (bindM (XFsbl_In32 W ADMA_CH0_ZDMA_CH_STATUS) (\<lambda>RegVal.
         seqM (XFsbl_Out32 ADMA_CH0_ZDMA_CH_CTRL0_TOTAL_BYTE_COUNT 0)
           (retM (if RegVal = ADMA_CH0_ZDMA_CH_STATUS_STATE_ERR
                  then XFSBL_FAILURE else XFSBL_SUCCESS))))"

section \<open>Watchdog and power management\<close>

text \<open>
  The watchdog is compiled in when the board has one; \<open>WdtMask\<close> is then \<open>XFSBL_WDT_MASK\<close>.
  The counter value that \<open>XFsbl_ConvertTime_WdtCounter\<close> computes in floating point only
  reaches the driver, through \<open>WdtSetCounterReset\<close>.
\<close>

definition XFsbl_InitWdt :: "world \<Rightarrow> u32 \<Rightarrow> u32 prog" where
  "XFsbl_InitWdt W WdtMask =
     bindM (extM W (Drv WdtLookup)) (\<lambda>ConfigPtr.
       if ConfigPtr = 0 then retM XFSBL_WDT_INIT_FAILED
       else tryM_as XFSBL_WDT_INIT_FAILED (extM W (Drv WdtInit))
         (seqM (seqsM
            [callM W (Drv WdtSetPrescale),
             callM W (Drv WdtSetCounterReset),
             callM W (Drv WdtEnableOutput),
             rmwM W PMU_GLOBAL_ERROR_SRST_EN_1 (\<lambda>v. v OR WdtMask),
             rmwM W PMU_GLOBAL_ERROR_EN_1 (\<lambda>v. v OR WdtMask),
             callM W (Drv WdtStart),
             callM W (Drv WdtRestart)])
           (retM XFSBL_SUCCESS)))"

definition XFsbl_RestartWdt :: "world \<Rightarrow> unit prog" where
  "XFsbl_RestartWdt W = callM W (Drv WdtRestart)"

definition XFsbl_StopWdt :: "world \<Rightarrow> u32 \<Rightarrow> unit prog" where
  "XFsbl_StopWdt W WdtMask =
     bindM (extM W (Drv WdtReady)) (\<lambda>IsReady. seqsM
       [whenM (IsReady \<noteq> 0) (callM W (Drv WdtStop)),
        rmwM W PMU_GLOBAL_ERROR_SRST_DIS_1 (\<lambda>v. v OR WdtMask)])"

definition XFsbl_PmInit :: "world \<Rightarrow> u32 prog" where
  "XFsbl_PmInit W =
     (if \<not> cfg_xilpm W then retM XFSBL_SUCCESS
      else bindM (XFsbl_In32 W PMU_GLOBAL_GLOBAL_CNTRL) (\<lambda>RegVal.
        if RegVal AND PMU_GLOBAL_GLOBAL_CNTRL_FW_IS_PRESENT_MASK
             \<noteq> PMU_GLOBAL_GLOBAL_CNTRL_FW_IS_PRESENT_MASK then retM XFSBL_SUCCESS
        else if \<not> cfg_ipi W then retM XFSBL_ERROR_PM_INIT
        else bindM (extM W (Drv IpiLookup)) (\<lambda>Config.
          if Config = 0 then retM XFSBL_ERROR_PM_INIT
          else tryM_as XFSBL_ERROR_PM_INIT (extM W (Drv IpiCfgInitialize))
              (tryM_as XFSBL_ERROR_PM_INIT (extM W (Drv InitXilpm))
                (tryM_as XFSBL_ERROR_PM_INIT (extM W (Drv SetConfiguration))
                  (retM XFSBL_SUCCESS))))))"

section \<open>Hooks\<close>

definition XFsbl_HookBeforeBSDownload :: "u32 prog" where
  "XFsbl_HookBeforeBSDownload = retM XFSBL_SUCCESS"

definition XFsbl_HookAfterBSDownload :: "u32 prog" where
  "XFsbl_HookAfterBSDownload = retM XFSBL_SUCCESS"

definition XFsbl_HookBeforeHandoff :: "u32 \<Rightarrow> u32 prog" where
  "XFsbl_HookBeforeHandoff EarlyHandoff = retM XFSBL_SUCCESS"

definition XFsbl_HookBeforeFallback :: "u32 prog" where
  "XFsbl_HookBeforeFallback = retM XFSBL_SUCCESS"

definition XFsbl_HookPsuInit :: "world \<Rightarrow> u32 prog" where
  "XFsbl_HookPsuInit W =
     bindM (extM W (Psu PsuInit)) (\<lambda>Status.
       let Status' = (if Status \<noteq> XFSBL_SUCCESS then XFSBL_PSU_INIT_FAILED + Status else Status)
       in seqM (XFsbl_Out32 AMS_PS_SYSMON_ANALOG_BUS PS_SYSMON_ANALOG_BUS_VAL) (retM Status'))"

section \<open>Frames\<close>

text \<open>None of the helpers touches more than the history.\<close>

context io_closed
begin

lemma keeps_PowerUpIsland: "keeps E I (XFsbl_PowerUpIsland W m)"
  unfolding XFsbl_PowerUpIsland_def Let_def by (intro keeps_intro io_keeps)

lemma keeps_IsolationRestore: "keeps E I (XFsbl_IsolationRestore W m)"
  unfolding XFsbl_IsolationRestore_def by (intro keeps_intro io_keeps)

lemma keeps_AdmaCopy: "keeps E I (XFsbl_AdmaCopy W d a n)"
  unfolding XFsbl_AdmaCopy_def by (intro keeps_intro io_keeps)

lemma keeps_GetProcEng: "keeps E I (XFsbl_GetProcEng W)"
  unfolding XFsbl_GetProcEng_def Let_def by (intro keeps_intro io_keeps)

lemma keeps_CheckSupportedCpu: "keeps E I (XFsbl_CheckSupportedCpu W c)"
  unfolding XFsbl_CheckSupportedCpu_def by (intro keeps_intro keeps_GetProcEng)

lemma keeps_InitWdt: "keeps E I (XFsbl_InitWdt W m)"
  unfolding XFsbl_InitWdt_def by (intro keeps_intro io_keeps)

lemma keeps_RestartWdt: "keeps E I (XFsbl_RestartWdt W)"
  unfolding XFsbl_RestartWdt_def by (intro keeps_intro io_keeps)

lemma keeps_StopWdt: "keeps E I (XFsbl_StopWdt W m)"
  unfolding XFsbl_StopWdt_def by (intro keeps_intro io_keeps)

lemma keeps_PmInit: "keeps E I (XFsbl_PmInit W)"
  unfolding XFsbl_PmInit_def by (intro keeps_intro io_keeps)

lemma keeps_HookPsuInit: "keeps E I (XFsbl_HookPsuInit W)"
  unfolding XFsbl_HookPsuInit_def Let_def by (intro keeps_intro io_keeps)

lemma keeps_hooks: "keeps E I XFsbl_HookBeforeBSDownload" "keeps E I XFsbl_HookAfterBSDownload"
  "keeps E I (XFsbl_HookBeforeHandoff e)" "keeps E I XFsbl_HookBeforeFallback"
  by (simp_all add: XFsbl_HookBeforeBSDownload_def XFsbl_HookAfterBSDownload_def
      XFsbl_HookBeforeHandoff_def XFsbl_HookBeforeFallback_def keeps_ret)

lemmas misc_keeps = io_keeps keeps_PowerUpIsland keeps_IsolationRestore keeps_AdmaCopy keeps_GetProcEng
  keeps_CheckSupportedCpu keeps_InitWdt keeps_RestartWdt keeps_StopWdt keeps_PmInit keeps_HookPsuInit
  keeps_hooks

end

section \<open>Properties\<close>

definition sd_number :: "nat \<Rightarrow> string" where
  "sd_number n = map (\<lambda>k. char_of (48 + n div 10 ^ k mod 10)) [3, 2, 1, 0]"

lemma unat_div10:
  fixes n :: u32
  shows "unat (n div 10) = unat n div 10" "unat (n mod 10) = unat n mod 10" "(n = 0) = (unat n = 0)"
  by (simp_all add: unat_div unat_mod unat_eq_zero)

lemma sd_number_unfold: "sd_number n = [char_of (48 + n div 10 div 10 div 10 mod 10), char_of (48 + n div 10 div 10 mod 10),
    char_of (48 + n div 10 mod 10), char_of (48 + n mod 10)]"
  by (simp add: sd_number_def flip: div_mult2_eq)

lemma zero_char: "char_of (48 :: nat) = CHR ''0''"
  by (simp add: char_of_def bit_simps)

lemma sd_digits_drive0: "sd_digits 4 7 n ''BOOT0000.BIN'' = ''BOOT'' @ sd_number (unat n) @ ''.BIN''"
  by (simp add: sd_digits.simps [of 4 7] sd_digits.simps [of 4 6] sd_digits.simps [of 4 5] sd_digits.simps [of 4 4]
      sd_digits.simps [of 4 3] Let_def unat_div10 sd_number_unfold zero_char)

lemma sd_digits_drive1: "sd_digits 7 10 n ''1:/BOOT0000.BIN'' = ''1:/BOOT'' @ sd_number (unat n) @ ''.BIN''"
  by (simp add: sd_digits.simps [of 7 10] sd_digits.simps [of 7 9] sd_digits.simps [of 7 8] sd_digits.simps [of 7 7]
      sd_digits.simps [of 7 6] Let_def unat_div10 sd_number_unfold zero_char)

text \<open>The name of the boot image for a multiboot value: \<open>BOOT.BIN\<close> for zero, otherwise
  \<open>BOOT\<close> followed by the last four decimal digits of the value, on the second drive with its
  number in front.\<close>

theorem MakeSdFileName_digits:
  "XFsbl_MakeSdFileName n DrvNum =
     (if DrvNum = XFSBL_SD_DRV_NUM_0 then [] else ''1:/'') @ ''BOOT'' @
     (if n = 0 then [] else sd_number (unat n)) @ ''.BIN''"
  by (simp add: XFsbl_MakeSdFileName_def sd_digits_drive0 sd_digits_drive1 hw)

end
