(* ===== verification/Fsbl_Bs.thy ===== *)
theory Fsbl_Bs
  imports Fsbl_Misc
begin

text \<open>
  The bitstream path of \<open>xfsbl_bs.c\<close>: bringing up the PCAP interface, writing words to
  it, waiting for the programmable logic, and the chunked transfer of boards without DDR.
\<close>

definition XFsbl_PcapPowerUp :: "world \<Rightarrow> u32 prog" where
  "XFsbl_PcapPowerUp W =
     tryM_as XFSBL_ERROR_PL_POWER_UP (XFsbl_PowerUpIsland W PMU_GLOBAL_PWR_STATE_PL_MASK)
       (seqM (callM W (Bsp (Usleep XFSBL_PL_PWRUP_WAIT_MICROSEC)))
          (tryM_as XFSBL_ERROR_PMU_GLOBAL_REQ_ISO
             (XFsbl_IsolationRestore W PMU_GLOBAL_REQ_ISO_INT_EN_PL_NONPCAP_MASK)
             (retM XFSBL_SUCCESS)))"

definition XFsbl_PcapInit :: "world \<Rightarrow> u32 prog" where
  "XFsbl_PcapInit W =
     seqM (seqsM
       [modM (\<lambda>s. s\<lparr>ReadBuffer := (\<lambda>k. if k < 56 * 1024 then 0 else ReadBuffer s k)\<rparr>),
        rmwM W CSU_PCAP_RESET (\<lambda>v. v AND NOT CSU_PCAP_RESET_RESET_MASK),
        XFsbl_Out32 CSU_PCAP_CTRL CSU_PCAP_CTRL_PCAP_PR_MASK,
        XFsbl_Out32 CSU_PCAP_RDWR 0])
     (bindM (extM W (Bsp PSVersion)) (\<lambda>Version.
      tryM (if Version > XPS_VERSION_2 W then XFsbl_PcapPowerUp W else retM XFSBL_SUCCESS)
       (seqM (seqsM
          [XFsbl_Out32 CSU_PCAP_PROG 0,
           callM W (Bsp (Usleep PL_RESET_PERIOD_IN_US)),
           XFsbl_Out32 CSU_PCAP_PROG CSU_PCAP_PROG_PCFG_PROG_B_MASK])
        (bindM (extM W (Bsp PlatformInfo)) (\<lambda>PlatInfo.
           seqM (whenM (PlatInfo \<noteq> XPLAT_ZYNQ_ULTRA_MP W \<and> PlatInfo \<noteq> XPLAT_ZYNQ_ULTRA_MPQEMU W)
              (seqsM
                [pollM W CSU_PCAP_STATUS (\<lambda>v.
                   v AND CSU_PCAP_STATUS_PL_CFG_RST_MASK = CSU_PCAP_STATUS_PL_CFG_RST_MASK),
                 pollM W CSU_PCAP_STATUS (\<lambda>v.
                   v AND CSU_PCAP_STATUS_PL_INIT_MASK = CSU_PCAP_STATUS_PL_INIT_MASK)]))
             (retM XFSBL_SUCCESS))))))"

definition XFsbl_PcapWaitForDone :: "world \<Rightarrow> u32 prog" where
  "XFsbl_PcapWaitForDone W =
     seqM (pollM W CSU_PCAP_STATUS (\<lambda>v.
             v AND CSU_PCAP_STATUS_PCAP_WR_IDLE_MASK = CSU_PCAP_STATUS_PCAP_WR_IDLE_MASK))
       (retM XFSBL_SUCCESS)"

definition XFsbl_WriteToPcap :: "world \<Rightarrow> u32 \<Rightarrow> u64 \<Rightarrow> u32 prog" where
  "XFsbl_WriteToPcap W WrSize WrAddr =
     seqM (seqsM
       [rmwM W CSU_CSU_SSS_CFG (\<lambda>v. (v AND CSU_CSU_SSS_CFG_PCAP_SSS_MASK) OR
          push_bit (unat CSU_CSU_SSS_CFG_PCAP_SSS_SHIFT) XFSBL_CSU_SSS_SRC_SRC_DMA),
        callM W (Dma (CsuDmaTransfer WrAddr WrSize)),
        callM W (Dma CsuDmaWaitForDone),
        callM W (Dma CsuDmaIntrClear)])
     (XFsbl_PcapWaitForDone W)"

text \<open>
  The bounded wait: \<open>PollCount\<close> reads at most.  It returns the last masked value, zero if
  the bit was never set.
\<close>

primrec PLWaitForDone_poll :: "world \<Rightarrow> nat \<Rightarrow> u32 \<Rightarrow> u32 prog" where
  "PLWaitForDone_poll W 0 RegVal = retM RegVal"
| "PLWaitForDone_poll W (Suc PollCount) RegVal =
     bindM (XFsbl_In32 W CSU_PCAP_STATUS) (\<lambda>v.
       if v AND CSU_PCAP_STATUS_PL_DONE_MASK = CSU_PCAP_STATUS_PL_DONE_MASK
       then retM (v AND CSU_PCAP_STATUS_PL_DONE_MASK)
       else PLWaitForDone_poll W PollCount (v AND CSU_PCAP_STATUS_PL_DONE_MASK))"

definition PcapReset :: "world \<Rightarrow> unit prog" where
  "PcapReset W = seqsM
     [rmwM W CSU_PCAP_RESET (\<lambda>v. v OR CSU_PCAP_RESET_RESET_MASK),
      pollM W CSU_PCAP_RESET (\<lambda>v.
        v AND CSU_PCAP_RESET_RESET_MASK = CSU_PCAP_RESET_RESET_MASK)]"

definition XFsbl_PLWaitForDone :: "world \<Rightarrow> u32 prog" where
  "XFsbl_PLWaitForDone W =
     bindM (PLWaitForDone_poll W (unat PL_DONE_POLL_COUNT) 0) (\<lambda>RegVal.
       if RegVal = CSU_PCAP_STATUS_PL_DONE_MASK
       then seqM (PcapReset W) (retM XFSBL_SUCCESS)
       else retM XFSBL_ERROR_BITSTREAM_LOAD_FAIL)"

definition XFsbl_PLCheckForDone :: "world \<Rightarrow> u32 prog" where
  "XFsbl_PLCheckForDone W =
     bindM (XFsbl_In32 W CSU_PCAP_STATUS) (\<lambda>v.
       if v AND CSU_PCAP_STATUS_PL_DONE_MASK \<noteq> CSU_PCAP_STATUS_PL_DONE_MASK
       then retM XFSBL_BITSTREAM_NOT_LOADED
       else seqM (PcapReset W) (retM XFSBL_SUCCESS))"

section \<open>Chunked transfer\<close>

definition read_chunk :: "world \<Rightarrow> u32 \<Rightarrow> u32 \<Rightarrow> u32 prog" where
  "read_chunk W StartAddrByte Len =
     bindM (getM DeviceOps) (\<lambda>ops.
     bindM (copyM W (Dev (DeviceCopy ops StartAddrByte (read_buffer_addr W) Len)))
       (\<lambda>(Status, b). seqM
          (modM (\<lambda>s. s\<lparr>ReadBuffer := (\<lambda>k. if k < unat Len then b k else ReadBuffer s k)\<rparr>))
          (retM Status)))"

primrec ChunkedBSTxfer_loop :: "world \<Rightarrow> nat \<Rightarrow> u32 \<Rightarrow> (u32 \<Rightarrow> u32 prog) \<Rightarrow> u32 prog" where
  "ChunkedBSTxfer_loop W 0 StartAddrByte k = k StartAddrByte"
| "ChunkedBSTxfer_loop W (Suc n) StartAddrByte k =
     tryM (read_chunk W StartAddrByte READ_BUFFER_SIZE)
       (tryM (XFsbl_WriteToPcap W (READ_BUFFER_SIZE div 4) (read_buffer_addr W))
          (ChunkedBSTxfer_loop W n (StartAddrByte + READ_BUFFER_SIZE) k))"

definition XFsbl_ChunkedBSTxfer :: "world \<Rightarrow> u32 \<Rightarrow> u32 prog" where
  "XFsbl_ChunkedBSTxfer W PartitionNum =
     bindM (get_PartitionHeader PartitionNum) (\<lambda>p.
     bindM (getM ImageOffsetAddress) (\<lambda>ImageOffset.
       let StartAddrByte = ImageOffset + 4 * DataWordOffset p;
           BitStreamSizeByte = UnEncryptedDataWordLength p * 4;
           NumChunks = BitStreamSizeByte div READ_BUFFER_SIZE;
           RemainingBytes = BitStreamSizeByte mod READ_BUFFER_SIZE
       in ChunkedBSTxfer_loop W (unat NumChunks) StartAddrByte (\<lambda>StartAddrByte.
            if RemainingBytes \<noteq> 0 then
              tryM (read_chunk W StartAddrByte RemainingBytes)
                (XFsbl_WriteToPcap W (RemainingBytes div 4) (read_buffer_addr W))
            else retM XFSBL_SUCCESS)))"

section \<open>Frames\<close>

context buffers_closed
begin

lemma keeps_PcapReset: "keeps E I (PcapReset W)"
  unfolding PcapReset_def by (intro keeps_intro io_keeps)

lemma keeps_PcapPowerUp: "keeps E I (XFsbl_PcapPowerUp W)"
  unfolding XFsbl_PcapPowerUp_def by (intro keeps_intro misc_keeps)

lemma keeps_PcapInit: "keeps E I (XFsbl_PcapInit W)"
  unfolding XFsbl_PcapInit_def by (intro keeps_intro io_keeps keeps_ReadBuffer keeps_PcapPowerUp)

lemma keeps_WriteToPcap: "keeps E I (XFsbl_WriteToPcap W n a)"
  unfolding XFsbl_WriteToPcap_def XFsbl_PcapWaitForDone_def by (intro keeps_intro io_keeps)

lemma keeps_PLWaitForDone_poll: "keeps E I (PLWaitForDone_poll W n v)"
  by (induction n arbitrary: v) (auto intro!: keeps_intro keeps_In32)

lemma keeps_PLWaitForDone: "keeps E I (XFsbl_PLWaitForDone W)"
  unfolding XFsbl_PLWaitForDone_def by (intro keeps_intro keeps_PLWaitForDone_poll keeps_PcapReset)

lemma keeps_PLCheckForDone: "keeps E I (XFsbl_PLCheckForDone W)"
  unfolding XFsbl_PLCheckForDone_def by (intro keeps_intro io_keeps keeps_PcapReset)

lemma keeps_read_chunk: "keeps E I (read_chunk W a n)"
  unfolding read_chunk_def by (intro keeps_intro io_keeps keeps_ReadBuffer)

lemma keeps_ChunkedBSTxfer_loop:
  "(\<And>a. keeps E I (k a)) \<Longrightarrow> keeps E I (ChunkedBSTxfer_loop W n a k)"
  by (induction n arbitrary: a) (auto intro!: keeps_intro keeps_read_chunk keeps_WriteToPcap)

lemma keeps_ChunkedBSTxfer: "E OutOfBounds \<or> unat n < 32 \<Longrightarrow> keeps E I (XFsbl_ChunkedBSTxfer W n)"
  unfolding XFsbl_ChunkedBSTxfer_def Let_def
  by (intro keeps_intro keeps_ChunkedBSTxfer_loop keeps_read_chunk keeps_WriteToPcap)

lemmas bs_keeps = misc_keeps buffer_keeps keeps_PcapReset keeps_PcapPowerUp keeps_PcapInit
  keeps_WriteToPcap keeps_PLWaitForDone keeps_PLCheckForDone keeps_read_chunk

end

section \<open>Properties\<close>

lemma PLWaitForDone_poll_never:
  assumes "\<forall>h. reg_in W h CSU_PCAP_STATUS AND CSU_PCAP_STATUS_PL_DONE_MASK \<noteq> CSU_PCAP_STATUS_PL_DONE_MASK"
    and "v \<noteq> CSU_PCAP_STATUS_PL_DONE_MASK"
  shows "\<exists>vs v'. length vs = n \<and> v' \<noteq> CSU_PCAP_STATUS_PL_DONE_MASK \<and>
    PLWaitForDone_poll W n v s = Some (Ret v', s\<lparr>trace := map (Rd CSU_PCAP_STATUS) vs @ trace s\<rparr>)"
  using assms(2)
proof (induction n arbitrary: v s)
  case 0
  then show ?case by (simp add: retM_def)
next
  case (Suc n)
  let ?v = "reg_in W (trace s) CSU_PCAP_STATUS"
  obtain vs v' where "length vs = n" "v' \<noteq> CSU_PCAP_STATUS_PL_DONE_MASK"
    "PLWaitForDone_poll W n (?v AND CSU_PCAP_STATUS_PL_DONE_MASK) (s\<lparr>trace := Rd CSU_PCAP_STATUS ?v # trace s\<rparr>) =
      Some (Ret v', s\<lparr>trace := map (Rd CSU_PCAP_STATUS) vs @ Rd CSU_PCAP_STATUS ?v # trace s\<rparr>)"
    using Suc.IH [of "?v AND CSU_PCAP_STATUS_PL_DONE_MASK" "s\<lparr>trace := Rd CSU_PCAP_STATUS ?v # trace s\<rparr>"] assms(1)
    by auto
  with assms(1) show ?case
    by (intro exI [of _ "vs @ [?v]"] exI [of _ v'])
      (simp add: bindM_def XFsbl_In32_def getM_def seqM_def logM_def modM_def retM_def)
qed

text \<open>The wait for the configuration of the logic is bounded: if none of the reads allowed
  shows the done bit, the load fails after exactly that many reads and nothing else.\<close>

theorem PLWaitForDone_times_out:
  assumes "\<forall>h. reg_in W h CSU_PCAP_STATUS AND CSU_PCAP_STATUS_PL_DONE_MASK \<noteq> CSU_PCAP_STATUS_PL_DONE_MASK"
  shows "\<exists>vs. length vs = unat PL_DONE_POLL_COUNT \<and>
    XFsbl_PLWaitForDone W s = Some (Ret XFSBL_ERROR_BITSTREAM_LOAD_FAIL, s\<lparr>trace := map (Rd CSU_PCAP_STATUS) vs @ trace s\<rparr>)"
proof -
  have "0 \<noteq> CSU_PCAP_STATUS_PL_DONE_MASK" by (simp add: hw)
  then obtain vs v' where "length vs = unat PL_DONE_POLL_COUNT" "v' \<noteq> CSU_PCAP_STATUS_PL_DONE_MASK"
    "PLWaitForDone_poll W (unat PL_DONE_POLL_COUNT) 0 s = Some (Ret v', s\<lparr>trace := map (Rd CSU_PCAP_STATUS) vs @ trace s\<rparr>)"
    using PLWaitForDone_poll_never [OF assms] by metis
  then show ?thesis
    by (auto simp: XFsbl_PLWaitForDone_def bindM_def retM_def)
qed

lemma PLWaitForDone_times_out_witness:
  "\<exists>t. XFsbl_PLWaitForDone quiet_world fsbl_init = Some (Ret XFSBL_ERROR_BITSTREAM_LOAD_FAIL, t)"
proof -
  have "\<forall>h. reg_in quiet_world h CSU_PCAP_STATUS AND CSU_PCAP_STATUS_PL_DONE_MASK \<noteq> CSU_PCAP_STATUS_PL_DONE_MASK"
    by (simp add: quiet_world_def hw)
  from PLWaitForDone_times_out [OF this, of fsbl_init] show ?thesis by blast
qed

end
