(* ===== verification/Fsbl_Tcm.thy ===== *)
theory Fsbl_Tcm
  imports Fsbl_Bs
begin

text \<open>
  Power-up of the tightly coupled memories (\<open>XFsbl_PowerUpMemory\<close> of
  \<open>xfsbl_partition_load.c\<close>) and the initialisation of error-correcting memories by the DMA
  engine (\<open>XFsbl_EccInit\<close> and its callers in \<open>xfsbl_initialization.c\<close>).
\<close>

section \<open>Powering up a memory\<close>

definition rpu_split_mode :: "u32 \<Rightarrow> u32" where
  "rpu_split_mode RegValue =
     ((RegValue OR RPU_RPU_GLBL_CNTL_SLSPLIT_MASK) AND NOT RPU_RPU_GLBL_CNTL_TCM_COMB_MASK)
       AND NOT RPU_RPU_GLBL_CNTL_SLCLAMP_MASK"

definition rpu_lockstep_mode :: "u32 \<Rightarrow> u32" where
  "rpu_lockstep_mode RegValue =
     ((RegValue OR RPU_RPU_GLBL_CNTL_SLCLAMP_MASK) AND NOT RPU_RPU_GLBL_CNTL_SLSPLIT_MASK)
       OR RPU_RPU_GLBL_CNTL_TCM_COMB_MASK"

definition PowerUp_R5_0_TCM :: "world \<Rightarrow> u32 prog" where
  "PowerUp_R5_0_TCM W =
     tryM_as XFSBL_ERROR_R5_0_TCM_POWER_UP
       (XFsbl_PowerUpIsland W (PMU_GLOBAL_PWR_STATE_R5_0_MASK OR
          PMU_GLOBAL_PWR_STATE_TCM0A_MASK OR PMU_GLOBAL_PWR_STATE_TCM0B_MASK))
       (seqM (seqsM
         [rmwM W RPU_RPU_GLBL_CNTL rpu_split_mode,
          rmwM W RPU_RPU_0_CFG (\<lambda>v. v AND NOT RPU_RPU_0_CFG_NCPUHALT_MASK),
          rmwM W CRL_APB_CPU_R5_CTRL (\<lambda>v. v OR CRL_APB_CPU_R5_CTRL_CLKACT_MASK),
          callM W (Bsp (Usleep 0x50)),
          rmwM W CRL_APB_RST_LPD_TOP (\<lambda>v. (v AND NOT CRL_APB_RST_LPD_TOP_RPU_R50_RESET_MASK)
            AND NOT CRL_APB_RST_LPD_TOP_RPU_AMBA_RESET_MASK)])
        (retM XFSBL_SUCCESS))"

definition PowerUp_R5_1_TCM :: "world \<Rightarrow> u32 prog" where
  "PowerUp_R5_1_TCM W =
     tryM_as XFSBL_ERROR_R5_1_TCM_POWER_UP
       (XFsbl_PowerUpIsland W (PMU_GLOBAL_PWR_STATE_R5_1_MASK OR
          PMU_GLOBAL_PWR_STATE_TCM1A_MASK OR PMU_GLOBAL_PWR_STATE_TCM1B_MASK))
       (seqM (seqsM
         [rmwM W RPU_RPU_GLBL_CNTL rpu_split_mode,
          rmwM W RPU_RPU_1_CFG (\<lambda>v. v AND NOT RPU_RPU_1_CFG_NCPUHALT_MASK),
          rmwM W CRL_APB_CPU_R5_CTRL (\<lambda>v. v OR CRL_APB_CPU_R5_CTRL_CLKACT_MASK),
          callM W (Bsp (Usleep 0x50)),
          rmwM W CRL_APB_RST_LPD_TOP (\<lambda>v. (v AND NOT CRL_APB_RST_LPD_TOP_RPU_R51_RESET_MASK)
            AND NOT CRL_APB_RST_LPD_TOP_RPU_AMBA_RESET_MASK)])
        (retM XFSBL_SUCCESS))"

definition PowerUp_R5_L_TCM :: "world \<Rightarrow> u32 prog" where
  "PowerUp_R5_L_TCM W =
     tryM_as XFSBL_ERROR_R5_L_TCM_POWER_UP
       (XFsbl_PowerUpIsland W (PMU_GLOBAL_PWR_STATE_R5_0_MASK OR
          PMU_GLOBAL_PWR_STATE_TCM0A_MASK OR PMU_GLOBAL_PWR_STATE_TCM0B_MASK OR
          PMU_GLOBAL_PWR_STATE_TCM1A_MASK OR PMU_GLOBAL_PWR_STATE_TCM1B_MASK))
       (seqM (seqsM
         [rmwM W RPU_RPU_GLBL_CNTL rpu_lockstep_mode,
          rmwM W RPU_RPU_0_CFG (\<lambda>v. v AND NOT RPU_RPU_0_CFG_NCPUHALT_MASK),
          rmwM W RPU_RPU_1_CFG (\<lambda>v. v AND NOT RPU_RPU_1_CFG_NCPUHALT_MASK),
          rmwM W CRL_APB_CPU_R5_CTRL (\<lambda>v. v OR CRL_APB_CPU_R5_CTRL_CLKACT_MASK),
          callM W (Bsp (Usleep 0x50)),
          rmwM W CRL_APB_RST_LPD_TOP (\<lambda>v. ((v AND NOT CRL_APB_RST_LPD_TOP_RPU_R50_RESET_MASK)
            AND NOT CRL_APB_RST_LPD_TOP_RPU_R51_RESET_MASK)
            AND NOT CRL_APB_RST_LPD_TOP_RPU_AMBA_RESET_MASK)])
        (retM XFSBL_SUCCESS))"

definition XFsbl_PowerUpMemory :: "world \<Rightarrow> u32 \<Rightarrow> u32 prog" where
  "XFsbl_PowerUpMemory W MemoryType =
     (if MemoryType = XFSBL_R5_0_TCM then PowerUp_R5_0_TCM W
      else if MemoryType = XFSBL_R5_1_TCM then PowerUp_R5_1_TCM W
      else if MemoryType = XFSBL_R5_L_TCM then PowerUp_R5_L_TCM W
      else retM XFSBL_SUCCESS)"

section \<open>ECC initialisation\<close>

text \<open>One DMA transfer of the fill pattern; it returns the channel status read at the end.\<close>

definition EccInit_chunk :: "world \<Rightarrow> u64 \<Rightarrow> u32 \<Rightarrow> u32 prog" where
  "EccInit_chunk W StartAddr Len =
     seqM (seqsM
       [pollM W ADMA_CH0_ZDMA_CH_STATUS (\<lambda>v.
          v AND ADMA_CH0_ZDMA_CH_STATUS_STATE_MASK = ADMA_CH0_ZDMA_CH_STATUS_STATE_DONE \<or>
          v AND ADMA_CH0_ZDMA_CH_STATUS_STATE_MASK = ADMA_CH0_ZDMA_CH_STATUS_STATE_ERR),
        rmwM W ADMA_CH0_ZDMA_CH_CTRL0 (\<lambda>v.
          (v AND (ADMA_CH0_ZDMA_CH_CTRL0_POINT_TYPE_MASK OR ADMA_CH0_ZDMA_CH_CTRL0_MODE_MASK)) OR
          (ADMA_CH0_ZDMA_CH_CTRL0_POINT_TYPE_NORMAL OR ADMA_CH0_ZDMA_CH_CTRL0_MODE_WR_ONLY)),
        XFsbl_Out32 ADMA_CH0_ZDMA_CH_WR_ONLY_WORD0 XFSBL_ECC_INIT_VAL_WORD,
        XFsbl_Out32 ADMA_CH0_ZDMA_CH_WR_ONLY_WORD1 XFSBL_ECC_INIT_VAL_WORD,
        XFsbl_Out32 ADMA_CH0_ZDMA_CH_WR_ONLY_WORD2 XFSBL_ECC_INIT_VAL_WORD,
        XFsbl_Out32 ADMA_CH0_ZDMA_CH_WR_ONLY_WORD3 XFSBL_ECC_INIT_VAL_WORD,
        XFsbl_Out32 ADMA_CH0_ZDMA_CH_DST_DSCR_WORD0
          (lo32 (StartAddr AND zx ADMA_CH0_ZDMA_CH_DST_DSCR_WORD0_LSB_MASK)),
        XFsbl_Out32 ADMA_CH0_ZDMA_CH_DST_DSCR_WORD1
          (lo32 (drop_bit 32 StartAddr AND zx ADMA_CH0_ZDMA_CH_DST_DSCR_WORD1_MSB_MASK)),
        XFsbl_Out32 ADMA_CH0_ZDMA_CH_SRC_DSCR_WORD2 Len,
        XFsbl_Out32 ADMA_CH0_ZDMA_CH_DST_DSCR_WORD2 Len,
        rmwM W ADMA_CH0_ZDMA_CH_CTRL2 (\<lambda>v. v OR ADMA_CH0_ZDMA_CH_CTRL2_EN_MASK),
        pollM W ADMA_CH0_ZDMA_CH_ISR (\<lambda>v.
          v AND ADMA_CH0_ZDMA_CH_ISR_DMA_DONE_MASK = ADMA_CH0_ZDMA_CH_ISR_DMA_DONE_MASK),
        rmwM W ADMA_CH0_ZDMA_CH_ISR (\<lambda>_. ADMA_CH0_ZDMA_CH_ISR_DMA_DONE_MASK)])
      (XFsbl_In32 W ADMA_CH0_ZDMA_CH_STATUS)"

definition ecc_chunk :: "u64 \<Rightarrow> u32" where
  "ecc_chunk NumBytes = (if NumBytes > zx ZDMA_TRANSFER_MAX_LEN then ZDMA_TRANSFER_MAX_LEN
     else lo32 NumBytes)"

lemma ecc_chunk_bounds:
  assumes "NumBytes > 0"
  shows "0 < zx (ecc_chunk NumBytes)" and "zx (ecc_chunk NumBytes) \<le> NumBytes"
    and "ecc_chunk NumBytes \<le> ZDMA_TRANSFER_MAX_LEN"
proof -
  have "zx (ecc_chunk NumBytes) = min NumBytes (zx ZDMA_TRANSFER_MAX_LEN)"
  proof (cases "NumBytes > zx ZDMA_TRANSFER_MAX_LEN")
    case False
    then have "NumBytes < 2 ^ 32"
      by (simp add: hw word_less_nat_alt word_le_nat_alt)
    with False show ?thesis by (simp add: ecc_chunk_def zx_lo32 min_absorb1)
  qed (simp add: ecc_chunk_def min_absorb2)
  moreover have "0 < zx ZDMA_TRANSFER_MAX_LEN" by (simp add: hw)
  ultimately show "0 < zx (ecc_chunk NumBytes)" "zx (ecc_chunk NumBytes) \<le> NumBytes"
    "ecc_chunk NumBytes \<le> ZDMA_TRANSFER_MAX_LEN"
    using assms zx_le [of "ecc_chunk NumBytes" ZDMA_TRANSFER_MAX_LEN] by simp_all
qed

function EccInit_loop :: "world \<Rightarrow> u64 \<Rightarrow> u64 \<Rightarrow> u32 prog" where
  "EccInit_loop W StartAddr NumBytes =
     (if NumBytes > 0 then
        bindM (EccInit_chunk W StartAddr (ecc_chunk NumBytes)) (\<lambda>RegVal.
          if RegVal = ADMA_CH0_ZDMA_CH_STATUS_STATE_ERR
          then seqM (callM W (Bsp DCacheEnable)) (retM XFSBL_FAILURE)
          else EccInit_loop W (StartAddr + zx (ecc_chunk NumBytes))
                 (NumBytes - zx (ecc_chunk NumBytes)))
      else retM XFSBL_SUCCESS)"
  by pat_completeness auto

termination
proof (relation "measure (\<lambda>(W, StartAddr, NumBytes). unat NumBytes)", simp)
  fix W :: world and StartAddr NumBytes :: u64 and RegVal :: u32
  assume "0 < NumBytes"
  note b = ecc_chunk_bounds [OF this]
  have "unat (NumBytes - zx (ecc_chunk NumBytes)) = unat NumBytes - unat (zx (ecc_chunk NumBytes))"
    using b(2) by (rule unat_sub)
  also have "\<dots> < unat NumBytes"
    using b(1) \<open>0 < NumBytes\<close> by (simp add: word_less_nat_alt)
  finally show "((W, StartAddr + zx (ecc_chunk NumBytes), NumBytes - zx (ecc_chunk NumBytes)),
      W, StartAddr, NumBytes) \<in> measure (\<lambda>(W, StartAddr, NumBytes). unat NumBytes)"
    by simp
qed

declare EccInit_loop.simps [simp del]

definition XFsbl_EccInit :: "world \<Rightarrow> u64 \<Rightarrow> u64 \<Rightarrow> u32 prog" where
  "XFsbl_EccInit W DestAddr LengthBytes =
     seqM (callM W (Bsp DCacheDisable))
       (tryM (EccInit_loop W DestAddr LengthBytes)
         (seqM (seqsM
           [callM W (Bsp DCacheEnable),
            XFsbl_Out32 ADMA_CH0_ZDMA_CH_CTRL0 0x80,
            XFsbl_Out32 ADMA_CH0_ZDMA_CH_WR_ONLY_WORD0 0,
            XFsbl_Out32 ADMA_CH0_ZDMA_CH_WR_ONLY_WORD1 0,
            XFsbl_Out32 ADMA_CH0_ZDMA_CH_WR_ONLY_WORD2 0,
            XFsbl_Out32 ADMA_CH0_ZDMA_CH_WR_ONLY_WORD3 0,
            XFsbl_Out32 ADMA_CH0_ZDMA_CH_DST_DSCR_WORD0 0,
            XFsbl_Out32 ADMA_CH0_ZDMA_CH_DST_DSCR_WORD1 0,
            XFsbl_Out32 ADMA_CH0_ZDMA_CH_SRC_DSCR_WORD2 0,
            XFsbl_Out32 ADMA_CH0_ZDMA_CH_DST_DSCR_WORD2 0,
            XFsbl_Out32 ADMA_CH0_ZDMA_CH_CTRL0_TOTAL_BYTE_COUNT 0])
          (retM XFSBL_SUCCESS)))"

text \<open>
  The DDR range starts at address 0 on an A53 and ends at \<open>cfg_ddr_end\<close>; \<open>cfg_ddr_ecc\<close> says
  whether the memory controller has ECC.
\<close>

definition XFsbl_DdrEccInit :: "world \<Rightarrow> u32 prog" where
  "XFsbl_DdrEccInit W =
     (if cfg_ddr_ecc W then
        tryM_as XFSBL_ERROR_DDR_ECC_INIT
          (XFsbl_EccInit W (zx XFSBL_PS_DDR_START_ADDRESS)
             ((cfg_ddr_end W - zx XFSBL_PS_DDR_START_ADDRESS) + 1))
          (case cfg_hi_ddr W of
             None \<Rightarrow> retM XFSBL_SUCCESS
           | Some (start, end_) \<Rightarrow>
               tryM_as XFSBL_ERROR_DDR_ECC_INIT (XFsbl_EccInit W start ((end_ - start) + 1))
                 (retM XFSBL_SUCCESS))
      else retM XFSBL_SUCCESS)"

text \<open>
  The ranges that \<open>XFsbl_TcmEccInit\<close> clears for a CPU, and the flags it then sets.  The
  first 32 bytes of the R5-0 memory are spared when the loader itself runs on an R5.
\<close>

definition TcmEcc_ranges :: "u32 \<Rightarrow> u32 \<Rightarrow> (u32 \<times> u32) list" where
  "TcmEcc_ranges ProcId CpuId =
     (if CpuId = XIH_PH_ATTRB_DEST_CPU_A53_0 then
        [(XFSBL_R50_HIGH_ATCM_START_ADDRESS, XFSBL_R5_TCM_BANK_LENGTH * 4)]
      else if CpuId = XIH_PH_ATTRB_DEST_CPU_R5_L then
        (if ProcId \<noteq> XIH_PH_ATTRB_DEST_CPU_A53_0
         then [(XFSBL_R50_HIGH_ATCM_START_ADDRESS + 32, (XFSBL_R5_TCM_BANK_LENGTH * 4) - 32)]
         else [(XFSBL_R50_HIGH_ATCM_START_ADDRESS, XFSBL_R5_TCM_BANK_LENGTH * 4)])
      else if CpuId = XIH_PH_ATTRB_DEST_CPU_R5_0 then
        (if ProcId \<noteq> XIH_PH_ATTRB_DEST_CPU_A53_0
         then [(XFSBL_R50_HIGH_ATCM_START_ADDRESS + 32, XFSBL_R5_TCM_BANK_LENGTH - 32),
               (XFSBL_R50_HIGH_BTCM_START_ADDRESS, XFSBL_R5_TCM_BANK_LENGTH)]
         else [(XFSBL_R50_HIGH_ATCM_START_ADDRESS, XFSBL_R5_TCM_BANK_LENGTH),
               (XFSBL_R50_HIGH_BTCM_START_ADDRESS, XFSBL_R5_TCM_BANK_LENGTH)])
      else if CpuId = XIH_PH_ATTRB_DEST_CPU_R5_1 then
        [(XFSBL_R51_HIGH_ATCM_START_ADDRESS, XFSBL_R5_TCM_BANK_LENGTH),
         (XFSBL_R51_HIGH_BTCM_START_ADDRESS, XFSBL_R5_TCM_BANK_LENGTH)]
      else [(0, 0), (0, 0)])"

definition TcmEcc_flags :: "u32 \<Rightarrow> u32" where
  "TcmEcc_flags CpuId =
     (if CpuId = XIH_PH_ATTRB_DEST_CPU_A53_0 \<or> CpuId = XIH_PH_ATTRB_DEST_CPU_R5_L
      then XFSBL_R50_TCM_ECC_INIT_STATUS OR XFSBL_R51_TCM_ECC_INIT_STATUS
      else if CpuId = XIH_PH_ATTRB_DEST_CPU_R5_0 then XFSBL_R50_TCM_ECC_INIT_STATUS
      else if CpuId = XIH_PH_ATTRB_DEST_CPU_R5_1 then XFSBL_R51_TCM_ECC_INIT_STATUS
      else 0)"

primrec EccInit_ranges :: "world \<Rightarrow> (u32 \<times> u32) list \<Rightarrow> u32 prog" where
  "EccInit_ranges W [] = retM XFSBL_SUCCESS"
| "EccInit_ranges W (r # rs) =
     tryM (XFsbl_EccInit W (zx (fst r)) (zx (snd r))) (EccInit_ranges W rs)"

definition XFsbl_TcmEccInit :: "world \<Rightarrow> u32 \<Rightarrow> u32 prog" where
  "XFsbl_TcmEccInit W CpuId =
     bindM (getM ProcessorID) (\<lambda>ProcId.
       tryM_as XFSBL_ERROR_TCM_ECC_INIT (EccInit_ranges W (TcmEcc_ranges ProcId CpuId))
         (seqM (modM (\<lambda>s. s\<lparr>TcmEccInitStatus := TcmEcc_flags CpuId\<rparr>)) (retM XFSBL_SUCCESS)))"

text \<open>
  On an A53 the configuration (\<open>FSBL_A53_TCM_ECC_EXCLUDE\<close>) leaves the memories alone; on
  an R5 they are initialised for the running CPU.
\<close>

definition XFsbl_TcmInit :: "world \<Rightarrow> u32 prog" where
  "XFsbl_TcmInit W =
     bindM (getM ProcessorID) (\<lambda>ProcId.
       if ProcId = XIH_PH_ATTRB_DEST_CPU_A53_0 then retM XFSBL_SUCCESS
       else XFsbl_TcmEccInit W ProcId)"

section \<open>Frames\<close>

context buffers_closed
begin

lemma keeps_PowerUpMemory: "keeps E I (XFsbl_PowerUpMemory W m)"
  unfolding XFsbl_PowerUpMemory_def PowerUp_R5_0_TCM_def PowerUp_R5_1_TCM_def PowerUp_R5_L_TCM_def
  by (intro keeps_intro misc_keeps)

lemma keeps_EccInit_loop: "keeps E I (EccInit_loop W a n)"
proof (induction W a n rule: EccInit_loop.induct)
  case (1 W StartAddr NumBytes)
  have "keeps E I (EccInit_chunk W a m)" for a m
    unfolding EccInit_chunk_def by (intro keeps_intro io_keeps)
  then show ?case
    by (subst EccInit_loop.simps) (auto intro!: keeps_intro io_keeps 1)
qed

lemma keeps_EccInit: "keeps E I (XFsbl_EccInit W a n)"
  unfolding XFsbl_EccInit_def by (intro keeps_intro io_keeps keeps_EccInit_loop)

lemma keeps_EccInit_ranges: "keeps E I (EccInit_ranges W rs)"
  by (induction rs) (auto intro!: keeps_intro keeps_EccInit)

lemma keeps_TcmEccInit: "keeps E I (XFsbl_TcmEccInit W c)"
  unfolding XFsbl_TcmEccInit_def by (intro keeps_intro keeps_EccInit_ranges keeps_TcmEccInitStatus)

lemma keeps_TcmInit: "keeps E I (XFsbl_TcmInit W)"
  unfolding XFsbl_TcmInit_def by (intro keeps_intro keeps_TcmEccInit)

lemma keeps_DdrEccInit: "keeps E I (XFsbl_DdrEccInit W)"
  unfolding XFsbl_DdrEccInit_def
  by (auto intro!: keeps_intro keeps_EccInit split: option.split)

lemmas tcm_keeps = bs_keeps keeps_PowerUpMemory keeps_EccInit keeps_TcmEccInit keeps_TcmInit keeps_DdrEccInit

end

section \<open>Properties\<close>

lemma ecc_chunk_rest:
  assumes "0 < NumBytes"
  shows "unat (NumBytes - zx (ecc_chunk NumBytes)) = unat NumBytes - unat (ecc_chunk NumBytes)"
    and "0 < unat (ecc_chunk NumBytes)" and "unat (ecc_chunk NumBytes) \<le> unat NumBytes"
  using ecc_chunk_bounds [OF assms] by (simp_all add: unat_sub word_le_nat_alt word_less_nat_alt unat_zx)

function ecc_chunks :: "u64 \<Rightarrow> u64 \<Rightarrow> (u64 \<times> u32) list" where
  "ecc_chunks StartAddr NumBytes =
     (if NumBytes > 0 then (StartAddr, ecc_chunk NumBytes) #
        ecc_chunks (StartAddr + zx (ecc_chunk NumBytes)) (NumBytes - zx (ecc_chunk NumBytes))
      else [])"
  by pat_completeness auto

termination
proof (relation "measure (\<lambda>(StartAddr, NumBytes). unat NumBytes)", simp)
  fix StartAddr NumBytes :: u64
  assume "0 < NumBytes"
  from ecc_chunk_rest [OF this]
  show "((StartAddr + zx (ecc_chunk NumBytes), NumBytes - zx (ecc_chunk NumBytes)), StartAddr, NumBytes)
      \<in> measure (\<lambda>(StartAddr, NumBytes). unat NumBytes)"
    by simp
qed

declare ecc_chunks.simps [simp del]

primrec EccInit_transfers :: "world \<Rightarrow> (u64 \<times> u32) list \<Rightarrow> u32 prog" where
  "EccInit_transfers W [] = retM XFSBL_SUCCESS"
| "EccInit_transfers W (c # cs) =
     bindM (EccInit_chunk W (fst c) (snd c)) (\<lambda>RegVal.
       if RegVal = ADMA_CH0_ZDMA_CH_STATUS_STATE_ERR
       then seqM (callM W (Bsp DCacheEnable)) (retM XFSBL_FAILURE)
       else EccInit_transfers W cs)"

lemma EccInit_loop_transfers: "EccInit_loop W a n = EccInit_transfers W (ecc_chunks a n)"
proof (induction W a n rule: EccInit_loop.induct)
  case (1 W a n)
  then show ?case
    by (cases "0 < n") (simp_all add: EccInit_loop.simps [of W a n] ecc_chunks.simps [of a n] cong: if_cong)
qed

text \<open>The transfers tile an interval: each starts where the previous one ended.\<close>

fun tiles :: "u64 \<Rightarrow> (u64 \<times> u32) list \<Rightarrow> nat \<Rightarrow> bool" where
  "tiles a [] n \<longleftrightarrow> n = 0"
| "tiles a ((b, l) # cs) n \<longleftrightarrow> b = a \<and> 0 < l \<and> l \<le> ZDMA_TRANSFER_MAX_LEN \<and> unat l \<le> n \<and>
     tiles (a + zx l) cs (n - unat l)"

lemma ecc_chunks_tile: "tiles a (ecc_chunks a n) (unat n)"
proof (induction a n rule: ecc_chunks.induct)
  case (1 a n)
  then show ?case
    using ecc_chunk_rest [of n] ecc_chunk_bounds(3) [of n]
    by (cases "0 < n") (simp_all add: ecc_chunks.simps [of a n] word_less_nat_alt [of 0])
qed

text \<open>C31: The initialisation of an error-correcting memory is a sequence of transfers of the fill
  pattern that tiles the range exactly: they start at the destination address, each starts
  where the previous one ended, none is empty or longer than the engine allows, and together
  they have the requested length.\<close>

theorem EccInit_covers_range:
  "EccInit_loop W DestAddr LengthBytes = EccInit_transfers W (ecc_chunks DestAddr LengthBytes) \<and>
   tiles DestAddr (ecc_chunks DestAddr LengthBytes) (unat LengthBytes)"
  by (simp add: EccInit_loop_transfers ecc_chunks_tile)

text \<open>An engine that is idle, completes every transfer at once and reports no error.\<close>

definition dma_ready :: "world \<Rightarrow> bool" where
  "dma_ready W \<longleftrightarrow> (\<forall>h. reg_in W h ADMA_CH0_ZDMA_CH_STATUS = ADMA_CH0_ZDMA_CH_STATUS_STATE_DONE \<and>
     reg_in W h ADMA_CH0_ZDMA_CH_ISR AND ADMA_CH0_ZDMA_CH_ISR_DMA_DONE_MASK = ADMA_CH0_ZDMA_CH_ISR_DMA_DONE_MASK)"

definition only_trace :: "fsbl \<Rightarrow> fsbl \<Rightarrow> bool" where
  "only_trace s t \<longleftrightarrow> (\<exists>h. t = s\<lparr>trace := h\<rparr>)"

lemma only_trace_refl: "only_trace s s"
  unfolding only_trace_def by (intro exI [of _ "trace s"]) simp

lemma only_trace_step: "only_trace s t \<Longrightarrow> only_trace s (t\<lparr>trace := h\<rparr>)"
  by (auto simp: only_trace_def)

lemma ends_EccInit_chunk:
  assumes "dma_ready W" and "only_trace s u"
  shows "ends (EccInit_chunk W a l) (\<lambda>x t. x \<noteq> ADMA_CH0_ZDMA_CH_STATUS_STATE_ERR \<and> only_trace s t) u"
proof -
  have codes: "ADMA_CH0_ZDMA_CH_STATUS_STATE_DONE AND ADMA_CH0_ZDMA_CH_STATUS_STATE_MASK = ADMA_CH0_ZDMA_CH_STATUS_STATE_DONE"
    "ADMA_CH0_ZDMA_CH_STATUS_STATE_DONE \<noteq> ADMA_CH0_ZDMA_CH_STATUS_STATE_ERR"
    by (simp_all add: hw)
  show ?thesis
    using assms codes
    by (auto simp: EccInit_chunk_def ends_eq dma_ready_def intro!: ends_poll only_trace_step)
qed

lemma ends_EccInit_loop:
  assumes "dma_ready W" and "only_trace s u"
  shows "ends (EccInit_loop W a n) (\<lambda>x t. x = XFSBL_SUCCESS \<and> only_trace s t) u"
proof -
  have "ends (EccInit_transfers W cs) (\<lambda>x t. x = XFSBL_SUCCESS \<and> only_trace s t) u" for cs
    using assms(2)
    by (induction cs arbitrary: u) (auto simp: ends_eq intro!: ends_mono [OF ends_EccInit_chunk [OF assms(1)]])
  then show ?thesis by (simp add: EccInit_loop_transfers)
qed

lemma ends_EccInit:
  assumes "dma_ready W" and "only_trace s u"
  shows "ends (XFsbl_EccInit W a n) (\<lambda>x t. x = XFSBL_SUCCESS \<and> only_trace s t) u"
  using assms
  by (auto simp: XFsbl_EccInit_def ends_eq intro!: ends_mono [OF ends_EccInit_loop [where s = s]] only_trace_step)

lemma ends_EccInit_ranges:
  assumes "dma_ready W" and "only_trace s u"
  shows "ends (EccInit_ranges W rs) (\<lambda>x t. x = XFSBL_SUCCESS \<and> only_trace s t) u"
  using assms(2)
  by (induction rs arbitrary: u) (auto simp: ends_eq intro!: ends_mono [OF ends_EccInit [OF assms(1)]])

text \<open>Initialising the memory of one R5 core overwrites the record that the memory of the
  other one was initialised: after a successful initialisation for R5-1 the flag of R5-0 is
  clear, whatever it was before.\<close>

theorem TcmEccInit_forgets:
  assumes "XFsbl_TcmEccInit W XIH_PH_ATTRB_DEST_CPU_R5_1 s = Some (Ret XFSBL_SUCCESS, t)"
  shows "TcmEccInitStatus t AND XFSBL_R50_TCM_ECC_INIT_STATUS = 0 \<and>
    TcmEccInitStatus t AND XFSBL_R51_TCM_ECC_INIT_STATUS = XFSBL_R51_TCM_ECC_INIT_STATUS"
proof -
  have codes: "XFSBL_ERROR_TCM_ECC_INIT \<noteq> XFSBL_SUCCESS" by (simp add: hw)
  have "wp (XFsbl_TcmEccInit W XIH_PH_ATTRB_DEST_CPU_R5_1)
      (\<lambda>Status t. Status = XFSBL_SUCCESS \<longrightarrow> TcmEccInitStatus t = TcmEcc_flags XIH_PH_ATTRB_DEST_CPU_R5_1) (\<lambda>_ _. True) s"
    using codes by (auto simp: XFsbl_TcmEccInit_def wp_eq intro: wp_mono [OF wp_True])
  with assms have "TcmEccInitStatus t = TcmEcc_flags XIH_PH_ATTRB_DEST_CPU_R5_1"
    by (auto dest: wp_Ret)
  then show ?thesis by (simp add: TcmEcc_flags_def hw)
qed

lemma TcmEccInit_forgets_witness:
  "\<exists>W t. XFsbl_TcmEccInit W XIH_PH_ATTRB_DEST_CPU_R5_1 (fsbl_init\<lparr>TcmEccInitStatus := XFSBL_R50_TCM_ECC_INIT_STATUS\<rparr>)
       = Some (Ret XFSBL_SUCCESS, t) \<and>
     TcmEccInitStatus t AND XFSBL_R50_TCM_ECC_INIT_STATUS = 0"
proof -
  define W where "W = quiet_world\<lparr>reg_in := (\<lambda>_ a. if a = ADMA_CH0_ZDMA_CH_STATUS then ADMA_CH0_ZDMA_CH_STATUS_STATE_DONE
     else ADMA_CH0_ZDMA_CH_ISR_DMA_DONE_MASK)\<rparr>"
  have "dma_ready W" by (simp add: dma_ready_def W_def hw)
  then have "ends (XFsbl_TcmEccInit W XIH_PH_ATTRB_DEST_CPU_R5_1) (\<lambda>Status t. Status = XFSBL_SUCCESS)
      (fsbl_init\<lparr>TcmEccInitStatus := XFSBL_R50_TCM_ECC_INIT_STATUS\<rparr>)"
    by (auto simp: XFsbl_TcmEccInit_def ends_eq intro!: ends_mono [OF ends_EccInit_ranges] only_trace_refl)
  then obtain t where run: "XFsbl_TcmEccInit W XIH_PH_ATTRB_DEST_CPU_R5_1
      (fsbl_init\<lparr>TcmEccInitStatus := XFSBL_R50_TCM_ECC_INIT_STATUS\<rparr>) = Some (Ret XFSBL_SUCCESS, t)"
    by (auto simp: ends_def)
  from run TcmEccInit_forgets [OF run] show ?thesis by blast
qed

end
