(* ===== verification/Fsbl_Auth.thy ===== *)
theory Fsbl_Auth
  imports Fsbl_Tcm
begin

text \<open>
  Authentication (\<open>xfsbl_authentication.c\<close>, with the wrappers of \<open>xfsbl_rsa_sha.c\<close> and
  \<open>xfsbl_csu_dma.c\<close>): the revocation and the signature of the secondary key, the hash of
  the primary key against the fuses, and the signatures of the boot header and of a
  partition.

  The hash and RSA engines are calls of the crypto library: the history records what was
  hashed, which signature was decrypted, with which hash it was compared and what the library answered.  The certificate is
  read from \<open>AuthBuffer\<close>, which is where every caller of the C code has copied it;
  \<open>AcOffset\<close> is its address.
\<close>

section \<open>Wrappers\<close>

definition XFsbl_CsuDmaInit :: "world \<Rightarrow> u32 prog" where
  "XFsbl_CsuDmaInit W =
     bindM (extM W (Dma CsuDmaLookupConfig)) (\<lambda>CsuDmaConfig.
       if CsuDmaConfig = 0 then retM XFSBL_ERROR_CSUDMA_INIT_FAIL
       else tryM_as XFSBL_ERROR_CSUDMA_INIT_FAIL (extM W (Dma CsuDmaCfgInitialize))
              (retM XFSBL_SUCCESS))"

definition XFsbl_Sha3PadSelect :: "world \<Rightarrow> u32 prog" where
  "XFsbl_Sha3PadSelect W = extM W (Crypto Sha3PadSelection)"

definition XFsbl_ShaStart :: "world \<Rightarrow> u32 \<Rightarrow> unit prog" where
  "XFsbl_ShaStart W HashLen = whenM (XFSBL_HASH_TYPE_SHA3 = HashLen)
     (seqsM [callM W (Crypto Sha3Initialize), callM W (Crypto Sha3Start)])"

definition XFsbl_ShaUpdate :: "world \<Rightarrow> u64 \<Rightarrow> u32 \<Rightarrow> u32 \<Rightarrow> unit prog" where
  "XFsbl_ShaUpdate W Data Size HashLen = whenM (XFSBL_HASH_TYPE_SHA3 = HashLen)
     (callM W (Crypto (Sha3Update Data Size)))"

text \<open>The output buffer keeps its contents (zero) when the hash type is not SHA-3.\<close>

definition XFsbl_ShaFinish :: "world \<Rightarrow> u32 \<Rightarrow> (nat \<Rightarrow> u8) prog" where
  "XFsbl_ShaFinish W HashLen =
     (if XFSBL_HASH_TYPE_SHA3 = HashLen
      then bindM (copyM W (Crypto Sha3Finish)) (\<lambda>(Status, b). retM b)
      else retM (\<lambda>_. 0))"

definition XFsbl_ShaDigest :: "world \<Rightarrow> u64 \<Rightarrow> u32 \<Rightarrow> u32 \<Rightarrow> (nat \<Rightarrow> u8) prog" where
  "XFsbl_ShaDigest W In Size HashLen =
     (if XFSBL_HASH_TYPE_SHA3 = HashLen
      then seqM (callM W (Crypto Sha3Initialize))
             (bindM (copyM W (Crypto (Sha3Digest In Size))) (\<lambda>(Status, b). retM b))
      else retM (\<lambda>_. 0))"

section \<open>The secondary public key\<close>

text \<open>Revocation of the secondary key, when the fuses require RSA.\<close>

definition SpkVer_revocation :: "world \<Rightarrow> u32 \<Rightarrow> u32 \<Rightarrow> u32 \<Rightarrow> u32 prog" where
  "SpkVer_revocation W EfuseRsa SpkIdFuseSel SpkId =
     (if EfuseRsa AND EFUSE_SEC_CTRL_RSA_EN_MASK \<noteq> 0 then
        bindM (XFsbl_In32 W EFUSE_SPKID) (\<lambda>EfuseSpkId.
          if SpkIdFuseSel = XFSBL_SPKID_EFUSE then
            retM (if EfuseSpkId \<noteq> SpkId then XFSBL_ERROR_SPKID_VERIFICATION else XFSBL_SUCCESS)
          else if SpkIdFuseSel = XFSBL_USER_EFUSE then
            (if SpkId \<ge> XFSBL_USER_EFUSE_MIN_VALUE \<and> SpkId \<le> XFSBL_USER_EFUSE_MAX_VALUE then
               bindM (XFsbl_In32 W (XFSBL_USER_EFUSE_ADDR +
                        ((SpkId - 1) div XFSBL_WORD_SHIFT) * XFSBL_WORD_LEN_IN_BYTES))
                 (\<lambda>UserFuseVal. retM
                    (if UserFuseVal AND push_bit (unat ((SpkId - 1) mod XFSBL_WORD_SHIFT)) 1 \<noteq> 0
                     then XFSBL_ERROR_USER_EFUSE_ISREVOKED else XFSBL_SUCCESS))
             else retM XFSBL_ERROR_OUT_OF_RANGE_USER_EFUSE)
          else retM XFSBL_SUCCESS)
      else retM XFSBL_SUCCESS)"

definition SpkVer_hash :: "world \<Rightarrow> u64 \<Rightarrow> u32 \<Rightarrow> (nat \<Rightarrow> u8) prog" where
  "SpkVer_hash W AcOffset HashLen =
     seqM (XFsbl_ShaUpdate W AcOffset 8 HashLen)
       (seqM (XFsbl_ShaUpdate W (AcOffset + zx XFSBL_AUTH_CERT_SPK_OFFSET) XFSBL_SPK_SIZE HashLen)
         (XFsbl_ShaFinish W HashLen))"

text \<open>
  Decrypting a signature and comparing it with the first \<open>HashLen\<close> bytes of the hash: the errors
  are those of the calling function.
\<close>

definition rsa_verify :: "world \<Rightarrow> u64 \<Rightarrow> u64 \<Rightarrow> u64 \<Rightarrow> u64 \<Rightarrow> (nat \<Rightarrow> u8) \<Rightarrow> u32 \<Rightarrow> u32 \<Rightarrow> u32 \<Rightarrow> u32 prog" where
  "rsa_verify W Modular ModularEx ExpPtr Signature Hash HashLen DecryptError SignError =
     tryM_as XFSBL_ERROR_RSA_INITIALIZE
       (extM W (Crypto (RsaInitialize Modular ModularEx ExpPtr)))
       (tryM_as DecryptError (extM W (Crypto (RsaPublicEncrypt Signature)))
         (tryM_as SignError (extM W (Crypto (RsaSignVerification (map Hash [0..<unat HashLen])))) (retM XFSBL_SUCCESS)))"

definition XFsbl_SpkVer :: "world \<Rightarrow> u64 \<Rightarrow> u32 \<Rightarrow> u32 prog" where
  "XFsbl_SpkVer W AcOffset HashLen =
     bindM (getM (\<lambda>s. le32 (AuthBuffer s) 0)) (\<lambda>Attr.
     bindM (getM (\<lambda>s. le32 (AuthBuffer s) (unat XFSBL_SPKID_AC_ALIGN))) (\<lambda>SpkId.
       let SpkIdFuseSel = drop_bit (unat XFSBL_AH_ATTR_SPK_ID_FUSE_SEL_SHIFT)
             (Attr AND XFSBL_AH_ATTR_SPK_ID_FUSE_SEL_MASK)
       in bindM (XFsbl_In32 W EFUSE_SEC_CTRL) (\<lambda>EfuseRsa.
          tryM (XFsbl_CsuDmaInit W)
           (seqM (XFsbl_ShaStart W HashLen)
            (tryM (if SpkIdFuseSel = XFSBL_SPKID_EFUSE then XFsbl_Sha3PadSelect W
                   else if SpkIdFuseSel \<noteq> XFSBL_USER_EFUSE
                   then retM XFSBL_ERROR_INVALID_EFUSE_SELECT
                   else retM XFSBL_SUCCESS)
             (bindM (SpkVer_hash W AcOffset HashLen) (\<lambda>SpkHash.
              (tryM (rsa_verify W (ppk_key_addr W) (ppk_key_addr W + zx XFSBL_PPK_MOD_SIZE)
                       (ppk_key_addr W + zx XFSBL_PPK_MOD_SIZE + zx XFSBL_PPK_MOD_EXT_SIZE)
                       (AcOffset + zx XFSBL_AUTH_CERT_SPK_SIG_OFFSET) SpkHash HashLen
                       XFSBL_ERROR_SPK_RSA_DECRYPT XFSBL_ERROR_SPK_SIGNATURE)
                (SpkVer_revocation W EfuseRsa SpkIdFuseSel SpkId)))))))))"

section \<open>Partitions\<close>

text \<open>
  The secondary key inside the certificate and the signatures behind it: \<open>AcPtr\<close> of the C
  code after its increments.
\<close>

definition spk_addr :: "u64 \<Rightarrow> u64" where
  "spk_addr AcOffset = AcOffset + zx (XFSBL_RSA_AC_ALIGN + XFSBL_PPK_SIZE)"

definition bh_signature_addr :: "u64 \<Rightarrow> u64" where
  "bh_signature_addr AcOffset = spk_addr AcOffset + zx XFSBL_SPK_MOD_SIZE +
     zx XFSBL_SPK_MOD_EXT_SIZE + zx XFSBL_RSA_AC_ALIGN + zx XFSBL_SPK_SIG_SIZE"

definition partition_signature_addr :: "u64 \<Rightarrow> u64" where
  "partition_signature_addr AcOffset = bh_signature_addr AcOffset + zx XFSBL_BHDR_SIG_SIZE"

definition XFsbl_PartitionSignVer :: "world \<Rightarrow> u64 \<Rightarrow> u32 \<Rightarrow> u64 \<Rightarrow> u32 prog" where
  "XFsbl_PartitionSignVer W PartitionOffset PartitionLen AcOffset =
     (let HashLen = XFSBL_HASH_TYPE_SHA3;
          HashDataLen = PartitionLen - XFSBL_AUTH_CERT_MIN_SIZE
      in seqM (seqsM
           [XFsbl_ShaStart W HashLen,
            XFsbl_ShaUpdate W PartitionOffset HashDataLen HashLen,
            XFsbl_ShaUpdate W AcOffset (XFSBL_AUTH_CERT_MIN_SIZE - XFSBL_FSBL_SIG_SIZE) HashLen])
         (bindM (XFsbl_ShaFinish W HashLen) (\<lambda>PartitionHash.
          rsa_verify W (spk_addr AcOffset) (spk_addr AcOffset + zx XFSBL_SPK_MOD_SIZE)
            (spk_addr AcOffset + zx XFSBL_SPK_MOD_SIZE + zx XFSBL_SPK_MOD_EXT_SIZE)
            (partition_signature_addr AcOffset) PartitionHash HashLen
            XFSBL_ERROR_PART_RSA_DECRYPT XFSBL_ERROR_PART_SIGNATURE)))"

definition XFsbl_Authentication :: "world \<Rightarrow> u64 \<Rightarrow> u32 \<Rightarrow> u64 \<Rightarrow> u32 prog" where
  "XFsbl_Authentication W PartitionOffset PartitionLen AcOffset =
     tryM (XFsbl_SpkVer W AcOffset XFSBL_HASH_TYPE_SHA3)
       (XFsbl_PartitionSignVer W PartitionOffset PartitionLen AcOffset)"

section \<open>The boot header and the primary key\<close>

fun compare_hashs_loop :: "(nat \<Rightarrow> 'b) \<Rightarrow> (nat \<Rightarrow> 'b) \<Rightarrow> nat \<Rightarrow> nat \<Rightarrow> u32" where
  "compare_hashs_loop HashOne HashTwo Index 0 = XFSBL_SUCCESS"
| "compare_hashs_loop HashOne HashTwo Index (Suc n) =
     (if HashOne Index \<noteq> HashTwo Index then XFSBL_FAILURE
      else compare_hashs_loop HashOne HashTwo (Suc Index) n)"

definition XFsbl_CompareHashs :: "(nat \<Rightarrow> u32) \<Rightarrow> (nat \<Rightarrow> u32) \<Rightarrow> u32 \<Rightarrow> u32" where
  "XFsbl_CompareHashs HashOne HashTwo HashLen =
     compare_hashs_loop HashOne HashTwo 0 (unat (HashLen div 4))"

text \<open>The twelve words of a fuse hash, read in order; the rest of the buffer is unused.\<close>

primrec read_words :: "world \<Rightarrow> u32 \<Rightarrow> nat \<Rightarrow> nat \<Rightarrow> (nat \<Rightarrow> u32) \<Rightarrow> (nat \<Rightarrow> u32) prog" where
  "read_words W Base RegNum 0 acc = retM acc"
| "read_words W Base RegNum (Suc n) acc =
     bindM (XFsbl_In32 W (Base + of_nat RegNum * 4)) (\<lambda>v.
       read_words W Base (Suc RegNum) n (acc(RegNum := v)))"

definition XFsbl_ReadPpkHash :: "world \<Rightarrow> u32 \<Rightarrow> (nat \<Rightarrow> u32) prog" where
  "XFsbl_ReadPpkHash W PpkSelect =
     (if PpkSelect = 0 then read_words W EFUSE_PPK0 0 12 (\<lambda>_. 0)
      else read_words W EFUSE_PPK1 0 12 (\<lambda>_. 0))"

definition PpkVer_compare :: "world \<Rightarrow> u64 \<Rightarrow> u32 \<Rightarrow> u32 \<Rightarrow> u32 prog" where
  "PpkVer_compare W AcOffset HashLen PpkSelect =
     bindM (XFsbl_ReadPpkHash W PpkSelect) (\<lambda>EfusePpkHash.
       seqM (XFsbl_ShaStart W HashLen)
        (tryM (XFsbl_Sha3PadSelect W)
          (seqM (XFsbl_ShaUpdate W (AcOffset + zx XFSBL_RSA_AC_ALIGN) XFSBL_PPK_SIZE HashLen)
            (bindM (XFsbl_ShaFinish W HashLen) (\<lambda>PpkHash.
              if XFsbl_CompareHashs (\<lambda>i. le32 PpkHash (4 * i)) EfusePpkHash HashLen
                   \<noteq> XFSBL_SUCCESS
              then retM XFSBL_ERROR_PPK_VERIFICATION else retM XFSBL_SUCCESS)))))"

definition XFsbl_PpkVer :: "world \<Rightarrow> u64 \<Rightarrow> u32 \<Rightarrow> u32 prog" where
  "XFsbl_PpkVer W AcOffset HashLen =
     bindM (getM (\<lambda>s. le32 (AuthBuffer s) 0)) (\<lambda>Attr.
     bindM (XFsbl_In32 W EFUSE_SEC_CTRL) (\<lambda>SecCtrl.
       if Attr AND XIH_AC_ATTRB_PPK_SELECT_MASK = 0 then
         (if SecCtrl AND EFUSE_SEC_CTRL_PPK0_RVK_MASK \<noteq> 0
          then retM XSFBL_ERROR_PPK_SELECT_ISREVOKED
          else PpkVer_compare W AcOffset HashLen 0)
       else
         (if SecCtrl AND EFUSE_SEC_CTRL_PPK1_RVK_MASK \<noteq> 0
          then retM XSFBL_ERROR_PPK_SELECT_ISREVOKED
          else PpkVer_compare W AcOffset HashLen 1)))"

definition XFsbl_BhAuthentication :: "world \<Rightarrow> u64 \<Rightarrow> u64 \<Rightarrow> bool \<Rightarrow> u32 prog" where
  "XFsbl_BhAuthentication W Data AcOffset IsEfuseRsa =
     bindM (getM BootHdrAttributes) (\<lambda>Attr.
       let HashLen = XFSBL_HASH_TYPE_SHA3;
           SizeofBH = (if Attr AND XIH_BH_IMAGE_ATTRB_PUF_BH_MASK \<noteq> 0
                       then XIH_BH_MAX_SIZE else XIH_BH_MIN_SIZE)
       in tryM (XFsbl_CsuDmaInit W)
          (tryM (if IsEfuseRsa then XFsbl_PpkVer W AcOffset HashLen else retM XFSBL_SUCCESS)
            (seqM (modM (\<lambda>s. s\<lparr>EfusePpkKey := XFsbl_MemCpy (unat XFSBL_PPK_SIZE) 0 (EfusePpkKey s)
                     (\<lambda>k. AuthBuffer s (unat XFSBL_AUTH_CERT_PPK_OFFSET + k))\<rparr>))
            (tryM (XFsbl_SpkVer W AcOffset HashLen)
              (seqM (XFsbl_ShaStart W HashLen)
                (tryM (XFsbl_Sha3PadSelect W)
                  (seqM (XFsbl_ShaUpdate W Data SizeofBH HashLen)
                    (bindM (XFsbl_ShaFinish W HashLen) (\<lambda>BhHash.
                     rsa_verify W (spk_addr AcOffset) (spk_addr AcOffset + zx XFSBL_SPK_MOD_SIZE)
                       (spk_addr AcOffset + zx XFSBL_SPK_MOD_SIZE + zx XFSBL_SPK_MOD_EXT_SIZE)
                       (bh_signature_addr AcOffset) BhHash HashLen
                       XFSBL_ERROR_BH_RSA_DECRYPT XFSBL_ERROR_BH_SIGNATURE)))))))))"

section \<open>Frames\<close>

context buffers_closed
begin

lemma keeps_CsuDmaInit: "keeps E I (XFsbl_CsuDmaInit W)"
  unfolding XFsbl_CsuDmaInit_def by (intro keeps_intro io_keeps)

lemma keeps_sha: "keeps E I (XFsbl_Sha3PadSelect W)" "keeps E I (XFsbl_ShaStart W l)"
  "keeps E I (XFsbl_ShaUpdate W d n l)" "keeps E I (XFsbl_ShaFinish W l)" "keeps E I (XFsbl_ShaDigest W d n l)"
  unfolding XFsbl_Sha3PadSelect_def XFsbl_ShaStart_def XFsbl_ShaUpdate_def XFsbl_ShaFinish_def
    XFsbl_ShaDigest_def
  by (intro keeps_intro io_keeps)+

lemma keeps_rsa_verify: "keeps E I (rsa_verify W m x e g k l d f)"
  unfolding rsa_verify_def by (intro keeps_intro io_keeps)

lemma keeps_SpkVer_revocation: "keeps E I (SpkVer_revocation W r f i)"
  unfolding SpkVer_revocation_def by (intro keeps_intro io_keeps)

lemma keeps_SpkVer: "keeps E I (XFsbl_SpkVer W a l)"
  unfolding XFsbl_SpkVer_def SpkVer_hash_def Let_def
  by (intro keeps_intro io_keeps keeps_CsuDmaInit keeps_sha keeps_rsa_verify keeps_SpkVer_revocation)

lemma keeps_PartitionSignVer: "keeps E I (XFsbl_PartitionSignVer W d n a)"
  unfolding XFsbl_PartitionSignVer_def Let_def by (intro keeps_intro keeps_sha keeps_rsa_verify)

lemma keeps_Authentication: "keeps E I (XFsbl_Authentication W d n a)"
  unfolding XFsbl_Authentication_def by (intro keeps_intro keeps_SpkVer keeps_PartitionSignVer)

lemma keeps_read_words: "keeps E I (read_words W b i n f)"
  by (induction n arbitrary: i f) (auto intro!: keeps_intro keeps_In32)

lemma keeps_PpkVer: "keeps E I (XFsbl_PpkVer W a l)"
  unfolding XFsbl_PpkVer_def PpkVer_compare_def XFsbl_ReadPpkHash_def
  by (intro keeps_intro io_keeps keeps_read_words keeps_sha)

lemma keeps_BhAuthentication: "keeps E I (XFsbl_BhAuthentication W d a e)"
  unfolding XFsbl_BhAuthentication_def Let_def
  by (intro keeps_intro keeps_CsuDmaInit keeps_PpkVer keeps_EfusePpkKey keeps_SpkVer keeps_sha keeps_rsa_verify)

lemmas auth_keeps = tcm_keeps keeps_CsuDmaInit keeps_sha keeps_rsa_verify keeps_SpkVer
  keeps_PartitionSignVer keeps_Authentication keeps_PpkVer keeps_BhAuthentication

end

section \<open>Signatures on the history\<close>

text \<open>
  The steps of a successful verification of the signature of \<open>len\<close> bytes of partition data
  with the certificate at \<open>ac\<close>: the hash covers the data without the certificate and then
  the certificate without its last signature; that signature is decrypted with the
  secondary key and compared.
\<close>

definition rsa_steps :: "u64 \<Rightarrow> u64 \<Rightarrow> u64 \<Rightarrow> u64 \<Rightarrow> u8 list \<Rightarrow> io list" where
  "rsa_steps Modular ModularEx ExpPtr Signature hash =
     [Ext (Crypto (RsaSignVerification hash)) XFSBL_SUCCESS,
      Ext (Crypto (RsaPublicEncrypt Signature)) XFSBL_SUCCESS,
      Ext (Crypto (RsaInitialize Modular ModularEx ExpPtr)) XFSBL_SUCCESS]"

text \<open>The hash that the engine gives at the end of the updates \<open>us\<close>, after the history \<open>h\<close>.\<close>

definition digest :: "world \<Rightarrow> io list \<Rightarrow> io list \<Rightarrow> u8 list" where
  "digest W us h = map (ext_byte W (us @ h) (Crypto Sha3Finish)) [0..<48]"

text \<open>A signature at \<open>Signature\<close> that was compared with the hash of the updates \<open>us\<close>.\<close>

definition hash_signed :: "world \<Rightarrow> u64 \<Rightarrow> u64 \<Rightarrow> u64 \<Rightarrow> u64 \<Rightarrow> io list \<Rightarrow> io list \<Rightarrow> bool" where
  "hash_signed W Modular ModularEx ExpPtr Signature us b \<longleftrightarrow> (\<exists>v h.
     b = rsa_steps Modular ModularEx ExpPtr Signature (digest W us h) @ Ext (Crypto Sha3Finish) v # us)"

definition partition_signature :: "world \<Rightarrow> u64 \<Rightarrow> u32 \<Rightarrow> u64 \<Rightarrow> io list \<Rightarrow> bool" where
  "partition_signature W data len ac b \<longleftrightarrow> (\<exists>v2 v3 v4 v5.
     hash_signed W (spk_addr ac) (spk_addr ac + zx XFSBL_SPK_MOD_SIZE)
       (spk_addr ac + zx XFSBL_SPK_MOD_SIZE + zx XFSBL_SPK_MOD_EXT_SIZE) (partition_signature_addr ac)
       [Ext (Crypto (Sha3Update ac (XFSBL_AUTH_CERT_MIN_SIZE - XFSBL_FSBL_SIG_SIZE))) v2,
        Ext (Crypto (Sha3Update data (len - XFSBL_AUTH_CERT_MIN_SIZE))) v3,
        Ext (Crypto Sha3Start) v4, Ext (Crypto Sha3Initialize) v5] b)"

definition spk_signature :: "world \<Rightarrow> u64 \<Rightarrow> io list \<Rightarrow> bool" where
  "spk_signature W ac b \<longleftrightarrow> (\<exists>v2 v3.
     hash_signed W (ppk_key_addr W) (ppk_key_addr W + zx XFSBL_PPK_MOD_SIZE)
       (ppk_key_addr W + zx XFSBL_PPK_MOD_SIZE + zx XFSBL_PPK_MOD_EXT_SIZE) (ac + zx XFSBL_AUTH_CERT_SPK_SIG_OFFSET)
       [Ext (Crypto (Sha3Update (ac + zx XFSBL_AUTH_CERT_SPK_OFFSET) XFSBL_SPK_SIZE)) v2,
        Ext (Crypto (Sha3Update ac 8)) v3] b)"

lemma wp_rsa_verify:
  assumes "D \<noteq> XFSBL_SUCCESS" "F \<noteq> XFSBL_SUCCESS"
  shows "wp (rsa_verify W m x e g k l D F)
    (\<lambda>Status t. Status = XFSBL_SUCCESS \<longrightarrow> t = s\<lparr>trace := rsa_steps m x e g (map k [0..<unat l]) @ trace s\<rparr>) (\<lambda>_ _. True) s"
  using assms by (auto simp: rsa_verify_def wp_eq rsa_steps_def hw)

text \<open>The end of the hash and the comparison, after updates with \<open>U\<close>.\<close>

lemma finish_verify:
  assumes "\<exists>us. U us \<and> trace t = us @ trace s" and "since h0 pre s" and "\<And>us b. U us \<Longrightarrow> hash_signed W m x e g us b \<Longrightarrow> B b"
    and "D \<noteq> XFSBL_SUCCESS" and "F \<noteq> XFSBL_SUCCESS"
  shows "wp (bindM (XFsbl_ShaFinish W XFSBL_HASH_TYPE_SHA3) (\<lambda>k. rsa_verify W m x e g k XFSBL_HASH_TYPE_SHA3 D F))
    (\<lambda>Status t. Status = XFSBL_SUCCESS \<longrightarrow> since h0 (contains B pre) t) (\<lambda>_ _. True) t"
proof -
  obtain us where us: "U us" "trace t = us @ trace s" using assms(1) by blast
  let ?k = "ext_byte W (us @ trace s) (Crypto Sha3Finish)"
  have B: "B (rsa_steps m x e g (digest W us (trace s)) @ Ext (Crypto Sha3Finish) v # us)" for v
    by (rule assms(3) [OF us(1)]) (auto simp: hash_signed_def)
  have 48: "map ?k [0..<unat XFSBL_HASH_TYPE_SHA3] = digest W us (trace s)"
    by (simp add: digest_def XFSBL_HASH_TYPE_SHA3_def del: upt_rec_numeral)
  have "wp (rsa_verify W m x e g ?k XFSBL_HASH_TYPE_SHA3 D F)
      (\<lambda>Status t. Status = XFSBL_SUCCESS \<longrightarrow> since h0 (contains B pre) t) (\<lambda>_ _. True) (t\<lparr>trace := Ext (Crypto Sha3Finish) v # trace t\<rparr>)" for v
    using since_now [where B = B, OF assms(2) _ B] us(2)
    by (intro wp_mono [OF wp_rsa_verify [OF assms(4,5)]]) (simp_all add: 48)
  then show ?thesis by (simp add: XFsbl_ShaFinish_def wp_eq us(2))
qed

lemma signature_codes:
  "XFSBL_ERROR_PART_RSA_DECRYPT \<noteq> XFSBL_SUCCESS" "XFSBL_ERROR_PART_SIGNATURE \<noteq> XFSBL_SUCCESS"
  "XFSBL_ERROR_SPK_RSA_DECRYPT \<noteq> XFSBL_SUCCESS" "XFSBL_ERROR_SPK_SIGNATURE \<noteq> XFSBL_SUCCESS"
  "XFSBL_ERROR_BH_RSA_DECRYPT \<noteq> XFSBL_SUCCESS" "XFSBL_ERROR_BH_SIGNATURE \<noteq> XFSBL_SUCCESS"
  by (simp_all add: hw)

lemma PartitionSignVer_establishes:
  "establishes (since h0 pre) (since h0 (contains (partition_signature W d len ac) pre)) (XFsbl_PartitionSignVer W d len ac)"
proof -
  let ?U = "\<lambda>us. \<exists>v2 v3 v4 v5. us = [Ext (Crypto (Sha3Update ac (XFSBL_AUTH_CERT_MIN_SIZE - XFSBL_FSBL_SIG_SIZE))) v2,
        Ext (Crypto (Sha3Update d (len - XFSBL_AUTH_CERT_MIN_SIZE))) v3, Ext (Crypto Sha3Start) v4, Ext (Crypto Sha3Initialize) v5]"
  show ?thesis
    unfolding establishes_def XFsbl_PartitionSignVer_def Let_def wp_seq
    by (auto simp: XFsbl_ShaStart_def XFsbl_ShaUpdate_def wp_eq partition_signature_def simp del: wp_bind
        intro!: finish_verify [where U = ?U] signature_codes) blast+
qed

lemma SpkVer_establishes:
  "establishes (since h0 (contains B pre)) (since h0 (contains (spk_signature W ac) (contains B pre))) (XFsbl_SpkVer W ac XFSBL_HASH_TYPE_SHA3)"
proof -
  let ?U = "\<lambda>us. \<exists>v2 v3. us = [Ext (Crypto (Sha3Update (ac + zx XFSBL_AUTH_CERT_SPK_OFFSET) XFSBL_SPK_SIZE)) v2,
        Ext (Crypto (Sha3Update ac 8)) v3]"
  have split: "bindM (SpkVer_hash W ac l) k = seqM (XFsbl_ShaUpdate W ac 8 l)
      (seqM (XFsbl_ShaUpdate W (ac + zx XFSBL_AUTH_CERT_SPK_OFFSET) XFSBL_SPK_SIZE l) (bindM (XFsbl_ShaFinish W l) k))"
    for l and k :: "_ \<Rightarrow> u32 prog"
    by (rule ext) (simp add: SpkVer_hash_def seqM_def bindM_def split: option.splits res.splits)
  have sig: "establishes (since h0 (contains B pre)) (since h0 (contains (spk_signature W ac) (contains B pre)))
      (bindM (SpkVer_hash W ac XFSBL_HASH_TYPE_SHA3) (\<lambda>k. rsa_verify W (ppk_key_addr W)
        (ppk_key_addr W + zx XFSBL_PPK_MOD_SIZE)
        (ppk_key_addr W + zx XFSBL_PPK_MOD_SIZE + zx XFSBL_PPK_MOD_EXT_SIZE)
        (ac + zx XFSBL_AUTH_CERT_SPK_SIG_OFFSET) k XFSBL_HASH_TYPE_SHA3 XFSBL_ERROR_SPK_RSA_DECRYPT XFSBL_ERROR_SPK_SIGNATURE))"
    unfolding establishes_def split wp_seq
    by (auto simp: XFsbl_ShaUpdate_def wp_eq spk_signature_def simp del: wp_bind
        intro!: finish_verify [where U = ?U] signature_codes) blast+
  have assoc: "bindM a (\<lambda>x. tryM (b x) c) = tryM (bindM a b) c" for a :: "(nat \<Rightarrow> u8) prog" and b c
    by (rule ext) (simp add: tryM_def bindM_def split: option.splits res.splits)
  show ?thesis
    unfolding XFsbl_SpkVer_def Let_def assoc
    by (intro establishes_bind establishes_try_second [where m = "XFsbl_CsuDmaInit W"]
        establishes_try_second [where m = "if p then x else y" for p x y] establishes_seq [where m = "XFsbl_ShaStart W l" for l]
        establishes_try_first sig happened.auth_keeps happened.keeps_SpkVer_revocation keeps_intro)
qed

lemma Authentication_establishes:
  "establishes (since h0 (contains B pre))
     (since h0 (contains (partition_signature W d len ac) (contains (spk_signature W ac) (contains B pre))))
     (XFsbl_Authentication W d len ac)"
  unfolding XFsbl_Authentication_def
  by (rule establishes_try_chain [OF SpkVer_establishes PartitionSignVer_establishes])

lemma compare_hashs_loop_iff:
  "compare_hashs_loop HashOne HashTwo i n = (if \<forall>k<n. HashOne (i + k) = HashTwo (i + k) then XFSBL_SUCCESS else XFSBL_FAILURE)"
proof (induction n arbitrary: i)
  case (Suc n)
  show ?case
    by (auto simp: Suc All_less_Suc2)
qed simp

definition bh_signature :: "world \<Rightarrow> u64 \<Rightarrow> u64 \<Rightarrow> io list \<Rightarrow> bool" where
  "bh_signature W data ac b \<longleftrightarrow> (\<exists>len v2 v3 v4. len \<in> {XIH_BH_MAX_SIZE, XIH_BH_MIN_SIZE} \<and>
     hash_signed W (spk_addr ac) (spk_addr ac + zx XFSBL_SPK_MOD_SIZE)
       (spk_addr ac + zx XFSBL_SPK_MOD_SIZE + zx XFSBL_SPK_MOD_EXT_SIZE) (bh_signature_addr ac)
       [Ext (Crypto (Sha3Update data len)) v2,
        Ext (Crypto Sha3PadSelection) XFSBL_SUCCESS, Ext (Crypto Sha3Start) v3, Ext (Crypto Sha3Initialize) v4] b)"

lemma bh_verify_establishes:
  assumes "len \<in> {XIH_BH_MAX_SIZE, XIH_BH_MIN_SIZE}"
  shows "establishes (since h0 pre) (since h0 (contains (bh_signature W d ac) pre))
    (seqM (XFsbl_ShaStart W XFSBL_HASH_TYPE_SHA3)
      (tryM (XFsbl_Sha3PadSelect W)
        (seqM (XFsbl_ShaUpdate W d len XFSBL_HASH_TYPE_SHA3)
          (bindM (XFsbl_ShaFinish W XFSBL_HASH_TYPE_SHA3) (\<lambda>BhHash.
          rsa_verify W (spk_addr ac) (spk_addr ac + zx XFSBL_SPK_MOD_SIZE)
             (spk_addr ac + zx XFSBL_SPK_MOD_SIZE + zx XFSBL_SPK_MOD_EXT_SIZE)
             (bh_signature_addr ac) BhHash XFSBL_HASH_TYPE_SHA3 XFSBL_ERROR_BH_RSA_DECRYPT XFSBL_ERROR_BH_SIGNATURE)))))"
proof -
  let ?U = "\<lambda>us. \<exists>v2 v3 v4. us = [Ext (Crypto (Sha3Update d len)) v2,
        Ext (Crypto Sha3PadSelection) XFSBL_SUCCESS, Ext (Crypto Sha3Start) v3, Ext (Crypto Sha3Initialize) v4]"
  show ?thesis
    unfolding establishes_def
    using assms
    by (auto simp: XFsbl_ShaStart_def XFsbl_ShaUpdate_def XFsbl_Sha3PadSelect_def wp_eq bh_signature_def simp del: wp_bind
        intro!: finish_verify [where U = ?U] signature_codes) blast+
qed

lemma BhAuthentication_establishes:
  "establishes (since h0 (contains B pre))
     (since h0 (contains (bh_signature W d ac) (contains (spk_signature W ac) (contains B pre))))
     (XFsbl_BhAuthentication W d ac fuse)"
  unfolding XFsbl_BhAuthentication_def Let_def
  by (intro establishes_bind establishes_try_second [where m = "XFsbl_CsuDmaInit W"]
      establishes_try_second [where m = "if b then x else y" for b x y] establishes_seq [where m = "modM g" for g]
      establishes_try_chain [OF SpkVer_establishes] bh_verify_establishes
      happened.auth_keeps happened.keeps_EfusePpkKey keeps_intro) simp

section \<open>The primary key\<close>

lemma CompareHashs_iff:
  "XFsbl_CompareHashs HashOne HashTwo HashLen = XFSBL_SUCCESS \<longleftrightarrow>
     map HashOne [0..<unat HashLen div 4] = map HashTwo [0..<unat HashLen div 4]"
proof -
  have "XFSBL_FAILURE \<noteq> XFSBL_SUCCESS" by (simp add: hw)
  then show ?thesis by (simp add: XFsbl_CompareHashs_def compare_hashs_loop_iff unat_div atLeastLessThan_iff Ball_def)
qed

lemma ends_read_words:
  "ends (read_words W Base i n acc) (\<lambda>f t. \<exists>ws. length ws = n \<and>
     t = s\<lparr>trace := rev (map (\<lambda>k. Rd (Base + of_nat (i + k) * 4) (ws ! k)) [0..<n]) @ trace s\<rparr> \<and>
     f = (\<lambda>k. if i \<le> k \<and> k < i + n then ws ! (k - i) else acc k)) s"
proof (induction n arbitrary: i acc s)
  case (Suc n)
  let ?v = "reg_in W (trace s) (Base + of_nat i * 4)"
  let ?s = "s\<lparr>trace := Rd (Base + of_nat i * 4) ?v # trace s\<rparr>"
  have steps: "rev (map (\<lambda>k. Rd (Base + of_nat (Suc i + k) * 4) (ws ! k)) [0..<n]) @ [Rd (Base + of_nat i * 4) ?v]
      = rev (map (\<lambda>k. Rd (Base + of_nat (i + k) * 4) ((?v # ws) ! k)) [0..<Suc n])" for ws
    unfolding upt_conv_Cons [OF zero_less_Suc] by (simp add: map_Suc_upt [symmetric] comp_def del: upt_Suc)
  have "ends (read_words W Base (Suc i) n (acc(i := ?v))) (\<lambda>f t. \<exists>ws. length ws = Suc n \<and>
     t = s\<lparr>trace := rev (map (\<lambda>k. Rd (Base + of_nat (i + k) * 4) (ws ! k)) [0..<Suc n]) @ trace s\<rparr> \<and>
     f = (\<lambda>k. if i \<le> k \<and> k < i + Suc n then ws ! (k - i) else acc k)) ?s"
  proof (rule ends_mono [OF Suc.IH])
    fix f t
    assume "\<exists>ws. length ws = n \<and>
     t = ?s\<lparr>trace := rev (map (\<lambda>k. Rd (Base + of_nat (Suc i + k) * 4) (ws ! k)) [0..<n]) @ trace ?s\<rparr> \<and>
     f = (\<lambda>k. if Suc i \<le> k \<and> k < Suc i + n then ws ! (k - Suc i) else (acc(i := ?v)) k)"
    then obtain ws where ws: "length ws = n"
      "t = ?s\<lparr>trace := rev (map (\<lambda>k. Rd (Base + of_nat (Suc i + k) * 4) (ws ! k)) [0..<n]) @ trace ?s\<rparr>"
      "f = (\<lambda>k. if Suc i \<le> k \<and> k < Suc i + n then ws ! (k - Suc i) else (acc(i := ?v)) k)"
      by blast
    have "length (?v # ws) = Suc n" using ws(1) by simp
    moreover have "t = s\<lparr>trace := rev (map (\<lambda>k. Rd (Base + of_nat (i + k) * 4) ((?v # ws) ! k)) [0..<Suc n]) @ trace s\<rparr>"
      unfolding ws(2) steps [symmetric] by simp
    moreover have "f = (\<lambda>k. if i \<le> k \<and> k < i + Suc n then (?v # ws) ! (k - i) else acc k)"
      unfolding ws(3) by (rule ext) (auto simp: nth_Cons' Suc_le_eq)
    ultimately show "\<exists>ws. length ws = Suc n \<and>
     t = s\<lparr>trace := rev (map (\<lambda>k. Rd (Base + of_nat (i + k) * 4) (ws ! k)) [0..<Suc n]) @ trace s\<rparr> \<and>
     f = (\<lambda>k. if i \<le> k \<and> k < i + Suc n then ws ! (k - i) else acc k)"
      by blast
  qed
  then show ?case by (simp add: ends_eq)
qed (auto simp: ends_eq fun_eq_iff)


text \<open>
  The check of the primary key on the history: \<open>k\<close> is the fuse block, \<open>ws\<close> its twelve words
  and \<open>H\<close> the history when the hash of the key is finished.
\<close>

definition ppk_hashed :: "u32 \<Rightarrow> u64 \<Rightarrow> u32 list \<Rightarrow> io list \<Rightarrow> io list \<Rightarrow> bool" where
  "ppk_hashed k ac ws h0 H \<longleftrightarrow> length ws = 12 \<and> (\<exists>v1 v2 v3. H =
     [Ext (Crypto (Sha3Update (ac + zx XFSBL_RSA_AC_ALIGN) XFSBL_PPK_SIZE)) v1,
      Ext (Crypto Sha3PadSelection) XFSBL_SUCCESS, Ext (Crypto Sha3Start) v2, Ext (Crypto Sha3Initialize) v3] @
     rev (map (\<lambda>i. Rd (k + of_nat i * 4) (ws ! i)) [0..<12]) @ h0)"

lemma PpkVer_compare_iff:
  "ends (PpkVer_compare W ac XFSBL_HASH_TYPE_SHA3 select) (\<lambda>Status t. Status = XFSBL_SUCCESS \<longleftrightarrow>
     (\<exists>ws H v. trace t = Ext (Crypto Sha3Finish) v # H \<and>
        ppk_hashed (if select = 0 then EFUSE_PPK0 else EFUSE_PPK1) ac ws (trace s) H \<and>
        map (\<lambda>i. le32 (ext_byte W H (Crypto Sha3Finish)) (4 * i)) [0..<12] = ws)) s"
proof -
  have code: "XFSBL_ERROR_PPK_VERIFICATION \<noteq> XFSBL_SUCCESS" "unat XFSBL_HASH_TYPE_SHA3 div 4 = 12" by (simp_all add: hw)
  let ?k = "if select = 0 then EFUSE_PPK0 else EFUSE_PPK1"
  define reads where "reads ws = rev (map (\<lambda>i. Rd (?k + of_nat i * 4) (ws ! i)) [0..<12])" for ws
  have inj: "reads ws = reads ws' \<longleftrightarrow> ws = ws'" if "length ws = 12" "length ws' = 12" for ws ws'
    using that by (auto simp: reads_def intro: nth_equalityI)
  have hashed: "ppk_hashed ?k ac ws h0 H \<longleftrightarrow> length ws = 12 \<and> (\<exists>v1 v2 v3. H =
     [Ext (Crypto (Sha3Update (ac + zx XFSBL_RSA_AC_ALIGN) XFSBL_PPK_SIZE)) v1,
      Ext (Crypto Sha3PadSelection) XFSBL_SUCCESS, Ext (Crypto Sha3Start) v2, Ext (Crypto Sha3Initialize) v3] @
     reads ws @ h0)" for ws h0 H
    by (simp add: ppk_hashed_def reads_def)
  have words: "map g [0..<12] = map f [0..<12] \<longleftrightarrow> map g [0..<12] = ws" if "ws = map f [0..<12]" for f g and ws :: "u32 list"
    using that by simp
  have rest: "ends (seqM (XFsbl_ShaStart W XFSBL_HASH_TYPE_SHA3)
        (tryM (XFsbl_Sha3PadSelect W)
          (seqM (XFsbl_ShaUpdate W (ac + zx XFSBL_RSA_AC_ALIGN) XFSBL_PPK_SIZE XFSBL_HASH_TYPE_SHA3)
            (bindM (XFsbl_ShaFinish W XFSBL_HASH_TYPE_SHA3) (\<lambda>PpkHash.
              if XFsbl_CompareHashs (\<lambda>i. le32 PpkHash (4 * i)) f XFSBL_HASH_TYPE_SHA3 \<noteq> XFSBL_SUCCESS
              then retM XFSBL_ERROR_PPK_VERIFICATION else retM XFSBL_SUCCESS)))))
     (\<lambda>Status t. Status = XFSBL_SUCCESS \<longleftrightarrow>
     (\<exists>ws H v. trace t = Ext (Crypto Sha3Finish) v # H \<and> ppk_hashed ?k ac ws (trace s) H \<and>
        map (\<lambda>i. le32 (ext_byte W H (Crypto Sha3Finish)) (4 * i)) [0..<12] = ws)) (s\<lparr>trace := reads ws @ trace s\<rparr>)"
    if "length ws = 12" "ws = map f [0..<12]" for ws f
    unfolding XFsbl_ShaStart_def XFsbl_ShaUpdate_def XFsbl_ShaFinish_def XFsbl_Sha3PadSelect_def ends_eq CompareHashs_iff code
      words [OF that(2)] hashed
    using that(1) inj by (auto simp: ends_eq code simp del: map_eq_conv)
  have read: "ends (if select = 0 then read_words W EFUSE_PPK0 0 12 (\<lambda>_. 0) else read_words W EFUSE_PPK1 0 12 (\<lambda>_. 0))
      (\<lambda>f t. \<exists>ws. length ws = 12 \<and> ws = map f [0..<12] \<and> t = s\<lparr>trace := reads ws @ trace s\<rparr>) s"
  proof -
    have "ends (read_words W b 0 12 (\<lambda>_. 0)) (\<lambda>f t. \<exists>ws. length ws = 12 \<and> ws = map f [0..<12] \<and>
        t = s\<lparr>trace := rev (map (\<lambda>i. Rd (b + of_nat i * 4) (ws ! i)) [0..<12]) @ trace s\<rparr>) s" for b
      by (rule ends_mono [OF ends_read_words]) (auto intro!: exI nth_equalityI)
    then show ?thesis by (simp add: reads_def)
  qed
  show ?thesis
    unfolding PpkVer_compare_def XFsbl_ReadPpkHash_def ends_bind
    by (rule ends_mono [OF read]) (elim exE conjE, hypsubst, rule rest, assumption, rule refl)
qed

section \<open>Properties\<close>

text \<open>When the fuses require RSA, a secondary key passes the revocation check exactly when its
  identifier is the one in the fuses, or when it is a user key 1 to 256 whose bit in the user
  fuses is not blown.\<close>

lemma SpkVer_revocation_iff:
  "ends (SpkVer_revocation W EfuseRsa SpkIdFuseSel SpkId) (\<lambda>Status t. (Status = XFSBL_SUCCESS) =
     (EfuseRsa AND EFUSE_SEC_CTRL_RSA_EN_MASK = 0 \<or>
      (let h = Rd EFUSE_SPKID (reg_in W (trace s) EFUSE_SPKID) # trace s
       in if SpkIdFuseSel = XFSBL_SPKID_EFUSE then reg_in W (trace s) EFUSE_SPKID = SpkId
          else if SpkIdFuseSel = XFSBL_USER_EFUSE then 1 \<le> unat SpkId \<and> unat SpkId \<le> 256 \<and>
            \<not> bit (reg_in W h (XFSBL_USER_EFUSE_ADDR + (SpkId - 1) div 32 * 4)) (unat (SpkId - 1) mod 32)
          else True))) s"
proof -
  have codes: "XFSBL_ERROR_SPKID_VERIFICATION \<noteq> XFSBL_SUCCESS" "XFSBL_ERROR_USER_EFUSE_ISREVOKED \<noteq> XFSBL_SUCCESS"
    "XFSBL_ERROR_OUT_OF_RANGE_USER_EFUSE \<noteq> XFSBL_SUCCESS" "XFSBL_USER_EFUSE_MIN_VALUE = 1"
    "XFSBL_WORD_SHIFT = 32" "XFSBL_WORD_LEN_IN_BYTES = 4" "XFSBL_USER_EFUSE \<noteq> XFSBL_SPKID_EFUSE"
    "XFSBL_USER_EFUSE_MAX_VALUE = 256"
    by (simp_all add: hw)
  have fuse: "(v AND 2 ^ k = 0) = (\<not> bit v k)" if "k < 32" for v :: u32 and k
  proof -
    have "(v AND push_bit k 1 = 0) = (\<not> bit v k)"
      using that by (auto simp: bit_eq_iff [where 'a = "32 word"] bit_simps)
    then show ?thesis by (simp add: push_bit_eq_mult)
  qed
  have range: "(1 \<le> SpkId \<and> SpkId \<le> 256) = (1 \<le> unat SpkId \<and> unat SpkId \<le> 256)"
    by (simp add: word_le_nat_alt)
  have k: "unat ((SpkId - 1) mod 32) = unat (SpkId - 1) mod 32" by (simp add: unat_mod)
  show ?thesis
    using range by (auto simp: SpkVer_revocation_def ends_eq codes Let_def fuse k)
qed

text \<open>C12: With the fuses in charge, the primary key is accepted exactly when the fuse block that the
  certificate selects is not revoked and its twelve words, read in order, equal the words of
  the hash over the key; the hash covers the key in the certificate and nothing else.\<close>

theorem PpkVer_accepts:
  "ends (XFsbl_PpkVer W ac XFSBL_HASH_TYPE_SHA3) (\<lambda>Status t.
     Status = XFSBL_SUCCESS \<longleftrightarrow>
     (let second = (le32 (AuthBuffer s) 0 AND XIH_AC_ATTRB_PPK_SELECT_MASK \<noteq> 0);
          SecCtrl = reg_in W (trace s) EFUSE_SEC_CTRL
      in SecCtrl AND (if second then EFUSE_SEC_CTRL_PPK1_RVK_MASK else EFUSE_SEC_CTRL_PPK0_RVK_MASK) = 0 \<and>
         (\<exists>ws H v. trace t = Ext (Crypto Sha3Finish) v # H \<and>
           ppk_hashed (if second then EFUSE_PPK1 else EFUSE_PPK0) ac ws (Rd EFUSE_SEC_CTRL SecCtrl # trace s) H \<and>
           map (\<lambda>i. le32 (ext_byte W H (Crypto Sha3Finish)) (4 * i)) [0..<12] = ws))) s"
proof -
  have code: "XSFBL_ERROR_PPK_SELECT_ISREVOKED \<noteq> XFSBL_SUCCESS" by (simp add: hw)
  let ?s = "s\<lparr>trace := Rd EFUSE_SEC_CTRL (reg_in W (trace s) EFUSE_SEC_CTRL) # trace s\<rparr>"
  have "ends (PpkVer_compare W ac XFSBL_HASH_TYPE_SHA3 select) (\<lambda>Status t. Status = XFSBL_SUCCESS \<longleftrightarrow>
     (\<exists>ws H v. trace t = Ext (Crypto Sha3Finish) v # H \<and>
        ppk_hashed (if select = 0 then EFUSE_PPK0 else EFUSE_PPK1) ac ws (trace ?s) H \<and>
        map (\<lambda>i. le32 (ext_byte W H (Crypto Sha3Finish)) (4 * i)) [0..<12] = ws)) ?s" for select
    by (rule PpkVer_compare_iff)
  from this [of 0] this [of 1] show ?thesis
    unfolding XFsbl_PpkVer_def ends_bind ends_get ends_In32 ends_if Let_def
    by (auto simp: ends_ret code)
qed

end
