(* ===== verification/Fsbl_Pl_Partition.thy ===== *)
theory Fsbl_Pl_Partition
  imports Fsbl_Auth
begin

text \<open>
  Authenticated bitstreams (\<open>xfsbl_plpartition_valid.c\<close>).  The bitstream is authenticated in
  blocks, each with a certificate of its own; a block is read twice, in chunks that fit into
  \<open>ReadBuffer\<close>.  The first reading hashes the chunks, keeps the running hash after each of them,
  and verifies the signature of the block; the second reading hashes them again, compares
  each running hash with the one kept, and only then passes the chunk on to the logic or to the AES
  engine.

  \<open>XFsblPs_PlPartition\<close> is a local variable of the caller: the functions that change it return it.
\<close>

section \<open>Data (\<open>xfsbl_plpartition_valid.h\<close>)\<close>

text \<open>
  Of the AES instance, which belongs to the driver, the fields that the code reads or writes.
  The buffers of a certificate and of a chunk are \<open>AuthBuffer\<close> and \<open>ReadBuffer\<close>; of the
  buffer for the rest of a secure header only the address matters.
\<close>

datatype aes_key_source = KEY_SRC_DEV | KEY_SRC_KUP

record XSecure_Aes =
  KeySel :: aes_key_source
  Key :: u64
  SizeofData :: u32

record XFsblPs_PlAuthentication =
  AuthType :: u32
  AcOfset :: u32
  HashsOfChunks :: "nat \<Rightarrow> u8"
  NoOfHashs :: u32
  BlockSize :: u32

record XFsblPs_PlEncryption =
  SecureAes :: "XSecure_Aes option"
  NextBlkLen :: u32

record XFsblPs_PlPartition =
  IsAuthenticated :: bool
  IsEncrypted :: bool
  StartAddress :: u64
  UnEncryptLen :: u32
  TotalLen :: u32
  ChunkSize :: u32
  PlDeviceCopy :: "XFsblPs_DeviceOps option"
  PlEncrypt :: XFsblPs_PlEncryption
  PlAuth :: XFsblPs_PlAuthentication
  Hdr :: u32

text \<open>The AES instance of a partition that is encrypted.\<close>

definition pl_aes :: "XFsblPs_PlPartition \<Rightarrow> XSecure_Aes" where
  "pl_aes p = (case SecureAes (PlEncrypt p) of Some a \<Rightarrow> a | None \<Rightarrow> \<lparr>KeySel = KEY_SRC_DEV, Key = 0, SizeofData = 0\<rparr>)"

definition set_SizeofData :: "u32 \<Rightarrow> XFsblPs_PlPartition \<Rightarrow> XFsblPs_PlPartition" where
  "set_SizeofData n p = p\<lparr>PlEncrypt := (PlEncrypt p)\<lparr>SecureAes := Some ((pl_aes p)\<lparr>SizeofData := n\<rparr>)\<rparr>\<rparr>"

definition set_key_KUP :: "XFsblPs_PlPartition \<Rightarrow> XFsblPs_PlPartition" where
  "set_key_KUP p = p\<lparr>PlEncrypt := (PlEncrypt p)\<lparr>SecureAes := Some ((pl_aes p)\<lparr>KeySel := KEY_SRC_KUP\<rparr>)\<rparr>\<rparr>"

section \<open>Copies and transfers\<close>

datatype pl_buffer = AuthCertBuf | ChunkBuffer | SecureHdr u32

fun pl_buffer_addr :: "world \<Rightarrow> pl_buffer \<Rightarrow> u64" where
  "pl_buffer_addr W AuthCertBuf = auth_buffer_addr W"
| "pl_buffer_addr W ChunkBuffer = read_buffer_addr W"
| "pl_buffer_addr W (SecureHdr n) = secure_hdr_addr W + zx n"

definition overwrite :: "(nat \<Rightarrow> u8) \<Rightarrow> nat \<Rightarrow> nat \<Rightarrow> (nat \<Rightarrow> u8) \<Rightarrow> nat \<Rightarrow> u8" where
  "overwrite buf off n b = (\<lambda>k. if off \<le> k \<and> k < off + n then b (k - off) else buf k)"

fun fill_buffer :: "pl_buffer \<Rightarrow> u32 \<Rightarrow> (nat \<Rightarrow> u8) \<Rightarrow> unit prog" where
  "fill_buffer AuthCertBuf n b = modM (\<lambda>s. s\<lparr>AuthBuffer := overwrite (AuthBuffer s) 0 (unat n) b\<rparr>)"
| "fill_buffer ChunkBuffer n b = modM (\<lambda>s. s\<lparr>ReadBuffer := overwrite (ReadBuffer s) 0 (unat n) b\<rparr>)"
| "fill_buffer (SecureHdr m) n b = retM ()"

text \<open>
  Without a device the data come from memory, through the general-purpose DMA.
\<close>

definition XFsbl_CopyData :: "world \<Rightarrow> XFsblPs_PlPartition \<Rightarrow> pl_buffer \<Rightarrow> u64 \<Rightarrow> u32 \<Rightarrow> u32 prog" where
  "XFsbl_CopyData W p Dst Src Size =
     (case PlDeviceCopy p of
        None \<Rightarrow>
          bindM (getM (\<lambda>s. ext_byte W (trace s) (Dma (AdmaData (pl_buffer_addr W Dst) Src Size)))) (\<lambda>b.
            bindM (XFsbl_AdmaCopy W (pl_buffer_addr W Dst) Src Size) (\<lambda>Status.
              seqM (fill_buffer Dst Size b) (retM Status)))
      | Some ops \<Rightarrow>
          bindM (copyM W (Dev (DeviceCopy ops (lo32 Src) (pl_buffer_addr W Dst) Size))) (\<lambda>(Status, b).
            seqM (fill_buffer Dst Size b) (retM Status)))"

definition XFsbl_DmaPlCopy :: "world \<Rightarrow> u64 \<Rightarrow> u32 \<Rightarrow> bool \<Rightarrow> unit prog" where
  "XFsbl_DmaPlCopy W Src Size EnLast = seqsM
     [callM W (Dma (if EnLast then CsuDmaTransferLast Src Size else CsuDmaTransfer Src Size)),
      callM W (Dma CsuDmaWaitForDone),
      callM W (Dma CsuDmaIntrClear)]"

text \<open>Reading the configuration of the DMA, changing its byte order, and writing it back.\<close>

definition set_endian :: "world \<Rightarrow> u32 \<Rightarrow> unit prog" where
  "set_endian W e = seqsM [callM W (Dma CsuDmaGetConfig), callM W (Dma (CsuDmaSetEndian e))]"

section \<open>Decryption\<close>

definition XFsbl_DecrypSecureHdr :: "world \<Rightarrow> u64 \<Rightarrow> u32 prog" where
  "XFsbl_DecrypSecureHdr W SrcAddr =
     seqM (seqsM
       [set_endian W 1,
        callM W (Crypto AesKupWrite),
        callM W (Dma CsuDmaIntrClear),
        XFsbl_DmaPlCopy W SrcAddr (XSECURE_SECURE_HDR_SIZE W div 4) True,
        callM W (Crypto AesKupClear),
        XFsbl_DmaPlCopy W (SrcAddr + zx (XSECURE_SECURE_HDR_SIZE W)) (XSECURE_SECURE_GCM_TAG_SIZE W div 4) True,
        set_endian W 0,
        callM W (Crypto AesPcapWaitForDone),
        callM W (Crypto AesWaitForDone)])
     (bindM (extM W (Crypto AesGcmTagOk)) (\<lambda>GcmStatus.
        retM (if GcmStatus = 0 then XFSBL_ERROR_BITSTREAM_GCM_TAG_MISMATCH else XFSBL_SUCCESS)))"

definition XFsbl_DecrptSetUpNextBlk :: "world \<Rightarrow> XFsblPs_PlPartition \<Rightarrow> (u32 \<times> XFsblPs_PlPartition) prog" where
  "XFsbl_DecrptSetUpNextBlk W p =
     bindM (extM W (Crypto AesNextBlockWords)) (\<lambda>n.
       let p = p\<lparr>PlEncrypt := (PlEncrypt p)\<lparr>NextBlkLen := n * 4\<rparr>\<rparr>
       in seqM (seqsM
            [callM W (Crypto SssAes),
             callM W (Crypto AesStartMsg),
             XFsbl_DmaPlCopy W (aes_iv_addr W) (XSECURE_SECURE_GCM_TAG_SIZE W div 4) False,
             callM W (Crypto AesKupClear)])
          (retM (XFSBL_SUCCESS, set_SizeofData (n * 4) p)))"

definition XFSBL_AES_TAG_SIZE :: "world \<Rightarrow> u32" where
  "XFSBL_AES_TAG_SIZE W = XSECURE_SECURE_HDR_SIZE W + XSECURE_SECURE_GCM_TAG_SIZE W"

text \<open>
  The data that are left of the encrypted block, as far as they are in this chunk: all of
  \<open>Size\<close>, or the rest of the block, and then the part of the next secure header that is here
  already is put aside.  The result has what is left of the chunk.
\<close>

definition DecrptPl_send ::
  "world \<Rightarrow> XFsblPs_PlPartition \<Rightarrow> u64 \<Rightarrow> u32 \<Rightarrow> (XFsblPs_PlPartition \<times> u64 \<times> u32) prog" where
  "DecrptPl_send W p SrcAddr Size =
     (let n = SizeofData (pl_aes p)
      in if Size \<le> n \<and> n \<noteq> 0 then
           seqM (XFsbl_DmaPlCopy W SrcAddr (Size div 4) False) (retM (set_SizeofData (n - Size) p, SrcAddr, 0))
         else if n \<noteq> 0 then
           seqM (XFsbl_DmaPlCopy W SrcAddr (n div 4) False)
             (let p = set_SizeofData 0 p; SrcAddr = SrcAddr + zx n; Size = Size - n
              in if Size < XFSBL_AES_TAG_SIZE W
                 then bindM (XFsbl_CopyData W p (SecureHdr 0) SrcAddr Size) (\<lambda>_.
                        retM (p\<lparr>Hdr := Size\<rparr>, SrcAddr, 0))
                 else retM (p, SrcAddr, Size))
         else retM (p, SrcAddr, Size))"

text \<open>One turn of the loop of \<open>XFsbl_DecrptPl\<close>; its variables are \<open>p\<close>, \<open>SrcAddr\<close>, \<open>Size\<close> and \<open>NextBlkAddr\<close>.\<close>

definition DecrptPl_turn ::
  "world \<Rightarrow> XFsblPs_PlPartition \<times> u64 \<times> u32 \<times> u64 \<Rightarrow>
   ((u32 \<times> XFsblPs_PlPartition) + (XFsblPs_PlPartition \<times> u64 \<times> u32 \<times> u64)) prog" where
  "DecrptPl_turn W x = (case x of (p, SrcAddr, Size, NextBlkAddr) \<Rightarrow>
     seqM (seqsM [set_endian W 1, callM W (Crypto SssAes)])
      (bindM (DecrptPl_send W p SrcAddr Size) (\<lambda>(p, SrcAddr, Size).
       bindM (XFsbl_PcapWaitForDone W) (\<lambda>Status.
        if Status \<noteq> XFSBL_SUCCESS then retM (Inl (Status, p))
        else seqM (set_endian W 0)
          (if SizeofData (pl_aes p) = 0 \<and> Size \<noteq> 0 then
             bindM (XFsbl_DecrypSecureHdr W SrcAddr) (\<lambda>Status.
               if Status \<noteq> XFSBL_SUCCESS then retM (Inl (Status, p))
               else let Size = Size - XFSBL_AES_TAG_SIZE W;
                        NextBlkAddr = (if Size \<noteq> 0 then SrcAddr + zx (XFSBL_AES_TAG_SIZE W) else NextBlkAddr);
                        p = set_key_KUP p
                    in seqM (callM W (Crypto AesKeySelNLoad))
                      (bindM (XFsbl_DecrptSetUpNextBlk W p) (\<lambda>(Status, p).
                        if Status \<noteq> XFSBL_SUCCESS then retM (Inl (Status, p))
                        else if NextBlkAddr \<noteq> 0 \<and> SizeofData (pl_aes p) \<noteq> 0
                        then retM (if Size = 0 then Inl (Status, p) else Inr (p, NextBlkAddr, Size, NextBlkAddr))
                        else retM (Inl (Status, p)))))
           else retM (if Size = 0 then Inl (Status, p) else Inr (p, SrcAddr, Size, NextBlkAddr)))))))"

definition XFsbl_DecrptPl ::
  "world \<Rightarrow> XFsblPs_PlPartition \<Rightarrow> u64 \<Rightarrow> u32 \<Rightarrow> (u32 \<times> XFsblPs_PlPartition) prog" where
  "XFsbl_DecrptPl W p ChunkAdrs Size = iterM (DecrptPl_turn W) (p, ChunkAdrs, Size, 0)"

text \<open>
  A chunk of an encrypted bitstream: the first one begins with the secure header, a later one may
  begin with the rest of a header that the chunk before it had begun.
\<close>

definition DecrptPlChunks_first ::
  "world \<Rightarrow> XFsblPs_PlPartition \<Rightarrow> u64 \<Rightarrow> u32 \<Rightarrow> (u32 \<times> XFsblPs_PlPartition) prog" where
  "DecrptPlChunks_first W p ChunkAdrs Size =
     seqM (seqsM
       [callM W (Crypto (AesDecryptInit (XSECURE_SECURE_HDR_SIZE W) (ChunkAdrs + zx (XSECURE_SECURE_HDR_SIZE W)))),
        callM W (Crypto AesKupWrite)])
      (bindM (extM W (Crypto (AesDecryptUpdate ChunkAdrs (XSECURE_SECURE_HDR_SIZE W)))) (\<lambda>Status.
        if Status \<noteq> XFSBL_SUCCESS then retM (XFSBL_ERROR_BITSTREAM_GCM_TAG_MISMATCH, p)
        else let p = set_key_KUP p
             in seqM (callM W (Crypto AesKeySelNLoad))
               (bindM (XFsbl_DecrptSetUpNextBlk W p) (\<lambda>(Status, p).
                 if Status \<noteq> XFSBL_SUCCESS then retM (Status, p)
                 else XFsbl_DecrptPl W p (ChunkAdrs + zx (XFSBL_AES_TAG_SIZE W))
                        (Size - XFSBL_AES_TAG_SIZE W)))))"

definition DecrptPlChunks_rest ::
  "world \<Rightarrow> XFsblPs_PlPartition \<Rightarrow> u64 \<Rightarrow> u32 \<Rightarrow> (u32 \<times> XFsblPs_PlPartition) prog" where
  "DecrptPlChunks_rest W p SrcAddr Size =
     (let missing = XFSBL_AES_TAG_SIZE W - Hdr p
      in seqM (callM W (Crypto SssAes))
        (bindM (XFsbl_CopyData W p (SecureHdr (Hdr p)) SrcAddr missing) (\<lambda>_.
         bindM (XFsbl_DecrypSecureHdr W (secure_hdr_addr W)) (\<lambda>Status.
          if Status \<noteq> XFSBL_SUCCESS then retM (Status, p)
          else let Size = Size - missing;
                   NextBlkAddr = (if Size \<noteq> 0 then SrcAddr + zx missing else 0);
                   p = set_key_KUP (p\<lparr>Hdr := 0\<rparr>)
               in seqM (callM W (Crypto AesKeySelNLoad))
                 (bindM (XFsbl_DecrptSetUpNextBlk W p) (\<lambda>(Status, p).
                   if Status \<noteq> XFSBL_SUCCESS then retM (Status, p)
                   else if NextBlkAddr \<noteq> 0 \<and> SizeofData (pl_aes p) \<noteq> 0
                   then XFsbl_DecrptPl W p NextBlkAddr Size
                   else retM (Status, p)))))))"

definition XFsbl_DecrptPlChunks ::
  "world \<Rightarrow> XFsblPs_PlPartition \<Rightarrow> u64 \<Rightarrow> u32 \<Rightarrow> (u32 \<times> XFsblPs_PlPartition) prog" where
  "XFsbl_DecrptPlChunks W p ChunkAdrs Size =
     seqM (callM W (Crypto SssInitialize))
       (if NextBlkLen (PlEncrypt p) = 0 then DecrptPlChunks_first W p ChunkAdrs Size
        else if Hdr p \<noteq> 0 then DecrptPlChunks_rest W p ChunkAdrs Size
        else XFsbl_DecrptPl W p ChunkAdrs Size)"

section \<open>The first reading: the signature of a block\<close>

text \<open>
  The loop over the chunks; its variables are \<open>Index\<close>, \<open>HashDataLen\<close>, \<open>Len\<close> and the offset of
  \<open>ChunksHash\<close> in the buffer of hashes, which is returned.
\<close>

primrec PlSignVer_chunks ::
  "world \<Rightarrow> XFsblPs_PlPartition \<Rightarrow> u64 \<Rightarrow> u32 \<Rightarrow> nat \<Rightarrow> u32 \<Rightarrow> u32 \<Rightarrow> u32 \<Rightarrow> nat \<Rightarrow> (nat \<Rightarrow> u8) \<Rightarrow>
   (u32 \<times> (nat \<Rightarrow> u8)) prog" where
  "PlSignVer_chunks W p BlockAdrs NoOfChunks 0 Index HashDataLen Len off H = retM (XFSBL_SUCCESS, H)"
| "PlSignVer_chunks W p BlockAdrs NoOfChunks (Suc n) Index HashDataLen Len off H =
     (let Len = (if Index = NoOfChunks - 1 \<or> HashDataLen < ChunkSize p then HashDataLen else Len)
      in bindM (XFsbl_CopyData W p ChunkBuffer (BlockAdrs + zx (ChunkSize p * Index)) Len) (\<lambda>Status.
         if Status \<noteq> XFSBL_SUCCESS then retM (Status, H)
         else seqM (callM W (Crypto (Sha3Update (read_buffer_addr W) Len)))
           (bindM (copyM W (Crypto Sha3ReadHash)) (\<lambda>(_, d).
             let H = overwrite H off (unat XFSBL_HASH_TYPE_SHA3) d
             in if Index + 1 < NoOfChunks
                then PlSignVer_chunks W p BlockAdrs NoOfChunks n (Index + 1) (HashDataLen - ChunkSize p) Len
                       (off + unat (AuthType (PlAuth p))) H
                else PlSignVer_chunks W p BlockAdrs NoOfChunks n (Index + 1) HashDataLen Len off H))))"

text \<open>After the last chunk: the hash is completed with the certificate and the signature verified.\<close>

definition PlSignVer_finish :: "world \<Rightarrow> u64 \<Rightarrow> u32 \<Rightarrow> u32 prog" where
  "PlSignVer_finish W AcOffset HashLen =
     seqM (callM W (Crypto (Sha3Update AcOffset (XFSBL_AUTH_CERT_MIN_SIZE - XFSBL_FSBL_SIG_SIZE))))
      (bindM (copyM W (Crypto Sha3Finish)) (\<lambda>(Status, PartitionHash).
       rsa_verify W (spk_addr AcOffset) (spk_addr AcOffset + zx XFSBL_SPK_MOD_SIZE)
         (spk_addr AcOffset + zx XFSBL_SPK_MOD_SIZE + zx XFSBL_SPK_MOD_EXT_SIZE)
         (partition_signature_addr AcOffset) PartitionHash HashLen XFSBL_ERROR_PART_RSA_DECRYPT XFSBL_FAILURE))"

definition XFsbl_PlSignVer ::
  "world \<Rightarrow> XFsblPs_PlPartition \<Rightarrow> u64 \<Rightarrow> u32 \<Rightarrow> u64 \<Rightarrow> u32 \<Rightarrow> (u32 \<times> XFsblPs_PlPartition) prog" where
  "XFsbl_PlSignVer W p BlockAdrs BlockLen AcOffset NoOfChunks =
     seqM (whenM (AuthType (PlAuth p) = XFSBL_HASH_TYPE_SHA3)
        (seqsM [set_endian W 0, callM W (Crypto Sha3Initialize), callM W (Crypto Sha3Start)]))
      (bindM (PlSignVer_chunks W p BlockAdrs NoOfChunks (unat NoOfChunks) 0 BlockLen (ChunkSize p) 0
                (HashsOfChunks (PlAuth p))) (\<lambda>(Status, H).
        let p = p\<lparr>PlAuth := (PlAuth p)\<lparr>HashsOfChunks := H\<rparr>\<rparr>
        in if Status \<noteq> XFSBL_SUCCESS then retM (Status, p)
           else bindM (PlSignVer_finish W AcOffset (AuthType (PlAuth p))) (\<lambda>Status. retM (Status, p))))"

section \<open>The second reading: comparison and transfer\<close>

text \<open>What follows the comparison of a chunk: on to the logic, or to the AES engine.\<close>

definition ReAuth_transfer ::
  "world \<Rightarrow> XFsblPs_PlPartition \<Rightarrow> u32 \<Rightarrow> (u32 \<times> XFsblPs_PlPartition) prog" where
  "ReAuth_transfer W p Len =
     (if \<not> IsEncrypted p then
        seqM (seqsM
          [XFsbl_Out32 CSU_CSU_SSS_CFG (push_bit (unat CSU_CSU_SSS_CFG_PCAP_SSS_SHIFT) XFSBL_CSU_SSS_SRC_SRC_DMA),
           XFsbl_DmaPlCopy W (read_buffer_addr W) (Len div 4) False])
         (bindM (XFsbl_PcapWaitForDone W) (\<lambda>Status. retM (Status, p)))
      else XFsbl_DecrptPlChunks W p (read_buffer_addr W) Len)"

primrec ReAuth_chunks ::
  "world \<Rightarrow> u64 \<Rightarrow> u32 \<Rightarrow> nat \<Rightarrow> XFsblPs_PlPartition \<Rightarrow> u32 \<Rightarrow> u32 \<Rightarrow> u32 \<Rightarrow> nat \<Rightarrow>
   (u32 \<times> XFsblPs_PlPartition) prog" where
  "ReAuth_chunks W Address NoOfChunks 0 p Index HashDataLen Len off = retM (XFSBL_SUCCESS, p)"
| "ReAuth_chunks W Address NoOfChunks (Suc n) p Index HashDataLen Len off =
     (let Len = (if Index = NoOfChunks - 1 then HashDataLen else Len)
      in bindM (XFsbl_CopyData W p ChunkBuffer (Address + zx (ChunkSize p * Index)) Len) (\<lambda>Status.
         if Status \<noteq> XFSBL_SUCCESS then retM (Status, p)
         else seqM (callM W (Crypto (Sha3Update (read_buffer_addr W) Len)))
           (bindM (copyM W (Crypto Sha3ReadHash)) (\<lambda>(_, d).
             if XFsbl_CompareHashs (\<lambda>i. le32 (HashsOfChunks (PlAuth p)) (off + 4 * i)) (\<lambda>i. le32 d (4 * i))
                  (AuthType (PlAuth p)) \<noteq> XFSBL_SUCCESS
             then retM (XFSBL_ERROR_CHUNK_HASH_COMPARISON, p)
             else bindM (ReAuth_transfer W p Len) (\<lambda>(Status, p).
               if Status \<noteq> XFSBL_SUCCESS then retM (Status, p)
               else ReAuth_chunks W Address NoOfChunks n p (Index + 1) (HashDataLen - ChunkSize p) Len
                      (if Index + 1 \<le> NoOfChunks - 1 then off + unat (AuthType (PlAuth p)) else off))))))"

definition XFsbl_ReAuthenticationBlock ::
  "world \<Rightarrow> XFsblPs_PlPartition \<Rightarrow> u64 \<Rightarrow> u32 \<Rightarrow> u32 \<Rightarrow> (u32 \<times> XFsblPs_PlPartition) prog" where
  "XFsbl_ReAuthenticationBlock W p Address BlockLen NoOfChunks =
     bindM (extM W (Crypto Sha3Initialize)) (\<lambda>Status.
       if Status \<noteq> XFSBL_SUCCESS then retM (Status, p)
       else seqM (callM W (Crypto Sha3Start))
         (ReAuth_chunks W Address NoOfChunks (unat NoOfChunks) p 0 BlockLen (ChunkSize p) 0))"

definition pl_chunks :: "XFsblPs_PlPartition \<Rightarrow> u32 \<Rightarrow> u32" where
  "pl_chunks p Length =
     (if Length > ChunkSize p
      then Length div ChunkSize p + (if Length mod ChunkSize p > 0 then 1 else 0) else 1)"

definition XFsbl_PlBlockAuthentication ::
  "world \<Rightarrow> XFsblPs_PlPartition \<Rightarrow> u64 \<Rightarrow> u32 \<Rightarrow> u64 \<Rightarrow> (u32 \<times> XFsblPs_PlPartition) prog" where
  "XFsbl_PlBlockAuthentication W p SrcAddress Length AuthCer =
     (let NoOfChunks = pl_chunks p Length
      in if NoOfChunks > NoOfHashs (PlAuth p) then retM (XFSBL_ERROR_PROVIDED_BUF_HASH_STORE, p)
         else bindM (XFsbl_SpkVer W AuthCer (AuthType (PlAuth p))) (\<lambda>Status.
           if Status \<noteq> XFSBL_SUCCESS then retM (Status, p)
           else bindM (XFsbl_PlSignVer W p SrcAddress Length AuthCer NoOfChunks) (\<lambda>(Status, p).
             if Status \<noteq> XFSBL_SUCCESS then retM (Status, p)
             else XFsbl_ReAuthenticationBlock W p SrcAddress Length NoOfChunks)))"

section \<open>All blocks\<close>

text \<open>
  One turn of the loop over the blocks.  It ends with a status and whether the function goes on to its
  last part: an error returns at once, with the data cache still disabled.  The last block is what is
  left of the partition without the certificates of the blocks and without the blocks before.
\<close>

definition last_block_len :: "XFsblPs_PlPartition \<Rightarrow> u8 \<Rightarrow> u32" where
  "last_block_len p Index =
     TotalLen p - ucast Index * XFSBL_AUTH_CERT_MIN_SIZE - (ucast Index - 1) * BlockSize (PlAuth p)"

definition SecPl_turn ::
  "world \<Rightarrow> XFsblPs_PlPartition \<times> u8 \<times> u64 \<times> u64 \<Rightarrow>
   ((u32 \<times> bool) + (XFsblPs_PlPartition \<times> u8 \<times> u64 \<times> u64)) prog" where
  "SecPl_turn W x = (case x of (p, Index, SrcAddress, CurrentAcOffset) \<Rightarrow>
     if \<not> SrcAddress < zx (AcOfset (PlAuth p)) then retM (Inl (XFSBL_SUCCESS, True))
     else bindM (XFsbl_CopyData W p AuthCertBuf CurrentAcOffset XFSBL_AUTH_CERT_MIN_SIZE) (\<lambda>Status.
       if Status \<noteq> XFSBL_SUCCESS then retM (Inl (Status, False))
       else let IsLastBlock = (SrcAddress + zx (BlockSize (PlAuth p)) > zx (AcOfset (PlAuth p)));
                Len = (if IsLastBlock then last_block_len p Index else BlockSize (PlAuth p))
            in bindM (XFsbl_PlBlockAuthentication W p SrcAddress Len (auth_buffer_addr W)) (\<lambda>(Status, p).
              if Status \<noteq> XFSBL_SUCCESS then retM (Inl (Status, False))
              else if IsLastBlock then retM (Inl (Status, True))
              else retM (Inr (p, Index + 1, SrcAddress + zx (BlockSize (PlAuth p)),
                     CurrentAcOffset + zx XFSBL_AUTH_CERT_MIN_SIZE)))))"

definition SecPl_restore :: "unit prog" where
  "SecPl_restore = seqsM
     [XFsbl_Out32 ADMA_CH0_ZDMA_CH_CTRL0 0x80,
      XFsbl_Out32 ADMA_CH0_ZDMA_CH_DST_DSCR_WORD0 0, XFsbl_Out32 ADMA_CH0_ZDMA_CH_DST_DSCR_WORD1 0,
      XFsbl_Out32 ADMA_CH0_ZDMA_CH_DST_DSCR_WORD2 0, XFsbl_Out32 ADMA_CH0_ZDMA_CH_DST_DSCR_WORD3 0,
      XFsbl_Out32 ADMA_CH0_ZDMA_CH_SRC_DSCR_WORD0 0, XFsbl_Out32 ADMA_CH0_ZDMA_CH_SRC_DSCR_WORD1 0,
      XFsbl_Out32 ADMA_CH0_ZDMA_CH_SRC_DSCR_WORD2 0, XFsbl_Out32 ADMA_CH0_ZDMA_CH_SRC_DSCR_WORD3 0]"

definition XFsbl_SecPlPartition :: "world \<Rightarrow> XFsblPs_PlPartition \<Rightarrow> u32 prog" where
  "XFsbl_SecPlPartition W p =
     (if \<not> IsAuthenticated p then retM XFSBL_ERROR_SECURE_NOT_ENABLED
      else if IsEncrypted p \<and> SecureAes (PlEncrypt p) = None then retM XFSBL_ERROR_SECURE_NOT_ENABLED
      else if IsEncrypted p \<and> KeySel (pl_aes p) = KEY_SRC_KUP \<and> Key (pl_aes p) = 0 then retM XFSBL_FAILURE
      else let p = (if IsEncrypted p then p\<lparr>PlEncrypt := (PlEncrypt p)\<lparr>NextBlkLen := 0\<rparr>\<rparr> else p)
           in seqM (seqsM
               [rmwM W ADMA_CH0_ZDMA_CH_CTRL0 (\<lambda>v.
                  v AND (ADMA_CH0_ZDMA_CH_CTRL0_POINT_TYPE_MASK OR ADMA_CH0_ZDMA_CH_CTRL0_MODE_MASK)),
                callM W (Bsp DCacheDisable)])
             (bindM (iterM (SecPl_turn W) (p, 1, StartAddress p, zx (AcOfset (PlAuth p)))) (\<lambda>(Status, end_reached).
               seqM (whenM end_reached (seqM (callM W (Bsp DCacheEnable)) SecPl_restore))
                 (retM Status))))"

section \<open>Frames\<close>

context buffers_closed
begin

lemma keeps_fill_buffer: "keeps E I (fill_buffer b n f)"
  by (cases b) (auto intro!: keeps_intro keeps_mod ReadBuffer_step AuthBuffer_step)

lemma keeps_pl_calls:
  "keeps E I (XFsbl_CopyData W p b a n)" "keeps E I (XFsbl_DmaPlCopy W a n l)" "keeps E I (set_endian W e)"
  unfolding XFsbl_CopyData_def XFsbl_DmaPlCopy_def set_endian_def
  by (intro keeps_intro misc_keeps keeps_fill_buffer)+

lemma keeps_PcapWaitForDone: "keeps E I (XFsbl_PcapWaitForDone W)"
  unfolding XFsbl_PcapWaitForDone_def by (intro keeps_intro io_keeps)

lemma keeps_SetUpNextBlk: "keeps E I (XFsbl_DecrptSetUpNextBlk W p)"
  unfolding XFsbl_DecrptSetUpNextBlk_def Let_def by (intro keeps_intro io_keeps keeps_pl_calls)

lemma keeps_DecrypSecureHdr: "keeps E I (XFsbl_DecrypSecureHdr W a)"
  unfolding XFsbl_DecrypSecureHdr_def by (intro keeps_intro io_keeps keeps_pl_calls)

lemma keeps_DecrptPl: "keeps E I (XFsbl_DecrptPl W p a n)"
  unfolding XFsbl_DecrptPl_def DecrptPl_turn_def DecrptPl_send_def Let_def
  by (intro keeps_iter keeps_intro io_keeps keeps_pl_calls keeps_PcapWaitForDone keeps_SetUpNextBlk keeps_DecrypSecureHdr)

lemma keeps_DecrptPlChunks: "keeps E I (XFsbl_DecrptPlChunks W p a n)"
  unfolding XFsbl_DecrptPlChunks_def DecrptPlChunks_first_def DecrptPlChunks_rest_def Let_def
  by (intro keeps_intro io_keeps keeps_pl_calls keeps_SetUpNextBlk keeps_DecrypSecureHdr keeps_DecrptPl)

lemma keeps_PlSignVer_chunks: "keeps E I (PlSignVer_chunks W p a m n i l k off H)"
  by (induction n arbitrary: i l k off H) (auto simp: Let_def intro!: keeps_intro io_keeps keeps_pl_calls)

lemma keeps_ReAuth_transfer: "keeps E I (ReAuth_transfer W p n)"
  unfolding ReAuth_transfer_def
  by (intro keeps_intro io_keeps keeps_pl_calls keeps_PcapWaitForDone keeps_DecrptPlChunks)

lemma keeps_ReAuth_chunks: "keeps E I (ReAuth_chunks W a m n p i l k off)"
  by (induction n arbitrary: p i l k off)
    (auto simp: Let_def intro!: keeps_intro io_keeps keeps_pl_calls keeps_ReAuth_transfer)

lemma keeps_PlBlockAuthentication: "keeps E I (XFsbl_PlBlockAuthentication W p a n c)"
  unfolding XFsbl_PlBlockAuthentication_def XFsbl_PlSignVer_def PlSignVer_finish_def XFsbl_ReAuthenticationBlock_def Let_def
  by (intro keeps_intro io_keeps keeps_SpkVer keeps_pl_calls keeps_PlSignVer_chunks keeps_rsa_verify keeps_ReAuth_chunks)

lemma keeps_SecPlPartition: "keeps E I (XFsbl_SecPlPartition W p)"
  unfolding XFsbl_SecPlPartition_def SecPl_turn_def SecPl_restore_def Let_def
  by (intro keeps_iter keeps_intro io_keeps keeps_pl_calls keeps_PlBlockAuthentication)

end

section \<open>What the second reading guarantees\<close>

text \<open>The bytes of a word, and the comparison of two hashes.\<close>

lemma byte_high: "\<not> bit (x :: u8) (8 + n)" "\<not> bit (x :: u8) (16 + n)" "\<not> bit (x :: u8) (24 + n)"
  using bit_imp_le_length [of x "8 + n"] bit_imp_le_length [of x "16 + n"] bit_imp_le_length [of x "24 + n"] by auto

lemma le32_byte: "k < 4 \<Longrightarrow> b (i + k) = ucast (drop_bit (8 * k) (le32 b i))"
proof -
  assume "k < 4"
  then have "k = 0 \<or> k = 1 \<or> k = 2 \<or> k = 3" by auto
  then show ?thesis
    by (auto simp: le32_def bit_simps byte_high intro!: bit_word_eqI)
qed

lemma CompareHashs_bytes:
  assumes "XFsbl_CompareHashs (\<lambda>i. le32 f (off + 4 * i)) (\<lambda>i. le32 g (4 * i)) XFSBL_HASH_TYPE_SHA3 = XFSBL_SUCCESS"
    and "k < 48"
  shows "f (off + k) = g k"
proof -
  have "XFSBL_FAILURE \<noteq> XFSBL_SUCCESS" "unat (XFSBL_HASH_TYPE_SHA3 div 4) = 12" by (simp_all add: hw)
  then have words: "\<forall>j<12. le32 f (off + 4 * j) = le32 g (4 * j)"
    using assms(1) by (auto simp: XFsbl_CompareHashs_def compare_hashs_loop_iff split: if_splits)
  have "k div 4 < 12" "k mod 4 < 4" using assms(2) by simp_all
  with words have "le32 f (off + 4 * (k div 4)) = le32 g (4 * (k div 4))" by blast
  then have "f (off + 4 * (k div 4) + k mod 4) = g (4 * (k div 4) + k mod 4)"
    using le32_byte [of "k mod 4" f "off + 4 * (k div 4)"] le32_byte [of "k mod 4" g "4 * (k div 4)"] \<open>k mod 4 < 4\<close>
    by simp
  then show ?thesis by (simp add: add.assoc)
qed

text \<open>
  The steps of a successful verification of a block: the certificate is added to the running
  hash, and the signature decrypted with the secondary key is compared with it.
\<close>

definition pl_signature :: "world \<Rightarrow> u64 \<Rightarrow> io list \<Rightarrow> bool" where
  "pl_signature W ac b \<longleftrightarrow> (\<exists>v2. hash_signed W (spk_addr ac) (spk_addr ac + zx XFSBL_SPK_MOD_SIZE)
     (spk_addr ac + zx XFSBL_SPK_MOD_SIZE + zx XFSBL_SPK_MOD_EXT_SIZE) (partition_signature_addr ac)
     [Ext (Crypto (Sha3Update ac (XFSBL_AUTH_CERT_MIN_SIZE - XFSBL_FSBL_SIG_SIZE))) v2] b)"

text \<open>Hash \<open>i\<close> in the buffer \<open>H\<close> is a running hash that the engine gave during \<open>h\<close>.\<close>

definition kept_hash :: "world \<Rightarrow> io list \<Rightarrow> (nat \<Rightarrow> u8) \<Rightarrow> nat \<Rightarrow> io list \<Rightarrow> bool" where
  "kept_hash W h0 H i h \<longleftrightarrow> (\<exists>x v h1. h = x @ Ext (Crypto Sha3ReadHash) v # h1 \<and>
     (\<forall>k<48. H (48 * i + k) = ext_byte W (h1 @ h0) (Crypto Sha3ReadHash) k))"

text \<open>
  A transfer of a chunk that follows its comparison: the chunk in \<open>ReadBuffer\<close> was just hashed
  with the length that is transferred, and its running hash equals one that the engine had given
  before a signature of the block was verified, with a secondary key that was verified before.
\<close>

definition chunk_checked :: "world \<Rightarrow> io list \<Rightarrow> io \<Rightarrow> io list \<Rightarrow> bool" where
  "chunk_checked W h0 e h \<longleftrightarrow> (\<exists>w v1 Len v2 h2 v.
     e = Ext (Dma (CsuDmaTransfer (read_buffer_addr W) (Len div 4))) v \<and>
     h = Wr CSU_CSU_SSS_CFG w # Ext (Crypto Sha3ReadHash) v1 # Ext (Crypto (Sha3Update (read_buffer_addr W) Len)) v2 # h2 \<and>
     contains (pl_signature W (auth_buffer_addr W)) (\<lambda>h1. contains (spk_signature W (auth_buffer_addr W)) (\<lambda>_. True) h1 \<and>
       (\<exists>x v3 h3. h1 = x @ Ext (Crypto Sha3ReadHash) v3 # h3 \<and>
         (\<forall>k<48. ext_byte W (Ext (Crypto (Sha3Update (read_buffer_addr W) Len)) v2 # h2 @ h0) (Crypto Sha3ReadHash) k =
           ext_byte W (h3 @ h0) (Crypto Sha3ReadHash) k))) h2)"

definition is_transfer :: "io \<Rightarrow> bool" where
  "is_transfer e \<longleftrightarrow> (case e of Ext c v \<Rightarrow> (case c of Dma d \<Rightarrow>
     (case d of CsuDmaTransfer a n \<Rightarrow> True | CsuDmaTransferLast a n \<Rightarrow> True | _ \<Rightarrow> False) | _ \<Rightarrow> False) | _ \<Rightarrow> False)"

definition bitstream_checked :: "world \<Rightarrow> io list \<Rightarrow> fsbl \<Rightarrow> bool" where
  "bitstream_checked W h0 = since h0 (\<lambda>h. \<forall>later e earlier. h = later @ e # earlier \<longrightarrow> is_transfer e \<longrightarrow> chunk_checked W h0 e earlier)"

lemma bitstream_checked_start: "bitstream_checked W (trace s) s"
  by (simp add: bitstream_checked_def since_def)

lemma bitstream_checked_step:
  assumes "bitstream_checked W h0 s" and "is_transfer e \<Longrightarrow> \<exists>h. trace s = h @ h0 \<and> chunk_checked W h0 e h"
  shows "bitstream_checked W h0 (s\<lparr>trace := e # trace s\<rparr>)"
proof -
  from assms(1) obtain h where h: "trace s = h @ h0"
      "\<And>later e earlier. h = later @ e # earlier \<Longrightarrow> is_transfer e \<Longrightarrow> chunk_checked W h0 e earlier"
    by (auto simp: bitstream_checked_def since_def)
  have "chunk_checked W h0 d earlier" if "e # h = later @ d # earlier" "is_transfer d" for later d earlier
    using that h assms(2) by (cases later) auto
  then show ?thesis
    using h(1) by (auto simp: bitstream_checked_def since_def)
qed

text \<open>
  The operations without a transfer: an invariant that every other step respects, and that does
  not depend on the two buffers, is kept by them.
\<close>

locale quiet_closed = quiet_io I is_transfer for I :: "fsbl \<Rightarrow> bool" +
  assumes ReadBuffer_quiet: "I s \<Longrightarrow> I (s\<lparr>ReadBuffer := b\<rparr>)"
    and AuthBuffer_quiet: "I s \<Longrightarrow> I (s\<lparr>AuthBuffer := b\<rparr>)"
begin

lemma quiet_fill_buffer: "keeps E I (fill_buffer b n f)"
  by (cases b) (auto intro!: keeps_intro keeps_mod ReadBuffer_quiet AuthBuffer_quiet)

lemma quiet_CopyData: "keeps E I (XFsbl_CopyData W p b a n)"
  unfolding XFsbl_CopyData_def XFsbl_AdmaCopy_def
  by (intro keeps_intro quiet_keeps quiet_fill_buffer) (simp_all add: is_transfer_def)

lemma quiet_set_endian: "keeps E I (set_endian W e)"
  unfolding set_endian_def by (intro keeps_intro quiet_keeps) (simp_all add: is_transfer_def)

lemma quiet_rsa_verify: "keeps E I (rsa_verify W m x e g k l d f)"
  unfolding rsa_verify_def by (intro keeps_intro quiet_keeps) (simp_all add: is_transfer_def)

lemma quiet_SpkVer: "keeps E I (XFsbl_SpkVer W a l)"
  unfolding XFsbl_SpkVer_def SpkVer_hash_def SpkVer_revocation_def XFsbl_CsuDmaInit_def XFsbl_Sha3PadSelect_def
    XFsbl_ShaStart_def XFsbl_ShaUpdate_def XFsbl_ShaFinish_def Let_def
  by (intro keeps_intro quiet_keeps quiet_rsa_verify) (simp_all add: is_transfer_def)

lemma quiet_PcapWaitForDone: "keeps E I (XFsbl_PcapWaitForDone W)"
  unfolding XFsbl_PcapWaitForDone_def by (intro keeps_intro quiet_keeps)

end

lemma is_transfer_simps [simp]:
  "\<not> is_transfer (Rd a v)" "\<not> is_transfer (Wr a v)" "\<not> is_transfer (Ext (Crypto c) v)" "\<not> is_transfer (Ext (Bsp b) v)"
  "\<not> is_transfer (Ext (Dev d) v)" "is_transfer (Ext (Dma (CsuDmaTransfer src n)) v)"
  "\<not> is_transfer (Ext (Dma CsuDmaWaitForDone) v)" "\<not> is_transfer (Ext (Dma CsuDmaIntrClear) v)"
  by (simp_all add: is_transfer_def)

text \<open>The invariant of the loops: all transfers so far are checked, and something has happened before.\<close>

interpretation checked: quiet_closed "\<lambda>s. bitstream_checked W h0 s \<and> since h0 (contains B pre) s" for W h0 B pre
proof unfold_locales
  fix s e assume "bitstream_checked W h0 s \<and> since h0 (contains B pre) s" "\<not> is_transfer e"
  then show "bitstream_checked W h0 (s\<lparr>trace := e # trace s\<rparr>) \<and> since h0 (contains B pre) (s\<lparr>trace := e # trace s\<rparr>)"
    using bitstream_checked_step [of W h0 s e] happened.io_step [of h0 B pre s e] by blast
qed (auto simp: bitstream_checked_def since_def)

text \<open>After \<open>m\<close> chunks of the first reading.\<close>

definition read_once :: "world \<Rightarrow> io list \<Rightarrow> (nat \<Rightarrow> u8) \<Rightarrow> nat \<Rightarrow> io list \<Rightarrow> bool" where
  "read_once W h0 H m h \<longleftrightarrow> contains (spk_signature W (auth_buffer_addr W)) (\<lambda>_. True) h \<and> (\<forall>i<m. kept_hash W h0 H i h)"

abbreviation reading :: "world \<Rightarrow> io list \<Rightarrow> (nat \<Rightarrow> u8) \<Rightarrow> nat \<Rightarrow> fsbl \<Rightarrow> bool" where
  "reading W h0 H m s \<equiv> bitstream_checked W h0 s \<and> since h0 (contains (\<lambda>b. b = []) (read_once W h0 H m)) s"

lemma kept_hash_later: "kept_hash W h0 H i h \<Longrightarrow> kept_hash W h0 H i (x @ h)"
  by (auto simp: kept_hash_def) (metis append_assoc)

lemma contains_append: "contains B pre h \<Longrightarrow> contains B pre (x @ h)"
  by (auto simp: contains_def) (metis append_assoc)

lemma read_once_later: "contains (\<lambda>b. b = []) (read_once W h0 H m) h \<Longrightarrow> read_once W h0 H m h"
  by (auto simp: contains_def [of "\<lambda>b. b = []"] read_once_def intro: kept_hash_later contains_append)

lemma index_unat: "m \<le> unat (N :: u32) \<Longrightarrow> unat (of_nat m :: u32) = m"
proof -
  assume "m \<le> unat N"
  moreover have "unat N < 2 ^ LENGTH(32)" by (rule unsigned_less)
  ultimately show ?thesis by (simp add: unat_of_nat)
qed

lemma index_less: "m \<le> unat (N :: u32) \<Longrightarrow> (of_nat m < N) = (m < unat N)"
  by (simp add: word_less_nat_alt index_unat)

lemma PlSignVer_chunks_wp:
  assumes "reading W h0 H m s" and "m + n = unat N" and "AuthType (PlAuth p) = XFSBL_HASH_TYPE_SHA3"
    and "m < unat N \<Longrightarrow> off = 48 * m"
  shows "wp (PlSignVer_chunks W p A N n (of_nat m) L len off H)
    (\<lambda>(Status, H') t. bitstream_checked W h0 t \<and> (Status = XFSBL_SUCCESS \<longrightarrow> reading W h0 H' (unat N) t))
    (\<lambda>_ t. bitstream_checked W h0 t) s"
  using assms(1,2,4)
proof (induction n arbitrary: m L len off H s)
  case 0
  then show ?case by (simp add: wp_eq)
next
  case (Suc n)
  let ?len = "if of_nat m = N - 1 \<or> L < ChunkSize p then L else len"
  have m: "m < unat N" "Suc m \<le> unat N" "off = 48 * m" using Suc.prems by auto
  have sha: "unat XFSBL_HASH_TYPE_SHA3 = 48" by (simp add: hw)
  have next_index: "of_nat m + 1 = (of_nat (Suc m) :: u32)" by simp
  have less: "of_nat (Suc m) < N \<longleftrightarrow> Suc m < unat N" using m(2) by (rule index_less)
  show ?case
    unfolding PlSignVer_chunks.simps Let_def wp_bind
  proof (rule wp_mono [OF keepsD [OF checked.quiet_CopyData [where E = any_exit] Suc.prems(1)]])
    fix Status t assume t: "reading W h0 H m t"
    let ?u = "Ext (Crypto (Sha3Update (read_buffer_addr W) ?len)) (ext_ret W (trace t) (Crypto (Sha3Update (read_buffer_addr W) ?len)))"
    let ?d = "ext_byte W (?u # trace t) (Crypto Sha3ReadHash)"
    let ?r = "Ext (Crypto Sha3ReadHash) (ext_ret W (?u # trace t) (Crypto Sha3ReadHash))"
    let ?t = "t\<lparr>trace := ?r # ?u # trace t\<rparr>" and ?H = "overwrite H off 48 ?d"
    obtain h where h: "trace t = h @ h0" "read_once W h0 H m h"
      using t read_once_later by (auto simp: since_def)
    have new: "kept_hash W h0 ?H m (?r # ?u # h)"
      using h(1) m(3) by (auto simp: kept_hash_def overwrite_def intro!: exI [of _ "[]"])
    have old: "kept_hash W h0 ?H i (?r # ?u # h)" if "i < m" for i
    proof -
      have "kept_hash W h0 H i h" using h(2) that by (simp add: read_once_def)
      then have "kept_hash W h0 ?H i h" using that m(3) by (force simp: kept_hash_def overwrite_def)
      then show ?thesis using kept_hash_later [of W h0 ?H i h "[?r, ?u]"] by simp
    qed
    have "read_once W h0 ?H (Suc m) (?r # ?u # h)"
      using new old h(2) contains_append [of _ _ h "[?r, ?u]"] by (auto simp: read_once_def less_Suc_eq)
    then have "since h0 (contains (\<lambda>b. b = []) (read_once W h0 ?H (Suc m))) ?t"
      using h(1) by (auto simp: since_def intro: contains_now [of "\<lambda>b. b = []" "[]", simplified])
    moreover have "bitstream_checked W h0 ?t"
      using t bitstream_checked_step [of W h0 "t\<lparr>trace := ?u # trace t\<rparr>" ?r] bitstream_checked_step [of W h0 t ?u] by simp
    ultimately have step: "reading W h0 ?H (Suc m) ?t" by simp
    show "wp (if Status \<noteq> XFSBL_SUCCESS then retM (Status, H)
        else seqM (callM W (Crypto (Sha3Update (read_buffer_addr W) ?len)))
          (bindM (copyM W (Crypto Sha3ReadHash)) (\<lambda>(_, d).
            if of_nat m + 1 < N
            then PlSignVer_chunks W p A N n (of_nat m + 1) (L - ChunkSize p) ?len (off + unat (AuthType (PlAuth p)))
                   (overwrite H off (unat XFSBL_HASH_TYPE_SHA3) d)
            else PlSignVer_chunks W p A N n (of_nat m + 1) L ?len off (overwrite H off (unat XFSBL_HASH_TYPE_SHA3) d))))
        (\<lambda>(Status, H') t. bitstream_checked W h0 t \<and> (Status = XFSBL_SUCCESS \<longrightarrow> reading W h0 H' (unat N) t))
        (\<lambda>_ t. bitstream_checked W h0 t) t"
      using t Suc.IH [OF step] Suc.prems(2) m assms(3) sha
      by (auto simp: wp_eq next_index less simp del: of_nat_Suc)
  qed auto
qed

text \<open>The first reading of a block keeps the buffer of hashes in step with a verified signature.\<close>

definition block_signed :: "world \<Rightarrow> io list \<Rightarrow> (nat \<Rightarrow> u8) \<Rightarrow> nat \<Rightarrow> fsbl \<Rightarrow> bool" where
  "block_signed W h0 H m = since h0 (contains (pl_signature W (auth_buffer_addr W)) (read_once W h0 H m))"

lemma PlSignVer_finish_wp:
  assumes "reading W h0 H m s"
  shows "wp (PlSignVer_finish W (auth_buffer_addr W) XFSBL_HASH_TYPE_SHA3)
    (\<lambda>Status t. bitstream_checked W h0 t \<and> (Status = XFSBL_SUCCESS \<longrightarrow> block_signed W h0 H m t))
    (\<lambda>_ t. bitstream_checked W h0 t) s"
proof -
  let ?ac = "auth_buffer_addr W"
  let ?U = "\<lambda>us. \<exists>v2. us = [Ext (Crypto (Sha3Update ?ac (XFSBL_AUTH_CERT_MIN_SIZE - XFSBL_FSBL_SIG_SIZE))) v2]"
  have codes: "XFSBL_FAILURE \<noteq> XFSBL_SUCCESS" by (simp add: hw)
  have finish: "bindM (copyM W (Crypto Sha3Finish)) (\<lambda>(Status, k). f k) = bindM (XFsbl_ShaFinish W XFSBL_HASH_TYPE_SHA3) f"
    for f :: "_ \<Rightarrow> u32 prog"
    by (rule ext) (simp add: XFsbl_ShaFinish_def bindM_def retM_def split: option.splits res.splits prod.splits)
  have quiet: "keeps any_exit (reading W h0 H m) (PlSignVer_finish W ?ac XFSBL_HASH_TYPE_SHA3)"
    unfolding PlSignVer_finish_def by (intro keeps_intro checked.quiet_keeps checked.quiet_rsa_verify) simp_all
  have start: "since h0 (read_once W h0 H m) s"
    using assms read_once_later by (auto simp: since_def)
  have "wp (PlSignVer_finish W ?ac XFSBL_HASH_TYPE_SHA3) (\<lambda>Status t. Status = XFSBL_SUCCESS \<longrightarrow> block_signed W h0 H m t) (\<lambda>_ _. True) s"
    unfolding PlSignVer_finish_def finish wp_seq block_signed_def
    by (auto simp: wp_eq pl_signature_def simp del: wp_bind intro!: finish_verify [where U = ?U, OF _ start] signature_codes codes)
  from wp_conj [OF this keepsD [OF quiet assms]] show ?thesis
    by (rule wp_mono) auto
qed

lemma PlSignVer_wp:
  assumes "bitstream_checked W h0 s" and "since h0 (contains (spk_signature W (auth_buffer_addr W)) (\<lambda>_. True)) s"
    and "AuthType (PlAuth p) = XFSBL_HASH_TYPE_SHA3"
  shows "wp (XFsbl_PlSignVer W p A L (auth_buffer_addr W) N)
    (\<lambda>(Status, p') t. bitstream_checked W h0 t \<and> IsEncrypted p' = IsEncrypted p \<and> AuthType (PlAuth p') = AuthType (PlAuth p) \<and>
      (Status = XFSBL_SUCCESS \<longrightarrow> block_signed W h0 (HashsOfChunks (PlAuth p')) (unat N) t))
    (\<lambda>_ t. bitstream_checked W h0 t) s"
proof -
  let ?ac = "auth_buffer_addr W" and ?H = "HashsOfChunks (PlAuth p)"
  obtain h where h: "trace s = h @ h0" "contains (spk_signature W ?ac) (\<lambda>_. True) h"
    using assms(2) by (auto simp: since_def)
  then have "since h0 (contains (\<lambda>b. b = []) (read_once W h0 ?H 0)) s"
    using contains_now [of "\<lambda>b. b = []" "[]" "read_once W h0 ?H 0" h] by (auto simp: since_def read_once_def)
  with assms(1) have start: "reading W h0 ?H 0 s" by simp
  have init: "keeps any_exit (reading W h0 ?H 0) (whenM (AuthType (PlAuth p) = XFSBL_HASH_TYPE_SHA3)
        (seqsM [set_endian W 0, callM W (Crypto Sha3Initialize), callM W (Crypto Sha3Start)]))"
    by (intro keeps_intro checked.quiet_set_endian checked.quiet_call) simp_all
  show ?thesis
    unfolding XFsbl_PlSignVer_def wp_seq wp_bind
  proof (rule wp_mono [OF keepsD [OF init start]])
    fix u t assume t: "reading W h0 ?H 0 t"
    from PlSignVer_chunks_wp [OF t, of "unat N" N p 0 A L "ChunkSize p"] assms(3)
    have chunks: "wp (PlSignVer_chunks W p A N (unat N) 0 L (ChunkSize p) 0 ?H)
      (\<lambda>(Status, H') t. bitstream_checked W h0 t \<and> (Status = XFSBL_SUCCESS \<longrightarrow> reading W h0 H' (unat N) t))
      (\<lambda>_ t. bitstream_checked W h0 t) t" by simp
    then show "wp (PlSignVer_chunks W p A N (unat N) 0 L (ChunkSize p) 0 ?H)
      (\<lambda>x. wp (case x of (Status, H) \<Rightarrow>
          let p = p\<lparr>PlAuth := (PlAuth p)\<lparr>HashsOfChunks := H\<rparr>\<rparr>
          in if Status \<noteq> XFSBL_SUCCESS then retM (Status, p)
             else bindM (PlSignVer_finish W ?ac (AuthType (PlAuth p))) (\<lambda>Status. retM (Status, p)))
        (\<lambda>(Status, p') t. bitstream_checked W h0 t \<and> IsEncrypted p' = IsEncrypted p \<and> AuthType (PlAuth p') = AuthType (PlAuth p) \<and>
          (Status = XFSBL_SUCCESS \<longrightarrow> block_signed W h0 (HashsOfChunks (PlAuth p')) (unat N) t))
        (\<lambda>_ t. bitstream_checked W h0 t))
      (\<lambda>_ t. bitstream_checked W h0 t) t"
      by (rule wp_mono) (auto simp: wp_ret wp_bind Let_def assms(3) intro!: wp_mono [OF PlSignVer_finish_wp])
  qed auto
qed

text \<open>The second reading: every chunk is compared before it is passed on.\<close>

lemma ReAuth_transfer_wp:
  assumes "bitstream_checked W h0 s" and "block_signed W h0 H m s" and "\<not> IsEncrypted p"
    and "trace s = Ext (Crypto Sha3ReadHash) v1 # Ext (Crypto (Sha3Update (read_buffer_addr W) len)) v2 # t0"
    and "since h0 (contains (pl_signature W (auth_buffer_addr W)) (read_once W h0 H m)) (s\<lparr>trace := t0\<rparr>)" and "i < m"
    and "\<And>k. k < 48 \<Longrightarrow> ext_byte W (Ext (Crypto (Sha3Update (read_buffer_addr W) len)) v2 # t0) (Crypto Sha3ReadHash) k = H (48 * i + k)"
  shows "wp (ReAuth_transfer W p len)
    (\<lambda>(Status, p') t. p' = p \<and> bitstream_checked W h0 t \<and> block_signed W h0 H m t) (\<lambda>_ t. bitstream_checked W h0 t) s"
proof -
  let ?a = "read_buffer_addr W"
  let ?w = "Wr CSU_CSU_SSS_CFG (push_bit (unat CSU_CSU_SSS_CFG_PCAP_SSS_SHIFT) XFSBL_CSU_SSS_SRC_SRC_DMA)"
  let ?s1 = "s\<lparr>trace := ?w # trace s\<rparr>"
  let ?e = "Ext (Dma (CsuDmaTransfer ?a (len div 4))) (ext_ret W (trace ?s1) (Dma (CsuDmaTransfer ?a (len div 4))))"
  obtain h2 where h2: "t0 = h2 @ h0" "contains (pl_signature W (auth_buffer_addr W)) (read_once W h0 H m) h2"
    using assms(5) by (auto simp: since_def)
  have "contains (pl_signature W (auth_buffer_addr W)) (\<lambda>h1. contains (spk_signature W (auth_buffer_addr W)) (\<lambda>_. True) h1 \<and>
       (\<exists>x v3 h3. h1 = x @ Ext (Crypto Sha3ReadHash) v3 # h3 \<and>
         (\<forall>k<48. ext_byte W (Ext (Crypto (Sha3Update ?a len)) v2 # h2 @ h0) (Crypto Sha3ReadHash) k =
           ext_byte W (h3 @ h0) (Crypto Sha3ReadHash) k))) h2"
  proof (rule contains_mono [OF h2(2)])
    fix h1 assume "read_once W h0 H m h1"
    then have "contains (spk_signature W (auth_buffer_addr W)) (\<lambda>_. True) h1" "kept_hash W h0 H i h1"
      using assms(6) by (simp_all add: read_once_def)
    then show "contains (spk_signature W (auth_buffer_addr W)) (\<lambda>_. True) h1 \<and>
       (\<exists>x v3 h3. h1 = x @ Ext (Crypto Sha3ReadHash) v3 # h3 \<and>
         (\<forall>k<48. ext_byte W (Ext (Crypto (Sha3Update ?a len)) v2 # h2 @ h0) (Crypto Sha3ReadHash) k =
           ext_byte W (h3 @ h0) (Crypto Sha3ReadHash) k))"
      using assms(7) h2(1) by (fastforce simp: kept_hash_def)
  qed
  then have "chunk_checked W h0 ?e (?w # Ext (Crypto Sha3ReadHash) v1 # Ext (Crypto (Sha3Update ?a len)) v2 # h2)"
    unfolding chunk_checked_def by blast
  moreover have "trace ?s1 = (?w # Ext (Crypto Sha3ReadHash) v1 # Ext (Crypto (Sha3Update ?a len)) v2 # h2) @ h0"
    using assms(4) h2(1) by simp
  ultimately have "bitstream_checked W h0 (?s1\<lparr>trace := ?e # trace ?s1\<rparr>)"
    using bitstream_checked_step [of W h0 ?s1 ?e] bitstream_checked_step [of W h0 s ?w] assms(1) by auto
  moreover have "block_signed W h0 H m (?s1\<lparr>trace := ?e # trace ?s1\<rparr>)"
    using assms(2) happened.io_step [of h0 _ _ ?s1 ?e] happened.io_step [of h0 _ _ s ?w] by (simp add: block_signed_def)
  ultimately have sent: "bitstream_checked W h0 (?s1\<lparr>trace := ?e # trace ?s1\<rparr>) \<and>
      since h0 (contains (pl_signature W (auth_buffer_addr W)) (read_once W h0 H m)) (?s1\<lparr>trace := ?e # trace ?s1\<rparr>)"
    by (simp add: block_signed_def)
  have rest: "keeps any_exit (\<lambda>s. bitstream_checked W h0 s \<and>
        since h0 (contains (pl_signature W (auth_buffer_addr W)) (read_once W h0 H m)) s)
      (seqM (seqsM [callM W (Dma CsuDmaWaitForDone), callM W (Dma CsuDmaIntrClear)]) (XFsbl_PcapWaitForDone W))"
    by (intro keeps_intro checked.quiet_call checked.quiet_PcapWaitForDone) simp_all
  from keepsD [OF rest sent] show ?thesis
    using assms(3)
    by (auto simp: ReAuth_transfer_def XFsbl_DmaPlCopy_def block_signed_def wp_bind wp_seq wp_ret wp_eq elim!: wp_mono)
qed

lemma ReAuth_chunks_wp:
  assumes "bitstream_checked W h0 s" and "block_signed W h0 (HashsOfChunks (PlAuth p)) (unat N) s" and "\<not> IsEncrypted p"
    and "AuthType (PlAuth p) = XFSBL_HASH_TYPE_SHA3" and "m + n = unat N" and "m < unat N \<Longrightarrow> off = 48 * m"
  shows "wp (ReAuth_chunks W A N n p (of_nat m) L len off)
    (\<lambda>(Status, p') t. bitstream_checked W h0 t \<and> p' = p) (\<lambda>_ t. bitstream_checked W h0 t) s"
  using assms(1,2,5,6)
proof (induction n arbitrary: m L len off s)
  case 0
  then show ?case by (simp add: wp_eq)
next
  case (Suc n)
  let ?len = "if of_nat m = N - 1 then L else len" and ?H = "HashsOfChunks (PlAuth p)" and ?a = "read_buffer_addr W"
  have m: "m < unat N" "Suc m \<le> unat N" "off = 48 * m" using Suc.prems by auto
  have sha: "unat XFSBL_HASH_TYPE_SHA3 = 48" by (simp add: hw)
  have next_index: "of_nat m + 1 = (of_nat (Suc m) :: u32)" by simp
  have "unat (N - 1) = unat N - 1" using m(1) by (intro unat_minus_one) auto
  then have le: "of_nat (Suc m) \<le> N - 1 \<longleftrightarrow> Suc m < unat N"
    using m(2) by (simp add: word_le_nat_alt index_unat [OF m(2)] del: of_nat_Suc) linarith
  have start: "bitstream_checked W h0 s \<and> since h0 (contains (pl_signature W (auth_buffer_addr W)) (read_once W h0 ?H (unat N))) s"
    using Suc.prems(1,2) by (simp add: block_signed_def)
  show ?case
    unfolding ReAuth_chunks.simps Let_def wp_bind
  proof (rule wp_mono [OF keepsD [OF checked.quiet_CopyData [where E = any_exit] start]])
    fix Status t assume t: "bitstream_checked W h0 t \<and> since h0 (contains (pl_signature W (auth_buffer_addr W)) (read_once W h0 ?H (unat N))) t"
    let ?v2 = "ext_ret W (trace t) (Crypto (Sha3Update ?a ?len))"
    let ?u = "Ext (Crypto (Sha3Update ?a ?len)) ?v2"
    let ?d = "ext_byte W (?u # trace t) (Crypto Sha3ReadHash)"
    let ?v1 = "ext_ret W (?u # trace t) (Crypto Sha3ReadHash)"
    let ?t = "t\<lparr>trace := Ext (Crypto Sha3ReadHash) ?v1 # ?u # trace t\<rparr>"
    have checked: "bitstream_checked W h0 ?t"
      using t bitstream_checked_step [of W h0 "t\<lparr>trace := ?u # trace t\<rparr>" "Ext (Crypto Sha3ReadHash) ?v1"] bitstream_checked_step [of W h0 t ?u]
      by simp
    have signed: "block_signed W h0 ?H (unat N) ?t"
      using t happened.io_step [of h0 _ _ "t\<lparr>trace := ?u # trace t\<rparr>" "Ext (Crypto Sha3ReadHash) ?v1"] happened.io_step [of h0 _ _ t ?u]
      by (simp add: block_signed_def)
    have transfer: "wp (ReAuth_transfer W p ?len) (\<lambda>(Status, p') t. p' = p \<and> bitstream_checked W h0 t \<and> block_signed W h0 ?H (unat N) t)
        (\<lambda>_ t. bitstream_checked W h0 t) ?t"
      if "XFsbl_CompareHashs (\<lambda>i. le32 ?H (off + 4 * i)) (\<lambda>i. le32 ?d (4 * i)) (AuthType (PlAuth p)) = XFSBL_SUCCESS"
    proof (rule ReAuth_transfer_wp [OF checked signed assms(3), where i = m])
      show "ext_byte W (?u # trace t) (Crypto Sha3ReadHash) k = ?H (48 * m + k)" if "k < 48" for k
        using CompareHashs_bytes [of ?H off ?d k] \<open>XFsbl_CompareHashs _ _ _ = _\<close> that assms(4) m(3) by simp
    qed (use t m(1) in simp_all)
    show "wp (if Status \<noteq> XFSBL_SUCCESS then retM (Status, p)
        else seqM (callM W (Crypto (Sha3Update ?a ?len)))
          (bindM (copyM W (Crypto Sha3ReadHash)) (\<lambda>(_, d).
            if XFsbl_CompareHashs (\<lambda>i. le32 ?H (off + 4 * i)) (\<lambda>i. le32 d (4 * i)) (AuthType (PlAuth p)) \<noteq> XFSBL_SUCCESS
            then retM (XFSBL_ERROR_CHUNK_HASH_COMPARISON, p)
            else bindM (ReAuth_transfer W p ?len) (\<lambda>(Status, p).
              if Status \<noteq> XFSBL_SUCCESS then retM (Status, p)
              else ReAuth_chunks W A N n p (of_nat m + 1) (L - ChunkSize p) ?len
                     (if of_nat m + 1 \<le> N - 1 then off + unat (AuthType (PlAuth p)) else off)))))
        (\<lambda>(Status, p') t. bitstream_checked W h0 t \<and> p' = p) (\<lambda>_ t. bitstream_checked W h0 t) t"
    proof (cases "Status = XFSBL_SUCCESS \<and>
        XFsbl_CompareHashs (\<lambda>i. le32 ?H (off + 4 * i)) (\<lambda>i. le32 ?d (4 * i)) (AuthType (PlAuth p)) = XFSBL_SUCCESS")
      case True
      have more: "wp (ReAuth_chunks W A N n p (of_nat m + 1) (L - ChunkSize p) ?len
            (if of_nat m + 1 \<le> N - 1 then off + unat (AuthType (PlAuth p)) else off))
          (\<lambda>(Status, p') t. bitstream_checked W h0 t \<and> p' = p) (\<lambda>_ t. bitstream_checked W h0 t) t'"
        if "bitstream_checked W h0 t'" "block_signed W h0 ?H (unat N) t'" for t'
        unfolding next_index using that Suc.prems(3) m(3) assms(4)
        by (intro Suc.IH) (simp_all add: le sha del: of_nat_Suc)
      have "wp (bindM (ReAuth_transfer W p ?len) (\<lambda>(Status, p).
              if Status \<noteq> XFSBL_SUCCESS then retM (Status, p)
              else ReAuth_chunks W A N n p (of_nat m + 1) (L - ChunkSize p) ?len
                     (if of_nat m + 1 \<le> N - 1 then off + unat (AuthType (PlAuth p)) else off)))
          (\<lambda>(Status, p') t. bitstream_checked W h0 t \<and> p' = p) (\<lambda>_ t. bitstream_checked W h0 t) ?t"
        unfolding wp_bind using conjunct2 [OF True]
        by (intro wp_mono [OF transfer]) (use more in \<open>auto simp: wp_ret\<close>)
      with True show ?thesis by (simp add: wp_eq)
    next
      case False
      with t checked show ?thesis by (auto simp: wp_eq)
    qed
  qed auto
qed

lemma PlBlockAuthentication_wp:
  assumes "bitstream_checked W h0 s" and "\<not> IsEncrypted p" and "AuthType (PlAuth p) = XFSBL_HASH_TYPE_SHA3"
  shows "wp (XFsbl_PlBlockAuthentication W p A L (auth_buffer_addr W))
    (\<lambda>(Status, p') t. bitstream_checked W h0 t \<and> \<not> IsEncrypted p' \<and> AuthType (PlAuth p') = XFSBL_HASH_TYPE_SHA3)
    (\<lambda>_ t. bitstream_checked W h0 t) s"
proof -
  let ?ac = "auth_buffer_addr W" and ?N = "pl_chunks p L"
  have start: "bitstream_checked W h0 s \<and> since h0 (contains (\<lambda>b. b = []) (\<lambda>_. True)) s"
    using assms(1) contains_any by (auto simp: bitstream_checked_def since_def)
  have "wp (XFsbl_SpkVer W ?ac XFSBL_HASH_TYPE_SHA3)
     (\<lambda>x t. x = XFSBL_SUCCESS \<longrightarrow> since h0 (contains (spk_signature W ?ac) (contains (\<lambda>b. b = []) (\<lambda>_. True))) t) (\<lambda>_ _. True) s"
    using SpkVer_establishes [of h0 "\<lambda>b. b = []" "\<lambda>_. True" W ?ac] start by (simp add: establishes_def)
  from wp_conj [OF this keepsD [OF checked.quiet_SpkVer [where E = any_exit] start]]
  have spk: "wp (XFsbl_SpkVer W ?ac (AuthType (PlAuth p)))
     (\<lambda>x t. bitstream_checked W h0 t \<and> (x = XFSBL_SUCCESS \<longrightarrow> since h0 (contains (spk_signature W ?ac) (\<lambda>_. True)) t))
     (\<lambda>_ t. bitstream_checked W h0 t) s"
    unfolding assms(3) by (rule wp_mono) (auto elim: since_mono intro: contains_mono)
  have again: "wp (XFsbl_ReAuthenticationBlock W p' A L ?N)
      (\<lambda>(Status, p'') t. bitstream_checked W h0 t \<and> \<not> IsEncrypted p'' \<and> AuthType (PlAuth p'') = XFSBL_HASH_TYPE_SHA3)
      (\<lambda>_ t. bitstream_checked W h0 t) t"
    if "bitstream_checked W h0 t" "block_signed W h0 (HashsOfChunks (PlAuth p')) (unat ?N) t" "\<not> IsEncrypted p'"
      "AuthType (PlAuth p') = XFSBL_HASH_TYPE_SHA3" for p' t
  proof -
    have "wp (ReAuth_chunks W A ?N (unat ?N) p' 0 L (ChunkSize p') 0) (\<lambda>(Status, p'') t. bitstream_checked W h0 t \<and> p'' = p')
        (\<lambda>_ t. bitstream_checked W h0 t) t'"
      if "bitstream_checked W h0 t'" "block_signed W h0 (HashsOfChunks (PlAuth p')) (unat ?N) t'" for t'
      using ReAuth_chunks_wp [OF that \<open>\<not> IsEncrypted p'\<close> \<open>AuthType (PlAuth p') = _\<close>, of 0 "unat ?N" 0 A L "ChunkSize p'"] by simp
    from this [THEN wp_mono] that(3,4) have chunks: "wp (ReAuth_chunks W A ?N (unat ?N) p' 0 L (ChunkSize p') 0)
        (\<lambda>(Status, p'') t. bitstream_checked W h0 t \<and> \<not> IsEncrypted p'' \<and> AuthType (PlAuth p'') = XFSBL_HASH_TYPE_SHA3)
        (\<lambda>_ t. bitstream_checked W h0 t) t'"
      if "bitstream_checked W h0 t'" "block_signed W h0 (HashsOfChunks (PlAuth p')) (unat ?N) t'" for t'
      using that by fastforce
    have step: "bitstream_checked W h0 (t\<lparr>trace := Ext (Crypto c) v # trace t\<rparr>) \<and>
        block_signed W h0 (HashsOfChunks (PlAuth p')) (unat ?N) (t\<lparr>trace := Ext (Crypto c) v # trace t\<rparr>)"
      if "bitstream_checked W h0 t" "block_signed W h0 (HashsOfChunks (PlAuth p')) (unat ?N) t" for t c v
      using that bitstream_checked_step [of W h0 t "Ext (Crypto c) v"] happened.io_step [of h0 _ _ t "Ext (Crypto c) v"]
      by (simp add: block_signed_def)
    have one: "bitstream_checked W h0 (t\<lparr>trace := Ext (Crypto c) v # trace t\<rparr>)" for c v
      using step [OF that(1,2)] by blast
    have two: "bitstream_checked W h0 (t\<lparr>trace := Ext (Crypto d) w # Ext (Crypto c) v # trace t\<rparr>) \<and>
        block_signed W h0 (HashsOfChunks (PlAuth p')) (unat ?N) (t\<lparr>trace := Ext (Crypto d) w # Ext (Crypto c) v # trace t\<rparr>)" for c v d w
      using step [of "t\<lparr>trace := Ext (Crypto c) v # trace t\<rparr>" d w] step [OF that(1,2), of c v] by simp
    show ?thesis
      using chunks one two that(3,4) by (simp add: XFsbl_ReAuthenticationBlock_def wp_eq)
  qed
  have sign: "wp (XFsbl_PlSignVer W p A L ?ac ?N)
      (\<lambda>x. wp (case x of (Status, p) \<Rightarrow> if Status \<noteq> XFSBL_SUCCESS then retM (Status, p) else XFsbl_ReAuthenticationBlock W p A L ?N)
        (\<lambda>(Status, p') t. bitstream_checked W h0 t \<and> \<not> IsEncrypted p' \<and> AuthType (PlAuth p') = XFSBL_HASH_TYPE_SHA3)
        (\<lambda>_ t. bitstream_checked W h0 t))
      (\<lambda>_ t. bitstream_checked W h0 t) t"
    if "bitstream_checked W h0 t" "since h0 (contains (spk_signature W ?ac) (\<lambda>_. True)) t" for t
    by (rule wp_mono [OF PlSignVer_wp [OF that assms(3)]]) (use assms(2,3) again in \<open>auto simp: wp_ret\<close>)
  show ?thesis
  proof (cases "?N > NoOfHashs (PlAuth p)")
    case True
    with assms show ?thesis by (simp add: XFsbl_PlBlockAuthentication_def Let_def wp_ret)
  next
    case False
    show ?thesis
      unfolding XFsbl_PlBlockAuthentication_def Let_def if_not_P [OF False] wp_bind
      by (rule wp_mono [OF spk]) (use assms sign in \<open>auto simp: wp_ret wp_bind\<close>)
  qed
qed

text \<open>All blocks: the steps around them make no transfer.\<close>

abbreviation plain_SHA3 :: "XFsblPs_PlPartition \<Rightarrow> bool" where
  "plain_SHA3 p \<equiv> \<not> IsEncrypted p \<and> AuthType (PlAuth p) = XFSBL_HASH_TYPE_SHA3"

interpretation still_checked: quiet_closed "bitstream_checked W h0" for W h0
proof unfold_locales
  show "bitstream_checked W h0 (s\<lparr>trace := e # trace s\<rparr>)" if "bitstream_checked W h0 s" "\<not> is_transfer e" for s e
    using that by (auto intro: bitstream_checked_step)
qed (auto simp: bitstream_checked_def since_def)

lemma SecPl_turn_wp:
  assumes "bitstream_checked W h0 s" and "plain_SHA3 p"
  shows "wp (SecPl_turn W (p, i, a, c))
    (\<lambda>z t. case z of Inl y \<Rightarrow> bitstream_checked W h0 t | Inr (p', x) \<Rightarrow> bitstream_checked W h0 t \<and> plain_SHA3 p')
    (\<lambda>_ t. bitstream_checked W h0 t) s"
proof -
  have block: "wp (bindM (XFsbl_PlBlockAuthentication W p a L (auth_buffer_addr W)) (\<lambda>(Status, p).
        if Status \<noteq> XFSBL_SUCCESS then retM (Inl (Status, False))
        else if last then retM (Inl (Status, True))
        else retM (Inr (p, i + 1, a + zx (BlockSize (PlAuth p)), c + zx XFSBL_AUTH_CERT_MIN_SIZE))))
      (\<lambda>z t. case z of Inl y \<Rightarrow> bitstream_checked W h0 t | Inr (p', x) \<Rightarrow> bitstream_checked W h0 t \<and> plain_SHA3 p')
      (\<lambda>_ t. bitstream_checked W h0 t) t" if "bitstream_checked W h0 t" for t L last
    unfolding wp_bind
    by (rule wp_mono [OF PlBlockAuthentication_wp [OF that]]) (use assms(2) in \<open>auto simp: wp_ret\<close>)
  show ?thesis
    unfolding SecPl_turn_def Let_def prod.case
    using assms(1) block
    by (auto simp: wp_ret wp_bind [of "XFsbl_CopyData W p b x n" for b x n] split: if_splits
        intro!: wp_mono [OF keepsD [OF still_checked.quiet_CopyData [where E = any_exit] assms(1)]])
qed

lemma SecPlPartition_wp:
  assumes "bitstream_checked W h0 s" and "plain_SHA3 p"
  shows "wp (XFsbl_SecPlPartition W p) (\<lambda>_ t. bitstream_checked W h0 t) (\<lambda>_ t. bitstream_checked W h0 t) s"
proof -
  have loop: "wp (iterM (SecPl_turn W) (p, x)) (\<lambda>_ t. bitstream_checked W h0 t) (\<lambda>_ t. bitstream_checked W h0 t) t"
    if "bitstream_checked W h0 t" for x t
    by (rule iterM_wp [where I = "\<lambda>(p, x) t. bitstream_checked W h0 t \<and> plain_SHA3 p"])
      (use that assms(2) in \<open>auto intro!: wp_mono [OF SecPl_turn_wp] split: sum.splits\<close>)
  then have "keeps any_exit (bitstream_checked W h0) (iterM (SecPl_turn W) (p, x))" for x
    by (simp add: keeps_def)
  then have "keeps any_exit (bitstream_checked W h0) (XFsbl_SecPlPartition W p)"
    unfolding XFsbl_SecPlPartition_def SecPl_restore_def Let_def
    using assms(2) by (auto intro!: keeps_intro still_checked.quiet_keeps)
  from keepsD [OF this assms(1)] show ?thesis by simp
qed

section \<open>The loops come to an end\<close>

text \<open>What the operations leave alone: where the certificates are and how long a block is.\<close>

definition same_blocks :: "XFsblPs_PlPartition \<Rightarrow> XFsblPs_PlPartition \<Rightarrow> bool" where
  "same_blocks p p' \<longleftrightarrow> AcOfset (PlAuth p') = AcOfset (PlAuth p) \<and> BlockSize (PlAuth p') = BlockSize (PlAuth p)"

abbreviation blocks_kept :: "XFsblPs_PlPartition \<Rightarrow> (u32 \<times> XFsblPs_PlPartition) prog \<Rightarrow> bool" where
  "blocks_kept p m \<equiv> answers (\<lambda>(Status, p') t. same_blocks p p') m"

lemma same_blocks_simps [simp]:
  "same_blocks p p" "same_blocks p (set_SizeofData n q) = same_blocks p q" "same_blocks p (set_key_KUP q) = same_blocks p q"
  "same_blocks (set_key_KUP p) q = same_blocks p q" "same_blocks (p\<lparr>PlEncrypt := e\<rparr>) q = same_blocks p q"
  "same_blocks (p\<lparr>Hdr := h\<rparr>) q = same_blocks p q"
  "same_blocks p (q\<lparr>PlEncrypt := e\<rparr>) = same_blocks p q" "same_blocks p (q\<lparr>Hdr := h\<rparr>) = same_blocks p q"
  by (simp_all add: same_blocks_def set_SizeofData_def set_key_KUP_def)

lemma same_blocks_trans: "same_blocks p q \<Longrightarrow> same_blocks q r \<Longrightarrow> same_blocks p r"
  by (simp add: same_blocks_def)

lemma blocks_kept_SetUpNextBlk: "blocks_kept p (XFsbl_DecrptSetUpNextBlk W p)"
  unfolding XFsbl_DecrptSetUpNextBlk_def Let_def by (intro answers_intro) simp

lemma answers_bind_known: "answers R m \<Longrightarrow> (\<And>x s. R x s \<Longrightarrow> answers Q (f x)) \<Longrightarrow> answers Q (bindM m f)"
  by (erule answers_bind_after) (auto simp: answers_def)

lemma blocks_kept_after:
  "blocks_kept p m \<Longrightarrow> (\<And>Status q. same_blocks p q \<Longrightarrow> answers Q (k Status q)) \<Longrightarrow> answers Q (bindM m (\<lambda>(Status, q). k Status q))"
  by (erule answers_bind_known) (auto simp: answers_def)

text \<open>
  A turn of the decryption: when it goes on, a block has been set up and the rest of the chunk is
  shorter, unless the turn was the first one with no block set up.
\<close>

definition decrypt_left :: "XFsblPs_PlPartition \<times> u64 \<times> u32 \<times> u64 \<Rightarrow> nat" where
  "decrypt_left x = (case x of (p, SrcAddr, Size, NextBlkAddr) \<Rightarrow>
     (if SizeofData (pl_aes p) = 0 then 2 ^ 32 else 0) + unat Size)"

lemma SizeofData_set [simp]: "SizeofData (pl_aes (set_SizeofData n p)) = n"
  by (simp add: set_SizeofData_def pl_aes_def)

lemma SizeofData_Hdr [simp]: "pl_aes (p\<lparr>Hdr := n\<rparr>) = pl_aes p"
  by (simp add: pl_aes_def)

lemma DecrptPl_send_answers:
  "answers (\<lambda>(p', SrcAddr', Size') t. same_blocks p p' \<and> (Size' \<noteq> 0 \<longrightarrow> SizeofData (pl_aes p') = 0 \<and>
     Size' \<le> Size \<and> (SizeofData (pl_aes p) \<noteq> 0 \<longrightarrow> Size' < Size \<and> XFSBL_AES_TAG_SIZE W \<le> Size')))
   (DecrptPl_send W p SrcAddr Size)"
proof -
  have less: "Size - n < Size" "Size - n \<noteq> 0" if "n \<noteq> 0" "\<not> Size \<le> n" for n :: u32
    using that unat_sub [of n Size] unat_gt_0 [of n] by (auto simp: word_less_nat_alt word_le_nat_alt)
  show ?thesis
    unfolding DecrptPl_send_def Let_def
    by (intro answers_intro) (use less in \<open>auto simp: not_less less_imp_le\<close>)
qed

lemma DecrptPl_send_bind:
  assumes "\<And>p' a n. same_blocks p p' \<Longrightarrow> (n \<noteq> 0 \<Longrightarrow> SizeofData (pl_aes p') = 0) \<Longrightarrow> n \<le> Size \<Longrightarrow>
     (n \<noteq> 0 \<Longrightarrow> SizeofData (pl_aes p) \<noteq> 0 \<Longrightarrow> n < Size \<and> XFSBL_AES_TAG_SIZE W \<le> n) \<Longrightarrow> answers Q (f p' a n)"
  shows "answers Q (bindM (DecrptPl_send W p SrcAddr Size) (\<lambda>(p', a, n). f p' a n))"
  by (rule answers_bind_known [OF DecrptPl_send_answers]) (use assms in \<open>auto split: prod.splits\<close>)

lemma DecrptPl_turn_answers:
  "answers (\<lambda>z t. case z of Inl (Status, p') \<Rightarrow> same_blocks p p' | Inr x' \<Rightarrow> same_blocks p (fst x') \<and>
     decrypt_left x' < decrypt_left (p, SrcAddr, Size, NextBlkAddr)) (DecrptPl_turn W (p, SrcAddr, Size, NextBlkAddr))"
proof -
  have small: "unat (n :: u32) < 4294967296 + k" for n k using unsigned_less [of n, where 'a = nat] by simp
  have less: "unat (Size' - XFSBL_AES_TAG_SIZE W) < unat Size"
    if "Size' < Size" "XFSBL_AES_TAG_SIZE W \<le> Size'" for Size'
    using that unat_sub [of "XFSBL_AES_TAG_SIZE W" Size'] by (simp add: word_less_nat_alt word_le_nat_alt)
  show ?thesis
    unfolding DecrptPl_turn_def prod.case Let_def
    by (intro answers_seq answers_if answers_ret DecrptPl_send_bind blocks_kept_after [OF blocks_kept_SetUpNextBlk]
          answers_bind [of _ _ "XFsbl_PcapWaitForDone W"] answers_bind [of _ _ "XFsbl_DecrypSecureHdr W a" for a])
      (use less in \<open>auto simp: decrypt_left_def elim: same_blocks_trans intro: small\<close>)
qed

lemma blocks_kept_DecrptPl: "blocks_kept p (XFsbl_DecrptPl W p a n)"
proof -
  have "wp (XFsbl_DecrptPl W p a n) (\<lambda>(Status, p') t. same_blocks p p') (\<lambda>_ _. True) s" for s
    unfolding XFsbl_DecrptPl_def
  proof (rule iterM_wp [where I = "\<lambda>x s. same_blocks p (fst x)"])
    fix x :: "XFsblPs_PlPartition \<times> u64 \<times> u32 \<times> u64" and s assume "same_blocks p (fst x)"
    obtain q b m c where x: "x = (q, b, m, c)" by (cases x)
    have "wp (DecrptPl_turn W x) (\<lambda>z t. case z of Inl (Status, p') \<Rightarrow> same_blocks (fst x) p'
        | Inr x' \<Rightarrow> same_blocks (fst x) (fst x') \<and> decrypt_left x' < decrypt_left x) (\<lambda>_ _. True) s"
      unfolding x fst_conv using DecrptPl_turn_answers [of q b m c W] by (simp add: answers_def)
    then show "wp (DecrptPl_turn W x) (\<lambda>z t. case z of Inl y \<Rightarrow> (\<lambda>(Status, p') t. same_blocks p p') y t
        | Inr x' \<Rightarrow> same_blocks p (fst x')) (\<lambda>_ _. True) s"
      by (rule wp_mono) (use \<open>same_blocks p (fst x)\<close> in \<open>auto split: sum.splits elim: same_blocks_trans\<close>)
  qed simp
  then show ?thesis by (simp add: answers_def)
qed

lemma blocks_kept_DecrptPl_from: "same_blocks p q \<Longrightarrow> blocks_kept p (XFsbl_DecrptPl W q a n)"
  by (rule answers_mono [OF blocks_kept_DecrptPl]) (auto elim: same_blocks_trans)

lemma blocks_kept_DecrptPlChunks: "blocks_kept p (XFsbl_DecrptPlChunks W p a n)"
  unfolding XFsbl_DecrptPlChunks_def DecrptPlChunks_first_def DecrptPlChunks_rest_def Let_def
  by (intro answers_seq answers_if answers_ret blocks_kept_after [OF blocks_kept_SetUpNextBlk] blocks_kept_DecrptPl_from
        answers_bind [of _ _ "extM W c" for c] answers_bind [of _ _ "XFsbl_CopyData W q d b m" for q d b m]
        answers_bind [of _ _ "XFsbl_DecrypSecureHdr W b" for b]) simp_all

lemma blocks_kept_ReAuth_chunks: "blocks_kept p (ReAuth_chunks W a m n p i l k off)"
proof (induction n arbitrary: p i l k off)
  case (Suc n)
  have transfer: "blocks_kept p (ReAuth_transfer W p j)" for j
    unfolding ReAuth_transfer_def
    by (intro answers_if answers_seq answers_bind answers_ret blocks_kept_DecrptPlChunks) simp
  have more: "same_blocks p q \<Longrightarrow> blocks_kept p (ReAuth_chunks W a m n q i l k off)" for q i l k off
    by (rule answers_mono [OF Suc.IH]) (auto elim: same_blocks_trans)
  show ?case
    unfolding ReAuth_chunks.simps Let_def
    by (intro answers_seq answers_if answers_ret answers_case_prod blocks_kept_after [OF transfer] more
          answers_bind [of _ _ "copyM W c" for c] answers_bind [of _ _ "XFsbl_CopyData W q d b m" for q d b m]) simp_all
qed (simp add: answers_ret)

lemma blocks_kept_PlBlockAuthentication: "blocks_kept p (XFsbl_PlBlockAuthentication W p a n c)"
proof -
  have sign: "blocks_kept p (XFsbl_PlSignVer W p a n c m)" for m
    unfolding XFsbl_PlSignVer_def Let_def
    by (intro answers_seq answers_bind answers_case_prod answers_if answers_ret) (simp_all add: same_blocks_def)
  have again: "same_blocks p q \<Longrightarrow> blocks_kept p (XFsbl_ReAuthenticationBlock W q a n m)" for q m
    unfolding XFsbl_ReAuthenticationBlock_def
    by (intro answers_seq answers_bind answers_if answers_ret answers_mono [OF blocks_kept_ReAuth_chunks])
      (auto elim: same_blocks_trans)
  show ?thesis
    unfolding XFsbl_PlBlockAuthentication_def Let_def
    by (intro answers_seq answers_if answers_ret blocks_kept_after [OF sign] again answers_bind [of _ _ "XFsbl_SpkVer W b l" for b l])
      simp_all
qed

text \<open>A turn of the loop over the blocks that goes on comes closer to the certificates.\<close>

definition blocks_left :: "XFsblPs_PlPartition \<times> u8 \<times> u64 \<times> u64 \<Rightarrow> nat" where
  "blocks_left x = (case x of (p, Index, SrcAddress, CurrentAcOffset) \<Rightarrow> unat (AcOfset (PlAuth p)) - unat SrcAddress)"

lemma SecPl_turn_answers:
  assumes "BlockSize (PlAuth p) \<noteq> 0"
  shows "answers (\<lambda>z t. case z of Inl y \<Rightarrow> True | Inr x' \<Rightarrow> BlockSize (PlAuth (fst x')) \<noteq> 0 \<and>
     blocks_left x' < blocks_left (p, Index, SrcAddress, Ac)) (SecPl_turn W (p, Index, SrcAddress, Ac))"
proof -
  have less: "unat (AcOfset (PlAuth p)) - unat (SrcAddress + zx (BlockSize (PlAuth p))) <
      unat (AcOfset (PlAuth p)) - unat SrcAddress"
    if "SrcAddress < zx (AcOfset (PlAuth p))" 
  proof -
    have "unat (BlockSize (PlAuth p)) \<noteq> 0" using assms by (simp add: unat_eq_0)
    moreover have "unat SrcAddress < unat (AcOfset (PlAuth p))"
      using that by (simp add: word_less_nat_alt unat_zx)
    moreover have "unat (AcOfset (PlAuth p)) < 2 ^ 32" "unat (BlockSize (PlAuth p)) < 2 ^ 32"
      using unsigned_less [of "AcOfset (PlAuth p)"] unsigned_less [of "BlockSize (PlAuth p)"] by simp_all
    ultimately show ?thesis by (simp add: unat_word_ariths unat_zx)
  qed
  show ?thesis
    unfolding SecPl_turn_def prod.case Let_def
    by (intro answers_seq answers_if answers_ret blocks_kept_after [OF blocks_kept_PlBlockAuthentication]
          answers_bind [of _ _ "XFsbl_CopyData W q d b m" for q d b m])
      (use assms less in \<open>auto simp: blocks_left_def same_blocks_def\<close>)
qed

end
