(* ===== verification/Fsbl_Partition_Load.thy ===== *)
theory Fsbl_Partition_Load
  imports Fsbl_Pl_Partition
begin

text \<open>
  Loading a partition (\<open>xfsbl_partition_load.c\<close>): validation of its header, the copy to
  its load address with the preparation of the memory there, the checksum, authentication
  and decryption, the programming of the logic, the start of the PMU firmware, and the
  table of CPUs to hand off to.
\<close>

section \<open>The handoff table\<close>

primrec CheckHandoffCpu_loop :: "u32 \<Rightarrow> nat \<Rightarrow> u32 \<Rightarrow> u32 prog" where
  "CheckHandoffCpu_loop DestinationCpu 0 Index = retM XFSBL_SUCCESS"
| "CheckHandoffCpu_loop DestinationCpu (Suc n) Index =
     seqM (boundM Index 10)
       (bindM (getM (\<lambda>s. CpuSettings (HandoffValues s ! unat Index))) (\<lambda>c.
          if c AND XIH_PH_ATTRB_DEST_CPU_MASK = DestinationCpu then retM XFSBL_FAILURE
          else CheckHandoffCpu_loop DestinationCpu n (Index + 1)))"

definition XFsbl_CheckHandoffCpu :: "u32 \<Rightarrow> u32 prog" where
  "XFsbl_CheckHandoffCpu DestinationCpu =
     bindM (getM HandoffCpuNo) (\<lambda>ValidHandoffCpuNo.
       CheckHandoffCpu_loop DestinationCpu (unat ValidHandoffCpuNo) 0)"

definition XFsbl_UpdateHandoff :: "XFsblPs_PartitionHeader \<Rightarrow> u32 \<Rightarrow> unit prog" where
  "XFsbl_UpdateHandoff p DestinationCpu =
     bindM (getM HandoffCpuNo) (\<lambda>CpuNo.
     bindM (XFsbl_CheckHandoffCpu DestinationCpu) (\<lambda>Status.
       whenM (Status = XFSBL_SUCCESS)
         (seqM (boundM CpuNo 10)
           (modM (\<lambda>s. s\<lparr>HandoffValues := (HandoffValues s)[unat CpuNo :=
                \<lparr>CpuSettings = DestinationCpu OR XFsbl_GetA53ExecState p,
                 HandoffAddress = DestinationExecutionAddress p\<rparr>],
              HandoffCpuNo := HandoffCpuNo s + 1\<rparr>)))))"

section \<open>Load addresses\<close>

text \<open>The two banks of an R5 memory as the R5 sees them, and the four in lock-step.\<close>

definition in_tcm_banks :: "u64 \<Rightarrow> bool" where
  "in_tcm_banks Address \<longleftrightarrow>
     Address < zx (XFSBL_R5_TCM_START_ADDRESS + XFSBL_R5_TCM_BANK_LENGTH) \<or>
     Address \<ge> zx XFSBL_R5_BTCM_START_ADDRESS \<and>
     Address < zx (XFSBL_R5_BTCM_START_ADDRESS + XFSBL_R5_TCM_BANK_LENGTH)"

definition XFsbl_GetLoadAddress :: "u32 \<Rightarrow> u64 \<Rightarrow> u32 \<Rightarrow> u32 \<times> u64" where
  "XFsbl_GetLoadAddress DestinationCpu Address Len =
     (if DestinationCpu = XIH_PH_ATTRB_DEST_CPU_R5_0 \<and> in_tcm_banks Address then
        (if Len > XFSBL_R5_TCM_BANK_LENGTH then (XFSBL_ERROR_LOAD_ADDRESS, Address)
         else (XFSBL_SUCCESS, zx XFSBL_R50_HIGH_ATCM_START_ADDRESS + Address))
      else if DestinationCpu = XIH_PH_ATTRB_DEST_CPU_R5_1 \<and> in_tcm_banks Address then
        (if Len > XFSBL_R5_TCM_BANK_LENGTH then (XFSBL_ERROR_LOAD_ADDRESS, Address)
         else (XFSBL_SUCCESS, zx XFSBL_R51_HIGH_ATCM_START_ADDRESS + Address))
      else if DestinationCpu = XIH_PH_ATTRB_DEST_CPU_R5_L \<and>
         Address < zx (XFSBL_R5_TCM_START_ADDRESS + XFSBL_R5_TCM_BANK_LENGTH * 4) then
        (if Len > XFSBL_R5_TCM_BANK_LENGTH * 4 then (XFSBL_ERROR_LOAD_ADDRESS, Address)
         else (XFSBL_SUCCESS, zx XFSBL_R50_HIGH_ATCM_START_ADDRESS + Address))
      else (XFSBL_SUCCESS, Address))"

text \<open>
  Powering up the destination's memory unless the loader runs from it, and its ECC
  initialisation when one of the wanted flags is missing.
\<close>

definition PrepareTcm :: "world \<Rightarrow> u32 \<Rightarrow> u32 \<Rightarrow> u32 \<Rightarrow> u32 \<Rightarrow> u32 prog" where
  "PrepareTcm W RunningCpu DestinationCpu Memory Flags =
     tryM (if RunningCpu \<noteq> DestinationCpu then XFsbl_PowerUpMemory W Memory
           else retM XFSBL_SUCCESS)
       (bindM (getM TcmEccInitStatus) (\<lambda>EccStatus.
          if EccStatus AND Flags \<noteq> Flags then XFsbl_TcmEccInit W DestinationCpu
          else retM XFSBL_SUCCESS))"

definition XFsbl_ConfigureMemory :: "world \<Rightarrow> u32 \<Rightarrow> u32 \<Rightarrow> u64 \<Rightarrow> u32 prog" where
  "XFsbl_ConfigureMemory W RunningCpu DestinationCpu Address =
     (if DestinationCpu = XIH_PH_ATTRB_DEST_CPU_R5_0 \<and>
         (Address \<ge> zx XFSBL_R50_HIGH_ATCM_START_ADDRESS \<and>
          Address < zx (XFSBL_R50_HIGH_ATCM_START_ADDRESS + XFSBL_R5_TCM_BANK_LENGTH) \<or>
          Address \<ge> zx XFSBL_R50_HIGH_BTCM_START_ADDRESS \<and>
          Address < zx (XFSBL_R50_HIGH_BTCM_START_ADDRESS + XFSBL_R5_TCM_BANK_LENGTH))
      then PrepareTcm W RunningCpu DestinationCpu XFSBL_R5_0_TCM XFSBL_R50_TCM_ECC_INIT_STATUS
      else if DestinationCpu = XIH_PH_ATTRB_DEST_CPU_R5_1 \<and>
         (Address \<ge> zx XFSBL_R51_HIGH_ATCM_START_ADDRESS \<and>
          Address < zx (XFSBL_R51_HIGH_ATCM_START_ADDRESS + XFSBL_R5_TCM_BANK_LENGTH) \<or>
          Address \<ge> zx XFSBL_R51_HIGH_BTCM_START_ADDRESS \<and>
          Address < zx (XFSBL_R51_HIGH_BTCM_START_ADDRESS + XFSBL_R5_TCM_BANK_LENGTH))
      then PrepareTcm W RunningCpu DestinationCpu XFSBL_R5_1_TCM XFSBL_R51_TCM_ECC_INIT_STATUS
      else if DestinationCpu = XIH_PH_ATTRB_DEST_CPU_R5_L \<and>
         Address \<ge> zx XFSBL_R50_HIGH_ATCM_START_ADDRESS \<and>
         Address < zx (XFSBL_R50_HIGH_ATCM_START_ADDRESS + XFSBL_R5_TCM_BANK_LENGTH * 4)
      then PrepareTcm W RunningCpu DestinationCpu XFSBL_R5_L_TCM
             (XFSBL_R50_TCM_ECC_INIT_STATUS OR XFSBL_R51_TCM_ECC_INIT_STATUS)
      else retM XFSBL_SUCCESS)"

section \<open>Copying a partition\<close>

text \<open>
  The certificate is copied to \<open>AuthBuffer\<close> and left out of the length; the subtraction is
  unsigned.  The result is the status with the length to copy.
\<close>

definition PartitionCopy_cert :: "world \<Rightarrow> XFsblPs_PartitionHeader \<Rightarrow> u32 \<Rightarrow> u32 \<Rightarrow> (u32 \<times> u32) prog" where
  "PartitionCopy_cert W p SrcAddress Len =
     (if XFsbl_IsRsaSignaturePresent p = XIH_PH_ATTRB_RSA_SIGNATURE \<and>
         XFsbl_GetDestinationDevice p \<noteq> XIH_PH_ATTRB_DEST_DEVICE_PL then
        let Len' = Len - XFSBL_AUTH_CERT_MIN_SIZE
        in bindM (getM DeviceOps) (\<lambda>ops.
           bindM (copyM W (Dev (DeviceCopy ops (SrcAddress + Len') (auth_buffer_addr W)
                    XFSBL_AUTH_CERT_MIN_SIZE)))
             (\<lambda>(Status, b). seqM (modM (\<lambda>s. s\<lparr>AuthBuffer :=
                  (\<lambda>k. if k < unat XFSBL_AUTH_CERT_MIN_SIZE then b k else AuthBuffer s k)\<rparr>))
                (retM (Status, Len'))))
      else retM (XFSBL_SUCCESS, Len))"

text \<open>Waiting for the PMU to sleep before its memory is overwritten.\<close>

definition PartitionCopy_pmu :: "world \<Rightarrow> XFsblPs_PartitionHeader \<Rightarrow> unit prog" where
  "PartitionCopy_pmu W p = seqsM
     [whenM (DestinationExecutionAddress p \<noteq> 0) (seqsM
        [XFsbl_Out32 IPI_PMU_0_IER IPI_PMU_0_IER_PMU_0_MASK,
         XFsbl_Out32 IPI_PMU_0_TRIG IPI_PMU_0_TRIG_PMU_0_MASK]),
      pollM W PMU_GLOBAL_GLOBAL_CNTRL (\<lambda>v. v AND PMU_GLOBAL_GLOBAL_CNTRL_MB_SLEEP_MASK
        = PMU_GLOBAL_GLOBAL_CNTRL_MB_SLEEP_MASK)]"

definition PartitionCopy_place ::
  "world \<Rightarrow> XFsblPs_PartitionHeader \<Rightarrow> u32 \<Rightarrow> u32 \<Rightarrow> u32 \<Rightarrow> u64 \<Rightarrow> u32 \<Rightarrow> u32 prog" where
  "PartitionCopy_place W p RunningCpu DestinationCpu SrcAddress LoadAddress Len =
     (case XFsbl_GetLoadAddress DestinationCpu LoadAddress Len of (Status, LoadAddress') \<Rightarrow>
        if Status \<noteq> XFSBL_SUCCESS then retM Status
        else tryM (XFsbl_ConfigureMemory W RunningCpu DestinationCpu LoadAddress')
          (seqM (whenM (DestinationCpu = XIH_PH_ATTRB_DEST_CPU_PMU) (PartitionCopy_pmu W p))
            (bindM (getM DeviceOps) (\<lambda>ops.
               extM W (Dev (DeviceCopy ops SrcAddress LoadAddress' Len))))))"

definition XFsbl_PartitionCopy :: "world \<Rightarrow> u32 \<Rightarrow> u32 prog" where
  "XFsbl_PartitionCopy W PartitionNum =
     bindM (get_PartitionHeader PartitionNum) (\<lambda>p.
     bindM (getM ProcessorID) (\<lambda>RunningCpu.
       let DestinationCpu = dest_cpu p RunningCpu
       in if UnEncryptedDataWordLength p = 0
          then seqM (XFsbl_UpdateHandoff p DestinationCpu) (retM XFSBL_SUCCESS)
          else bindM (getM (\<lambda>s. ImageOffsetAddress s + DataWordOffset p * XIH_PARTITION_WORD_LENGTH))
            (\<lambda>SrcAddress.
             bindM (PartitionCopy_cert W p SrcAddress
                      (TotalDataWordLength p * XIH_PARTITION_WORD_LENGTH)) (\<lambda>(Status, Len).
               if Status \<noteq> XFSBL_SUCCESS then retM Status
               else bindM (getM ResetReason) (\<lambda>Reset.
                 if XFsbl_GetDestinationDevice p = XIH_PH_ATTRB_DEST_DEVICE_PL \<and>
                    Reset = XFSBL_PS_ONLY_RESET then retM XFSBL_SUCCESS
                 else PartitionCopy_place W p RunningCpu DestinationCpu SrcAddress
                        (if XFsbl_GetDestinationDevice p = XIH_PH_ATTRB_DEST_DEVICE_PL \<and>
                            DestinationLoadAddress p = zx XFSBL_DUMMY_PL_ADDR
                         then zx XFSBL_DDR_TEMP_ADDRESS else DestinationLoadAddress p)
                        Len)))))"

section \<open>Checksum of a partition\<close>

definition XFsbl_CalcualteSHA :: "world \<Rightarrow> u64 \<Rightarrow> u32 \<Rightarrow> u32 \<Rightarrow> u32 prog" where
  "XFsbl_CalcualteSHA W LoadAddress PartitionNum ShaType =
     bindM (get_PartitionHeader PartitionNum) (\<lambda>p.
     bindM (getM (\<lambda>s. ImageOffsetAddress s + ChecksumWordOffset p * 4)) (\<lambda>HashOffset.
     bindM (XFsbl_ShaDigest W LoadAddress (TotalDataWordLength p * 4) ShaType) (\<lambda>PartitionHash.
     bindM (getM DeviceOps) (\<lambda>ops.
     bindM (copyM W (Dev (DeviceCopy ops HashOffset (hash_addr W) ShaType))) (\<lambda>(Status, Hash).
       if Status \<noteq> XFSBL_SUCCESS then retM XFSBL_FAILURE
       else retM (compare_hashs_loop PartitionHash Hash 0 (unat ShaType)))))))"

definition XFsbl_CalcualteCheckSum :: "world \<Rightarrow> u64 \<Rightarrow> u32 \<Rightarrow> u32 prog" where
  "XFsbl_CalcualteCheckSum W LoadAddress PartitionNum =
     bindM (get_PartitionHeader PartitionNum) (\<lambda>p.
       if XFsbl_GetChecksumType p = XIH_PH_ATTRB_HASH_SHA3
       then tryM_as XFSBL_FAILURE
              (XFsbl_CalcualteSHA W LoadAddress PartitionNum XFSBL_HASH_TYPE_SHA3)
              (retM XFSBL_SUCCESS)
       else retM XFSBL_ERROR_INVALID_CHECKSUM_TYPE)"

section \<open>Validating a partition\<close>

text \<open>
  The initialisation vector: byte 11 of the one of the boot header plus the low byte of the
  field of the partition header.
\<close>

definition partition_iv :: "(nat \<Rightarrow> u8) \<Rightarrow> XFsblPs_PartitionHeader \<Rightarrow> u8 list" where
  "partition_iv iv p = map (\<lambda>k. if k = 11
     then iv k + ucast (PH_Iv p AND XFSBL_PARTITION_IV_MASK) else iv k) [0..<16]"

text \<open>Resetting the logic after a failed secure bitstream.\<close>

definition pl_reset :: "world \<Rightarrow> bool \<Rightarrow> unit prog" where
  "pl_reset W Reprogram = seqsM
     [XFsbl_Out32 CSU_PCAP_PROG 0,
      whenM Reprogram (seqsM
        [callM W (Bsp (Usleep PL_RESET_PERIOD_IN_US)),
         XFsbl_Out32 CSU_PCAP_PROG CSU_PCAP_PROG_PCFG_PROG_B_MASK])]"

text \<open>
  An authenticated bitstream: what it is given to \<open>XFsbl_SecPlPartition\<close> as.  The offset of
  the certificates is computed with the 64 bits of the load address and kept in 32 of them.
\<close>

definition pl_params :: "XFsblPs_PartitionHeader \<Rightarrow> bool \<Rightarrow> u64 \<Rightarrow> XFsblPs_PlPartition" where
  "pl_params p IsEncryptionEnabled LoadAddress =
     \<lparr>IsAuthenticated = True, IsEncrypted = IsEncryptionEnabled, StartAddress = LoadAddress,
      UnEncryptLen = UnEncryptedDataWordLength p * 4, TotalLen = TotalDataWordLength p * 4,
      ChunkSize = READ_BUFFER_SIZE, PlDeviceCopy = None,
      PlEncrypt = \<lparr>SecureAes = (if IsEncryptionEnabled then Some \<lparr>KeySel = KEY_SRC_DEV, Key = 0, SizeofData = 0\<rparr> else None),
                   NextBlkLen = 0\<rparr>,
      PlAuth = \<lparr>AuthType = XFSBL_HASH_TYPE_SHA3,
                AcOfset = lo32 (LoadAddress + zx (AuthCertificateOffset p * 4 - DataWordOffset p * XIH_PARTITION_WORD_LENGTH)),
                HashsOfChunks = (\<lambda>_. 0), NoOfHashs = HASH_BUFFER_SIZE div XFSBL_HASH_TYPE_SHA3,
                BlockSize = XFsbl_GetBlockSize p\<rparr>,
      Hdr = 0\<rparr>"

definition PartitionValidation_pl_auth ::
  "world \<Rightarrow> XFsblPs_PartitionHeader \<Rightarrow> bool \<Rightarrow> u64 \<Rightarrow> u32 prog" where
  "PartitionValidation_pl_auth W p IsEncryptionEnabled LoadAddress =
     (if XFsbl_GetBlockSize p = 0 then retM XFSBL_ERROR_BLOCK_SIZE_SEC_BS
      else bindM (getM BootHdrAttributes) (\<lambda>Attr.
        if Attr AND XIH_BH_IMAGE_ATTRB_SHA2_MASK = XIH_BH_IMAGE_ATTRB_SHA2_MASK
        then retM XFSBL_ERROR_SHA2_NOT_SUPPORTED
        else bindM (XFsbl_SecPlPartition W (pl_params p IsEncryptionEnabled LoadAddress)) (\<lambda>Status.
          if Status \<noteq> XFSBL_SUCCESS
          then seqM (pl_reset W IsEncryptionEnabled) (retM Status)
          else retM XFSBL_SUCCESS)))"

definition PartitionValidation_auth ::
  "world \<Rightarrow> XFsblPs_PartitionHeader \<Rightarrow> bool \<Rightarrow> u64 \<Rightarrow> u32 prog" where
  "PartitionValidation_auth W p IsEncryptionEnabled LoadAddress =
     (if XFsbl_GetDestinationDevice p \<noteq> XIH_PH_ATTRB_DEST_DEVICE_PL
      then XFsbl_Authentication W LoadAddress (TotalDataWordLength p * 4) (auth_buffer_addr W)
      else PartitionValidation_pl_auth W p IsEncryptionEnabled LoadAddress)"

text \<open>A bitstream that is not authenticated, encrypted or plain.\<close>

definition PartitionValidation_pl_plain ::
  "world \<Rightarrow> XFsblPs_PartitionHeader \<Rightarrow> bool \<Rightarrow> u64 \<Rightarrow> u32 prog" where
  "PartitionValidation_pl_plain W p IsEncryptionEnabled LoadAddress =
     (if IsEncryptionEnabled then
        bindM (extM W (Crypto (AesDecrypt (zx XFSBL_DESTINATION_PCAP_ADDR) LoadAddress
                 (UnEncryptedDataWordLength p * 4)))) (\<lambda>Status.
          if Status \<noteq> XFSBL_SUCCESS
          then seqM (pl_reset W True) (retM XFSBL_ERROR_BITSTREAM_DECRYPTION_FAIL)
          else retM XFSBL_SUCCESS)
      else XFsbl_WriteToPcap W (UnEncryptedDataWordLength p) LoadAddress)"

definition PartitionValidation_pl_done :: "world \<Rightarrow> u32 prog" where
  "PartitionValidation_pl_done W =
     tryM (XFsbl_PLWaitForDone W)
       (seqM (seqsM [callM W (Psu PsuIsolationRemoval), callM W (Psu PsuPlResetConfig)])
         (tryM_as XFSBL_ERROR_HOOK_AFTER_BITSTREAM_DOWNLOAD XFsbl_HookAfterBSDownload
           (retM XFSBL_SUCCESS)))"

text \<open>The checks in their order; \<open>k\<close> is what follows them.\<close>

definition PartitionValidation_checks ::
  "world \<Rightarrow> u32 \<Rightarrow> XFsblPs_PartitionHeader \<Rightarrow> u64 \<Rightarrow> u32 prog \<Rightarrow> u32 prog" where
  "PartitionValidation_checks W PartitionNum p LoadAddress k =
     (let enc = (XFsbl_IsEncrypted p = XIH_PH_ATTRB_ENCRYPTION);
          auth = (XFsbl_IsRsaSignaturePresent p = XIH_PH_ATTRB_RSA_SIGNATURE);
          chk = (XFsbl_GetChecksumType p \<noteq> XIH_PH_ATTRB_NOCHECKSUM);
          pl = (XFsbl_GetDestinationDevice p = XIH_PH_ATTRB_DEST_DEVICE_PL);
          skip = retM XFSBL_SUCCESS
      in bindM (getM (\<lambda>s. partition_iv (Iv s) p)) (\<lambda>FsblIv.
        tryM_as XFSBL_ERROR_AES_INITIALIZE
          (if enc then extM W (Crypto (AesInitialize FsblIv)) else skip)
        (tryM_as XFSBL_ERROR_HOOK_BEFORE_BITSTREAM_DOWNLOAD
          (if pl then XFsbl_HookBeforeBSDownload else skip)
        (tryM (if pl then XFsbl_PcapInit W else skip)
        (tryM_as XFSBL_ERROR_PARTITION_CHECKSUM_FAILED
          (if chk then XFsbl_CalcualteCheckSum W LoadAddress PartitionNum else skip)
        (tryM (if auth then PartitionValidation_auth W p enc LoadAddress else skip)
        (tryM_as XFSBL_ERROR_DECRYPTION_FAIL
          (if enc \<and> \<not> pl then extM W (Crypto (AesDecrypt LoadAddress LoadAddress
             (UnEncryptedDataWordLength p * 4))) else skip)
        (tryM (if pl \<and> \<not> auth then PartitionValidation_pl_plain W p enc LoadAddress else skip)
        (tryM (if pl then PartitionValidation_pl_done W else skip) k)))))))))"

definition XFsbl_PartitionValidation :: "world \<Rightarrow> u32 \<Rightarrow> u32 prog" where
  "XFsbl_PartitionValidation W PartitionNum =
     bindM (get_PartitionHeader PartitionNum) (\<lambda>p.
     bindM (getM ResetReason) (\<lambda>Reset.
     bindM (getM ProcessorID) (\<lambda>ProcId.
       let pl = (XFsbl_GetDestinationDevice p = XIH_PH_ATTRB_DEST_DEVICE_PL);
           DestinationCpu = dest_cpu p ProcId;
           secure = (XFsbl_IsRsaSignaturePresent p = XIH_PH_ATTRB_RSA_SIGNATURE \<or>
             XFsbl_IsEncrypted p = XIH_PH_ATTRB_ENCRYPTION \<or>
             XFsbl_GetChecksumType p \<noteq> XIH_PH_ATTRB_NOCHECKSUM)
       in if pl \<and> Reset = XFSBL_PS_ONLY_RESET then retM XFSBL_SUCCESS
       else case (if secure then XFsbl_GetLoadAddress DestinationCpu (DestinationLoadAddress p)
                                   (TotalDataWordLength p * 4)
                  else (XFSBL_SUCCESS, DestinationLoadAddress p)) of (Status, LoadAddress) \<Rightarrow>
         if Status \<noteq> XFSBL_SUCCESS then retM Status
         else PartitionValidation_checks W PartitionNum p
           (if pl \<and> LoadAddress = zx XFSBL_DUMMY_PL_ADDR then zx XFSBL_DDR_TEMP_ADDRESS
            else LoadAddress)
           (seqM (whenM (\<not> pl \<and> DestinationCpu \<noteq> XIH_PH_ATTRB_DEST_CPU_PMU)
                    (XFsbl_UpdateHandoff p DestinationCpu))
              (retM XFSBL_SUCCESS)))))"

section \<open>Loading a partition\<close>

definition XFsbl_PartitionHeaderValidation :: "world \<Rightarrow> u32 \<Rightarrow> u32 prog" where
  "XFsbl_PartitionHeaderValidation W PartitionNum =
     bindM (get_PartitionHeader PartitionNum) (\<lambda>p.
     bindM (getM ProcessorID) (\<lambda>ProcId.
     bindM (getM ResetReason) (\<lambda>Reset.
       if XFsbl_ValidateChecksum (ph_words p) (XIH_PH_LEN div 4) \<noteq> XFSBL_SUCCESS
       then retM XFSBL_ERROR_PH_CHECKSUM_FAILED
       else if XFsbl_GetPartitionOwner p \<noteq> XIH_PH_ATTRB_PART_OWNER_FSBL
       then retM XFSBL_SUCCESS_NOT_PARTITION_OWNER
       else XFsbl_ValidatePartitionHeader W p ProcId Reset)))"

definition CheckPmuFw_done :: "XFsblPs_PartitionHeader \<Rightarrow> u32 \<Rightarrow> bool prog" where
  "CheckPmuFw_done p PartitionNum =
     (if XFsbl_GetDestinationCpu p = XIH_PH_ATTRB_DEST_CPU_PMU then
        bindM (getM (\<lambda>s. NoOfPartitions (ImageHeaderTable s))) (\<lambda>n.
          if PartitionNum + 1 \<le> n - 1 then
            bindM (get_PartitionHeader (PartitionNum + 1)) (\<lambda>q.
              retM (XFsbl_GetDestinationCpu q \<noteq> XIH_PH_ATTRB_DEST_CPU_PMU))
          else retM True)
      else retM False)"

definition XFsbl_CheckPmuFw :: "world \<Rightarrow> u32 \<Rightarrow> unit prog" where
  "XFsbl_CheckPmuFw W PartitionNum =
     bindM (get_PartitionHeader PartitionNum) (\<lambda>p.
     bindM (CheckPmuFw_done p PartitionNum) (\<lambda>PmuFwLoadDone.
       whenM PmuFwLoadDone (seqsM
         [rmwM W PMU_GLOBAL_GLOBAL_CNTRL (\<lambda>v. v OR 1),
          pollM W PMU_GLOBAL_GLOBAL_CNTRL (\<lambda>v. v AND PMU_GLOBAL_GLOBAL_CNTRL_FW_IS_PRESENT_MASK
            = PMU_GLOBAL_GLOBAL_CNTRL_FW_IS_PRESENT_MASK)])))"

definition XFsbl_PartitionLoad :: "world \<Rightarrow> u32 \<Rightarrow> u32 prog" where
  "XFsbl_PartitionLoad W PartitionNum =
     bindM (getM ResetReason) (\<lambda>Reset.
     seqM (whenM (cfg_wdt_mask W \<noteq> None \<and> Reset \<noteq> XFSBL_APU_ONLY_RESET) (XFsbl_RestartWdt W))
      (bindM (XFsbl_PartitionHeaderValidation W PartitionNum) (\<lambda>Status.
         if Status = XFSBL_SUCCESS_NOT_PARTITION_OWNER then retM XFSBL_SUCCESS
         else if Status \<noteq> XFSBL_SUCCESS then retM Status
         else tryM (XFsbl_PartitionCopy W PartitionNum)
           (tryM (XFsbl_PartitionValidation W PartitionNum)
             (seqM (XFsbl_CheckPmuFw W PartitionNum) (retM XFSBL_SUCCESS))))))"

section \<open>The handoff table as an interface\<close>

locale handoff_table =
  fixes inv :: "'s \<Rightarrow> bool" and cpus :: "'s \<Rightarrow> 'k list" and valid :: "'k set"
    and present :: "'k \<Rightarrow> 's \<Rightarrow> bool" and record_cpu :: "'k \<Rightarrow> 's \<Rightarrow> 's"
  assumes valid_finite: "finite valid"
    and cpus_valid: "inv s \<Longrightarrow> distinct (cpus s) \<and> set (cpus s) \<subseteq> valid"
    and present_iff: "inv s \<Longrightarrow> present k s = (k \<in> set (cpus s))"
    and record_absent: "inv s \<Longrightarrow> k \<in> valid \<Longrightarrow> k \<notin> set (cpus s) \<Longrightarrow>
      inv (record_cpu k s) \<and> cpus (record_cpu k s) = cpus s @ [k]"
    and record_present: "inv s \<Longrightarrow> k \<in> set (cpus s) \<Longrightarrow> record_cpu k s = s"
begin

lemma record_inv: "inv s \<Longrightarrow> k \<in> valid \<Longrightarrow> inv (record_cpu k s)"
  using record_absent record_present by (cases "k \<in> set (cpus s)") auto

lemma bounded: "inv s \<Longrightarrow> length (cpus s) \<le> card valid"
  by (metis card_mono cpus_valid distinct_card valid_finite)

lemma record_then_present: "inv s \<Longrightarrow> k \<in> valid \<Longrightarrow> present k (record_cpu k s)"
  using record_absent record_present present_iff record_inv
  by (cases "k \<in> set (cpus s)") auto

lemma record_keeps: "inv s \<Longrightarrow> k \<in> valid \<Longrightarrow> present j s \<Longrightarrow> present j (record_cpu k s)"
  using record_absent record_present present_iff record_inv
  by (cases "k \<in> set (cpus s)") auto

lemma first_wins: "inv s \<Longrightarrow> k \<in> valid \<Longrightarrow> record_cpu k (record_cpu k s) = record_cpu k s"
  by (meson present_iff record_inv record_present record_then_present)

end

definition cpu_ids :: "u32 set" where
  "cpu_ids = {XIH_PH_ATTRB_DEST_CPU_A53_0, XIH_PH_ATTRB_DEST_CPU_A53_1, XIH_PH_ATTRB_DEST_CPU_A53_2,
     XIH_PH_ATTRB_DEST_CPU_A53_3, XIH_PH_ATTRB_DEST_CPU_R5_0, XIH_PH_ATTRB_DEST_CPU_R5_1,
     XIH_PH_ATTRB_DEST_CPU_R5_L, XIH_PH_ATTRB_DEST_CPU_PMU}"

lemma cpu_ids_card: "card cpu_ids = 8" "finite cpu_ids"
  by (simp_all add: cpu_ids_def hw)

definition handoff_cpus :: "fsbl \<Rightarrow> u32 list" where
  "handoff_cpus s = map (\<lambda>v. CpuSettings v AND XIH_PH_ATTRB_DEST_CPU_MASK)
     (take (unat (HandoffCpuNo s)) (HandoffValues s))"

definition handoff_inv :: "fsbl \<Rightarrow> bool" where
  "handoff_inv s \<longleftrightarrow> length (HandoffValues s) = 10 \<and> unat (HandoffCpuNo s) \<le> 10 \<and>
     distinct (handoff_cpus s) \<and> set (handoff_cpus s) \<subseteq> cpu_ids"

definition handoff_record :: "XFsblPs_PartitionHeader \<Rightarrow> u32 \<Rightarrow> fsbl \<Rightarrow> fsbl" where
  "handoff_record p cpu s = (if cpu \<in> set (handoff_cpus s) then s else
     s\<lparr>HandoffValues := (HandoffValues s)[unat (HandoffCpuNo s) :=
         \<lparr>CpuSettings = cpu OR XFsbl_GetA53ExecState p,
          HandoffAddress = DestinationExecutionAddress p\<rparr>],
       HandoffCpuNo := HandoffCpuNo s + 1\<rparr>)"

lemma cpu_ids_mask:
  assumes "cpu \<in> cpu_ids"
  shows "(cpu OR XFsbl_GetA53ExecState p) AND XIH_PH_ATTRB_DEST_CPU_MASK = cpu"
proof -
  have "(8 :: u32) AND 0xF00 = 0" by simp
  then have "(cpu OR XFsbl_GetA53ExecState p) AND 0xF00 = cpu AND 0xF00"
    by (simp add: XFsbl_GetA53ExecState_def hw word_ao_dist and.assoc)
  with assms show ?thesis by (auto simp: cpu_ids_def hw)
qed

lemma handoff_length: "handoff_inv s \<Longrightarrow> length (handoff_cpus s) = unat (HandoffCpuNo s)"
  by (simp add: handoff_inv_def handoff_cpus_def)

lemma handoff_bound: "handoff_inv s \<Longrightarrow> unat (HandoffCpuNo s) \<le> 8"
  by (metis cpu_ids_card card_mono distinct_card handoff_inv_def handoff_length)

lemma handoff_record_absent:
  assumes "handoff_inv s" and "cpu \<in> cpu_ids" and "cpu \<notin> set (handoff_cpus s)"
  shows "handoff_inv (handoff_record p cpu s) \<and> handoff_cpus (handoff_record p cpu s) = handoff_cpus s @ [cpu]"
proof -
  have n: "unat (HandoffCpuNo s) \<le> 8" using assms(1) by (rule handoff_bound)
  then have "unat (HandoffCpuNo s + 1) = Suc (unat (HandoffCpuNo s))"
    by (simp add: unat_word_ariths)
  then have cpus: "handoff_cpus (handoff_record p cpu s) = handoff_cpus s @ [cpu]"
    using assms n by (simp add: handoff_record_def handoff_cpus_def handoff_inv_def
        take_Suc_conv_app_nth cpu_ids_mask)
  then show ?thesis
    using assms n \<open>unat (HandoffCpuNo s + 1) = Suc (unat (HandoffCpuNo s))\<close>
    by (auto simp: handoff_inv_def) (simp_all add: handoff_record_def)
qed

lemma handoff_record_present: "cpu \<in> set (handoff_cpus s) \<Longrightarrow> handoff_record p cpu s = s"
  by (simp add: handoff_record_def)

lemma handoff_inv_cpus: "handoff_inv s \<Longrightarrow> distinct (handoff_cpus s) \<and> set (handoff_cpus s) \<subseteq> cpu_ids"
  by (simp add: handoff_inv_def)

interpretation handoff: handoff_table handoff_inv handoff_cpus cpu_ids
    "\<lambda>cpu s. cpu \<in> set (handoff_cpus s)" "handoff_record p" for p
  by unfold_locales
    (simp_all add: cpu_ids_card handoff_record_absent handoff_record_present handoff_inv_cpus)

lemma CheckHandoffCpu_loop_run:
  "handoff_inv s \<Longrightarrow> k + n = unat (HandoffCpuNo s) \<Longrightarrow> i = of_nat k \<Longrightarrow>
   CheckHandoffCpu_loop cpu n i s =
     Some (Ret (if cpu \<in> set (drop k (handoff_cpus s)) then XFSBL_FAILURE else XFSBL_SUCCESS), s)"
proof (induction n arbitrary: k i)
  case 0
  then show ?case using handoff_length by (simp add: retM_def)
next
  case (Suc n)
  have k: "k < unat (HandoffCpuNo s)" "k < 10" "unat i = k"
    using Suc.prems handoff_bound [OF Suc.prems(1)] by (auto simp: unat_of_nat)
  then have nth: "handoff_cpus s ! k = CpuSettings (HandoffValues s ! k) AND XIH_PH_ATTRB_DEST_CPU_MASK"
    using Suc.prems(1) by (simp add: handoff_cpus_def handoff_inv_def)
  have "drop k (handoff_cpus s) = handoff_cpus s ! k # drop (Suc k) (handoff_cpus s)"
    using k handoff_length [OF Suc.prems(1)] by (simp add: Cons_nth_drop_Suc)
  then show ?case
    using Suc.IH [OF Suc.prems(1), of "Suc k" "i + 1"] Suc.prems(2,3) k nth
    by (auto simp: bindM_def seqM_def boundM_def retM_def getM_def)
qed

lemma UpdateHandoff_run:
  assumes "handoff_inv s" and "cpu \<in> cpu_ids"
  shows "XFsbl_UpdateHandoff p cpu s = Some (Ret (), handoff_record p cpu s)"
proof -
  have "XFsbl_CheckHandoffCpu cpu s = Some (Ret (if cpu \<in> set (handoff_cpus s)
      then XFSBL_FAILURE else XFSBL_SUCCESS), s)"
    using CheckHandoffCpu_loop_run [OF assms(1), of 0] by (simp add: XFsbl_CheckHandoffCpu_def bindM_def getM_def)
  moreover have "unat (HandoffCpuNo s) < 10"
    using handoff_bound [OF assms(1)] by simp
  ultimately show ?thesis
    by (simp add: XFsbl_UpdateHandoff_def bindM_def getM_def whenM_def seqM_def boundM_def retM_def
        modM_def handoff_record_def hw)
qed

section \<open>Frames\<close>

text \<open>
  The interface of an invariant that loading partition \<open>n\<close> keeps: its header is \<open>p\<close>, the
  loader runs on \<open>rc\<close>, and recording the partition's CPU is allowed.
\<close>

locale partition_closed = buffers_closed +
  fixes E :: "exit \<Rightarrow> bool" and n :: u32 and p :: XFsblPs_PartitionHeader and rc :: u32
  assumes index: "I s \<Longrightarrow> E OutOfBounds \<or> unat n < 32"
    and next_index: "I s \<Longrightarrow> E OutOfBounds \<or>
      (n + 1 \<le> NoOfPartitions (ImageHeaderTable s) - 1 \<longrightarrow> unat (n + 1) < 32)"
    and header: "I s \<Longrightarrow> PartitionHeader s ! unat n = p"
    and running: "I s \<Longrightarrow> ProcessorID s = rc"
    and update: "keeps E I (XFsbl_UpdateHandoff p (dest_cpu p rc))"
begin

lemma keeps_header_bind: "keeps E I (k p) \<Longrightarrow> keeps E I (bindM (get_PartitionHeader n) k)"
  unfolding keeps_def wp_bind wp_get_PartitionHeader using index header by fastforce

lemma keeps_running_bind: "keeps E I (k rc) \<Longrightarrow> keeps E I (bindM (getM ProcessorID) k)"
  by (rule keeps_get_bind) (simp add: running)

lemma keeps_PrepareTcm: "keeps E I (PrepareTcm W r c m f)"
  unfolding PrepareTcm_def by (intro keeps_intro tcm_keeps)

lemma keeps_ConfigureMemory: "keeps E I (XFsbl_ConfigureMemory W r c a)"
  unfolding XFsbl_ConfigureMemory_def by (intro keeps_intro keeps_PrepareTcm)

lemma keeps_PartitionCopy_cert: "keeps E I (PartitionCopy_cert W q a l)"
  unfolding PartitionCopy_cert_def Let_def by (intro keeps_intro io_keeps keeps_AuthBuffer)

lemma keeps_PartitionCopy_place: "keeps E I (PartitionCopy_place W q r c a la l)"
  unfolding PartitionCopy_place_def PartitionCopy_pmu_def
  by (intro keeps_intro keeps_ConfigureMemory io_keeps)

lemma keeps_PartitionCopy: "keeps E I (XFsbl_PartitionCopy W n)"
  unfolding XFsbl_PartitionCopy_def Let_def
  by (intro keeps_header_bind keeps_running_bind keeps_intro update keeps_PartitionCopy_cert
      keeps_PartitionCopy_place)

lemma keeps_CalcualteCheckSum: "keeps E I (XFsbl_CalcualteCheckSum W a n)"
  unfolding XFsbl_CalcualteCheckSum_def XFsbl_CalcualteSHA_def
  by (intro keeps_header_bind keeps_intro keeps_sha io_keeps)

lemma keeps_PartitionValidation_auth: "keeps E I (PartitionValidation_auth W q e a)"
  unfolding PartitionValidation_auth_def PartitionValidation_pl_auth_def pl_reset_def
  by (intro keeps_intro auth_keeps keeps_SecPlPartition)

lemma keeps_PartitionValidation_pl: "keeps E I (PartitionValidation_pl_plain W q e a)"
  "keeps E I (PartitionValidation_pl_done W)"
  unfolding PartitionValidation_pl_plain_def PartitionValidation_pl_done_def pl_reset_def
  by (intro keeps_intro auth_keeps)+

lemma keeps_PartitionValidation_checks:
  "keeps E I k \<Longrightarrow> keeps E I (PartitionValidation_checks W n q a k)"
  unfolding PartitionValidation_checks_def Let_def
  by (intro keeps_intro auth_keeps keeps_CalcualteCheckSum keeps_PartitionValidation_auth
      keeps_PartitionValidation_pl)

lemma keeps_PartitionValidation: "keeps E I (XFsbl_PartitionValidation W n)"
  unfolding XFsbl_PartitionValidation_def Let_def
  by (intro keeps_header_bind keeps_running_bind keeps_intro keeps_PartitionValidation_checks update)

lemma keeps_CheckPmuFw_done: "keeps E I (CheckPmuFw_done p n)"
  unfolding CheckPmuFw_done_def
  by (intro keeps_intro keeps_get_bind) (auto dest: next_index)

lemma keeps_CheckPmuFw: "keeps E I (XFsbl_CheckPmuFw W n)"
  unfolding XFsbl_CheckPmuFw_def
  by (intro keeps_header_bind keeps_intro io_keeps keeps_CheckPmuFw_done)

lemma keeps_PartitionHeaderValidation: "keeps E I (XFsbl_PartitionHeaderValidation W n)"
  unfolding XFsbl_PartitionHeaderValidation_def XFsbl_ValidatePartitionHeader_def
  by (intro keeps_header_bind keeps_intro io_keeps)

lemma keeps_PartitionLoad: "keeps E I (XFsbl_PartitionLoad W n)"
  unfolding XFsbl_PartitionLoad_def
  by (intro keeps_intro keeps_RestartWdt keeps_PartitionHeaderValidation keeps_PartitionCopy
      keeps_PartitionValidation keeps_CheckPmuFw)

end

section \<open>Loading keeps the instance in shape\<close>

definition load_inv :: "fsbl \<Rightarrow> bool" where
  "load_inv s \<longleftrightarrow> instance_shape s \<and> handoff_inv s \<and> ProcessorID s \<in> cpu_ids \<and>
     2 \<le> NoOfPartitions (ImageHeaderTable s) \<and> NoOfPartitions (ImageHeaderTable s) \<le> 32"

lemma keeps_CheckHandoffCpu: "keeps any_exit I (XFsbl_CheckHandoffCpu c)"
proof -
  have "keeps any_exit I (CheckHandoffCpu_loop c m i)" for m i
    by (induction m arbitrary: i) (auto intro!: keeps_intro)
  then show ?thesis
    unfolding XFsbl_CheckHandoffCpu_def by (intro keeps_intro)
qed

lemma keeps_UpdateHandoff:
  "(\<And>s v k. I s \<Longrightarrow> I (s\<lparr>HandoffValues := v, HandoffCpuNo := k\<rparr>)) \<Longrightarrow>
   keeps any_exit I (XFsbl_UpdateHandoff p c)"
  unfolding XFsbl_UpdateHandoff_def
  by (intro keeps_intro keeps_CheckHandoffCpu keeps_mod) simp_all

lemma wp_UpdateHandoff:
  "handoff_inv s \<Longrightarrow> c \<in> cpu_ids \<Longrightarrow> Q () (handoff_record p c s) \<Longrightarrow> wp (XFsbl_UpdateHandoff p c) Q H s"
  by (simp add: wp_def UpdateHandoff_run)

lemma handoff_record_frame:
  "PartitionHeader (handoff_record p c s) = PartitionHeader s" "ProcessorID (handoff_record p c s) = ProcessorID s"
  "ImageHeaderTable (handoff_record p c s) = ImageHeaderTable s" "instance_shape (handoff_record p c s) = instance_shape s"
  "trace (handoff_record p c s) = trace s"
  by (simp_all add: handoff_record_def instance_shape_def)

definition loading_inv :: "u32 \<Rightarrow> XFsblPs_PartitionHeader \<Rightarrow> u32 \<Rightarrow> u32 list \<Rightarrow> fsbl \<Rightarrow> bool" where
  "loading_inv n p rc cpus s \<longleftrightarrow> load_inv s \<and> unat n < 32 \<and> PartitionHeader s ! unat n = p \<and> ProcessorID s = rc \<and>
     dest_cpu p rc \<in> cpu_ids \<and>
     (handoff_cpus s = cpus \<or> dest_cpu p rc \<notin> set cpus \<and> handoff_cpus s = cpus @ [dest_cpu p rc])"

lemma loading_inv_record:
  "loading_inv n p rc cpus s \<Longrightarrow> loading_inv n p rc cpus (handoff_record p (dest_cpu p rc) s)"
  using handoff.record_absent [of s "dest_cpu p rc" p] handoff.record_present [of s "dest_cpu p rc" p]
    handoff.record_inv [of s "dest_cpu p rc" p]
  by (cases "dest_cpu p rc \<in> set (handoff_cpus s)")
    (auto simp: loading_inv_def load_inv_def handoff_record_frame)

lemma next_partition:
  fixes n m :: u32
  assumes "n + 1 \<le> m - 1" and "2 \<le> m" and "m \<le> 32" and "unat n < 32"
  shows "unat (n + 1) < (32 :: nat)"
proof -
  have "m \<noteq> 0" using assms(2) by auto
  with assms show ?thesis by (simp add: word_le_nat_alt unat_minus_one)
qed

interpretation loading: partition_closed "loading_inv n p rc cpus" no_exit n p rc for n p rc cpus
proof (unfold_locales)
  show "keeps no_exit (loading_inv n p rc cpus) (XFsbl_UpdateHandoff p (dest_cpu p rc))"
    unfolding keeps_def
    by (auto intro!: wp_UpdateHandoff loading_inv_record simp: loading_inv_def load_inv_def)
qed (auto simp: loading_inv_def load_inv_def instance_shape_def handoff_inv_def handoff_cpus_def
    intro: next_partition)


lemma GetDestinationCpu_field:
  obtains k where "k < 16" and "XFsbl_GetDestinationCpu p = of_nat (k * 256)"
proof -
  define d where "d = take_bit 4 (drop_bit 8 (PartitionAttributes p))"
  have m: "(3840 :: u32) = push_bit 8 (mask 4)" by (simp add: mask_eq_exp_minus_1)
  have "XFsbl_GetDestinationCpu p = push_bit 8 d"
    unfolding XFsbl_GetDestinationCpu_def d_def hw m
    by - (rule bit_word_eqI, auto simp: bit_simps)
  also have "\<dots> = d * 256" by (simp add: push_bit_eq_mult)
  also have "\<dots> = of_nat (unat d * 256)" by simp
  finally have "XFsbl_GetDestinationCpu p = of_nat (unat d * 256)" .
  moreover have "unat d < 16"
    unfolding d_def using take_bit_nat_less_exp [of 4] by (simp add: unsigned_take_bit_eq)
  ultimately show thesis using that by blast
qed

lemma header_acceptable_dest_cpu:
  assumes "header_acceptable W e rc Reset p" and "rc \<in> cpu_ids"
  shows "dest_cpu p rc \<in> cpu_ids"
proof (cases "XFsbl_GetDestinationCpu p = XIH_PH_ATTRB_DEST_CPU_NONE")
  case True
  with assms(2) show ?thesis by (simp add: dest_cpu_def)
next
  case False
  obtain k where k: "k < 16" "XFsbl_GetDestinationCpu p = of_nat (k * 256)"
    by (rule GetDestinationCpu_field)
  have "XFsbl_GetDestinationCpu p \<le> XIH_PH_ATTRB_DEST_CPU_PMU"
    using assms(1) False by (simp add: header_acceptable_def Let_def dest_cpu_def)
  moreover have "k \<in> {0, 1, 2, 3, 4, 5, 6, 7, 8, 9, 10, 11, 12, 13, 14, 15}"
    using k(1) by (simp, presburger)
  ultimately show ?thesis
    using k(2) False by (auto simp: dest_cpu_def cpu_ids_def hw)
qed

lemma PartitionLoad_safe:
  assumes "load_inv s" and "unat n < 32" and p: "p = PartitionHeader s ! unat n"
    and cpu: "cpu = dest_cpu p (ProcessorID s)"
  shows "wp (XFsbl_PartitionLoad W n)
    (\<lambda>Status t. load_inv t \<and> (handoff_cpus t = handoff_cpus s \<or>
        cpu \<notin> set (handoff_cpus s) \<and> handoff_cpus t = handoff_cpus s @ [cpu]))
    (\<lambda>_ _. False) s"
proof (cases "cpu \<in> cpu_ids")
  case True
  then have "loading_inv n p (ProcessorID s) (handoff_cpus s) s"
    using assms by (simp add: loading_inv_def)
  from keepsD [OF loading.keeps_PartitionLoad this, of W] show ?thesis
    by - (rule wp_mono, assumption, auto simp: loading_inv_def cpu)
next
  case False
  have "\<not> header_acceptable W e (ProcessorID s) Reset p" for e Reset
    using header_acceptable_dest_cpu False assms(1) cpu by (auto simp: load_inv_def)
  then have no: "XFsbl_ValidatePartitionFields W e p (ProcessorID s) Reset \<noteq> XFSBL_SUCCESS" for e Reset
    by (simp add: ValidatePartitionFields_ok_iff)
  have codes: "XFSBL_SUCCESS_NOT_PARTITION_OWNER \<noteq> XFSBL_SUCCESS" "XFSBL_ERROR_PH_CHECKSUM_FAILED \<noteq> XFSBL_SUCCESS"
    by (simp_all add: hw)
  have inv: "load_inv (s\<lparr>trace := h\<rparr>) \<and> handoff_cpus (s\<lparr>trace := h\<rparr>) = handoff_cpus s" for h
    using assms(1) by (simp add: load_inv_def instance_shape_def handoff_inv_def handoff_cpus_def)
  show ?thesis
    using assms(2) inv no codes assms(1)
    by (simp add: XFsbl_PartitionLoad_def XFsbl_PartitionHeaderValidation_def XFsbl_RestartWdt_def
        XFsbl_ValidatePartitionHeader_def wp_eq p [symmetric] Let_def)
qed

section \<open>What loading a partition has done\<close>

definition hist :: "io list \<Rightarrow> u32 \<Rightarrow> XFsblPs_PartitionHeader \<Rightarrow> u32 \<Rightarrow> u32 \<Rightarrow> (io list \<Rightarrow> bool) \<Rightarrow> fsbl \<Rightarrow> bool" where
  "hist h0 n p rc Reset P s \<longleftrightarrow> since h0 P s \<and> unat n < 32 \<and> PartitionHeader s ! unat n = p \<and>
     ProcessorID s = rc \<and> ResetReason s = Reset"

lemma hist_split: "hist h0 n p rc Reset P = (\<lambda>s. since h0 P s \<and> (unat n < 32 \<and> PartitionHeader s ! unat n = p \<and>
     ProcessorID s = rc \<and> ResetReason s = Reset))"
  by (rule ext) (simp add: hist_def)

interpretation fixed: buffers_closed "\<lambda>s. unat n < 32 \<and> PartitionHeader s ! unat n = p \<and> ProcessorID s = rc \<and> ResetReason s = Reset"
  for n p rc Reset
  by unfold_locales simp_all

interpretation hist: partition_closed "hist h0 n p rc Reset (contains B pre)" any_exit n p rc for h0 n p rc Reset B pre
proof (unfold_locales)
  show "keeps any_exit (hist h0 n p rc Reset (contains B pre)) (XFsbl_UpdateHandoff p (dest_cpu p rc))"
    by (rule keeps_UpdateHandoff) (simp add: hist_def since_def)
qed (auto simp: hist_def since_def dest: contains_later [where e = "_"])

text \<open>The address of the partition in the loader's memory map.\<close>

definition load_address :: "u32 \<Rightarrow> u64 \<Rightarrow> u64" where
  "load_address cpu Address =
     (if cpu = XIH_PH_ATTRB_DEST_CPU_R5_0 \<and> Address \<in> {0..<0x10000} \<union> {0x20000..<0x30000}
      then 0xFFE00000 + Address
      else if cpu = XIH_PH_ATTRB_DEST_CPU_R5_1 \<and> Address \<in> {0..<0x10000} \<union> {0x20000..<0x30000}
      then 0xFFE90000 + Address
      else if cpu = XIH_PH_ATTRB_DEST_CPU_R5_L \<and> Address < 0x40000 then 0xFFE00000 + Address
      else Address)"

lemma in_tcm_banks_iff: "in_tcm_banks Address = (Address \<in> {0..<0x10000} \<union> {0x20000..<0x30000})"
  by (auto simp: in_tcm_banks_def hw)

lemma GetLoadAddress_ok:
  "XFsbl_GetLoadAddress cpu Address Len = (XFSBL_SUCCESS, la) \<Longrightarrow> la = load_address cpu Address"
proof -
  have e: "XFSBL_ERROR_LOAD_ADDRESS \<noteq> XFSBL_SUCCESS" by (simp add: hw)
  have r5l: "zx (XFSBL_R5_TCM_START_ADDRESS + XFSBL_R5_TCM_BANK_LENGTH * 4) = 0x40000" by (simp add: hw)
  have addr: "zx XFSBL_R50_HIGH_ATCM_START_ADDRESS = 0xFFE00000" "zx XFSBL_R51_HIGH_ATCM_START_ADDRESS = 0xFFE90000"
    by (simp_all add: hw)
  assume "XFsbl_GetLoadAddress cpu Address Len = (XFSBL_SUCCESS, la)"
  with e show ?thesis
    unfolding XFsbl_GetLoadAddress_def load_address_def in_tcm_banks_iff r5l addr
    by (auto split: if_splits)
qed

text \<open>A successful copy of \<open>len\<close> bytes from the boot device to \<open>la\<close>.\<close>

definition copied :: "u64 \<Rightarrow> u32 \<Rightarrow> io list \<Rightarrow> bool" where
  "copied la len b \<longleftrightarrow> (\<exists>ops src. b = [Ext (Dev (DeviceCopy ops src la len)) XFSBL_SUCCESS])"

lemma PartitionCopy_place_establishes:
  "establishes (hist h0 n p rc Reset (contains B pre))
     (hist h0 n p rc Reset (contains (copied (load_address cpu a) len) (contains B pre)))
     (PartitionCopy_place W p r cpu src a len)"
proof -
  have copy: "establishes (hist h0 n p rc Reset (contains B pre))
     (hist h0 n p rc Reset (contains (copied la len) (contains B pre)))
     (bindM (getM DeviceOps) (\<lambda>ops. extM W (Dev (DeviceCopy ops src la len))))" for la
    by (auto simp: establishes_def wp_eq hist_def copied_def intro!: since_now [where B = "copied la len" and
        b = "[Ext (Dev (DeviceCopy ops src la len)) XFSBL_SUCCESS]" for ops])
  show ?thesis
  proof (cases "XFsbl_GetLoadAddress cpu a len")
    case (Pair Status la)
    then show ?thesis
      using GetLoadAddress_ok [of cpu a len la]
      unfolding PartitionCopy_place_def
      by (auto intro!: establishes_fail establishes_try_second establishes_seq copy
          hist.keeps_ConfigureMemory keeps_intro hist.io_keeps simp: PartitionCopy_pmu_def)
  qed
qed

lemma PartitionCopy_establishes:
  assumes "UnEncryptedDataWordLength p \<noteq> 0" and "XFsbl_GetDestinationDevice p \<noteq> XIH_PH_ATTRB_DEST_DEVICE_PL"
    and "len = TotalDataWordLength p * 4 - (if bit (PartitionAttributes p) 15 then XFSBL_AUTH_CERT_MIN_SIZE else 0)"
  shows "establishes (hist h0 n p rc Reset (contains B pre))
     (hist h0 n p rc Reset (contains (copied (load_address (dest_cpu p rc) (DestinationLoadAddress p)) len) (contains B pre)))
     (XFsbl_PartitionCopy W n)"
  unfolding establishes_def
proof (intro allI impI)
  fix s assume s: "hist h0 n p rc Reset (contains B pre) s"
  let ?Q = "hist h0 n p rc Reset (contains (copied (load_address (dest_cpu p rc) (DestinationLoadAddress p)) len) (contains B pre))"
  note place = PartitionCopy_place_establishes [of h0 n p rc Reset B pre "dest_cpu p rc" "DestinationLoadAddress p" len W rc,
      unfolded establishes_def, rule_format]
  have "hist h0 n p rc Reset (contains B pre) (s\<lparr>trace := e # trace s, AuthBuffer := b\<rparr>)" for e b
    by (rule hist.AuthBuffer_step [OF hist.io_step [OF s], simplified])
  moreover have "XIH_PARTITION_WORD_LENGTH = 4" by (simp add: hw)
  moreover have "unat n < 32" "PartitionHeader s ! unat n = p" "ProcessorID s = rc"
    using s by (simp_all add: hist_def)
  ultimately show "wp (XFsbl_PartitionCopy W n) (\<lambda>x t. x = XFSBL_SUCCESS \<longrightarrow> ?Q t) (\<lambda>_ _. True) s"
    using s assms place
    by (cases "bit (PartitionAttributes p) 15")
      (simp_all add: XFsbl_PartitionCopy_def PartitionCopy_cert_def wp_eq Let_def IsRsaSignaturePresent_bit)
qed

lemma PartitionValidation_establishes:
  assumes "bit (PartitionAttributes p) 15" and "XFsbl_GetDestinationDevice p \<noteq> XIH_PH_ATTRB_DEST_DEVICE_PL"
  shows "establishes (hist h0 n p rc Reset (contains B pre))
     (hist h0 n p rc Reset (contains (partition_signature W (load_address (dest_cpu p rc) (DestinationLoadAddress p))
         (TotalDataWordLength p * 4) (auth_buffer_addr W))
       (contains (spk_signature W (auth_buffer_addr W)) (contains B pre))))
     (XFsbl_PartitionValidation W n)"
    (is "establishes ?I ?Q _")
proof -
  let ?la = "load_address (dest_cpu p rc) (DestinationLoadAddress p)"
  have auth: "establishes ?I ?Q (PartitionValidation_auth W p enc ?la)" for enc
    using assms(2) establishes_frame [OF Authentication_establishes fixed.keeps_Authentication]
    by (simp add: PartitionValidation_auth_def hist_split)
  have codes: "XFSBL_ERROR_AES_INITIALIZE \<noteq> XFSBL_SUCCESS" "XFSBL_ERROR_HOOK_BEFORE_BITSTREAM_DOWNLOAD \<noteq> XFSBL_SUCCESS"
    "XFSBL_ERROR_PARTITION_CHECKSUM_FAILED \<noteq> XFSBL_SUCCESS" "XFSBL_ERROR_LOAD_ADDRESS \<noteq> XFSBL_SUCCESS"
    by (simp_all add: hw)
  have checks: "establishes ?I ?Q (PartitionValidation_checks W n p ?la k)" if "keeps any_exit ?Q k" for k
    using assms that codes
    unfolding PartitionValidation_checks_def Let_def IsRsaSignaturePresent_bit
    by (auto intro!: establishes_get_bind auth keeps_intro hist.auth_keeps hist.keeps_CalcualteCheckSum
        hist.keeps_PartitionValidation_pl
        establishes_try_as_second [OF _ establishes_try_as_second [OF _ establishes_try_second [OF _
          establishes_try_as_second [OF _ establishes_try_first]]]])
  show ?thesis
    unfolding establishes_def
  proof (intro allI impI)
    fix s assume s: "?I s"
    then have "unat n < 32" "PartitionHeader s ! unat n = p" "ProcessorID s = rc"
      by (simp_all add: hist_def)
    obtain Status la where g: "XFsbl_GetLoadAddress (dest_cpu p rc) (DestinationLoadAddress p)
        (TotalDataWordLength p * 4) = (Status, la)" by fastforce
    show "wp (XFsbl_PartitionValidation W n) (\<lambda>x t. x = XFSBL_SUCCESS \<longrightarrow> ?Q t) (\<lambda>_ _. True) s"
    proof (cases "Status = XFSBL_SUCCESS")
      case True
      with g have "la = ?la" by (simp add: GetLoadAddress_ok)
      let ?k = "seqM (whenM (dest_cpu p rc \<noteq> XIH_PH_ATTRB_DEST_CPU_PMU) (XFsbl_UpdateHandoff p (dest_cpu p rc)))
        (retM XFSBL_SUCCESS)"
      have "establishes ?I ?Q (PartitionValidation_checks W n p ?la ?k)"
        by (intro checks keeps_intro hist.update)
      with s have "wp (PartitionValidation_checks W n p ?la ?k) (\<lambda>x t. x = XFSBL_SUCCESS \<longrightarrow> ?Q t) (\<lambda>_ _. True) s"
        by (simp add: establishes_def)
      then show ?thesis
        using assms g True \<open>la = ?la\<close> \<open>unat n < 32\<close> \<open>PartitionHeader s ! unat n = p\<close> \<open>ProcessorID s = rc\<close>
        by (simp add: XFsbl_PartitionValidation_def wp_get_PartitionHeader wp_bind wp_get Let_def IsRsaSignaturePresent_bit)
    next
      case False
      then show ?thesis
        using assms g \<open>unat n < 32\<close> \<open>PartitionHeader s ! unat n = p\<close> \<open>ProcessorID s = rc\<close>
        by (simp add: XFsbl_PartitionValidation_def wp_get_PartitionHeader wp_bind wp_get Let_def IsRsaSignaturePresent_bit wp_ret)
    qed
  qed
qed

lemma ValidatePartitionFields_owner:
  assumes "Reset \<noteq> XFSBL_APU_ONLY_RESET"
  shows "XFsbl_ValidatePartitionFields W e p rc Reset \<noteq> XFSBL_SUCCESS_NOT_PARTITION_OWNER"
proof -
  have codes: "XFSBL_SUCCESS \<noteq> XFSBL_SUCCESS_NOT_PARTITION_OWNER" "XFSBL_ERROR_ADDRESS \<noteq> XFSBL_SUCCESS_NOT_PARTITION_OWNER"
    "XFSBL_ERROR_INVALID_CHECKSUM_TYPE \<noteq> XFSBL_SUCCESS_NOT_PARTITION_OWNER"
    "XFSBL_ERROR_INVALID_CPU_TYPE \<noteq> XFSBL_SUCCESS_NOT_PARTITION_OWNER"
    "XFSBL_ERROR_LS_CPU_TYPE \<noteq> XFSBL_SUCCESS_NOT_PARTITION_OWNER"
    "XFSBL_ERROR_INVALID_DEST_DEVICE \<noteq> XFSBL_SUCCESS_NOT_PARTITION_OWNER"
    "XFSBL_FAILURE \<noteq> XFSBL_SUCCESS_NOT_PARTITION_OWNER"
    "XFSBL_ERROR_XIP_AUTH_ENC_PRESENT \<noteq> XFSBL_SUCCESS_NOT_PARTITION_OWNER"
    "XFSBL_ERROR_XIP_EXEC_ADDRESS \<noteq> XFSBL_SUCCESS_NOT_PARTITION_OWNER"
    "XFSBL_ERROR_PARTITION_LENGTH \<noteq> XFSBL_SUCCESS_NOT_PARTITION_OWNER" "XFSBL_ERROR_ADDRESS \<noteq> XFSBL_SUCCESS"
    by (simp_all add: hw)
  have t: "XFsbl_ValidatePartitionTarget W p rc cpu \<noteq> XFSBL_SUCCESS_NOT_PARTITION_OWNER" for cpu
    unfolding XFsbl_ValidatePartitionTarget_def CheckValidMemoryAddress_cases Let_def if_status
    by (simp add: if_error if_ok codes split del: if_split)
  show ?thesis
    unfolding XFsbl_ValidatePartitionFields_def Let_def
    by (simp add: if_error codes t assms split del: if_split)
qed

definition loaded_signed :: "world \<Rightarrow> XFsblPs_PartitionHeader \<Rightarrow> u32 \<Rightarrow> io list \<Rightarrow> bool" where
  "loaded_signed W p rc h \<longleftrightarrow>
     (let la = load_address (dest_cpu p rc) (DestinationLoadAddress p); ac = auth_buffer_addr W;
          len = TotalDataWordLength p * 4
      in contains (partition_signature W la len ac) (contains (spk_signature W ac)
           (contains (copied la (len - XFSBL_AUTH_CERT_MIN_SIZE)) (\<lambda>_. True))) h)"

lemma PartitionLoad_signed:
  assumes "unat n < 32" and "PartitionHeader s ! unat n = p" and "bit (PartitionAttributes p) 15"
    and "XFsbl_GetPartitionOwner p = XIH_PH_ATTRB_PART_OWNER_FSBL"
    and "XFsbl_GetDestinationDevice p \<noteq> XIH_PH_ATTRB_DEST_DEVICE_PL"
    and "ResetReason s \<noteq> XFSBL_APU_ONLY_RESET"
  shows "wp (XFsbl_PartitionLoad W n)
    (\<lambda>Status t. Status = XFSBL_SUCCESS \<longrightarrow> (\<exists>h. trace t = h @ trace s \<and> loaded_signed W p (ProcessorID s) h))
    (\<lambda>_ _. True) s"
proof -
  let ?len = "TotalDataWordLength p * 4 - XFSBL_AUTH_CERT_MIN_SIZE"
  let ?la = "load_address (dest_cpu p (ProcessorID s)) (DestinationLoadAddress p)"
  let ?hist = "hist (trace s) n p (ProcessorID s) (ResetReason s)"
  let ?start = "contains (\<lambda>b. b = []) (\<lambda>_. True)"
  let ?copied = "contains (copied ?la ?len) ?start"
  let ?signed = "contains (partition_signature W ?la (TotalDataWordLength p * 4) (auth_buffer_addr W))
    (contains (spk_signature W (auth_buffer_addr W)) ?copied)"
  let ?body = "tryM (XFsbl_PartitionCopy W n) (tryM (XFsbl_PartitionValidation W n)
      (seqM (XFsbl_CheckPmuFw W n) (retM XFSBL_SUCCESS)))"
  have body: "establishes (?hist ?start) (?hist ?signed) ?body" if "UnEncryptedDataWordLength p \<noteq> 0"
    using assms(3,5) that
    by (intro establishes_try_chain [OF PartitionCopy_establishes establishes_try_first [OF PartitionValidation_establishes]]
        keeps_intro hist.keeps_CheckPmuFw) auto
  have start: "?hist ?start (s\<lparr>trace := e # trace s\<rparr>)" "?hist ?start (s\<lparr>trace := d # e # trace s\<rparr>)" for d e
    using assms(1,2) by (simp_all add: hist_def since_def contains_any)
  have final: "\<exists>h. trace t = h @ trace s \<and> loaded_signed W p (ProcessorID s) h" if "?hist ?signed t" for t
    using that by (fastforce simp: hist_def since_def loaded_signed_def Let_def elim!: contains_mono intro: TrueI)
  have wp: "wp ?body (\<lambda>Status t. Status = XFSBL_SUCCESS \<longrightarrow>
      (\<exists>h. trace t = h @ trace s \<and> loaded_signed W p (ProcessorID s) h)) (\<lambda>_ _. True) u"
    if "?hist ?start u" "UnEncryptedDataWordLength p \<noteq> 0" for u
  proof -
    have "wp ?body (\<lambda>Status t. Status = XFSBL_SUCCESS \<longrightarrow> ?hist ?signed t) (\<lambda>_ _. True) u"
      using body [OF that(2)] that(1) by (simp add: establishes_def)
    then show ?thesis by (rule wp_mono) (auto dest: final)
  qed
  have ok: "UnEncryptedDataWordLength p \<noteq> 0"
    if "XFsbl_ValidatePartitionFields W e p rc Reset = XFSBL_SUCCESS" for e rc Reset
    using that assms(3) by (auto simp: ValidatePartitionFields_ok_iff header_acceptable_def Let_def)
  have codes: "XFSBL_ERROR_PH_CHECKSUM_FAILED \<noteq> XFSBL_SUCCESS_NOT_PARTITION_OWNER"
    "XFSBL_ERROR_PH_CHECKSUM_FAILED \<noteq> XFSBL_SUCCESS" by (simp_all add: hw)
  show ?thesis
    using assms ok wp start codes
    by (simp add: XFsbl_PartitionLoad_def XFsbl_PartitionHeaderValidation_def XFsbl_RestartWdt_def wp_bind wp_seq wp_when
        wp_call wp_get wp_get_PartitionHeader wp_In32 wp_ret XFsbl_ValidatePartitionHeader_def ValidatePartitionFields_owner)
qed


section \<open>An example partition\<close>

text \<open>A signed partition for A53-0, on a device where every call succeeds.\<close>

definition secure_partition :: XFsblPs_PartitionHeader where
  "secure_partition = \<lparr>EncryptedDataWordLength = 0x800, UnEncryptedDataWordLength = 0x800,
     TotalDataWordLength = 0x1000, NextPartitionOffset = 0x50, DestinationExecutionAddress = 0x80000,
     DestinationLoadAddress = 0x80000, DataWordOffset = 0x400, PartitionAttributes = 0x8116,
     SectionCount = 1, ChecksumWordOffset = 0, ImageHeaderOffset = 0, AuthCertificateOffset = 0,
     PH_Iv = 0, PH_Checksum = 0xffef5a98\<rparr>"

definition secure_world :: world where
  "secure_world = quiet_world\<lparr>ext_ret := (\<lambda>_ c. if c = Dma CsuDmaLookupConfig then 1 else 0),
     ext_byte := (\<lambda>_ _ k. if k = 2 then 8 else 0)\<rparr>"

definition secure_state :: fsbl where
  "secure_state = fsbl_init\<lparr>ProcessorID := XIH_PH_ATTRB_DEST_CPU_A53_0,
     ImageHeaderTable := (ImageHeaderTable fsbl_init)\<lparr>NoOfPartitions := 3\<rparr>,
     PartitionHeader := (PartitionHeader fsbl_init)[0 := secure_partition]\<rparr>"

lemma secure_partition_fields:
  "XFsbl_GetDestinationCpu secure_partition = XIH_PH_ATTRB_DEST_CPU_A53_0"
  "dest_cpu secure_partition rc = XIH_PH_ATTRB_DEST_CPU_A53_0"
  "XFsbl_GetDestinationDevice secure_partition = 0x10"
  "XFsbl_GetPartitionOwner secure_partition = XIH_PH_ATTRB_PART_OWNER_FSBL"
  "XFsbl_IsRsaSignaturePresent secure_partition = XIH_PH_ATTRB_RSA_SIGNATURE"
  "XFsbl_IsEncrypted secure_partition = 0"
  "XFsbl_GetChecksumType secure_partition = XIH_PH_ATTRB_NOCHECKSUM"
  "bit (PartitionAttributes secure_partition) 15"
  by (simp_all add: secure_partition_def XFsbl_GetDestinationCpu_def dest_cpu_def XFsbl_GetDestinationDevice_def
      XFsbl_GetPartitionOwner_def XFsbl_IsRsaSignaturePresent_def XFsbl_IsEncrypted_def XFsbl_GetChecksumType_def hw)

lemma secure_state_run:
  "ends (XFsbl_PartitionLoad secure_world 0) (\<lambda>Status t. Status = XFSBL_SUCCESS) secure_state"
proof -
  have world: "ext_ret secure_world h c = (if c = Dma CsuDmaLookupConfig then 1 else XFSBL_SUCCESS)"
    "reg_in secure_world h a = 0" "ext_byte secure_world h c k = (if k = 2 then 8 else 0)"
    "cfg_wdt_mask secure_world = None" "cfg_ddr_end secure_world = 0x7FFFFFFF" "cfg_hi_ddr secure_world = None" for h c a k
    by (simp_all add: secure_world_def quiet_world_def hw)
  have state: "PartitionHeader secure_state ! 0 = secure_partition" "ResetReason secure_state = 0"
    "ProcessorID secure_state = XIH_PH_ATTRB_DEST_CPU_A53_0" "HandoffCpuNo secure_state = 0"
    by (simp_all add: secure_state_def fsbl_init_def)
  have chk: "XFsbl_ValidateChecksum (ph_words secure_partition) (XIH_PH_LEN div 4) = XFSBL_SUCCESS"
    using ph.valid_iff [of secure_partition] by (simp add: ph_words_def secure_partition_def hw)
  have acc: "XFsbl_ValidatePartitionFields secure_world 0 secure_partition XIH_PH_ATTRB_DEST_CPU_A53_0 0 = XFSBL_SUCCESS"
    unfolding ValidatePartitionFields_ok_iff header_acceptable_def Let_def secure_partition_fields load_region_def
    by (simp add: secure_partition_def world hw)
  have codes: "XFSBL_SUCCESS \<noteq> XFSBL_SUCCESS_NOT_PARTITION_OWNER" "(0x10 :: u32) \<noteq> XIH_PH_ATTRB_DEST_DEVICE_PL"
    "(0 :: u32) \<noteq> XIH_PH_ATTRB_ENCRYPTION" "XIH_PH_ATTRB_DEST_CPU_A53_0 \<noteq> XIH_PH_ATTRB_DEST_CPU_PMU"
    "unat XFSBL_AUTH_CERT_MIN_SIZE = 3776" "unat XFSBL_SPKID_AC_ALIGN = 4"
    "XFSBL_USER_EFUSE \<noteq> XFSBL_SPKID_EFUSE" "drop_bit (unat XFSBL_AH_ATTR_SPK_ID_FUSE_SEL_SHIFT) 0x80000 AND
       drop_bit (unat XFSBL_AH_ATTR_SPK_ID_FUSE_SEL_SHIFT) XFSBL_AH_ATTR_SPK_ID_FUSE_SEL_MASK = XFSBL_USER_EFUSE"
    by (simp_all add: hw)
  have addr: "XFsbl_GetLoadAddress XIH_PH_ATTRB_DEST_CPU_A53_0 a l = (XFSBL_SUCCESS, a)" for a l
    by (simp add: XFsbl_GetLoadAddress_def hw)
  have mem: "XFsbl_ConfigureMemory W r XIH_PH_ATTRB_DEST_CPU_A53_0 a = retM XFSBL_SUCCESS" for W r a
    by (simp add: XFsbl_ConfigureMemory_def hw)
  have len: "UnEncryptedDataWordLength secure_partition \<noteq> 0" by (simp add: secure_partition_def)
  have le: "le32 (\<lambda>k. if k < 3776 then ext_byte secure_world h c k else f k) 0 = 0x80000" for h c f
    by (simp add: le32_def world)
  have copy: "ends (XFsbl_PartitionCopy secure_world 0) (\<lambda>x t. x = XFSBL_SUCCESS \<and>
      PartitionHeader t = PartitionHeader secure_state \<and> ResetReason t = 0 \<and> ProcessorID t = ProcessorID secure_state \<and>
      HandoffCpuNo t = 0 \<and> le32 (AuthBuffer t) 0 = 0x80000) u"
    if "u = secure_state\<lparr>trace := h\<rparr>" for h u
    using that
    by (simp add: XFsbl_PartitionCopy_def PartitionCopy_cert_def PartitionCopy_place_def ends_eq world state secure_partition_fields
        Let_def codes addr mem len le)
  have valid: "ends (XFsbl_PartitionValidation secure_world 0) (\<lambda>x t. x = XFSBL_SUCCESS \<and>
      PartitionHeader t = PartitionHeader secure_state) u"
    if "PartitionHeader u = PartitionHeader secure_state" "ResetReason u = 0" "ProcessorID u = ProcessorID secure_state"
      "HandoffCpuNo u = 0" "le32 (AuthBuffer u) 0 = 0x80000" for u
    using that
    by (simp add: XFsbl_PartitionValidation_def PartitionValidation_checks_def PartitionValidation_auth_def
        XFsbl_Authentication_def XFsbl_SpkVer_def XFsbl_PartitionSignVer_def rsa_verify_def SpkVer_hash_def
        SpkVer_revocation_def XFsbl_CsuDmaInit_def XFsbl_ShaStart_def XFsbl_ShaUpdate_def XFsbl_ShaFinish_def
        XFsbl_UpdateHandoff_def XFsbl_CheckHandoffCpu_def
        ends_eq world state secure_partition_fields Let_def codes addr)
  have pmu: "ends (XFsbl_CheckPmuFw secure_world 0) (\<lambda>_ _. True) u"
    if "PartitionHeader u = PartitionHeader secure_state" for u
    using that by (simp add: XFsbl_CheckPmuFw_def CheckPmuFw_done_def ends_eq state secure_partition_fields codes)
  show ?thesis
    unfolding XFsbl_PartitionLoad_def XFsbl_PartitionHeaderValidation_def XFsbl_ValidatePartitionHeader_def
    by (simp add: ends_eq world state chk acc codes secure_partition_fields)
      (rule ends_mono [OF copy [OF refl]], auto intro!: ends_mono [OF valid] ends_mono [OF pmu] simp: ends_ret)
qed


section \<open>Properties\<close>

text \<open>C6: When loading a signed partition of the processing system returns success, the steps it
  took contain, in this order: the copy of the partition without its certificate to its
  load address, the successful verification of the secondary key with the primary key, and
  the successful verification of the partition's signature over exactly the data at that
  load address followed by the certificate.\<close>

theorem PartitionLoad_authenticated:
  assumes "XFsbl_PartitionLoad W n s = Some (Ret XFSBL_SUCCESS, t)"
    and "PartitionHeader s ! unat n = p" and "unat n < 32" and "bit (PartitionAttributes p) 15"
    and "XFsbl_GetPartitionOwner p = XIH_PH_ATTRB_PART_OWNER_FSBL"
    and "XFsbl_GetDestinationDevice p \<noteq> XIH_PH_ATTRB_DEST_DEVICE_PL"
    and "ResetReason s \<noteq> XFSBL_APU_ONLY_RESET"
  shows "\<exists>h. trace t = h @ trace s \<and> loaded_signed W p (ProcessorID s) h"
  using wp_Ret [OF PartitionLoad_signed assms(1)] assms by blast

lemma PartitionLoad_authenticated_witness:
  "\<exists>t h. XFsbl_PartitionLoad secure_world 0 secure_state = Some (Ret XFSBL_SUCCESS, t) \<and>
     trace t = h @ trace secure_state \<and>
     loaded_signed secure_world secure_partition XIH_PH_ATTRB_DEST_CPU_A53_0 h"
proof -
  obtain t where run: "XFsbl_PartitionLoad secure_world 0 secure_state = Some (Ret XFSBL_SUCCESS, t)"
    using secure_state_run by (auto simp: ends_def)
  have s: "PartitionHeader secure_state ! unat (0 :: u32) = secure_partition" "ResetReason secure_state \<noteq> XFSBL_APU_ONLY_RESET"
    "ProcessorID secure_state = XIH_PH_ATTRB_DEST_CPU_A53_0" "XFsbl_GetDestinationDevice secure_partition \<noteq> XIH_PH_ATTRB_DEST_DEVICE_PL"
    by (simp_all add: secure_state_def fsbl_init_def hw XFsbl_GetDestinationDevice_def secure_partition_def)
  have "\<exists>h. trace t = h @ trace secure_state \<and> loaded_signed secure_world secure_partition (ProcessorID secure_state) h"
    by (rule PartitionLoad_authenticated [OF run s(1) _ secure_partition_fields(8) secure_partition_fields(4) s(4,2)]) simp
  with run s(3) show ?thesis by auto
qed

text \<open>C7: Loading any of the 32 partitions keeps the instance in shape: it never leaves the arrays
  of partition headers and of handoff values, the handoff table has at most one entry per
  CPU, and the call adds at most the CPU of the loaded partition to it.\<close>

theorem PartitionLoad_handoff_table:
  assumes "load_inv s" and "unat n < 32" and "XFsbl_PartitionLoad W n s = Some (r, t)"
  shows "r \<noteq> Halted OutOfBounds \<and> load_inv t \<and> length (handoff_cpus t) \<le> 8 \<and>
    (handoff_cpus t = handoff_cpus s \<or>
     handoff_cpus t = handoff_cpus s @ [dest_cpu (PartitionHeader s ! unat n) (ProcessorID s)])"
proof -
  have "r \<noteq> Halted OutOfBounds \<and> load_inv t \<and> (handoff_cpus t = handoff_cpus s \<or>
     handoff_cpus t = handoff_cpus s @ [dest_cpu (PartitionHeader s ! unat n) (ProcessorID s)])"
    using PartitionLoad_safe [OF assms(1,2) refl refl, of W] assms(3) by (cases r) (auto simp: wp_def)
  moreover from this have "length (handoff_cpus t) \<le> card cpu_ids"
    by (intro handoff.bounded) (simp add: load_inv_def)
  ultimately show ?thesis by (simp add: cpu_ids_card)
qed

lemma PartitionLoad_handoff_table_witness:
  "\<exists>t. XFsbl_PartitionLoad secure_world 0 secure_state = Some (Ret XFSBL_SUCCESS, t) \<and>
     load_inv t \<and> set (handoff_cpus t) \<subseteq> {XIH_PH_ATTRB_DEST_CPU_A53_0}"
proof -
  obtain t where run: "XFsbl_PartitionLoad secure_world 0 secure_state = Some (Ret XFSBL_SUCCESS, t)"
    using secure_state_run by (auto simp: ends_def)
  have inv: "load_inv secure_state"
    by (simp add: load_inv_def secure_state_def fsbl_init_def instance_shape_def handoff_inv_def handoff_cpus_def cpu_ids_def)
  have s: "PartitionHeader secure_state ! 0 = secure_partition" "handoff_cpus secure_state = []"
    by (simp_all add: secure_state_def fsbl_init_def handoff_cpus_def)
  from PartitionLoad_handoff_table [OF inv _ run] s show ?thesis
    using run by (auto simp: secure_partition_fields)
qed

definition pmu_partition :: XFsblPs_PartitionHeader where
  "pmu_partition = secure_partition\<lparr>PartitionAttributes := XIH_PH_ATTRB_DEST_CPU_PMU OR 0x10,
     DestinationExecutionAddress := 0xFFDC0000, DestinationLoadAddress := 0xFFDC0000\<rparr>"

definition pmu_state :: fsbl where
  "pmu_state = secure_state\<lparr>PartitionHeader := replicate 32 pmu_partition\<rparr>"

definition pmu_world :: world where
  "pmu_world = secure_world\<lparr>reg_in := (\<lambda>_ a. if a = PMU_GLOBAL_GLOBAL_CNTRL
     then PMU_GLOBAL_GLOBAL_CNTRL_MB_SLEEP_MASK else 0)\<rparr>"

lemma pmu_partition_fields:
  "dest_cpu pmu_partition rc = XIH_PH_ATTRB_DEST_CPU_PMU"
  "XFsbl_GetDestinationDevice pmu_partition = 0x10"
  "XFsbl_IsRsaSignaturePresent pmu_partition \<noteq> XIH_PH_ATTRB_RSA_SIGNATURE"
  "UnEncryptedDataWordLength pmu_partition \<noteq> 0"
  "DestinationLoadAddress pmu_partition = 0xFFDC0000"
  by (simp_all add: pmu_partition_def secure_partition_def XFsbl_GetDestinationCpu_def dest_cpu_def
      XFsbl_GetDestinationDevice_def XFsbl_IsRsaSignaturePresent_def hw)

definition pmu_asleep :: "u32 \<Rightarrow> bool" where
  "pmu_asleep v \<longleftrightarrow> v AND PMU_GLOBAL_GLOBAL_CNTRL_MB_SLEEP_MASK = PMU_GLOBAL_GLOBAL_CNTRL_MB_SLEEP_MASK"

text \<open>C33: The body of a PMU firmware partition is only copied when the read of the PMU's control
  register just before it showed that the PMU is asleep, and it goes unchanged to its
  load address.\<close>

theorem PartitionCopy_pmu_asleep:
  assumes "XFsbl_PartitionCopy W n s = Some (Ret XFSBL_SUCCESS, t)"
    and "PartitionHeader s ! unat n = p" and "dest_cpu p (ProcessorID s) = XIH_PH_ATTRB_DEST_CPU_PMU"
    and "UnEncryptedDataWordLength p \<noteq> 0" and "XFsbl_GetDestinationDevice p \<noteq> XIH_PH_ATTRB_DEST_DEVICE_PL"
  shows "\<exists>ops src len v h. pmu_asleep v \<and> trace t =
    [Ext (Dev (DeviceCopy ops src (DestinationLoadAddress p) len)) XFSBL_SUCCESS, Rd PMU_GLOBAL_GLOBAL_CNTRL v] @ h"
    (is "?Q t")
proof -
  have addr: "XFsbl_GetLoadAddress XIH_PH_ATTRB_DEST_CPU_PMU a l = (XFSBL_SUCCESS, a)" for a l
    by (simp add: XFsbl_GetLoadAddress_def hw)
  have mem: "XFsbl_ConfigureMemory W r XIH_PH_ATTRB_DEST_CPU_PMU a = retM XFSBL_SUCCESS" for W r a
    by (simp add: XFsbl_ConfigureMemory_def hw)
  have poll: "wp (pollM W PMU_GLOBAL_GLOBAL_CNTRL (\<lambda>v. v AND PMU_GLOBAL_GLOBAL_CNTRL_MB_SLEEP_MASK
        = PMU_GLOBAL_GLOBAL_CNTRL_MB_SLEEP_MASK))
      (\<lambda>_ t. \<exists>v h. pmu_asleep v \<and> trace t = Rd PMU_GLOBAL_GLOBAL_CNTRL v # h) (\<lambda>_ _. True) u" for u
    by (rule wp_poll) (auto simp: pmu_asleep_def)
  have place: "wp (PartitionCopy_place W p r XIH_PH_ATTRB_DEST_CPU_PMU src (DestinationLoadAddress p) len)
      (\<lambda>Status t. Status = XFSBL_SUCCESS \<longrightarrow> ?Q t) (\<lambda>_ _. True) u" for r src len u
    by (auto simp: PartitionCopy_place_def addr mem PartitionCopy_pmu_def wp_eq intro!: wp_mono [OF poll])
  have "wp (XFsbl_PartitionCopy W n) (\<lambda>Status t. Status = XFSBL_SUCCESS \<longrightarrow> ?Q t) (\<lambda>_ _. True) s"
    using assms(2-5) place
    by (auto simp: XFsbl_PartitionCopy_def PartitionCopy_cert_def wp_eq Let_def)
  then show ?thesis
    using assms(1) by (auto dest: wp_Ret)
qed

lemma PartitionCopy_pmu_asleep_witness:
  "\<exists>t ops src len v h. XFsbl_PartitionCopy pmu_world 0 pmu_state = Some (Ret XFSBL_SUCCESS, t) \<and>
     pmu_asleep v \<and> trace t =
       [Ext (Dev (DeviceCopy ops src 0xFFDC0000 len)) XFSBL_SUCCESS, Rd PMU_GLOBAL_GLOBAL_CNTRL v] @ h"
proof -
  have state: "PartitionHeader pmu_state ! unat (0 :: u32) = pmu_partition" "ResetReason pmu_state = 0"
    by (simp_all add: pmu_state_def secure_state_def fsbl_init_def)
  have dev: "XFsbl_GetDestinationDevice pmu_partition \<noteq> XIH_PH_ATTRB_DEST_DEVICE_PL"
    by (simp add: pmu_partition_fields hw)
  have world: "reg_in pmu_world h PMU_GLOBAL_GLOBAL_CNTRL = PMU_GLOBAL_GLOBAL_CNTRL_MB_SLEEP_MASK"
    "ext_ret pmu_world h (Dev d) = XFSBL_SUCCESS" for h d
    by (simp_all add: pmu_world_def secure_world_def quiet_world_def hw)
  have addr: "XFsbl_GetLoadAddress XIH_PH_ATTRB_DEST_CPU_PMU a l = (XFSBL_SUCCESS, a)" for a l
    by (simp add: XFsbl_GetLoadAddress_def hw)
  have mem: "XFsbl_ConfigureMemory W r XIH_PH_ATTRB_DEST_CPU_PMU a = retM XFSBL_SUCCESS" for W r a
    by (simp add: XFsbl_ConfigureMemory_def hw)
  have "ends (XFsbl_PartitionCopy pmu_world 0) (\<lambda>Status t. Status = XFSBL_SUCCESS) pmu_state"
    using state
    by (auto simp: XFsbl_PartitionCopy_def PartitionCopy_cert_def PartitionCopy_place_def PartitionCopy_pmu_def
        ends_eq world pmu_partition_fields Let_def dev addr mem intro!: ends_poll)
  then obtain t where run: "XFsbl_PartitionCopy pmu_world 0 pmu_state = Some (Ret XFSBL_SUCCESS, t)"
    by (auto simp: ends_def)
  from PartitionCopy_pmu_asleep [OF run state(1) pmu_partition_fields(1) pmu_partition_fields(4) dev] run
  show ?thesis by (auto simp: pmu_partition_fields)
qed

text \<open>C30: The checksum of a partition is accepted exactly when its type is SHA-3, the stored hash
  can be read and its 48 bytes are those the hash engine computed over the loaded data.\<close>

theorem CalcualteCheckSum_accepts:
  assumes "unat n < 32"
  shows "let p = PartitionHeader s ! unat n;
      init = Ext (Crypto Sha3Initialize) (ext_ret W (trace s) (Crypto Sha3Initialize)) # trace s;
      digest = Crypto (Sha3Digest la (TotalDataWordLength p * 4));
      hashed = Ext digest (ext_ret W init digest) # init;
      stored = Dev (DeviceCopy (DeviceOps s) (ImageOffsetAddress s + ChecksumWordOffset p * 4)
                 (hash_addr W) XFSBL_HASH_TYPE_SHA3)
    in ends (XFsbl_CalcualteCheckSum W la n) (\<lambda>Status t. (Status = XFSBL_SUCCESS) =
     (XFsbl_GetChecksumType p = XIH_PH_ATTRB_HASH_SHA3 \<and> ext_ret W hashed stored = XFSBL_SUCCESS \<and>
      (\<forall>k<48. ext_byte W init digest k = ext_byte W hashed stored k))) s"
proof -
  have codes: "XFSBL_ERROR_INVALID_CHECKSUM_TYPE \<noteq> XFSBL_SUCCESS" "XFSBL_FAILURE \<noteq> XFSBL_SUCCESS" "unat XFSBL_HASH_TYPE_SHA3 = 48"
    by (simp_all add: hw)
  show ?thesis
    using assms codes
    by (simp add: XFsbl_CalcualteCheckSum_def XFsbl_CalcualteSHA_def XFsbl_ShaDigest_def ends_eq compare_hashs_loop_iff
        Let_def split del: if_split cong: if_cong) (auto split: if_splits)
qed


lemma CalcualteCheckSum_accepts_witness:
  "ends (XFsbl_CalcualteCheckSum secure_world 0x80000 0) (\<lambda>Status t. Status = XFSBL_SUCCESS)
     (secure_state\<lparr>PartitionHeader := replicate 32 (secure_partition\<lparr>PartitionAttributes := 0x3116\<rparr>)\<rparr>)"
proof -
  have "XFsbl_GetChecksumType (secure_partition\<lparr>PartitionAttributes := 0x3116\<rparr>) = XIH_PH_ATTRB_HASH_SHA3"
    by (simp add: XFsbl_GetChecksumType_def hw)
  moreover have "ext_ret secure_world h (Dev d) = XFSBL_SUCCESS" "ext_byte secure_world h c = (\<lambda>k. if k = 2 then 8 else 0)" for h d c
    by (simp_all add: secure_world_def quiet_world_def hw)
  ultimately show ?thesis
    using CalcualteCheckSum_accepts [where n = 0 and W = secure_world and la = "0x80000" and s = "secure_state\<lparr>PartitionHeader := replicate 32 (secure_partition\<lparr>PartitionAttributes := 0x3116\<rparr>)\<rparr>"]
    by (simp add: Let_def)
qed

lemma keeps_False: "keeps E (\<lambda>_. False) m"
  by (simp add: keeps_def)

lemma PartitionValidation_md5:
  assumes "XFsbl_GetChecksumType p = XIH_PH_ATTRB_CHECKSUM_MD5" and "Reset \<noteq> XFSBL_PS_ONLY_RESET"
  shows "establishes (hist h0 n p rc Reset (contains B pre)) (\<lambda>_. False) (XFsbl_PartitionValidation W n)"
    (is "establishes ?I _ _")
proof -
  have codes: "XFSBL_ERROR_AES_INITIALIZE \<noteq> XFSBL_SUCCESS" "XFSBL_ERROR_HOOK_BEFORE_BITSTREAM_DOWNLOAD \<noteq> XFSBL_SUCCESS"
    "XFSBL_ERROR_PARTITION_CHECKSUM_FAILED \<noteq> XFSBL_SUCCESS" "XFSBL_ERROR_INVALID_CHECKSUM_TYPE \<noteq> XFSBL_SUCCESS"
    "XIH_PH_ATTRB_CHECKSUM_MD5 \<noteq> XIH_PH_ATTRB_HASH_SHA3" "XIH_PH_ATTRB_CHECKSUM_MD5 \<noteq> XIH_PH_ATTRB_NOCHECKSUM"
    by (simp_all add: hw)
  have md5: "establishes ?I (\<lambda>_. False) (XFsbl_CalcualteCheckSum W a n)" for a
    using assms codes by (auto simp: establishes_def XFsbl_CalcualteCheckSum_def wp_eq hist_def)
  have checks: "establishes ?I (\<lambda>_. False) (PartitionValidation_checks W n p a k)" for a k
    using codes assms(1)
    unfolding PartitionValidation_checks_def Let_def
    by (auto intro!: establishes_get_bind keeps_intro hist.auth_keeps md5 keeps_False
        establishes_try_as_second [OF _ establishes_try_as_second [OF _ establishes_try_second [OF _
          establishes_try_as_first]]])
  show ?thesis
    unfolding establishes_def
  proof (intro allI impI)
    fix s assume s: "?I s"
    then have h: "unat n < 32" "PartitionHeader s ! unat n = p" "ProcessorID s = rc" "ResetReason s = Reset"
      by (simp_all add: hist_def)
    obtain Status la where g: "XFsbl_GetLoadAddress (dest_cpu p rc) (DestinationLoadAddress p)
        (TotalDataWordLength p * 4) = (Status, la)" by fastforce
    show "wp (XFsbl_PartitionValidation W n) (\<lambda>x t. x = XFSBL_SUCCESS \<longrightarrow> False) (\<lambda>_ _. True) s"
      using checks [unfolded establishes_def, rule_format, OF s] assms codes g
      by (simp add: XFsbl_PartitionValidation_def h wp_bind wp_get_PartitionHeader wp_get wp_ret Let_def)
  qed
qed

text \<open>A partition whose header asks for an MD5 checksum, a type that the validation of the
  header admits, is never loaded successfully after a power-on or system reset.\<close>

theorem PartitionLoad_md5_rejected:
  assumes "XFsbl_GetChecksumType (PartitionHeader s ! unat n) = XIH_PH_ATTRB_CHECKSUM_MD5"
    and "XFsbl_GetPartitionOwner (PartitionHeader s ! unat n) = XIH_PH_ATTRB_PART_OWNER_FSBL"
    and "ResetReason s = 0"
  shows "XFsbl_PartitionLoad W n s \<noteq> Some (Ret XFSBL_SUCCESS, t)"
proof (cases "unat n < 32")
  case True
  let ?p = "PartitionHeader s ! unat n"
  let ?hist = "hist (trace s) n ?p (ProcessorID s) 0 (contains (\<lambda>b. b = []) (\<lambda>_. True))"
  let ?body = "tryM (XFsbl_PartitionCopy W n) (tryM (XFsbl_PartitionValidation W n)
      (seqM (XFsbl_CheckPmuFw W n) (retM XFSBL_SUCCESS)))"
  have resets: "(0 :: u32) \<noteq> XFSBL_PS_ONLY_RESET" "(0 :: u32) \<noteq> XFSBL_APU_ONLY_RESET"
    by (simp_all add: hw)
  have "establishes ?hist (\<lambda>_. False) ?body"
    using assms(1) resets
    by (intro establishes_try_second establishes_try_first PartitionValidation_md5 hist.keeps_PartitionCopy keeps_False) auto
  then have "wp ?body (\<lambda>Status t. Status \<noteq> XFSBL_SUCCESS) (\<lambda>_ _. True) u" if "?hist u" for u
    using that by (simp add: establishes_def)
  moreover have "?hist (s\<lparr>trace := e # trace s\<rparr>)" "?hist (s\<lparr>trace := d # e # trace s\<rparr>)" for d e
    using assms True by (simp_all add: hist_def since_def contains_any)
  moreover have "XFSBL_ERROR_PH_CHECKSUM_FAILED \<noteq> XFSBL_SUCCESS_NOT_PARTITION_OWNER"
    "XFSBL_ERROR_PH_CHECKSUM_FAILED \<noteq> XFSBL_SUCCESS" by (simp_all add: hw)
  ultimately have "wp (XFsbl_PartitionLoad W n) (\<lambda>Status t. Status \<noteq> XFSBL_SUCCESS) (\<lambda>_ _. True) s"
    using assms True resets
    by (simp add: XFsbl_PartitionLoad_def XFsbl_PartitionHeaderValidation_def XFsbl_RestartWdt_def wp_bind wp_seq wp_when
        wp_call wp_get wp_get_PartitionHeader wp_In32 wp_ret XFsbl_ValidatePartitionHeader_def ValidatePartitionFields_owner)
  then show ?thesis by (auto dest: wp_Ret)
next
  case False
  have "wp (XFsbl_PartitionLoad W n) (\<lambda>Status t. False) (\<lambda>_ _. True) s"
    using False by (simp add: XFsbl_PartitionLoad_def XFsbl_PartitionHeaderValidation_def XFsbl_RestartWdt_def wp_bind wp_seq
        wp_when wp_call wp_get wp_get_PartitionHeader)
  then show ?thesis by (auto dest: wp_Ret)
qed

lemma PartitionLoad_md5_rejected_witness:
  "XFsbl_PartitionLoad secure_world 0 (secure_state\<lparr>PartitionHeader :=
       replicate 32 (secure_partition\<lparr>PartitionAttributes := 0x1116\<rparr>)\<rparr>) \<noteq> Some (Ret XFSBL_SUCCESS, fsbl_init)"
  by (rule PartitionLoad_md5_rejected)
    (simp_all add: secure_state_def fsbl_init_def XFsbl_GetChecksumType_def XFsbl_GetPartitionOwner_def hw)

definition short_partition :: XFsblPs_PartitionHeader where
  "short_partition = secure_partition\<lparr>EncryptedDataWordLength := 1, UnEncryptedDataWordLength := 1, TotalDataWordLength := 2\<rparr>"

definition short_state :: fsbl where
  "short_state = secure_state\<lparr>PartitionHeader := replicate 32 short_partition\<rparr>"

lemma short_partition_fields:
  "XFsbl_GetDestinationCpu short_partition = XIH_PH_ATTRB_DEST_CPU_A53_0"
  "dest_cpu short_partition rc = XIH_PH_ATTRB_DEST_CPU_A53_0"
  "XFsbl_GetDestinationDevice short_partition = 0x10"
  "XFsbl_IsRsaSignaturePresent short_partition = XIH_PH_ATTRB_RSA_SIGNATURE"
  "XFsbl_GetChecksumType short_partition = XIH_PH_ATTRB_NOCHECKSUM"
  "bit (PartitionAttributes short_partition) 15" "\<not> bit (PartitionAttributes short_partition) 7"
  "UnEncryptedDataWordLength short_partition = 1" "EncryptedDataWordLength short_partition = 1"
  "TotalDataWordLength short_partition = 2" "DestinationLoadAddress short_partition = 0x80000"
  by (simp_all add: short_partition_def secure_partition_def XFsbl_GetDestinationCpu_def dest_cpu_def
      XFsbl_GetDestinationDevice_def XFsbl_IsRsaSignaturePresent_def XFsbl_GetChecksumType_def hw)

lemma short_state_run: "ends (XFsbl_PartitionCopy secure_world 0) (\<lambda>Status t. Status = XFSBL_SUCCESS) short_state"
proof -
  have world: "ext_ret secure_world h c = (if c = Dma CsuDmaLookupConfig then 1 else XFSBL_SUCCESS)" for h c
    by (simp add: secure_world_def quiet_world_def hw)
  have state: "PartitionHeader short_state ! 0 = short_partition" "ResetReason short_state = 0"
    by (simp_all add: short_state_def secure_state_def fsbl_init_def)
  have codes: "(0x10 :: u32) \<noteq> XIH_PH_ATTRB_DEST_DEVICE_PL" "XIH_PH_ATTRB_DEST_CPU_A53_0 \<noteq> XIH_PH_ATTRB_DEST_CPU_PMU"
    by (simp_all add: hw)
  have addr: "XFsbl_GetLoadAddress XIH_PH_ATTRB_DEST_CPU_A53_0 a l = (XFSBL_SUCCESS, a)" for a l
    by (simp add: XFsbl_GetLoadAddress_def hw)
  have mem: "XFsbl_ConfigureMemory W r XIH_PH_ATTRB_DEST_CPU_A53_0 a = retM XFSBL_SUCCESS" for W r a
    by (simp add: XFsbl_ConfigureMemory_def hw)
  show ?thesis
    by (simp add: XFsbl_PartitionCopy_def PartitionCopy_cert_def PartitionCopy_place_def ends_eq world state
        short_partition_fields Let_def codes addr mem)
qed

text \<open>Nothing in the validation of a header relates the length of a signed partition to the
  3776 bytes of its certificate: for an acceptable header with a shorter total length, the
  subtraction wraps around and the device is asked to copy almost 4 GB to the load address
  before any signature is checked.\<close>

theorem PartitionCopy_length_wraps:
  assumes "header_acceptable W e (ProcessorID s) (ResetReason s) p" and "PartitionHeader s ! unat n = p"
    and "unat n < 32" and "bit (PartitionAttributes p) 15" and "XFsbl_GetDestinationDevice p \<noteq> XIH_PH_ATTRB_DEST_DEVICE_PL"
    and "TotalDataWordLength p < 944" and "XFsbl_PartitionCopy W n s = Some (Ret XFSBL_SUCCESS, t)"
  shows "\<exists>ops src len. Ext (Dev (DeviceCopy ops src
        (load_address (dest_cpu p (ProcessorID s)) (DestinationLoadAddress p)) len)) XFSBL_SUCCESS \<in> set (trace t) \<and>
      2 ^ 32 - 3776 \<le> unat len"
proof -
  define len where "len = TotalDataWordLength p * 4 - XFSBL_AUTH_CERT_MIN_SIZE"
  have "UnEncryptedDataWordLength p \<noteq> 0"
    using assms(1,4) by (auto simp: header_acceptable_def Let_def)
  then have "establishes (hist (trace s) n p (ProcessorID s) (ResetReason s) (contains (\<lambda>b. b = []) (\<lambda>_. True)))
     (hist (trace s) n p (ProcessorID s) (ResetReason s)
       (contains (copied (load_address (dest_cpu p (ProcessorID s)) (DestinationLoadAddress p)) len)
         (contains (\<lambda>b. b = []) (\<lambda>_. True)))) (XFsbl_PartitionCopy W n)"
    using assms(4,5) by (intro PartitionCopy_establishes) (simp_all add: len_def)
  from establishesD [OF this _ assms(7)] assms(2,3)
  have "hist (trace s) n p (ProcessorID s) (ResetReason s)
       (contains (copied (load_address (dest_cpu p (ProcessorID s)) (DestinationLoadAddress p)) len)
         (contains (\<lambda>b. b = []) (\<lambda>_. True))) t"
    by (simp add: hist_def since_start)
  then obtain ops src where "Ext (Dev (DeviceCopy ops src
        (load_address (dest_cpu p (ProcessorID s)) (DestinationLoadAddress p)) len)) XFSBL_SUCCESS \<in> set (trace t)"
    by (fastforce simp: hist_def since_def contains_def copied_def)
  moreover have "2 ^ 32 - 3776 \<le> unat len"
  proof -
    have t: "unat (TotalDataWordLength p) < 944" using assms(6) by (simp add: word_less_nat_alt)
    then have "unat (TotalDataWordLength p * 4) = unat (TotalDataWordLength p) * 4"
      by (simp add: unat_word_ariths)
    moreover have "unat XFSBL_AUTH_CERT_MIN_SIZE = 3776" by (simp add: hw)
    ultimately show ?thesis
      using t by (simp add: len_def unat_sub_if_size word_size word_le_nat_alt)
  qed
  ultimately show ?thesis by blast
qed

lemma PartitionCopy_length_wraps_witness:
  "header_acceptable secure_world False XIH_PH_ATTRB_DEST_CPU_A53_0 0 short_partition \<and>
   (\<exists>t ops src len. XFsbl_PartitionCopy secure_world 0 short_state = Some (Ret XFSBL_SUCCESS, t) \<and>
     Ext (Dev (DeviceCopy ops src 0x80000 len)) XFSBL_SUCCESS \<in> set (trace t) \<and> 2 ^ 32 - 3776 \<le> unat len)"
proof -
  have acc: "header_acceptable secure_world False XIH_PH_ATTRB_DEST_CPU_A53_0 0 short_partition"
    by (simp add: header_acceptable_def Let_def short_partition_fields load_region_def secure_world_def quiet_world_def hw)
  obtain t where run: "XFsbl_PartitionCopy secure_world 0 short_state = Some (Ret XFSBL_SUCCESS, t)"
    using short_state_run by (auto simp: ends_def)
  have state: "ProcessorID short_state = XIH_PH_ATTRB_DEST_CPU_A53_0" "ResetReason short_state = 0"
    "PartitionHeader short_state ! unat (0 :: u32) = short_partition"
    "XFsbl_GetDestinationDevice short_partition \<noteq> XIH_PH_ATTRB_DEST_DEVICE_PL" "TotalDataWordLength short_partition < 944"
    "load_address (dest_cpu short_partition (ProcessorID short_state)) (DestinationLoadAddress short_partition) = 0x80000"
    by (simp_all add: short_state_def secure_state_def fsbl_init_def short_partition_fields load_address_def hw)
  from PartitionCopy_length_wraps [OF _ state(3) _ short_partition_fields(6) state(4,5) run, of False] acc run state(1,2,6)
  show ?thesis by auto
qed

text \<open>An address in the R5's view of its tightly coupled memories is translated to the loader's
  view, and for every translated address the memory preparation recognises the window: it
  powers the memory up and initialises its error correction before the copy.\<close>

lemma GetLoadAddress_prepared:
  assumes "XFsbl_GetLoadAddress cpu Address Len = (XFSBL_SUCCESS, la)" and "la \<noteq> Address"
  shows "la = load_address cpu Address \<and>
    (cpu, XFsbl_ConfigureMemory W rc cpu la) \<in>
      {(XIH_PH_ATTRB_DEST_CPU_R5_0, PrepareTcm W rc cpu XFSBL_R5_0_TCM XFSBL_R50_TCM_ECC_INIT_STATUS),
       (XIH_PH_ATTRB_DEST_CPU_R5_1, PrepareTcm W rc cpu XFSBL_R5_1_TCM XFSBL_R51_TCM_ECC_INIT_STATUS),
       (XIH_PH_ATTRB_DEST_CPU_R5_L, PrepareTcm W rc cpu XFSBL_R5_L_TCM
          (XFSBL_R50_TCM_ECC_INIT_STATUS OR XFSBL_R51_TCM_ECC_INIT_STATUS))}"
proof -
  have la: "la = load_address cpu Address" by (rule GetLoadAddress_ok [OF assms(1)])
  have addr: "zx XFSBL_R50_HIGH_ATCM_START_ADDRESS = 0xFFE00000" "zx XFSBL_R51_HIGH_ATCM_START_ADDRESS = 0xFFE90000"
    "zx (XFSBL_R50_HIGH_ATCM_START_ADDRESS + XFSBL_R5_TCM_BANK_LENGTH) = 0xFFE10000"
    "zx XFSBL_R50_HIGH_BTCM_START_ADDRESS = 0xFFE20000"
    "zx (XFSBL_R50_HIGH_BTCM_START_ADDRESS + XFSBL_R5_TCM_BANK_LENGTH) = 0xFFE30000"
    "zx (XFSBL_R51_HIGH_ATCM_START_ADDRESS + XFSBL_R5_TCM_BANK_LENGTH) = 0xFFEA0000"
    "zx XFSBL_R51_HIGH_BTCM_START_ADDRESS = 0xFFEB0000"
    "zx (XFSBL_R51_HIGH_BTCM_START_ADDRESS + XFSBL_R5_TCM_BANK_LENGTH) = 0xFFEC0000"
    "zx (XFSBL_R50_HIGH_ATCM_START_ADDRESS + XFSBL_R5_TCM_BANK_LENGTH * 4) = 0xFFE40000"
    by (simp_all add: hw)
  have cpus: "XIH_PH_ATTRB_DEST_CPU_R5_0 \<noteq> XIH_PH_ATTRB_DEST_CPU_R5_1" "XIH_PH_ATTRB_DEST_CPU_R5_0 \<noteq> XIH_PH_ATTRB_DEST_CPU_R5_L"
    "XIH_PH_ATTRB_DEST_CPU_R5_1 \<noteq> XIH_PH_ATTRB_DEST_CPU_R5_L" by (simp_all add: hw)
  have shift: "b + x \<in> {b + c..<b + d}" if "x \<in> {c..<d}" "unat b + unat d < 2 ^ 64" for b c d x :: u64
    using that by (auto simp: word_le_nat_alt word_less_nat_alt unat_word_ariths)
  from assms(2) la consider
      "cpu = XIH_PH_ATTRB_DEST_CPU_R5_0" "Address \<in> {0..<0x10000} \<union> {0x20000..<0x30000}" "la = 0xFFE00000 + Address"
    | "cpu = XIH_PH_ATTRB_DEST_CPU_R5_1" "Address \<in> {0..<0x10000} \<union> {0x20000..<0x30000}" "la = 0xFFE90000 + Address"
    | "cpu = XIH_PH_ATTRB_DEST_CPU_R5_L" "Address \<in> {0..<0x40000}" "la = 0xFFE00000 + Address"
    by (auto simp: load_address_def split: if_splits)
  then show ?thesis
  proof cases
    case 1
    then have "la \<in> {0xFFE00000..<0xFFE10000} \<or> la \<in> {0xFFE20000..<0xFFE30000}"
      using shift [of Address 0 "0x10000" "0xFFE00000"] shift [of Address "0x20000" "0x30000" "0xFFE00000"] by auto
    with 1 la cpus show ?thesis by (auto simp: XFsbl_ConfigureMemory_def addr)
  next
    case 2
    then have "la \<in> {0xFFE90000..<0xFFEA0000} \<or> la \<in> {0xFFEB0000..<0xFFEC0000}"
      using shift [of Address 0 "0x10000" "0xFFE90000"] shift [of Address "0x20000" "0x30000" "0xFFE90000"] by auto
    with 2 la cpus show ?thesis by (auto simp: XFsbl_ConfigureMemory_def addr)
  next
    case 3
    then have "la \<in> {0xFFE00000..<0xFFE40000}"
      using shift [of Address 0 "0x40000" "0xFFE00000"] by auto
    with 3 la cpus show ?thesis by (auto simp: XFsbl_ConfigureMemory_def addr)
  qed
qed

lemma GetLoadAddress_prepared_witness:
  "XFsbl_ConfigureMemory quiet_world XIH_PH_ATTRB_DEST_CPU_A53_0 XIH_PH_ATTRB_DEST_CPU_R5_0 0xFFE20010 =
     PrepareTcm quiet_world XIH_PH_ATTRB_DEST_CPU_A53_0 XIH_PH_ATTRB_DEST_CPU_R5_0 XFSBL_R5_0_TCM XFSBL_R50_TCM_ECC_INIT_STATUS"
  using GetLoadAddress_prepared [of XIH_PH_ATTRB_DEST_CPU_R5_0 "0x20010" 16 "0xFFE20010" quiet_world XIH_PH_ATTRB_DEST_CPU_A53_0]
  by (simp add: XFsbl_GetLoadAddress_def in_tcm_banks_def hw)

text \<open>The length check of the translation compares with the size of a whole bank, not with what
  is left of it: for any start behind the beginning of the first bank, a length that runs
  over the end of the bank is accepted.\<close>

theorem GetLoadAddress_overruns:
  assumes "0 < Address" and "Address < 0x10000"
  shows "\<exists>Len la. XFsbl_GetLoadAddress XIH_PH_ATTRB_DEST_CPU_R5_0 Address Len = (XFSBL_SUCCESS, la) \<and>
    la \<in> {0xFFE00000..<0xFFE10000} \<and> la + zx Len > 0xFFE10000"
proof -
  have "XFsbl_GetLoadAddress XIH_PH_ATTRB_DEST_CPU_R5_0 Address 0x10000 = (XFSBL_SUCCESS, 0xFFE00000 + Address)"
    using assms by (simp add: XFsbl_GetLoadAddress_def in_tcm_banks_def hw)
  moreover have "0xFFE00000 + Address \<in> {0xFFE00000..<0xFFE10000} \<and> 0xFFE00000 + Address + zx (0x10000 :: u32) > 0xFFE10000"
    using assms by (auto simp: word_le_nat_alt word_less_nat_alt unat_word_ariths)
  ultimately show ?thesis by blast
qed

lemma GetLoadAddress_overruns_witness:
  "\<exists>Len la. XFsbl_GetLoadAddress XIH_PH_ATTRB_DEST_CPU_R5_0 0x8000 Len = (XFSBL_SUCCESS, la) \<and>
    la \<in> {0xFFE00000..<0xFFE10000} \<and> la + zx Len > 0xFFE10000"
  by (rule GetLoadAddress_overruns) simp_all

end
