(* ===== verification/Fsbl_Handoff.thy ===== *)
theory Fsbl_Handoff
  imports Fsbl_Partition_Load
begin

text \<open>
  The handoff of \<open>xfsbl_handoff.c\<close>: releasing the other CPUs with their reset vectors, the
  isolation configuration, and the exit to the application of the running CPU.  The exit is
  the assembly routine \<open>XFsbl_Exit\<close>, which does not return: the model leaves the loader
  through \<open>HandoffTo\<close>.
\<close>

section \<open>CPUs\<close>

definition XFsbl_Is32BitCpu :: "u32 \<Rightarrow> bool" where
  "XFsbl_Is32BitCpu Settings =
     (let CpuId = Settings AND XIH_PH_ATTRB_DEST_CPU_MASK;
          ExecState = Settings AND XIH_PH_ATTRB_A53_EXEC_ST_MASK
      in CpuId = XIH_PH_ATTRB_DEST_CPU_R5_0 \<or> CpuId = XIH_PH_ATTRB_DEST_CPU_R5_1 \<or>
         CpuId = XIH_PH_ATTRB_DEST_CPU_R5_L \<or> ExecState = XIH_PH_ATTRB_A53_EXEC_ST_AA32)"

text \<open>
  The four A53 cases of \<open>XFsbl_SetCpuPwrSettings\<close> differ in the power island, the error and
  the masks of the core.
\<close>

definition release_A53 :: "world \<Rightarrow> u32 \<Rightarrow> u32 \<Rightarrow> u32 \<Rightarrow> u32 \<Rightarrow> u32 \<Rightarrow> u32 prog" where
  "release_A53 W ExecState PwrStateMask PwrError Aa64Mask ResetMask =
     tryM_as PwrError (XFsbl_PowerUpIsland W PwrStateMask)
       (seqM (seqsM
         [whenM (ExecState = XIH_PH_ATTRB_A53_EXEC_ST_AA32)
            (rmwM W APU_CONFIG_0 (\<lambda>v. v AND NOT Aa64Mask)),
          rmwM W CRF_APB_ACPU_CTRL (\<lambda>v. v OR
            (CRF_APB_ACPU_CTRL_CLKACT_FULL_MASK OR CRF_APB_ACPU_CTRL_CLKACT_HALF_MASK)),
          rmwM W CRF_APB_RST_FPD_APU (\<lambda>v. v AND NOT ResetMask)])
        (retM XFSBL_SUCCESS))"

definition release_R5_0 :: "world \<Rightarrow> u32 prog" where
  "release_R5_0 W =
     tryM_as XFSBL_ERROR_R5_0_POWER_UP (XFsbl_PowerUpIsland W PMU_GLOBAL_PWR_STATE_R5_0_MASK)
       (seqM (seqsM
         [rmwM W RPU_RPU_GLBL_CNTL rpu_split_mode,
          rmwM W RPU_RPU_0_CFG (\<lambda>v. v AND NOT RPU_RPU_0_CFG_NCPUHALT_MASK),
          rmwM W CRL_APB_CPU_R5_CTRL (\<lambda>v. v OR CRL_APB_CPU_R5_CTRL_CLKACT_MASK),
          callM W (Bsp (Usleep 0x50)),
          rmwM W CRL_APB_RST_LPD_TOP (\<lambda>v. (v AND NOT CRL_APB_RST_LPD_TOP_RPU_R50_RESET_MASK)
            AND NOT CRL_APB_RST_LPD_TOP_RPU_AMBA_RESET_MASK),
          rmwM W RPU_RPU_0_CFG (\<lambda>v. v OR RPU_RPU_0_CFG_NCPUHALT_MASK)])
        (retM XFSBL_SUCCESS))"

definition release_R5_1 :: "world \<Rightarrow> u32 prog" where
  "release_R5_1 W =
     tryM_as XFSBL_ERROR_R5_1_POWER_UP (XFsbl_PowerUpIsland W PMU_GLOBAL_PWR_STATE_R5_1_MASK)
       (seqM (seqsM
         [rmwM W RPU_RPU_GLBL_CNTL rpu_split_mode,
          rmwM W RPU_RPU_1_CFG (\<lambda>v. v AND NOT RPU_RPU_1_CFG_NCPUHALT_MASK),
          rmwM W CRL_APB_CPU_R5_CTRL (\<lambda>v. v OR CRL_APB_CPU_R5_CTRL_CLKACT_MASK),
          callM W (Bsp (Usleep 0x50)),
          rmwM W CRL_APB_RST_LPD_TOP (\<lambda>v. (v AND NOT CRL_APB_RST_LPD_TOP_RPU_R51_RESET_MASK)
            AND NOT CRL_APB_RST_LPD_TOP_RPU_AMBA_RESET_MASK),
          rmwM W RPU_RPU_1_CFG (\<lambda>v. v OR RPU_RPU_1_CFG_NCPUHALT_MASK)])
        (retM XFSBL_SUCCESS))"

text \<open>The registers of lock-step mode are set in the order of this case of the switch.\<close>

definition release_R5_L :: "world \<Rightarrow> u32 prog" where
  "release_R5_L W =
     tryM_as XFSBL_ERROR_R5_L_POWER_UP (XFsbl_PowerUpIsland W PMU_GLOBAL_PWR_STATE_R5_0_MASK)
       (seqM (seqsM
         [rmwM W RPU_RPU_GLBL_CNTL (\<lambda>v. ((v AND NOT RPU_RPU_GLBL_CNTL_SLSPLIT_MASK)
            OR RPU_RPU_GLBL_CNTL_TCM_COMB_MASK) OR RPU_RPU_GLBL_CNTL_SLCLAMP_MASK),
          rmwM W RPU_RPU_0_CFG (\<lambda>v. v AND NOT RPU_RPU_0_CFG_NCPUHALT_MASK),
          rmwM W RPU_RPU_1_CFG (\<lambda>v. v AND NOT RPU_RPU_1_CFG_NCPUHALT_MASK),
          rmwM W CRL_APB_CPU_R5_CTRL (\<lambda>v. v OR CRL_APB_CPU_R5_CTRL_CLKACT_MASK),
          callM W (Bsp (Usleep 0x50)),
          rmwM W CRL_APB_RST_LPD_TOP (\<lambda>v. ((v AND NOT CRL_APB_RST_LPD_TOP_RPU_R50_RESET_MASK)
            AND NOT CRL_APB_RST_LPD_TOP_RPU_R51_RESET_MASK)
            AND NOT CRL_APB_RST_LPD_TOP_RPU_AMBA_RESET_MASK),
          rmwM W RPU_RPU_0_CFG (\<lambda>v. v OR RPU_RPU_0_CFG_NCPUHALT_MASK),
          rmwM W RPU_RPU_1_CFG (\<lambda>v. v OR RPU_RPU_1_CFG_NCPUHALT_MASK)])
        (retM XFSBL_SUCCESS))"

definition XFsbl_SetCpuPwrSettings :: "world \<Rightarrow> u32 \<Rightarrow> u32 \<Rightarrow> u32 prog" where
  "XFsbl_SetCpuPwrSettings W Settings Flags =
     (let CpuId = Settings AND XIH_PH_ATTRB_DEST_CPU_MASK;
          ExecState = Settings AND XIH_PH_ATTRB_A53_EXEC_ST_MASK
      in if Flags AND XFSBL_CPU_SWRST = 0 then retM XFSBL_SUCCESS
      else if CpuId = XIH_PH_ATTRB_DEST_CPU_A53_0 then
        release_A53 W ExecState (PMU_GLOBAL_PWR_STATE_ACPU0_MASK OR PMU_GLOBAL_PWR_STATE_FP_MASK OR
            PMU_GLOBAL_PWR_STATE_L2_BANK0_MASK) XFSBL_ERROR_A53_0_POWER_UP APU_CONFIG_0_AA64N32_MASK_CPU0
          (CRF_APB_RST_FPD_APU_ACPU0_RESET_MASK OR CRF_APB_RST_FPD_APU_APU_L2_RESET_MASK OR
            CRF_APB_RST_FPD_APU_ACPU0_PWRON_RESET_MASK)
      else if CpuId = XIH_PH_ATTRB_DEST_CPU_A53_1 then
        release_A53 W ExecState (PMU_GLOBAL_PWR_STATE_ACPU1_MASK OR PMU_GLOBAL_PWR_STATE_FP_MASK OR
            PMU_GLOBAL_PWR_STATE_L2_BANK0_MASK) XFSBL_ERROR_A53_1_POWER_UP APU_CONFIG_0_AA64N32_MASK_CPU1
          (CRF_APB_RST_FPD_APU_ACPU1_RESET_MASK OR CRF_APB_RST_FPD_APU_APU_L2_RESET_MASK OR
            CRF_APB_RST_FPD_APU_ACPU1_PWRON_RESET_MASK)
      else if CpuId = XIH_PH_ATTRB_DEST_CPU_A53_2 then
        release_A53 W ExecState (PMU_GLOBAL_PWR_STATE_ACPU2_MASK OR PMU_GLOBAL_PWR_STATE_FP_MASK OR
            PMU_GLOBAL_PWR_STATE_L2_BANK0_MASK) XFSBL_ERROR_A53_2_POWER_UP APU_CONFIG_0_AA64N32_MASK_CPU2
          (CRF_APB_RST_FPD_APU_ACPU2_RESET_MASK OR CRF_APB_RST_FPD_APU_APU_L2_RESET_MASK OR
            CRF_APB_RST_FPD_APU_ACPU2_PWRON_RESET_MASK)
      else if CpuId = XIH_PH_ATTRB_DEST_CPU_A53_3 then
        release_A53 W ExecState (PMU_GLOBAL_PWR_STATE_ACPU3_MASK OR PMU_GLOBAL_PWR_STATE_FP_MASK OR
            PMU_GLOBAL_PWR_STATE_L2_BANK0_MASK) XFSBL_ERROR_A53_3_POWER_UP APU_CONFIG_0_AA64N32_MASK_CPU3
          (CRF_APB_RST_FPD_APU_ACPU3_RESET_MASK OR CRF_APB_RST_FPD_APU_APU_L2_RESET_MASK OR
            CRF_APB_RST_FPD_APU_ACPU3_PWRON_RESET_MASK)
      else if CpuId = XIH_PH_ATTRB_DEST_CPU_R5_0 then release_R5_0 W
      else if CpuId = XIH_PH_ATTRB_DEST_CPU_R5_1 then release_R5_1 W
      else if CpuId = XIH_PH_ATTRB_DEST_CPU_R5_L then release_R5_L W
      else retM XFSBL_ERROR_HANDOFF_CPUID)"

text \<open>The low or high exception vectors of a 32-bit CPU, then the start address of a 64-bit one.\<close>

definition update_vinithi :: "world \<Rightarrow> u32 \<Rightarrow> u32 \<Rightarrow> u32 \<Rightarrow> unit prog" where
  "update_vinithi W CpuId ExecState Vector =
     (let aa32 = (ExecState = XIH_PH_ATTRB_A53_EXEC_ST_AA32)
      in if CpuId = XIH_PH_ATTRB_DEST_CPU_R5_0 \<or> CpuId = XIH_PH_ATTRB_DEST_CPU_R5_L then
        rmwM W RPU_RPU_0_CFG (\<lambda>v. (v AND NOT RPU_RPU_0_CFG_VINITHI_MASK) OR
          push_bit (unat RPU_RPU_0_CFG_VINITHI_SHIFT) Vector)
      else if CpuId = XIH_PH_ATTRB_DEST_CPU_R5_1 \<or> CpuId = XIH_PH_ATTRB_DEST_CPU_R5_L then
        rmwM W RPU_RPU_1_CFG (\<lambda>v. (v AND NOT RPU_RPU_1_CFG_VINITHI_MASK) OR
          push_bit (unat RPU_RPU_1_CFG_VINITHI_SHIFT) Vector)
      else if CpuId = XIH_PH_ATTRB_DEST_CPU_A53_0 \<and> aa32 then
        rmwM W APU_CONFIG_0 (\<lambda>v. (v AND NOT APU_CONFIG_0_VINITHI_MASK_CPU0) OR
          push_bit (unat APU_CONFIG_0_VINITHI_SHIFT_CPU0) Vector)
      else if CpuId = XIH_PH_ATTRB_DEST_CPU_A53_1 \<and> aa32 then
        rmwM W APU_CONFIG_0 (\<lambda>v. (v AND NOT APU_CONFIG_0_VINITHI_MASK_CPU1) OR
          push_bit (unat APU_CONFIG_0_VINITHI_SHIFT_CPU1) Vector)
      else if CpuId = XIH_PH_ATTRB_DEST_CPU_A53_2 \<and> aa32 then
        rmwM W APU_CONFIG_0 (\<lambda>v. (v AND NOT APU_CONFIG_0_VINITHI_MASK_CPU2) OR
          push_bit (unat APU_CONFIG_0_VINITHI_SHIFT_CPU2) Vector)
      else if CpuId = XIH_PH_ATTRB_DEST_CPU_A53_3 \<and> aa32 then
        rmwM W APU_CONFIG_0 (\<lambda>v. (v AND NOT APU_CONFIG_0_VINITHI_MASK_CPU3) OR
          push_bit (unat APU_CONFIG_0_VINITHI_SHIFT_CPU3) Vector)
      else retM ())"

definition rvbar_regs :: "u32 \<Rightarrow> u32 \<times> u32" where
  "rvbar_regs CpuId =
     (if CpuId = XIH_PH_ATTRB_DEST_CPU_A53_0 then (APU_RVBARADDR0L, APU_RVBARADDR0H)
      else if CpuId = XIH_PH_ATTRB_DEST_CPU_A53_1 then (APU_RVBARADDR1L, APU_RVBARADDR1H)
      else if CpuId = XIH_PH_ATTRB_DEST_CPU_A53_2 then (APU_RVBARADDR2L, APU_RVBARADDR2H)
      else if CpuId = XIH_PH_ATTRB_DEST_CPU_A53_3 then (APU_RVBARADDR3L, APU_RVBARADDR3H)
      else (0, 0))"

definition XFsbl_UpdateResetVector :: "world \<Rightarrow> u64 \<Rightarrow> u32 \<Rightarrow> u32 \<Rightarrow> u32 \<Rightarrow> unit prog" where
  "XFsbl_UpdateResetVector W HandOffAddress Settings HandoffType Vector =
     (let CpuId = Settings AND XIH_PH_ATTRB_DEST_CPU_MASK;
          ExecState = Settings AND XIH_PH_ATTRB_A53_EXEC_ST_MASK
      in seqM (update_vinithi W CpuId ExecState Vector)
        (whenM (\<not> XFsbl_Is32BitCpu Settings \<and> HandoffType \<noteq> A53_0_32_HANDOFF_TO_A53_0_64)
          (case rvbar_regs CpuId of (LowAddressReg, HighAddressReg) \<Rightarrow> seqsM
             [XFsbl_Out32 LowAddressReg (lo32 (HandOffAddress AND 0xFFFFFFFF)),
              XFsbl_Out32 HighAddressReg (lo32 (drop_bit 32 HandOffAddress AND 0xFFFFFFFF))])))"

section \<open>Early handoff\<close>

definition XFsbl_CheckEarlyHandoffCpu :: "world \<Rightarrow> u32 \<Rightarrow> bool" where
  "XFsbl_CheckEarlyHandoffCpu W CpuId \<longleftrightarrow> cfg_early_handoff W \<and>
     (CpuId = XIH_PH_ATTRB_DEST_CPU_R5_0 \<or> CpuId = XIH_PH_ATTRB_DEST_CPU_R5_1 \<or>
      CpuId = XIH_PH_ATTRB_DEST_CPU_R5_L)"

definition early_dest :: "XFsblPs_PartitionHeader \<Rightarrow> u32 \<Rightarrow> u32" where
  "early_dest p ProcId =
     (let DestinationCpu = XFsbl_GetDestinationCpu p; DestinationDev = XFsbl_GetDestinationDevice p
      in if DestinationCpu = XIH_PH_ATTRB_DEST_CPU_NONE \<and>
           (DestinationDev = XIH_PH_ATTRB_DEST_DEVICE_PS \<or>
            DestinationDev = XIH_PH_ATTRB_DEST_DEVICE_NONE) then ProcId else DestinationCpu)"

definition XFsbl_CheckEarlyHandoff :: "world \<Rightarrow> u32 \<Rightarrow> bool prog" where
  "XFsbl_CheckEarlyHandoff W PartitionNum =
     (if \<not> cfg_early_handoff W then retM False
      else bindM (get_PartitionHeader PartitionNum) (\<lambda>p.
           bindM (getM ProcessorID) (\<lambda>ProcId.
           bindM (getM (\<lambda>s. NoOfPartitions (ImageHeaderTable s))) (\<lambda>n.
           bindM (if PartitionNum + 1 \<le> n - 1
                  then bindM (get_PartitionHeader (PartitionNum + 1)) (\<lambda>q. retM (early_dest q ProcId))
                  else retM 0) (\<lambda>DestinationCpuNxt.
             let DestinationCpu = early_dest p ProcId
             in retM (XFsbl_CheckEarlyHandoffCpu W DestinationCpu \<and> DestinationCpu \<noteq> ProcId \<and>
                      DestinationCpuNxt \<noteq> DestinationCpu))))))"

section \<open>Isolation\<close>

definition XFsbl_ProtectionConfig :: "world \<Rightarrow> u32 prog" where
  "XFsbl_ProtectionConfig W =
     bindM (XFsbl_In32 W XFSBL_PS_SYSMON_CONFIGREG1) (\<lambda>CfgRegVal1.
     bindM (XFsbl_In32 W XFSBL_PS_SYSMON_CONFIGREG3) (\<lambda>CfgRegVal3.
       seqM (seqsM
         [XFsbl_Out32 XFSBL_PS_SYSMON_CONFIGREG1 (CfgRegVal1 OR XFSBL_PS_SYSMON_CFGREG1_ALRM_DISBL_MASK),
          XFsbl_Out32 XFSBL_PS_SYSMON_CONFIGREG3 (CfgRegVal3 OR XFSBL_PS_SYSMON_CFGREG3_ALRM_DISBL_MASK)])
       (tryM_as XFSBL_ERROR_PROTECTION_CFG (extM W (Psu PsuProtection))
         (tryM_as XFSBL_ERROR_PROTECTION_CFG (extM W (Psu PsuProtectionLock))
           (seqM (seqsM
             [XFsbl_Out32 XFSBL_PS_SYSMON_CONFIGREG1 CfgRegVal1,
              XFsbl_Out32 XFSBL_PS_SYSMON_CONFIGREG3 CfgRegVal3])
            (retM XFSBL_SUCCESS))))))"

section \<open>The exit\<close>

definition XFsbl_HandoffExit :: "world \<Rightarrow> u64 \<Rightarrow> u32 \<Rightarrow> 'a prog" where
  "XFsbl_HandoffExit W Address Flags =
     seqM (rmwM W PMU_GLOBAL_GLOB_GEN_STORAGE5
             (\<lambda>v. (v AND NOT XFSBL_EXEC_COMPLETED) OR XFSBL_EXEC_COMPLETED))
       (haltM (HandoffTo Address Flags))"

text \<open>With JTAG as boot device the loader leaves without a handoff.\<close>

definition Handoff_jtag :: "world \<Rightarrow> 'a prog" where
  "Handoff_jtag W =
     bindM (XFsbl_PLCheckForDone W) (\<lambda>Status.
     seqM (seqsM
       [whenM (Status = XFSBL_SUCCESS)
          (seqsM [callM W (Psu PsuIsolationRemoval), callM W (Psu PsuPlResetConfig)]),
        XFsbl_Out32 XFSBL_ERROR_STATUS_REGISTER_OFFSET XFSBL_COMPLETED])
     (bindM (extM W (Bsp PlatformInfo)) (\<lambda>Platform.
        if Platform = 2
        then seqM (XFsbl_Out32 0xFFFC0000 0x14000000) (haltM (HandoffTo 0xFFFC0000 XFSBL_HANDOFFEXIT))
        else XFsbl_HandoffExit W 0 XFSBL_NO_HANDOFFEXIT)))"

section \<open>The handoff loop\<close>

text \<open>
  The other CPUs are released at once; what is found for the running CPU is remembered as
  its address and execution state (\<open>RunningCpuHandoffAddress\<close>, \<open>RunningCpuExecState\<close>, with
  \<open>None\<close> for \<open>RunningCpuHandoffAddressPresent == FALSE\<close>).  A step gives \<open>Inl\<close> the status
  with which it goes to \<open>END\<close>, or \<open>Inr\<close> what is remembered.
\<close>

type_synonym running = "(u64 \<times> u32) option"

definition Handoff_other :: "world \<Rightarrow> u32 \<Rightarrow> XFsblPs_HandoffValues \<Rightarrow> u32 prog" where
  "Handoff_other W PartitionNum v =
     (let CpuId = CpuSettings v AND XIH_PH_ATTRB_DEST_CPU_MASK
      in tryM_as XFSBL_ERROR_UNAVAILABLE_CPU (XFsbl_CheckSupportedCpu W CpuId)
        (tryM_as XFSBL_ERROR_PWR_UP_CPU (XFsbl_SetCpuPwrSettings W (CpuSettings v) XFSBL_CPU_POWER_UP)
          (bindM (get_PartitionHeader PartitionNum) (\<lambda>p.
             seqM (XFsbl_UpdateResetVector W (HandoffAddress v) (CpuSettings v) OTHER_CPU_HANDOFF
                     (drop_bit (unat XIH_ATTRB_VECTOR_LOCATION_SHIFT) (XFsbl_GetVectorLocation p)))
               (XFsbl_SetCpuPwrSettings W (CpuSettings v) XFSBL_CPU_SWRST)))))"

definition Handoff_running :: "XFsblPs_HandoffValues \<Rightarrow> (u32 + running) prog" where
  "Handoff_running v =
     (let ExecState = CpuSettings v AND XIH_PH_ATTRB_A53_EXEC_ST_MASK
      in bindM (getM A53ExecState) (\<lambda>FsblState.
        if FsblState = XIH_PH_ATTRB_A53_EXEC_ST_AA64 \<and> ExecState = XIH_PH_ATTRB_A53_EXEC_ST_AA32
        then retM (Inl XFSBL_ERROR_UNSUPPORTED_HANDOFF)
        else if FsblState = XIH_PH_ATTRB_A53_EXEC_ST_AA32 \<and> ExecState = XIH_PH_ATTRB_A53_EXEC_ST_AA64
        then retM (Inl XFSBL_ERROR_UNSUPPORTED_HANDOFF)
        else retM (Inr (Some (HandoffAddress v, ExecState)))))"

text \<open>One turn of the loop: the handoff of the entry, then the early return.\<close>

definition Handoff_cpu ::
  "world \<Rightarrow> u32 \<Rightarrow> bool \<Rightarrow> XFsblPs_HandoffValues \<Rightarrow> running \<Rightarrow> (u32 + running) prog" where
  "Handoff_cpu W PartitionNum EarlyHandoff v run =
     bindM (getM ProcessorID) (\<lambda>ProcId.
       let CpuId = CpuSettings v AND XIH_PH_ATTRB_DEST_CPU_MASK;
           NeedsEarly = XFsbl_CheckEarlyHandoffCpu W CpuId
       in if NeedsEarly \<and> EarlyHandoff \<or> \<not> EarlyHandoff \<and> \<not> NeedsEarly \<or>
             (\<not> EarlyHandoff \<and> NeedsEarly) \<and> CpuId = ProcId
          then if CpuId \<noteq> ProcId
               then bindM (Handoff_other W PartitionNum v) (\<lambda>Status.
                      if Status \<noteq> XFSBL_SUCCESS then retM (Inl Status) else retM (Inr run))
               else Handoff_running v
          else retM (Inr run))"

definition Handoff_early :: "world \<Rightarrow> u32 \<Rightarrow> u32 prog" where
  "Handoff_early W PartitionNum =
     seqM (callM W (Bsp DCacheEnable))
       (bindM (getM (\<lambda>s. NoOfPartitions (ImageHeaderTable s))) (\<lambda>n.
          if PartitionNum < n - 1
          then seqM (modM (\<lambda>s. s\<lparr>CpuIndexEarlyHandoff := CpuIndexEarlyHandoff s + 1\<rparr>))
                 (retM XFSBL_STATUS_CONTINUE_PARTITION_LOAD)
          else retM XFSBL_STATUS_CONTINUE_OTHER_HANDOFF))"

text \<open>The loop over the remaining \<open>n\<close> entries from \<open>CpuIndex\<close>.\<close>

primrec Handoff_loop :: "world \<Rightarrow> u32 \<Rightarrow> bool \<Rightarrow> nat \<Rightarrow> u32 \<Rightarrow> running \<Rightarrow> (u32 + running) prog" where
  "Handoff_loop W PartitionNum EarlyHandoff 0 CpuIndex run = retM (Inr run)"
| "Handoff_loop W PartitionNum EarlyHandoff (Suc n) CpuIndex run =
     seqM (boundM CpuIndex 10)
      (bindM (getM (\<lambda>s. HandoffValues s ! unat CpuIndex)) (\<lambda>v.
       bindM (Handoff_cpu W PartitionNum EarlyHandoff v run) (\<lambda>r. case r of
           Inl Status \<Rightarrow> retM (Inl Status)
         | Inr run' \<Rightarrow>
             if EarlyHandoff \<and> XFsbl_CheckEarlyHandoffCpu W (CpuSettings v AND XIH_PH_ATTRB_DEST_CPU_MASK)
             then bindM (Handoff_early W PartitionNum) (\<lambda>Status. retM (Inl Status))
             else seqM (modM (\<lambda>s. s\<lparr>CpuIndexEarlyHandoff := CpuIndexEarlyHandoff s + 1\<rparr>))
                    (Handoff_loop W PartitionNum EarlyHandoff n (CpuIndex + 1) run'))))"

definition Handoff_final :: "world \<Rightarrow> running \<Rightarrow> u32 prog" where
  "Handoff_final W run =
     bindM (getM ResetReason) (\<lambda>Reset.
     seqM (XFsbl_Out32 XFSBL_ERROR_STATUS_REGISTER_OFFSET XFSBL_COMPLETED)
     (seqM (case cfg_wdt_mask W of
              None \<Rightarrow> retM ()
            | Some WdtMask \<Rightarrow> whenM (Reset \<noteq> XFSBL_APU_ONLY_RESET) (XFsbl_StopWdt W WdtMask))
       (case run of
          Some (Address, ExecState) \<Rightarrow>
            if ExecState = XIH_PH_ATTRB_A53_EXEC_ST_AA32
            then XFsbl_HandoffExit W Address XFSBL_HANDOFFEXIT_32
            else XFsbl_HandoffExit W Address XFSBL_HANDOFFEXIT
        | None \<Rightarrow> XFsbl_HandoffExit W 0 XFSBL_NO_HANDOFFEXIT)))"

text \<open>What precedes the loop: the status the PMU reads, caches, power management and isolation.\<close>

definition Handoff_prepare :: "world \<Rightarrow> u32 prog" where
  "Handoff_prepare W =
     bindM (getM ProcessorID) (\<lambda>ProcId.
     bindM (getM ResetReason) (\<lambda>Reset.
       let FsblProcType = (if ProcId = XIH_PH_ATTRB_DEST_CPU_A53_0
             then XFSBL_RUNNING OR XFSBL_RUNNING_ON_A53 else XFSBL_RUNNING)
       in seqM (seqsM
            [rmwM W PMU_GLOBAL_GLOB_GEN_STORAGE5 (\<lambda>v. FsblProcType OR (v AND NOT XFSBL_STATE_PROC_INFO_MASK)),
             XFsbl_Out32 IOU_SLCR_SD_CDN_CTRL 0,
             whenM (Reset = XFSBL_PS_ONLY_RESET)
               (seqsM [callM W (Psu PsuIsolationRemoval), callM W (Psu PsuPlResetConfig)]),
             callM W (Bsp DCacheDisable)])
          (if Reset \<noteq> XFSBL_APU_ONLY_RESET
           then tryM_as XFSBL_ERROR_PM_INIT (XFsbl_PmInit W) (XFsbl_ProtectionConfig W)
           else retM XFSBL_SUCCESS)))"

definition XFsbl_Handoff :: "world \<Rightarrow> u32 \<Rightarrow> bool \<Rightarrow> u32 prog" where
  "XFsbl_Handoff W PartitionNum EarlyHandoff =
     tryM (Handoff_prepare W)
       (bindM (getM PrimaryBootDevice) (\<lambda>Device.
          if Device = XFSBL_JTAG_BOOT_MODE then Handoff_jtag W
          else tryM_as XFSBL_ERROR_HOOK_BEFORE_HANDOFF
                 (XFsbl_HookBeforeHandoff (if EarlyHandoff then 1 else 0))
            (bindM (if EarlyHandoff then getM CpuIndexEarlyHandoff else retM 0) (\<lambda>CpuIndex.
             bindM (getM HandoffCpuNo) (\<lambda>CpuNo.
             bindM (Handoff_loop W PartitionNum EarlyHandoff (unat CpuNo - unat CpuIndex) CpuIndex None)
               (\<lambda>r. case r of Inl Status \<Rightarrow> retM Status | Inr run \<Rightarrow> Handoff_final W run))))))"

section \<open>What the handoff keeps\<close>

lemma wp_HandoffExit [wp_eq]:
  "wp (XFsbl_HandoffExit W a f) Q H s = H (HandoffTo a f)
     (s\<lparr>trace := Wr PMU_GLOBAL_GLOB_GEN_STORAGE5 ((reg_in W (trace s) PMU_GLOBAL_GLOB_GEN_STORAGE5
          AND NOT XFSBL_EXEC_COMPLETED) OR XFSBL_EXEC_COMPLETED) #
        Rd PMU_GLOBAL_GLOB_GEN_STORAGE5 (reg_in W (trace s) PMU_GLOBAL_GLOB_GEN_STORAGE5) # trace s\<rparr>)"
  by (simp add: XFsbl_HandoffExit_def wp_eq)

text \<open>
  The interface of an invariant that the handoff keeps: it bounds the handoff table, and the
  index of the early handoff does not affect it.  The handoff leaves through the exit
  routine only.
\<close>

locale handoff_closed = io_closed +
  fixes E :: "exit \<Rightarrow> bool"
  assumes early_step: "I s \<Longrightarrow> I (s\<lparr>CpuIndexEarlyHandoff := k\<rparr>)"
    and table_bound: "I s \<Longrightarrow> unat (HandoffCpuNo s) \<le> 10"
    and leaves: "E (HandoffTo a f)"
begin

lemma keeps_early: "keeps E I (modM (\<lambda>s. s\<lparr>CpuIndexEarlyHandoff := g s\<rparr>))"
  by (auto intro!: keeps_mod early_step)

lemma keeps_HandoffExit: "keeps E I (XFsbl_HandoffExit W a f)"
  unfolding XFsbl_HandoffExit_def by (intro keeps_intro io_keeps leaves)

lemma keeps_SetCpuPwrSettings: "keeps E I (XFsbl_SetCpuPwrSettings W c f)"
  unfolding XFsbl_SetCpuPwrSettings_def release_A53_def release_R5_0_def release_R5_1_def release_R5_L_def Let_def
  by (intro keeps_intro misc_keeps)

lemma keeps_UpdateResetVector: "keeps E I (XFsbl_UpdateResetVector W a c h v)"
  unfolding XFsbl_UpdateResetVector_def update_vinithi_def Let_def by (intro keeps_intro io_keeps)

lemma keeps_Handoff_cpu: "unat n < 32 \<Longrightarrow> keeps E I (Handoff_cpu W n early v run)"
  unfolding Handoff_cpu_def Handoff_other_def Handoff_running_def Let_def
  by (intro keeps_intro misc_keeps keeps_SetCpuPwrSettings keeps_UpdateResetVector disjI2)

lemma keeps_Handoff_early: "keeps E I (Handoff_early W n)"
  unfolding Handoff_early_def by (intro keeps_intro io_keeps keeps_early)

lemma keeps_Handoff_loop:
  "unat n < 32 \<Longrightarrow> m = 0 \<or> k + m \<le> 10 \<Longrightarrow> keeps E I (Handoff_loop W n early m (of_nat k) run)"
proof (induction m arbitrary: k run)
  case (Suc m)
  have "unat (of_nat k :: u32) < 10" using Suc.prems by (simp add: unat_of_nat)
  moreover have "keeps E I (Handoff_loop W n early m (of_nat k + 1) run')" for run'
    using Suc.IH [of "Suc k" run'] Suc.prems by (simp add: add.commute)
  ultimately show ?case
    using Suc.prems by (auto intro!: keeps_intro keeps_Handoff_cpu keeps_Handoff_early keeps_early)
qed (simp add: keeps_ret)

lemma keeps_Handoff_prepare: "keeps E I (Handoff_prepare W)"
  unfolding Handoff_prepare_def XFsbl_ProtectionConfig_def Let_def by (intro keeps_intro misc_keeps)

lemma keeps_Handoff_jtag: "keeps E I (Handoff_jtag W)"
  unfolding Handoff_jtag_def XFsbl_PLCheckForDone_def PcapReset_def by (intro keeps_intro io_keeps leaves keeps_HandoffExit)

lemma keeps_Handoff_final: "keeps E I (Handoff_final W run)"
  unfolding Handoff_final_def by (intro keeps_intro misc_keeps keeps_HandoffExit)

lemma keeps_Handoff:
  assumes "unat n < 32"
  shows "keeps E I (XFsbl_Handoff W n early)"
proof -
  have cpus: "keeps E I (bindM (getM HandoffCpuNo) (\<lambda>CpuNo.
      bindM (Handoff_loop W n early (unat CpuNo - unat i) i None)
        (\<lambda>r. case r of Inl Status \<Rightarrow> retM Status | Inr run \<Rightarrow> Handoff_final W run)))" for i
  proof (rule keeps_get_bind)
    fix s assume "I s"
    then have "unat (HandoffCpuNo s) - unat i = 0 \<or> unat i + (unat (HandoffCpuNo s) - unat i) \<le> 10"
      using table_bound [of s] by linarith
    from keeps_Handoff_loop [OF assms this] show "keeps E I (bindM
        (Handoff_loop W n early (unat (HandoffCpuNo s) - unat i) i None)
        (\<lambda>r. case r of Inl Status \<Rightarrow> retM Status | Inr run \<Rightarrow> Handoff_final W run))"
      by (auto intro!: keeps_intro keeps_Handoff_final)
  qed
  show ?thesis
    unfolding XFsbl_Handoff_def
    by (intro cpus keeps_intro keeps_Handoff_prepare keeps_Handoff_jtag misc_keeps)
qed

end

section \<open>What the handoff answers\<close>

text \<open>
  The handoff never returns success, which \<open>main\<close> relies on; it asks for more partitions
  or for another handoff only when it was called for an early one.
\<close>

definition handoff_status :: "u32 \<Rightarrow> bool \<Rightarrow> u32 \<Rightarrow> fsbl \<Rightarrow> bool" where
  "handoff_status n early Status t \<longleftrightarrow> Status \<noteq> XFSBL_SUCCESS \<and>
     (Status = XFSBL_STATUS_CONTINUE_PARTITION_LOAD \<longrightarrow> early \<and> n < NoOfPartitions (ImageHeaderTable t) - 1) \<and>
     (Status = XFSBL_STATUS_CONTINUE_OTHER_HANDOFF \<longrightarrow> early \<and> \<not> n < NoOfPartitions (ImageHeaderTable t) - 1)"

lemma handoff_status_error:
  "Status \<notin> {XFSBL_SUCCESS, XFSBL_STATUS_CONTINUE_PARTITION_LOAD, XFSBL_STATUS_CONTINUE_OTHER_HANDOFF} \<Longrightarrow>
   handoff_status n early Status t"
  by (simp add: handoff_status_def)

lemma handoff_errors:
  "handoff_status n early XFSBL_ERROR_A53_0_POWER_UP t" "handoff_status n early XFSBL_ERROR_A53_1_POWER_UP t"
  "handoff_status n early XFSBL_ERROR_A53_2_POWER_UP t" "handoff_status n early XFSBL_ERROR_A53_3_POWER_UP t"
  "handoff_status n early XFSBL_ERROR_R5_0_POWER_UP t" "handoff_status n early XFSBL_ERROR_R5_1_POWER_UP t"
  "handoff_status n early XFSBL_ERROR_R5_L_POWER_UP t" "handoff_status n early XFSBL_ERROR_HANDOFF_CPUID t"
  "handoff_status n early XFSBL_ERROR_PM_INIT t" "handoff_status n early XFSBL_ERROR_PROTECTION_CFG t"
  "handoff_status n early XFSBL_ERROR_UNAVAILABLE_CPU t" "handoff_status n early XFSBL_ERROR_PWR_UP_CPU t"
  "handoff_status n early XFSBL_ERROR_UNSUPPORTED_HANDOFF t" "handoff_status n early XFSBL_ERROR_HOOK_BEFORE_HANDOFF t"
  by (simp_all add: handoff_status_error hw)

lemma SetCpuPwrSettings_status:
  "answers (\<lambda>Status t. Status = XFSBL_SUCCESS \<or> handoff_status n early Status t) (XFsbl_SetCpuPwrSettings W c f)"
  unfolding XFsbl_SetCpuPwrSettings_def release_A53_def release_R5_0_def release_R5_1_def release_R5_L_def Let_def
  by (intro answers_intro) (simp_all add: handoff_errors)

lemma Handoff_prepare_status:
  "answers (\<lambda>Status t. Status = XFSBL_SUCCESS \<or> handoff_status n early Status t) (Handoff_prepare W)"
  unfolding Handoff_prepare_def XFsbl_ProtectionConfig_def Let_def
  by (intro answers_intro) (simp_all add: handoff_errors)

lemma Handoff_cpu_status:
  "answers (\<lambda>r t. case r of Inl Status \<Rightarrow> handoff_status n early Status t | Inr run' \<Rightarrow> True)
     (Handoff_cpu W n early v run)"
proof -
  have other: "answers (\<lambda>Status t. Status = XFSBL_SUCCESS \<or> handoff_status n early Status t) (Handoff_other W n v)"
    unfolding Handoff_other_def Let_def
    by (intro answers_intro answers_mono [OF SetCpuPwrSettings_status]) (auto simp: handoff_errors)
  have running: "answers (\<lambda>r t. case r of Inl Status \<Rightarrow> handoff_status n early Status t | Inr run' \<Rightarrow> True)
      (Handoff_running v)"
    unfolding Handoff_running_def Let_def
    by (intro answers_intro) (simp_all add: handoff_errors)
  show ?thesis
    unfolding Handoff_cpu_def Let_def
    by (intro answers_bind [where m = "getM ProcessorID"] answers_if answers_bind_after [OF other] running answers_ret)
      (auto simp: wp_eq)
qed

lemma Handoff_loop_status:
  "answers (\<lambda>r t. case r of Inl Status \<Rightarrow> handoff_status n early Status t | Inr run' \<Rightarrow> True)
     (Handoff_loop W n early m i run)"
proof (induction m arbitrary: i run)
  case (Suc m)
  have early: "answers (\<lambda>Status t. early \<longrightarrow> handoff_status n early Status t) (Handoff_early W n)"
    by (auto simp: answers_def Handoff_early_def wp_eq handoff_status_def hw)
  have rest: "wp (Handoff_loop W n early m i' run') (\<lambda>r t. case r of Inl Status \<Rightarrow> handoff_status n early Status t | Inr run' \<Rightarrow> True)
      (\<lambda>_ _. True) s" for i' run' s
    using Suc by (simp add: answers_def)
  show ?case
    unfolding Handoff_loop.simps
    by (intro answers_seq answers_bind [where m = "getM f" for f] answers_bind_after [OF Handoff_cpu_status])
      (use early rest in \<open>auto simp: wp_eq answers_def split: sum.splits intro: wp_mono\<close>)
qed (simp add: answers_ret)

lemma Handoff_status: "answers (handoff_status n early) (XFsbl_Handoff W n early)"
proof -
  have exit: "answers Q (XFsbl_HandoffExit W a f)" for Q a f
    unfolding XFsbl_HandoffExit_def by (intro answers_intro)
  have jtag: "answers Q (Handoff_jtag W)" for Q
    unfolding Handoff_jtag_def by (intro answers_intro exit)
  have final: "answers Q (Handoff_final W run)" for Q run
    unfolding Handoff_final_def by (intro answers_intro exit)
  have loop: "answers (handoff_status n early) (bindM (Handoff_loop W n early m i None)
      (\<lambda>r. case r of Inl Status \<Rightarrow> retM Status | Inr run \<Rightarrow> Handoff_final W run))" for m i
    by (rule answers_bind_after [OF Handoff_loop_status])
      (use final in \<open>auto simp: wp_eq answers_def split: sum.splits\<close>)
  show ?thesis
    unfolding XFsbl_Handoff_def
    by (intro loop answers_try Handoff_prepare_status answers_bind [where m = "getM f" for f]
        answers_bind [where m = "if b then x else y" for b x y] answers_if jtag answers_try_as)
      (simp add: handoff_errors)
qed

section \<open>The release of a core\<close>

text \<open>The resets that \<open>XFsbl_SetCpuPwrSettings\<close> releases for a core of the APU.\<close>

definition A53_resets :: "u32 \<Rightarrow> u32" where
  "A53_resets CpuId =
     (if CpuId = XIH_PH_ATTRB_DEST_CPU_A53_0 then CRF_APB_RST_FPD_APU_ACPU0_RESET_MASK OR
        CRF_APB_RST_FPD_APU_APU_L2_RESET_MASK OR CRF_APB_RST_FPD_APU_ACPU0_PWRON_RESET_MASK
      else if CpuId = XIH_PH_ATTRB_DEST_CPU_A53_1 then CRF_APB_RST_FPD_APU_ACPU1_RESET_MASK OR
        CRF_APB_RST_FPD_APU_APU_L2_RESET_MASK OR CRF_APB_RST_FPD_APU_ACPU1_PWRON_RESET_MASK
      else if CpuId = XIH_PH_ATTRB_DEST_CPU_A53_2 then CRF_APB_RST_FPD_APU_ACPU2_RESET_MASK OR
        CRF_APB_RST_FPD_APU_APU_L2_RESET_MASK OR CRF_APB_RST_FPD_APU_ACPU2_PWRON_RESET_MASK
      else CRF_APB_RST_FPD_APU_ACPU3_RESET_MASK OR
        CRF_APB_RST_FPD_APU_APU_L2_RESET_MASK OR CRF_APB_RST_FPD_APU_ACPU3_PWRON_RESET_MASK)"

definition A53_cores :: "u32 set" where
  "A53_cores = {XIH_PH_ATTRB_DEST_CPU_A53_0, XIH_PH_ATTRB_DEST_CPU_A53_1,
     XIH_PH_ATTRB_DEST_CPU_A53_2, XIH_PH_ATTRB_DEST_CPU_A53_3}"

text \<open>The last write of the release opens the resets of the core; nothing before it touches them.\<close>

definition released :: "u32 \<Rightarrow> io list \<Rightarrow> io list \<Rightarrow> bool" where
  "released resets h0 h \<longleftrightarrow> (\<exists>x h1. h = Wr CRF_APB_RST_FPD_APU x # h1 @ h0 \<and> x AND resets = 0 \<and>
     unwritten CRF_APB_RST_FPD_APU h1)"

lemma releasedI:
  "h = Wr CRF_APB_RST_FPD_APU x # h1 @ h0 \<Longrightarrow> x AND resets = 0 \<Longrightarrow> unwritten CRF_APB_RST_FPD_APU h1 \<Longrightarrow>
   released resets h0 h"
  by (auto simp: released_def)

lemma PowerUpIsland_quiet:
  "wp (XFsbl_PowerUpIsland W m) (\<lambda>_ t. \<exists>h. t = s\<lparr>trace := h @ trace s\<rparr> \<and> unwritten CRF_APB_RST_FPD_APU h) (\<lambda>_ _. False) s"
proof -
  have poll: "wp (pollM W PMU_GLOBAL_REQ_PWRUP_STATUS ok)
      (\<lambda>_ t. \<exists>h. t = s\<lparr>trace := h @ trace s\<rparr> \<and> unwritten CRF_APB_RST_FPD_APU h) (\<lambda>_ _. False)
      (s\<lparr>trace := g @ trace s\<rparr>)" if "unwritten CRF_APB_RST_FPD_APU g" for ok g
    by (rule wp_poll, rule exI [of _ "Rd PMU_GLOBAL_REQ_PWRUP_STATUS v # map (Rd PMU_GLOBAL_REQ_PWRUP_STATUS) vs @ g" for v vs])
      (use that in simp)
  show ?thesis
    unfolding XFsbl_PowerUpIsland_def Let_def wp_eq
    by (auto intro!: poll [where g = "[Wr a x, Wr b y, Ext c z]" for a x b y c z, simplified])
       (auto simp: hw intro!: exI [of _ "[Ext c z]" for c z])
qed

lemma CheckSupportedCpu_quiet:
  "wp (XFsbl_CheckSupportedCpu W c) (\<lambda>_ t. \<exists>h. t = s\<lparr>trace := h @ trace s\<rparr> \<and> unwritten CRF_APB_RST_FPD_APU h) (\<lambda>_ _. False) s"
  unfolding XFsbl_CheckSupportedCpu_def XFsbl_GetProcEng_def Let_def wp_eq
  by (auto intro: exI [of _ "[Rd a x, Rd b y]" for a x b y] exI [of _ "[Rd a x, Rd b y, Rd c z]" for a x b y c z])

lemma release_A53_order:
  "e \<noteq> XFSBL_SUCCESS \<Longrightarrow>
   wp (release_A53 W ex p e aa m) (\<lambda>x t. x = XFSBL_SUCCESS \<longrightarrow> released m (trace s) (trace t)) (\<lambda>_ _. True) s"
  unfolding release_A53_def wp_eq
  by (rule wp_mono [OF PowerUpIsland_quiet]) (auto simp: hw intro!: releasedI)


lemma SetCpuPwrSettings_order:
  assumes "Settings AND XIH_PH_ATTRB_DEST_CPU_MASK \<in> A53_cores"
  shows "wp (XFsbl_SetCpuPwrSettings W Settings XFSBL_CPU_SWRST) (\<lambda>x t. x = XFSBL_SUCCESS \<longrightarrow>
     released (A53_resets (Settings AND XIH_PH_ATTRB_DEST_CPU_MASK)) (trace s) (trace t)) (\<lambda>_ _. True) s"
proof -
  have flag: "XFSBL_CPU_SWRST AND XFSBL_CPU_SWRST \<noteq> 0"
    and codes: "XFSBL_ERROR_A53_0_POWER_UP \<noteq> XFSBL_SUCCESS" "XFSBL_ERROR_A53_1_POWER_UP \<noteq> XFSBL_SUCCESS"
      "XFSBL_ERROR_A53_2_POWER_UP \<noteq> XFSBL_SUCCESS" "XFSBL_ERROR_A53_3_POWER_UP \<noteq> XFSBL_SUCCESS"
    and cores: "XIH_PH_ATTRB_DEST_CPU_A53_0 \<noteq> XIH_PH_ATTRB_DEST_CPU_A53_1" "XIH_PH_ATTRB_DEST_CPU_A53_0 \<noteq> XIH_PH_ATTRB_DEST_CPU_A53_2"
      "XIH_PH_ATTRB_DEST_CPU_A53_0 \<noteq> XIH_PH_ATTRB_DEST_CPU_A53_3" "XIH_PH_ATTRB_DEST_CPU_A53_1 \<noteq> XIH_PH_ATTRB_DEST_CPU_A53_2"
      "XIH_PH_ATTRB_DEST_CPU_A53_1 \<noteq> XIH_PH_ATTRB_DEST_CPU_A53_3" "XIH_PH_ATTRB_DEST_CPU_A53_2 \<noteq> XIH_PH_ATTRB_DEST_CPU_A53_3"
    by (simp_all add: hw)
  consider "Settings AND XIH_PH_ATTRB_DEST_CPU_MASK = XIH_PH_ATTRB_DEST_CPU_A53_0"
    | "Settings AND XIH_PH_ATTRB_DEST_CPU_MASK = XIH_PH_ATTRB_DEST_CPU_A53_1"
    | "Settings AND XIH_PH_ATTRB_DEST_CPU_MASK = XIH_PH_ATTRB_DEST_CPU_A53_2"
    | "Settings AND XIH_PH_ATTRB_DEST_CPU_MASK = XIH_PH_ATTRB_DEST_CPU_A53_3"
    using assms by (auto simp: A53_cores_def)
  then show ?thesis
    using cores cores [symmetric] flag
    by cases (simp_all add: XFsbl_SetCpuPwrSettings_def A53_resets_def Let_def release_A53_order codes)
qed

lemma lo32_mask: "lo32 (x AND 0xFFFFFFFF) = lo32 x"
proof -
  have "lo32 (x AND mask 32) = lo32 x" by (rule bit_word_eqI) (simp add: bit_simps)
  then show ?thesis by (simp add: mask_eq_exp_minus_1)
qed

lemma UpdateResetVector_A53:
  assumes "Settings AND XIH_PH_ATTRB_DEST_CPU_MASK \<in> A53_cores"
    and "Settings AND XIH_PH_ATTRB_A53_EXEC_ST_MASK = XIH_PH_ATTRB_A53_EXEC_ST_AA64"
    and "rvbar_regs (Settings AND XIH_PH_ATTRB_DEST_CPU_MASK) = (low, high)"
  shows "XFsbl_UpdateResetVector W a Settings OTHER_CPU_HANDOFF x =
     seqsM [XFsbl_Out32 low (lo32 a), XFsbl_Out32 high (lo32 (drop_bit 32 a))]"
proof -
  have codes: "XIH_PH_ATTRB_A53_EXEC_ST_AA64 \<noteq> XIH_PH_ATTRB_A53_EXEC_ST_AA32"
    "OTHER_CPU_HANDOFF \<noteq> A53_0_32_HANDOFF_TO_A53_0_64"
    by (simp_all add: hw)
  have r5: "Settings AND XIH_PH_ATTRB_DEST_CPU_MASK \<notin>
      {XIH_PH_ATTRB_DEST_CPU_R5_0, XIH_PH_ATTRB_DEST_CPU_R5_1, XIH_PH_ATTRB_DEST_CPU_R5_L}"
    using assms(1) unfolding A53_cores_def by (auto simp: hw)
  then show ?thesis
    using assms(2,3) codes
    by (simp add: XFsbl_UpdateResetVector_def update_vinithi_def XFsbl_Is32BitCpu_def whenM_def Let_def lo32_mask)
      (simp add: seqM_def bindM_def retM_def)
qed

text \<open>C8: The reset vector of a core is in place before the core starts.  When the handoff of an
  A53 core in 64-bit mode succeeds, its last register write opens the resets of that core; the
  two halves of the handoff address were written to the vector registers of the same core
  before, and nothing in between, or earlier in this handoff, wrote the reset register.\<close>

theorem Handoff_other_vector_first:
  assumes "CpuSettings v AND XIH_PH_ATTRB_DEST_CPU_MASK \<in> A53_cores"
    and "CpuSettings v AND XIH_PH_ATTRB_A53_EXEC_ST_MASK = XIH_PH_ATTRB_A53_EXEC_ST_AA64"
    and "Handoff_other W n v s = Some (Ret XFSBL_SUCCESS, t)"
  shows "\<exists>h1 h2 low high. rvbar_regs (CpuSettings v AND XIH_PH_ATTRB_DEST_CPU_MASK) = (low, high) \<and>
     released (A53_resets (CpuSettings v AND XIH_PH_ATTRB_DEST_CPU_MASK))
       ([Wr high (lo32 (drop_bit 32 (HandoffAddress v))), Wr low (lo32 (HandoffAddress v))] @ h1 @ trace s) (trace t) \<and>
     unwritten CRF_APB_RST_FPD_APU h1"
proof -
  obtain low high where regs: "rvbar_regs (CpuSettings v AND XIH_PH_ATTRB_DEST_CPU_MASK) = (low, high)"
    by fastforce
  let ?R = "released (A53_resets (CpuSettings v AND XIH_PH_ATTRB_DEST_CPU_MASK))"
  let ?Q = "\<lambda>x t. x = XFSBL_SUCCESS \<longrightarrow> (\<exists>h1. ?R ([Wr high (lo32 (drop_bit 32 (HandoffAddress v))),
      Wr low (lo32 (HandoffAddress v))] @ h1 @ trace s) (trace t) \<and> unwritten CRF_APB_RST_FPD_APU h1)"
  have power: "wp (XFsbl_SetCpuPwrSettings W (CpuSettings v) XFSBL_CPU_POWER_UP) Q H u = Q XFSBL_SUCCESS u" for Q H u
    by (simp add: XFsbl_SetCpuPwrSettings_def Let_def wp_eq hw)
  have errors: "XFSBL_ERROR_UNAVAILABLE_CPU \<noteq> XFSBL_SUCCESS" "XFSBL_ERROR_PWR_UP_CPU \<noteq> XFSBL_SUCCESS"
    by (simp_all add: hw)
  have rest: "wp (XFsbl_SetCpuPwrSettings W (CpuSettings v) XFSBL_CPU_SWRST) ?Q (\<lambda>_ _. True)
      (u\<lparr>trace := Wr high (lo32 (drop_bit 32 (HandoffAddress v))) # Wr low (lo32 (HandoffAddress v)) # h1 @ trace s\<rparr>)"
    if "unwritten CRF_APB_RST_FPD_APU h1" for u h1
    by (rule wp_mono [OF SetCpuPwrSettings_order [OF assms(1)]]) (use that in auto)
  have "wp (Handoff_other W n v) ?Q (\<lambda>_ _. True) s"
    unfolding Handoff_other_def Let_def wp_try_as wp_bind wp_seq wp_get_PartitionHeader power
      UpdateResetVector_A53 [OF assms(1,2) regs] wp_seqs_Cons wp_seqs_Nil wp_Out32
    by (rule wp_mono [OF CheckSupportedCpu_quiet]) (use rest errors in auto)
  from wp_Ret [OF this assms(3)] regs show ?thesis by blast
qed


theorem Handoff_other_vector_first_witness:
  "\<exists>t h1 h2 low high. Handoff_other quiet_world 1
       \<lparr>CpuSettings = XIH_PH_ATTRB_DEST_CPU_A53_1 OR XIH_PH_ATTRB_A53_EXEC_ST_AA64, HandoffAddress = 0x8000000\<rparr> fsbl_init
       = Some (Ret XFSBL_SUCCESS, t) \<and> (low, high) = (APU_RVBARADDR1L, APU_RVBARADDR1H) \<and>
     trace t = h2 @ [Wr high 0, Wr low 0x8000000] @ h1"
proof -
  let ?v = "\<lparr>CpuSettings = XIH_PH_ATTRB_DEST_CPU_A53_1 OR XIH_PH_ATTRB_A53_EXEC_ST_AA64, HandoffAddress = 0x8000000\<rparr>"
  have poll: "ends (pollM quiet_world a (\<lambda>x. x AND m = 0)) Q s =
      Q () (s\<lparr>trace := Rd a 0 # trace s\<rparr>)" for a m Q s
    by (simp add: ends_def pollM_def poll_trace.simps quiet_world_def)
  have core: "CpuSettings ?v AND XIH_PH_ATTRB_DEST_CPU_MASK = XIH_PH_ATTRB_DEST_CPU_A53_1"
    "CpuSettings ?v AND XIH_PH_ATTRB_A53_EXEC_ST_MASK = XIH_PH_ATTRB_A53_EXEC_ST_AA64"
    by (simp_all add: hw)
  have world: "reg_in quiet_world h a = 0" "ext_ret quiet_world h c = 0" "XPLAT_ZYNQ_ULTRA_MPQEMU quiet_world = 3" for h a c
    by (simp_all add: quiet_world_def)
  have masks: "EFUSE_IPDISABLE_CG_MASK \<noteq> 0" "unat CSU_IDCODE_SVD_SHIFT = 12" "XFsbl_Strcmp ''EG'' ''CG'' \<noteq> 0"
    by (simp_all add: hw)
  have power: "ends (XFsbl_SetCpuPwrSettings quiet_world (CpuSettings ?v) XFSBL_CPU_POWER_UP) Q s = Q XFSBL_SUCCESS s" for Q s
    by (simp add: XFsbl_SetCpuPwrSettings_def Let_def ends_eq hw)
  have release: "ends (XFsbl_SetCpuPwrSettings quiet_world (CpuSettings ?v) XFSBL_CPU_SWRST) (\<lambda>x t. x = XFSBL_SUCCESS) s" for s
    unfolding XFsbl_SetCpuPwrSettings_def core release_A53_def XFsbl_PowerUpIsland_def Let_def
    by (simp add: ends_eq poll world hw)
  have regs: "rvbar_regs XIH_PH_ATTRB_DEST_CPU_A53_1 = (APU_RVBARADDR1L, APU_RVBARADDR1H)"
    by (simp add: rvbar_regs_def hw)
  have cores: "CpuSettings ?v AND XIH_PH_ATTRB_DEST_CPU_MASK \<in> A53_cores"
    unfolding core by (simp add: A53_cores_def)
  note vector = UpdateResetVector_A53 [OF cores core(2), unfolded core, OF regs]
  have "ends (Handoff_other quiet_world 1 ?v) (\<lambda>x t. x = XFSBL_SUCCESS) fsbl_init"
    unfolding Handoff_other_def XFsbl_CheckSupportedCpu_def XFsbl_GetProcEng_def Let_def core vector ends_eq power
    by (simp add: world masks release [simplified])
  then obtain t where run: "Handoff_other quiet_world 1 ?v fsbl_init = Some (Ret XFSBL_SUCCESS, t)"
    by (auto simp: ends_def)
  from Handoff_other_vector_first [OF cores core(2) run] obtain h1 where
      "released (A53_resets XIH_PH_ATTRB_DEST_CPU_A53_1) ([Wr APU_RVBARADDR1H 0, Wr APU_RVBARADDR1L 0x8000000] @ h1) (trace t)"
    unfolding core regs by (auto simp: fsbl_init_def)
  then show ?thesis
    using run unfolding released_def by (metis append.assoc append_Cons)
qed

section \<open>The alarms around the isolation\<close>

text \<open>The isolation step silences the tamper alarms of both monitors before the protection units
  are configured.  If both configuration calls succeed the two alarm registers get their old
  contents back, last of all.  If one fails the step gives \<open>XFSBL_ERROR_PROTECTION_CFG\<close> and
  writes neither register again: the alarms stay silenced.\<close>

theorem ProtectionConfig_alarms:
  "ends (XFsbl_ProtectionConfig W) (\<lambda>Status t. \<exists>c1 c3 h.
     trace t = h @ [Wr XFSBL_PS_SYSMON_CONFIGREG3 (c3 OR XFSBL_PS_SYSMON_CFGREG3_ALRM_DISBL_MASK),
        Wr XFSBL_PS_SYSMON_CONFIGREG1 (c1 OR XFSBL_PS_SYSMON_CFGREG1_ALRM_DISBL_MASK),
        Rd XFSBL_PS_SYSMON_CONFIGREG3 c3, Rd XFSBL_PS_SYSMON_CONFIGREG1 c1] @ trace s \<and>
     (if Status = XFSBL_SUCCESS
      then h = [Wr XFSBL_PS_SYSMON_CONFIGREG3 c3, Wr XFSBL_PS_SYSMON_CONFIGREG1 c1,
        Ext (Psu PsuProtectionLock) XFSBL_SUCCESS, Ext (Psu PsuProtection) XFSBL_SUCCESS]
      else Status = XFSBL_ERROR_PROTECTION_CFG \<and> unwritten XFSBL_PS_SYSMON_CONFIGREG1 h \<and>
        unwritten XFSBL_PS_SYSMON_CONFIGREG3 h)) s"
proof -
  have code: "XFSBL_ERROR_PROTECTION_CFG \<noteq> XFSBL_SUCCESS" by (simp add: hw)
  show ?thesis
    unfolding XFsbl_ProtectionConfig_def ends_eq
    by (auto simp: code)
qed

section \<open>Early handoffs that end the boot\<close>

text \<open>An early handoff passes over the entries of CPUs without one.\<close>

lemma Handoff_loop_early_passes:
  assumes "\<forall>i. k \<le> i \<and> i < k + m \<longrightarrow>
      \<not> XFsbl_CheckEarlyHandoffCpu W (CpuSettings (HandoffValues s ! i) AND XIH_PH_ATTRB_DEST_CPU_MASK)"
    and "k + m \<le> 10"
  shows "ends (Handoff_loop W n True m (of_nat k) run) (\<lambda>r t. r = Inr run \<and>
    t = s\<lparr>CpuIndexEarlyHandoff := CpuIndexEarlyHandoff s + of_nat m\<rparr>) s"
  using assms
proof (induction m arbitrary: k s)
  case (Suc m)
  have k: "unat (of_nat k :: u32) = k" using Suc.prems by (simp add: unat_of_nat)
  have cpu: "\<not> XFsbl_CheckEarlyHandoffCpu W (CpuSettings (HandoffValues s ! k) AND XIH_PH_ATTRB_DEST_CPU_MASK)"
    using Suc.prems(1) by auto
  let ?s = "s\<lparr>CpuIndexEarlyHandoff := CpuIndexEarlyHandoff s + 1\<rparr>"
  have "ends (Handoff_loop W n True m (of_nat (Suc k)) run) (\<lambda>r t. r = Inr run \<and>
      t = ?s\<lparr>CpuIndexEarlyHandoff := CpuIndexEarlyHandoff ?s + of_nat m\<rparr>) ?s"
    by (rule Suc.IH) (use Suc.prems in auto)
  then show ?case
    using Suc.prems cpu
    by (simp add: ends_eq k Handoff_cpu_def Let_def algebra_simps)
qed (simp add: ends_eq)


lemma Handoff_final_nothing:
  "wp (Handoff_final W None) (\<lambda>_ _. False) (\<lambda>e t. e = HandoffTo 0 XFSBL_NO_HANDOFFEXIT) s"
  unfolding Handoff_final_def XFsbl_StopWdt_def wp_eq
  by (simp add: wp_eq split: option.split)

lemma Handoff_prepare_errors:
  "answers (\<lambda>Status t. Status \<in> {XFSBL_SUCCESS, XFSBL_ERROR_PM_INIT, XFSBL_ERROR_PROTECTION_CFG}) (Handoff_prepare W)"
  unfolding Handoff_prepare_def XFsbl_ProtectionConfig_def Let_def
  by (intro answers_intro) simp_all

lemma Handoff_prepare_frame: "keeps no_exit (\<lambda>t. t\<lparr>trace := []\<rparr> = s\<lparr>trace := []\<rparr>) (Handoff_prepare W)"
  unfolding Handoff_prepare_def XFsbl_ProtectionConfig_def Let_def by (intro keeps_intro still.misc_keeps)

text \<open>An early handoff that finds no R5 left ends the boot.  \<open>XFsbl_Handoff\<close> called for an early
  handoff, with no CPU eligible for one from the remembered index on, does not return to load
  the remaining partitions: but for the errors of power management and isolation, it stops the
  loader with no application started on the running CPU.\<close>

theorem Handoff_early_abandons:
  assumes "\<forall>i. unat (CpuIndexEarlyHandoff s) \<le> i \<and> i < unat (HandoffCpuNo s) \<longrightarrow>
      \<not> XFsbl_CheckEarlyHandoffCpu W (CpuSettings (HandoffValues s ! i) AND XIH_PH_ATTRB_DEST_CPU_MASK)"
    and "unat (HandoffCpuNo s) \<le> 10" and "PrimaryBootDevice s \<noteq> XFSBL_JTAG_BOOT_MODE"
    and "XFsbl_Handoff W n True s = Some (r, t)"
  shows "r \<in> {Halted (HandoffTo 0 XFSBL_NO_HANDOFFEXIT), Ret XFSBL_ERROR_PM_INIT, Ret XFSBL_ERROR_PROTECTION_CFG}"
proof -
  let ?same = "\<lambda>t. t\<lparr>trace := []\<rparr> = s\<lparr>trace := []\<rparr>"
  have fields: "PrimaryBootDevice u = PrimaryBootDevice s \<and> CpuIndexEarlyHandoff u = CpuIndexEarlyHandoff s \<and>
      HandoffCpuNo u = HandoffCpuNo s \<and> HandoffValues u = HandoffValues s" if "?same u" for u
    using arg_cong [OF that, of PrimaryBootDevice] arg_cong [OF that, of CpuIndexEarlyHandoff]
      arg_cong [OF that, of HandoffCpuNo] arg_cong [OF that, of HandoffValues] by simp
  let ?i = "CpuIndexEarlyHandoff s" and ?n = "HandoffCpuNo s"
  have loop: "wp (Handoff_loop W n True (unat ?n - unat ?i) ?i None) (\<lambda>r t. r = Inr None) (\<lambda>_ _. False) u"
    if "?same u" for u
  proof (cases "unat ?i < unat ?n")
    case True
    have "ends (Handoff_loop W n True (unat ?n - unat ?i) (of_nat (unat ?i)) None) (\<lambda>r t. r = Inr None) u"
      by (rule ends_mono [OF Handoff_loop_early_passes])
        (use True assms(1,2) fields [OF that] in auto)
    then show ?thesis by (simp add: ends_wp)
  qed (simp add: wp_eq)
  have code: "XFSBL_ERROR_PM_INIT \<noteq> XFSBL_SUCCESS" "XFSBL_ERROR_PROTECTION_CFG \<noteq> XFSBL_SUCCESS" by (simp_all add: hw)
  let ?tail = "bindM (getM PrimaryBootDevice) (\<lambda>Device.
          if Device = XFSBL_JTAG_BOOT_MODE then Handoff_jtag W
          else tryM_as XFSBL_ERROR_HOOK_BEFORE_HANDOFF
                 (XFsbl_HookBeforeHandoff (if True then 1 else 0))
            (bindM (if True then getM CpuIndexEarlyHandoff else retM 0) (\<lambda>CpuIndex.
             bindM (getM HandoffCpuNo) (\<lambda>CpuNo.
             bindM (Handoff_loop W n True (unat CpuNo - unat CpuIndex) CpuIndex None)
               (\<lambda>r. case r of Inl Status \<Rightarrow> retM Status | Inr run \<Rightarrow> Handoff_final W run)))))"
  have rest: "wp ?tail (\<lambda>_ _. False) (\<lambda>e _. e = HandoffTo 0 XFSBL_NO_HANDOFFEXIT) u" if "?same u" for u
    using fields [OF that] assms(3)
    by (auto simp: wp_bind wp_get wp_try_as XFsbl_HookBeforeHandoff_def wp_ret
        intro!: wp_mono [OF loop [OF that]] wp_mono [OF Handoff_final_nothing])
  have "wp (XFsbl_Handoff W n True) (\<lambda>x t. x \<in> {XFSBL_ERROR_PM_INIT, XFSBL_ERROR_PROTECTION_CFG})
      (\<lambda>e t. e = HandoffTo 0 XFSBL_NO_HANDOFFEXIT) s"
    unfolding XFsbl_Handoff_def wp_try
    using wp_conj [OF keepsD [OF Handoff_prepare_frame refl] Handoff_prepare_errors [unfolded answers_def, rule_format]]
  proof (rule wp_mono)
    fix x t
    assume "?same t \<and> x \<in> {XFSBL_SUCCESS, XFSBL_ERROR_PM_INIT, XFSBL_ERROR_PROTECTION_CFG}"
    then show "if x \<noteq> XFSBL_SUCCESS then x \<in> {XFSBL_ERROR_PM_INIT, XFSBL_ERROR_PROTECTION_CFG} else wp ?tail
        (\<lambda>x t. x \<in> {XFSBL_ERROR_PM_INIT, XFSBL_ERROR_PROTECTION_CFG}) (\<lambda>e t. e = HandoffTo 0 XFSBL_NO_HANDOFFEXIT) t"
      using wp_mono [OF rest, of t "\<lambda>x t. x \<in> {XFSBL_ERROR_PM_INIT, XFSBL_ERROR_PROTECTION_CFG}"] by auto
  qed simp
  with assms(4) show ?thesis
    by (cases r) (auto simp: wp_def)
qed


text \<open>The partitions R5-0, A53-0, R5-0, A53-1 (numbers 1 to 4) on A53-0, after number 3 was loaded.\<close>

definition two_r5_applications :: fsbl where
  "two_r5_applications = fsbl_init\<lparr>
     ProcessorID := XIH_PH_ATTRB_DEST_CPU_A53_0, PrimaryBootDevice := XFSBL_QSPI32_BOOT_MODE,
     ImageHeaderTable := (ImageHeaderTable fsbl_init)\<lparr>NoOfPartitions := 5\<rparr>,
     PartitionHeader := (PartitionHeader fsbl_init)
       [1 := (hd (PartitionHeader fsbl_init))\<lparr>PartitionAttributes := XIH_PH_ATTRB_DEST_CPU_R5_0\<rparr>,
        2 := (hd (PartitionHeader fsbl_init))\<lparr>PartitionAttributes := XIH_PH_ATTRB_DEST_CPU_A53_0\<rparr>,
        3 := (hd (PartitionHeader fsbl_init))\<lparr>PartitionAttributes := XIH_PH_ATTRB_DEST_CPU_R5_0\<rparr>,
        4 := (hd (PartitionHeader fsbl_init))\<lparr>PartitionAttributes := XIH_PH_ATTRB_DEST_CPU_A53_1\<rparr>],
     HandoffCpuNo := 2, CpuIndexEarlyHandoff := 1,
     HandoffValues := (HandoffValues fsbl_init)
       [0 := \<lparr>CpuSettings = XIH_PH_ATTRB_DEST_CPU_R5_0, HandoffAddress = 0x100000\<rparr>,
        1 := \<lparr>CpuSettings = XIH_PH_ATTRB_DEST_CPU_A53_0, HandoffAddress = 0x8000000\<rparr>]\<rparr>"

theorem Handoff_early_abandons_witness:
  "XFsbl_CheckEarlyHandoff (quiet_world\<lparr>cfg_early_handoff := True\<rparr>) 3 two_r5_applications
     = Some (Ret True, two_r5_applications) \<and>
   3 < NoOfPartitions (ImageHeaderTable two_r5_applications) - 1 \<and>
   (\<exists>t. XFsbl_Handoff (quiet_world\<lparr>cfg_early_handoff := True\<rparr>) 3 True two_r5_applications
     = Some (Halted (HandoffTo 0 XFSBL_NO_HANDOFFEXIT), t))"
proof -
  let ?W = "quiet_world\<lparr>cfg_early_handoff := True\<rparr>"
  have parts: "PartitionAttributes (PartitionHeader two_r5_applications ! 3) = XIH_PH_ATTRB_DEST_CPU_R5_0"
    "PartitionAttributes (PartitionHeader two_r5_applications ! 4) = XIH_PH_ATTRB_DEST_CPU_A53_1"
    and fields: "NoOfPartitions (ImageHeaderTable two_r5_applications) = 5" "HandoffCpuNo two_r5_applications = 2"
    "ProcessorID two_r5_applications = XIH_PH_ATTRB_DEST_CPU_A53_0" "CpuIndexEarlyHandoff two_r5_applications = 1"
    "CpuSettings (HandoffValues two_r5_applications ! 1) = XIH_PH_ATTRB_DEST_CPU_A53_0"
    "PrimaryBootDevice two_r5_applications \<noteq> XFSBL_JTAG_BOOT_MODE" "ResetReason two_r5_applications = 0"
    by (simp_all add: two_r5_applications_def fsbl_init_def hw)
  have early: "XFsbl_CheckEarlyHandoff ?W 3 two_r5_applications = Some (Ret True, two_r5_applications)"
    by (simp add: XFsbl_CheckEarlyHandoff_def bindM_def getM_def retM_def
        get_PartitionHeader_def boundM_def seqM_def early_dest_def XFsbl_CheckEarlyHandoffCpu_def Let_def
        XFsbl_GetDestinationCpu_def XFsbl_GetDestinationDevice_def parts fields hw)
  let ?noR5 = "\<lambda>i. \<not> XFsbl_CheckEarlyHandoffCpu ?W (CpuSettings (HandoffValues two_r5_applications ! i) AND XIH_PH_ATTRB_DEST_CPU_MASK)"
  have one: "?noR5 1"
    unfolding fields by (simp add: XFsbl_CheckEarlyHandoffCpu_def hw)
  have index: "unat (CpuIndexEarlyHandoff two_r5_applications) = 1" "unat (HandoffCpuNo two_r5_applications) = 2"
    unfolding fields by simp_all
  have passes: "\<forall>i. unat (CpuIndexEarlyHandoff two_r5_applications) \<le> i \<and> i < unat (HandoffCpuNo two_r5_applications) \<longrightarrow> ?noR5 i"
  proof (intro allI impI)
    fix i assume "unat (CpuIndexEarlyHandoff two_r5_applications) \<le> i \<and> i < unat (HandoffCpuNo two_r5_applications)"
    then have "i = 1" unfolding index by linarith
    then show "?noR5 i" by (rule ssubst) (rule one)
  qed
  have "ends (Handoff_prepare ?W) (\<lambda>x t. x = XFSBL_SUCCESS \<and> (\<exists>h. t = two_r5_applications\<lparr>trace := h\<rparr>)) two_r5_applications"
    by (simp add: Handoff_prepare_def XFsbl_ProtectionConfig_def XFsbl_PmInit_def ends_eq Let_def fields quiet_world_def hw)
      blast
  then obtain h where prepare: "Handoff_prepare ?W two_r5_applications = Some (Ret XFSBL_SUCCESS, two_r5_applications\<lparr>trace := h\<rparr>)"
    by (auto simp: ends_def)
  have "ends (Handoff_loop ?W 3 True 1 (of_nat 1) None) (\<lambda>r t. r = Inr None \<and> ResetReason t = 0) (two_r5_applications\<lparr>trace := h\<rparr>)"
    by (rule ends_mono [OF Handoff_loop_early_passes]) (use passes index in \<open>auto simp: fields\<close>)
  then obtain u where loop: "Handoff_loop ?W 3 True (Suc 0) 1 None (two_r5_applications\<lparr>trace := h\<rparr>) = Some (Ret (Inr None), u)"
    by (auto simp: ends_def simp del: Handoff_loop.simps)
  have handoff: "XFsbl_Handoff ?W 3 True two_r5_applications = Handoff_final ?W None u"
    by (simp add: XFsbl_Handoff_def tryM_def tryM_as_def bindM_def prepare loop getM_def retM_def fields index
        XFsbl_HookBeforeHandoff_def del: Handoff_loop.simps)
  obtain r t where "Handoff_final ?W None u = Some (r, t)"
    by (simp add: Handoff_final_def XFsbl_HandoffExit_def bindM_def getM_def seqM_def XFsbl_Out32_def logM_def modM_def retM_def
      rmwM_def XFsbl_In32_def haltM_def quiet_world_def)
  then have run: "XFsbl_Handoff ?W 3 True two_r5_applications = Some (r, t)" by (simp add: handoff)
  have "r \<in> {Halted (HandoffTo 0 XFSBL_NO_HANDOFFEXIT), Ret XFSBL_ERROR_PM_INIT, Ret XFSBL_ERROR_PROTECTION_CFG}"
    by (rule Handoff_early_abandons [OF passes _ fields(6) run]) (simp add: fields)
  moreover have "wp (Handoff_final ?W None) (\<lambda>_ _. False) (\<lambda>_ _. True) u"
    by (rule wp_mono [OF Handoff_final_nothing]) simp_all
  ultimately show ?thesis
    using run early by (auto simp: fields wp_def handoff)
qed

end
