(* ===== verification/Fsbl_Init.thy ===== *)
theory Fsbl_Init
  imports Fsbl_Handoff
begin

text \<open>
  The first two stages of the loader (\<open>xfsbl_initialization.c\<close>): the reset reason, the
  system and processor initialisation, the primary and the secondary boot device, and the
  validation of the boot header with its authentication.
\<close>

section \<open>Stage 1: the system\<close>

text \<open>
  The data section is saved at the first start and restored on an APU-only restart; a run of
  the model starts from the restored instance, so both are steps of the history only.
\<close>

definition XFsbl_GetResetReason :: "world \<Rightarrow> u32 prog" where
  "XFsbl_GetResetReason W =
     bindM (XFsbl_In32 W CRL_APB_RESET_REASON) (\<lambda>Val.
       if Val AND CRL_APB_RESET_REASON_PSONLY_RESET_REQ_MASK \<noteq> 0 then
         seqM (XFsbl_Out32 CRL_APB_RESET_REASON CRL_APB_RESET_REASON_PSONLY_RESET_REQ_MASK)
          (seqM (callM W (Dev SaveData)) (retM XFSBL_PS_ONLY_RESET))
       else bindM (XFsbl_In32 W PMU_GLOBAL_GLOB_GEN_STORAGE4) (\<lambda>v.
         let Ret = drop_bit (unat XFSBL_APU_RESET_BIT) (v AND XFSBL_APU_RESET_MASK)
         in if Ret = XFSBL_SYSTEM_RESET then seqM (callM W (Dev SaveData)) (retM Ret)
            else seqM (callM W (Dev RestoreData)) (retM XFSBL_APU_ONLY_RESET)))"

definition XFsbl_EnableProgToPL :: "world \<Rightarrow> unit prog" where
  "XFsbl_EnableProgToPL W = seqsM
     [XFsbl_Out32 CSU_PCAP_PROG CSU_PCAP_PROG_PCFG_PROG_B_MASK,
      rmwM W PMU_GLOBAL_PS_CNTRL (\<lambda>v. (v AND NOT PMU_GLOBAL_PS_CNTRL_PROG_GATE_MASK)
        OR PMU_GLOBAL_PS_CNTRL_PROG_ENABLE_MASK)]"

text \<open>The loop that unblocks the isolation of the logic: it ends when the status reads zero.\<close>

partial_function (option) unblock_trace :: "world \<Rightarrow> io list \<Rightarrow> io list option" where
  "unblock_trace W h =
     (let v = reg_in W h PMU_GLOBAL_AIB_STATUS; h' = Rd PMU_GLOBAL_AIB_STATUS v # h
      in if v = 0 then Some h' else unblock_trace W (Wr PMU_GLOBAL_AIB_CNTRL 0 # h'))"

definition unblock_aib :: "world \<Rightarrow> unit prog" where
  "unblock_aib W = (\<lambda>s. case unblock_trace W (trace s) of
       None \<Rightarrow> None
     | Some h \<Rightarrow> Some (Ret (), s\<lparr>trace := h\<rparr>))"

definition XFsbl_MarkDdrAsReserved :: "world \<Rightarrow> bool \<Rightarrow> unit prog" where
  "XFsbl_MarkDdrAsReserved W Cond =
     (let Attrib = (if Cond then ATTRIB_RESERVED_A53 else ATTRIB_MEMORY_A53_64)
      in seqsM
        [seqsM (map (\<lambda>i. callM W (Bsp (SetTlb (of_nat i * zx BLOCK_SIZE_A53_64) Attrib)))
           [0..<unat NUM_BLOCKS_A53_64]),
         (case cfg_hi_ddr W of
            None \<Rightarrow> retM ()
          | Some (start, end_) \<Rightarrow>
              seqsM (map (\<lambda>i. callM W (Bsp (SetTlb (start + of_nat i * zx BLOCK_SIZE_A53_64_HIGH) Attrib)))
                [0..<unat (((end_ - start) + 1) div zx BLOCK_SIZE_A53_64_HIGH)])),
         callM W (Bsp DCacheFlush)])"

definition SystemInit_power :: "world \<Rightarrow> u32 prog" where
  "SystemInit_power W =
     bindM (extM W (Bsp PSVersion)) (\<lambda>Version.
       if Version \<le> XPS_VERSION_2 W then
         tryM_as XFSBL_ERROR_PL_POWER_UP (XFsbl_PowerUpIsland W PMU_GLOBAL_PWR_STATE_PL_MASK)
          (tryM_as XFSBL_ERROR_PMU_GLOBAL_REQ_ISO
             (XFsbl_IsolationRestore W PMU_GLOBAL_REQ_ISO_INT_EN_PL_NONPCAP_MASK)
             (retM XFSBL_SUCCESS))
       else retM XFSBL_SUCCESS)"

text \<open>The second test of the C code, for an APU-only reset, is never reached.\<close>

definition XFsbl_SystemInit :: "world \<Rightarrow> u32 prog" where
  "XFsbl_SystemInit W =
     bindM (getM ResetReason) (\<lambda>Reset.
       tryM (if Reset \<noteq> XFSBL_PS_ONLY_RESET then SystemInit_power W
             else if Reset = XFSBL_APU_ONLY_RESET then retM XFSBL_SUCCESS
             else seqM (unblock_aib W) (retM XFSBL_SUCCESS))
        (tryM (XFsbl_HookPsuInit W)
          (seqM (seqsM
             [XFsbl_MarkDdrAsReserved W False,
              XFsbl_Out32 IOU_SLCR_SD_CDN_CTRL (IOU_SLCR_SD_CDN_CTRL_SD1_CDN_CTRL_MASK OR
                IOU_SLCR_SD_CDN_CTRL_SD0_CDN_CTRL_MASK)])
            (retM XFSBL_SUCCESS))))"

definition XFsbl_ClearPendingInterrupts :: "world \<Rightarrow> unit prog" where
  "XFsbl_ClearPendingInterrupts W =
     (let InterruptClearVal = 0xFFFFFFFF
      in seqsM
       ([XFsbl_Out32 ACPU_GIC_GICD_ICENBLR0 InterruptClearVal,
         XFsbl_Out32 ACPU_GIC_GICD_ICPENDR0 InterruptClearVal,
         XFsbl_Out32 ACPU_GIC_GICD_ICACTIVER0 InterruptClearVal,
         XFsbl_Out32 ACPU_GIC_GICD_ICENBLR1 InterruptClearVal,
         XFsbl_Out32 ACPU_GIC_GICD_ICPENDR1 InterruptClearVal,
         XFsbl_Out32 ACPU_GIC_GICD_ICACTIVER1 InterruptClearVal,
         XFsbl_Out32 ACPU_GIC_GICD_ICENBLR2 InterruptClearVal,
         XFsbl_Out32 ACPU_GIC_GICD_ICPENDR2 InterruptClearVal,
         XFsbl_Out32 ACPU_GIC_GICD_ICACTIVER2 InterruptClearVal,
         XFsbl_Out32 ACPU_GIC_GICD_ICENBLR3 InterruptClearVal,
         XFsbl_Out32 ACPU_GIC_GICD_ICPENDR3 InterruptClearVal,
         XFsbl_Out32 ACPU_GIC_GICD_ICACTIVER3 InterruptClearVal,
         XFsbl_Out32 ACPU_GIC_GICD_ICENBLR4 InterruptClearVal,
         XFsbl_Out32 ACPU_GIC_GICD_ICPENDR4 InterruptClearVal,
         XFsbl_Out32 ACPU_GIC_GICD_ICACTIVER4 InterruptClearVal,
         XFsbl_Out32 ACPU_GIC_GICD_ICENBLR5 InterruptClearVal,
         XFsbl_Out32 ACPU_GIC_GICD_ICPENDR5 InterruptClearVal,
         XFsbl_Out32 ACPU_GIC_GICD_ICACTIVER5 InterruptClearVal,
         bindM (XFsbl_In32 W ACPU_GIC_GICD_INTR_ACK_REG)
           (\<lambda>RegVal. XFsbl_Out32 ACPU_GIC_GICD_END_INTR_REG RegVal),
         XFsbl_Out32 ACPU_GIC_GICD_CPENDSGIR0 InterruptClearVal,
         XFsbl_Out32 ACPU_GIC_GICD_CPENDSGIR1 InterruptClearVal,
         XFsbl_Out32 ACPU_GIC_GICD_CPENDSGIR2 InterruptClearVal,
         XFsbl_Out32 ACPU_GIC_GICD_CPENDSGIR3 InterruptClearVal]))"

section \<open>Stage 1: the processor\<close>

text \<open>
  The low vectors of an R5: addresses 0 to 28.  The cluster identification is a 64-bit register, whose eight
  bytes the world gives.
\<close>

definition write_lovec :: "unit prog" where
  "write_lovec = seqsM (map (\<lambda>k. XFsbl_Out32 (of_nat (4 * k)) XFSBL_R5_LOVEC_VALUE) [0..<8])"

definition ProcessorInit_store :: "world \<Rightarrow> u64 \<Rightarrow> u32 prog" where
  "ProcessorInit_store W ClusterId =
     tryM (if ClusterId AND zx XFSBL_CLUSTER_ID_MASK = zx XFSBL_A53_PROCESSOR then
             seqM (modM (\<lambda>s. s\<lparr>ProcessorID := XIH_PH_ATTRB_DEST_CPU_A53_0,
                               A53ExecState := XIH_PH_ATTRB_A53_EXEC_ST_AA64\<rparr>))
               (retM XFSBL_SUCCESS)
           else if ClusterId AND zx XFSBL_CLUSTER_ID_MASK = zx XFSBL_R5_PROCESSOR then
             seqM (modM (\<lambda>s. s\<lparr>A53ExecState := XIH_INVALID_EXEC_ST\<rparr>))
              (bindM (XFsbl_In32 W RPU_RPU_GLBL_CNTL) (\<lambda>RegValue.
                 seqM (seqsM
                   [modM (\<lambda>s. s\<lparr>ProcessorID :=
                      (if RegValue AND RPU_RPU_GLBL_CNTL_SLSPLIT_MASK = 0
                       then XIH_PH_ATTRB_DEST_CPU_R5_L else XIH_PH_ATTRB_DEST_CPU_R5_0)\<rparr>),
                    write_lovec,
                    callM W (Bsp DCacheFlush)])
                  (retM XFSBL_SUCCESS)))
           else retM XFSBL_ERROR_UNSUPPORTED_CLUSTER_ID)
       (seqM (seqsM
          [bindM (XFsbl_GetSiliconIdName W) (\<lambda>DevName. retM ()),
           bindM (XFsbl_GetProcEng W) (\<lambda>DevName. retM ()),
           callM W (Bsp RegisterHandlers)])
         (retM XFSBL_SUCCESS))"

definition XFsbl_ProcessorInit :: "world \<Rightarrow> u32 prog" where
  "XFsbl_ProcessorInit W =
     bindM (copyM W (Bsp ClusterIdReg)) (\<lambda>(_, b).
     bindM (extM W (Bsp PlatformInfo)) (\<lambda>Platform.
       if Platform = XPLAT_ZYNQ_ULTRA_MPQEMU W \<and> le64 b 0 = 0x80000004
       then ProcessorInit_store W 0xC0000100
       else if Platform = XPLAT_ZYNQ_ULTRA_MPQEMU W \<and> le64 b 0 = 0x80000005
       then retM XFSBL_ERROR_UNSUPPORTED_CLUSTER_ID
       else ProcessorInit_store W (le64 b 0)))"

definition ResetValidation_mark :: "u32 \<Rightarrow> u32 prog" where
  "ResetValidation_mark FsblErrorStatus =
     seqM (whenM (FsblErrorStatus \<noteq> XFSBL_RUNNING)
             (XFsbl_Out32 XFSBL_ERROR_STATUS_REGISTER_OFFSET XFSBL_RUNNING))
       (retM XFSBL_SUCCESS)"

definition XFsbl_ResetValidation :: "world \<Rightarrow> u32 prog" where
  "XFsbl_ResetValidation W =
     bindM (XFsbl_In32 W XFSBL_ERROR_STATUS_REGISTER_OFFSET) (\<lambda>FsblErrorStatus.
     bindM (XFsbl_In32 W CRL_APB_RESET_REASON) (\<lambda>ResetReasonValue.
       if ResetReasonValue AND CRL_APB_RESET_REASON_PMU_SYS_RESET_MASK
            = CRL_APB_RESET_REASON_PMU_SYS_RESET_MASK then
         bindM (XFsbl_In32 W PMU_GLOBAL_ERROR_STATUS_1) (\<lambda>ErrStatusRegValue.
           if ErrStatusRegValue AND PMU_GLOBAL_ERROR_STATUS_1_LPD_SWDT_MASK
                = PMU_GLOBAL_ERROR_STATUS_1_LPD_SWDT_MASK \<and> FsblErrorStatus = XFSBL_RUNNING
           then seqM (case cfg_wdt_mask W of None \<Rightarrow> retM ()
                      | Some WdtMask \<Rightarrow> XFsbl_Out32 PMU_GLOBAL_ERROR_STATUS_1 WdtMask)
                  (retM XFSBL_ERROR_SYSTEM_WDT_RESET)
           else ResetValidation_mark FsblErrorStatus)
       else ResetValidation_mark FsblErrorStatus))"

definition engines_in_reset :: "unit prog" where
  "engines_in_reset = seqsM
     [XFsbl_Out32 CSU_AES_RESET CSU_AES_RESET_RESET_MASK,
      XFsbl_Out32 CSU_SHA_RESET CSU_SHA_RESET_RESET_MASK]"

definition XFsbl_Initialize :: "world \<Rightarrow> u32 prog" where
  "XFsbl_Initialize W =
     seqM engines_in_reset
      (bindM (XFsbl_GetResetReason W) (\<lambda>Reset.
       seqM (seqsM
         [modM (\<lambda>s. s\<lparr>ResetReason := Reset\<rparr>),
          whenM (Reset = XFSBL_PS_ONLY_RESET) (XFsbl_EnableProgToPL W)])
       (tryM (if Reset \<noteq> XFSBL_APU_ONLY_RESET then XFsbl_SystemInit W
              else seqM (XFsbl_ClearPendingInterrupts W) (retM XFSBL_SUCCESS))
        (seqM engines_in_reset
         (tryM (XFsbl_ProcessorInit W)
           (if Reset \<noteq> XFSBL_APU_ONLY_RESET then
              tryM (XFsbl_TcmInit W)
               (tryM (XFsbl_DdrEccInit W)
                 (tryM (extM W (Dev BoardInit)) (XFsbl_ResetValidation W)))
            else retM XFSBL_SUCCESS))))))"

section \<open>Stage 2: boot devices\<close>

definition flash_boot_mode :: "u32 \<Rightarrow> bool" where
  "flash_boot_mode BootMode \<longleftrightarrow> BootMode = XFSBL_QSPI24_BOOT_MODE \<or>
     BootMode = XFSBL_QSPI32_BOOT_MODE \<or> BootMode = XFSBL_NAND_BOOT_MODE \<or>
     BootMode = XFSBL_SD0_BOOT_MODE \<or> BootMode = XFSBL_EMMC_BOOT_MODE \<or>
     BootMode = XFSBL_SD1_BOOT_MODE \<or> BootMode = XFSBL_SD1_LS_BOOT_MODE"

text \<open>The device operations of a boot mode, or the error of the switch.\<close>

definition boot_ops :: "world \<Rightarrow> u32 \<Rightarrow> u32 + XFsblPs_DeviceOps" where
  "boot_ops W BootMode =
     (if BootMode = XFSBL_USB_BOOT_MODE then Inl XFSBL_ERROR_UNSUPPORTED_BOOT_MODE
      else if BootMode = XFSBL_JTAG_BOOT_MODE then Inl XFSBL_STATUS_JTAG
      else if BootMode = XFSBL_QSPI24_BOOT_MODE then
        (if cfg_qspi W then Inr Qspi24Ops else Inl XFSBL_ERROR_UNSUPPORTED_BOOT_MODE)
      else if BootMode = XFSBL_QSPI32_BOOT_MODE then
        (if cfg_qspi W then Inr Qspi32Ops else Inl XFSBL_ERROR_UNSUPPORTED_BOOT_MODE)
      else if BootMode = XFSBL_NAND_BOOT_MODE then
        (if cfg_nand W then Inr NandOps else Inl XFSBL_ERROR_UNSUPPORTED_BOOT_MODE)
      else if BootMode = XFSBL_SD0_BOOT_MODE \<or> BootMode = XFSBL_EMMC_BOOT_MODE then
        (if cfg_sd0 W then Inr SdOps else Inl XFSBL_ERROR_UNSUPPORTED_BOOT_MODE)
      else if BootMode = XFSBL_SD1_BOOT_MODE \<or> BootMode = XFSBL_SD1_LS_BOOT_MODE then
        (if cfg_sd1 W then Inr SdOps else Inl XFSBL_ERROR_UNSUPPORTED_BOOT_MODE)
      else Inl XFSBL_ERROR_UNSUPPORTED_BOOT_MODE)"

definition XFsbl_PrimaryBootDeviceInit :: "world \<Rightarrow> u32 prog" where
  "XFsbl_PrimaryBootDeviceInit W =
     bindM (XFsbl_In32 W CRL_APB_BOOT_MODE_USER) (\<lambda>v.
     bindM (getM ResetReason) (\<lambda>Reset.
       let BootMode = v AND CRL_APB_BOOT_MODE_USER_BOOT_MODE_MASK
       in seqM (modM (\<lambda>s. s\<lparr>PrimaryBootDevice := BootMode\<rparr>))
        (tryM (if flash_boot_mode BootMode \<or> BootMode = XFSBL_USB_BOOT_MODE then
                 tryM (case cfg_wdt_mask W of None \<Rightarrow> retM XFSBL_SUCCESS
                       | Some WdtMask \<Rightarrow> if Reset \<noteq> XFSBL_APU_ONLY_RESET
                           then XFsbl_InitWdt W WdtMask else retM XFSBL_SUCCESS)
                   (XFsbl_CsuDmaInit W)
               else retM XFSBL_SUCCESS)
          (case boot_ops W BootMode of
             Inl Status \<Rightarrow> retM Status
           | Inr ops \<Rightarrow> seqM (modM (\<lambda>s. s\<lparr>DeviceOps := ops\<rparr>))
               (extM W (Dev (DeviceInit ops BootMode)))))))"

section \<open>Stage 2: the headers\<close>

text \<open>
  A copy of \<open>Len\<close> bytes from the boot device into \<open>ReadBuffer\<close>.  The buffer has
  \<open>READ_BUFFER_SIZE\<close> bytes: a longer copy would overwrite what lies behind it, which the
  model reports.
\<close>

definition copy_ReadBuffer :: "world \<Rightarrow> u32 \<Rightarrow> u32 \<Rightarrow> u32 prog" where
  "copy_ReadBuffer W SrcAddress Len =
     (if Len > READ_BUFFER_SIZE
      then bindM (getM DeviceOps) (\<lambda>ops. seqM
             (callM W (Dev (DeviceCopy ops SrcAddress (read_buffer_addr W) Len))) (haltM BufferOverflow))
      else read_chunk W SrcAddress Len)"

definition file_system_mode :: "u32 \<Rightarrow> bool" where
  "file_system_mode BootMode \<longleftrightarrow> BootMode = XFSBL_SD0_BOOT_MODE \<or> BootMode = XFSBL_EMMC_BOOT_MODE \<or>
     BootMode = XFSBL_SD1_BOOT_MODE \<or> BootMode = XFSBL_SD1_LS_BOOT_MODE \<or>
     BootMode = XFSBL_USB_BOOT_MODE"

definition ValidateHeader_offset :: "u32 \<Rightarrow> unit prog" where
  "ValidateHeader_offset MultiBootOffset =
     modM (\<lambda>s. if file_system_mode (if SecondaryBootDevice s = 0 then PrimaryBootDevice s
                                     else SecondaryBootDevice s) then s
               else s\<lparr>ImageOffsetAddress := MultiBootOffset * XFSBL_IMAGE_SEARCH_OFFSET\<rparr>)"

text \<open>The authenticated image header: certificate, boot header, then the header table in OCM.\<close>

definition ValidateHeader_auth :: "world \<Rightarrow> bool \<Rightarrow> u32 \<Rightarrow> u32 prog" where
  "ValidateHeader_auth W IsEfuseRsa TableOffset =
     bindM (getM ImageOffsetAddress) (\<lambda>ImageOffset.
     bindM (getM DeviceOps) (\<lambda>ops.
     bindM (copyM W (Dev (DeviceCopy ops (ImageOffset + TableOffset + XIH_IHT_AC_OFFSET) (ac_offset_addr W) XIH_FIELD_LEN)))
       (\<lambda>(Status, b). let AcOffset = le32 b 0 in
        if Status \<noteq> XFSBL_SUCCESS then retM Status
        else if AcOffset = 0 then retM XFSBL_ERROR_IMAGE_HEADER_ACOFFSET
        else bindM (copyM W (Dev (DeviceCopy ops (ImageOffset + AcOffset * XIH_PARTITION_WORD_LENGTH)
                     (auth_buffer_addr W) XFSBL_AUTH_CERT_MIN_SIZE)))
          (\<lambda>(Status, b). seqM (modM (\<lambda>s. s\<lparr>AuthBuffer :=
               (\<lambda>k. if k < unat XFSBL_AUTH_CERT_MIN_SIZE then b k else AuthBuffer s k)\<rparr>))
            (if Status \<noteq> XFSBL_SUCCESS then retM Status
             else tryM (XFsbl_BhAuthentication W (read_buffer_addr W) (auth_buffer_addr W) IsEfuseRsa)
               (let Size = AcOffset * XIH_PARTITION_WORD_LENGTH - TableOffset
                in tryM (copy_ReadBuffer W (ImageOffset + TableOffset) Size)
                  (tryM (XFsbl_Authentication W (read_buffer_addr W) (Size + XFSBL_AUTH_CERT_MIN_SIZE)
                           (auth_buffer_addr W))
                    (bindM (getM (\<lambda>s. le32 (ReadBuffer s) (unat XIH_IHT_AC_OFFSET))) (\<lambda>AcOffset'.
                       if AcOffset \<noteq> AcOffset' then retM XFSBL_ERROR_IMAGE_HEADER_ACOFFSET
                       else retM XFSBL_SUCCESS)))))))))"

definition XFsbl_ValidateHeader :: "world \<Rightarrow> u32 prog" where
  "XFsbl_ValidateHeader W =
     bindM (XFsbl_In32 W CSU_CSU_MULTI_BOOT) (\<lambda>MultiBootOffset.
     seqM (ValidateHeader_offset MultiBootOffset)
     (bindM (getM ImageOffsetAddress) (\<lambda>FlashImageOffsetAddress.
      tryM (read_chunk W FlashImageOffsetAddress XIH_BH_MAX_SIZE)
       (seqM (modM (\<lambda>s. s\<lparr>Iv := XFsbl_MemCpy (unat XIH_BH_IV_LENGTH) 0 (Iv s)
                 (\<lambda>k. ReadBuffer s (unat XIH_BH_IV_OFFSET + k)),
              BootHdrAttributes := le32 (ReadBuffer s) (unat XIH_BH_IMAGE_ATTRB_OFFSET)\<rparr>))
       (bindM (getM BootHdrAttributes) (\<lambda>BootHdrAttrb.
        bindM (getM (\<lambda>s. le32 (ReadBuffer s) (unat XIH_BH_IH_TABLE_OFFSET))) (\<lambda>TableOffset.
        bindM (XFsbl_In32 W EFUSE_SEC_CTRL) (\<lambda>EfuseCtrl.
        bindM (getM ProcessorID) (\<lambda>ProcId.
        bindM (getM DeviceOps) (\<lambda>ops.
          let fuse = (EfuseCtrl AND EFUSE_SEC_CTRL_RSA_EN_MASK \<noteq> 0);
              bh = (BootHdrAttrb AND XIH_BH_IMAGE_ATTRB_RSA_MASK = XIH_BH_IMAGE_ATTRB_RSA_MASK)
          in if fuse \<and> bh then retM XFSBL_ERROR_BH_AUTH_IS_NOTALLOWED
             else if fuse \<or> bh then
               tryM (ValidateHeader_auth W fuse TableOffset)
                 (XFsbl_ReadImageHeader W None (lo32 (read_buffer_addr W)) ProcId TableOffset)
             else XFsbl_ReadImageHeader W (Some ops) FlashImageOffsetAddress ProcId TableOffset))))))))))"

section \<open>Stage 2: the secondary device\<close>

text \<open>The device operations and the boot mode of a \<open>PartitionPresentDevice\<close> value.\<close>

definition secondary_ops :: "world \<Rightarrow> u32 \<Rightarrow> (XFsblPs_DeviceOps \<times> u32) option" where
  "secondary_ops W Device =
     (if Device = XIH_IHT_PPD_USB then None
      else if Device = XIH_IHT_PPD_QSPI24 then
        (if cfg_qspi W then Some (Qspi24Ops, XFSBL_QSPI24_BOOT_MODE) else None)
      else if Device = XIH_IHT_PPD_QSPI32 then
        (if cfg_qspi W then Some (Qspi32Ops, XFSBL_QSPI32_BOOT_MODE) else None)
      else if Device = XIH_IHT_PPD_NAND then
        (if cfg_nand W then Some (NandOps, XFSBL_NAND_BOOT_MODE) else None)
      else if Device = XIH_IHT_PPD_SD_0 then
        (if cfg_sd0 W then Some (SdOps, XFSBL_SD0_BOOT_MODE) else None)
      else if Device = XIH_IHT_PPD_MMC then
        (if cfg_sd0 W then Some (SdOps, XFSBL_EMMC_BOOT_MODE) else None)
      else if Device = XIH_IHT_PPD_SD_1 then
        (if cfg_sd1 W then Some (SdOps, XFSBL_SD1_BOOT_MODE) else None)
      else if Device = XIH_IHT_PPD_SD_LS then
        (if cfg_sd1 W then Some (SdOps, XFSBL_SD1_LS_BOOT_MODE) else None)
      else None)"

definition XFsbl_SecondaryBootDeviceInit :: "world \<Rightarrow> u32 prog" where
  "XFsbl_SecondaryBootDeviceInit W =
     bindM (getM SecondaryBootDevice) (\<lambda>Device.
       if Device = XIH_IHT_PPD_SAME then retM XFSBL_SUCCESS
       else case secondary_ops W Device of
         None \<Rightarrow> retM XFSBL_ERROR_UNSUPPORTED_BOOT_MODE
       | Some (ops, SecBootMode) \<Rightarrow>
           seqM (modM (\<lambda>s. s\<lparr>DeviceOps := ops\<rparr>))
            (tryM (extM W (Dev (DeviceInit ops SecBootMode)))
              (bindM (XFsbl_ValidateHeader W) (\<lambda>Status.
               bindM (getM (\<lambda>s. PartitionPresentDevice (ImageHeaderTable s))) (\<lambda>Device'.
                 if Device' \<noteq> 0 then retM XFSBL_STATUS_SECONDARY_BOOT_MODE else retM Status)))))"

definition XFsbl_BootDeviceInitAndValidate :: "world \<Rightarrow> u32 prog" where
  "XFsbl_BootDeviceInitAndValidate W =
     tryM (XFsbl_PrimaryBootDeviceInit W)
       (tryM (XFsbl_ValidateHeader W)
         (seqM (modM (\<lambda>s. s\<lparr>SecondaryBootDevice := PartitionPresentDevice (ImageHeaderTable s)\<rparr>))
           (bindM (getM SecondaryBootDevice) (\<lambda>Secondary.
            bindM (getM PrimaryBootDevice) (\<lambda>Primary.
              if Secondary \<noteq> Primary then XFsbl_SecondaryBootDeviceInit W
              else retM XFSBL_SUCCESS)))))"

section \<open>Frames\<close>

text \<open>
  The interface of an invariant that the boot-device stage keeps apart from the headers it
  reads: it does not depend on the device selection, the image offset, the boot header
  attributes and the initialisation vector.
\<close>

locale boot_closed = buffers_closed +
  assumes device_step: "I s \<Longrightarrow> I (s\<lparr>PrimaryBootDevice := d\<rparr>)" "I s \<Longrightarrow> I (s\<lparr>SecondaryBootDevice := d\<rparr>)"
    "I s \<Longrightarrow> I (s\<lparr>DeviceOps := ops\<rparr>)"
    and header_step: "I s \<Longrightarrow> I (s\<lparr>ImageOffsetAddress := a\<rparr>)" "I s \<Longrightarrow> I (s\<lparr>Iv := iv, BootHdrAttributes := a\<rparr>)"
begin

lemma keeps_PrimaryBootDeviceInit: "keeps E I (XFsbl_PrimaryBootDeviceInit W)"
  unfolding XFsbl_PrimaryBootDeviceInit_def Let_def
  by (intro keeps_intro auth_keeps keeps_mod device_step)

lemma keeps_copy_ReadBuffer: "E BufferOverflow \<Longrightarrow> keeps E I (copy_ReadBuffer W a n)"
  unfolding copy_ReadBuffer_def by (intro keeps_intro io_keeps keeps_read_chunk)

lemma keeps_ValidateHeader_auth: "E BufferOverflow \<Longrightarrow> keeps E I (ValidateHeader_auth W e T)"
  unfolding ValidateHeader_auth_def Let_def
  by (intro keeps_intro auth_keeps keeps_copy_ReadBuffer)

lemma keeps_ValidateHeader_offset: "keeps E I (ValidateHeader_offset m)"
  unfolding ValidateHeader_offset_def by (rule keeps_mod) (simp add: header_step)

lemma keeps_ValidateHeader:
  assumes "E BufferOverflow" and "\<And>Ops F R T. keeps E I (XFsbl_ReadImageHeader W Ops F R T)"
  shows "keeps E I (XFsbl_ValidateHeader W)"
  unfolding XFsbl_ValidateHeader_def Let_def
  by (intro keeps_intro io_keeps keeps_read_chunk keeps_ValidateHeader_offset keeps_ValidateHeader_auth
      assms keeps_mod header_step)

lemma keeps_BootDeviceInitAndValidate:
  assumes "E BufferOverflow" and "\<And>Ops F R T. keeps E I (XFsbl_ReadImageHeader W Ops F R T)"
  shows "keeps E I (XFsbl_BootDeviceInitAndValidate W)"
  unfolding XFsbl_BootDeviceInitAndValidate_def XFsbl_SecondaryBootDeviceInit_def
  by (intro keeps_intro io_keeps keeps_PrimaryBootDeviceInit keeps_ValidateHeader assms keeps_mod device_step)

end


lemma unblock_trace_grows:
  assumes "unblock_trace W h = Some h'"
  shows "\<exists>g. h' = g @ h"
proof (rule unblock_trace.raw_induct [where P = "\<lambda>W h h'. \<exists>g. h' = g @ h", OF _ assms])
  fix f W h h'
  assume IH: "\<And>W h h'. f W h = Some h' \<Longrightarrow> \<exists>g. h' = g @ h"
    and eq: "(let v = reg_in W h PMU_GLOBAL_AIB_STATUS; h' = Rd PMU_GLOBAL_AIB_STATUS v # h
      in if v = 0 then Some h' else f W (Wr PMU_GLOBAL_AIB_CNTRL 0 # h')) = Some h'"
  show "\<exists>g. h' = g @ h"
  proof (cases "reg_in W h PMU_GLOBAL_AIB_STATUS = 0")
    case True
    with eq show ?thesis by (auto simp: Let_def)
  next
    case False
    with eq IH obtain g where "h' = g @ Wr PMU_GLOBAL_AIB_CNTRL 0 # Rd PMU_GLOBAL_AIB_STATUS (reg_in W h PMU_GLOBAL_AIB_STATUS) # h"
      by (fastforce simp: Let_def)
    then show ?thesis by (metis append.assoc append_Cons append_Nil)
  qed
qed

text \<open>Stage 1 only sets the reset reason and the identity of the running CPU.\<close>

locale init_closed = buffers_closed +
  assumes reset_step: "I s \<Longrightarrow> I (s\<lparr>ResetReason := r\<rparr>)"
    and processor_step: "I s \<Longrightarrow> c \<in> cpu_ids \<Longrightarrow> I (s\<lparr>ProcessorID := c\<rparr>)" "I s \<Longrightarrow> I (s\<lparr>A53ExecState := x\<rparr>)"
begin

lemma keeps_GetResetReason: "keeps E I (XFsbl_GetResetReason W)"
  unfolding XFsbl_GetResetReason_def Let_def by (intro keeps_intro io_keeps)

lemma keeps_MarkDdrAsReserved: "keeps E I (XFsbl_MarkDdrAsReserved W c)"
  unfolding XFsbl_MarkDdrAsReserved_def Let_def
  by (auto intro!: keeps_intro io_keeps keeps_seqs)

lemma io_steps: "I s \<Longrightarrow> I (s\<lparr>trace := g @ trace s\<rparr>)"
proof (induction g)
  case (Cons e g)
  then have "I (s\<lparr>trace := g @ trace s\<rparr>)" by simp
  from io_step [OF this, of e] show ?case by simp
qed simp

lemma keeps_unblock_aib: "keeps E I (unblock_aib W)"
  using io_steps
  by (auto simp: keeps_def wp_def unblock_aib_def split: option.split dest!: unblock_trace_grows)

lemma keeps_SystemInit: "keeps E I (XFsbl_SystemInit W)"
  unfolding XFsbl_SystemInit_def SystemInit_power_def
  by (intro keeps_intro misc_keeps keeps_unblock_aib keeps_MarkDdrAsReserved)

lemma keeps_ProcessorInit: "keeps E I (XFsbl_ProcessorInit W)"
proof -
  have ids: "XIH_PH_ATTRB_DEST_CPU_A53_0 \<in> cpu_ids" "XIH_PH_ATTRB_DEST_CPU_R5_0 \<in> cpu_ids" "XIH_PH_ATTRB_DEST_CPU_R5_L \<in> cpu_ids"
    by (simp_all add: cpu_ids_def)
  have names: "keeps E I (XFsbl_GetSiliconIdName W)"
    unfolding XFsbl_GetSiliconIdName_def Let_def by (intro keeps_intro io_keeps)
  have lovec: "keeps E I write_lovec"
    unfolding write_lovec_def by (auto intro!: keeps_seqs io_keeps)
  have "keeps E I (modM (\<lambda>s. s\<lparr>ProcessorID := XIH_PH_ATTRB_DEST_CPU_A53_0, A53ExecState := XIH_PH_ATTRB_A53_EXEC_ST_AA64\<rparr>))"
    by (intro keeps_mod processor_step ids)
  moreover have "keeps E I (modM (\<lambda>s. s\<lparr>A53ExecState := XIH_INVALID_EXEC_ST\<rparr>))"
    by (intro keeps_mod processor_step)
  moreover have "keeps E I (modM (\<lambda>s. s\<lparr>ProcessorID := if b then XIH_PH_ATTRB_DEST_CPU_R5_L
      else XIH_PH_ATTRB_DEST_CPU_R5_0\<rparr>))" for b
    using ids by (auto intro!: keeps_mod processor_step)
  ultimately show ?thesis
    unfolding XFsbl_ProcessorInit_def ProcessorInit_store_def
    by (intro keeps_intro misc_keeps names lovec)
qed

lemma keeps_Initialize: "keeps E I (XFsbl_Initialize W)"
proof -
  have "keeps E I engines_in_reset"
    unfolding engines_in_reset_def by (intro keeps_intro io_keeps)
  moreover have "keeps E I (XFsbl_EnableProgToPL W)"
    unfolding XFsbl_EnableProgToPL_def by (intro keeps_intro io_keeps)
  moreover have "keeps E I (XFsbl_ClearPendingInterrupts W)"
    unfolding XFsbl_ClearPendingInterrupts_def Let_def by (intro keeps_intro io_keeps)
  moreover have "keeps E I (XFsbl_ResetValidation W)"
    unfolding XFsbl_ResetValidation_def ResetValidation_mark_def by (intro keeps_intro io_keeps)
  ultimately show ?thesis
    unfolding XFsbl_Initialize_def
    by (intro keeps_intro tcm_keeps keeps_GetResetReason keeps_SystemInit keeps_ProcessorInit keeps_mod reset_step)
qed

end

section \<open>The instance before any partition is loaded\<close>

text \<open>The handoff table is empty; the running CPU is \<open>rc\<close>.\<close>

definition idle :: "u32 \<Rightarrow> fsbl \<Rightarrow> bool" where
  "idle rc s \<longleftrightarrow> length (HandoffValues s) = 10 \<and> HandoffCpuNo s = 0 \<and> ProcessorID s = rc"

definition fresh :: "u32 \<Rightarrow> fsbl \<Rightarrow> bool" where
  "fresh rc s \<longleftrightarrow> instance_shape s \<and> idle rc s"

interpretation idle: headers_closed "idle rc" for rc
  by unfold_locales (simp_all add: idle_def)

interpretation fresh: boot_closed "fresh rc" for rc
  by unfold_locales (simp_all add: fresh_def idle_def instance_shape_def)

interpretation unread: boot_closed "\<lambda>s. PartitionHeader s = hs" for hs
  by unfold_locales simp_all

interpretation starting: init_closed "\<lambda>s. (\<exists>rc. fresh rc s) \<and> PartitionHeader s = hs" for hs
  by unfold_locales (auto simp: fresh_def idle_def instance_shape_def)

lemma keeps_ReadImageHeader_fresh: "keeps no_exit (fresh rc) (XFsbl_ReadImageHeader W Ops Flash R T)"
  unfolding keeps_def
proof (intro allI impI)
  fix s assume "fresh rc s"
  then have start: "instance_shape s" "idle rc s" by (simp_all add: fresh_def)
  have "keeps any_exit (idle rc) (XFsbl_ReadImageHeader W Ops Flash R T)"
    by (rule idle.keeps_ReadImageHeader) (simp add: idle_def)
  from wp_conj [OF ReadImageHeader_wp [OF start(1)] keepsD [OF this start(2)]]
  show "wp (XFsbl_ReadImageHeader W Ops Flash R T) (\<lambda>_. fresh rc) (\<lambda>e t. no_exit e \<and> fresh rc t) s"
    by (rule wp_mono) (simp_all add: fresh_def)
qed

lemma keeps_BootDevice_fresh: "keeps ((=) BufferOverflow) (fresh rc) (XFsbl_BootDeviceInitAndValidate W)"
proof (rule fresh.keeps_BootDeviceInitAndValidate)
  show "keeps ((=) BufferOverflow) (fresh rc) (XFsbl_ReadImageHeader W Ops F R T)" for Ops F R T
    using keeps_ReadImageHeader_fresh [of rc W Ops F R T] by (fastforce simp: keeps_def intro: wp_mono)
qed simp

lemma ValidateHeader_establishes:
  "establishes (\<lambda>s. PartitionHeader s = hs) (header_read hs) (XFsbl_ValidateHeader W)"
proof -
  have codes: "XFSBL_ERROR_BH_AUTH_IS_NOTALLOWED \<noteq> XFSBL_SUCCESS" by (simp add: hw)
  show ?thesis
    unfolding XFsbl_ValidateHeader_def Let_def
    by (intro establishes_bind establishes_seq establishes_try_second establishes_if establishes_fail
        ReadImageHeader_establishes codes keeps_intro unread.io_keeps unread.keeps_read_chunk
        unread.keeps_ValidateHeader_offset unread.keeps_ValidateHeader_auth keeps_mod TrueI unread.header_step)
qed

lemma SecondaryBootDeviceInit_establishes:
  "establishes (\<lambda>s. header_read hs s \<and> SecondaryBootDevice s = PartitionPresentDevice (ImageHeaderTable s))
     (\<lambda>s. PartitionPresentDevice (ImageHeaderTable s) = XIH_IHT_PPD_SAME \<and> header_read hs s)
     (XFsbl_SecondaryBootDeviceInit W)"
proof -
  have codes: "XFSBL_ERROR_UNSUPPORTED_BOOT_MODE \<noteq> XFSBL_SUCCESS" "XFSBL_STATUS_SECONDARY_BOOT_MODE \<noteq> XFSBL_SUCCESS"
    "XIH_IHT_PPD_SAME = 0"
    by (simp_all add: hw)
  have valid: "wp (XFsbl_ValidateHeader W) (\<lambda>x t. x = XFSBL_SUCCESS \<longrightarrow> header_read hs t) (\<lambda>_ _. True) u"
    if "PartitionHeader u = hs" for u
    using ValidateHeader_establishes that by (simp add: establishes_def)
  note valid = valid [unfolded header_read_def Let_def]
  show ?thesis
    unfolding establishes_def XFsbl_SecondaryBootDeviceInit_def
    by (auto simp: wp_eq codes header_read_def Let_def split: option.split
        intro!: wp_mono [OF valid])
qed

lemma BootDevice_establishes:
  "establishes (\<lambda>s. PartitionHeader s = hs) (header_read hs) (XFsbl_BootDeviceInitAndValidate W)"
proof -
  have "wp (XFsbl_SecondaryBootDeviceInit W) (\<lambda>x t. x = XFSBL_SUCCESS \<longrightarrow> header_read hs t) (\<lambda>_ _. True) s"
    if "header_read hs s" "SecondaryBootDevice s = PartitionPresentDevice (ImageHeaderTable s)" for s
    using SecondaryBootDeviceInit_establishes [of hs W] that
    by (auto simp: establishes_def intro: wp_mono)
  then have "establishes (header_read hs) (header_read hs)
     (seqM (modM (\<lambda>s. s\<lparr>SecondaryBootDevice := PartitionPresentDevice (ImageHeaderTable s)\<rparr>))
           (bindM (getM SecondaryBootDevice) (\<lambda>Secondary.
            bindM (getM PrimaryBootDevice) (\<lambda>Primary.
              if Secondary \<noteq> Primary then XFsbl_SecondaryBootDeviceInit W
              else retM XFSBL_SUCCESS))))"
    by (auto simp: establishes_def wp_eq header_read_def Let_def)
  then show ?thesis
    unfolding XFsbl_BootDeviceInitAndValidate_def
    by (intro establishes_try_second [OF unread.keeps_PrimaryBootDeviceInit]
        establishes_try_chain [OF ValidateHeader_establishes])
qed

interpretation known: init_closed "\<lambda>s. ProcessorID s \<in> cpu_ids"
  by unfold_locales simp_all

lemma keeps_True: "keeps any_exit (\<lambda>_. True) m"
  by (simp add: keeps_def wp_True)

lemma ProcessorInit_establishes:
  "establishes (\<lambda>_. True) (\<lambda>s. ProcessorID s \<in> cpu_ids) (XFsbl_ProcessorInit W)"
proof -
  have ids: "XIH_PH_ATTRB_DEST_CPU_A53_0 \<in> cpu_ids" "XIH_PH_ATTRB_DEST_CPU_R5_0 \<in> cpu_ids" "XIH_PH_ATTRB_DEST_CPU_R5_L \<in> cpu_ids"
    by (simp_all add: cpu_ids_def)
  have codes: "XFSBL_ERROR_UNSUPPORTED_CLUSTER_ID \<noteq> XFSBL_SUCCESS" by (simp add: hw)
  have names: "keeps any_exit (\<lambda>s. ProcessorID s \<in> cpu_ids) (seqM (seqsM
          [bindM (XFsbl_GetSiliconIdName W) (\<lambda>DevName. retM ()),
           bindM (XFsbl_GetProcEng W) (\<lambda>DevName. retM ()),
           callM W (Bsp RegisterHandlers)])
         (retM XFSBL_SUCCESS))"
    by (intro keeps_intro known.misc_keeps) (simp add: XFsbl_GetSiliconIdName_def Let_def, intro keeps_intro known.io_keeps)
  have lovec: "wp write_lovec (\<lambda>_ t. ProcessorID t \<in> cpu_ids) (\<lambda>_ _. True) s" if "ProcessorID s \<in> cpu_ids" for s
  proof -
    have "keeps any_exit (\<lambda>s. ProcessorID s \<in> cpu_ids) write_lovec"
      unfolding write_lovec_def by (auto intro!: keeps_seqs known.io_keeps)
    from keepsD [OF this that] show ?thesis by (rule wp_mono) simp_all
  qed
  have "establishes (\<lambda>_. True) (\<lambda>s. ProcessorID s \<in> cpu_ids) (ProcessorInit_store W c)" for c
    unfolding ProcessorInit_store_def
    by (rule establishes_try_first [OF _ names])
      (auto simp: establishes_def wp_eq codes ids intro!: wp_mono [OF lovec])
  then show ?thesis
    unfolding XFsbl_ProcessorInit_def case_prod_unfold
    by (intro establishes_bind establishes_if establishes_fail codes keeps_True)
qed

lemma Initialize_establishes:
  "establishes (\<lambda>_. True) (\<lambda>s. ProcessorID s \<in> cpu_ids) (XFsbl_Initialize W)"
proof -
  have reset: "keeps any_exit (\<lambda>s. ProcessorID s \<in> cpu_ids) (XFsbl_ResetValidation W)"
    unfolding XFsbl_ResetValidation_def ResetValidation_mark_def by (intro keeps_intro known.io_keeps)
  show ?thesis
    unfolding XFsbl_Initialize_def
    by (intro establishes_bind [OF keeps_True] establishes_seq [OF keeps_True] establishes_try_second [OF keeps_True]
        establishes_try_first ProcessorInit_establishes keeps_intro known.tcm_keeps reset)
qed

section \<open>The authenticated image header\<close>

lemma copy_ReadBuffer_establishes:
  "establishes (since h0 pre) (since h0 (contains (copied (read_buffer_addr W) len) pre)) (copy_ReadBuffer W src len)"
  unfolding establishes_def copy_ReadBuffer_def read_chunk_def
  by (auto simp: wp_eq copied_def intro!: since_now)


text \<open>
  An authenticated image header: the signature of the boot header was verified with a
  secondary key whose own signature was verified, then the image header was copied into
  \<open>ReadBuffer\<close>, then both signatures were verified for it.
\<close>

definition image_header_signed :: "world \<Rightarrow> io list \<Rightarrow> fsbl \<Rightarrow> bool" where
  "image_header_signed W h0 s \<longleftrightarrow> (\<exists>Size. since h0
     (contains (partition_signature W (read_buffer_addr W) (Size + XFSBL_AUTH_CERT_MIN_SIZE) (auth_buffer_addr W))
       (contains (spk_signature W (auth_buffer_addr W))
         (contains (copied (read_buffer_addr W) Size)
           (contains (bh_signature W (read_buffer_addr W) (auth_buffer_addr W))
             (contains (spk_signature W (auth_buffer_addr W))
               (contains (\<lambda>b. b = []) (\<lambda>_. True))))))) s)"

lemma happened_fields:
  "since h0 P (s\<lparr>PartitionHeader := hs\<rparr>) = since h0 P s" "since h0 P (s\<lparr>ImageHeaderTable := it\<rparr>) = since h0 P s"
  "since h0 P (s\<lparr>ATFHandoffParams := p\<rparr>) = since h0 P s"
  by (simp_all add: since_def)

interpretation signed: headers_closed "image_header_signed W h0" for W h0
  by unfold_locales (unfold image_header_signed_def, auto intro: happened.io_step simp: happened_fields)

interpretation attributes: headers_closed "\<lambda>s. BootHdrAttributes s = a" for a
  by unfold_locales simp_all

interpretation begun: boot_closed "since h0 (contains B pre)" for h0 B pre
  by unfold_locales (simp_all add: since_def)

lemma ValidateHeader_auth_establishes:
  "establishes (since h0 (contains (\<lambda>b. b = []) (\<lambda>_. True))) (image_header_signed W h0) (ValidateHeader_auth W fuse T)"
proof -
  have codes: "XFSBL_ERROR_IMAGE_HEADER_ACOFFSET \<noteq> XFSBL_SUCCESS" by (simp add: hw)
  have last: "establishes (since h0 (contains (copied (read_buffer_addr W) Size) (contains (bh_signature W (read_buffer_addr W) (auth_buffer_addr W))
             (contains (spk_signature W (auth_buffer_addr W)) (contains (\<lambda>b. b = []) (\<lambda>_. True))))))
      (image_header_signed W h0)
      (tryM (XFsbl_Authentication W (read_buffer_addr W) (Size + XFSBL_AUTH_CERT_MIN_SIZE) (auth_buffer_addr W))
        (bindM (getM (\<lambda>s. le32 (ReadBuffer s) (unat XIH_IHT_AC_OFFSET))) (\<lambda>AcOffset'.
           if a \<noteq> AcOffset' then retM XFSBL_ERROR_IMAGE_HEADER_ACOFFSET else retM XFSBL_SUCCESS)))" for Size a
    by (rule establishes_try_first [OF establishes_mono [OF Authentication_establishes]])
      (auto simp: image_header_signed_def intro!: keeps_intro)
  show ?thesis
    unfolding ValidateHeader_auth_def Let_def
    by (intro establishes_bind [where m = "getM f" for f] establishes_bind [where m = "copyM W c" for c] establishes_case_prod
        establishes_if establishes_fail codes establishes_seq establishes_try_chain [OF BhAuthentication_establishes]
        establishes_try_chain [OF copy_ReadBuffer_establishes] last happened.io_keeps happened.keeps_AuthBuffer keeps_intro)
      assumption
qed


text \<open>The fuses or the boot header ask for an authenticated image.\<close>

definition rsa_required :: "world \<Rightarrow> fsbl \<Rightarrow> bool" where
  "rsa_required W s \<longleftrightarrow> (\<forall>h. reg_in W h EFUSE_SEC_CTRL AND EFUSE_SEC_CTRL_RSA_EN_MASK \<noteq> 0) \<or>
     BootHdrAttributes s AND XIH_BH_IMAGE_ATTRB_RSA_MASK = XIH_BH_IMAGE_ATTRB_RSA_MASK"

lemma ValidateHeader_signed:
  "establishes (since h0 (contains (\<lambda>b. b = []) (\<lambda>_. True)))
     (\<lambda>t. rsa_required W t \<longrightarrow> image_header_signed W h0 t) (XFsbl_ValidateHeader W)"
proof -
  let ?I = "since h0 (contains (\<lambda>b. b = []) (\<lambda>_. True))"
  let ?Q = "\<lambda>t. rsa_required W t \<longrightarrow> image_header_signed W h0 t"
  have code: "XFSBL_ERROR_BH_AUTH_IS_NOTALLOWED \<noteq> XFSBL_SUCCESS" by (simp add: hw)
  have yes: "establishes (\<lambda>s. ?I s \<and> BootHdrAttributes s = a) ?Q
      (tryM (ValidateHeader_auth W fuse T) (XFsbl_ReadImageHeader W Ops F P T))" for a fuse Ops F P T
  proof (rule establishes_mono)
    show "establishes (\<lambda>s. ?I s \<and> BootHdrAttributes s = a) (image_header_signed W h0)
        (tryM (ValidateHeader_auth W fuse T) (XFsbl_ReadImageHeader W Ops F P T))"
      using establishes_try_first [OF ValidateHeader_auth_establishes signed.keeps_ReadImageHeader]
      by (force simp: establishes_def image_header_signed_def happened_fields)
  qed simp
  have no: "establishes (\<lambda>s. ?I s \<and> BootHdrAttributes s = a) ?Q (XFsbl_ReadImageHeader W Ops F P T)"
    if "\<exists>h. reg_in W h EFUSE_SEC_CTRL AND EFUSE_SEC_CTRL_RSA_EN_MASK = 0"
      "a AND XIH_BH_IMAGE_ATTRB_RSA_MASK \<noteq> XIH_BH_IMAGE_ATTRB_RSA_MASK" for a Ops F P T
  proof (rule establishes_mono)
    show "establishes (\<lambda>s. ?I s \<and> BootHdrAttributes s = a) (\<lambda>s. BootHdrAttributes s = a)
        (XFsbl_ReadImageHeader W Ops F P T)"
      by (rule establishes_keeps [OF attributes.keeps_ReadImageHeader]) simp_all
  qed (use that in \<open>auto simp: rsa_required_def\<close>)
  define fused where "fused v \<longleftrightarrow> v AND EFUSE_SEC_CTRL_RSA_EN_MASK \<noteq> 0" for v
  define asked where "asked a \<longleftrightarrow> a AND XIH_BH_IMAGE_ATTRB_RSA_MASK = XIH_BH_IMAGE_ATTRB_RSA_MASK" for a
  have read: "keeps any_exit (\<lambda>s. ?I s \<and> BootHdrAttributes s = a) (getM f)" for f :: "fsbl \<Rightarrow> 'a" and a
    by (rule keeps_get)
  have branch: "establishes (\<lambda>s. ?I s \<and> BootHdrAttributes s = a) ?Q
      (bindM (getM (\<lambda>s. le32 (ReadBuffer s) (unat XIH_BH_IH_TABLE_OFFSET))) (\<lambda>TableOffset.
        bindM (XFsbl_In32 W EFUSE_SEC_CTRL) (\<lambda>EfuseCtrl.
        bindM (getM ProcessorID) (\<lambda>ProcId.
        bindM (getM DeviceOps) (\<lambda>ops.
          if fused EfuseCtrl \<and> asked a then retM XFSBL_ERROR_BH_AUTH_IS_NOTALLOWED
             else if fused EfuseCtrl \<or> asked a then
               tryM (ValidateHeader_auth W (fused EfuseCtrl) TableOffset)
                 (XFsbl_ReadImageHeader W None (lo32 (read_buffer_addr W)) ProcId TableOffset)
             else XFsbl_ReadImageHeader W (Some ops) Flash ProcId TableOffset)))))" for a Flash
    by (intro establishes_bind [where m = "getM f" for f] read establishes_In32_bind conjI establishes_if establishes_fail code yes no)
      (auto simp: happened.io_step fused_def asked_def)
  show ?thesis
    unfolding XFsbl_ValidateHeader_def Let_def
    by (intro establishes_bind [where m = "XFsbl_In32 W a" for a] establishes_seq establishes_bind [where m = "getM ImageOffsetAddress"]
        establishes_try_second establishes_get_bind_value [where f = BootHdrAttributes] branch [unfolded fused_def asked_def]
        happened.io_keeps happened.keeps_read_chunk begun.keeps_ValidateHeader_offset keeps_intro keeps_mod begun.header_step)
qed

text \<open>C11: An image whose header must be authenticated is only accepted after its authentication.  When
  the fuses require RSA, or the boot header asks for it, a successful
  \<open>XFsbl_ValidateHeader\<close> has verified, in this order, the signature of the secondary key, the
  signature of the boot header with it, and then, over the copy of the image header in
  \<open>ReadBuffer\<close>, again the secondary key and the signature of the image header.\<close>

theorem ValidateHeader_authenticated:
  assumes "XFsbl_ValidateHeader W s = Some (Ret XFSBL_SUCCESS, t)"
    and "rsa_required W t"
  shows "image_header_signed W (trace s) t"
  using establishesD [OF ValidateHeader_signed since_start assms(1)] assms(2) by simp


text \<open>
  A boot header that asks for RSA and an image header with its partitions on another device:
  the steps of its authentication all succeed.
\<close>

definition signed_table :: "u32 list" where
  "signed_table = [0x01020000, 3, 0x40, 0, 0x400, 1, 0, 0, 0, 0, 0, 0, 0, 0, 0, 0xFEFDFBBB]"

definition signed_world :: "u32 \<Rightarrow> world" where
  "signed_world ac = quiet_world\<lparr>ext_ret := (\<lambda>_ c. if c = Dma CsuDmaLookupConfig then 1 else 0),
     ext_byte := (\<lambda>_ c k. case c of
       Dev (DeviceCopy ops src dst len) \<Rightarrow>
         if dst = 0xFFFE0000 then bytes_of [ac] k
         else if dst = 0xFFFD1000 then (if k = 2 then 8 else 0)
         else if len = XIH_BH_MAX_SIZE then (if k = 0x45 then 0xC0 else 0)
         else bytes_of signed_table k
     | _ \<Rightarrow> 0)\<rparr>"

lemma signed_table_decoded:
  assumes "\<And>k. k < 64 \<Longrightarrow> b k = bytes_of signed_table k"
  shows "iht_of_bytes b = \<lparr>IHT_Version = 0x01020000, NoOfPartitions = 3,
     PartitionHeaderAddress = 0x40, Reserved_0xC = 0, IHT_AuthCertificateOffset = 0x400,
     PartitionPresentDevice = 1, IHT_Reserved = [0, 0, 0, 0, 0, 0, 0, 0, 0], IHT_Checksum = 0xFEFDFBBB\<rparr>"
proof -
  have "le32 b n = signed_table ! (n div 4)" if "n mod 4 = 0" "n < 61" for n
  proof -
    have "n = 4 * (n div 4)" using that by presburger
    moreover have "le32 b n = le32 (bytes_of signed_table) n" using assms that by (simp add: le32_def)
    ultimately show ?thesis using le32_bytes_of [of signed_table "n div 4"] by presburger
  qed
  then show ?thesis
    by (simp add: iht_of_bytes_def signed_table_def upt_rec)
qed

lemma signed_table_valid:
  assumes "\<And>k. k < 64 \<Longrightarrow> b k = bytes_of signed_table k"
  shows "XFsbl_ValidateImageHeaderTable (iht_of_bytes b) = XFSBL_STATUS_SECONDARY_BOOT_MODE"
proof -
  note decoded = signed_table_decoded [of b, OF assms, simplified]
  have "XFsbl_ValidateChecksum (iht_words (iht_of_bytes b)) (XIH_IHT_LEN div XIH_PARTITION_WORD_LENGTH) = XFSBL_SUCCESS"
    unfolding iht.valid_iff by (simp add: decoded iht_words_def hw upt_rec)
  then show ?thesis
    by (simp add: XFsbl_ValidateImageHeaderTable_def decoded hw)
qed

lemma signed_world_answers:
  "ext_ret (signed_world ac) h c = (if c = Dma CsuDmaLookupConfig then 1 else XFSBL_SUCCESS)"
  "reg_in (signed_world ac) h a = 0" "ac_offset_addr (signed_world ac) = 0xFFFE0000"
  "auth_buffer_addr (signed_world ac) = 0xFFFD1000" "read_buffer_addr (signed_world ac) = 0xFFFD2000"
  "ext_byte (signed_world ac) h (Dev (DeviceCopy ops src dst len)) =
      (if dst = 0xFFFE0000 then bytes_of [ac]
       else if dst = 0xFFFD1000 then (\<lambda>k. if k = 2 then 8 else 0)
       else if len = XIH_BH_MAX_SIZE then (\<lambda>k. if k = 0x45 then 0xC0 else 0)
       else bytes_of signed_table)"
  by (auto simp: signed_world_def quiet_world_def hw)

lemma signed_world_words:
  "le32 (bytes_of [ac]) 0 = ac" "le32 (\<lambda>k. if k < 3776 then if k = 2 then 8 else 0 else f k) 0 = 0x80000"
  "le32 (\<lambda>k. if k < 0x1000 then bytes_of signed_table k else f k) (unat XIH_IHT_AC_OFFSET) = 0x400"
  "unat XFSBL_AUTH_CERT_MIN_SIZE = 3776" "unat XFSBL_SPKID_AC_ALIGN = 4"
  "XFSBL_USER_EFUSE \<noteq> XFSBL_SPKID_EFUSE" "drop_bit (unat XFSBL_AH_ATTR_SPK_ID_FUSE_SEL_SHIFT) 0x80000 AND
     drop_bit (unat XFSBL_AH_ATTR_SPK_ID_FUSE_SEL_SHIFT) XFSBL_AH_ATTR_SPK_ID_FUSE_SEL_MASK = XFSBL_USER_EFUSE"
proof -
  show "le32 (bytes_of [ac]) 0 = ac" using le32_bytes_of [of "[ac]" 0] by simp
  show "le32 (\<lambda>k. if k < 3776 then if k = 2 then 8 else 0 else f k) 0 = 0x80000" by (simp add: le32_def)
  have "le32 (bytes_of signed_table) (4 * 4) = 0x400" unfolding le32_bytes_of by (simp add: signed_table_def)
  then show "le32 (\<lambda>k. if k < 0x1000 then bytes_of signed_table k else f k) (unat XIH_IHT_AC_OFFSET) = 0x400"
    by (simp add: le32_def hw)
qed (simp_all add: hw)

lemma signed_world_spk:
  assumes "le32 (AuthBuffer u) 0 = 0x80000"
  shows "ends (XFsbl_SpkVer (signed_world ac) p XFSBL_HASH_TYPE_SHA3) (\<lambda>x t. x = XFSBL_SUCCESS \<and> (\<exists>h. t = u\<lparr>trace := h\<rparr>)) u"
  using assms
  by (simp add: XFsbl_SpkVer_def rsa_verify_def SpkVer_hash_def SpkVer_revocation_def XFsbl_CsuDmaInit_def
      XFsbl_ShaStart_def XFsbl_ShaUpdate_def XFsbl_ShaFinish_def ends_eq signed_world_answers Let_def signed_world_words) blast

lemma signed_world_bh:
  assumes "le32 (AuthBuffer u) 0 = 0x80000"
  shows "ends (XFsbl_BhAuthentication (signed_world ac) d p False) (\<lambda>x t. x = XFSBL_SUCCESS \<and> AuthBuffer t = AuthBuffer u \<and>
      BootHdrAttributes t = BootHdrAttributes u \<and> ReadBuffer t = ReadBuffer u) u"
  using assms
  by (auto simp: XFsbl_BhAuthentication_def rsa_verify_def XFsbl_CsuDmaInit_def XFsbl_Sha3PadSelect_def
      XFsbl_ShaStart_def XFsbl_ShaUpdate_def XFsbl_ShaFinish_def ends_eq signed_world_answers Let_def
      intro!: ends_mono [OF signed_world_spk])

lemma signed_world_run:
  "ends (XFsbl_ValidateHeader (signed_world 0x400)) (\<lambda>x t. x = XFSBL_SUCCESS \<and> BootHdrAttributes t = 0xC000) fsbl_init"
proof -
  let ?W = "signed_world 0x400"
  have auth: "ends (XFsbl_Authentication ?W d n ac) (\<lambda>x t. x = XFSBL_SUCCESS \<and> (\<exists>h. t = u\<lparr>trace := h\<rparr>)) u"
    if "le32 (AuthBuffer u) 0 = 0x80000" for u d n ac
    using that
    by (auto simp: XFsbl_Authentication_def XFsbl_PartitionSignVer_def rsa_verify_def
        XFsbl_ShaStart_def XFsbl_ShaUpdate_def XFsbl_ShaFinish_def ends_eq signed_world_answers Let_def
        intro!: ends_mono [OF signed_world_spk])
  have copy: "copy_ReadBuffer ?W a 0x1000 = read_chunk ?W a 0x1000" for a
    by (simp add: copy_ReadBuffer_def hw)
  have size: "1024 * XIH_PARTITION_WORD_LENGTH = 0x1000" "XIH_BH_MAX_SIZE \<noteq> 0x1000" by (simp_all add: hw)
  have load: "ends (copy_ReadBuffer ?W a 0x1000) (\<lambda>x t. x = XFSBL_SUCCESS \<and> AuthBuffer t = AuthBuffer u \<and>
      BootHdrAttributes t = BootHdrAttributes u \<and>
      ReadBuffer t = (\<lambda>k. if k < 0x1000 then bytes_of signed_table k else ReadBuffer u k)) u" for a u
    unfolding copy by (simp add: read_chunk_def ends_eq signed_world_answers size(2) [symmetric] fun_eq_iff)
  have header: "ends (ValidateHeader_auth ?W False 0) (\<lambda>x t. x = XFSBL_SUCCESS \<and> BootHdrAttributes t = BootHdrAttributes u \<and>
      (\<forall>k<64. ReadBuffer t k = bytes_of signed_table k)) u" for u
    unfolding ValidateHeader_auth_def Let_def
    by (simp add: ends_eq signed_world_answers signed_world_words size)
      (rule ends_mono [OF signed_world_bh], auto simp: signed_world_words ends_eq size intro!: ends_mono [OF load] ends_mono [OF auth])
  have table: "ends (XFsbl_ReadImageHeader ?W None F P T) (\<lambda>x t. x = XFSBL_SUCCESS \<and> BootHdrAttributes t = BootHdrAttributes u) u"
    if "\<forall>k<64. ReadBuffer u k = bytes_of signed_table k" for u F P T
    using signed_table_valid [of "ReadBuffer u"] that
    by (simp add: XFsbl_ReadImageHeader_def ReadImageHeader_table_def ReadImageHeader_partitions_def ends_eq Let_def)
  have hdr: "le32 (\<lambda>k. if k < 3776 then if k = 0x45 then 0xC0 else 0 else f k) (unat XIH_BH_IH_TABLE_OFFSET) = 0"
    "le32 (\<lambda>k. if k < 3776 then if k = 0x45 then 0xC0 else 0 else f k) (unat XIH_BH_IMAGE_ATTRB_OFFSET) = 0xC000"
    "unat XIH_BH_MAX_SIZE = 3776" "0xC000 AND XIH_BH_IMAGE_ATTRB_RSA_MASK = XIH_BH_IMAGE_ATTRB_RSA_MASK" for f
    by (simp_all add: le32_def hw)
  have dst: "(0xFFFD2000 :: u64) \<noteq> 0xFFFE0000" "(0xFFFD2000 :: u64) \<noteq> 0xFFFD1000" by simp_all
  have offset: "ends (ValidateHeader_offset m) Q u" if "\<And>a. Q () (u\<lparr>ImageOffsetAddress := a\<rparr>)" for m Q u
    using that [of "ImageOffsetAddress u"] that by (simp add: ValidateHeader_offset_def ends_eq)
  show ?thesis
    unfolding XFsbl_ValidateHeader_def Let_def ends_bind ends_In32 ends_seq
    by (rule offset) (auto simp: read_chunk_def ends_eq signed_world_answers hdr dst intro!: ends_mono [OF header] ends_mono [OF table])
qed

theorem ValidateHeader_authenticated_witness:
  "\<exists>t. XFsbl_ValidateHeader (signed_world 0x400) fsbl_init = Some (Ret XFSBL_SUCCESS, t) \<and>
     image_header_signed (signed_world 0x400) [] t"
proof -
  obtain t where run: "XFsbl_ValidateHeader (signed_world 0x400) fsbl_init = Some (Ret XFSBL_SUCCESS, t)" "BootHdrAttributes t = 0xC000"
    using signed_world_run by (auto simp: ends_def)
  then have "rsa_required (signed_world 0x400) t" by (simp add: rsa_required_def hw)
  from ValidateHeader_authenticated [OF run(1) this] run(1) show ?thesis
    by (auto simp: fsbl_init_def)
qed

text \<open>C34: The copy of the image header is not bounded by its buffer.  When the authentication of the
  image header leaves the loader, it is because the length computed from the certificate offset
  on the device exceeds \<open>ReadBuffer\<close>: the last step is a copy of more than
  \<open>READ_BUFFER_SIZE\<close> bytes into it.  Only the boot header has been authenticated then, which
  does not cover that offset.\<close>

theorem ValidateHeader_overruns:
  assumes "ValidateHeader_auth W fuse T s = Some (Halted e, t)"
  shows "e = BufferOverflow \<and> (\<exists>ops src len v h. trace t = Ext (Dev (DeviceCopy ops src (read_buffer_addr W) len)) v # h \<and>
     READ_BUFFER_SIZE < len \<and> (\<exists>g. h = g @ trace s \<and>
       contains (bh_signature W (read_buffer_addr W) (auth_buffer_addr W)) (\<lambda>_. True) g))"
proof -
  let ?before = "since (trace s) (contains (bh_signature W (read_buffer_addr W) (auth_buffer_addr W))
      (contains (spk_signature W (auth_buffer_addr W)) (contains (\<lambda>b. b = []) (\<lambda>_. True))))"
  let ?H = "\<lambda>e t. e = BufferOverflow \<and> (\<exists>ops src len v h. trace t = Ext (Dev (DeviceCopy ops src (read_buffer_addr W) len)) v # h \<and>
     READ_BUFFER_SIZE < len \<and> (\<exists>g. h = g @ trace s \<and>
       contains (bh_signature W (read_buffer_addr W) (auth_buffer_addr W)) (\<lambda>_. True) g))"
  have copy: "wp (copy_ReadBuffer W src len) (\<lambda>_ _. True) ?H u" if "?before u" for src len u
    using that unfolding copy_ReadBuffer_def read_chunk_def
    by (auto simp: wp_eq since_def elim!: contains_mono)
  have stays: "wp (XFsbl_Authentication W d n ac) (\<lambda>_ _. True) ?H u" for d n ac u
    using keepsD [OF happened.keeps_Authentication [of no_exit "trace u" "\<lambda>b. b = []" "\<lambda>_. True" W d n ac] since_start]
    by (rule wp_mono) simp_all
  have bh: "wp (XFsbl_BhAuthentication W (read_buffer_addr W) (auth_buffer_addr W) fuse) (\<lambda>x t. x = XFSBL_SUCCESS \<longrightarrow> ?before t) ?H u"
    if "since (trace s) (contains (\<lambda>b. b = []) (\<lambda>_. True)) u" for u
    using wp_conj [OF BhAuthentication_establishes [of "trace s" "\<lambda>b. b = []" "\<lambda>_. True" W "read_buffer_addr W" "auth_buffer_addr W" fuse,
          unfolded establishes_def, rule_format, OF that]
        keepsD [OF happened.keeps_BhAuthentication [of no_exit "trace s" "\<lambda>b. b = []" "\<lambda>_. True" W] that]]
    by (rule wp_mono) simp_all
  have "wp (ValidateHeader_auth W fuse T) (\<lambda>_ _. True) ?H s"
    unfolding ValidateHeader_auth_def Let_def
    by (auto simp: wp_eq since_def contains_any split: prod.split intro!: wp_mono [OF bh] wp_mono [OF copy] stays)
  from wp_Halted [OF this assms] show ?thesis .
qed


theorem ValidateHeader_overruns_witness:
  "\<exists>t ops src len v h. ValidateHeader_auth (signed_world 0x10000) False 0 fsbl_init = Some (Halted BufferOverflow, t) \<and>
     trace t = Ext (Dev (DeviceCopy ops src (read_buffer_addr (signed_world 0x10000)) len)) v # h \<and> READ_BUFFER_SIZE < len"
proof -
  let ?W = "signed_world 0x10000"
  have size: "READ_BUFFER_SIZE < 0x10000 * XIH_PARTITION_WORD_LENGTH" by (simp add: hw)
  have copy: "wp (copy_ReadBuffer ?W a (0x10000 * XIH_PARTITION_WORD_LENGTH)) (\<lambda>_ _. False) (\<lambda>_ _. True) u" for a u
    using size by (simp add: copy_ReadBuffer_def wp_eq)
  have "wp (ValidateHeader_auth ?W False 0) (\<lambda>_ _. False) (\<lambda>_ _. True) fsbl_init"
    unfolding ValidateHeader_auth_def Let_def
    by (simp add: wp_eq signed_world_answers signed_world_words)
      (rule wp_mono [OF ends_wp [OF signed_world_bh]], auto simp: signed_world_words intro!: wp_mono [OF copy])
  moreover have "returns (ValidateHeader_auth ?W False 0)"
    unfolding ValidateHeader_auth_def copy_ReadBuffer_def read_chunk_def XFsbl_Authentication_def XFsbl_BhAuthentication_def if_False
      XFsbl_SpkVer_def SpkVer_hash_def SpkVer_revocation_def XFsbl_PartitionSignVer_def rsa_verify_def
      XFsbl_CsuDmaInit_def XFsbl_Sha3PadSelect_def XFsbl_ShaStart_def XFsbl_ShaUpdate_def XFsbl_ShaFinish_def Let_def
    by (intro returns_intro)
  ultimately obtain e t where run: "ValidateHeader_auth ?W False 0 fsbl_init = Some (Halted e, t)"
    by (blast dest: leaves_total)
  from ValidateHeader_overruns [OF run] run show ?thesis by blast
qed

end
