(* ===== verification/Fsbl_Main.thy ===== *)
theory Fsbl_Main
  imports Fsbl_Init
begin

text \<open>
  The stages of the loader (\<open>main\<close> of \<open>xfsbl_main.c\<close>), the error lock-down and the fallback
  to the next image.
\<close>

section \<open>Errors\<close>

definition XFsbl_UpdateMultiBoot :: "world \<Rightarrow> u32 \<Rightarrow> 'a prog" where
  "XFsbl_UpdateMultiBoot W MultiBootValue =
     seqM (XFsbl_Out32 CSU_CSU_MULTI_BOOT MultiBootValue)
      (bindM (extM W (Bsp PSVersion)) (\<lambda>Version.
       bindM (getM ResetReason) (\<lambda>Reset.
         seqM (seqsM
           [whenM (Version = XPS_VERSION_1 W)
              (rmwM W CRL_APB_RPLL_CTRL (\<lambda>v. v OR CRL_APB_RPLL_CTRL_BYPASS_MASK)),
            callM W (Bsp Barrier)])
          (if Reset \<noteq> XFSBL_APU_ONLY_RESET
           then seqM (rmwM W CRL_APB_RESET_CTRL (\<lambda>v. v OR CRL_APB_RESET_CTRL_SOFT_RESET_MASK))
                  (haltM SoftReset)
           else haltM WaitForever))))"

definition XFsbl_FallBack :: "world \<Rightarrow> 'a prog" where
  "XFsbl_FallBack W =
     bindM (getM ResetReason) (\<lambda>Reset.
     seqM (case cfg_wdt_mask W of
             None \<Rightarrow> retM ()
           | Some WdtMask \<Rightarrow> whenM (Reset \<noteq> XFSBL_APU_ONLY_RESET) (XFsbl_StopWdt W WdtMask))
      (bindM XFsbl_HookBeforeFallback (\<lambda>_.
       bindM (XFsbl_In32 W CSU_CSU_MULTI_BOOT) (\<lambda>RegValue.
         XFsbl_UpdateMultiBoot W (RegValue + 1)))))"

definition XFsbl_ErrorLockDown :: "world \<Rightarrow> u32 \<Rightarrow> 'a prog" where
  "XFsbl_ErrorLockDown W ErrorStatus =
     seqM (seqsM
       [XFsbl_Out32 XFSBL_ERROR_STATUS_REGISTER_OFFSET ErrorStatus,
        modM (\<lambda>s. s\<lparr>ErrorCode := ErrorStatus\<rparr>)])
      (bindM (XFsbl_In32 W CRL_APB_BOOT_MODE_USER) (\<lambda>v.
         if flash_boot_mode (v AND CRL_APB_BOOT_MODE_USER_BOOT_MODE_MASK)
         then XFsbl_FallBack W else XFsbl_HandoffExit W 0 XFSBL_NO_HANDOFFEXIT))"

section \<open>The stages\<close>

definition XFsbl_MarkUsedRPUCores :: "world \<Rightarrow> u32 \<Rightarrow> unit prog" where
  "XFsbl_MarkUsedRPUCores W PartitionNum =
     bindM (get_PartitionHeader PartitionNum) (\<lambda>p.
     bindM (XFsbl_In32 W XFSBL_R5_USAGE_STATUS_REG) (\<lambda>RegValue.
     bindM (getM ProcessorID) (\<lambda>ProcId.
       let DestCpu = XFsbl_GetDestinationCpu p
       in if DestCpu = XIH_PH_ATTRB_DEST_CPU_R5_0 \<or> DestCpu = XIH_PH_ATTRB_DEST_CPU_R5_L
          then XFsbl_Out32 XFSBL_R5_USAGE_STATUS_REG (RegValue OR XFSBL_R5_0_STATUS_MASK)
          else if DestCpu = XIH_PH_ATTRB_DEST_CPU_R5_1
          then XFsbl_Out32 XFSBL_R5_USAGE_STATUS_REG (RegValue OR XFSBL_R5_1_STATUS_MASK)
          else whenM (DestCpu = XIH_PH_ATTRB_DEST_CPU_NONE \<and>
                      (ProcId = XIH_PH_ATTRB_DEST_CPU_R5_0 \<or> ProcId = XIH_PH_ATTRB_DEST_CPU_R5_L))
                 (XFsbl_Out32 XFSBL_R5_USAGE_STATUS_REG (RegValue OR XFSBL_R5_0_STATUS_MASK)))))"

text \<open>
  The local variables of \<open>main\<close>: \<open>FsblStatus\<close>, \<open>FsblStage\<close>, \<open>PartitionNum\<close> and
  \<open>EarlyHandoff\<close>.
\<close>

record main_locals =
  loc_Status :: u32
  loc_Stage :: u32
  loc_PartitionNum :: u32
  loc_EarlyHandoff :: bool

definition main_start :: main_locals where
  "main_start = \<lparr>loc_Status = XFSBL_SUCCESS, loc_Stage = XFSBL_STAGE1, loc_PartitionNum = 0,
     loc_EarlyHandoff = False\<rparr>"

definition stage_error :: "u32 \<Rightarrow> main_locals \<Rightarrow> main_locals" where
  "stage_error Status l = l\<lparr>loc_Status := Status, loc_Stage := XFSBL_STAGE_ERR\<rparr>"

definition main_stage1 :: "world \<Rightarrow> main_locals \<Rightarrow> main_locals prog" where
  "main_stage1 W l =
     bindM (XFsbl_Initialize W) (\<lambda>FsblStatus.
       if XFSBL_SUCCESS \<noteq> FsblStatus then retM (stage_error (FsblStatus + XFSBL_ERROR_STAGE_1) l)
       else retM (l\<lparr>loc_Status := FsblStatus, loc_Stage := XFSBL_STAGE2\<rparr>))"

definition main_stage2 :: "world \<Rightarrow> main_locals \<Rightarrow> main_locals prog" where
  "main_stage2 W l =
     bindM (XFsbl_BootDeviceInitAndValidate W) (\<lambda>FsblStatus.
       if XFSBL_SUCCESS \<noteq> FsblStatus \<and> XFSBL_STATUS_JTAG \<noteq> FsblStatus
       then retM (stage_error (FsblStatus + XFSBL_ERROR_STAGE_2) l)
       else if XFSBL_STATUS_JTAG = FsblStatus
       then seqM (rmwM W XFSBL_R5_USAGE_STATUS_REG (\<lambda>v. v OR (XFSBL_R5_0_STATUS_MASK OR XFSBL_R5_1_STATUS_MASK)))
              (retM (l\<lparr>loc_Status := FsblStatus, loc_Stage := XFSBL_STAGE4\<rparr>))
       else seqM (rmwM W XFSBL_R5_USAGE_STATUS_REG
                   (\<lambda>v. v AND NOT (XFSBL_R5_0_STATUS_MASK OR XFSBL_R5_1_STATUS_MASK)))
              (retM (l\<lparr>loc_Status := FsblStatus, loc_Stage := XFSBL_STAGE3, loc_PartitionNum := 1\<rparr>)))"

definition main_stage3 :: "world \<Rightarrow> main_locals \<Rightarrow> main_locals prog" where
  "main_stage3 W l =
     bindM (XFsbl_PartitionLoad W (loc_PartitionNum l)) (\<lambda>FsblStatus.
       if XFSBL_SUCCESS \<noteq> FsblStatus then retM (stage_error (FsblStatus + XFSBL_ERROR_STAGE_3) l)
       else seqM (XFsbl_MarkUsedRPUCores W (loc_PartitionNum l))
        (bindM (XFsbl_CheckEarlyHandoff W (loc_PartitionNum l)) (\<lambda>Early.
         bindM (getM (\<lambda>s. NoOfPartitions (ImageHeaderTable s))) (\<lambda>n.
         let l' = l\<lparr>loc_Status := (if Early then 1 else 0)\<rparr>
         in if loc_PartitionNum l < n - 1
            then if Early then retM (l'\<lparr>loc_EarlyHandoff := True, loc_Stage := XFSBL_STAGE4\<rparr>)
                 else retM (l'\<lparr>loc_PartitionNum := loc_PartitionNum l + 1\<rparr>)
            else retM (l'\<lparr>loc_Stage := XFSBL_STAGE4, loc_EarlyHandoff := Early\<rparr>)))))"

definition main_stage4 :: "world \<Rightarrow> main_locals \<Rightarrow> main_locals prog" where
  "main_stage4 W l =
     bindM (XFsbl_Handoff W (loc_PartitionNum l) (loc_EarlyHandoff l)) (\<lambda>FsblStatus.
       if XFSBL_STATUS_CONTINUE_PARTITION_LOAD = FsblStatus
       then retM (l\<lparr>loc_Status := FsblStatus, loc_PartitionNum := loc_PartitionNum l + 1,
                    loc_Stage := XFSBL_STAGE3\<rparr>)
       else if XFSBL_STATUS_CONTINUE_OTHER_HANDOFF = FsblStatus
       then retM (l\<lparr>loc_Status := FsblStatus, loc_EarlyHandoff := False\<rparr>)
       else if XFSBL_SUCCESS \<noteq> FsblStatus
       then retM (stage_error (FsblStatus + XFSBL_ERROR_STAGE_4) l)
       else retM (l\<lparr>loc_Status := FsblStatus, loc_Stage := XFSBL_STAGE_DEFAULT\<rparr>))"

text \<open>One turn of the \<open>while\<close> loop: the case of the switch.\<close>

definition main_step :: "world \<Rightarrow> main_locals \<Rightarrow> main_locals prog" where
  "main_step W l =
     (if loc_Stage l = XFSBL_STAGE1 then main_stage1 W l
      else if loc_Stage l = XFSBL_STAGE2 then main_stage2 W l
      else if loc_Stage l = XFSBL_STAGE3 then main_stage3 W l
      else if loc_Stage l = XFSBL_STAGE4 then main_stage4 W l
      else if loc_Stage l = XFSBL_STAGE_ERR
      then seqM (XFsbl_ErrorLockDown W (loc_Status l) :: unit prog)
             (retM (l\<lparr>loc_Stage := XFSBL_STAGE_DEFAULT\<rparr>))
      else seqM (XFsbl_HandoffExit W 0 XFSBL_NO_HANDOFFEXIT :: unit prog) (retM l))"

partial_function (option) main_loop ::
  "world \<Rightarrow> main_locals \<Rightarrow> fsbl \<Rightarrow> (main_locals res \<times> fsbl) option" where
  "main_loop W l s =
     (if loc_Stage l \<le> XFSBL_STAGE_DEFAULT then
        (case main_step W l s of
           None \<Rightarrow> None
         | Some (r, t) \<Rightarrow> (case r of
             Halted e \<Rightarrow> Some (Halted e, t)
           | Ret l' \<Rightarrow>
               if loc_Stage l' = XFSBL_STAGE_DEFAULT then Some (Ret l', t)
               else main_loop W l' t))
      else Some (Ret l, s))"

definition fsbl_main :: "world \<Rightarrow> int prog" where
  "fsbl_main W = bindM (main_loop W main_start)
     (\<lambda>l. seqM (XFsbl_HandoffExit W 0 XFSBL_NO_HANDOFFEXIT :: unit prog) (retM 0))"

section \<open>Properties\<close>

text \<open>
  The fallback of a run with reset reason \<open>Reset\<close>, as the steps \<open>h\<close> it adds to the history:
  the multiboot offset is moved to the next image once, and the last step requests the soft
  reset.  An APU-only restart waits instead.
\<close>

definition falls_back :: "u32 \<Rightarrow> exit \<Rightarrow> io list \<Rightarrow> bool" where
  "falls_back Reset x h \<longleftrightarrow> (\<exists>m h1 h2.
     h = h2 @ [Wr CSU_CSU_MULTI_BOOT (m + 1), Rd CSU_CSU_MULTI_BOOT m] @ h1 \<and>
     unwritten CSU_CSU_MULTI_BOOT h1 \<and> unwritten CSU_CSU_MULTI_BOOT h2 \<and>
     (if Reset = XFSBL_APU_ONLY_RESET then x = WaitForever
      else x = SoftReset \<and> (\<exists>r h3. h2 = Wr CRL_APB_RESET_CTRL (r OR CRL_APB_RESET_CTRL_SOFT_RESET_MASK) #
        Rd CRL_APB_RESET_CTRL r # h3)))"

lemma UpdateMultiBoot_history:
  "wp (XFsbl_UpdateMultiBoot W m) (\<lambda>_ _. False)
     (\<lambda>x t. \<exists>h. trace t = h @ Wr CSU_CSU_MULTI_BOOT m # trace s \<and> ErrorCode t = ErrorCode s \<and>
        unwritten CSU_CSU_MULTI_BOOT h \<and>
        (if ResetReason s = XFSBL_APU_ONLY_RESET then x = WaitForever
         else x = SoftReset \<and> (\<exists>r h3. h = Wr CRL_APB_RESET_CTRL (r OR CRL_APB_RESET_CTRL_SOFT_RESET_MASK) #
           Rd CRL_APB_RESET_CTRL r # h3))) s"
  unfolding XFsbl_UpdateMultiBoot_def wp_eq
  by (auto simp: hw)

lemma FallBack_history:
  "wp (XFsbl_FallBack W) (\<lambda>_ _. False)
     (\<lambda>x t. \<exists>h. trace t = h @ trace s \<and> falls_back (ResetReason s) x h \<and> ErrorCode t = ErrorCode s) s"
proof -
  have update: "wp (bindM (XFsbl_In32 W CSU_CSU_MULTI_BOOT) (\<lambda>RegValue. XFsbl_UpdateMultiBoot W (RegValue + 1)))
      (\<lambda>_ _. False) (\<lambda>x t. \<exists>h. trace t = h @ trace s \<and> falls_back (ResetReason s) x h \<and> ErrorCode t = ErrorCode s)
      (s\<lparr>trace := g @ trace s\<rparr>)" if "unwritten CSU_CSU_MULTI_BOOT g" for g
    unfolding wp_bind wp_In32
    by (rule wp_mono [OF UpdateMultiBoot_history]) (use that in \<open>force simp: falls_back_def\<close>)+
  have stop: "wp (case cfg_wdt_mask W of None \<Rightarrow> retM ()
        | Some WdtMask \<Rightarrow> whenM (ResetReason s \<noteq> XFSBL_APU_ONLY_RESET) (XFsbl_StopWdt W WdtMask))
      (\<lambda>_ t. \<exists>g. t = s\<lparr>trace := g @ trace s\<rparr> \<and> unwritten CSU_CSU_MULTI_BOOT g) (\<lambda>_ _. False) s"
    unfolding XFsbl_StopWdt_def
    by (auto simp: wp_eq hw split: option.split intro: exI [of _ "[Wr a v, Rd b w, Ext c x]" for a v b w c x]
        exI [of _ "[Wr a v, Rd b w, Ext d y, Ext c x]" for a v b w c x d y] exI [of _ "[]"])
  show ?thesis
    unfolding XFsbl_FallBack_def XFsbl_HookBeforeFallback_def wp_bind wp_seq wp_get wp_ret
    by (rule wp_mono [OF stop]) (use update in \<open>auto simp: wp_bind\<close>)
qed

text \<open>C5: Every error locks the loader down.  The status is written to the error register and kept
  in the instance, and the call never returns: when the boot mode read next is a flash device,
  the multiboot offset is moved by one, exactly once, and the system is reset (an APU-only
  restart waits for ever); any other boot mode stops the loader.\<close>

theorem ErrorLockDown_falls_back:
  "\<exists>x t v h. (XFsbl_ErrorLockDown W e :: unit prog) s = Some (Halted x, t) \<and> ErrorCode t = e \<and>
     trace t = h @ [Rd CRL_APB_BOOT_MODE_USER v, Wr XFSBL_ERROR_STATUS_REGISTER_OFFSET e] @ trace s \<and>
     (if flash_boot_mode (v AND CRL_APB_BOOT_MODE_USER_BOOT_MODE_MASK) then falls_back (ResetReason s) x h
      else x = HandoffTo 0 XFSBL_NO_HANDOFFEXIT)"
proof -
  have "returns (XFsbl_ErrorLockDown W e :: unit prog)"
    unfolding XFsbl_ErrorLockDown_def XFsbl_FallBack_def XFsbl_StopWdt_def XFsbl_HookBeforeFallback_def XFsbl_UpdateMultiBoot_def
      XFsbl_HandoffExit_def
    by (intro returns_intro)
  moreover have "wp (XFsbl_ErrorLockDown W e :: unit prog) (\<lambda>_ _. False)
     (\<lambda>x t. \<exists>v h. ErrorCode t = e \<and>
       trace t = h @ [Rd CRL_APB_BOOT_MODE_USER v, Wr XFSBL_ERROR_STATUS_REGISTER_OFFSET e] @ trace s \<and>
       (if flash_boot_mode (v AND CRL_APB_BOOT_MODE_USER_BOOT_MODE_MASK) then falls_back (ResetReason s) x h
        else x = HandoffTo 0 XFSBL_NO_HANDOFFEXIT)) s"
    unfolding XFsbl_ErrorLockDown_def wp_bind wp_seq wp_seqs_Cons wp_seqs_Nil wp_Out32 wp_mod wp_In32 wp_if
    by (auto simp: wp_eq intro!: wp_mono [OF FallBack_history] exI [of _ "reg_in W (Wr a x # trace s) b" for a x b])
  ultimately show ?thesis
    by (blast dest: leaves_total)
qed

end
