(* ===== verification/Fsbl_Boot.thy ===== *)
theory Fsbl_Boot
  imports Fsbl_Main
begin

text \<open>
  The boot as a whole: the turns of \<open>main\<close> refine an abstract machine of boot phases, every
  reachable turn keeps the instance in shape, no run leaves the arrays of the instance or
  returns from \<open>main\<close>, and the number of turns is bounded.  At the end, which boot devices are
  initialised when the headers name a second one.
\<close>

section \<open>The boot as an abstract machine\<close>

text \<open>
  The phases of a boot with \<open>m\<close> partitions.  Partition 0 is the loader itself; the others are
  loaded in order, each once, and the handoff follows the last one.  An early handoff may
  come between two partitions.  There is no step from a failure: the error lock-down leaves
  the loader.
\<close>

datatype phase = Initialising | SelectingDevice | Loading nat | HandingOff nat bool | Failing

inductive phase_step :: "nat \<Rightarrow> phase \<Rightarrow> phase \<Rightarrow> bool" for m :: nat where
  initialised: "phase_step m Initialising SelectingDevice"
| init_failed: "phase_step m Initialising Failing"
| flash_boot: "phase_step m SelectingDevice (Loading 1)"
| jtag_boot: "phase_step m SelectingDevice (HandingOff 0 False)"
| device_failed: "phase_step m SelectingDevice Failing"
| load_next: "Suc n < m \<Longrightarrow> phase_step m (Loading n) (Loading (Suc n))"
| load_early: "Suc n < m \<Longrightarrow> phase_step m (Loading n) (HandingOff n True)"
| load_last: "m = Suc n \<Longrightarrow> phase_step m (Loading n) (HandingOff n early)"
| load_failed: "phase_step m (Loading n) Failing"
| handoff_more: "Suc n < m \<Longrightarrow> phase_step m (HandingOff n True) (Loading (Suc n))"
| handoff_rest: "m = Suc n \<Longrightarrow> phase_step m (HandingOff n True) (HandingOff n False)"
| handoff_failed: "phase_step m (HandingOff n early) Failing"

inductive_simps phase_step_simps:
  "phase_step m Initialising q" "phase_step m SelectingDevice q" "phase_step m (Loading n) q"
  "phase_step m (HandingOff n early) q" "phase_step m Failing q"

inductive_cases phase_stepE: "phase_step m p q"

text \<open>Every path of the machine is finite: a rank that decreases.\<close>

fun phase_rank :: "phase \<Rightarrow> nat" where
  "phase_rank Initialising = 99"
| "phase_rank SelectingDevice = 98"
| "phase_rank (Loading n) = 3 * (32 - n) + 3"
| "phase_rank (HandingOff n early) = 3 * (32 - n) + (if early then 2 else 1)"
| "phase_rank Failing = 0"

lemma phase_rank_decreases:
  "phase_step m p q \<Longrightarrow> (\<And>n. q = Loading n \<Longrightarrow> n \<le> 32) \<Longrightarrow> phase_rank q < phase_rank p"
  by (cases rule: phase_step.cases) auto

definition phase_of :: "main_locals \<Rightarrow> phase" where
  "phase_of l =
     (let n = unat (loc_PartitionNum l)
      in if loc_Stage l = XFSBL_STAGE1 then Initialising
         else if loc_Stage l = XFSBL_STAGE2 then SelectingDevice
         else if loc_Stage l = XFSBL_STAGE3 then Loading n
         else if loc_Stage l = XFSBL_STAGE4 then HandingOff n (loc_EarlyHandoff l)
         else Failing)"

section \<open>The loader stays in its arrays\<close>

text \<open>
  The partition headers as the C start-up code leaves them.  A primary image whose header
  table names the boot device itself as secondary device leaves them so, and stage 3 is
  entered all the same.
\<close>

definition unread :: "fsbl \<Rightarrow> bool" where
  "unread s \<longleftrightarrow> PartitionHeader s = PartitionHeader fsbl_init"

definition main_inv :: "main_locals \<Rightarrow> fsbl \<Rightarrow> bool" where
  "main_inv l s \<longleftrightarrow>
     (let n = loc_PartitionNum l; m = NoOfPartitions (ImageHeaderTable s)
      in if loc_Stage l = XFSBL_STAGE1 then (\<exists>rc. fresh rc s) \<and> unread s \<and> n = 0 \<and> \<not> loc_EarlyHandoff l
         else if loc_Stage l = XFSBL_STAGE2 then (\<exists>rc. rc \<in> cpu_ids \<and> fresh rc s) \<and> unread s \<and> n = 0 \<and> \<not> loc_EarlyHandoff l
         else if loc_Stage l = XFSBL_STAGE3 then load_inv s \<and> n < m \<or> n = 1 \<and> unread s
         else if loc_Stage l = XFSBL_STAGE4 then handoff_inv s \<and> unat n < 32 \<and>
           (loc_EarlyHandoff l \<longrightarrow> load_inv s \<and> n < m)
         else loc_Stage l = XFSBL_STAGE_ERR)"

text \<open>What a turn of the loop leaves: the invariant, and a step of the abstract machine.\<close>

definition boot_post :: "main_locals \<Rightarrow> main_locals \<Rightarrow> fsbl \<Rightarrow> bool" where
  "boot_post l l' t \<longleftrightarrow> main_inv l' t \<and>
     phase_step (unat (NoOfPartitions (ImageHeaderTable t))) (phase_of l) (phase_of l')"

lemmas boot_post_defs = boot_post_def main_inv_def phase_of_def phase_step_simps stage_error_def

lemma fresh_handoff: "fresh rc s \<Longrightarrow> handoff_inv s"
  by (simp add: fresh_def idle_def handoff_inv_def handoff_cpus_def)

lemma fresh_load:
  "fresh rc s \<Longrightarrow> rc \<in> cpu_ids \<Longrightarrow> 2 \<le> NoOfPartitions (ImageHeaderTable s) \<Longrightarrow>
   NoOfPartitions (ImageHeaderTable s) \<le> 32 \<Longrightarrow> load_inv s"
  by (simp add: load_inv_def fresh_handoff) (simp add: fresh_def idle_def)

lemma PartitionLoad_unread:
  assumes "unread s"
  shows "ends (XFsbl_PartitionLoad W 1) (\<lambda>Status t. Status \<noteq> XFSBL_SUCCESS) s"
proof -
  have "XFsbl_ValidateChecksum (ph_words (PartitionHeader fsbl_init ! 1)) (XIH_PH_LEN div 4) \<noteq> XFSBL_SUCCESS"
    using ph.valid_iff [of "PartitionHeader fsbl_init ! 1"] by (simp add: hw ph_words_def fsbl_init_def)
  moreover have "XFSBL_ERROR_PH_CHECKSUM_FAILED \<noteq> XFSBL_SUCCESS"
    "XFSBL_ERROR_PH_CHECKSUM_FAILED \<noteq> XFSBL_SUCCESS_NOT_PARTITION_OWNER"
    by (simp_all add: hw)
  ultimately show ?thesis
    using assms
    by (simp add: XFsbl_PartitionLoad_def XFsbl_PartitionHeaderValidation_def XFsbl_RestartWdt_def ends_eq unread_def)
qed

lemma history_indep:
  "fresh rc (s\<lparr>trace := h\<rparr>) = fresh rc s" "handoff_inv (s\<lparr>trace := h\<rparr>) = handoff_inv s"
  "load_inv (s\<lparr>trace := h\<rparr>) = load_inv s" "unread (s\<lparr>trace := h\<rparr>) = unread s"
  by (simp_all add: fresh_def idle_def load_inv_def instance_shape_def handoff_inv_def handoff_cpus_def unread_def)

text \<open>The loader is left through the exit routine, a reset or the overflow of the read buffer.\<close>

abbreviation in_bounds :: "exit \<Rightarrow> bool" where
  "in_bounds e \<equiv> e \<noteq> OutOfBounds"

lemma stage1_inv:
  assumes "main_inv l s" "loc_Stage l = XFSBL_STAGE1"
  shows "wp (main_stage1 W l) (boot_post l) (\<lambda>e _. in_bounds e) s"
proof -
  have start: "(\<exists>rc. fresh rc s) \<and> PartitionHeader s = PartitionHeader fsbl_init"
    and l: "loc_PartitionNum l = 0" "\<not> loc_EarlyHandoff l"
    using assms(1,2) by (simp_all add: main_inv_def unread_def Let_def)
  have "wp (XFsbl_Initialize W) (\<lambda>x t. x = XFSBL_SUCCESS \<longrightarrow> ProcessorID t \<in> cpu_ids) (\<lambda>_ _. True) s"
    using Initialize_establishes [of W] by (simp add: establishes_def)
  from wp_conj [OF this keepsD [OF starting.keeps_Initialize [of in_bounds] start]]
  show ?thesis
    unfolding main_stage1_def wp_eq
    by (rule wp_mono) (use l assms(2) in \<open>auto simp: boot_post_defs unread_def Let_def fresh_def idle_def hw wp_eq\<close>)
qed

lemma stage2_inv:
  assumes "main_inv l s" "loc_Stage l = XFSBL_STAGE2"
  shows "wp (main_stage2 W l) (boot_post l) (\<lambda>e _. in_bounds e) s"
proof -
  obtain rc where start: "rc \<in> cpu_ids" "fresh rc s" "PartitionHeader s = PartitionHeader fsbl_init"
      and l: "loc_PartitionNum l = 0" "\<not> loc_EarlyHandoff l"
    using assms by (auto simp: main_inv_def unread_def Let_def hw)
  have "wp (XFsbl_BootDeviceInitAndValidate W) (\<lambda>x t. x = XFSBL_SUCCESS \<longrightarrow> header_read (PartitionHeader fsbl_init) t) (\<lambda>_ _. True) s"
    using BootDevice_establishes [of "PartitionHeader fsbl_init" W] start(3) by (simp add: establishes_def)
  note boot = wp_conj [OF this keepsD [OF keeps_BootDevice_fresh start(2)]]
  have loadable: "load_inv t \<and> 1 < NoOfPartitions (ImageHeaderTable t) \<or> unread t"
    if "fresh rc t" "header_read (PartitionHeader fsbl_init) t" for t
  proof (cases "PartitionPresentDevice (ImageHeaderTable t) = XIH_IHT_PPD_SAME")
    case True
    with that(2) have m: "2 \<le> NoOfPartitions (ImageHeaderTable t)" "NoOfPartitions (ImageHeaderTable t) \<le> 32"
      by (simp_all add: header_read_def Let_def)
    moreover from m(1) have "1 < NoOfPartitions (ImageHeaderTable t)"
      by (simp add: word_le_nat_alt word_less_nat_alt)
    ultimately show ?thesis using that(1) start(1) by (simp add: fresh_load)
  qed (use that(2) in \<open>simp add: header_read_def unread_def Let_def\<close>)
  show ?thesis
    unfolding main_stage2_def wp_bind
  proof (rule wp_mono [OF boot])
    fix x t assume t: "(x = XFSBL_SUCCESS \<longrightarrow> header_read (PartitionHeader fsbl_init) t) \<and> fresh rc t"
    then have "x = XFSBL_SUCCESS \<Longrightarrow> load_inv t \<and> 1 < NoOfPartitions (ImageHeaderTable t) \<or> unread t" "handoff_inv t"
      using loadable fresh_handoff by auto
    then show "wp (if XFSBL_SUCCESS \<noteq> x \<and> XFSBL_STATUS_JTAG \<noteq> x
       then retM (stage_error (x + XFSBL_ERROR_STAGE_2) l)
       else if XFSBL_STATUS_JTAG = x
       then seqM (rmwM W XFSBL_R5_USAGE_STATUS_REG (\<lambda>v. v OR (XFSBL_R5_0_STATUS_MASK OR XFSBL_R5_1_STATUS_MASK)))
              (retM (l\<lparr>loc_Status := x, loc_Stage := XFSBL_STAGE4\<rparr>))
       else seqM (rmwM W XFSBL_R5_USAGE_STATUS_REG
                   (\<lambda>v. v AND NOT (XFSBL_R5_0_STATUS_MASK OR XFSBL_R5_1_STATUS_MASK)))
              (retM (l\<lparr>loc_Status := x, loc_Stage := XFSBL_STAGE3, loc_PartitionNum := 1\<rparr>)))
      (boot_post l) (\<lambda>e _. in_bounds e) t"
      using l assms(2) by (simp add: boot_post_defs Let_def hw wp_eq history_indep)
  qed auto
qed


lemma partition_index:
  assumes "load_inv s" and "n < NoOfPartitions (ImageHeaderTable s)"
  shows "unat n < 32"
    and "n < NoOfPartitions (ImageHeaderTable s) - 1 \<Longrightarrow> n + 1 < NoOfPartitions (ImageHeaderTable s)"
    and "n + 1 \<le> NoOfPartitions (ImageHeaderTable s) - 1 \<Longrightarrow> unat (n + 1) < 32"
    and "unat (n + 1) = Suc (unat n)"
    and "n < NoOfPartitions (ImageHeaderTable s) - 1 \<Longrightarrow> Suc (unat n) < unat (NoOfPartitions (ImageHeaderTable s))"
    and "\<not> n < NoOfPartitions (ImageHeaderTable s) - 1 \<Longrightarrow> unat (NoOfPartitions (ImageHeaderTable s)) = Suc (unat n)"
proof -
  define m where "m = NoOfPartitions (ImageHeaderTable s)"
  have m: "2 \<le> unat m" "unat m \<le> 32"
    using assms(1) by (simp_all add: load_inv_def word_le_nat_alt m_def)
  have n: "unat n < unat m" using assms(2) by (simp add: word_less_nat_alt m_def)
  with m have u: "unat (n + 1) = unat n + 1" "unat (m - 1) = unat m - 1"
    by (simp_all add: unat_word_ariths unat_sub word_le_nat_alt)
  have "unat n < 32" "n < m - 1 \<Longrightarrow> n + 1 < m" "n + 1 \<le> m - 1 \<Longrightarrow> unat (n + 1) < 32"
    "unat (n + 1) = Suc (unat n)" "n < m - 1 \<Longrightarrow> Suc (unat n) < unat m" "\<not> n < m - 1 \<Longrightarrow> unat m = Suc (unat n)"
    using m n u by (simp_all add: word_less_nat_alt word_le_nat_alt)
  then show "unat n < 32"
    and "n < NoOfPartitions (ImageHeaderTable s) - 1 \<Longrightarrow> n + 1 < NoOfPartitions (ImageHeaderTable s)"
    and "n + 1 \<le> NoOfPartitions (ImageHeaderTable s) - 1 \<Longrightarrow> unat (n + 1) < 32"
    and "unat (n + 1) = Suc (unat n)"
    and "n < NoOfPartitions (ImageHeaderTable s) - 1 \<Longrightarrow> Suc (unat n) < unat (NoOfPartitions (ImageHeaderTable s))"
    and "\<not> n < NoOfPartitions (ImageHeaderTable s) - 1 \<Longrightarrow> unat (NoOfPartitions (ImageHeaderTable s)) = Suc (unat n)"
    unfolding m_def by blast+
qed

interpretation table: partition_closed
    "\<lambda>s. ImageHeaderTable s = h \<and> PartitionHeader s ! unat n = p \<and> ProcessorID s = rc" any_exit n p rc for h n p rc
  by unfold_locales (auto intro!: keeps_UpdateHandoff)

lemma wp_MarkUsedRPUCores:
  "unat n < 32 \<Longrightarrow> (\<And>h. Q () (s\<lparr>trace := h\<rparr>)) \<Longrightarrow> wp (XFsbl_MarkUsedRPUCores W n) Q H s"
  by (simp add: XFsbl_MarkUsedRPUCores_def wp_eq Let_def)

lemma wp_CheckEarlyHandoff:
  "load_inv s \<Longrightarrow> n < NoOfPartitions (ImageHeaderTable s) \<Longrightarrow> (\<And>early. Q early s) \<Longrightarrow> wp (XFsbl_CheckEarlyHandoff W n) Q H s"
  using partition_index(1,3) [of s n] by (simp add: XFsbl_CheckEarlyHandoff_def wp_eq Let_def)

lemma stage3_inv:
  assumes "main_inv l s" "loc_Stage l = XFSBL_STAGE3"
  shows "wp (main_stage3 W l) (boot_post l) (\<lambda>e _. in_bounds e) s"
proof -
  let ?n = "loc_PartitionNum l"
  consider (unread) "?n = 1" "unread s" | (load) "load_inv s" "?n < NoOfPartitions (ImageHeaderTable s)"
    using assms by (auto simp: main_inv_def Let_def hw)
  then show ?thesis
  proof cases
    case unread
    show ?thesis
      unfolding main_stage3_def wp_eq unread(1)
      by (rule wp_mono [OF ends_wp [OF PartitionLoad_unread [OF unread(2)]]]) (simp_all add: wp_eq boot_post_defs assms(2) hw)
  next
    case load
    define h where "h = ImageHeaderTable s"
    have "wp (XFsbl_PartitionLoad W ?n) (\<lambda>_ t. load_inv t) (\<lambda>_ _. False) s"
      by (rule wp_mono [OF PartitionLoad_safe [OF load(1) partition_index(1) [OF load] refl refl]]) simp_all
    from wp_conj [OF this keepsD [OF table.keeps_PartitionLoad
        [where h = h and n = "?n" and p = "PartitionHeader s ! unat ?n" and rc = "ProcessorID s"]]]
    have "wp (XFsbl_PartitionLoad W ?n) (\<lambda>_ t. load_inv t \<and> ?n < NoOfPartitions (ImageHeaderTable t)) (\<lambda>_ _. False) s"
      by (rule wp_mono) (use load(2) in \<open>auto simp: h_def\<close>)
    moreover have "wp (seqM (XFsbl_MarkUsedRPUCores W ?n)
        (bindM (XFsbl_CheckEarlyHandoff W ?n) (\<lambda>Early.
         bindM (getM (\<lambda>s. NoOfPartitions (ImageHeaderTable s))) (\<lambda>n.
         let l' = l\<lparr>loc_Status := (if Early then 1 else 0)\<rparr>
         in if ?n < n - 1
            then if Early then retM (l'\<lparr>loc_EarlyHandoff := True, loc_Stage := XFSBL_STAGE4\<rparr>)
                 else retM (l'\<lparr>loc_PartitionNum := ?n + 1\<rparr>)
            else retM (l'\<lparr>loc_Stage := XFSBL_STAGE4, loc_EarlyHandoff := Early\<rparr>))))) (boot_post l) (\<lambda>e _. in_bounds e) t"
      if t: "load_inv t" "?n < NoOfPartitions (ImageHeaderTable t)" for t
    proof -
      have "load_inv (t\<lparr>trace := g\<rparr>)" "handoff_inv (t\<lparr>trace := g\<rparr>)" for g
        using t(1) by (simp_all add: history_indep) (simp add: load_inv_def)
      then show ?thesis
        unfolding wp_seq wp_bind
        using t(2) partition_index [OF t] assms(2)
        by (intro wp_MarkUsedRPUCores wp_CheckEarlyHandoff) (simp_all add: wp_eq Let_def boot_post_defs hw)
    qed
    ultimately show ?thesis
      unfolding main_stage3_def wp_eq
      by - (rule wp_mono, assumption, auto simp: wp_eq boot_post_defs assms(2) hw)
  qed
qed

interpretation leaving: handoff_closed "\<lambda>s. handoff_inv s \<and> ImageHeaderTable s = h \<and> (b \<longrightarrow> load_inv s)" in_bounds for h b
  by unfold_locales (auto simp: handoff_inv_def load_inv_def instance_shape_def handoff_cpus_def)

lemma stage4_inv:
  assumes "main_inv l s" "loc_Stage l = XFSBL_STAGE4"
  shows "wp (main_stage4 W l) (boot_post l) (\<lambda>e _. in_bounds e) s"
proof -
  define h where "h = ImageHeaderTable s"
  have start: "handoff_inv s" "unat (loc_PartitionNum l) < 32"
      "loc_EarlyHandoff l \<Longrightarrow> load_inv s \<and> loc_PartitionNum l < NoOfPartitions (ImageHeaderTable s)"
    using assms by (auto simp: main_inv_def Let_def hw)
  have "wp (XFsbl_Handoff W (loc_PartitionNum l) (loc_EarlyHandoff l))
      (handoff_status (loc_PartitionNum l) (loc_EarlyHandoff l)) (\<lambda>_ _. True) s"
    using Handoff_status by (simp add: answers_def)
  from wp_conj [OF this keepsD [OF leaving.keeps_Handoff [OF start(2), of h "loc_EarlyHandoff l"]]]
  have "wp (XFsbl_Handoff W (loc_PartitionNum l) (loc_EarlyHandoff l))
     (\<lambda>Status t. handoff_status (loc_PartitionNum l) (loc_EarlyHandoff l) Status t \<and>
        handoff_inv t \<and> ImageHeaderTable t = h \<and> (loc_EarlyHandoff l \<longrightarrow> load_inv t)) (\<lambda>e _. in_bounds e) s"
    by (rule wp_mono) (use start in \<open>auto simp: h_def\<close>)
  then show ?thesis
    unfolding main_stage4_def wp_eq
    by (rule wp_mono) (use start partition_index assms(2) in
      \<open>auto simp: wp_eq handoff_status_def boot_post_defs Let_def hw h_def\<close>)
qed


lemma ErrorLockDown_leaves: "answers Q (XFsbl_ErrorLockDown W e)"
  unfolding XFsbl_ErrorLockDown_def XFsbl_FallBack_def XFsbl_UpdateMultiBoot_def XFsbl_HandoffExit_def
  by (intro answers_intro)

interpretation any: handoff_closed "\<lambda>s. unat (HandoffCpuNo s) \<le> 10" in_bounds
  by unfold_locales simp_all

interpretation anything: io_stable "\<lambda>_. True"
  by unfold_locales simp

lemma keeps_ErrorLockDown: "keeps in_bounds (\<lambda>_. True) (XFsbl_ErrorLockDown W e)"
  unfolding XFsbl_ErrorLockDown_def XFsbl_FallBack_def XFsbl_UpdateMultiBoot_def XFsbl_HandoffExit_def
  by (intro keeps_intro keeps_mod anything.misc_keeps TrueI) simp_all

lemma main_step_inv:
  assumes "main_inv l s"
  shows "wp (main_step W l) (boot_post l) (\<lambda>e _. in_bounds e) s"
proof -
  have lock: "wp (XFsbl_ErrorLockDown W e) Q (\<lambda>e _. in_bounds e) s" for e s and Q :: "unit \<Rightarrow> fsbl \<Rightarrow> bool"
    using wp_conj [OF keepsD [OF keeps_ErrorLockDown TrueI] spec [OF ErrorLockDown_leaves [unfolded answers_def]]]
    by (rule wp_mono) simp_all
  show ?thesis
  proof (cases "loc_Stage l \<in> {XFSBL_STAGE1, XFSBL_STAGE2, XFSBL_STAGE3, XFSBL_STAGE4}")
    case True
    with stage1_inv [OF assms] stage2_inv [OF assms] stage3_inv [OF assms] stage4_inv [OF assms]
    show ?thesis by (auto simp: main_step_def hw)
  next
    case False
    with assms have "loc_Stage l = XFSBL_STAGE_ERR" by (auto simp: main_inv_def Let_def)
    then show ?thesis by (simp add: main_step_def hw wp_seq lock)
  qed
qed

section \<open>Runs of the loader\<close>

text \<open>One turn of the loop of \<open>main\<close>, and the states it reaches.\<close>

inductive boot_step :: "world \<Rightarrow> main_locals \<times> fsbl \<Rightarrow> main_locals \<times> fsbl \<Rightarrow> bool" for W where
  turn: "loc_Stage l < XFSBL_STAGE_DEFAULT \<Longrightarrow> main_step W l s = Some (Ret l', t) \<Longrightarrow> boot_step W (l, s) (l', t)"

inductive_cases boot_stepE: "boot_step W (l, s) c"

definition boot_reaches :: "world \<Rightarrow> main_locals \<Rightarrow> fsbl \<Rightarrow> bool" where
  "boot_reaches W l s \<longleftrightarrow> (boot_step W)\<^sup>*\<^sup>* (main_start, fsbl_init) (l, s)"

lemma reaches_start: "boot_reaches W main_start fsbl_init"
  by (simp add: boot_reaches_def)

lemma reaches_step: "boot_reaches W l s \<Longrightarrow> boot_step W (l, s) (l', t) \<Longrightarrow> boot_reaches W l' t"
  unfolding boot_reaches_def by (rule rtranclp.rtrancl_into_rtrancl)

lemma main_start_inv: "main_inv main_start fsbl_init"
  by (simp add: main_inv_def main_start_def unread_def fresh_def idle_def instance_shape_def fsbl_init_def)

lemma boot_step_inv: "main_inv l s \<Longrightarrow> boot_step W (l, s) (l', t) \<Longrightarrow> boot_post l l' t"
  by (erule boot_stepE) (auto intro: wp_Ret [OF main_step_inv])

lemma reaches_inv: "boot_reaches W l s \<Longrightarrow> main_inv l s"
  unfolding boot_reaches_def
  by (induction rule: rtranclp_induct2) (auto simp: main_start_inv boot_post_def dest: boot_step_inv)

lemma boot_step_rank:
  assumes "main_inv l s" and "boot_step W (l, s) (l', t)"
  shows "phase_rank (phase_of l') < phase_rank (phase_of l)"
proof (rule phase_rank_decreases)
  have post: "boot_post l l' t" using assms by (rule boot_step_inv)
  then show "phase_step (unat (NoOfPartitions (ImageHeaderTable t))) (phase_of l) (phase_of l')"
    by (simp add: boot_post_def)
  show "n \<le> 32" if "phase_of l' = Loading n" for n
    using that post partition_index(1) [of t "loc_PartitionNum l'"]
    by (auto simp: boot_post_def main_inv_def phase_of_def Let_def hw split: if_splits)
qed

lemma main_inv_stage: "main_inv l s \<Longrightarrow> loc_Stage l < XFSBL_STAGE_DEFAULT"
  by (auto simp: main_inv_def Let_def hw split: if_splits)

text \<open>A run of the loop that ends has left the loader in a reachable turn.\<close>

lemma main_loop_leaves:
  assumes "main_loop W l s = Some (r, t)" and "boot_reaches W l s"
  shows "\<exists>l' s' e. boot_reaches W l' s' \<and> main_step W l' s' = Some (Halted e, t) \<and> r = Halted e"
proof -
  have "boot_reaches W l s \<longrightarrow> (\<exists>l' s' e. boot_reaches W l' s' \<and> main_step W l' s' = Some (Halted e, snd y) \<and> fst y = Halted e)"
    if "main_loop W l s = Some y" for y
    using that
  proof (rule main_loop.raw_induct [rotated])
    fix f W l s y
    assume IH: "\<And>W l s y. f W l s = Some y \<Longrightarrow> boot_reaches W l s \<longrightarrow>
        (\<exists>l' s' e. boot_reaches W l' s' \<and> main_step W l' s' = Some (Halted e, snd y) \<and> fst y = Halted e)"
      and eq: "(if loc_Stage l \<le> XFSBL_STAGE_DEFAULT then
        (case main_step W l s of None \<Rightarrow> None
         | Some (r, t) \<Rightarrow> (case r of Ret l' \<Rightarrow> if loc_Stage l' = XFSBL_STAGE_DEFAULT then Some (Ret l', t) else f W l' t
           | Halted e \<Rightarrow> Some (Halted e, t))) else Some (Ret l, s)) = Some y"
    show "boot_reaches W l s \<longrightarrow>
        (\<exists>l' s' e. boot_reaches W l' s' \<and> main_step W l' s' = Some (Halted e, snd y) \<and> fst y = Halted e)"
    proof
      assume reach: "boot_reaches W l s"
      note inv = reaches_inv [OF reach]
      have stage: "loc_Stage l \<le> XFSBL_STAGE_DEFAULT" "loc_Stage l < XFSBL_STAGE_DEFAULT"
        using main_inv_stage [OF inv] by simp_all
      obtain r t where step: "main_step W l s = Some (r, t)"
        using eq stage(1) by (cases "main_step W l s") auto
      show "\<exists>l' s' e. boot_reaches W l' s' \<and> main_step W l' s' = Some (Halted e, snd y) \<and> fst y = Halted e"
      proof (cases r)
        case (Ret l')
        then have turn: "boot_step W (l, s) (l', t)" using step stage(2) by (auto intro: turn)
        from main_inv_stage boot_step_inv [OF inv turn] have "loc_Stage l' \<noteq> XFSBL_STAGE_DEFAULT"
          by (force simp: boot_post_def)
        with eq step stage(1) Ret have "f W l' t = Some y" by simp
        with IH reaches_step [OF reach turn] show ?thesis by blast
      next
        case (Halted e)
        with eq step stage(1) have "y = (Halted e, t)" by simp
        with reach step Halted show ?thesis by auto
      qed
    qed
  qed
  from this [OF assms(1)] assms(2) show ?thesis by simp
qed

text \<open>If every reachable turn comes to an end, so does the loop.\<close>

lemma main_loop_ends:
  assumes "\<And>l s. boot_reaches W l s \<Longrightarrow> main_step W l s \<noteq> None" and "boot_reaches W l s"
  shows "main_loop W l s \<noteq> None"
  using assms(2)
proof (induction "phase_rank (phase_of l)" arbitrary: l s rule: less_induct)
  case less
  note inv = reaches_inv [OF less.prems]
  show ?case
  proof (cases "main_step W l s")
    case None
    with assms(1) [OF less.prems] show ?thesis by simp
  next
    case (Some rt)
    obtain r t where step: "main_step W l s = Some (r, t)" using Some by (cases rt) auto
    show ?thesis
    proof (cases r)
      case (Ret l')
      then have turn: "boot_step W (l, s) (l', t)" using step main_inv_stage [OF inv] by (auto intro: turn)
      note reach = reaches_step [OF less.prems turn]
      have "phase_rank (phase_of l') < phase_rank (phase_of l)"
        by (rule boot_step_rank [OF inv turn])
      from less.hyps [OF this reach] step Ret show ?thesis
        by (simp add: main_loop.simps [of W l s])
    next
      case (Halted e)
      with step show ?thesis by (simp add: main_loop.simps [of W l s])
    qed
  qed
qed

section \<open>The devices that are initialised\<close>

text \<open>The initialisations of boot devices in a history: the device and the boot mode of each, the most recent one first.\<close>

definition device_init :: "io \<Rightarrow> (XFsblPs_DeviceOps \<times> u32) list" where
  "device_init e = (case e of Ext c v \<Rightarrow> (case c of Dev d \<Rightarrow> (case d of DeviceInit ops mode \<Rightarrow> [(ops, mode)] | _ \<Rightarrow> []) | _ \<Rightarrow> []) | _ \<Rightarrow> [])"

definition device_inits :: "io list \<Rightarrow> (XFsblPs_DeviceOps \<times> u32) list" where
  "device_inits h = concat (map device_init h)"

lemma device_inits_simps [simp]:
  "device_init (Rd a v) = []" "device_init (Wr a v) = []" "device_init (Ext (Dma d) v) = []" "device_init (Ext (Crypto c) v) = []"
  "device_init (Ext (Drv r) v) = []" "device_init (Ext (Dev (DeviceCopy ops src dst n)) v) = []"
  "device_init (Ext (Dev (DeviceInit ops mode)) v) = [(ops, mode)]"
  "device_inits [] = []" "device_inits (e # h) = device_init e @ device_inits h"
  by (simp_all add: device_init_def device_inits_def)

text \<open>
  An invariant that every step but the initialisation of a device respects, and that depends on the history and the primary
  device alone: the validation of the headers keeps it.
\<close>

locale header_stage = quiet_io I "\<lambda>e. device_init e \<noteq> []" for I :: "fsbl \<Rightarrow> bool" +
  assumes frame: "I s \<Longrightarrow> trace t = trace s \<Longrightarrow> PrimaryBootDevice t = PrimaryBootDevice s \<Longrightarrow> I t"
begin

lemma quiet_mod: "(\<And>s. trace (f s) = trace s \<and> PrimaryBootDevice (f s) = PrimaryBootDevice s) \<Longrightarrow> keeps E I (modM f)"
  by (rule keeps_mod) (auto elim: frame)

lemma quiet_calls:
  "keeps E I (extM W (Crypto c))" "keeps E I (callM W (Crypto c))" "keeps E I (copyM W (Crypto c))" "keeps E I (extM W (Dma d))"
  "keeps E I (callM W (Dev (DeviceCopy ops src dst n)))" "keeps E I (copyM W (Dev (DeviceCopy ops src dst n)))"
  by (rule quiet_ext quiet_call quiet_copy, simp)+

lemma quiet_rsa_verify: "keeps E I (rsa_verify W m x e g k l d f)"
  unfolding rsa_verify_def by (intro keeps_intro quiet_calls)

lemma quiet_sha: "keeps E I (XFsbl_CsuDmaInit W)" "keeps E I (XFsbl_Sha3PadSelect W)" "keeps E I (XFsbl_ShaStart W l)"
  "keeps E I (XFsbl_ShaUpdate W d n l)" "keeps E I (XFsbl_ShaFinish W l)"
  unfolding XFsbl_CsuDmaInit_def XFsbl_Sha3PadSelect_def XFsbl_ShaStart_def XFsbl_ShaUpdate_def XFsbl_ShaFinish_def
  by (intro keeps_intro quiet_calls)+

lemma quiet_InitWdt: "keeps E I (XFsbl_InitWdt W m)"
  unfolding XFsbl_InitWdt_def by (intro keeps_intro quiet_keeps) simp_all

lemma quiet_SpkVer: "keeps E I (XFsbl_SpkVer W a l)"
  unfolding XFsbl_SpkVer_def SpkVer_hash_def SpkVer_revocation_def Let_def
  by (intro keeps_intro quiet_keeps quiet_sha quiet_rsa_verify)

lemma quiet_Authentication: "keeps E I (XFsbl_Authentication W d n a)"
  unfolding XFsbl_Authentication_def XFsbl_PartitionSignVer_def Let_def
  by (intro keeps_intro quiet_SpkVer quiet_sha quiet_rsa_verify)

lemma quiet_read_words: "keeps E I (read_words W b i n f)"
  by (induction n arbitrary: i f) (auto intro!: keeps_intro quiet_In32)

lemma quiet_BhAuthentication: "keeps E I (XFsbl_BhAuthentication W d a e)"
  unfolding XFsbl_BhAuthentication_def XFsbl_PpkVer_def PpkVer_compare_def XFsbl_ReadPpkHash_def Let_def
  by (intro keeps_intro quiet_keeps quiet_read_words quiet_SpkVer quiet_sha quiet_rsa_verify quiet_mod) simp_all

lemma quiet_read_chunk: "keeps E I (read_chunk W a n)"
  unfolding read_chunk_def by (intro keeps_intro quiet_calls quiet_mod) simp_all

lemma quiet_ValidateHeader_auth: "keeps any_exit I (ValidateHeader_auth W e T)"
  unfolding ValidateHeader_auth_def copy_ReadBuffer_def Let_def
  by (intro keeps_intro quiet_calls quiet_BhAuthentication quiet_Authentication quiet_read_chunk quiet_mod) simp_all

lemma quiet_ReadImageHeader_step: "keeps any_exit I (ReadImageHeader_step W Ops Flash R T i a e)"
  unfolding ReadImageHeader_step_def ReadImageHeader_note_def XFsbl_SetATFHandoffParameters_def set_PartitionHeader_def Let_def
  by (cases Ops) (auto intro!: keeps_intro quiet_calls quiet_mod)

lemma quiet_ReadImageHeader_loop: "keeps any_exit I (ReadImageHeader_loop W Ops Flash R T n i a e)"
  by (induction n arbitrary: i a e) (auto intro!: keeps_intro quiet_ReadImageHeader_step)

lemma quiet_ReadImageHeader: "keeps any_exit I (XFsbl_ReadImageHeader W Ops Flash R T)"
  unfolding XFsbl_ReadImageHeader_def ReadImageHeader_table_def ReadImageHeader_partitions_def Let_def
  by (cases Ops) (auto intro!: keeps_intro quiet_keeps quiet_calls quiet_ReadImageHeader_loop quiet_mod)

lemma quiet_ValidateHeader: "keeps any_exit I (XFsbl_ValidateHeader W)"
  unfolding XFsbl_ValidateHeader_def ValidateHeader_offset_def Let_def
  by (intro keeps_intro quiet_keeps quiet_read_chunk quiet_ValidateHeader_auth quiet_ReadImageHeader quiet_mod) simp_all

end

text \<open>Since \<open>h0\<close> the initialisations \<open>ds\<close> have been made, with the primary device \<open>d\<close>.\<close>

definition initialised :: "io list \<Rightarrow> u32 \<Rightarrow> (XFsblPs_DeviceOps \<times> u32) list \<Rightarrow> fsbl \<Rightarrow> bool" where
  "initialised h0 d ds s \<longleftrightarrow> PrimaryBootDevice s = d \<and> (\<exists>h. trace s = h @ h0 \<and> device_inits h = ds)"

lemma initialised_step: "initialised h0 d ds s \<Longrightarrow> initialised h0 d (device_init e @ ds) (s\<lparr>trace := e # trace s\<rparr>)"
  unfolding initialised_def by (auto intro: exI [of _ "e # _"])

interpretation validating: header_stage "initialised h0 d ds" for h0 d ds
proof unfold_locales
  show "initialised h0 d ds (s\<lparr>trace := e # trace s\<rparr>)" if "initialised h0 d ds s" "\<not> device_init e \<noteq> []" for s e
    using initialised_step [OF that(1), of e] that(2) by simp
qed (auto simp: initialised_def)

text \<open>The primary device, and no other, has been initialised since \<open>h0\<close>.\<close>

definition only_primary :: "world \<Rightarrow> io list \<Rightarrow> fsbl \<Rightarrow> bool" where
  "only_primary W h0 t \<longleftrightarrow> (\<exists>ops h. boot_ops W (PrimaryBootDevice t) = Inr ops \<and> trace t = h @ h0 \<and>
     device_inits h = [(ops, PrimaryBootDevice t)])"

lemma only_primary_initialised: "only_primary W h0 t \<longleftrightarrow> (\<exists>d ops. boot_ops W d = Inr ops \<and> initialised h0 d [(ops, d)] t)"
  by (auto simp: only_primary_def initialised_def)

lemma PrimaryBootDeviceInit_only_primary:
  "wp (XFsbl_PrimaryBootDeviceInit W) (\<lambda>x t. x = XFSBL_SUCCESS \<longrightarrow> only_primary W (trace s) t) (\<lambda>_ _. True) s"
proof -
  define d where "d = reg_in W (trace s) CRL_APB_BOOT_MODE_USER AND CRL_APB_BOOT_MODE_USER_BOOT_MODE_MASK"
  define t where "t = s\<lparr>trace := Rd CRL_APB_BOOT_MODE_USER (reg_in W (trace s) CRL_APB_BOOT_MODE_USER) # trace s, PrimaryBootDevice := d\<rparr>"
  have start: "initialised (trace s) d [] t"
    unfolding initialised_def t_def by (auto intro: exI [of _ "[_]"])
  let ?prepare = "if flash_boot_mode d \<or> d = XFSBL_USB_BOOT_MODE then
      tryM (case cfg_wdt_mask W of None \<Rightarrow> retM XFSBL_SUCCESS
            | Some WdtMask \<Rightarrow> if ResetReason s \<noteq> XFSBL_APU_ONLY_RESET then XFsbl_InitWdt W WdtMask else retM XFSBL_SUCCESS)
        (XFsbl_CsuDmaInit W)
      else retM XFSBL_SUCCESS"
  have prepare: "keeps any_exit (initialised (trace s) d []) ?prepare"
    by (cases "cfg_wdt_mask W") (auto intro!: keeps_intro validating.quiet_InitWdt validating.quiet_sha)
  have device: "wp (case boot_ops W d of Inl Status \<Rightarrow> retM Status
        | Inr ops \<Rightarrow> seqM (modM (\<lambda>s. s\<lparr>DeviceOps := ops\<rparr>)) (extM W (Dev (DeviceInit ops d))))
      (\<lambda>x t. x = XFSBL_SUCCESS \<longrightarrow> only_primary W (trace s) t) (\<lambda>_ _. True) u" if "initialised (trace s) d [] u" for u
  proof (cases "boot_ops W d")
    case (Inl Status)
    then have "Status \<noteq> XFSBL_SUCCESS" by (auto simp: boot_ops_def hw split: if_splits)
    with Inl show ?thesis by (simp add: wp_ret)
  next
    case (Inr ops)
    have "initialised (trace s) d [(ops, d)] (u\<lparr>DeviceOps := ops, trace := Ext (Dev (DeviceInit ops d)) v # trace u\<rparr>)" for v
      using that by (auto simp: initialised_def intro: exI [of _ "_ # _"])
    then show ?thesis using Inr by (auto simp: wp_eq only_primary_initialised)
  qed
  have "wp ?prepare (\<lambda>x u. if x \<noteq> XFSBL_SUCCESS then x = XFSBL_SUCCESS \<longrightarrow> only_primary W (trace s) u
      else wp (case boot_ops W d of Inl Status \<Rightarrow> retM Status
        | Inr ops \<Rightarrow> seqM (modM (\<lambda>s. s\<lparr>DeviceOps := ops\<rparr>)) (extM W (Dev (DeviceInit ops d))))
        (\<lambda>x t. x = XFSBL_SUCCESS \<longrightarrow> only_primary W (trace s) t) (\<lambda>_ _. True) u) (\<lambda>_ _. True) t"
    by (rule wp_mono [OF keepsD [OF prepare start]]) (simp_all add: device)
  moreover have "ResetReason (s\<lparr>trace := h\<rparr>) = ResetReason s" for h by simp
  ultimately show ?thesis
    by (simp only: XFsbl_PrimaryBootDeviceInit_def Let_def wp_bind wp_In32 wp_get wp_seq wp_mod wp_try t_def d_def fsbl.select_convs fsbl.simps)
qed

lemma BootDevice_secondary:
  assumes "PartitionHeader s = hs"
  shows "wp (XFsbl_BootDeviceInitAndValidate W) (\<lambda>x t. x = XFSBL_SUCCESS \<longrightarrow> PartitionPresentDevice (ImageHeaderTable t) \<noteq> XIH_IHT_PPD_SAME \<longrightarrow>
     PartitionPresentDevice (ImageHeaderTable t) = PrimaryBootDevice t \<and> PartitionHeader t = hs \<and> only_primary W (trace s) t) (\<lambda>_ _. True) s"
    (is "wp _ ?Q _ _")
proof -
  have primary: "wp (XFsbl_PrimaryBootDeviceInit W) (\<lambda>x t. (x = XFSBL_SUCCESS \<longrightarrow> only_primary W (trace s) t) \<and> PartitionHeader t = hs) (\<lambda>_ _. True) s"
    using wp_conj [OF PrimaryBootDeviceInit_only_primary keepsD [OF unread.keeps_PrimaryBootDeviceInit [of any_exit] assms]] by (rule wp_mono) simp_all
  have header: "wp (XFsbl_ValidateHeader W) (\<lambda>x t. (x = XFSBL_SUCCESS \<longrightarrow> header_read hs t) \<and> only_primary W (trace s) t) (\<lambda>_ _. True) t"
    if hs: "PartitionHeader t = hs" and only: "only_primary W (trace s) t" for t
  proof -
    obtain d ops where d: "boot_ops W d = Inr ops" "initialised (trace s) d [(ops, d)] t" using only by (auto simp: only_primary_initialised)
    have "wp (XFsbl_ValidateHeader W) (\<lambda>x t. x = XFSBL_SUCCESS \<longrightarrow> header_read hs t) (\<lambda>_ _. True) t"
      using ValidateHeader_establishes [of hs W] hs by (simp add: establishes_def)
    from wp_conj [OF this keepsD [OF validating.quiet_ValidateHeader d(2)]] show ?thesis
      by (rule wp_mono) (use d(1) in \<open>auto simp: only_primary_initialised\<close>)
  qed
  have second: "wp (XFsbl_SecondaryBootDeviceInit W) ?Q (\<lambda>_ _. True) (t\<lparr>SecondaryBootDevice := PartitionPresentDevice (ImageHeaderTable t)\<rparr>)"
    if "header_read hs t" for t
  proof -
    let ?t = "t\<lparr>SecondaryBootDevice := PartitionPresentDevice (ImageHeaderTable t)\<rparr>"
    have "header_read hs ?t \<and> SecondaryBootDevice ?t = PartitionPresentDevice (ImageHeaderTable ?t)"
      using that by (simp add: header_read_def Let_def)
    from SecondaryBootDeviceInit_establishes [of hs W, unfolded establishes_def, rule_format, OF this]
    show ?thesis by (rule wp_mono) auto
  qed
  have untouched: "PartitionHeader t = hs" if "header_read hs t" "PartitionPresentDevice (ImageHeaderTable t) \<noteq> XIH_IHT_PPD_SAME" for t
    using that by (simp add: header_read_def Let_def)
  have only: "only_primary W h0 (t\<lparr>SecondaryBootDevice := x\<rparr>) = only_primary W h0 t" for h0 t x by (simp add: only_primary_def)
  have rest: "wp (seqM (modM (\<lambda>s. s\<lparr>SecondaryBootDevice := PartitionPresentDevice (ImageHeaderTable s)\<rparr>))
           (bindM (getM SecondaryBootDevice) (\<lambda>Secondary. bindM (getM PrimaryBootDevice) (\<lambda>Primary.
              if Secondary \<noteq> Primary then XFsbl_SecondaryBootDeviceInit W else retM XFSBL_SUCCESS)))) ?Q (\<lambda>_ _. True) t"
    if "header_read hs t" "only_primary W (trace s) t" for t
    using that second [OF that(1)] untouched [OF that(1)]
    by (simp add: wp_seq wp_bind wp_mod wp_get wp_if wp_ret only)
  show ?thesis
    unfolding XFsbl_BootDeviceInitAndValidate_def wp_try
  proof (rule wp_mono [OF primary])
    fix x t assume t: "(x = XFSBL_SUCCESS \<longrightarrow> only_primary W (trace s) t) \<and> PartitionHeader t = hs"
    show "if x \<noteq> XFSBL_SUCCESS then ?Q x t else wp (XFsbl_ValidateHeader W) (\<lambda>x t. if x \<noteq> XFSBL_SUCCESS then ?Q x t else wp (seqM (modM
         (\<lambda>s. s\<lparr>SecondaryBootDevice := PartitionPresentDevice (ImageHeaderTable s)\<rparr>))
           (bindM (getM SecondaryBootDevice) (\<lambda>Secondary. bindM (getM PrimaryBootDevice) (\<lambda>Primary.
              if Secondary \<noteq> Primary then XFsbl_SecondaryBootDeviceInit W else retM XFSBL_SUCCESS)))) ?Q (\<lambda>_ _. True) t) (\<lambda>_ _. True) t"
    proof (cases "x = XFSBL_SUCCESS")
      case True
      with t have "PartitionHeader t = hs" "only_primary W (trace s) t" by simp_all
      from True wp_mono [OF header [OF this]] rest show ?thesis by simp
    qed simp
  qed simp
qed

section \<open>The second device\<close>

text \<open>C35: The second boot device is forgotten when the codes collide.  When the header table of the
  primary device names another device for the partitions and the boot-device stage succeeds
  all the same, the code of that device equals the boot mode, although the two belong to
  different enumerations.  The only device that was initialised is then the one of the boot
  mode, and it was so once; no partition header has been read, and loading the first partition
  fails.\<close>

theorem secondary_device_forgotten:
  assumes "XFsbl_BootDeviceInitAndValidate W s = Some (Ret XFSBL_SUCCESS, t)"
    and "PartitionHeader s = PartitionHeader fsbl_init"
    and "PartitionPresentDevice (ImageHeaderTable t) \<noteq> XIH_IHT_PPD_SAME"
  shows "PartitionPresentDevice (ImageHeaderTable t) = PrimaryBootDevice t \<and>
     (\<exists>ops h. boot_ops W (PrimaryBootDevice t) = Inr ops \<and> trace t = h @ trace s \<and> device_inits h = [(ops, PrimaryBootDevice t)]) \<and>
     PartitionHeader t = PartitionHeader s \<and>
     (\<exists>Status u. XFsbl_PartitionLoad W 1 t = Some (Ret Status, u) \<and> Status \<noteq> XFSBL_SUCCESS)"
proof -
  have t: "PartitionPresentDevice (ImageHeaderTable t) = PrimaryBootDevice t" "PartitionHeader t = PartitionHeader fsbl_init"
    "only_primary W (trace s) t"
    using wp_Ret [OF BootDevice_secondary [OF assms(2), of W] assms(1)] assms(3) by auto
  have "ends (XFsbl_PartitionLoad W 1) (\<lambda>Status t. Status \<noteq> XFSBL_SUCCESS) t"
    using t(2) by (simp add: PartitionLoad_unread unread_def)
  then show ?thesis using t assms(2) by (auto simp: ends_def only_primary_def)
qed

text \<open>
  A boot from QSPI with 24-bit addresses (mode 1) whose header table names QSPI with 32-bit
  addresses (device 1) for the partitions.
\<close>

definition colliding_world :: world where
  "colliding_world = quiet_world\<lparr>ext_ret := (\<lambda>_ c. if c = Dma CsuDmaLookupConfig then 1 else 0),
     reg_in := (\<lambda>_ a. if a = CRL_APB_BOOT_MODE_USER then XFSBL_QSPI24_BOOT_MODE else 0),
     ext_byte := (\<lambda>_ c k. case c of
       Dev (DeviceCopy ops src dst len) \<Rightarrow> if dst = 0xFFFD0000 then bytes_of signed_table k else 0
     | _ \<Rightarrow> 0)\<rparr>"

theorem secondary_device_forgotten_witness:
  "\<exists>t. XFsbl_BootDeviceInitAndValidate colliding_world fsbl_init = Some (Ret XFSBL_SUCCESS, t) \<and>
     PartitionPresentDevice (ImageHeaderTable t) = XIH_IHT_PPD_QSPI32 \<and> PrimaryBootDevice t = XFSBL_QSPI24_BOOT_MODE \<and>
     PartitionHeader t = PartitionHeader fsbl_init"
proof -
  have world: "ext_ret colliding_world h c = (if c = Dma CsuDmaLookupConfig then 1 else XFSBL_SUCCESS)"
    "reg_in colliding_world h a = (if a = CRL_APB_BOOT_MODE_USER then XFSBL_QSPI24_BOOT_MODE else 0)"
    "image_header_addr colliding_world = 0xFFFD0000" "read_buffer_addr colliding_world = 0xFFFD2000"
    "cfg_wdt_mask colliding_world = None" "cfg_qspi colliding_world"
    "ext_byte colliding_world h (Dev (DeviceCopy ops src dst len)) =
      (if dst = 0xFFFD0000 then bytes_of signed_table else (\<lambda>_. 0))" for h c a ops src dst len
    by (auto simp: colliding_world_def quiet_world_def hw)
  have mode: "XFSBL_QSPI24_BOOT_MODE AND CRL_APB_BOOT_MODE_USER_BOOT_MODE_MASK = XFSBL_QSPI24_BOOT_MODE"
    "flash_boot_mode XFSBL_QSPI24_BOOT_MODE" "boot_ops colliding_world XFSBL_QSPI24_BOOT_MODE = Inr Qspi24Ops"
    by (simp_all add: flash_boot_mode_def boot_ops_def world(6), simp_all add: hw)
  have codes: "XIH_IHT_PPD_QSPI32 = XFSBL_QSPI24_BOOT_MODE" "XFSBL_QSPI24_BOOT_MODE \<noteq> XIH_IHT_PPD_SAME"
    by (simp_all add: hw)
  have primary: "ends (XFsbl_PrimaryBootDeviceInit colliding_world) (\<lambda>x t. x = XFSBL_SUCCESS \<and>
      PrimaryBootDevice t = XFSBL_QSPI24_BOOT_MODE \<and> PartitionHeader t = PartitionHeader u) u" for u
    by (simp add: XFsbl_PrimaryBootDeviceInit_def XFsbl_CsuDmaInit_def ends_eq world Let_def mode)
  have header: "ends (XFsbl_ValidateHeader colliding_world) (\<lambda>x t. x = XFSBL_SUCCESS \<and> PrimaryBootDevice t = PrimaryBootDevice u \<and>
      PartitionPresentDevice (ImageHeaderTable t) = XIH_IHT_PPD_QSPI32) u" for u
  proof -
    have offset: "ends (ValidateHeader_offset m) Q u" if "\<And>a. Q () (u\<lparr>ImageOffsetAddress := a\<rparr>)" for m Q u
      using that [of "ImageOffsetAddress u"] that by (simp add: ValidateHeader_offset_def ends_eq)
    have attr: "le32 (\<lambda>k. if k < 3776 then 0 else f k) (unat XIH_BH_IMAGE_ATTRB_OFFSET) = 0" "unat XIH_BH_MAX_SIZE = 3776"
      "XIH_BH_IMAGE_ATTRB_RSA_MASK \<noteq> 0" "CSU_CSU_MULTI_BOOT \<noteq> CRL_APB_BOOT_MODE_USER"
      "EFUSE_SEC_CTRL \<noteq> CRL_APB_BOOT_MODE_USER" "(0xFFFD2000 :: u64) \<noteq> 0xFFFD0000" for f
      by (simp_all add: le32_def hw)
    have ppd: "PartitionPresentDevice (iht_of_bytes (bytes_of signed_table)) = 1"
      by (simp add: signed_table_decoded)
    show ?thesis
      unfolding XFsbl_ValidateHeader_def Let_def ends_bind ends_In32 ends_seq
      by (rule offset) (auto simp: read_chunk_def ends_eq world attr XFsbl_ReadImageHeader_def ReadImageHeader_table_def
          ReadImageHeader_partitions_def Let_def signed_table_valid ppd XIH_IHT_PPD_QSPI32_def)
  qed
  have "ends (XFsbl_BootDeviceInitAndValidate colliding_world) (\<lambda>x t. x = XFSBL_SUCCESS \<and>
      PartitionPresentDevice (ImageHeaderTable t) = XIH_IHT_PPD_QSPI32) fsbl_init"
    unfolding XFsbl_BootDeviceInitAndValidate_def
    by (auto simp: ends_eq codes intro!: ends_mono [OF primary] ends_mono [OF header])
  then obtain t where run: "XFsbl_BootDeviceInitAndValidate colliding_world fsbl_init = Some (Ret XFSBL_SUCCESS, t)"
      "PartitionPresentDevice (ImageHeaderTable t) = XIH_IHT_PPD_QSPI32"
    by (auto simp: ends_def)
  from secondary_device_forgotten [OF run(1) refl] run codes show ?thesis by simp
qed

end
