(* ===== verification/Fsbl_Progress.thy ===== *)
theory Fsbl_Progress
  imports Fsbl_Boot
begin

text \<open>
  Progress: on hardware that ends the polling loops every operation of the loader comes to
  an end, and so does the boot.  The properties of whole runs follow.
\<close>

section \<open>Hardware that answers\<close>

text \<open>
  \<open>eventually W a ok\<close>: whatever has happened, polling register \<open>a\<close> comes to an end.
  \<open>responsive\<close> lists the registers that the loader polls without a bound: the requests to
  the power management unit, the DMA engine, the configuration port of the logic, the sleep
  and firmware bits of the PMU, and the isolation of the logic.
\<close>

definition eventually_reads :: "world \<Rightarrow> u32 \<Rightarrow> (u32 \<Rightarrow> bool) \<Rightarrow> bool" where
  "eventually_reads W a ok \<longleftrightarrow> (\<forall>h. poll_trace W a ok h \<noteq> None)"

definition responsive :: "world \<Rightarrow> bool" where
  "responsive W \<longleftrightarrow>
     (\<forall>m. eventually_reads W PMU_GLOBAL_REQ_PWRUP_STATUS (\<lambda>v. v AND m = 0)) \<and>
     (\<forall>m. eventually_reads W PMU_GLOBAL_REQ_ISO_STATUS (\<lambda>v. v AND m = 0)) \<and>
     eventually_reads W ADMA_CH0_ZDMA_CH_STATUS (\<lambda>v.
       v AND ADMA_CH0_ZDMA_CH_STATUS_STATE_MASK = ADMA_CH0_ZDMA_CH_STATUS_STATE_DONE \<or>
       v AND ADMA_CH0_ZDMA_CH_STATUS_STATE_MASK = ADMA_CH0_ZDMA_CH_STATUS_STATE_ERR) \<and>
     eventually_reads W ADMA_CH0_ZDMA_CH_ISR (\<lambda>v.
       v AND ADMA_CH0_ZDMA_CH_ISR_DMA_DONE_MASK = ADMA_CH0_ZDMA_CH_ISR_DMA_DONE_MASK) \<and>
     eventually_reads W CSU_PCAP_STATUS (\<lambda>v. v AND CSU_PCAP_STATUS_PL_CFG_RST_MASK = CSU_PCAP_STATUS_PL_CFG_RST_MASK) \<and>
     eventually_reads W CSU_PCAP_STATUS (\<lambda>v. v AND CSU_PCAP_STATUS_PL_INIT_MASK = CSU_PCAP_STATUS_PL_INIT_MASK) \<and>
     eventually_reads W CSU_PCAP_STATUS (\<lambda>v. v AND CSU_PCAP_STATUS_PCAP_WR_IDLE_MASK = CSU_PCAP_STATUS_PCAP_WR_IDLE_MASK) \<and>
     eventually_reads W CSU_PCAP_RESET (\<lambda>v. v AND CSU_PCAP_RESET_RESET_MASK = CSU_PCAP_RESET_RESET_MASK) \<and>
     eventually_reads W PMU_GLOBAL_GLOBAL_CNTRL (\<lambda>v. v AND PMU_GLOBAL_GLOBAL_CNTRL_MB_SLEEP_MASK
        = PMU_GLOBAL_GLOBAL_CNTRL_MB_SLEEP_MASK) \<and>
     eventually_reads W PMU_GLOBAL_GLOBAL_CNTRL (\<lambda>v. v AND PMU_GLOBAL_GLOBAL_CNTRL_FW_IS_PRESENT_MASK
        = PMU_GLOBAL_GLOBAL_CNTRL_FW_IS_PRESENT_MASK) \<and>
     (\<forall>h. unblock_trace W h \<noteq> None)"

text \<open>
  The interface of the progress proof: on responsive hardware every operation comes to an
  end.  The lemmas follow the order of the components.
\<close>

locale responsive_hardware =
  fixes W :: world
  assumes responsive: "responsive W"
begin

lemma returns_polls:
  "returns (pollM W PMU_GLOBAL_REQ_PWRUP_STATUS (\<lambda>v. v AND m = 0))"
  "returns (pollM W PMU_GLOBAL_REQ_ISO_STATUS (\<lambda>v. v AND m = 0))"
  "returns (pollM W ADMA_CH0_ZDMA_CH_STATUS (\<lambda>v.
       v AND ADMA_CH0_ZDMA_CH_STATUS_STATE_MASK = ADMA_CH0_ZDMA_CH_STATUS_STATE_DONE \<or>
       v AND ADMA_CH0_ZDMA_CH_STATUS_STATE_MASK = ADMA_CH0_ZDMA_CH_STATUS_STATE_ERR))"
  "returns (pollM W ADMA_CH0_ZDMA_CH_ISR (\<lambda>v.
       v AND ADMA_CH0_ZDMA_CH_ISR_DMA_DONE_MASK = ADMA_CH0_ZDMA_CH_ISR_DMA_DONE_MASK))"
  "returns (pollM W CSU_PCAP_STATUS (\<lambda>v. v AND CSU_PCAP_STATUS_PL_CFG_RST_MASK = CSU_PCAP_STATUS_PL_CFG_RST_MASK))"
  "returns (pollM W CSU_PCAP_STATUS (\<lambda>v. v AND CSU_PCAP_STATUS_PL_INIT_MASK = CSU_PCAP_STATUS_PL_INIT_MASK))"
  "returns (pollM W CSU_PCAP_STATUS (\<lambda>v. v AND CSU_PCAP_STATUS_PCAP_WR_IDLE_MASK = CSU_PCAP_STATUS_PCAP_WR_IDLE_MASK))"
  "returns (pollM W CSU_PCAP_RESET (\<lambda>v. v AND CSU_PCAP_RESET_RESET_MASK = CSU_PCAP_RESET_RESET_MASK))"
  "returns (pollM W PMU_GLOBAL_GLOBAL_CNTRL (\<lambda>v. v AND PMU_GLOBAL_GLOBAL_CNTRL_MB_SLEEP_MASK
        = PMU_GLOBAL_GLOBAL_CNTRL_MB_SLEEP_MASK))"
  "returns (pollM W PMU_GLOBAL_GLOBAL_CNTRL (\<lambda>v. v AND PMU_GLOBAL_GLOBAL_CNTRL_FW_IS_PRESENT_MASK
        = PMU_GLOBAL_GLOBAL_CNTRL_FW_IS_PRESENT_MASK))"
  using responsive by (simp_all add: responsive_def eventually_reads_def returns_poll)

lemma returns_unblock_aib: "returns (unblock_aib W)"
  using responsive by (auto simp: responsive_def returns_def unblock_aib_def split: option.split)

lemma returns_misc:
  "returns (XFsbl_GetSiliconIdName W)" "returns (XFsbl_GetProcEng W)" "returns (XFsbl_CheckSupportedCpu W c)"
  "returns (XFsbl_PowerUpIsland W m)" "returns (XFsbl_IsolationRestore W m)" "returns (XFsbl_AdmaCopy W d a n)"
  "returns (XFsbl_InitWdt W k)" "returns (XFsbl_RestartWdt W)" "returns (XFsbl_StopWdt W k)" "returns (XFsbl_PmInit W)"
  "returns (XFsbl_HookPsuInit W)" "returns XFsbl_HookBeforeBSDownload" "returns XFsbl_HookAfterBSDownload"
  "returns (XFsbl_HookBeforeHandoff e)" "returns XFsbl_HookBeforeFallback"
  unfolding XFsbl_GetSiliconIdName_def XFsbl_GetProcEng_def XFsbl_CheckSupportedCpu_def XFsbl_PowerUpIsland_def
    XFsbl_IsolationRestore_def XFsbl_AdmaCopy_def XFsbl_InitWdt_def XFsbl_RestartWdt_def XFsbl_StopWdt_def
    XFsbl_PmInit_def XFsbl_HookPsuInit_def XFsbl_HookBeforeBSDownload_def XFsbl_HookAfterBSDownload_def
    XFsbl_HookBeforeHandoff_def XFsbl_HookBeforeFallback_def Let_def
  by (intro returns_intro returns_polls)+

lemma returns_PLWaitForDone_poll: "returns (PLWaitForDone_poll W n v)"
  by (induction n arbitrary: v) (auto intro!: returns_intro)

lemma returns_bs:
  "returns (XFsbl_PcapInit W)" "returns (XFsbl_WriteToPcap W n a)" "returns (XFsbl_PLWaitForDone W)"
  "returns (XFsbl_PLCheckForDone W)" "returns (read_chunk W b m)"
  unfolding XFsbl_PcapInit_def XFsbl_PcapPowerUp_def XFsbl_WriteToPcap_def XFsbl_PcapWaitForDone_def
    XFsbl_PLWaitForDone_def XFsbl_PLCheckForDone_def PcapReset_def read_chunk_def
  by (intro returns_intro returns_polls returns_misc returns_PLWaitForDone_poll)+

lemma returns_ChunkedBSTxfer_loop: "(\<And>b. returns (k b)) \<Longrightarrow> returns (ChunkedBSTxfer_loop W n a k)"
  by (induction n arbitrary: a) (auto intro!: returns_intro returns_bs)

lemma returns_ChunkedBSTxfer: "returns (XFsbl_ChunkedBSTxfer W n)"
  unfolding XFsbl_ChunkedBSTxfer_def Let_def
  by (intro returns_intro returns_ChunkedBSTxfer_loop returns_bs)

lemma returns_EccInit_loop: "returns (EccInit_loop W a n)"
proof -
  have "returns (EccInit_chunk W a m)" for a m
    unfolding EccInit_chunk_def by (intro returns_intro returns_polls)
  then have "returns (EccInit_transfers W cs)" for cs
    by (induction cs) (auto intro!: returns_intro)
  then show ?thesis by (simp add: EccInit_loop_transfers)
qed

lemma returns_EccInit: "returns (XFsbl_EccInit W a n)"
  unfolding XFsbl_EccInit_def by (intro returns_intro returns_EccInit_loop)

lemma returns_EccInit_ranges: "returns (EccInit_ranges W rs)"
  by (induction rs) (auto intro!: returns_intro returns_EccInit)

lemma returns_tcm:
  "returns (XFsbl_TcmEccInit W c)" "returns (XFsbl_TcmInit W)" "returns (XFsbl_DdrEccInit W)" "returns (XFsbl_PowerUpMemory W m)"
  unfolding XFsbl_TcmInit_def XFsbl_TcmEccInit_def XFsbl_DdrEccInit_def XFsbl_PowerUpMemory_def
    PowerUp_R5_0_TCM_def PowerUp_R5_1_TCM_def PowerUp_R5_L_TCM_def
  by (intro returns_intro returns_EccInit returns_EccInit_ranges returns_misc)+

lemma returns_read_words: "returns (read_words W b i n f)"
  by (induction n arbitrary: i f) (auto intro!: returns_intro)

lemma returns_sha:
  "returns (XFsbl_CsuDmaInit W)" "returns (XFsbl_Sha3PadSelect W)" "returns (XFsbl_ShaStart W l)"
  "returns (XFsbl_ShaUpdate W d n l)" "returns (XFsbl_ShaFinish W l)" "returns (XFsbl_ShaDigest W d n l)"
  "returns (rsa_verify W m x e g k l D F)"
  unfolding XFsbl_CsuDmaInit_def XFsbl_Sha3PadSelect_def XFsbl_ShaStart_def XFsbl_ShaUpdate_def XFsbl_ShaFinish_def
    XFsbl_ShaDigest_def rsa_verify_def Let_def
  by (intro returns_intro)+

lemma returns_auth:
  "returns (XFsbl_SpkVer W a l)" "returns (XFsbl_PartitionSignVer W d n a)" "returns (XFsbl_Authentication W d n a)"
  "returns (XFsbl_PpkVer W a l)" "returns (XFsbl_BhAuthentication W d a e)"
  unfolding XFsbl_SpkVer_def SpkVer_hash_def SpkVer_revocation_def XFsbl_PartitionSignVer_def XFsbl_Authentication_def
    XFsbl_PpkVer_def PpkVer_compare_def XFsbl_ReadPpkHash_def XFsbl_BhAuthentication_def Let_def
  by (intro returns_intro returns_sha returns_read_words)+

lemma returns_CheckHandoffCpu_loop: "returns (CheckHandoffCpu_loop c n i)"
  by (induction n arbitrary: i) (auto intro!: returns_intro)

lemma returns_UpdateHandoff: "returns (XFsbl_UpdateHandoff p c)"
  unfolding XFsbl_UpdateHandoff_def XFsbl_CheckHandoffCpu_def
  by (intro returns_intro returns_CheckHandoffCpu_loop)

lemma returns_PartitionCopy: "returns (XFsbl_PartitionCopy W n)"
  unfolding XFsbl_PartitionCopy_def PartitionCopy_cert_def PartitionCopy_place_def PartitionCopy_pmu_def
    XFsbl_ConfigureMemory_def PrepareTcm_def Let_def
  by (intro returns_intro returns_UpdateHandoff returns_tcm returns_misc returns_polls)

lemma returns_CalcualteCheckSum: "returns (XFsbl_CalcualteCheckSum W a n)"
  unfolding XFsbl_CalcualteCheckSum_def XFsbl_CalcualteSHA_def by (intro returns_intro returns_sha)

lemma returns_pl_steps:
  "returns (XFsbl_CopyData W p b a n)" "returns (XFsbl_DmaPlCopy W a n l)" "returns (set_endian W e)"
  "returns (XFsbl_PcapWaitForDone W)" "returns (XFsbl_DecrypSecureHdr W a)" "returns (XFsbl_DecrptSetUpNextBlk W p)"
proof -
  have "returns (fill_buffer b n d)" for d by (cases b) (auto intro: returns_intro)
  then show copy: "returns (XFsbl_CopyData W p b a n)"
    unfolding XFsbl_CopyData_def by (intro returns_intro returns_misc)
  show dma: "returns (XFsbl_DmaPlCopy W a n l)" for a n l
    unfolding XFsbl_DmaPlCopy_def by (intro returns_intro)
  show endian: "returns (set_endian W e)" for e
    unfolding set_endian_def by (intro returns_intro)
  show "returns (XFsbl_PcapWaitForDone W)"
    unfolding XFsbl_PcapWaitForDone_def by (intro returns_intro returns_polls)
  show "returns (XFsbl_DecrypSecureHdr W a)" "returns (XFsbl_DecrptSetUpNextBlk W p)"
    unfolding XFsbl_DecrypSecureHdr_def XFsbl_DecrptSetUpNextBlk_def Let_def by (intro returns_intro dma endian)+
qed

lemma returns_DecrptPl: "returns (XFsbl_DecrptPl W p a n)"
  unfolding XFsbl_DecrptPl_def
proof (rule returns_iter [where P = "\<lambda>_. True" and m = decrypt_left])
  show "returns (DecrptPl_turn W x)" for x
    unfolding DecrptPl_turn_def DecrptPl_send_def Let_def by (intro returns_intro returns_pl_steps)
  fix x :: "XFsblPs_PlPartition \<times> u64 \<times> u32 \<times> u64" and s x' t
  assume "DecrptPl_turn W x s = Some (Ret (Inr x'), t)"
  then show "True \<and> decrypt_left x' < decrypt_left x"
    using answersD [OF DecrptPl_turn_answers] by (cases x) fastforce
qed simp

lemma returns_PlBlockAuthentication: "returns (XFsbl_PlBlockAuthentication W p a n c)"
proof -
  have transfer: "returns (ReAuth_transfer W p m)" for p m
    unfolding ReAuth_transfer_def XFsbl_DecrptPlChunks_def DecrptPlChunks_first_def DecrptPlChunks_rest_def Let_def
    by (intro returns_intro returns_pl_steps returns_DecrptPl)
  have first: "returns (PlSignVer_chunks W p a m k i l j off H)" for p m k i l j off H
    by (induction k arbitrary: i l j off H) (auto simp: Let_def intro!: returns_intro returns_pl_steps)
  have again: "returns (ReAuth_chunks W a m k p i l j off)" for p m k i l j off
    by (induction k arbitrary: p i l j off) (auto simp: Let_def intro!: returns_intro returns_pl_steps transfer)
  show ?thesis
    unfolding XFsbl_PlBlockAuthentication_def XFsbl_PlSignVer_def PlSignVer_finish_def XFsbl_ReAuthenticationBlock_def Let_def
    by (intro returns_intro returns_pl_steps returns_auth returns_sha first again)
qed

lemma returns_SecPlPartition:
  assumes "BlockSize (PlAuth p) \<noteq> 0"
  shows "returns (XFsbl_SecPlPartition W p)"
proof -
  have turn: "returns (SecPl_turn W x)" for x
    unfolding SecPl_turn_def Let_def by (intro returns_intro returns_pl_steps returns_PlBlockAuthentication)
  have loop: "returns (iterM (SecPl_turn W) (q, x))" if "BlockSize (PlAuth q) \<noteq> 0" for q x
  proof (rule returns_iter [where P = "\<lambda>x. BlockSize (PlAuth (fst x)) \<noteq> 0" and m = blocks_left])
    fix x :: "XFsblPs_PlPartition \<times> u8 \<times> u64 \<times> u64" and s x' t
    assume "BlockSize (PlAuth (fst x)) \<noteq> 0" and "SecPl_turn W x s = Some (Ret (Inr x'), t)"
    then show "BlockSize (PlAuth (fst x')) \<noteq> 0 \<and> blocks_left x' < blocks_left x"
      using answersD [OF SecPl_turn_answers] by (cases x) fastforce
  qed (use that turn in simp_all)
  show ?thesis
    unfolding XFsbl_SecPlPartition_def SecPl_restore_def Let_def
    using assms by (auto intro!: returns_intro loop)
qed

lemma returns_pl_auth: "returns (PartitionValidation_pl_auth W p e a)"
proof (cases "XFsbl_GetBlockSize p = 0")
  case False
  then have "returns (XFsbl_SecPlPartition W (pl_params p e a))"
    by (intro returns_SecPlPartition) (simp add: pl_params_def)
  then show ?thesis
    unfolding PartitionValidation_pl_auth_def pl_reset_def by (intro returns_intro)
qed (simp add: PartitionValidation_pl_auth_def returns_ret)

lemma returns_PartitionValidation: "returns (XFsbl_PartitionValidation W n)"
  unfolding XFsbl_PartitionValidation_def PartitionValidation_checks_def PartitionValidation_auth_def
    PartitionValidation_pl_plain_def PartitionValidation_pl_done_def pl_reset_def Let_def
  by (intro returns_intro returns_UpdateHandoff returns_CalcualteCheckSum returns_auth returns_sha returns_bs
      returns_ChunkedBSTxfer returns_misc returns_polls returns_pl_auth)

lemma returns_PartitionLoad: "returns (XFsbl_PartitionLoad W n)"
  unfolding XFsbl_PartitionLoad_def XFsbl_PartitionHeaderValidation_def XFsbl_ValidatePartitionHeader_def
    XFsbl_CheckPmuFw_def CheckPmuFw_done_def Let_def
  by (intro returns_intro returns_PartitionCopy returns_PartitionValidation returns_misc returns_polls)

lemma returns_Initialize: "returns (XFsbl_Initialize W)"
proof -
  have ddr: "returns (XFsbl_MarkDdrAsReserved W c)" for c
    unfolding XFsbl_MarkDdrAsReserved_def Let_def by (auto intro!: returns_intro returns_seqs)
  have lovec: "returns write_lovec"
    unfolding write_lovec_def by (auto intro!: returns_intro returns_seqs)
  have system: "returns (XFsbl_SystemInit W)"
    unfolding XFsbl_SystemInit_def SystemInit_power_def
    by (intro returns_intro returns_misc returns_unblock_aib ddr)
  have processor: "returns (XFsbl_ProcessorInit W)"
    unfolding XFsbl_ProcessorInit_def ProcessorInit_store_def by (intro returns_intro returns_misc lovec)
  have interrupts: "returns (XFsbl_ClearPendingInterrupts W)"
    unfolding XFsbl_ClearPendingInterrupts_def Let_def by (intro returns_intro)
  show ?thesis
    unfolding XFsbl_Initialize_def XFsbl_GetResetReason_def XFsbl_EnableProgToPL_def engines_in_reset_def
      XFsbl_ResetValidation_def ResetValidation_mark_def Let_def
    by (intro returns_intro returns_tcm system processor interrupts)
qed

lemma returns_ValidateHeader: "returns (XFsbl_ValidateHeader W)"
  unfolding XFsbl_ValidateHeader_def ValidateHeader_offset_def ValidateHeader_auth_def copy_ReadBuffer_def Let_def
  by (intro returns_intro returns_bs returns_auth)

lemma returns_BootDeviceInitAndValidate: "returns (XFsbl_BootDeviceInitAndValidate W)"
  unfolding XFsbl_BootDeviceInitAndValidate_def XFsbl_PrimaryBootDeviceInit_def XFsbl_SecondaryBootDeviceInit_def Let_def
  by (intro returns_intro returns_ValidateHeader returns_misc returns_sha)

lemma returns_Handoff_loop: "returns (Handoff_loop W n early m i run)"
proof (induction m arbitrary: i run)
  case (Suc m)
  have power: "returns (XFsbl_SetCpuPwrSettings W c f)" for c f
    unfolding XFsbl_SetCpuPwrSettings_def release_A53_def release_R5_0_def release_R5_1_def release_R5_L_def Let_def
    by (intro returns_intro returns_misc)
  have vector: "returns (XFsbl_UpdateResetVector W a c h v)" for a c h v
    unfolding XFsbl_UpdateResetVector_def update_vinithi_def Let_def by (intro returns_intro)
  have "returns (Handoff_cpu W n early v run)" for v run
    unfolding Handoff_cpu_def Handoff_other_def Handoff_running_def Let_def
    by (intro returns_intro power vector returns_misc)
  then show ?case
    unfolding Handoff_loop.simps Handoff_early_def by (intro returns_intro Suc)
qed (simp add: returns_ret)

lemma returns_HandoffExit: "returns (XFsbl_HandoffExit W a f)"
  unfolding XFsbl_HandoffExit_def by (intro returns_intro)

lemma returns_Handoff: "returns (XFsbl_Handoff W n early)"
  unfolding XFsbl_Handoff_def Handoff_prepare_def Handoff_jtag_def Handoff_final_def XFsbl_ProtectionConfig_def Let_def
  by (intro returns_intro returns_Handoff_loop returns_HandoffExit returns_bs returns_misc)

lemma returns_ErrorLockDown: "returns (XFsbl_ErrorLockDown W e)"
  unfolding XFsbl_ErrorLockDown_def XFsbl_FallBack_def XFsbl_UpdateMultiBoot_def
  by (intro returns_intro returns_HandoffExit returns_misc)

lemma returns_main_step: "returns (main_step W l)"
  unfolding main_step_def main_stage1_def main_stage2_def main_stage3_def main_stage4_def
    XFsbl_MarkUsedRPUCores_def XFsbl_CheckEarlyHandoff_def Let_def
  by (intro returns_intro returns_Initialize returns_BootDeviceInitAndValidate returns_PartitionLoad returns_Handoff
      returns_ErrorLockDown returns_HandoffExit)

lemma main_leaves: "\<exists>e t. fsbl_main W fsbl_init = Some (Halted e, t)"
proof -
  have "main_step W l s \<noteq> None" for l s using returns_main_step by (simp add: returns_def)
  then have "main_loop W main_start fsbl_init \<noteq> None" by (intro main_loop_ends reaches_start)
  then obtain r t where run: "main_loop W main_start fsbl_init = Some (r, t)" by (cases "main_loop W main_start fsbl_init") auto
  from main_loop_leaves [OF this reaches_start] obtain e where "r = Halted e" by blast
  with run show ?thesis by (simp add: fsbl_main_def bindM_def)
qed

end

section \<open>A responsive board\<close>

text \<open>
  Request registers that read zero (requests are served at once, the DMA engine is idle) and
  status bits that are set.
\<close>

definition polite_world :: world where
  "polite_world = quiet_world\<lparr>reg_in := (\<lambda>_ a.
     if a \<in> {PMU_GLOBAL_REQ_PWRUP_STATUS, PMU_GLOBAL_REQ_ISO_STATUS, PMU_GLOBAL_AIB_STATUS, ADMA_CH0_ZDMA_CH_STATUS}
     then 0 else 0xFFFFFFFF)\<rparr>"

lemma eventually_now: "(\<And>h. ok (reg_in W h a)) \<Longrightarrow> eventually_reads W a ok"
  by (simp add: eventually_reads_def poll_trace.simps)

lemma polite_responsive: "responsive polite_world"
proof -
  have zero: "reg_in polite_world h PMU_GLOBAL_REQ_PWRUP_STATUS = 0" "reg_in polite_world h PMU_GLOBAL_REQ_ISO_STATUS = 0"
    "reg_in polite_world h PMU_GLOBAL_AIB_STATUS = 0" "reg_in polite_world h ADMA_CH0_ZDMA_CH_STATUS = 0" for h
    by (simp_all add: polite_world_def)
  have ones: "reg_in polite_world h ADMA_CH0_ZDMA_CH_ISR = - 1" "reg_in polite_world h CSU_PCAP_STATUS = - 1"
    "reg_in polite_world h CSU_PCAP_RESET = - 1" "reg_in polite_world h PMU_GLOBAL_GLOBAL_CNTRL = - 1" for h
    by (simp_all add: polite_world_def hw)
  have done0: "ADMA_CH0_ZDMA_CH_STATUS_STATE_DONE = 0" by (simp add: hw)
  show ?thesis
    unfolding responsive_def
    by (intro conjI allI eventually_now) (simp_all add: zero ones done0 unblock_trace.simps)
qed

interpretation polite: responsive_hardware polite_world
  by unfold_locales (rule polite_responsive)

lemma polite_first_turn: "\<exists>l t. boot_step polite_world (main_start, fsbl_init) (l, t)"
proof -
  have start: "(\<exists>rc. fresh rc fsbl_init) \<and> PartitionHeader fsbl_init = PartitionHeader fsbl_init"
    using main_start_inv by (simp add: main_inv_def main_start_def hw)
  have eq: "main_step polite_world main_start fsbl_init = main_stage1 polite_world main_start fsbl_init"
    by (simp add: main_step_def main_start_def)
  have wp: "wp (main_stage1 polite_world main_start) (\<lambda>_ _. True) (\<lambda>_ _. False) fsbl_init"
    unfolding main_stage1_def wp_bind
    by (rule wp_mono [OF keepsD [OF starting.keeps_Initialize [of no_exit] start]]) (simp_all add: wp_eq)
  obtain r t where run: "main_step polite_world main_start fsbl_init = Some (r, t)"
    using returnsD [OF polite.returns_main_step] by blast
  then have "main_stage1 polite_world main_start fsbl_init = Some (r, t)" using eq by simp
  with wp_Halted [OF wp] obtain l where "r = Ret l" by (cases r) blast+
  with run have "boot_step polite_world (main_start, fsbl_init) (l, t)"
    by (auto intro!: turn simp: main_start_def hw)
  then show ?thesis by blast
qed

section \<open>Properties\<close>

text \<open>C1: Whatever the hardware answers, a run of the loader from power-on never leaves the arrays
  of its instance (partition headers, handoff values, entries for the trusted firmware), and
  never returns from \<open>main\<close>: if it comes to an end, it has left the loader.\<close>

theorem fsbl_main_in_bounds: "wp (fsbl_main W) (\<lambda>_ _. False) (\<lambda>e _. e \<noteq> OutOfBounds) fsbl_init"
proof -
  have "\<exists>e. r = Halted e \<and> e \<noteq> OutOfBounds" if run: "main_loop W main_start fsbl_init = Some (r, t)" for r t
  proof -
    from main_loop_leaves [OF run reaches_start] obtain l s e
      where "boot_reaches W l s" "main_step W l s = Some (Halted e, t)" "r = Halted e" by blast
    with wp_Halted [OF main_step_inv [OF reaches_inv]] show ?thesis by blast
  qed
  then show ?thesis
    by (auto simp: fsbl_main_def wp_bind) (auto simp: wp_def split: option.split res.split)
qed

text \<open>C2: On hardware that ends each of the unbounded polls, the loader always comes to an end: it
  hands over, resets the system, waits for the restart of the application processor, or
  overruns the read buffer, but it never hangs.\<close>

theorem fsbl_main_leaves:
  assumes "responsive W"
  shows "\<exists>e t. fsbl_main W fsbl_init = Some (Halted e, t)"
  by (rule responsive_hardware.main_leaves [OF responsive_hardware.intro [OF assms]])

lemma fsbl_main_leaves_witness: "\<exists>e t. fsbl_main polite_world fsbl_init = Some (Halted e, t)"
  by (rule fsbl_main_leaves [OF polite_responsive])

text \<open>C3: Each turn of the loop of \<open>main\<close> is a step of the abstract boot machine: the partitions
  are loaded in order from 1 on, each once, the final handoff follows the last of them, and
  after a failure nothing more is loaded or handed over.\<close>

theorem boot_refines_phases:
  assumes "boot_reaches W l s" and "boot_step W (l, s) (l', t)"
  shows "phase_step (unat (NoOfPartitions (ImageHeaderTable t))) (phase_of l) (phase_of l')"
  using boot_step_inv [OF reaches_inv [OF assms(1)] assms(2)] by (simp add: boot_post_def)

lemma boot_refines_phases_witness:
  "\<exists>l t. boot_step polite_world (main_start, fsbl_init) (l, t) \<and>
     phase_step (unat (NoOfPartitions (ImageHeaderTable t))) Initialising (phase_of l)"
proof -
  obtain l t where step: "boot_step polite_world (main_start, fsbl_init) (l, t)" using polite_first_turn by blast
  with boot_refines_phases [OF reaches_start step] show ?thesis
    by (auto simp: phase_of_def main_start_def)
qed

text \<open>C4: Every turn decreases a rank that starts at 99: a boot takes at most 99 turns, whatever
  the image and the hardware.\<close>

theorem boot_turns_bounded:
  assumes "(boot_step W ^^ k) (main_start, fsbl_init) c"
  shows "k \<le> 99"
proof -
  have "boot_reaches W (fst c) (snd c) \<and> phase_rank (phase_of (fst c)) + k \<le> 99"
    using assms
  proof (induction k arbitrary: c)
    case 0
    then show ?case
      by (auto simp: boot_reaches_def phase_of_def main_start_def)
  next
    case (Suc k)
    then obtain d where d: "(boot_step W ^^ k) (main_start, fsbl_init) d" "boot_step W d c" by auto
    have step: "boot_step W (fst d, snd d) (fst c, snd c)" using d(2) by simp
    from Suc.IH [OF d(1)] have reach: "boot_reaches W (fst d) (snd d)" and rank: "phase_rank (phase_of (fst d)) + k \<le> 99"
      by simp_all
    from boot_step_rank [OF reaches_inv [OF reach] step] rank reaches_step [OF reach step]
    show ?case by simp
  qed
  then show ?thesis by simp
qed

lemma boot_turns_bounded_witness:
  "\<exists>c. (boot_step polite_world ^^ 1) (main_start, fsbl_init) c \<and> (1 :: nat) \<le> 99"
proof -
  from polite_first_turn obtain l t where "boot_step polite_world (main_start, fsbl_init) (l, t)" by blast
  then have "(boot_step polite_world ^^ 1) (main_start, fsbl_init) (l, t)" by auto
  from boot_turns_bounded [OF this] this show ?thesis by blast
qed

end
