(* ===== verification/Ddr_Hw.thy ===== *)
theory Ddr_Hw
  imports Fsbl_Prelude
begin

text \<open>
  Constants of the dynamic DDR initialisation, by the names of the source: those of \<open>xfsbl_ddr_init.h\<close> and
  \<open>xfsbl_ddr_init.c\<close>, the register addresses of \<open>psu_init.h\<close>, and the offsets of the fields in the data of a memory module.
\<close>

named_theorems ddr "values of the constants of the DDR code"
named_theorems ddr_index "values of the indices of its configuration arrays"
named_theorems spd "offsets of the fields of the module data"

section \<open>Constants of the header (\<open>xfsbl_ddr_init.h\<close>)\<close>

definition XFSBL_MAX_ROWS :: u32 where [ddr]: "XFSBL_MAX_ROWS = 18"
definition XFSBL_MAX_COLUMNS :: u32 where [ddr]: "XFSBL_MAX_COLUMNS = 12"
definition XFSBL_MAX_BANKS :: u32 where [ddr]: "XFSBL_MAX_BANKS = 3"
definition XFSBL_MAX_BANK_GROUPS :: u32 where [ddr]: "XFSBL_MAX_BANK_GROUPS = 2"
definition DDRC_STAT_OFFSET :: u32 where [ddr]: "DDRC_STAT_OFFSET = 0xFD070004"
definition DDRC_MRSTAT_OFFSET :: u32 where [ddr]: "DDRC_MRSTAT_OFFSET = 0xFD070018"
definition DDR_PHY_PIR_OFFSET :: u32 where [ddr]: "DDR_PHY_PIR_OFFSET = 0xFD080004"
definition DDR_PHY_PGCR1_OFFSET :: u32 where [ddr]: "DDR_PHY_PGCR1_OFFSET = 0xFD080014"
definition DDR_PHY_PGCR6_OFFSET :: u32 where [ddr]: "DDR_PHY_PGCR6_OFFSET = 0xFD080028"
definition DDR_PHY_PGSR0_OFFSET :: u32 where [ddr]: "DDR_PHY_PGSR0_OFFSET = 0xFD080030"
definition DDR_PHY_ODTCR_OFFSET :: u32 where [ddr]: "DDR_PHY_ODTCR_OFFSET = 0xFD080098"
definition DDR_PHY_SCHCR0_OFFSET :: u32 where [ddr]: "DDR_PHY_SCHCR0_OFFSET = 0xFD080168"
definition DDR_PHY_SCHCR1_OFFSET :: u32 where [ddr]: "DDR_PHY_SCHCR1_OFFSET = 0xFD08016C"
definition DDR_PHY_DQSDR1_OFFSET :: u32 where [ddr]: "DDR_PHY_DQSDR1_OFFSET = 0xFD080254"
definition DDR_PHY_RANKIDR_OFFSET :: u32 where [ddr]: "DDR_PHY_RANKIDR_OFFSET = 0xFD0804DC"
definition DDR_PHY_DX0BDLR3_OFFSET :: u32 where [ddr]: "DDR_PHY_DX0BDLR3_OFFSET = 0xFD080750"
definition DDR_PHY_DX0BDLR4_OFFSET :: u32 where [ddr]: "DDR_PHY_DX0BDLR4_OFFSET = 0xFD080754"
definition DDR_PHY_DX0BDLR5_OFFSET :: u32 where [ddr]: "DDR_PHY_DX0BDLR5_OFFSET = 0xFD080758"
definition DDR_PHY_DX0GSR0_OFFSET :: u32 where [ddr]: "DDR_PHY_DX0GSR0_OFFSET = 0xFD0807E0"
definition DDR_PHY_DX2GSR0_OFFSET :: u32 where [ddr]: "DDR_PHY_DX2GSR0_OFFSET = 0xFD0809E0"
definition DDR_PHY_DX4GSR0_OFFSET :: u32 where [ddr]: "DDR_PHY_DX4GSR0_OFFSET = 0xFD080BE0"
definition DDR_PHY_DX6GSR0_OFFSET :: u32 where [ddr]: "DDR_PHY_DX6GSR0_OFFSET = 0xFD080DE0"
definition DDR_PHY_DX8GSR0_OFFSET :: u32 where [ddr]: "DDR_PHY_DX8GSR0_OFFSET = 0xFD080FE0"
definition DDR_PHY_DX1BDLR3_OFFSET :: u32 where [ddr]: "DDR_PHY_DX1BDLR3_OFFSET = 0xFD080850"
definition DDR_PHY_DX1BDLR4_OFFSET :: u32 where [ddr]: "DDR_PHY_DX1BDLR4_OFFSET = 0xFD080854"
definition DDR_PHY_DX1BDLR5_OFFSET :: u32 where [ddr]: "DDR_PHY_DX1BDLR5_OFFSET = 0xFD080858"
definition DDR_PHY_DX2BDLR3_OFFSET :: u32 where [ddr]: "DDR_PHY_DX2BDLR3_OFFSET = 0xFD080950"
definition DDR_PHY_DX2BDLR4_OFFSET :: u32 where [ddr]: "DDR_PHY_DX2BDLR4_OFFSET = 0xFD080954"
definition DDR_PHY_DX2BDLR5_OFFSET :: u32 where [ddr]: "DDR_PHY_DX2BDLR5_OFFSET = 0xFD080958"
definition DDR_PHY_DX3BDLR3_OFFSET :: u32 where [ddr]: "DDR_PHY_DX3BDLR3_OFFSET = 0xFD080A50"
definition DDR_PHY_DX3BDLR4_OFFSET :: u32 where [ddr]: "DDR_PHY_DX3BDLR4_OFFSET = 0xFD080A54"
definition DDR_PHY_DX3BDLR5_OFFSET :: u32 where [ddr]: "DDR_PHY_DX3BDLR5_OFFSET = 0xFD080A58"
definition DDR_PHY_DX4BDLR3_OFFSET :: u32 where [ddr]: "DDR_PHY_DX4BDLR3_OFFSET = 0xFD080B50"
definition DDR_PHY_DX4BDLR4_OFFSET :: u32 where [ddr]: "DDR_PHY_DX4BDLR4_OFFSET = 0xFD080B54"
definition DDR_PHY_DX4BDLR5_OFFSET :: u32 where [ddr]: "DDR_PHY_DX4BDLR5_OFFSET = 0xFD080B58"
definition DDR_PHY_DX5BDLR3_OFFSET :: u32 where [ddr]: "DDR_PHY_DX5BDLR3_OFFSET = 0xFD080C50"
definition DDR_PHY_DX5BDLR4_OFFSET :: u32 where [ddr]: "DDR_PHY_DX5BDLR4_OFFSET = 0xFD080C54"
definition DDR_PHY_DX5BDLR5_OFFSET :: u32 where [ddr]: "DDR_PHY_DX5BDLR5_OFFSET = 0xFD080C58"
definition DDR_PHY_DX6BDLR3_OFFSET :: u32 where [ddr]: "DDR_PHY_DX6BDLR3_OFFSET = 0xFD080D50"
definition DDR_PHY_DX6BDLR4_OFFSET :: u32 where [ddr]: "DDR_PHY_DX6BDLR4_OFFSET = 0xFD080D54"
definition DDR_PHY_DX6BDLR5_OFFSET :: u32 where [ddr]: "DDR_PHY_DX6BDLR5_OFFSET = 0xFD080D58"
definition DDR_PHY_DX7BDLR3_OFFSET :: u32 where [ddr]: "DDR_PHY_DX7BDLR3_OFFSET = 0xFD080E50"
definition DDR_PHY_DX7BDLR4_OFFSET :: u32 where [ddr]: "DDR_PHY_DX7BDLR4_OFFSET = 0xFD080E54"
definition DDR_PHY_DX7BDLR5_OFFSET :: u32 where [ddr]: "DDR_PHY_DX7BDLR5_OFFSET = 0xFD080E58"
definition DDR_PHY_DX8BDLR3_OFFSET :: u32 where [ddr]: "DDR_PHY_DX8BDLR3_OFFSET = 0xFD080F50"
definition DDR_PHY_DX8BDLR4_OFFSET :: u32 where [ddr]: "DDR_PHY_DX8BDLR4_OFFSET = 0xFD080F54"
definition DDR_PHY_DX8BDLR5_OFFSET :: u32 where [ddr]: "DDR_PHY_DX8BDLR5_OFFSET = 0xFD080F58"
definition DDR_QOS_CTRL_DDRPHY_CTRL_OFFSET :: u32 where [ddr]: "DDR_QOS_CTRL_DDRPHY_CTRL_OFFSET = 0xFD090708"
definition DDR_QOS_CTRL_DDR_CLK_CTRL_OFFSET :: u32 where [ddr]: "DDR_QOS_CTRL_DDR_CLK_CTRL_OFFSET = 0xFD090700"
definition DDR_PHY_PIR_INIT_SHIFT :: u32 where [ddr]: "DDR_PHY_PIR_INIT_SHIFT = 0"
definition DDR_PHY_PIR_INIT_MASK :: u32 where [ddr]: "DDR_PHY_PIR_INIT_MASK = 0x00000001"
definition DDR_PHY_PIR_DCALPSE_SHIFT :: u32 where [ddr]: "DDR_PHY_PIR_DCALPSE_SHIFT = 29"
definition DDR_PHY_PIR_DCALPSE_MASK :: u32 where [ddr]: "DDR_PHY_PIR_DCALPSE_MASK = 0x20000000"
definition DDR_PHY_PIR_CTLDINIT_SHIFT :: u32 where [ddr]: "DDR_PHY_PIR_CTLDINIT_SHIFT = 18"
definition DDR_PHY_PIR_CTLDINIT_MASK :: u32 where [ddr]: "DDR_PHY_PIR_CTLDINIT_MASK = 0x00040000"
definition DDR_PHY_PIR_PHYRST_SHIFT :: u32 where [ddr]: "DDR_PHY_PIR_PHYRST_SHIFT = 6"
definition DDR_PHY_PIR_PHYRST_MASK :: u32 where [ddr]: "DDR_PHY_PIR_PHYRST_MASK = 0x00000040"
definition DDR_PHY_PIR_DCAL_SHIFT :: u32 where [ddr]: "DDR_PHY_PIR_DCAL_SHIFT = 5"
definition DDR_PHY_PIR_DCAL_MASK :: u32 where [ddr]: "DDR_PHY_PIR_DCAL_MASK = 0x00000020"
definition DDR_PHY_PIR_PLLINIT_SHIFT :: u32 where [ddr]: "DDR_PHY_PIR_PLLINIT_SHIFT = 4"
definition DDR_PHY_PIR_PLLINIT_MASK :: u32 where [ddr]: "DDR_PHY_PIR_PLLINIT_MASK = 0x00000010"
definition DDR_PHY_PGCR1_PUBMODE_SHIFT :: u32 where [ddr]: "DDR_PHY_PGCR1_PUBMODE_SHIFT = 6"
definition DDR_PHY_PGCR1_PUBMODE_MASK :: u32 where [ddr]: "DDR_PHY_PGCR1_PUBMODE_MASK = 0x00000040"
definition DDR_PHY_PGCR1_PHYHRST_SHIFT :: u32 where [ddr]: "DDR_PHY_PGCR1_PHYHRST_SHIFT = 25"
definition DDR_PHY_PGCR1_PHYHRST_MASK :: u32 where [ddr]: "DDR_PHY_PGCR1_PHYHRST_MASK = 0x02000000"
definition DDR_PHY_SCHCR0_SP_CMD_SHIFT :: u32 where [ddr]: "DDR_PHY_SCHCR0_SP_CMD_SHIFT = 8"
definition DDR_PHY_SCHCR0_SP_CMD_MASK :: u32 where [ddr]: "DDR_PHY_SCHCR0_SP_CMD_MASK = 0x00000F00"
definition DDR_PHY_SCHCR0_CMD_SHIFT :: u32 where [ddr]: "DDR_PHY_SCHCR0_CMD_SHIFT = 4"
definition DDR_PHY_SCHCR0_CMD_MASK :: u32 where [ddr]: "DDR_PHY_SCHCR0_CMD_MASK = 0x000000F0"
definition DDR_PHY_SCHCR0_SCHTRIG_SHIFT :: u32 where [ddr]: "DDR_PHY_SCHCR0_SCHTRIG_SHIFT = 0"
definition DDR_PHY_SCHCR0_SCHTRIG_MASK :: u32 where [ddr]: "DDR_PHY_SCHCR0_SCHTRIG_MASK = 0x0000000F"
definition DDR_PHY_SCHCR1_ALLRANK_SHIFT :: u32 where [ddr]: "DDR_PHY_SCHCR1_ALLRANK_SHIFT = 2"
definition DDR_PHY_SCHCR1_ALLRANK_MASK :: u32 where [ddr]: "DDR_PHY_SCHCR1_ALLRANK_MASK = 0x00000004"
definition DDR_PHY_RANKIDR_RANKWID_SHIFT :: u32 where [ddr]: "DDR_PHY_RANKIDR_RANKWID_SHIFT = 0"
definition DDR_PHY_RANKIDR_RANKWID_MASK :: u32 where [ddr]: "DDR_PHY_RANKIDR_RANKWID_MASK = 0x0000000F"
definition DDR_PHY_PGCR6_INHVT_SHIFT :: u32 where [ddr]: "DDR_PHY_PGCR6_INHVT_SHIFT = 0"
definition DDR_PHY_PGCR6_INHVT_MASK :: u32 where [ddr]: "DDR_PHY_PGCR6_INHVT_MASK = 0x00000001"
definition DDR_PHY_ODTCR_WRODT_SHIFT :: u32 where [ddr]: "DDR_PHY_ODTCR_WRODT_SHIFT = 16"
definition DDR_PHY_ODTCR_WRODT_MASK :: u32 where [ddr]: "DDR_PHY_ODTCR_WRODT_MASK = 0x00030000"
definition DDR_PHY_DTCR0_INCWEYE_SHIFT :: u32 where [ddr]: "DDR_PHY_DTCR0_INCWEYE_SHIFT = 4"
definition DDR_PHY_DTCR0_INCWEYE_MASK :: u32 where [ddr]: "DDR_PHY_DTCR0_INCWEYE_MASK = 0x00000010"
definition DDR_PHY_DQSDR1_DFTRDIDLC_SHIFT :: u32 where [ddr]: "DDR_PHY_DQSDR1_DFTRDIDLC_SHIFT = 0"
definition DDR_PHY_DQSDR1_DFTRDIDLC_MASK :: u32 where [ddr]: "DDR_PHY_DQSDR1_DFTRDIDLC_MASK = 0x000000FF"
definition DDR_PHY_DQSDR1_DFTRDIDLF_SHIFT :: u32 where [ddr]: "DDR_PHY_DQSDR1_DFTRDIDLF_SHIFT = 16"
definition DDR_PHY_DQSDR1_DFTRDIDLF_MASK :: u32 where [ddr]: "DDR_PHY_DQSDR1_DFTRDIDLF_MASK = 0x000F0000"
definition DDR_PHY_DXBDLR_DQ0RBD_SHIFT :: u32 where [ddr]: "DDR_PHY_DXBDLR_DQ0RBD_SHIFT = 0"
definition DDR_PHY_DXBDLR_DQ0RBD_MASK :: u32 where [ddr]: "DDR_PHY_DXBDLR_DQ0RBD_MASK = 0x0000003F"
definition DDR_PHY_DXBDLR_DQ1RBD_SHIFT :: u32 where [ddr]: "DDR_PHY_DXBDLR_DQ1RBD_SHIFT = 8"
definition DDR_PHY_DXBDLR_DQ1RBD_MASK :: u32 where [ddr]: "DDR_PHY_DXBDLR_DQ1RBD_MASK = 0x00003F00"
definition DDR_PHY_DXBDLR_DQ2RBD_SHIFT :: u32 where [ddr]: "DDR_PHY_DXBDLR_DQ2RBD_SHIFT = 16"
definition DDR_PHY_DXBDLR_DQ2RBD_MASK :: u32 where [ddr]: "DDR_PHY_DXBDLR_DQ2RBD_MASK = 0x003F0000"
definition DDR_PHY_DXBDLR_DQ3RBD_SHIFT :: u32 where [ddr]: "DDR_PHY_DXBDLR_DQ3RBD_SHIFT = 24"
definition DDR_PHY_DXBDLR_DQ3RBD_MASK :: u32 where [ddr]: "DDR_PHY_DXBDLR_DQ3RBD_MASK = 0x3F000000"
definition DDR_PHY_DXBDLR5_DMRBD_MASK :: u32 where [ddr]: "DDR_PHY_DXBDLR5_DMRBD_MASK = 0x0000003F"
definition DDR_QOS_CTRL_DDRPHY_CTRL_BYP_MODE_SHIFT :: u32 where [ddr]: "DDR_QOS_CTRL_DDRPHY_CTRL_BYP_MODE_SHIFT = 0"
definition DDR_QOS_CTRL_DDRPHY_CTRL_BYP_MODE_MASK :: u32 where [ddr]: "DDR_QOS_CTRL_DDRPHY_CTRL_BYP_MODE_MASK = 0x00000001"
definition DDR_QOS_CTRL_DDR_CLK_CTRL_CLKACT_SHIFT :: u32 where [ddr]: "DDR_QOS_CTRL_DDR_CLK_CTRL_CLKACT_SHIFT = 0"
definition DDR_QOS_CTRL_DDR_CLK_CTRL_CLKACT_MASK :: u32 where [ddr]: "DDR_QOS_CTRL_DDR_CLK_CTRL_CLKACT_MASK = 0x00000001"
definition SPD_MEMTYPE_DDR3 :: u32 where [ddr]: "SPD_MEMTYPE_DDR3 = 0x0B"
definition SPD_MEMTYPE_DDR4 :: u32 where [ddr]: "SPD_MEMTYPE_DDR4 = 0x0C"
definition SPD_MEMTYPE_LPDDR3 :: u32 where [ddr]: "SPD_MEMTYPE_LPDDR3 = 0x0F"
definition SPD_MEMTYPE_LPDDR4 :: u32 where [ddr]: "SPD_MEMTYPE_LPDDR4 = 0x10"
definition DDR3_SPD_MODULETYPE_MASK :: u32 where [ddr]: "DDR3_SPD_MODULETYPE_MASK = 0x0F"
definition DDR3_SPD_MODULETYPE_RDIMM :: u32 where [ddr]: "DDR3_SPD_MODULETYPE_RDIMM = 0x01"
definition DDR3_SPD_MODULETYPE_UDIMM :: u32 where [ddr]: "DDR3_SPD_MODULETYPE_UDIMM = 0x02"
definition DDR3_SPD_MODULETYPE_SO_DIMM :: u32 where [ddr]: "DDR3_SPD_MODULETYPE_SO_DIMM = 0x03"
definition DDR3_SPD_MODULETYPE_MICRO_DIMM :: u32 where [ddr]: "DDR3_SPD_MODULETYPE_MICRO_DIMM = 0x04"
definition DDR3_SPD_MODULETYPE_MINI_RDIMM :: u32 where [ddr]: "DDR3_SPD_MODULETYPE_MINI_RDIMM = 0x05"
definition DDR3_SPD_MODULETYPE_MINI_UDIMM :: u32 where [ddr]: "DDR3_SPD_MODULETYPE_MINI_UDIMM = 0x06"
definition DDR3_SPD_MODULETYPE_MINI_CDIMM :: u32 where [ddr]: "DDR3_SPD_MODULETYPE_MINI_CDIMM = 0x07"
definition DDR3_SPD_MODULETYPE_72B_SO_UDIMM :: u32 where [ddr]: "DDR3_SPD_MODULETYPE_72B_SO_UDIMM = 0x08"
definition DDR3_SPD_MODULETYPE_72B_SO_RDIMM :: u32 where [ddr]: "DDR3_SPD_MODULETYPE_72B_SO_RDIMM = 0x09"
definition DDR3_SPD_MODULETYPE_72B_SO_CDIMM :: u32 where [ddr]: "DDR3_SPD_MODULETYPE_72B_SO_CDIMM = 0x0A"
definition DDR3_SPD_MODULETYPE_LRDIMM :: u32 where [ddr]: "DDR3_SPD_MODULETYPE_LRDIMM = 0x0B"
definition DDR3_SPD_MODULETYPE_16B_SO_DIMM :: u32 where [ddr]: "DDR3_SPD_MODULETYPE_16B_SO_DIMM = 0x0C"
definition DDR3_SPD_MODULETYPE_32B_SO_DIMM :: u32 where [ddr]: "DDR3_SPD_MODULETYPE_32B_SO_DIMM = 0x0D"
definition DDR4_SPD_MODULETYPE_MASK :: u32 where [ddr]: "DDR4_SPD_MODULETYPE_MASK = 0x0F"
definition DDR4_SPD_MODULETYPE_RDIMM :: u32 where [ddr]: "DDR4_SPD_MODULETYPE_RDIMM = 0x01"
definition DDR4_SPD_MODULETYPE_UDIMM :: u32 where [ddr]: "DDR4_SPD_MODULETYPE_UDIMM = 0x02"
definition DDR4_SPD_MODULETYPE_SO_DIMM :: u32 where [ddr]: "DDR4_SPD_MODULETYPE_SO_DIMM = 0x03"
definition DDR4_SPD_MODULETYPE_72B_SO_RDIMM :: u32 where [ddr]: "DDR4_SPD_MODULETYPE_72B_SO_RDIMM = 0x08"
definition DDR4_SPD_MODULETYPE_72B_SO_UDIMM :: u32 where [ddr]: "DDR4_SPD_MODULETYPE_72B_SO_UDIMM = 0x09"

section \<open>Constants of the implementation (\<open>xfsbl_ddr_init.c\<close>)\<close>

definition XFSBL_IIC_SCLK_RATE :: u32 where [ddr]: "XFSBL_IIC_SCLK_RATE = 100000"
definition XFSBL_MUX_ADDR :: u32 where [ddr]: "XFSBL_MUX_ADDR = 0x75"
definition XFSBL_SODIMM_SLAVE_ADDR :: u32 where [ddr]: "XFSBL_SODIMM_SLAVE_ADDR = 0x51"
definition XFSBL_SODIMM_CONTROL_ADDR_LOW :: u32 where [ddr]: "XFSBL_SODIMM_CONTROL_ADDR_LOW = 0x36"
definition XFSBL_SODIMM_CONTROL_ADDR_HIGH :: u32 where [ddr]: "XFSBL_SODIMM_CONTROL_ADDR_HIGH = 0x37"
definition XFSBL_IIC_BUS_TIMEOUT :: u32 where [ddr]: "XFSBL_IIC_BUS_TIMEOUT = 1000000"
definition XFSBL_DDRC_BASE_ADDR :: u32 where [ddr]: "XFSBL_DDRC_BASE_ADDR = 0xFD070000"
definition XFSBL_DDRPHY_BASE_ADDR :: u32 where [ddr]: "XFSBL_DDRPHY_BASE_ADDR = 0xFD080000"

section \<open>Registers (\<open>psu_init.h\<close>)\<close>

definition CRF_APB_RST_DDR_SS_OFFSET :: u32 where [ddr]: "CRF_APB_RST_DDR_SS_OFFSET = 0xFD1A0108"
definition DDRC_RFSHCTL3_OFFSET :: u32 where [ddr]: "DDRC_RFSHCTL3_OFFSET = 0xFD070060"
definition DDRC_ZQCTL0_OFFSET :: u32 where [ddr]: "DDRC_ZQCTL0_OFFSET = 0xFD070180"
definition DDRC_DFIUPD0_OFFSET :: u32 where [ddr]: "DDRC_DFIUPD0_OFFSET = 0xFD0701A0"
definition DDRC_DFIMISC_OFFSET :: u32 where [ddr]: "DDRC_DFIMISC_OFFSET = 0xFD0701B0"
definition DDRC_SWCTL_OFFSET :: u32 where [ddr]: "DDRC_SWCTL_OFFSET = 0xFD070320"
definition DDR_PHY_PGCR2_OFFSET :: u32 where [ddr]: "DDR_PHY_PGCR2_OFFSET = 0xFD080018"
definition DDR_PHY_PGCR3_OFFSET :: u32 where [ddr]: "DDR_PHY_PGCR3_OFFSET = 0xFD08001C"
definition DDR_PHY_PLLCR0_OFFSET :: u32 where [ddr]: "DDR_PHY_PLLCR0_OFFSET = 0xFD080068"
definition DDR_PHY_DSGCR_OFFSET :: u32 where [ddr]: "DDR_PHY_DSGCR_OFFSET = 0xFD080090"
definition DDR_PHY_GPR1_OFFSET :: u32 where [ddr]: "DDR_PHY_GPR1_OFFSET = 0xFD0800C4"
definition DDR_PHY_DTCR0_OFFSET :: u32 where [ddr]: "DDR_PHY_DTCR0_OFFSET = 0xFD080200"
definition DDR_PHY_DQSDR0_OFFSET :: u32 where [ddr]: "DDR_PHY_DQSDR0_OFFSET = 0xFD080250"
definition DDR_PHY_DX0GCR3_OFFSET :: u32 where [ddr]: "DDR_PHY_DX0GCR3_OFFSET = 0xFD08070C"
definition DDR_PHY_DX1GCR3_OFFSET :: u32 where [ddr]: "DDR_PHY_DX1GCR3_OFFSET = 0xFD08080C"
definition DDR_PHY_DX2GCR3_OFFSET :: u32 where [ddr]: "DDR_PHY_DX2GCR3_OFFSET = 0xFD08090C"
definition DDR_PHY_DX3GCR3_OFFSET :: u32 where [ddr]: "DDR_PHY_DX3GCR3_OFFSET = 0xFD080A0C"
definition DDR_PHY_DX4GCR3_OFFSET :: u32 where [ddr]: "DDR_PHY_DX4GCR3_OFFSET = 0xFD080B0C"
definition DDR_PHY_DX5GCR3_OFFSET :: u32 where [ddr]: "DDR_PHY_DX5GCR3_OFFSET = 0xFD080C0C"
definition DDR_PHY_DX6GCR3_OFFSET :: u32 where [ddr]: "DDR_PHY_DX6GCR3_OFFSET = 0xFD080D0C"
definition DDR_PHY_DX7GCR3_OFFSET :: u32 where [ddr]: "DDR_PHY_DX7GCR3_OFFSET = 0xFD080E0C"
definition DDR_PHY_DX8GCR3_OFFSET :: u32 where [ddr]: "DDR_PHY_DX8GCR3_OFFSET = 0xFD080F0C"
definition DDR_PHY_DX8SL0OSC_OFFSET :: u32 where [ddr]: "DDR_PHY_DX8SL0OSC_OFFSET = 0xFD081400"
definition DDR_PHY_DX8SL0PLLCR0_OFFSET :: u32 where [ddr]: "DDR_PHY_DX8SL0PLLCR0_OFFSET = 0xFD081404"
definition DDR_PHY_DX8SL0DXCTL2_OFFSET :: u32 where [ddr]: "DDR_PHY_DX8SL0DXCTL2_OFFSET = 0xFD08142C"
definition DDR_PHY_DX8SL1OSC_OFFSET :: u32 where [ddr]: "DDR_PHY_DX8SL1OSC_OFFSET = 0xFD081440"
definition DDR_PHY_DX8SL1PLLCR0_OFFSET :: u32 where [ddr]: "DDR_PHY_DX8SL1PLLCR0_OFFSET = 0xFD081444"
definition DDR_PHY_DX8SL1DXCTL2_OFFSET :: u32 where [ddr]: "DDR_PHY_DX8SL1DXCTL2_OFFSET = 0xFD08146C"
definition DDR_PHY_DX8SL2OSC_OFFSET :: u32 where [ddr]: "DDR_PHY_DX8SL2OSC_OFFSET = 0xFD081480"
definition DDR_PHY_DX8SL2PLLCR0_OFFSET :: u32 where [ddr]: "DDR_PHY_DX8SL2PLLCR0_OFFSET = 0xFD081484"
definition DDR_PHY_DX8SL2DXCTL2_OFFSET :: u32 where [ddr]: "DDR_PHY_DX8SL2DXCTL2_OFFSET = 0xFD0814AC"
definition DDR_PHY_DX8SL3OSC_OFFSET :: u32 where [ddr]: "DDR_PHY_DX8SL3OSC_OFFSET = 0xFD0814C0"
definition DDR_PHY_DX8SL3PLLCR0_OFFSET :: u32 where [ddr]: "DDR_PHY_DX8SL3PLLCR0_OFFSET = 0xFD0814C4"
definition DDR_PHY_DX8SL3DXCTL2_OFFSET :: u32 where [ddr]: "DDR_PHY_DX8SL3DXCTL2_OFFSET = 0xFD0814EC"
definition DDR_PHY_DX8SL4OSC_OFFSET :: u32 where [ddr]: "DDR_PHY_DX8SL4OSC_OFFSET = 0xFD081500"
definition DDR_PHY_DX8SL4PLLCR0_OFFSET :: u32 where [ddr]: "DDR_PHY_DX8SL4PLLCR0_OFFSET = 0xFD081504"
definition DDR_PHY_DX8SL4DXCTL2_OFFSET :: u32 where [ddr]: "DDR_PHY_DX8SL4DXCTL2_OFFSET = 0xFD08152C"
definition DDR_PHY_DX8SLBPLLCR0_OFFSET :: u32 where [ddr]: "DDR_PHY_DX8SLBPLLCR0_OFFSET = 0xFD0817C4"
definition DDRC_RFSHCTL3_DIS_AUTO_REFRESH_SHIFT :: u32 where [ddr]: "DDRC_RFSHCTL3_DIS_AUTO_REFRESH_SHIFT = 0"
definition DDRC_RFSHCTL3_DIS_AUTO_REFRESH_MASK :: u32 where [ddr]: "DDRC_RFSHCTL3_DIS_AUTO_REFRESH_MASK = 0x00000001"
definition DDRC_ZQCTL0_DIS_AUTO_ZQ_SHIFT :: u32 where [ddr]: "DDRC_ZQCTL0_DIS_AUTO_ZQ_SHIFT = 31"
definition DDRC_ZQCTL0_DIS_AUTO_ZQ_MASK :: u32 where [ddr]: "DDRC_ZQCTL0_DIS_AUTO_ZQ_MASK = 0x80000000"
definition DDRC_DFIUPD0_DIS_AUTO_CTRLUPD_SHIFT :: u32 where [ddr]: "DDRC_DFIUPD0_DIS_AUTO_CTRLUPD_SHIFT = 31"
definition DDRC_DFIUPD0_DIS_AUTO_CTRLUPD_MASK :: u32 where [ddr]: "DDRC_DFIUPD0_DIS_AUTO_CTRLUPD_MASK = 0x80000000"
definition DDRC_DFIMISC_DFI_INIT_COMPLETE_EN_SHIFT :: u32 where [ddr]: "DDRC_DFIMISC_DFI_INIT_COMPLETE_EN_SHIFT = 0"
definition DDRC_DFIMISC_DFI_INIT_COMPLETE_EN_MASK :: u32 where [ddr]: "DDRC_DFIMISC_DFI_INIT_COMPLETE_EN_MASK = 0x00000001"
definition DDRC_SWCTL_SW_DONE_SHIFT :: u32 where [ddr]: "DDRC_SWCTL_SW_DONE_SHIFT = 0"
definition DDRC_SWCTL_SW_DONE_MASK :: u32 where [ddr]: "DDRC_SWCTL_SW_DONE_MASK = 0x00000001"
definition DDR_PHY_PGCR2_TREFPRD_SHIFT :: u32 where [ddr]: "DDR_PHY_PGCR2_TREFPRD_SHIFT = 0"
definition DDR_PHY_PGCR2_TREFPRD_MASK :: u32 where [ddr]: "DDR_PHY_PGCR2_TREFPRD_MASK = 0x0003FFFF"
definition DDR_PHY_PGCR3_RDMODE_SHIFT :: u32 where [ddr]: "DDR_PHY_PGCR3_RDMODE_SHIFT = 3"
definition DDR_PHY_PGCR3_RDMODE_MASK :: u32 where [ddr]: "DDR_PHY_PGCR3_RDMODE_MASK = 0x00000018"
definition DDR_PHY_PLLCR0_PLLBYP_SHIFT :: u32 where [ddr]: "DDR_PHY_PLLCR0_PLLBYP_SHIFT = 31"
definition DDR_PHY_PLLCR0_PLLBYP_MASK :: u32 where [ddr]: "DDR_PHY_PLLCR0_PLLBYP_MASK = 0x80000000"
definition DDR_PHY_PLLCR0_PLLRST_SHIFT :: u32 where [ddr]: "DDR_PHY_PLLCR0_PLLRST_SHIFT = 30"
definition DDR_PHY_PLLCR0_PLLRST_MASK :: u32 where [ddr]: "DDR_PHY_PLLCR0_PLLRST_MASK = 0x40000000"
definition DDR_PHY_DSGCR_PUAD_SHIFT :: u32 where [ddr]: "DDR_PHY_DSGCR_PUAD_SHIFT = 6"
definition DDR_PHY_DSGCR_PUAD_MASK :: u32 where [ddr]: "DDR_PHY_DSGCR_PUAD_MASK = 0x00000FC0"
definition DDR_PHY_DSGCR_CTLZUEN_SHIFT :: u32 where [ddr]: "DDR_PHY_DSGCR_CTLZUEN_SHIFT = 2"
definition DDR_PHY_DSGCR_CTLZUEN_MASK :: u32 where [ddr]: "DDR_PHY_DSGCR_CTLZUEN_MASK = 0x00000004"
definition DDR_PHY_DQSDR0_DFTDLY_SHIFT :: u32 where [ddr]: "DDR_PHY_DQSDR0_DFTDLY_SHIFT = 28"
definition DDR_PHY_DQSDR0_DFTDLY_MASK :: u32 where [ddr]: "DDR_PHY_DQSDR0_DFTDLY_MASK = 0xF0000000"
definition DDR_PHY_DQSDR0_DFTRDSPC_SHIFT :: u32 where [ddr]: "DDR_PHY_DQSDR0_DFTRDSPC_SHIFT = 20"
definition DDR_PHY_DQSDR0_DFTRDSPC_MASK :: u32 where [ddr]: "DDR_PHY_DQSDR0_DFTRDSPC_MASK = 0x00300000"
definition DDR_PHY_DQSDR0_DFTGPULSE_SHIFT :: u32 where [ddr]: "DDR_PHY_DQSDR0_DFTGPULSE_SHIFT = 4"
definition DDR_PHY_DQSDR0_DFTGPULSE_MASK :: u32 where [ddr]: "DDR_PHY_DQSDR0_DFTGPULSE_MASK = 0x000000F0"
definition DDR_PHY_DQSDR0_DFTUPMODE_SHIFT :: u32 where [ddr]: "DDR_PHY_DQSDR0_DFTUPMODE_SHIFT = 2"
definition DDR_PHY_DQSDR0_DFTUPMODE_MASK :: u32 where [ddr]: "DDR_PHY_DQSDR0_DFTUPMODE_MASK = 0x0000000C"
definition DDR_PHY_DQSDR0_DFTDTMODE_SHIFT :: u32 where [ddr]: "DDR_PHY_DQSDR0_DFTDTMODE_SHIFT = 1"
definition DDR_PHY_DQSDR0_DFTDTMODE_MASK :: u32 where [ddr]: "DDR_PHY_DQSDR0_DFTDTMODE_MASK = 0x00000002"
definition DDR_PHY_DQSDR0_DFTDTEN_SHIFT :: u32 where [ddr]: "DDR_PHY_DQSDR0_DFTDTEN_SHIFT = 0"
definition DDR_PHY_DQSDR0_DFTDTEN_MASK :: u32 where [ddr]: "DDR_PHY_DQSDR0_DFTDTEN_MASK = 0x00000001"
definition DDR_PHY_DX0GCR3_RGLVT_SHIFT :: u32 where [ddr]: "DDR_PHY_DX0GCR3_RGLVT_SHIFT = 27"
definition DDR_PHY_DX0GCR3_RGLVT_MASK :: u32 where [ddr]: "DDR_PHY_DX0GCR3_RGLVT_MASK = 0x08000000"
definition DDR_PHY_DX0GCR3_WDLVT_SHIFT :: u32 where [ddr]: "DDR_PHY_DX0GCR3_WDLVT_SHIFT = 25"
definition DDR_PHY_DX0GCR3_WDLVT_MASK :: u32 where [ddr]: "DDR_PHY_DX0GCR3_WDLVT_MASK = 0x02000000"
definition DDR_PHY_DX1GCR3_RGLVT_SHIFT :: u32 where [ddr]: "DDR_PHY_DX1GCR3_RGLVT_SHIFT = 27"
definition DDR_PHY_DX1GCR3_RGLVT_MASK :: u32 where [ddr]: "DDR_PHY_DX1GCR3_RGLVT_MASK = 0x08000000"
definition DDR_PHY_DX1GCR3_WDLVT_SHIFT :: u32 where [ddr]: "DDR_PHY_DX1GCR3_WDLVT_SHIFT = 25"
definition DDR_PHY_DX1GCR3_WDLVT_MASK :: u32 where [ddr]: "DDR_PHY_DX1GCR3_WDLVT_MASK = 0x02000000"
definition DDR_PHY_DX2GCR3_RGLVT_SHIFT :: u32 where [ddr]: "DDR_PHY_DX2GCR3_RGLVT_SHIFT = 27"
definition DDR_PHY_DX2GCR3_RGLVT_MASK :: u32 where [ddr]: "DDR_PHY_DX2GCR3_RGLVT_MASK = 0x08000000"
definition DDR_PHY_DX2GCR3_WDLVT_SHIFT :: u32 where [ddr]: "DDR_PHY_DX2GCR3_WDLVT_SHIFT = 25"
definition DDR_PHY_DX2GCR3_WDLVT_MASK :: u32 where [ddr]: "DDR_PHY_DX2GCR3_WDLVT_MASK = 0x02000000"
definition DDR_PHY_DX3GCR3_RGLVT_SHIFT :: u32 where [ddr]: "DDR_PHY_DX3GCR3_RGLVT_SHIFT = 27"
definition DDR_PHY_DX3GCR3_RGLVT_MASK :: u32 where [ddr]: "DDR_PHY_DX3GCR3_RGLVT_MASK = 0x08000000"
definition DDR_PHY_DX3GCR3_WDLVT_SHIFT :: u32 where [ddr]: "DDR_PHY_DX3GCR3_WDLVT_SHIFT = 25"
definition DDR_PHY_DX3GCR3_WDLVT_MASK :: u32 where [ddr]: "DDR_PHY_DX3GCR3_WDLVT_MASK = 0x02000000"
definition DDR_PHY_DX4GCR3_RGLVT_SHIFT :: u32 where [ddr]: "DDR_PHY_DX4GCR3_RGLVT_SHIFT = 27"
definition DDR_PHY_DX4GCR3_RGLVT_MASK :: u32 where [ddr]: "DDR_PHY_DX4GCR3_RGLVT_MASK = 0x08000000"
definition DDR_PHY_DX5GCR3_RGLVT_SHIFT :: u32 where [ddr]: "DDR_PHY_DX5GCR3_RGLVT_SHIFT = 27"
definition DDR_PHY_DX5GCR3_RGLVT_MASK :: u32 where [ddr]: "DDR_PHY_DX5GCR3_RGLVT_MASK = 0x08000000"
definition DDR_PHY_DX6GCR3_RGLVT_SHIFT :: u32 where [ddr]: "DDR_PHY_DX6GCR3_RGLVT_SHIFT = 27"
definition DDR_PHY_DX6GCR3_RGLVT_MASK :: u32 where [ddr]: "DDR_PHY_DX6GCR3_RGLVT_MASK = 0x08000000"
definition DDR_PHY_DX7GCR3_RGLVT_SHIFT :: u32 where [ddr]: "DDR_PHY_DX7GCR3_RGLVT_SHIFT = 27"
definition DDR_PHY_DX7GCR3_RGLVT_MASK :: u32 where [ddr]: "DDR_PHY_DX7GCR3_RGLVT_MASK = 0x08000000"
definition DDR_PHY_DX8GCR3_RGLVT_SHIFT :: u32 where [ddr]: "DDR_PHY_DX8GCR3_RGLVT_SHIFT = 27"
definition DDR_PHY_DX8GCR3_RGLVT_MASK :: u32 where [ddr]: "DDR_PHY_DX8GCR3_RGLVT_MASK = 0x08000000"
definition DDR_PHY_DX8GCR3_WDLVT_SHIFT :: u32 where [ddr]: "DDR_PHY_DX8GCR3_WDLVT_SHIFT = 25"
definition DDR_PHY_DX8GCR3_WDLVT_MASK :: u32 where [ddr]: "DDR_PHY_DX8GCR3_WDLVT_MASK = 0x02000000"
definition DDR_PHY_DX8SL0OSC_PHYHRST_SHIFT :: u32 where [ddr]: "DDR_PHY_DX8SL0OSC_PHYHRST_SHIFT = 16"
definition DDR_PHY_DX8SL0OSC_PHYHRST_MASK :: u32 where [ddr]: "DDR_PHY_DX8SL0OSC_PHYHRST_MASK = 0x00010000"
definition DDR_PHY_DX8SL0PLLCR0_PLLBYP_SHIFT :: u32 where [ddr]: "DDR_PHY_DX8SL0PLLCR0_PLLBYP_SHIFT = 31"
definition DDR_PHY_DX8SL0PLLCR0_PLLBYP_MASK :: u32 where [ddr]: "DDR_PHY_DX8SL0PLLCR0_PLLBYP_MASK = 0x80000000"
definition DDR_PHY_DX8SL0PLLCR0_PLLRST_SHIFT :: u32 where [ddr]: "DDR_PHY_DX8SL0PLLCR0_PLLRST_SHIFT = 30"
definition DDR_PHY_DX8SL0PLLCR0_PLLRST_MASK :: u32 where [ddr]: "DDR_PHY_DX8SL0PLLCR0_PLLRST_MASK = 0x40000000"
definition DDR_PHY_DX8SL0DXCTL2_RDMODE_SHIFT :: u32 where [ddr]: "DDR_PHY_DX8SL0DXCTL2_RDMODE_SHIFT = 4"
definition DDR_PHY_DX8SL0DXCTL2_RDMODE_MASK :: u32 where [ddr]: "DDR_PHY_DX8SL0DXCTL2_RDMODE_MASK = 0x00000030"
definition DDR_PHY_DX8SL1OSC_PHYHRST_SHIFT :: u32 where [ddr]: "DDR_PHY_DX8SL1OSC_PHYHRST_SHIFT = 16"
definition DDR_PHY_DX8SL1OSC_PHYHRST_MASK :: u32 where [ddr]: "DDR_PHY_DX8SL1OSC_PHYHRST_MASK = 0x00010000"
definition DDR_PHY_DX8SL1PLLCR0_PLLBYP_SHIFT :: u32 where [ddr]: "DDR_PHY_DX8SL1PLLCR0_PLLBYP_SHIFT = 31"
definition DDR_PHY_DX8SL1PLLCR0_PLLBYP_MASK :: u32 where [ddr]: "DDR_PHY_DX8SL1PLLCR0_PLLBYP_MASK = 0x80000000"
definition DDR_PHY_DX8SL1PLLCR0_PLLRST_SHIFT :: u32 where [ddr]: "DDR_PHY_DX8SL1PLLCR0_PLLRST_SHIFT = 30"
definition DDR_PHY_DX8SL1PLLCR0_PLLRST_MASK :: u32 where [ddr]: "DDR_PHY_DX8SL1PLLCR0_PLLRST_MASK = 0x40000000"
definition DDR_PHY_DX8SL1DXCTL2_RDMODE_SHIFT :: u32 where [ddr]: "DDR_PHY_DX8SL1DXCTL2_RDMODE_SHIFT = 4"
definition DDR_PHY_DX8SL1DXCTL2_RDMODE_MASK :: u32 where [ddr]: "DDR_PHY_DX8SL1DXCTL2_RDMODE_MASK = 0x00000030"
definition DDR_PHY_DX8SL2OSC_PHYHRST_SHIFT :: u32 where [ddr]: "DDR_PHY_DX8SL2OSC_PHYHRST_SHIFT = 16"
definition DDR_PHY_DX8SL2OSC_PHYHRST_MASK :: u32 where [ddr]: "DDR_PHY_DX8SL2OSC_PHYHRST_MASK = 0x00010000"
definition DDR_PHY_DX8SL2PLLCR0_PLLBYP_SHIFT :: u32 where [ddr]: "DDR_PHY_DX8SL2PLLCR0_PLLBYP_SHIFT = 31"
definition DDR_PHY_DX8SL2PLLCR0_PLLBYP_MASK :: u32 where [ddr]: "DDR_PHY_DX8SL2PLLCR0_PLLBYP_MASK = 0x80000000"
definition DDR_PHY_DX8SL2PLLCR0_PLLRST_SHIFT :: u32 where [ddr]: "DDR_PHY_DX8SL2PLLCR0_PLLRST_SHIFT = 30"
definition DDR_PHY_DX8SL2PLLCR0_PLLRST_MASK :: u32 where [ddr]: "DDR_PHY_DX8SL2PLLCR0_PLLRST_MASK = 0x40000000"
definition DDR_PHY_DX8SL2DXCTL2_RDMODE_SHIFT :: u32 where [ddr]: "DDR_PHY_DX8SL2DXCTL2_RDMODE_SHIFT = 4"
definition DDR_PHY_DX8SL2DXCTL2_RDMODE_MASK :: u32 where [ddr]: "DDR_PHY_DX8SL2DXCTL2_RDMODE_MASK = 0x00000030"
definition DDR_PHY_DX8SL3OSC_PHYHRST_SHIFT :: u32 where [ddr]: "DDR_PHY_DX8SL3OSC_PHYHRST_SHIFT = 16"
definition DDR_PHY_DX8SL3OSC_PHYHRST_MASK :: u32 where [ddr]: "DDR_PHY_DX8SL3OSC_PHYHRST_MASK = 0x00010000"
definition DDR_PHY_DX8SL3PLLCR0_PLLBYP_SHIFT :: u32 where [ddr]: "DDR_PHY_DX8SL3PLLCR0_PLLBYP_SHIFT = 31"
definition DDR_PHY_DX8SL3PLLCR0_PLLBYP_MASK :: u32 where [ddr]: "DDR_PHY_DX8SL3PLLCR0_PLLBYP_MASK = 0x80000000"
definition DDR_PHY_DX8SL3PLLCR0_PLLRST_SHIFT :: u32 where [ddr]: "DDR_PHY_DX8SL3PLLCR0_PLLRST_SHIFT = 30"
definition DDR_PHY_DX8SL3PLLCR0_PLLRST_MASK :: u32 where [ddr]: "DDR_PHY_DX8SL3PLLCR0_PLLRST_MASK = 0x40000000"
definition DDR_PHY_DX8SL3DXCTL2_RDMODE_SHIFT :: u32 where [ddr]: "DDR_PHY_DX8SL3DXCTL2_RDMODE_SHIFT = 4"
definition DDR_PHY_DX8SL3DXCTL2_RDMODE_MASK :: u32 where [ddr]: "DDR_PHY_DX8SL3DXCTL2_RDMODE_MASK = 0x00000030"
definition DDR_PHY_DX8SL4OSC_PHYHRST_SHIFT :: u32 where [ddr]: "DDR_PHY_DX8SL4OSC_PHYHRST_SHIFT = 16"
definition DDR_PHY_DX8SL4OSC_PHYHRST_MASK :: u32 where [ddr]: "DDR_PHY_DX8SL4OSC_PHYHRST_MASK = 0x00010000"
definition DDR_PHY_DX8SL4PLLCR0_PLLBYP_SHIFT :: u32 where [ddr]: "DDR_PHY_DX8SL4PLLCR0_PLLBYP_SHIFT = 31"
definition DDR_PHY_DX8SL4PLLCR0_PLLBYP_MASK :: u32 where [ddr]: "DDR_PHY_DX8SL4PLLCR0_PLLBYP_MASK = 0x80000000"
definition DDR_PHY_DX8SL4PLLCR0_PLLRST_SHIFT :: u32 where [ddr]: "DDR_PHY_DX8SL4PLLCR0_PLLRST_SHIFT = 30"
definition DDR_PHY_DX8SL4PLLCR0_PLLRST_MASK :: u32 where [ddr]: "DDR_PHY_DX8SL4PLLCR0_PLLRST_MASK = 0x40000000"
definition DDR_PHY_DX8SL4DXCTL2_RDMODE_SHIFT :: u32 where [ddr]: "DDR_PHY_DX8SL4DXCTL2_RDMODE_SHIFT = 4"
definition DDR_PHY_DX8SL4DXCTL2_RDMODE_MASK :: u32 where [ddr]: "DDR_PHY_DX8SL4DXCTL2_RDMODE_MASK = 0x00000030"

section \<open>Indices of the configuration arrays\<close>

definition DDR_DEVICE_CONFIG :: nat where [ddr_index]: "DDR_DEVICE_CONFIG = 0"
definition DDR_FREQUENCY_MODE :: nat where [ddr_index]: "DDR_FREQUENCY_MODE = 1"
definition DDR_ACTIVE_RANKS :: nat where [ddr_index]: "DDR_ACTIVE_RANKS = 2"
definition DDR_BURST_RDWR :: nat where [ddr_index]: "DDR_BURST_RDWR = 3"
definition DDR_DLL_OFF_MODE :: nat where [ddr_index]: "DDR_DLL_OFF_MODE = 4"
definition DDR_DATA_BUS_WIDTH :: nat where [ddr_index]: "DDR_DATA_BUS_WIDTH = 5"
definition DDR_GEARDOWN_MODE :: nat where [ddr_index]: "DDR_GEARDOWN_MODE = 6"
definition DDR_EN_2T_TIMING_MODE :: nat where [ddr_index]: "DDR_EN_2T_TIMING_MODE = 7"
definition DDR_BURSTCHOP :: nat where [ddr_index]: "DDR_BURSTCHOP = 8"
definition DDR_LPDDR4 :: nat where [ddr_index]: "DDR_LPDDR4 = 9"
definition DDR_DDR4 :: nat where [ddr_index]: "DDR_DDR4 = 10"
definition DDR_LPDDR3 :: nat where [ddr_index]: "DDR_LPDDR3 = 11"
definition DDR_LPDDR2 :: nat where [ddr_index]: "DDR_LPDDR2 = 12"
definition DDR_DDR3 :: nat where [ddr_index]: "DDR_DDR3 = 13"
definition DDR_MR_WR :: nat where [ddr_index]: "DDR_MR_WR = 14"
definition DDR_MR_ADDR :: nat where [ddr_index]: "DDR_MR_ADDR = 15"
definition DDR_MR_RANK :: nat where [ddr_index]: "DDR_MR_RANK = 16"
definition DDR_PDA_EN :: nat where [ddr_index]: "DDR_PDA_EN = 18"
definition DDR_MPR_EN :: nat where [ddr_index]: "DDR_MPR_EN = 19"
definition DDR_MR_TYPE :: nat where [ddr_index]: "DDR_MR_TYPE = 20"
definition DDR_RC_DERATE_VALUE :: nat where [ddr_index]: "DDR_RC_DERATE_VALUE = 21"
definition DDR_DERATE_BYTE :: nat where [ddr_index]: "DDR_DERATE_BYTE = 22"
definition DDR_DERATE_VALUE :: nat where [ddr_index]: "DDR_DERATE_VALUE = 23"
definition DDR_DERATE_ENABLE :: nat where [ddr_index]: "DDR_DERATE_ENABLE = 24"
definition DDR_MR4_READ_INTERVAL :: nat where [ddr_index]: "DDR_MR4_READ_INTERVAL = 25"
definition DDR_STAY_IN_SELFREF :: nat where [ddr_index]: "DDR_STAY_IN_SELFREF = 26"
definition DDR_SELFREF_SW :: nat where [ddr_index]: "DDR_SELFREF_SW = 27"
definition DDR_MPSM_EN :: nat where [ddr_index]: "DDR_MPSM_EN = 28"
definition DDR_EN_DFI_DRAM_CLK_DISABLE :: nat where [ddr_index]: "DDR_EN_DFI_DRAM_CLK_DISABLE = 29"
definition DDR_DEEPPOWERDOWN_EN :: nat where [ddr_index]: "DDR_DEEPPOWERDOWN_EN = 30"
definition DDR_POWERDOWN_EN :: nat where [ddr_index]: "DDR_POWERDOWN_EN = 31"
definition DDR_SELFREF_EN :: nat where [ddr_index]: "DDR_SELFREF_EN = 32"
definition DDR_SELFREF_TO_X32 :: nat where [ddr_index]: "DDR_SELFREF_TO_X32 = 33"
definition DDR_T_DPD_X4096 :: nat where [ddr_index]: "DDR_T_DPD_X4096 = 34"
definition DDR_POWERDOWN_TO_X32 :: nat where [ddr_index]: "DDR_POWERDOWN_TO_X32 = 35"
definition DDR_REFRESH_MARGIN :: nat where [ddr_index]: "DDR_REFRESH_MARGIN = 36"
definition DDR_REFRESH_TO_X32 :: nat where [ddr_index]: "DDR_REFRESH_TO_X32 = 37"
definition DDR_REFRESH_BURST :: nat where [ddr_index]: "DDR_REFRESH_BURST = 38"
definition DDR_PER_BANK_REFRESH :: nat where [ddr_index]: "DDR_PER_BANK_REFRESH = 39"
definition DDR_REFRESH_TIMER1_START_VALUE_X32 :: nat where [ddr_index]: "DDR_REFRESH_TIMER1_START_VALUE_X32 = 40"
definition DDR_REFRESH_TIMER0_START_VALUE_X32 :: nat where [ddr_index]: "DDR_REFRESH_TIMER0_START_VALUE_X32 = 41"
definition DDR_REFRESH_MODE :: nat where [ddr_index]: "DDR_REFRESH_MODE = 42"
definition DDR_REFRESH_UPDATE_LEVEL :: nat where [ddr_index]: "DDR_REFRESH_UPDATE_LEVEL = 43"
definition DDR_T_RFC_NOM_X32 :: nat where [ddr_index]: "DDR_T_RFC_NOM_X32 = 45"
definition DDR_T_RFC_MIN :: nat where [ddr_index]: "DDR_T_RFC_MIN = 47"
definition DDR_DIS_SCRUB :: nat where [ddr_index]: "DDR_DIS_SCRUB = 48"
definition DDR_ECC_MODE :: nat where [ddr_index]: "DDR_ECC_MODE = 49"
definition DDR_DATA_POISON_BIT :: nat where [ddr_index]: "DDR_DATA_POISON_BIT = 50"
definition DDR_DATA_POISON_EN :: nat where [ddr_index]: "DDR_DATA_POISON_EN = 51"
definition DDR_DFI_T_PHY_RDLAT :: nat where [ddr_index]: "DDR_DFI_T_PHY_RDLAT = 52"
definition DDR_ALERT_WAIT_FOR_SW :: nat where [ddr_index]: "DDR_ALERT_WAIT_FOR_SW = 53"
definition DDR_CRC_PARITY_RETRY_ENABLE :: nat where [ddr_index]: "DDR_CRC_PARITY_RETRY_ENABLE = 54"
definition DDR_CRC_INC_DM :: nat where [ddr_index]: "DDR_CRC_INC_DM = 55"
definition DDR_CRC_ENABLE :: nat where [ddr_index]: "DDR_CRC_ENABLE = 56"
definition DDR_PARITY_ENABLE :: nat where [ddr_index]: "DDR_PARITY_ENABLE = 57"
definition DDR_T_PAR_ALERT_PW_MAX :: nat where [ddr_index]: "DDR_T_PAR_ALERT_PW_MAX = 58"
definition DDR_T_CRC_ALERT_PW_MAX :: nat where [ddr_index]: "DDR_T_CRC_ALERT_PW_MAX = 59"
definition DDR_SKIP_DRAM_INIT :: nat where [ddr_index]: "DDR_SKIP_DRAM_INIT = 61"
definition DDR_POST_CKE_X1024 :: nat where [ddr_index]: "DDR_POST_CKE_X1024 = 62"
definition DDR_PRE_CKE_X1024 :: nat where [ddr_index]: "DDR_PRE_CKE_X1024 = 63"
definition DDR_DRAM_RSTN_X1024 :: nat where [ddr_index]: "DDR_DRAM_RSTN_X1024 = 64"
definition DDR_FINAL_WAIT_X32 :: nat where [ddr_index]: "DDR_FINAL_WAIT_X32 = 65"
definition DDR_PRE_OCD_X32 :: nat where [ddr_index]: "DDR_PRE_OCD_X32 = 66"
definition DDR_IDLE_AFTER_RESET_X32 :: nat where [ddr_index]: "DDR_IDLE_AFTER_RESET_X32 = 67"
definition DDR_MIN_STABLE_CLOCK_X1 :: nat where [ddr_index]: "DDR_MIN_STABLE_CLOCK_X1 = 68"
definition DDR_MR :: nat where [ddr_index]: "DDR_MR = 69"
definition DDR_EMR :: nat where [ddr_index]: "DDR_EMR = 70"
definition DDR_EMR2 :: nat where [ddr_index]: "DDR_EMR2 = 71"
definition DDR_EMR3 :: nat where [ddr_index]: "DDR_EMR3 = 72"
definition DDR_DEV_ZQINIT_X32 :: nat where [ddr_index]: "DDR_DEV_ZQINIT_X32 = 73"
definition DDR_MAX_AUTO_INIT_X1024 :: nat where [ddr_index]: "DDR_MAX_AUTO_INIT_X1024 = 74"
definition DDR_MR4 :: nat where [ddr_index]: "DDR_MR4 = 75"
definition DDR_MR5 :: nat where [ddr_index]: "DDR_MR5 = 76"
definition DDR_MR6 :: nat where [ddr_index]: "DDR_MR6 = 77"
definition DDR_DIMM_DIS_BG_MIRRORING :: nat where [ddr_index]: "DDR_DIMM_DIS_BG_MIRRORING = 78"
definition DDR_MRS_A17_EN :: nat where [ddr_index]: "DDR_MRS_A17_EN = 80"
definition DDR_DIMM_OUTPUT_INV_EN :: nat where [ddr_index]: "DDR_DIMM_OUTPUT_INV_EN = 81"
definition DDR_DIMM_ADDR_MIRR_EN :: nat where [ddr_index]: "DDR_DIMM_ADDR_MIRR_EN = 82"
definition DDR_DIMM_STAGGER_CS_EN :: nat where [ddr_index]: "DDR_DIMM_STAGGER_CS_EN = 83"
definition DDR_DIFF_RANK_WR_GAP :: nat where [ddr_index]: "DDR_DIFF_RANK_WR_GAP = 84"
definition DDR_DIFF_RANK_RD_GAP :: nat where [ddr_index]: "DDR_DIFF_RANK_RD_GAP = 85"
definition DDR_MAX_RANK_RD :: nat where [ddr_index]: "DDR_MAX_RANK_RD = 86"
definition DDR_WR2PRE :: nat where [ddr_index]: "DDR_WR2PRE = 87"
definition DDR_T_FAW :: nat where [ddr_index]: "DDR_T_FAW = 88"
definition DDR_T_RAS_MAX :: nat where [ddr_index]: "DDR_T_RAS_MAX = 89"
definition DDR_T_RAS_MIN :: nat where [ddr_index]: "DDR_T_RAS_MIN = 90"
definition DDR_T_XP :: nat where [ddr_index]: "DDR_T_XP = 91"
definition DDR_RD2PRE :: nat where [ddr_index]: "DDR_RD2PRE = 92"
definition DDR_T_RC :: nat where [ddr_index]: "DDR_T_RC = 93"
definition DDR_WRITE_LATENCY :: nat where [ddr_index]: "DDR_WRITE_LATENCY = 94"
definition DDR_READ_LATENCY :: nat where [ddr_index]: "DDR_READ_LATENCY = 95"
definition DDR_RD2WR :: nat where [ddr_index]: "DDR_RD2WR = 96"
definition DDR_WR2RD :: nat where [ddr_index]: "DDR_WR2RD = 97"
definition DDR_T_MRW :: nat where [ddr_index]: "DDR_T_MRW = 98"
definition DDR_T_MRD :: nat where [ddr_index]: "DDR_T_MRD = 99"
definition DDR_T_MOD :: nat where [ddr_index]: "DDR_T_MOD = 100"
definition DDR_T_RCD :: nat where [ddr_index]: "DDR_T_RCD = 101"
definition DDR_T_CCD :: nat where [ddr_index]: "DDR_T_CCD = 102"
definition DDR_T_RRD :: nat where [ddr_index]: "DDR_T_RRD = 103"
definition DDR_T_RP :: nat where [ddr_index]: "DDR_T_RP = 104"
definition DDR_T_CKSRX :: nat where [ddr_index]: "DDR_T_CKSRX = 105"
definition DDR_T_CKSRE :: nat where [ddr_index]: "DDR_T_CKSRE = 106"
definition DDR_T_CKESR :: nat where [ddr_index]: "DDR_T_CKESR = 107"
definition DDR_T_CKE :: nat where [ddr_index]: "DDR_T_CKE = 108"
definition DDR_T_CKCSX :: nat where [ddr_index]: "DDR_T_CKCSX = 111"
definition DDR_T_CKPDE :: nat where [ddr_index]: "DDR_T_CKPDE = 112"
definition DDR_T_CKPDX :: nat where [ddr_index]: "DDR_T_CKPDX = 113"
definition DDR_T_XS_FAST_X32 :: nat where [ddr_index]: "DDR_T_XS_FAST_X32 = 114"
definition DDR_T_XS_ABORT_X32 :: nat where [ddr_index]: "DDR_T_XS_ABORT_X32 = 115"
definition DDR_T_XS_DLL_X32 :: nat where [ddr_index]: "DDR_T_XS_DLL_X32 = 116"
definition DDR_T_XS_X32 :: nat where [ddr_index]: "DDR_T_XS_X32 = 117"
definition DDR_DDR4_WR_PREAMBLE :: nat where [ddr_index]: "DDR_DDR4_WR_PREAMBLE = 118"
definition DDR_T_CCD_S :: nat where [ddr_index]: "DDR_T_CCD_S = 119"
definition DDR_T_RRD_S :: nat where [ddr_index]: "DDR_T_RRD_S = 120"
definition DDR_WR2RD_S :: nat where [ddr_index]: "DDR_WR2RD_S = 121"
definition DDR_POST_MPSM_GAP_X32 :: nat where [ddr_index]: "DDR_POST_MPSM_GAP_X32 = 122"
definition DDR_T_MPX_LH :: nat where [ddr_index]: "DDR_T_MPX_LH = 123"
definition DDR_T_CKMPE :: nat where [ddr_index]: "DDR_T_CKMPE = 125"
definition DDR_T_CMDCKE :: nat where [ddr_index]: "DDR_T_CMDCKE = 126"
definition DDR_T_CKEHCMD :: nat where [ddr_index]: "DDR_T_CKEHCMD = 127"
definition DDR_T_MRD_PDA :: nat where [ddr_index]: "DDR_T_MRD_PDA = 128"
definition DDR_DIS_SRX_ZQCL :: nat where [ddr_index]: "DDR_DIS_SRX_ZQCL = 130"
definition DDR_ZQ_RESISTOR_SHARED :: nat where [ddr_index]: "DDR_ZQ_RESISTOR_SHARED = 131"
definition DDR_DIS_MPSMX_ZQCL :: nat where [ddr_index]: "DDR_DIS_MPSMX_ZQCL = 132"
definition DDR_T_ZQ_LONG_NOP :: nat where [ddr_index]: "DDR_T_ZQ_LONG_NOP = 133"
definition DDR_T_ZQ_SHORT_NOP :: nat where [ddr_index]: "DDR_T_ZQ_SHORT_NOP = 134"
definition DDR_T_ZQ_RESET_NOP :: nat where [ddr_index]: "DDR_T_ZQ_RESET_NOP = 135"
definition DDR_T_ZQ_SHORT_INTERVAL_X1024 :: nat where [ddr_index]: "DDR_T_ZQ_SHORT_INTERVAL_X1024 = 136"
definition DDR_DFI_T_RDDATA_EN :: nat where [ddr_index]: "DDR_DFI_T_RDDATA_EN = 139"
definition DDR_DFI_TPHY_WRLAT :: nat where [ddr_index]: "DDR_DFI_TPHY_WRLAT = 142"
definition DDR_DFI_T_CMD_LAT :: nat where [ddr_index]: "DDR_DFI_T_CMD_LAT = 143"
definition DDR_DFI_T_WRDATA_DELAY :: nat where [ddr_index]: "DDR_DFI_T_WRDATA_DELAY = 145"
definition DDR_DFI_LP_WAKEUP_DPD :: nat where [ddr_index]: "DDR_DFI_LP_WAKEUP_DPD = 149"
definition DDR_DFI_LP_EN_DPD :: nat where [ddr_index]: "DDR_DFI_LP_EN_DPD = 150"
definition DDR_DFI_LP_EN_SR :: nat where [ddr_index]: "DDR_DFI_LP_EN_SR = 152"
definition DDR_DFI_LP_EN_PD :: nat where [ddr_index]: "DDR_DFI_LP_EN_PD = 154"
definition DDR_DFI_LP_EN_MPSM :: nat where [ddr_index]: "DDR_DFI_LP_EN_MPSM = 156"
definition DDR_DIS_AUTO_CTRLUPD :: nat where [ddr_index]: "DDR_DIS_AUTO_CTRLUPD = 157"
definition DDR_DIS_AUTO_CTRLUPD_SRX :: nat where [ddr_index]: "DDR_DIS_AUTO_CTRLUPD_SRX = 158"
definition DDR_DFI_T_CTRLUP_MAX :: nat where [ddr_index]: "DDR_DFI_T_CTRLUP_MAX = 159"
definition DDR_DFI_T_CTRLUP_MIN :: nat where [ddr_index]: "DDR_DFI_T_CTRLUP_MIN = 160"
definition DDR_DFI_DATA_CS_POLARITY :: nat where [ddr_index]: "DDR_DFI_DATA_CS_POLARITY = 163"
definition DDR_PHY_DBI_MODE :: nat where [ddr_index]: "DDR_PHY_DBI_MODE = 164"
definition DDR_DFI_TPHY_RDCSLAT :: nat where [ddr_index]: "DDR_DFI_TPHY_RDCSLAT = 166"
definition DDR_DFI_TPHY_WRCSLAT :: nat where [ddr_index]: "DDR_DFI_TPHY_WRCSLAT = 167"
definition DDR_RD_DBI_EN :: nat where [ddr_index]: "DDR_RD_DBI_EN = 168"
definition DDR_WR_DBI_EN :: nat where [ddr_index]: "DDR_WR_DBI_EN = 169"
definition DDR_DM_EN :: nat where [ddr_index]: "DDR_DM_EN = 170"
definition DDR_WR_ODT_HOLD :: nat where [ddr_index]: "DDR_WR_ODT_HOLD = 207"
definition DDR_WR_ODT_DELAY :: nat where [ddr_index]: "DDR_WR_ODT_DELAY = 208"
definition DDR_RD_ODT_HOLD :: nat where [ddr_index]: "DDR_RD_ODT_HOLD = 209"
definition DDR_RD_ODT_DELAY :: nat where [ddr_index]: "DDR_RD_ODT_DELAY = 210"
definition DDR_RANK1_WR_ODT :: nat where [ddr_index]: "DDR_RANK1_WR_ODT = 212"
definition DDR_RANK0_WR_ODT :: nat where [ddr_index]: "DDR_RANK0_WR_ODT = 214"
definition DDR_GO2CRITICAL_HYSTERESIS :: nat where [ddr_index]: "DDR_GO2CRITICAL_HYSTERESIS = 216"
definition DDR_LPR_NUM_ENTRIES :: nat where [ddr_index]: "DDR_LPR_NUM_ENTRIES = 217"
definition DDR_PREFER_WRITE :: nat where [ddr_index]: "DDR_PREFER_WRITE = 219"
definition DDR_FORCE_LOW_PRI_N :: nat where [ddr_index]: "DDR_FORCE_LOW_PRI_N = 220"
definition DDR_DQ_NIBBLE_MAP_12_15 :: nat where [ddr_index]: "DDR_DQ_NIBBLE_MAP_12_15 = 225"
definition DDR_DQ_NIBBLE_MAP_8_11 :: nat where [ddr_index]: "DDR_DQ_NIBBLE_MAP_8_11 = 226"
definition DDR_DQ_NIBBLE_MAP_4_7 :: nat where [ddr_index]: "DDR_DQ_NIBBLE_MAP_4_7 = 227"
definition DDR_DQ_NIBBLE_MAP_0_3 :: nat where [ddr_index]: "DDR_DQ_NIBBLE_MAP_0_3 = 228"
definition DDR_DQ_NIBBLE_MAP_28_31 :: nat where [ddr_index]: "DDR_DQ_NIBBLE_MAP_28_31 = 229"
definition DDR_DQ_NIBBLE_MAP_24_27 :: nat where [ddr_index]: "DDR_DQ_NIBBLE_MAP_24_27 = 230"
definition DDR_DQ_NIBBLE_MAP_20_23 :: nat where [ddr_index]: "DDR_DQ_NIBBLE_MAP_20_23 = 231"
definition DDR_DQ_NIBBLE_MAP_16_19 :: nat where [ddr_index]: "DDR_DQ_NIBBLE_MAP_16_19 = 232"
definition DDR_DQ_NIBBLE_MAP_44_47 :: nat where [ddr_index]: "DDR_DQ_NIBBLE_MAP_44_47 = 233"
definition DDR_DQ_NIBBLE_MAP_40_43 :: nat where [ddr_index]: "DDR_DQ_NIBBLE_MAP_40_43 = 234"
definition DDR_DQ_NIBBLE_MAP_36_39 :: nat where [ddr_index]: "DDR_DQ_NIBBLE_MAP_36_39 = 235"
definition DDR_DQ_NIBBLE_MAP_32_35 :: nat where [ddr_index]: "DDR_DQ_NIBBLE_MAP_32_35 = 236"
definition DDR_DQ_NIBBLE_MAP_60_63 :: nat where [ddr_index]: "DDR_DQ_NIBBLE_MAP_60_63 = 237"
definition DDR_DQ_NIBBLE_MAP_56_59 :: nat where [ddr_index]: "DDR_DQ_NIBBLE_MAP_56_59 = 238"
definition DDR_DQ_NIBBLE_MAP_52_55 :: nat where [ddr_index]: "DDR_DQ_NIBBLE_MAP_52_55 = 239"
definition DDR_DQ_NIBBLE_MAP_48_51 :: nat where [ddr_index]: "DDR_DQ_NIBBLE_MAP_48_51 = 240"
definition DDR_DQ_NIBBLE_MAP_CB_4_7 :: nat where [ddr_index]: "DDR_DQ_NIBBLE_MAP_CB_4_7 = 241"
definition DDR_DQ_NIBBLE_MAP_CB_0_3 :: nat where [ddr_index]: "DDR_DQ_NIBBLE_MAP_CB_0_3 = 242"
definition DDR_DIS_COLLISION_PAGE_OPT :: nat where [ddr_index]: "DDR_DIS_COLLISION_PAGE_OPT = 244"
definition DDR_DIS_WC :: nat where [ddr_index]: "DDR_DIS_WC = 245"
definition DDR_CTRLUPD :: nat where [ddr_index]: "DDR_CTRLUPD = 247"
definition DDR_ZQ_CALIB_SHORT :: nat where [ddr_index]: "DDR_ZQ_CALIB_SHORT = 248"
definition DDR_RANK1_REFRESH :: nat where [ddr_index]: "DDR_RANK1_REFRESH = 249"
definition DDR_RANK0_REFRESH :: nat where [ddr_index]: "DDR_RANK0_REFRESH = 250"
definition DDR_BL_EXP_MODE :: nat where [ddr_index]: "DDR_BL_EXP_MODE = 252"
definition DDR_PAGEMATCH_LIMIT :: nat where [ddr_index]: "DDR_PAGEMATCH_LIMIT = 253"
definition PHY_ADCP :: nat where [ddr_index]: "PHY_ADCP = 0"
definition PHY_RESERVED_30_27 :: nat where [ddr_index]: "PHY_RESERVED_30_27 = 1"
definition PHY_RESERVED_23_19 :: nat where [ddr_index]: "PHY_RESERVED_23_19 = 4"
definition PHY_DTOSEL :: nat where [ddr_index]: "PHY_DTOSEL = 5"
definition PHY_CLRTSTAT :: nat where [ddr_index]: "PHY_CLRTSTAT = 8"
definition PHY_CLRZCAL :: nat where [ddr_index]: "PHY_CLRZCAL = 9"
definition PHY_CLRPERR :: nat where [ddr_index]: "PHY_CLRPERR = 10"
definition PHY_ICPC :: nat where [ddr_index]: "PHY_ICPC = 11"
definition PHY_INITFSMBYP :: nat where [ddr_index]: "PHY_INITFSMBYP = 13"
definition PHY_PLLFSMBYP :: nat where [ddr_index]: "PHY_PLLFSMBYP = 14"
definition PHY_TREFPRD :: nat where [ddr_index]: "PHY_TREFPRD = 15"
definition PHY_GATEACRDCLK :: nat where [ddr_index]: "PHY_GATEACRDCLK = 18"
definition PHY_GATEACDDRCLK :: nat where [ddr_index]: "PHY_GATEACDDRCLK = 19"
definition PHY_GATEACCTLCLK :: nat where [ddr_index]: "PHY_GATEACCTLCLK = 20"
definition PHY_IOLB0 :: nat where [ddr_index]: "PHY_IOLB0 = 22"
definition PHY_RDMODE0 :: nat where [ddr_index]: "PHY_RDMODE0 = 23"
definition PHY_DISRST0 :: nat where [ddr_index]: "PHY_DISRST0 = 24"
definition PHY_CLKLEVEL0 :: nat where [ddr_index]: "PHY_CLKLEVEL0 = 25"
definition PHY_DISCNPERIOD :: nat where [ddr_index]: "PHY_DISCNPERIOD = 28"
definition PHY_DDLPGACT :: nat where [ddr_index]: "PHY_DDLPGACT = 31"
definition PHY_DDLPGRW :: nat where [ddr_index]: "PHY_DDLPGRW = 32"
definition PHY_TPLLPD :: nat where [ddr_index]: "PHY_TPLLPD = 33"
definition PHY_TPLLGS :: nat where [ddr_index]: "PHY_TPLLGS = 34"
definition PHY_TPLLLOCK :: nat where [ddr_index]: "PHY_TPLLLOCK = 36"
definition PHY_TPLLRST :: nat where [ddr_index]: "PHY_TPLLRST = 37"
definition PHY_PLLBYP :: nat where [ddr_index]: "PHY_PLLBYP = 38"
definition PHY_PLLRST :: nat where [ddr_index]: "PHY_PLLRST = 39"
definition PHY_PLLPD :: nat where [ddr_index]: "PHY_PLLPD = 40"
definition PHY_RSTOPM :: nat where [ddr_index]: "PHY_RSTOPM = 41"
definition PHY_FRQSEL :: nat where [ddr_index]: "PHY_FRQSEL = 42"
definition PHY_RLOCKM :: nat where [ddr_index]: "PHY_RLOCKM = 43"
definition PHY_CPPC :: nat where [ddr_index]: "PHY_CPPC = 44"
definition PHY_CPIC :: nat where [ddr_index]: "PHY_CPIC = 45"
definition PHY_GSHIFT :: nat where [ddr_index]: "PHY_GSHIFT = 46"
definition PHY_ATOEN :: nat where [ddr_index]: "PHY_ATOEN = 47"
definition PHY_ATC :: nat where [ddr_index]: "PHY_ATC = 48"
definition PHY_DTC :: nat where [ddr_index]: "PHY_DTC = 49"
definition PHY_RDBICLSEL :: nat where [ddr_index]: "PHY_RDBICLSEL = 50"
definition PHY_SDRMODE :: nat where [ddr_index]: "PHY_SDRMODE = 54"
definition PHY_ATOAE :: nat where [ddr_index]: "PHY_ATOAE = 55"
definition PHY_DTOOE :: nat where [ddr_index]: "PHY_DTOOE = 56"
definition PHY_DTOIOM :: nat where [ddr_index]: "PHY_DTOIOM = 57"
definition PHY_DTOODT :: nat where [ddr_index]: "PHY_DTOODT = 59"
definition PHY_PUAD :: nat where [ddr_index]: "PHY_PUAD = 60"
definition PHY_CTLZUEN :: nat where [ddr_index]: "PHY_CTLZUEN = 62"
definition PHY_RESERVED_1 :: nat where [ddr_index]: "PHY_RESERVED_1 = 63"
definition PHY_GPR1 :: nat where [ddr_index]: "PHY_GPR1 = 66"
definition PHY_GEARDN :: nat where [ddr_index]: "PHY_GEARDN = 67"
definition PHY_UBG :: nat where [ddr_index]: "PHY_UBG = 68"
definition PHY_UDIMM :: nat where [ddr_index]: "PHY_UDIMM = 69"
definition PHY_DDR2T :: nat where [ddr_index]: "PHY_DDR2T = 70"
definition PHY_NOSRA :: nat where [ddr_index]: "PHY_NOSRA = 71"
definition PHY_DDRTYPE :: nat where [ddr_index]: "PHY_DDRTYPE = 73"
definition PHY_MPRDQ :: nat where [ddr_index]: "PHY_MPRDQ = 74"
definition PHY_PDQ :: nat where [ddr_index]: "PHY_PDQ = 75"
definition PHY_DDRMD :: nat where [ddr_index]: "PHY_DDRMD = 77"
definition PHY_TRRD :: nat where [ddr_index]: "PHY_TRRD = 78"
definition PHY_TRAS :: nat where [ddr_index]: "PHY_TRAS = 79"
definition PHY_TRP :: nat where [ddr_index]: "PHY_TRP = 80"
definition PHY_TRTP :: nat where [ddr_index]: "PHY_TRTP = 81"
definition PHY_TFAW :: nat where [ddr_index]: "PHY_TFAW = 83"
definition PHY_TMOD :: nat where [ddr_index]: "PHY_TMOD = 84"
definition PHY_TMRD :: nat where [ddr_index]: "PHY_TMRD = 85"
definition PHY_TRTW :: nat where [ddr_index]: "PHY_TRTW = 86"
definition PHY_TRTODT :: nat where [ddr_index]: "PHY_TRTODT = 87"
definition PHY_TXS :: nat where [ddr_index]: "PHY_TXS = 89"
definition PHY_TDLLK :: nat where [ddr_index]: "PHY_TDLLK = 92"
definition PHY_TDQSCKMAX :: nat where [ddr_index]: "PHY_TDQSCKMAX = 93"
definition PHY_TDQSCK :: nat where [ddr_index]: "PHY_TDQSCK = 94"
definition PHY_TAOND_TAOFD :: nat where [ddr_index]: "PHY_TAOND_TAOFD = 95"
definition PHY_TRFC :: nat where [ddr_index]: "PHY_TRFC = 96"
definition PHY_TXP :: nat where [ddr_index]: "PHY_TXP = 98"
definition PHY_TRC :: nat where [ddr_index]: "PHY_TRC = 99"
definition PHY_TRCD :: nat where [ddr_index]: "PHY_TRCD = 100"
definition PHY_TWTR :: nat where [ddr_index]: "PHY_TWTR = 101"
definition PHY_PUBWL :: nat where [ddr_index]: "PHY_PUBWL = 104"
definition PHY_PUBRL :: nat where [ddr_index]: "PHY_PUBRL = 105"
definition PHY_QCSEN :: nat where [ddr_index]: "PHY_QCSEN = 106"
definition PHY_ERROUTOE :: nat where [ddr_index]: "PHY_ERROUTOE = 108"
definition PHY_ERROUTPDR :: nat where [ddr_index]: "PHY_ERROUTPDR = 110"
definition PHY_ERROUTODT :: nat where [ddr_index]: "PHY_ERROUTODT = 111"
definition PHY_LRDIMM :: nat where [ddr_index]: "PHY_LRDIMM = 112"
definition PHY_PARINIOM :: nat where [ddr_index]: "PHY_PARINIOM = 113"
definition PHY_SOPERR :: nat where [ddr_index]: "PHY_SOPERR = 115"
definition PHY_ERRNOREG :: nat where [ddr_index]: "PHY_ERRNOREG = 116"
definition PHY_RDIMM :: nat where [ddr_index]: "PHY_RDIMM = 117"
definition PHY_A17BID :: nat where [ddr_index]: "PHY_A17BID = 118"
definition PHY_TBCMRD_L2 :: nat where [ddr_index]: "PHY_TBCMRD_L2 = 119"
definition PHY_TBCMRD_L :: nat where [ddr_index]: "PHY_TBCMRD_L = 120"
definition PHY_TBCMRD :: nat where [ddr_index]: "PHY_TBCMRD = 121"
definition PHY_RC7 :: nat where [ddr_index]: "PHY_RC7 = 123"
definition PHY_RC6 :: nat where [ddr_index]: "PHY_RC6 = 124"
definition PHY_RC5 :: nat where [ddr_index]: "PHY_RC5 = 125"
definition PHY_RC4 :: nat where [ddr_index]: "PHY_RC4 = 126"
definition PHY_RC3 :: nat where [ddr_index]: "PHY_RC3 = 127"
definition PHY_RC2 :: nat where [ddr_index]: "PHY_RC2 = 128"
definition PHY_RC1 :: nat where [ddr_index]: "PHY_RC1 = 129"
definition PHY_RC0 :: nat where [ddr_index]: "PHY_RC0 = 130"
definition PHY_RC15 :: nat where [ddr_index]: "PHY_RC15 = 131"
definition PHY_RC14 :: nat where [ddr_index]: "PHY_RC14 = 132"
definition PHY_RC13 :: nat where [ddr_index]: "PHY_RC13 = 133"
definition PHY_RC12 :: nat where [ddr_index]: "PHY_RC12 = 134"
definition PHY_RC11 :: nat where [ddr_index]: "PHY_RC11 = 135"
definition PHY_RC10 :: nat where [ddr_index]: "PHY_RC10 = 136"
definition PHY_RC9 :: nat where [ddr_index]: "PHY_RC9 = 137"
definition PHY_RC8 :: nat where [ddr_index]: "PHY_RC8 = 138"
definition PHY_RSVD_7 :: nat where [ddr_index]: "PHY_RSVD_7 = 181"
definition PHY_CAODT :: nat where [ddr_index]: "PHY_CAODT = 182"
definition PHY_RSVD_3 :: nat where [ddr_index]: "PHY_RSVD_3 = 183"
definition PHY_DQODT :: nat where [ddr_index]: "PHY_DQODT = 184"
definition PHY_VREFCA_RANGE :: nat where [ddr_index]: "PHY_VREFCA_RANGE = 185"
definition PHY_VREFCA :: nat where [ddr_index]: "PHY_VREFCA = 186"
definition PHY_FSPOP :: nat where [ddr_index]: "PHY_FSPOP = 187"
definition PHY_FSPWR :: nat where [ddr_index]: "PHY_FSPWR = 188"
definition PHY_DMD :: nat where [ddr_index]: "PHY_DMD = 189"
definition PHY_RRO :: nat where [ddr_index]: "PHY_RRO = 190"
definition PHY_VRO :: nat where [ddr_index]: "PHY_VRO = 192"
definition PHY_RPT :: nat where [ddr_index]: "PHY_RPT = 193"
definition PHY_CBT :: nat where [ddr_index]: "PHY_CBT = 194"
definition PHY_VREFDQ_RANGE :: nat where [ddr_index]: "PHY_VREFDQ_RANGE = 195"
definition PHY_VREFDQ :: nat where [ddr_index]: "PHY_VREFDQ = 196"
definition PHY_ODTD_CA :: nat where [ddr_index]: "PHY_ODTD_CA = 197"
definition PHY_ODTE_CS :: nat where [ddr_index]: "PHY_ODTE_CS = 198"
definition PHY_ODTE_CK :: nat where [ddr_index]: "PHY_ODTE_CK = 199"
definition PHY_CODT :: nat where [ddr_index]: "PHY_CODT = 200"
definition PHY_DTDRS :: nat where [ddr_index]: "PHY_DTDRS = 202"
definition PHY_DTEXG :: nat where [ddr_index]: "PHY_DTEXG = 203"
definition PHY_DTEXD :: nat where [ddr_index]: "PHY_DTEXD = 204"
definition PHY_DTDSTP :: nat where [ddr_index]: "PHY_DTDSTP = 205"
definition PHY_DTDEN :: nat where [ddr_index]: "PHY_DTDEN = 206"
definition PHY_DTDBS :: nat where [ddr_index]: "PHY_DTDBS = 207"
definition PHY_DTRDBITR :: nat where [ddr_index]: "PHY_DTRDBITR = 208"
definition PHY_DTWBDDM :: nat where [ddr_index]: "PHY_DTWBDDM = 209"
definition PHY_RANKEN :: nat where [ddr_index]: "PHY_RANKEN = 214"
definition PHY_DTRANK :: nat where [ddr_index]: "PHY_DTRANK = 215"
definition PHY_CA1BYTE1 :: nat where [ddr_index]: "PHY_CA1BYTE1 = 223"
definition PHY_CA1BYTE0 :: nat where [ddr_index]: "PHY_CA1BYTE0 = 224"
definition PHY_DFTDLY :: nat where [ddr_index]: "PHY_DFTDLY = 225"
definition PHY_DFTZQUP :: nat where [ddr_index]: "PHY_DFTZQUP = 226"
definition PHY_DFTDDLUP :: nat where [ddr_index]: "PHY_DFTDDLUP = 227"
definition PHY_DFTRDSPC :: nat where [ddr_index]: "PHY_DFTRDSPC = 228"
definition PHY_RESERVED_11_8 :: nat where [ddr_index]: "PHY_RESERVED_11_8 = 231"
definition PHY_DFTGPULSE :: nat where [ddr_index]: "PHY_DFTGPULSE = 232"
definition PHY_DFTUPMODE :: nat where [ddr_index]: "PHY_DFTUPMODE = 233"
definition PHY_DFTDTMODE :: nat where [ddr_index]: "PHY_DFTDTMODE = 234"
definition PHY_DFTDTEN :: nat where [ddr_index]: "PHY_DFTDTEN = 235"
definition PHY_SEED :: nat where [ddr_index]: "PHY_SEED = 236"
definition PHY_RESERVED_31_16 :: nat where [ddr_index]: "PHY_RESERVED_31_16 = 237"
definition PHY_ODTOEMODE :: nat where [ddr_index]: "PHY_ODTOEMODE = 238"
definition PHY_RSTODT :: nat where [ddr_index]: "PHY_RSTODT = 242"
definition PHY_CKDCC :: nat where [ddr_index]: "PHY_CKDCC = 243"
definition PHY_ACRANKCLKSEL :: nat where [ddr_index]: "PHY_ACRANKCLKSEL = 246"
definition PHY_CLKGENCLKGATE :: nat where [ddr_index]: "PHY_CLKGENCLKGATE = 247"
definition PHY_ACOECLKGATE0 :: nat where [ddr_index]: "PHY_ACOECLKGATE0 = 248"
definition PHY_ACPDRCLKGATE0 :: nat where [ddr_index]: "PHY_ACPDRCLKGATE0 = 249"
definition PHY_ACTECLKGATE0 :: nat where [ddr_index]: "PHY_ACTECLKGATE0 = 250"
definition PHY_CKNCLKGATE0 :: nat where [ddr_index]: "PHY_CKNCLKGATE0 = 251"
definition PHY_CKCLKGATE0 :: nat where [ddr_index]: "PHY_CKCLKGATE0 = 252"
definition PHY_ACCLKGATE0 :: nat where [ddr_index]: "PHY_ACCLKGATE0 = 253"
definition PHY_PAROEMODE :: nat where [ddr_index]: "PHY_PAROEMODE = 254"
definition PHY_BGOEMODE :: nat where [ddr_index]: "PHY_BGOEMODE = 255"
definition PHY_BAOEMODE :: nat where [ddr_index]: "PHY_BAOEMODE = 256"
definition PHY_A17OEMODE :: nat where [ddr_index]: "PHY_A17OEMODE = 257"
definition PHY_A16OEMODE :: nat where [ddr_index]: "PHY_A16OEMODE = 258"
definition PHY_ACTOEMODE :: nat where [ddr_index]: "PHY_ACTOEMODE = 259"
definition PHY_CKOEMODE :: nat where [ddr_index]: "PHY_CKOEMODE = 260"
definition PHY_LBCLKGATE :: nat where [ddr_index]: "PHY_LBCLKGATE = 261"
definition PHY_ACOECLKGATE1 :: nat where [ddr_index]: "PHY_ACOECLKGATE1 = 262"
definition PHY_ACPDRCLKGATE1 :: nat where [ddr_index]: "PHY_ACPDRCLKGATE1 = 263"
definition PHY_ACTECLKGATE1 :: nat where [ddr_index]: "PHY_ACTECLKGATE1 = 264"
definition PHY_CKNCLKGATE1 :: nat where [ddr_index]: "PHY_CKNCLKGATE1 = 265"
definition PHY_CKCLKGATE1 :: nat where [ddr_index]: "PHY_CKCLKGATE1 = 266"
definition PHY_ACCLKGATE1 :: nat where [ddr_index]: "PHY_ACCLKGATE1 = 267"
definition PHY_ACREFIOM :: nat where [ddr_index]: "PHY_ACREFIOM = 268"
definition PHY_ACREFPEN :: nat where [ddr_index]: "PHY_ACREFPEN = 269"
definition PHY_ACREFESELRANGE :: nat where [ddr_index]: "PHY_ACREFESELRANGE = 273"
definition PHY_ACREFESEL :: nat where [ddr_index]: "PHY_ACREFESEL = 274"
definition PHY_ACREFSSEL :: nat where [ddr_index]: "PHY_ACREFSSEL = 276"
definition PHY_ACVREFISEL :: nat where [ddr_index]: "PHY_ACVREFISEL = 278"
definition PHY_PDAEN :: nat where [ddr_index]: "PHY_PDAEN = 281"
definition PHY_DVSS :: nat where [ddr_index]: "PHY_DVSS = 283"
definition PHY_DVMIN :: nat where [ddr_index]: "PHY_DVMIN = 285"
definition PHY_DVINIT :: nat where [ddr_index]: "PHY_DVINIT = 286"
definition PHY_HVSS :: nat where [ddr_index]: "PHY_HVSS = 287"
definition PHY_HVMIN :: nat where [ddr_index]: "PHY_HVMIN = 289"
definition PHY_SHRNK :: nat where [ddr_index]: "PHY_SHRNK = 290"
definition PHY_PARBD :: nat where [ddr_index]: "PHY_PARBD = 297"
definition PHY_A16BD :: nat where [ddr_index]: "PHY_A16BD = 298"
definition PHY_A17BD :: nat where [ddr_index]: "PHY_A17BD = 299"
definition PHY_ACTBD :: nat where [ddr_index]: "PHY_ACTBD = 300"
definition PHY_BG1BD :: nat where [ddr_index]: "PHY_BG1BD = 301"
definition PHY_BG0BD :: nat where [ddr_index]: "PHY_BG0BD = 302"
definition PHY_BA1BD :: nat where [ddr_index]: "PHY_BA1BD = 303"
definition PHY_BA0BD :: nat where [ddr_index]: "PHY_BA0BD = 304"
definition PHY_A03BD :: nat where [ddr_index]: "PHY_A03BD = 305"
definition PHY_A02BD :: nat where [ddr_index]: "PHY_A02BD = 306"
definition PHY_A01BD :: nat where [ddr_index]: "PHY_A01BD = 307"
definition PHY_A00BD :: nat where [ddr_index]: "PHY_A00BD = 308"
definition PHY_A07BD :: nat where [ddr_index]: "PHY_A07BD = 309"
definition PHY_A06BD :: nat where [ddr_index]: "PHY_A06BD = 310"
definition PHY_A05BD :: nat where [ddr_index]: "PHY_A05BD = 311"
definition PHY_A04BD :: nat where [ddr_index]: "PHY_A04BD = 312"
definition PHY_A11BD :: nat where [ddr_index]: "PHY_A11BD = 313"
definition PHY_A10BD :: nat where [ddr_index]: "PHY_A10BD = 314"
definition PHY_A09BD :: nat where [ddr_index]: "PHY_A09BD = 315"
definition PHY_A08BD :: nat where [ddr_index]: "PHY_A08BD = 316"
definition PHY_A15BD :: nat where [ddr_index]: "PHY_A15BD = 317"
definition PHY_A14BD :: nat where [ddr_index]: "PHY_A14BD = 318"
definition PHY_A13BD :: nat where [ddr_index]: "PHY_A13BD = 319"
definition PHY_A12BD :: nat where [ddr_index]: "PHY_A12BD = 320"
definition PHY_ZQREFISELRANGE :: nat where [ddr_index]: "PHY_ZQREFISELRANGE = 321"
definition PHY_PGWAIT_FRQA :: nat where [ddr_index]: "PHY_PGWAIT_FRQA = 323"
definition PHY_ZQREFPEN :: nat where [ddr_index]: "PHY_ZQREFPEN = 324"
definition PHY_ODT_MODE :: nat where [ddr_index]: "PHY_ODT_MODE = 326"
definition PHY_FORCE_ZCAL_VT_UPDATE :: nat where [ddr_index]: "PHY_FORCE_ZCAL_VT_UPDATE = 327"
definition PHY_ZCALT :: nat where [ddr_index]: "PHY_ZCALT = 331"
definition PHY_ZSEGBYP :: nat where [ddr_index]: "PHY_ZSEGBYP = 336"
definition PHY_ZLE_MODE :: nat where [ddr_index]: "PHY_ZLE_MODE = 337"
definition PHY_ODT_ADJUST :: nat where [ddr_index]: "PHY_ODT_ADJUST = 338"
definition PHY_PD_DRV_ADJUST :: nat where [ddr_index]: "PHY_PD_DRV_ADJUST = 339"
definition PHY_PU_DRV_ADJUST :: nat where [ddr_index]: "PHY_PU_DRV_ADJUST = 340"
definition PHY_ZPROG_DRAM_ODT :: nat where [ddr_index]: "PHY_ZPROG_DRAM_ODT = 341"
definition PHY_ZPROG_HOST_ODT :: nat where [ddr_index]: "PHY_ZPROG_HOST_ODT = 342"
definition PHY_ZPROG_ASYM_DRV_PD :: nat where [ddr_index]: "PHY_ZPROG_ASYM_DRV_PD = 343"
definition PHY_ZPROG_ASYM_DRV_PU :: nat where [ddr_index]: "PHY_ZPROG_ASYM_DRV_PU = 344"
definition PHY_CALBYP :: nat where [ddr_index]: "PHY_CALBYP = 345"
definition PHY_MDLEN :: nat where [ddr_index]: "PHY_MDLEN = 346"
definition PHY_CODTSHFT :: nat where [ddr_index]: "PHY_CODTSHFT = 347"
definition PHY_DQSDCC :: nat where [ddr_index]: "PHY_DQSDCC = 348"
definition PHY_DQSNSEPDR :: nat where [ddr_index]: "PHY_DQSNSEPDR = 350"
definition PHY_DQSSEPDR :: nat where [ddr_index]: "PHY_DQSSEPDR = 351"
definition PHY_RTTOAL :: nat where [ddr_index]: "PHY_RTTOAL = 352"
definition PHY_CPDRSHFT :: nat where [ddr_index]: "PHY_CPDRSHFT = 354"
definition PHY_DQSRPD :: nat where [ddr_index]: "PHY_DQSRPD = 355"
definition PHY_DQSGPDR :: nat where [ddr_index]: "PHY_DQSGPDR = 356"
definition PHY_DQSGODT :: nat where [ddr_index]: "PHY_DQSGODT = 357"
definition PHY_DQSGOE :: nat where [ddr_index]: "PHY_DQSGOE = 358"
definition PHY_DXPDRMODE :: nat where [ddr_index]: "PHY_DXPDRMODE = 359"
definition PHY_OEEN :: nat where [ddr_index]: "PHY_OEEN = 362"
definition PHY_PDREN :: nat where [ddr_index]: "PHY_PDREN = 363"
definition PHY_TEEN :: nat where [ddr_index]: "PHY_TEEN = 364"
definition PHY_DSEN :: nat where [ddr_index]: "PHY_DSEN = 365"
definition PHY_DMEN :: nat where [ddr_index]: "PHY_DMEN = 366"
definition PHY_DQEN :: nat where [ddr_index]: "PHY_DQEN = 367"
definition PHY_RDBVT :: nat where [ddr_index]: "PHY_RDBVT = 368"
definition PHY_WDBVT :: nat where [ddr_index]: "PHY_WDBVT = 369"
definition PHY_RGLVT :: nat where [ddr_index]: "PHY_RGLVT = 370"
definition PHY_RDLVT :: nat where [ddr_index]: "PHY_RDLVT = 371"
definition PHY_WDLVT :: nat where [ddr_index]: "PHY_WDLVT = 372"
definition PHY_WLLVT :: nat where [ddr_index]: "PHY_WLLVT = 373"
definition PHY_DSNOEMODE :: nat where [ddr_index]: "PHY_DSNOEMODE = 374"
definition PHY_DSNTEMODE :: nat where [ddr_index]: "PHY_DSNTEMODE = 375"
definition PHY_DSNPDRMODE :: nat where [ddr_index]: "PHY_DSNPDRMODE = 376"
definition PHY_DMOEMODE :: nat where [ddr_index]: "PHY_DMOEMODE = 377"
definition PHY_DMTEMODE :: nat where [ddr_index]: "PHY_DMTEMODE = 378"
definition PHY_DMPDRMODE :: nat where [ddr_index]: "PHY_DMPDRMODE = 379"
definition PHY_DSOEMODE :: nat where [ddr_index]: "PHY_DSOEMODE = 380"
definition PHY_DSTEMODE :: nat where [ddr_index]: "PHY_DSTEMODE = 381"
definition PHY_DSPDRMODE :: nat where [ddr_index]: "PHY_DSPDRMODE = 382"
definition PHY_DXREFIOM :: nat where [ddr_index]: "PHY_DXREFIOM = 383"
definition PHY_DXREFPEN :: nat where [ddr_index]: "PHY_DXREFPEN = 384"
definition PHY_DXREFSEN :: nat where [ddr_index]: "PHY_DXREFSEN = 386"
definition PHY_DXREFESELRANGE :: nat where [ddr_index]: "PHY_DXREFESELRANGE = 387"
definition PHY_DXREFESEL :: nat where [ddr_index]: "PHY_DXREFESEL = 388"
definition PHY_DXREFSSEL :: nat where [ddr_index]: "PHY_DXREFSSEL = 390"
definition PHY_DXREFIEN :: nat where [ddr_index]: "PHY_DXREFIEN = 391"
definition PHY_DXREFIMON :: nat where [ddr_index]: "PHY_DXREFIMON = 392"
definition PHY_DXREFISELR1 :: nat where [ddr_index]: "PHY_DXREFISELR1 = 395"
definition PHY_DXREFISELR0 :: nat where [ddr_index]: "PHY_DXREFISELR0 = 396"
definition PHY_DXOEMODE :: nat where [ddr_index]: "PHY_DXOEMODE = 401"
definition PHY_DXTEMODE :: nat where [ddr_index]: "PHY_DXTEMODE = 402"
definition PHY_GATEDXRDCLK :: nat where [ddr_index]: "PHY_GATEDXRDCLK = 403"
definition PHY_GATEDXDDRCLK :: nat where [ddr_index]: "PHY_GATEDXDDRCLK = 404"
definition PHY_GATEDXCTLCLK :: nat where [ddr_index]: "PHY_GATEDXCTLCLK = 405"
definition PHY_CLKLEVEL :: nat where [ddr_index]: "PHY_CLKLEVEL = 406"
definition PHY_LBMODE :: nat where [ddr_index]: "PHY_LBMODE = 407"
definition PHY_LBGSDQS :: nat where [ddr_index]: "PHY_LBGSDQS = 408"
definition PHY_LBDGDQS :: nat where [ddr_index]: "PHY_LBDGDQS = 409"
definition PHY_LBDQSS :: nat where [ddr_index]: "PHY_LBDQSS = 410"
definition PHY_DLTST :: nat where [ddr_index]: "PHY_DLTST = 413"
definition PHY_DLTMODE :: nat where [ddr_index]: "PHY_DLTMODE = 414"
definition PHY_OSCEN :: nat where [ddr_index]: "PHY_OSCEN = 420"
definition PHY_DQSGX :: nat where [ddr_index]: "PHY_DQSGX = 423"
definition PHY_UDQIOM :: nat where [ddr_index]: "PHY_UDQIOM = 427"
definition PHY_DXSR :: nat where [ddr_index]: "PHY_DXSR = 428"
definition PHY_DQSNRES :: nat where [ddr_index]: "PHY_DQSNRES = 429"
definition PHY_DQSRES :: nat where [ddr_index]: "PHY_DQSRES = 430"
definition PHY_CRDEN :: nat where [ddr_index]: "PHY_CRDEN = 431"
definition PHY_PREOEX :: nat where [ddr_index]: "PHY_PREOEX = 433"
definition PHY_IOAG :: nat where [ddr_index]: "PHY_IOAG = 434"
definition PHY_IOLB :: nat where [ddr_index]: "PHY_IOLB = 435"
definition PHY_RDBI :: nat where [ddr_index]: "PHY_RDBI = 437"
definition PHY_WDBI :: nat where [ddr_index]: "PHY_WDBI = 438"
definition PHY_PRFBYP :: nat where [ddr_index]: "PHY_PRFBYP = 439"
definition PHY_RDMODE :: nat where [ddr_index]: "PHY_RDMODE = 440"
definition PHY_DISRST :: nat where [ddr_index]: "PHY_DISRST = 441"
definition PHY_DQSGLB :: nat where [ddr_index]: "PHY_DQSGLB = 442"
definition PHY_DXDACRANGE :: nat where [ddr_index]: "PHY_DXDACRANGE = 443"
definition PHY_DXVREFIOM :: nat where [ddr_index]: "PHY_DXVREFIOM = 444"
definition PHY_DXIOM :: nat where [ddr_index]: "PHY_DXIOM = 445"
definition PHY_DXTXM :: nat where [ddr_index]: "PHY_DXTXM = 446"
definition PHY_DXRXM :: nat where [ddr_index]: "PHY_DXRXM = 447"
definition PHY_R060 :: nat where [ddr_index]: "PHY_R060 = 470"
definition PHY_R061 :: nat where [ddr_index]: "PHY_R061 = 471"
definition PHY_R062 :: nat where [ddr_index]: "PHY_R062 = 472"
definition PHY_R063 :: nat where [ddr_index]: "PHY_R063 = 473"
definition PHY_R064 :: nat where [ddr_index]: "PHY_R064 = 474"
definition PHY_R065 :: nat where [ddr_index]: "PHY_R065 = 475"
definition PHY_R066 :: nat where [ddr_index]: "PHY_R066 = 476"

section \<open>The module data\<close>

text \<open>The structures that the code lays over the bytes of the EEPROM: each field by its offset.\<close>

definition spd3_InfoSizeCrc :: "u8 list \<Rightarrow> u8" where [spd]: "spd3_InfoSizeCrc SpdData = SpdData ! 0"
definition spd3_MemType :: "u8 list \<Rightarrow> u8" where [spd]: "spd3_MemType SpdData = SpdData ! 2"
definition spd3_ModuleType :: "u8 list \<Rightarrow> u8" where [spd]: "spd3_ModuleType SpdData = SpdData ! 3"
definition spd3_DensityBanks :: "u8 list \<Rightarrow> u8" where [spd]: "spd3_DensityBanks SpdData = SpdData ! 4"
definition spd3_Addressing :: "u8 list \<Rightarrow> u8" where [spd]: "spd3_Addressing SpdData = SpdData ! 5"
definition spd3_Organization :: "u8 list \<Rightarrow> u8" where [spd]: "spd3_Organization SpdData = SpdData ! 7"
definition spd3_BusWidth :: "u8 list \<Rightarrow> u8" where [spd]: "spd3_BusWidth SpdData = SpdData ! 8"
definition spd3_FtbDiv :: "u8 list \<Rightarrow> u8" where [spd]: "spd3_FtbDiv SpdData = SpdData ! 9"
definition spd3_MtbDividend :: "u8 list \<Rightarrow> u8" where [spd]: "spd3_MtbDividend SpdData = SpdData ! 10"
definition spd3_MtbDivisor :: "u8 list \<Rightarrow> u8" where [spd]: "spd3_MtbDivisor SpdData = SpdData ! 11"
definition spd3_TckMin :: "u8 list \<Rightarrow> u8" where [spd]: "spd3_TckMin SpdData = SpdData ! 12"
definition spd3_CaslatLsb :: "u8 list \<Rightarrow> u8" where [spd]: "spd3_CaslatLsb SpdData = SpdData ! 14"
definition spd3_CaslatMsb :: "u8 list \<Rightarrow> u8" where [spd]: "spd3_CaslatMsb SpdData = SpdData ! 15"
definition spd3_TaaMin :: "u8 list \<Rightarrow> u8" where [spd]: "spd3_TaaMin SpdData = SpdData ! 16"
definition spd3_TwrMin :: "u8 list \<Rightarrow> u8" where [spd]: "spd3_TwrMin SpdData = SpdData ! 17"
definition spd3_TrcdMin :: "u8 list \<Rightarrow> u8" where [spd]: "spd3_TrcdMin SpdData = SpdData ! 18"
definition spd3_TrrdMin :: "u8 list \<Rightarrow> u8" where [spd]: "spd3_TrrdMin SpdData = SpdData ! 19"
definition spd3_TrpMin :: "u8 list \<Rightarrow> u8" where [spd]: "spd3_TrpMin SpdData = SpdData ! 20"
definition spd3_TrasTrcExt :: "u8 list \<Rightarrow> u8" where [spd]: "spd3_TrasTrcExt SpdData = SpdData ! 21"
definition spd3_TrasMinLsb :: "u8 list \<Rightarrow> u8" where [spd]: "spd3_TrasMinLsb SpdData = SpdData ! 22"
definition spd3_TrcMinLsb :: "u8 list \<Rightarrow> u8" where [spd]: "spd3_TrcMinLsb SpdData = SpdData ! 23"
definition spd3_TrfcMinLsb :: "u8 list \<Rightarrow> u8" where [spd]: "spd3_TrfcMinLsb SpdData = SpdData ! 24"
definition spd3_TrfcMinMsb :: "u8 list \<Rightarrow> u8" where [spd]: "spd3_TrfcMinMsb SpdData = SpdData ! 25"
definition spd3_TwtrMin :: "u8 list \<Rightarrow> u8" where [spd]: "spd3_TwtrMin SpdData = SpdData ! 26"
definition spd3_TrtpMin :: "u8 list \<Rightarrow> u8" where [spd]: "spd3_TrtpMin SpdData = SpdData ! 27"
definition spd3_TfawMsb :: "u8 list \<Rightarrow> u8" where [spd]: "spd3_TfawMsb SpdData = SpdData ! 28"
definition spd3_TfawMin :: "u8 list \<Rightarrow> u8" where [spd]: "spd3_TfawMin SpdData = SpdData ! 29"
definition spd3_ThermRefOpt :: "u8 list \<Rightarrow> u8" where [spd]: "spd3_ThermRefOpt SpdData = SpdData ! 31"
definition spd3_FineTckMin :: "u8 list \<Rightarrow> u8" where [spd]: "spd3_FineTckMin SpdData = SpdData ! 34"
definition spd3_FineTaaMin :: "u8 list \<Rightarrow> u8" where [spd]: "spd3_FineTaaMin SpdData = SpdData ! 35"
definition spd3_FineTrcdMin :: "u8 list \<Rightarrow> u8" where [spd]: "spd3_FineTrcdMin SpdData = SpdData ! 36"
definition spd3_FineTrpMin :: "u8 list \<Rightarrow> u8" where [spd]: "spd3_FineTrpMin SpdData = SpdData ! 37"
definition spd3_FineTrcMin :: "u8 list \<Rightarrow> u8" where [spd]: "spd3_FineTrcMin SpdData = SpdData ! 38"
definition spd3_AddrMapping :: "u8 list \<Rightarrow> u8" where [spd]: "spd3_AddrMapping SpdData = SpdData ! 63"
definition spd3_Mpart :: "u8 list \<Rightarrow> u8 list" where [spd]: "spd3_Mpart SpdData = take 18 (drop 128 SpdData)"
definition spd4_InfoSizeCrc :: "u8 list \<Rightarrow> u8" where [spd]: "spd4_InfoSizeCrc SpdData = SpdData ! 0"
definition spd4_MemType :: "u8 list \<Rightarrow> u8" where [spd]: "spd4_MemType SpdData = SpdData ! 2"
definition spd4_ModuleType :: "u8 list \<Rightarrow> u8" where [spd]: "spd4_ModuleType SpdData = SpdData ! 3"
definition spd4_DensityBanks :: "u8 list \<Rightarrow> u8" where [spd]: "spd4_DensityBanks SpdData = SpdData ! 4"
definition spd4_Addressing :: "u8 list \<Rightarrow> u8" where [spd]: "spd4_Addressing SpdData = SpdData ! 5"
definition spd4_PackageType :: "u8 list \<Rightarrow> u8" where [spd]: "spd4_PackageType SpdData = SpdData ! 6"
definition spd4_Organization :: "u8 list \<Rightarrow> u8" where [spd]: "spd4_Organization SpdData = SpdData ! 12"
definition spd4_BusWidth :: "u8 list \<Rightarrow> u8" where [spd]: "spd4_BusWidth SpdData = SpdData ! 13"
definition spd4_Timebases :: "u8 list \<Rightarrow> u8" where [spd]: "spd4_Timebases SpdData = SpdData ! 17"
definition spd4_TckMin :: "u8 list \<Rightarrow> u8" where [spd]: "spd4_TckMin SpdData = SpdData ! 18"
definition spd4_TckMax :: "u8 list \<Rightarrow> u8" where [spd]: "spd4_TckMax SpdData = SpdData ! 19"
definition spd4_CaslatB1 :: "u8 list \<Rightarrow> u8" where [spd]: "spd4_CaslatB1 SpdData = SpdData ! 20"
definition spd4_CaslatB2 :: "u8 list \<Rightarrow> u8" where [spd]: "spd4_CaslatB2 SpdData = SpdData ! 21"
definition spd4_CaslatB3 :: "u8 list \<Rightarrow> u8" where [spd]: "spd4_CaslatB3 SpdData = SpdData ! 22"
definition spd4_TaaMin :: "u8 list \<Rightarrow> u8" where [spd]: "spd4_TaaMin SpdData = SpdData ! 24"
definition spd4_TrcdMin :: "u8 list \<Rightarrow> u8" where [spd]: "spd4_TrcdMin SpdData = SpdData ! 25"
definition spd4_TrpMin :: "u8 list \<Rightarrow> u8" where [spd]: "spd4_TrpMin SpdData = SpdData ! 26"
definition spd4_TrasTrcExt :: "u8 list \<Rightarrow> u8" where [spd]: "spd4_TrasTrcExt SpdData = SpdData ! 27"
definition spd4_TrasMinLsb :: "u8 list \<Rightarrow> u8" where [spd]: "spd4_TrasMinLsb SpdData = SpdData ! 28"
definition spd4_TrcMinLsb :: "u8 list \<Rightarrow> u8" where [spd]: "spd4_TrcMinLsb SpdData = SpdData ! 29"
definition spd4_Trfc1MinLsb :: "u8 list \<Rightarrow> u8" where [spd]: "spd4_Trfc1MinLsb SpdData = SpdData ! 30"
definition spd4_Trfc1MinMsb :: "u8 list \<Rightarrow> u8" where [spd]: "spd4_Trfc1MinMsb SpdData = SpdData ! 31"
definition spd4_Trfc2MinLsb :: "u8 list \<Rightarrow> u8" where [spd]: "spd4_Trfc2MinLsb SpdData = SpdData ! 32"
definition spd4_Trfc2MinMsb :: "u8 list \<Rightarrow> u8" where [spd]: "spd4_Trfc2MinMsb SpdData = SpdData ! 33"
definition spd4_Trfc4MinLsb :: "u8 list \<Rightarrow> u8" where [spd]: "spd4_Trfc4MinLsb SpdData = SpdData ! 34"
definition spd4_Trfc4MinMsb :: "u8 list \<Rightarrow> u8" where [spd]: "spd4_Trfc4MinMsb SpdData = SpdData ! 35"
definition spd4_TfawMsb :: "u8 list \<Rightarrow> u8" where [spd]: "spd4_TfawMsb SpdData = SpdData ! 36"
definition spd4_TfawMin :: "u8 list \<Rightarrow> u8" where [spd]: "spd4_TfawMin SpdData = SpdData ! 37"
definition spd4_TrrdsMin :: "u8 list \<Rightarrow> u8" where [spd]: "spd4_TrrdsMin SpdData = SpdData ! 38"
definition spd4_TrrdlMin :: "u8 list \<Rightarrow> u8" where [spd]: "spd4_TrrdlMin SpdData = SpdData ! 39"
definition spd4_TccdlMin :: "u8 list \<Rightarrow> u8" where [spd]: "spd4_TccdlMin SpdData = SpdData ! 40"
definition spd4_FineTccdlMin :: "u8 list \<Rightarrow> u8" where [spd]: "spd4_FineTccdlMin SpdData = SpdData ! 117"
definition spd4_FineTrrdlMin :: "u8 list \<Rightarrow> u8" where [spd]: "spd4_FineTrrdlMin SpdData = SpdData ! 118"
definition spd4_FineTrrdsMin :: "u8 list \<Rightarrow> u8" where [spd]: "spd4_FineTrrdsMin SpdData = SpdData ! 119"
definition spd4_FineTrcMin :: "u8 list \<Rightarrow> u8" where [spd]: "spd4_FineTrcMin SpdData = SpdData ! 120"
definition spd4_FineTrpMin :: "u8 list \<Rightarrow> u8" where [spd]: "spd4_FineTrpMin SpdData = SpdData ! 121"
definition spd4_FineTrcdMin :: "u8 list \<Rightarrow> u8" where [spd]: "spd4_FineTrcdMin SpdData = SpdData ! 122"
definition spd4_FineTaaMin :: "u8 list \<Rightarrow> u8" where [spd]: "spd4_FineTaaMin SpdData = SpdData ! 123"
definition spd4_FineTckMax :: "u8 list \<Rightarrow> u8" where [spd]: "spd4_FineTckMax SpdData = SpdData ! 124"
definition spd4_FineTckMin :: "u8 list \<Rightarrow> u8" where [spd]: "spd4_FineTckMin SpdData = SpdData ! 125"
definition spd4_AddrMapping :: "u8 list \<Rightarrow> u8" where [spd]: "spd4_AddrMapping SpdData = SpdData ! 131"
definition spd4_Mpart :: "u8 list \<Rightarrow> u8 list" where [spd]: "spd4_Mpart SpdData = take 20 (drop 329 SpdData)"
definition spdl_InfoSizeCrc :: "u8 list \<Rightarrow> u8" where [spd]: "spdl_InfoSizeCrc SpdData = SpdData ! 0"
definition spdl_MemType :: "u8 list \<Rightarrow> u8" where [spd]: "spdl_MemType SpdData = SpdData ! 2"
definition spdl_DensityBanks :: "u8 list \<Rightarrow> u8" where [spd]: "spdl_DensityBanks SpdData = SpdData ! 4"
definition spdl_Addressing :: "u8 list \<Rightarrow> u8" where [spd]: "spdl_Addressing SpdData = SpdData ! 5"
definition spdl_PackageType :: "u8 list \<Rightarrow> u8" where [spd]: "spdl_PackageType SpdData = SpdData ! 6"
definition spdl_Organization :: "u8 list \<Rightarrow> u8" where [spd]: "spdl_Organization SpdData = SpdData ! 12"
definition spdl_BusWidth :: "u8 list \<Rightarrow> u8" where [spd]: "spdl_BusWidth SpdData = SpdData ! 13"
definition spdl_Timebases :: "u8 list \<Rightarrow> u8" where [spd]: "spdl_Timebases SpdData = SpdData ! 17"
definition spdl_TckMin :: "u8 list \<Rightarrow> u8" where [spd]: "spdl_TckMin SpdData = SpdData ! 18"
definition spdl_TckMax :: "u8 list \<Rightarrow> u8" where [spd]: "spdl_TckMax SpdData = SpdData ! 19"
definition spdl_CaslatB1 :: "u8 list \<Rightarrow> u8" where [spd]: "spdl_CaslatB1 SpdData = SpdData ! 20"
definition spdl_CaslatB2 :: "u8 list \<Rightarrow> u8" where [spd]: "spdl_CaslatB2 SpdData = SpdData ! 21"
definition spdl_CaslatB3 :: "u8 list \<Rightarrow> u8" where [spd]: "spdl_CaslatB3 SpdData = SpdData ! 22"
definition spdl_TaaMin :: "u8 list \<Rightarrow> u8" where [spd]: "spdl_TaaMin SpdData = SpdData ! 24"
definition spdl_TrcdMin :: "u8 list \<Rightarrow> u8" where [spd]: "spdl_TrcdMin SpdData = SpdData ! 26"
definition spdl_TrpabMin :: "u8 list \<Rightarrow> u8" where [spd]: "spdl_TrpabMin SpdData = SpdData ! 27"
definition spdl_TrppbMin :: "u8 list \<Rightarrow> u8" where [spd]: "spdl_TrppbMin SpdData = SpdData ! 28"
definition spdl_TrfcabMinLsb :: "u8 list \<Rightarrow> u8" where [spd]: "spdl_TrfcabMinLsb SpdData = SpdData ! 29"
definition spdl_TrfcabMinMsb :: "u8 list \<Rightarrow> u8" where [spd]: "spdl_TrfcabMinMsb SpdData = SpdData ! 30"
definition spdl_TrfcpbMinLsb :: "u8 list \<Rightarrow> u8" where [spd]: "spdl_TrfcpbMinLsb SpdData = SpdData ! 31"
definition spdl_TrfcpbMinMsb :: "u8 list \<Rightarrow> u8" where [spd]: "spdl_TrfcpbMinMsb SpdData = SpdData ! 32"
definition spdl_FineTrppbMin :: "u8 list \<Rightarrow> u8" where [spd]: "spdl_FineTrppbMin SpdData = SpdData ! 120"
definition spdl_FineTrpabMin :: "u8 list \<Rightarrow> u8" where [spd]: "spdl_FineTrpabMin SpdData = SpdData ! 121"
definition spdl_FineTrcdMin :: "u8 list \<Rightarrow> u8" where [spd]: "spdl_FineTrcdMin SpdData = SpdData ! 122"
definition spdl_FineTaaMin :: "u8 list \<Rightarrow> u8" where [spd]: "spdl_FineTaaMin SpdData = SpdData ! 123"
definition spdl_FineTckMax :: "u8 list \<Rightarrow> u8" where [spd]: "spdl_FineTckMax SpdData = SpdData ! 124"
definition spdl_FineTckMin :: "u8 list \<Rightarrow> u8" where [spd]: "spdl_FineTckMin SpdData = SpdData ! 125"
definition spdl_Mpart :: "u8 list \<Rightarrow> u8 list" where [spd]: "spdl_Mpart SpdData = take 20 (drop 329 SpdData)"

end
