(* ===== verification/Ddr_Float.thy ===== *)
theory Ddr_Float
  imports Complex_Main "HOL-Library.Log_Nat" Fsbl_Prelude
begin

text \<open>
  The floating point numbers of the code: \<open>float\<close> and \<open>double\<close> are the binary formats with 24 and 53 bits, in
  which every operation is the exact one followed by rounding to the nearest number, ties to even.  A finite
  number is the rational it denotes.  All numbers of the DDR code lie between \<open>2\<^sup>-\<^sup>4\<^sup>0\<close> and \<open>2\<^sup>4\<^sup>0\<close> (or their negatives)
  or are zero, and it divides by numbers only that are not negative: the limits of the exponents and the sign of
  a zero do not come up.
\<close>

datatype flt = Fin rat | PInf | MInf | NaN

text \<open>The exponent of a positive rational, and rounding to \<open>p\<close> bits.\<close>

definition expo :: "rat \<Rightarrow> int" where
  "expo x = (let (n, d) = quotient_of x; k = bitlen n - bitlen d in if 2 powi k \<le> x then k else k - 1)"

definition half_even :: "rat \<Rightarrow> int" where
  "half_even m = (let f = \<lfloor>m\<rfloor>; r = m - of_int f in if r < 1 / 2 \<or> r = 1 / 2 \<and> even f then f else f + 1)"

definition rnd :: "int \<Rightarrow> rat \<Rightarrow> rat" where
  "rnd p x = (if x \<le> 0 then 0 else let u = 2 powi (expo x - p + 1) in of_int (half_even (x / u)) * u)"

definition rnds :: "int \<Rightarrow> rat \<Rightarrow> rat" where
  "rnds p x = (if x < 0 then - rnd p (- x) else rnd p x)"

text \<open>The operations, with the precision of their result.\<close>

definition inf_of :: "rat \<Rightarrow> flt" where
  "inf_of x = (if x = 0 then NaN else if 0 < x then PInf else MInf)"

fun fneg :: "flt \<Rightarrow> flt" where
  "fneg (Fin x) = Fin (- x)" | "fneg PInf = MInf" | "fneg MInf = PInf" | "fneg NaN = NaN"

fun fdiv :: "int \<Rightarrow> flt \<Rightarrow> flt \<Rightarrow> flt" where
  "fdiv p (Fin x) (Fin y) = (if y \<noteq> 0 then Fin (rnds p (x / y)) else inf_of x)"
| "fdiv p (Fin x) PInf = Fin 0"
| "fdiv p (Fin x) MInf = Fin 0"
| "fdiv p PInf (Fin y) = (if y < 0 then MInf else PInf)"
| "fdiv p MInf (Fin y) = (if y < 0 then PInf else MInf)"
| "fdiv p _ _ = NaN"

fun fadd :: "int \<Rightarrow> flt \<Rightarrow> flt \<Rightarrow> flt" where
  "fadd p (Fin x) (Fin y) = Fin (rnds p (x + y))"
| "fadd p NaN _ = NaN" | "fadd p _ NaN = NaN"
| "fadd p (Fin x) b = b" | "fadd p a (Fin y) = a"
| "fadd p a b = (if a = b then a else NaN)"

definition fsub :: "int \<Rightarrow> flt \<Rightarrow> flt \<Rightarrow> flt" where
  "fsub p a b = fadd p a (fneg b)"

fun fmul :: "int \<Rightarrow> flt \<Rightarrow> flt \<Rightarrow> flt" where
  "fmul p (Fin x) (Fin y) = Fin (rnds p (x * y))"
| "fmul p NaN _ = NaN" | "fmul p _ NaN = NaN"
| "fmul p (Fin x) b = (if b = PInf then inf_of x else fneg (inf_of x))"
| "fmul p a (Fin y) = (if a = PInf then inf_of y else fneg (inf_of y))"
| "fmul p a b = (if a = b then PInf else MInf)"

text \<open>Conversions: of an unsigned and a signed number to a format, between the formats, and (truncating) to unsigned
  and signed integers; the last two are undefined outside of the range.\<close>

definition flt_of :: "int \<Rightarrow> nat \<Rightarrow> flt" where
  "flt_of p n = Fin (rnd p (of_nat n))"

definition flt_int :: "int \<Rightarrow> int \<Rightarrow> flt" where
  "flt_int p n = Fin (rnds p (of_int n))"

definition fcvt :: "int \<Rightarrow> flt \<Rightarrow> flt" where
  "fcvt p a = (case a of Fin x \<Rightarrow> Fin (rnds p x) | _ \<Rightarrow> a)"

definition ftrunc :: "nat \<Rightarrow> flt \<Rightarrow> nat option" where
  "ftrunc bound a = (case a of Fin x \<Rightarrow> if - 1 < x \<and> x < of_nat bound then Some (nat \<lfloor>x\<rfloor>) else None | _ \<Rightarrow> None)"

definition to_s32 :: "flt \<Rightarrow> int option" where
  "to_s32 a = (case a of Fin x \<Rightarrow> if - (2 ^ 31) - 1 < x \<and> x < 2 ^ 31 then Some (if x < 0 then \<lceil>x\<rceil> else \<lfloor>x\<rfloor>) else None | _ \<Rightarrow> None)"

text \<open>Comparisons, which are false for a NaN.\<close>

fun fle :: "flt \<Rightarrow> flt \<Rightarrow> bool" where
  "fle (Fin x) (Fin y) = (x \<le> y)"
| "fle NaN _ = False" | "fle _ NaN = False"
| "fle MInf _ = True" | "fle _ PInf = True"
| "fle _ _ = False"

definition flt_less :: "flt \<Rightarrow> flt \<Rightarrow> bool" where
  "flt_less a b = (fle a b \<and> \<not> fle b a)"

text \<open>\<open>XFsbl_Ceil\<close> and \<open>XFsbl_Round\<close> (\<open>xfsbl_misc.c\<close>); the argument is a \<open>float\<close>, the result a signed number in 32 bits.\<close>

definition XFsbl_Ceil :: "flt \<Rightarrow> u32 option" where
  "XFsbl_Ceil Num = (case to_s32 Num of
     None \<Rightarrow> None
   | Some Inum \<Rightarrow> Some (if Num \<noteq> flt_int 24 Inum then of_int Inum + 1 else of_int Inum))"

definition XFsbl_Round :: "flt \<Rightarrow> u32 option" where
  "XFsbl_Round Num = (case to_s32 Num of
     None \<Rightarrow> None
   | Some Inum \<Rightarrow> Some (if fle (fadd 53 (flt_int 24 Inum) (Fin (1 / 2))) Num then of_int Inum + 1 else of_int Inum))"

lemma expo_bounds:
  assumes "0 < x"
  shows "2 powi expo x \<le> x \<and> x < 2 powi (expo x + 1)"
proof -
  obtain n d where q: "quotient_of x = (n, d)" by (cases "quotient_of x")
  have d: "0 < d" using quotient_of_denom_pos [OF q] .
  have x: "x = of_int n / of_int d" using quotient_of_div [OF q] .
  have n: "0 < n" using assms d unfolding x by (simp add: zero_less_divide_iff)
  let ?k = "bitlen n - bitlen d"
  have bn: "2 powi (bitlen n - 1) \<le> (of_int n :: rat)" "(of_int n :: rat) < 2 powi bitlen n"
    and bd: "2 powi (bitlen d - 1) \<le> (of_int d :: rat)" "(of_int d :: rat) < 2 powi bitlen d"
  proof -
    have "2 powi (bitlen m - 1) \<le> (of_int m :: rat) \<and> (of_int m :: rat) < 2 powi bitlen m" if "0 < m" for m :: int
    proof -
      have b: "2 ^ nat (bitlen m - 1) \<le> m" "m < 2 ^ nat (bitlen m)" using bitlen_bounds [OF that] by auto
      have "1 \<le> bitlen m" using that by (simp add: bitlen_ge_iff_power)
      then have "(2 :: rat) powi (bitlen m - 1) = 2 ^ nat (bitlen m - 1)" "(2 :: rat) powi bitlen m = 2 ^ nat (bitlen m)"
        by (simp_all add: power_int_def)
      moreover have "(of_int (2 ^ nat (bitlen m - 1)) :: rat) \<le> of_int m" "(of_int m :: rat) < of_int (2 ^ nat (bitlen m))"
        using b by (simp_all only: of_int_le_iff of_int_less_iff)
      ultimately show ?thesis by simp
    qed
    from this [OF n] this [OF d] show "2 powi (bitlen n - 1) \<le> (of_int n :: rat)" "(of_int n :: rat) < 2 powi bitlen n"
      "2 powi (bitlen d - 1) \<le> (of_int d :: rat)" "(of_int d :: rat) < 2 powi bitlen d" by auto
  qed
  have dp: "(0 :: rat) < of_int d" using d by simp
  have up: "x < 2 powi (?k + 1)"
  proof -
    have "(of_int n :: rat) < 2 powi (?k + 1) * 2 powi (bitlen d - 1)"
      using bn(2) by (simp add: power_int_add [symmetric])
    also have "\<dots> \<le> 2 powi (?k + 1) * of_int d" using bd(1) by (simp add: mult_left_mono)
    finally show ?thesis unfolding x using dp by (simp add: divide_less_eq)
  qed
  have lo: "2 powi (?k - 1) \<le> x"
  proof -
    have "2 powi (?k - 1) * (of_int d :: rat) \<le> 2 powi (?k - 1) * 2 powi bitlen d" using bd(2) by (simp add: mult_left_mono)
    also have "\<dots> = 2 powi (bitlen n - 1)" by (simp add: power_int_add [symmetric])
    also have "\<dots> \<le> of_int n" by (rule bn(1))
    finally show ?thesis unfolding x using dp by (simp add: le_divide_eq)
  qed
  show ?thesis using up lo by (auto simp: expo_def q Let_def)
qed

lemma half_even_int [simp]: "half_even (of_int k) = k"
  by (simp add: half_even_def)

lemma half_even_bounds: "\<lfloor>m\<rfloor> \<le> half_even m" "half_even m \<le> \<lfloor>m\<rfloor> + 1"
  by (simp_all add: half_even_def Let_def)

lemma half_even_mono:
  assumes "m \<le> m'"
  shows "half_even m \<le> half_even m'"
proof (cases "\<lfloor>m\<rfloor> = \<lfloor>m'\<rfloor>")
  case True
  then show ?thesis using assms by (auto simp: half_even_def Let_def)
next
  case False
  then have "\<lfloor>m\<rfloor> + 1 \<le> \<lfloor>m'\<rfloor>" using floor_mono [OF assms] by simp
  with half_even_bounds [of m] half_even_bounds [of m'] show ?thesis by simp
qed

lemma scaled_bounds:
  assumes "0 < x"
  shows "2 powi (p - 1) \<le> x / 2 powi (expo x - p + 1)" "x / 2 powi (expo x - p + 1) < 2 powi p"
proof -
  have "2 powi (p - 1) * 2 powi (expo x - p + 1) = (2 :: rat) powi expo x" "2 powi p * 2 powi (expo x - p + 1) = (2 :: rat) powi (expo x + 1)"
    by (simp_all add: power_int_add [symmetric])
  then show "2 powi (p - 1) \<le> x / 2 powi (expo x - p + 1)" "x / 2 powi (expo x - p + 1) < 2 powi p"
    using expo_bounds [OF assms] by (simp_all add: le_divide_eq divide_less_eq)
qed

lemma rnd_range:
  assumes "0 < x" and "1 \<le> p"
  shows "2 powi expo x \<le> rnd p x" "rnd p x \<le> 2 powi (expo x + 1)"
proof -
  let ?u = "(2 :: rat) powi (expo x - p + 1)" and ?m = "x / 2 powi (expo x - p + 1)"
  have pow: "(2 :: rat) powi (p - 1) = of_int (2 ^ nat (p - 1))" "(2 :: rat) powi p = of_int (2 ^ nat p)"
    using assms(2) by (simp_all add: power_int_def)
  have "half_even (of_int (2 ^ nat (p - 1))) \<le> half_even ?m" "half_even ?m \<le> half_even (of_int (2 ^ nat p))"
    using scaled_bounds [OF assms(1), of p] unfolding pow by (auto intro: half_even_mono)
  then have "(of_int (2 ^ nat (p - 1)) :: rat) \<le> of_int (half_even ?m)" "(of_int (half_even ?m) :: rat) \<le> of_int (2 ^ nat p)"
    by (simp_all only: half_even_int of_int_le_iff)
  then have "2 powi (p - 1) * ?u \<le> of_int (half_even ?m) * ?u" "of_int (half_even ?m) * ?u \<le> 2 powi p * ?u"
    unfolding pow by (simp_all add: mult_right_mono)
  moreover have "2 powi (p - 1) * ?u = 2 powi expo x" "2 powi p * ?u = 2 powi (expo x + 1)"
    by (simp_all add: power_int_add [symmetric])
  ultimately show "2 powi expo x \<le> rnd p x" "rnd p x \<le> 2 powi (expo x + 1)"
    using assms(1) by (simp_all add: rnd_def Let_def)
qed

lemma expo_mono:
  assumes "0 < x" and "x \<le> y"
  shows "expo x \<le> expo y"
proof (rule ccontr)
  assume "\<not> expo x \<le> expo y"
  then have "(2 :: rat) powi (expo y + 1) \<le> 2 powi expo x" by (simp add: power_int_increasing)
  with expo_bounds [of x] expo_bounds [of y] assms show False by simp
qed

lemma rnd_mono:
  assumes "x \<le> y" and "1 \<le> p"
  shows "rnd p x \<le> rnd p y"
proof (cases "0 < x")
  case True
  then have y: "0 < y" using assms(1) by simp
  show ?thesis
  proof (cases "expo x = expo y")
    case True
    have "half_even (x / 2 powi (expo y - p + 1)) \<le> half_even (y / 2 powi (expo y - p + 1))"
      by (rule half_even_mono) (simp add: assms(1) divide_right_mono)
    then show ?thesis using \<open>0 < x\<close> y True by (simp add: rnd_def Let_def mult_right_mono)
  next
    case False
    then have "expo x + 1 \<le> expo y" using expo_mono [OF \<open>0 < x\<close> assms(1)] by simp
    then have "(2 :: rat) powi (expo x + 1) \<le> 2 powi expo y" by (simp add: power_int_increasing)
    with rnd_range [OF \<open>0 < x\<close> assms(2)] rnd_range [OF y assms(2)] show ?thesis by simp
  qed
next
  case False
  then show ?thesis using rnd_range [of y p] assms(2) by (cases "0 < y") (auto simp: rnd_def [of p x] rnd_def [of p y] intro: order_trans [rotated])
qed

text \<open>Numbers that the format has are not changed.\<close>

lemma rnd_exact:
  assumes "0 < k" and "k < 2 ^ nat p" and "0 \<le> p"
  shows "rnd p (of_int k * 2 powi j) = of_int k * 2 powi j"
proof -
  let ?x = "of_int k * (2 :: rat) powi j" and ?e = "expo (of_int k * 2 powi j)"
  have x: "0 < ?x" using assms(1) by simp
  have "(of_int k :: rat) < of_int (2 ^ nat p)" using assms(2) by (simp only: of_int_less_iff)
  then have "?x < 2 powi p * 2 powi j" using assms(3) by (simp add: power_int_def mult_strict_right_mono)
  then have "?x < 2 powi (p + j)" by (simp add: power_int_add)
  then have "(2 :: rat) powi ?e < 2 powi (p + j)" using expo_bounds [OF x] by (blast intro: le_less_trans)
  have e: "?e < p + j"
  proof (rule ccontr)
    assume "\<not> ?e < p + j"
    then have "(2 :: rat) powi (p + j) \<le> 2 powi ?e" by (intro power_int_increasing) simp_all
    with \<open>2 powi ?e < 2 powi (p + j)\<close> show False by simp
  qed
  have "?x / 2 powi (?e - p + 1) = of_int k * 2 powi (j - (?e - p + 1))" by (simp add: power_int_diff)
  also have "\<dots> = of_int (k * 2 ^ nat (j - (?e - p + 1)))" using e by (simp add: power_int_def)
  finally have m: "?x / 2 powi (?e - p + 1) = of_int (k * 2 ^ nat (j - (?e - p + 1)))" .
  have "rnd p ?x = ?x / 2 powi (?e - p + 1) * 2 powi (?e - p + 1)"
    using x unfolding rnd_def Let_def m half_even_int by simp
  then show ?thesis by simp
qed

lemma rnd_nat:
  assumes "n < 2 ^ nat p" and "0 \<le> p"
  shows "rnd p (of_nat n) = of_nat n"
proof (cases "n = 0")
  case False
  have "int n < 2 ^ nat p" using assms(1) by (simp only: of_nat_less_numeral_power_cancel_iff)
  moreover have "0 < int n" using False by linarith
  ultimately have "rnd p (of_int (int n) * 2 powi 0) = of_int (int n) * 2 powi 0" by (intro rnd_exact assms(2))
  then show ?thesis by (simp only: power_int_0_right mult_1_right of_int_of_nat_eq)
qed (simp add: rnd_def)

lemma rnd_Fract:
  assumes "0 < k" and "k < 2 ^ nat p" and "0 \<le> p"
  shows "rnd p (of_int k / 2 ^ j) = of_int k / 2 ^ j"
proof -
  have "(2 :: rat) powi (- int j) = 1 / 2 ^ j" by (simp add: power_int_minus divide_inverse)
  then show ?thesis using rnd_exact [OF assms, of "- int j"] by (simp only: times_divide_eq_right mult_1_right)
qed

text \<open>A quotient that is not too close to an integer stays between the integers around it.\<close>

lemma rnd_between:
  assumes "of_nat n + 1 / 2 ^ j \<le> x" and "x \<le> of_nat n + 1 - 1 / 2 ^ j" and "(n + 1) * 2 ^ j < 2 ^ nat p" and "1 \<le> p"
  shows "of_nat n + 1 / 2 ^ j \<le> rnd p x \<and> rnd p x \<le> of_nat n + 1 - 1 / 2 ^ j"
proof -
  have pj: "(0 :: rat) < 2 ^ j" by simp
  have lo: "of_nat n + 1 / 2 ^ j = (of_int (int n * 2 ^ j + 1) / 2 ^ j :: rat)" by (simp add: field_simps)
  have hi: "of_nat n + 1 - 1 / 2 ^ j = (of_int (int (n + 1) * 2 ^ j - 1) / 2 ^ j :: rat)" by (simp add: field_simps)
  have "int ((n + 1) * 2 ^ j) < 2 ^ nat p" using assms(3) by (simp only: of_nat_less_numeral_power_cancel_iff)
  then have small: "int (n + 1) * 2 ^ j < 2 ^ nat p" by (simp only: of_nat_mult of_nat_power of_nat_numeral)
  have one: "1 \<le> (2 :: int) ^ j" by simp
  have "0 \<le> int n * 2 ^ j" by simp
  then have l: "rnd p (of_nat n + 1 / 2 ^ j) = of_nat n + 1 / 2 ^ j"
    unfolding lo
  proof (intro rnd_Fract)
    show "int n * 2 ^ j + 1 < 2 ^ nat p" using small one unfolding of_nat_add distrib_right of_nat_1 mult_1_left by linarith
  qed (use assms(4) in simp_all)
  have h: "rnd p (of_nat n + 1 - 1 / 2 ^ j) = of_nat n + 1 - 1 / 2 ^ j" if "1 < (2 :: int) ^ j \<or> 0 < n"
    unfolding hi
  proof (intro rnd_Fract)
    have "int 1 * 2 ^ j \<le> int (n + 1) * 2 ^ j" by (intro mult_right_mono) simp_all
    then have "2 ^ j \<le> int (n + 1) * 2 ^ j" by (simp only: of_nat_1 mult_1_left)
    moreover have "1 < int (n + 1) * 2 ^ j" if "0 < n"
    proof -
      have "2 * 1 \<le> int (n + 1) * 2 ^ j" using that one by (intro mult_mono) simp_all
      then show ?thesis by simp
    qed
    ultimately show "0 < int (n + 1) * 2 ^ j - 1" using that by linarith
    show "int (n + 1) * 2 ^ j - 1 < 2 ^ nat p" using small by simp
  qed (use assms(4) in simp)
  show ?thesis
  proof (cases "1 < (2 :: int) ^ j \<or> 0 < n")
    case True
    then show ?thesis using rnd_mono [OF assms(1,4)] rnd_mono [OF assms(2,4)] l h by simp
  next
    case False
    then have "j = 0" using one_less_power [of "2 :: int" j] by auto
    with assms(1,2) have False by simp
    then show ?thesis ..
  qed
qed

lemma rnds_nonneg [simp]: "0 \<le> x \<Longrightarrow> rnds p x = rnd p x"
  by (simp add: rnds_def)

lemma XFsbl_Ceil_between:
  assumes "of_nat n < x" and "x < of_nat n + 1" and "n < 2 ^ 24"
  shows "XFsbl_Ceil (Fin x) = Some (of_nat n + 1)"
proof -
  have f: "\<lfloor>x\<rfloor> = int n" using assms(1,2) by (simp add: floor_eq_iff)
  have "of_nat n < (of_nat (2 ^ 24) :: rat)" using assms(3) by (simp only: of_nat_less_iff)
  moreover have "0 < x" using assms(1) by (rule le_less_trans [rotated]) simp
  ultimately show ?thesis using assms rnd_nat [of n 24] f by (simp add: XFsbl_Ceil_def to_s32_def flt_int_def)
qed

lemma XFsbl_Ceil_nat: "n < 2 ^ 24 \<Longrightarrow> XFsbl_Ceil (Fin (of_nat n)) = Some (of_nat n)"
proof -
  assume n: "n < 2 ^ 24"
  then have "of_nat n < (of_nat (2 ^ 24) :: rat)" by (simp only: of_nat_less_iff)
  then show ?thesis using n rnd_nat [of n 24] by (simp add: XFsbl_Ceil_def to_s32_def flt_int_def)
qed

text \<open>Integers as operands of floating-point operations, and the macros \<open>XFSBL_MAX\<close>, \<open>XFSBL_MIN\<close> on such operands.\<close>

abbreviation dbl :: "u32 \<Rightarrow> flt" where "dbl x \<equiv> flt_of 53 (unat x)"
abbreviation sgl :: "u32 \<Rightarrow> flt" where "sgl x \<equiv> flt_of 24 (unat x)"
abbreviation dbl_s32 :: "u32 \<Rightarrow> flt" where "dbl_s32 x \<equiv> flt_int 53 (sint x)"
abbreviation sgl_s32 :: "u32 \<Rightarrow> flt" where "sgl_s32 x \<equiv> flt_int 24 (sint x)"

definition fmax :: "flt \<Rightarrow> flt \<Rightarrow> flt" where "fmax a b = (if flt_less b a then a else b)"
definition fmin :: "flt \<Rightarrow> flt \<Rightarrow> flt" where "fmin a b = (if flt_less a b then a else b)"

end
