(* ===== verification/Ddr_Dimm.thy ===== *)
theory Ddr_Dimm
  imports Ddr_Hw Ddr_Float Fsbl_Machine "HOL-Library.Signed_Division" "HOL-Library.Monad_Syntax"
begin

text \<open>
  The parameters of a memory module from the bytes of its EEPROM (\<open>xfsbl_ddr_init.c\<close>).  A function returns \<open>None\<close>
  where the behaviour of the C code is undefined: a shift by the width of the type or more, a division of
  integers by zero, a conversion of an infinite number.
\<close>

section \<open>State\<close>

text \<open>The settings of the design (\<open>XPAR_PSU_DDRC_0_\<dots>\<close> of the generated \<open>xparameters.h\<close>); \<open>uninit\<close> is what a local
  variable that the code does not initialise happens to hold, \<open>dimm_ddr4_only\<close> says that the code is built for the ZCU102 or
  the ZCU106 board, and \<open>cfg_ddr_sr\<close> that it is built with \<open>XFSBL_ENABLE_DDR_SR\<close>.\<close>

record ddr_config =
  dimm_ddr4_only :: bool
  cfg_ddr_sr :: bool
  XPAR_PSU_DDRC_0_VIDEO_BUFFER_SIZE :: u32
  XPAR_PSU_DDRC_0_BRC_MAPPING :: u32
  XPAR_PSU_DDRC_0_DDR4_ADDR_MAPPING :: u32
  XPAR_PSU_DDRC_0_DDR_ADDRESS_MIRRORING :: u32
  XPAR_PSU_DDRC_0_DDR_DATA_MASK_AND_DBI :: u32
  XPAR_PSU_DDRC_0_HAS_ECC :: u32
  XPAR_PSU_DDRC_0_DDR_2ND_CLOCK :: u32
  XPAR_PSU_DDRC_0_DDR_PARITY :: u32
  XPAR_PSU_DDRC_0_DDR_POWER_DOWN_ENABLE :: u32
  XPAR_PSU_DDRC_0_CLOCK_STOP :: u32
  XPAR_PSU_DDRC_0_DDR_LOW_POWER_AUTO_SELF_REFRESH :: u32
  XPAR_PSU_DDRC_0_DDR_TEMP_CONTROLLED_REFRESH :: u32
  XPAR_PSU_DDRC_0_DDR_MAX_OPERATING_TEMPARATURE :: u32
  XPAR_PSU_DDRC_0_DDR_FINE_GRANULARITY_REFRESH_MODE :: u32
  XPAR_PSU_DDRC_0_DDR_SELF_REFRESH_ABORT :: u32
  uninit :: u32

text \<open>The structure \<open>XFsbl_DimmParams\<close>, in parts: organisation, timing, options, and what only the register values
  depend on.  Fields that the code neither sets nor reads are left out.\<close>

record dimm_organisation =
  Mpart :: "u8 list"
  MemType :: u32
  NRanks :: u32
  RankDensity :: u64
  Capacity :: u64
  BusWidth :: u32
  EccBusWidth :: u32
  UDimm :: u32
  RDimm :: u32
  SpeedBin :: u32
  DramWidth :: u32
  NumRankAddr :: u32
  NumRowAddr :: u32
  NumColAddr :: u32
  NumBankAddr :: u32
  NumBgAddr :: u32
  NBanksPerSdramDevice :: u32
  BurstLength :: u32
  RowDensity :: u32
  AddrMirror :: u32

record dimm_timing = dimm_organisation +
  MtbPs :: u32
  Ftb10thPs :: u32
  TaaPs :: u32
  TFawPs :: u32
  TckminXPs :: u32
  TckmaxPs :: u32
  ClockPeriod :: flt
  FreqMhz :: flt
  CaslatX :: u32
  CasLatency :: u32
  CasWriteLatency :: u32
  AdditiveLatency :: u32
  WriteLatency :: u32
  ReadLatency :: u32
  TRcdPs :: u32
  TRpPs :: u32
  TrpabPs :: u32
  TrppbPs :: u32
  TRasPs :: u32
  TRfc1Ps :: u32
  TRfc2Ps :: u32
  TRfc4Ps :: u32
  TRfcAbPs :: u32
  TRfcPbPs :: u32
  TRrdsPs :: u32
  TRrdlPs :: u32
  TCcdlPs :: u32
  TwrPs :: u32
  TRfcPs :: u32
  TRrdPs :: u32
  TwtrPs :: u32
  TrtpPs :: u32
  TRcPs :: u32
  TRefi :: u32
  TXp :: flt
  TMod :: flt
  TWtr :: u32

record dimm_options = dimm_timing +
  Vref :: u32
  Ecc :: u32
  TRefMode :: u32
  TRefRange :: u32
  RdDbi :: u32
  WrDbi :: u32
  DataMask :: u32
  Parity :: u32
  ParityLatency :: u32
  PwrDnEn :: u32
  PerBankRefresh :: u32
  Fgrm :: u32
  LpAsr :: u32
  SelfRefAbort :: u32
  En2ndClk :: u32
  ClockStopEn :: u32
  RdbiWrkAround :: u32
  UseSetB :: u32
  Lp4NoOdt :: u32
  Lpddr4Hynix :: u32
  Lpddr4Samsung :: u32
  WdqsOn :: u32
  WdqsOff :: u32
  CtlClkFreq :: u32
  PllByp :: u32
  Zc1656 :: u32
  HasEccComp :: u32
  DisOpInv :: u32
  Slowboot :: u32
  Lp4catrain :: u32
  DeskewTrn :: u32
  Ddp :: u32
  Zc1650 :: u32
  GateExt :: u32
  RdDqsCenter :: u32
  EnOpInvAfterTrain :: u32
  WrDrift :: u32
  RdDrift :: u32

record dimm_settings = dimm_options +
  PhyDbiMode :: u32
  EccScrub :: u32
  EccPoison :: u32
  En2tTimingMode :: u32
  Geardown :: u32
  MaxPwrSavEn :: u32
  CalModeEn :: u32
  DeepPwrDnEn :: u32
  Crc :: u32
  WrPreamble :: u32
  RdPreamble :: u32
  RdPostamble :: u32
  WrPostamble :: u32
  DisDfiLpSr :: u32
  DisDfiLpPd :: u32
  DisDfiLpMpsm :: u32
  FreqB :: u32
  NoGateExtNoTrain :: u32
  Preoex :: u32
  DerateIntD :: u32
  HostOdt :: u32
  HostDrv :: u32
  DramOdt :: u32
  DramDrv :: u32
  DramCaOdt :: u32
  PhyClkGate :: u32
  NoRetry :: u32

record XFsbl_DimmParams = dimm_settings +
  LprNumEntries :: u32
  Mr :: u32
  Emr :: u32
  Emr2 :: u32
  Emr3 :: u32
  Mr4 :: u32
  Mr5 :: u32
  Mr6 :: u32
  Dqmap03 :: u32
  Dqmap47 :: u32
  Dqmap811 :: u32
  Dqmap1215 :: u32
  Dqmap1619 :: u32
  Dqmap2023 :: u32
  Dqmap2427 :: u32
  Dqmap2831 :: u32
  Dqmap3235 :: u32
  Dqmap3639 :: u32
  Dqmap4043 :: u32
  Dqmap4447 :: u32
  Dqmap4851 :: u32
  Dqmap5255 :: u32
  Dqmap5659 :: u32
  Dqmap6063 :: u32
  Dqmap6467 :: u32
  Dqmap6871 :: u32

record DdrcInitData =
  AddrMapRowBit :: "u32 list"
  AddrMapColBit :: "u32 list"
  AddrMapBankBit :: "u32 list"
  AddrMapBgBit :: "u32 list"
  AddrMapCsBit0 :: u32
  AddrMapRowBits2To10 :: u32
  PDimm :: XFsbl_DimmParams

text \<open>The local variable of \<open>XFsbl_DdrInit\<close>, whose initialiser sets every member to zero.\<close>

definition dimm_zero :: XFsbl_DimmParams where
  "dimm_zero = \<lparr>Mpart = replicate 19 0, MemType = 0, NRanks = 0, RankDensity = 0, Capacity = 0, BusWidth = 0, EccBusWidth = 0,
     UDimm = 0, RDimm = 0, SpeedBin = 0, DramWidth = 0, NumRankAddr = 0, NumRowAddr = 0, NumColAddr = 0, NumBankAddr = 0,
     NumBgAddr = 0, NBanksPerSdramDevice = 0, BurstLength = 0, RowDensity = 0, AddrMirror = 0,
     MtbPs = 0, Ftb10thPs = 0, TaaPs = 0, TFawPs = 0, TckminXPs = 0, TckmaxPs = 0, ClockPeriod = Fin 0, FreqMhz = Fin 0,
     CaslatX = 0, CasLatency = 0, CasWriteLatency = 0, AdditiveLatency = 0, WriteLatency = 0, ReadLatency = 0,
     TRcdPs = 0, TRpPs = 0, TrpabPs = 0, TrppbPs = 0, TRasPs = 0, TRfc1Ps = 0, TRfc2Ps = 0, TRfc4Ps = 0,
     TRfcAbPs = 0, TRfcPbPs = 0, TRrdsPs = 0, TRrdlPs = 0, TCcdlPs = 0, TwrPs = 0, TRfcPs = 0, TRrdPs = 0,
     TwtrPs = 0, TrtpPs = 0, TRcPs = 0, TRefi = 0, TXp = Fin 0, TMod = Fin 0, TWtr = 0,
     Vref = 0, Ecc = 0, TRefMode = 0, TRefRange = 0, RdDbi = 0, WrDbi = 0, DataMask = 0, Parity = 0, ParityLatency = 0,
     PwrDnEn = 0, PerBankRefresh = 0, Fgrm = 0, LpAsr = 0, SelfRefAbort = 0, En2ndClk = 0, ClockStopEn = 0, RdbiWrkAround = 0,
     UseSetB = 0, Lp4NoOdt = 0, Lpddr4Hynix = 0, Lpddr4Samsung = 0, WdqsOn = 0, WdqsOff = 0, CtlClkFreq = 0,
     PllByp = 0, Zc1656 = 0, HasEccComp = 0, DisOpInv = 0, Slowboot = 0, Lp4catrain = 0, DeskewTrn = 0, Ddp = 0,
     Zc1650 = 0, GateExt = 0, RdDqsCenter = 0, EnOpInvAfterTrain = 0, WrDrift = 0, RdDrift = 0,
     PhyDbiMode = 0, EccScrub = 0, EccPoison = 0, En2tTimingMode = 0, Geardown = 0, MaxPwrSavEn = 0, CalModeEn = 0,
     DeepPwrDnEn = 0, Crc = 0, WrPreamble = 0, RdPreamble = 0, RdPostamble = 0, WrPostamble = 0, DisDfiLpSr = 0,
     DisDfiLpPd = 0, DisDfiLpMpsm = 0, FreqB = 0, NoGateExtNoTrain = 0, Preoex = 0, DerateIntD = 0, HostOdt = 0,
     HostDrv = 0, DramOdt = 0, DramDrv = 0, DramCaOdt = 0, PhyClkGate = 0, NoRetry = 0, LprNumEntries = 0, Mr = 0,
     Emr = 0, Emr2 = 0, Emr3 = 0, Mr4 = 0, Mr5 = 0, Mr6 = 0, Dqmap03 = 0, Dqmap47 = 0, Dqmap811 = 0, Dqmap1215 = 0,
     Dqmap1619 = 0, Dqmap2023 = 0, Dqmap2427 = 0, Dqmap2831 = 0, Dqmap3235 = 0, Dqmap3639 = 0, Dqmap4043 = 0,
     Dqmap4447 = 0, Dqmap4851 = 0, Dqmap5255 = 0, Dqmap5659 = 0, Dqmap6063 = 0, Dqmap6467 = 0, Dqmap6871 = 0\<rparr>"

definition DdrData :: DdrcInitData where
  "DdrData = \<lparr>AddrMapRowBit = replicate 18 0, AddrMapColBit = replicate 12 0, AddrMapBankBit = replicate 3 0,
     AddrMapBgBit = replicate 2 0, AddrMapCsBit0 = 0, AddrMapRowBits2To10 = 0, PDimm = dimm_zero\<rparr>"

end
