(* ===== verification/Ddr_Spd.thy ===== *)
theory Ddr_Spd
  imports Ddr_Dimm
begin

section \<open>Sizes\<close>

function GetLog2_loop :: "u32 \<Rightarrow> u32 \<Rightarrow> u32" where
  "GetLog2_loop RVal XVal = (if XVal = 1 \<or> XVal = 0 then RVal else GetLog2_loop (RVal + 1) (drop_bit 1 XVal))"
  by auto
termination
proof (relation "measure (\<lambda>(RVal, XVal). unat XVal)")
  fix RVal XVal :: u32 assume "\<not> (XVal = 1 \<or> XVal = 0)"
  then have "0 < unat XVal" by (simp add: unat_gt_0)
  then show "((RVal + 1, drop_bit 1 XVal), RVal, XVal) \<in> measure (\<lambda>(RVal, XVal). unat XVal)"
    by (simp add: drop_bit_eq_div unat_div)
qed simp

definition XFsbl_GetLog2 :: "u32 \<Rightarrow> u32" where
  "XFsbl_GetLog2 XVal = (if XVal = 0 then 0 else GetLog2_loop 0 XVal)"

text \<open>\<open>1ULL << e\<close>\<close>

definition shift_one :: "u32 \<Rightarrow> u64 option" where
  "shift_one e = (if e < 64 then Some (push_bit (unat e) 1) else None)"

definition NbitPrimaryBusWidth :: "u8 \<Rightarrow> u32" where
  "NbitPrimaryBusWidth b = (if ucast b AND 0x7 < (4 :: u32) then (ucast b AND 0x7) + 3 else 0)"

definition NbitSdramWidth :: "u8 \<Rightarrow> u32" where
  "NbitSdramWidth b = (if ucast b AND 0x7 < (4 :: u32) then (ucast b AND 0x7) + 2 else 0)"

definition DieCount :: "u8 \<Rightarrow> u32" where
  "DieCount b = (if ucast b AND 0x3 = (2 :: u32) then drop_bit 4 (ucast b) AND 0x7 else 0)"

definition XFsbl_ComputeDdr4RankSize :: "u8 list \<Rightarrow> u64 option" where
  "XFsbl_ComputeDdr4RankSize SpdData =
     (let NbitDdramCapBsize = (if ucast (spd4_DensityBanks SpdData) AND 0xF \<le> (7 :: u32) then (ucast (spd4_DensityBanks SpdData) AND 0xF) + 28 else 0)
      in shift_one (NbitDdramCapBsize - 3 + NbitPrimaryBusWidth (spd4_BusWidth SpdData) - NbitSdramWidth (spd4_Organization SpdData)
           + DieCount (spd4_PackageType SpdData)))"

definition XFsbl_ComputeDdr3RankSize :: "u8 list \<Rightarrow> u64 option" where
  "XFsbl_ComputeDdr3RankSize SpdData =
     (let NbitDdramCapBsize = (if ucast (spd3_DensityBanks SpdData) AND 0xF < (7 :: u32) then (ucast (spd3_DensityBanks SpdData) AND 0xF) + 28 else 0)
      in shift_one (NbitDdramCapBsize - 3 + NbitPrimaryBusWidth (spd3_BusWidth SpdData) - NbitSdramWidth (spd3_Organization SpdData)))"

definition XFsbl_ComputeLpDdrRankSize :: "u8 list \<Rightarrow> u64 option" where
  "XFsbl_ComputeLpDdrRankSize SpdData =
     (let NbitDdramCapBsize = (if ucast (spdl_DensityBanks SpdData) AND 0xF \<le> (7 :: u32) then (ucast (spdl_DensityBanks SpdData) AND 0xF) + 28 else 0)
      in shift_one (NbitDdramCapBsize - 3 + NbitPrimaryBusWidth (spdl_BusWidth SpdData) - NbitSdramWidth (spdl_Organization SpdData)
           + DieCount (spdl_PackageType SpdData)))"

section \<open>Module parameters\<close>

text \<open>The macro \<open>XFSBL_SPD_TO_PS\<close>: the fine part is a signed byte, multiplied and divided in \<open>int\<close>.\<close>

definition XFSBL_SPD_TO_PS :: "XFsbl_DimmParams \<Rightarrow> u32 \<Rightarrow> u8 \<Rightarrow> u32" where
  "XFSBL_SPD_TO_PS P Mtb Ftb = Mtb * MtbPs P + word_of_int ((sint Ftb * sint (ucast (Ftb10thPs P) :: u8)) sdiv 10)"

text \<open>Quotients of an unsigned number and a constant, in double precision.\<close>

definition per :: "nat \<Rightarrow> u32 \<Rightarrow> flt" where
  "per c x = fdiv 53 (Fin (of_nat c)) (flt_of 53 (unat x))"

definition thousandth :: "u32 \<Rightarrow> flt" where
  "thousandth x = fdiv 53 (flt_of 53 (unat x)) (Fin 1000)"

definition ceil_of :: "flt \<Rightarrow> u32 option" where
  "ceil_of x = XFsbl_Ceil (fcvt 24 x)"

definition bytes16 :: "u8 \<Rightarrow> u8 \<Rightarrow> u32" where
  "bytes16 msb lsb = push_bit 8 (ucast msb) OR ucast lsb"

text \<open>The organisation of the module, in the order of the code; the switch on the module type may end the function.\<close>

definition spd_organisation :: "XFsbl_DimmParams \<Rightarrow> u8 \<Rightarrow> u8 \<Rightarrow> u8 \<Rightarrow> u64 \<Rightarrow> u64 \<Rightarrow> u32 \<Rightarrow> XFsbl_DimmParams" where
  "spd_organisation P mem org bus density capacity width =
     P\<lparr>MemType := ucast mem, NRanks := (drop_bit 3 (ucast org) AND 0x7) + 1, RankDensity := density, Capacity := capacity,
       BusWidth := push_bit (unat (3 + (ucast bus AND 0x7) :: u32)) 1,
       EccBusWidth := (if drop_bit 3 (ucast bus) AND 0x3 \<noteq> (0 :: u32) then 8 else 0),
       DramWidth := width, AddrMirror := 0, RDimm := 0\<rparr>"

definition spd_addressing :: "XFsbl_DimmParams \<Rightarrow> u8 \<Rightarrow> u8 \<Rightarrow> XFsbl_DimmParams" where
  "spd_addressing P adr banks =
     P\<lparr>NumRowAddr := (drop_bit 3 (ucast adr) AND 0x7) + 12, NumColAddr := (ucast adr AND 0x7) + 9,
       NumBankAddr := (drop_bit 4 (ucast banks) AND 0x3) + 2, NumBgAddr := drop_bit 6 (ucast banks) AND 0x3,
       NumRankAddr := XFsbl_GetLog2 (NRanks P), BurstLength := 8, RowDensity := XFsbl_GetLog2 (ucast (RankDensity P))\<rparr>"

definition module_part :: "u8 list \<Rightarrow> bool \<Rightarrow> XFsbl_DimmParams \<Rightarrow> XFsbl_DimmParams" where
  "module_part part known P = P\<lparr>Mpart := (if known then take 18 part @ [0] else replicate 19 0)\<rparr>"

definition ddr4_module_type :: "ddr_config \<Rightarrow> u8 list \<Rightarrow> XFsbl_DimmParams \<Rightarrow> XFsbl_DimmParams option" where
  "ddr4_module_type C SpdData P =
     (let ModuleType = ucast (spd4_ModuleType SpdData) AND DDR4_SPD_MODULETYPE_MASK
      in if ModuleType \<in> {DDR4_SPD_MODULETYPE_RDIMM, DDR4_SPD_MODULETYPE_72B_SO_RDIMM} then Some (P\<lparr>RDimm := 1\<rparr>)
         else if ModuleType \<in> {DDR4_SPD_MODULETYPE_UDIMM, DDR4_SPD_MODULETYPE_SO_DIMM, DDR4_SPD_MODULETYPE_72B_SO_UDIMM} then
           Some (P\<lparr>UDimm := 1, AddrMirror := (if spd4_AddrMapping SpdData AND 1 \<noteq> 0 then XPAR_PSU_DDRC_0_DDR_ADDRESS_MIRRORING C else AddrMirror P)\<rparr>)
         else None)"

definition ddr4_timing :: "u8 list \<Rightarrow> XFsbl_DimmParams \<Rightarrow> XFsbl_DimmParams option" where
  "ddr4_timing d P = do {
     let P = (if spd4_Timebases d AND 0xF = 0 then P\<lparr>MtbPs := 125, Ftb10thPs := 10\<rparr> else P);
     let P = P\<lparr>TckminXPs := XFSBL_SPD_TO_PS P (ucast (spd4_TckMin d)) (spd4_FineTckMin d)\<rparr>;
     bin \<leftarrow> ceil_of (per 2000000 (TckminXPs P));
     let P = P\<lparr>SpeedBin := bin, FreqMhz := fcvt 24 (per 1000000 (TckminXPs P)), ClockPeriod := fcvt 24 (thousandth (TckminXPs P)),
       TckmaxPs := XFSBL_SPD_TO_PS P (ucast (spd4_TckMax d)) (spd4_FineTckMax d),
       CaslatX := push_bit 7 (ucast (spd4_CaslatB1 d)) OR push_bit 15 (ucast (spd4_CaslatB2 d)) OR push_bit 23 (ucast (spd4_CaslatB3 d)),
       TaaPs := XFSBL_SPD_TO_PS P (ucast (spd4_TaaMin d)) (spd4_FineTaaMin d)\<rparr>;
     cas \<leftarrow> ceil_of (thousandth (TaaPs P));
     Some (P\<lparr>CasLatency := cas + 1, CasWriteLatency := cas,
       TRcdPs := XFSBL_SPD_TO_PS P (ucast (spd4_TrcdMin d)) (spd4_FineTrcdMin d),
       TRpPs := XFSBL_SPD_TO_PS P (ucast (spd4_TrpMin d)) (spd4_FineTrpMin d),
       TRasPs := (push_bit 8 (ucast (spd4_TrasTrcExt d) AND 0xF) + ucast (spd4_TrasMinLsb d)) * MtbPs P,
       TRcPs := XFSBL_SPD_TO_PS P (push_bit 4 (ucast (spd4_TrasTrcExt d) AND 0xF0) + ucast (spd4_TrcMinLsb d)) (spd4_FineTrcMin d),
       TRfc1Ps := bytes16 (spd4_Trfc1MinMsb d) (spd4_Trfc1MinLsb d) * MtbPs P,
       TRfc2Ps := bytes16 (spd4_Trfc2MinMsb d) (spd4_Trfc2MinLsb d) * MtbPs P,
       TRfc4Ps := bytes16 (spd4_Trfc4MinMsb d) (spd4_Trfc4MinLsb d) * MtbPs P,
       TFawPs := (push_bit 8 (ucast (spd4_TfawMsb d) AND 0xF) OR ucast (spd4_TfawMin d)) * MtbPs P,
       TRrdsPs := XFSBL_SPD_TO_PS P (ucast (spd4_TrrdsMin d)) (spd4_FineTrrdsMin d),
       TRrdlPs := XFSBL_SPD_TO_PS P (ucast (spd4_TrrdlMin d)) (spd4_FineTrrdlMin d),
       TCcdlPs := XFSBL_SPD_TO_PS P (ucast (spd4_TccdlMin d)) (spd4_FineTccdlMin d),
       TRefi := 7800000\<rparr>) }"

definition XFsbl_ComputeDdr4Params :: "ddr_config \<Rightarrow> u8 list \<Rightarrow> XFsbl_DimmParams \<Rightarrow> (u32 \<times> XFsbl_DimmParams) option" where
  "XFsbl_ComputeDdr4Params C d P = do {
     density \<leftarrow> XFsbl_ComputeDdr4RankSize d;
     let n = ucast ((drop_bit 3 (ucast (spd4_Organization d)) AND 0x7) + 1 :: u32);
     let P = module_part (spd4_Mpart d) (spd4_InfoSizeCrc d AND 0xF > 2) P;
     let P = spd_organisation P (spd4_MemType d) (spd4_Organization d) (spd4_BusWidth d) density (n * density div (1024 * 1024))
       (push_bit (unat ((ucast (spd4_Organization d) AND 0x7) + 2 :: u32)) 1);
     (case ddr4_module_type C d P of
        None \<Rightarrow> Some (XFSBL_FAILURE, P)
      | Some P \<Rightarrow> do {
          P \<leftarrow> ddr4_timing d (spd_addressing P (spd4_Addressing d) (spd4_DensityBanks d));
          Some (XFSBL_SUCCESS, P) }) }"

definition ddr3_module_type :: "ddr_config \<Rightarrow> u8 list \<Rightarrow> XFsbl_DimmParams \<Rightarrow> XFsbl_DimmParams option" where
  "ddr3_module_type C SpdData P =
     (let ModuleType = ucast (spd3_ModuleType SpdData) AND DDR3_SPD_MODULETYPE_MASK
      in if ModuleType \<in> {DDR3_SPD_MODULETYPE_RDIMM, DDR3_SPD_MODULETYPE_MINI_RDIMM, DDR3_SPD_MODULETYPE_72B_SO_RDIMM} then Some (P\<lparr>RDimm := 1\<rparr>)
         else if ModuleType \<in> {DDR3_SPD_MODULETYPE_UDIMM, DDR3_SPD_MODULETYPE_SO_DIMM, DDR3_SPD_MODULETYPE_MICRO_DIMM, DDR3_SPD_MODULETYPE_MINI_UDIMM,
             DDR3_SPD_MODULETYPE_MINI_CDIMM, DDR3_SPD_MODULETYPE_72B_SO_UDIMM, DDR3_SPD_MODULETYPE_72B_SO_CDIMM, DDR3_SPD_MODULETYPE_LRDIMM,
             DDR3_SPD_MODULETYPE_16B_SO_DIMM, DDR3_SPD_MODULETYPE_32B_SO_DIMM} then
           Some (P\<lparr>AddrMirror := (if spd3_AddrMapping SpdData AND 1 \<noteq> 0 then XPAR_PSU_DDRC_0_DDR_ADDRESS_MIRRORING C else AddrMirror P)\<rparr>)
         else None)"

text \<open>Here the fine parts are multiplied as unsigned numbers.\<close>

definition ddr3_fine :: "u8 \<Rightarrow> u32 \<Rightarrow> u32" where
  "ddr3_fine Fine ftb = (scast Fine * ftb) div 10"

definition ddr3_timing :: "u8 list \<Rightarrow> XFsbl_DimmParams \<Rightarrow> XFsbl_DimmParams option" where
  "ddr3_timing d P =
     (if spd3_MtbDivisor d = 0 \<or> spd3_FtbDiv d AND 0x0F = 0 then None
      else let mtb = ucast (spd3_MtbDividend d) * 1000 div ucast (spd3_MtbDivisor d);
               ftb = drop_bit 4 (ucast (spd3_FtbDiv d) AND 0xF0) * 10 div (ucast (spd3_FtbDiv d) AND 0x0F)
           in Some (P\<lparr>MtbPs := mtb, Ftb10thPs := ftb,
                TckminXPs := ucast (spd3_TckMin d) * mtb + ddr3_fine (spd3_FineTckMin d) ftb,
                CaslatX := push_bit 4 (bytes16 (spd3_CaslatMsb d) (spd3_CaslatLsb d)),
                TaaPs := ucast (spd3_TaaMin d) * mtb + ddr3_fine (spd3_FineTaaMin d) ftb,
                TwrPs := ucast (spd3_TwrMin d) * mtb,
                TRcdPs := ucast (spd3_TrcdMin d) * mtb + ddr3_fine (spd3_FineTrcdMin d) ftb,
                TRrdPs := ucast (spd3_TrrdMin d) * mtb,
                TRpPs := ucast (spd3_TrpMin d) * mtb + ddr3_fine (spd3_FineTrpMin d) ftb,
                TRasPs := (push_bit 8 (ucast (spd3_TrasTrcExt d) AND 0xF) OR ucast (spd3_TrasMinLsb d)) * mtb,
                TRcPs := (push_bit 4 (ucast (spd3_TrasTrcExt d) AND 0xF0) OR ucast (spd3_TrcMinLsb d)) * mtb + ddr3_fine (spd3_FineTrcMin d) ftb,
                TRfcPs := bytes16 (spd3_TrfcMinMsb d) (spd3_TrfcMinLsb d) * mtb,
                TwtrPs := ucast (spd3_TwtrMin d) * mtb,
                TrtpPs := ucast (spd3_TrtpMin d) * mtb,
                TRefi := (if spd3_ThermRefOpt d AND 1 \<noteq> 0 \<and> spd3_ThermRefOpt d AND 2 = 0 then 3900000 else 7800000),
                TFawPs := (push_bit 8 (ucast (spd3_TfawMsb d) AND 0xF) OR ucast (spd3_TfawMin d)) * mtb\<rparr>))"

definition XFsbl_ComputeDdr3Params :: "ddr_config \<Rightarrow> u8 list \<Rightarrow> XFsbl_DimmParams \<Rightarrow> (u32 \<times> XFsbl_DimmParams) option" where
  "XFsbl_ComputeDdr3Params C d P = do {
     density \<leftarrow> XFsbl_ComputeDdr3RankSize d;
     let n = ucast ((drop_bit 3 (ucast (spd3_Organization d)) AND 0x7) + 1 :: u32);
     let P = module_part (spd3_Mpart d) (spd3_InfoSizeCrc d AND 0xF > 1) P;
     let P = spd_organisation P (spd3_MemType d) (spd3_Organization d) (spd3_BusWidth d) density (n * density)
       (push_bit (unat ((ucast (spd3_Organization d) AND 0x7) + 2 :: u32)) 1);
     (case ddr3_module_type C d P of
        None \<Rightarrow> Some (XFSBL_FAILURE, P)
      | Some P \<Rightarrow> do {
          P \<leftarrow> ddr3_timing d ((spd_addressing P (spd3_Addressing d) (spd3_DensityBanks d))
            \<lparr>NBanksPerSdramDevice := push_bit (unat (drop_bit 4 (ucast (spd3_DensityBanks d)) AND 0x7 :: u32)) 8\<rparr>);
          Some (XFSBL_SUCCESS, P) }) }"

definition lpddr_timing :: "u8 list \<Rightarrow> XFsbl_DimmParams \<Rightarrow> XFsbl_DimmParams option" where
  "lpddr_timing d P = do {
     let P = (if spdl_Timebases d AND 0xF = 0 then P\<lparr>MtbPs := 125, Ftb10thPs := 10\<rparr> else P);
     let P = P\<lparr>TckminXPs := XFSBL_SPD_TO_PS P (ucast (spdl_TckMin d)) (spdl_FineTckMin d)\<rparr>;
     bin \<leftarrow> ceil_of (per 2000000 (TckminXPs P));
     let P = P\<lparr>SpeedBin := bin, FreqMhz := fcvt 24 (per 1000000 (TckminXPs P)), ClockPeriod := fcvt 24 (thousandth (TckminXPs P)),
       TckmaxPs := XFSBL_SPD_TO_PS P (ucast (spdl_TckMax d)) (spdl_FineTckMax d),
       CaslatX := push_bit 7 (ucast (spdl_CaslatB1 d)) OR push_bit 15 (ucast (spdl_CaslatB2 d)) OR push_bit 23 (ucast (spdl_CaslatB3 d)),
       TaaPs := XFSBL_SPD_TO_PS P (ucast (spdl_TaaMin d)) (spdl_FineTaaMin d)\<rparr>;
     cas \<leftarrow> ceil_of (thousandth (TaaPs P));
     Some (P\<lparr>CasLatency := cas + 1, CasWriteLatency := cas,
       TRcdPs := XFSBL_SPD_TO_PS P (ucast (spdl_TrcdMin d)) (spdl_FineTrcdMin d),
       TrpabPs := XFSBL_SPD_TO_PS P (ucast (spdl_TrpabMin d)) (spdl_FineTrpabMin d),
       TrppbPs := XFSBL_SPD_TO_PS P (ucast (spdl_TrppbMin d)) (spdl_FineTrppbMin d),
       TRfcAbPs := bytes16 (spdl_TrfcabMinMsb d) (spdl_TrfcabMinLsb d) * MtbPs P,
       TRfcPbPs := bytes16 (spdl_TrfcpbMinMsb d) (spdl_TrfcpbMinLsb d) * MtbPs P,
       TRefi := (if MemType P = SPD_MEMTYPE_LPDDR4 \<or> MemType P = SPD_MEMTYPE_LPDDR3 \<and> Capacity P \<noteq> 1024 then 3900000 else 7800000)\<rparr>) }"

definition XFsbl_ComputeLpDdrParams :: "u8 list \<Rightarrow> XFsbl_DimmParams \<Rightarrow> (u32 \<times> XFsbl_DimmParams) option" where
  "XFsbl_ComputeLpDdrParams d P = do {
     density \<leftarrow> XFsbl_ComputeLpDdrRankSize d;
     let n = ucast ((drop_bit 3 (ucast (spdl_Organization d)) AND 0x7) + 1 :: u32);
     let P = module_part (spdl_Mpart d) (spdl_InfoSizeCrc d AND 0xF > 2) P;
     let P = spd_organisation P (spdl_MemType d) (spdl_Organization d) (spdl_BusWidth d) density (n * density div (1024 * 1024))
       (ucast (spdl_Organization d) AND 0x7);
     P \<leftarrow> lpddr_timing d (spd_addressing P (spdl_Addressing d) (spdl_DensityBanks d));
     Some (XFSBL_SUCCESS, P) }"

text \<open>The type of the module decides; what the three functions return is not looked at.\<close>

definition XFsbl_DdrComputeDimmParameters :: "ddr_config \<Rightarrow> u8 list \<Rightarrow> XFsbl_DimmParams \<Rightarrow> XFsbl_DimmParams option" where
  "XFsbl_DdrComputeDimmParameters C SpdData P =
     (let mem = ucast (SpdData ! 2) :: u32
      in if mem = SPD_MEMTYPE_DDR4 then map_option snd (XFsbl_ComputeDdr4Params C SpdData P)
         else if mem = SPD_MEMTYPE_DDR3 then map_option snd (XFsbl_ComputeDdr3Params C SpdData P)
         else if mem = SPD_MEMTYPE_LPDDR3 \<or> mem = SPD_MEMTYPE_LPDDR4 then map_option snd (XFsbl_ComputeLpDdrParams SpdData P)
         else Some P)"

end
