(* ===== verification/Ddr_Params.thy ===== *)
theory Ddr_Params
  imports Ddr_Spd
begin

text \<open>
  \<open>XFsbl_InitilizeDdrParams\<close>: the settings of the design, and what follows from them and from the parameters of
  the module.  The result is \<open>None\<close> where a conversion is undefined.
\<close>

definition freq_le :: "XFsbl_DimmParams \<Rightarrow> nat \<Rightarrow> bool" where
  "freq_le P n = fle (FreqMhz P) (flt_of 24 n)"

definition clock_period :: "XFsbl_DimmParams \<Rightarrow> flt" where
  "clock_period P = fcvt 24 (fdiv 53 (Fin 1000) (FreqMhz P))"

text \<open>\<open>Ps += XFsbl_Ceil(ns / ClockPeriod) * 1000.0\<close>\<close>

definition derate :: "rat \<Rightarrow> XFsbl_DimmParams \<Rightarrow> u32 \<Rightarrow> u32 option" where
  "derate ns P Ps = do {
     c \<leftarrow> ceil_of (fdiv 53 (Fin ns) (ClockPeriod P));
     (let v = unat Ps + unat c * 1000 in if v < 2 ^ 32 then Some (of_nat v) else None) }"

definition to_u32 :: "flt \<Rightarrow> u32 option" where
  "to_u32 x = map_option of_nat (ftrunc (2 ^ 32) x)"

definition dbi_settings :: "u32 \<Rightarrow> u32 \<times> u32" where
  "dbi_settings DbiInfo =
     (if DbiInfo = 1 \<or> DbiInfo = 4 then (1, 1) else if DbiInfo = 2 \<or> DbiInfo = 5 then (1, 0)
      else if DbiInfo = 3 \<or> DbiInfo = 6 then (0, 1) else (0, 0))"

definition design_settings :: "ddr_config \<Rightarrow> XFsbl_DimmParams \<Rightarrow> XFsbl_DimmParams" where
  "design_settings C P =
     (let dbi = dbi_settings (XPAR_PSU_DDRC_0_DDR_DATA_MASK_AND_DBI C);
          P = P\<lparr>DataMask := drop_bit 2 (XPAR_PSU_DDRC_0_DDR_DATA_MASK_AND_DBI C AND 4), RdDbi := fst dbi, WrDbi := snd dbi,
            Ecc := XPAR_PSU_DDRC_0_HAS_ECC C, En2ndClk := XPAR_PSU_DDRC_0_DDR_2ND_CLOCK C, Parity := XPAR_PSU_DDRC_0_DDR_PARITY C,
            PwrDnEn := XPAR_PSU_DDRC_0_DDR_POWER_DOWN_ENABLE C, ClockStopEn := XPAR_PSU_DDRC_0_CLOCK_STOP C,
            LpAsr := XPAR_PSU_DDRC_0_DDR_LOW_POWER_AUTO_SELF_REFRESH C, TRefMode := XPAR_PSU_DDRC_0_DDR_TEMP_CONTROLLED_REFRESH C,
            TRefRange := XPAR_PSU_DDRC_0_DDR_MAX_OPERATING_TEMPARATURE C, Fgrm := XPAR_PSU_DDRC_0_DDR_FINE_GRANULARITY_REFRESH_MODE C,
            SelfRefAbort := XPAR_PSU_DDRC_0_DDR_SELF_REFRESH_ABORT C\<rparr>
      in if (MemType P = SPD_MEMTYPE_DDR4 \<or> MemType P = SPD_MEMTYPE_LPDDR4) \<and> RdDbi P = 1 then P\<lparr>RdbiWrkAround := 1\<rparr> else P)"

definition ddr4_dbi :: "XFsbl_DimmParams \<Rightarrow> XFsbl_DimmParams" where
  "ddr4_dbi P =
     (if MemType P \<noteq> SPD_MEMTYPE_DDR4 then P
      else P\<lparr>DataMask := (if WrDbi P = 1 then 0 else DataMask P),
        CasLatency := (if RdDbi P = 1 then if freq_le P 933 then CasLatency P + 2 else CasLatency P + 3 else CasLatency P)\<rparr>)"

definition lpddr_derating :: "XFsbl_DimmParams \<Rightarrow> XFsbl_DimmParams option" where
  "lpddr_derating P =
     (if TRefRange P = 1 \<and> (MemType P = SPD_MEMTYPE_LPDDR4 \<or> MemType P = SPD_MEMTYPE_LPDDR3) then do {
        let P = P\<lparr>ClockPeriod := clock_period P\<rparr>;
        rp \<leftarrow> derate (15 / 8) P (TRpPs P);
        rcd \<leftarrow> derate (15 / 8) P (TRcdPs P);
        ras \<leftarrow> derate (15 / 8) P (TRasPs P);
        rc \<leftarrow> derate (if MemType P = SPD_MEMTYPE_LPDDR4 then 15 / 4 else 15 / 8) P (TRcPs P);
        Some (P\<lparr>TRpPs := rp, TRcdPs := rcd, TRasPs := ras, TRcPs := rc\<rparr>) }
      else Some P)"

definition lpddr4_vendor :: "XFsbl_DimmParams \<Rightarrow> XFsbl_DimmParams" where
  "lpddr4_vendor P =
     (if MemType P = SPD_MEMTYPE_LPDDR4 \<and> (Lpddr4Samsung P = 1 \<or> Lpddr4Hynix P = 1) then
        if SpeedBin P \<le> 1600 \<and> SpeedBin P > 1066 then P\<lparr>UseSetB := 1\<rparr>
        else if SpeedBin P \<le> 1066 then P\<lparr>Lp4NoOdt := 1\<rparr> else P
      else P)"

definition refresh_cycle :: "XFsbl_DimmParams \<Rightarrow> u32" where
  "refresh_cycle P =
     (if MemType P = SPD_MEMTYPE_DDR4 then
        if Fgrm P = 0 then TRfc1Ps P else if Fgrm P = 1 then TRfc2Ps P else if Fgrm P = 2 then TRfc4Ps P else TRfcPs P
      else if MemType P = SPD_MEMTYPE_LPDDR3 \<or> MemType P = SPD_MEMTYPE_LPDDR4 then
        if PerBankRefresh P \<noteq> 0 then TRfcPbPs P else TRfcAbPs P
      else TRfcPs P)"

definition read_latency :: "XFsbl_DimmParams \<Rightarrow> u32 option" where
  "read_latency P =
     (if MemType P = SPD_MEMTYPE_LPDDR3 then if freq_le P 733 then to_u32 (fdiv 24 (FreqMhz P) (Fin 66)) else Some 12
      else if MemType P = SPD_MEMTYPE_LPDDR4 then do {
        l \<leftarrow> to_u32 (fadd 24 (fdiv 24 (FreqMhz P) (Fin 66)) (Fin 4));
        Some (if RdDbi P \<noteq> 0 then if freq_le P 266 then 6 else if freq_le P 1066 then l + 2 else if freq_le P 2133 then l + 4 else l else l) }
      else Some (AdditiveLatency P + CasLatency P))"

definition write_latency :: "XFsbl_DimmParams \<Rightarrow> XFsbl_DimmParams" where
  "write_latency P =
     (if MemType P = SPD_MEMTYPE_DDR3 \<or> MemType P = SPD_MEMTYPE_DDR4 then P\<lparr>WriteLatency := AdditiveLatency P + CasWriteLatency P\<rparr>
      else if MemType P = SPD_MEMTYPE_LPDDR3 then
        P\<lparr>WriteLatency := (if freq_le P 533 then 4 else if freq_le P 600 then 5 else if freq_le P 667 then 8 else 9)\<rparr>
      else if freq_le P 266 then P\<lparr>WriteLatency := 4, WdqsOn := 0, WdqsOff := 15\<rparr>
      else if freq_le P 533 then P\<lparr>WriteLatency := 6, WdqsOn := 0, WdqsOff := 18\<rparr>
      else if freq_le P 800 then P\<lparr>WriteLatency := (if UseSetB P = 1 then 12 else 8), WdqsOn := 0, WdqsOff := 21\<rparr>
      else if freq_le P 1066 then P\<lparr>WriteLatency := 10, WdqsOn := 4, WdqsOff := 24\<rparr>
      else if freq_le P 1333 then P\<lparr>WriteLatency := 12, WdqsOn := 4, WdqsOff := 27\<rparr>
      else if freq_le P 1600 then P\<lparr>WriteLatency := 14, WdqsOn := 6, WdqsOff := 30\<rparr>
      else if freq_le P 1866 then P\<lparr>WriteLatency := 16, WdqsOn := 6, WdqsOff := 33\<rparr>
      else if freq_le P 2133 then P\<lparr>WriteLatency := 18, WdqsOn := 8, WdqsOff := 36\<rparr>
      else P)"

definition XFsbl_InitilizeDdrParams :: "ddr_config \<Rightarrow> XFsbl_DimmParams \<Rightarrow> XFsbl_DimmParams option" where
  "XFsbl_InitilizeDdrParams C P = do {
     let P = design_settings C P;
     let P = ddr4_dbi (P\<lparr>ClockPeriod := clock_period P\<rparr>);
     P \<leftarrow> lpddr_derating P;
     let P = (lpddr4_vendor P)\<lparr>Vref := 1\<rparr>;
     let P = P\<lparr>TRfcPs := refresh_cycle P\<rparr>;
     rl \<leftarrow> read_latency P;
     let P = write_latency (P\<lparr>ReadLatency := rl\<rparr>);
     let P = (if MemType P = SPD_MEMTYPE_DDR4 \<and> Parity P \<noteq> 0 then P\<lparr>ParityLatency := (if SpeedBin P < 2400 then 4 else 5)\<rparr> else P);
     clk \<leftarrow> to_u32 (fdiv 24 (FreqMhz P) (Fin 2));
     Some (P\<lparr>CtlClkFreq := clk\<rparr>) }"

definition XFSBL_SETBITS :: "u32 \<Rightarrow> nat \<Rightarrow> nat \<Rightarrow> u32" where
  "XFSBL_SETBITS a b c = push_bit b (a AND (push_bit c 1 - 1))"

end
