(* ===== verification/Ddr_Phy_Values.thy ===== *)
theory Ddr_Phy_Values
  imports Ddr_Params
begin

text \<open>
  Values of the fields of the PHY's registers (\<open>XFsbl_PhyCalcCommonRegVal\<close> and the calculators of the four memories), in
  parts like those of the controller.
\<close>

section \<open>All memories\<close>

definition phy_common_1 :: "XFsbl_DimmParams \<Rightarrow> u32 list \<Rightarrow> (u32 list) option" where
  "phy_common_1 P PhyCfg = do {
     let PhyCfg = PhyCfg[PHY_ADCP := AddrMirror P];
     let PhyCfg = (if PhyClkGate P = 0 then PhyCfg[PHY_GATEACRDCLK := 0x2, PHY_GATEACDDRCLK := 0x2, PHY_GATEACCTLCLK := 0x2] else PhyCfg);
     let PhyCfg = (if FreqB P \<noteq> 0 then PhyCfg[PHY_DDLPGACT := 1, PHY_DDLPGRW := 1] else PhyCfg);
     c1 \<leftarrow> XFsbl_Ceil (fdiv 24 (Fin 1000) (fmul 24 (ClockPeriod P) (Fin 2)));
     let PhyCfg = PhyCfg[PHY_TPLLPD := c1];
     c2 \<leftarrow> ceil_of (fdiv 53 (Fin 4000) (fmul 24 (ClockPeriod P) (Fin 2)));
     let PhyCfg = PhyCfg[PHY_TPLLGS := c2];
     c3 \<leftarrow> ceil_of (fdiv 53 (Fin 100000) (fmul 24 (ClockPeriod P) (Fin 2)));
     let PhyCfg = PhyCfg[PHY_TPLLLOCK := c3];
     c4 \<leftarrow> ceil_of (fdiv 53 (Fin 9000) (fmul 24 (ClockPeriod P) (Fin 2)));
     let PhyCfg = PhyCfg[PHY_TPLLRST := c4, PHY_PLLBYP := PllByp P];
     let PhyCfg = (if CtlClkFreq P > 668 then PhyCfg[PHY_FRQSEL := 8, PHY_CPPC := 5, PHY_CPIC := 0] else if CtlClkFreq P > 560 then PhyCfg[PHY_FRQSEL
         := 0, PHY_CPPC := 7, PHY_CPIC := 0] else if CtlClkFreq P > 471 then PhyCfg[PHY_FRQSEL := 1, PHY_CPPC := 8, PHY_CPIC := 0] else if CtlClkFreq
         P > 396 then PhyCfg[PHY_FRQSEL := 2, PHY_CPPC := 9, PHY_CPIC := 0] else if CtlClkFreq P > 332 then PhyCfg[PHY_FRQSEL := 3, PHY_CPPC := 10,
         PHY_CPIC := 0] else if CtlClkFreq P > 279 then PhyCfg[PHY_FRQSEL := 4, PHY_CPPC := 6, PHY_CPIC := 1] else if CtlClkFreq P > 235 then
         PhyCfg[PHY_FRQSEL := 5, PHY_CPPC := 8] else if CtlClkFreq P > 197 then PhyCfg[PHY_FRQSEL := 6, PHY_CPPC := 9, PHY_CPIC := 2] else if
         CtlClkFreq P \<ge> 166 then PhyCfg[PHY_FRQSEL := 7, PHY_CPPC := 10, PHY_CPIC := 3] else PhyCfg);
     c5 \<leftarrow> to_u32 (fdiv 53 (fdiv 24 (Fin 10) (ClockPeriod P)) (Fin 2));
     let PhyCfg = PhyCfg[PHY_PUAD := c5];
     let PhyCfg = (if UDimm P AND AddrMirror P \<noteq> 0 then PhyCfg[PHY_UDIMM := 1] else PhyCfg);
     Some PhyCfg }"

definition phy_common_2 :: "XFsbl_DimmParams \<Rightarrow> u32 list \<Rightarrow> (u32 list) option" where
  "phy_common_2 P PhyCfg = do {
     PhyCfg \<leftarrow> (if En2tTimingMode P \<noteq> 0 then do { c1 \<leftarrow> ceil_of (fdiv 53 (fdiv 53 (fdiv 53 (dbl (TRasPs P)) (Fin 1000))
         (ClockPeriod P)) (Fin 2)); Some (PhyCfg[PHY_TRAS := c1 * 2]) } else do { c2 \<leftarrow> XFsbl_Round (fcvt 24 (fdiv 53 (fdiv 53 (fdiv 53
         (dbl (TRasPs P)) (Fin 1000)) (ClockPeriod P)) (Fin 2))); Some (PhyCfg[PHY_TRAS := c2 * 2]) });
     c3 \<leftarrow> to_u32 (fadd 53 (fdiv 53 (dbl (TRpPs P)) (Fin 1000)) (Fin 2));
     let PhyCfg = PhyCfg[PHY_TRP := c3];
     c4 \<leftarrow> ceil_of (fdiv 53 (fdiv 53 (dbl (TFawPs P)) (Fin 1000)) (ClockPeriod P));
     let PhyCfg = PhyCfg[PHY_TFAW := c4];
     c5 \<leftarrow> ceil_of (fdiv 53 (fdiv 53 (dbl (TRfcPs P)) (Fin 1000)) (ClockPeriod P));
     let PhyCfg = PhyCfg[PHY_TRFC := c5];
     c6 \<leftarrow> ceil_of (fdiv 53 (fdiv 53 (dbl (TRcPs P)) (Fin 1000)) (ClockPeriod P));
     let PhyCfg = PhyCfg[PHY_TRC := c6 + 1, PHY_TWTR := TWtr P, PHY_PUBWL := WriteLatency P, PHY_PUBRL := ReadLatency P, PHY_ERROUTODT := Crc P,
         PHY_RDIMM := RDimm P, PHY_DTDRS := NumRankAddr P, PHY_RANKEN := (2 * NumRankAddr P) + 1];
     let Lp4DramSize = (if MemType P = SPD_MEMTYPE_LPDDR4 then 32 else DramWidth P);
     let NumRank = (if Zc1656 P \<noteq> 0 \<or> HasEccComp P \<noteq> 0 then 0 else NumRankAddr P);
     _ \<leftarrow> (if Lp4DramSize = 0 then None else Some ());
     _ \<leftarrow> (if NumRank < 32 then Some () else None);
     let MemSize = ucast (((ucast (BusWidth P div Lp4DramSize :: u32)) * Capacity P * (ucast (push_bit (unat NumRank) 1 :: u32))) div 8);
     let PhyCfg = PhyCfg[PHY_SEED := 0x12340000 OR MemSize, PHY_DVMIN := if Lp4NoOdt P \<noteq> 0 then 0x27 else 0];
     c7 \<leftarrow> to_u32 (fdiv 24 (fdiv 24 (Fin 40) (ClockPeriod P)) (Fin 2));
     let PhyCfg = PhyCfg[PHY_PGWAIT_FRQA := c7];
     let PhyCfg = (if HostDrv P = 34 then PhyCfg[PHY_ZPROG_ASYM_DRV_PD := 0xD] else if HostDrv P = 40 then PhyCfg[PHY_ZPROG_ASYM_DRV_PD := 0xB] else
         if HostDrv P = 48 then PhyCfg[PHY_ZPROG_ASYM_DRV_PD := 0x9] else if HostDrv P = 60 then PhyCfg[PHY_ZPROG_ASYM_DRV_PD := 0x7] else if HostDrv
         P = 80 then PhyCfg[PHY_ZPROG_ASYM_DRV_PD := 0x5] else if HostDrv P = 120 then PhyCfg[PHY_ZPROG_ASYM_DRV_PD := 0x3] else
         PhyCfg[PHY_ZPROG_ASYM_DRV_PD := 0xB]);
     let PhyCfg = PhyCfg[PHY_ZPROG_ASYM_DRV_PU := PhyCfg ! PHY_ZPROG_ASYM_DRV_PD];
     Some PhyCfg }"

definition XFsbl_PhyCalcCommonRegVal :: "XFsbl_DimmParams \<Rightarrow> u32 list \<Rightarrow> u32 list option" where
  "XFsbl_PhyCalcCommonRegVal P PhyCfg = do {
     PhyCfg \<leftarrow> phy_common_1 P PhyCfg;
     phy_common_2 P PhyCfg }"

section \<open>DDR4\<close>

definition phy_ddr4_1 :: "XFsbl_DimmParams \<Rightarrow> u32 list \<Rightarrow> (u32 list \<times> u32 \<times> u32 \<times> u32) option" where
  "phy_ddr4_1 P PhyCfg = do {
     let Cal = 0;
     c1 \<leftarrow> to_u32 (fdiv 53 (fdiv 53 (dbl (TRefi P)) (Fin 1000)) (ClockPeriod P));
     let Val = c1;
     let Val = (if Fgrm P = 1 then Val div 2 else if Fgrm P = 2 then Val div 4 else Val);
     let Val = (if TRefRange P \<noteq> 0 then Val div 2 else Val);
     let PhyCfg = PhyCfg[PHY_TREFPRD := (8 * Val) - 1000, PHY_NOSRA := 0x1, PHY_DDRMD := 0x4];
     c2 \<leftarrow> ceil_of (fdiv 53 (fdiv 53 (dbl (TRrdlPs P)) (Fin 1000)) (ClockPeriod P));
     let PhyCfg = PhyCfg[PHY_TRRD := max c2 4];
     c3 \<leftarrow> ceil_of (fdiv 53 (Fin (15 / 2)) (ClockPeriod P));
     let Val = AdditiveLatency P + max c3 4;
     c4 \<leftarrow> to_u32 (fmax (dbl Val) (fsub 53 (dbl (ReadLatency P + (BurstLength P div 2))) (fdiv 53 (dbl (TRpPs P)) (Fin 1000))));
     let Val = c4;
     let PhyCfg = PhyCfg[PHY_TRTP := Val];
     PhyCfg \<leftarrow> (if fle (Fin 24) (TMod P) \<or> fle (TMod P) (Fin 30) then do { c5 \<leftarrow> ceil_of (fsub 53 (TMod P) (Fin 24)); Some
         (PhyCfg[PHY_TMOD := c5]) } else Some (PhyCfg[PHY_TMOD := 6]));
     let FVal = fcvt 24 (if SpeedBin P < 2666 then Fin 8 else Fin 9);
     let FVal = (if Parity P \<noteq> 0 then fadd 24 (fmax (Fin 24) (fdiv 24 (Fin 15) (ClockPeriod P))) (sgl (ParityLatency P)) else FVal);
     let FVal = (if CalModeEn P \<noteq> 0 then fadd 24 (fmax (Fin 24) (fdiv 24 (Fin 15) (ClockPeriod P))) (sgl Cal) else FVal);
     c6 \<leftarrow> ceil_of (fdiv 53 FVal (Fin 2));
     let PhyCfg = PhyCfg[PHY_TMRD := min (c6 * 2) 32];
     c7 \<leftarrow> ceil_of (if SpeedBin P \<le> 1866 then Fin 597 else if SpeedBin P \<le> 2400 then Fin 768 else Fin 1023);
     let PhyCfg = PhyCfg[PHY_TXS := c7];
     c8 \<leftarrow> ceil_of (if SpeedBin P \<le> 1866 then Fin 597 else if SpeedBin P \<le> 2400 then Fin 768 else if SpeedBin P \<le> 2666 then Fin
         854 else Fin 1023);
     let PhyCfg = PhyCfg[PHY_TDLLK := c8, PHY_TDQSCK := 0];
     c9 \<leftarrow> XFsbl_Ceil (TXp P);
     let PhyCfg = PhyCfg[PHY_TXP := min c9 31];
     c10 \<leftarrow> to_u32 (fadd 53 (fsub 53 (fdiv 53 (dbl (TRcdPs P)) (Fin 1000)) (dbl (AdditiveLatency P))) (Fin 2));
     let PhyCfg = PhyCfg[PHY_TRCD := c10];
     let PhyCfg = (if Parity P \<noteq> 0 \<and> RDimm P \<noteq> 0 then PhyCfg[PHY_A17BID := 1] else PhyCfg);
     let PhyCfg = (if RDimm P \<noteq> 0 \<and> DisOpInv P \<noteq> 0 then PhyCfg[PHY_RC0 := 0x1] else PhyCfg);
     let PhyCfg = (if AddrMirror P \<noteq> 0 \<and> RDimm P \<noteq> 0 then PhyCfg[PHY_RC13 := 0x8] else PhyCfg);
     let PhyCfg = PhyCfg[PHY_RC10 := max 0 ((SpeedBin P - 1600) div 266)];
     let PhyCfg = (if Parity P \<noteq> 0 \<and> RDimm P \<noteq> 0 then PhyCfg[PHY_RC8 := 0x8] else PhyCfg);
     let BurstLen = (if BurstLength P = 4 then 2 else 0);
     let CasLat = CasLatency P;
     Some (PhyCfg, Val, BurstLen, CasLat) }"

definition phy_ddr4_2 :: "XFsbl_DimmParams \<Rightarrow> u32 list \<Rightarrow> u32 \<Rightarrow> u32 \<Rightarrow> u32 \<Rightarrow> (XFsbl_DimmParams \<times> u32 list) option" where
  "phy_ddr4_2 P PhyCfg Val BurstLen CasLat = do {
     let (Bit654, Bit2) = (if CasLat \<le> 16 then (let Bit654 = (CasLat - 9) div 2; Bit2 = (CasLat - 1) mod 2 in (Bit654, Bit2)) else if CasLat mod
         2 = 1 then (let Bit654 = (CasLat + 2) div 6; Bit2 = ((CasLat + 1) div 2) mod 2 in (Bit654, Bit2)) else (let Bit654 = (CasLat - 1) div 4;
         Bit2 = ((CasLat div 2) + 1) mod 2 in (Bit654, Bit2)));
     c1 \<leftarrow> ceil_of (fdiv 53 (Fin 15) (ClockPeriod P));
     let Twr = c1;
     let Twr = (if Twr \<ge> 10 \<or> Twr \<le> 24 then (let Twr = (if Twr mod 2 = 1 then Twr + 1 else Twr); Twr = (if Twr < 24 then (Twr - 10) div 2
         else 6) in Twr) else Twr);
     let PhyCfg = PhyCfg[PHY_R060 := XFSBL_SETBITS Twr 9 3 + push_bit 8 0 + XFSBL_SETBITS Bit654 4 3 + push_bit 2 Bit2 + XFSBL_SETBITS BurstLen 0 2];
     let POdt = (if DramOdt P = 60 then 1 else if DramOdt P = 120 then 2 else if DramOdt P = 40 then 3 else if DramOdt P = 240 then 4 else if DramOdt
         P = 48 then 5 else if DramOdt P = 80 then 6 else if DramOdt P = 34 then 7 else 0x3 + (2 * NumRankAddr P));
     let PhyCfg = PhyCfg[PHY_R061 := XFSBL_SETBITS POdt 8 3 + XFSBL_SETBITS (AdditiveLatency P) 3 2 + XFSBL_SETBITS (if DramDrv P = 48 then 1 else 0)
         1 2 + 1];
     let P = (if TRefRange P \<noteq> 0 then P\<lparr>LpAsr := 0x3\<rparr> else P);
     let Val = (if CasWriteLatency P \<ge> 9 \<and> CasWriteLatency P \<le> 12 then CasWriteLatency P - 9 else if CasWriteLatency P > 12 \<and>
         CasWriteLatency P \<le> 18 then ((CasWriteLatency P - 14) div 2) + 4 else Val);
     let PhyCfg = PhyCfg[PHY_R062 := push_bit 12 (Crc P) + XFSBL_SETBITS (LpAsr P) 6 2 + XFSBL_SETBITS Val 3 3, PHY_R063 := XFSBL_SETBITS (((SpeedBin
         P - 266) div 800) - 1) 9 2 + XFSBL_SETBITS (Fgrm P) 6 3, PHY_R064 := Mr4 P, PHY_R065 := Mr5 P, PHY_R066 := Mr6 P];
     Some (P, PhyCfg) }"

definition phy_ddr4_3 :: "XFsbl_DimmParams \<Rightarrow> u32 list \<Rightarrow> (u32 list) option" where
  "phy_ddr4_3 P PhyCfg = do {
     let PhyCfg = (if RdDbi P \<noteq> 0 then (if RdbiWrkAround P = 0 then PhyCfg[PHY_DTRDBITR := 0x3] else PhyCfg[PHY_DTRDBITR := 0x0]) else PhyCfg);
     let PhyCfg = (if \<not> (DataMask P \<noteq> 0 \<or> WrDbi P \<noteq> 0) then PhyCfg[PHY_DTWBDDM := 0] else PhyCfg);
     let PhyCfg = (if En2ndClk P \<noteq> 0 then PhyCfg[PHY_CKOEMODE := 0x5, PHY_CKNCLKGATE0 := 0x0, PHY_CKCLKGATE0 := 0x0, PHY_CKNCLKGATE1 := 0x0,
         PHY_CKCLKGATE1 := 0x0] else (let PhyCfg = PhyCfg[PHY_CKOEMODE := ((1 - NumRankAddr P) * 4) + 5, PHY_CKNCLKGATE0 := (1 - NumRankAddr P) *
         0x2]; PhyCfg = PhyCfg[PHY_CKCLKGATE0 := PhyCfg ! PHY_CKNCLKGATE0]; PhyCfg = PhyCfg[PHY_CKNCLKGATE1 := PhyCfg ! PHY_CKNCLKGATE0]; PhyCfg =
         PhyCfg[PHY_CKCLKGATE1 := PhyCfg ! PHY_CKNCLKGATE0] in PhyCfg));
     let PhyCfg = PhyCfg[PHY_ACREFSSEL := 0x30, PHY_ACVREFISEL := 0x4E, PHY_PDAEN := 0x1, PHY_DVINIT := if DramOdt P = 60 then 0x13 else 0x19,
         PHY_A03BD := 0x0, PHY_A02BD := 0x0, PHY_A01BD := 0x0, PHY_A00BD := 0x0, PHY_A07BD := 0x0, PHY_A06BD := 0x0, PHY_A05BD := 0x0, PHY_A04BD :=
         0x0, PHY_A11BD := 0x0, PHY_A10BD := 0x0, PHY_A09BD := 0x0, PHY_A08BD := 0x0, PHY_ODT_MODE := 0x1, PHY_ZPROG_HOST_ODT := 9,
         PHY_ZPROG_ASYM_DRV_PD := 0xD, PHY_ZPROG_ASYM_DRV_PU := 0xD];
     Some PhyCfg }"

definition phy_ddr4_4 :: "XFsbl_DimmParams \<Rightarrow> u32 list \<Rightarrow> (u32 list) option" where
  "phy_ddr4_4 P PhyCfg = do {
     let PhyCfg = (if \<not> (DataMask P \<noteq> 0 \<or> WrDbi P \<noteq> 0 \<or> RdDbi P \<noteq> 0) then PhyCfg[PHY_DMEN := 0, PHY_DMOEMODE := 2,
         PHY_DMTEMODE := 2, PHY_DMPDRMODE := 1] else PhyCfg);
     let PhyCfg = PhyCfg[PHY_DXREFSSEL := 0x30, PHY_DXREFIEN := 0xF];
     let PhyCfg = (if UDimm P = 1 \<or> RDimm P = 1 then PhyCfg[PHY_DXREFISELR1 := 0x55] else PhyCfg[PHY_DXREFISELR1 := 0x4F]);
     let PhyCfg = (if UDimm P = 1 \<or> RDimm P = 1 then PhyCfg[PHY_DXREFISELR0 := 0x55] else PhyCfg[PHY_DXREFISELR0 := 0x4F]);
     Some PhyCfg }"

definition XFsbl_PhyCalcDdr4RegVal :: "XFsbl_DimmParams \<Rightarrow> u32 list \<Rightarrow> (XFsbl_DimmParams \<times> u32 list) option" where
  "XFsbl_PhyCalcDdr4RegVal P PhyCfg = do {
     (PhyCfg, Val, BurstLen, CasLat) \<leftarrow> phy_ddr4_1 P PhyCfg;
     (P, PhyCfg) \<leftarrow> phy_ddr4_2 P PhyCfg Val BurstLen CasLat;
     PhyCfg \<leftarrow> phy_ddr4_3 P PhyCfg;
     PhyCfg \<leftarrow> phy_ddr4_4 P PhyCfg;
     Some (P, PhyCfg) }"

section \<open>DDR3\<close>

definition phy_ddr3_1 :: "XFsbl_DimmParams \<Rightarrow> u32 list \<Rightarrow> (u32 list) option" where
  "phy_ddr3_1 P PhyCfg = do {
     c1 \<leftarrow> to_u32 (fdiv 53 (fdiv 53 (dbl (TRefi P)) (Fin 1000)) (ClockPeriod P));
     let Val = c1;
     let Val = (if TRefRange P \<noteq> 0 then Val div 2 else Val);
     let PhyCfg = PhyCfg[PHY_TREFPRD := (8 * Val) - 1000, PHY_NOSRA := 0x1, PHY_DDRMD := 0x3];
     c2 \<leftarrow> ceil_of (fdiv 53 (fdiv 53 (dbl (TRrdPs P)) (Fin 1000)) (ClockPeriod P));
     let PhyCfg = PhyCfg[PHY_TRRD := max c2 4];
     c3 \<leftarrow> ceil_of (fdiv 53 (Fin (15 / 2)) (ClockPeriod P));
     let PhyCfg = PhyCfg[PHY_TRTP := AdditiveLatency P + max c3 4];
     PhyCfg \<leftarrow> (if fle (Fin 12) (TMod P) \<or> fle (TMod P) (Fin 17) then do { c4 \<leftarrow> ceil_of (fsub 53 (TMod P) (Fin 12)); Some
         (PhyCfg[PHY_TMOD := c4]) } else Some (PhyCfg[PHY_TMOD := 5]));
     let PhyCfg = PhyCfg[PHY_TMRD := 4];
     let FVal = fcvt 24 (fdiv 53 (fadd 53 (fdiv 53 (dbl (TRfcPs P)) (Fin 1000)) (Fin 10)) (ClockPeriod P));
     c5 \<leftarrow> ceil_of (fmax (Fin 512) FVal);
     let PhyCfg = PhyCfg[PHY_TXS := c5, PHY_TDQSCK := 0];
     c6 \<leftarrow> XFsbl_Ceil (TXp P);
     let PhyCfg = PhyCfg[PHY_TXP := min c6 31];
     c7 \<leftarrow> to_u32 (fadd 53 (fsub 53 (fdiv 53 (dbl (TRcdPs P)) (Fin 1000)) (dbl (AdditiveLatency P))) (Fin 2));
     let PhyCfg = PhyCfg[PHY_TRCD := c7, PHY_RC10 := max 0 ((SpeedBin P div 266) - 3)];
     let BurstLen = (if BurstLength P = 4 then 2 else 0);
     let CasLat = CasLatency P;
     let (Bit2, Bit654) = (if CasLat < 12 then (let Bit2 = 0; Bit654 = CasLat - 4 in (Bit2, Bit654)) else (let Bit2 = 1; Bit654 = CasLat - 12 in
         (Bit2, Bit654)));
     c8 \<leftarrow> ceil_of (fdiv 53 (Fin 15) (ClockPeriod P));
     let Twr = c8;
     let Twr = max 5 (min 16 Twr);
     let PhyCfg = PhyCfg[PHY_R060 := XFSBL_SETBITS (if Twr < 9 then Twr - 4 else (Twr + 1) div 2) 9 3 + push_bit 8 1 + XFSBL_SETBITS Bit654 4 3 +
         push_bit 2 Bit2 + XFSBL_SETBITS BurstLen 0 2];
     Some PhyCfg }"

definition phy_ddr3_2 :: "XFsbl_DimmParams \<Rightarrow> u32 list \<Rightarrow> (u32 list) option" where
  "phy_ddr3_2 P PhyCfg = do {
     let POdt = (if DramOdt P = 60 then push_bit 9 0 + push_bit 6 0 + push_bit 2 1 else if DramOdt P = 120 then push_bit 9 0 + push_bit 6 1 +
         push_bit 2 0 else if DramOdt P = 40 then push_bit 9 0 + push_bit 6 1 + push_bit 2 1 else if DramOdt P = 20 then push_bit 9 1 + push_bit 6 0
         + push_bit 2 0 else if DramOdt P = 30 then push_bit 9 1 + push_bit 6 0 + push_bit 2 1 else if NumRankAddr P = 0 then push_bit 2 1 else
         push_bit 6 1);
     let PhyCfg = PhyCfg[PHY_R061 := push_bit 3 (AdditiveLatency P) + POdt + (if DramDrv P = 34 then 0x2 else 0x0), PHY_R062 := push_bit 9
         (NumRankAddr P) + XFSBL_SETBITS (CasWriteLatency P - 5) 3 3 + push_bit 7 (TRefRange P), PHY_R063 := 0x0, PHY_DTWBDDM := 0x0];
     let PhyCfg = (if En2ndClk P \<noteq> 0 then PhyCfg[PHY_CKOEMODE := 0x5, PHY_CKNCLKGATE0 := 0x0, PHY_CKCLKGATE0 := 0x0, PHY_CKNCLKGATE1 := 0x0,
         PHY_CKCLKGATE1 := 0x0] else (let PhyCfg = PhyCfg[PHY_CKOEMODE := ((1 - NumRankAddr P) * 4) + 5, PHY_CKNCLKGATE0 := (1 - NumRankAddr P) *
         0x2]; PhyCfg = PhyCfg[PHY_CKCLKGATE0 := PhyCfg ! PHY_CKNCLKGATE0]; PhyCfg = PhyCfg[PHY_CKNCLKGATE1 := PhyCfg ! PHY_CKNCLKGATE0]; PhyCfg =
         PhyCfg[PHY_CKCLKGATE1 := PhyCfg ! PHY_CKNCLKGATE0] in PhyCfg));
     let PhyCfg = PhyCfg[PHY_ACREFSSEL := 0x30, PHY_ACVREFISEL := 0x30, PHY_PDAEN := 0x0];
     let PhyCfg = (if Zc1656 P \<noteq> 0 \<or> HasEccComp P \<noteq> 0 then PhyCfg[PHY_DVINIT := 0x2E] else if Lp4NoOdt P \<noteq> 0 then
         PhyCfg[PHY_DVINIT := 0x2F] else PhyCfg[PHY_DVINIT := 0x19]);
     let PhyCfg = PhyCfg[PHY_A03BD := 0x0, PHY_A02BD := 0x0, PHY_A01BD := 0x0, PHY_A00BD := 0x0];
     Some PhyCfg }"

definition phy_ddr3_3 :: "XFsbl_DimmParams \<Rightarrow> u32 list \<Rightarrow> (u32 list) option" where
  "phy_ddr3_3 P PhyCfg = do {
     let PhyCfg = PhyCfg[PHY_A07BD := 0x0, PHY_A06BD := 0x0, PHY_A05BD := 0x0, PHY_A04BD := 0x0, PHY_A11BD := 0x0, PHY_A10BD := 0x0, PHY_A09BD :=
         0x0, PHY_A08BD := 0x0, PHY_ODT_MODE := 0x0, PHY_ZPROG_ASYM_DRV_PD := 0xB, PHY_ZPROG_ASYM_DRV_PU := 0xB, PHY_DXREFSSEL := 0x30, PHY_DXREFIEN
         := 0x3, PHY_DXREFISELR1 := 0x30, PHY_DXREFISELR0 := 0x30];
     Some PhyCfg }"

definition XFsbl_PhyCalcDdr3RegVal :: "XFsbl_DimmParams \<Rightarrow> u32 list \<Rightarrow> u32 list option" where
  "XFsbl_PhyCalcDdr3RegVal P PhyCfg = do {
     PhyCfg \<leftarrow> phy_ddr3_1 P PhyCfg;
     PhyCfg \<leftarrow> phy_ddr3_2 P PhyCfg;
     phy_ddr3_3 P PhyCfg }"

section \<open>LPDDR3\<close>

definition phy_lpddr3_1 :: "XFsbl_DimmParams \<Rightarrow> u32 list \<Rightarrow> (u32 list) option" where
  "phy_lpddr3_1 P PhyCfg = do {
     c1 \<leftarrow> to_u32 (fdiv 53 (fdiv 53 (dbl (TRefi P)) (Fin 1000)) (ClockPeriod P));
     let Val = c1;
     Val \<leftarrow> (if PerBankRefresh P = 0 then Some (if Capacity P \<noteq> 1024 then Val div 2 else Val) else if Capacity P \<ge> 2048 then do
         { c2 \<leftarrow> to_u32 (fdiv 53 (Fin (975 / 2)) (ClockPeriod P)); Some c2 } else if Capacity P = 1024 then do { c3 \<leftarrow> to_u32
         (fdiv 53 (Fin 975) (ClockPeriod P)); Some c3 } else Some Val);
     let Val = (if TRefRange P \<noteq> 0 then Val div 4 else Val);
     let PhyCfg = PhyCfg[PHY_TREFPRD := (8 * Val) - 1000, PHY_NOSRA := 0x1, PHY_DDRMD := 0x1];
     c4 \<leftarrow> ceil_of (fdiv 53 (Fin 10) (ClockPeriod P));
     c5 \<leftarrow> to_u32 (fadd 53 (dbl (max c4 2)) (fmul 53 (Fin (15 / 8)) (dbl (TRefRange P))));
     let PhyCfg = PhyCfg[PHY_TRRD := c5];
     c6 \<leftarrow> ceil_of (fdiv 53 (Fin (15 / 2)) (ClockPeriod P));
     let PhyCfg = PhyCfg[PHY_TRTP := ((BurstLength P div 2) + max c6 4) - 4];
     c7 \<leftarrow> ceil_of (fdiv 53 (fmax (Fin 10) (fdiv 24 (Fin 15) (ClockPeriod P))) (Fin 2));
     let PhyCfg = PhyCfg[PHY_TMRD := min (c7 * 2) 32];
     c8 \<leftarrow> ceil_of (fmax (Fin 2) (fdiv 53 (fadd 53 (fdiv 53 (dbl (TRfcPs P)) (Fin 1000)) (Fin 10)) (ClockPeriod P)));
     let PhyCfg = PhyCfg[PHY_TXS := c8, PHY_TDQSCKMAX := 0x5];
     c9 \<leftarrow> to_u32 (fdiv 53 (Fin (3 / 2)) (ClockPeriod P));
     let PhyCfg = PhyCfg[PHY_TDQSCK := c9];
     c10 \<leftarrow> XFsbl_Ceil (TXp P);
     let PhyCfg = PhyCfg[PHY_TXP := min c10 31];
     c11 \<leftarrow> to_u32 (fadd 53 (fsub 53 (fdiv 53 (dbl (TRcdPs P)) (Fin 1000)) (dbl (AdditiveLatency P))) (Fin 2));
     let PhyCfg = PhyCfg[PHY_TRCD := c11, PHY_R061 := Mr P, PHY_R062 := Emr P, PHY_R063 := Emr2 P, PHY_DQODT := if DramOdt P = 240 then 3 else 2];
     let PhyCfg = (if AddrMirror P = 1 \<and> DramWidth P = 16 then PhyCfg[PHY_CA1BYTE1 := 3] else PhyCfg);
     let PhyCfg = (if AddrMirror P = 1 \<and> DramWidth P = 16 then PhyCfg[PHY_CA1BYTE0 := 2] else PhyCfg);
     Some PhyCfg }"

definition phy_lpddr3_2 :: "XFsbl_DimmParams \<Rightarrow> u32 list \<Rightarrow> (u32 list) option" where
  "phy_lpddr3_2 P PhyCfg = do {
     let PhyCfg = (if En2ndClk P \<noteq> 0 then PhyCfg[PHY_CKOEMODE := 0x5, PHY_CKNCLKGATE0 := 0x0, PHY_CKCLKGATE0 := 0x0, PHY_CKNCLKGATE1 := 0x0,
         PHY_CKCLKGATE1 := 0x0] else (let PhyCfg = PhyCfg[PHY_CKOEMODE := ((1 - NumRankAddr P) * 4) + 5, PHY_CKNCLKGATE0 := (1 - NumRankAddr P) *
         0x2]; PhyCfg = PhyCfg[PHY_CKCLKGATE0 := PhyCfg ! PHY_CKNCLKGATE0]; PhyCfg = PhyCfg[PHY_CKNCLKGATE1 := PhyCfg ! PHY_CKNCLKGATE0]; PhyCfg =
         PhyCfg[PHY_CKCLKGATE1 := PhyCfg ! PHY_CKNCLKGATE0] in PhyCfg));
     let PhyCfg = PhyCfg[PHY_ACREFSSEL := 0x30, PHY_ACVREFISEL := 0x30, PHY_PDAEN := 0x0];
     let PhyCfg = (if Zc1656 P \<noteq> 0 \<or> HasEccComp P \<noteq> 0 then PhyCfg[PHY_DVINIT := 0x2E] else if Lp4NoOdt P \<noteq> 0 then
         PhyCfg[PHY_DVINIT := 0x2F] else PhyCfg[PHY_DVINIT := 0x19]);
     let PhyCfg = PhyCfg[PHY_ACTBD := 4, PHY_BG1BD := 4, PHY_BG0BD := 4, PHY_BA1BD := 4, PHY_BA0BD := 4, PHY_A03BD := 4, PHY_A02BD := 4, PHY_A01BD :=
         4, PHY_A00BD := 4, PHY_A07BD := 4, PHY_A06BD := 4, PHY_A05BD := 4, PHY_A04BD := 4, PHY_A11BD := 4, PHY_A10BD := 4, PHY_A09BD := 4, PHY_A08BD
         := 4];
     Some PhyCfg }"

definition phy_lpddr3_3 :: "XFsbl_DimmParams \<Rightarrow> u32 list \<Rightarrow> (u32 list) option" where
  "phy_lpddr3_3 P PhyCfg = do {
     let PhyCfg = PhyCfg[PHY_A15BD := 4, PHY_A14BD := 4, PHY_A13BD := 4, PHY_A12BD := 4, PHY_ODT_MODE := 0x1, PHY_ZPROG_DRAM_ODT := 0x7,
         PHY_ZPROG_HOST_ODT := 7, PHY_ZPROG_ASYM_DRV_PD := 0xB, PHY_ZPROG_ASYM_DRV_PU := 0xB, PHY_DXREFSSEL := 0x30, PHY_DXREFIEN := 0x3,
         PHY_DXREFISELR1 := 0x3F, PHY_DXREFISELR0 := 0x3F];
     Some PhyCfg }"

definition XFsbl_PhyCalcLpddr3RegVal :: "XFsbl_DimmParams \<Rightarrow> u32 list \<Rightarrow> u32 list option" where
  "XFsbl_PhyCalcLpddr3RegVal P PhyCfg = do {
     PhyCfg \<leftarrow> phy_lpddr3_1 P PhyCfg;
     PhyCfg \<leftarrow> phy_lpddr3_2 P PhyCfg;
     phy_lpddr3_3 P PhyCfg }"

section \<open>LPDDR4\<close>

definition phy_lpddr4_1 :: "XFsbl_DimmParams \<Rightarrow> u32 list \<Rightarrow> (u32 list) option" where
  "phy_lpddr4_1 P PhyCfg = do {
     c1 \<leftarrow> to_u32 (fdiv 24 (sgl (3904 div (if PerBankRefresh P \<noteq> 0 then 8 else 1))) (ClockPeriod P));
     let Val = c1;
     let Val = (if TRefRange P \<noteq> 0 then Val div 4 else Val);
     let PhyCfg = PhyCfg[PHY_TREFPRD := (8 * Val) - 1000, PHY_NOSRA := 0x0, PHY_DDRMD := 0x5];
     c2 \<leftarrow> ceil_of (fdiv 53 (Fin 10) (ClockPeriod P));
     c3 \<leftarrow> to_u32 (fadd 53 (dbl (max c2 4)) (fmul 53 (Fin (15 / 8)) (dbl (TRefRange P))));
     let PhyCfg = PhyCfg[PHY_TRRD := c3];
     c4 \<leftarrow> ceil_of (fdiv 53 (fdiv 53 (fdiv 53 (dbl (TRasPs P)) (Fin 1000)) (ClockPeriod P)) (Fin 2));
     let PhyCfg = PhyCfg[PHY_TRAS := c4 * 2];
     c5 \<leftarrow> ceil_of (fdiv 53 (Fin (15 / 2)) (ClockPeriod P));
     let PhyCfg = PhyCfg[PHY_TRTP := ((BurstLength P div 2) + max c5 8) - 8, PHY_TMOD := 5];
     c6 \<leftarrow> ceil_of (fdiv 53 (fmax (fdiv 53 (Fin 14) (ClockPeriod P)) (Fin 10)) (Fin 2));
     let PhyCfg = PhyCfg[PHY_TMRD := min (c6 * 2) 32];
     c7 \<leftarrow> ceil_of (fmax (Fin 2) (fdiv 53 (fadd 53 (fdiv 53 (dbl (TRfcPs P)) (Fin 1000)) (Fin (15 / 2))) (ClockPeriod P)));
     let PhyCfg = PhyCfg[PHY_TXS := c7, PHY_TDQSCKMAX := 0x5];
     c9 \<leftarrow> (if SpeedBin P \<ge> 1600 then do { c8 \<leftarrow> to_u32 (fdiv 53 (Fin (3 / 2)) (ClockPeriod P)); Some c8 } else Some 1);
     let PhyCfg = PhyCfg[PHY_TDQSCK := c9];
     c10 \<leftarrow> XFsbl_Ceil (TXp P);
     let PhyCfg = PhyCfg[PHY_TXP := min (c10 + 3) 31];
     c11 \<leftarrow> to_u32 (fmax (fsub 53 (fdiv 53 (dbl (TRcdPs P)) (Fin 1000)) (dbl (AdditiveLatency P))) (dbl ((PhyCfg ! PHY_TRAS) - 8)));
     let PhyCfg = PhyCfg[PHY_TRCD := c11, PHY_R061 := Mr P, PHY_R062 := Emr P, PHY_R063 := Emr2 P, PHY_R064 := Emr3 P];
     let PhyCfg = (if DramCaOdt P = 240 then PhyCfg[PHY_CAODT := 1] else if DramCaOdt P = 120 then PhyCfg[PHY_CAODT := 2] else if DramCaOdt P = 80
         then PhyCfg[PHY_CAODT := 3] else if DramCaOdt P = 60 then PhyCfg[PHY_CAODT := 4] else if DramCaOdt P = 48 then PhyCfg[PHY_CAODT := 5] else
         if DramCaOdt P = 40 then PhyCfg[PHY_CAODT := 6] else PhyCfg[PHY_CAODT := 5]);
     let PhyCfg = PhyCfg[PHY_DQODT := if DramOdt P \<noteq> 0 then PhyCfg ! PHY_CAODT else 6, PHY_VREFCA_RANGE := 0, PHY_VREFCA := 0x21,
         PHY_VREFDQ_RANGE := Lp4NoOdt P];
     Some PhyCfg }"

definition phy_lpddr4_2 :: "XFsbl_DimmParams \<Rightarrow> u32 list \<Rightarrow> (u32 list) option" where
  "phy_lpddr4_2 P PhyCfg = do {
     let PhyCfg = (if Zc1656 P \<noteq> 0 \<or> HasEccComp P \<noteq> 0 then PhyCfg[PHY_VREFDQ := 0x2E] else if Lp4NoOdt P \<noteq> 0 then
         PhyCfg[PHY_VREFDQ := 0x2F] else PhyCfg[PHY_VREFDQ := 0x19]);
     let PhyCfg = PhyCfg[PHY_ODTD_CA := 0, PHY_ODTE_CS := 1, PHY_ODTE_CK := 0, PHY_CODT := 6];
     let PhyCfg = (if RdDbi P \<noteq> 0 then (if RdbiWrkAround P = 0 then PhyCfg[PHY_DTRDBITR := 0x3] else PhyCfg[PHY_DTRDBITR := 0x0]) else PhyCfg);
     let PhyCfg = (if \<not> (DataMask P \<noteq> 0 \<or> WrDbi P \<noteq> 0) then PhyCfg[PHY_DTWBDDM := 0] else PhyCfg);
     let PhyCfg = PhyCfg[PHY_ODTOEMODE := 0xA, PHY_CKNCLKGATE0 := 0x0, PHY_CKCLKGATE0 := 0x0, PHY_CKOEMODE := 0x5, PHY_CKNCLKGATE1 := 0x0,
         PHY_CKCLKGATE1 := 0x0, PHY_ACREFSSEL := 0x3D, PHY_ACVREFISEL := 0x19, PHY_PDAEN := 0x0];
     let PhyCfg = (if Zc1656 P \<noteq> 0 \<or> HasEccComp P \<noteq> 0 then PhyCfg[PHY_DVINIT := 0x2E] else if Lp4NoOdt P \<noteq> 0 then
         PhyCfg[PHY_DVINIT := 0x2F] else PhyCfg[PHY_DVINIT := 0x19]);
     Some PhyCfg }"

definition XFsbl_PhyCalcLpddr4RegVal :: "XFsbl_DimmParams \<Rightarrow> u32 list \<Rightarrow> u32 list option" where
  "XFsbl_PhyCalcLpddr4RegVal P PhyCfg = do {
     PhyCfg \<leftarrow> phy_lpddr4_1 P PhyCfg;
     phy_lpddr4_2 P PhyCfg }"

end
