(* ===== verification/Ddr_Controller.thy ===== *)
theory Ddr_Controller
  imports Ddr_Params
begin

text \<open>
  Values of the fields of the DDR controller's registers (\<open>XFsbl_DdrcCalcCommonRegVal\<close>, \<open>XFsbl_DdrcCalcDdr4RegVal\<close>,
  \<open>XFsbl_DdrcCalcDdr3RegVal\<close>): each function in parts of at most some seventy lines of the code, in their order.  A part
  takes the parameters of the module and the array of field values and gives them back updated, with the locals that
  the next part reads; the result is \<open>None\<close> where a conversion to an integer is undefined.  \<open>53\<close> and \<open>24\<close>
  are the precisions of \<open>double\<close> and \<open>float\<close>.
\<close>

section \<open>All memories\<close>

definition ddrc_common_1 :: "XFsbl_DimmParams \<Rightarrow> u32 list \<Rightarrow> (XFsbl_DimmParams \<times> u32 list) option" where
  "ddrc_common_1 P DdrCfg = do {
     let DdrCfg = DdrCfg[DDR_DEVICE_CONFIG := (XFsbl_GetLog2 (DramWidth P)) - 2, DDR_ACTIVE_RANKS := (NumRankAddr P * 2) + 1, DDR_BURST_RDWR :=
         BurstLength P div 2, DDR_DATA_BUS_WIDTH := 6 - (XFsbl_GetLog2 (BusWidth P)), DDR_GEARDOWN_MODE := Geardown P];
     let DdrCfg = (if Geardown P \<noteq> 1 then DdrCfg[DDR_EN_2T_TIMING_MODE := En2tTimingMode P] else DdrCfg);
     c1 \<leftarrow> ceil_of (fdiv 53 (fdiv 53 (Fin (15 / 4)) (ClockPeriod P)) (Fin 2));
     let DdrCfg = DdrCfg[DDR_RC_DERATE_VALUE := c1, DDR_EN_DFI_DRAM_CLK_DISABLE := ClockStopEn P, DDR_POWERDOWN_EN := PwrDnEn P];
     c2 \<leftarrow> ceil_of (fdiv 53 (Fin 500000) (fmul 53 (Fin 4096) (ClockPeriod P)));
     let DdrCfg = DdrCfg[DDR_T_DPD_X4096 := min (c2 + 1) 255, DDR_REFRESH_MODE := Fgrm P];
     c3 \<leftarrow> ceil_of (fdiv 53 (fdiv 53 (fdiv 53 (dbl (TRfcPs P)) (Fin 1000)) (Fin 2)) (ClockPeriod P));
     let DdrCfg = DdrCfg[DDR_T_RFC_MIN := c3, DDR_DIS_SCRUB := EccScrub P, DDR_ECC_MODE := push_bit 2 (Ecc P), DDR_DATA_POISON_EN := EccPoison P];
     let DdrCfg = (if Parity P OR Crc P \<noteq> 0 then (let DdrCfg = DdrCfg[DDR_ALERT_WAIT_FOR_SW := 0]; DdrCfg = (if NoRetry P = 0 then
         DdrCfg[DDR_CRC_PARITY_RETRY_ENABLE := 1] else DdrCfg) in DdrCfg) else DdrCfg);
     let DdrCfg = (if Crc P \<noteq> 0 then DdrCfg[DDR_CRC_INC_DM := 1, DDR_CRC_ENABLE := 1] else DdrCfg);
     let DdrCfg = DdrCfg[DDR_PARITY_ENABLE := Parity P];
     c4 \<leftarrow> ceil_of (fdiv 53 (Fin 1000) (fmul 53 (Fin 32) (ClockPeriod P)));
     let DdrCfg = DdrCfg[DDR_IDLE_AFTER_RESET_X32 := min (1 + c4) 255, DDR_DIMM_ADDR_MIRR_EN := AddrMirror P];
     c5 \<leftarrow> ceil_of (fdiv 53 (fdiv 53 (fdiv 53 (dbl (TFawPs P)) (Fin 1000)) (ClockPeriod P)) (Fin 2));
     let DdrCfg = DdrCfg[DDR_T_FAW := c5];
     c6 \<leftarrow> ceil_of (fdiv 53 (TXp P) (Fin 2));
     let DdrCfg = DdrCfg[DDR_T_XP := min c6 31];
     c7 \<leftarrow> ceil_of (fdiv 53 (fdiv 53 (fdiv 53 (dbl (TRcPs P)) (Fin 1000)) (ClockPeriod P)) (Fin 2));
     let DdrCfg = DdrCfg[DDR_T_RC := c7 + 1];
     let P = (if MemType P = SPD_MEMTYPE_DDR4 then P\<lparr>WriteLatency := WriteLatency P + ParityLatency P\<rparr> else P);
     let P = P\<lparr>WriteLatency := WriteLatency P + RDimm P\<rparr>;
     c8 \<leftarrow> ceil_of (fdiv 53 (dbl (WriteLatency P)) (Fin 2));
     let DdrCfg = DdrCfg[DDR_WRITE_LATENCY := c8];
     let P = (if MemType P = SPD_MEMTYPE_DDR4 then P\<lparr>ReadLatency := ReadLatency P + ParityLatency P\<rparr> else P);
     let P = P\<lparr>ReadLatency := ReadLatency P + RDimm P\<rparr>;
     c9 \<leftarrow> ceil_of (fdiv 53 (dbl (ReadLatency P)) (Fin 2));
     let DdrCfg = DdrCfg[DDR_READ_LATENCY := c9];
     Some (P, DdrCfg) }"

definition ddrc_common_2 :: "XFsbl_DimmParams \<Rightarrow> u32 list \<Rightarrow> (u32 list) option" where
  "ddrc_common_2 P DdrCfg = do {
     c1 \<leftarrow> ceil_of (fdiv 53 (fsub 53 (fdiv 53 (dbl (TRcdPs P)) (Fin 1000)) (dbl (AdditiveLatency P))) (Fin 2));
     let DdrCfg = DdrCfg[DDR_T_RCD := c1 + 1];
     c2 \<leftarrow> ceil_of (fdiv 53 (fdiv 53 (dbl (TCcdlPs P)) (Fin 1000)) (Fin 2));
     let DdrCfg = DdrCfg[DDR_T_CCD := c2];
     c3 \<leftarrow> ceil_of (fdiv 53 (fdiv 53 (fdiv 53 (fadd 53 (fdiv 53 (dbl (TRfc4Ps P)) (Fin 1000)) (Fin 10)) (ClockPeriod P)) (Fin 32)) (Fin 2));
     let DdrCfg = DdrCfg[DDR_T_XS_FAST_X32 := c3 + 1];
     let DdrCfg = DdrCfg[DDR_T_XS_ABORT_X32 := DdrCfg ! DDR_T_XS_FAST_X32, DDR_DDR4_WR_PREAMBLE := WrPreamble P];
     c4 \<leftarrow> ceil_of (fdiv 53 (fmax (Fin 16) (fdiv 53 (Fin 10) (ClockPeriod P))) (Fin 2));
     let DdrCfg = DdrCfg[DDR_T_MRD_PDA := c4];
     let DdrCfg = (if DisDfiLpSr P = 0 then DdrCfg[DDR_DFI_LP_EN_SR := 0x1] else DdrCfg);
     let DdrCfg = (if DisDfiLpPd P = 0 then DdrCfg[DDR_DFI_LP_EN_PD := 0x1] else DdrCfg);
     let DdrCfg = (if DisDfiLpMpsm P = 0 then DdrCfg[DDR_DFI_LP_EN_MPSM := 0x1] else DdrCfg);
     let DdrCfg = DdrCfg[DDR_DIS_AUTO_CTRLUPD := Slowboot P];
     let DdrCfg = (if WrDrift P \<noteq> 0 then DdrCfg[DDR_DFI_T_CTRLUP_MAX := 0x3FF] else DdrCfg);
     let DdrCfg = DdrCfg[DDR_PHY_DBI_MODE := if PhyDbiMode P \<noteq> 0 then 1 else 0];
     Some DdrCfg }"

definition ddrc_common_3 :: "XFsbl_DimmParams \<Rightarrow> u32 list \<Rightarrow> (u32 list) option" where
  "ddrc_common_3 P DdrCfg = do {
     let DdrCfg = (if LprNumEntries P \<noteq> 0 then DdrCfg[DDR_LPR_NUM_ENTRIES := LprNumEntries P] else DdrCfg);
     let DdrCfg = DdrCfg[DDR_DQ_NIBBLE_MAP_12_15 := Dqmap1215 P, DDR_DQ_NIBBLE_MAP_8_11 := Dqmap811 P, DDR_DQ_NIBBLE_MAP_4_7 := Dqmap47 P,
         DDR_DQ_NIBBLE_MAP_0_3 := Dqmap03 P, DDR_DQ_NIBBLE_MAP_28_31 := Dqmap2831 P, DDR_DQ_NIBBLE_MAP_24_27 := Dqmap2427 P, DDR_DQ_NIBBLE_MAP_20_23
         := Dqmap2023 P, DDR_DQ_NIBBLE_MAP_16_19 := Dqmap1619 P, DDR_DQ_NIBBLE_MAP_44_47 := Dqmap4447 P, DDR_DQ_NIBBLE_MAP_40_43 := Dqmap4043 P,
         DDR_DQ_NIBBLE_MAP_36_39 := Dqmap3639 P, DDR_DQ_NIBBLE_MAP_32_35 := Dqmap3235 P, DDR_DQ_NIBBLE_MAP_60_63 := Dqmap6063 P,
         DDR_DQ_NIBBLE_MAP_56_59 := Dqmap5659 P, DDR_DQ_NIBBLE_MAP_52_55 := Dqmap5255 P, DDR_DQ_NIBBLE_MAP_48_51 := Dqmap4851 P,
         DDR_DQ_NIBBLE_MAP_CB_4_7 := Dqmap6871 P, DDR_DQ_NIBBLE_MAP_CB_0_3 := Dqmap6467 P];
     Some DdrCfg }"

section \<open>DDR4\<close>

definition ddrc_ddr4_1 :: "XFsbl_DimmParams \<Rightarrow> u32 list \<Rightarrow> (u32 list \<times> u32 \<times> u32 \<times> u32) option" where
  "ddrc_ddr4_1 P DdrCfg = do {
     let DdrCfg = DdrCfg[DDR_DDR4 := 1, DDR_MPSM_EN := MaxPwrSavEn P];
     c1 \<leftarrow> to_u32 (fdiv 53 (fdiv 53 (fdiv 53 (fdiv 53 (dbl (TRefi P)) (Fin 1000)) (Fin 2)) (ClockPeriod P)) (Fin 32));
     let Val = c1;
     let DdrCfg = (if (RDimm P \<noteq> 0 \<or> UDimm P \<noteq> 0) \<and> NumRankAddr P = 1 then DdrCfg[DDR_REFRESH_TIMER1_START_VALUE_X32 := Val
         div 2] else DdrCfg);
     c2 \<leftarrow> to_u32 (fdiv 53 (fdiv 53 (fdiv 53 (fdiv 53 (dbl (TRefi P)) (Fin 1000)) (Fin 2)) (ClockPeriod P)) (Fin 32));
     let Val = c2;
     let Val = (if Fgrm P = 1 then Val div 2 else if Fgrm P = 2 then Val div 4 else Val);
     let Val = (if TRefRange P \<noteq> 0 then Val div 2 else Val);
     let DdrCfg = (if Fgrm P = 1 then DdrCfg[DDR_T_RFC_NOM_X32 := min Val 0x7FF] else if Fgrm P = 2 then DdrCfg[DDR_T_RFC_NOM_X32 := min Val 0x3FF]
         else DdrCfg[DDR_T_RFC_NOM_X32 := min Val 0xFFE]);
     c3 \<leftarrow> ceil_of (fdiv 53 (fmul 53 (dbl (SpeedBin P)) (Fin 3)) (Fin 100));
     let DdrCfg = DdrCfg[DDR_T_PAR_ALERT_PW_MAX := c3, DDR_T_CRC_ALERT_PW_MAX := 5];
     c4 \<leftarrow> ceil_of (fdiv 53 (fdiv 53 (Fin 400) (fmul 53 (ClockPeriod P) (Fin 1024))) (Fin 2));
     let DdrCfg = DdrCfg[DDR_POST_CKE_X1024 := max 1 (c4 + 1)];
     c5 \<leftarrow> ceil_of (fdiv 53 (fdiv 53 (Fin 500000) (fmul 53 (ClockPeriod P) (Fin 1024))) (Fin 2));
     let DdrCfg = DdrCfg[DDR_PRE_CKE_X1024 := max 1 (c5 + 1)];
     c6 \<leftarrow> ceil_of (fdiv 53 (fdiv 53 (Fin 100) (fmul 53 (ClockPeriod P) (Fin 1024))) (Fin 2));
     let DdrCfg = DdrCfg[DDR_DRAM_RSTN_X1024 := max (c6 + 1) 1];
     let CasLat = CasLatency P;
     let (Bit654, Bit2) = (if CasLat \<le> 16 then (let Bit654 = (CasLat - 9) div 2; Bit2 = (CasLat - 1) mod 2 in (Bit654, Bit2)) else if CasLat mod
         2 = 1 then (let Bit654 = (CasLat + 2) div 6; Bit2 = ((CasLat + 1) div 2) mod 2 in (Bit654, Bit2)) else (let Bit654 = (CasLat - 1) div 4;
         Bit2 = ((CasLat div 2) + 1) mod 2 in (Bit654, Bit2)));
     c7 \<leftarrow> ceil_of (fdiv 53 (Fin 15) (ClockPeriod P));
     let Twr = c7;
     Some (DdrCfg, Twr, Bit2, Bit654) }"

definition ddrc_ddr4_2 :: "XFsbl_DimmParams \<Rightarrow> u32 list \<Rightarrow> u32 \<Rightarrow> u32 \<Rightarrow> u32 \<Rightarrow> (XFsbl_DimmParams \<times> u32 list) option" where
  "ddrc_ddr4_2 P DdrCfg Twr Bit2 Bit654 = do {
     let Twr = (if Twr \<ge> 10 \<or> Twr \<le> 24 then (let Twr = (if Twr mod 2 = 1 then Twr + 1 else Twr); Twr = (if Twr < 24 then (Twr - 10) div 2
         else 6) in Twr) else Twr);
     let DdrCfg = DdrCfg[DDR_MR := XFSBL_SETBITS Twr 9 3 + push_bit 8 1 + XFSBL_SETBITS Bit654 4 3 + push_bit 2 Bit2 + XFSBL_SETBITS (if BurstLength
         P = 4 then 2 else 0) 0 2];
     let POdt = (if DramOdt P = 60 then 1 else if DramOdt P = 120 then 2 else if DramOdt P = 40 then 3 else if DramOdt P = 240 then 4 else if DramOdt
         P = 48 then 5 else if DramOdt P = 80 then 6 else if DramOdt P = 34 then 7 else 0x3 + (NumRankAddr P * 2));
     let POdi = (if DramDrv P = 48 then 1 else 0);
     let DdrCfg = DdrCfg[DDR_EMR := XFSBL_SETBITS POdt 8 3 + XFSBL_SETBITS (AdditiveLatency P) 3 2 + XFSBL_SETBITS POdi 1 2 + 1];
     let P = (if TRefRange P \<noteq> 0 then P\<lparr>LpAsr := 0x3\<rparr> else P);
     let Bit543 = (if CasWriteLatency P \<ge> 9 \<and> CasWriteLatency P \<le> 12 then CasWriteLatency P - 9 else if CasWriteLatency P > 12 \<and>
         CasWriteLatency P \<le> 18 then ((CasWriteLatency P - 14) div 2) + 4 else 0);
     let DdrCfg = DdrCfg[DDR_EMR2 := push_bit 12 (Crc P) + XFSBL_SETBITS (LpAsr P) 6 2 + XFSBL_SETBITS Bit543 3 3];
     let Val = (SpeedBin P - 1066) div 800;
     let DdrCfg = DdrCfg[DDR_EMR3 := XFSBL_SETBITS Val 9 2 + XFSBL_SETBITS (Fgrm P) 6 3, DDR_DEV_ZQINIT_X32 := 33];
     Some (P, DdrCfg) }"

definition ddrc_ddr4_3 :: "XFsbl_DimmParams \<Rightarrow> u32 list \<Rightarrow> (XFsbl_DimmParams \<times> u32 list \<times> u32) option" where
  "ddrc_ddr4_3 P DdrCfg = do {
     let (Cal, Val) = (if CalModeEn P = 0 then (let Cal = 0; Val = 0 in (Cal, Val)) else (let Cal = ((SpeedBin P - 266) div 533) + 1; Val = Cal - 2
         in (Cal, Val)));
     let DdrCfg = DdrCfg[DDR_MR4 := push_bit 12 (WrPreamble P) + push_bit 11 (RdPreamble P) + push_bit 1 (MaxPwrSavEn P) + XFSBL_SETBITS Val 6 3 +
         push_bit 3 (TRefMode P) + push_bit 2 (TRefRange P) + push_bit 9 (SelfRefAbort P)];
     let Val = Parity P * (if SpeedBin P < 2400 then 1 else 2);
     let DdrCfg = DdrCfg[DDR_MR5 := push_bit 12 (RdDbi P) + push_bit 11 (WrDbi P) + push_bit 10 (DataMask P) + push_bit 9 1 + push_bit 6 (0x3 +
         NumRankAddr P) + Val];
     c1 \<leftarrow> to_u32 (fmax (Fin 0) (fmin (Fin 3) (fadd 24 (fdiv 24 (fsub 24 (FreqMhz P) (Fin 667)) (Fin 266)) (Fin 1))));
     let Val = c1;
     let DdrCfg = DdrCfg[DDR_MR6 := XFSBL_SETBITS Val 10 3 + XFSBL_SETBITS (if DramOdt P = 60 then 0x13 else 0x19) 0 6];
     let DdrCfg = (if RDimm P \<noteq> 0 then (if DisOpInv P \<noteq> 0 then DdrCfg[DDR_DIMM_OUTPUT_INV_EN := 0] else DdrCfg[DDR_DIMM_OUTPUT_INV_EN
         := 1]) else DdrCfg);
     let DdrCfg = (if (RDimm P \<noteq> 0 \<or> UDimm P \<noteq> 0) \<and> NumRankAddr P = 1 then DdrCfg[DDR_DIMM_STAGGER_CS_EN := 1] else DdrCfg);
     let DdrCfg = (if WrPreamble P \<noteq> 0 \<or> Crc P \<noteq> 0 then DdrCfg[DDR_DIFF_RANK_WR_GAP := (DdrCfg ! DDR_DIFF_RANK_WR_GAP) + 1] else
         DdrCfg);
     c2 \<leftarrow> ceil_of (fdiv 53 (dbl (DdrCfg ! DDR_DIFF_RANK_WR_GAP)) (Fin 2));
     let DdrCfg = DdrCfg[DDR_DIFF_RANK_WR_GAP := c2 + 3];
     c3 \<leftarrow> ceil_of (fdiv 53 (dbl (DdrCfg ! DDR_DIFF_RANK_RD_GAP)) (Fin 2));
     let DdrCfg = DdrCfg[DDR_DIFF_RANK_RD_GAP := c3 + 3];
     c4 \<leftarrow> ceil_of (fdiv 53 (Fin 15) (ClockPeriod P));
     let Twr = c4;
     Twr \<leftarrow> (if Crc P \<noteq> 0 then (if SpeedBin P \<ge> 1866 \<and> SpeedBin P \<le> 2666 then do { c5 \<leftarrow> ceil_of (fdiv 53
         (Fin (15 / 4)) (ClockPeriod P)); Some (Twr + max c5 5) } else if SpeedBin P = 1600 then do { c6 \<leftarrow> ceil_of (fdiv 53 (Fin (15 / 4))
         (ClockPeriod P)); Some (Twr + max c6 4) } else Some Twr) else Some Twr);
     c7 \<leftarrow> to_u32 (fadd 53 (fadd 53 (fadd 53 (dbl (WriteLatency P)) (fdiv 53 (dbl (BurstLength P)) (Fin 2))) (dbl Twr)) (dbl (WrPreamble
         P)));
     let DdrCfg = DdrCfg[DDR_WR2PRE := c7 div 2];
     let DdrCfg = (if En2tTimingMode P \<noteq> 0 then DdrCfg[DDR_WR2PRE := (DdrCfg ! DDR_WR2PRE) + 1] else DdrCfg);
     c8 \<leftarrow> to_u32 (fsub 53 (fdiv 53 (fdiv 53 (fmul 53 (Fin 9) (fdiv 53 (dbl (TRefi P)) (Fin 1000))) (ClockPeriod P)) (Fin 1024)) (Fin 1));
     c9 \<leftarrow> to_u32 (fmax (Fin 1) (fdiv 53 (dbl c8) (Fin 2)));
     let DdrCfg = DdrCfg[DDR_T_RAS_MAX := c9];
     DdrCfg \<leftarrow> (if En2tTimingMode P \<noteq> 0 then do { c10 \<leftarrow> ceil_of (fdiv 53 (fdiv 53 (fdiv 53 (dbl (TRasPs P)) (Fin 1000))
         (ClockPeriod P)) (Fin 2)); Some (DdrCfg[DDR_T_RAS_MIN := c10]) } else do { c11 \<leftarrow> XFsbl_Round (fcvt 24 (fdiv 53 (fdiv 53 (fdiv 53
         (dbl (TRasPs P)) (Fin 1000)) (ClockPeriod P)) (Fin 2))); Some (DdrCfg[DDR_T_RAS_MIN := c11]) });
     let P = P\<lparr>TXp := fcvt 24 (fadd 53 (fmax (Fin 4) (fdiv 53 (Fin 6) (ClockPeriod P))) (dbl (ParityLatency P)))\<rparr>;
     c12 \<leftarrow> ceil_of (fdiv 53 (TXp P) (Fin 2));
     let DdrCfg = DdrCfg[DDR_T_XP := min c12 31];
     Some (P, DdrCfg, Cal) }"

definition ddrc_ddr4_4 :: "XFsbl_DimmParams \<Rightarrow> u32 list \<Rightarrow> u32 \<Rightarrow> (XFsbl_DimmParams \<times> u32 list \<times> u32) option" where
  "ddrc_ddr4_4 P DdrCfg Cal = do {
     c1 \<leftarrow> ceil_of (fdiv 53 (Fin (15 / 2)) (ClockPeriod P));
     c2 \<leftarrow> to_u32 (fmax (dbl (AdditiveLatency P + max c1 4)) (fsub 53 (dbl (ReadLatency P + (BurstLength P div 2))) (fdiv 53 (dbl (TRpPs
         P)) (Fin 1000))));
     let Val = c2;
     DdrCfg \<leftarrow> (if En2tTimingMode P \<noteq> 0 then do { c3 \<leftarrow> ceil_of (fdiv 53 (dbl Val) (Fin 2)); Some (DdrCfg[DDR_RD2PRE :=
         c3]) } else Some (DdrCfg[DDR_RD2PRE := Val div 2]));
     c4 \<leftarrow> ceil_of (fdiv 53 (dbl ((ReadLatency P + (BurstLength P div 2) + 2 + WrPreamble P) - WriteLatency P)) (Fin 2));
     let DdrCfg = DdrCfg[DDR_RD2WR := c4 + 2];
     c5 \<leftarrow> ceil_of (fdiv 53 (Fin (15 / 2)) (ClockPeriod P));
     let P = P\<lparr>TWtr := max c5 4\<rparr>;
     P \<leftarrow> (if Crc P \<noteq> 0 then (if SpeedBin P \<ge> 1866 \<and> SpeedBin P \<le> 2666 then do { c6 \<leftarrow> ceil_of (fdiv 53 (Fin
         (15 / 4)) (ClockPeriod P)); Some (P\<lparr>TWtr := TWtr P + max c6 5\<rparr>) } else if SpeedBin P = 1600 then do { c7 \<leftarrow> ceil_of
         (fdiv 53 (Fin (15 / 4)) (ClockPeriod P)); Some (P\<lparr>TWtr := TWtr P + max c7 4\<rparr>) } else Some P) else Some P);
     let Val = WriteLatency P + TWtr P + (BurstLength P div 2) + ParityLatency P;
     let Val = (if WrPreamble P \<noteq> 0 then Val + 2 else Val);
     c8 \<leftarrow> XFsbl_Ceil (fdiv 24 (sgl Val) (Fin 2));
     let DdrCfg = DdrCfg[DDR_WR2RD := c8];
     let FVal = fcvt 24 (if SpeedBin P < 2666 then Fin 8 else Fin 9);
     let FVal = (if Parity P \<noteq> 0 then fadd 24 (fmax (Fin 24) (fdiv 24 (Fin 15) (ClockPeriod P))) (sgl (ParityLatency P)) else FVal);
     let FVal = (if CalModeEn P \<noteq> 0 then fadd 24 (fmax (Fin 24) (fdiv 24 (Fin 15) (ClockPeriod P))) (sgl Cal) else FVal);
     c9 \<leftarrow> ceil_of (fdiv 53 FVal (Fin 2));
     let DdrCfg = DdrCfg[DDR_T_MRD := c9];
     let P = P\<lparr>TMod := fadd 24 (fadd 24 (fadd 24 (fmax (Fin 24) (fdiv 24 (Fin 15) (ClockPeriod P))) (sgl (Parity P * ParityLatency P))) (sgl
         (CalModeEn P * Cal))) (sgl (RDimm P))\<rparr>;
     c10 \<leftarrow> ceil_of (fdiv 53 (TMod P) (Fin 2));
     let DdrCfg = DdrCfg[DDR_T_MOD := c10];
     c11 \<leftarrow> ceil_of (fdiv 53 (fdiv 53 (dbl (TRrdlPs P)) (Fin 1000)) (ClockPeriod P));
     c12 \<leftarrow> ceil_of (fdiv 53 (dbl (max c11 4)) (Fin 2));
     let DdrCfg = DdrCfg[DDR_T_RRD := c12];
     c13 \<leftarrow> ceil_of (fdiv 53 (fdiv 53 (dbl (TRpPs P)) (Fin 1000)) (Fin 2));
     let DdrCfg = DdrCfg[DDR_T_RP := (c13 + 1) + 1];
     c14 \<leftarrow> ceil_of (fdiv 53 (Fin 10) (ClockPeriod P));
     c15 \<leftarrow> ceil_of (fdiv 53 (fmax (dbl_s32 c14) (Fin 5)) (Fin 2));
     let DdrCfg = DdrCfg[DDR_T_CKSRX := c15];
     c16 \<leftarrow> ceil_of (fdiv 53 (Fin 10) (ClockPeriod P));
     c17 \<leftarrow> ceil_of (fdiv 53 (fadd 53 (fmax (dbl_s32 c16) (Fin 5)) (dbl (ParityLatency P))) (Fin 2));
     let DdrCfg = DdrCfg[DDR_T_CKSRE := c17];
     c18 \<leftarrow> ceil_of (fdiv 53 (Fin 5) (ClockPeriod P));
     c19 \<leftarrow> ceil_of (fdiv 53 (fadd 53 (fmax (dbl_s32 c18) (Fin 3)) (Fin 1)) (Fin 2));
     let DdrCfg = DdrCfg[DDR_T_CKESR := c19];
     c20 \<leftarrow> ceil_of (fdiv 53 (Fin 5) (ClockPeriod P));
     let FVal = fcvt 24 (fmax (dbl_s32 c20) (Fin 3));
     c21 \<leftarrow> ceil_of (fdiv 53 FVal (Fin 2));
     let DdrCfg = DdrCfg[DDR_T_CKE := c21];
     c22 \<leftarrow> ceil_of (fdiv 53 (fadd 53 FVal (Fin 2)) (Fin 2));
     let DdrCfg = DdrCfg[DDR_T_CKCSX := c22];
     let DdrCfg = DdrCfg[DDR_T_CKPDE := DdrCfg ! DDR_T_CKSRE];
     let DdrCfg = DdrCfg[DDR_T_CKPDX := DdrCfg ! DDR_T_CKSRX];
     c23 \<leftarrow> ceil_of (fdiv 53 (fdiv 53 (if SpeedBin P \<le> 1866 then Fin 597 else if SpeedBin P \<le> 2400 then Fin 768 else Fin 1024) (Fin
         32)) (Fin 2));
     let DdrCfg = DdrCfg[DDR_T_XS_DLL_X32 := c23 + 1];
     c24 \<leftarrow> ceil_of (fdiv 53 (fdiv 53 (fdiv 53 (fadd 53 (fdiv 53 (dbl (TRfcPs P)) (Fin 1000)) (Fin 10)) (ClockPeriod P)) (Fin 32)) (Fin 2));
     let DdrCfg = DdrCfg[DDR_T_XS_X32 := c24 + 1, DDR_T_CCD_S := 2];
     Some (P, DdrCfg, Cal) }"

definition ddrc_ddr4_5 :: "XFsbl_DimmParams \<Rightarrow> u32 list \<Rightarrow> u32 \<Rightarrow> (u32 list \<times> u32) option" where
  "ddrc_ddr4_5 P DdrCfg Cal = do {
     c1 \<leftarrow> ceil_of (fdiv 53 (fmax (fdiv 53 (fdiv 53 (dbl (TRrdsPs P)) (Fin 1000)) (ClockPeriod P)) (Fin 4)) (Fin 2));
     let DdrCfg = DdrCfg[DDR_T_RRD_S := c1];
     c2 \<leftarrow> ceil_of (fdiv 53 (Fin (5 / 2)) (ClockPeriod P));
     let FVal = sgl (ParityLatency P + WriteLatency P + (BurstLength P div 2) + max c2 2);
     FVal \<leftarrow> (if Crc P \<noteq> 0 then do { c3 \<leftarrow> ceil_of (fdiv 53 (Fin (15 / 4)) (ClockPeriod P)); Some (fcvt 24 (fadd 53 FVal
         (fmax (dbl_s32 c3) (if SpeedBin P > 1600 then Fin 5 else Fin 4)))) } else Some FVal);
     c4 \<leftarrow> ceil_of (fdiv 53 (fadd 24 FVal (sgl (WrPreamble P))) (Fin 2));
     let DdrCfg = DdrCfg[DDR_WR2RD_S := c4];
     let FVal = fcvt 24 (fmul 53 (ClockPeriod P) (if SpeedBin P \<le> 1866 then Fin 597 else if SpeedBin P \<le> 2400 then Fin 768 else Fin 1024));
     let FVal = fcvt 24 (fadd 53 (fadd 53 (fdiv 53 (dbl (TRfcPs P)) (Fin 1000)) (Fin 10)) FVal);
     c5 \<leftarrow> ceil_of (fdiv 53 FVal (fmul 53 (fmul 53 (Fin 2) (Fin 32)) (ClockPeriod P)));
     let DdrCfg = DdrCfg[DDR_POST_MPSM_GAP_X32 := c5];
     c6 \<leftarrow> ceil_of (fdiv 53 (fdiv 24 (Fin 12) (ClockPeriod P)) (Fin 2));
     let DdrCfg = DdrCfg[DDR_T_MPX_LH := c6];
     let FVal = fadd 24 (fmax (Fin 24) (fdiv 24 (Fin 15) (ClockPeriod P))) (Fin 4);
     let FVal = (if SpeedBin P = 2666 then fadd 24 FVal (Fin 1) else FVal);
     let FVal = (if SpeedBin P = 3200 then fadd 24 FVal (Fin 2) else FVal);
     c7 \<leftarrow> XFsbl_Ceil (fdiv 24 FVal (Fin 2));
     let DdrCfg = DdrCfg[DDR_T_CKMPE := c7, DDR_T_ZQ_LONG_NOP := 256, DDR_T_ZQ_SHORT_NOP := 64];
     c8 \<leftarrow> to_u32 (fdiv 53 (fdiv 53 (Fin 100000000) (ClockPeriod P)) (Fin 1024));
     let DdrCfg = DdrCfg[DDR_T_ZQ_SHORT_INTERVAL_X1024 := c8, DDR_DFI_T_RDDATA_EN := ((ReadLatency P - 4) + Cal) - RDimm P, DDR_DFI_TPHY_WRLAT :=
         ((WriteLatency P - 3) + Cal) - RDimm P, DDR_DFI_T_CMD_LAT := Cal, DDR_DFI_T_WRDATA_DELAY := 3, DDR_DFI_DATA_CS_POLARITY := 0];
     let DdrCfg = (if DramWidth P \<noteq> 4 then (let DdrCfg = (if RdDbi P \<noteq> 0 then DdrCfg[DDR_RD_DBI_EN := 1] else DdrCfg); DdrCfg = (if
         WrDbi P \<noteq> 0 then DdrCfg[DDR_WR_DBI_EN := 1] else DdrCfg); DdrCfg = (if DataMask P \<noteq> 0 then DdrCfg[DDR_DM_EN := 1] else
         DdrCfg[DDR_DM_EN := 0]) in DdrCfg) else DdrCfg[DDR_DM_EN := 0]);
     let DdrCfg = DdrCfg[DDR_WR_ODT_HOLD := (BurstLength P div 2) + 2];
     let DdrCfg = (if Crc P OR WrPreamble P \<noteq> 0 then DdrCfg[DDR_WR_ODT_HOLD := (DdrCfg ! DDR_WR_ODT_HOLD) + 1] else DdrCfg);
     let DdrCfg = DdrCfg[DDR_WR_ODT_DELAY := Cal, DDR_RD_ODT_HOLD := 6];
     Some (DdrCfg, Cal) }"

definition ddrc_ddr4_6 :: "XFsbl_DimmParams \<Rightarrow> u32 list \<Rightarrow> u32 \<Rightarrow> (u32 list) option" where
  "ddrc_ddr4_6 P DdrCfg Cal = do {
     let DdrCfg = DdrCfg[DDR_RD_ODT_DELAY := Cal + (if CasLatency P - CasWriteLatency P < 1 then 0 else (CasLatency P - CasWriteLatency P) - 1),
         DDR_RANK1_WR_ODT := 2 * NumRankAddr P, DDR_RANK0_WR_ODT := 0x1];
     let DdrCfg = (if BusWidth P = 32 then DdrCfg[DDR_DIS_WC := 1, DDR_BL_EXP_MODE := 1] else DdrCfg);
     Some DdrCfg }"

definition XFsbl_DdrcCalcDdr4RegVal :: "XFsbl_DimmParams \<Rightarrow> u32 list \<Rightarrow> (XFsbl_DimmParams \<times> u32 list) option" where
  "XFsbl_DdrcCalcDdr4RegVal P DdrCfg = do {
     (DdrCfg, Twr, Bit2, Bit654) \<leftarrow> ddrc_ddr4_1 P DdrCfg;
     (P, DdrCfg) \<leftarrow> ddrc_ddr4_2 P DdrCfg Twr Bit2 Bit654;
     (P, DdrCfg, Cal) \<leftarrow> ddrc_ddr4_3 P DdrCfg;
     (P, DdrCfg, Cal) \<leftarrow> ddrc_ddr4_4 P DdrCfg Cal;
     (DdrCfg, Cal) \<leftarrow> ddrc_ddr4_5 P DdrCfg Cal;
     DdrCfg \<leftarrow> ddrc_ddr4_6 P DdrCfg Cal;
     Some (P, DdrCfg) }"

section \<open>DDR3\<close>

definition ddrc_ddr3_1 :: "XFsbl_DimmParams \<Rightarrow> u32 list \<Rightarrow> (u32 list \<times> u32) option" where
  "ddrc_ddr3_1 P DdrCfg = do {
     let DdrCfg = DdrCfg[DDR_DDR3 := 1];
     c1 \<leftarrow> to_u32 (fdiv 53 (fdiv 53 (fdiv 53 (fdiv 53 (dbl (TRefi P)) (Fin 1000)) (Fin 2)) (ClockPeriod P)) (Fin 32));
     let Val = c1;
     let DdrCfg = (if (RDimm P \<noteq> 0 \<or> UDimm P \<noteq> 0) \<and> NumRankAddr P = 1 then DdrCfg[DDR_REFRESH_TIMER1_START_VALUE_X32 := Val
         div 2] else DdrCfg);
     let Val = (if TRefRange P \<noteq> 0 then Val div 2 else Val);
     let DdrCfg = DdrCfg[DDR_T_RFC_NOM_X32 := max 1 (min Val 0xFFE)];
     c2 \<leftarrow> ceil_of (fdiv 53 (fdiv 53 (Fin 400) (fmul 53 (ClockPeriod P) (Fin 1024))) (Fin 2));
     let DdrCfg = DdrCfg[DDR_POST_CKE_X1024 := max 1 (c2 + 1)];
     c3 \<leftarrow> ceil_of (fdiv 53 (fdiv 53 (Fin 500000) (fmul 53 (ClockPeriod P) (Fin 1024))) (Fin 2));
     let DdrCfg = DdrCfg[DDR_PRE_CKE_X1024 := max 1 (c3 + 1)];
     c4 \<leftarrow> ceil_of (fdiv 53 (fdiv 53 (Fin 200000) (fmul 53 (ClockPeriod P) (Fin 1024))) (Fin 2));
     let DdrCfg = DdrCfg[DDR_DRAM_RSTN_X1024 := max (c4 + 1) 1];
     let BurstLen = (if BurstLength P = 4 then 2 else 0);
     let CasLat = CasLatency P;
     let Bit654 = (if CasLat < 12 then CasLat - 4 else CasLat - 12);
     c5 \<leftarrow> ceil_of (fdiv 53 (Fin 15) (ClockPeriod P));
     let Twr = c5;
     let Twr = max 5 (min 16 Twr);
     c7 \<leftarrow> (if Twr < 8 then Some (Twr - 4) else do { c6 \<leftarrow> ceil_of (fdiv 53 (dbl Twr) (Fin 2)); Some c6 });
     let DdrCfg = DdrCfg[DDR_MR := XFSBL_SETBITS c7 9 3 + push_bit 8 1 + XFSBL_SETBITS Bit654 4 3 + push_bit 2 (if CasLat < 12 then 0 else 1) +
         XFSBL_SETBITS BurstLen 0 2];
     let POdt = (if DramOdt P = 60 then push_bit 2 1 else if DramOdt P = 120 then push_bit 6 1 else if DramOdt P = 40 then push_bit 6 1 + push_bit 2
         1 else if DramOdt P = 20 then push_bit 9 1 else if DramOdt P = 30 then push_bit 9 1 + push_bit 2 1 else if NumRankAddr P = 0 then push_bit 2
         1 else push_bit 6 1);
     let DdrCfg = DdrCfg[DDR_EMR := push_bit 3 (AdditiveLatency P) + POdt + (if DramDrv P = 34 then 0x2 else 0), DDR_EMR2 := push_bit 9 (NumRankAddr
         P) + XFSBL_SETBITS (CasWriteLatency P - 5) 3 3];
     let DdrCfg = DdrCfg[DDR_EMR2 := (DdrCfg ! DDR_EMR2) + push_bit 7 (TRefRange P), DDR_EMR3 := 0, DDR_DEV_ZQINIT_X32 := (512 div 32) + 1];
     let DdrCfg = (if (RDimm P \<noteq> 0 \<or> UDimm P \<noteq> 0) \<and> NumRankAddr P = 1 then DdrCfg[DDR_DIMM_STAGGER_CS_EN := 1] else DdrCfg);
     c8 \<leftarrow> ceil_of (fdiv 53 (dbl (DdrCfg ! DDR_DIFF_RANK_WR_GAP)) (Fin 2));
     let DdrCfg = DdrCfg[DDR_DIFF_RANK_WR_GAP := c8 + 3];
     c9 \<leftarrow> ceil_of (fdiv 53 (dbl (DdrCfg ! DDR_DIFF_RANK_RD_GAP)) (Fin 2));
     let DdrCfg = DdrCfg[DDR_DIFF_RANK_RD_GAP := c9 + 3];
     c10 \<leftarrow> ceil_of (fdiv 53 (Fin 15) (ClockPeriod P));
     let Twr = c10;
     Some (DdrCfg, Twr) }"

definition ddrc_ddr3_2 :: "XFsbl_DimmParams \<Rightarrow> u32 list \<Rightarrow> u32 \<Rightarrow> (XFsbl_DimmParams \<times> u32 list) option" where
  "ddrc_ddr3_2 P DdrCfg Twr = do {
     Twr \<leftarrow> (if MemType P = SPD_MEMTYPE_DDR4 \<and> Crc P \<noteq> 0 then (if SpeedBin P \<ge> 1866 \<and> SpeedBin P \<le> 2666 then do {
         c1 \<leftarrow> ceil_of (fdiv 53 (Fin (15 / 4)) (ClockPeriod P)); Some (Twr + max c1 5) } else if SpeedBin P = 1600 then do { c2
         \<leftarrow> ceil_of (fdiv 53 (Fin (15 / 4)) (ClockPeriod P)); Some (Twr + max c2 4) } else Some Twr) else Some Twr);
     let Twr = (if WrPreamble P \<noteq> 0 \<and> MemType P = SPD_MEMTYPE_DDR4 then Twr + 1 else Twr);
     c3 \<leftarrow> to_u32 (fadd 53 (fadd 53 (dbl (WriteLatency P)) (fdiv 53 (dbl (BurstLength P)) (Fin 2))) (dbl Twr));
     let DdrCfg = DdrCfg[DDR_WR2PRE := c3 div 2];
     let DdrCfg = (if En2tTimingMode P \<noteq> 0 \<and> MemType P = SPD_MEMTYPE_DDR4 then DdrCfg[DDR_WR2PRE := (DdrCfg ! DDR_WR2PRE) + 1] else
         DdrCfg);
     c4 \<leftarrow> to_u32 (fmax (Fin 1) (fdiv 53 (fsub 53 (fdiv 53 (fdiv 53 (fmul 53 (Fin 9) (fdiv 53 (dbl (TRefi P)) (Fin 1000))) (ClockPeriod P))
         (Fin 1024)) (Fin 1)) (Fin 2)));
     let DdrCfg = DdrCfg[DDR_T_RAS_MAX := c4];
     DdrCfg \<leftarrow> (if En2tTimingMode P \<noteq> 0 then do { c5 \<leftarrow> ceil_of (fdiv 53 (fdiv 53 (fdiv 53 (dbl (TRasPs P)) (Fin 1000))
         (ClockPeriod P)) (Fin 2)); Some (DdrCfg[DDR_T_RAS_MIN := c5]) } else do { c6 \<leftarrow> XFsbl_Round (fcvt 24 (fdiv 53 (fdiv 53 (fdiv 53
         (dbl (TRasPs P)) (Fin 1000)) (ClockPeriod P)) (Fin 2))); Some (DdrCfg[DDR_T_RAS_MIN := c6]) });
     let P = P\<lparr>TXp := fcvt 24 (fmax (Fin 10) (fdiv 53 (Fin 24) (ClockPeriod P)))\<rparr>;
     c7 \<leftarrow> ceil_of (fdiv 53 (TXp P) (Fin 2));
     let DdrCfg = DdrCfg[DDR_T_XP := min c7 31];
     DdrCfg \<leftarrow> (if En2tTimingMode P \<noteq> 0 then do { c8 \<leftarrow> ceil_of (fdiv 53 (Fin (15 / 2)) (ClockPeriod P)); c9 \<leftarrow>
         ceil_of (fdiv 53 (dbl (AdditiveLatency P + max c8 4)) (Fin 2)); Some (DdrCfg[DDR_RD2PRE := c9]) } else do { c10 \<leftarrow> ceil_of (fdiv
         53 (Fin (15 / 2)) (ClockPeriod P)); Some (DdrCfg[DDR_RD2PRE := (AdditiveLatency P + max c10 4) div 2]) });
     c11 \<leftarrow> ceil_of (fdiv 53 (dbl ((ReadLatency P + (BurstLength P div 2) + 2) - WriteLatency P)) (Fin 2));
     let DdrCfg = DdrCfg[DDR_RD2WR := c11 + 2];
     c12 \<leftarrow> ceil_of (fdiv 53 (Fin (15 / 2)) (ClockPeriod P));
     let P = P\<lparr>TWtr := max c12 4\<rparr>;
     c13 \<leftarrow> ceil_of (fdiv 53 (sgl (WriteLatency P + TWtr P + (BurstLength P div 2))) (Fin 2));
     let DdrCfg = DdrCfg[DDR_WR2RD := c13, DDR_T_MRD := 0x2];
     let P = P\<lparr>TMod := fadd 24 (fmax (Fin 12) (fdiv 24 (Fin 15) (ClockPeriod P))) (sgl (RDimm P))\<rparr>;
     c14 \<leftarrow> ceil_of (fdiv 53 (TMod P) (Fin 2));
     let DdrCfg = DdrCfg[DDR_T_MOD := c14];
     c15 \<leftarrow> ceil_of (fdiv 53 (fdiv 53 (dbl (TRrdPs P)) (Fin 1000)) (ClockPeriod P));
     c16 \<leftarrow> ceil_of (fdiv 53 (dbl (max c15 4)) (Fin 2));
     let DdrCfg = DdrCfg[DDR_T_RRD := c16];
     c17 \<leftarrow> ceil_of (fdiv 53 (fdiv 53 (dbl (TRpPs P)) (Fin 1000)) (Fin 2));
     let DdrCfg = DdrCfg[DDR_T_RP := (c17 + 1) + 1];
     c18 \<leftarrow> ceil_of (fdiv 53 (Fin 10) (ClockPeriod P));
     c19 \<leftarrow> ceil_of (fdiv 53 (fmax (dbl_s32 c18) (Fin 5)) (Fin 2));
     let DdrCfg = DdrCfg[DDR_T_CKSRX := c19];
     c20 \<leftarrow> ceil_of (fdiv 53 (Fin 10) (ClockPeriod P));
     c21 \<leftarrow> ceil_of (fdiv 53 (fmax (dbl_s32 c20) (Fin 5)) (Fin 2));
     let DdrCfg = DdrCfg[DDR_T_CKSRE := c21];
     c22 \<leftarrow> ceil_of (fdiv 53 (fmax (Fin 5) (fdiv 53 (Fin 45) (dbl ((SpeedBin P div 266) + 3)))) (ClockPeriod P));
     c23 \<leftarrow> ceil_of (fdiv 53 (fadd 53 (fmax (dbl_s32 c22) (Fin 3)) (Fin 1)) (Fin 2));
     let DdrCfg = DdrCfg[DDR_T_CKESR := c23];
     c24 \<leftarrow> ceil_of (fdiv 53 (fmax (Fin 5) (fdiv 53 (Fin 45) (dbl ((SpeedBin P div 266) + 3)))) (ClockPeriod P));
     let FVal = fcvt 24 (fmax (dbl_s32 c24) (Fin 3));
     c25 \<leftarrow> ceil_of (fdiv 53 FVal (Fin 2));
     let DdrCfg = DdrCfg[DDR_T_CKE := c25];
     c26 \<leftarrow> ceil_of (fdiv 53 (fadd 53 FVal (Fin 2)) (Fin 2));
     let DdrCfg = DdrCfg[DDR_T_CKCSX := c26];
     let DdrCfg = DdrCfg[DDR_T_CKPDE := DdrCfg ! DDR_T_CKSRE];
     let DdrCfg = DdrCfg[DDR_T_CKPDX := DdrCfg ! DDR_T_CKSRX];
     c27 \<leftarrow> ceil_of (fdiv 53 (fdiv 53 (Fin 512) (Fin 32)) (Fin 2));
     let DdrCfg = DdrCfg[DDR_T_XS_DLL_X32 := c27 + 1];
     Some (P, DdrCfg) }"

definition ddrc_ddr3_3 :: "XFsbl_DimmParams \<Rightarrow> u32 list \<Rightarrow> (u32 list) option" where
  "ddrc_ddr3_3 P DdrCfg = do {
     c1 \<leftarrow> ceil_of (fdiv 53 (fdiv 53 (Fin 512) (Fin 32)) (Fin 2));
     let DdrCfg = DdrCfg[DDR_T_XS_X32 := c1 + 1];
     c2 \<leftarrow> ceil_of (fdiv 53 (fmax (Fin 256) (fdiv 53 (Fin 320) (ClockPeriod P))) (Fin 2));
     let DdrCfg = DdrCfg[DDR_T_ZQ_LONG_NOP := c2];
     c3 \<leftarrow> ceil_of (fdiv 53 (fmax (Fin 64) (fdiv 53 (Fin 80) (ClockPeriod P))) (Fin 2));
     let DdrCfg = DdrCfg[DDR_T_ZQ_SHORT_NOP := c3];
     c4 \<leftarrow> to_u32 (fdiv 53 (fdiv 53 (Fin 100000000) (ClockPeriod P)) (Fin 1024));
     let DdrCfg = DdrCfg[DDR_T_ZQ_SHORT_INTERVAL_X1024 := c4, DDR_DFI_T_RDDATA_EN := (ReadLatency P - 4) - RDimm P, DDR_DFI_TPHY_WRLAT :=
         (WriteLatency P - 3) - RDimm P, DDR_DFI_T_WRDATA_DELAY := 2, DDR_DFI_DATA_CS_POLARITY := 0, DDR_PHY_DBI_MODE := PhyDbiMode P, DDR_DM_EN :=
         0, DDR_WR_ODT_HOLD := (BurstLength P div 2) + 3, DDR_WR_ODT_DELAY := 0, DDR_RD_ODT_HOLD := (BurstLength P div 2) + 2, DDR_RD_ODT_DELAY :=
         CasLatency P - CasWriteLatency P, DDR_RANK1_WR_ODT := 2 * NumRankAddr P, DDR_RANK0_WR_ODT := 0x1];
     Some DdrCfg }"

definition XFsbl_DdrcCalcDdr3RegVal :: "XFsbl_DimmParams \<Rightarrow> u32 list \<Rightarrow> (XFsbl_DimmParams \<times> u32 list) option" where
  "XFsbl_DdrcCalcDdr3RegVal P DdrCfg = do {
     (DdrCfg, Twr) \<leftarrow> ddrc_ddr3_1 P DdrCfg;
     (P, DdrCfg) \<leftarrow> ddrc_ddr3_2 P DdrCfg Twr;
     DdrCfg \<leftarrow> ddrc_ddr3_3 P DdrCfg;
     Some (P, DdrCfg) }"

end
