(* ===== verification/Ddr_Fields.thy ===== *)
theory Ddr_Fields
  imports Fsbl_Prelude
begin

text \<open>
  Values packed into the fields of a register.  A field is a value with a mask and a position; the code combines
  the fields of a register by \<open>|\<close> or by \<open>+\<close>, which are the same when the fields do not meet.
\<close>

type_synonym field = "u32 \<times> u32 \<times> nat"

primrec fields_or :: "field list \<Rightarrow> u32" where
  "fields_or [] = 0"
| "fields_or (f # fs) = (case f of (v, m, i) \<Rightarrow> push_bit i (v AND m)) OR fields_or fs"

primrec fields_sum :: "field list \<Rightarrow> u32" where
  "fields_sum [] = 0"
| "fields_sum (f # fs) = (case f of (v, m, i) \<Rightarrow> push_bit i (v AND m)) + fields_sum fs"

text \<open>Where a field lies, and lists of fields that lie inside the register and apart from each other.\<close>

definition area :: "field \<Rightarrow> u32" where
  "area f = (case f of (v, m, i) \<Rightarrow> push_bit i m)"

primrec areas_apart :: "u32 \<Rightarrow> (u32 \<times> nat) list \<Rightarrow> bool" where
  "areas_apart taken [] = True"
| "areas_apart taken (a # as) = (case a of (m, i) \<Rightarrow>
     drop_bit i (push_bit i m) = m \<and> push_bit i m AND taken = 0 \<and> areas_apart (taken OR push_bit i m) as)"

abbreviation fields_apart :: "field list \<Rightarrow> bool" where
  "fields_apart fs \<equiv> areas_apart 0 (map snd fs)"

lemma areas_apart_taken:
  "areas_apart taken (map snd fs) \<Longrightarrow> f \<in> set fs \<Longrightarrow> area f AND taken = 0"
proof (induction fs arbitrary: taken)
  case (Cons g gs)
  show ?case
  proof (cases "f = g")
    case True
    then show ?thesis using Cons.prems(1) by (auto simp: area_def split: prod.splits)
  next
    case False
    then have "area f AND (taken OR area g) = 0" using Cons by (auto simp: area_def split: prod.splits)
    then show ?thesis by (auto simp: bit_eq_iff bit_simps)
  qed
qed simp

lemma fields_or_apart:
  "areas_apart taken (map snd fs) \<Longrightarrow> fields_or fs AND taken = 0"
proof (induction fs arbitrary: taken)
  case (Cons g gs)
  obtain v m i where g: "g = (v, m, i)" by (cases g)
  have "push_bit i m AND taken = 0" "fields_or gs AND (taken OR push_bit i m) = 0" using Cons unfolding g by auto
  then show ?case unfolding g by (auto simp: bit_eq_iff bit_simps)
qed simp

text \<open>A field of a register reads back as the value that was put there, cut to the mask.\<close>

lemma field_read:
  "areas_apart taken (map snd fs) \<Longrightarrow> (v, m, i) \<in> set fs \<Longrightarrow> drop_bit i (fields_or fs) AND m = v AND m"
proof (induction fs arbitrary: taken)
  case (Cons g gs)
  obtain v' m' i' where g: "g = (v', m', i')" by (cases g)
  have apart: "areas_apart (taken OR push_bit i' m') (map snd gs)" and fit: "drop_bit i' (push_bit i' m') = m'" using Cons.prems(1) unfolding g by auto
  show ?case
  proof (cases "(v, m, i) = g")
    case True
    then have eq: "v' = v" "m' = m" "i' = i" unfolding g by simp_all
    have "fields_or gs AND (taken OR push_bit i m) = 0" using apart unfolding eq by (rule fields_or_apart)
    then have rest: "drop_bit i (fields_or gs) AND m = 0" using fit unfolding eq by (auto simp: bit_eq_iff bit_simps add.commute)
    have "drop_bit i (push_bit i (v AND m)) AND m = v AND m" using fit unfolding eq by (auto simp: bit_eq_iff bit_simps)
    then show ?thesis using rest unfolding g eq by (simp add: drop_bit_or and.commute [of _ m] bit.conj_disj_distrib ac_simps)
  next
    case False
    then have mem: "(v, m, i) \<in> set gs" using Cons.prems(2) by simp
    have "area (v, m, i) AND (taken OR push_bit i' m') = 0" by (rule areas_apart_taken [OF apart mem])
    then have "drop_bit i (push_bit i' (v' AND m')) AND m = 0" by (auto simp: area_def bit_eq_iff bit_simps add.commute)
    then have "drop_bit i (fields_or (g # gs)) AND m = drop_bit i (fields_or gs) AND m"
      unfolding g by (auto simp: bit_eq_iff bit_simps)
    then show ?thesis using Cons.IH [OF apart mem] by simp
  qed
qed simp

lemma fields_sum_or: "areas_apart taken (map snd fs) \<Longrightarrow> fields_sum fs = fields_or fs"
proof (induction fs arbitrary: taken)
  case (Cons g gs)
  obtain v m i where g: "g = (v, m, i)" by (cases g)
  have "fields_or gs AND (taken OR push_bit i m) = 0" using Cons.prems unfolding g by (auto intro: fields_or_apart)
  then have "push_bit i (v AND m) AND fields_or gs = 0" by (auto simp: bit_eq_iff bit_simps)
  then show ?case using Cons unfolding g by (auto simp: disjunctive_add_eq_or)
qed simp

lemma field_read_sum:
  "areas_apart taken (map snd fs) \<Longrightarrow> (v, m, i) \<in> set fs \<Longrightarrow> drop_bit i (fields_sum fs) AND m = v AND m"
  by (simp add: fields_sum_or field_read)

end
