(* ===== verification/Ddr_Registers.thy ===== *)
theory Ddr_Registers
  imports Ddr_Fields Ddr_Hw Fsbl_Machine
begin

text \<open>
  \<open>XFsbl_DdrcRegsWrite\<close>: the registers of the DDR controller, in the order in which they are written, each with its offset
  and the fields that are added up to its value.  A constant that the code does not mask stands with itself as
  its mask.
\<close>

definition ddrc_regs_1 :: "u32 list \<Rightarrow> (u32 \<times> field list) list" where
  "ddrc_regs_1 DdrCfg =
     [(0x0, [(DdrCfg ! DDR_DEVICE_CONFIG, 0x3, 30), (DdrCfg ! DDR_FREQUENCY_MODE, 0x1, 29), (DdrCfg ! DDR_ACTIVE_RANKS, 0x3, 24), (DdrCfg ! DDR_BURST_RDWR, 0xF, 16), (DdrCfg ! DDR_DLL_OFF_MODE, 0x1, 15), (DdrCfg ! DDR_DATA_BUS_WIDTH, 0x3, 12), (DdrCfg ! DDR_GEARDOWN_MODE, 0x1, 11), (DdrCfg ! DDR_EN_2T_TIMING_MODE, 0x1, 10), (DdrCfg ! DDR_BURSTCHOP, 0x1, 9), (DdrCfg ! DDR_LPDDR4, 0x1, 5), (DdrCfg ! DDR_DDR4, 0x1, 4), (DdrCfg ! DDR_LPDDR3, 0x1, 3), (DdrCfg ! DDR_LPDDR2, 0x1, 2), (DdrCfg ! DDR_DDR3, 0x1, 0)]),
      (0x10, [(DdrCfg ! DDR_MR_WR, 0x1, 31), (DdrCfg ! DDR_MR_ADDR, 0xF, 12), (DdrCfg ! DDR_MR_RANK, 0x3, 4), (DdrCfg ! DDR_PDA_EN, 0x1, 2), (DdrCfg ! DDR_MPR_EN, 0x1, 1), (DdrCfg ! DDR_MR_TYPE, 0x1, 0)]),
      (0x20, [(DdrCfg ! DDR_RC_DERATE_VALUE, 0x3, 8), (DdrCfg ! DDR_DERATE_BYTE, 0xF, 4), (DdrCfg ! DDR_DERATE_VALUE, 0x1, 1), (DdrCfg ! DDR_DERATE_ENABLE, 0x1, 0)]),
      (0x24, [(DdrCfg ! DDR_MR4_READ_INTERVAL, 0xFFFFFFFF, 0)]),
      (0x30, [(DdrCfg ! DDR_STAY_IN_SELFREF, 0x1, 6), (DdrCfg ! DDR_SELFREF_SW, 0x1, 5), (DdrCfg ! DDR_MPSM_EN, 0x1, 4), (DdrCfg ! DDR_EN_DFI_DRAM_CLK_DISABLE, 0x1, 3), (DdrCfg ! DDR_DEEPPOWERDOWN_EN, 0x1, 2), (DdrCfg ! DDR_POWERDOWN_EN, 0x1, 1), (DdrCfg ! DDR_SELFREF_EN, 0x1, 0)]),
      (0x34, [(DdrCfg ! DDR_SELFREF_TO_X32, 0xFF, 16), (DdrCfg ! DDR_T_DPD_X4096, 0xFF, 8), (DdrCfg ! DDR_POWERDOWN_TO_X32, 0x1F, 0)]),
      (0x50, [(DdrCfg ! DDR_REFRESH_MARGIN, 0xF, 20), (DdrCfg ! DDR_REFRESH_TO_X32, 0x1F, 12), (DdrCfg ! DDR_REFRESH_BURST, 0x1F, 4), (DdrCfg ! DDR_PER_BANK_REFRESH, 0x1, 2)]),
      (0x54, [(DdrCfg ! DDR_REFRESH_TIMER1_START_VALUE_X32, 0xFFF, 16), (DdrCfg ! DDR_REFRESH_TIMER0_START_VALUE_X32, 0xFFF, 0)]),
      (0x60, [(DdrCfg ! DDR_REFRESH_MODE, 0x7, 4), (DdrCfg ! DDR_REFRESH_UPDATE_LEVEL, 0x1, 1), (0x1, 0x1, 0)]),
      (0x64, [(DdrCfg ! DDR_T_RFC_NOM_X32, 0xFFF, 16), (0x1, 0x1, 15), (DdrCfg ! DDR_T_RFC_MIN, 0x3FF, 0)]),
      (0x70, [(DdrCfg ! DDR_DIS_SCRUB, 0x1, 4), (DdrCfg ! DDR_ECC_MODE, 0x7, 0)]),
      (0x74, [(DdrCfg ! DDR_DATA_POISON_BIT, 0x1, 1), (DdrCfg ! DDR_DATA_POISON_EN, 0x1, 0)]),
      (0xC4, [(DdrCfg ! DDR_DFI_T_PHY_RDLAT, 0x3F, 24), (DdrCfg ! DDR_ALERT_WAIT_FOR_SW, 0x1, 9), (DdrCfg ! DDR_CRC_PARITY_RETRY_ENABLE, 0x1, 8), (DdrCfg ! DDR_CRC_INC_DM, 0x1, 7), (DdrCfg ! DDR_CRC_ENABLE, 0x1, 4), (DdrCfg ! DDR_PARITY_ENABLE, 0x1, 0)]),
      (0xC8, [(DdrCfg ! DDR_T_PAR_ALERT_PW_MAX, 0x1FF, 16), (DdrCfg ! DDR_T_CRC_ALERT_PW_MAX, 0x1F, 8), (0x1F, 0x1F, 0)]),
      (0xD0, [(DdrCfg ! DDR_SKIP_DRAM_INIT, 0x3, 30), (DdrCfg ! DDR_POST_CKE_X1024, 0x3FF, 16), (DdrCfg ! DDR_PRE_CKE_X1024, 0xFFF, 0)]),
      (0xD4, [(DdrCfg ! DDR_DRAM_RSTN_X1024, 0x1FF, 16), (DdrCfg ! DDR_FINAL_WAIT_X32, 0x7F, 8), (DdrCfg ! DDR_PRE_OCD_X32, 0xF, 0)]),
      (0xD8, [(DdrCfg ! DDR_IDLE_AFTER_RESET_X32, 0xFF, 8), (DdrCfg ! DDR_MIN_STABLE_CLOCK_X1, 0xF, 0)]),
      (0xDC, [(DdrCfg ! DDR_MR, 0xFFFF, 16), (DdrCfg ! DDR_EMR, 0xFFFF, 0)]),
      (0xE0, [(DdrCfg ! DDR_EMR2, 0xFFFF, 16), (DdrCfg ! DDR_EMR3, 0xFFFF, 0)]),
      (0xE4, [(DdrCfg ! DDR_DEV_ZQINIT_X32, 0xFF, 16), (DdrCfg ! DDR_MAX_AUTO_INIT_X1024, 0x3FF, 0)])]"

definition ddrc_regs_2 :: "u32 list \<Rightarrow> (u32 \<times> field list) list" where
  "ddrc_regs_2 DdrCfg =
     [(0xE8, [(DdrCfg ! DDR_MR4, 0xFFFF, 16), (DdrCfg ! DDR_MR5, 0xFFFF, 0)]),
      (0xEC, [(DdrCfg ! DDR_MR6, 0xFFFF, 16)]),
      (0xF0, [(DdrCfg ! DDR_DIMM_DIS_BG_MIRRORING, 0x1, 5), (0x1, 0x1, 4), (DdrCfg ! DDR_MRS_A17_EN, 0x1, 3), (DdrCfg ! DDR_DIMM_OUTPUT_INV_EN, 0x1, 2), (DdrCfg ! DDR_DIMM_ADDR_MIRR_EN, 0x1, 1), (DdrCfg ! DDR_DIMM_STAGGER_CS_EN, 0x1, 0)]),
      (0xF4, [(DdrCfg ! DDR_DIFF_RANK_WR_GAP, 0xF, 8), (DdrCfg ! DDR_DIFF_RANK_RD_GAP, 0xF, 4), (DdrCfg ! DDR_MAX_RANK_RD, 0xF, 0)]),
      (0x100, [(DdrCfg ! DDR_WR2PRE, 0x7F, 24), (DdrCfg ! DDR_T_FAW, 0x3F, 16), (DdrCfg ! DDR_T_RAS_MAX, 0x7F, 8), (DdrCfg ! DDR_T_RAS_MIN, 0x3F, 0)]),
      (0x104, [(DdrCfg ! DDR_T_XP, 0x1F, 16), (DdrCfg ! DDR_RD2PRE, 0x1F, 8), (DdrCfg ! DDR_T_RC, 0x7F, 0)]),
      (0x108, [(DdrCfg ! DDR_WRITE_LATENCY, 0x3F, 24), (DdrCfg ! DDR_READ_LATENCY, 0x3F, 16), (DdrCfg ! DDR_RD2WR, 0x3F, 8), (DdrCfg ! DDR_WR2RD, 0x3F, 0)]),
      (0x10C, [(DdrCfg ! DDR_T_MRW, 0x3FF, 20), (DdrCfg ! DDR_T_MRD, 0x3F, 12), (DdrCfg ! DDR_T_MOD, 0x3FF, 0)]),
      (0x110, [(DdrCfg ! DDR_T_RCD, 0x1F, 24), (DdrCfg ! DDR_T_CCD, 0xF, 16), (DdrCfg ! DDR_T_RRD, 0xF, 8), (DdrCfg ! DDR_T_RP, 0x1F, 0)]),
      (0x114, [(DdrCfg ! DDR_T_CKSRX, 0xF, 24), (DdrCfg ! DDR_T_CKSRE, 0xF, 16), (DdrCfg ! DDR_T_CKESR, 0x3F, 8), (DdrCfg ! DDR_T_CKE, 0x1F, 0)]),
      (0x118, [(0x1, 0xF, 24), (0x1, 0xF, 16), (DdrCfg ! DDR_T_CKCSX, 0xF, 0)]),
      (0x11C, [(DdrCfg ! DDR_T_CKPDE, 0xF, 8), (DdrCfg ! DDR_T_CKPDX, 0xF, 0)]),
      (0x120, [(DdrCfg ! DDR_T_XS_FAST_X32, 0x7F, 24), (DdrCfg ! DDR_T_XS_ABORT_X32, 0x7F, 16), (DdrCfg ! DDR_T_XS_DLL_X32, 0x7F, 8), (DdrCfg ! DDR_T_XS_X32, 0x7F, 0)]),
      (0x124, [(DdrCfg ! DDR_DDR4_WR_PREAMBLE, 0x1, 30), (DdrCfg ! DDR_T_CCD_S, 0x7, 16), (DdrCfg ! DDR_T_RRD_S, 0xF, 8), (DdrCfg ! DDR_WR2RD_S, 0x3F, 0)]),
      (0x12C, [(DdrCfg ! DDR_POST_MPSM_GAP_X32, 0x7F, 24), (DdrCfg ! DDR_T_MPX_LH, 0x1F, 16), (0x1, 0x3, 8), (DdrCfg ! DDR_T_CKMPE, 0x1F, 0)]),
      (0x130, [(DdrCfg ! DDR_T_CMDCKE, 0x3, 16), (DdrCfg ! DDR_T_CKEHCMD, 0xF, 8), (DdrCfg ! DDR_T_MRD_PDA, 0x1F, 0)]),
      (0x180, [(0x1, 0x1, 31), (DdrCfg ! DDR_DIS_SRX_ZQCL, 0x1, 30), (DdrCfg ! DDR_ZQ_RESISTOR_SHARED, 0x1, 29), (DdrCfg ! DDR_DIS_MPSMX_ZQCL, 0x1, 28), (DdrCfg ! DDR_T_ZQ_LONG_NOP, 0x7FF, 16), (DdrCfg ! DDR_T_ZQ_SHORT_NOP, 0x3FF, 0)]),
      (0x184, [(DdrCfg ! DDR_T_ZQ_RESET_NOP, 0x3FF, 20), (DdrCfg ! DDR_T_ZQ_SHORT_INTERVAL_X1024, 0xFFFFF, 0)]),
      (0x190, [(0x4, 0x1F, 24), (0x1, 0x1, 23), (DdrCfg ! DDR_DFI_T_RDDATA_EN, 0x3F, 16), (0x1, 0x1, 15), (0x2, 0x3F, 8), (DdrCfg ! DDR_DFI_TPHY_WRLAT, 0x3F, 0)]),
      (0x194, [(DdrCfg ! DDR_DFI_T_CMD_LAT, 0xF, 28), (DdrCfg ! DDR_DFI_T_WRDATA_DELAY, 0x1F, 16), (0x3, 0xF, 8), (0x4, 0xF, 0)])]"

definition ddrc_regs_3 :: "u32 list \<Rightarrow> (u32 \<times> field list) list" where
  "ddrc_regs_3 DdrCfg =
     [(0x198, [(0x7, 0xF, 24), (DdrCfg ! DDR_DFI_LP_WAKEUP_DPD, 0xF, 20), (DdrCfg ! DDR_DFI_LP_EN_DPD, 0x1, 16), (DdrCfg ! DDR_DFI_LP_EN_SR, 0x1, 8), (DdrCfg ! DDR_DFI_LP_EN_PD, 0x1, 0)]),
      (0x19C, [(0x2, 0xF, 4), (DdrCfg ! DDR_DFI_LP_EN_MPSM, 0x1, 0)]),
      (0x1A0, [(DdrCfg ! DDR_DIS_AUTO_CTRLUPD, 0x1, 31), (DdrCfg ! DDR_DIS_AUTO_CTRLUPD_SRX, 0x1, 30), (DdrCfg ! DDR_DFI_T_CTRLUP_MAX, 0x3FF, 16), (DdrCfg ! DDR_DFI_T_CTRLUP_MIN, 0x3FF, 0)]),
      (0x1A4, [(200, 0xFF, 16), (255, 0xFF, 0)]),
      (0x1B0, [(DdrCfg ! DDR_DFI_DATA_CS_POLARITY, 0x1, 2), (DdrCfg ! DDR_PHY_DBI_MODE, 0x1, 1)]),
      (0x1B4, [(DdrCfg ! DDR_DFI_TPHY_RDCSLAT, 0x3F, 8), (DdrCfg ! DDR_DFI_TPHY_WRCSLAT, 0x3F, 0)]),
      (0x1C0, [(DdrCfg ! DDR_RD_DBI_EN, 0x1, 2), (DdrCfg ! DDR_WR_DBI_EN, 0x1, 1), (DdrCfg ! DDR_DM_EN, 0x1, 0)]),
      (0x240, [(DdrCfg ! DDR_WR_ODT_HOLD, 0xF, 24), (DdrCfg ! DDR_WR_ODT_DELAY, 0x1F, 16), (DdrCfg ! DDR_RD_ODT_HOLD, 0xF, 8), (DdrCfg ! DDR_RD_ODT_DELAY, 0x1F, 2)]),
      (0x244, [(DdrCfg ! DDR_RANK1_WR_ODT, 0x3, 8), (DdrCfg ! DDR_RANK0_WR_ODT, 0x3, 0)]),
      (0x250, [(0x1, 0x7F, 24), (DdrCfg ! DDR_GO2CRITICAL_HYSTERESIS, 0xFF, 16), (DdrCfg ! DDR_LPR_NUM_ENTRIES, 0x3F, 8), (DdrCfg ! DDR_PREFER_WRITE, 0x1, 1), (DdrCfg ! DDR_FORCE_LOW_PRI_N, 0x1, 0)]),
      (0x264, [(0x8, 0xFF, 24), (64, 0xFFFF, 0)]),
      (0x26C, [(0x8, 0xFF, 24), (0x40, 0xFFFF, 0)]),
      (0x280, [(DdrCfg ! DDR_DQ_NIBBLE_MAP_12_15, 0xFF, 24), (DdrCfg ! DDR_DQ_NIBBLE_MAP_8_11, 0xFF, 16), (DdrCfg ! DDR_DQ_NIBBLE_MAP_4_7, 0xFF, 8), (DdrCfg ! DDR_DQ_NIBBLE_MAP_0_3, 0xFF, 0)]),
      (0x284, [(DdrCfg ! DDR_DQ_NIBBLE_MAP_28_31, 0xFF, 24), (DdrCfg ! DDR_DQ_NIBBLE_MAP_24_27, 0xFF, 16), (DdrCfg ! DDR_DQ_NIBBLE_MAP_20_23, 0xFF, 8), (DdrCfg ! DDR_DQ_NIBBLE_MAP_16_19, 0xFF, 0)]),
      (0x288, [(DdrCfg ! DDR_DQ_NIBBLE_MAP_44_47, 0xFF, 24), (DdrCfg ! DDR_DQ_NIBBLE_MAP_40_43, 0xFF, 16), (DdrCfg ! DDR_DQ_NIBBLE_MAP_36_39, 0xFF, 8), (DdrCfg ! DDR_DQ_NIBBLE_MAP_32_35, 0xFF, 0)]),
      (0x28C, [(DdrCfg ! DDR_DQ_NIBBLE_MAP_60_63, 0xFF, 24), (DdrCfg ! DDR_DQ_NIBBLE_MAP_56_59, 0xFF, 16), (DdrCfg ! DDR_DQ_NIBBLE_MAP_52_55, 0xFF, 8), (DdrCfg ! DDR_DQ_NIBBLE_MAP_48_51, 0xFF, 0)]),
      (0x290, [(DdrCfg ! DDR_DQ_NIBBLE_MAP_CB_4_7, 0xFF, 8), (DdrCfg ! DDR_DQ_NIBBLE_MAP_CB_0_3, 0xFF, 0)]),
      (0x294, [(0x1, 0x1, 0)]),
      (0x300, [(DdrCfg ! DDR_DIS_COLLISION_PAGE_OPT, 0x1, 4), (DdrCfg ! DDR_DIS_WC, 0x1, 0)]),
      (0x30C, [(DdrCfg ! DDR_CTRLUPD, 0x1, 5), (DdrCfg ! DDR_ZQ_CALIB_SHORT, 0x1, 4), (DdrCfg ! DDR_RANK1_REFRESH, 0x1, 1), (DdrCfg ! DDR_RANK0_REFRESH, 0x1, 0)]),
      (0x320, [(0, 0xFFFFFFFF, 0)]),
      (0x400, [(DdrCfg ! DDR_BL_EXP_MODE, 0x1, 8), (DdrCfg ! DDR_PAGEMATCH_LIMIT, 0x1, 4), (0x1, 0x1, 0)]),
      (0x404, [(0x1, 0x1, 13), (0xF, 0x3FF, 0)]),
      (0x408, [(0x1, 0x1, 13), (0xF, 0x3FF, 0)])]"

definition ddrc_regs_4 :: "u32 list \<Rightarrow> (u32 \<times> field list) list" where
  "ddrc_regs_4 DdrCfg =
     [(0x490, [(0x1, 0x1, 0)]),
      (0x494, [(0x2, 0x3, 20), (0xB, 0xF, 0)]),
      (0x498, [(0, 0xFFFFFFFF, 0)]),
      (0x4B4, [(0x1, 0x1, 13), (0xF, 0x3FF, 0)]),
      (0x4B8, [(0x1, 0x1, 13), (0xF, 0x3FF, 0)]),
      (0x540, [(0x1, 0x1, 0)]),
      (0x544, [(0x2, 0x3, 24), (0xB, 0xF, 8), (0x3, 0xF, 0)]),
      (0x548, [(0, 0xFFFFFFFF, 0)]),
      (0x564, [(0x1, 0x1, 13), (0xF, 0x3FF, 0)]),
      (0x568, [(0x1, 0x1, 13), (0xF, 0x3FF, 0)]),
      (0x5F0, [(0x1, 0x1, 0)]),
      (0x5F4, [(0x2, 0x3, 24), (0xB, 0xF, 8), (0x3, 0xF, 0)]),
      (0x5F8, [(0, 0xFFFFFFFF, 0)]),
      (0x614, [(0x1, 0x1, 13), (0xF, 0x3FF, 0)]),
      (0x618, [(0x1, 0x1, 13), (0xF, 0x3FF, 0)]),
      (0x6A0, [(0x1, 0x1, 0)]),
      (0x6A4, [(0x1, 0x3, 20), (0x3, 0xF, 0)]),
      (0x6A8, [(0x4F, 0x7FF, 0)]),
      (0x6AC, [(0x1, 0x3, 20), (0x3, 0xF, 0)]),
      (0x6B0, [(0x4F, 0x7FF, 0)]),
      (0x6C4, [(0x1, 0x1, 13), (0xF, 0x3FF, 0)]),
      (0x6C8, [(0x1, 0x1, 13), (0xF, 0x3FF, 0)]),
      (0x750, [(0x1, 0x1, 0)]),
      (0x754, [(0x1, 0x3, 20), (0x3, 0xF, 0)]),
      (0x758, [(0x4F, 0x7FF, 0)]),
      (0x75C, [(0x1, 0x3, 20), (0x3, 0xF, 0)]),
      (0x760, [(0x4F, 0x7FF, 0)]),
      (0x774, [(0x1, 0x1, 13), (0xF, 0x3FF, 0)]),
      (0x778, [(0x1, 0x1, 13), (0xF, 0x3FF, 0)]),
      (0x800, [(0x1, 0x1, 0)]),
      (0x804, [(0x1, 0x3, 20), (0x3, 0xF, 0)]),
      (0x808, [(0x4F, 0x7FF, 0)]),
      (0x80C, [(0x1, 0x3, 20), (0x3, 0xF, 0)])]"

definition ddrc_regs_5 :: "u32 list \<Rightarrow> (u32 \<times> field list) list" where
  "ddrc_regs_5 DdrCfg =
     [(0x810, [(0x4F, 0x7FF, 0)]),
      (0xF04, [(0, 0xFFFFFFFF, 0)]),
      (0xF08, [(0, 0xFFFFFFFF, 0)]),
      (0xF0C, [(0x10, 0x1FF, 0)]),
      (0xF10, [(0xF, 0xFF, 0)]),
      (0x2190, [(0x7, 0x1F, 24), (0x1, 0x1, 23), (0x2, 0x3F, 16), (0x1, 0x1, 15), (0x2, 0x3F, 0)])]"

definition ddrc_regs :: "u32 list \<Rightarrow> (u32 \<times> field list) list" where
  "ddrc_regs DdrCfg = ddrc_regs_1 DdrCfg @ ddrc_regs_2 DdrCfg @ ddrc_regs_3 DdrCfg @ ddrc_regs_4 DdrCfg @ ddrc_regs_5 DdrCfg"

definition XFsbl_DdrcRegsWrite :: "u32 list \<Rightarrow> unit prog" where
  "XFsbl_DdrcRegsWrite DdrCfg =
     seqsM (map (\<lambda>(offset, fs). XFsbl_Out32 (XFSBL_DDRC_BASE_ADDR + offset) (fields_sum fs)) (ddrc_regs DdrCfg))"

lemmas ddrc_regs_defs = ddrc_regs_def ddrc_regs_1_def ddrc_regs_2_def ddrc_regs_3_def ddrc_regs_4_def ddrc_regs_5_def

text \<open>The fields of each register lie inside of it and apart from each other, and no register is written twice.\<close>

lemma ddrc_regs_apart: "list_all (\<lambda>(offset, fs). fields_apart fs) (ddrc_regs DdrCfg)"
  by (simp add: ddrc_regs_defs)

lemma ddrc_regs_distinct: "distinct (map fst (ddrc_regs DdrCfg))"
  by (simp add: ddrc_regs_defs)

end
