(* ===== verification/Ddr_Address_Map.thy ===== *)
theory Ddr_Address_Map
  imports Ddr_Fields Ddr_Dimm
begin

text \<open>
  The address map of the DDR controller (\<open>XFsbl_DdrCalcAddrMap\<close> and its helpers in \<open>xfsbl_ddr_init.c\<close>): which bit
  of a system (HIF) address selects which row, column, bank and bank-group bit of the memory.  The code lists the
  memory bits in the order of the HIF bits that select them, as numbers, and then looks for each memory bit in
  the list.  A number that is written or looked for beyond the 40 entries of the list is the value \<open>None\<close>.
\<close>

section \<open>The list\<close>

definition XFSBL_HIF_COLUMN :: "u32 \<Rightarrow> u32" where "XFSBL_HIF_COLUMN XVal = 100 + XVal"
definition XFSBL_HIF_ROW :: "u32 \<Rightarrow> u32" where "XFSBL_HIF_ROW XVal = 200 + XVal"
definition XFSBL_HIF_BANK :: "u32 \<Rightarrow> u32" where "XFSBL_HIF_BANK XVal = 300 + XVal"
definition XFSBL_HIF_BG :: "u32 \<Rightarrow> u32" where "XFSBL_HIF_BG XVal = 400 + XVal"
definition XFSBL_HIF_RANK :: "u32 \<Rightarrow> u32" where "XFSBL_HIF_RANK XVal = 500 + XVal"

type_synonym hif = "u32 list \<times> u32"

primrec hif_put :: "u32 list \<Rightarrow> hif \<Rightarrow> hif option" where
  "hif_put [] st = Some st"
| "hif_put (v # vs) st = (case st of (HifAddr, Position) \<Rightarrow>
     if unat Position < length HifAddr then hif_put vs (HifAddr[unat Position := v], Position + 1) else None)"

text \<open>\<open>for (Index = a; Index < n; Index++) { HifAddr[Position] = f(Index); Position++; }\<close>\<close>

definition hif_range :: "(u32 \<Rightarrow> u32) \<Rightarrow> u32 \<Rightarrow> u32 \<Rightarrow> u32 list" where
  "hif_range f a n = map (\<lambda>i. f (of_nat i)) [unat a..<unat n]"

definition XFsbl_DdrCalcDdr4HifAddr :: "XFsbl_DimmParams \<Rightarrow> u32 list \<Rightarrow> u32 list option" where
  "XFsbl_DdrCalcDdr4HifAddr P HifAddr = do {
     st \<leftarrow> hif_put (hif_range XFSBL_HIF_COLUMN 0 (NumColAddr P)) (HifAddr, 0);
     st \<leftarrow> hif_put (hif_range XFSBL_HIF_BG 0 (NumBgAddr P)) st;
     st \<leftarrow> hif_put (hif_range XFSBL_HIF_BANK 0 (NumBankAddr P)) st;
     st \<leftarrow> hif_put (hif_range XFSBL_HIF_ROW 0 (NumRowAddr P)) st;
     st \<leftarrow> hif_put (hif_range XFSBL_HIF_RANK 0 (NumRankAddr P)) st;
     Some (fst st) }"

text \<open>The four entries that the other DDR4 mappings begin with.\<close>

definition hif_fixed :: "u32 list \<Rightarrow> hif" where
  "hif_fixed HifAddr = (HifAddr[0 := XFSBL_HIF_COLUMN 0, 1 := XFSBL_HIF_COLUMN 1, 2 := XFSBL_HIF_COLUMN 2, 3 := XFSBL_HIF_BG 0], 4)"

definition video_width :: "XFsbl_DimmParams \<Rightarrow> u32 \<Rightarrow> u32" where
  "video_width P VideoBuf =
     (let BufWidth = (case find (\<lambda>i. push_bit i 1 = VideoBuf) [0..<7] of Some i \<Rightarrow> of_nat i + 20 | None \<Rightarrow> 20)
      in BufWidth + (if BusWidth P = 16 then 2 else 0) + (if BusWidth P = 32 then 1 else 0))"

definition XFsbl_DdrCalcHifAddrVideo :: "ddr_config \<Rightarrow> XFsbl_DimmParams \<Rightarrow> u32 list \<Rightarrow> u32 \<Rightarrow> u32 list option" where
  "XFsbl_DdrCalcHifAddrVideo C P HifAddr VideoBuf =
     (let BufWidth = video_width P VideoBuf
      in if MemType P \<noteq> SPD_MEMTYPE_DDR4 then do {
           st \<leftarrow> hif_put (hif_range XFSBL_HIF_COLUMN 3 (NumColAddr P)) (HifAddr, uninit C);
           st \<leftarrow> hif_put (hif_range XFSBL_HIF_ROW 0 (BufWidth - NumColAddr P - 3)) st;
           st \<leftarrow> hif_put (hif_range XFSBL_HIF_BANK 0 (NumBankAddr P)) st;
           st \<leftarrow> hif_put (hif_range (\<lambda>i. XFSBL_HIF_ROW i + (BufWidth - NumColAddr P - 4)) 0 (NumRowAddr P - (BufWidth - NumColAddr P - 3))) st;
           st \<leftarrow> hif_put (hif_range XFSBL_HIF_RANK 0 (NumRankAddr P)) st;
           Some (fst st) }
         else do {
           st \<leftarrow> hif_put (hif_range XFSBL_HIF_COLUMN 3 (NumColAddr P)) (hif_fixed HifAddr);
           st \<leftarrow> hif_put (hif_range XFSBL_HIF_ROW 0 (BufWidth - NumColAddr P - 4)) st;
           st \<leftarrow> hif_put (hif_range XFSBL_HIF_BANK 0 (NumBankAddr P)) st;
           st \<leftarrow> hif_put (hif_range (\<lambda>i. XFSBL_HIF_ROW i + (BufWidth - NumColAddr P - 4)) 0 (NumRowAddr P - (BufWidth - NumColAddr P - 4))) st;
           st \<leftarrow> hif_put (hif_range XFSBL_HIF_RANK 0 (NumRankAddr P)) st;
           Some (fst st) })"

definition XFsbl_DdrCalcHifAddrBrcMap :: "XFsbl_DimmParams \<Rightarrow> u32 list \<Rightarrow> u32 list option" where
  "XFsbl_DdrCalcHifAddrBrcMap P HifAddr = do {
     st \<leftarrow> hif_put (hif_range XFSBL_HIF_COLUMN 3 (NumColAddr P)) (hif_fixed HifAddr);
     st \<leftarrow> hif_put (hif_range XFSBL_HIF_ROW 0 (NumRowAddr P)) st;
     st \<leftarrow> hif_put (hif_range XFSBL_HIF_BANK 0 (NumBankAddr P)) st;
     st \<leftarrow> hif_put (hif_range XFSBL_HIF_RANK 0 (NumRankAddr P)) st;
     Some (fst st) }"

definition XFsbl_DdrCalcHifAddrMemMap :: "XFsbl_DimmParams \<Rightarrow> u32 list \<Rightarrow> u32 list option" where
  "XFsbl_DdrCalcHifAddrMemMap P HifAddr = do {
     st \<leftarrow> hif_put (hif_range XFSBL_HIF_COLUMN 3 (NumColAddr P)) (hif_fixed HifAddr);
     st \<leftarrow> hif_put (hif_range XFSBL_HIF_BANK 0 (NumBankAddr P)) st;
     st \<leftarrow> hif_put (hif_range XFSBL_HIF_ROW 0 (NumRowAddr P)) st;
     st \<leftarrow> hif_put (hif_range XFSBL_HIF_RANK 0 (NumRankAddr P)) st;
     Some (fst st) }"

definition XFsbl_DdrCalcHifAddr :: "XFsbl_DimmParams \<Rightarrow> u32 list \<Rightarrow> u32 list option" where
  "XFsbl_DdrCalcHifAddr P HifAddr = do {
     st \<leftarrow> hif_put (hif_range XFSBL_HIF_COLUMN 0 (NumColAddr P)) (HifAddr, 0);
     st \<leftarrow> hif_put (hif_range XFSBL_HIF_BANK 0 (NumBankAddr P)) st;
     st \<leftarrow> hif_put (hif_range XFSBL_HIF_ROW 0 (NumRowAddr P)) st;
     st \<leftarrow> hif_put (hif_range XFSBL_HIF_RANK 0 (NumRankAddr P)) st;
     Some (fst st) }"

section \<open>The search\<close>

primrec hif_index :: "u32 \<Rightarrow> u32 list \<Rightarrow> nat option" where
  "hif_index v [] = None"
| "hif_index v (h # hs) = (if h = v then Some 0 else map_option Suc (hif_index v hs))"

definition XFsbl_DdrCalcBankAddr :: "XFsbl_DimmParams \<Rightarrow> u32 list \<Rightarrow> u32 list option" where
  "XFsbl_DdrCalcBankAddr P HifAddr =
     those (map (\<lambda>BankBit. if BankBit < NumBankAddr P
         then map_option (\<lambda>Index. of_nat Index - (BankBit + 2)) (hif_index (XFSBL_HIF_BANK BankBit) HifAddr)
         else Some 0x1F) (map of_nat [0..<unat XFSBL_MAX_BANKS]))"

definition XFsbl_DdrCalcBgAddr :: "XFsbl_DimmParams \<Rightarrow> u32 list \<Rightarrow> u32 list option" where
  "XFsbl_DdrCalcBgAddr P HifAddr =
     those (map (\<lambda>BgBit. if BgBit < NumBgAddr P
         then map_option (\<lambda>Index. if of_nat Index \<ge> BgBit + 2 then of_nat Index - (BgBit + 2) else 0) (hif_index (XFSBL_HIF_BG BgBit) HifAddr)
         else Some 0x1F) (map of_nat [0..<unat XFSBL_MAX_BANK_GROUPS]))"

definition XFsbl_DdrCalcColAddr :: "XFsbl_DimmParams \<Rightarrow> u32 list \<Rightarrow> u32 list option" where
  "XFsbl_DdrCalcColAddr P HifAddr =
     those (map (\<lambda>ColBit. if ColBit < NumColAddr P
         then map_option (\<lambda>Index. of_nat Index - ColBit) (hif_index (XFSBL_HIF_COLUMN ColBit) HifAddr)
         else Some 0xF) (map of_nat [2..<unat XFSBL_MAX_COLUMNS]))"

definition XFsbl_DdrCalcRowAddr :: "XFsbl_DimmParams \<Rightarrow> u32 list \<Rightarrow> u32 list option" where
  "XFsbl_DdrCalcRowAddr P HifAddr =
     those (map (\<lambda>RowBit. if RowBit < NumRowAddr P
         then map_option (\<lambda>Index. of_nat Index - (RowBit + 6)) (hif_index (XFSBL_HIF_ROW RowBit) HifAddr)
         else Some 0xF) (map of_nat [0..<unat XFSBL_MAX_ROWS]))"

section \<open>The map\<close>

definition hif_shift :: "u32 list \<Rightarrow> u32 list" where
  "hif_shift HifAddr = tl HifAddr @ [0]"

definition hif_order :: "ddr_config \<Rightarrow> XFsbl_DimmParams \<Rightarrow> u32 list \<Rightarrow> u32 list option" where
  "hif_order C P HifAddr =
     (if XPAR_PSU_DDRC_0_VIDEO_BUFFER_SIZE C \<noteq> 0 then XFsbl_DdrCalcHifAddrVideo C P HifAddr (XPAR_PSU_DDRC_0_VIDEO_BUFFER_SIZE C)
      else if XPAR_PSU_DDRC_0_BRC_MAPPING C = 1 then
        if MemType P \<noteq> SPD_MEMTYPE_DDR4 then XFsbl_DdrCalcHifAddr P HifAddr else XFsbl_DdrCalcHifAddrBrcMap P HifAddr
      else if MemType P \<noteq> SPD_MEMTYPE_DDR4 then XFsbl_DdrCalcHifAddr P HifAddr
      else if XPAR_PSU_DDRC_0_DDR4_ADDR_MAPPING C = 1 then XFsbl_DdrCalcHifAddrMemMap P HifAddr
      else XFsbl_DdrCalcDdr4HifAddr P HifAddr)"

definition address_bits :: "ddr_config \<Rightarrow> DdrcInitData \<Rightarrow> DdrcInitData option" where
  "address_bits C D = do {
     let P = PDimm D;
     HifAddr \<leftarrow> hif_order C P (replicate 40 0);
     let HifAddr = (if BusWidth P \<le> 32 then hif_shift HifAddr else HifAddr);
     let HifAddr = (if BusWidth P = 16 then hif_shift HifAddr else HifAddr);
     bank \<leftarrow> XFsbl_DdrCalcBankAddr P HifAddr;
     col \<leftarrow> XFsbl_DdrCalcColAddr P HifAddr;
     row \<leftarrow> XFsbl_DdrCalcRowAddr P HifAddr;
     bg \<leftarrow> XFsbl_DdrCalcBgAddr P HifAddr;
     Some (D\<lparr>AddrMapBankBit := bank, AddrMapColBit := take 2 (AddrMapColBit D) @ col, AddrMapRowBits2To10 := 15, AddrMapRowBit := row,
       AddrMapBgBit := bg, AddrMapCsBit0 := 0x1F\<rparr>) }"

text \<open>The twelve registers: their fields, from the highest.\<close>

definition address_fields :: "DdrcInitData \<Rightarrow> field list list" where
  "address_fields D =
     (let Bank = (!) (AddrMapBankBit D); Col = (!) (AddrMapColBit D); Row = (!) (AddrMapRowBit D); Bg = (!) (AddrMapBgBit D)
      in [[(AddrMapCsBit0 D, 0x1F, 0)],
          [(Bank 2, 0x1F, 16), (Bank 1, 0x1F, 8), (Bank 0, 0x1F, 0)],
          [(Col 5, 0xF, 24), (Col 4, 0xF, 16), (Col 3, 0xF, 8), (Col 2, 0xF, 0)],
          [(Col 9, 0xF, 24), (Col 8, 0xF, 16), (Col 7, 0xF, 8), (Col 6, 0xF, 0)],
          [(Col 11, 0xF, 8), (Col 10, 0xF, 0)],
          [(Row 11, 0xF, 24), (AddrMapRowBits2To10 D, 0xF, 16), (Row 1, 0xF, 8), (Row 0, 0xF, 0)],
          [(Row 15, 0xF, 24), (Row 14, 0xF, 16), (Row 13, 0xF, 8), (Row 12, 0xF, 0)],
          [(Row 17, 0xF, 8), (Row 16, 0xF, 0)],
          [(Bg 1, 0x1F, 8), (Bg 0, 0x1F, 0)],
          [(Row 5, 0xF, 24), (Row 4, 0xF, 16), (Row 3, 0xF, 8), (Row 2, 0xF, 0)],
          [(Row 9, 0xF, 24), (Row 8, 0xF, 16), (Row 7, 0xF, 8), (Row 6, 0xF, 0)],
          [(Row 10, 0xF, 0)]])"

definition address_regs :: "DdrcInitData \<Rightarrow> u32 list" where
  "address_regs D = map fields_or (address_fields D)"

definition XFsbl_DdrCalcAddrMap :: "ddr_config \<Rightarrow> DdrcInitData \<Rightarrow> DdrcInitData prog" where
  "XFsbl_DdrCalcAddrMap C D = (case address_bits C D of
     None \<Rightarrow> haltM OutOfBounds
   | Some D' \<Rightarrow> seqM
       (seqsM (map (\<lambda>Index. XFsbl_Out32 (XFSBL_DDRC_BASE_ADDR + 0x200 + of_nat Index * 4) (address_regs D' ! Index)) [0..<12]))
       (retM D'))"

end
