(* ===== verification/Ddr_Controller_Init.thy ===== *)
theory Ddr_Controller_Init
  imports Ddr_Controller Ddr_Registers Ddr_Address_Map
begin

text \<open>
  Values of the fields of the DDR controller's registers for LPDDR3 and LPDDR4 (\<open>XFsbl_DdrcCalcLpddr3RegVal\<close>,
  \<open>XFsbl_DdrcCalcLpddr4RegVal\<close>), and \<open>XFsbl_DdrcRegsInit\<close>, which computes all of the values and writes the registers.
\<close>

section \<open>LPDDR3\<close>

definition ddrc_lpddr3_1 :: "XFsbl_DimmParams \<Rightarrow> u32 list \<Rightarrow> (u32 list) option" where
  "ddrc_lpddr3_1 P DdrCfg = do {
     let DdrCfg = DdrCfg[DDR_EN_2T_TIMING_MODE := En2tTimingMode P, DDR_LPDDR3 := 1, DDR_DERATE_VALUE := if flt_less (Fin (15 / 8)) (fdiv 24
         (ClockPeriod P) (Fin 2)) then 0 else 1];
     c1 \<leftarrow> to_u32 (fdiv 53 (fdiv 24 (sgl (DerateIntD P * 1000)) (ClockPeriod P)) (Fin 2));
     let DdrCfg = DdrCfg[DDR_MR4_READ_INTERVAL := c1, DDR_DEEPPOWERDOWN_EN := DeepPwrDnEn P, DDR_PER_BANK_REFRESH := PerBankRefresh P];
     c2 \<leftarrow> to_u32 (fdiv 53 (fdiv 53 (fdiv 53 (fdiv 53 (dbl (TRefi P)) (Fin 1000)) (Fin 2)) (ClockPeriod P)) (Fin 32));
     let Val = c2;
     Val \<leftarrow> (if PerBankRefresh P = 0 then Some (if Capacity P \<noteq> 1024 then Val div 2 else Val) else if Capacity P \<ge> 2048 then do
         { c3 \<leftarrow> to_u32 (fdiv 53 (fdiv 53 (fdiv 53 (Fin (975 / 2)) (Fin 2)) (ClockPeriod P)) (Fin 32)); Some c3 } else if Capacity P = 1024
         then do { c4 \<leftarrow> to_u32 (fdiv 53 (fdiv 53 (fdiv 53 (Fin 975) (Fin 2)) (ClockPeriod P)) (Fin 32)); Some c4 } else Some Val);
     let Val = (if TRefRange P \<noteq> 0 then Val div 4 else Val);
     let DdrCfg = DdrCfg[DDR_T_RFC_NOM_X32 := min Val 0xFFE];
     let DdrCfg = DdrCfg[DDR_T_RFC_NOM_X32 := max 1 (DdrCfg ! DDR_T_RFC_NOM_X32)];
     c5 \<leftarrow> ceil_of (fdiv 53 (fdiv 53 (Fin 200000) (fmul 53 (ClockPeriod P) (Fin 1024))) (Fin 2));
     let DdrCfg = DdrCfg[DDR_POST_CKE_X1024 := max 1 (c5 + 1)];
     c6 \<leftarrow> ceil_of (fdiv 53 (fdiv 53 (Fin 100) (fmul 53 (ClockPeriod P) (Fin 1024))) (Fin 2));
     let DdrCfg = DdrCfg[DDR_PRE_CKE_X1024 := max 1 (c6 + 1)];
     c7 \<leftarrow> XFsbl_Ceil (fdiv 24 (fmax (Fin 15) (fmul 24 (Fin 4) (ClockPeriod P))) (ClockPeriod P));
     let Twr = c7;
     let Twr = max 6 (min 12 Twr);
     let DdrCfg = DdrCfg[DDR_MR := XFSBL_SETBITS (if Twr < 10 then Twr - 2 else Twr mod 10) 5 3 + XFSBL_SETBITS 3 0 3];
     c8 \<leftarrow> to_u32 (fmax (Fin 6) (fmin (Fin 10) (fsub 24 (fdiv 24 (FreqMhz P) (Fin 66)) (Fin 2))));
     let Val = c8;
     c9 \<leftarrow> XFsbl_Ceil (fdiv 24 (fmax (Fin 15) (fmul 24 (Fin 4) (ClockPeriod P))) (ClockPeriod P));
     let Twr = c9;
     let DdrCfg = DdrCfg[DDR_EMR := push_bit 6 1 + push_bit 4 (if Twr \<ge> 10 then 1 else 0) + XFSBL_SETBITS Val 0 4];
     let Val = (if DramDrv P = 40 then 2 else if DramDrv P = 48 then 3 else if DramDrv P = 60 then 4 else if DramDrv P = 80 then 6 else 1);
     let DdrCfg = DdrCfg[DDR_EMR2 := Val, DDR_EMR3 := 0];
     c10 \<leftarrow> ceil_of (fdiv 53 (Fin 1000) (fmul 53 (Fin 32) (ClockPeriod P)));
     let DdrCfg = DdrCfg[DDR_DEV_ZQINIT_X32 := min (1 + c10) 255];
     c11 \<leftarrow> ceil_of (fdiv 53 (Fin 10000) (fmul 24 (Fin 1024) (ClockPeriod P)));
     let DdrCfg = DdrCfg[DDR_MAX_AUTO_INIT_X1024 := min (1 + c11) 1023];
     c12 \<leftarrow> ceil_of (fdiv 53 (dbl (DdrCfg ! DDR_DIFF_RANK_WR_GAP)) (Fin 2));
     let DdrCfg = DdrCfg[DDR_DIFF_RANK_WR_GAP := c12 + 3];
     c13 \<leftarrow> ceil_of (fdiv 53 (dbl (DdrCfg ! DDR_DIFF_RANK_RD_GAP)) (Fin 2));
     let DdrCfg = DdrCfg[DDR_DIFF_RANK_RD_GAP := c13 + 3];
     Some DdrCfg }"

definition ddrc_lpddr3_2 :: "XFsbl_DimmParams \<Rightarrow> u32 list \<Rightarrow> (XFsbl_DimmParams \<times> u32 list) option" where
  "ddrc_lpddr3_2 P DdrCfg = do {
     c1 \<leftarrow> ceil_of (fmax (fdiv 53 (Fin 15) (ClockPeriod P)) (Fin 4));
     let Twr = c1;
     c2 \<leftarrow> to_u32 (fadd 53 (fadd 53 (fadd 53 (dbl (WriteLatency P)) (fdiv 53 (dbl (BurstLength P)) (Fin 2))) (dbl Twr)) (Fin 1));
     let DdrCfg = DdrCfg[DDR_WR2PRE := c2 div 2];
     let FVal = fcvt 24 (fmin (fmul 53 (Fin 9) (fdiv 53 (dbl (TRefi P)) (Fin 1000))) (Fin 70200));
     let FVal = fcvt 24 (fdiv 53 (fdiv 24 FVal (ClockPeriod P)) (Fin 1024));
     c3 \<leftarrow> to_u32 (fsub 24 FVal (Fin 1));
     let FVal = fcvt 24 (fdiv 53 (dbl c3) (Fin 2));
     c4 \<leftarrow> to_u32 (fmax (Fin 1) FVal);
     let DdrCfg = DdrCfg[DDR_T_RAS_MAX := c4];
     DdrCfg \<leftarrow> (if En2tTimingMode P \<noteq> 0 then do { c5 \<leftarrow> ceil_of (fdiv 53 (fdiv 53 (fdiv 53 (dbl (TRasPs P)) (Fin 1000))
         (ClockPeriod P)) (Fin 2)); Some (DdrCfg[DDR_T_RAS_MIN := c5]) } else do { c6 \<leftarrow> XFsbl_Round (fcvt 24 (fdiv 53 (fdiv 53 (fdiv 53
         (dbl (TRasPs P)) (Fin 1000)) (ClockPeriod P)) (Fin 2))); Some (DdrCfg[DDR_T_RAS_MIN := c6]) });
     let P = P\<lparr>TXp := fcvt 24 (fmax (fdiv 53 (Fin (15 / 2)) (ClockPeriod P)) (Fin 3))\<rparr>;
     c7 \<leftarrow> ceil_of (fdiv 53 (TXp P) (Fin 2));
     let DdrCfg = DdrCfg[DDR_T_XP := min c7 31];
     c8 \<leftarrow> ceil_of (fdiv 53 (Fin (15 / 2)) (ClockPeriod P));
     let Val = ((BurstLength P div 2) + max c8 4) - 4;
     DdrCfg \<leftarrow> (if En2tTimingMode P \<noteq> 0 then do { c9 \<leftarrow> ceil_of (fdiv 53 (dbl Val) (Fin 2)); Some (DdrCfg[DDR_RD2PRE :=
         c9]) } else Some (DdrCfg[DDR_RD2PRE := Val div 2]));
     c10 \<leftarrow> ceil_of (fdiv 53 (Fin (11 / 2)) (ClockPeriod P));
     let FVal = sgl_s32 c10;
     c11 \<leftarrow> ceil_of (fdiv 53 (fsub 24 (fadd 24 (fadd 24 (sgl (ReadLatency P + (BurstLength P div 2))) FVal) (Fin 1)) (sgl (WriteLatency
         P))) (Fin 2));
     let DdrCfg = DdrCfg[DDR_RD2WR := c11 + 2];
     c12 \<leftarrow> ceil_of (fdiv 53 (Fin (15 / 2)) (ClockPeriod P));
     let P = P\<lparr>TWtr := max c12 4\<rparr>;
     c13 \<leftarrow> ceil_of (fdiv 53 (sgl (WriteLatency P + TWtr P + (BurstLength P div 2) + 1)) (Fin 2));
     let DdrCfg = DdrCfg[DDR_WR2RD := c13, DDR_T_MRW := 10];
     c14 \<leftarrow> ceil_of (fdiv 53 (fmax (Fin 10) (fdiv 24 (Fin 15) (ClockPeriod P))) (Fin 2));
     let DdrCfg = DdrCfg[DDR_T_MRD := c14];
     c15 \<leftarrow> ceil_of (fdiv 53 (Fin 10) (ClockPeriod P));
     c16 \<leftarrow> ceil_of (fdiv 53 (fadd 53 (dbl (max c15 2)) (fmul 53 (Fin (15 / 8)) (dbl (TRefRange P)))) (Fin 2));
     let DdrCfg = DdrCfg[DDR_T_RRD := c16];
     c17 \<leftarrow> ceil_of (fdiv 53 (fdiv 53 (dbl (TRpPs P)) (Fin 1000)) (Fin 2));
     let DdrCfg = DdrCfg[DDR_T_RP := (c17 + 1) + 1, DDR_T_CKSRX := 1, DDR_T_CKSRE := 1];
     c18 \<leftarrow> ceil_of (fdiv 53 (Fin 15) (ClockPeriod P));
     c19 \<leftarrow> ceil_of (fdiv 53 (fmax (dbl_s32 c18) (Fin 3)) (Fin 2));
     let DdrCfg = DdrCfg[DDR_T_CKESR := c19];
     c20 \<leftarrow> ceil_of (fdiv 53 (Fin 15) (ClockPeriod P));
     c21 \<leftarrow> ceil_of (fdiv 53 (fmax (dbl_s32 c20) (Fin 3)) (Fin 2));
     let DdrCfg = DdrCfg[DDR_T_CKE := c21];
     c22 \<leftarrow> ceil_of (fdiv 53 (fadd 53 (fmax (fdiv 53 (Fin (15 / 2)) (ClockPeriod P)) (Fin 3)) (Fin 2)) (Fin 2));
     let DdrCfg = DdrCfg[DDR_T_CKCSX := c22 + 2, DDR_T_CKPDE := 1, DDR_T_CKPDX := 1];
     c23 \<leftarrow> ceil_of (fdiv 53 (fdiv 53 (fdiv 53 (fadd 53 (fdiv 53 (dbl (TRfcPs P)) (Fin 1000)) (Fin 10)) (ClockPeriod P)) (Fin 32)) (Fin 2));
     let DdrCfg = DdrCfg[DDR_T_XS_DLL_X32 := c23 + 1];
     c24 \<leftarrow> ceil_of (fdiv 53 (fdiv 53 (fdiv 53 (fadd 53 (fdiv 53 (dbl (TRfcPs P)) (Fin 1000)) (Fin 10)) (ClockPeriod P)) (Fin 32)) (Fin 2));
     let DdrCfg = DdrCfg[DDR_T_XS_X32 := c24 + 1, DDR_ZQ_RESISTOR_SHARED := if Ddp P = 1 then 1 else 0];
     c25 \<leftarrow> ceil_of (fdiv 53 (fdiv 53 (Fin 360) (ClockPeriod P)) (Fin 2));
     let DdrCfg = DdrCfg[DDR_T_ZQ_LONG_NOP := c25];
     c26 \<leftarrow> ceil_of (fdiv 53 (fdiv 53 (Fin 90) (ClockPeriod P)) (Fin 2));
     let DdrCfg = DdrCfg[DDR_T_ZQ_SHORT_NOP := c26];
     Some (P, DdrCfg) }"

definition ddrc_lpddr3_3 :: "XFsbl_DimmParams \<Rightarrow> u32 list \<Rightarrow> (u32 list) option" where
  "ddrc_lpddr3_3 P DdrCfg = do {
     c1 \<leftarrow> ceil_of (fdiv 53 (fmax (Fin 3) (fdiv 53 (Fin 50) (ClockPeriod P))) (Fin 2));
     let DdrCfg = DdrCfg[DDR_T_ZQ_RESET_NOP := c1];
     c2 \<leftarrow> to_u32 (fdiv 53 (fdiv 53 (Fin 400000000) (ClockPeriod P)) (Fin 1024));
     let DdrCfg = DdrCfg[DDR_T_ZQ_SHORT_INTERVAL_X1024 := c2];
     c3 \<leftarrow> to_u32 (fdiv 53 (Fin (3 / 2)) (ClockPeriod P));
     let DdrCfg = DdrCfg[DDR_DFI_T_RDDATA_EN := ((ReadLatency P + c3) - 4) - RDimm P, DDR_DFI_TPHY_WRLAT := ((WriteLatency P + 1) - 3) - RDimm P,
         DDR_DFI_T_WRDATA_DELAY := 2, DDR_DFI_DATA_CS_POLARITY := 0, DDR_DM_EN := 0, DDR_WR_ODT_HOLD := WriteLatency P + 2 + (BurstLength P div 2),
         DDR_WR_ODT_DELAY := 0];
     c4 \<leftarrow> ceil_of (fdiv 53 (Fin (11 / 2)) (ClockPeriod P));
     let DdrCfg = DdrCfg[DDR_RD_ODT_HOLD := c4 + 5];
     c5 \<leftarrow> ceil_of (fdiv 53 (Fin (7 / 2)) (ClockPeriod P));
     let DdrCfg = DdrCfg[DDR_RD_ODT_DELAY := ReadLatency P - c5];
     let DdrCfg = (if NumRankAddr P = 0 then DdrCfg[DDR_RANK1_WR_ODT := 0] else if Ddp P = 1 then DdrCfg[DDR_RANK1_WR_ODT := 1] else
         DdrCfg[DDR_RANK1_WR_ODT := 2]);
     let DdrCfg = DdrCfg[DDR_RANK0_WR_ODT := 0x1];
     Some DdrCfg }"

definition XFsbl_DdrcCalcLpddr3RegVal :: "XFsbl_DimmParams \<Rightarrow> u32 list \<Rightarrow> (XFsbl_DimmParams \<times> u32 list) option" where
  "XFsbl_DdrcCalcLpddr3RegVal P DdrCfg = do {
     DdrCfg \<leftarrow> ddrc_lpddr3_1 P DdrCfg;
     (P, DdrCfg) \<leftarrow> ddrc_lpddr3_2 P DdrCfg;
     DdrCfg \<leftarrow> ddrc_lpddr3_3 P DdrCfg;
     Some (P, DdrCfg) }"

section \<open>LPDDR4\<close>

definition ddrc_lpddr4_1 :: "XFsbl_DimmParams \<Rightarrow> u32 list \<Rightarrow> (XFsbl_DimmParams \<times> u32 list \<times> u32 \<times> u32) option" where
  "ddrc_lpddr4_1 P DdrCfg = do {
     let Val2 = 0;
     let DdrCfg = DdrCfg[DDR_EN_2T_TIMING_MODE := En2tTimingMode P, DDR_LPDDR4 := 1, DDR_DERATE_VALUE := if flt_less (Fin (15 / 8)) (fdiv 24
         (ClockPeriod P) (Fin 2)) then 0 else 1];
     c1 \<leftarrow> to_u32 (fdiv 53 (fdiv 24 (sgl (DerateIntD P * 1000)) (ClockPeriod P)) (Fin 2));
     let DdrCfg = DdrCfg[DDR_MR4_READ_INTERVAL := c1, DDR_PER_BANK_REFRESH := PerBankRefresh P];
     c2 \<leftarrow> to_u32 (fdiv 53 (fdiv 24 (sgl ((3904 div (if PerBankRefresh P \<noteq> 0 then 8 else 1)) div 2)) (ClockPeriod P)) (Fin 32));
     let Val = c2;
     let Val = (if TRefRange P \<noteq> 0 then Val div 4 else Val);
     let DdrCfg = DdrCfg[DDR_T_RFC_NOM_X32 := min Val 0xFFE];
     let DdrCfg = DdrCfg[DDR_T_RFC_NOM_X32 := max 1 (DdrCfg ! DDR_T_RFC_NOM_X32)];
     c3 \<leftarrow> ceil_of (fdiv 53 (fdiv 53 (Fin 2000) (fmul 53 (ClockPeriod P) (Fin 1024))) (Fin 2));
     let DdrCfg = DdrCfg[DDR_POST_CKE_X1024 := max 1 (c3 + 1)];
     c4 \<leftarrow> ceil_of (fdiv 53 (fdiv 53 (Fin 2000000) (fmul 53 (ClockPeriod P) (Fin 1024))) (Fin 2));
     let DdrCfg = DdrCfg[DDR_PRE_CKE_X1024 := max 1 (c4 + 1)];
     c5 \<leftarrow> ceil_of (fdiv 53 (fdiv 53 (Fin 200000) (fmul 53 (ClockPeriod P) (Fin 1024))) (Fin 2));
     let DdrCfg = DdrCfg[DDR_DRAM_RSTN_X1024 := max (c5 + 1) 1];
     c6 \<leftarrow> to_u32 (fmax (Fin 0) (fsub 24 (fdiv 24 (FreqMhz P) (Fin 266)) (Fin 1)));
     let DdrCfg = DdrCfg[DDR_MR := XFSBL_SETBITS c6 4 3 + XFSBL_SETBITS 1 2 1 + push_bit 7 (RdPostamble P)];
     c7 \<leftarrow> to_u32 (fmax (Fin 0) (fsub 24 (fdiv 24 (FreqMhz P) (Fin 266)) (Fin 1)));
     let Val = c7;
     let DdrCfg = DdrCfg[DDR_EMR := push_bit 6 (if UseSetB P \<noteq> 0 then 1 else 0) + XFSBL_SETBITS Val 3 3 + XFSBL_SETBITS Val 0 3];
     let Val = (if DramDrv P = 240 then 1 else if DramDrv P = 120 then 2 else if DramDrv P = 80 then 3 else if DramDrv P = 60 then 4 else if DramDrv
         P = 48 then 5 else 6);
     let DdrCfg = DdrCfg[DDR_EMR2 := push_bit 7 (WrDbi P) + push_bit 6 (RdDbi P) + XFSBL_SETBITS Val 3 3 + push_bit 1 (WrPostamble P) + 1, DDR_EMR3
         := push_bit 5 (if DataMask P \<noteq> 0 then 0 else 1) + push_bit 3 1, DDR_DEV_ZQINIT_X32 := (1024 div 32) + 1];
     let DdrCfg = DdrCfg[DDR_DIFF_RANK_WR_GAP := (DdrCfg ! DDR_DIFF_RANK_WR_GAP) + (1 + WrPostamble P)];
     c8 \<leftarrow> ceil_of (fdiv 53 (dbl (DdrCfg ! DDR_DIFF_RANK_WR_GAP)) (Fin 2));
     let DdrCfg = DdrCfg[DDR_DIFF_RANK_WR_GAP := c8 + 3];
     let DdrCfg = DdrCfg[DDR_DIFF_RANK_RD_GAP := (DdrCfg ! DDR_DIFF_RANK_RD_GAP) + (1 + RdPostamble P)];
     c9 \<leftarrow> ceil_of (fdiv 53 (dbl (DdrCfg ! DDR_DIFF_RANK_RD_GAP)) (Fin 2));
     let DdrCfg = DdrCfg[DDR_DIFF_RANK_RD_GAP := c9 + 3];
     c10 \<leftarrow> ceil_of (fmax (fdiv 53 (Fin 18) (ClockPeriod P)) (Fin 4));
     c11 \<leftarrow> ceil_of (fdiv 53 (fadd 53 (fadd 53 (fadd 53 (dbl (WriteLatency P)) (fdiv 53 (dbl (BurstLength P)) (Fin 2))) (dbl c10)) (Fin 1))
         (Fin 2));
     let DdrCfg = DdrCfg[DDR_WR2PRE := c11];
     c12 \<leftarrow> to_u32 (fsub 53 (fdiv 53 (fdiv 53 (fmin (fmul 53 (Fin 9) (fdiv 53 (dbl (TRefi P)) (Fin 1000))) (Fin 70200)) (ClockPeriod P))
         (Fin 1024)) (Fin 1));
     c13 \<leftarrow> to_u32 (fmax (Fin 1) (fdiv 53 (dbl c12) (Fin 2)));
     let DdrCfg = DdrCfg[DDR_T_RAS_MAX := c13];
     c14 \<leftarrow> ceil_of (fdiv 53 (fdiv 53 (fdiv 53 (dbl (TRasPs P)) (Fin 1000)) (ClockPeriod P)) (Fin 2));
     let DdrCfg = DdrCfg[DDR_T_RAS_MIN := c14];
     let P = P\<lparr>TXp := fcvt 24 (fmax (fdiv 53 (Fin (15 / 2)) (ClockPeriod P)) (Fin 5))\<rparr>;
     c15 \<leftarrow> ceil_of (fdiv 53 (TXp P) (Fin 2));
     let DdrCfg = DdrCfg[DDR_T_XP := min c15 31];
     Some (P, DdrCfg, Val, Val2) }"

definition ddrc_lpddr4_2 :: "XFsbl_DimmParams \<Rightarrow> u32 list \<Rightarrow> u32 \<Rightarrow> u32 \<Rightarrow> (XFsbl_DimmParams \<times> u32 list) option" where
  "ddrc_lpddr4_2 P DdrCfg Val Val2 = do {
     c1 \<leftarrow> ceil_of (fdiv 53 (Fin (15 / 2)) (ClockPeriod P));
     let DdrCfg = DdrCfg[DDR_RD2PRE := (((BurstLength P div 2) + max c1 8) - 8) div 2];
     c2 \<leftarrow> ceil_of (fdiv 53 (dbl Val) (Fin 2));
     let DdrCfg = DdrCfg[DDR_RD2PRE := c2];
     OdtLon \<leftarrow> (if fle (FreqMhz P) (Fin 800) then Some (UseSetB P * 6) else do { c3 \<leftarrow> to_u32 (fmul 24 (fdiv 24 (FreqMhz P) (Fin
         533)) (Fin 2)); Some c3 });
     c4 \<leftarrow> ceil_of (fdiv 53 (Fin (rnd 53 (18 / 5))) (ClockPeriod P));
     let FVal = sgl_s32 c4;
     XVal \<leftarrow> (if Lpddr4Hynix P = 1 then do { c5 \<leftarrow> ceil_of (fdiv 53 (Fin (3 / 2)) (ClockPeriod P)); Some (fadd 24 (fadd 24 (fsub
         24 (fsub 24 (fadd 24 (fadd 24 (sgl (ReadLatency P + (BurstLength P div 2))) FVal) (Fin 2)) (sgl OdtLon)) (sgl_s32 c5)) (Fin 6)) (sgl
         (WriteLatency P - WdqsOn P))) } else do { c6 \<leftarrow> ceil_of (fdiv 53 (Fin (3 / 2)) (ClockPeriod P)); Some (fsub 24 (fsub 24 (fadd 24
         (fadd 24 (sgl (ReadLatency P + (BurstLength P div 2))) FVal) (Fin 2)) (sgl OdtLon)) (sgl_s32 c6)) });
     let XVal = (if RdPostamble P = 0 then fcvt 24 (fadd 53 XVal (Fin (1 / 2))) else if RdPostamble P = 1 then fcvt 24 (fadd 53 XVal (Fin (3 / 2)))
         else XVal);
     c7 \<leftarrow> ceil_of (fdiv 53 XVal (Fin 2));
     let DdrCfg = DdrCfg[DDR_RD2WR := c7 + 2];
     c8 \<leftarrow> ceil_of (fdiv 53 (Fin 10) (ClockPeriod P));
     let P = P\<lparr>TWtr := max c8 8\<rparr>;
     let Val = WriteLatency P + TWtr P + (BurstLength P div 2);
     let (Val2, Val) = (if Lpddr4Hynix P = 1 \<and> NumRankAddr P = 1 then (let Val2 = ((WdqsOff P - WriteLatency P) - (BurstLength P div 2)) - 2;
         Val = Val + Val2 in (Val2, Val)) else (Val2, Val));
     c9 \<leftarrow> XFsbl_Ceil (fdiv 24 (sgl (Val + 1)) (Fin 2));
     let DdrCfg = DdrCfg[DDR_WR2RD := c9];
     c10 \<leftarrow> ceil_of (fdiv 53 (Fin 14) (ClockPeriod P));
     let DdrCfg = DdrCfg[DDR_T_MRW := max c10 10];
     c11 \<leftarrow> ceil_of (fdiv 53 (fmax (fdiv 53 (Fin 14) (ClockPeriod P)) (Fin 10)) (Fin 2));
     let DdrCfg = DdrCfg[DDR_T_MRD := c11];
     c12 \<leftarrow> ceil_of (fdiv 53 (Fin 10) (ClockPeriod P));
     c13 \<leftarrow> ceil_of (fdiv 53 (fadd 53 (dbl (max c12 4)) (fmul 53 (Fin (15 / 8)) (dbl (TRefRange P)))) (Fin 2));
     let DdrCfg = DdrCfg[DDR_T_RRD := c13];
     c14 \<leftarrow> ceil_of (fdiv 53 (fdiv 53 (dbl (TRpPs P)) (Fin 1000)) (Fin 2));
     let DdrCfg = DdrCfg[DDR_T_RP := c14, DDR_T_CKSRX := 1];
     c15 \<leftarrow> ceil_of (fdiv 53 (fmax (fdiv 53 (Fin (15 / 2)) (ClockPeriod P)) (Fin 3)) (Fin 2));
     let DdrCfg = DdrCfg[DDR_T_CKSRE := c15];
     c16 \<leftarrow> ceil_of (fdiv 53 (fmax (fdiv 24 (Fin 15) (ClockPeriod P)) (Fin 4)) (Fin 2));
     let DdrCfg = DdrCfg[DDR_T_CKESR := c16];
     c17 \<leftarrow> ceil_of (fdiv 53 (fmax (fdiv 24 (Fin 15) (ClockPeriod P)) (Fin 4)) (Fin 2));
     let DdrCfg = DdrCfg[DDR_T_CKE := c17];
     c18 \<leftarrow> ceil_of (fdiv 53 (fadd 53 (fmax (fdiv 53 (Fin (15 / 2)) (ClockPeriod P)) (Fin 5)) (Fin 2)) (Fin 2));
     let DdrCfg = DdrCfg[DDR_T_CKCSX := c18];
     c19 \<leftarrow> ceil_of (fdiv 53 (fmax (fdiv 53 (Fin (15 / 2)) (ClockPeriod P)) (Fin 3)) (Fin 2));
     let DdrCfg = DdrCfg[DDR_T_CKPDE := c19, DDR_T_CKPDX := 1];
     c20 \<leftarrow> ceil_of (fdiv 53 (fdiv 53 (fdiv 53 (fadd 53 (fdiv 53 (dbl (TRfcPs P)) (Fin 1000)) (Fin (15 / 2))) (ClockPeriod P)) (Fin 32))
         (Fin 2));
     let DdrCfg = DdrCfg[DDR_T_XS_DLL_X32 := c20 + 1];
     c21 \<leftarrow> ceil_of (fdiv 53 (fdiv 53 (fdiv 53 (fadd 53 (fdiv 53 (dbl (TRfcPs P)) (Fin 1000)) (Fin (15 / 2))) (ClockPeriod P)) (Fin 32))
         (Fin 2));
     let DdrCfg = DdrCfg[DDR_T_XS_X32 := c21 + 1];
     Some (P, DdrCfg) }"

definition ddrc_lpddr4_3 :: "XFsbl_DimmParams \<Rightarrow> u32 list \<Rightarrow> (u32 list) option" where
  "ddrc_lpddr4_3 P DdrCfg = do {
     DdrCfg \<leftarrow> (if SpeedBin P \<ge> 3200 then do { let DdrCfg = DdrCfg[DDR_T_CMDCKE := 1]; c1 \<leftarrow> ceil_of (fdiv 53 (fmax (fdiv 53
         (Fin (15 / 2)) (ClockPeriod P)) (Fin 3)) (Fin 2)); Some (DdrCfg[DDR_T_CKEHCMD := c1]) } else Some DdrCfg);
     c2 \<leftarrow> ceil_of (fdiv 53 (fdiv 53 (Fin 1000) (ClockPeriod P)) (Fin 2));
     let DdrCfg = DdrCfg[DDR_T_ZQ_LONG_NOP := c2];
     c3 \<leftarrow> ceil_of (fdiv 53 (fmax (fdiv 53 (Fin 30) (ClockPeriod P)) (Fin 8)) (Fin 2));
     let DdrCfg = DdrCfg[DDR_T_ZQ_SHORT_NOP := c3];
     c4 \<leftarrow> ceil_of (fdiv 53 (fmax (Fin 3) (fdiv 53 (Fin 50) (ClockPeriod P))) (Fin 2));
     let DdrCfg = DdrCfg[DDR_T_ZQ_RESET_NOP := c4];
     c5 \<leftarrow> to_u32 (fdiv 53 (fdiv 53 (Fin 400000000) (ClockPeriod P)) (Fin 1024));
     let DdrCfg = DdrCfg[DDR_T_ZQ_SHORT_INTERVAL_X1024 := c5];
     c7 \<leftarrow> (if SpeedBin P \<ge> 1600 then do { c6 \<leftarrow> to_u32 (fdiv 53 (Fin (3 / 2)) (ClockPeriod P)); Some c6 } else Some 1);
     let Val = c7;
     let DdrCfg = DdrCfg[DDR_DFI_T_RDDATA_EN := ((ReadLatency P + Val) - 4) - RDimm P, DDR_DFI_TPHY_WRLAT := ((WriteLatency P + 1) - 3) - RDimm P,
         DDR_DFI_T_WRDATA_DELAY := 3, DDR_DFI_DATA_CS_POLARITY := 1, DDR_RD_DBI_EN := RdDbi P, DDR_WR_DBI_EN := WrDbi P, DDR_DM_EN := DataMask P,
         DDR_RANK1_WR_ODT := 0, DDR_RANK0_WR_ODT := 0x0];
     Some DdrCfg }"

definition XFsbl_DdrcCalcLpddr4RegVal :: "XFsbl_DimmParams \<Rightarrow> u32 list \<Rightarrow> (XFsbl_DimmParams \<times> u32 list) option" where
  "XFsbl_DdrcCalcLpddr4RegVal P DdrCfg = do {
     (P, DdrCfg, Val, Val2) \<leftarrow> ddrc_lpddr4_1 P DdrCfg;
     (P, DdrCfg) \<leftarrow> ddrc_lpddr4_2 P DdrCfg Val Val2;
     DdrCfg \<leftarrow> ddrc_lpddr4_3 P DdrCfg;
     Some (P, DdrCfg) }"

section \<open>The initialisation\<close>

definition XFSBL_DDRC_REG_DEFVAL :: "u32 list" where
  "XFSBL_DDRC_REG_DEFVAL =
     [0, 0, 0, 4, 0, 0, 0, 0, 0, 0, 0, 0, 0, 0, 0, 0, 3, 0, 0, 0,
      0, 0, 0, 0, 0, 0x800000, 0, 0, 0, 0, 0, 0, 0, 0x40, 0x20, 0x10, 2, 0x10, 0, 0,
      0, 0, 0, 0, 0, 0x62, 0, 0x8C, 0, 0, 0, 0, 0x10, 1, 0, 0, 0, 0, 0x30, 5,
      0, 0, 2, 0x4E, 0, 0, 0, 0xD, 5, 0, 0x510, 0x5102, 0x5103, 0, 4, 0, 0, 0, 0, 0,
      0, 0, 0, 0, 6, 6, 0xF, 0xF, 0x10, 0x1B, 0xF, 8, 4, 0x14, 3, 5, 6, 0xD, 5, 4,
      0xC, 5, 4, 4, 5, 5, 5, 4, 3, 0, 0, 5, 2, 2, 3, 3, 0x44, 5, 0, 4,
      4, 0xD, 0x44, 0xC, 0, 0x1C, 2, 6, 0x10, 0, 0, 0, 0, 0x200, 0x40, 0x20, 0x100, 0, 0, 2,
      0, 0, 2, 0, 0, 0, 0, 0, 0, 0, 0, 0, 0, 0, 0, 0, 0, 0, 0, 0x40,
      3, 0, 0, 0, 0, 0, 2, 2, 0, 0, 1, 0, 0, 0, 0, 0, 0, 0, 0, 0,
      0, 0, 0, 0, 0, 0, 0, 0, 0, 0, 0, 0, 0, 0, 0, 0, 0, 0, 0, 0,
      0, 0, 0, 0, 0, 0, 0, 4, 0, 4, 0, 0, 2, 0, 1, 0, 0, 0x20, 0, 0,
      1, 0, 0, 0, 0, 0, 0, 0, 0, 0, 0, 0, 0, 0, 0, 0, 0, 0, 0, 0,
      0, 0, 0, 0, 0, 0, 0, 0, 0, 0, 0, 0, 0, 0, 0, 0, 0, 0, 0, 0,
      0, 0, 0, 0, 0, 0, 0, 0, 0, 0, 0, 0, 0, 0, 0, 0, 0, 0] @
     replicate 22 0"

text \<open>A computation that is undefined stops the loader's run.\<close>

definition definedM :: "'a option \<Rightarrow> 'a prog" where
  "definedM x = (case x of None \<Rightarrow> haltM OutOfBounds | Some y \<Rightarrow> retM y)"

definition XFsbl_DdrcCalcCommonRegVal :: "ddr_config \<Rightarrow> DdrcInitData \<Rightarrow> u32 list \<Rightarrow> (DdrcInitData \<times> u32 list) prog" where
  "XFsbl_DdrcCalcCommonRegVal C D DdrCfg =
     bindM (definedM (do { (P, DdrCfg) \<leftarrow> ddrc_common_1 (PDimm D) DdrCfg; DdrCfg \<leftarrow> ddrc_common_2 P DdrCfg; Some (P, DdrCfg) })) (\<lambda>(P, DdrCfg).
     bindM (XFsbl_DdrCalcAddrMap C (D\<lparr>PDimm := P\<rparr>)) (\<lambda>D.
     bindM (definedM (ddrc_common_3 (PDimm D) DdrCfg)) (\<lambda>DdrCfg. retM (D, DdrCfg))))"

definition ddrc_memory_values :: "XFsbl_DimmParams \<Rightarrow> u32 list \<Rightarrow> (XFsbl_DimmParams \<times> u32 list) option" where
  "ddrc_memory_values P DdrCfg =
     (if MemType P = SPD_MEMTYPE_DDR3 then XFsbl_DdrcCalcDdr3RegVal P DdrCfg
      else if MemType P = SPD_MEMTYPE_DDR4 then XFsbl_DdrcCalcDdr4RegVal P DdrCfg
      else if MemType P = SPD_MEMTYPE_LPDDR3 then XFsbl_DdrcCalcLpddr3RegVal P DdrCfg
      else if MemType P = SPD_MEMTYPE_LPDDR4 then XFsbl_DdrcCalcLpddr4RegVal P DdrCfg
      else Some (P, DdrCfg))"

definition ddrc_slave_latencies :: "XFsbl_DimmParams \<Rightarrow> u32 list \<Rightarrow> u32 list" where
  "ddrc_slave_latencies P DdrCfg =
     (let DdrCfg = DdrCfg[DDR_DFI_TPHY_RDCSLAT := DdrCfg ! DDR_DFI_T_RDDATA_EN - 2]
      in if RDimm P = 0 then DdrCfg[DDR_DFI_TPHY_WRCSLAT := DdrCfg ! DDR_DFI_TPHY_WRLAT - 2] else DdrCfg)"

definition mode_registers :: "u32 list \<Rightarrow> XFsbl_DimmParams \<Rightarrow> XFsbl_DimmParams" where
  "mode_registers DdrCfg P = P\<lparr>Mr := DdrCfg ! DDR_MR, Emr := DdrCfg ! DDR_EMR, Emr2 := DdrCfg ! DDR_EMR2, Emr3 := DdrCfg ! DDR_EMR3,
     Mr4 := DdrCfg ! DDR_MR4, Mr5 := DdrCfg ! DDR_MR5, Mr6 := DdrCfg ! DDR_MR6\<rparr>"

text \<open>The calculators never fail, so neither does the initialisation.\<close>

definition XFsbl_DdrcRegsInit :: "ddr_config \<Rightarrow> DdrcInitData \<Rightarrow> DdrcInitData prog" where
  "XFsbl_DdrcRegsInit C D =
     bindM (XFsbl_DdrcCalcCommonRegVal C D XFSBL_DDRC_REG_DEFVAL) (\<lambda>(D, DdrCfg).
     bindM (definedM (ddrc_memory_values (PDimm D) DdrCfg)) (\<lambda>(P, DdrCfg).
     (let DdrCfg = ddrc_slave_latencies P DdrCfg; P = mode_registers DdrCfg P
      in seqM (XFsbl_DdrcRegsWrite DdrCfg) (retM (D\<lparr>PDimm := P\<rparr>)))))"

end
