(* ===== verification/Ddr_Phy.thy ===== *)
theory Ddr_Phy
  imports Ddr_Phy_Values Ddr_Controller_Init
begin

text \<open>
  \<open>XFsbl_PhyRegsWrite\<close>: the registers of the PHY in the order of the writes, each with the offsets at which its value is
  written and the fields that are added up to the value; between them the code changes entries of the array for the
  width of the bus and the type of the memory.  \<open>XFsbl_PhyRegsInit\<close> computes the array and writes the registers.
\<close>

definition XFSBL_PHY_REG_DEFVAL :: "u32 list" where
  "XFSBL_PHY_REG_DEFVAL =
     [0, 0, 0, 0, 0, 0, 0, 0, 0, 0, 0, 0, 0, 0, 0, 0, 0, 0, 0, 0,
      0, 0, 0, 0, 0, 0, 0, 0, 0, 0, 0, 0, 0, 0, 0, 0, 0, 0, 0, 0,
      0, 0, 0, 0, 0xE, 0, 0, 0, 0, 0, 0, 0, 0, 0, 0, 0, 0, 0, 0, 0,
      0, 0, 0, 0, 0, 0, 0, 0, 0, 0, 0, 0, 0, 0, 0, 0, 0, 5, 0, 0,
      0, 0, 0, 0, 4, 0, 0, 0, 0, 0x1D0, 0, 0, 0x200, 8, 0, 0, 0, 0, 0, 0,
      0, 0, 0, 0, 0, 0, 0, 0, 0, 0, 0, 0, 0, 0, 0, 0, 0, 0, 0, 0,
      0, 0, 0, 0, 0, 0, 0, 0, 0, 0, 0, 0, 0, 0, 0, 0, 0, 0, 0, 0,
      0, 0, 0, 0, 0, 0, 0, 0, 0, 0, 0, 0, 0, 0, 0, 0, 0, 0, 0, 0,
      0, 0, 0, 0, 0, 0, 0, 0, 0, 0, 0, 0, 0, 0, 0, 0, 0, 0, 0, 0,
      0, 0, 0, 0, 0, 1, 0xD, 0, 0, 0, 0, 0, 0, 0, 0, 1, 0xD, 0, 0, 0,
      0, 0, 0, 0, 0, 0, 0, 0, 2, 1, 0, 0, 0, 0, 0, 0, 0, 0, 0, 0,
      0, 0, 0, 5, 4, 0, 0, 0, 0, 0, 0, 0, 0, 0, 0, 0, 0, 0, 5, 0,
      0, 0, 0, 0, 0, 0, 0, 0, 0, 0, 0, 0, 0, 0, 0, 0, 0, 0, 0, 0,
      5, 0, 0, 0, 0, 0, 0, 0, 0, 0, 0, 0, 0, 0, 0, 0, 0, 0, 0, 0,
      0, 0, 0, 0, 0, 0, 0x19, 0, 0, 0, 0, 0, 0, 0, 0, 0, 0, 0, 0, 0,
      0, 0, 0, 0, 0, 0, 0, 0, 0, 0, 0, 0, 0, 0, 0, 0, 0, 0, 0, 0,
      0, 0, 0, 0, 0, 0, 0, 0, 0, 0, 0, 0, 0, 0, 0, 0, 0, 0, 0, 0,
      0, 7, 7, 0xB, 0xB, 0, 1, 0, 0, 0, 0, 0, 0, 0, 0, 0, 0, 0, 1, 0,
      0, 0, 1, 1, 1, 1, 1, 0xFF, 1, 1, 1, 1, 1, 1, 0, 0, 0, 0, 0, 0,
      0, 0, 2, 0, 0, 0, 1, 0, 0, 0, 0, 0, 0, 0, 0, 0, 0, 0, 0, 0,
      0, 0, 0, 0, 0, 0, 0, 0, 0, 0, 0, 0, 0, 0, 0, 0, 0, 0, 0, 0,
      0, 0, 0, 0, 0, 0, 0, 0, 0, 0, 0, 0, 0, 1, 0, 0, 0, 0, 0, 0,
      0, 0, 0, 0, 0, 0, 0, 0, 0, 0, 0, 0, 0, 0, 0, 0, 0, 0, 0, 0,
      0, 0, 0, 0, 0, 0, 0, 0, 0, 0, 0, 0, 0, 0, 0, 0, 0] @
     replicate 35 0"

section \<open>The registers\<close>

definition phy_regs_1 :: "u32 list \<Rightarrow> (u32 list \<times> field list) list" where
  "phy_regs_1 PhyCfg =
     [([0x700, 0x800, 0x900, 0xA00],
        [(PhyCfg ! PHY_CALBYP, 0x1, 31), (0x1, 0x1, 30), (PhyCfg ! PHY_CODTSHFT, 0x3, 28), (PhyCfg ! PHY_DQSDCC, 0x7, 24), (0x8, 0xF, 20), (PhyCfg !
            PHY_DQSNSEPDR, 0x1, 13), (PhyCfg ! PHY_DQSSEPDR, 0x1, 12), (PhyCfg ! PHY_RTTOAL, 0x1, 11), (0x3, 0x3, 9), (PhyCfg ! PHY_CPDRSHFT, 0x3,
            7), (PhyCfg ! PHY_DQSRPD, 0x1, 6), (PhyCfg ! PHY_DQSGPDR, 0x1, 5), (PhyCfg ! PHY_DQSGODT, 0x1, 3), (0x1, 0x1, 2)]),
      ([0x704, 0x804],
        [(PhyCfg ! PHY_DXPDRMODE, 0xFFFF, 16), (0x1, 0x1, 14), (0x1, 0x1, 13), (0x1, 0x1, 12), (0x1, 0x1, 11), (0x1, 0x1, 10), (0x1, 0x1, 9), (PhyCfg
            ! PHY_DMEN, 0x1, 8), (0xFF, 0xFF, 0)]),
      ([0x70C, 0x80C, 0x90C, 0xA0C],
        [(0x1, 0x1, 29), (0x1, 0x1, 28), (0x1, 0x1, 27), (0x1, 0x1, 26), (0x1, 0x1, 25), (0x1, 0x1, 24), (PhyCfg ! PHY_DSNOEMODE, 0x3, 20), (PhyCfg !
            PHY_DSNTEMODE, 0x3, 18), (PhyCfg ! PHY_DSNPDRMODE, 0x3, 16), (PhyCfg ! PHY_DMOEMODE, 0x3, 14), (PhyCfg ! PHY_DMTEMODE, 0x3, 12), (PhyCfg
            ! PHY_DMPDRMODE, 0x3, 10), (PhyCfg ! PHY_DSOEMODE, 0x3, 6), (PhyCfg ! PHY_DSTEMODE, 0x3, 4), (0x2, 0x3, 2)]),
      ([0x710, 0x810, 0x910, 0xA10, 0xC10, 0xE10],
        [(PhyCfg ! PHY_DXREFIOM, 0x7, 29), (PhyCfg ! PHY_DXREFPEN, 0x1, 28), (0x3, 0x3, 26), (0x1, 0x1, 25), (PhyCfg ! PHY_DXREFESELRANGE, 0x1, 23),
            (PhyCfg ! PHY_DXREFESEL, 0x7F, 16), (0x1, 0x1, 15), (PhyCfg ! PHY_DXREFSSEL, 0x7F, 8), (PhyCfg ! PHY_DXREFIEN, 0xF, 2), (PhyCfg !
            PHY_DXREFIMON, 0x3, 0)])]"

definition phy_update_1 :: "XFsbl_DimmParams \<Rightarrow> u32 list \<Rightarrow> u32 list" where
  "phy_update_1 P PhyCfg =
     (let PhyCfg = (if BusWidth P = 16 then PhyCfg[PHY_DQEN := 0x0] else PhyCfg)
      in PhyCfg)"

definition phy_regs_2 :: "u32 list \<Rightarrow> (u32 list \<times> field list) list" where
  "phy_regs_2 PhyCfg =
     [([0x904, 0xA04],
        [(PhyCfg ! PHY_DXPDRMODE, 0xFFFF, 16), (0x1, 0x1, 14), (0x1, 0x1, 13), (0x1, 0x1, 12), (0x1, 0x1, 11), (0x1, 0x1, 10), (PhyCfg ! PHY_DSEN,
            0x1, 9), (PhyCfg ! PHY_DMEN, 0x1, 8), (PhyCfg ! PHY_DQEN, 0xFF, 0)])]"

definition phy_update_2 :: "XFsbl_DimmParams \<Rightarrow> u32 list \<Rightarrow> u32 list" where
  "phy_update_2 P PhyCfg =
     (let PhyCfg = (if BusWidth P = 32 then PhyCfg[PHY_CALBYP := 1, PHY_MDLEN := 0, PHY_DQSNSEPDR := 1, PHY_DQSSEPDR := 1, PHY_DQSRPD := 1,
              PHY_DQSGPDR := 1, PHY_DQSGODT := 0, PHY_DQSGOE := 0, PHY_DXPDRMODE := 0x5555, PHY_OEEN := 0x0, PHY_PDREN := 0x0, PHY_TEEN := 0x0,
              PHY_DSEN := 0x0, PHY_DMEN := 0x0, PHY_DXOEMODE := 0xAAAA, PHY_DXTEMODE := 0xAAAA, PHY_RDBVT := 0x0, PHY_WDBVT := 0x0, PHY_RGLVT := 0x0,
              PHY_RDLVT := 0x0, PHY_WDLVT := 0x0, PHY_WLLVT := 0x0, PHY_DSNOEMODE := 2, PHY_DSNTEMODE := 2, PHY_DSNPDRMODE := 1, PHY_DMOEMODE := 2,
              PHY_DMTEMODE := 2, PHY_DMPDRMODE := 1, PHY_DSOEMODE := 2, PHY_DSTEMODE := 2, PHY_DSPDRMODE := 1, PHY_DXREFSEN := 0] else PhyCfg);
          PhyCfg = (if BusWidth P \<noteq> 64 then PhyCfg[PHY_DQEN := 0x0] else PhyCfg)
      in PhyCfg)"

definition phy_regs_3 :: "u32 list \<Rightarrow> (u32 list \<times> field list) list" where
  "phy_regs_3 PhyCfg =
     [([0xB00, 0xC00, 0xD00, 0xE00],
        [(PhyCfg ! PHY_CALBYP, 0x1, 31), (PhyCfg ! PHY_MDLEN, 0x1, 30), (PhyCfg ! PHY_CODTSHFT, 0x3, 28), (PhyCfg ! PHY_DQSDCC, 0x7, 24), (0x8, 0xF,
            20), (PhyCfg ! PHY_DQSNSEPDR, 0x1, 13), (PhyCfg ! PHY_DQSSEPDR, 0x1, 12), (PhyCfg ! PHY_RTTOAL, 0x1, 11), (0x3, 0x3, 9), (PhyCfg !
            PHY_CPDRSHFT, 0x3, 7), (PhyCfg ! PHY_DQSRPD, 0x1, 6), (PhyCfg ! PHY_DQSGPDR, 0x1, 5), (PhyCfg ! PHY_DQSGODT, 0x1, 3), (PhyCfg !
            PHY_DQSGOE, 0x1, 2)]),
      ([0xB04, 0xC04, 0xD04, 0xE04],
        [(PhyCfg ! PHY_DXPDRMODE, 0xFFFF, 16), (0x1, 0x1, 14), (0x1, 0x1, 13), (PhyCfg ! PHY_OEEN, 0x1, 12), (PhyCfg ! PHY_PDREN, 0x1, 11), (PhyCfg !
            PHY_TEEN, 0x1, 10), (PhyCfg ! PHY_DSEN, 0x1, 9), (PhyCfg ! PHY_DMEN, 0x1, 8), (PhyCfg ! PHY_DQEN, 0xFF, 0)]),
      ([0xB0C, 0xC0C, 0xD0C, 0xE0C],
        [(PhyCfg ! PHY_RDBVT, 0x1, 29), (PhyCfg ! PHY_WDBVT, 0x1, 28), (PhyCfg ! PHY_RGLVT, 0x1, 27), (PhyCfg ! PHY_RDLVT, 0x1, 26), (PhyCfg !
            PHY_WDLVT, 0x1, 25), (PhyCfg ! PHY_WLLVT, 0x1, 24), (PhyCfg ! PHY_DSNOEMODE, 0x3, 20), (PhyCfg ! PHY_DSNTEMODE, 0x3, 18), (PhyCfg !
            PHY_DSNPDRMODE, 0x3, 16), (PhyCfg ! PHY_DMOEMODE, 0x3, 14), (PhyCfg ! PHY_DMTEMODE, 0x3, 12), (PhyCfg ! PHY_DMPDRMODE, 0x3, 10), (PhyCfg
            ! PHY_DSOEMODE, 0x3, 6), (PhyCfg ! PHY_DSTEMODE, 0x3, 4), (PhyCfg ! PHY_DSPDRMODE, 0x3, 2)])]"

definition phy_update_3 :: "XFsbl_DimmParams \<Rightarrow> u32 list \<Rightarrow> u32 list" where
  "phy_update_3 P PhyCfg =
     (let PhyCfg = (if BusWidth P = 32 then PhyCfg[PHY_DXREFIEN := 0] else if NumRankAddr P = 1 then PhyCfg[PHY_DXREFIEN := 3] else
              PhyCfg[PHY_DXREFIEN := 1])
      in PhyCfg)"

definition phy_regs_4 :: "u32 list \<Rightarrow> (u32 list \<times> field list) list" where
  "phy_regs_4 PhyCfg =
     [([0xB10, 0xD10],
        [(PhyCfg ! PHY_DXREFIOM, 0x7, 29), (PhyCfg ! PHY_DXREFPEN, 0x1, 28), (0x3, 0x3, 26), (PhyCfg ! PHY_DXREFSEN, 0x1, 25), (PhyCfg !
            PHY_DXREFESELRANGE, 0x1, 23), (PhyCfg ! PHY_DXREFESEL, 0x7F, 16), (0x1, 0x1, 15), (PhyCfg ! PHY_DXREFSSEL, 0x7F, 8), (PhyCfg !
            PHY_DXREFIEN, 0xF, 2), (PhyCfg ! PHY_DXREFIMON, 0x3, 0)])]"

definition phy_update_4 :: "XFsbl_DimmParams \<Rightarrow> u32 list \<Rightarrow> u32 list" where
  "phy_update_4 P PhyCfg =
     (let PhyCfg = (if Ecc P = 0 then PhyCfg[PHY_CALBYP := 1, PHY_MDLEN := 0, PHY_DQSNSEPDR := 1, PHY_DQSSEPDR := 1, PHY_DQSRPD := 1, PHY_DQSGPDR :=
              1, PHY_DQSGOE := 0, PHY_DXPDRMODE := 0x5555, PHY_OEEN := 0, PHY_PDREN := 0, PHY_TEEN := 0, PHY_DSEN := 0, PHY_DMEN := 0, PHY_DQEN :=
              0x0, PHY_DXOEMODE := 0xAAAA, PHY_DXTEMODE := 0xAAAA, PHY_RDBVT := 0, PHY_WDBVT := 0, PHY_RGLVT := 0, PHY_RDLVT := 0, PHY_WDLVT := 0,
              PHY_WLLVT := 0, PHY_DSNOEMODE := 2, PHY_DSNTEMODE := 2, PHY_DSNPDRMODE := 1, PHY_DMOEMODE := 2, PHY_DMTEMODE := 2, PHY_DMPDRMODE := 1,
              PHY_DSOEMODE := 2, PHY_DSTEMODE := 2, PHY_DSPDRMODE := 1, PHY_DXREFSEN := 0] else PhyCfg[PHY_DQSGPDR := 1])
      in PhyCfg)"

definition phy_regs_5 :: "u32 list \<Rightarrow> (u32 list \<times> field list) list" where
  "phy_regs_5 PhyCfg =
     [([0xF00],
        [(PhyCfg ! PHY_CALBYP, 0x1, 31), (PhyCfg ! PHY_MDLEN, 0x1, 30), (PhyCfg ! PHY_CODTSHFT, 0x3, 28), (PhyCfg ! PHY_DQSDCC, 0x7, 24), (0x8, 0xF,
            20), (PhyCfg ! PHY_DQSNSEPDR, 0x1, 13), (PhyCfg ! PHY_DQSSEPDR, 0x1, 12), (PhyCfg ! PHY_RTTOAL, 0x1, 11), (0x3, 0x3, 9), (PhyCfg !
            PHY_CPDRSHFT, 0x3, 7), (PhyCfg ! PHY_DQSRPD, 0x1, 6), (PhyCfg ! PHY_DQSGPDR, 0x1, 5), (PhyCfg ! PHY_DQSGODT, 0x1, 3), (PhyCfg !
            PHY_DQSGOE, 0x1, 2)]),
      ([0xF04],
        [(PhyCfg ! PHY_DXPDRMODE, 0xFFFF, 16), (0x1, 0x1, 14), (0x1, 0x1, 13), (PhyCfg ! PHY_OEEN, 0x1, 12), (PhyCfg ! PHY_PDREN, 0x1, 11), (PhyCfg !
            PHY_TEEN, 0x1, 10), (PhyCfg ! PHY_DSEN, 0x1, 9), (PhyCfg ! PHY_DMEN, 0x1, 8), (PhyCfg ! PHY_DQEN, 0xFF, 0)]),
      ([0xF08],
        [(PhyCfg ! PHY_DXOEMODE, 0xFFFF, 16), (PhyCfg ! PHY_DXTEMODE, 0xFFFF, 0)]),
      ([0xF0C],
        [(PhyCfg ! PHY_RDBVT, 0x1, 29), (PhyCfg ! PHY_WDBVT, 0x1, 28), (PhyCfg ! PHY_RGLVT, 0x1, 27), (PhyCfg ! PHY_RDLVT, 0x1, 26), (PhyCfg !
            PHY_WDLVT, 0x1, 25), (PhyCfg ! PHY_WLLVT, 0x1, 24), (PhyCfg ! PHY_DSNOEMODE, 0x3, 20), (PhyCfg ! PHY_DSNTEMODE, 0x3, 18), (PhyCfg !
            PHY_DSNPDRMODE, 0x3, 16), (PhyCfg ! PHY_DMOEMODE, 0x3, 14), (PhyCfg ! PHY_DMTEMODE, 0x3, 12), (PhyCfg ! PHY_DMPDRMODE, 0x3, 10), (PhyCfg
            ! PHY_DSOEMODE, 0x3, 6), (PhyCfg ! PHY_DSTEMODE, 0x3, 4), (PhyCfg ! PHY_DSPDRMODE, 0x3, 2)])]"

definition phy_update_5 :: "XFsbl_DimmParams \<Rightarrow> u32 list \<Rightarrow> u32 list" where
  "phy_update_5 P PhyCfg =
     (let PhyCfg = (if Ecc P = 0 then PhyCfg[PHY_DXREFIEN := 0] else if NumRankAddr P = 1 then PhyCfg[PHY_DXREFIEN := 3] else PhyCfg[PHY_DXREFIEN :=
              1])
      in PhyCfg)"

definition phy_regs_6 :: "u32 list \<Rightarrow> (u32 list \<times> field list) list" where
  "phy_regs_6 PhyCfg =
     [([0xF10],
        [(PhyCfg ! PHY_DXREFIOM, 0x7, 29), (PhyCfg ! PHY_DXREFPEN, 0x1, 28), (0x3, 0x3, 26), (PhyCfg ! PHY_DXREFSEN, 0x1, 25), (PhyCfg !
            PHY_DXREFESELRANGE, 0x1, 23), (PhyCfg ! PHY_DXREFESEL, 0x7F, 16), (0x1, 0x1, 15), (PhyCfg ! PHY_DXREFSSEL, 0x7F, 8), (PhyCfg !
            PHY_DXREFIEN, 0xF, 2), (PhyCfg ! PHY_DXREFIMON, 0x3, 0)])]"

definition phy_update_6 :: "XFsbl_DimmParams \<Rightarrow> u32 list \<Rightarrow> u32 list" where
  "phy_update_6 P PhyCfg =
     (let PhyCfg = (if PhyClkGate P = 0 then PhyCfg[PHY_GATEDXRDCLK := 0x2] else PhyCfg);
          PhyCfg = (if PhyClkGate P = 0 then PhyCfg[PHY_GATEDXDDRCLK := 0x2] else PhyCfg);
          PhyCfg = (if PhyClkGate P = 0 then PhyCfg[PHY_GATEDXCTLCLK := 0x2] else PhyCfg);
          PhyCfg = (if PllByp P \<noteq> 0 then PhyCfg[PHY_PLLBYP := 1] else PhyCfg);
          PhyCfg = (if CtlClkFreq P > 668 then PhyCfg[PHY_FRQSEL := 8, PHY_CPPC := 5, PHY_CPIC := 0] else if CtlClkFreq P > 560 then
              PhyCfg[PHY_FRQSEL := 0, PHY_CPPC := 7, PHY_CPIC := 0] else if CtlClkFreq P > 471 then PhyCfg[PHY_FRQSEL := 1, PHY_CPPC := 8, PHY_CPIC
              := 0] else if CtlClkFreq P > 396 then PhyCfg[PHY_FRQSEL := 2, PHY_CPPC := 9, PHY_CPIC := 0] else if CtlClkFreq P > 332 then
              PhyCfg[PHY_FRQSEL := 3, PHY_CPPC := 10, PHY_CPIC := 0] else if CtlClkFreq P > 279 then PhyCfg[PHY_FRQSEL := 4, PHY_CPPC := 6, PHY_CPIC
              := 1] else if CtlClkFreq P > 235 then PhyCfg[PHY_FRQSEL := 5, PHY_CPPC := 8] else if CtlClkFreq P > 197 then PhyCfg[PHY_FRQSEL := 6,
              PHY_CPPC := 9, PHY_CPIC := 2] else if CtlClkFreq P \<ge> 166 then PhyCfg[PHY_FRQSEL := 7, PHY_CPPC := 10, PHY_CPIC := 3] else PhyCfg);
          PhyCfg = (if MemType P = SPD_MEMTYPE_LPDDR3 \<and> GateExt P = 1 then (if NoGateExtNoTrain P = 1 then PhyCfg[PHY_DQSGX := 0x0] else
              PhyCfg[PHY_DQSGX := 0x3]) else PhyCfg[PHY_DQSGX := 0x0]);
          PhyCfg = PhyCfg[PHY_DXSR := 0x3];
          PhyCfg = (if MemType P = SPD_MEMTYPE_LPDDR4 \<or> MemType P = SPD_MEMTYPE_DDR4 \<and> WrPreamble P \<noteq> 0 then PhyCfg[PHY_PREOEX :=
              0x3] else PhyCfg);
          PhyCfg = (if Preoex P \<noteq> 0 then PhyCfg[PHY_PREOEX := Preoex P] else PhyCfg);
          PhyCfg = (if PhyDbiMode P \<noteq> 0 \<and> RdDbi P \<noteq> 0 then PhyCfg[PHY_RDBI := 1] else PhyCfg);
          PhyCfg = (if PhyDbiMode P \<noteq> 0 \<and> WrDbi P \<noteq> 0 then PhyCfg[PHY_WDBI := 1] else PhyCfg);
          PhyCfg = PhyCfg[PHY_DXDACRANGE := 0x7];
          PhyCfg = (if MemType P = SPD_MEMTYPE_DDR4 then PhyCfg[PHY_DXIOM := 0x2] else if MemType P = SPD_MEMTYPE_DDR3 then PhyCfg[PHY_DXIOM := 0x0]
              else if MemType P = SPD_MEMTYPE_LPDDR4 then PhyCfg[PHY_DXIOM := 0x4] else if MemType P = SPD_MEMTYPE_LPDDR3 then PhyCfg[PHY_DXIOM :=
              0x2] else PhyCfg)
      in PhyCfg)"

definition phy_regs_7 :: "u32 list \<Rightarrow> (u32 list \<times> field list) list" where
  "phy_regs_7 PhyCfg =
     [([0x1400, 0x1440],
        [(PhyCfg ! PHY_GATEDXRDCLK, 0x3, 28), (PhyCfg ! PHY_GATEDXDDRCLK, 0x3, 26), (PhyCfg ! PHY_GATEDXCTLCLK, 0x3, 24), (PhyCfg ! PHY_CLKLEVEL,
            0x3, 22), (PhyCfg ! PHY_LBMODE, 0x1, 21), (PhyCfg ! PHY_LBGSDQS, 0x1, 20), (PhyCfg ! PHY_LBDGDQS, 0x3, 18), (PhyCfg ! PHY_LBDQSS, 0x1,
            17), (0x1, 0x1, 16), (0x1, 0x1, 15), (PhyCfg ! PHY_DLTST, 0x1, 14), (PhyCfg ! PHY_DLTMODE, 0x1, 13), (0x3, 0x3, 11), (0x3, 0x3, 9), (0x3,
            0x3, 7), (0x3, 0x3, 5), (0xF, 0xF, 1), (PhyCfg ! PHY_OSCEN, 0x1, 0)]),
      ([0x1404, 0x1444, 0x17C4],
        [(PhyCfg ! PHY_PLLBYP, 0x1, 31), (PhyCfg ! PHY_PLLRST, 0x1, 30), (PhyCfg ! PHY_PLLPD, 0x1, 29), (PhyCfg ! PHY_RSTOPM, 0x1, 28), (PhyCfg !
            PHY_FRQSEL, 0xF, 24), (PhyCfg ! PHY_RLOCKM, 0x1, 23), (PhyCfg ! PHY_CPPC, 0x3F, 17), (PhyCfg ! PHY_CPIC, 0xF, 13), (PhyCfg ! PHY_GSHIFT,
            0x1, 12), (PhyCfg ! PHY_ATOEN, 0x1, 8), (PhyCfg ! PHY_ATC, 0xF, 4), (PhyCfg ! PHY_DTC, 0xF, 0)]),
      ([0x141C, 0x145C, 0x17DC],
        [(0x1, 0x1, 24), (0x1, 0x1, 21), (PhyCfg ! PHY_DQSGX, 0x3, 19), (0x1, 0x1, 18), (0x1, 0x1, 17), (0x1, 0x1, 14), (PhyCfg ! PHY_UDQIOM, 0x1,
            13), (PhyCfg ! PHY_DXSR, 0x3, 8), (PhyCfg ! PHY_DQSNRES, 0xF, 4), (PhyCfg ! PHY_DQSRES, 0xF, 0)]),
      ([0x142C, 0x146C, 0x14AC, 0x14EC, 0x152C],
        [(PhyCfg ! PHY_CRDEN, 0x1, 23), (PhyCfg ! PHY_PREOEX, 0x3, 18), (PhyCfg ! PHY_IOAG, 0x1, 16), (PhyCfg ! PHY_IOLB, 0x1, 15), (0xC, 0xF, 9),
            (PhyCfg ! PHY_RDBI, 0x1, 8), (PhyCfg ! PHY_WDBI, 0x1, 7), (PhyCfg ! PHY_PRFBYP, 0x1, 6), (PhyCfg ! PHY_RDMODE, 0x3, 4), (PhyCfg !
            PHY_DISRST, 0x1, 3), (PhyCfg ! PHY_DQSGLB, 0x3, 1)]),
      ([0x1430, 0x1470],
        [(PhyCfg ! PHY_DXDACRANGE, 0x7, 28), (PhyCfg ! PHY_DXVREFIOM, 0x7, 25), (PhyCfg ! PHY_DXIOM, 0x7, 22), (PhyCfg ! PHY_DXTXM, 0x7FF, 11),
            (PhyCfg ! PHY_DXRXM, 0x7FF, 0)])]"

definition phy_update_7 :: "XFsbl_DimmParams \<Rightarrow> u32 list \<Rightarrow> u32 list" where
  "phy_update_7 P PhyCfg =
     (let PhyCfg = (if BusWidth P \<noteq> 64 then PhyCfg[PHY_GATEDXRDCLK := 0x1] else PhyCfg);
          PhyCfg = (if BusWidth P \<noteq> 64 then PhyCfg[PHY_GATEDXDDRCLK := 0x1] else PhyCfg);
          PhyCfg = (if BusWidth P \<noteq> 64 then PhyCfg[PHY_GATEDXCTLCLK := 0x1] else PhyCfg);
          PhyCfg = (if BusWidth P = 32 then PhyCfg[PHY_PLLPD := 1] else PhyCfg);
          PhyCfg = (if BusWidth P = 32 then PhyCfg[PHY_UDQIOM := 1] else PhyCfg);
          PhyCfg = (if BusWidth P = 32 then PhyCfg[PHY_DXIOM := 0x1] else PhyCfg)
      in PhyCfg)"

definition phy_regs_8 :: "u32 list \<Rightarrow> (u32 list \<times> field list) list" where
  "phy_regs_8 PhyCfg =
     [([0x1480, 0x14C0],
        [(PhyCfg ! PHY_GATEDXRDCLK, 0x3, 28), (PhyCfg ! PHY_GATEDXDDRCLK, 0x3, 26), (PhyCfg ! PHY_GATEDXCTLCLK, 0x3, 24), (PhyCfg ! PHY_CLKLEVEL,
            0x3, 22), (PhyCfg ! PHY_LBMODE, 0x1, 21), (PhyCfg ! PHY_LBGSDQS, 0x1, 20), (PhyCfg ! PHY_LBDGDQS, 0x3, 18), (PhyCfg ! PHY_LBDQSS, 0x1,
            17), (0x1, 0x1, 16), (0x1, 0x1, 15), (PhyCfg ! PHY_DLTST, 0x1, 14), (PhyCfg ! PHY_DLTMODE, 0x1, 13), (0x3, 0x3, 11), (0x3, 0x3, 9), (0x3,
            0x3, 7), (0x3, 0x3, 5), (0xF, 0xF, 1), (PhyCfg ! PHY_OSCEN, 0x1, 0)]),
      ([0x1484, 0x14C4],
        [(PhyCfg ! PHY_PLLBYP, 0x1, 31), (PhyCfg ! PHY_PLLRST, 0x1, 30), (PhyCfg ! PHY_PLLPD, 0x1, 29), (PhyCfg ! PHY_RSTOPM, 0x1, 28), (PhyCfg !
            PHY_FRQSEL, 0xF, 24), (PhyCfg ! PHY_RLOCKM, 0x1, 23), (PhyCfg ! PHY_CPPC, 0x3F, 17), (PhyCfg ! PHY_CPIC, 0xF, 13), (PhyCfg ! PHY_GSHIFT,
            0x1, 12), (PhyCfg ! PHY_ATOEN, 0x1, 8), (PhyCfg ! PHY_ATC, 0xF, 4), (PhyCfg ! PHY_DTC, 0xF, 0)]),
      ([0x149C, 0x14DC],
        [(0x1, 0x1, 24), (0x1, 0x1, 21), (PhyCfg ! PHY_DQSGX, 0x3, 19), (0x1, 0x1, 18), (0x1, 0x1, 17), (0x1, 0x1, 14), (PhyCfg ! PHY_UDQIOM, 0x1,
            13), (PhyCfg ! PHY_DXSR, 0x3, 8), (PhyCfg ! PHY_DQSNRES, 0xF, 4), (PhyCfg ! PHY_DQSRES, 0xF, 0)]),
      ([0x14B0, 0x14F0],
        [(PhyCfg ! PHY_DXDACRANGE, 0x7, 28), (PhyCfg ! PHY_DXVREFIOM, 0x7, 25), (PhyCfg ! PHY_DXIOM, 0x7, 22), (PhyCfg ! PHY_DXTXM, 0x7FF, 11),
            (PhyCfg ! PHY_DXRXM, 0x7FF, 0)])]"

definition phy_update_8 :: "XFsbl_DimmParams \<Rightarrow> u32 list \<Rightarrow> u32 list" where
  "phy_update_8 P PhyCfg =
     (let PhyCfg = (if Ecc P \<noteq> 1 then PhyCfg[PHY_GATEDXRDCLK := 0x1, PHY_GATEDXDDRCLK := 0x1, PHY_GATEDXCTLCLK := 0x1, PHY_PLLPD := 1,
              PHY_UDQIOM := 1, PHY_DXIOM := 1] else PhyCfg)
      in PhyCfg)"

definition phy_regs_9 :: "u32 list \<Rightarrow> (u32 list \<times> field list) list" where
  "phy_regs_9 PhyCfg =
     [([0x1500],
        [(PhyCfg ! PHY_GATEDXRDCLK, 0x3, 28), (PhyCfg ! PHY_GATEDXDDRCLK, 0x3, 26), (PhyCfg ! PHY_GATEDXCTLCLK, 0x3, 24), (PhyCfg ! PHY_CLKLEVEL,
            0x3, 22), (PhyCfg ! PHY_LBMODE, 0x1, 21), (PhyCfg ! PHY_LBGSDQS, 0x1, 20), (PhyCfg ! PHY_LBDGDQS, 0x3, 18), (PhyCfg ! PHY_LBDQSS, 0x1,
            17), (0x1, 0x1, 16), (0x1, 0x1, 15), (PhyCfg ! PHY_DLTST, 0x1, 14), (PhyCfg ! PHY_DLTMODE, 0x1, 13), (0x3, 0x3, 11), (0x3, 0x3, 9), (0x3,
            0x3, 7), (0x3, 0x3, 5), (0xF, 0xF, 1), (PhyCfg ! PHY_OSCEN, 0x1, 0)]),
      ([0x1504],
        [(PhyCfg ! PHY_PLLBYP, 0x1, 31), (PhyCfg ! PHY_PLLRST, 0x1, 30), (PhyCfg ! PHY_PLLPD, 0x1, 29), (PhyCfg ! PHY_RSTOPM, 0x1, 28), (PhyCfg !
            PHY_FRQSEL, 0xF, 24), (PhyCfg ! PHY_RLOCKM, 0x1, 23), (PhyCfg ! PHY_CPPC, 0x3F, 17), (PhyCfg ! PHY_CPIC, 0xF, 13), (PhyCfg ! PHY_GSHIFT,
            0x1, 12), (PhyCfg ! PHY_ATOEN, 0x1, 8), (PhyCfg ! PHY_ATC, 0xF, 4), (PhyCfg ! PHY_DTC, 0xF, 0)]),
      ([0x151C],
        [(0x1, 0x1, 24), (0x1, 0x1, 21), (PhyCfg ! PHY_DQSGX, 0x3, 19), (0x1, 0x1, 18), (0x1, 0x1, 17), (0x1, 0x1, 14), (PhyCfg ! PHY_UDQIOM, 0x1,
            13), (PhyCfg ! PHY_DXSR, 0x3, 8), (PhyCfg ! PHY_DQSNRES, 0xF, 4), (PhyCfg ! PHY_DQSRES, 0xF, 0)]),
      ([0x1530],
        [(PhyCfg ! PHY_DXDACRANGE, 0x7, 28), (PhyCfg ! PHY_DXVREFIOM, 0x7, 25), (PhyCfg ! PHY_DXIOM, 0x7, 22), (PhyCfg ! PHY_DXTXM, 0x7FF, 11),
            (PhyCfg ! PHY_DXRXM, 0x7FF, 0)]),
      ([0x10],
        [(PhyCfg ! PHY_ADCP, 0x1, 31), (PhyCfg ! PHY_RESERVED_30_27, 0xF, 27), (0x1, 0x1, 26), (0x3, 0x3, 24), (PhyCfg ! PHY_RESERVED_23_19, 0x1F,
            19), (PhyCfg ! PHY_DTOSEL, 0x1F, 14), (0xF, 0xF, 9), (PhyCfg ! PHY_OSCEN, 0x1, 8)]),
      ([0x18],
        [(PhyCfg ! PHY_CLRTSTAT, 0x1, 31), (PhyCfg ! PHY_CLRZCAL, 0x1, 30), (PhyCfg ! PHY_CLRPERR, 0x1, 29), (PhyCfg ! PHY_ICPC, 0x1, 28), (0xF,
            0xFF, 20), (PhyCfg ! PHY_INITFSMBYP, 0x1, 19), (PhyCfg ! PHY_PLLFSMBYP, 0x1, 18), (PhyCfg ! PHY_TREFPRD, 0x3FFFF, 0)]),
      ([0x1C],
        [(0x55, 0xFF, 24), (0xAA, 0xFF, 16), (PhyCfg ! PHY_GATEACRDCLK, 0x3, 13), (PhyCfg ! PHY_GATEACDDRCLK, 0x3, 11), (PhyCfg ! PHY_GATEACCTLCLK,
            0x3, 9), (0x2, 0x3, 6), (PhyCfg ! PHY_IOLB0, 0x1, 5), (PhyCfg ! PHY_RDMODE0, 0x3, 3), (PhyCfg ! PHY_DISRST0, 0x1, 2), (PhyCfg !
            PHY_CLKLEVEL0, 0x3, 0)]),
      ([0x24],
        [(0x1, 0xFF, 24), (0x1, 0xFF, 16), (PhyCfg ! PHY_DISCNPERIOD, 0xFF, 8), (0xF, 0xF, 4), (0x1, 0x1, 2), (PhyCfg ! PHY_DDLPGACT, 0x1, 1),
            (PhyCfg ! PHY_DDLPGRW, 0x1, 0)]),
      ([0x40],
        [(PhyCfg ! PHY_TPLLPD, 0x7FF, 21), (PhyCfg ! PHY_TPLLGS, 0x7FFF, 6), (0x10, 0x3F, 0)]),
      ([0x44],
        [(PhyCfg ! PHY_TPLLLOCK, 0xFFFF, 16), (PhyCfg ! PHY_TPLLRST, 0x1FFF, 0)])]"

definition phy_update_9 :: "XFsbl_DimmParams \<Rightarrow> u32 list \<Rightarrow> u32 list" where
  "phy_update_9 P PhyCfg =
     (let PhyCfg = PhyCfg[PHY_PLLPD := 0]
      in PhyCfg)"

definition phy_regs_10 :: "u32 list \<Rightarrow> (u32 list \<times> field list) list" where
  "phy_regs_10 PhyCfg =
     [([0x68],
        [(PhyCfg ! PHY_PLLBYP, 0x1, 31), (PhyCfg ! PHY_PLLRST, 0x1, 30), (PhyCfg ! PHY_PLLPD, 0x1, 29), (PhyCfg ! PHY_RSTOPM, 0x1, 28), (PhyCfg !
            PHY_FRQSEL, 0xF, 24), (PhyCfg ! PHY_RLOCKM, 0x1, 23), (PhyCfg ! PHY_CPPC, 0x3F, 17), (PhyCfg ! PHY_CPIC, 0xF, 13), (PhyCfg ! PHY_GSHIFT,
            0x1, 12), (PhyCfg ! PHY_ATOEN, 0x1, 8), (PhyCfg ! PHY_ATC, 0xF, 4), (PhyCfg ! PHY_DTC, 0xF, 0)]),
      ([0x90],
        [(PhyCfg ! PHY_RDBICLSEL, 0x1, 27), (0x2, 0x7, 24), (0x1, 0x1, 23), (0x1, 0x1, 21), (PhyCfg ! PHY_SDRMODE, 0x3, 19), (PhyCfg ! PHY_ATOAE,
            0x1, 17), (PhyCfg ! PHY_DTOOE, 0x1, 16), (PhyCfg ! PHY_DTOIOM, 0x1, 15), (0x1, 0x1, 14), (PhyCfg ! PHY_DTOODT, 0x1, 12), (PhyCfg !
            PHY_PUAD, 0x3F, 6), (0x1, 0x1, 5), (PhyCfg ! PHY_CTLZUEN, 0x1, 2), (PhyCfg ! PHY_RESERVED_1, 0x1, 1), (0x1, 0x1, 0)]),
      ([0xC4],
        [(PhyCfg ! PHY_GPR1, 0xFFFFFFFF, 0)]),
      ([0x100],
        [(PhyCfg ! PHY_GEARDN, 0x1, 31), (PhyCfg ! PHY_UBG, 0x1, 30), (PhyCfg ! PHY_UDIMM, 0x1, 29), (PhyCfg ! PHY_DDR2T, 0x1, 28), (PhyCfg !
            PHY_NOSRA, 0x1, 27), (0x1, 0xFF, 10), (PhyCfg ! PHY_DDRTYPE, 0x3, 8), (PhyCfg ! PHY_MPRDQ, 0x1, 7), (PhyCfg ! PHY_PDQ, 0x7, 4), (0x1,
            0x1, 3), (PhyCfg ! PHY_DDRMD, 0x7, 0)]),
      ([0x110],
        [(PhyCfg ! PHY_TRRD, 0x1F, 24), (PhyCfg ! PHY_TRAS, 0x7F, 16), (PhyCfg ! PHY_TRP, 0x7F, 8), (PhyCfg ! PHY_TRTP, 0x1F, 0)]),
      ([0x114],
        [(0x28, 0x7F, 24), (PhyCfg ! PHY_TFAW, 0x7F, 16), (PhyCfg ! PHY_TMOD, 0x7, 8), (PhyCfg ! PHY_TMRD, 0x1F, 0)]),
      ([0x118],
        [(PhyCfg ! PHY_TRTW, 0x1, 28), (PhyCfg ! PHY_TRTODT, 0x1, 24), (0xF, 0xF, 16), (PhyCfg ! PHY_TXS, 0x3FF, 0)]),
      ([0x11C],
        [(0x4, 0x7, 29), (PhyCfg ! PHY_TDLLK, 0x3FF, 16), (PhyCfg ! PHY_TDQSCKMAX, 0xF, 8), (PhyCfg ! PHY_TDQSCK, 0x7, 0)]),
      ([0x120],
        [(PhyCfg ! PHY_TAOND_TAOFD, 0x3, 28), (PhyCfg ! PHY_TRFC, 0x3FF, 16), (0x2B, 0x3F, 8), (PhyCfg ! PHY_TXP, 0x1F, 0)]),
      ([0x124],
        [(PhyCfg ! PHY_TRC, 0xFF, 16), (PhyCfg ! PHY_TRCD, 0x7F, 8), (PhyCfg ! PHY_TWTR, 0x1F, 0)]),
      ([0x128],
        [(PhyCfg ! PHY_PUBWL, 0x3F, 8), (PhyCfg ! PHY_PUBRL, 0x3F, 0)]),
      ([0x140],
        [(PhyCfg ! PHY_QCSEN, 0x1, 30), (0x1, 0x1, 27), (PhyCfg ! PHY_ERROUTOE, 0x1, 23), (0x1, 0x1, 22), (PhyCfg ! PHY_ERROUTPDR, 0x1, 21), (PhyCfg
            ! PHY_ERROUTODT, 0x1, 19), (PhyCfg ! PHY_LRDIMM, 0x1, 18), (PhyCfg ! PHY_PARINIOM, 0x1, 17), (0x2, 0x3, 4), (PhyCfg ! PHY_SOPERR, 0x1,
            2), (PhyCfg ! PHY_ERRNOREG, 0x1, 1), (PhyCfg ! PHY_RDIMM, 0x1, 0)]),
      ([0x144],
        [(PhyCfg ! PHY_A17BID, 0x1, 28), (PhyCfg ! PHY_TBCMRD_L2, 0x7, 24), (PhyCfg ! PHY_TBCMRD_L, 0x7, 20), (PhyCfg ! PHY_TBCMRD, 0x7, 16), (0xC80,
            0x3FFF, 0)]),
      ([0x150],
        [(PhyCfg ! PHY_RC7, 0xF, 28), (PhyCfg ! PHY_RC6, 0xF, 24), (PhyCfg ! PHY_RC5, 0xF, 20), (PhyCfg ! PHY_RC4, 0xF, 16), (PhyCfg ! PHY_RC3, 0xF,
            12), (PhyCfg ! PHY_RC2, 0xF, 8), (PhyCfg ! PHY_RC1, 0xF, 4), (PhyCfg ! PHY_RC0, 0xF, 0)])]"

definition phy_regs_11 :: "u32 list \<Rightarrow> (u32 list \<times> field list) list" where
  "phy_regs_11 PhyCfg =
     [([0x154],
        [(PhyCfg ! PHY_RC15, 0xF, 28), (PhyCfg ! PHY_RC14, 0xF, 24), (PhyCfg ! PHY_RC13, 0xF, 20), (PhyCfg ! PHY_RC12, 0xF, 16), (PhyCfg ! PHY_RC11,
            0xF, 12), (PhyCfg ! PHY_RC10, 0xF, 8), (PhyCfg ! PHY_RC9, 0xF, 4), (PhyCfg ! PHY_RC8, 0xF, 0)]),
      ([0x180],
        [(PhyCfg ! PHY_R060, 0xFFFFFFFF, 0)]),
      ([0x184],
        [(PhyCfg ! PHY_R061, 0xFFFFFFFF, 0)]),
      ([0x188],
        [(PhyCfg ! PHY_R062, 0xFFFFFFFF, 0)]),
      ([0x18C],
        [(PhyCfg ! PHY_R063, 0xFFFFFFFF, 0)]),
      ([0x190],
        [(PhyCfg ! PHY_R064, 0xFFFFFFFF, 0)]),
      ([0x194],
        [(PhyCfg ! PHY_R065, 0xFFFFFFFF, 0)]),
      ([0x198],
        [(PhyCfg ! PHY_R066, 0xFFFFFFFF, 0)]),
      ([0x1AC],
        [(PhyCfg ! PHY_RSVD_7, 0x1, 7), (PhyCfg ! PHY_CAODT, 0x7, 4), (PhyCfg ! PHY_RSVD_3, 0x1, 3), (PhyCfg ! PHY_DQODT, 0x7, 0)]),
      ([0x1B0],
        [(PhyCfg ! PHY_VREFCA_RANGE, 0x1, 6), (PhyCfg ! PHY_VREFCA, 0x3F, 0)]),
      ([0x1B4],
        [(PhyCfg ! PHY_FSPOP, 0x1, 7), (PhyCfg ! PHY_FSPWR, 0x1, 6), (PhyCfg ! PHY_DMD, 0x1, 5), (PhyCfg ! PHY_RRO, 0x1, 4), (0x1, 0x1, 3), (PhyCfg !
            PHY_VRO, 0x1, 2), (PhyCfg ! PHY_RPT, 0x1, 1), (PhyCfg ! PHY_CBT, 0x1, 0)]),
      ([0x1B8],
        [(PhyCfg ! PHY_VREFDQ_RANGE, 0x1, 6), (PhyCfg ! PHY_VREFDQ, 0x3F, 0)]),
      ([0x1D8],
        [(PhyCfg ! PHY_ODTD_CA, 0x1, 5), (PhyCfg ! PHY_ODTE_CS, 0x1, 4), (PhyCfg ! PHY_ODTE_CK, 0x1, 3), (PhyCfg ! PHY_CODT, 0x7, 0)]),
      ([0x200],
        [(0x8, 0xF, 28), (PhyCfg ! PHY_DTDRS, 0x3, 24), (PhyCfg ! PHY_DTEXG, 0x1, 23), (PhyCfg ! PHY_DTEXD, 0x1, 22), (PhyCfg ! PHY_DTDSTP, 0x1, 21),
            (PhyCfg ! PHY_DTDEN, 0x1, 20), (PhyCfg ! PHY_DTDBS, 0xF, 16), (PhyCfg ! PHY_DTRDBITR, 0x3, 14), (PhyCfg ! PHY_DTWBDDM, 0x1, 12), (0x1,
            0xF, 8), (0x1, 0x1, 7), (0x1, 0x1, 6), (0x7, 0xF, 0)]),
      ([0x204],
        [(PhyCfg ! PHY_RANKEN, 0x3, 16), (PhyCfg ! PHY_DTRANK, 0x3, 12), (0x2, 0x7, 8), (0x3, 0x7, 4), (0x1, 0x1, 2), (0x1, 0x1, 1)])]"

definition phy_regs_12 :: "u32 list \<Rightarrow> (u32 list \<times> field list) list" where
  "phy_regs_12 PhyCfg =
     [([0x240],
        [(0x14, 0x1F, 16), (0x10, 0x1F, 8), (PhyCfg ! PHY_CA1BYTE1, 0xF, 4), (PhyCfg ! PHY_CA1BYTE0, 0xF, 0)]),
      ([0x250],
        [(PhyCfg ! PHY_DFTDLY, 0xF, 28), (PhyCfg ! PHY_DFTZQUP, 0x1, 27), (PhyCfg ! PHY_DFTDDLUP, 0x1, 26), (PhyCfg ! PHY_DFTRDSPC, 0x3, 20), (0x8,
            0xF, 16), (0x8, 0xF, 12), (PhyCfg ! PHY_RESERVED_11_8, 0xF, 8), (PhyCfg ! PHY_DFTGPULSE, 0xF, 4), (PhyCfg ! PHY_DFTUPMODE, 0x3, 2),
            (PhyCfg ! PHY_DFTDTMODE, 0x1, 1), (PhyCfg ! PHY_DFTDTEN, 0x1, 0)]),
      ([0x414],
        [(PhyCfg ! PHY_SEED, 0xFFFFFFFF, 0)]),
      ([0x4F4],
        [(PhyCfg ! PHY_RESERVED_31_16, 0xFFFF, 16), (PhyCfg ! PHY_ODTOEMODE, 0xF, 0)]),
      ([0x500],
        [(0x1, 0x1, 29), (0x1, 0x1, 28), (PhyCfg ! PHY_RSTODT, 0x1, 26), (PhyCfg ! PHY_CKDCC, 0xF, 6), (0x2, 0x3, 4), (0x2, 0x3, 2), (PhyCfg !
            PHY_ACRANKCLKSEL, 0x1, 0)]),
      ([0x508],
        [(PhyCfg ! PHY_CLKGENCLKGATE, 0x1, 31), (PhyCfg ! PHY_ACOECLKGATE0, 0x1, 30), (PhyCfg ! PHY_ACPDRCLKGATE0, 0x1, 29), (PhyCfg !
            PHY_ACTECLKGATE0, 0x1, 28), (PhyCfg ! PHY_CKNCLKGATE0, 0x3, 26), (PhyCfg ! PHY_CKCLKGATE0, 0x3, 24), (PhyCfg ! PHY_ACCLKGATE0, 0xFFFFFF,
            0)]),
      ([0x50C],
        [(PhyCfg ! PHY_PAROEMODE, 0x3, 30), (PhyCfg ! PHY_BGOEMODE, 0xF, 26), (PhyCfg ! PHY_BAOEMODE, 0xF, 22), (PhyCfg ! PHY_A17OEMODE, 0x3, 20),
            (PhyCfg ! PHY_A16OEMODE, 0x3, 18), (PhyCfg ! PHY_ACTOEMODE, 0x3, 16), (PhyCfg ! PHY_CKOEMODE, 0xF, 0)]),
      ([0x510],
        [(PhyCfg ! PHY_LBCLKGATE, 0x1, 31), (PhyCfg ! PHY_ACOECLKGATE1, 0x1, 30), (PhyCfg ! PHY_ACPDRCLKGATE1, 0x1, 29), (PhyCfg ! PHY_ACTECLKGATE1,
            0x1, 28), (PhyCfg ! PHY_CKNCLKGATE1, 0x3, 26), (PhyCfg ! PHY_CKCLKGATE1, 0x3, 24), (PhyCfg ! PHY_ACCLKGATE1, 0xFFFFFF, 0)]),
      ([0x520],
        [(PhyCfg ! PHY_ACREFIOM, 0x7, 29), (PhyCfg ! PHY_ACREFPEN, 0x1, 28), (0x1, 0x1, 25), (0x1, 0x1, 24), (PhyCfg ! PHY_ACREFESELRANGE, 0x1, 23),
            (PhyCfg ! PHY_ACREFESEL, 0x7F, 16), (0x1, 0x1, 15), (PhyCfg ! PHY_ACREFSSEL, 0x7F, 8), (0x1, 0x1, 7), (PhyCfg ! PHY_ACVREFISEL, 0x7F,
            0)]),
      ([0x528],
        [(0x7, 0x7, 29), (0x1, 0x1, 28), (PhyCfg ! PHY_PDAEN, 0x1, 27), (0x4, 0xF, 22), (PhyCfg ! PHY_DVSS, 0xF, 18), (0x32, 0x3F, 12), (PhyCfg !
            PHY_DVMIN, 0x3F, 6), (PhyCfg ! PHY_DVINIT, 0x3F, 0)]),
      ([0x52C],
        [(PhyCfg ! PHY_HVSS, 0xF, 28), (0x7F, 0x7F, 20), (PhyCfg ! PHY_HVMIN, 0x7F, 12), (PhyCfg ! PHY_SHRNK, 0x3, 9), (0x1, 0x1, 8), (0x7, 0x7, 5),
            (0x1, 0x1, 1), (0x1, 0x1, 0)]),
      ([0x544],
        [(PhyCfg ! PHY_PARBD, 0x3F, 24), (PhyCfg ! PHY_A16BD, 0x3F, 16), (PhyCfg ! PHY_A17BD, 0x3F, 8), (PhyCfg ! PHY_ACTBD, 0x3F, 0)]),
      ([0x548],
        [(PhyCfg ! PHY_BG1BD, 0x3F, 24), (PhyCfg ! PHY_BG0BD, 0x3F, 16), (PhyCfg ! PHY_BA1BD, 0x3F, 8), (PhyCfg ! PHY_BA0BD, 0x3F, 0)]),
      ([0x558],
        [(PhyCfg ! PHY_A03BD, 0x3F, 24), (PhyCfg ! PHY_A02BD, 0x3F, 16), (PhyCfg ! PHY_A01BD, 0x3F, 8), (PhyCfg ! PHY_A00BD, 0x3F, 0)]),
      ([0x55C],
        [(PhyCfg ! PHY_A07BD, 0x3F, 24), (PhyCfg ! PHY_A06BD, 0x3F, 16), (PhyCfg ! PHY_A05BD, 0x3F, 8), (PhyCfg ! PHY_A04BD, 0x3F, 0)])]"

definition phy_regs_13 :: "u32 list \<Rightarrow> (u32 list \<times> field list) list" where
  "phy_regs_13 PhyCfg =
     [([0x560],
        [(PhyCfg ! PHY_A11BD, 0x3F, 24), (PhyCfg ! PHY_A10BD, 0x3F, 16), (PhyCfg ! PHY_A09BD, 0x3F, 8), (PhyCfg ! PHY_A08BD, 0x3F, 0)]),
      ([0x564],
        [(PhyCfg ! PHY_A15BD, 0x3F, 24), (PhyCfg ! PHY_A14BD, 0x3F, 16), (PhyCfg ! PHY_A13BD, 0x3F, 8), (PhyCfg ! PHY_A12BD, 0x3F, 0)]),
      ([0x680],
        [(PhyCfg ! PHY_ZQREFISELRANGE, 0x1, 25), (0x11, 0x3F, 19), (PhyCfg ! PHY_PGWAIT_FRQA, 0x3F, 13), (PhyCfg ! PHY_ZQREFPEN, 0x1, 12), (0x1, 0x1,
            11), (PhyCfg ! PHY_ODT_MODE, 0x3, 9), (PhyCfg ! PHY_FORCE_ZCAL_VT_UPDATE, 0x1, 8), (0x2, 0x7, 5), (0x1, 0x1, 4), (0x2, 0x3, 2), (PhyCfg !
            PHY_ZCALT, 0x1, 1)]),
      ([0x684],
        [(PhyCfg ! PHY_ZSEGBYP, 0x1, 27), (PhyCfg ! PHY_ZLE_MODE, 0x3, 25), (PhyCfg ! PHY_ODT_ADJUST, 0x7, 22), (PhyCfg ! PHY_PD_DRV_ADJUST, 0x7,
            19), (PhyCfg ! PHY_PU_DRV_ADJUST, 0x7, 16), (PhyCfg ! PHY_ZPROG_DRAM_ODT, 0xF, 12), (PhyCfg ! PHY_ZPROG_HOST_ODT, 0xF, 8), (PhyCfg !
            PHY_ZPROG_ASYM_DRV_PD, 0xF, 4), (PhyCfg ! PHY_ZPROG_ASYM_DRV_PU, 0xF, 0)]),
      ([0x694],
        [(0x01E10210, 0xFFFFFFFF, 0)]),
      ([0x698],
        [(0x01E10000, 0xFFFFFFFF, 0)])]"

definition phy_update_10 :: "XFsbl_DimmParams \<Rightarrow> u32 list \<Rightarrow> u32 list" where
  "phy_update_10 P PhyCfg =
     (let PhyCfg = (if MemType P = SPD_MEMTYPE_DDR4 then PhyCfg[PHY_PD_DRV_ADJUST := 0x1] else PhyCfg[PHY_PD_DRV_ADJUST := 0]);
          PhyCfg = (if MemType P = SPD_MEMTYPE_LPDDR4 then PhyCfg[PHY_PU_DRV_ADJUST := 0x1] else PhyCfg[PHY_PU_DRV_ADJUST := 0]);
          PhyCfg = (if MemType P = SPD_MEMTYPE_LPDDR3 then PhyCfg[PHY_ZPROG_DRAM_ODT := 0x7] else if MemType P = SPD_MEMTYPE_LPDDR4 then
              PhyCfg[PHY_ZPROG_DRAM_ODT := 0xB] else PhyCfg);
          PhyCfg = (if HostOdt P = 40 then PhyCfg[PHY_ZPROG_HOST_ODT := 0xB] else if HostOdt P = 48 then PhyCfg[PHY_ZPROG_HOST_ODT := 0x9] else if
              HostOdt P = 60 then PhyCfg[PHY_ZPROG_HOST_ODT := 0x7] else if HostOdt P = 80 then PhyCfg[PHY_ZPROG_HOST_ODT := 0x5] else if HostOdt P =
              120 then PhyCfg[PHY_ZPROG_HOST_ODT := 0x3] else if MemType P = SPD_MEMTYPE_DDR4 then (if NumRankAddr P = 1 then
              PhyCfg[PHY_ZPROG_HOST_ODT := 0x9] else PhyCfg[PHY_ZPROG_HOST_ODT := 0xB]) else if MemType P = SPD_MEMTYPE_DDR3 then
              PhyCfg[PHY_ZPROG_HOST_ODT := 0x6] else if MemType P = SPD_MEMTYPE_LPDDR4 then PhyCfg[PHY_ZPROG_HOST_ODT := 0xB] else
              PhyCfg[PHY_ZPROG_HOST_ODT := 0x3]);
          PhyCfg = (if HostDrv P = 34 then PhyCfg[PHY_ZPROG_ASYM_DRV_PD := 0xD] else if HostDrv P = 40 then PhyCfg[PHY_ZPROG_ASYM_DRV_PD := 0xB] else
              if HostDrv P = 48 then PhyCfg[PHY_ZPROG_ASYM_DRV_PD := 0x9] else if HostDrv P = 60 then PhyCfg[PHY_ZPROG_ASYM_DRV_PD := 0x7] else if
              HostDrv P = 80 then PhyCfg[PHY_ZPROG_ASYM_DRV_PD := 0x5] else if HostDrv P = 120 then PhyCfg[PHY_ZPROG_ASYM_DRV_PD := 0x3] else if
              MemType P = SPD_MEMTYPE_DDR4 then PhyCfg[PHY_ZPROG_ASYM_DRV_PD := 0xD] else if MemType P = SPD_MEMTYPE_DDR3 \<or> MemType P =
              SPD_MEMTYPE_LPDDR3 then PhyCfg[PHY_ZPROG_ASYM_DRV_PD := 0xB] else if MemType P = SPD_MEMTYPE_LPDDR4 then PhyCfg[PHY_ZPROG_ASYM_DRV_PD
              := 0x9] else PhyCfg);
          PhyCfg = PhyCfg[PHY_ZPROG_ASYM_DRV_PU := PhyCfg ! PHY_ZPROG_ASYM_DRV_PD]
      in PhyCfg)"

definition phy_regs_14 :: "u32 list \<Rightarrow> (u32 list \<times> field list) list" where
  "phy_regs_14 PhyCfg =
     [([0x6A4],
        [(PhyCfg ! PHY_ZSEGBYP, 0x1, 27), (PhyCfg ! PHY_ZLE_MODE, 0x3, 25), (PhyCfg ! PHY_ODT_ADJUST, 0x7, 22), (PhyCfg ! PHY_PD_DRV_ADJUST, 0x7,
            19), (PhyCfg ! PHY_PU_DRV_ADJUST, 0x7, 16), (PhyCfg ! PHY_ZPROG_DRAM_ODT, 0xF, 12), (PhyCfg ! PHY_ZPROG_HOST_ODT, 0xF, 8), (PhyCfg !
            PHY_ZPROG_ASYM_DRV_PD, 0xF, 4), (PhyCfg ! PHY_ZPROG_ASYM_DRV_PU, 0xF, 0)]),
      ([0x714],
        [(0x9, 0x7F, 24), (0x9, 0x7F, 16), (PhyCfg ! PHY_DXREFISELR1, 0x7F, 8), (PhyCfg ! PHY_DXREFISELR0, 0x7F, 0)]),
      ([0x718],
        [(0x9, 0x3F, 24), (0x9, 0x3F, 16), (0x2B, 0x3F, 8), (0x2B, 0x3F, 0)]),
      ([0x814],
        [(0x9, 0x7F, 24), (0x9, 0x7F, 16), (PhyCfg ! PHY_DXREFISELR1, 0x7F, 8), (PhyCfg ! PHY_DXREFISELR0, 0x7F, 0)]),
      ([0x818],
        [(0x9, 0x3F, 24), (0x9, 0x3F, 16), (0x2B, 0x3F, 8), (0x2B, 0x3F, 0)]),
      ([0x914],
        [(0x9, 0x7F, 24), (0x9, 0x7F, 16), (PhyCfg ! PHY_DXREFISELR1, 0x7F, 8), (PhyCfg ! PHY_DXREFISELR0, 0x7F, 0)]),
      ([0x918],
        [(0x9, 0x3F, 24), (0x9, 0x3F, 16), (0x2B, 0x3F, 8), (0x2B, 0x3F, 0)]),
      ([0xA14],
        [(0x9, 0x7F, 24), (0x9, 0x7F, 16), (PhyCfg ! PHY_DXREFISELR1, 0x7F, 8), (PhyCfg ! PHY_DXREFISELR0, 0x7F, 0)]),
      ([0xA18],
        [(0x9, 0x3F, 24), (0x9, 0x3F, 16), (0x2B, 0x3F, 8), (0x2B, 0x3F, 0)]),
      ([0xB14],
        [(0x9, 0x7F, 24), (0x9, 0x7F, 16), (PhyCfg ! PHY_DXREFISELR1, 0x7F, 8), (PhyCfg ! PHY_DXREFISELR0, 0x7F, 0)]),
      ([0xB18],
        [(0x9, 0x3F, 24), (0x9, 0x3F, 16), (0x2B, 0x3F, 8), (0x2B, 0x3F, 0)]),
      ([0xC14],
        [(0x9, 0x7F, 24), (0x9, 0x7F, 16), (PhyCfg ! PHY_DXREFISELR1, 0x7F, 8), (PhyCfg ! PHY_DXREFISELR0, 0x7F, 0)]),
      ([0xC18],
        [(0x9, 0x3F, 24), (0x9, 0x3F, 16), (0x2B, 0x3F, 8), (0x2B, 0x3F, 0)]),
      ([0xD14],
        [(0x9, 0x7F, 24), (0x9, 0x7F, 16), (PhyCfg ! PHY_DXREFISELR1, 0x7F, 8), (PhyCfg ! PHY_DXREFISELR0, 0x7F, 0)]),
      ([0xD18],
        [(0x9, 0x3F, 24), (0x9, 0x3F, 16), (0x2B, 0x3F, 8), (0x2B, 0x3F, 0)]),
      ([0xE14],
        [(0x9, 0x7F, 24), (0x9, 0x7F, 16), (PhyCfg ! PHY_DXREFISELR1, 0x7F, 8), (PhyCfg ! PHY_DXREFISELR0, 0x7F, 0)]),
      ([0xE18],
        [(0x9, 0x3F, 24), (0x9, 0x3F, 16), (0x2B, 0x3F, 8), (0x2B, 0x3F, 0)]),
      ([0xF14],
        [(0x9, 0x7F, 24), (0x9, 0x7F, 16), (PhyCfg ! PHY_DXREFISELR1, 0x7F, 8), (PhyCfg ! PHY_DXREFISELR0, 0x7F, 0)]),
      ([0xF18],
        [(0x9, 0x3F, 24), (0x9, 0x3F, 16), (0x2B, 0x3F, 8), (0x2B, 0x3F, 0)])]"

text \<open>The whole table: the changes of the array stand where the code makes them.\<close>

definition phy_table :: "XFsbl_DimmParams \<Rightarrow> u32 list \<Rightarrow> (u32 list \<times> field list) list" where
  "phy_table P PhyCfg =
     phy_regs_1 PhyCfg @
     (let PhyCfg = phy_update_1 P PhyCfg in phy_regs_2 PhyCfg @
     (let PhyCfg = phy_update_2 P PhyCfg in phy_regs_3 PhyCfg @
     (let PhyCfg = phy_update_3 P PhyCfg in phy_regs_4 PhyCfg @
     (let PhyCfg = phy_update_4 P PhyCfg in phy_regs_5 PhyCfg @
     (let PhyCfg = phy_update_5 P PhyCfg in phy_regs_6 PhyCfg @
     (let PhyCfg = phy_update_6 P PhyCfg in phy_regs_7 PhyCfg @
     (let PhyCfg = phy_update_7 P PhyCfg in phy_regs_8 PhyCfg @
     (let PhyCfg = phy_update_8 P PhyCfg in phy_regs_9 PhyCfg @
     (let PhyCfg = phy_update_9 P PhyCfg in phy_regs_10 PhyCfg @
     phy_regs_11 PhyCfg @
     phy_regs_12 PhyCfg @
     phy_regs_13 PhyCfg @
     (let PhyCfg = phy_update_10 P PhyCfg in phy_regs_14 PhyCfg))))))))))"

definition XFsbl_PhyRegsWrite :: "XFsbl_DimmParams \<Rightarrow> u32 list \<Rightarrow> unit prog" where
  "XFsbl_PhyRegsWrite P PhyCfg = seqsM (map (\<lambda>(offset, v). XFsbl_Out32 (XFSBL_DDRPHY_BASE_ADDR + offset) v)
     (concat (map (\<lambda>(offsets, fs). map (\<lambda>offset. (offset, fields_sum fs)) offsets) (phy_table P PhyCfg))))"

definition phy_memory_values :: "XFsbl_DimmParams \<Rightarrow> u32 list \<Rightarrow> (XFsbl_DimmParams \<times> u32 list) option" where
  "phy_memory_values P PhyCfg =
     (if MemType P = SPD_MEMTYPE_DDR3 then map_option (Pair P) (XFsbl_PhyCalcDdr3RegVal P PhyCfg)
      else if MemType P = SPD_MEMTYPE_DDR4 then XFsbl_PhyCalcDdr4RegVal P PhyCfg
      else if MemType P = SPD_MEMTYPE_LPDDR3 then map_option (Pair P) (XFsbl_PhyCalcLpddr3RegVal P PhyCfg)
      else if MemType P = SPD_MEMTYPE_LPDDR4 then map_option (Pair P) (XFsbl_PhyCalcLpddr4RegVal P PhyCfg)
      else Some (P, PhyCfg))"

definition XFsbl_PhyRegsInit :: "DdrcInitData \<Rightarrow> DdrcInitData prog" where
  "XFsbl_PhyRegsInit D =
     bindM (definedM (do { PhyCfg \<leftarrow> XFsbl_PhyCalcCommonRegVal (PDimm D) XFSBL_PHY_REG_DEFVAL; phy_memory_values (PDimm D) PhyCfg })) (\<lambda>(P, PhyCfg).
     seqM (XFsbl_PhyRegsWrite P PhyCfg) (retM (D\<lparr>PDimm := P\<rparr>)))"

lemmas phy_regs_defs = phy_regs_1_def phy_regs_2_def phy_regs_3_def phy_regs_4_def phy_regs_5_def phy_regs_6_def phy_regs_7_def phy_regs_8_def phy_regs_9_def phy_regs_10_def phy_regs_11_def phy_regs_12_def phy_regs_13_def phy_regs_14_def

end
