(* ===== verification/Ddr_Training.thy ===== *)
theory Ddr_Training
  imports Ddr_Phy
begin

text \<open>
  The training sequence of the memory (\<open>XFsbl_DdrcPhyTraining\<close> and its helpers in \<open>xfsbl_ddr_init.c\<close>): register
  operations in their order, with the loops that wait for the PHY.  A wait reads its register until the value
  is the one it waits for; it never returns when that value never comes.
\<close>

section \<open>Register operations\<close>

definition XFSBL_PROG_REG :: "world \<Rightarrow> u32 \<Rightarrow> u32 \<Rightarrow> u32 \<Rightarrow> u32 \<Rightarrow> unit prog" where
  "XFSBL_PROG_REG W Addr Mask Shift Val = rmwM W Addr (\<lambda>v. (v AND NOT Mask) OR push_bit (unat Shift) Val)"

definition XFSBL_POLL :: "world \<Rightarrow> u32 \<Rightarrow> u32 \<Rightarrow> u32 \<Rightarrow> unit prog" where
  "XFSBL_POLL W a b c = pollM W a (\<lambda>v. v AND b = c)"

definition XFsbl_CfgDfiInitComplete :: "world \<Rightarrow> u32 \<Rightarrow> unit prog" where
  "XFsbl_CfgDfiInitComplete W Val = rmwM W (XFSBL_DDRC_BASE_ADDR + 0x1B0) (\<lambda>RegVal. (RegVal AND NOT 1) OR Val)"

definition XFsbl_CfgSwInitInt :: "world \<Rightarrow> u32 \<Rightarrow> unit prog" where
  "XFsbl_CfgSwInitInt W Val = rmwM W (XFSBL_DDRC_BASE_ADDR + 0x10) (\<lambda>RegVal. (RegVal AND NOT 8) OR push_bit 3 Val)"

text \<open>The value that goes to the mode-register control register.\<close>

definition mrs_value :: "u32 \<Rightarrow> u32 \<Rightarrow> u32 \<Rightarrow> u32" where
  "mrs_value Rank Mr07 RegVal =
     (let RegVal = RegVal OR push_bit 31 1;
          RegVal = (RegVal AND NOT (push_bit 31 1)) OR push_bit 31 1;
          RegVal = (if Mr07 \<noteq> 0 then (RegVal AND NOT (push_bit 12 0xF)) OR push_bit 12 Mr07 else RegVal);
          RegVal = (RegVal AND NOT (push_bit 4 3)) OR push_bit 4 Rank
      in RegVal AND NOT 1)"

definition XFsbl_MrsFunc :: "world \<Rightarrow> u32 \<Rightarrow> u32 \<Rightarrow> u32 \<Rightarrow> unit prog" where
  "XFsbl_MrsFunc W Addr Rank Mr07 = seqsM
     [XFsbl_Out32 (XFSBL_DDRC_BASE_ADDR + 0x14) (Addr AND 0x3FFFF),
      rmwM W (XFSBL_DDRC_BASE_ADDR + 0x10) (mrs_value Rank Mr07),
      pollM W DDRC_MRSTAT_OFFSET (\<lambda>v. v AND 1 = 0),
      seqsM (replicate 10 (seqM (XFsbl_In32 W DDRC_MRSTAT_OFFSET) (retM ())))]"

definition XFsbl_DdrPllBypass :: "world \<Rightarrow> u32 \<Rightarrow> u32 prog" where
  "XFsbl_DdrPllBypass W En = seqM (seqsM
     [XFSBL_PROG_REG W DDR_QOS_CTRL_DDRPHY_CTRL_OFFSET DDR_QOS_CTRL_DDRPHY_CTRL_BYP_MODE_MASK DDR_QOS_CTRL_DDRPHY_CTRL_BYP_MODE_SHIFT En,
      XFSBL_PROG_REG W DDR_PHY_PLLCR0_OFFSET DDR_PHY_PLLCR0_PLLBYP_MASK DDR_PHY_PLLCR0_PLLBYP_SHIFT En,
      XFSBL_PROG_REG W DDR_PHY_DX8SL0PLLCR0_OFFSET DDR_PHY_DX8SL0PLLCR0_PLLBYP_MASK DDR_PHY_DX8SL0PLLCR0_PLLBYP_SHIFT En,
      XFSBL_PROG_REG W DDR_PHY_DX8SL1PLLCR0_OFFSET DDR_PHY_DX8SL1PLLCR0_PLLBYP_MASK DDR_PHY_DX8SL1PLLCR0_PLLBYP_SHIFT En,
      XFSBL_PROG_REG W DDR_PHY_DX8SL2PLLCR0_OFFSET DDR_PHY_DX8SL2PLLCR0_PLLBYP_MASK DDR_PHY_DX8SL2PLLCR0_PLLBYP_SHIFT En,
      XFSBL_PROG_REG W DDR_PHY_DX8SL3PLLCR0_OFFSET DDR_PHY_DX8SL3PLLCR0_PLLBYP_MASK DDR_PHY_DX8SL3PLLCR0_PLLBYP_SHIFT En,
      XFSBL_PROG_REG W DDR_PHY_DX8SL4PLLCR0_OFFSET DDR_PHY_DX8SL4PLLCR0_PLLBYP_MASK DDR_PHY_DX8SL4PLLCR0_PLLBYP_SHIFT En,
      XFSBL_PROG_REG W DDR_PHY_PLLCR0_OFFSET DDR_PHY_PLLCR0_PLLRST_MASK DDR_PHY_PLLCR0_PLLRST_SHIFT 1,
      XFSBL_PROG_REG W DDR_PHY_DX8SL0PLLCR0_OFFSET DDR_PHY_DX8SL0PLLCR0_PLLRST_MASK DDR_PHY_DX8SL0PLLCR0_PLLRST_SHIFT 1,
      XFSBL_PROG_REG W DDR_PHY_DX8SL1PLLCR0_OFFSET DDR_PHY_DX8SL1PLLCR0_PLLRST_MASK DDR_PHY_DX8SL1PLLCR0_PLLRST_SHIFT 1,
      XFSBL_PROG_REG W DDR_PHY_DX8SL2PLLCR0_OFFSET DDR_PHY_DX8SL2PLLCR0_PLLRST_MASK DDR_PHY_DX8SL2PLLCR0_PLLRST_SHIFT 1,
      XFSBL_PROG_REG W DDR_PHY_DX8SL3PLLCR0_OFFSET DDR_PHY_DX8SL3PLLCR0_PLLRST_MASK DDR_PHY_DX8SL3PLLCR0_PLLRST_SHIFT 1,
      XFSBL_PROG_REG W DDR_PHY_DX8SL4PLLCR0_OFFSET DDR_PHY_DX8SL4PLLCR0_PLLRST_MASK DDR_PHY_DX8SL4PLLCR0_PLLRST_SHIFT 1,
      XFSBL_PROG_REG W DDR_QOS_CTRL_DDR_CLK_CTRL_OFFSET DDR_QOS_CTRL_DDR_CLK_CTRL_CLKACT_MASK DDR_QOS_CTRL_DDR_CLK_CTRL_CLKACT_SHIFT 0,
      XFSBL_PROG_REG W DDR_PHY_PLLCR0_OFFSET DDR_PHY_PLLCR0_PLLRST_MASK DDR_PHY_PLLCR0_PLLRST_SHIFT 0,
      XFSBL_PROG_REG W DDR_PHY_DX8SL0PLLCR0_OFFSET DDR_PHY_DX8SL0PLLCR0_PLLRST_MASK DDR_PHY_DX8SL0PLLCR0_PLLRST_SHIFT 0,
      XFSBL_PROG_REG W DDR_PHY_DX8SL1PLLCR0_OFFSET DDR_PHY_DX8SL1PLLCR0_PLLRST_MASK DDR_PHY_DX8SL1PLLCR0_PLLRST_SHIFT 0,
      XFSBL_PROG_REG W DDR_PHY_DX8SL2PLLCR0_OFFSET DDR_PHY_DX8SL2PLLCR0_PLLRST_MASK DDR_PHY_DX8SL2PLLCR0_PLLRST_SHIFT 0,
      XFSBL_PROG_REG W DDR_PHY_DX8SL3PLLCR0_OFFSET DDR_PHY_DX8SL3PLLCR0_PLLRST_MASK DDR_PHY_DX8SL3PLLCR0_PLLRST_SHIFT 0,
      XFSBL_PROG_REG W DDR_PHY_DX8SL4PLLCR0_OFFSET DDR_PHY_DX8SL4PLLCR0_PLLRST_MASK DDR_PHY_DX8SL4PLLCR0_PLLRST_SHIFT 0,
      XFSBL_PROG_REG W DDR_QOS_CTRL_DDR_CLK_CTRL_OFFSET DDR_QOS_CTRL_DDR_CLK_CTRL_CLKACT_MASK DDR_QOS_CTRL_DDR_CLK_CTRL_CLKACT_SHIFT 1,
      XFSBL_PROG_REG W DDR_PHY_PGCR1_OFFSET DDR_PHY_PGCR1_PHYHRST_MASK DDR_PHY_PGCR1_PHYHRST_SHIFT 0,
      XFSBL_PROG_REG W DDR_PHY_DX8SL0OSC_OFFSET DDR_PHY_DX8SL0OSC_PHYHRST_MASK DDR_PHY_DX8SL0OSC_PHYHRST_SHIFT 0,
      XFSBL_PROG_REG W DDR_PHY_DX8SL1OSC_OFFSET DDR_PHY_DX8SL1OSC_PHYHRST_MASK DDR_PHY_DX8SL1OSC_PHYHRST_SHIFT 0,
      XFSBL_PROG_REG W DDR_PHY_DX8SL2OSC_OFFSET DDR_PHY_DX8SL2OSC_PHYHRST_MASK DDR_PHY_DX8SL2OSC_PHYHRST_SHIFT 0,
      XFSBL_PROG_REG W DDR_PHY_DX8SL3OSC_OFFSET DDR_PHY_DX8SL3OSC_PHYHRST_MASK DDR_PHY_DX8SL3OSC_PHYHRST_SHIFT 0,
      XFSBL_PROG_REG W DDR_PHY_DX8SL4OSC_OFFSET DDR_PHY_DX8SL4OSC_PHYHRST_MASK DDR_PHY_DX8SL4OSC_PHYHRST_SHIFT 0,
      XFSBL_PROG_REG W DDR_PHY_PGCR1_OFFSET DDR_PHY_PGCR1_PHYHRST_MASK DDR_PHY_PGCR1_PHYHRST_SHIFT 1,
      XFSBL_PROG_REG W DDR_PHY_DX8SL0OSC_OFFSET DDR_PHY_DX8SL0OSC_PHYHRST_MASK DDR_PHY_DX8SL0OSC_PHYHRST_SHIFT 1,
      XFSBL_PROG_REG W DDR_PHY_DX8SL1OSC_OFFSET DDR_PHY_DX8SL1OSC_PHYHRST_MASK DDR_PHY_DX8SL1OSC_PHYHRST_SHIFT 1,
      XFSBL_PROG_REG W DDR_PHY_DX8SL2OSC_OFFSET DDR_PHY_DX8SL2OSC_PHYHRST_MASK DDR_PHY_DX8SL2OSC_PHYHRST_SHIFT 1,
      XFSBL_PROG_REG W DDR_PHY_DX8SL3OSC_OFFSET DDR_PHY_DX8SL3OSC_PHYHRST_MASK DDR_PHY_DX8SL3OSC_PHYHRST_SHIFT 1,
      XFSBL_PROG_REG W DDR_PHY_DX8SL4OSC_OFFSET DDR_PHY_DX8SL4OSC_PHYHRST_MASK DDR_PHY_DX8SL4OSC_PHYHRST_SHIFT 1])
     (retM 0)"

section \<open>The work-around for read DBI\<close>

text \<open>\<open>DqRbd\<close>: the code takes the fields from the \<^emph>\<open>addresses\<close> of the delay registers, not from their values.\<close>

definition rbd_row :: "u32 \<Rightarrow> u32 \<Rightarrow> u32 list" where
  "rbd_row a b =
     (let f = \<lambda>x. [push_bit (unat DDR_PHY_DXBDLR_DQ0RBD_SHIFT) (x AND DDR_PHY_DXBDLR_DQ0RBD_MASK),
         push_bit (unat DDR_PHY_DXBDLR_DQ1RBD_SHIFT) (x AND DDR_PHY_DXBDLR_DQ1RBD_MASK),
         push_bit (unat DDR_PHY_DXBDLR_DQ2RBD_SHIFT) (x AND DDR_PHY_DXBDLR_DQ2RBD_MASK),
         push_bit (unat DDR_PHY_DXBDLR_DQ3RBD_SHIFT) (x AND DDR_PHY_DXBDLR_DQ3RBD_MASK)]
      in f a @ f b)"

definition rbd_values :: "ddr_config \<Rightarrow> XFsbl_DimmParams \<Rightarrow> u32 list list" where
  "rbd_values C P =
     [rbd_row DDR_PHY_DX0BDLR3_OFFSET DDR_PHY_DX0BDLR4_OFFSET, rbd_row DDR_PHY_DX1BDLR3_OFFSET DDR_PHY_DX1BDLR4_OFFSET,
      rbd_row DDR_PHY_DX2BDLR3_OFFSET DDR_PHY_DX2BDLR4_OFFSET, rbd_row DDR_PHY_DX3BDLR3_OFFSET DDR_PHY_DX3BDLR4_OFFSET,
      rbd_row DDR_PHY_DX4BDLR3_OFFSET DDR_PHY_DX4BDLR4_OFFSET, rbd_row DDR_PHY_DX5BDLR3_OFFSET DDR_PHY_DX5BDLR4_OFFSET,
      rbd_row DDR_PHY_DX6BDLR3_OFFSET DDR_PHY_DX6BDLR4_OFFSET, rbd_row DDR_PHY_DX7BDLR3_OFFSET DDR_PHY_DX7BDLR4_OFFSET,
      (if Ecc P \<noteq> 0 then rbd_row DDR_PHY_DX8BDLR3_OFFSET DDR_PHY_DX8BDLR4_OFFSET else replicate 8 (uninit C))]"

text \<open>The averaging loops.  The inner one counts \<open>Index\<close> up, the index of the outer one, and never \<open>Index1\<close>; an access
  beyond the nine elements of the array is \<open>None\<close>.\<close>

function cal_inner :: "u32 list list \<Rightarrow> nat \<Rightarrow> u32 list \<Rightarrow> nat \<Rightarrow> (u32 list \<times> nat) option" where
  "cal_inner DqRbd Index1 CalByte Index =
     (if Index1 < 8 then
        if Index < 9 then cal_inner DqRbd Index1 (CalByte[Index := CalByte ! Index + DqRbd ! Index ! Index1]) (Index + 1) else None
      else Some (CalByte, Index))"
  by pat_completeness auto
termination by (relation "measure (\<lambda>(r, j, c, i). 9 - i)") auto

declare cal_inner.simps [simp del]

partial_function (option) cal_bytes :: "nat \<Rightarrow> u32 list list \<Rightarrow> u32 list \<Rightarrow> nat \<Rightarrow> u32 list option" where
  "cal_bytes n DqRbd CalByte Index =
     (if Index < n then do {
        (CalByte, Index) \<leftarrow> cal_inner DqRbd 0 (CalByte[Index := 0]) Index;
        (if Index < 9 then cal_bytes n DqRbd (CalByte[Index := CalByte ! Index div 8]) (Index + 1) else None) }
      else Some CalByte)"

definition XFsbl_RdbiWrkAround :: "ddr_config \<Rightarrow> world \<Rightarrow> XFsbl_DimmParams \<Rightarrow> unit prog" where
  "XFsbl_RdbiWrkAround C W P = seqM (seqsM
     [XFSBL_PROG_REG W DDR_PHY_PGCR1_OFFSET DDR_PHY_PGCR1_PUBMODE_MASK DDR_PHY_PGCR1_PUBMODE_SHIFT 1,
      XFSBL_PROG_REG W DDRC_SWCTL_OFFSET DDRC_SWCTL_SW_DONE_MASK DDRC_SWCTL_SW_DONE_SHIFT 0,
      XFSBL_PROG_REG W DDRC_DFIUPD0_OFFSET DDRC_DFIUPD0_DIS_AUTO_CTRLUPD_MASK DDRC_DFIUPD0_DIS_AUTO_CTRLUPD_SHIFT 1])
     (bindM (definedM (cal_bytes (if Ecc P \<noteq> 0 then 9 else 8) (rbd_values C P) (replicate 9 (uninit C)) 0)) (\<lambda>CalByte.
     seqM (seqsM
     [XFSBL_PROG_REG W DDR_PHY_DX0BDLR5_OFFSET DDR_PHY_DXBDLR5_DMRBD_MASK 0 (CalByte ! 0),
      XFSBL_PROG_REG W DDR_PHY_DX1BDLR5_OFFSET DDR_PHY_DXBDLR5_DMRBD_MASK 0 (CalByte ! 1),
      XFSBL_PROG_REG W DDR_PHY_DX2BDLR5_OFFSET DDR_PHY_DXBDLR5_DMRBD_MASK 0 (CalByte ! 2),
      XFSBL_PROG_REG W DDR_PHY_DX3BDLR5_OFFSET DDR_PHY_DXBDLR5_DMRBD_MASK 0 (CalByte ! 3),
      XFSBL_PROG_REG W DDR_PHY_DX4BDLR5_OFFSET DDR_PHY_DXBDLR5_DMRBD_MASK 0 (CalByte ! 4),
      XFSBL_PROG_REG W DDR_PHY_DX5BDLR5_OFFSET DDR_PHY_DXBDLR5_DMRBD_MASK 0 (CalByte ! 5),
      XFSBL_PROG_REG W DDR_PHY_DX6BDLR5_OFFSET DDR_PHY_DXBDLR5_DMRBD_MASK 0 (CalByte ! 6),
      XFSBL_PROG_REG W DDR_PHY_DX7BDLR5_OFFSET DDR_PHY_DXBDLR5_DMRBD_MASK 0 (CalByte ! 7)])
     (seqM (whenM (Ecc P \<noteq> 0) (seqsM [XFSBL_PROG_REG W DDR_PHY_DX8BDLR5_OFFSET DDR_PHY_DXBDLR5_DMRBD_MASK 0 (CalByte ! 8)])) (seqsM
     [XFSBL_PROG_REG W DDRC_DFIUPD0_OFFSET DDRC_DFIUPD0_DIS_AUTO_CTRLUPD_MASK DDRC_DFIUPD0_DIS_AUTO_CTRLUPD_SHIFT 0,
      XFSBL_PROG_REG W DDRC_SWCTL_OFFSET DDRC_SWCTL_SW_DONE_MASK DDRC_SWCTL_SW_DONE_SHIFT 1,
      XFSBL_PROG_REG W DDR_PHY_PGCR1_OFFSET DDR_PHY_PGCR1_PUBMODE_MASK DDR_PHY_PGCR1_PUBMODE_SHIFT 0]))))"

section \<open>The PLLs\<close>

text \<open>One attempt; the result is not zero when every PLL that is asked for has locked.\<close>

definition pll_attempt :: "world \<Rightarrow> XFsbl_DimmParams \<Rightarrow> u32 prog" where
  "pll_attempt W P =
     (let lock = (\<lambda>a PllLocked. bindM (XFsbl_In32 W a) (\<lambda>v. retM (PllLocked AND drop_bit 16 (v AND 0x10000))))
      in seqM (XFsbl_Out32 DDR_PHY_PIR_OFFSET 0x00040010)
        (seqM (XFsbl_Out32 DDR_PHY_PIR_OFFSET 0x00040011)
        (seqM (pollM W DDR_PHY_PGSR0_OFFSET (\<lambda>v. v AND 1 = 1))
        (bindM (XFsbl_In32 W DDR_PHY_PGSR0_OFFSET) (\<lambda>v.
         bindM (lock DDR_PHY_DX0GSR0_OFFSET (drop_bit 31 (v AND 0x80000000))) (\<lambda>PllLocked.
         bindM (lock DDR_PHY_DX2GSR0_OFFSET PllLocked) (\<lambda>PllLocked.
         bindM (if BusWidth P = 64 then bindM (lock DDR_PHY_DX4GSR0_OFFSET PllLocked) (lock DDR_PHY_DX6GSR0_OFFSET) else retM PllLocked) (\<lambda>PllLocked.
         if Ecc P \<noteq> 0 then lock DDR_PHY_DX8GSR0_OFFSET PllLocked else retM PllLocked))))))))"

text \<open>The attempts that are left when the PLLs have locked, or none.\<close>

primrec pll_attempts :: "world \<Rightarrow> XFsbl_DimmParams \<Rightarrow> nat \<Rightarrow> nat prog" where
  "pll_attempts W P 0 = retM 0"
| "pll_attempts W P (Suc PllRetry) = bindM (pll_attempt W P) (\<lambda>PllLocked.
     if PllLocked \<noteq> 0 then retM PllRetry else pll_attempts W P PllRetry)"

definition train_pll :: "world \<Rightarrow> XFsbl_DimmParams \<Rightarrow> unit prog" where
  "train_pll W P =
     bindM (pll_attempts W P 10) (\<lambda>PllRetry. seqsM
       [rmwM W DDR_PHY_GPR1_OFFSET (\<lambda>v. v OR push_bit 16 (of_nat PllRetry)),
        XFsbl_Out32 (XFSBL_DDRPHY_BASE_ADDR + 0x4)
          ((push_bit 19 (if RDimm P \<noteq> 0 then 1 else 0) OR push_bit 18 1 OR 0x73) AND NOT DDR_PHY_PIR_PLLINIT_MASK),
        whenM (PllByp P \<noteq> 0) (seqM (XFsbl_DdrPllBypass W 1) (retM ())),
        seqsM [XFSBL_POLL W DDR_PHY_PGSR0_OFFSET 0xF 0xF, XFSBL_PROG_REG W DDR_PHY_PIR_OFFSET DDR_PHY_PIR_INIT_MASK DDR_PHY_PIR_INIT_SHIFT 1,
      XFSBL_POLL W DDR_PHY_PGSR0_OFFSET 0xFF 0x1F]])"

section \<open>Mode registers\<close>

definition train_lpddr4_mrs :: "world \<Rightarrow> XFsbl_DimmParams \<Rightarrow> u32 \<Rightarrow> unit prog" where
  "train_lpddr4_mrs W P ActiveRanks = whenM (MemType P = SPD_MEMTYPE_LPDDR4) (seqM (seqsM
     [XFsbl_CfgSwInitInt W 1, XFsbl_CfgDfiInitComplete W 1, XFsbl_MrsFunc W 0x331 ActiveRanks 0, XFsbl_MrsFunc W 0xB36 ActiveRanks 0])
     (seqM (if Zc1656 P \<noteq> 0 \<or> HasEccComp P \<noteq> 0 then seqsM
       [XFsbl_MrsFunc W 0xC4D ActiveRanks 0, XFsbl_MrsFunc W (if Lp4NoOdt P \<noteq> 0 then 0xE6E else 0xE1E) ActiveRanks 0,
        XFsbl_MrsFunc W 0x1606 ActiveRanks 0]
     else seqsM
       [XFsbl_MrsFunc W 0xC21 ActiveRanks 0, XFsbl_MrsFunc W (if Lp4NoOdt P \<noteq> 0 then 0xE6F else 0xE19) ActiveRanks 0,
        XFsbl_MrsFunc W 0x1616 ActiveRanks 0])
     (XFsbl_CfgSwInitInt W 0)))"

definition train_rdimm_mrs :: "world \<Rightarrow> XFsbl_DimmParams \<Rightarrow> unit prog" where
  "train_rdimm_mrs W P = whenM (MemType P = SPD_MEMTYPE_DDR4 \<and> RDimm P \<noteq> 0) (seqsM
     [XFsbl_CfgSwInitInt W 1, XFsbl_CfgDfiInitComplete W 1,
      whenM (Parity P \<noteq> 0) (XFsbl_MrsFunc W 0x88 1 7), whenM (AddrMirror P \<noteq> 0) (XFsbl_MrsFunc W 0xD8 1 7),
      whenM (DisOpInv P \<noteq> 0) (XFsbl_MrsFunc W 0x01 1 7), whenM (SpeedBin P = 1866) (XFsbl_MrsFunc W 0xA1 1 7),
      whenM (SpeedBin P = 2133) (XFsbl_MrsFunc W 0xA2 1 7), whenM (SpeedBin P = 2400) (XFsbl_MrsFunc W 0xA3 1 7),
      whenM (SpeedBin P = 2666) (XFsbl_MrsFunc W 0xA4 1 7), XFsbl_CfgSwInitInt W 0])"

text \<open>The start of the controller; the result is the value that the local \<open>RegVal\<close> keeps from here.\<close>

definition train_start :: "world \<Rightarrow> u32 prog" where
  "train_start W =
     bindM (XFsbl_In32 W (XFSBL_DDRC_BASE_ADDR + 0x1B0)) (\<lambda>RegVal. seqM (seqsM
       [XFsbl_Out32 (XFSBL_DDRC_BASE_ADDR + 0x1B0) (RegVal OR 1), XFsbl_Out32 (XFSBL_DDRC_BASE_ADDR + 0x320) 1,
        XFSBL_POLL W DDRC_STAT_OFFSET 0xF 1])
       (retM (RegVal OR 1)))"

definition train_slowboot :: "world \<Rightarrow> XFsbl_DimmParams \<Rightarrow> unit prog" where
  "train_slowboot W P = whenM (Slowboot P = 1) (seqsM
     [XFSBL_PROG_REG W DDRC_DFIMISC_OFFSET DDRC_DFIMISC_DFI_INIT_COMPLETE_EN_MASK DDRC_DFIMISC_DFI_INIT_COMPLETE_EN_SHIFT 0,
      XFSBL_PROG_REG W DDR_PHY_PGCR1_OFFSET DDR_PHY_PGCR1_PUBMODE_MASK DDR_PHY_PGCR1_PUBMODE_SHIFT 0x1,
      XFSBL_PROG_REG W DDR_PHY_PGCR6_OFFSET DDR_PHY_PGCR6_INHVT_MASK DDR_PHY_PGCR6_INHVT_SHIFT 0x1,
      XFSBL_PROG_REG W DDR_PHY_PIR_OFFSET DDR_PHY_PIR_DCALPSE_MASK DDR_PHY_PIR_DCALPSE_SHIFT 0x1,
      XFSBL_PROG_REG W DDR_PHY_SCHCR1_OFFSET DDR_PHY_SCHCR1_ALLRANK_MASK DDR_PHY_SCHCR1_ALLRANK_SHIFT 0x1,
      XFSBL_PROG_REG W DDR_PHY_SCHCR0_OFFSET DDR_PHY_SCHCR0_CMD_MASK DDR_PHY_SCHCR0_CMD_SHIFT 0x7,
      XFSBL_PROG_REG W DDR_PHY_SCHCR0_OFFSET DDR_PHY_SCHCR0_SP_CMD_MASK DDR_PHY_SCHCR0_SP_CMD_SHIFT 0x2,
      XFSBL_PROG_REG W DDR_PHY_SCHCR0_OFFSET DDR_PHY_SCHCR0_SCHTRIG_MASK DDR_PHY_SCHCR0_SCHTRIG_SHIFT 0x1,
      rmwM W DDR_PHY_PLLCR0_OFFSET (\<lambda>v. v), rmwM W DDR_PHY_DX8SL0PLLCR0_OFFSET (\<lambda>v. v),
      rmwM W DDR_PHY_DX8SL1PLLCR0_OFFSET (\<lambda>v. v), rmwM W DDR_PHY_DX8SL2PLLCR0_OFFSET (\<lambda>v. v),
      rmwM W DDR_PHY_DX8SL3PLLCR0_OFFSET (\<lambda>v. v), rmwM W DDR_PHY_DX8SL4PLLCR0_OFFSET (\<lambda>v. v),
      rmwM W DDR_PHY_DX8SLBPLLCR0_OFFSET (\<lambda>v. v), XFSBL_PROG_REG W DDR_PHY_PIR_OFFSET DDR_PHY_PIR_DCALPSE_MASK DDR_PHY_PIR_DCALPSE_SHIFT 0,
      XFSBL_PROG_REG W DDR_PHY_PIR_OFFSET DDR_PHY_PIR_CTLDINIT_MASK DDR_PHY_PIR_CTLDINIT_SHIFT 1,
      XFSBL_PROG_REG W DDR_PHY_PIR_OFFSET DDR_PHY_PIR_PHYRST_MASK DDR_PHY_PIR_PHYRST_SHIFT 1,
      XFSBL_PROG_REG W DDR_PHY_PIR_OFFSET DDR_PHY_PIR_DCAL_MASK DDR_PHY_PIR_DCAL_SHIFT 1,
      XFSBL_PROG_REG W DDR_PHY_PIR_OFFSET DDR_PHY_PIR_PLLINIT_MASK DDR_PHY_PIR_PLLINIT_SHIFT 1,
      XFSBL_PROG_REG W DDR_PHY_PIR_OFFSET DDR_PHY_PIR_INIT_MASK DDR_PHY_PIR_INIT_SHIFT 1, XFSBL_POLL W DDR_PHY_PGSR0_OFFSET 0xF 0xF,
      XFSBL_PROG_REG W DDR_PHY_PIR_OFFSET DDR_PHY_PIR_INIT_MASK DDR_PHY_PIR_INIT_SHIFT 1, XFSBL_POLL W DDR_PHY_PGSR0_OFFSET 0xFF 0x1F,
      XFSBL_PROG_REG W DDR_PHY_PGCR6_OFFSET DDR_PHY_PGCR6_INHVT_MASK DDR_PHY_PGCR6_INHVT_SHIFT 0x0,
      XFSBL_PROG_REG W DDR_PHY_SCHCR1_OFFSET DDR_PHY_SCHCR1_ALLRANK_MASK DDR_PHY_SCHCR1_ALLRANK_SHIFT 0x1,
      XFSBL_PROG_REG W DDR_PHY_SCHCR0_OFFSET DDR_PHY_SCHCR0_CMD_MASK DDR_PHY_SCHCR0_CMD_SHIFT 0x7,
      XFSBL_PROG_REG W DDR_PHY_SCHCR0_OFFSET DDR_PHY_SCHCR0_SP_CMD_MASK DDR_PHY_SCHCR0_SP_CMD_SHIFT 0x3,
      XFSBL_PROG_REG W DDR_PHY_SCHCR0_OFFSET DDR_PHY_SCHCR0_SCHTRIG_MASK DDR_PHY_SCHCR0_SCHTRIG_SHIFT 0x1])"

definition train_lpddr3_mrs :: "world \<Rightarrow> XFsbl_DimmParams \<Rightarrow> u32 \<Rightarrow> unit prog" where
  "train_lpddr3_mrs W P ActiveRanks = whenM (MemType P = SPD_MEMTYPE_LPDDR3) (seqsM
     [XFsbl_CfgSwInitInt W 1, XFsbl_CfgDfiInitComplete W 1, XFsbl_MrsFunc W 0xB02 ActiveRanks 0, XFsbl_CfgSwInitInt W 0])"

definition train_ca :: "world \<Rightarrow> XFsbl_DimmParams \<Rightarrow> unit prog" where
  "train_ca W P = seqM (whenM (MemType P = SPD_MEMTYPE_LPDDR4 \<and> Lp4catrain P = 1) (seqsM
     [XFSBL_PROG_REG W DDRC_SWCTL_OFFSET DDRC_SWCTL_SW_DONE_MASK DDRC_SWCTL_SW_DONE_SHIFT 1,
      XFSBL_PROG_REG W DDRC_DFIUPD0_OFFSET DDRC_DFIUPD0_DIS_AUTO_CTRLUPD_MASK DDRC_DFIUPD0_DIS_AUTO_CTRLUPD_SHIFT 1,
      XFSBL_PROG_REG W DDRC_RFSHCTL3_OFFSET DDRC_RFSHCTL3_DIS_AUTO_REFRESH_MASK DDRC_RFSHCTL3_DIS_AUTO_REFRESH_SHIFT 1,
      XFSBL_PROG_REG W DDRC_ZQCTL0_OFFSET DDRC_ZQCTL0_DIS_AUTO_ZQ_MASK DDRC_ZQCTL0_DIS_AUTO_ZQ_SHIFT 1,
      XFSBL_PROG_REG W DDRC_RFSHCTL3_OFFSET DDRC_RFSHCTL3_DIS_AUTO_REFRESH_MASK DDRC_RFSHCTL3_DIS_AUTO_REFRESH_SHIFT 0,
      XFSBL_PROG_REG W DDRC_ZQCTL0_OFFSET DDRC_ZQCTL0_DIS_AUTO_ZQ_MASK DDRC_ZQCTL0_DIS_AUTO_ZQ_SHIFT 0]))
     (seqsM [XFSBL_PROG_REG W DDR_PHY_PGCR1_OFFSET DDR_PHY_PGCR1_PUBMODE_MASK DDR_PHY_PGCR1_PUBMODE_SHIFT 1])"

section \<open>Data training\<close>

definition train_pir :: "world \<Rightarrow> XFsbl_DimmParams \<Rightarrow> unit prog" where
  "train_pir W P =
     (if MemType P = SPD_MEMTYPE_DDR3 \<or> MemType P = SPD_MEMTYPE_DDR4 then
        XFsbl_Out32 DDR_PHY_PIR_OFFSET (if DeskewTrn P = 0 then 0x0004CE01 else 0x0004FE01)
      else if MemType P = SPD_MEMTYPE_LPDDR3 then seqM (whenM (Ddp P = 1) (seqsM
        [XFSBL_PROG_REG W DDR_PHY_RANKIDR_OFFSET DDR_PHY_RANKIDR_RANKWID_MASK DDR_PHY_RANKIDR_RANKWID_SHIFT 1,
      XFSBL_PROG_REG W DDR_PHY_ODTCR_OFFSET DDR_PHY_ODTCR_WRODT_MASK DDR_PHY_ODTCR_WRODT_SHIFT 1,
      XFSBL_PROG_REG W DDR_PHY_RANKIDR_OFFSET DDR_PHY_RANKIDR_RANKWID_MASK DDR_PHY_RANKIDR_RANKWID_SHIFT 0]))
        (XFsbl_Out32 DDR_PHY_PIR_OFFSET (if Zc1650 P \<noteq> 0 then 0x0004FE01
           else if GateExt P \<noteq> 0 then if DeskewTrn P = 0 then 0x0004CA05 else 0x0004FA05
           else if DeskewTrn P = 0 then 0x0004CE05 else 0x0004FE05))
      else whenM (MemType P = SPD_MEMTYPE_LPDDR4)
        (XFsbl_Out32 DDR_PHY_PIR_OFFSET (if DeskewTrn P = 0 then 0x0014CE01 else 0x0014FE01)))"

definition train_poll_value :: "XFsbl_DimmParams \<Rightarrow> u32" where
  "train_poll_value P =
     (let PollVal =
        (if MemType P = SPD_MEMTYPE_DDR3 \<or> MemType P = SPD_MEMTYPE_DDR4 then 0x80000CFF
         else if MemType P = SPD_MEMTYPE_LPDDR3 then if Zc1650 P \<noteq> 0 then 0x80000FFF else if GateExt P \<noteq> 0 then 0x80001CBF else 0x80001CFF
         else if MemType P = SPD_MEMTYPE_LPDDR4 then 0x80008CFF else 0)
      in if DeskewTrn P \<noteq> 0 then PollVal OR 0x300 else PollVal)"

definition train_wait :: "world \<Rightarrow> XFsbl_DimmParams \<Rightarrow> u32 \<Rightarrow> unit prog" where
  "train_wait W P RegVal =
     seqM (if MemType P \<noteq> SPD_MEMTYPE_LPDDR4 then seqsM
         [pollM W DDR_PHY_PGSR0_OFFSET (\<lambda>v. v = train_poll_value P), seqM (XFsbl_In32 W DDR_PHY_PGSR0_OFFSET) (retM ())]
       else seqsM
         [whenM (RegVal \<noteq> 0x8000007E) (pollM W DDR_PHY_PGSR0_OFFSET (\<lambda>v. v = 0x8000007E)),
          rmwM W (XFSBL_DDRPHY_BASE_ADDR + 0x200) (\<lambda>v. v AND NOT (push_bit 28 0xF)),
          pollM W DDR_PHY_PGSR0_OFFSET (\<lambda>v. v = train_poll_value P),
          XFsbl_Out32 (XFSBL_DDRPHY_BASE_ADDR + 0x200) ((train_poll_value P AND NOT (push_bit 28 0xF)) OR push_bit 28 8)])
     (seqM (XFsbl_In32 W DDR_PHY_PGSR0_OFFSET) (retM ()))"

definition train_vref :: "world \<Rightarrow> XFsbl_DimmParams \<Rightarrow> unit prog" where
  "train_vref W P = whenM (Vref P = 1 \<and> (MemType P = SPD_MEMTYPE_LPDDR4 \<or> MemType P = SPD_MEMTYPE_DDR4))
     (bindM (XFsbl_In32 W (XFSBL_DDRPHY_BASE_ADDR + 0x200)) (\<lambda>RegVal.
      bindM (XFsbl_In32 W (XFSBL_DDRPHY_BASE_ADDR + 0x528)) (\<lambda>v.
      seqM (XFsbl_Out32 (XFSBL_DDRPHY_BASE_ADDR + 0x200)
        (let RegVal = RegVal AND NOT (push_bit 28 0xF) in if drop_bit 27 v AND 1 = 1 then RegVal OR push_bit 28 1 else RegVal))
      (bindM (XFsbl_In32 W DDR_PHY_PGCR2_OFFSET) (\<lambda>v.
      (let CurTRefPrd = drop_bit (unat DDR_PHY_PGCR2_TREFPRD_SHIFT) (v AND DDR_PHY_PGCR2_TREFPRD_MASK)
       in seqsM
        [seqsM [XFSBL_PROG_REG W DDR_PHY_PGCR2_OFFSET DDR_PHY_PGCR2_TREFPRD_MASK DDR_PHY_PGCR2_TREFPRD_SHIFT (CurTRefPrd - 400),
      XFSBL_PROG_REG W DDR_PHY_PGCR3_OFFSET DDR_PHY_PGCR3_RDMODE_MASK DDR_PHY_PGCR3_RDMODE_SHIFT 3,
      XFSBL_PROG_REG W DDR_PHY_DX8SL0DXCTL2_OFFSET DDR_PHY_DX8SL0DXCTL2_RDMODE_MASK DDR_PHY_DX8SL0DXCTL2_RDMODE_SHIFT 3,
      XFSBL_PROG_REG W DDR_PHY_DX8SL1DXCTL2_OFFSET DDR_PHY_DX8SL1DXCTL2_RDMODE_MASK DDR_PHY_DX8SL1DXCTL2_RDMODE_SHIFT 3,
      XFSBL_PROG_REG W DDR_PHY_DX8SL2DXCTL2_OFFSET DDR_PHY_DX8SL2DXCTL2_RDMODE_MASK DDR_PHY_DX8SL2DXCTL2_RDMODE_SHIFT 3,
      XFSBL_PROG_REG W DDR_PHY_DX8SL3DXCTL2_OFFSET DDR_PHY_DX8SL3DXCTL2_RDMODE_MASK DDR_PHY_DX8SL3DXCTL2_RDMODE_SHIFT 3,
      XFSBL_PROG_REG W DDR_PHY_DX8SL4DXCTL2_OFFSET DDR_PHY_DX8SL4DXCTL2_RDMODE_MASK DDR_PHY_DX8SL4DXCTL2_RDMODE_SHIFT 3,
      XFsbl_Out32 DDR_PHY_PIR_OFFSET 0x00060001],
         pollM W DDR_PHY_PGSR0_OFFSET (\<lambda>v. v AND 0x80004001 = 0x80004001),
         seqsM [XFSBL_PROG_REG W DDR_PHY_PGCR3_OFFSET DDR_PHY_PGCR3_RDMODE_MASK DDR_PHY_PGCR3_RDMODE_SHIFT 0,
      XFSBL_PROG_REG W DDR_PHY_DX8SL0DXCTL2_OFFSET DDR_PHY_DX8SL0DXCTL2_RDMODE_MASK DDR_PHY_DX8SL0DXCTL2_RDMODE_SHIFT 0,
      XFSBL_PROG_REG W DDR_PHY_DX8SL1DXCTL2_OFFSET DDR_PHY_DX8SL1DXCTL2_RDMODE_MASK DDR_PHY_DX8SL1DXCTL2_RDMODE_SHIFT 0,
      XFSBL_PROG_REG W DDR_PHY_DX8SL2DXCTL2_OFFSET DDR_PHY_DX8SL2DXCTL2_RDMODE_MASK DDR_PHY_DX8SL2DXCTL2_RDMODE_SHIFT 0,
      XFSBL_PROG_REG W DDR_PHY_DX8SL3DXCTL2_OFFSET DDR_PHY_DX8SL3DXCTL2_RDMODE_MASK DDR_PHY_DX8SL3DXCTL2_RDMODE_SHIFT 0,
      XFSBL_PROG_REG W DDR_PHY_DX8SL4DXCTL2_OFFSET DDR_PHY_DX8SL4DXCTL2_RDMODE_MASK DDR_PHY_DX8SL4DXCTL2_RDMODE_SHIFT 0],
         rmwM W (XFSBL_DDRPHY_BASE_ADDR + 0x200) (\<lambda>v. (v AND NOT (push_bit 28 0xF)) OR push_bit 28 8),
         seqsM [XFSBL_PROG_REG W DDR_PHY_PGCR2_OFFSET DDR_PHY_PGCR2_TREFPRD_MASK DDR_PHY_PGCR2_TREFPRD_SHIFT CurTRefPrd,
      XFsbl_Out32 DDR_PHY_PIR_OFFSET 0x0000C001],
         pollM W DDR_PHY_PGSR0_OFFSET (\<lambda>v. v AND 0x80000C01 = 0x80000C01)]))))))"

section \<open>The end of the training\<close>

definition train_end :: "world \<Rightarrow> XFsbl_DimmParams \<Rightarrow> unit prog" where
  "train_end W P = seqsM
     [whenM (Slowboot P = 1) (seqsM
      [XFSBL_PROG_REG W DDRC_SWCTL_OFFSET DDRC_SWCTL_SW_DONE_MASK DDRC_SWCTL_SW_DONE_SHIFT 0,
      XFSBL_PROG_REG W DDRC_DFIMISC_OFFSET DDRC_DFIMISC_DFI_INIT_COMPLETE_EN_MASK DDRC_DFIMISC_DFI_INIT_COMPLETE_EN_SHIFT 1,
      XFSBL_PROG_REG W DDRC_DFIUPD0_OFFSET DDRC_DFIUPD0_DIS_AUTO_CTRLUPD_MASK DDRC_DFIUPD0_DIS_AUTO_CTRLUPD_SHIFT 0,
      XFSBL_PROG_REG W DDRC_SWCTL_OFFSET DDRC_SWCTL_SW_DONE_MASK DDRC_SWCTL_SW_DONE_SHIFT 1]),
      rmwM W (XFSBL_DDRC_BASE_ADDR + 0x180) (\<lambda>v. v AND NOT (push_bit 31 1)),
      rmwM W (XFSBL_DDRC_BASE_ADDR + 0x60) (\<lambda>v. v AND NOT 1),
      whenM (RdDqsCenter P \<noteq> 0 \<and> MemType P \<noteq> SPD_MEMTYPE_LPDDR4) (seqsM
      [XFSBL_PROG_REG W DDR_PHY_PGCR1_OFFSET DDR_PHY_PGCR1_PUBMODE_MASK DDR_PHY_PGCR1_PUBMODE_SHIFT 0,
      XFSBL_PROG_REG W DDR_PHY_PGCR1_OFFSET DDR_PHY_PGCR1_PUBMODE_MASK DDR_PHY_PGCR1_PUBMODE_SHIFT 1]),
      seqsM [XFSBL_PROG_REG W DDR_PHY_PGCR1_OFFSET DDR_PHY_PGCR1_PUBMODE_MASK DDR_PHY_PGCR1_PUBMODE_SHIFT 0],
      whenM (MemType P = SPD_MEMTYPE_LPDDR4 \<and> Slowboot P = 1 \<and> RdDqsCenter P \<noteq> 0) (seqsM
      [XFSBL_PROG_REG W DDR_PHY_PGCR1_OFFSET DDR_PHY_PGCR1_PUBMODE_MASK DDR_PHY_PGCR1_PUBMODE_SHIFT 0]),
      whenM (MemType P = SPD_MEMTYPE_DDR4 \<and> RDimm P \<noteq> 0 \<and> DisOpInv P \<noteq> 0 \<and> EnOpInvAfterTrain P \<noteq> 0) (seqsM
      [XFsbl_MrsFunc W 0x00 1 7, rmwM W (XFSBL_DDRPHY_BASE_ADDR + 0x150) (\<lambda>v. v AND NOT 1)])]"

definition train_write_drift :: "world \<Rightarrow> XFsbl_DimmParams \<Rightarrow> unit prog" where
  "train_write_drift W P = whenM (WrDrift P \<noteq> 0)
     (bindM (definedM (to_u32 (fmax (fdiv 53 (fdiv 53 (Fin 30) (ClockPeriod P)) (Fin 2)) (Fin 8)))) (\<lambda>m.
     (let Puad = m div 2
      in seqsM
      [XFSBL_PROG_REG W DDR_PHY_DSGCR_OFFSET DDR_PHY_DSGCR_PUAD_MASK DDR_PHY_DSGCR_PUAD_SHIFT Puad,
      XFSBL_PROG_REG W DDR_PHY_DSGCR_OFFSET DDR_PHY_DSGCR_CTLZUEN_MASK DDR_PHY_DSGCR_CTLZUEN_SHIFT 1,
      XFSBL_PROG_REG W DDR_PHY_DX0GCR3_OFFSET DDR_PHY_DX0GCR3_WDLVT_MASK DDR_PHY_DX0GCR3_WDLVT_SHIFT 0,
      XFSBL_PROG_REG W DDR_PHY_DX1GCR3_OFFSET DDR_PHY_DX1GCR3_WDLVT_MASK DDR_PHY_DX1GCR3_WDLVT_SHIFT 0,
      XFSBL_PROG_REG W DDR_PHY_DX2GCR3_OFFSET DDR_PHY_DX2GCR3_WDLVT_MASK DDR_PHY_DX2GCR3_WDLVT_SHIFT 0,
      XFSBL_PROG_REG W DDR_PHY_DX3GCR3_OFFSET DDR_PHY_DX3GCR3_WDLVT_MASK DDR_PHY_DX3GCR3_WDLVT_SHIFT 0,
      XFSBL_PROG_REG W DDR_PHY_DX8GCR3_OFFSET DDR_PHY_DX8GCR3_WDLVT_MASK DDR_PHY_DX8GCR3_WDLVT_SHIFT 0,
      XFSBL_PROG_REG W DDR_PHY_DTCR0_OFFSET DDR_PHY_DTCR0_INCWEYE_MASK DDR_PHY_DTCR0_INCWEYE_SHIFT 1])))"

definition train_read_drift :: "world \<Rightarrow> XFsbl_DimmParams \<Rightarrow> unit prog" where
  "train_read_drift W P = whenM (RdDrift P \<noteq> 0) (seqsM
     [XFSBL_PROG_REG W DDR_PHY_DQSDR0_OFFSET DDR_PHY_DQSDR0_DFTDTMODE_MASK DDR_PHY_DQSDR0_DFTDTMODE_SHIFT 0,
      XFSBL_PROG_REG W DDR_PHY_DQSDR0_OFFSET DDR_PHY_DQSDR0_DFTUPMODE_MASK DDR_PHY_DQSDR0_DFTUPMODE_SHIFT 1,
      XFSBL_PROG_REG W DDR_PHY_DQSDR0_OFFSET DDR_PHY_DQSDR0_DFTGPULSE_MASK DDR_PHY_DQSDR0_DFTGPULSE_SHIFT 0,
      XFSBL_PROG_REG W DDR_PHY_DQSDR0_OFFSET DDR_PHY_DQSDR0_DFTRDSPC_MASK DDR_PHY_DQSDR0_DFTRDSPC_SHIFT 1,
      XFSBL_PROG_REG W DDR_PHY_DQSDR0_OFFSET DDR_PHY_DQSDR0_DFTDLY_MASK DDR_PHY_DQSDR0_DFTDLY_SHIFT 2,
      XFSBL_PROG_REG W DDR_PHY_DX0GCR3_OFFSET DDR_PHY_DX0GCR3_RGLVT_MASK DDR_PHY_DX0GCR3_RGLVT_SHIFT 0,
      XFSBL_PROG_REG W DDR_PHY_DX1GCR3_OFFSET DDR_PHY_DX1GCR3_RGLVT_MASK DDR_PHY_DX1GCR3_RGLVT_SHIFT 0,
      XFSBL_PROG_REG W DDR_PHY_DX2GCR3_OFFSET DDR_PHY_DX2GCR3_RGLVT_MASK DDR_PHY_DX2GCR3_RGLVT_SHIFT 0,
      XFSBL_PROG_REG W DDR_PHY_DX3GCR3_OFFSET DDR_PHY_DX3GCR3_RGLVT_MASK DDR_PHY_DX3GCR3_RGLVT_SHIFT 0,
      XFSBL_PROG_REG W DDR_PHY_DX4GCR3_OFFSET DDR_PHY_DX4GCR3_RGLVT_MASK DDR_PHY_DX4GCR3_RGLVT_SHIFT 0,
      XFSBL_PROG_REG W DDR_PHY_DX5GCR3_OFFSET DDR_PHY_DX5GCR3_RGLVT_MASK DDR_PHY_DX5GCR3_RGLVT_SHIFT 0,
      XFSBL_PROG_REG W DDR_PHY_DX6GCR3_OFFSET DDR_PHY_DX6GCR3_RGLVT_MASK DDR_PHY_DX6GCR3_RGLVT_SHIFT 0,
      XFSBL_PROG_REG W DDR_PHY_DX7GCR3_OFFSET DDR_PHY_DX7GCR3_RGLVT_MASK DDR_PHY_DX7GCR3_RGLVT_SHIFT 0,
      XFSBL_PROG_REG W DDR_PHY_DX8GCR3_OFFSET DDR_PHY_DX8GCR3_RGLVT_MASK DDR_PHY_DX8GCR3_RGLVT_SHIFT 0,
      XFSBL_PROG_REG W DDR_PHY_DQSDR1_OFFSET DDR_PHY_DQSDR1_DFTRDIDLC_MASK DDR_PHY_DQSDR1_DFTRDIDLC_SHIFT 1,
      XFSBL_PROG_REG W DDR_PHY_DQSDR1_OFFSET DDR_PHY_DQSDR1_DFTRDIDLF_MASK DDR_PHY_DQSDR1_DFTRDIDLF_SHIFT 10,
      XFSBL_PROG_REG W DDR_PHY_DQSDR0_OFFSET DDR_PHY_DQSDR0_DFTDTEN_MASK DDR_PHY_DQSDR0_DFTDTEN_SHIFT 1])"

text \<open>The whole sequence; it has no error of its own.\<close>

definition XFsbl_DdrcPhyTraining :: "ddr_config \<Rightarrow> world \<Rightarrow> XFsbl_DimmParams \<Rightarrow> u32 prog" where
  "XFsbl_DdrcPhyTraining C W P =
     bindM (XFsbl_In32 W XFSBL_DDRC_BASE_ADDR) (\<lambda>ActiveRanks.
     seqM (seqsM [train_pll W P, train_lpddr4_mrs W P ActiveRanks, train_rdimm_mrs W P])
     (bindM (train_start W) (\<lambda>RegVal.
     seqM (seqsM [train_slowboot W P, train_lpddr3_mrs W P ActiveRanks, train_ca W P, train_pir W P, train_wait W P RegVal,
       train_vref W P, train_end W P, whenM (RdbiWrkAround P = 1) (XFsbl_RdbiWrkAround C W P),
       train_lpddr3_mrs W P ActiveRanks, train_write_drift W P, train_read_drift W P])
     (retM XFSBL_SUCCESS))))"

end
