(* ===== verification/Ddr_Init.thy ===== *)
theory Ddr_Init
  imports Ddr_Training
begin

text \<open>
  \<open>XFsbl_DdrInit\<close>: reads the data of the memory module from its EEPROM over I2C (\<open>XFsbl_IicReadSpdEeprom\<close>), computes the
  parameters of the module and the registers from them, writes the registers and runs the training sequence.  The
  I2C driver is a world like the other drivers; its answers are the results of the calls.
\<close>

section \<open>Reading the module data\<close>

text \<open>\<open>Status = f(); if (Status != XST_SUCCESS) { UStatus = XFSBL_FAILURE; goto END; }\<close>, where the result is the status of a
  failure or the data.\<close>

definition iicM :: "u32 prog \<Rightarrow> (u32 + 'a) prog \<Rightarrow> (u32 + 'a) prog" where
  "iicM m k = bindM m (\<lambda>Status. if Status \<noteq> 0 then retM (Inl XFSBL_FAILURE) else k)"

definition iic_idle :: "world \<Rightarrow> (u32 + 'a) prog \<Rightarrow> (u32 + 'a) prog" where
  "iic_idle W k = iicM (extM W (Iic (IicWaitIdle XFSBL_IIC_BUS_TIMEOUT))) k"

text \<open>The status of a send is not looked at.\<close>

definition iic_send :: "world \<Rightarrow> u8 \<Rightarrow> u32 \<Rightarrow> (u32 + 'a) prog \<Rightarrow> (u32 + 'a) prog" where
  "iic_send W TxArray a k = seqM (callM W (Iic (IicMasterSendPolled [TxArray] a))) (iic_idle W k)"

definition iic_recv :: "world \<Rightarrow> u32 \<Rightarrow> u32 \<Rightarrow> (u8 list \<Rightarrow> (u32 + 'a) prog) \<Rightarrow> (u32 + 'a) prog" where
  "iic_recv W n a k = bindM (copyM W (Iic (IicMasterRecvPolled n a))) (\<lambda>(Status, b).
     if Status \<noteq> 0 then retM (Inl XFSBL_FAILURE) else iic_idle W (k (map b [0..<unat n])))"

definition XFsbl_IicReadSpdEeprom :: "world \<Rightarrow> (u32 + u8 list) prog" where
  "XFsbl_IicReadSpdEeprom W =
     bindM (extM W (Iic IicLookupConfig)) (\<lambda>ConfigIic. if ConfigIic = 0 then retM (Inl XFSBL_FAILURE) else
     iicM (extM W (Iic IicCfgInitialize))
     (iicM (extM W (Iic (IicSetSClk XFSBL_IIC_SCLK_RATE)))
     (iic_send W 0x08 XFSBL_MUX_ADDR
     (iic_recv W 1 XFSBL_MUX_ADDR (\<lambda>_.
     iic_send W 0x00 XFSBL_SODIMM_CONTROL_ADDR_LOW
     (iic_send W 0x00 XFSBL_SODIMM_SLAVE_ADDR
     (iic_recv W 256 XFSBL_SODIMM_SLAVE_ADDR (\<lambda>low.
     iic_send W 0x01 XFSBL_SODIMM_CONTROL_ADDR_HIGH
     (iic_send W 0x00 XFSBL_SODIMM_SLAVE_ADDR
     (iic_recv W 256 XFSBL_SODIMM_SLAVE_ADDR (\<lambda>high. retM (Inr (low @ high)))))))))))))"

section \<open>The initialisation\<close>

definition ddr_reset :: "world \<Rightarrow> unit prog" where
  "ddr_reset W = rmwM W CRF_APB_RST_DDR_SS_OFFSET (\<lambda>RegVal. RegVal OR 0x00000008)"

definition ddr_release :: "world \<Rightarrow> unit prog" where
  "ddr_release W = rmwM W CRF_APB_RST_DDR_SS_OFFSET (\<lambda>RegVal. RegVal AND NOT 0x0000000C)"

text \<open>The variant for the boards that only take DDR4 modules.  The result of \<open>XFsbl_ComputeDdr4Params\<close> is dropped.\<close>

definition XFsbl_Ddr4Init :: "ddr_config \<Rightarrow> world \<Rightarrow> u8 list \<Rightarrow> DdrcInitData \<Rightarrow> DdrcInitData prog" where
  "XFsbl_Ddr4Init C W SpdData D =
     bindM (definedM (map_option snd (XFsbl_ComputeDdr4Params C SpdData (PDimm D)))) (\<lambda>P.
     bindM (definedM (XFsbl_InitilizeDdrParams C P)) (\<lambda>P.
     seqM (ddr_reset W)
     (bindM (XFsbl_DdrcCalcCommonRegVal C (D\<lparr>PDimm := P\<rparr>) XFSBL_DDRC_REG_DEFVAL) (\<lambda>(D, DdrCfg).
     bindM (definedM (XFsbl_DdrcCalcDdr4RegVal (PDimm D) DdrCfg)) (\<lambda>(P, DdrCfg).
     (let DdrCfg = ddrc_slave_latencies P DdrCfg; P = mode_registers DdrCfg P
      in seqM (XFsbl_DdrcRegsWrite DdrCfg)
        (seqM (ddr_release W)
        (bindM (definedM (XFsbl_PhyCalcCommonRegVal P XFSBL_PHY_REG_DEFVAL)) (\<lambda>PhyCfg.
         bindM (definedM (XFsbl_PhyCalcDdr4RegVal P PhyCfg)) (\<lambda>(P, PhyCfg).
         seqM (XFsbl_PhyRegsWrite P PhyCfg) (retM (D\<lparr>PDimm := P\<rparr>))))))))))))"

text \<open>The general variant, for every type of memory.\<close>

definition ddr_registers_init :: "ddr_config \<Rightarrow> world \<Rightarrow> u8 list \<Rightarrow> DdrcInitData \<Rightarrow> DdrcInitData prog" where
  "ddr_registers_init C W SpdData D =
     bindM (definedM (XFsbl_DdrComputeDimmParameters C SpdData (PDimm D))) (\<lambda>P.
     bindM (definedM (XFsbl_InitilizeDdrParams C P)) (\<lambda>P.
     seqM (ddr_reset W)
     (bindM (XFsbl_DdrcRegsInit C (D\<lparr>PDimm := P\<rparr>)) (\<lambda>D.
     seqM (ddr_release W) (XFsbl_PhyRegsInit D)))))"

definition ddr_train :: "ddr_config \<Rightarrow> world \<Rightarrow> DdrcInitData \<Rightarrow> u32 prog" where
  "ddr_train C W D =
     (if cfg_ddr_sr C then bindM (XFsbl_In32 W XFSBL_DDR_STATUS_REGISTER_OFFSET) (\<lambda>RegVal.
        if RegVal AND DDR_STATUS_FLAG_MASK = 0 then tryM_as XFSBL_FAILURE (XFsbl_DdrcPhyTraining C W (PDimm D)) (retM XFSBL_SUCCESS)
        else retM XFSBL_SUCCESS)
      else tryM_as XFSBL_FAILURE (XFsbl_DdrcPhyTraining C W (PDimm D)) (retM XFSBL_SUCCESS))"

definition XFsbl_DdrInit :: "ddr_config \<Rightarrow> world \<Rightarrow> u32 prog" where
  "XFsbl_DdrInit C W =
     bindM (XFsbl_IicReadSpdEeprom W) (\<lambda>r. case r of
       Inl Status \<Rightarrow> retM XFSBL_FAILURE
     | Inr SpdData \<Rightarrow> bindM (if dimm_ddr4_only C then XFsbl_Ddr4Init C W SpdData DdrData else ddr_registers_init C W SpdData DdrData) (ddr_train C W))"

end
