(* ===== verification/Ddr_Addressing.thy ===== *)
theory Ddr_Addressing
  imports Ddr_Address_Map
begin

text \<open>
  What the address-map registers mean: which HIF address bit selects which bit of the memory address, read back
  from the twelve registers, compared with the order the code lists the bits in.
\<close>

section \<open>Reading the registers\<close>

datatype dram_bit = Column nat | BankGroup nat | Bank nat | Row nat

text \<open>Where the field of a memory bit is: the register, the position and the width of the field, and the HIF bit
  that the field counts from.\<close>

fun bit_field :: "dram_bit \<Rightarrow> (nat \<times> nat \<times> nat \<times> nat) option" where
  "bit_field (Column c) = (if 2 \<le> c \<and> c < 12 then Some (2 + (c - 2) div 4, 8 * ((c - 2) mod 4), 4, c) else None)"
| "bit_field (BankGroup g) = (if g < 2 then Some (8, 8 * g, 5, g + 2) else None)"
| "bit_field (Bank b) = (if b < 3 then Some (1, 8 * b, 5, b + 2) else None)"
| "bit_field (Row r) = (if r < 2 then Some (5, 8 * r, 4, r + 6)
     else if r < 11 then Some (9 + (r - 2) div 4, 8 * ((r - 2) mod 4), 4, r + 6)
     else if r = 11 then Some (5, 24, 4, r + 6)
     else if r < 18 then Some (6 + (r - 12) div 4, 8 * ((r - 12) mod 4), 4, r + 6) else None)"

text \<open>A field of ones marks a bit that is not used.\<close>

definition hif_bit :: "u32 list \<Rightarrow> dram_bit \<Rightarrow> nat option" where
  "hif_bit regs b = (case bit_field b of None \<Rightarrow> None
   | Some (k, i, w, base) \<Rightarrow> let f = unat (drop_bit i (regs ! k) AND mask w) in if f = 2 ^ w - 1 then None else Some (base + f))"

text \<open>What the code stored for a memory bit.\<close>

fun stored_field :: "DdrcInitData \<Rightarrow> dram_bit \<Rightarrow> u32" where
  "stored_field D (Column c) = AddrMapColBit D ! c"
| "stored_field D (BankGroup g) = AddrMapBgBit D ! g"
| "stored_field D (Bank b) = AddrMapBankBit D ! b"
| "stored_field D (Row r) = AddrMapRowBit D ! r"

lemma address_read:
  assumes "k < 12" "(v, m, i) \<in> set (address_fields D ! k)"
  shows "drop_bit i (address_regs D ! k) AND m = v AND m"
proof -
  have "list_all fields_apart (address_fields D)" by (simp add: address_fields_def Let_def)
  moreover have k: "k < length (address_fields D)" using assms(1) by (simp add: address_fields_def Let_def)
  ultimately have "fields_apart (address_fields D ! k)" by (simp add: list_all_length)
  then show ?thesis using field_read [OF _ assms(2)] k by (simp add: address_regs_def)
qed

lemma below_18: "(n::nat) < 18 \<longleftrightarrow> n \<in> {0,1,2,3,4,5,6,7,8,9,10,11,12,13,14,15,16,17}"
  by (simp add: numeral_eq_Suc less_Suc_eq disj_ac)

lemma bit_field_stored:
  assumes "bit_field b = Some (k, i, w, base)"
  shows "k < 12 \<and> (stored_field D b, mask w, i) \<in> set (address_fields D ! k)"
proof (cases b)
  case (Column c)
  with assms have "c < 18" "2 \<le> c" "c < 12" by (auto split: if_splits)
  then show ?thesis using assms unfolding Column below_18
    by (auto simp: address_fields_def Let_def mask_eq_exp_minus_1)
next
  case (Row r)
  with assms have "r < 18" by (auto split: if_splits)
  then show ?thesis using assms unfolding Row below_18
    by (auto simp: address_fields_def Let_def mask_eq_exp_minus_1)
next
  case (Bank b)
  with assms have "b < 18" "b < 3" by (auto split: if_splits)
  then show ?thesis using assms unfolding Bank below_18
    by (auto simp: address_fields_def Let_def mask_eq_exp_minus_1)
next
  case (BankGroup b)
  with assms have "b < 18" "b < 2" by (auto split: if_splits)
  then show ?thesis using assms unfolding BankGroup below_18
    by (auto simp: address_fields_def Let_def mask_eq_exp_minus_1)
qed

lemma hif_bit_stored:
  "hif_bit (address_regs D) b = (case bit_field b of None \<Rightarrow> None
   | Some (k, i, w, base) \<Rightarrow> let f = unat (stored_field D b AND mask w) in if f = 2 ^ w - 1 then None else Some (base + f))"
proof (cases "bit_field b")
  case (Some x)
  obtain k i w base where x: "x = (k, i, w, base)" by (cases x)
  have "k < 12" "(stored_field D b, mask w, i) \<in> set (address_fields D ! k)"
    using bit_field_stored [of b k i w base D] Some unfolding x by simp_all
  then have "drop_bit i (address_regs D ! k) AND mask w = stored_field D b AND mask w" by (rule address_read)
  then show ?thesis using Some unfolding x hif_bit_def by simp
qed (simp add: hif_bit_def)

section \<open>The list of memory bits\<close>

lemma hif_put_append: "hif_put (vs @ ws) st = Option.bind (hif_put vs st) (hif_put ws)"
  by (induction vs arbitrary: st) (auto split: prod.splits)

lemma hif_put_take:
  "p + length vs \<le> length h \<Longrightarrow> length h < 2 ^ 32 \<Longrightarrow>
    hif_put vs (h, of_nat p) = Some (take p h @ vs @ drop (p + length vs) h, of_nat (p + length vs))"
proof (induction vs arbitrary: p h)
  case (Cons v vs)
  have "unat (of_nat p :: u32) = p" using Cons.prems by (simp add: unsigned_of_nat take_bit_nat_eq_self)
  then show ?case using Cons.prems Cons.IH [of "Suc p" "h[p := v]"]
    by (simp add: take_Suc_conv_app_nth upd_conv_take_nth_drop add.commute)
qed simp

lemma hif_put_start:
  "length vs \<le> length h \<Longrightarrow> length h < 2 ^ 32 \<Longrightarrow> map_option fst (hif_put vs (h, 0)) = Some (vs @ drop (length vs) h)"
  using hif_put_take [of 0 vs h] by simp

lemma hif_words: "map (\<lambda>i. of_nat (K + i)) [a..<b] = map of_nat [K + a..<K + b]"
  by (rule nth_equalityI) (auto simp: add.assoc)

lemma hif_range_words:
  "hif_range XFSBL_HIF_COLUMN a n = map of_nat [100 + unat a..<100 + unat n]"
  "hif_range XFSBL_HIF_ROW a n = map of_nat [200 + unat a..<200 + unat n]"
  "hif_range XFSBL_HIF_BANK a n = map of_nat [300 + unat a..<300 + unat n]"
  "hif_range XFSBL_HIF_BG a n = map of_nat [400 + unat a..<400 + unat n]"
  "hif_range XFSBL_HIF_RANK a n = map of_nat [500 + unat a..<500 + unat n]"
  unfolding hif_words [symmetric] hif_range_def
  by (simp_all add: XFSBL_HIF_COLUMN_def XFSBL_HIF_ROW_def XFSBL_HIF_BANK_def XFSBL_HIF_BG_def XFSBL_HIF_RANK_def)

lemma hif_index_append:
  "hif_index v (xs @ ys) = (case hif_index v xs of Some i \<Rightarrow> Some i | None \<Rightarrow> map_option ((+) (length xs)) (hif_index v ys))"
proof (induction xs)
  case (Cons x xs)
  then show ?case by (cases "hif_index v xs"; cases "hif_index v ys") auto
next
  case Nil
  then show ?case by (cases "hif_index v ys") auto
qed

lemma hif_index_upt:
  "v < 2 ^ 32 \<Longrightarrow> b \<le> 2 ^ 32 \<Longrightarrow>
    hif_index (of_nat v) (map of_nat [a..<b]) = (if a \<le> v \<and> v < b then Some (v - a) else None)"
proof (induction "b - a" arbitrary: a)
  case (Suc n)
  have "(of_nat a :: u32) = of_nat v \<longleftrightarrow> a = v" using Suc.prems Suc.hyps(2)
    by (simp add: word_of_nat_eq_iff take_bit_nat_eq_self)
  then show ?case using Suc.hyps(1) [of "Suc a"] Suc.hyps(2) Suc.prems by (auto simp: upt_conv_Cons [of a b])
qed simp

lemma hif_index_zeros: "v \<noteq> 0 \<Longrightarrow> hif_index v (replicate n 0) = None"
  by (induction n) auto

lemma those_map: "(\<And>x. x \<in> set xs \<Longrightarrow> f x = Some (g x)) \<Longrightarrow> those (map f xs) = Some (map g xs)"
  by (induction xs) auto

lemma those_None: "x \<in> set xs \<Longrightarrow> f x = None \<Longrightarrow> those (map f xs) = None"
  by (induction xs) (auto split: option.splits)

section \<open>What the search stores\<close>

text \<open>The number a memory bit has in the list, and the bits that a module of the given sizes has.  Columns 0 and 1
  are not searched for: the lowest three address bits of a burst have no register.\<close>

fun hif_number :: "dram_bit \<Rightarrow> nat" where
  "hif_number (Column c) = 100 + c"
| "hif_number (Row r) = 200 + r"
| "hif_number (Bank b) = 300 + b"
| "hif_number (BankGroup g) = 400 + g"

fun has_bit :: "XFsbl_DimmParams \<Rightarrow> dram_bit \<Rightarrow> bool" where
  "has_bit P (Column c) = (2 \<le> c \<and> c < unat (NumColAddr P))"
| "has_bit P (Row r) = (r < unat (NumRowAddr P))"
| "has_bit P (Bank b) = (b < unat (NumBankAddr P))"
| "has_bit P (BankGroup g) = (g < unat (NumBgAddr P))"

definition fits_map :: "XFsbl_DimmParams \<Rightarrow> bool" where
  "fits_map P = (NumColAddr P \<le> 12 \<and> NumRowAddr P \<le> 18 \<and> NumBankAddr P \<le> 3 \<and> NumBgAddr P \<le> 2)"

text \<open>The list \<open>L\<close> names the bit \<open>b\<close> at a place that its field can hold.\<close>

definition placed :: "u32 list \<Rightarrow> dram_bit \<Rightarrow> nat \<Rightarrow> bool" where
  "placed L b n = (hif_index (of_nat (hif_number b)) L = Some n \<and>
     (case bit_field b of None \<Rightarrow> False | Some (k, i, w, base) \<Rightarrow> base \<le> n \<and> n < base + (2 ^ w - 1)))"

lemma placed_field:
  "placed L b n \<Longrightarrow> \<exists>k i w base. bit_field b = Some (k, i, w, base) \<and> hif_index (of_nat (hif_number b)) L = Some n \<and>
    base \<le> n \<and> n < base + (2 ^ w - 1)"
  by (auto simp: placed_def split: option.splits)

lemma word_below: "n \<le> 2 ^ 31 \<Longrightarrow> (of_nat n :: u32) < N \<longleftrightarrow> n < unat N"
  by (simp add: word_less_nat_alt unsigned_of_nat take_bit_nat_eq_self)

text \<open>The searches, when every bit of the module is placed.\<close>

definition all_listed :: "XFsbl_DimmParams \<Rightarrow> u32 list \<Rightarrow> (dram_bit \<Rightarrow> nat) \<Rightarrow> bool" where
  "all_listed P L place = ((\<forall>b. has_bit P b \<longrightarrow> hif_index (of_nat (hif_number b)) L = Some (place b)) \<and>
     (\<forall>g. g < unat (NumBgAddr P) \<longrightarrow> g + 2 \<le> place (BankGroup g) \<and> place (BankGroup g) < 64))"

definition field_of :: "XFsbl_DimmParams \<Rightarrow> (dram_bit \<Rightarrow> nat) \<Rightarrow> dram_bit \<Rightarrow> u32" where
  "field_of P place b = (case bit_field b of None \<Rightarrow> 0
   | Some (k, i, w, base) \<Rightarrow> if has_bit P b then of_nat (place b) - of_nat base else mask w)"

lemma found: "all_listed P L place \<Longrightarrow> has_bit P b \<Longrightarrow> hif_index (of_nat (hif_number b)) L = Some (place b)"
  by (simp add: all_listed_def)

lemma word_of_nat_mono: "m \<le> n \<Longrightarrow> n < 2 ^ 31 \<Longrightarrow> (of_nat m :: u32) \<le> of_nat n"
  by (simp add: word_le_nat_alt unsigned_of_nat take_bit_nat_eq_self)

lemma max_counts: "unat XFSBL_MAX_BANKS = 3" "unat XFSBL_MAX_BANK_GROUPS = 2" "unat XFSBL_MAX_COLUMNS = 12" "unat XFSBL_MAX_ROWS = 18"
  by (simp_all add: XFSBL_MAX_BANKS_def XFSBL_MAX_BANK_GROUPS_def XFSBL_MAX_COLUMNS_def XFSBL_MAX_ROWS_def)

lemma searched:
  assumes "all_listed P L place"
  shows "XFsbl_DdrCalcBankAddr P L = Some (map (\<lambda>b. field_of P place (Bank b)) [0..<3])"
    and "XFsbl_DdrCalcBgAddr P L = Some (map (\<lambda>b. field_of P place (BankGroup b)) [0..<2])"
    and "XFsbl_DdrCalcColAddr P L = Some (map (\<lambda>b. field_of P place (Column b)) [2..<12])"
    and "XFsbl_DdrCalcRowAddr P L = Some (map (\<lambda>b. field_of P place (Row b)) [0..<18])"
proof -
  note defs = XFsbl_DdrCalcBankAddr_def XFsbl_DdrCalcColAddr_def XFsbl_DdrCalcRowAddr_def XFsbl_DdrCalcBgAddr_def
  note facts = field_of_def word_below mask_eq_exp_minus_1 XFSBL_HIF_BANK_def XFSBL_HIF_COLUMN_def XFSBL_HIF_ROW_def XFSBL_HIF_BG_def
  show "XFsbl_DdrCalcBankAddr P L = Some (map (\<lambda>b. field_of P place (Bank b)) [0..<3])"
    unfolding defs map_map o_def max_counts by (intro those_map) (use found [OF assms, of "Bank _"] in \<open>auto simp: facts\<close>)
  show "XFsbl_DdrCalcColAddr P L = Some (map (\<lambda>b. field_of P place (Column b)) [2..<12])"
    unfolding defs map_map o_def max_counts by (intro those_map) (use found [OF assms, of "Column _"] in \<open>auto simp: facts\<close>)
  show "XFsbl_DdrCalcRowAddr P L = Some (map (\<lambda>b. field_of P place (Row b)) [0..<18])"
    unfolding defs map_map o_def max_counts by (intro those_map) (use found [OF assms, of "Row _"] in \<open>auto simp: facts\<close>)
  show "XFsbl_DdrCalcBgAddr P L = Some (map (\<lambda>b. field_of P place (BankGroup b)) [0..<2])"
    unfolding defs map_map o_def max_counts
  proof (intro those_map)
    fix g assume g: "g \<in> set [0..<2::nat]"
    have "of_nat g + 2 \<le> (of_nat (place (BankGroup g)) :: u32)" if "has_bit P (BankGroup g)"
    proof -
      have "of_nat (g + 2) \<le> (of_nat (place (BankGroup g)) :: u32)"
        using that assms by (intro word_of_nat_mono) (force simp: all_listed_def)+
      then show ?thesis by (simp add: add.commute)
    qed
    then show "(if of_nat g < NumBgAddr P
        then map_option (\<lambda>Index. if of_nat g + 2 \<le> (of_nat Index :: u32) then of_nat Index - (of_nat g + 2) else 0) (hif_index (XFSBL_HIF_BG (of_nat g)) L)
        else Some 0x1F) = Some (field_of P place (BankGroup g))"
      using g found [OF assms, of "BankGroup g"] by (auto simp: facts)
  qed
qed

text \<open>A placed bit reads back from the registers at its place in the list, a bit the module lacks as unused.\<close>

lemma hif_bit_placed:
  assumes fits: "fits_map P" and placed: "has_bit P b \<Longrightarrow> placed L b (place b)"
    and field: "\<And>k i w base. bit_field b = Some (k, i, w, base) \<Longrightarrow> stored_field D b = field_of P place b"
  shows "hif_bit (address_regs D) b = (if has_bit P b then Some (place b) else None)"
proof (cases "has_bit P b")
  case True
  then obtain k i w base where f: "bit_field b = Some (k, i, w, base)" "base \<le> place b" "place b < base + (2 ^ w - 1)"
    using placed placed_field [of L b "place b"] by auto
  have w: "w \<le> 5" "base < 32" using f(1) by (cases b; auto split: if_splits)+
  have "(2::nat) ^ w \<le> 2 ^ 5" using w(1) by (rule power_increasing) simp
  then have "place b - base < 2 ^ w" "place b < 64" using f(2,3) w(2) by auto
  moreover have "of_nat (place b) - of_nat base = (of_nat (place b - base) :: u32)" using f(2) by (simp add: of_nat_diff)
  ultimately have "unat (stored_field D b AND mask w) = place b - base"
    using True w field [OF f(1)] f(1)
    by (simp add: field_of_def take_bit_of_nat unsigned_of_nat take_bit_nat_eq_self flip: take_bit_eq_mask)
  then show ?thesis using True f unfolding hif_bit_stored by (auto simp: Let_def)
next
  case False
  then show ?thesis unfolding hif_bit_stored
    using field by (cases b) (auto simp: field_of_def mask_eq_exp_minus_1 split: if_splits)
qed

section \<open>The whole map\<close>

definition decodes :: "DdrcInitData option \<Rightarrow> (dram_bit \<Rightarrow> nat option) \<Rightarrow> bool" where
  "decodes r d = (case r of None \<Rightarrow> False | Some D \<Rightarrow> hif_bit (address_regs D) = d)"

definition bus_list :: "XFsbl_DimmParams \<Rightarrow> u32 list \<Rightarrow> u32 list" where
  "bus_list P L = (let L = (if BusWidth P \<le> 32 then hif_shift L else L) in if BusWidth P = 16 then hif_shift L else L)"

lemma address_bits_listed:
  assumes "hif_order C (PDimm D) (replicate 40 0) = Some L" "all_listed (PDimm D) (bus_list (PDimm D) L) place"
    "2 \<le> length (AddrMapColBit D)"
  obtains D' where "address_bits C D = Some D'"
    "\<And>b k i w base. bit_field b = Some (k, i, w, base) \<Longrightarrow> stored_field D' b = field_of (PDimm D) place b"
proof -
  have two: "Suc (Suc (c - 2)) = c" if "2 \<le> c" for c using that by arith
  obtain D' where D': "address_bits C D = Some D'"
    "AddrMapBankBit D' = map (\<lambda>b. field_of (PDimm D) place (Bank b)) [0..<3]"
    "AddrMapBgBit D' = map (\<lambda>b. field_of (PDimm D) place (BankGroup b)) [0..<2]"
    "AddrMapColBit D' = take 2 (AddrMapColBit D) @ map (\<lambda>b. field_of (PDimm D) place (Column b)) [2..<12]"
    "AddrMapRowBit D' = map (\<lambda>b. field_of (PDimm D) place (Row b)) [0..<18]"
    using assms(1) searched [OF assms(2)] by (simp add: address_bits_def bus_list_def Let_def del: upt_rec_numeral)
  have "stored_field D' b = field_of (PDimm D) place b" if "bit_field b = Some f" for b f
    using that D' assms(3) by (cases b) (auto simp: nth_append min_def two split: if_splits simp del: upt_rec_numeral)
  then show ?thesis using that D'(1) by blast
qed

lemma placed_listed:
  assumes "\<And>b. has_bit P b \<Longrightarrow> placed L b (place b)"
  shows "all_listed P L place"
proof -
  have "g + 2 \<le> place (BankGroup g) \<and> place (BankGroup g) < 64" if "g < unat (NumBgAddr P)" for g
    using assms [of "BankGroup g"] that by (auto simp: placed_def split: if_splits)
  then show ?thesis using assms by (auto simp: all_listed_def placed_def)
qed

section \<open>The default mapping\<close>

text \<open>The bits in the order column, bank group, bank, row, rank.\<close>

abbreviation words :: "nat \<Rightarrow> nat \<Rightarrow> u32 list" where
  "words a b \<equiv> map of_nat [a..<b]"

definition default_list :: "XFsbl_DimmParams \<Rightarrow> u32 list" where
  "default_list P = words 100 (100 + unat (NumColAddr P)) @ words 400 (400 + unat (NumBgAddr P)) @
     words 300 (300 + unat (NumBankAddr P)) @ words 200 (200 + unat (NumRowAddr P)) @ words 500 (500 + unat (NumRankAddr P))"

fun default_place :: "XFsbl_DimmParams \<Rightarrow> dram_bit \<Rightarrow> nat" where
  "default_place P (Column c) = c"
| "default_place P (BankGroup g) = unat (NumColAddr P) + g"
| "default_place P (Bank b) = unat (NumColAddr P) + unat (NumBgAddr P) + b"
| "default_place P (Row r) = unat (NumColAddr P) + unat (NumBgAddr P) + unat (NumBankAddr P) + r"

text \<open>The configurations that take this order: DDR4 without the two other mappings, and any other memory (which has
  no bank groups) without a video buffer.\<close>

definition default_mapping :: "ddr_config \<Rightarrow> XFsbl_DimmParams \<Rightarrow> bool" where
  "default_mapping C P = (XPAR_PSU_DDRC_0_VIDEO_BUFFER_SIZE C = 0 \<and>
     (if MemType P = SPD_MEMTYPE_DDR4 then XPAR_PSU_DDRC_0_BRC_MAPPING C \<noteq> 1 \<and> XPAR_PSU_DDRC_0_DDR4_ADDR_MAPPING C \<noteq> 1
      else NumBgAddr P = 0))"

lemma default_order:
  assumes "default_mapping C P" "length (default_list P) \<le> length h" "length h < 2 ^ 32"
  shows "hif_order C P h = Some (default_list P @ drop (length (default_list P)) h)"
proof -
  have "hif_order C P h = map_option fst (hif_put (default_list P) (h, 0))"
    using assms(1) unfolding hif_order_def default_mapping_def default_list_def
    by (auto simp: XFsbl_DdrCalcDdr4HifAddr_def XFsbl_DdrCalcHifAddr_def hif_range_words hif_put_append Option.bind_assoc
          map_conv_bind_option o_def split: if_splits)
  then show ?thesis using hif_put_start [OF assms(2,3)] by simp
qed

lemma default_placed:
  assumes "fits_map P" "6 \<le> NumColAddr P" "has_bit P b"
  shows "placed (default_list P @ rest) b (default_place P b)"
proof -
  have sizes: "unat (NumColAddr P) \<le> 12" "6 \<le> unat (NumColAddr P)" "unat (NumRowAddr P) \<le> 18" "unat (NumBankAddr P) \<le> 3" "unat (NumBgAddr P) \<le> 2"
    using assms by (auto simp: fits_map_def word_le_nat_alt)
  show ?thesis
    using assms(3) sizes unfolding placed_def default_list_def
    by (cases b) (auto simp: hif_index_append hif_index_upt simp del: of_nat_add)
qed

definition fits_list :: "XFsbl_DimmParams \<Rightarrow> bool" where
  "fits_list P = (fits_map P \<and> 9 \<le> NumColAddr P \<and> NumRankAddr P \<le> 5)"

lemma default_length: "fits_list P \<Longrightarrow> length (default_list P) \<le> 40"
  by (simp add: fits_list_def fits_map_def default_list_def word_le_nat_alt)

lemma default_map:
  assumes "default_mapping C (PDimm D)" "fits_list (PDimm D)" "BusWidth (PDimm D) = 64" "2 \<le> length (AddrMapColBit D)"
  shows "decodes (address_bits C D) (\<lambda>b. if has_bit (PDimm D) b then Some (default_place (PDimm D) b) else None)"
proof -
  let ?P = "PDimm D" and ?L = "default_list (PDimm D) @ drop (length (default_list (PDimm D))) (replicate 40 0)"
  have fits: "fits_map ?P" "6 \<le> NumColAddr ?P" using assms(2) by (auto simp: fits_list_def word_le_nat_alt)
  have order: "hif_order C ?P (replicate 40 0) = Some ?L"
    using default_order [OF assms(1), of "replicate 40 0"] default_length [OF assms(2)] by simp
  have bus: "bus_list ?P ?L = ?L" using assms(3) by (simp add: bus_list_def)
  have placed: "placed ?L b (default_place ?P b)" if "has_bit ?P b" for b by (rule default_placed [OF fits that])
  obtain D' where D': "address_bits C D = Some D'"
    "\<And>b k i w base. bit_field b = Some (k, i, w, base) \<Longrightarrow> stored_field D' b = field_of ?P (default_place ?P) b"
    using address_bits_listed [OF order _ assms(4), of "default_place ?P"] placed_listed [OF placed] bus by auto
  show ?thesis using hif_bit_placed [OF fits(1) placed D'(2)] by (simp add: decodes_def D'(1) fun_eq_iff)
qed

lemma default_bij:
  "bij_betw (default_place P) {b. has_bit P b}
    {2..<unat (NumColAddr P) + unat (NumBgAddr P) + unat (NumBankAddr P) + unat (NumRowAddr P)}"
  if "2 \<le> NumColAddr P"
proof -
  let ?c = "unat (NumColAddr P)" and ?g = "unat (NumBgAddr P)" and ?b = "unat (NumBankAddr P)" and ?r = "unat (NumRowAddr P)"
  have c: "2 \<le> ?c" using that by (simp add: word_le_nat_alt)
  have "inj_on (default_place P) {b. has_bit P b}"
  proof (rule inj_onI)
    fix x y assume "x \<in> {b. has_bit P b}" "y \<in> {b. has_bit P b}" "default_place P x = default_place P y"
    then show "x = y" by (cases x; cases y) auto
  qed
  moreover have "n \<in> default_place P ` {b. has_bit P b}" if n: "n \<in> {2..<?c + ?g + ?b + ?r}" for n
  proof -
    consider "n < ?c" | "?c \<le> n" "n < ?c + ?g" | "?c + ?g \<le> n" "n < ?c + ?g + ?b" | "?c + ?g + ?b \<le> n" by linarith
    then show ?thesis
    proof cases
      case 1 then show ?thesis using n by (intro image_eqI [of _ _ "Column n"]) auto
    next
      case 2 then show ?thesis using n by (intro image_eqI [of _ _ "BankGroup (n - ?c)"]) auto
    next
      case 3 then show ?thesis using n by (intro image_eqI [of _ _ "Bank (n - ?c - ?g)"]) auto
    next
      case 4 then show ?thesis using n by (intro image_eqI [of _ _ "Row (n - ?c - ?g - ?b)"]) auto
    qed
  qed
  moreover have "default_place P b \<in> {2..<?c + ?g + ?b + ?r}" if "has_bit P b" for b
    using that c by (cases b) auto
  ultimately show ?thesis unfolding bij_betw_def by blast
qed

section \<open>A bus of 32 bits\<close>

lemma hif_index_shift: "hif_index v L = Some (Suc n) \<Longrightarrow> hif_index v (hif_shift L) = Some n"
  by (cases L) (auto simp: hif_shift_def hif_index_append split: if_splits)

lemma narrow_column:
  assumes "bit_field (Column c) = Some (k, i, w, base)" "stored_field D (Column c) = of_nat (c - 1) - of_nat c"
  shows "hif_bit (address_regs D) (Column c) = None"
proof -
  have c: "2 \<le> c" "w = 4" using assms(1) by (auto split: if_splits)
  then have "stored_field D (Column c) = - 1" unfolding assms(2) by (simp add: of_nat_diff)
  then show ?thesis unfolding hif_bit_stored using assms(1) c(2) by (simp add: mask_eq_exp_minus_1)
qed

lemma narrow_map:
  assumes "default_mapping C (PDimm D)" "fits_list (PDimm D)" "BusWidth (PDimm D) = 32" "2 \<le> length (AddrMapColBit D)"
  shows "decodes (address_bits C D) (\<lambda>b. case b of Column c \<Rightarrow> None
    | _ \<Rightarrow> if has_bit (PDimm D) b then Some (default_place (PDimm D) b - 1) else None)"
proof -
  let ?P = "PDimm D" and ?L = "default_list (PDimm D) @ drop (length (default_list (PDimm D))) (replicate 40 0)"
  let ?place = "\<lambda>b. default_place ?P b - 1"
  have fits: "fits_map ?P" "6 \<le> NumColAddr ?P" "9 \<le> unat (NumColAddr ?P)"
    using assms(2) by (auto simp: fits_list_def word_le_nat_alt)
  have order: "hif_order C ?P (replicate 40 0) = Some ?L"
    using default_order [OF assms(1), of "replicate 40 0"] default_length [OF assms(2)] by simp
  have bus: "bus_list ?P ?L = hif_shift ?L" using assms(3) by (simp add: bus_list_def)
  have listed: "hif_index (of_nat (hif_number b)) (hif_shift ?L) = Some (?place b)" if "has_bit ?P b" for b
  proof (rule hif_index_shift)
    have "0 < default_place ?P b" using that fits(3) by (cases b) auto
    then show "hif_index (of_nat (hif_number b)) ?L = Some (Suc (?place b))"
      using default_placed [OF fits(1,2) that] by (simp add: placed_def)
  qed
  have placed: "placed (hif_shift ?L) b (?place b)" if "has_bit ?P b" "\<And>c. b \<noteq> Column c" for b
    using listed [OF that(1)] that fits(1,3) unfolding placed_def fits_map_def word_le_nat_alt by (cases b) auto
  have "all_listed ?P (hif_shift ?L) ?place"
    using listed fits(1,3) by (auto simp: all_listed_def fits_map_def word_le_nat_alt)
  then obtain D' where D': "address_bits C D = Some D'"
    "\<And>b k i w base. bit_field b = Some (k, i, w, base) \<Longrightarrow> stored_field D' b = field_of ?P ?place b"
    using address_bits_listed [OF order _ assms(4), of ?place] bus by auto
  have "hif_bit (address_regs D') (Column c) = None" for c
  proof (cases "has_bit ?P (Column c)")
    case True
    then obtain k i w base where f: "bit_field (Column c) = Some (k, i, w, base)" "base = c"
      using fits(1) by (auto simp: fits_map_def word_le_nat_alt)
    then show ?thesis using narrow_column [OF f(1)] D'(2) [OF f(1)] True by (simp add: field_of_def)
  next
    case False
    have "hif_bit (address_regs D') (Column c) = (if has_bit ?P (Column c) then Some (?place (Column c)) else None)"
      by (rule hif_bit_placed [where L = "[]", OF fits(1) _ D'(2)]) (use False in simp_all)
    with False show ?thesis by simp
  qed
  moreover have "hif_bit (address_regs D') b = (if has_bit ?P b then Some (?place b) else None)" if "\<And>c. b \<noteq> Column c" for b
    by (rule hif_bit_placed [OF fits(1)]) (use placed D'(2) that in blast)+
  ultimately show ?thesis by (auto simp: decodes_def D'(1) fun_eq_iff split: dram_bit.splits)
qed

section \<open>Mappings that lose a bit\<close>

lemma hif_put_set: "hif_put vs st = Some st' \<Longrightarrow> set (fst st') \<subseteq> set (fst st) \<union> set vs"
proof (induction vs arbitrary: st)
  case (Cons v vs)
  obtain h p where st: "st = (h, p)" by (cases st)
  have "hif_put vs (h[unat p := v], p + 1) = Some st'" using Cons.prems st by (simp split: if_splits)
  from Cons.IH [OF this] show ?case using set_update_subset_insert [of h "unat p" v] st by auto
qed simp

lemma hif_index_None: "v \<notin> set L \<Longrightarrow> hif_index v L = None"
  by (induction L) auto

lemma unlisted:
  assumes "hif_index (of_nat (hif_number b)) (bus_list P L) = None" "has_bit P b" "bit_field b = Some f"
  shows "(case b of Column c \<Rightarrow> XFsbl_DdrCalcColAddr P (bus_list P L) | Row r \<Rightarrow> XFsbl_DdrCalcRowAddr P (bus_list P L)
    | Bank k \<Rightarrow> XFsbl_DdrCalcBankAddr P (bus_list P L) | BankGroup g \<Rightarrow> XFsbl_DdrCalcBgAddr P (bus_list P L)) = None"
proof (cases b)
  case (Column c)
  show ?thesis unfolding Column dram_bit.case XFsbl_DdrCalcColAddr_def map_map max_counts
    by (rule those_None [of c]) (use assms in \<open>auto simp: Column XFSBL_HIF_COLUMN_def word_below split: if_splits simp del: upt_rec_numeral\<close>)
next
  case (Row c)
  show ?thesis unfolding Row dram_bit.case XFsbl_DdrCalcRowAddr_def map_map max_counts
    by (rule those_None [of c]) (use assms in \<open>auto simp: Row XFSBL_HIF_ROW_def word_below word_below [of 11, simplified] split: if_splits simp del: upt_rec_numeral\<close>)
next
  case (Bank c)
  show ?thesis unfolding Bank dram_bit.case XFsbl_DdrCalcBankAddr_def map_map max_counts
    by (rule those_None [of c]) (use assms in \<open>auto simp: Bank XFSBL_HIF_BANK_def word_below split: if_splits simp del: upt_rec_numeral\<close>)
next
  case (BankGroup c)
  show ?thesis unfolding BankGroup dram_bit.case XFsbl_DdrCalcBgAddr_def map_map max_counts
    by (rule those_None [of c]) (use assms in \<open>auto simp: BankGroup XFSBL_HIF_BG_def word_below split: if_splits simp del: upt_rec_numeral\<close>)
qed

lemma bus_list_set: "set (bus_list P L) \<subseteq> insert 0 (set L)"
  by (cases L; cases "tl L") (auto simp: bus_list_def hif_shift_def Let_def)

lemma address_bits_unlisted:
  assumes "\<And>L. hif_order C (PDimm D) (replicate 40 0) = Some L \<Longrightarrow> of_nat (hif_number b) \<notin> insert 0 (set L)"
    "has_bit (PDimm D) b" "bit_field b = Some f"
  shows "address_bits C D = None"
proof (cases "hif_order C (PDimm D) (replicate 40 0)")
  case None
  then show ?thesis by (simp add: address_bits_def)
next
  case (Some L)
  have "hif_index (of_nat (hif_number b)) (bus_list (PDimm D) L) = None"
    using assms(1) [OF Some] bus_list_set by (intro hif_index_None) blast
  from unlisted [OF this assms(2,3)] show ?thesis
    using Some unfolding address_bits_def bus_list_def Let_def
    by (cases b) (simp_all del: upt_rec_numeral split: bind_splits)
qed

text \<open>The two other DDR4 mappings name bank group 0 alone.\<close>

lemma fixed_set: "set (fst (hif_fixed (replicate 40 0))) \<subseteq> {0, 100, 101, 102, 400}"
  by (simp add: hif_fixed_def XFSBL_HIF_COLUMN_def XFSBL_HIF_BG_def numeral_eq_Suc)

lemma word_in_words: "n < 2 ^ 32 \<Longrightarrow> b \<le> 2 ^ 32 \<Longrightarrow> of_nat n \<in> set (words a b) \<longleftrightarrow> a \<le> n \<and> n < b"
  using hif_index_upt [of n b a]
proof -
  assume *: "n < 2 ^ 32" "b \<le> 2 ^ 32"
  have "of_nat n = (of_nat m :: u32) \<longleftrightarrow> n = m" if "m < b" for m
    using * that by (simp add: word_of_nat_eq_iff take_bit_nat_eq_self)
  then show ?thesis by force
qed

definition brc_list :: "XFsbl_DimmParams \<Rightarrow> u32 list" where
  "brc_list P = words 103 (100 + unat (NumColAddr P)) @ words 200 (200 + unat (NumRowAddr P)) @
     words 300 (300 + unat (NumBankAddr P)) @ words 500 (500 + unat (NumRankAddr P))"

definition mem_list :: "XFsbl_DimmParams \<Rightarrow> u32 list" where
  "mem_list P = words 103 (100 + unat (NumColAddr P)) @ words 300 (300 + unat (NumBankAddr P)) @
     words 200 (200 + unat (NumRowAddr P)) @ words 500 (500 + unat (NumRankAddr P))"

lemma one_group_lists:
  "XFsbl_DdrCalcHifAddrBrcMap P h = map_option fst (hif_put (brc_list P) (hif_fixed h))"
  "XFsbl_DdrCalcHifAddrMemMap P h = map_option fst (hif_put (mem_list P) (hif_fixed h))"
  by (simp_all add: XFsbl_DdrCalcHifAddrBrcMap_def XFsbl_DdrCalcHifAddrMemMap_def brc_list_def mem_list_def hif_range_words
      hif_put_append Option.bind_assoc map_conv_bind_option o_def)

definition one_group_mapping :: "ddr_config \<Rightarrow> XFsbl_DimmParams \<Rightarrow> bool" where
  "one_group_mapping C P = (XPAR_PSU_DDRC_0_VIDEO_BUFFER_SIZE C = 0 \<and> MemType P = SPD_MEMTYPE_DDR4 \<and>
     (XPAR_PSU_DDRC_0_BRC_MAPPING C = 1 \<or> XPAR_PSU_DDRC_0_DDR4_ADDR_MAPPING C = 1))"

lemma one_group_unlisted:
  assumes "one_group_mapping C P" "fits_map P" "NumRankAddr P \<le> 5" "hif_order C P (replicate 40 0) = Some L"
  shows "401 \<notin> insert 0 (set L)"
proof -
  have sizes: "unat (NumColAddr P) \<le> 12" "unat (NumRowAddr P) \<le> 18" "unat (NumBankAddr P) \<le> 3" "unat (NumRankAddr P) \<le> 5"
    using assms(2,3) by (auto simp: fits_map_def word_le_nat_alt)
  have unnamed: "401 \<notin> set (brc_list P)" "401 \<notin> set (mem_list P)"
    using sizes word_in_words [of 401] by (simp_all add: brc_list_def mem_list_def)
  have "hif_order C P (replicate 40 0) = map_option fst (hif_put (if XPAR_PSU_DDRC_0_BRC_MAPPING C = 1 then brc_list P else mem_list P)
      (hif_fixed (replicate 40 0)))"
    using assms(1) by (auto simp: hif_order_def one_group_mapping_def one_group_lists)
  then have "map_option fst (hif_put (if XPAR_PSU_DDRC_0_BRC_MAPPING C = 1 then brc_list P else mem_list P) (hif_fixed (replicate 40 0))) = Some L"
    using assms(4) by simp
  then obtain st where st: "hif_put (if XPAR_PSU_DDRC_0_BRC_MAPPING C = 1 then brc_list P else mem_list P) (hif_fixed (replicate 40 0)) = Some st" "L = fst st"
    by auto
  have "401 \<notin> set (fst (hif_fixed (replicate 40 0)))" using fixed_set by (auto dest!: subsetD)
  then have "401 \<notin> set L" using hif_put_set [OF st(1)] unnamed st(2) by (auto split: if_splits dest!: subsetD)
  then show ?thesis by simp
qed


lemma one_group_map:
  assumes "one_group_mapping C (PDimm D)" "fits_map (PDimm D)" "NumRankAddr (PDimm D) \<le> 5" "NumBgAddr (PDimm D) = 2"
  shows "address_bits C D = None"
  by (rule address_bits_unlisted [of C D "BankGroup 1"])
     (use one_group_unlisted [OF assms(1-3)] assms(4) in \<open>auto simp del: insert_iff\<close>)

text \<open>With a video buffer, memory other than DDR4 has its column 2 in no place, wherever the list begins.\<close>

lemma hif_put_length: "hif_put vs (h, p) = Some st \<Longrightarrow> length h < 2 ^ 32 \<Longrightarrow> vs = [] \<or> unat p + length vs \<le> length h"
proof (induction vs arbitrary: h p)
  case (Cons v vs)
  have p: "unat p < length h" and put: "hif_put vs (h[unat p := v], p + 1) = Some st" using Cons.prems(1) by (auto split: if_splits)
  have "unat (p + 1) = unat p + 1" using p Cons.prems(2) by (simp add: unat_word_ariths)
  then show ?case using Cons.IH [OF put] Cons.prems(2) p by auto
qed simp

lemma hif_put_Some:
  assumes "hif_put vs (h, p) = Some st" "length h < 2 ^ 32"
  shows "length vs \<le> length h" "set (fst st) \<subseteq> set h \<union> set vs" "length (fst st) = length h"
proof -
  have "length (fst st) = length h" if "hif_put vs (h, p) = Some st" for vs and h :: "u32 list" and p
    using that by (induction vs arbitrary: h p) (auto split: if_splits)
  then show "length (fst st) = length h" using assms(1) by blast
qed (use hif_put_length [OF assms] hif_put_set [OF assms(1)] in auto)

lemma video_width: "20 \<le> unat (video_width P b) \<and> unat (video_width P b) < 32"
proof -
  let ?f = "find (\<lambda>i. push_bit i 1 = b) [0..<7]"
  have "i < 7" if "?f = Some i" for i using that by (metis find_Some_iff atLeastLessThan_iff nth_mem set_upt)
  then obtain j where j: "(case ?f of Some i \<Rightarrow> of_nat i + 20 | None \<Rightarrow> (20 :: u32)) = of_nat j" "20 \<le> j" "j < 27"
    by (cases ?f) (force intro: that [of 20] that [of "20 + _"])+
  have "video_width P b = of_nat (j + (if BusWidth P = 16 then 2 else 0) + (if BusWidth P = 32 then 1 else 0))"
    unfolding video_width_def Let_def j(1) by simp
  then show ?thesis using j(2,3) by (simp add: unsigned_of_nat take_bit_nat_eq_self del: of_nat_add)
qed

lemma row_number: "i < 40 \<Longrightarrow> unat d < 32 \<Longrightarrow> (200 + of_nat i + d :: u32) \<noteq> 102"
proof -
  assume *: "i < 40" "unat d < 32"
  have "(of_nat (200 + i + unat d) :: u32) \<noteq> of_nat 102"
    using * by (subst word_of_nat_eq_iff) (simp add: take_bit_nat_eq_self)
  then show ?thesis by simp
qed

lemma video_unlisted:
  assumes "MemType P \<noteq> SPD_MEMTYPE_DDR4" "fits_map P" "NumRankAddr P \<le> 5"
    "XFsbl_DdrCalcHifAddrVideo C P (replicate 40 0) b = Some L"
  shows "102 \<notin> insert 0 (set L)"
proof -
  let ?d = "video_width P b - NumColAddr P"
  have sizes: "unat (NumColAddr P) \<le> 12" "unat (NumBankAddr P) \<le> 3" "unat (NumRankAddr P) \<le> 5"
    using assms(2,3) by (auto simp: fits_map_def word_le_nat_alt)
  define vs where "vs = words 103 (100 + unat (NumColAddr P)) @ hif_range XFSBL_HIF_ROW 0 (?d - 3) @ words 300 (300 + unat (NumBankAddr P)) @
    hif_range (\<lambda>i. XFSBL_HIF_ROW i + (?d - 4)) 0 (NumRowAddr P - (?d - 3)) @ words 500 (500 + unat (NumRankAddr P))"
  have put: "map_option fst (hif_put vs (replicate 40 0, uninit C)) = Some L"
    using assms(1,4) by (simp add: XFsbl_DdrCalcHifAddrVideo_def vs_def hif_range_words hif_put_append Option.bind_assoc
      map_conv_bind_option o_def Let_def)
  then obtain st where st: "hif_put vs (replicate 40 0, uninit C) = Some st" "L = fst st" by auto
  have len: "length vs \<le> 40" and set: "set L \<subseteq> insert 0 (set vs)"
    using hif_put_Some [OF st(1)] st(2) by auto
  have rows: "102 \<notin> set (hif_range (\<lambda>i. XFSBL_HIF_ROW i + d) 0 n)" if "length (hif_range (\<lambda>i. XFSBL_HIF_ROW i + d) 0 n) \<le> 40" "unat d < 32" for d n
    using that row_number by (auto simp: hif_range_def XFSBL_HIF_ROW_def)
  have "unat (?d - 4) < 32"
  proof -
    have "NumColAddr P \<le> video_width P b" "4 \<le> ?d" using sizes(1) video_width [of P b] by (auto simp: word_le_nat_alt unat_sub)
    then show ?thesis using video_width [of P b] by (simp add: unat_sub less_imp_diff_less)
  qed
  then have "102 \<notin> set vs"
    using rows [of "?d - 4" "NumRowAddr P - (?d - 3)"] rows [of 0 "?d - 3"] len sizes word_in_words [of 102]
    by (simp add: vs_def)
  then show ?thesis using set by auto
qed

lemma video_map:
  assumes "XPAR_PSU_DDRC_0_VIDEO_BUFFER_SIZE C \<noteq> 0" "MemType (PDimm D) \<noteq> SPD_MEMTYPE_DDR4" "fits_map (PDimm D)" "3 \<le> NumColAddr (PDimm D)"
    "NumRankAddr (PDimm D) \<le> 5"
  shows "address_bits C D = None"
proof (rule address_bits_unlisted [of C D "Column 2"])
  show "of_nat (hif_number (Column 2)) \<notin> insert 0 (set L)" if "hif_order C (PDimm D) (replicate 40 0) = Some L" for L
    using video_unlisted [OF assms(2,3,5)] that assms(1) by (simp add: hif_order_def)
qed (use assms(4) in \<open>auto simp: word_le_nat_alt\<close>)

section \<open>What the maps come to\<close>

text \<open>A module of 4 GB, and a board that asks for nothing special.\<close>

definition module_4GB :: DdrcInitData where
  "module_4GB = DdrData\<lparr>PDimm := dimm_zero\<lparr>MemType := SPD_MEMTYPE_DDR4, BusWidth := 64, NumRowAddr := 15, NumColAddr := 10,
     NumBankAddr := 2, NumBgAddr := 2\<rparr>\<rparr>"

definition plain_board :: ddr_config where
  "plain_board = \<lparr>dimm_ddr4_only = True, cfg_ddr_sr = False, XPAR_PSU_DDRC_0_VIDEO_BUFFER_SIZE = 0, XPAR_PSU_DDRC_0_BRC_MAPPING = 0,
     XPAR_PSU_DDRC_0_DDR4_ADDR_MAPPING = 0, XPAR_PSU_DDRC_0_DDR_ADDRESS_MIRRORING = 0, XPAR_PSU_DDRC_0_DDR_DATA_MASK_AND_DBI = 0,
     XPAR_PSU_DDRC_0_HAS_ECC = 0, XPAR_PSU_DDRC_0_DDR_2ND_CLOCK = 0, XPAR_PSU_DDRC_0_DDR_PARITY = 0,
     XPAR_PSU_DDRC_0_DDR_POWER_DOWN_ENABLE = 0, XPAR_PSU_DDRC_0_CLOCK_STOP = 0, XPAR_PSU_DDRC_0_DDR_LOW_POWER_AUTO_SELF_REFRESH = 0,
     XPAR_PSU_DDRC_0_DDR_TEMP_CONTROLLED_REFRESH = 0, XPAR_PSU_DDRC_0_DDR_MAX_OPERATING_TEMPARATURE = 0,
     XPAR_PSU_DDRC_0_DDR_FINE_GRANULARITY_REFRESH_MODE = 0, XPAR_PSU_DDRC_0_DDR_SELF_REFRESH_ABORT = 0, uninit = 0\<rparr>"

lemma module_4GB_sizes:
  "MemType (PDimm module_4GB) = SPD_MEMTYPE_DDR4" "BusWidth (PDimm module_4GB) = 64" "NumRowAddr (PDimm module_4GB) = 15"
  "NumColAddr (PDimm module_4GB) = 10" "NumBankAddr (PDimm module_4GB) = 2" "NumBgAddr (PDimm module_4GB) = 2"
  "NumRankAddr (PDimm module_4GB) = 0" "AddrMapColBit module_4GB = replicate 12 0"
  by (simp_all add: module_4GB_def DdrData_def dimm_zero_def)

lemmas module_4GB_fits = module_4GB_sizes default_mapping_def one_group_mapping_def fits_list_def fits_map_def plain_board_def

text \<open>C17: on a bus of 64 bits the registers of the address map send every row, column, bank and bank-group bit of the module to
  its place in the default order, every other bit to no place, and the places are all different and leave no gap: each system
  address belongs to exactly one cell of the memory.\<close>

theorem address_map_bijective:
  assumes "default_mapping C (PDimm D)" and "fits_list (PDimm D)" and "BusWidth (PDimm D) = 64" and "2 \<le> length (AddrMapColBit D)"
  shows "\<exists>D'. address_bits C D = Some D' \<and>
     hif_bit (address_regs D') = (\<lambda>b. if has_bit (PDimm D) b then Some (default_place (PDimm D) b) else None) \<and>
     bij_betw (default_place (PDimm D)) {b. has_bit (PDimm D) b} {2..<unat (NumColAddr (PDimm D)) + unat (NumBgAddr (PDimm D)) +
       unat (NumBankAddr (PDimm D)) + unat (NumRowAddr (PDimm D))}"
proof -
  have "2 \<le> NumColAddr (PDimm D)" using assms(2) by (auto simp: fits_list_def word_le_nat_alt)
  with default_map [OF assms] default_bij [of "PDimm D"] show ?thesis by (auto simp: decodes_def split: option.splits)
qed

lemma address_map_bijective_witness:
  "\<exists>D'. address_bits plain_board module_4GB = Some D' \<and>
     hif_bit (address_regs D') = (\<lambda>b. if has_bit (PDimm module_4GB) b then Some (default_place (PDimm module_4GB) b) else None) \<and>
     bij_betw (default_place (PDimm module_4GB)) {b. has_bit (PDimm module_4GB) b} {2..<29}"
  using address_map_bijective [of plain_board module_4GB] by (simp add: module_4GB_fits)

text \<open>C19: on a bus of 32 bits the map loses the columns.  The list is moved by one place, the difference that a column is stored
  as becomes negative, and its field of ones says that the column is not used; rows, banks and bank groups are one place lower.\<close>

theorem narrow_bus_loses_columns:
  assumes "default_mapping C (PDimm D)" and "fits_list (PDimm D)" and "BusWidth (PDimm D) = 32" and "2 \<le> length (AddrMapColBit D)"
  shows "\<exists>D'. address_bits C D = Some D' \<and> hif_bit (address_regs D') = (\<lambda>b. case b of Column c \<Rightarrow> None
    | _ \<Rightarrow> if has_bit (PDimm D) b then Some (default_place (PDimm D) b - 1) else None)"
  using narrow_map [OF assms] by (auto simp: decodes_def split: option.splits)

lemma narrow_bus_loses_columns_witness:
  "\<exists>D'. address_bits plain_board (module_4GB\<lparr>PDimm := PDimm module_4GB\<lparr>BusWidth := 32\<rparr>\<rparr>) = Some D' \<and> hif_bit (address_regs D') (Column 3) = None"
  using narrow_bus_loses_columns [of plain_board "module_4GB\<lparr>PDimm := PDimm module_4GB\<lparr>BusWidth := 32\<rparr>\<rparr>"]
  by (auto simp: module_4GB_fits)

text \<open>C29: with the bank-row-column mapping or the memory mapping a DDR4 module with four bank groups has no address map: the lists
  name bank group 0 alone, and the search for bank group 1 leaves the list.\<close>

theorem second_group_not_found:
  assumes "one_group_mapping C (PDimm D)" and "fits_map (PDimm D)" and "NumRankAddr (PDimm D) \<le> 5" and "NumBgAddr (PDimm D) = 2"
  shows "XFsbl_DdrCalcAddrMap C D s = Some (Halted OutOfBounds, s)"
  by (simp add: XFsbl_DdrCalcAddrMap_def one_group_map [OF assms] haltM_def)

lemma second_group_not_found_witness:
  "XFsbl_DdrCalcAddrMap (plain_board\<lparr>XPAR_PSU_DDRC_0_BRC_MAPPING := 1\<rparr>) module_4GB fsbl_init = Some (Halted OutOfBounds, fsbl_init)"
  by (rule second_group_not_found) (simp_all add: module_4GB_fits)

end
