(* ===== verification/Ddr_Progress.thy ===== *)
theory Ddr_Progress
  imports Ddr_Init Ddr_Addressing
begin

text \<open>
  What the initialisation of the memory does as a whole: it changes no register when the module cannot be read, it
  cannot end with read DBI, the variant for DDR4 boards is the general one, and on hardware that ends its waits it
  succeeds, whether or not a PLL has locked.
\<close>

section \<open>Fields that the calculators keep\<close>

text \<open>The type of the memory and the flag of the work-around for read DBI.\<close>

definition same_kind :: "XFsbl_DimmParams \<Rightarrow> XFsbl_DimmParams \<Rightarrow> bool" where
  "same_kind P Q = (MemType Q = MemType P \<and> RdbiWrkAround Q = RdbiWrkAround P)"

definition kind_kept :: "XFsbl_DimmParams \<Rightarrow> ('a \<Rightarrow> XFsbl_DimmParams) \<Rightarrow> 'a option \<Rightarrow> bool" where
  "kind_kept P f m = (\<forall>x. m = Some x \<longrightarrow> same_kind P (f x))"

lemma same_kind_refl [simp]: "same_kind P P"
  by (simp add: same_kind_def)

lemma same_kind_trans: "same_kind P Q \<Longrightarrow> same_kind Q R \<Longrightarrow> same_kind P R"
  by (simp add: same_kind_def)

lemma same_kind_if: "same_kind P Q \<Longrightarrow> same_kind P R \<Longrightarrow> same_kind P (if b then Q else R)"
  by simp

lemma same_kind_updates:
  assumes "same_kind P Q"
  shows "same_kind P (Q\<lparr>WriteLatency := a\<rparr>)" "same_kind P (Q\<lparr>ReadLatency := a\<rparr>)" "same_kind P (Q\<lparr>LpAsr := a\<rparr>)"
    "same_kind P (Q\<lparr>TXp := f\<rparr>)" "same_kind P (Q\<lparr>TMod := f\<rparr>)" "same_kind P (Q\<lparr>TWtr := a\<rparr>)"
  using assms by (simp_all add: same_kind_def)

lemma kept_some: "same_kind P (f x) \<Longrightarrow> kind_kept P f (Some x)"
  and kept_none: "kind_kept P f None"
  and kept_if: "kind_kept P f m \<Longrightarrow> kind_kept P f n \<Longrightarrow> kind_kept P f (if b then m else n)"
  and kept_case_prod: "(\<And>x y. kind_kept P f (g x y)) \<Longrightarrow> kind_kept P f (case z of (x, y) \<Rightarrow> g x y)"
  by (auto simp: kind_kept_def split: prod.split)

lemma kept_bind: "(\<And>x. kind_kept P f (g x)) \<Longrightarrow> kind_kept P f (Option.bind m g)"
  by (cases m) (auto simp: kind_kept_def)

lemma kept_bind_params:
  "kind_kept P id m \<Longrightarrow> (\<And>x. same_kind P x \<Longrightarrow> kind_kept P f (g x)) \<Longrightarrow> kind_kept P f (Option.bind m g)"
  by (cases m) (auto simp: kind_kept_def)

lemma kept_bind_pair:
  "kind_kept P fst m \<Longrightarrow> (\<And>x y. same_kind P x \<Longrightarrow> kind_kept P f (g x y)) \<Longrightarrow> kind_kept P f (Option.bind m (\<lambda>(x, y). g x y))"
  by (cases m) (auto simp: kind_kept_def split: prod.split)

lemma kept_let: "(\<And>x. kind_kept P f (g x)) \<Longrightarrow> kind_kept P f (let x = t in g x)"
  by simp

lemma kept_let_params: "same_kind P t \<Longrightarrow> (\<And>x. same_kind P x \<Longrightarrow> kind_kept P f (g x)) \<Longrightarrow> kind_kept P f (let x = t in g x)"
  by simp

lemma kept_pair: "same_kind P (fst r) \<Longrightarrow> kind_kept P fst (Some r)"
  by (simp add: kind_kept_def)

lemma kept_after: "same_kind P Q \<Longrightarrow> kind_kept Q f m \<Longrightarrow> kind_kept P f m"
  by (auto simp: kind_kept_def intro: same_kind_trans)

lemmas kept_intro = same_kind_refl same_kind_updates same_kind_if kept_let_params kept_bind_params kept_bind_pair kept_let kept_bind
  kept_if kept_case_prod kept_none kept_some

lemma kept_parts:
  "kind_kept P fst (ddrc_common_1 P DdrCfg)"
  "kind_kept P fst (ddrc_ddr4_2 P DdrCfg Twr Bit2 Bit654)"
  "kind_kept P fst (ddrc_ddr4_3 P DdrCfg)"
  "kind_kept P fst (ddrc_ddr4_4 P DdrCfg Cal)"
  "kind_kept P fst (ddrc_lpddr4_1 P DdrCfg)"
  "kind_kept P fst (ddrc_lpddr4_2 P DdrCfg Val Val2)"
  "kind_kept P fst (phy_ddr4_2 P PhyCfg Val BurstLen CasLat)"
  by (unfold ddrc_common_1_def ddrc_ddr4_2_def ddrc_ddr4_3_def ddrc_ddr4_4_def ddrc_lpddr4_1_def ddrc_lpddr4_2_def phy_ddr4_2_def;
      (rule kept_intro | assumption | simp only: fst_conv id_apply)+)+

lemma kept_ddr4: "kind_kept P fst (XFsbl_DdrcCalcDdr4RegVal P DdrCfg)"
  unfolding XFsbl_DdrcCalcDdr4RegVal_def
  by (rule kept_intro kept_after [OF _ kept_parts(2)] kept_after [OF _ kept_parts(3)] kept_after [OF _ kept_parts(4)] | assumption | simp only: fst_conv)+

lemma kept_lpddr4: "kind_kept P fst (XFsbl_DdrcCalcLpddr4RegVal P DdrCfg)"
  unfolding XFsbl_DdrcCalcLpddr4RegVal_def
  by (rule kept_intro kept_after [OF _ kept_parts(5)] kept_after [OF _ kept_parts(6)] | assumption | simp only: fst_conv)+

lemma kept_phy_ddr4: "kind_kept P fst (XFsbl_PhyCalcDdr4RegVal P PhyCfg)"
  unfolding XFsbl_PhyCalcDdr4RegVal_def
  by (rule kept_intro kept_after [OF _ kept_parts(7)] | assumption | simp only: fst_conv)+

lemma kept_derating: "kind_kept P id (lpddr_derating P)"
  by (auto simp: kind_kept_def same_kind_def lpddr_derating_def Let_def split: if_splits bind_splits)

lemma same_kind_settings:
  assumes "same_kind P Q"
  shows "same_kind P (write_latency Q)" "same_kind P (lpddr4_vendor Q)" "same_kind P (ddr4_dbi Q)" "same_kind P (Q\<lparr>ClockPeriod := f\<rparr>)"
    "same_kind P (Q\<lparr>Vref := a\<rparr>)" "same_kind P (Q\<lparr>TRfcPs := a\<rparr>)" "same_kind P (Q\<lparr>ParityLatency := a\<rparr>)" "same_kind P (Q\<lparr>CtlClkFreq := a\<rparr>)"
  using assms by (simp_all add: same_kind_def write_latency_def lpddr4_vendor_def ddr4_dbi_def)

lemma kept_init: "kind_kept (design_settings C P) id (XFsbl_InitilizeDdrParams C P)"
  unfolding XFsbl_InitilizeDdrParams_def
  by (rule kept_intro same_kind_settings kept_after [OF _ kept_derating] | assumption | simp only: id_apply)+

section \<open>The two variants\<close>

lemma bindM_assoc: "bindM (bindM m f) g = bindM m (\<lambda>x. bindM (f x) g)"
  by (auto simp: bindM_def fun_eq_iff split: option.splits res.splits)

lemma seqM_assoc: "bindM (seqM m n) g = seqM m (bindM n g)"
  by (simp add: seqM_def bindM_assoc)

lemma bindM_ret: "bindM (retM x) f = f x"
  by (simp add: bindM_def retM_def)

lemma bindM_halt: "bindM (haltM e) f = haltM e"
  by (simp add: bindM_def haltM_def)

lemma bindM_defined: "(\<And>x. m = Some x \<Longrightarrow> f x = g x) \<Longrightarrow> bindM (definedM m) f = bindM (definedM m) g"
  by (cases m) (simp_all add: definedM_def bindM_ret bindM_halt)

lemma bindM_answers: "answers (\<lambda>x _. R x) m \<Longrightarrow> (\<And>x. R x \<Longrightarrow> f x = g x) \<Longrightarrow> bindM m f = bindM m g"
  by (auto simp: bindM_def fun_eq_iff split: option.splits res.splits dest: answersD)

lemma answers_defined: "(\<And>x. m = Some x \<Longrightarrow> R x) \<Longrightarrow> answers (\<lambda>x _. R x) (definedM m)"
  by (cases m) (simp_all add: definedM_def answers_ret answers_halt)

lemma answers_bind_defined: "(\<And>x. m = Some x \<Longrightarrow> answers Q (f x)) \<Longrightarrow> answers Q (bindM (definedM m) f)"
  by (cases m) (simp_all add: definedM_def bindM_ret answers_def wp_eq)

lemma address_bits_params: "address_bits C D = Some D' \<Longrightarrow> PDimm D' = PDimm D"
  unfolding address_bits_def by (auto simp: bind_eq_Some_conv Let_def simp del: upt_rec_numeral)

lemma addr_map_params: "answers (\<lambda>D' _. PDimm D' = PDimm D) (XFsbl_DdrCalcAddrMap C D)"
  unfolding XFsbl_DdrCalcAddrMap_def
  by (cases "address_bits C D") (simp_all add: answers_halt answers_seq answers_ret address_bits_params)

lemma common_kind: "answers (\<lambda>r _. same_kind (PDimm D) (PDimm (fst r))) (XFsbl_DdrcCalcCommonRegVal C D DdrCfg)"
proof -
  have "answers (\<lambda>r _. same_kind (PDimm D) (PDimm (fst r))) (bindM (XFsbl_DdrCalcAddrMap C (D\<lparr>PDimm := P\<rparr>))
      (\<lambda>D. bindM (definedM (ddrc_common_3 (PDimm D) cfg)) (\<lambda>DdrCfg. retM (D, DdrCfg))))"
    if "same_kind (PDimm D) P" for P cfg
    by (rule answers_bind_after [OF addr_map_params]) (use that in \<open>auto simp: definedM_def wp_eq split: option.split\<close>)
  then show ?thesis using kept_parts(1) [of "PDimm D" DdrCfg] unfolding XFsbl_DdrcCalcCommonRegVal_def
    by (auto intro!: answers_bind_defined simp: kind_kept_def split: bind_splits prod.splits)
qed

lemma kept_ddr4_timing: "kind_kept P id (ddr4_timing d P)"
  unfolding ddr4_timing_def
  by (rule kept_intro | assumption | simp only: id_apply | simp add: same_kind_def; fail)+

lemma ddr4_params_type:
  assumes "XFsbl_ComputeDdr4Params C d P = Some (r, Q)"
  shows "MemType Q = ucast (d ! 2)"
proof -
  have "MemType R = MemType P" if "ddr4_timing d (spd_addressing P a b) = Some R" for P R a b
    using kept_ddr4_timing [of "spd_addressing P a b" d] that by (simp add: kind_kept_def same_kind_def spd_addressing_def)
  moreover have "MemType R = MemType P" if "ddr4_module_type C d P = Some R" for P R
    using that by (auto simp: ddr4_module_type_def Let_def split: if_splits)
  moreover have "MemType (spd_organisation P a b c e f g) = ucast a" for P a b c e f g by (simp add: spd_organisation_def)
  ultimately show ?thesis using assms
    by (auto simp: XFsbl_ComputeDdr4Params_def bind_eq_Some_conv spd4_MemType_def Let_def split: option.splits)
qed

lemma seqM_cong: "n = n' \<Longrightarrow> seqM m n = seqM m n'"
  by simp

lemma defined_values: "definedM (do { x \<leftarrow> m; f x }) = bindM (definedM m) (\<lambda>x. definedM (f x))"
  by (cases m) (simp_all add: definedM_def bindM_ret bindM_halt)

lemma ddr4_values:
  "MemType P = SPD_MEMTYPE_DDR4 \<Longrightarrow> ddrc_memory_values P DdrCfg = XFsbl_DdrcCalcDdr4RegVal P DdrCfg"
  "MemType P = SPD_MEMTYPE_DDR4 \<Longrightarrow> phy_memory_values P PhyCfg = XFsbl_PhyCalcDdr4RegVal P PhyCfg"
  by (simp_all add: ddrc_memory_values_def phy_memory_values_def ddr)

text \<open>After the parameters: the registers of a DDR4 module.\<close>

lemma ddr4_registers:
  assumes "MemType (PDimm D) = SPD_MEMTYPE_DDR4"
  shows "bindM (XFsbl_DdrcRegsInit C D) (\<lambda>D. seqM m (XFsbl_PhyRegsInit D)) =
    bindM (XFsbl_DdrcCalcCommonRegVal C D XFSBL_DDRC_REG_DEFVAL) (\<lambda>(D, DdrCfg).
    bindM (definedM (XFsbl_DdrcCalcDdr4RegVal (PDimm D) DdrCfg)) (\<lambda>(P, DdrCfg).
    (let DdrCfg = ddrc_slave_latencies P DdrCfg; P = mode_registers DdrCfg P
     in seqM (XFsbl_DdrcRegsWrite DdrCfg) (seqM m
       (bindM (definedM (XFsbl_PhyCalcCommonRegVal P XFSBL_PHY_REG_DEFVAL)) (\<lambda>PhyCfg.
        bindM (definedM (XFsbl_PhyCalcDdr4RegVal P PhyCfg)) (\<lambda>(P, PhyCfg).
        seqM (XFsbl_PhyRegsWrite P PhyCfg) (retM (D\<lparr>PDimm := P\<rparr>)))))))))"
  unfolding XFsbl_DdrcRegsInit_def bindM_assoc
proof (rule bindM_answers [OF common_kind])
  fix x :: "DdrcInitData \<times> u32 list" assume x: "same_kind (PDimm D) (PDimm (fst x))"
  obtain D' cfg where D': "x = (D', cfg)" "MemType (PDimm D') = SPD_MEMTYPE_DDR4"
    using x assms by (cases x) (simp add: same_kind_def)
  have "bindM (definedM (ddrc_memory_values (PDimm D') cfg)) f = bindM (definedM (XFsbl_DdrcCalcDdr4RegVal (PDimm D') cfg)) f" for f :: "_ \<Rightarrow> DdrcInitData prog"
    by (simp only: ddr4_values D'(2))
  moreover have "MemType P = SPD_MEMTYPE_DDR4" if "XFsbl_DdrcCalcDdr4RegVal (PDimm D') cfg = Some (P, cfg')" for P cfg'
    using kept_ddr4 [of "PDimm D'" cfg] that D'(2) by (simp add: kind_kept_def same_kind_def)
  ultimately show "bindM (case x of (D, DdrCfg) \<Rightarrow> bindM (definedM (ddrc_memory_values (PDimm D) DdrCfg)) (\<lambda>(P, DdrCfg).
        let DdrCfg = ddrc_slave_latencies P DdrCfg; P = mode_registers DdrCfg P
        in seqM (XFsbl_DdrcRegsWrite DdrCfg) (retM (D\<lparr>PDimm := P\<rparr>)))) (\<lambda>D. seqM m (XFsbl_PhyRegsInit D)) =
      (case x of (D, DdrCfg) \<Rightarrow> bindM (definedM (XFsbl_DdrcCalcDdr4RegVal (PDimm D) DdrCfg)) (\<lambda>(P, DdrCfg).
        let DdrCfg = ddrc_slave_latencies P DdrCfg; P = mode_registers DdrCfg P
        in seqM (XFsbl_DdrcRegsWrite DdrCfg) (seqM m
          (bindM (definedM (XFsbl_PhyCalcCommonRegVal P XFSBL_PHY_REG_DEFVAL)) (\<lambda>PhyCfg.
           bindM (definedM (XFsbl_PhyCalcDdr4RegVal P PhyCfg)) (\<lambda>(P, PhyCfg).
           seqM (XFsbl_PhyRegsWrite P PhyCfg) (retM (D\<lparr>PDimm := P\<rparr>))))))))"
    unfolding D'(1) prod.case bindM_assoc
    by (simp only:, intro bindM_defined)
       (auto simp: Let_def seqM_assoc bindM_ret XFsbl_PhyRegsInit_def defined_values bindM_assoc ddr4_values mode_registers_def split: prod.splits)
qed

lemma init_type: "XFsbl_InitilizeDdrParams C P = Some Q \<Longrightarrow> MemType Q = MemType P"
  using kept_init [of C P] by (simp add: kind_kept_def same_kind_def design_settings_def Let_def)

lemma PDimm_set: "PDimm (D\<lparr>PDimm := P\<rparr>) = P"
  by simp

text \<open>C32: for a DDR4 module the initialisation for the boards that only take DDR4 modules is the general one.\<close>

lemma board_variant_agrees:
  assumes "SpdData ! 2 = 0x0C"
  shows "XFsbl_Ddr4Init C W SpdData D = ddr_registers_init C W SpdData D"
proof -
  have params: "XFsbl_DdrComputeDimmParameters C SpdData P = map_option snd (XFsbl_ComputeDdr4Params C SpdData P)" for P
    using assms by (simp add: XFsbl_DdrComputeDimmParameters_def ddr)
  have type: "MemType Q = SPD_MEMTYPE_DDR4"
    if "map_option snd (XFsbl_ComputeDdr4Params C SpdData P) = Some P'" "XFsbl_InitilizeDdrParams C P' = Some Q" for P P' Q
    using that assms by (auto simp: ddr dest!: ddr4_params_type init_type)
  show ?thesis unfolding XFsbl_Ddr4Init_def ddr_registers_init_def params
    by (rule bindM_defined, rule bindM_defined, rule seqM_cong, rule ddr4_registers [symmetric])
       (simp only: PDimm_set, rule type)
qed

lemma board_variant_agrees_witness:
  "XFsbl_Ddr4Init plain_board quiet_world ((replicate 512 0)[2 := 0x0C]) DdrData =
     ddr_registers_init plain_board quiet_world ((replicate 512 0)[2 := 0x0C]) DdrData"
  by (rule board_variant_agrees) simp

section \<open>Training\<close>

text \<open>Up to the work-around the training is nothing but register accesses: it does not leave the loader.\<close>

interpretation ddr_io: io_stable "\<lambda>_. True"
  by unfold_locales simp

lemma keeps_operations:
  "keeps no_exit (\<lambda>_. True) (XFSBL_PROG_REG W a m n v)"
  "keeps no_exit (\<lambda>_. True) (XFSBL_POLL W a b c)"
  "keeps no_exit (\<lambda>_. True) (XFsbl_CfgDfiInitComplete W v)"
  "keeps no_exit (\<lambda>_. True) (XFsbl_CfgSwInitInt W v)"
  by (simp_all only: XFSBL_PROG_REG_def XFSBL_POLL_def XFsbl_CfgDfiInitComplete_def XFsbl_CfgSwInitInt_def ddr_io.io_keeps)

lemma keeps_mrs: "keeps no_exit (\<lambda>_. True) (XFsbl_MrsFunc W a r m)"
  unfolding XFsbl_MrsFunc_def
  by (auto intro!: keeps_intro ddr_io.io_keeps keeps_seqs)

lemma keeps_bypass: "keeps no_exit (\<lambda>_. True) (XFsbl_DdrPllBypass W En)"
  unfolding XFsbl_DdrPllBypass_def by (rule keeps_intro keeps_operations)+

lemma keeps_pll: "keeps no_exit (\<lambda>_. True) (pll_attempts W P n)"
  by (induction n)
     (auto simp: pll_attempt_def Let_def intro!: keeps_intro ddr_io.io_keeps)

lemmas keeps_ddr = keeps_intro keeps_operations keeps_mrs keeps_bypass keeps_pll ddr_io.io_keeps

lemma keeps_training:
  "keeps no_exit (\<lambda>_. True) (train_pll W P)"
  "keeps no_exit (\<lambda>_. True) (train_lpddr4_mrs W P r)"
  "keeps no_exit (\<lambda>_. True) (train_rdimm_mrs W P)"
  "keeps no_exit (\<lambda>_. True) (train_start W)"
  "keeps no_exit (\<lambda>_. True) (train_slowboot W P)"
  "keeps no_exit (\<lambda>_. True) (train_lpddr3_mrs W P r)"
  "keeps no_exit (\<lambda>_. True) (train_ca W P)"
  "keeps no_exit (\<lambda>_. True) (train_pir W P)"
  "keeps no_exit (\<lambda>_. True) (train_wait W P v)"
  "keeps no_exit (\<lambda>_. True) (train_vref W P)"
  "keeps no_exit (\<lambda>_. True) (train_end W P)"
  by (unfold train_pll_def train_lpddr4_mrs_def train_rdimm_mrs_def train_start_def train_slowboot_def train_lpddr3_mrs_def train_ca_def
        train_pir_def train_wait_def train_vref_def train_end_def Let_def; (rule keeps_ddr)+)+

section \<open>Read DBI\<close>

lemma cal_inner_None: "cal_inner DqRbd 0 CalByte Index = None"
  by (induction "9 - Index" arbitrary: CalByte Index) (simp_all add: cal_inner.simps [of _ 0])

lemma rdbi_leaves: "wp (XFsbl_RdbiWrkAround C W P) (\<lambda>_ _. False) (\<lambda>e _. e = OutOfBounds) s"
proof -
  have "cal_bytes n DqRbd CalByte 0 = None" if "0 < n" for n DqRbd CalByte
    using that by (simp add: cal_bytes.simps cal_inner_None)
  then show ?thesis
    by (simp add: XFsbl_RdbiWrkAround_def definedM_def wp_eq XFSBL_PROG_REG_def)
qed

lemma wp_after: "keeps no_exit (\<lambda>_. True) m \<Longrightarrow> (\<And>x t. wp (f x) Q H t) \<Longrightarrow> wp (bindM m f) Q H s"
  unfolding wp_bind by (rule wp_mono [OF keepsD]) auto

lemma wp_after_seq: "keeps no_exit (\<lambda>_. True) m \<Longrightarrow> (\<And>t. wp n Q H t) \<Longrightarrow> wp (seqM m n) Q H s"
  unfolding seqM_def by (rule wp_after)

lemma wp_stop: "wp m (\<lambda>_ _. False) H s \<Longrightarrow> wp (bindM m f) Q H s" "wp m (\<lambda>_ _. False) H s \<Longrightarrow> wp (seqM m n) Q H s"
  by (auto simp: wp_eq intro: wp_mono)

lemma training_with_rdbi:
  assumes "RdbiWrkAround P = 1"
  shows "wp (XFsbl_DdrcPhyTraining C W P) (\<lambda>_ _. False) (\<lambda>e _. e = OutOfBounds) s"
  unfolding XFsbl_DdrcPhyTraining_def seqsM.simps
  by (rule wp_after, rule ddr_io.io_keeps, rule wp_after_seq, (rule keeps_ddr keeps_training)+, rule wp_after, rule keeps_training,
      rule wp_stop, (rule wp_after_seq, rule keeps_training)+, rule wp_stop, simp add: assms wp_when rdbi_leaves)


abbreviation only_undefined :: "exit \<Rightarrow> bool" where
  "only_undefined e \<equiv> e = OutOfBounds"

lemma keeps_leave: "keeps no_exit I m \<Longrightarrow> keeps only_undefined I m"
  unfolding keeps_def by (blast intro: wp_mono)

lemma keeps_defined: "keeps only_undefined (\<lambda>_. True) (definedM m)"
  by (cases m) (simp_all add: definedM_def keeps_def wp_eq)

lemma keeps_undefined: "keeps only_undefined (\<lambda>_. True) (haltM OutOfBounds)"
  by (simp add: keeps_def wp_eq)

lemma keeps_reg_writes: "keeps only_undefined (\<lambda>_. True) (seqsM (map (\<lambda>x. XFsbl_Out32 (f x) (g x)) xs))"
  by (induction xs) (auto intro!: keeps_intro ddr_io.io_keeps)

lemma keeps_addr_map: "keeps only_undefined (\<lambda>_. True) (XFsbl_DdrCalcAddrMap C D)"
  unfolding XFsbl_DdrCalcAddrMap_def
  by (cases "address_bits C D") (auto intro!: keeps_undefined keeps_intro keeps_reg_writes simp del: upt_rec_numeral)

lemma keeps_regs_init:
  "keeps only_undefined (\<lambda>_. True) (XFsbl_DdrcRegsInit C D)"
  "keeps only_undefined (\<lambda>_. True) (XFsbl_PhyRegsInit D)"
  unfolding XFsbl_DdrcRegsInit_def XFsbl_DdrcCalcCommonRegVal_def XFsbl_DdrcRegsWrite_def XFsbl_PhyRegsInit_def XFsbl_PhyRegsWrite_def Let_def case_prod_unfold
  by (rule keeps_intro keeps_defined keeps_addr_map keeps_reg_writes)+

lemma answers_bind_answers: "answers R m \<Longrightarrow> (\<And>x s. R x s \<Longrightarrow> answers Q (f x)) \<Longrightarrow> answers Q (bindM m f)"
  by (rule answers_bind_after, assumption) (simp add: answers_def)

lemma same_kind_modes: "same_kind P Q \<Longrightarrow> same_kind P (mode_registers DdrCfg Q)"
  by (simp add: same_kind_def mode_registers_def)

lemma regs_init_kind:
  assumes "MemType (PDimm D) = SPD_MEMTYPE_DDR4"
  shows "answers (\<lambda>D' _. same_kind (PDimm D) (PDimm D')) (XFsbl_DdrcRegsInit C D)"
  unfolding XFsbl_DdrcRegsInit_def
proof (rule answers_bind_answers [OF common_kind])
  fix x :: "DdrcInitData \<times> u32 list" assume x: "same_kind (PDimm D) (PDimm (fst x))"
  then have "MemType (PDimm (fst x)) = SPD_MEMTYPE_DDR4" using assms by (simp add: same_kind_def)
  then have "same_kind (PDimm D) P" if "ddrc_memory_values (PDimm (fst x)) (snd x) = Some (P, cfg)" for P cfg
    using that kept_ddr4 [of "PDimm (fst x)" "snd x"] x by (auto simp: ddr4_values kind_kept_def intro: same_kind_trans)
  then show "answers (\<lambda>D' _. same_kind (PDimm D) (PDimm D')) (case x of (D, DdrCfg) \<Rightarrow>
      bindM (definedM (ddrc_memory_values (PDimm D) DdrCfg)) (\<lambda>(P, DdrCfg).
      let DdrCfg = ddrc_slave_latencies P DdrCfg; P = mode_registers DdrCfg P
      in seqM (XFsbl_DdrcRegsWrite DdrCfg) (retM (D\<lparr>PDimm := P\<rparr>))))"
    by (auto simp: Let_def case_prod_unfold intro!: answers_bind_defined answers_seq answers_ret same_kind_modes)
qed

lemma phy_init_kind:
  assumes "MemType (PDimm D) = SPD_MEMTYPE_DDR4"
  shows "answers (\<lambda>D' _. same_kind (PDimm D) (PDimm D')) (XFsbl_PhyRegsInit D)"
proof -
  have "same_kind (PDimm D) P" if "XFsbl_PhyCalcDdr4RegVal (PDimm D) cfg = Some (P, cfg')" for P cfg cfg'
    using kept_phy_ddr4 [of "PDimm D" cfg] that by (simp add: kind_kept_def)
  then show ?thesis unfolding XFsbl_PhyRegsInit_def using assms
    by (auto simp: bind_eq_Some_conv ddr4_values intro!: answers_bind_defined answers_seq answers_ret split: prod.split)
qed

lemma init_rdbi:
  assumes "XFsbl_InitilizeDdrParams C P = Some Q" "MemType P = SPD_MEMTYPE_DDR4"
    and "fst (dbi_settings (XPAR_PSU_DDRC_0_DDR_DATA_MASK_AND_DBI C)) = 1"
  shows "RdbiWrkAround Q = 1"
  using assms kept_init [of C P] by (simp add: kind_kept_def same_kind_def design_settings_def Let_def)

lemma wp_answers: "keeps E (\<lambda>_. True) m \<Longrightarrow> answers (\<lambda>x _. R x) m \<Longrightarrow> wp m (\<lambda>x _. R x) (\<lambda>e _. E e) s"
  using wp_conj [OF keepsD [of E "\<lambda>_. True" m s]] unfolding answers_def by (fastforce intro: wp_mono)

lemma registers_with_rdbi:
  assumes "SpdData ! 2 = 0x0C" and "fst (dbi_settings (XPAR_PSU_DDRC_0_DDR_DATA_MASK_AND_DBI C)) = 1"
  shows "wp (ddr_registers_init C W SpdData D) (\<lambda>D _. RdbiWrkAround (PDimm D) = 1) (\<lambda>e _. e = OutOfBounds) s"
proof -
  have "answers (\<lambda>D _. RdbiWrkAround (PDimm D) = 1) (ddr_registers_init C W SpdData D)"
    unfolding ddr_registers_init_def
  proof (intro answers_bind_defined answers_seq)
    fix P Q assume P: "XFsbl_DdrComputeDimmParameters C SpdData (PDimm D) = Some P" and Q: "XFsbl_InitilizeDdrParams C P = Some Q"
    have type: "MemType P = SPD_MEMTYPE_DDR4"
      using P assms(1) by (auto simp: XFsbl_DdrComputeDimmParameters_def ddr dest!: ddr4_params_type)
    have kind: "MemType Q = SPD_MEMTYPE_DDR4" "RdbiWrkAround Q = 1"
      using init_type [OF Q] type init_rdbi [OF Q type assms(2)] by simp_all
    have start: "MemType (PDimm (D\<lparr>PDimm := Q\<rparr>)) = SPD_MEMTYPE_DDR4" by (simp add: kind)
    show "answers (\<lambda>D _. RdbiWrkAround (PDimm D) = 1) (bindM (XFsbl_DdrcRegsInit C (D\<lparr>PDimm := Q\<rparr>)) (\<lambda>D. seqM (ddr_release W) (XFsbl_PhyRegsInit D)))"
      by (rule answers_bind_answers [OF regs_init_kind [OF start]], rule answers_seq, rule answers_mono [OF phy_init_kind])
        (use kind in \<open>simp_all add: same_kind_def\<close>)
  qed
  moreover have "keeps only_undefined (\<lambda>_. True) (ddr_registers_init C W SpdData D)"
    unfolding ddr_registers_init_def ddr_reset_def ddr_release_def
    by (rule keeps_intro keeps_defined keeps_regs_init ddr_io.io_keeps)+
  ultimately show ?thesis by (rule wp_answers [rotated])
qed

text \<open>The steps of the reading.\<close>

lemma iic_answers:
  assumes "\<And>x t. Q (Inl x) t"
  shows "answers Q k \<Longrightarrow> answers Q (iicM m k)" and "answers Q k \<Longrightarrow> answers Q (iic_send W b a k)"
    and "(\<And>h. answers Q (k' (map (ext_byte W h (Iic (IicMasterRecvPolled n a))) [0..<unat n]))) \<Longrightarrow> answers Q (iic_recv W n a k')"
  using assms
  by (auto simp: iicM_def iic_send_def iic_recv_def iic_idle_def answers_def wp_eq intro: wp_mono [OF wp_True])

lemma iic_keeps:
  "keeps no_exit (\<lambda>_. True) m \<Longrightarrow> keeps no_exit (\<lambda>_. True) k \<Longrightarrow> keeps no_exit (\<lambda>_. True) (iicM m k)"
  "keeps no_exit (\<lambda>_. True) k \<Longrightarrow> keeps no_exit (\<lambda>_. True) (iic_send W b a k)"
  "(\<And>d. keeps no_exit (\<lambda>_. True) (k' d)) \<Longrightarrow> keeps no_exit (\<lambda>_. True) (iic_recv W n a k')"
  by (auto simp: iicM_def iic_send_def iic_recv_def iic_idle_def intro!: keeps_intro ddr_io.io_keeps)

lemma spd_type_read:
  assumes "\<And>h. ext_byte W h (Iic (IicMasterRecvPolled 256 XFSBL_SODIMM_SLAVE_ADDR)) 2 = 0x0C"
  shows "wp (XFsbl_IicReadSpdEeprom W) (\<lambda>r _. case r of Inl Status \<Rightarrow> True | Inr SpdData \<Rightarrow> SpdData ! 2 = 0x0C) (\<lambda>_ _. False) s"
proof -
  have byte: "(map (ext_byte W h (Iic (IicMasterRecvPolled 256 XFSBL_SODIMM_SLAVE_ADDR))) [0..<unat (256 :: u32)] @ d) ! 2 = 0x0C" for h d
    by (simp add: nth_append assms [unfolded numeral_2_eq_2] del: upt_rec_numeral)
  show ?thesis unfolding XFsbl_IicReadSpdEeprom_def
    by (rule wp_answers, (rule keeps_intro iic_keeps ddr_io.io_keeps)+, (rule answers_intro iic_answers | simp only: sum.case byte)+)
qed

text \<open>C18: a DDR4 module cannot be brought up with read DBI.  When the design asks for it, \<open>XFsbl_DdrInit\<close> never returns
  success: the averaging loop of the work-around counts up the index of the loop around it and leaves its arrays, whatever
  the hardware answers and whatever else the module says of itself.\<close>

theorem read_dbi_never_succeeds:
  assumes "\<not> cfg_ddr_sr C" and "fst (dbi_settings (XPAR_PSU_DDRC_0_DDR_DATA_MASK_AND_DBI C)) = 1"
    and "\<And>h. ext_byte W h (Iic (IicMasterRecvPolled 256 XFSBL_SODIMM_SLAVE_ADDR)) 2 = 0x0C"
  shows "wp (XFsbl_DdrInit C W) (\<lambda>Status _. Status \<noteq> XFSBL_SUCCESS) (\<lambda>e _. e = OutOfBounds) s"
proof -
  have train: "wp (ddr_train C W D) (\<lambda>Status _. Status \<noteq> XFSBL_SUCCESS) (\<lambda>e _. e = OutOfBounds) t" if "RdbiWrkAround (PDimm D) = 1" for D t
    using wp_mono [OF training_with_rdbi [OF that]] assms(1) by (auto simp: ddr_train_def wp_try_as)
  have init: "wp (bindM (if dimm_ddr4_only C then XFsbl_Ddr4Init C W d DdrData else ddr_registers_init C W d DdrData) (ddr_train C W))
      (\<lambda>Status _. Status \<noteq> XFSBL_SUCCESS) (\<lambda>e _. e = OutOfBounds) t" if "d ! 2 = 0x0C" for d t
    unfolding board_variant_agrees [OF that] if_cancel wp_bind
    by (rule wp_mono [OF registers_with_rdbi [OF that assms(2)]]) (use train in blast)+
  show ?thesis unfolding XFsbl_DdrInit_def wp_bind [of "XFsbl_IicReadSpdEeprom W"]
  proof (rule wp_mono [OF spd_type_read [OF assms(3)]])
    fix r t
    assume "case r of Inl Status \<Rightarrow> True | Inr SpdData \<Rightarrow> SpdData ! 2 = (0x0C :: u8)"
    then show "wp (case r of Inl Status \<Rightarrow> retM XFSBL_FAILURE | Inr SpdData \<Rightarrow> bindM (if dimm_ddr4_only C then XFsbl_Ddr4Init C W SpdData DdrData
        else ddr_registers_init C W SpdData DdrData) (ddr_train C W)) (\<lambda>Status _. Status \<noteq> XFSBL_SUCCESS) (\<lambda>e _. e = OutOfBounds) t"
      by (cases r) (simp_all only: sum.case init wp_ret, simp add: hw)
  qed simp
qed

text \<open>A memory module of that kind, on a board whose I2C bus works.\<close>

definition ddr4_world :: world where
  "ddr4_world = quiet_world\<lparr>ext_ret := (\<lambda>_ c. if c = Iic IicLookupConfig then 1 else 0),
     ext_byte := (\<lambda>_ c k. if c = Iic (IicMasterRecvPolled 256 XFSBL_SODIMM_SLAVE_ADDR) \<and> k = 2 then 0x0C else 0)\<rparr>"

definition read_dbi_board :: ddr_config where
  "read_dbi_board = plain_board\<lparr>XPAR_PSU_DDRC_0_DDR_DATA_MASK_AND_DBI := 2\<rparr>"

lemma read_dbi_never_succeeds_witness:
  "wp (XFsbl_DdrInit read_dbi_board ddr4_world) (\<lambda>Status _. Status \<noteq> XFSBL_SUCCESS) (\<lambda>e _. e = OutOfBounds) fsbl_init"
  by (rule read_dbi_never_succeeds) (simp_all add: read_dbi_board_def plain_board_def ddr4_world_def dbi_settings_def)

section \<open>The end of the training\<close>

lemma answers_training: "answers (\<lambda>Status _. Status = XFSBL_SUCCESS) (XFsbl_DdrcPhyTraining C W P)"
  unfolding XFsbl_DdrcPhyTraining_def by (intro answers_bind answers_seq answers_ret) simp

text \<open>The waits of the training.\<close>

definition training_ready :: "world \<Rightarrow> XFsbl_DimmParams \<Rightarrow> bool" where
  "training_ready W P \<longleftrightarrow>
     (\<forall>h. poll_trace W DDR_PHY_PGSR0_OFFSET (\<lambda>v. v AND 1 = 1) h \<noteq> None) \<and>
     (\<forall>h. poll_trace W DDR_PHY_PGSR0_OFFSET (\<lambda>v. v AND 0xF = 0xF) h \<noteq> None) \<and>
     (\<forall>h. poll_trace W DDR_PHY_PGSR0_OFFSET (\<lambda>v. v AND 0xFF = 0x1F) h \<noteq> None) \<and>
     (\<forall>h. poll_trace W DDR_PHY_PGSR0_OFFSET (\<lambda>v. v = train_poll_value P) h \<noteq> None) \<and>
     (\<forall>h. poll_trace W DDR_PHY_PGSR0_OFFSET (\<lambda>v. v AND 0x80004001 = 0x80004001) h \<noteq> None) \<and>
     (\<forall>h. poll_trace W DDR_PHY_PGSR0_OFFSET (\<lambda>v. v AND 0x80000C01 = 0x80000C01) h \<noteq> None) \<and>
     (MemType P = SPD_MEMTYPE_LPDDR4 \<longrightarrow> (\<forall>h. poll_trace W DDR_PHY_PGSR0_OFFSET (\<lambda>v. v = 0x8000007E) h \<noteq> None)) \<and>
     (\<forall>h. poll_trace W DDRC_MRSTAT_OFFSET (\<lambda>v. v AND 1 = 0) h \<noteq> None) \<and>
     (\<forall>h. poll_trace W DDRC_STAT_OFFSET (\<lambda>v. v AND 0xF = 1) h \<noteq> None)"

lemma returns_operations:
  "returns (XFSBL_PROG_REG W a m n v)" "returns (XFsbl_CfgDfiInitComplete W v)" "returns (XFsbl_CfgSwInitInt W v)"
  by (simp_all add: XFSBL_PROG_REG_def XFsbl_CfgDfiInitComplete_def XFsbl_CfgSwInitInt_def returns_intro)

lemma returns_training:
  assumes "training_ready W P" and "RdbiWrkAround P \<noteq> 1" and "WrDrift P = 0"
  shows "returns (XFsbl_DdrcPhyTraining C W P)"
proof -
  note polls = returns_poll [of W DDR_PHY_PGSR0_OFFSET] returns_poll [of W DDRC_MRSTAT_OFFSET] returns_poll [of W DDRC_STAT_OFFSET]
  have mrs: "returns (XFsbl_MrsFunc W a r m)" for a r m
    unfolding XFsbl_MrsFunc_def using assms(1)
    by (auto simp: training_ready_def intro!: returns_intro polls returns_seqs)
  have attempts: "returns (pll_attempts W P n)" for n
    by (induction n) (use assms(1) in \<open>auto simp: training_ready_def pll_attempt_def Let_def intro!: returns_intro polls\<close>)
  have bypass: "returns (XFsbl_DdrPllBypass W En)" for En
    unfolding XFsbl_DdrPllBypass_def by (rule returns_intro returns_operations)+
  note parts = returns_intro returns_operations mrs attempts bypass
  have pll: "returns (train_pll W P)" unfolding train_pll_def XFSBL_POLL_def
    using assms(1) by (auto simp: training_ready_def intro!: parts polls)
  have start: "returns (train_start W)" unfolding train_start_def XFSBL_POLL_def
    using assms(1) by (auto simp: training_ready_def intro!: parts polls)
  have slowboot: "returns (train_slowboot W P)" unfolding train_slowboot_def XFSBL_POLL_def
    using assms(1) by (auto simp: training_ready_def intro!: parts polls)
  have waits: "returns (train_wait W P v)" "returns (train_vref W P)" for v unfolding train_wait_def train_vref_def Let_def
    using assms(1) by (auto simp: training_ready_def intro!: parts polls)
  have rest: "returns (train_lpddr4_mrs W P r)" "returns (train_rdimm_mrs W P)" "returns (train_lpddr3_mrs W P r)" "returns (train_ca W P)"
    "returns (train_pir W P)" "returns (train_end W P)" "returns (train_read_drift W P)" for r
    by (unfold train_lpddr4_mrs_def train_rdimm_mrs_def train_lpddr3_mrs_def train_ca_def train_pir_def train_end_def train_read_drift_def;
        (rule parts)+)+
  have skipped: "returns (whenM (RdbiWrkAround P = 1) (XFsbl_RdbiWrkAround C W P))" "returns (train_write_drift W P)"
    using assms(2,3) by (simp_all add: train_write_drift_def whenM_def returns_ret)
  show ?thesis unfolding XFsbl_DdrcPhyTraining_def
    by (rule returns_intro pll start slowboot waits rest skipped)+
qed

text \<open>C20: the training ends with success whenever each of its waits ends, whether or not the PLLs of the byte lanes have locked:
  nothing is assumed of their lock bits, and the ten attempts are followed by the rest of the sequence in any case.  (The waits
  for the later steps also ask for bit 31 of PGSR0, the lock of the PLL of the commands.)\<close>

theorem training_ignores_lock:
  assumes "training_ready W P" and "RdbiWrkAround P \<noteq> 1" and "WrDrift P = 0"
  shows "\<exists>t. XFsbl_DdrcPhyTraining C W P s = Some (Ret XFSBL_SUCCESS, t)"
proof -
  obtain r t where run: "XFsbl_DdrcPhyTraining C W P s = Some (r, t)"
    using returnsD [OF returns_training [OF assms]] by blast
  have "keeps no_exit (\<lambda>_. True) (whenM (RdbiWrkAround P = 1) (XFsbl_RdbiWrkAround C W P))" "keeps no_exit (\<lambda>_. True) (train_write_drift W P)"
    using assms(2,3) by (simp_all add: train_write_drift_def whenM_def keeps_ret)
  moreover have "keeps no_exit (\<lambda>_. True) (train_read_drift W P)"
    unfolding train_read_drift_def by (rule keeps_ddr)+
  ultimately have "keeps no_exit (\<lambda>_. True) (XFsbl_DdrcPhyTraining C W P)"
    unfolding XFsbl_DdrcPhyTraining_def by (auto simp del: seqsM.simps intro!: keeps_bind keeps_seq keeps_seqs_Nil keeps_seqs_Cons keeps_ret ddr_io.io_keeps keeps_training)
  with run show ?thesis using answersD [OF answers_training] keeps_Halted [of no_exit "\<lambda>_. True"] by (cases r) blast+
qed

text \<open>Hardware whose PLLs never lock, with a DDR4 module: the status register of the PHY takes three values in turn.\<close>

definition turning_status :: "io list \<Rightarrow> u32" where
  "turning_status h = [0x1F, 0x80000FFF, 0x80004001] ! (length h mod 3)"

definition unlocked_world :: world where
  "unlocked_world = quiet_world\<lparr>reg_in := (\<lambda>h a. if a = DDR_PHY_PGSR0_OFFSET then turning_status h
     else if a = DDRC_STAT_OFFSET then 1 else 0)\<rparr>"

lemma turning_ready:
  assumes "\<And>h. reg_in W h a = turning_status h" and "ok 0x1F \<or> ok 0x80000FFF \<or> ok 0x80004001"
  shows "poll_trace W a ok h \<noteq> None"
proof -
  have now: "poll_trace W a ok g \<noteq> None" if "ok (turning_status g)" for g
    using that by (simp add: poll_trace.simps assms(1))
  have next_read: "poll_trace W a ok g \<noteq> None" if "poll_trace W a ok (Rd a (reg_in W g a) # g) \<noteq> None" for g
    using that by (subst poll_trace.simps) simp
  have "ok (turning_status g) \<or> ok (turning_status (x # g)) \<or> ok (turning_status (y # z # g))" for g x y z
  proof -
    have "length g mod 3 = 0 \<or> length g mod 3 = 1 \<or> length g mod 3 = 2" by arith
    then show ?thesis using assms(2) by (auto simp: turning_status_def mod_Suc)
  qed
  then show ?thesis using now next_read by metis
qed

lemma training_ignores_lock_witness:
  "\<exists>t. XFsbl_DdrcPhyTraining plain_board unlocked_world (PDimm DdrData\<lparr>MemType := SPD_MEMTYPE_DDR4, DeskewTrn := 1\<rparr>) fsbl_init =
     Some (Ret XFSBL_SUCCESS, t)"
proof (rule training_ignores_lock)
  have status: "reg_in unlocked_world h DDR_PHY_PGSR0_OFFSET = turning_status h" for h by (simp add: unlocked_world_def)
  show "training_ready unlocked_world (PDimm DdrData\<lparr>MemType := SPD_MEMTYPE_DDR4, DeskewTrn := 1\<rparr>)"
    unfolding training_ready_def
    by (intro conjI allI impI turning_ready [OF status])
       (simp_all add: train_poll_value_def ddr poll_trace.simps unlocked_world_def)
qed (simp_all add: DdrData_def dimm_zero_def)

section \<open>A module that cannot be read\<close>

text \<open>The calls of the I2C driver that the code takes for failed: it does not look at the status of a send.\<close>

definition iic_failed :: "iic \<Rightarrow> u32 \<Rightarrow> bool" where
  "iic_failed c v = (case c of IicLookupConfig \<Rightarrow> v = 0 | IicMasterSendPolled bs a \<Rightarrow> False | _ \<Rightarrow> v \<noteq> 0)"

text \<open>Since \<open>h0\<close> there have been calls of the driver alone, and none has failed; or the last one has, and no other.\<close>

definition iic_answered :: "io list \<Rightarrow> io list \<Rightarrow> bool" where
  "iic_answered h0 h \<longleftrightarrow> (\<exists>calls. h = map (\<lambda>(c, v). Ext (Iic c) v) calls @ h0 \<and> list_all (\<lambda>(c, v). \<not> iic_failed c v) calls)"

definition iic_stopped :: "io list \<Rightarrow> io list \<Rightarrow> bool" where
  "iic_stopped h0 h \<longleftrightarrow> (\<exists>c v h1. h = Ext (Iic c) v # h1 \<and> iic_failed c v \<and> iic_answered h0 h1)"

lemma iic_answered_Nil: "iic_answered h h"
  by (auto simp: iic_answered_def)

lemma iic_answered_step: "iic_answered h0 h \<Longrightarrow> \<not> iic_failed c v \<Longrightarrow> iic_answered h0 (Ext (Iic c) v # h)"
  unfolding iic_answered_def by (force intro: exI [of _ "(c, v) # _"])

lemma iic_stopped_step: "iic_answered h0 h \<Longrightarrow> iic_failed c v \<Longrightarrow> iic_stopped h0 (Ext (Iic c) v # h)"
  by (auto simp: iic_stopped_def)

definition module_read :: "io list \<Rightarrow> (u32 + 'a) prog \<Rightarrow> bool" where
  "module_read h0 m \<longleftrightarrow> (\<forall>s. iic_answered h0 (trace s) \<longrightarrow> wp m (\<lambda>r t. case r of
     Inl e \<Rightarrow> e = XFSBL_FAILURE \<and> iic_stopped h0 (trace t) | Inr d \<Rightarrow> iic_answered h0 (trace t)) (\<lambda>_ _. False) s)"

lemma module_read_ret: "module_read h0 (retM (Inr d))"
  by (simp add: module_read_def wp_ret)

lemma module_read_call:
  assumes "module_read h0 k" and "\<And>v. iic_failed c v \<longleftrightarrow> v \<noteq> 0"
  shows "module_read h0 (iicM (extM W (Iic c)) k)"
  using assms by (auto simp: module_read_def iicM_def wp_eq iic_answered_step iic_stopped_step)

lemma module_read_idle: "module_read h0 k \<Longrightarrow> module_read h0 (iic_idle W k)"
  unfolding iic_idle_def by (rule module_read_call) (simp_all add: iic_failed_def)

lemma module_read_send: "module_read h0 k \<Longrightarrow> module_read h0 (iic_send W b a k)"
  using module_read_idle [of h0 k W]
  by (auto simp: module_read_def iic_send_def wp_eq iic_answered_step iic_failed_def)

lemma module_read_recv: "(\<And>b. module_read h0 (k b)) \<Longrightarrow> module_read h0 (iic_recv W n a k)"
  using module_read_idle [of h0 "k _" W]
  by (auto simp: module_read_def iic_recv_def wp_eq iic_answered_step iic_stopped_step iic_failed_def simp del: upt_rec_numeral)

lemma IicReadSpdEeprom_reads: "module_read h0 (XFsbl_IicReadSpdEeprom W)"
proof -
  have lookup: "module_read h0 (bindM (extM W (Iic IicLookupConfig)) (\<lambda>c. if c = 0 then retM (Inl XFSBL_FAILURE) else k))"
    if "module_read h0 k" for k :: "(u32 + u8 list) prog"
    using that by (auto simp: module_read_def wp_eq iic_answered_step iic_stopped_step iic_failed_def)
  show ?thesis
    unfolding XFsbl_IicReadSpdEeprom_def
    by (intro lookup module_read_call module_read_send module_read_recv module_read_ret) (simp_all add: iic_failed_def)
qed

lemma answers_train: "answers (\<lambda>Status _. Status = XFSBL_SUCCESS) (ddr_train C W D)"
proof -
  have "answers (\<lambda>Status _. Status = XFSBL_SUCCESS) (tryM_as XFSBL_FAILURE (XFsbl_DdrcPhyTraining C W (PDimm D)) (retM XFSBL_SUCCESS))"
    unfolding answers_def wp_try_as by (intro allI wp_mono [OF answers_training [unfolded answers_def, THEN spec]]) (simp_all add: wp_ret)
  then show ?thesis unfolding ddr_train_def by (auto intro!: answers_if answers_bind answers_ret)
qed

text \<open>C21: the memory initialisation fails exactly when the module cannot be read.  It answers with a failure only after a call of
  the I2C driver has failed: that call is the last thing that has happened, only calls of the driver that did not fail have
  happened before, and so no register of the memory controller or of the PHY has been touched.  Once the module has been read,
  every run that returns answers with success, whatever the module is and whatever the hardware answers.\<close>

theorem ddr_failure_untouched:
  "wp (XFsbl_DdrInit C W) (\<lambda>Status t.
     Status = XFSBL_SUCCESS \<and> (\<exists>SpdData u. XFsbl_IicReadSpdEeprom W s = Some (Ret (Inr SpdData), u) \<and> iic_answered (trace s) (trace u)) \<or>
     Status = XFSBL_FAILURE \<and> XFsbl_IicReadSpdEeprom W s = Some (Ret (Inl XFSBL_FAILURE), t) \<and> iic_stopped (trace s) (trace t))
   (\<lambda>_ _. \<exists>SpdData u. XFsbl_IicReadSpdEeprom W s = Some (Ret (Inr SpdData), u)) s"
    (is "wp _ ?Q ?H _")
proof -
  have read: "wp (XFsbl_IicReadSpdEeprom W) (\<lambda>r t. case r of
     Inl e \<Rightarrow> e = XFSBL_FAILURE \<and> iic_stopped (trace s) (trace t) | Inr d \<Rightarrow> iic_answered (trace s) (trace t)) (\<lambda>_ _. False) s"
    using IicReadSpdEeprom_reads [of "trace s" W] iic_answered_Nil by (auto simp: module_read_def)
  have train: "answers (\<lambda>Status _. Status = XFSBL_SUCCESS) (bindM m (ddr_train C W))" for m
    by (intro answers_bind answers_train)
  have "wp (XFsbl_IicReadSpdEeprom W) (\<lambda>r t. XFsbl_IicReadSpdEeprom W s = Some (Ret r, t)) (\<lambda>_ _. True) s"
    by (auto simp: wp_def split: option.split res.split)
  from wp_conj [OF read this] show ?thesis
    unfolding XFsbl_DdrInit_def wp_bind [of "XFsbl_IicReadSpdEeprom W"]
  proof (rule wp_mono)
    fix r t assume t: "(case r of Inl e \<Rightarrow> e = XFSBL_FAILURE \<and> iic_stopped (trace s) (trace t) | Inr d \<Rightarrow> iic_answered (trace s) (trace t)) \<and>
      XFsbl_IicReadSpdEeprom W s = Some (Ret r, t)"
    show "wp (case r of Inl Status \<Rightarrow> retM XFSBL_FAILURE | Inr SpdData \<Rightarrow> bindM (if dimm_ddr4_only C then XFsbl_Ddr4Init C W SpdData DdrData
        else ddr_registers_init C W SpdData DdrData) (ddr_train C W)) ?Q ?H t"
    proof (cases r)
      case (Inl e)
      with t show ?thesis by (simp add: wp_ret)
    next
      case (Inr SpdData)
      with t have "\<exists>SpdData u. XFsbl_IicReadSpdEeprom W s = Some (Ret (Inr SpdData), u)"
        "\<exists>SpdData u. XFsbl_IicReadSpdEeprom W s = Some (Ret (Inr SpdData), u) \<and> iic_answered (trace s) (trace u)" by auto
      with Inr show ?thesis using train [unfolded answers_def, THEN spec]
        by (auto simp del: wp_if intro!: wp_mono [OF train [unfolded answers_def, THEN spec]])
    qed
  qed simp
qed

end
