(* ===== verification/Ddr_Writes.thy ===== *)
theory Ddr_Writes
  imports Ddr_Phy
begin

text \<open>
  The register writes of the DDR initialisation, read back: after the tables of the controller and of the PHY are
  written, the last value that went to each register has every field of the table with the value put there.
\<close>

section \<open>The last write of a register\<close>

primrec last_write :: "u32 \<Rightarrow> io list \<Rightarrow> u32 option" where
  "last_write a [] = None"
| "last_write a (e # h) = (case e of Wr b v \<Rightarrow> if b = a then Some v else last_write a h | _ \<Rightarrow> last_write a h)"

definition holds_fields :: "field list \<Rightarrow> u32 option \<Rightarrow> bool" where
  "holds_fields fs r = (case r of None \<Rightarrow> False | Some w \<Rightarrow> list_all (\<lambda>(v, m, i). drop_bit i w AND m = v AND m) fs)"

lemma holds_fields_sum: "fields_apart fs \<Longrightarrow> holds_fields fs (Some (fields_sum fs))"
  by (auto simp: holds_fields_def list_all_iff field_read_sum)

abbreviation writes :: "u32 \<Rightarrow> (u32 \<times> u32) list \<Rightarrow> unit prog" where
  "writes base ws \<equiv> seqsM (map (\<lambda>(offset, v). XFsbl_Out32 (base + offset) v) ws)"

lemma ends_writes: "ends (writes base ws) Q s = Q () (s\<lparr>trace := rev (map (\<lambda>(offset, v). Wr (base + offset) v) ws) @ trace s\<rparr>)"
  by (induction ws arbitrary: s) (auto simp: ends_eq)

lemma last_write_append:
  "last_write a (h @ g) = (case last_write a h of None \<Rightarrow> last_write a g | Some v \<Rightarrow> Some v)"
  by (induction h) (auto split: io.splits)

lemma last_write_distinct:
  assumes "distinct (map fst ws)" "(offset, v) \<in> set ws"
  shows "last_write (base + offset) (rev (map (\<lambda>(offset, v). Wr (base + offset) v) ws) @ h) = Some v"
  using assms
proof (induction ws arbitrary: h)
  case (Cons w ws)
  obtain o' v' where w: "w = (o', v')" by (cases w)
  show ?case
  proof (cases "(offset, v) \<in> set ws")
    case True
    then show ?thesis using Cons by (simp add: w)
  next
    case False
    then have "w = (offset, v)" using Cons.prems(2) by simp
    moreover have "last_write (base + offset) (rev (map (\<lambda>(offset, v). Wr (base + offset) v) ws)) = None"
      using Cons.prems(1) calculation by (induction ws) (auto simp: last_write_append split: prod.splits)
    ultimately show ?thesis by (simp add: last_write_append)
  qed
qed simp

text \<open>A table of registers: offsets and fields.\<close>

definition table_holds :: "u32 \<Rightarrow> (u32 list \<times> field list) list \<Rightarrow> fsbl \<Rightarrow> bool" where
  "table_holds base rs s = list_all (\<lambda>(offsets, fs). list_all (\<lambda>offset. holds_fields fs (last_write (base + offset) (trace s))) offsets) rs"

abbreviation table_writes :: "(u32 list \<times> field list) list \<Rightarrow> (u32 \<times> u32) list" where
  "table_writes rs \<equiv> concat (map (\<lambda>(offsets, fs). map (\<lambda>offset. (offset, fields_sum fs)) offsets) rs)"

lemma table_writes_offsets: "map fst (table_writes rs) = concat (map fst rs)"
  by (induction rs) (auto simp: o_def)

lemma ends_table:
  assumes "distinct (concat (map fst rs))" "list_all (\<lambda>(offsets, fs). fields_apart fs) rs"
  shows "ends (writes base (table_writes rs)) (\<lambda>_. table_holds base rs) s"
  unfolding ends_writes table_holds_def list_all_iff
proof (clarsimp)
  fix offsets fs offset assume r: "(offsets, fs) \<in> set rs" "offset \<in> set offsets"
  then have "(offset, fields_sum fs) \<in> set (table_writes rs)" by force
  then have "last_write (base + offset) (rev (map (\<lambda>(offset, v). Wr (base + offset) v) (table_writes rs)) @ trace s) = Some (fields_sum fs)"
    using assms(1) unfolding table_writes_offsets [symmetric] by (intro last_write_distinct)
  moreover have "fields_apart fs" using assms(2) r(1) by (auto simp: list_all_iff)
  ultimately show "holds_fields fs (last_write (base + offset) (rev (map (\<lambda>(offset, v). Wr (base + offset) v) (table_writes rs)) @ trace s))"
    by (simp add: holds_fields_sum)
qed

section \<open>The controller\<close>

lemma single_offsets:
  "concat (map fst (map (\<lambda>(offset, fs). ([offset], fs)) rs)) = map fst rs"
  "table_writes (map (\<lambda>(offset, fs). ([offset], fs)) rs) = map (\<lambda>(offset, fs). (offset, fields_sum fs)) rs"
  by (induction rs) auto

text \<open>After the registers of the controller are written, every field of every one of them reads back as the value it was given.\<close>

lemma ddrc_fields_read_back:
  "ends (XFsbl_DdrcRegsWrite DdrCfg)
     (\<lambda>_. table_holds XFSBL_DDRC_BASE_ADDR (map (\<lambda>(offset, fs). ([offset], fs)) (ddrc_regs DdrCfg))) s"
proof -
  let ?rs = "map (\<lambda>(offset, fs). ([offset], fs)) (ddrc_regs DdrCfg)"
  have "list_all (\<lambda>(offsets, fs). fields_apart fs) ?rs" using ddrc_regs_apart [of DdrCfg] by (auto simp: list_all_iff)
  then have "ends (writes XFSBL_DDRC_BASE_ADDR (table_writes ?rs)) (\<lambda>_. table_holds XFSBL_DDRC_BASE_ADDR ?rs) s"
    using ddrc_regs_distinct unfolding single_offsets(1) [symmetric] by (intro ends_table)
  moreover have "writes XFSBL_DDRC_BASE_ADDR (table_writes ?rs) = XFsbl_DdrcRegsWrite DdrCfg"
    unfolding XFsbl_DdrcRegsWrite_def single_offsets(2) by (simp add: comp_def case_prod_unfold)
  ultimately show ?thesis by simp
qed

section \<open>The PHY\<close>

text \<open>Neither the offsets nor the places of the fields depend on the array.\<close>

lemma phy_regs_apart:
  "list_all (\<lambda>(offsets, fs). fields_apart fs) (phy_regs_1 PhyCfg)" "list_all (\<lambda>(offsets, fs). fields_apart fs) (phy_regs_2 PhyCfg)"
  "list_all (\<lambda>(offsets, fs). fields_apart fs) (phy_regs_3 PhyCfg)" "list_all (\<lambda>(offsets, fs). fields_apart fs) (phy_regs_4 PhyCfg)"
  "list_all (\<lambda>(offsets, fs). fields_apart fs) (phy_regs_5 PhyCfg)" "list_all (\<lambda>(offsets, fs). fields_apart fs) (phy_regs_6 PhyCfg)"
  "list_all (\<lambda>(offsets, fs). fields_apart fs) (phy_regs_7 PhyCfg)" "list_all (\<lambda>(offsets, fs). fields_apart fs) (phy_regs_8 PhyCfg)"
  "list_all (\<lambda>(offsets, fs). fields_apart fs) (phy_regs_9 PhyCfg)" "list_all (\<lambda>(offsets, fs). fields_apart fs) (phy_regs_10 PhyCfg)"
  "list_all (\<lambda>(offsets, fs). fields_apart fs) (phy_regs_11 PhyCfg)" "list_all (\<lambda>(offsets, fs). fields_apart fs) (phy_regs_12 PhyCfg)"
  "list_all (\<lambda>(offsets, fs). fields_apart fs) (phy_regs_13 PhyCfg)" "list_all (\<lambda>(offsets, fs). fields_apart fs) (phy_regs_14 PhyCfg)"
  by (simp_all only: phy_regs_defs list.pred_inject prod.case list.map snd_conv areas_apart.simps simp_thms)
    simp_all

lemma phy_table_apart: "list_all (\<lambda>(offsets, fs). fields_apart fs) (phy_table P PhyCfg)"
  by (simp only: phy_table_def Let_def list_all_append phy_regs_apart simp_thms)

lemma phy_regs_offsets:
  "map fst (phy_regs_1 PhyCfg) = map fst (phy_regs_1 c)" "map fst (phy_regs_2 PhyCfg) = map fst (phy_regs_2 c)"
  "map fst (phy_regs_3 PhyCfg) = map fst (phy_regs_3 c)" "map fst (phy_regs_4 PhyCfg) = map fst (phy_regs_4 c)"
  "map fst (phy_regs_5 PhyCfg) = map fst (phy_regs_5 c)" "map fst (phy_regs_6 PhyCfg) = map fst (phy_regs_6 c)"
  "map fst (phy_regs_7 PhyCfg) = map fst (phy_regs_7 c)" "map fst (phy_regs_8 PhyCfg) = map fst (phy_regs_8 c)"
  "map fst (phy_regs_9 PhyCfg) = map fst (phy_regs_9 c)" "map fst (phy_regs_10 PhyCfg) = map fst (phy_regs_10 c)"
  "map fst (phy_regs_11 PhyCfg) = map fst (phy_regs_11 c)" "map fst (phy_regs_12 PhyCfg) = map fst (phy_regs_12 c)"
  "map fst (phy_regs_13 PhyCfg) = map fst (phy_regs_13 c)" "map fst (phy_regs_14 PhyCfg) = map fst (phy_regs_14 c)"
  by (simp_all only: phy_regs_defs list.map fst_conv)

lemma unat_numeral_32: "unat (numeral n :: u32) = take_bit 32 (numeral n)" "unat (0 :: u32) = 0" "unat (1 :: u32) = 1"
  by simp_all

lemma phy_table_offsets: "distinct (concat (map fst (phy_table P PhyCfg)))"
proof -
  have "map fst (phy_table P PhyCfg) = map fst (phy_regs_1 []) @ map fst (phy_regs_2 []) @ map fst (phy_regs_3 []) @
      map fst (phy_regs_4 []) @ map fst (phy_regs_5 []) @ map fst (phy_regs_6 []) @ map fst (phy_regs_7 []) @ map fst (phy_regs_8 []) @
      map fst (phy_regs_9 []) @ map fst (phy_regs_10 []) @ map fst (phy_regs_11 []) @ map fst (phy_regs_12 []) @ map fst (phy_regs_13 []) @
      map fst (phy_regs_14 [])"
    by (simp only: phy_table_def Let_def map_append append.assoc) (intro arg_cong2 [where f = "(@)"] phy_regs_offsets)
  then have "concat (map fst (phy_table P PhyCfg)) = concat (map fst (phy_regs_1 []) @ map fst (phy_regs_2 []) @ map fst (phy_regs_3 []) @
      map fst (phy_regs_4 []) @ map fst (phy_regs_5 []) @ map fst (phy_regs_6 []) @ map fst (phy_regs_7 []) @ map fst (phy_regs_8 []) @
      map fst (phy_regs_9 []) @ map fst (phy_regs_10 []) @ map fst (phy_regs_11 []) @ map fst (phy_regs_12 []) @ map fst (phy_regs_13 []) @
      map fst (phy_regs_14 []))" (is "?a = ?b")
    by (rule arg_cong)
  moreover have "distinct (map unat ?b)"
    unfolding phy_regs_defs by (simp only: list.map fst_conv concat.simps append.simps unat_numeral_32) simp
  then have "distinct ?b" by (simp only: distinct_map)
  ultimately show ?thesis by (simp only:)
qed

lemma phy_fields_read_back: "ends (XFsbl_PhyRegsWrite P PhyCfg) (\<lambda>_. table_holds XFSBL_DDRPHY_BASE_ADDR (phy_table P PhyCfg)) s"
  unfolding XFsbl_PhyRegsWrite_def by (rule ends_table [OF phy_table_offsets phy_table_apart])

text \<open>C14: after the registers of the controller and of the PHY are written, every field of every one of them reads back as the
  value it was given, on all of the lanes that share the value: no field overlaps another, and no register is written twice.\<close>

theorem fields_read_back:
  "ends (XFsbl_DdrcRegsWrite DdrCfg) (\<lambda>_ t. table_holds XFSBL_DDRC_BASE_ADDR (map (\<lambda>(offset, fs). ([offset], fs)) (ddrc_regs DdrCfg)) t \<and>
     ends (XFsbl_PhyRegsWrite P PhyCfg) (\<lambda>_. table_holds XFSBL_DDRPHY_BASE_ADDR (phy_table P PhyCfg)) t) s"
  using ddrc_fields_read_back [of DdrCfg s] phy_fields_read_back [of P PhyCfg] by (auto simp: ends_def)

end
