(* ===== verification/Fsbl_Bitstream.thy ===== *)
theory Fsbl_Bitstream
  imports Fsbl_Partition_Load
begin

text \<open>
  Authenticated bitstreams, from the validation of their partition to the transfer of their
  chunks: the guarantee of the block-wise authentication (\<open>Fsbl_Pl_Partition\<close>) for the whole of
  \<open>XFsbl_PartitionValidation\<close>, and where it does nothing.
\<close>

section \<open>Validation\<close>

text \<open>Around the blocks of the bitstream the validation makes no transfer.\<close>

context quiet_closed
begin

lemma quiet_get_PartitionHeader: "keeps any_exit I (get_PartitionHeader n)"
  by (simp add: keeps_def wp_eq)

lemma quiet_sha: "keeps E I (XFsbl_ShaDigest W a n l)"
  unfolding XFsbl_ShaDigest_def XFsbl_CsuDmaInit_def XFsbl_Sha3PadSelect_def XFsbl_ShaStart_def XFsbl_ShaUpdate_def
    XFsbl_ShaFinish_def Let_def
  by (intro keeps_intro quiet_keeps) (simp_all add: is_transfer_def)

lemma quiet_CalcualteCheckSum: "keeps any_exit I (XFsbl_CalcualteCheckSum W a n)"
  unfolding XFsbl_CalcualteCheckSum_def XFsbl_CalcualteSHA_def
  by (intro keeps_intro quiet_keeps quiet_sha quiet_get_PartitionHeader) (simp_all add: is_transfer_def)

lemma quiet_PcapInit: "keeps E I (XFsbl_PcapInit W)"
  unfolding XFsbl_PcapInit_def XFsbl_PcapPowerUp_def PcapReset_def XFsbl_PowerUpIsland_def XFsbl_IsolationRestore_def Let_def
  by (intro keeps_intro quiet_keeps keeps_mod ReadBuffer_quiet) (simp_all add: is_transfer_def)

lemma quiet_PLWaitForDone_poll: "keeps E I (PLWaitForDone_poll W n v)"
  by (induction n arbitrary: v) (auto intro!: keeps_intro quiet_keeps)

lemma quiet_pl_done: "keeps E I (PartitionValidation_pl_done W)"
  unfolding PartitionValidation_pl_done_def XFsbl_PLWaitForDone_def XFsbl_HookAfterBSDownload_def PcapReset_def Let_def
    XFsbl_PowerUpIsland_def XFsbl_IsolationRestore_def
  by (intro keeps_intro quiet_keeps quiet_PLWaitForDone_poll) (simp_all add: is_transfer_def)

end

lemma SecPl_checked:
  "keeps any_exit (bitstream_checked W h0) (PartitionValidation_pl_auth W p False a)"
proof -
  have "keeps any_exit (bitstream_checked W h0) (XFsbl_SecPlPartition W (pl_params p False a))"
    using SecPlPartition_wp [of W h0] by (simp add: keeps_def pl_params_def)
  then show ?thesis
    unfolding PartitionValidation_pl_auth_def pl_reset_def
    by (intro keeps_intro still_checked.quiet_keeps) simp_all
qed

lemma PartitionValidation_checked:
  assumes "XFsbl_IsRsaSignaturePresent p = XIH_PH_ATTRB_RSA_SIGNATURE"
    and "XFsbl_GetDestinationDevice p = XIH_PH_ATTRB_DEST_DEVICE_PL"
    and "XFsbl_IsEncrypted p \<noteq> XIH_PH_ATTRB_ENCRYPTION" and "unat n < 32 \<Longrightarrow> PartitionHeader s ! unat n = p"
  shows "wp (XFsbl_PartitionValidation W n) (\<lambda>_. bitstream_checked W (trace s)) (\<lambda>_. bitstream_checked W (trace s)) s"
proof -
  have auth: "keeps any_exit (bitstream_checked W h0) (PartitionValidation_auth W p False a)" for h0 a
    using assms(2) SecPl_checked by (simp add: PartitionValidation_auth_def)
  have hook: "keeps any_exit I XFsbl_HookBeforeBSDownload" for I
    unfolding XFsbl_HookBeforeBSDownload_def by (intro keeps_intro)
  let ?k = "\<lambda>c. seqM (whenM False (XFsbl_UpdateHandoff p c)) (retM XFSBL_SUCCESS)"
  have "keeps any_exit (bitstream_checked W h0) (PartitionValidation_checks W n p a (?k c))" for h0 a c
    unfolding PartitionValidation_checks_def Let_def
    using assms
    by (auto simp: whenM_def intro!: keeps_intro still_checked.quiet_CalcualteCheckSum still_checked.quiet_PcapInit
        still_checked.quiet_pl_done auth hook)
  note body = keepsD [OF this bitstream_checked_start [of W s]]
  show ?thesis
    using assms body
    by (simp add: XFsbl_PartitionValidation_def wp_bind wp_get_PartitionHeader wp_get wp_ret Let_def bitstream_checked_start
        split: prod.split)
qed

text \<open>
  A bitstream above 4 GB: the address of its certificates, cut to 32 bits, lies below its start,
  and the loop over its blocks does not run.
\<close>

lemma SecPlPartition_above_4GB:
  assumes "0x100000000 \<le> LoadAddress"
  shows "ends (XFsbl_SecPlPartition W (pl_params p False LoadAddress))
    (\<lambda>Status t. Status = XFSBL_SUCCESS \<and> (\<exists>h. trace t = h @ trace s \<and> \<not> (\<exists>e\<in>set h. is_transfer e \<or> (\<exists>c v. e = Ext (Crypto c) v)))) s"
proof -
  let ?p = "pl_params p False LoadAddress"
  have "zx (AcOfset (PlAuth ?p)) < 0x100000000"
    using unsigned_less [of "AcOfset (PlAuth ?p)", where 'a = nat] by (simp add: word_less_nat_alt unat_zx)
  then have "\<not> LoadAddress < zx (AcOfset (PlAuth ?p))" using assms by simp
  then have turn: "ends (SecPl_turn W (?p, i, LoadAddress, c)) (\<lambda>z t. z = Inl (XFSBL_SUCCESS, True) \<and> t = s) s" for i c s
    by (simp add: SecPl_turn_def ends_eq)
  have start: "StartAddress ?p = LoadAddress" "IsAuthenticated ?p" "\<not> IsEncrypted ?p" by (simp_all add: pl_params_def)
  show ?thesis
    unfolding XFsbl_SecPlPartition_def Let_def SecPl_restore_def start
    by (auto simp: ends_eq start intro!: ends_iter ends_mono [OF turn])
qed

section \<open>An example bitstream\<close>

text \<open>An authenticated bitstream of one block, on a device where every call succeeds.\<close>

definition pl_partition :: XFsblPs_PartitionHeader where
  "pl_partition = secure_partition\<lparr>PartitionAttributes := 0x108026, DestinationLoadAddress := 0x100000, TotalDataWordLength := 0x3f0,
     DataWordOffset := 0x400, AuthCertificateOffset := 0x440\<rparr>"

definition pl_world :: world where
  "pl_world = secure_world\<lparr>reg_in := (\<lambda>_ a. if a = CSU_PCAP_STATUS \<or> a = CSU_PCAP_RESET \<or> a = ADMA_CH0_ZDMA_CH_ISR then 0xFFFFFFFF else 0)\<rparr>"

definition pl_state :: fsbl where
  "pl_state = secure_state\<lparr>PartitionHeader := (PartitionHeader fsbl_init)[0 := pl_partition]\<rparr>"

lemma pl_partition_fields:
  "XFsbl_GetDestinationDevice pl_partition = XIH_PH_ATTRB_DEST_DEVICE_PL"
  "XFsbl_IsRsaSignaturePresent pl_partition = XIH_PH_ATTRB_RSA_SIGNATURE"
  "XFsbl_IsEncrypted pl_partition = 0" "XFsbl_GetChecksumType pl_partition = XIH_PH_ATTRB_NOCHECKSUM"
  "XFsbl_GetBlockSize pl_partition = 0x400000"
  by (simp_all add: pl_partition_def XFsbl_GetDestinationDevice_def XFsbl_IsRsaSignaturePresent_def XFsbl_IsEncrypted_def
     XFsbl_GetChecksumType_def XFsbl_GetBlockSize_def hw)


text \<open>A transfer has been made.\<close>

definition transferred :: "fsbl \<Rightarrow> bool" where
  "transferred s \<longleftrightarrow> (\<exists>e\<in>set (trace s). is_transfer e)"

lemma transferred_simps [simp]:
  "transferred (s\<lparr>trace := e # h\<rparr>) \<longleftrightarrow> is_transfer e \<or> transferred (s\<lparr>trace := h\<rparr>)" "transferred (s\<lparr>trace := trace s\<rparr>) = transferred s"
  by (simp_all add: transferred_def)

lemma pl_world_fields:
  "ext_ret pl_world h c = (if c = Dma CsuDmaLookupConfig then 1 else XFSBL_SUCCESS)"
  "reg_in pl_world h a = (if a = CSU_PCAP_STATUS \<or> a = CSU_PCAP_RESET \<or> a = ADMA_CH0_ZDMA_CH_ISR then 0xFFFFFFFF else 0)"
  "ext_byte pl_world h c = (\<lambda>k. if k = 2 then 8 else 0)" "XPS_VERSION_2 pl_world = 1"
  "XPLAT_ZYNQ_ULTRA_MP pl_world = 1" "XPLAT_ZYNQ_ULTRA_MPQEMU pl_world = 3"
  by (simp_all add: pl_world_def secure_world_def quiet_world_def hw)

lemma pl_copy_cert:
  "PlDeviceCopy p = None \<Longrightarrow> ends (XFsbl_CopyData pl_world p AuthCertBuf a n) (\<lambda>x t. x = XFSBL_SUCCESS \<and>
    AuthBuffer t = overwrite (AuthBuffer s) 0 (unat n) (\<lambda>k. if k = 2 then 8 else 0)) s"
  unfolding XFsbl_CopyData_def XFsbl_AdmaCopy_def
  by (auto simp: ends_eq pl_world_fields hw intro!: ends_poll)

lemma pl_copy_chunk:
  "PlDeviceCopy p = None \<Longrightarrow> ends (XFsbl_CopyData pl_world p ChunkBuffer a n) (\<lambda>x t. x = XFSBL_SUCCESS) s"
  unfolding XFsbl_CopyData_def XFsbl_AdmaCopy_def
  by (auto simp: ends_eq pl_world_fields hw intro!: ends_poll)

lemma pl_send:
  assumes "PlDeviceCopy p = None" and "\<not> IsEncrypted p" 
  shows "ends (ReAuth_transfer pl_world p n) (\<lambda>(x, q) t. x = XFSBL_SUCCESS \<and> q = p \<and> transferred t) s"
  using assms unfolding ReAuth_transfer_def XFsbl_DmaPlCopy_def XFsbl_PcapWaitForDone_def
  by (auto simp: ends_eq pl_world_fields hw PcapReset_def intro!: ends_poll)


lemma pl_spk:
  assumes "le32 (AuthBuffer s) 0 = 0x80000"
  shows "ends (XFsbl_SpkVer pl_world ac XFSBL_HASH_TYPE_SHA3) (\<lambda>x t. x = XFSBL_SUCCESS) s"
  using assms unfolding XFsbl_SpkVer_def rsa_verify_def SpkVer_hash_def SpkVer_revocation_def XFsbl_CsuDmaInit_def
    XFsbl_ShaStart_def XFsbl_ShaUpdate_def XFsbl_ShaFinish_def Let_def
  by (simp add: ends_eq pl_world_fields hw)

lemma pl_compare:
  "XFsbl_CompareHashs (\<lambda>i. le32 (overwrite H 0 48 d) (4 * i)) (\<lambda>i. le32 d (4 * i)) XFSBL_HASH_TYPE_SHA3 = XFSBL_SUCCESS"
proof -
  have "le32 (overwrite H 0 48 d) (4 * i) = le32 d (4 * i)" if "i < 12" for i
    using that by (simp add: le32_def overwrite_def)
  then show ?thesis unfolding CompareHashs_iff by (simp add: hw)
qed

lemma pl_block:
  assumes "PlDeviceCopy p = None" and "\<not> IsEncrypted p" and "AuthType (PlAuth p) = XFSBL_HASH_TYPE_SHA3"
    and "le32 (AuthBuffer s) 0 = 0x80000" and "L \<le> ChunkSize p" and "NoOfHashs (PlAuth p) = 149"
  shows "ends (XFsbl_PlBlockAuthentication pl_world p a L ac) (\<lambda>(x, q) t. x = XFSBL_SUCCESS \<and> transferred t) s"
proof -
  have one: "pl_chunks p L = 1" using assms(5) by (simp add: pl_chunks_def leD)
  have first: "ends (XFsbl_PlSignVer pl_world p a L ac 1)
     (\<lambda>(x, q) t. x = XFSBL_SUCCESS \<and> q = p\<lparr>PlAuth := (PlAuth p)\<lparr>HashsOfChunks := overwrite (HashsOfChunks (PlAuth p)) 0 48 (\<lambda>k. if k = 2 then 8 else 0)\<rparr>\<rparr>) s" for s
    unfolding XFsbl_PlSignVer_def set_endian_def Let_def PlSignVer_finish_def rsa_verify_def
    using assms by (auto simp: ends_eq pl_world_fields hw intro!: ends_mono [OF pl_copy_chunk])
  have second: "ends (XFsbl_ReAuthenticationBlock pl_world q a L 1) (\<lambda>(x, q) t. x = XFSBL_SUCCESS \<and> transferred t) s"
    if "q = p\<lparr>PlAuth := (PlAuth p)\<lparr>HashsOfChunks := overwrite H 0 48 (\<lambda>k. if k = 2 then 8 else 0)\<rparr>\<rparr>" for q H s
    unfolding XFsbl_ReAuthenticationBlock_def Let_def
    using assms that pl_compare by (auto simp: ends_eq pl_world_fields intro!: ends_mono [OF pl_copy_chunk] ends_mono [OF pl_send])
  show ?thesis
    unfolding XFsbl_PlBlockAuthentication_def Let_def one
    using assms by (auto simp: ends_eq intro!: ends_mono [OF pl_spk] ends_mono [OF first] ends_mono [OF second])
qed


lemma pl_all:
  "ends (XFsbl_SecPlPartition pl_world (pl_params pl_partition False 0x100000)) (\<lambda>x t. x = XFSBL_SUCCESS \<and> transferred t) s"
proof -
  let ?p = "pl_params pl_partition False 0x100000"
  have p: "PlDeviceCopy ?p = None" "\<not> IsEncrypted ?p" "AuthType (PlAuth ?p) = XFSBL_HASH_TYPE_SHA3"
    "NoOfHashs (PlAuth ?p) = 149" "AcOfset (PlAuth ?p) = 0x100100" "BlockSize (PlAuth ?p) = 0x400000" "StartAddress ?p = 0x100000"
    "IsAuthenticated ?p" "last_block_len ?p 1 = 0x100" "ChunkSize ?p = READ_BUFFER_SIZE"
    by (simp_all add: pl_params_def pl_partition_fields last_block_len_def, simp_all add: pl_partition_def hw)
  have cert: "le32 (overwrite b 0 (unat XFSBL_AUTH_CERT_MIN_SIZE) (\<lambda>k. if k = 2 then 8 else 0)) 0 = 0x80000" for b
    by (simp add: le32_def overwrite_def hw)
  have small: "(0x100 :: u32) \<le> READ_BUFFER_SIZE" by (simp add: hw)
  have turn: "ends (SecPl_turn pl_world (?p, 1, 0x100000, 0x100100)) (\<lambda>z t. z = Inl (XFSBL_SUCCESS, True) \<and> transferred t) s" for s
    unfolding SecPl_turn_def Let_def prod.case p
    by (auto simp: ends_eq p small cert intro!: ends_mono [OF pl_copy_cert] ends_mono [OF pl_block])
  show ?thesis
    unfolding XFsbl_SecPlPartition_def Let_def SecPl_restore_def
    by (auto simp: ends_eq p transferred_def intro!: ends_iter ends_mono [OF turn])
qed

lemma pl_done: "transferred s \<Longrightarrow> ends (PartitionValidation_pl_done pl_world) (\<lambda>x t. transferred t) s"
proof -
  assume "transferred s"
  have "ends (PLWaitForDone_poll pl_world (Suc n) 0) (\<lambda>x t. transferred t) s" for n
    using \<open>transferred s\<close> by (simp add: ends_eq pl_world_fields transferred_def, simp add: hw)
  from this [of "unat PL_DONE_POLL_COUNT - 1"]
  have poll: "ends (PLWaitForDone_poll pl_world (unat PL_DONE_POLL_COUNT) 0) (\<lambda>x t. transferred t) s" by (simp add: hw)
  show ?thesis
    unfolding PartitionValidation_pl_done_def XFsbl_PLWaitForDone_def XFsbl_HookAfterBSDownload_def PcapReset_def ends_try ends_bind
    by (rule ends_mono [OF poll]) (auto simp: ends_eq pl_world_fields transferred_def intro!: ends_poll, simp_all add: hw)
qed

lemma pl_run: "ends (XFsbl_PartitionValidation pl_world 0) (\<lambda>x t. transferred t) pl_state"
proof -
  have state: "PartitionHeader pl_state ! 0 = pl_partition" "ResetReason pl_state = 0" "BootHdrAttributes pl_state = 0"
      "DestinationLoadAddress pl_partition = 0x100000" "dest_cpu pl_partition (ProcessorID pl_state) = XIH_PH_ATTRB_DEST_CPU_A53_0"
    by (simp_all add: pl_state_def secure_state_def fsbl_init_def pl_partition_def secure_partition_def dest_cpu_def
        XFsbl_GetDestinationCpu_def hw)
  have codes: "(0 :: u32) \<noteq> XIH_PH_ATTRB_ENCRYPTION" "XIH_BH_IMAGE_ATTRB_SHA2_MASK \<noteq> 0" "(0 :: u32) \<noteq> XFSBL_PS_ONLY_RESET"
    "(0x100000 :: u64) \<noteq> zx XFSBL_DUMMY_PL_ADDR" "XFsbl_GetLoadAddress XIH_PH_ATTRB_DEST_CPU_A53_0 a l = (XFSBL_SUCCESS, a)" for a l
    by (simp_all add: hw XFsbl_GetLoadAddress_def)
  have init: "ends (XFsbl_PcapInit pl_world) (\<lambda>x t. x = XFSBL_SUCCESS \<and> BootHdrAttributes t = 0) s" if "BootHdrAttributes s = 0" for s
    using that unfolding XFsbl_PcapInit_def by (auto simp: ends_eq pl_world_fields hw intro!: ends_poll)
  show ?thesis
    unfolding XFsbl_PartitionValidation_def PartitionValidation_checks_def PartitionValidation_auth_def
      PartitionValidation_pl_auth_def Let_def
    by (auto simp: ends_eq state pl_partition_fields codes XFsbl_HookBeforeBSDownload_def
        intro!: ends_mono [OF init] ends_mono [OF pl_all] ends_mono [OF pl_done])
qed

section \<open>Properties\<close>

text \<open>C9: However the validation of a signed bitstream that is not encrypted ends, in success, with
  an error or by leaving the loader, every chunk it has passed on to the logic was hashed once
  more in its buffer right before the transfer, with the length that was transferred;
  and the running hash was, byte for byte, one that the engine had given before in a
  first reading, whose complete hash was then verified against a signature made with
  a secondary key that itself had been verified before.\<close>

theorem bitstream_chunks_checked:
  assumes "XFsbl_PartitionValidation W n s = Some (r, t)" and "PartitionHeader s ! unat n = p"
    and "XFsbl_IsRsaSignaturePresent p = XIH_PH_ATTRB_RSA_SIGNATURE"
    and "XFsbl_GetDestinationDevice p = XIH_PH_ATTRB_DEST_DEVICE_PL"
    and "XFsbl_IsEncrypted p \<noteq> XIH_PH_ATTRB_ENCRYPTION"
  shows "bitstream_checked W (trace s) t"
  using PartitionValidation_checked [OF assms(3-5), of n s W] assms(1,2)
  by (cases r) (simp_all add: wp_def)

lemma bitstream_chunks_checked_witness:
  "\<exists>r t. XFsbl_PartitionValidation pl_world 0 pl_state = Some (r, t) \<and> (\<exists>e\<in>set (trace t). is_transfer e) \<and>
     bitstream_checked pl_world (trace pl_state) t"
proof -
  obtain x t where run: "XFsbl_PartitionValidation pl_world 0 pl_state = Some (Ret x, t)" and sent: "transferred t"
    using pl_run by (auto simp: ends_def)
  have "PartitionHeader pl_state ! unat (0 :: u32) = pl_partition"
    by (simp add: pl_state_def secure_state_def fsbl_init_def)
  moreover have "XFsbl_IsEncrypted pl_partition \<noteq> XIH_PH_ATTRB_ENCRYPTION" by (simp add: pl_partition_fields hw)
  ultimately have "bitstream_checked pl_world (trace pl_state) t"
    by (rule bitstream_chunks_checked [OF run _ pl_partition_fields(2,1)])
  with run sent show ?thesis by (auto simp: transferred_def)
qed

text \<open>C10: A signed bitstream whose load address is at or above 4 GB is never authenticated: the
  function that should do it returns success without one call to the hash or signature engines,
  and without one transfer to the logic.\<close>

theorem bitstream_above_4GB:
  assumes "0x100000000 \<le> LoadAddress"
    and "XFsbl_SecPlPartition W (pl_params p False LoadAddress) s = Some (r, t)"
  shows "r = Ret XFSBL_SUCCESS \<and> (\<exists>h. trace t = h @ trace s \<and>
    \<not> (\<exists>e\<in>set h. is_transfer e \<or> (\<exists>c v. e = Ext (Crypto c) v)))"
  using SecPlPartition_above_4GB [OF assms(1), of W p s] assms(2) by (auto simp: ends_def)

lemma bitstream_above_4GB_witness:
  "\<exists>r t. XFsbl_SecPlPartition pl_world (pl_params pl_partition False 0x800000000) pl_state = Some (r, t) \<and>
     r = Ret XFSBL_SUCCESS \<and> (\<exists>h. trace t = h @ trace pl_state \<and>
    \<not> (\<exists>e\<in>set h. is_transfer e \<or> (\<exists>c v. e = Ext (Crypto c) v)))"
proof -
  obtain r t where run: "XFsbl_SecPlPartition pl_world (pl_params pl_partition False 0x800000000) pl_state = Some (r, t)"
    using SecPlPartition_above_4GB [of "0x800000000" pl_world pl_partition pl_state] by (auto simp: ends_def)
  from bitstream_above_4GB [OF _ this] run show ?thesis by auto
qed

end
