(* ===== verification/Fsbl_Flash.thy ===== *)
theory Fsbl_Flash
  imports Fsbl_Misc
begin

text \<open>
  The boot devices behind \<open>DeviceInit\<close>, \<open>DeviceCopy\<close> and \<open>DeviceRelease\<close>: QSPI flash with 24-bit and
  with 32-bit addresses (\<open>xfsbl_qspi.c\<close>), NAND flash (\<open>xfsbl_nand.c\<close>) and SD cards (\<open>xfsbl_sd.c\<close>).
  The operations of the drivers are external calls.  What a history of such calls reads from the chips is a
  definition of its own (\<open>bytes_read\<close>): the theorems compare it with the addresses asked for.
\<close>

section \<open>QSPI: messages\<close>

definition tx_msg :: "u8 list \<Rightarrow> XQspiPsu_Msg" where
  "tx_msg bs = \<lparr>TxBfr = Some bs, RxBfr = None, ByteCount = of_nat (length bs), BusWidth = SelectSpi, MsgFlags = [FlagTx]\<rparr>"

definition rx_msg :: "qspi_rx \<Rightarrow> u32 \<Rightarrow> XQspiPsu_Msg" where
  "rx_msg b n = \<lparr>TxBfr = None, RxBfr = Some b, ByteCount = n, BusWidth = SelectSpi, MsgFlags = [FlagRx]\<rparr>"

definition set_FlashMsg :: "nat \<Rightarrow> (XQspiPsu_Msg \<Rightarrow> XQspiPsu_Msg) \<Rightarrow> unit prog" where
  "set_FlashMsg i f = modM (\<lambda>s. s\<lparr>FlashMsg := (FlashMsg s)[i := f (FlashMsg s ! i)]\<rparr>)"

definition XQspiPsu_PolledTransfer :: "world \<Rightarrow> nat \<Rightarrow> (u32 \<times> (nat \<Rightarrow> u8)) prog" where
  "XQspiPsu_PolledTransfer W NumMsg =
     bindM (getM (\<lambda>s. take NumMsg (FlashMsg s))) (\<lambda>ms. copyM W (Qspi (QspiTransfer ms)))"

section \<open>QSPI: initialisation\<close>

definition flash_make :: "u8 \<Rightarrow> u32 option" where
  "flash_make b =
     (if ucast b = MICRON_ID then Some MICRON_ID
      else if ucast b = SPANSION_ID then Some SPANSION_ID
      else if ucast b = WINBOND_ID then Some WINBOND_ID
      else if ucast b = MACRONIX_ID then Some MACRONIX_ID
      else if ucast b = ISSI_ID then Some ISSI_ID
      else None)"

definition flash_size :: "u8 \<Rightarrow> u32 option" where
  "flash_size b =
     (if ucast b = FLASH_SIZE_ID_64M then Some FLASH_SIZE_64M
      else if ucast b = FLASH_SIZE_ID_128M then Some FLASH_SIZE_128M
      else if ucast b = FLASH_SIZE_ID_256M then Some FLASH_SIZE_256M
      else if ucast b = FLASH_SIZE_ID_512M \<or> ucast b = MACRONIX_FLASH_SIZE_ID_512M then Some FLASH_SIZE_512M
      else if ucast b = FLASH_SIZE_ID_1G \<or> ucast b = MACRONIX_FLASH_SIZE_ID_1G then Some FLASH_SIZE_1G
      else if ucast b = FLASH_SIZE_ID_2G then Some FLASH_SIZE_2G
      else None)"

definition FlashReadID :: "world \<Rightarrow> u32 prog" where
  "FlashReadID W =
     seqM (seqsM [set_FlashMsg 0 (\<lambda>_. tx_msg [ucast READ_ID_CMD]), set_FlashMsg 1 (\<lambda>_. rx_msg RxLocal 4)])
      (bindM (XQspiPsu_PolledTransfer W 2) (\<lambda>(Status, b).
        if Status \<noteq> XFSBL_SUCCESS then retM XFSBL_FAILURE
        else case flash_make (b 0) of None \<Rightarrow> retM XFSBL_ERROR_UNSUPPORTED_QSPI
        | Some maker \<Rightarrow> seqM (modM (\<lambda>s. s\<lparr>QspiFlashMake := maker\<rparr>))
           (case flash_size (b 2) of None \<Rightarrow> retM XFSBL_ERROR_UNSUPPORTED_QSPI
            | Some n \<Rightarrow> seqM (seqsM
                 [modM (\<lambda>s. s\<lparr>QspiFlashSize := n\<rparr>),
                  whenM (maker = ISSI_ID \<and> n = FLASH_SIZE_128M) (modM (\<lambda>s. s\<lparr>IssiIdFlag := 1\<rparr>))])
               (retM XFSBL_SUCCESS))))"

text \<open>The steps that both initialisations begin with.\<close>

definition qspi_start :: "world \<Rightarrow> u32 prog \<Rightarrow> u32 prog" where
  "qspi_start W k =
     bindM (extM W (Qspi QspiLookupConfig)) (\<lambda>QspiConfig.
       if QspiConfig = 0 then retM XFSBL_ERROR_QSPI_INIT
       else tryM_as XFSBL_ERROR_QSPI_INIT (extM W (Qspi QspiCfgInitialize))
        (tryM_as XFSBL_ERROR_QSPI_MANUAL_START (extM W (Qspi QspiSetOptions))
         (tryM_as XFSBL_ERROR_QSPI_PRESCALER_CLK (extM W (Qspi QspiSetClkPrescaler))
          (seqM (callM W (Qspi (QspiSelectFlash CsLower BusLower)))
            (if cfg_qspi_mode W = QspiUnknown then retM XFSBL_ERROR_INVALID_QSPI_CONNECTION else k)))))"

definition double_size :: "world \<Rightarrow> unit prog" where
  "double_size W = whenM (cfg_qspi_mode W = QspiParallel \<or> cfg_qspi_mode W = QspiStacked)
     (modM (\<lambda>s. s\<lparr>QspiFlashSize := 2 * QspiFlashSize s\<rparr>))"

definition XFsbl_Qspi24Init :: "world \<Rightarrow> u32 \<Rightarrow> u32 prog" where
  "XFsbl_Qspi24Init W DeviceFlags =
     qspi_start W (tryM (FlashReadID W)
       (seqM (seqsM
          [modM (\<lambda>s. s\<lparr>ReadCommand := (if IssiIdFlag s = 1 then DUAL_READ_CMD_24BIT else QUAD_READ_CMD_24BIT)\<rparr>),
           double_size W])
         (retM XFSBL_SUCCESS)))"

text \<open>This version does not read the identification: the size is fixed.\<close>

definition XFsbl_Qspi32Init :: "world \<Rightarrow> u32 \<Rightarrow> u32 prog" where
  "XFsbl_Qspi32Init W DeviceFlags =
     qspi_start W (seqM (seqsM
       [modM (\<lambda>s. s\<lparr>ReadCommand := SLOW_READ_CMD_32BIT\<rparr>),
        modM (\<lambda>s. s\<lparr>QspiFlashSize := FLASH_SIZE_512M\<rparr>),
        double_size W])
      (retM XFSBL_SUCCESS))"

section \<open>QSPI: addresses and banks\<close>

definition XFsbl_GetQspiAddr :: "world \<Rightarrow> u32 \<Rightarrow> u32 prog" where
  "XFsbl_GetQspiAddr W Address =
     bindM (getM QspiFlashSize) (\<lambda>Size. case cfg_qspi_mode W of
         QspiSingle \<Rightarrow> seqM (callM W (Qspi (QspiSelectFlash CsLower BusLower))) (retM Address)
       | QspiStacked \<Rightarrow>
           if Address \<ge> Size div 2
           then seqM (callM W (Qspi (QspiSelectFlash CsUpper BusLower))) (retM (Address - Size div 2))
           else seqM (callM W (Qspi (QspiSelectFlash CsLower BusLower))) (retM Address)
       | QspiParallel \<Rightarrow> seqM (callM W (Qspi (QspiSelectFlash CsBoth BusBoth))) (retM (Address div 2))
       | QspiUnknown \<Rightarrow> retM 0)"

text \<open>One command of \<open>SendBankSelect\<close> without an answer, and the one that reads the register back.\<close>

definition send_command :: "world \<Rightarrow> u8 list \<Rightarrow> u32 prog \<Rightarrow> u32 prog" where
  "send_command W bs k =
     seqM (set_FlashMsg 0 (\<lambda>_. tx_msg bs))
       (bindM (XQspiPsu_PolledTransfer W 1) (\<lambda>(Status, b).
          if Status \<noteq> XFSBL_SUCCESS then retM XFSBL_ERROR_QSPI_READ else k))"

definition read_register :: "world \<Rightarrow> u8 \<Rightarrow> (u8 \<Rightarrow> u32 prog) \<Rightarrow> u32 prog" where
  "read_register W c k =
     seqM (seqsM [set_FlashMsg 0 (\<lambda>_. tx_msg [c]), set_FlashMsg 1 (\<lambda>_. rx_msg RxLocal 1)])
       (bindM (XQspiPsu_PolledTransfer W 2) (\<lambda>(Status, b).
          if Status \<noteq> XFSBL_SUCCESS then retM XFSBL_ERROR_QSPI_READ else k (b 0)))"

definition SendBankSelect :: "world \<Rightarrow> u32 \<Rightarrow> u32 prog" where
  "SendBankSelect W BankSel =
     bindM (getM QspiFlashMake) (\<lambda>maker.
       if maker = MICRON_ID \<or> maker = MACRONIX_ID then
         send_command W [ucast WRITE_ENABLE_CMD]
          (send_command W [ucast EXTADD_REG_WR_CMD, ucast BankSel]
            (read_register W (ucast EXTADD_REG_RD_CMD) (\<lambda>_. retM XFSBL_SUCCESS)))
       else if maker = SPANSION_ID then
         send_command W [ucast BANK_REG_WR_CMD, ucast BankSel]
          (read_register W (ucast BANK_REG_RD_CMD) (\<lambda>r.
             if ucast r \<noteq> BankSel then retM XFSBL_ERROR_QSPI_READ else retM XFSBL_SUCCESS))
       else retM XFSBL_SUCCESS)"

section \<open>QSPI: copy\<close>

text \<open>
  The messages of a read: command and address, for the 24-bit commands the dummy cycles, and the data.  The
  width of the bus is left as it was for a command that is none of those listed.
\<close>

definition read_width :: "u32 \<Rightarrow> u32 \<Rightarrow> u32 \<Rightarrow> u32 \<Rightarrow> XQspiPsu_Msg \<Rightarrow> XQspiPsu_Msg" where
  "read_width c fast dual quad m =
     m\<lparr>BusWidth := (if c = fast then SelectSpi else if c = dual then SelectDualSpi
                     else if c = quad then SelectQuadSpi else BusWidth m)\<rparr>"

definition rx_data :: "world \<Rightarrow> u64 \<Rightarrow> u32 \<Rightarrow> XQspiPsu_Msg \<Rightarrow> XQspiPsu_Msg" where
  "rx_data W DestAddress TransferBytes m =
     m\<lparr>TxBfr := None, RxBfr := Some (RxAddr DestAddress), ByteCount := TransferBytes,
       MsgFlags := (if cfg_qspi_mode W = QspiParallel then [FlagRx, FlagStripe] else [FlagRx])\<rparr>"

definition Qspi24_messages :: "world \<Rightarrow> u32 \<Rightarrow> u64 \<Rightarrow> u32 \<Rightarrow> unit prog" where
  "Qspi24_messages W QspiAddr DestAddress TransferBytes =
     bindM (getM ReadCommand) (\<lambda>c. seqsM
       [set_FlashMsg 0 (\<lambda>_. tx_msg [ucast c, ucast (drop_bit 16 (QspiAddr AND 0xFF0000)),
          ucast (drop_bit 8 (QspiAddr AND 0xFF00)), ucast (QspiAddr AND 0xFF)]),
        whenM (c = FAST_READ_CMD_24BIT \<or> c = DUAL_READ_CMD_24BIT \<or> c = QUAD_READ_CMD_24BIT)
          (set_FlashMsg 1 (\<lambda>m. (read_width c FAST_READ_CMD_24BIT DUAL_READ_CMD_24BIT QUAD_READ_CMD_24BIT m)
             \<lparr>TxBfr := None, RxBfr := None, ByteCount := DUMMY_CLOCKS, MsgFlags := []\<rparr>)),
        set_FlashMsg 2 (\<lambda>m. rx_data W DestAddress TransferBytes
          (read_width c FAST_READ_CMD_24BIT DUAL_READ_CMD_24BIT QUAD_READ_CMD_24BIT m))])"

definition dma_piece :: "u32 \<Rightarrow> u32" where
  "dma_piece RemainingBytes = (if RemainingBytes > DMA_DATA_TRAN_SIZE then DMA_DATA_TRAN_SIZE else RemainingBytes)"

definition bank_size :: "world \<Rightarrow> u32" where
  "bank_size W = (if cfg_qspi_mode W = QspiParallel then SINGLEBANKSIZE * 2 else SINGLEBANKSIZE)"

definition bank_mask :: "world \<Rightarrow> u32" where
  "bank_mask W = (if cfg_qspi_mode W = QspiParallel then SINGLEBANKMASK * 2 else SINGLEBANKMASK)"

definition within_bank :: "world \<Rightarrow> u32 \<Rightarrow> u32 \<Rightarrow> u32" where
  "within_bank W OrigAddr TransferBytes =
     (if OrigAddr AND bank_mask W \<noteq> (OrigAddr + TransferBytes) AND bank_mask W
      then (OrigAddr AND bank_mask W) + bank_size W - OrigAddr else TransferBytes)"

text \<open>One turn of the loop; its variables are \<open>SrcAddress\<close>, \<open>DestAddress\<close> and \<open>RemainingBytes\<close>.\<close>

definition Qspi24Copy_turn :: "world \<Rightarrow> u32 \<times> u64 \<times> u32 \<Rightarrow> (u32 + (u32 \<times> u64 \<times> u32)) prog" where
  "Qspi24Copy_turn W x = (case x of (SrcAddress, DestAddress, RemainingBytes) \<Rightarrow>
     if \<not> RemainingBytes > 0 then retM (Inl XFSBL_SUCCESS)
     else bindM (XFsbl_GetQspiAddr W SrcAddress) (\<lambda>QspiAddr.
          bindM (getM QspiFlashSize) (\<lambda>Size.
          bindM (if Size > bank_size W then SendBankSelect W (QspiAddr div BANKSIZE) else retM XFSBL_SUCCESS) (\<lambda>Status.
            if Status \<noteq> XFSBL_SUCCESS then retM (Inl XFSBL_ERROR_QSPI_READ)
            else let OrigAddr = (if cfg_qspi_mode W = QspiParallel then QspiAddr * 2 else QspiAddr);
                     TransferBytes = within_bank W OrigAddr (dma_piece RemainingBytes)
                 in seqM (Qspi24_messages W QspiAddr DestAddress TransferBytes)
                   (bindM (XQspiPsu_PolledTransfer W 3) (\<lambda>(SStatus, b).
                      if SStatus \<noteq> XFSBL_SUCCESS then retM (Inl XFSBL_ERROR_QSPI_READ)
                      else retM (Inr (SrcAddress + TransferBytes, DestAddress + zx TransferBytes,
                             RemainingBytes - TransferBytes))))))))"

text \<open>\<open>BankSwitchFlag\<close> is 0 from its declaration on: the bank is not set back.\<close>

definition XFsbl_Qspi24Copy :: "world \<Rightarrow> u32 \<Rightarrow> u64 \<Rightarrow> u32 \<Rightarrow> u32 prog" where
  "XFsbl_Qspi24Copy W SrcAddress DestAddress Length =
     (let BankSwitchFlag = (0 :: u8)
      in bindM (getM QspiFlashSize) (\<lambda>Size.
           if SrcAddress + Length > Size then retM XFSBL_ERROR_QSPI_LENGTH
           else tryM (iterM (Qspi24Copy_turn W) (SrcAddress, DestAddress, Length))
             (if BankSwitchFlag = 1 then tryM_as XFSBL_ERROR_QSPI_READ (SendBankSelect W 0) (retM XFSBL_SUCCESS)
              else retM XFSBL_SUCCESS)))"

definition XFsbl_Qspi24Release :: "u32 prog" where
  "XFsbl_Qspi24Release = retM XFSBL_SUCCESS"

definition Qspi32_messages :: "world \<Rightarrow> u32 \<Rightarrow> u64 \<Rightarrow> u32 \<Rightarrow> unit prog" where
  "Qspi32_messages W QspiAddr DestAddress TransferBytes =
     bindM (getM ReadCommand) (\<lambda>c. seqsM
       [set_FlashMsg 0 (\<lambda>_. tx_msg [ucast c, ucast (drop_bit 24 (QspiAddr AND 0xFF000000)),
          ucast (drop_bit 16 (QspiAddr AND 0xFF0000)), ucast (drop_bit 8 (QspiAddr AND 0xFF00)), ucast (QspiAddr AND 0xFF)]),
        set_FlashMsg 1 (\<lambda>m. rx_data W DestAddress TransferBytes
          (if c = SLOW_READ_CMD_32BIT then m\<lparr>BusWidth := SelectSpi\<rparr>
           else read_width c FAST_READ_CMD_32BIT DUAL_READ_CMD_32BIT QUAD_READ_CMD_32BIT m))])"

definition Qspi32Copy_turn :: "world \<Rightarrow> u32 \<times> u64 \<times> u32 \<Rightarrow> (u32 + (u32 \<times> u64 \<times> u32)) prog" where
  "Qspi32Copy_turn W x = (case x of (SrcAddress, DestAddress, RemainingBytes) \<Rightarrow>
     if \<not> RemainingBytes > 0 then retM (Inl XFSBL_SUCCESS)
     else let TransferBytes = dma_piece RemainingBytes
          in bindM (XFsbl_GetQspiAddr W SrcAddress) (\<lambda>QspiAddr.
             seqM (Qspi32_messages W QspiAddr DestAddress TransferBytes)
               (bindM (XQspiPsu_PolledTransfer W 2) (\<lambda>(Status, b).
                  if Status \<noteq> XFSBL_SUCCESS then retM (Inl XFSBL_ERROR_QSPI_READ)
                  else retM (Inr (SrcAddress + TransferBytes, DestAddress + zx TransferBytes,
                         RemainingBytes - TransferBytes))))))"

definition XFsbl_Qspi32Copy :: "world \<Rightarrow> u32 \<Rightarrow> u64 \<Rightarrow> u32 \<Rightarrow> u32 prog" where
  "XFsbl_Qspi32Copy W SrcAddress DestAddress Length =
     bindM (getM QspiFlashSize) (\<lambda>Size.
       if SrcAddress + Length > Size then retM XFSBL_ERROR_QSPI_LENGTH
       else iterM (Qspi32Copy_turn W) (SrcAddress, DestAddress, Length))"

definition XFsbl_Qspi32Release :: "u32 prog" where
  "XFsbl_Qspi32Release = retM XFSBL_SUCCESS"

section \<open>NAND\<close>

definition XFsbl_NandInit :: "world \<Rightarrow> u32 prog" where
  "XFsbl_NandInit W =
     bindM (extM W (Nand NandLookupConfig)) (\<lambda>Config.
       if Config = 0 then retM XFSBL_ERROR_NAND_INIT
       else tryM_as XFSBL_ERROR_NAND_INIT (extM W (Nand NandCfgInitialize)) (retM XFSBL_SUCCESS))"

text \<open>
  The loop over the blocks before the address: each bad one moves the address by a block.  The driver
  answers \<open>XST_SUCCESS\<close>, 0, for a bad block.
\<close>

primrec NandCopy_blocks :: "world \<Rightarrow> nat \<Rightarrow> u32 \<Rightarrow> u32 \<Rightarrow> u32 prog" where
  "NandCopy_blocks W 0 CurrentBlock RealSrcAddress = retM RealSrcAddress"
| "NandCopy_blocks W (Suc NoofBlocks) CurrentBlock RealSrcAddress =
     bindM (extM W (Nand (NandIsBlockBad CurrentBlock))) (\<lambda>r.
       NandCopy_blocks W NoofBlocks (CurrentBlock + 1)
         (if r = XFSBL_SUCCESS then RealSrcAddress + nand_block_size W else RealSrcAddress))"

definition XFsbl_NandCopy :: "world \<Rightarrow> u32 \<Rightarrow> u64 \<Rightarrow> u32 \<Rightarrow> u32 prog" where
  "XFsbl_NandCopy W SrcAddress DestAddress Length =
     bindM (XFsbl_In32 W CSU_CSU_MULTI_BOOT) (\<lambda>MultiBootOffset.
       let FlashImageOffsetAddress = MultiBootOffset * XFSBL_IMAGE_SEARCH_OFFSET;
           CurrentBlock = FlashImageOffsetAddress div nand_block_size W;
           NoofBlocks = (SrcAddress - FlashImageOffsetAddress) div nand_block_size W + 1
       in bindM (NandCopy_blocks W (unat NoofBlocks) CurrentBlock SrcAddress) (\<lambda>RealSrcAddress.
            tryM_as XFSBL_ERROR_NAND_READ (extM W (Nand (NandRead (zx RealSrcAddress) (zx Length) DestAddress)))
              (retM XFSBL_SUCCESS)))"

definition XFsbl_NandRelease :: "u32 prog" where
  "XFsbl_NandRelease = retM XFSBL_SUCCESS"

section \<open>SD card\<close>

definition XFsbl_GetDrvNumSD :: "world \<Rightarrow> u32 \<Rightarrow> u32" where
  "XFsbl_GetDrvNumSD W DeviceFlags =
     (if cfg_sd0 W \<and> cfg_sd1 W then
        (if DeviceFlags = XFSBL_SD0_BOOT_MODE \<or> DeviceFlags = XFSBL_EMMC_BOOT_MODE
         then XFSBL_SD_DRV_NUM_0 else XFSBL_SD_DRV_NUM_1)
      else XFSBL_SD_DRV_NUM_0)"

definition XFsbl_SdInit :: "world \<Rightarrow> u32 \<Rightarrow> u32 prog" where
  "XFsbl_SdInit W DeviceFlags =
     (let DrvNum = XFsbl_GetDrvNumSD W DeviceFlags
      in tryM_as XFSBL_ERROR_SD_INIT (extM W (Sd (SdMount DrvNum)))
        (bindM (XFsbl_In32 W CSU_CSU_MULTI_BOOT) (\<lambda>MultiBootOffset.
          tryM_as XFSBL_ERROR_SD_F_OPEN (extM W (Sd (SdOpen (XFsbl_MakeSdFileName MultiBootOffset DrvNum))))
            (retM XFSBL_SUCCESS))))"

text \<open>The number of bytes that \<open>f_read\<close> reports is not looked at.\<close>

definition XFsbl_SdCopy :: "world \<Rightarrow> u32 \<Rightarrow> u64 \<Rightarrow> u32 \<Rightarrow> u32 prog" where
  "XFsbl_SdCopy W SrcAddress DestAddress Length =
     tryM_as XFSBL_ERROR_SD_F_LSEEK (extM W (Sd (SdSeek SrcAddress)))
      (tryM_as XFSBL_ERROR_SD_F_READ (extM W (Sd (SdRead DestAddress Length))) (retM XFSBL_SUCCESS))"

definition XFsbl_SdRelease :: "world \<Rightarrow> u32 prog" where
  "XFsbl_SdRelease W = seqM (callM W (Sd SdClose)) (retM XFSBL_SUCCESS)"

end
