(* ===== verification/Fsbl_Flash_Read.thy ===== *)
theory Fsbl_Flash_Read
  imports Fsbl_Flash
begin

text \<open>
  What the QSPI drivers read.  A history of transfers is interpreted the way the chips answer it: which chip is
  selected, what its bank register holds, which bytes a read command fetches and where they go.  The copy
  functions are then compared with the bytes of the boot device that were asked for.
\<close>


section \<open>What a history reads from the chips\<close>

definition select_of :: "io \<Rightarrow> qspi_cs option" where
  "select_of e = (case e of Ext c v \<Rightarrow> (case c of Qspi q \<Rightarrow>
     (case q of QspiSelectFlash cs b \<Rightarrow> Some cs | _ \<Rightarrow> None) | _ \<Rightarrow> None) | _ \<Rightarrow> None)"

primrec selected :: "io list \<Rightarrow> qspi_cs" where
  "selected [] = CsLower"
| "selected (e # h) = (case select_of e of Some cs \<Rightarrow> cs | None \<Rightarrow> selected h)"

definition transfer_of :: "io \<Rightarrow> XQspiPsu_Msg list option" where
  "transfer_of e = (case e of Ext c v \<Rightarrow> (case c of Qspi q \<Rightarrow>
     (case q of QspiTransfer ms \<Rightarrow> if v = XFSBL_SUCCESS then Some ms else None | _ \<Rightarrow> None) | _ \<Rightarrow> None) | _ \<Rightarrow> None)"

definition bank_write :: "u32 \<Rightarrow> io \<Rightarrow> u8 option" where
  "bank_write maker e = (case transfer_of e of
     Some [m] \<Rightarrow> (case TxBfr m of
        Some [c, b] \<Rightarrow>
          if ucast c = (if maker = SPANSION_ID then BANK_REG_WR_CMD else EXTADD_REG_WR_CMD) then Some b else None
      | _ \<Rightarrow> None)
   | _ \<Rightarrow> None)"

primrec bank :: "u32 \<Rightarrow> nat \<Rightarrow> io list \<Rightarrow> u8" where
  "bank maker chip [] = 0"
| "bank maker chip (e # h) = (case bank_write maker e of
     Some b \<Rightarrow> if selected h = CsBoth \<or> chip = (if selected h = CsUpper then 1 else 0) then b else bank maker chip h
   | None \<Rightarrow> bank maker chip h)"

definition be :: "u8 list \<Rightarrow> nat" where
  "be bs = foldl (\<lambda>n b. 256 * n + unat b) 0 bs"

text \<open>
  A read with a 24-bit address counts on the dummy cycles and takes the upper part of the address from the bank
  register; it does not leave the bank.  A read with a 32-bit address (the slow one) has neither.  Two chips
  in parallel hold the even and the odd bytes, if the data are striped.
\<close>

definition width_of :: "u32 \<Rightarrow> qspi_width" where
  "width_of c = (if c = QUAD_READ_CMD_24BIT then SelectQuadSpi else if c = DUAL_READ_CMD_24BIT then SelectDualSpi else SelectSpi)"

definition read24 :: "XQspiPsu_Msg list \<Rightarrow> (u8 list \<times> XQspiPsu_Msg) option" where
  "read24 ms = (case ms of [m, w, d] \<Rightarrow> (case TxBfr m of Some [c, a1, a2, a3] \<Rightarrow>
     if ucast c \<in> {FAST_READ_CMD_24BIT, DUAL_READ_CMD_24BIT, QUAD_READ_CMD_24BIT} \<and> ByteCount m = 4 \<and>
        BusWidth m = SelectSpi \<and> TxBfr w = None \<and> RxBfr w = None \<and> ByteCount w = DUMMY_CLOCKS \<and>
        BusWidth w = BusWidth d \<and> BusWidth d = width_of (ucast c)
     then Some ([a1, a2, a3], d) else None | _ \<Rightarrow> None) | _ \<Rightarrow> None)"

definition read32 :: "XQspiPsu_Msg list \<Rightarrow> (u8 list \<times> XQspiPsu_Msg) option" where
  "read32 ms = (case ms of [m, d] \<Rightarrow> (case TxBfr m of Some [c, a1, a2, a3, a4] \<Rightarrow>
     if ucast c = SLOW_READ_CMD_32BIT \<and> ByteCount m = 5 \<and> BusWidth m = SelectSpi \<and> BusWidth d = SelectSpi
     then Some ([a1, a2, a3, a4], d) else None | _ \<Rightarrow> None) | _ \<Rightarrow> None)"

definition read_cell :: "u32 \<Rightarrow> io list \<Rightarrow> bool \<Rightarrow> u8 list \<Rightarrow> nat \<Rightarrow> nat \<times> nat" where
  "read_cell maker h stripe a i =
     (let chip = (if stripe then i mod 2 else if selected h = CsUpper then 1 else 0);
          off = (if stripe then i div 2 else i)
      in (chip, if length a = 3 then 2 ^ 24 * unat (bank maker chip h) + (be a + off) mod 2 ^ 24 else be a + off))"

definition data_read :: "u32 \<Rightarrow> io \<Rightarrow> io list \<Rightarrow> ((nat \<times> nat) \<times> u64) list" where
  "data_read maker e h = (case transfer_of e of None \<Rightarrow> []
     | Some ms \<Rightarrow> (case (case read24 ms of Some r \<Rightarrow> Some r | None \<Rightarrow> read32 ms) of None \<Rightarrow> []
       | Some (a, d) \<Rightarrow> (case RxBfr d of
           Some (RxAddr dest) \<Rightarrow> map (\<lambda>i. (read_cell maker h (FlagStripe \<in> set (MsgFlags d)) a i, dest + of_nat i))
                                   [0..<unat (ByteCount d)]
         | _ \<Rightarrow> [])))"

primrec bytes_read :: "u32 \<Rightarrow> io list \<Rightarrow> ((nat \<times> nat) \<times> u64) list" where
  "bytes_read maker [] = []"
| "bytes_read maker (e # h) = bytes_read maker h @ data_read maker e h"

text \<open>Where a byte of the boot device is, by the connection of its chips.\<close>

definition flash_cell :: "qspi_connection \<Rightarrow> nat \<Rightarrow> nat \<Rightarrow> nat \<times> nat" where
  "flash_cell mode S a = (case mode of
      QspiStacked \<Rightarrow> if a \<ge> S div 2 then (1, a - S div 2) else (0, a)
    | QspiParallel \<Rightarrow> (a mod 2, a div 2)
    | _ \<Rightarrow> (0, a))"

lemma select_of_simps [simp]:
  "select_of (Ext (Qspi (QspiSelectFlash cs b)) v) = Some cs" "select_of (Ext (Qspi (QspiTransfer ms)) v) = None"
  by (simp_all add: select_of_def)

lemma transfer_of_simps [simp]:
  "transfer_of (Ext (Qspi (QspiSelectFlash cs b)) v) = None"
  "transfer_of (Ext (Qspi (QspiTransfer ms)) v) = (if v = XFSBL_SUCCESS then Some ms else None)"
  by (simp_all add: transfer_of_def)

section \<open>Words and banks\<close>

lemma byte_of: "unat (ucast (drop_bit n q) :: u8) = unat (q :: u32) div 2 ^ n mod 256"
  unfolding unsigned_ucast_eq unsigned_drop_bit_eq
  using unsigned_less [of q, where 'a = nat] by (simp add: take_bit_eq_mod drop_bit_eq_div)

lemma address_bytes:
  "(ucast (drop_bit 24 (q AND 0xFF000000)) :: u8) = ucast (drop_bit 24 (q :: u32))"
  "(ucast (drop_bit 16 (q AND 0xFF0000)) :: u8) = ucast (drop_bit 16 q)"
  "(ucast (drop_bit 8 (q AND 0xFF00)) :: u8) = ucast (drop_bit 8 q)"
  "(ucast (q AND 0xFF) :: u8) = ucast q"
proof -
  have mask: "bit (0xFF :: nat) n \<longleftrightarrow> n < 8" for n
    using bit_mask_iff [of 8 n, where 'a = nat] by (simp add: mask_eq_exp_minus_1)
  have m: "(0xFF :: u32) = mask 8" by (simp add: mask_eq_exp_minus_1)
  have "(0xFF00 :: u32) = push_bit 8 (mask 8)" "(0xFF0000 :: u32) = push_bit 16 (mask 8)" "(0xFF000000 :: u32) = push_bit 24 (mask 8)"
    by (simp_all add: mask_eq_exp_minus_1)
  note ms = this m
  show "(ucast (drop_bit 24 (q AND 0xFF000000)) :: u8) = ucast (drop_bit 24 (q :: u32))"
    unfolding ms by (rule bit_word_eqI) (auto simp: bit_simps)
  show "(ucast (drop_bit 16 (q AND 0xFF0000)) :: u8) = ucast (drop_bit 16 q)"
    unfolding ms by (rule bit_word_eqI) (auto simp: bit_simps)
  show "(ucast (drop_bit 8 (q AND 0xFF00)) :: u8) = ucast (drop_bit 8 q)"
    unfolding ms by (rule bit_word_eqI) (auto simp: bit_simps)
  show "(ucast (q AND 0xFF) :: u8) = ucast q"
    unfolding ms by (rule bit_word_eqI) (auto simp: bit_simps)
qed

lemma digits_256:
  "x mod 256 + 256 * (x div 2 ^ 8 mod 256) + 65536 * (x div 2 ^ 16 mod 256) = x mod 2 ^ 24"
  "x mod 256 + 256 * (x div 2 ^ 8 mod 256) + 65536 * (x div 2 ^ 16 mod 256) + 16777216 * (x div 2 ^ 24) = x" for x :: nat
proof -
  have *: "x div 2 ^ 8 = x div 256" "x div 2 ^ 16 = x div 256 div 256" "x div 2 ^ 24 = x div 256 div 256 div 256"
    by (simp_all add: div_mult2_eq [symmetric])
  have "x = 256 * (x div 256) + x mod 256" "x div 256 = 256 * (x div 256 div 256) + x div 256 mod 256"
    "x div 256 div 256 = 256 * (x div 256 div 256 div 256) + x div 256 div 256 mod 256" by simp_all
  then show all: "x mod 256 + 256 * (x div 2 ^ 8 mod 256) + 65536 * (x div 2 ^ 16 mod 256) + 16777216 * (x div 2 ^ 24) = x"
    unfolding * by linarith
  have "x = x mod 2 ^ 24 + 16777216 * (x div 2 ^ 24)" using mod_mult_div_eq [of x "2 ^ 24"] by simp
  with all show "x mod 256 + 256 * (x div 2 ^ 8 mod 256) + 65536 * (x div 2 ^ 16 mod 256) = x mod 2 ^ 24" by linarith
qed

lemma be_24:
  "be [ucast (drop_bit 16 (q AND 0xFF0000)), ucast (drop_bit 8 (q AND 0xFF00)), ucast (q AND 0xFF)] = unat (q :: u32) mod 2 ^ 24"
  unfolding be_def address_bytes foldl.simps
  using byte_of [of 16 q] byte_of [of 8 q] byte_of [of 0 q] digits_256(1) [of "unat q"] by (simp add: algebra_simps)

lemma be_32:
  "be [ucast (drop_bit 24 (q AND 0xFF000000)), ucast (drop_bit 16 (q AND 0xFF0000)), ucast (drop_bit 8 (q AND 0xFF00)),
     ucast (q AND 0xFF)] = unat (q :: u32)"
proof -
  have "unat q div 2 ^ 24 < 256" using unsigned_less [of q, where 'a = nat] by simp
  then show ?thesis
    unfolding be_def address_bytes foldl.simps
    using byte_of [of 24 q] byte_of [of 16 q] byte_of [of 8 q] byte_of [of 0 q] digits_256(2) [of "unat q"]
    by (simp add: algebra_simps)
qed

text \<open>The length of a read inside a bank.\<close>

lemma and_bank: "unat (x AND push_bit n (mask (32 - n))) = unat (x :: u32) div 2 ^ n * 2 ^ n" if "n < 32"
proof -
  have "x AND push_bit n (mask (32 - n)) = push_bit n (drop_bit n x)"
    using that by (auto simp: bit_simps intro!: bit_word_eqI)
  moreover have "unat x div 2 ^ n * 2 ^ n < 2 ^ 32"
    using unsigned_less [of x, where 'a = nat] by (simp add: le_less_trans [OF div_times_less_eq_dividend])
  ultimately show ?thesis
    using unsigned_less [of x, where 'a = nat]
    by (simp only: unsigned_push_bit_eq unsigned_drop_bit_eq)
      (simp add: take_bit_eq_mod drop_bit_eq_div push_bit_eq_mult mult.commute)
qed


lemma bank_consts:
  "unat (bank_size W) = (if cfg_qspi_mode W = QspiParallel then 2 ^ 25 else 2 ^ 24)"
  "bank_mask W = (if cfg_qspi_mode W = QspiParallel then push_bit 25 (mask 7) else push_bit 24 (mask 8))"
  by (simp_all add: bank_size_def bank_mask_def hw mask_eq_exp_minus_1)

lemma within_bank_unat:
  assumes "unat x + unat p < 2 ^ 32"
  shows "unat (within_bank W x p) = min (unat p) (unat (bank_size W) - unat x mod unat (bank_size W))"
proof -
  let ?B = "unat (bank_size W)" and ?m = "bank_mask W"
  have B: "0 < ?B" by (simp add: bank_consts)
  have masked: "unat (y AND ?m) = unat y div ?B * ?B" for y
    using and_bank [of 24 y] and_bank [of 25 y] by (simp add: bank_consts)
  have add: "unat (x + p) = unat x + unat p" using assms by (simp add: unat_word_ariths)
  have less: "unat x - unat x div ?B * ?B = unat x mod ?B" by (simp add: minus_div_mult_eq_mod)
  have le: "unat x div ?B * ?B \<le> unat x" by simp
  show ?thesis
  proof (cases "x AND ?m = (x + p) AND ?m")
    case True
    then have "unat x div ?B = (unat x + unat p) div ?B"
      using masked [of x] masked [of "x + p"] add B by simp
    then have "unat x + unat p < unat x div ?B * ?B + ?B"
      using dividend_less_div_times [OF B, of "unat x + unat p"] by simp
    then have "unat p \<le> ?B - unat x mod ?B" using less le by linarith
    with True show ?thesis by (simp add: within_bank_def)
  next
    case False
    have "unat x div ?B \<le> (unat x + unat p) div ?B" by (simp add: div_le_mono)
    moreover have "unat x div ?B \<noteq> (unat x + unat p) div ?B"
      using False masked [of x] masked [of "x + p"] add by (auto simp: word_unat_eq_iff)
    ultimately have "unat x div ?B + 1 \<le> (unat x + unat p) div ?B" by simp
    then have end_le: "(unat x div ?B + 1) * ?B \<le> unat x + unat p"
      by (meson div_times_less_eq_dividend le_trans mult_le_mono1)
    have "unat ((x AND ?m) + bank_size W) = unat x div ?B * ?B + ?B"
      using end_le assms masked [of x] by (simp add: unat_word_ariths)
    then have "unat ((x AND ?m) + bank_size W - x) = unat x div ?B * ?B + ?B - unat x"
      using less mod_less_divisor [OF B, of "unat x"] by (subst unat_sub) (auto simp: word_le_nat_alt)
    also have "\<dots> = ?B - unat x mod ?B" using less le by linarith
    finally show ?thesis using False end_le less le by (simp add: within_bank_def)
  qed
qed

text \<open>The steps of a copy: address, bank, messages, transfer.\<close>

lemma bytes_read_quiet [simp]: "transfer_of e = None \<Longrightarrow> data_read maker e h = []"
  "transfer_of e = None \<Longrightarrow> bank_write maker e = None"
  by (simp_all add: data_read_def bank_write_def)

definition chips :: "qspi_connection \<Rightarrow> u32 \<Rightarrow> u32 \<Rightarrow> qspi_cs" where
  "chips mode S a = (case mode of QspiStacked \<Rightarrow> if a \<ge> S div 2 then CsUpper else CsLower | QspiParallel \<Rightarrow> CsBoth | _ \<Rightarrow> CsLower)"

text \<open>What the steps before the read leave alone.\<close>

definition same_flash :: "fsbl \<Rightarrow> fsbl \<Rightarrow> bool" where
  "same_flash s t \<longleftrightarrow> QspiFlashSize t = QspiFlashSize s \<and> QspiFlashMake t = QspiFlashMake s \<and> ReadCommand t = ReadCommand s \<and>
     length (FlashMsg t) = length (FlashMsg s)"

lemma GetQspiAddr_wp:
  assumes "cfg_qspi_mode W \<noteq> QspiUnknown"
  shows "wp (XFsbl_GetQspiAddr W a) (\<lambda>q t. unat q = (if cfg_qspi_mode W = QspiParallel then unat a div 2
        else snd (flash_cell (cfg_qspi_mode W) (unat (QspiFlashSize s)) (unat a))) \<and>
      selected (trace t) = chips (cfg_qspi_mode W) (QspiFlashSize s) a \<and> same_flash s t \<and>
      (\<forall>maker. bytes_read maker (trace t) = bytes_read maker (trace s)) \<and> (\<forall>maker c. bank maker c (trace t) = bank maker c (trace s)))
    (\<lambda>_ _. False) s"
proof -
  have half: "unat (QspiFlashSize s div 2) = unat (QspiFlashSize s) div 2" by (simp add: unat_div)
  show ?thesis
    using assms half
    by (cases "cfg_qspi_mode W")
      (auto simp: XFsbl_GetQspiAddr_def wp_eq same_flash_def chips_def flash_cell_def word_le_nat_alt unat_sub unat_div)
qed

lemma bank_write_cases:
  "bank_write maker (Ext (Qspi (QspiTransfer [tx_msg [c, b]])) v) =
    (if v = XFSBL_SUCCESS \<and> ucast c = (if maker = SPANSION_ID then BANK_REG_WR_CMD else EXTADD_REG_WR_CMD) then Some b else None)"
  "bank_write maker (Ext (Qspi (QspiTransfer [tx_msg [c]])) v) = None"
  "bank_write maker (Ext (Qspi (QspiTransfer (m # m' # ms))) v) = None"
  by (simp_all add: bank_write_def tx_msg_def)

lemma data_read_cases:
  "data_read maker (Ext (Qspi (QspiTransfer [tx_msg bs])) v) h = []"
  "data_read maker (Ext (Qspi (QspiTransfer [tx_msg bs, rx_msg RxLocal n])) v) h = []"
  by (auto simp: data_read_def read24_def read32_def tx_msg_def rx_msg_def split: list.split option.split)

definition banked :: "u32 \<Rightarrow> bool" where
  "banked maker \<longleftrightarrow> maker = MICRON_ID \<or> maker = MACRONIX_ID \<or> maker = SPANSION_ID"

lemma SendBankSelect_wp:
  assumes "banked (QspiFlashMake s)" and "length (FlashMsg s) = 5"
  shows "wp (SendBankSelect W b) (\<lambda>x t. x = XFSBL_SUCCESS \<longrightarrow> same_flash s t \<and> selected (trace t) = selected (trace s) \<and>
      bytes_read (QspiFlashMake s) (trace t) = bytes_read (QspiFlashMake s) (trace s) \<and>
      (\<forall>c. selected (trace s) = CsBoth \<or> c = (if selected (trace s) = CsUpper then 1 else 0) \<longrightarrow>
         bank (QspiFlashMake s) c (trace t) = ucast b))
    (\<lambda>_ _. False) s"
proof -
  obtain m0 m1 ms where msgs: "FlashMsg s = m0 # m1 # ms" "length ms = 3"
    using assms(2) by (auto simp: length_Suc_conv numeral_eq_Suc)
  have makers: "MICRON_ID \<noteq> SPANSION_ID" "MACRONIX_ID \<noteq> SPANSION_ID" "SPANSION_ID \<noteq> MICRON_ID" "SPANSION_ID \<noteq> MACRONIX_ID"
    by (simp_all add: hw)
  have cmds: "ucast (ucast EXTADD_REG_WR_CMD :: u8) = EXTADD_REG_WR_CMD" "ucast (ucast BANK_REG_WR_CMD :: u8) = BANK_REG_WR_CMD"
    by (simp_all add: hw)
  have err: "XFSBL_ERROR_QSPI_READ \<noteq> XFSBL_SUCCESS" by (simp add: hw)
  show ?thesis
    using assms(1) makers err
    by (auto simp: banked_def SendBankSelect_def send_command_def read_register_def set_FlashMsg_def XQspiPsu_PolledTransfer_def
        wp_eq msgs same_flash_def bank_write_cases data_read_cases cmds)
qed


lemma Qspi24_transfer_wp:
  assumes "length (FlashMsg s) = 5" and "ReadCommand s \<in> {FAST_READ_CMD_24BIT, DUAL_READ_CMD_24BIT, QUAD_READ_CMD_24BIT}"
  shows "wp (seqM (Qspi24_messages W q d T) (XQspiPsu_PolledTransfer W 3)) (\<lambda>(v, b) t. v = XFSBL_SUCCESS \<longrightarrow> same_flash s t \<and>
      bytes_read maker (trace t) = bytes_read maker (trace s) @
        map (\<lambda>i. (read_cell maker (trace s) (cfg_qspi_mode W = QspiParallel)
          [ucast (drop_bit 16 (q AND 0xFF0000)), ucast (drop_bit 8 (q AND 0xFF00)), ucast (q AND 0xFF)] i, d + of_nat i)) [0..<unat T] \<and>
      (\<forall>c. bank maker c (trace t) = bank maker c (trace s)))
    (\<lambda>_ _. False) s"
proof -
  obtain m0 m1 m2 ms where msgs: "FlashMsg s = m0 # m1 # m2 # ms" "length ms = 2"
    using assms(1) by (auto simp: length_Suc_conv numeral_eq_Suc)
  have cmds: "ucast (ucast FAST_READ_CMD_24BIT :: u8) = FAST_READ_CMD_24BIT" "ucast (ucast DUAL_READ_CMD_24BIT :: u8) = DUAL_READ_CMD_24BIT"
    "ucast (ucast QUAD_READ_CMD_24BIT :: u8) = QUAD_READ_CMD_24BIT" by (simp_all add: hw)
  have ne: "FAST_READ_CMD_24BIT \<noteq> DUAL_READ_CMD_24BIT" "FAST_READ_CMD_24BIT \<noteq> QUAD_READ_CMD_24BIT" "DUAL_READ_CMD_24BIT \<noteq> QUAD_READ_CMD_24BIT"
    by (simp_all add: hw)
  show ?thesis
    using assms(2) ne
    by (auto simp: Qspi24_messages_def XQspiPsu_PolledTransfer_def set_FlashMsg_def wp_eq msgs same_flash_def data_read_def
        read24_def tx_msg_def rx_data_def read_width_def width_of_def cmds bank_write_def numeral_eq_Suc [of Num.One] numeral_2_eq_2 numeral_3_eq_3)
qed


lemma bank_offset: "x mod 2 ^ 24 + i < 2 ^ 24 \<Longrightarrow> 2 ^ 24 * (x div 2 ^ 24) + (x mod 2 ^ 24 + i) mod 2 ^ 24 = x + (i :: nat)"
  using mod_mult_div_eq [of x "2 ^ 24"] by simp

text \<open>Inside a bank, byte \<open>i\<close> of a read is the byte of the device asked for.\<close>

definition aligned :: "qspi_connection \<Rightarrow> nat \<Rightarrow> nat \<Rightarrow> bool" where
  "aligned mode S a \<longleftrightarrow> mode \<noteq> QspiUnknown \<and> (mode = QspiParallel \<longrightarrow> even a) \<and> (mode = QspiStacked \<longrightarrow> 2 ^ 25 dvd S)"

definition chip_address :: "qspi_connection \<Rightarrow> nat \<Rightarrow> nat \<Rightarrow> nat" where
  "chip_address mode S a = (if mode = QspiParallel then a div 2 else snd (flash_cell mode S a))"

lemma read_cell_eq:
  fixes q Size w :: u32
  assumes "aligned mode (unat Size) a" and "a = unat w" and "unat q = chip_address mode (unat Size) a"
    and "i < (if mode = QspiParallel then 2 ^ 25 - 2 * unat q mod 2 ^ 25 else 2 ^ 24 - unat q mod 2 ^ 24)"
    and "selected h = chips mode Size w"
    and "\<And>c. selected h = CsBoth \<or> c = (if selected h = CsUpper then 1 else 0) \<Longrightarrow> unat (bank maker c h) = unat q div 2 ^ 24"
    and "be bs = unat q mod 2 ^ 24" and "length bs = 3"
  shows "read_cell maker h (mode = QspiParallel) bs i = flash_cell mode (unat Size) (a + i)"
proof -
  have half: "unat (Size div 2) = unat Size div 2" by (simp add: unat_div)
  show ?thesis
  proof (cases mode)
    case QspiSingle
    with assms have "unat q = a" "unat (bank maker 0 h) = a div 2 ^ 24" "a mod 2 ^ 24 + i < 2 ^ 24"
      by (auto simp: chip_address_def flash_cell_def chips_def)
    with QspiSingle show ?thesis
      using assms(5) bank_offset [of a i] by (simp add: read_cell_def assms(7,8) flash_cell_def chips_def)
  next
    case QspiStacked
    let ?c = "if unat Size div 2 \<le> a then 1 else 0 :: nat"
    have q: "unat q = (if unat Size div 2 \<le> a then a - unat Size div 2 else a)"
      using assms(3) QspiStacked by (simp add: chip_address_def flash_cell_def)
    have sel: "selected h = (if unat Size div 2 \<le> a then CsUpper else CsLower)"
      using assms(2,5) QspiStacked half by (simp add: chips_def word_le_nat_alt)
    have b: "unat (bank maker ?c h) = unat q div 2 ^ 24" using assms(6) [of ?c] sel by auto
    have i: "unat q mod 2 ^ 24 + i < 2 ^ 24" using assms(4) QspiStacked by simp
    have "a + i < unat Size div 2" if "a < unat Size div 2"
    proof -
      have "2 ^ 24 dvd unat Size div 2" using assms(1) QspiStacked by (auto simp: aligned_def elim!: dvdE)
      then obtain m where m: "unat Size div 2 = 2 ^ 24 * m" by (elim dvdE)
      have "a div 2 ^ 24 < m" using that m by (simp add: less_mult_imp_div_less mult.commute)
      then have "2 ^ 24 * (a div 2 ^ 24) + 2 ^ 24 \<le> 2 ^ 24 * m" by simp
      moreover have "a mod 2 ^ 24 + i < 2 ^ 24" using i q that by simp
      moreover have "a = 2 ^ 24 * (a div 2 ^ 24) + a mod 2 ^ 24" by simp
      ultimately show ?thesis using m by linarith
    qed
    with QspiStacked q sel b i show ?thesis
      using bank_offset [of "unat q" i]
      by (cases "unat Size div 2 \<le> a") (simp_all add: read_cell_def assms(7,8) flash_cell_def)
  next
    case QspiParallel
    have even: "even a" using assms(1) QspiParallel by (simp add: aligned_def)
    have q: "unat q = a div 2" using assms(3) QspiParallel by (simp add: chip_address_def)
    have b: "unat (bank maker (i mod 2) h) = a div 2 div 2 ^ 24"
      using assms(5,6) QspiParallel q by (simp add: chips_def)
    have "2 * (a div 2 mod 2 ^ 24) = a mod 2 ^ 25"
      using even mod_mult2_eq [of a 2 "2 ^ 24"] by simp
    then have i: "a div 2 mod 2 ^ 24 + i div 2 < 2 ^ 24"
      using assms(4) QspiParallel q even by simp
    have "(a + i) div 2 = a div 2 + i div 2" "(a + i) mod 2 = i mod 2"
      using even by (auto elim!: evenE)
    with QspiParallel q b show ?thesis
      using bank_offset [OF i] assms(5) by (simp add: read_cell_def assms(7,8) flash_cell_def)
  qed (use assms(1) in \<open>simp add: aligned_def\<close>)
qed


text \<open>The bank registers are set in every turn, or the device is small and they are still 0.\<close>

definition bank_ready :: "world \<Rightarrow> fsbl \<Rightarrow> bool" where
  "bank_ready W s \<longleftrightarrow> (if QspiFlashSize s > bank_size W then banked (QspiFlashMake s)
     else cfg_qspi_mode W \<noteq> QspiStacked \<and> (\<forall>c. bank (QspiFlashMake s) c (trace s) = 0))"

definition qspi24_ready :: "world \<Rightarrow> fsbl \<Rightarrow> bool" where
  "qspi24_ready W s \<longleftrightarrow> bank_ready W s \<and> length (FlashMsg s) = 5 \<and>
     ReadCommand s \<in> {FAST_READ_CMD_24BIT, DUAL_READ_CMD_24BIT, QUAD_READ_CMD_24BIT}"

definition qspi24_device :: "world \<Rightarrow> u32 \<Rightarrow> u32 \<Rightarrow> fsbl \<Rightarrow> bool" where
  "qspi24_device W maker S s \<longleftrightarrow> qspi24_ready W s \<and> QspiFlashSize s = S \<and> QspiFlashMake s = maker"

section \<open>The loop of a copy\<close>

text \<open>
  One turn of the loop of a copy: it fails, or the next \<open>n\<close> bytes have been read, each from its cell to its
  place, the variables have moved on and the device is ready again.  A turn may need more of the next address,
  in \<open>ok\<close>.
\<close>

definition one_turn :: "(fsbl \<Rightarrow> bool) \<Rightarrow> u32 \<Rightarrow> (nat \<Rightarrow> nat \<times> nat) \<Rightarrow> (nat \<Rightarrow> bool) \<Rightarrow> fsbl \<Rightarrow> u32 \<Rightarrow> u64 \<Rightarrow> u32 \<Rightarrow>
    u32 + (u32 \<times> u64 \<times> u32) \<Rightarrow> fsbl \<Rightarrow> bool" where
  "one_turn Inv maker cell ok s src dst r z t \<longleftrightarrow> (case z of Inl x \<Rightarrow> x = XFSBL_ERROR_QSPI_READ
     | Inr (src', dst', r') \<Rightarrow> \<exists>n. unat src' = unat src + n \<and> dst' = dst + of_nat n \<and> unat r' = unat r - n \<and>
        0 < n \<and> n \<le> unat r \<and> (n < unat r \<longrightarrow> ok (unat src + n)) \<and> Inv t \<and>
        bytes_read maker (trace t) = bytes_read maker (trace s) @ map (\<lambda>i. (cell (unat src + i), dst + of_nat i)) [0..<n])"

lemma one_turn_read:
  fixes src r T :: u32
  assumes "wp m (\<lambda>(v, b) t. v = XFSBL_SUCCESS \<longrightarrow> Inv t \<and>
      bytes_read maker (trace t) = bytes_read maker (trace s) @ map (\<lambda>i. (cell (unat src + i), dst + of_nat i)) [0..<unat T]) (\<lambda>_ _. False) u"
    and "0 < unat T" and "unat T \<le> unat r" and "unat T < unat r \<longrightarrow> ok (unat src + unat T)" and "unat src + unat r < 2 ^ 32"
  shows "wp m (\<lambda>x. wp (case x of (v, b) \<Rightarrow> if v \<noteq> XFSBL_SUCCESS then retM (Inl XFSBL_ERROR_QSPI_READ)
      else retM (Inr (src + T, dst + zx T, r - T))) (one_turn Inv maker cell ok s src dst r) (\<lambda>_ _. False)) (\<lambda>_ _. False) u"
proof (rule wp_mono [OF assms(1)])
  fix x :: "u32 \<times> 'a" and t
  assume read: "(case x of (v, b) \<Rightarrow> \<lambda>t. v = XFSBL_SUCCESS \<longrightarrow> Inv t \<and>
      bytes_read maker (trace t) = bytes_read maker (trace s) @ map (\<lambda>i. (cell (unat src + i), dst + of_nat i)) [0..<unat T]) t"
  have "unat (src + T) = unat src + unat T" "unat (r - T) = unat r - unat T"
    using assms(2-5) by (auto simp: unat_word_ariths unat_sub word_le_nat_alt)
  then show "wp (case x of (v, b) \<Rightarrow> if v \<noteq> XFSBL_SUCCESS then retM (Inl XFSBL_ERROR_QSPI_READ)
      else retM (Inr (src + T, dst + zx T, r - T))) (one_turn Inv maker cell ok s src dst r) (\<lambda>_ _. False) t"
    using read assms(2-4) by (cases x) (auto simp: wp_ret one_turn_def intro!: exI [of _ "unat T"])
qed simp

text \<open>The pieces, one after the other, are the bytes asked for.\<close>

lemma upt_append: "map f [0..<k + n] = map f [0..<k] @ map (\<lambda>i. f (k + i)) [0..<n]"
  by (induction n) simp_all

lemma copy_loop_wp:
  assumes turn: "\<And>src dst r t. Inv t \<Longrightarrow> ok (unat src) \<Longrightarrow> 0 < r \<Longrightarrow> unat src + unat r = unat Src + unat Len \<Longrightarrow>
      wp (turn (src, dst, r)) (one_turn Inv maker cell ok t src dst r) (\<lambda>_ _. False) t"
    and last_turn: "\<And>src dst r. \<not> 0 < r \<Longrightarrow> turn (src, dst, r) = retM (Inl XFSBL_SUCCESS)"
    and start: "Inv s" "ok (unat Src)"
  shows "wp (iterM turn (Src, Dest, Len)) (\<lambda>x t. x \<in> {XFSBL_SUCCESS, XFSBL_ERROR_QSPI_READ} \<and> (x = XFSBL_SUCCESS \<longrightarrow> Inv t \<and>
      bytes_read maker (trace t) = bytes_read maker (trace s) @ map (\<lambda>i. (cell (unat Src + i), Dest + of_nat i)) [0..<unat Len]))
    (\<lambda>_ _. False) s"
proof -
  define at where "at = (\<lambda>k (t :: fsbl). bytes_read maker (trace t) =
    bytes_read maker (trace s) @ map (\<lambda>i. (cell (unat Src + i), Dest + of_nat i)) [0..<k])"
  define I where "I = (\<lambda>(src :: u32, dst :: u64, r :: u32) t. \<exists>k. k + unat r = unat Len \<and> unat src = unat Src + k \<and>
    dst = Dest + of_nat k \<and> (0 < r \<longrightarrow> ok (unat src)) \<and> Inv t \<and> at k t)"
  have err: "XFSBL_ERROR_QSPI_READ \<noteq> XFSBL_SUCCESS" by (simp add: hw)
  have "wp (iterM turn (Src, Dest, Len)) (\<lambda>x t. x \<in> {XFSBL_SUCCESS, XFSBL_ERROR_QSPI_READ} \<and> (x = XFSBL_SUCCESS \<longrightarrow> Inv t \<and> at (unat Len) t))
    (\<lambda>_ _. False) s"
  proof (rule iterM_wp [where I = I])
    show "I (Src, Dest, Len) s" using start by (simp add: I_def at_def)
    fix x t assume "I x t"
    then obtain src dst r k where x: "x = (src, dst, r)" and k: "k + unat r = unat Len" "unat src = unat Src + k" "dst = Dest + of_nat k"
      "0 < r \<longrightarrow> ok (unat src)" and t: "Inv t" "at k t"
      unfolding I_def by (cases x) auto
    show "wp (turn x) (\<lambda>z t. case z of
        Inl y \<Rightarrow> y \<in> {XFSBL_SUCCESS, XFSBL_ERROR_QSPI_READ} \<and> (y = XFSBL_SUCCESS \<longrightarrow> Inv t \<and> at (unat Len) t) | Inr x' \<Rightarrow> I x' t) (\<lambda>_ _. False) t"
    proof (cases "0 < r")
      case False
      then have "unat r = 0" by (simp add: word_less_nat_alt)
      with False k(1) t show ?thesis by (simp add: x last_turn wp_ret)
    next
      case True
      have "at (k + n) t'" if "bytes_read maker (trace t') = bytes_read maker (trace t) @ map (\<lambda>i. (cell (unat src + i), dst + of_nat i)) [0..<n]"
        for n t'
        using that t(2) k(2,3) by (simp add: at_def upt_append add.assoc)
      note more = this
      have next_turn: "I (src', dst', r') t'" if "one_turn Inv maker cell ok t src dst r (Inr (src', dst', r')) t'" for src' dst' r' t'
      proof -
        obtain n where n: "unat src' = unat src + n" "dst' = dst + of_nat n" "unat r' = unat r - n" "n \<le> unat r" "n < unat r \<longrightarrow> ok (unat src + n)"
          and t': "Inv t'" "at (k + n) t'"
          using \<open>one_turn Inv maker cell ok t src dst r (Inr (src', dst', r')) t'\<close> more by (auto simp: one_turn_def)
        have "0 < r' \<longrightarrow> ok (unat src')" using n by (simp add: word_less_nat_alt)
        moreover have "k + n + unat r' = unat Len" using n k(1) by simp
        moreover have "dst' = Dest + of_nat (k + n)" using n(2) k(3) by simp
        ultimately show ?thesis unfolding I_def prod.case
          using t' n(1) k(2) by (intro exI [of _ "k + n"]) simp
      qed
      have "wp (turn (src, dst, r)) (one_turn Inv maker cell ok t src dst r) (\<lambda>_ _. False) t"
        using turn t(1) k True by simp
      then show ?thesis
        unfolding x
        by (rule wp_mono) (use err next_turn in \<open>auto simp: one_turn_def split: sum.split\<close>)
    qed
  qed
  then show ?thesis by (simp add: at_def)
qed

lemma wp_seq_bind: "wp (seqM m (bindM n k)) Q H s = wp (seqM m n) (\<lambda>x. wp (k x) Q H) H s"
proof -
  have "wp (bindM n k) Q H = wp n (\<lambda>x. wp (k x) Q H) H" by (rule ext) (rule wp_bind)
  then show ?thesis by (simp only: wp_seq)
qed

text \<open>A turn of the 24-bit copy: the address, the bank, the transfer of a piece that stays in the bank.\<close>

lemma unat_dma_piece: "unat (dma_piece r) = min (unat r) (2 ^ 29)"
  by (auto simp: dma_piece_def hw word_less_nat_alt min_def)

text \<open>Every turn but the last reads at least a byte, so the copy ends, wherever it reads.\<close>

lemma within_bank_bounds:
  assumes "0 < unat p" and "unat p \<le> 2 ^ 29"
  shows "0 < unat (within_bank W x p) \<and> unat (within_bank W x p) \<le> unat p"
proof (cases "unat x + unat p < 2 ^ 32")
  case True
  then show ?thesis
    using assms by (simp add: within_bank_unat bank_consts min_def)
next
  case False
  let ?B = "unat (bank_size W)" and ?m = "bank_mask W"
  have B: "0 < ?B" "?B < 2 ^ 32" by (simp_all add: bank_consts)
  have masked: "unat (x AND ?m) = unat x div ?B * ?B"
    using and_bank [of 24 x] and_bank [of 25 x] by (simp add: bank_consts)
  then have "unat (x - (x AND ?m)) = unat x mod ?B"
    by (subst unat_sub) (simp_all add: word_le_nat_alt minus_div_mult_eq_mod)
  moreover have "(x AND ?m) + bank_size W - x = bank_size W - (x - (x AND ?m))" by simp
  ultimately have T: "unat ((x AND ?m) + bank_size W - x) = ?B - unat x mod ?B"
    using mod_less_divisor [OF B(1), of "unat x"] by (simp only: unat_sub word_le_nat_alt less_imp_le)
  have x: "unat x < 2 ^ 32" using unsigned_less [of x, where 'a = nat] by simp
  obtain m where m: "2 ^ 32 = m * ?B"
  proof
    show "2 ^ 32 = (if cfg_qspi_mode W = QspiParallel then 2 ^ 7 else 2 ^ 8) * ?B" by (simp add: bank_consts)
  qed
  have "unat x div ?B < m" using x unfolding m by (simp add: less_mult_imp_div_less)
  then have "(unat x div ?B + 1) * ?B \<le> 2 ^ 32" unfolding m by (intro mult_le_mono1) simp
  moreover have "unat x div ?B * ?B + unat x mod ?B = unat x" by simp
  ultimately have "?B - unat x mod ?B \<le> unat p" using False by (simp only: add_mult_distrib nat_mult_1)
  then show ?thesis using T assms B mod_less_divisor [OF B(1), of "unat x"] by (simp add: within_bank_def)
qed

definition piece24 :: "world \<Rightarrow> u32 \<Rightarrow> u32 \<Rightarrow> u32" where
  "piece24 W q r = within_bank W (if cfg_qspi_mode W = QspiParallel then q * 2 else q) (dma_piece r)"

lemma piece24_bounds:
  assumes "0 < r"
  shows "0 < unat (piece24 W q r)" "unat (piece24 W q r) \<le> unat r"
  using within_bank_bounds [of "dma_piece r" W "if cfg_qspi_mode W = QspiParallel then q * 2 else q"] assms
  by (auto simp: piece24_def unat_dma_piece word_less_nat_alt)

lemma Qspi24Copy_turn_steps:
  assumes "0 < r" and mode: "cfg_qspi_mode W \<noteq> QspiUnknown" and "unat src + unat r < 2 ^ 32"
    and bank: "\<And>q u. unat q = chip_address (cfg_qspi_mode W) (unat (QspiFlashSize s)) (unat src) \<Longrightarrow>
      selected (trace u) = chips (cfg_qspi_mode W) (QspiFlashSize s) src \<Longrightarrow> same_flash s u \<Longrightarrow>
      \<forall>maker. bytes_read maker (trace u) = bytes_read maker (trace s) \<Longrightarrow> \<forall>maker c. bank maker c (trace u) = bank maker c (trace s) \<Longrightarrow>
      wp (if QspiFlashSize u > bank_size W then SendBankSelect W (q div BANKSIZE) else retM XFSBL_SUCCESS)
        (\<lambda>x t. x = XFSBL_SUCCESS \<longrightarrow> Mid q t) (\<lambda>_ _. False) u"
    and read: "\<And>q u. unat q = chip_address (cfg_qspi_mode W) (unat (QspiFlashSize s)) (unat src) \<Longrightarrow> Mid q u \<Longrightarrow>
      wp (seqM (Qspi24_messages W q dst (piece24 W q r)) (XQspiPsu_PolledTransfer W 3)) (\<lambda>(v, b) t. v = XFSBL_SUCCESS \<longrightarrow> Inv t \<and>
        bytes_read maker (trace t) = bytes_read maker (trace s) @ map (\<lambda>i. (cell (unat src + i), dst + of_nat i)) [0..<unat (piece24 W q r)])
        (\<lambda>_ _. False) u"
    and next_ok: "\<And>q. unat q = chip_address (cfg_qspi_mode W) (unat (QspiFlashSize s)) (unat src) \<Longrightarrow>
      unat (piece24 W q r) < unat r \<Longrightarrow> ok (unat src + unat (piece24 W q r))"
  shows "wp (Qspi24Copy_turn W (src, dst, r)) (one_turn Inv maker cell ok s src dst r) (\<lambda>_ _. False) s"
  unfolding Qspi24Copy_turn_def prod.case if_not_P [OF not_not [THEN iffD2, OF assms(1)]] Let_def piece24_def [symmetric] wp_bind [of "XFsbl_GetQspiAddr W src"]
proof (rule wp_mono [OF GetQspiAddr_wp [OF mode]])
  fix q :: u32 and u
  assume "unat q = (if cfg_qspi_mode W = QspiParallel then unat src div 2 else snd (flash_cell (cfg_qspi_mode W) (unat (QspiFlashSize s)) (unat src))) \<and>
      selected (trace u) = chips (cfg_qspi_mode W) (QspiFlashSize s) src \<and> same_flash s u \<and>
      (\<forall>maker. bytes_read maker (trace u) = bytes_read maker (trace s)) \<and> (\<forall>maker c. bank maker c (trace u) = bank maker c (trace s))"
  then have q: "unat q = chip_address (cfg_qspi_mode W) (unat (QspiFlashSize s)) (unat src)"
    and u: "selected (trace u) = chips (cfg_qspi_mode W) (QspiFlashSize s) src" "same_flash s u"
      "\<forall>maker. bytes_read maker (trace u) = bytes_read maker (trace s)" "\<forall>maker c. bank maker c (trace u) = bank maker c (trace s)"
    by (simp_all add: chip_address_def)
  show "wp (bindM (getM QspiFlashSize) (\<lambda>Size.
        bindM (if Size > bank_size W then SendBankSelect W (q div BANKSIZE) else retM XFSBL_SUCCESS) (\<lambda>Status.
          if Status \<noteq> XFSBL_SUCCESS then retM (Inl XFSBL_ERROR_QSPI_READ)
          else seqM (Qspi24_messages W q dst (piece24 W q r)) (bindM (XQspiPsu_PolledTransfer W 3) (\<lambda>(SStatus, b).
             if SStatus \<noteq> XFSBL_SUCCESS then retM (Inl XFSBL_ERROR_QSPI_READ)
             else retM (Inr (src + piece24 W q r, dst + zx (piece24 W q r), r - piece24 W q r)))))))
      (one_turn Inv maker cell ok s src dst r) (\<lambda>_ _. False) u"
    unfolding wp_bind [of "getM QspiFlashSize"] wp_get wp_bind [of "if c then SendBankSelect W b else retM XFSBL_SUCCESS" for c b]
  proof (rule wp_mono [OF bank [OF q u]])
    fix x t assume t: "x = XFSBL_SUCCESS \<longrightarrow> Mid q t"
    show "wp (if x \<noteq> XFSBL_SUCCESS then retM (Inl XFSBL_ERROR_QSPI_READ)
        else seqM (Qspi24_messages W q dst (piece24 W q r)) (bindM (XQspiPsu_PolledTransfer W 3) (\<lambda>(SStatus, b).
           if SStatus \<noteq> XFSBL_SUCCESS then retM (Inl XFSBL_ERROR_QSPI_READ)
           else retM (Inr (src + piece24 W q r, dst + zx (piece24 W q r), r - piece24 W q r)))))
      (one_turn Inv maker cell ok s src dst r) (\<lambda>_ _. False) t"
    proof (cases "x = XFSBL_SUCCESS")
      case True
      have "wp (seqM (Qspi24_messages W q dst (piece24 W q r)) (XQspiPsu_PolledTransfer W 3)) (\<lambda>y. wp (case y of (v, b) \<Rightarrow>
          if v \<noteq> XFSBL_SUCCESS then retM (Inl XFSBL_ERROR_QSPI_READ)
          else retM (Inr (src + piece24 W q r, dst + zx (piece24 W q r), r - piece24 W q r)))
          (one_turn Inv maker cell ok s src dst r) (\<lambda>_ _. False)) (\<lambda>_ _. False) t"
        using True t next_ok [OF q] piece24_bounds [OF assms(1)] assms(3)
        by (intro one_turn_read read [OF q]) simp_all
      with True show ?thesis by (simp only: wp_seq_bind not_True_eq_False if_False simp_thms)
    qed (simp add: wp_ret one_turn_def)
  qed simp
qed simp

text \<open>On a device that is ready the turn reads what was asked for.\<close>

lemma select_bank:
  assumes "qspi24_device W maker S s" and "unat q = chip_address (cfg_qspi_mode W) (unat S) (unat src)" and "unat src < unat S"
    and u: "selected (trace u) = chips (cfg_qspi_mode W) S src" "same_flash s u" "\<forall>maker c. bank maker c (trace u) = bank maker c (trace s)"
  shows "wp (if QspiFlashSize u > bank_size W then SendBankSelect W (q div BANKSIZE) else retM XFSBL_SUCCESS)
      (\<lambda>x t. x = XFSBL_SUCCESS \<longrightarrow> qspi24_device W maker S t \<and> selected (trace t) = selected (trace u) \<and>
         bytes_read maker (trace t) = bytes_read maker (trace u) \<and>
         (\<forall>c. selected (trace u) = CsBoth \<or> c = (if selected (trace u) = CsUpper then 1 else 0) \<longrightarrow> unat (bank maker c (trace t)) = unat q div 2 ^ 24))
      (\<lambda>_ _. False) u"
proof -
  have S: "QspiFlashSize u = S" "QspiFlashMake u = maker" "length (FlashMsg u) = 5"
    using assms(1) u(2) by (simp_all add: qspi24_device_def same_flash_def qspi24_ready_def)
  show ?thesis
  proof (cases "S > bank_size W")
    case True
    have makers: "banked (QspiFlashMake u)" using assms(1) S True by (auto simp: qspi24_device_def qspi24_ready_def bank_ready_def)
    have byte: "unat (ucast (q div BANKSIZE) :: u8) = unat q div 2 ^ 24"
      using unsigned_less [of q, where 'a = nat] by (simp add: unsigned_ucast_eq unat_div hw take_bit_eq_mod)
    show ?thesis
      unfolding S if_P [OF True]
      by (rule wp_mono [OF SendBankSelect_wp [OF makers S(3)]])
        (use assms(1) u(2) True makers byte S in \<open>auto simp: qspi24_device_def qspi24_ready_def bank_ready_def same_flash_def\<close>)
  next
    case False
    then have "unat S \<le> unat (bank_size W)" by (simp add: word_le_nat_alt not_less)
    then have "unat q div 2 ^ 24 = 0"
      using assms(1,2,3) False by (auto simp: qspi24_device_def qspi24_ready_def bank_ready_def bank_consts chip_address_def flash_cell_def
          split: qspi_connection.splits if_splits)
    with False S assms(1) u show ?thesis
      by (auto simp: wp_ret qspi24_device_def qspi24_ready_def bank_ready_def same_flash_def)
  qed
qed

lemma piece24_unat:
  fixes src q r S :: u32
  assumes "unat q = chip_address mode (unat S) (unat src)" and "mode = cfg_qspi_mode W" and "unat src + unat r < 2 ^ 32"
  shows "unat (piece24 W q r) = min (min (unat r) (2 ^ 29)) (if mode = QspiParallel then 2 ^ 25 - 2 * unat q mod 2 ^ 25 else 2 ^ 24 - unat q mod 2 ^ 24)"
proof -
  let ?o = "if mode = QspiParallel then q * 2 else q"
  have src: "unat src < 2 ^ 32" using unsigned_less [of src, where 'a = nat] by simp
  have "2 * unat q \<le> unat src" if "mode = QspiParallel" using that assms(1) by (simp add: chip_address_def)
  then have o: "unat ?o = (if mode = QspiParallel then 2 * unat q else unat q)"
    using src by (auto simp: unat_word_ariths)
  then have "unat ?o \<le> unat src"
    using assms(1) by (auto simp: chip_address_def flash_cell_def split: qspi_connection.splits)
  then have "unat ?o + unat (dma_piece r) < 2 ^ 32" using assms(3) by (simp add: unat_dma_piece)
  from within_bank_unat [OF this] show ?thesis
    using o assms(2) by (simp add: piece24_def bank_consts unat_dma_piece)
qed

lemma Qspi24Copy_turn_wp:
  assumes dev: "qspi24_device W maker S s" and al: "aligned (cfg_qspi_mode W) (unat S) (unat src)" and "0 < r"
    and "unat src + unat r < 2 ^ 32" and "unat src + unat r \<le> unat S"
  shows "wp (Qspi24Copy_turn W (src, dst, r)) (one_turn (qspi24_device W maker S) maker (flash_cell (cfg_qspi_mode W) (unat S))
      (aligned (cfg_qspi_mode W) (unat S)) s src dst r) (\<lambda>_ _. False) s"
proof -
  let ?mode = "cfg_qspi_mode W" and ?chip = "chips (cfg_qspi_mode W) S src"
  have S: "QspiFlashSize s = S" using dev by (simp add: qspi24_device_def)
  have mode: "?mode \<noteq> QspiUnknown" using al by (simp add: aligned_def)
  have src: "unat src < unat S" using assms(3,5) by (simp add: word_less_nat_alt)
  define Mid where "Mid = (\<lambda>(q :: u32) t. qspi24_device W maker S t \<and> selected (trace t) = ?chip \<and> bytes_read maker (trace t) = bytes_read maker (trace s) \<and>
    (\<forall>c. ?chip = CsBoth \<or> c = (if ?chip = CsUpper then 1 else 0) \<longrightarrow> unat (bank maker c (trace t)) = unat q div 2 ^ 24))"
  show ?thesis
  proof (rule Qspi24Copy_turn_steps [where Mid = Mid and s = s, unfolded S, OF assms(3) mode assms(4)])
    fix q :: u32 and u
    assume "unat q = chip_address ?mode (unat S) (unat src)" "selected (trace u) = ?chip" "same_flash s u"
      "\<forall>maker. bytes_read maker (trace u) = bytes_read maker (trace s)" "\<forall>maker c. bank maker c (trace u) = bank maker c (trace s)"
    then show "wp (if QspiFlashSize u > bank_size W then SendBankSelect W (q div BANKSIZE) else retM XFSBL_SUCCESS)
        (\<lambda>x t. x = XFSBL_SUCCESS \<longrightarrow> Mid q t) (\<lambda>_ _. False) u"
      by (intro wp_mono [OF select_bank [OF dev _ src]]) (auto simp: Mid_def)
  next
    fix q u assume q: "unat q = chip_address ?mode (unat S) (unat src)" and u: "Mid q u"
    let ?bs = "[ucast (drop_bit 16 (q AND 0xFF0000)), ucast (drop_bit 8 (q AND 0xFF00)), ucast (q AND 0xFF)] :: u8 list"
    have cells: "map (\<lambda>i. (read_cell maker (trace u) (?mode = QspiParallel) ?bs i, dst + of_nat i)) [0..<unat (piece24 W q r)] =
        map (\<lambda>i. (flash_cell ?mode (unat S) (unat src + i), dst + of_nat i)) [0..<unat (piece24 W q r)]"
    proof (rule map_cong [OF refl])
      fix i assume "i \<in> set [0..<unat (piece24 W q r)]"
      then have i: "i < (if ?mode = QspiParallel then 2 ^ 25 - 2 * unat q mod 2 ^ 25 else 2 ^ 24 - unat q mod 2 ^ 24)"
        using piece24_unat [OF q refl assms(4)] by simp
      have sel: "selected (trace u) = ?chip" using u by (simp add: Mid_def)
      have "read_cell maker (trace u) (?mode = QspiParallel) ?bs i = flash_cell ?mode (unat S) (unat src + i)"
        by (rule read_cell_eq [OF al refl q i sel _ be_24]) (use u in \<open>auto simp: Mid_def\<close>)
      then show "(read_cell maker (trace u) (?mode = QspiParallel) ?bs i, dst + of_nat i) =
          (flash_cell ?mode (unat S) (unat src + i), dst + of_nat i)" by (simp only:)
    qed
    show "wp (seqM (Qspi24_messages W q dst (piece24 W q r)) (XQspiPsu_PolledTransfer W 3)) (\<lambda>(v, b) t. v = XFSBL_SUCCESS \<longrightarrow>
        qspi24_device W maker S t \<and> bytes_read maker (trace t) = bytes_read maker (trace s) @
          map (\<lambda>i. (flash_cell ?mode (unat S) (unat src + i), dst + of_nat i)) [0..<unat (piece24 W q r)]) (\<lambda>_ _. False) u"
      using u cells
      by (intro wp_mono [OF Qspi24_transfer_wp [where maker = maker]])
        (auto simp: Mid_def qspi24_device_def qspi24_ready_def bank_ready_def same_flash_def)
  next
    fix q assume q: "unat q = chip_address ?mode (unat S) (unat src)" and less: "unat (piece24 W q r) < unat r"
    have "even (unat (piece24 W q r))" if "?mode = QspiParallel"
      using piece24_unat [OF q refl assms(4)] less that by (auto simp: min_def mult_mod_right dvd_mod_iff split: if_splits)
    then show "aligned ?mode (unat S) (unat src + unat (piece24 W q r))" using al by (simp add: aligned_def)
  qed
qed

end
