(* ===== verification/Fsbl_Boot_Device.thy ===== *)
theory Fsbl_Boot_Device
  imports Fsbl_Flash_Read
begin

text \<open>
  The flash drivers as boot devices: every copy ends, and a copy that succeeds has fetched exactly the bytes asked
  for.  The locale \<open>boot_device\<close> is what the loader relies on; both QSPI drivers are interpretations of it.  Behind
  them are the cases in which a copy reads other bytes.
\<close>

section \<open>Every copy ends\<close>

lemma returns_PolledTransfer [returns_intro]: "returns (XQspiPsu_PolledTransfer W n)"
  unfolding XQspiPsu_PolledTransfer_def by (intro returns_intro)

lemma returns_SendBankSelect [returns_intro]: "returns (SendBankSelect W b)"
  unfolding SendBankSelect_def send_command_def read_register_def set_FlashMsg_def
  by (auto intro!: returns_intro)

lemma returns_GetQspiAddr [returns_intro]: "returns (XFsbl_GetQspiAddr W a)"
  unfolding XFsbl_GetQspiAddr_def by (auto intro!: returns_intro split: qspi_connection.split)

lemma returns_messages [returns_intro]: "returns (Qspi24_messages W q d n)" "returns (Qspi32_messages W q d n)"
  unfolding Qspi24_messages_def Qspi32_messages_def set_FlashMsg_def by (auto intro!: returns_intro)

lemma returns_Qspi_turns [returns_intro]: "returns (Qspi24Copy_turn W x)" "returns (Qspi32Copy_turn W x)"
  unfolding Qspi24Copy_turn_def Qspi32Copy_turn_def Let_def by (auto intro!: returns_intro)

lemma Qspi_turns_smaller:
  "wp (Qspi24Copy_turn W (a, d, r)) (\<lambda>z t. \<forall>a' d' r'. z = Inr (a', d', r') \<longrightarrow> unat r' < unat r) (\<lambda>_ _. True) s"
  "wp (Qspi32Copy_turn W (a, d, r)) (\<lambda>z t. \<forall>a' d' r'. z = Inr (a', d', r') \<longrightarrow> unat r' < unat r) (\<lambda>_ _. True) s"
proof -
  have less: "unat (r - T) < unat r" if "0 < unat T \<and> unat T \<le> unat (dma_piece r)" for T
    using that by (subst unat_sub) (auto simp: word_le_nat_alt unat_dma_piece)
  have piece: "0 < unat (dma_piece r)" "unat (dma_piece r) \<le> 2 ^ 29" if "0 < r"
    using that by (simp_all add: unat_dma_piece word_less_nat_alt)
  show "wp (Qspi24Copy_turn W (a, d, r)) (\<lambda>z t. \<forall>a' d' r'. z = Inr (a', d', r') \<longrightarrow> unat r' < unat r) (\<lambda>_ _. True) s"
    using less [OF within_bank_bounds] piece
    by (auto simp: Qspi24Copy_turn_def Let_def wp_ret wp_if intro!: wp_bind_any wp_seq_any)
  show "wp (Qspi32Copy_turn W (a, d, r)) (\<lambda>z t. \<forall>a' d' r'. z = Inr (a', d', r') \<longrightarrow> unat r' < unat r) (\<lambda>_ _. True) s"
    using less piece
    by (auto simp: Qspi32Copy_turn_def Let_def wp_ret wp_if intro!: wp_bind_any wp_seq_any)
qed

lemma returns_Qspi_loops [returns_intro]:
  "returns (iterM (Qspi24Copy_turn W) x)" "returns (iterM (Qspi32Copy_turn W) x)"
proof -
  have "unat (snd (snd x')) < unat (snd (snd x))" if "Qspi24Copy_turn W x s = Some (Ret (Inr x'), t)" for x x' s t
    using that Qspi_turns_smaller(1) [of W "fst x" "fst (snd x)" "snd (snd x)" s, THEN wp_Ret]
    by (cases x; cases x') fastforce
  then show "returns (iterM (Qspi24Copy_turn W) x)"
    by (intro returns_iter [where P = "\<lambda>_. True" and m = "\<lambda>x. unat (snd (snd x))"] returns_Qspi_turns) blast+
  have "unat (snd (snd x')) < unat (snd (snd x))" if "Qspi32Copy_turn W x s = Some (Ret (Inr x'), t)" for x x' s t
    using that Qspi_turns_smaller(2) [of W "fst x" "fst (snd x)" "snd (snd x)" s, THEN wp_Ret]
    by (cases x; cases x') fastforce
  then show "returns (iterM (Qspi32Copy_turn W) x)"
    by (intro returns_iter [where P = "\<lambda>_. True" and m = "\<lambda>x. unat (snd (snd x))"] returns_Qspi_turns) blast+
qed

lemma returns_QspiCopy [returns_intro]: "returns (XFsbl_Qspi24Copy W a d n)" "returns (XFsbl_Qspi32Copy W a d n)"
  unfolding XFsbl_Qspi24Copy_def XFsbl_Qspi32Copy_def by (auto intro!: returns_intro simp: Let_def)

lemma returns_QspiInit [returns_intro]: "returns (XFsbl_Qspi24Init W f)" "returns (XFsbl_Qspi32Init W f)"
  unfolding XFsbl_Qspi24Init_def XFsbl_Qspi32Init_def qspi_start_def FlashReadID_def set_FlashMsg_def double_size_def
  by (auto intro!: returns_intro split: option.split)


lemma last_turn:
  "\<not> 0 < r \<Longrightarrow> Qspi24Copy_turn W (src, dst, r) = retM (Inl XFSBL_SUCCESS)"
  "\<not> 0 < r \<Longrightarrow> Qspi32Copy_turn W (src, dst, r) = retM (Inl XFSBL_SUCCESS)"
  by (simp_all add: Qspi24Copy_turn_def Qspi32Copy_turn_def)

text \<open>Initialisation and copy of a device with 24-bit addresses.\<close>

definition qspi24_fits :: "world \<Rightarrow> u32 \<Rightarrow> nat \<Rightarrow> nat \<Rightarrow> bool" where
  "qspi24_fits W S a n \<longleftrightarrow> aligned (cfg_qspi_mode W) (unat S) a \<and> a + n < 2 ^ 32"

lemma Qspi24Copy_wp:
  assumes "qspi24_device W maker S s" and "qspi24_fits W S (unat Src) (unat Len)"
  shows "wp (XFsbl_Qspi24Copy W Src Dest Len) (\<lambda>x t. x = XFSBL_SUCCESS \<longrightarrow> unat Src + unat Len \<le> unat S \<and> qspi24_device W maker S t \<and>
      bytes_read maker (trace t) = bytes_read maker (trace s) @
        map (\<lambda>i. (flash_cell (cfg_qspi_mode W) (unat S) (unat Src + i), Dest + of_nat i)) [0..<unat Len]) (\<lambda>_ _. False) s"
proof -
  have S: "QspiFlashSize s = S" using assms(1) by (simp add: qspi24_device_def)
  have range: "aligned (cfg_qspi_mode W) (unat S) (unat Src)" "unat Src + unat Len < 2 ^ 32"
    using assms(2) by (simp_all add: qspi24_fits_def)
  have sum: "unat (Src + Len) = unat Src + unat Len" using range(2) by (simp add: unat_word_ariths)
  have err: "XFSBL_ERROR_QSPI_LENGTH \<noteq> XFSBL_SUCCESS" by (simp add: hw)
  show ?thesis
  proof (cases "Src + Len > S")
    case True
    then show ?thesis using S err by (simp add: XFsbl_Qspi24Copy_def wp_eq)
  next
    case False
    then have le: "unat Src + unat Len \<le> unat S" using sum by (simp add: word_less_nat_alt)
    have "wp (iterM (Qspi24Copy_turn W) (Src, Dest, Len)) (\<lambda>x t. x \<in> {XFSBL_SUCCESS, XFSBL_ERROR_QSPI_READ} \<and>
        (x = XFSBL_SUCCESS \<longrightarrow> qspi24_device W maker S t \<and> bytes_read maker (trace t) = bytes_read maker (trace s) @
          map (\<lambda>i. (flash_cell (cfg_qspi_mode W) (unat S) (unat Src + i), Dest + of_nat i)) [0..<unat Len])) (\<lambda>_ _. False) s"
      by (rule copy_loop_wp [where ok = "aligned (cfg_qspi_mode W) (unat S)"])
        (use assms(1) range le in \<open>simp_all add: Qspi24Copy_turn_wp last_turn\<close>)
    with False S le show ?thesis
      by (auto simp: XFsbl_Qspi24Copy_def Let_def wp_bind wp_get wp_try wp_ret elim!: wp_mono)
  qed
qed

lemma flash_consts:
  "flash_make b = Some m \<Longrightarrow> m \<in> {MICRON_ID, SPANSION_ID, WINBOND_ID, MACRONIX_ID, ISSI_ID}"
  "flash_size b = Some n \<Longrightarrow> n \<in> {FLASH_SIZE_64M, FLASH_SIZE_128M, FLASH_SIZE_256M, FLASH_SIZE_512M, FLASH_SIZE_1G, FLASH_SIZE_2G}"
  by (auto simp: flash_make_def flash_size_def split: if_splits)

lemma FlashReadID_wp:
  assumes "length (FlashMsg s) = 5"
  shows "wp (FlashReadID W) (\<lambda>x t. x = XFSBL_SUCCESS \<longrightarrow> length (FlashMsg t) = 5 \<and>
      QspiFlashMake t \<in> {MICRON_ID, SPANSION_ID, WINBOND_ID, MACRONIX_ID, ISSI_ID} \<and>
      QspiFlashSize t \<in> {FLASH_SIZE_64M, FLASH_SIZE_128M, FLASH_SIZE_256M, FLASH_SIZE_512M, FLASH_SIZE_1G, FLASH_SIZE_2G} \<and>
      (\<forall>maker. bytes_read maker (trace t) = bytes_read maker (trace s) \<and> (\<forall>c. bank maker c (trace t) = bank maker c (trace s))))
    (\<lambda>_ _. False) s"
proof -
  obtain m0 m1 ms where msgs: "FlashMsg s = m0 # m1 # ms" "length ms = 3"
    using assms by (auto simp: length_Suc_conv numeral_eq_Suc)
  have err: "XFSBL_ERROR_UNSUPPORTED_QSPI \<noteq> XFSBL_SUCCESS" "XFSBL_FAILURE \<noteq> XFSBL_SUCCESS" by (simp_all add: hw)
  show ?thesis
    using err flash_consts
    by (auto simp: FlashReadID_def XQspiPsu_PolledTransfer_def set_FlashMsg_def wp_eq msgs bank_write_cases data_read_cases
        split: option.split)
qed

lemma qspi_start_wp:
  assumes "\<And>t. cfg_qspi_mode W \<noteq> QspiUnknown \<Longrightarrow> FlashMsg t = FlashMsg s \<Longrightarrow>
      \<forall>maker. bytes_read maker (trace t) = bytes_read maker (trace s) \<and> (\<forall>c. bank maker c (trace t) = bank maker c (trace s)) \<Longrightarrow> wp k Q H t"
    and "\<And>x t. x \<noteq> XFSBL_SUCCESS \<Longrightarrow> Q x t"
  shows "wp (qspi_start W k) Q H s"
proof -
  have quiet: "transfer_of (Ext (Qspi c) v) = None" if "\<forall>ms. c \<noteq> QspiTransfer ms" for c v
    using that by (cases c) (simp_all add: transfer_of_def)
  have err: "XFSBL_ERROR_QSPI_INIT \<noteq> XFSBL_SUCCESS" "XFSBL_ERROR_QSPI_MANUAL_START \<noteq> XFSBL_SUCCESS"
    "XFSBL_ERROR_QSPI_PRESCALER_CLK \<noteq> XFSBL_SUCCESS" "XFSBL_ERROR_INVALID_QSPI_CONNECTION \<noteq> XFSBL_SUCCESS" by (simp_all add: hw)
  note fail = err [THEN assms(2)]
  show ?thesis
    unfolding qspi_start_def wp_eq using fail by (auto intro!: assms(1) simp: quiet)
qed

definition started :: "world \<Rightarrow> fsbl \<Rightarrow> fsbl \<Rightarrow> bool" where
  "started W s t \<longleftrightarrow> length (FlashMsg t) = 5 \<and> cfg_qspi_mode W \<noteq> QspiUnknown \<and>
      ReadCommand t \<in> {DUAL_READ_CMD_24BIT, QUAD_READ_CMD_24BIT} \<and>
      (cfg_qspi_mode W = QspiStacked \<and> QspiFlashSize t > bank_size W \<longrightarrow> 2 ^ 25 dvd unat (QspiFlashSize t)) \<and>
      (\<forall>maker. bytes_read maker (trace t) = bytes_read maker (trace s) \<and> (\<forall>c. bank maker c (trace t) = bank maker c (trace s)))"

lemma Qspi24Init_wp:
  assumes "length (FlashMsg s) = 5"
  shows "wp (XFsbl_Qspi24Init W f) (\<lambda>x t. x = XFSBL_SUCCESS \<longrightarrow> started W s t) (\<lambda>_ _. False) s"
  unfolding XFsbl_Qspi24Init_def
proof (rule qspi_start_wp)
  fix t :: fsbl
  assume t: "cfg_qspi_mode W \<noteq> QspiUnknown" "FlashMsg t = FlashMsg s"
    "\<forall>maker. bytes_read maker (trace t) = bytes_read maker (trace s) \<and> (\<forall>c. bank maker c (trace t) = bank maker c (trace s))"
  have sizes: "unat (2 * n) \<le> (2 :: nat) ^ 24 \<or> (2 :: nat) ^ 25 dvd unat (2 * n)"
    if "n \<in> {FLASH_SIZE_64M, FLASH_SIZE_128M, FLASH_SIZE_256M, FLASH_SIZE_512M, FLASH_SIZE_1G, FLASH_SIZE_2G}" for n
    using that by (auto simp: hw)
  have big: "bank_size W < n \<longleftrightarrow> \<not> unat n \<le> 2 ^ 24" if "cfg_qspi_mode W = QspiStacked" for n
    using that by (auto simp only: word_less_nat_alt bank_consts split: if_splits)
  have "length (FlashMsg t) = 5" using t(2) assms by simp
  then show "wp (tryM (FlashReadID W) (seqM (seqsM
          [modM (\<lambda>s. s\<lparr>ReadCommand := (if IssiIdFlag s = 1 then DUAL_READ_CMD_24BIT else QUAD_READ_CMD_24BIT)\<rparr>),
           double_size W]) (retM XFSBL_SUCCESS))) (\<lambda>x t. x = XFSBL_SUCCESS \<longrightarrow> started W s t) (\<lambda>_ _. False) t"
    unfolding wp_try
    by (rule wp_mono [OF FlashReadID_wp])
      (use t(1,3) sizes in \<open>auto simp: started_def double_size_def wp_eq big\<close>)
qed simp

section \<open>A boot device\<close>

text \<open>
  What the loader relies on when it calls \<open>DeviceCopy\<close>: the copy returns, and in a state that is ready it
  fetches the bytes asked for, in order, and leaves the device ready.
\<close>

locale boot_device =
  fixes copy :: "u32 \<Rightarrow> u64 \<Rightarrow> u32 \<Rightarrow> u32 prog"
    and ready :: "fsbl \<Rightarrow> bool"
    and fits :: "nat \<Rightarrow> nat \<Rightarrow> bool"
    and cell :: "nat \<Rightarrow> nat \<times> nat"
    and extent :: nat
    and reads :: "fsbl \<Rightarrow> ((nat \<times> nat) \<times> u64) list"
  assumes copy_returns: "returns (copy a d n)"
    and copy_reads: "ready s \<Longrightarrow> fits (unat a) (unat n) \<Longrightarrow> wp (copy a d n) (\<lambda>x t. x = XFSBL_SUCCESS \<longrightarrow>
      unat a + unat n \<le> extent \<and> ready t \<and> reads t = reads s @ map (\<lambda>i. (cell (unat a + i), d + of_nat i)) [0..<unat n]) (\<lambda>_ _. False) s"

text \<open>The copies of a boot, one after the other, until one of them fails.\<close>

primrec copy_all :: "(u32 \<Rightarrow> u64 \<Rightarrow> u32 \<Rightarrow> u32 prog) \<Rightarrow> (u32 \<times> u64 \<times> u32) list \<Rightarrow> u32 prog" where
  "copy_all copy [] = retM XFSBL_SUCCESS"
| "copy_all copy (r # rs) = tryM (copy (fst r) (fst (snd r)) (snd (snd r))) (copy_all copy rs)"

definition requested :: "(nat \<Rightarrow> nat \<times> nat) \<Rightarrow> (u32 \<times> u64 \<times> u32) list \<Rightarrow> ((nat \<times> nat) \<times> u64) list" where
  "requested cell rs = concat (map (\<lambda>(a, d, n). map (\<lambda>i. (cell (unat a + i), d + of_nat i)) [0..<unat n]) rs)"

context boot_device
begin

lemma copy_all_wp:
  "ready s \<Longrightarrow> list_all (\<lambda>(a, d, n). fits (unat a) (unat n)) rs \<Longrightarrow>
    wp (copy_all copy rs) (\<lambda>x t. x = XFSBL_SUCCESS \<longrightarrow> list_all (\<lambda>(a, d, n). unat a + unat n \<le> extent) rs \<and> ready t \<and> reads t = reads s @ requested cell rs) (\<lambda>_ _. False) s"
proof (induction rs arbitrary: s)
  case Nil
  then show ?case by (simp add: wp_ret requested_def)
next
  case (Cons r rs)
  obtain a d n where r: "r = (a, d, n)" by (cases r)
  have "fits (unat a) (unat n)" using Cons.prems(2) r by simp
  then show ?case
    unfolding r copy_all.simps fst_conv snd_conv wp_try
  proof (intro wp_mono [OF copy_reads [OF Cons.prems(1)]])
    fix x t assume t: "x = XFSBL_SUCCESS \<longrightarrow> unat a + unat n \<le> extent \<and> ready t \<and> reads t = reads s @ map (\<lambda>i. (cell (unat a + i), d + of_nat i)) [0..<unat n]"
    show "if x \<noteq> XFSBL_SUCCESS then x = XFSBL_SUCCESS \<longrightarrow> list_all (\<lambda>(a, d, n). unat a + unat n \<le> extent) ((a, d, n) # rs) \<and> ready t \<and> reads t = reads s @ requested cell ((a, d, n) # rs)
      else wp (copy_all copy rs) (\<lambda>x t. x = XFSBL_SUCCESS \<longrightarrow> list_all (\<lambda>(a, d, n). unat a + unat n \<le> extent) ((a, d, n) # rs) \<and> ready t \<and> reads t = reads s @ requested cell ((a, d, n) # rs)) (\<lambda>_ _. False) t"
      using t Cons.prems(2) wp_mono [OF Cons.IH [of t]] by (auto simp: requested_def)
  qed simp
qed

lemma copy_all_returns: "returns (copy_all copy rs)"
  by (induction rs) (auto intro!: returns_intro copy_returns)

lemma copy_all_ends:
  "ready s \<Longrightarrow> list_all (\<lambda>(a, d, n). fits (unat a) (unat n)) rs \<Longrightarrow>
    ends (copy_all copy rs) (\<lambda>x t. x = XFSBL_SUCCESS \<longrightarrow> list_all (\<lambda>(a, d, n). unat a + unat n \<le> extent) rs \<and> reads t = reads s @ requested cell rs) s"
  using copy_all_returns by (auto simp: ends_iff returns_def intro: wp_mono [OF copy_all_wp])

end

interpretation qspi24: boot_device "XFsbl_Qspi24Copy W" "qspi24_device W maker S" "qspi24_fits W S"
  "flash_cell (cfg_qspi_mode W) (unat S)" "unat S" "\<lambda>s. bytes_read maker (trace s)" for W maker S
proof unfold_locales
  fix s and a n :: u32 and d :: u64
  assume "qspi24_device W maker S s" "qspi24_fits W S (unat a) (unat n)"
  then show "wp (XFsbl_Qspi24Copy W a d n) (\<lambda>x t. x = XFSBL_SUCCESS \<longrightarrow> unat a + unat n \<le> unat S \<and> qspi24_device W maker S t \<and>
      bytes_read maker (trace t) = bytes_read maker (trace s) @
        map (\<lambda>i. (flash_cell (cfg_qspi_mode W) (unat S) (unat a + i), d + of_nat i)) [0..<unat n]) (\<lambda>_ _. False) s"
    by (rule Qspi24Copy_wp)
qed (rule returns_QspiCopy)

text \<open>C16: After a successful initialisation every sequence of copies ends, and when it succeeds the chips have delivered
  exactly the bytes asked for, in order and each to its place, over all banks and chips; it does not succeed
  when a request leaves the device.\<close>
lemma qspi24_device_reads:
  assumes "length (FlashMsg s) = 5" and "\<And>maker c. bank maker c (trace s) = 0"
    and "XFsbl_Qspi24Init W f s = Some (Ret XFSBL_SUCCESS, t)"
    and "QspiFlashSize t > bank_size W \<longrightarrow> banked (QspiFlashMake t)"
    and "cfg_qspi_mode W = QspiStacked \<longrightarrow> QspiFlashSize t > bank_size W"
    and "list_all (\<lambda>(a, d, n). (cfg_qspi_mode W = QspiParallel \<longrightarrow> even (unat a)) \<and> unat a + unat n < 2 ^ 32) rs"
  shows "ends (copy_all (XFsbl_Qspi24Copy W) rs) (\<lambda>x u. x = XFSBL_SUCCESS \<longrightarrow>
      list_all (\<lambda>(a, d, n). unat a + unat n \<le> unat (QspiFlashSize t)) rs \<and>
      bytes_read (QspiFlashMake t) (trace u) = bytes_read (QspiFlashMake t) (trace s) @
        requested (flash_cell (cfg_qspi_mode W) (unat (QspiFlashSize t))) rs) t"
proof -
  have t: "started W s t" using wp_Ret [OF Qspi24Init_wp [OF assms(1)] assms(3)] by simp
  have "qspi24_device W (QspiFlashMake t) (QspiFlashSize t) t"
    using t assms(2,4,5) by (auto simp: started_def qspi24_device_def qspi24_ready_def bank_ready_def)
  moreover have "list_all (\<lambda>(a, d, n). qspi24_fits W (QspiFlashSize t) (unat a) (unat n)) rs"
    using t assms(5,6) by (auto simp: list_all_iff qspi24_fits_def aligned_def started_def)
  ultimately show ?thesis
    using qspi24.copy_all_ends t by (auto simp: started_def intro!: ends_mono [OF qspi24.copy_all_ends])
qed

text \<open>Two Micron chips of 64 MB, stacked.\<close>

definition flash_world :: world where
  "flash_world = quiet_world\<lparr>cfg_qspi_mode := QspiStacked, ext_ret := (\<lambda>_ c. if c = Qspi QspiLookupConfig then 1 else 0),
     ext_byte := (\<lambda>_ _ k. if k = 0 then 0x20 else if k = 2 then 0x20 else 0)\<rparr>"

lemma flash_world_init:
  "\<exists>t. XFsbl_Qspi24Init flash_world f fsbl_init = Some (Ret XFSBL_SUCCESS, t) \<and> QspiFlashMake t = MICRON_ID \<and> QspiFlashSize t = 0x8000000"
proof -
  have "ends (XFsbl_Qspi24Init flash_world f) (\<lambda>x t. x = XFSBL_SUCCESS \<and> QspiFlashMake t = MICRON_ID \<and> QspiFlashSize t = 0x8000000) fsbl_init"
    by (simp add: XFsbl_Qspi24Init_def qspi_start_def FlashReadID_def XQspiPsu_PolledTransfer_def set_FlashMsg_def double_size_def
        flash_make_def flash_size_def flash_world_def quiet_world_def fsbl_init_def ends_eq hw)
  then show ?thesis by (auto simp: ends_def)
qed

lemma qspi24_device_reads_witness:
  "\<exists>t. XFsbl_Qspi24Init flash_world 0 fsbl_init = Some (Ret XFSBL_SUCCESS, t) \<and>
     ends (copy_all (XFsbl_Qspi24Copy flash_world) [(0, 0x1000, 0x100), (0x3FFFFF0, 0x2000, 0x20)])
      (\<lambda>x u. x = XFSBL_SUCCESS \<longrightarrow> bytes_read MICRON_ID (trace u) =
         requested (flash_cell QspiStacked 0x8000000) [(0, 0x1000, 0x100), (0x3FFFFF0, 0x2000, 0x20)]) t"
proof -
  obtain t where t: "XFsbl_Qspi24Init flash_world 0 fsbl_init = Some (Ret XFSBL_SUCCESS, t)" "QspiFlashMake t = MICRON_ID" "QspiFlashSize t = 0x8000000"
    using flash_world_init by blast
  have mode: "cfg_qspi_mode flash_world = QspiStacked" by (simp add: flash_world_def)
  have big: "QspiFlashSize t > bank_size flash_world" using t(3) by (simp add: bank_size_def mode hw)
  have init: "length (FlashMsg fsbl_init) = 5" "trace fsbl_init = []" by (simp_all add: fsbl_init_def)
  have "ends (copy_all (XFsbl_Qspi24Copy flash_world) [(0, 0x1000, 0x100), (0x3FFFFF0, 0x2000, 0x20)]) (\<lambda>x u. x = XFSBL_SUCCESS \<longrightarrow>
      list_all (\<lambda>(a, d, n). unat a + unat n \<le> unat (QspiFlashSize t)) [(0 :: u32, 0x1000 :: u64, 0x100 :: u32), (0x3FFFFF0, 0x2000, 0x20)] \<and>
      bytes_read (QspiFlashMake t) (trace u) = bytes_read (QspiFlashMake t) (trace fsbl_init) @
        requested (flash_cell (cfg_qspi_mode flash_world) (unat (QspiFlashSize t))) [(0, 0x1000, 0x100), (0x3FFFFF0, 0x2000, 0x20)]) t"
    by (rule qspi24_device_reads [OF init(1) _ t(1)]) (use big in \<open>simp_all add: init mode t banked_def\<close>)
  then show ?thesis
    using t by (intro exI [of _ t] conjI t(1)) (auto simp: init mode elim!: ends_mono)
qed

section \<open>Chips whose bank register is not written\<close>

text \<open>
  \<open>FlashReadID\<close> accepts chips of Winbond and ISSI of any size, but \<open>SendBankSelect\<close> has no command for
  them and reports success: every read stays in the first 16 MB.
\<close>

definition unbanked :: "world \<Rightarrow> u32 \<Rightarrow> u32 \<Rightarrow> fsbl \<Rightarrow> bool" where
  "unbanked W maker S s \<longleftrightarrow> cfg_qspi_mode W = QspiSingle \<and> \<not> banked maker \<and> QspiFlashMake s = maker \<and> QspiFlashSize s = S \<and>
     bank maker 0 (trace s) = 0 \<and> length (FlashMsg s) = 5 \<and>
     ReadCommand s \<in> {FAST_READ_CMD_24BIT, DUAL_READ_CMD_24BIT, QUAD_READ_CMD_24BIT}"

lemma unbanked_turn:
  assumes dev: "unbanked W maker S s" and "0 < r" and "unat src + unat r < 2 ^ 32"
  shows "wp (Qspi24Copy_turn W (src, dst, r)) (one_turn (unbanked W maker S) maker (\<lambda>a. (0, a mod 2 ^ 24)) (\<lambda>_. True) s src dst r) (\<lambda>_ _. False) s"
proof -
  have mode: "cfg_qspi_mode W = QspiSingle" "cfg_qspi_mode W \<noteq> QspiUnknown" using dev by (simp_all add: unbanked_def)
  have q: "q = src" if "unat q = chip_address (cfg_qspi_mode W) (unat (QspiFlashSize s)) (unat src)" for q :: u32
    using that mode(1) by (simp add: chip_address_def flash_cell_def word_unat_eq_iff)
  define Mid where "Mid = (\<lambda>(q :: u32) t. unbanked W maker S t \<and> selected (trace t) = CsLower \<and> bytes_read maker (trace t) = bytes_read maker (trace s))"
  show ?thesis
  proof (rule Qspi24Copy_turn_steps [where Mid = Mid, OF assms(2) mode(2) assms(3)])
    fix q :: u32 and u
    assume "selected (trace u) = chips (cfg_qspi_mode W) (QspiFlashSize s) src" "same_flash s u"
      "\<forall>maker. bytes_read maker (trace u) = bytes_read maker (trace s)" "\<forall>maker c. bank maker c (trace u) = bank maker c (trace s)"
    then show "wp (if QspiFlashSize u > bank_size W then SendBankSelect W (q div BANKSIZE) else retM XFSBL_SUCCESS)
        (\<lambda>x t. x = XFSBL_SUCCESS \<longrightarrow> Mid q t) (\<lambda>_ _. False) u"
      using dev by (auto simp: SendBankSelect_def Mid_def unbanked_def banked_def same_flash_def chips_def wp_eq)
  next
    fix q :: u32 and u
    assume "unat q = chip_address (cfg_qspi_mode W) (unat (QspiFlashSize s)) (unat src)" and u: "Mid q u"
    then have [simp]: "q = src" using q by simp
    define bs :: "u8 list" where "bs = [ucast (drop_bit 16 (src AND 0xFF0000)), ucast (drop_bit 8 (src AND 0xFF00)), ucast (src AND 0xFF)]"
    have "be bs = unat src mod 2 ^ 24" "length bs = 3" unfolding bs_def by (rule be_24) simp
    then have cells: "read_cell maker (trace u) False bs i = (0, (unat src + i) mod 2 ^ 24)" for i
      using u by (simp add: read_cell_def Mid_def unbanked_def mod_add_left_eq)
    have "wp (seqM (Qspi24_messages W src dst (piece24 W src r)) (XQspiPsu_PolledTransfer W 3)) (\<lambda>(v, b) t. v = XFSBL_SUCCESS \<longrightarrow> same_flash u t \<and>
        bytes_read maker (trace t) = bytes_read maker (trace u) @
          map (\<lambda>i. (read_cell maker (trace u) False bs i, dst + of_nat i)) [0..<unat (piece24 W src r)] \<and>
        (\<forall>c. bank maker c (trace t) = bank maker c (trace u))) (\<lambda>_ _. False) u"
      using Qspi24_transfer_wp [where maker = maker and W = W and s = u and q = src and d = dst and T = "piece24 W src r"] u mode(1)
      by (simp only: bs_def [symmetric]) (simp add: Mid_def unbanked_def)
    then show "wp (seqM (Qspi24_messages W q dst (piece24 W q r)) (XQspiPsu_PolledTransfer W 3)) (\<lambda>(v, b) t. v = XFSBL_SUCCESS \<longrightarrow>
        unbanked W maker S t \<and> bytes_read maker (trace t) = bytes_read maker (trace s) @
          map (\<lambda>i. ((0, (unat src + i) mod 2 ^ 24), dst + of_nat i)) [0..<unat (piece24 W q r)]) (\<lambda>_ _. False) u"
      using u by (auto simp: cells Mid_def unbanked_def same_flash_def elim!: wp_mono)
  qed simp
qed

text \<open>A copy from a chip of Winbond or ISSI behind the first 16 MB ends, and when it succeeds it has stored the bytes of the first
  16 MB, because no bank is selected.\<close>
lemma unbanked_copy_reads_first_bank:
  assumes "unbanked W maker S s" and "unat Src + unat Len < 2 ^ 32" and "unat Src + unat Len \<le> unat S"
  shows "ends (XFsbl_Qspi24Copy W Src Dest Len) (\<lambda>x t. x = XFSBL_SUCCESS \<longrightarrow> bytes_read maker (trace t) = bytes_read maker (trace s) @
      map (\<lambda>i. ((0, (unat Src + i) mod 2 ^ 24), Dest + of_nat i)) [0..<unat Len]) s"
proof -
  have "unat (Src + Len) = unat Src + unat Len" using assms(2) by (simp add: unat_word_ariths)
  then have fits: "\<not> Src + Len > QspiFlashSize s" using assms(1,3) by (simp add: word_less_nat_alt unbanked_def)
  have "wp (iterM (Qspi24Copy_turn W) (Src, Dest, Len)) (\<lambda>x t. x \<in> {XFSBL_SUCCESS, XFSBL_ERROR_QSPI_READ} \<and>
      (x = XFSBL_SUCCESS \<longrightarrow> unbanked W maker S t \<and> bytes_read maker (trace t) = bytes_read maker (trace s) @
        map (\<lambda>i. ((0, (unat Src + i) mod 2 ^ 24), Dest + of_nat i)) [0..<unat Len])) (\<lambda>_ _. False) s"
    by (rule copy_loop_wp [where ok = "\<lambda>_. True"]) (use assms in \<open>simp_all add: unbanked_turn [simplified] last_turn\<close>)
  then have "wp (XFsbl_Qspi24Copy W Src Dest Len) (\<lambda>x t. x = XFSBL_SUCCESS \<longrightarrow> bytes_read maker (trace t) = bytes_read maker (trace s) @
      map (\<lambda>i. ((0, (unat Src + i) mod 2 ^ 24), Dest + of_nat i)) [0..<unat Len]) (\<lambda>_ _. False) s"
    using fits by (auto simp: XFsbl_Qspi24Copy_def Let_def wp_bind wp_get wp_try wp_ret elim!: wp_mono)
  then show ?thesis using returns_QspiCopy(1) by (auto simp: ends_iff returns_def)
qed

lemma unbanked_copy_reads_first_bank_witness:
  "ends (XFsbl_Qspi24Copy quiet_world 0x1000010 0x1000 2) (\<lambda>x t. x = XFSBL_SUCCESS \<longrightarrow>
      bytes_read WINBOND_ID (trace t) = [((0, 0x10), 0x1000), ((0, 0x11), 0x1001)])
    (fsbl_init\<lparr>QspiFlashSize := FLASH_SIZE_256M, QspiFlashMake := WINBOND_ID, ReadCommand := QUAD_READ_CMD_24BIT\<rparr>)"
  by (rule ends_mono [OF unbanked_copy_reads_first_bank [where S = FLASH_SIZE_256M and maker = WINBOND_ID]])
    (simp_all add: unbanked_def banked_def quiet_world_def fsbl_init_def hw upt_rec)

section \<open>Devices with 32-bit addresses\<close>

definition qspi32_device :: "world \<Rightarrow> u32 \<Rightarrow> fsbl \<Rightarrow> bool" where
  "qspi32_device W S s \<longleftrightarrow> QspiFlashSize s = S \<and> length (FlashMsg s) = 5 \<and> ReadCommand s = SLOW_READ_CMD_32BIT"

lemma Qspi32_transfer_wp:
  assumes "qspi32_device W S s"
  shows "wp (seqM (Qspi32_messages W q d T) (XQspiPsu_PolledTransfer W 2)) (\<lambda>(v, b) t. v = XFSBL_SUCCESS \<longrightarrow> qspi32_device W S t \<and>
      bytes_read maker (trace t) = bytes_read maker (trace s) @
        map (\<lambda>i. (read_cell maker (trace s) (cfg_qspi_mode W = QspiParallel)
          [ucast (drop_bit 24 (q AND 0xFF000000)), ucast (drop_bit 16 (q AND 0xFF0000)), ucast (drop_bit 8 (q AND 0xFF00)), ucast (q AND 0xFF)] i, d + of_nat i))
          [0..<unat T]) (\<lambda>_ _. False) s"
proof -
  obtain m0 m1 ms where msgs: "FlashMsg s = m0 # m1 # ms" "length ms = 3"
    using assms by (auto simp: qspi32_device_def length_Suc_conv numeral_eq_Suc)
  have cmd: "ucast (ucast SLOW_READ_CMD_32BIT :: u8) = SLOW_READ_CMD_32BIT" by (simp add: hw)
  show ?thesis
    using assms
    by (auto simp: Qspi32_messages_def XQspiPsu_PolledTransfer_def set_FlashMsg_def wp_eq msgs qspi32_device_def data_read_def
        read24_def read32_def tx_msg_def rx_data_def cmd numeral_2_eq_2)
qed

text \<open>
  A piece is read from the chip that holds its first byte, in one go.
\<close>

definition piece_cell :: "qspi_connection \<Rightarrow> nat \<Rightarrow> nat \<Rightarrow> nat \<Rightarrow> nat \<times> nat" where
  "piece_cell mode S a i = (if mode = QspiParallel then (i mod 2, a div 2 + i div 2)
     else (fst (flash_cell mode S a), snd (flash_cell mode S a) + i))"

lemma Qspi32Copy_turn_wp:
  assumes dev: "qspi32_device W S s" and "0 < r" and mode: "cfg_qspi_mode W \<noteq> QspiUnknown" and "unat src + unat r < 2 ^ 32"
    and cells: "\<And>i. i < unat (dma_piece r) \<Longrightarrow> cell (unat src + i) = piece_cell (cfg_qspi_mode W) (unat S) (unat src) i"
    and next_ok: "unat (dma_piece r) < unat r \<Longrightarrow> ok (unat src + unat (dma_piece r))"
  shows "wp (Qspi32Copy_turn W (src, dst, r)) (one_turn (qspi32_device W S) maker cell ok s src dst r) (\<lambda>_ _. False) s"
  unfolding Qspi32Copy_turn_def prod.case if_not_P [OF not_not [THEN iffD2, OF assms(2)]] Let_def wp_bind [of "XFsbl_GetQspiAddr W src"] wp_seq_bind
proof (rule wp_mono [OF GetQspiAddr_wp [OF mode]])
  fix q :: u32 and u
  let ?mode = "cfg_qspi_mode W" and ?T = "dma_piece r"
  assume "unat q = (if ?mode = QspiParallel then unat src div 2 else snd (flash_cell ?mode (unat (QspiFlashSize s)) (unat src))) \<and>
      selected (trace u) = chips ?mode (QspiFlashSize s) src \<and> same_flash s u \<and>
      (\<forall>maker. bytes_read maker (trace u) = bytes_read maker (trace s)) \<and> (\<forall>maker c. bank maker c (trace u) = bank maker c (trace s))"
  then have q: "unat q = (if ?mode = QspiParallel then unat src div 2 else snd (flash_cell ?mode (unat S) (unat src)))"
    and u: "selected (trace u) = chips ?mode S src" "qspi32_device W S u" "bytes_read maker (trace u) = bytes_read maker (trace s)"
    using dev by (simp_all add: qspi32_device_def same_flash_def)
  define bs :: "u8 list" where "bs = [ucast (drop_bit 24 (q AND 0xFF000000)), ucast (drop_bit 16 (q AND 0xFF0000)),
    ucast (drop_bit 8 (q AND 0xFF00)), ucast (q AND 0xFF)]"
  have bs: "be bs = unat q" "length bs = 4" unfolding bs_def by (rule be_32) simp
  have half: "unat (S div 2) = unat S div 2" by (simp add: unat_div)
  have read_cell: "read_cell maker (trace u) (?mode = QspiParallel) bs i = piece_cell ?mode (unat S) (unat src) i" for i
    using q u(1) bs half mode
    by (cases ?mode) (auto simp: read_cell_def piece_cell_def chips_def flash_cell_def word_le_nat_alt)
  have "map (\<lambda>i. (read_cell maker (trace u) (?mode = QspiParallel) bs i, dst + of_nat i)) [0..<unat ?T] =
      map (\<lambda>i. (cell (unat src + i), dst + of_nat i)) [0..<unat ?T]"
    using cells by (intro map_cong refl) (simp add: read_cell)
  then have "wp (seqM (Qspi32_messages W q dst ?T) (XQspiPsu_PolledTransfer W 2)) (\<lambda>(v, b) t. v = XFSBL_SUCCESS \<longrightarrow> qspi32_device W S t \<and>
      bytes_read maker (trace t) = bytes_read maker (trace s) @ map (\<lambda>i. (cell (unat src + i), dst + of_nat i)) [0..<unat ?T]) (\<lambda>_ _. False) u"
    using Qspi32_transfer_wp [OF u(2), where maker = maker and q = q and d = dst and T = ?T, folded bs_def] u(3) by (simp only:)
  then show "wp (seqM (Qspi32_messages W q dst ?T) (XQspiPsu_PolledTransfer W 2)) (\<lambda>x. wp (case x of (SStatus, b) \<Rightarrow>
        if SStatus \<noteq> XFSBL_SUCCESS then retM (Inl XFSBL_ERROR_QSPI_READ)
        else retM (Inr (src + ?T, dst + zx ?T, r - ?T))) (one_turn (qspi32_device W S) maker cell ok s src dst r) (\<lambda>_ _. False)) (\<lambda>_ _. False) u"
    using next_ok assms(2,4) by (intro one_turn_read) (auto simp: unat_dma_piece word_less_nat_alt)
qed simp

lemma Qspi32Copy_wp:
  assumes "qspi32_device W S s" and "cfg_qspi_mode W \<noteq> QspiUnknown" and "unat Src + unat Len < 2 ^ 32"
    and "cell_ok (unat Src)"
    and "\<And>a n. cell_ok a \<Longrightarrow> a + n \<le> unat Src + unat Len \<Longrightarrow> n \<le> 2 ^ 29 \<Longrightarrow>
      (\<forall>i<n. cell (a + i) = piece_cell (cfg_qspi_mode W) (unat S) a i) \<and> (n = 2 ^ 29 \<longrightarrow> cell_ok (a + n))"
  shows "wp (XFsbl_Qspi32Copy W Src Dest Len) (\<lambda>x t. x = XFSBL_SUCCESS \<longrightarrow> unat Src + unat Len \<le> unat S \<and> qspi32_device W S t \<and>
      bytes_read maker (trace t) = bytes_read maker (trace s) @ map (\<lambda>i. (cell (unat Src + i), Dest + of_nat i)) [0..<unat Len]) (\<lambda>_ _. False) s"
proof -
  have S: "QspiFlashSize s = S" using assms(1) by (simp add: qspi32_device_def)
  have sum: "unat (Src + Len) = unat Src + unat Len" using assms(3) by (simp add: unat_word_ariths)
  have err: "XFSBL_ERROR_QSPI_LENGTH \<noteq> XFSBL_SUCCESS" by (simp add: hw)
  show ?thesis
  proof (cases "Src + Len > S")
    case True
    then show ?thesis using S err by (simp add: XFsbl_Qspi32Copy_def wp_eq)
  next
    case False
    then have le: "unat Src + unat Len \<le> unat S" using sum by (simp add: word_less_nat_alt)
    have turn: "wp (Qspi32Copy_turn W (src, dst, r)) (one_turn (qspi32_device W S) maker cell cell_ok t src dst r) (\<lambda>_ _. False) t"
      if "qspi32_device W S t" "cell_ok (unat src)" "0 < r" "unat src + unat r = unat Src + unat Len" for src dst r t
      using that assms(2,3) assms(5) [OF that(2), of "unat (dma_piece r)"]
      by (intro Qspi32Copy_turn_wp) (auto simp: unat_dma_piece min_def split: if_splits)
    have "wp (iterM (Qspi32Copy_turn W) (Src, Dest, Len)) (\<lambda>x t. x \<in> {XFSBL_SUCCESS, XFSBL_ERROR_QSPI_READ} \<and>
        (x = XFSBL_SUCCESS \<longrightarrow> qspi32_device W S t \<and> bytes_read maker (trace t) = bytes_read maker (trace s) @
          map (\<lambda>i. (cell (unat Src + i), Dest + of_nat i)) [0..<unat Len])) (\<lambda>_ _. False) s"
      by (rule copy_loop_wp [where ok = cell_ok]) (use assms(1,4) turn in \<open>simp_all add: last_turn\<close>)
    with False S le show ?thesis
      by (auto simp: XFsbl_Qspi32Copy_def wp_bind wp_get elim!: wp_mono)
  qed
qed

definition qspi32_fits :: "world \<Rightarrow> u32 \<Rightarrow> nat \<Rightarrow> nat \<Rightarrow> bool" where
  "qspi32_fits W S a n \<longleftrightarrow> cfg_qspi_mode W \<noteq> QspiUnknown \<and> a + n < 2 ^ 32 \<and> (cfg_qspi_mode W = QspiParallel \<longrightarrow> even a) \<and>
     (cfg_qspi_mode W = QspiStacked \<longrightarrow> a + n \<le> unat S div 2 \<or> unat S div 2 \<le> a)"

interpretation qspi32: boot_device "XFsbl_Qspi32Copy W" "qspi32_device W S" "qspi32_fits W S"
  "flash_cell (cfg_qspi_mode W) (unat S)" "unat S" "\<lambda>s. bytes_read maker (trace s)" for W maker S
proof unfold_locales
  fix s and a n :: u32 and d :: u64
  let ?mode = "cfg_qspi_mode W"
  assume "qspi32_device W S s" and fits: "qspi32_fits W S (unat a) (unat n)"
  then show "wp (XFsbl_Qspi32Copy W a d n) (\<lambda>x t. x = XFSBL_SUCCESS \<longrightarrow> unat a + unat n \<le> unat S \<and> qspi32_device W S t \<and>
      bytes_read maker (trace t) = bytes_read maker (trace s) @
        map (\<lambda>i. (flash_cell ?mode (unat S) (unat a + i), d + of_nat i)) [0..<unat n]) (\<lambda>_ _. False) s"
  proof (intro Qspi32Copy_wp [where cell_ok = "\<lambda>b. (?mode = QspiParallel \<longrightarrow> even b) \<and> unat a \<le> b"])
    fix b k assume b: "(?mode = QspiParallel \<longrightarrow> even b) \<and> unat a \<le> b" "b + k \<le> unat a + unat n"
    have "flash_cell ?mode (unat S) (b + i) = piece_cell ?mode (unat S) b i" if "i < k" for i
      using b fits that by (cases ?mode) (auto simp: piece_cell_def flash_cell_def qspi32_fits_def elim!: evenE)
    with b show "(\<forall>i<k. flash_cell ?mode (unat S) (b + i) = piece_cell ?mode (unat S) b i) \<and>
        (k = 2 ^ 29 \<longrightarrow> (?mode = QspiParallel \<longrightarrow> even (b + k)) \<and> unat a \<le> b + k)" by simp
  qed (auto simp: qspi32_fits_def)
qed (rule returns_QspiCopy)

text \<open>A read with 32-bit addresses across the border of two stacked chips does not go on in the second chip: the
  bytes behind the border come from addresses of the first one that it does not have.\<close>
lemma qspi32_crosses_chips:
  assumes "qspi32_device W S s" and "cfg_qspi_mode W = QspiStacked"
    and "unat Src < unat S div 2" and "unat S div 2 < unat Src + unat Len" and "unat Len < 2 ^ 29" and "unat S \<le> 2 ^ 31"
  shows "ends (XFsbl_Qspi32Copy W Src Dest Len) (\<lambda>x t. x = XFSBL_SUCCESS \<longrightarrow>
      bytes_read maker (trace t) = bytes_read maker (trace s) @ map (\<lambda>i. ((0, unat Src + i), Dest + of_nat i)) [0..<unat Len]) s \<and>
    flash_cell QspiStacked (unat S) (unat S div 2) = (1, 0)"
proof -
  have "wp (XFsbl_Qspi32Copy W Src Dest Len) (\<lambda>x t. x = XFSBL_SUCCESS \<longrightarrow> unat Src + unat Len \<le> unat S \<and> qspi32_device W S t \<and>
      bytes_read maker (trace t) = bytes_read maker (trace s) @ map (\<lambda>i. ((0, unat Src + i), Dest + of_nat i)) [0..<unat Len]) (\<lambda>_ _. False) s"
    by (rule Qspi32Copy_wp [where cell_ok = "\<lambda>b. b = unat Src" and cell = "\<lambda>b. (0, b)"])
      (use assms in \<open>auto simp: piece_cell_def flash_cell_def\<close>)
  then show ?thesis
    using returns_QspiCopy(2) by (auto simp: ends_iff returns_def flash_cell_def elim!: wp_mono)
qed

lemma qspi32_crosses_chips_witness:
  "ends (XFsbl_Qspi32Copy flash_world 0x3FFFFFC 0x1000 8) (\<lambda>x t. x = XFSBL_SUCCESS \<longrightarrow> bytes_read MICRON_ID (trace t) =
      map (\<lambda>i. ((0, 0x3FFFFFC + i), 0x1000 + of_nat i)) [0..<8])
    (fsbl_init\<lparr>QspiFlashSize := 0x8000000, ReadCommand := SLOW_READ_CMD_32BIT\<rparr>)"
  by (rule ends_mono [OF qspi32_crosses_chips [where S = "0x8000000" and maker = MICRON_ID, THEN conjunct1]])
    (simp_all add: qspi32_device_def flash_world_def fsbl_init_def)

section \<open>NAND: bad blocks\<close>

definition bad_before :: "(u32 \<Rightarrow> bool) \<Rightarrow> u32 \<Rightarrow> nat \<Rightarrow> nat" where
  "bad_before bad c n = length (filter (\<lambda>i. bad (c + of_nat i)) [0..<n])"

lemma bad_before_Suc: "bad_before bad c (Suc n) = (if bad c then 1 else 0) + bad_before bad (c + 1) n"
proof -
  have upt: "[0..<Suc n] = 0 # map Suc [0..<n]" by (simp only: map_Suc_upt upt_conv_Cons zero_less_Suc)
  show ?thesis
    unfolding bad_before_def upt by (simp add: filter_map comp_def add.assoc)
qed

lemma NandCopy_blocks_ends:
  assumes "\<And>h b. ext_ret W h (Nand (NandIsBlockBad b)) = XFSBL_SUCCESS \<longleftrightarrow> bad b"
  shows "ends (NandCopy_blocks W n c a) (\<lambda>a' t. a' = a + of_nat (bad_before bad c n) * nand_block_size W) s"
proof (induction n arbitrary: c a s)
  case 0
  then show ?case by (simp add: ends_eq bad_before_def)
next
  case (Suc n)
  show ?case
    by (auto simp: ends_eq assms bad_before_Suc algebra_simps intro!: ends_mono [OF Suc.IH])
qed

text \<open>The search for bad blocks stops at the block of the request: when that block and the next one are bad,
  the copy skips the first and reads from the second.\<close>
lemma nand_copy_reads_bad_block:
  assumes "\<And>h b. ext_ret W h (Nand (NandIsBlockBad b)) = XFSBL_SUCCESS \<longleftrightarrow> bad b"
    and "reg_in W (trace s) CSU_CSU_MULTI_BOOT = 0" and "0 < nand_block_size W"
    and "unat Src + unat (nand_block_size W) < 2 ^ 32"
    and "\<And>b. bad b \<longleftrightarrow> b = Src div nand_block_size W \<or> b = Src div nand_block_size W + 1"
  shows "ends (XFsbl_NandCopy W Src Dest Len) (\<lambda>x t. \<exists>a v. hd (trace t) = Ext (Nand (NandRead (zx a) (zx Len) Dest)) v \<and>
      a = Src + nand_block_size W \<and> bad (a div nand_block_size W)) s"
proof -
  let ?B = "nand_block_size W" and ?k = "Src div nand_block_size W"
  have B: "0 < unat ?B" using assms(3) by (simp add: word_less_nat_alt)
  have k: "unat ?k = unat Src div unat ?B" by (simp add: unat_div)
  have "unat ?k \<le> unat Src" unfolding k by simp
  then have n: "unat (?k + 1) = Suc (unat ?k)" using assms(4) B by (simp add: unat_word_ariths)
  have "filter (\<lambda>i. bad (0 + of_nat i)) [0..<Suc (unat ?k)] = [unat ?k]"
  proof -
    have "bad (of_nat i) \<longleftrightarrow> i = unat ?k" if "i \<le> unat ?k" for i
    proof -
      have "unat (of_nat i :: u32) = i"
        using that unsigned_less [of ?k, where 'a = nat] by (simp add: unat_of_nat)
      then show ?thesis using assms(5) n that by (auto simp: word_unat_eq_iff)
    qed
    then show ?thesis using assms(5) [of ?k] by (simp add: filter_empty_conv)
  qed
  then have one: "bad_before bad 0 (Suc (unat ?k)) = 1" by (simp only: bad_before_def) simp
  have "unat (Src + ?B) = unat Src + unat ?B" using assms(4) by (simp add: unat_word_ariths)
  then have "(Src + ?B) div ?B = ?k + 1" using B div_add_self2 [of "unat ?B" "unat Src"] by (simp add: word_unat_eq_iff unat_div n)
  then have "bad ((Src + ?B) div ?B)" using assms(5) by simp
  moreover have blocks: "ends (NandCopy_blocks W (Suc (unat ?k)) 0 Src) (\<lambda>a t. a = Src + ?B) u" for u
    by (rule ends_mono [OF NandCopy_blocks_ends [of W bad]]) (simp_all add: assms(1) one)
  ultimately show ?thesis
    unfolding XFsbl_NandCopy_def
    by (auto simp: ends_eq assms(2) n Let_def simp del: NandCopy_blocks.simps intro!: ends_mono [OF blocks])
qed

definition nand_world :: world where
  "nand_world = quiet_world\<lparr>ext_ret := (\<lambda>_ c. case c of Nand n \<Rightarrow> (case n of NandIsBlockBad b \<Rightarrow> if b = 3 \<or> b = 4 then 0 else 1 | _ \<Rightarrow> 0) | _ \<Rightarrow> 0)\<rparr>"

lemma nand_copy_reads_bad_block_witness:
  "ends (XFsbl_NandCopy nand_world 0x60100 0x1000 0x40) (\<lambda>x t. \<exists>a v. hd (trace t) = Ext (Nand (NandRead (zx a) 0x40 0x1000)) v \<and>
      a = (0x80100 :: u32) \<and> a div 0x20000 = 4) fsbl_init"
proof -
  have "ends (XFsbl_NandCopy nand_world 0x60100 0x1000 0x40) (\<lambda>x t. \<exists>a v. hd (trace t) = Ext (Nand (NandRead (zx a) (zx (0x40 :: u32)) 0x1000)) v \<and>
      a = 0x60100 + nand_block_size nand_world \<and> (a div nand_block_size nand_world = 3 \<or> a div nand_block_size nand_world = 4)) fsbl_init"
    by (rule nand_copy_reads_bad_block [where bad = "\<lambda>b. b = 3 \<or> b = 4"]) (simp_all add: nand_world_def quiet_world_def hw)
  then show ?thesis by (auto simp: nand_world_def quiet_world_def elim!: ends_mono)
qed

end
