(* ===== verification/Fsbl_Usb.thy ===== *)
theory Fsbl_Usb
  imports Fsbl_Misc
begin

text \<open>
  Boot over USB, compiled with \<open>XFSBL_USB\<close>: the requests of the host (\<open>xfsbl_usb.c\<close>) and the firmware
  download (\<open>xfsbl_dfu_util.c\<close>).  The image goes to \<open>DfuVirtFlash\<close>, a fixed address in DDR, from where
  \<open>XFsbl_UsbCopy\<close> serves it as a boot device.  The pointers that the code checks against \<open>NULL\<close> are those
  of static buffers.
\<close>

definition DfuVirtFlash :: u64 where
  "DfuVirtFlash = zx XFSBL_DDR_TEMP_BUFFER_ADDRESS"

definition set_dfu :: "(XFsblPs_DfuIf \<Rightarrow> XFsblPs_DfuIf) \<Rightarrow> unit prog" where
  "set_dfu f = modM (\<lambda>s. s\<lparr>DfuObj := f (DfuObj s)\<rparr>)"

section \<open>Descriptors\<close>

text \<open>The packed structures of the descriptors, as the bytes they have in memory.\<close>

definition le16 :: "u16 \<Rightarrow> u8 list" where
  "le16 w = [ucast w, ucast (drop_bit 8 w)]"

text \<open>
  A descriptor: a packed structure whose first byte is its size (\<open>sizeof\<close>), and a configuration, whose header has the size
  of the whole.
\<close>

definition descriptor :: "u8 \<Rightarrow> u8 list \<Rightarrow> u8 list" where
  "descriptor kind contents = [of_nat (length contents + 2), kind] @ contents"

definition DDesc :: "bool \<Rightarrow> u8 list" where
  "DDesc ss = descriptor (ucast USB_DEVICE_DESC) (le16 (if ss then 0x0300 else 0x0200) @ [0, 0, 0, if ss then 9 else 0x40] @
     le16 0x03FD @ le16 0x0050 @ le16 (if ss then 0x0404 else 0x0100) @ [1, 2, 3, 1])"

definition std_if :: "u8 \<Rightarrow> u8 \<Rightarrow> u8 \<Rightarrow> u8 \<Rightarrow> u8 \<Rightarrow> u8 list" where
  "std_if alternate endpoints cls sub proto =
     descriptor (ucast USB_INTERFACE_CFG_DESC) [0, alternate, endpoints, cls, sub, proto, 4]"

definition std_ep :: "u8 \<Rightarrow> u8 \<Rightarrow> u8 list" where
  "std_ep address msb = descriptor (ucast USB_ENDPOINT_CFG_DESC) [address, 2, 0, msb, 0]"

definition ss_companion :: "u8 list" where
  "ss_companion = descriptor 0x30 ([0x0F, 0] @ le16 0)"

definition dfu_func :: "u8 list" where
  "dfu_func = descriptor (ucast DFUFUNC_DESCR) ([3] @ le16 8192 @ le16 (ucast DFU_MAX_TRANSFER) @ le16 0x0110)"

definition std_cfg :: "u16 \<Rightarrow> u8 list" where
  "std_cfg len = descriptor (ucast USB_CONFIG_DESC) (le16 len @ [1, 1, 0, 0xC0, 0])"

definition configuration :: "u8 list \<Rightarrow> u8 list" where
  "configuration rest = std_cfg (of_nat (length (std_cfg 0) + length rest)) @ rest"

definition Config3 :: "u8 list" where
  "Config3 = configuration (std_if 0 2 0xFF 0xFF 0xFF @ std_ep 0x81 4 @ ss_companion @ std_ep 1 4 @ ss_companion @
     std_if 1 0 0xFE 1 2 @ dfu_func)"

definition Config2 :: "u8 list" where
  "Config2 = configuration (std_if 0 2 0xFF 0xFF 0xFF @ std_ep 0x81 2 @ std_ep 1 2 @ std_if 1 0 0xFE 1 2 @ dfu_func)"

definition std_bos :: "u16 \<Rightarrow> u8 list" where
  "std_bos len = descriptor (ucast XFSBL_TYPE_BOS_DESC) (le16 len @ [2])"

definition BosDesc :: "u8 list" where
  "BosDesc =
     (let caps = descriptor 0x10 [2, 0, 0, 0, 0] @ descriptor 0x10 ([3, 0] @ le16 0xF @ [1, 0] @ le16 0)
      in std_bos (of_nat (length (std_bos 0) + length caps)) @ caps)"

definition StringList :: "string list" where
  "StringList =
     [''UNUSED'', ''XILINX INC'', ''DFU 2.0 emulation v 1.1'', ''2A49876D9CC1AA4'', ''Xilinx DFU Downloader'', ''7ABC7ABC7ABC7ABC7ABC7ABC'',
      ''UNUSED'', ''XILINX INC'', ''DFU 3.0 emulation v 1.1'', ''2A49876D9CC1AA4'', ''Xilinx DFU Downloader'', ''7ABC7ABC7ABC7ABC7ABC7ABC'']"

text \<open>
  The replies: they fill the beginning of the buffer \<open>Reply\<close> and return their length.  The speed is asked
  of the driver each time.
\<close>

definition super_speed :: "world \<Rightarrow> (bool \<Rightarrow> 'a prog) \<Rightarrow> 'a prog" where
  "super_speed W k = bindM (extM W (Usb IsSuperSpeed)) (\<lambda>r. k (r = XFSBL_SUCCESS))"

definition set_reply :: "u8 list \<Rightarrow> unit prog" where
  "set_reply bs = modM (\<lambda>s. s\<lparr>UsbReply := bs @ drop (length bs) (UsbReply s)\<rparr>)"

definition reply_with :: "u8 list \<Rightarrow> u32 prog" where
  "reply_with bs = seqM (set_reply bs) (retM (of_nat (length bs)))"

text \<open>
  The rows of \<open>StringList\<close> have \<open>STRING_DESCRIPTORS_NUM\<close> entries; the test of the index admits the
  entries of both, so that in the second row it may leave the array.
\<close>

definition string_descriptor :: "string \<Rightarrow> u8 list" where
  "string_descriptor str = [of_nat (length str * 2 + 2), 3] @ concat (map (\<lambda>c. le16 (of_char c)) str)"

definition XFsbl_Ch9SetupStrDescReply :: "world \<Rightarrow> u32 \<Rightarrow> u8 \<Rightarrow> u32 prog" where
  "XFsbl_Ch9SetupStrDescReply W BufferLen Index =
     (if ucast Index \<ge> USB_MODES_NUM * STRING_DESCRIPTORS_NUM then retM 0
      else super_speed W (\<lambda>ss.
        let i = (if ss then unat STRING_DESCRIPTORS_NUM else 0) + unat Index
        in if i \<ge> length StringList then haltM OutOfBounds
           else let desc = (if Index = 0 then [4, 3] @ le16 0x0409 else string_descriptor (StringList ! i))
                in if of_nat (length desc) > BufferLen then retM 0 else reply_with desc))"

definition XFsbl_Ch9SetupDevDescReply :: "world \<Rightarrow> u32 \<Rightarrow> u32 prog" where
  "XFsbl_Ch9SetupDevDescReply W BufferLen =
     (if BufferLen < of_nat (length (DDesc False)) then retM 0 else super_speed W (\<lambda>ss. reply_with (DDesc ss)))"

definition XFsbl_Ch9SetupCfgDescReply :: "world \<Rightarrow> u32 \<Rightarrow> u32 prog" where
  "XFsbl_Ch9SetupCfgDescReply W BufferLen =
     (if BufferLen < of_nat (length (std_cfg 0)) then retM 0 else super_speed W (\<lambda>ss. reply_with (if ss then Config3 else Config2)))"

definition XFsbl_Ch9SetupBosDescReply :: "u32 \<Rightarrow> u32 prog" where
  "XFsbl_Ch9SetupBosDescReply BufferLen = (if BufferLen < of_nat (length (std_bos 0)) then retM 0 else reply_with BosDesc)"

section \<open>The firmware download\<close>

text \<open>The flag is set and then waited for to be set.\<close>

definition XFsbl_DfuWaitForReset :: "unit prog" where
  "XFsbl_DfuWaitForReset =
     seqM (set_dfu (\<lambda>d. d\<lparr>DfuWaitForInterrupt := 1\<rparr>))
       (iterM (\<lambda>_. bindM (getM (\<lambda>s. DfuWaitForInterrupt (DfuObj s))) (\<lambda>v. retM (if v = 0 then Inr () else Inl ()))) ())"

definition dfu_stall :: "world \<Rightarrow> unit prog" where
  "dfu_stall W = seqM (set_dfu (\<lambda>d. d\<lparr>CurrState := ucast STATE_DFU_ERROR\<rparr>)) (callM W (Usb (EpSetStall 0 1)))"

definition dfu_enter_idle :: "unit prog" where
  "dfu_enter_idle = set_dfu (\<lambda>d. d\<lparr>CurrState := ucast STATE_DFU_IDLE, NextState := ucast STATE_DFU_DOWNLOAD_SYNC\<rparr>)"

definition XFsbl_DfuSetState :: "world \<Rightarrow> u32 \<Rightarrow> unit prog" where
  "XFsbl_DfuSetState W DfuState =
     (if DfuState = STATE_APP_IDLE then
        set_dfu (\<lambda>d. d\<lparr>CurrState := ucast STATE_APP_IDLE, NextState := ucast STATE_APP_DETACH,
          CurrStatus := ucast DFU_STATUS_OK, RuntimeToDfu := 0\<rparr>)
      else if DfuState = STATE_APP_DETACH then
        bindM (getM (\<lambda>s. CurrState (DfuObj s))) (\<lambda>c.
          if ucast c = STATE_APP_IDLE then seqsM
            [set_dfu (\<lambda>d. d\<lparr>CurrState := ucast STATE_APP_DETACH, NextState := ucast STATE_DFU_IDLE\<rparr>),
             XFsbl_DfuWaitForReset,
             set_dfu (\<lambda>d. d\<lparr>RuntimeToDfu := 1\<rparr>),
             dfu_enter_idle]
          else if ucast c = STATE_DFU_IDLE then seqsM
            [XFsbl_DfuWaitForReset,
             set_dfu (\<lambda>d. d\<lparr>CurrState := ucast STATE_APP_IDLE, NextState := ucast STATE_APP_DETACH, CurrStatus := ucast DFU_STATUS_OK\<rparr>)]
          else dfu_stall W)
      else if DfuState = STATE_DFU_IDLE then dfu_enter_idle
      else if DfuState = STATE_DFU_DOWNLOAD_SYNC then set_dfu (\<lambda>d. d\<lparr>CurrState := ucast STATE_DFU_DOWNLOAD_SYNC\<rparr>)
      else dfu_stall W)"

definition XFsbl_DfuReset :: "unit prog" where
  "XFsbl_DfuReset =
     bindM (getM (\<lambda>s. DfuWaitForInterrupt (DfuObj s))) (\<lambda>v. whenM (v = 1) (set_dfu (\<lambda>d. d\<lparr>DfuWaitForInterrupt := 0\<rparr>)))"

definition XFsbl_DfuSetIntf :: "world \<Rightarrow> SetupPacket \<Rightarrow> unit prog" where
  "XFsbl_DfuSetIntf W SetupData =
     seqM (set_dfu (\<lambda>d. d\<lparr>CurrentInf := ucast (wValue SetupData)\<rparr>))
       (bindM (getM DfuObj) (\<lambda>d.
          if CurrentInf d \<ge> DFU_ALT_SETTING \<or> RuntimeToDfu d = 1
          then seqM (whenM (RuntimeToDfu d = 1) (set_dfu (\<lambda>d. d\<lparr>RuntimeToDfu := 0\<rparr>))) (XFsbl_DfuSetState W STATE_DFU_IDLE)
          else XFsbl_DfuSetState W STATE_APP_IDLE))"

text \<open>
  One block of the image.  A transfer is repeated until the driver accepts it; where its bytes go is not
  compared with the end of the memory.
\<close>

definition dfu_download :: "world \<Rightarrow> SetupPacket \<Rightarrow> unit prog" where
  "dfu_download W SetupData =
     seqM (whenM (wValue SetupData = 0) (set_dfu (\<lambda>d. d\<lparr>TotalBytesDnloaded := 0\<rparr>)))
       (let RxBytesLeft = ucast (wLength SetupData) :: u32
        in if RxBytesLeft > 0
           then seqsM
             [iterM (\<lambda>_. bindM (getM (\<lambda>s. TotalBytesDnloaded (DfuObj s))) (\<lambda>n.
                 bindM (extM W (Usb (EpBufferRecv (DfuVirtFlash + zx n) RxBytesLeft))) (\<lambda>Result.
                   retM (if Result \<noteq> XFSBL_SUCCESS then Inr () else Inl ())))) (),
              set_dfu (\<lambda>d. d\<lparr>TotalBytesDnloaded := TotalBytesDnloaded d + RxBytesLeft,
                CurrState := ucast STATE_DFU_DOWNLOAD_IDLE, GotDnloadRqst := 0\<rparr>)]
           else set_dfu (\<lambda>d. d\<lparr>CurrState := ucast STATE_DFU_IDLE, GotDnloadRqst := 0\<rparr>))"

text \<open>The reply has six bytes; the host says how many of them it wants.\<close>

definition dfu_get_status :: "world \<Rightarrow> SetupPacket \<Rightarrow> unit prog" where
  "dfu_get_status W SetupData =
     seqsM
      [bindM (getM (\<lambda>s. CurrState (DfuObj s))) (\<lambda>c.
         if ucast c = STATE_DFU_IDLE then
           seqM (set_dfu (\<lambda>d. d\<lparr>CurrState := ucast STATE_DFU_DOWNLOAD_SYNC\<rparr>)) (modM (\<lambda>s. s\<lparr>DownloadDone := DownloadDone s + 1\<rparr>))
         else whenM (ucast c = STATE_DFU_DOWNLOAD_SYNC) (set_dfu (\<lambda>d. d\<lparr>CurrState := ucast STATE_DFU_DOWNLOAD_BUSY\<rparr>))),
       modM (\<lambda>s. s\<lparr>DfuReply := (DfuReply s)[0 := CurrStatus (DfuObj s), 4 := CurrState (DfuObj s)]\<rparr>),
       iterM (\<lambda>_. bindM (getM DfuReply) (\<lambda>bs.
          if unat (wLength SetupData) > length bs then haltM OutOfBounds
          else bindM (extM W (Usb (EpBufferSend (take (unat (wLength SetupData)) bs)))) (\<lambda>Result.
            retM (if Result \<noteq> XFSBL_SUCCESS then Inr () else Inl ())))) ()]"

definition XFsbl_DfuClassReq :: "world \<Rightarrow> SetupPacket \<Rightarrow> unit prog" where
  "XFsbl_DfuClassReq W SetupData =
     (if ucast (bRequest SetupData) = DFU_DETACH then XFsbl_DfuSetState W STATE_APP_DETACH
      else if ucast (bRequest SetupData) = DFU_DNLOAD then dfu_download W SetupData
      else if ucast (bRequest SetupData) = DFU_GETSTATUS then dfu_get_status W SetupData
      else dfu_stall W)"

section \<open>The requests of the host\<close>

definition XFsbl_SetConfiguration :: "world \<Rightarrow> SetupPacket \<Rightarrow> u32 prog" where
  "XFsbl_SetConfiguration W Ctrl =
     seqM (callM W (Usb (SetIsConfigDone 0)))
       (bindM (getM (\<lambda>s. usb_app_state W (trace s))) (\<lambda>state. case state of
          UsbAddress \<Rightarrow> seqM (callM W (Usb (SetAppState UsbConfigured))) (retM XFSBL_SUCCESS)
        | UsbConfigured \<Rightarrow> retM XFSBL_SUCCESS
        | _ \<Rightarrow> retM (XST_FAILURE W)))"

text \<open>Sends the first \<open>n\<close> bytes of \<open>Reply\<close>.\<close>

definition send_reply :: "world \<Rightarrow> nat \<Rightarrow> u32 prog" where
  "send_reply W n =
     bindM (getM UsbReply) (\<lambda>bs. if n > length bs then haltM OutOfBounds else extM W (Usb (EpBufferSend (take n bs))))"

definition send_descriptor :: "world \<Rightarrow> SetupPacket \<Rightarrow> u32 prog \<Rightarrow> (u32 \<Rightarrow> unit prog) \<Rightarrow> u32 prog" where
  "send_descriptor W SetupData reply patch =
     bindM reply (\<lambda>ReplyLen.
       let ReplyLen = (if ReplyLen > ucast (wLength SetupData) then ucast (wLength SetupData) else ReplyLen)
       in seqM (patch ReplyLen) (send_reply W (unat ReplyLen)))"

definition request_status :: "world \<Rightarrow> SetupPacket \<Rightarrow> u8 \<Rightarrow> u8 \<Rightarrow> u32 prog" where
  "request_status W SetupData EpNum Direction =
     (let target = ucast (bRequestType SetupData) AND XFSBL_STATUS_MASK
      in seqM (if target = XFSBL_STATUS_DEVICE then set_reply (le16 0x0100)
               else if target = XFSBL_STATUS_ENDPOINT
               then bindM (extM W (Usb (IsEpStalled EpNum Direction))) (\<lambda>r. set_reply (le16 (ucast r)))
               else retM ())
          (send_reply W (unat (wLength SetupData))))"

definition request_descriptor :: "world \<Rightarrow> SetupPacket \<Rightarrow> u32 prog" where
  "request_descriptor W SetupData =
     (let type = ucast (drop_bit 8 (wValue SetupData) AND 0xFF) :: u32
      in if type = XFSBL_TYPE_DEVICE_DESC \<or> type = XFSBL_TYPE_DEVICE_QUALIFIER then
           send_descriptor W SetupData (XFsbl_Ch9SetupDevDescReply W XFSBL_REQ_REPLY_LEN)
             (\<lambda>ReplyLen. whenM (type = XFSBL_TYPE_DEVICE_QUALIFIER) (set_reply [ucast ReplyLen, 6, 0, 2, 0xFF, 0, 0, 0x10, 0, 0]))
         else if type = XFSBL_TYPE_CONFIG_DESC then
           send_descriptor W SetupData (XFsbl_Ch9SetupCfgDescReply W XFSBL_REQ_REPLY_LEN) (\<lambda>_. retM ())
         else if type = XFSBL_TYPE_STRING_DESC then
           send_descriptor W SetupData (XFsbl_Ch9SetupStrDescReply W STRING_SIZE (ucast (wValue SetupData AND 0xFF))) (\<lambda>_. retM ())
         else if type = XFSBL_TYPE_BOS_DESC then
           send_descriptor W SetupData (XFsbl_Ch9SetupBosDescReply XFSBL_REQ_REPLY_LEN) (\<lambda>_. retM ())
         else retM (XST_FAILURE W))"

definition XFsbl_StdDevReq :: "world \<Rightarrow> SetupPacket \<Rightarrow> unit prog" where
  "XFsbl_StdDevReq W SetupData =
     (let EpNum = ucast (wIndex SetupData AND ucast XFSBL_USB_ENDPOINT_NUMBER_MASK) :: u8;
          Direction = (if wIndex SetupData AND ucast XFSBL_USB_ENDPOINT_DIR_MASK \<noteq> 0 then 1 else 0) :: u8;
          target = ucast (bRequestType SetupData) AND XFSBL_STATUS_MASK;
          request = ucast (bRequest SetupData) :: u32
      in bindM
          (if ucast (wLength SetupData) > XFSBL_REQ_REPLY_LEN then retM XFSBL_SUCCESS
           else if request = XFSBL_REQ_GET_STATUS then request_status W SetupData EpNum Direction
           else if request = XFSBL_REQ_SET_ADDRESS then extM W (Usb (SetDeviceAddress (wValue SetupData)))
           else if request = XFSBL_REQ_GET_DESCRIPTOR then request_descriptor W SetupData
           else if request = XFSBL_REQ_SET_CONFIGURATION then
             (if wValue SetupData AND 0xFF \<noteq> 1 then retM (XST_FAILURE W) else XFsbl_SetConfiguration W SetupData)
           else if request = XFSBL_REQ_GET_CONFIGURATION then retM XFSBL_SUCCESS
           else if request = XFSBL_REQ_SET_FEATURE then
             (if target = XFSBL_STATUS_ENDPOINT
              then seqM (whenM (ucast (wValue SetupData) = XFSBL_ENDPOINT_HALT) (callM W (Usb (EpSetStall EpNum Direction)))) (retM XFSBL_SUCCESS)
              else if target = XFSBL_STATUS_DEVICE then retM XFSBL_SUCCESS
              else retM (XST_FAILURE W))
           else if request = XFSBL_REQ_SET_INTERFACE then seqM (XFsbl_DfuSetIntf W SetupData) (retM XFSBL_SUCCESS)
           else if request = XFSBL_REQ_SET_SEL then extM W (Usb (EpBufferRecvTmp DFU_STATUS_SIZE))
           else retM (XST_FAILURE W))
          (\<lambda>SStatus. whenM (SStatus = XST_FAILURE W) (callM W (Usb (EpSetStall 0 0)))))"

definition XFsbl_Ch9Handler :: "world \<Rightarrow> SetupPacket \<Rightarrow> unit prog" where
  "XFsbl_Ch9Handler W SetupData =
     (let kind = ucast (bRequestType SetupData) AND XFSBL_REQ_TYPE_MASK
      in if kind = XFSBL_CMD_STDREQ then XFsbl_StdDevReq W SetupData
         else if kind = XFSBL_CMD_CLASSREQ then XFsbl_DfuClassReq W SetupData
         else callM W (Usb (EpSetStall 0 0)))"

section \<open>USB as a boot device\<close>

text \<open>The interrupt handler of the driver calls back once for each event.\<close>

definition handle_event :: "world \<Rightarrow> usb_event \<Rightarrow> unit prog" where
  "handle_event W e = (case e of UsbReset \<Rightarrow> XFsbl_DfuReset | UsbSetup p \<Rightarrow> XFsbl_Ch9Handler W p)"

definition XUsbPsu_IntrHandler :: "world \<Rightarrow> unit prog" where
  "XUsbPsu_IntrHandler W =
     bindM (getM (\<lambda>s. usb_events W (trace s))) (\<lambda>es. seqM (callM W (Usb UsbIntrHandler)) (seqsM (map (handle_event W) es)))"

definition XFsbl_CheckTempDfuMemory :: "world \<Rightarrow> u32 \<Rightarrow> u32" where
  "XFsbl_CheckTempDfuMemory W Offset = (if DfuVirtFlash + zx Offset \<le> cfg_ddr_end W then XFSBL_SUCCESS else XFSBL_FAILURE)"

definition UsbInit_turn :: "world \<Rightarrow> (unit + unit) prog" where
  "UsbInit_turn W =
     bindM (getM DownloadDone) (\<lambda>n. bindM (getM (\<lambda>s. CurrStatus (DfuObj s))) (\<lambda>c.
       if n < XFSBL_DOWNLOAD_COMPLETE \<and> ucast c \<noteq> STATE_DFU_ERROR
       then seqM (XUsbPsu_IntrHandler W) (retM (Inr ())) else retM (Inl ())))"

definition dfu_zero :: XFsblPs_DfuIf where
  "dfu_zero = \<lparr>CurrState = 0, NextState = 0, CurrStatus = 0, GotReset = 0, CurrentInf = 0, GotDnloadRqst = 0,
     TotalBytesDnloaded = 0, DfuWaitForInterrupt = 0, RuntimeToDfu = 0\<rparr>"

definition XFsbl_UsbInit :: "world \<Rightarrow> u32 \<Rightarrow> u32 prog" where
  "XFsbl_UsbInit W DeviceFlags =
     (if XFsbl_CheckTempDfuMemory W 0 = XFSBL_FAILURE then retM XFSBL_FAILURE
      else seqM (seqsM [callM W (Usb UsbClear), set_dfu (\<lambda>_. dfu_zero)])
       (bindM (extM W (Usb UsbLookupConfig)) (\<lambda>UsbConfigPtr.
          if UsbConfigPtr = 0 then retM XFSBL_FAILURE
          else tryM_as XFSBL_FAILURE (extM W (Usb UsbCfgInitialize))
           (seqM (seqsM [callM W (Usb UsbSetSpeed), callM W (Usb UsbEnableIntr)])
            (tryM_as XFSBL_FAILURE (extM W (Usb UsbStart))
              (seqM (iterM (\<lambda>_. UsbInit_turn W) ())
                (bindM (getM DownloadDone) (\<lambda>n.
                   seqM (callM W (Usb UsbStop))
                     (retM (if n = XFSBL_DOWNLOAD_COMPLETE then XFSBL_SUCCESS else XFSBL_FAILURE))))))))))"

text \<open>The lengths of the two transfers count words.\<close>

definition XFsbl_UsbCopy :: "world \<Rightarrow> u32 \<Rightarrow> u64 \<Rightarrow> u32 \<Rightarrow> u32 prog" where
  "XFsbl_UsbCopy W SrcAddress DestAddress Length =
     (if XFsbl_CheckTempDfuMemory W (SrcAddress + Length) = XFSBL_FAILURE then retM XFSBL_FAILURE
      else bindM (XFsbl_In32 W CSU_CSU_SSS_CFG) (\<lambda>r.
        seqM (seqsM
          [XFsbl_Out32 CSU_CSU_SSS_CFG ((r AND XFSBL_CSU_SSS_DMA_MASK) OR XFSBL_CSU_SSS_SRC_DEST_DMA),
           callM W (Usb (UsbDmaDst DestAddress (Length div 4))),
           callM W (Usb (UsbDmaSrc (DfuVirtFlash + zx SrcAddress) (Length div 4))),
           callM W (Dma CsuDmaWaitForDone), callM W (Dma CsuDmaIntrClear), callM W (Dma CsuDmaIntrClear)])
         (retM XFSBL_SUCCESS)))"

definition XFsbl_UsbRelease :: "u32 prog" where
  "XFsbl_UsbRelease = retM XFSBL_SUCCESS"

end
