(* ===== verification/Fsbl_Dfu.thy ===== *)
theory Fsbl_Dfu
  imports Fsbl_Usb
begin

text \<open>
  What a host and the loader do together.  A host that follows the DFU protocol gets its image into memory
  (\<open>usb_download\<close>), with the limits that the code does not check: the width of a block number and the end of
  the memory.  For a host that sends anything, \<open>dfu_inv\<close> holds at each event, which gives exactly the requests
  that leave a static array and the states that a download can be in; the copy from the buffer and the
  descriptors follow.
\<close>

section \<open>What the host sends and what arrives\<close>

text \<open>The transfers that the driver accepted: where each goes and how many bytes it has.\<close>

definition recv_of :: "io \<Rightarrow> (u64 \<times> u32) list" where
  "recv_of e = (case e of Ext c v \<Rightarrow> (case c of Usb u \<Rightarrow>
     (case u of EpBufferRecv a n \<Rightarrow> if v = XFSBL_SUCCESS then [(a, n)] else [] | _ \<Rightarrow> []) | _ \<Rightarrow> []) | _ \<Rightarrow> [])"

primrec received :: "io list \<Rightarrow> (u64 \<times> u32) list" where
  "received [] = []"
| "received (e # h) = received h @ recv_of e"

lemma recv_of_simps [simp]:
  "recv_of (Ext (Usb UsbClear) v) = []" "recv_of (Ext (Usb UsbLookupConfig) v) = []" "recv_of (Ext (Usb UsbCfgInitialize) v) = []" "recv_of (Ext (Usb UsbSetSpeed) v) = []"
  "recv_of (Ext (Usb UsbEnableIntr) v) = []" "recv_of (Ext (Usb UsbStart) v) = []" "recv_of (Ext (Usb UsbStop) v) = []"
  "recv_of (Ext (Usb (EpBufferRecv a n)) v) = (if v = XFSBL_SUCCESS then [(a, n)] else [])"
  "recv_of (Ext (Usb (EpBufferSend bs)) v) = []"
  "recv_of (Ext (Usb (EpSetStall ep dir)) v) = []" "recv_of (Ext (Usb UsbIntrHandler) v) = []"
  by (simp_all add: recv_of_def)

text \<open>The calls of the interrupt handler.\<close>

definition is_call :: "io \<Rightarrow> bool" where
  "is_call e \<longleftrightarrow> (\<exists>v. e = Ext (Usb UsbIntrHandler) v)"

definition handler_calls :: "io list \<Rightarrow> nat" where
  "handler_calls h = length (filter is_call h)"

lemma handler_calls_simps [simp]:
  "handler_calls (Ext (Usb UsbClear) v # h) = handler_calls h"
  "handler_calls (Ext (Usb UsbLookupConfig) v # h) = handler_calls h"
  "handler_calls (Ext (Usb UsbCfgInitialize) v # h) = handler_calls h"
  "handler_calls (Ext (Usb UsbSetSpeed) v # h) = handler_calls h"
  "handler_calls (Ext (Usb UsbEnableIntr) v # h) = handler_calls h"
  "handler_calls (Ext (Usb UsbStart) v # h) = handler_calls h"
  "handler_calls (Ext (Usb UsbStop) v # h) = handler_calls h"
  "handler_calls [] = 0" "handler_calls (Ext (Usb UsbIntrHandler) v # h) = Suc (handler_calls h)"
  "handler_calls (Ext (Usb (EpBufferRecv a n)) v # h) = handler_calls h" "handler_calls (Ext (Usb (EpBufferSend bs)) v # h) = handler_calls h"
  "handler_calls (Ext (Usb (EpSetStall ep dir)) v # h) = handler_calls h"
  by (simp_all add: handler_calls_def is_call_def)

definition set_interface :: "u16 \<Rightarrow> usb_event" where
  "set_interface alt = UsbSetup \<lparr>bRequestType = 1, bRequest = ucast XFSBL_REQ_SET_INTERFACE, wValue = alt, wIndex = 0, wLength = 0\<rparr>"

definition dnload :: "u16 \<Rightarrow> u16 \<Rightarrow> usb_event" where
  "dnload block len = UsbSetup \<lparr>bRequestType = 0x21, bRequest = ucast DFU_DNLOAD, wValue = block, wIndex = 0, wLength = len\<rparr>"

definition getstatus :: "u16 \<Rightarrow> usb_event" where
  "getstatus len = UsbSetup \<lparr>bRequestType = 0xA1, bRequest = ucast DFU_GETSTATUS, wValue = 0, wIndex = 0, wLength = len\<rparr>"

text \<open>A driver that accepts every transfer.\<close>

definition accepting :: "world \<Rightarrow> bool" where
  "accepting W \<longleftrightarrow> (\<forall>h a n. ext_ret W h (Usb (EpBufferRecv a n)) = XFSBL_SUCCESS) \<and> (\<forall>h bs. ext_ret W h (Usb (EpBufferSend bs)) = XFSBL_SUCCESS)"

definition dfu_at :: "u32 \<Rightarrow> u32 \<Rightarrow> u32 \<Rightarrow> (u64 \<times> u32) list \<Rightarrow> fsbl \<Rightarrow> bool" where
  "dfu_at c k n rs s \<longleftrightarrow> CurrState (DfuObj s) = ucast c \<and> DownloadDone s = k \<and> TotalBytesDnloaded (DfuObj s) = n \<and>
     received (trace s) = rs \<and> length (DfuReply s) = 6 \<and> CurrStatus (DfuObj s) = 0"

lemma set_interface_ends:
  assumes "dfu_at c k n rs s"
  shows "ends (handle_event W (set_interface 1)) (\<lambda>_ t. dfu_at STATE_DFU_IDLE k n rs t \<and> handler_calls (trace t) = handler_calls (trace s)) s"
  using assms
  by (auto simp: handle_event_def set_interface_def XFsbl_Ch9Handler_def XFsbl_StdDevReq_def XFsbl_DfuSetIntf_def XFsbl_DfuSetState_def
      dfu_enter_idle_def set_dfu_def ends_eq Let_def hw dfu_at_def)

lemma getstatus_ends:
  assumes "dfu_at c k n rs s" and "accepting W" and "c \<in> {STATE_DFU_IDLE, STATE_DFU_DOWNLOAD_SYNC, STATE_DFU_DOWNLOAD_BUSY, STATE_DFU_DOWNLOAD_IDLE}"
  shows "ends (handle_event W (getstatus 6)) (\<lambda>_ t. dfu_at (if c = STATE_DFU_IDLE then STATE_DFU_DOWNLOAD_SYNC
      else if c = STATE_DFU_DOWNLOAD_SYNC then STATE_DFU_DOWNLOAD_BUSY else c) (if c = STATE_DFU_IDLE then k + 1 else k) n rs t \<and>
      handler_calls (trace t) = handler_calls (trace s)) s"
  using assms
  by (auto simp: handle_event_def getstatus_def XFsbl_Ch9Handler_def XFsbl_DfuClassReq_def dfu_get_status_def set_dfu_def ends_eq Let_def hw
      dfu_at_def accepting_def intro!: ends_iter)

lemma unat_u16: "unat (ucast (len :: u16) :: u32) = unat len"
proof -
  have "unat len < 2 ^ 16" using unsigned_less [of len, where 'a = nat] by simp
  then show ?thesis by (simp add: unsigned_ucast_eq take_bit_eq_mod)
qed

lemma dnload_ends:
  assumes "dfu_at c k n rs s" and "accepting W" and "len \<noteq> 0"
  shows "ends (handle_event W (dnload b len)) (\<lambda>_ t. dfu_at STATE_DFU_DOWNLOAD_IDLE k ((if b = 0 then 0 else n) + ucast len)
      (rs @ [(DfuVirtFlash + zx (if b = 0 then 0 else n), ucast len)]) t \<and>
      handler_calls (trace t) = handler_calls (trace s)) s"
proof -
  have "0 < (ucast len :: u32)" using assms(3) by (simp add: word_less_nat_alt unat_u16 unat_gt_0)
  then show ?thesis
    using assms
    by (auto simp: handle_event_def dnload_def XFsbl_Ch9Handler_def XFsbl_DfuClassReq_def dfu_download_def set_dfu_def ends_eq Let_def hw
        dfu_at_def accepting_def intro!: ends_iter)
qed

lemma dnload_end_ends:
  assumes "dfu_at c k n rs s"
  shows "ends (handle_event W (dnload b 0)) (\<lambda>_ t. dfu_at STATE_DFU_IDLE k (if b = 0 then 0 else n) rs t \<and>
      handler_calls (trace t) = handler_calls (trace s)) s"
  using assms
  by (auto simp: handle_event_def dnload_def XFsbl_Ch9Handler_def XFsbl_DfuClassReq_def dfu_download_def set_dfu_def ends_eq Let_def hw dfu_at_def)

text \<open>The blocks of an image: each is sent and its status asked for.  Block numbers have 16 bits.\<close>

primrec image_events :: "nat \<Rightarrow> u16 list \<Rightarrow> usb_event list" where
  "image_events i [] = []"
| "image_events i (l # ls) = dnload (of_nat i) l # getstatus 6 # image_events (Suc i) ls"

text \<open>Where the loader puts them: block 0 starts at the beginning, every other one behind its predecessor.\<close>

primrec placed :: "nat \<Rightarrow> u32 \<Rightarrow> u16 list \<Rightarrow> (u64 \<times> u32) list" where
  "placed i n [] = []"
| "placed i n (l # ls) = (let n' = if (of_nat i :: u16) = 0 then 0 else n
     in (DfuVirtFlash + zx n', ucast l) # placed (Suc i) (n' + ucast l) ls)"

definition dfu_session :: "u16 list \<Rightarrow> usb_event list" where
  "dfu_session ls = [set_interface 1, getstatus 6] @ image_events 0 ls @ [dnload (of_nat (length ls)) 0, getstatus 6]"

lemma dfu_codes: "STATE_DFU_IDLE \<noteq> STATE_DFU_DOWNLOAD_SYNC" "STATE_DFU_DOWNLOAD_IDLE \<noteq> STATE_DFU_DOWNLOAD_SYNC"
  "STATE_DFU_DOWNLOAD_IDLE \<noteq> STATE_DFU_IDLE"
  by (simp_all add: hw)

text \<open>The events are handled one at a time, each in its own call of the interrupt handler, and the loader waits on.\<close>

primrec turns :: "world \<Rightarrow> usb_event list \<Rightarrow> (fsbl \<Rightarrow> bool) \<Rightarrow> fsbl \<Rightarrow> bool" where
  "turns W [] Q s = Q s"
| "turns W (e # es) Q s = (DownloadDone s < XFSBL_DOWNLOAD_COMPLETE \<and> CurrStatus (DfuObj s) = 0 \<and>
     (\<forall>v. ends (handle_event W e) (\<lambda>_ t. handler_calls (trace t) = Suc (handler_calls (trace s)) \<and> turns W es Q t)
        (s\<lparr>trace := Ext (Usb UsbIntrHandler) v # trace s\<rparr>)))"

lemma turns_step:
  assumes "dfu_at c k n rs s" and "k < XFSBL_DOWNLOAD_COMPLETE"
    and "\<And>u. dfu_at c k n rs u \<Longrightarrow> ends (handle_event W e) (\<lambda>_ t. P t \<and> handler_calls (trace t) = handler_calls (trace u)) u"
    and "\<And>t. P t \<Longrightarrow> turns W es Q t"
  shows "turns W (e # es) Q s"
proof -
  have "dfu_at c k n rs (s\<lparr>trace := Ext (Usb UsbIntrHandler) v # trace s\<rparr>)" for v
    using assms(1) by (simp add: dfu_at_def)
  then have "ends (handle_event W e) (\<lambda>_ t. handler_calls (trace t) = Suc (handler_calls (trace s)) \<and> turns W es Q t)
      (s\<lparr>trace := Ext (Usb UsbIntrHandler) v # trace s\<rparr>)" for v
    by (rule ends_mono [OF assms(3)]) (use assms(4) in simp)
  then show ?thesis using assms(1,2) by (simp add: dfu_at_def)
qed

lemma image_events_turns:
  assumes "accepting W" and "\<forall>l\<in>set ls. l \<noteq> 0" and "k < XFSBL_DOWNLOAD_COMPLETE"
    and "\<And>c' n' t. dfu_at c' k n' (rs @ placed i n ls) t \<Longrightarrow> turns W es Q t"
  shows "dfu_at c k n rs s \<Longrightarrow> turns W (image_events i ls @ es) Q s"
  using assms(2,4)
proof (induction ls arbitrary: i c n rs s)
  case Nil
  then show ?case by simp
next
  case (Cons l ls)
  let ?n = "if (of_nat i :: u16) = 0 then 0 else n"
  have rest: "turns W (image_events (Suc i) ls @ es) Q t"
    if "dfu_at STATE_DFU_DOWNLOAD_IDLE k (?n + ucast l) (rs @ [(DfuVirtFlash + zx ?n, ucast l)]) t" for t
    by (rule Cons.IH [OF that]) (use Cons.prems(2,3) in \<open>auto simp: Let_def split del: if_split\<close>)
  have status: "turns W (getstatus 6 # image_events (Suc i) ls @ es) Q t"
    if "dfu_at STATE_DFU_DOWNLOAD_IDLE k (?n + ucast l) (rs @ [(DfuVirtFlash + zx ?n, ucast l)]) t" for t
    by (rule turns_step [OF that assms(3) getstatus_ends [OF _ assms(1)] rest]) (use dfu_codes in auto)
  have "l \<noteq> 0" using Cons.prems(2) by simp
  then show ?case
    unfolding image_events.simps append_Cons
    by (intro turns_step [OF Cons.prems(1) assms(3) dnload_ends [OF _ assms(1)] status])
qed

lemma dfu_session_turns:
  assumes "accepting W" and "\<forall>l\<in>set ls. l \<noteq> 0" and "length (DfuReply s) = 6" and "DownloadDone s = 0" and "CurrStatus (DfuObj s) = 0"
  shows "turns W (dfu_session ls) (\<lambda>t. DownloadDone t = XFSBL_DOWNLOAD_COMPLETE \<and> received (trace t) = received (trace s) @ placed 0 0 ls) s"
proof -
  let ?n = "TotalBytesDnloaded (DfuObj s)" and ?rs = "received (trace s)"
  let ?Q = "\<lambda>t. DownloadDone t = XFSBL_DOWNLOAD_COMPLETE \<and> received (trace t) = ?rs @ placed 0 0 ls"
  have "\<exists>c. CurrState (DfuObj s) = ucast (c :: u32)"
    by (rule exI [of _ "ucast (CurrState (DfuObj s))"], rule bit_word_eqI) (auto simp: bit_simps)
  then obtain c where c: "dfu_at c 0 ?n ?rs s" using assms(3-5) by (auto simp: dfu_at_def)
  have k: "0 < XFSBL_DOWNLOAD_COMPLETE" "1 < XFSBL_DOWNLOAD_COMPLETE" "1 + 1 = XFSBL_DOWNLOAD_COMPLETE" by (simp_all add: hw)
  have two: "XFSBL_DOWNLOAD_COMPLETE = 2" by (simp add: hw)
  have status: "turns W [getstatus 6] ?Q t" if "dfu_at STATE_DFU_IDLE 1 n' (?rs @ placed 0 0 ls) t" for n' t
    by (rule turns_step [OF that k(2) getstatus_ends [OF _ assms(1)]]) (auto simp: dfu_at_def two)
  have fin: "turns W [dnload (of_nat (length ls)) 0, getstatus 6] ?Q t" if "dfu_at c' 1 n' (?rs @ placed 0 0 ls) t" for c' n' t
    by (rule turns_step [OF that k(2) dnload_end_ends status])
  have "placed 0 ?n ls = placed 0 0 ls" by (cases ls) simp_all
  then have mid: "turns W (image_events 0 ls @ [dnload (of_nat (length ls)) 0, getstatus 6]) ?Q t"
    if "dfu_at STATE_DFU_DOWNLOAD_SYNC 1 ?n ?rs t" for t
    using fin by (intro image_events_turns [OF assms(1,2) k(2) _ that]) simp
  have idle: "turns W (getstatus 6 # image_events 0 ls @ [dnload (of_nat (length ls)) 0, getstatus 6]) ?Q t"
    if "dfu_at STATE_DFU_IDLE 0 ?n ?rs t" for t
    by (rule turns_step [OF that k(1) getstatus_ends [OF _ assms(1)]]) (use mid in auto)
  show ?thesis
    unfolding dfu_session_def append_Cons append_Nil
    by (rule turns_step [OF c k(1) set_interface_ends idle])
qed

text \<open>A host that sends an event at each call.\<close>

definition hosted :: "world \<Rightarrow> usb_event list \<Rightarrow> bool" where
  "hosted W es \<longleftrightarrow> (\<forall>h. usb_events W h = (if handler_calls h < length es then [es ! handler_calls h] else []))"

lemma UsbInit_loop_ends:
  assumes "hosted W es" and "\<And>t. Q t \<Longrightarrow> \<not> DownloadDone t < XFSBL_DOWNLOAD_COMPLETE"
  shows "turns W (drop i es) Q s \<Longrightarrow> handler_calls (trace s) = i \<Longrightarrow> ends (iterM (\<lambda>_. UsbInit_turn W) ()) (\<lambda>_. Q) s"
proof (induction "length es - i" arbitrary: i s)
  case 0
  then show ?case using assms(2) [of s] by (intro ends_iter) (simp add: UsbInit_turn_def ends_eq)
next
  case (Suc d)
  then have i: "i < length es" by simp
  then have drop: "drop i es = es ! i # drop (Suc i) es" by (simp add: Cons_nth_drop_Suc)
  have event: "usb_events W (trace s) = [es ! i]" using assms(1) i Suc.prems(2) by (simp add: hosted_def)
  have err: "(0 :: u32) \<noteq> STATE_DFU_ERROR" by (simp add: hw)
  have next_turn: "ends (iterM (\<lambda>_. UsbInit_turn W) ()) (\<lambda>_. Q) t"
    if "handler_calls (trace t) = Suc (handler_calls (trace s))" "turns W (drop (Suc i) es) Q t" for t
    using Suc.hyps(1) [of "Suc i" t] Suc.hyps(2) Suc.prems(2) that by simp
  have run: "DownloadDone s < XFSBL_DOWNLOAD_COMPLETE" "CurrStatus (DfuObj s) = 0"
    "ends (handle_event W (es ! i)) (\<lambda>_ t. handler_calls (trace t) = Suc (handler_calls (trace s)) \<and> turns W (drop (Suc i) es) Q t)
       (s\<lparr>trace := Ext (Usb UsbIntrHandler) v # trace s\<rparr>)" for v
    using Suc.prems(1) unfolding drop by simp_all
  have "ends (UsbInit_turn W) (\<lambda>z t. z = Inr () \<and> handler_calls (trace t) = Suc (handler_calls (trace s)) \<and> turns W (drop (Suc i) es) Q t) s"
    using run(1,2) err
    by (auto simp: UsbInit_turn_def XUsbPsu_IntrHandler_def ends_eq event intro!: ends_mono [OF run(3)])
  then show ?case by (intro ends_iter) (auto intro: next_turn elim!: ends_mono)
qed

text \<open>Up to 65536 blocks the image is contiguous; the next block has number 0 again.\<close>

lemma placed_contiguous:
  assumes "i + length ls \<le> 2 ^ 16" and "unat n + sum_list (map unat ls) < 2 ^ 32" and "i = 0 \<longrightarrow> n = 0"
  shows "placed i n ls = map (\<lambda>j. (DfuVirtFlash + of_nat (unat n + sum_list (map unat (take j ls))), ucast (ls ! j))) [0..<length ls]"
  using assms
proof (induction ls arbitrary: i n)
  case (Cons l ls)
  have "(of_nat i :: u16) = 0 \<longleftrightarrow> i = 0"
    using Cons.prems(1) by (simp add: word_unat_eq_iff unat_of_nat)
  then have n: "(if (of_nat i :: u16) = 0 then 0 else n) = n" using Cons.prems(3) by simp
  have sum: "unat (n + ucast l) = unat n + unat l" using Cons.prems(2) by (simp add: unat_word_ariths unat_u16)
  have upt: "[0..<length (l # ls)] = 0 # map Suc [0..<length ls]" by (simp only: list.size(4) map_Suc_upt upt_conv_Cons) simp
  have zx: "zx n = of_nat (unat n)" by simp
  show ?case
    unfolding placed.simps n Let_def upt zx
    using Cons.prems sum by (simp add: Cons.IH add.assoc comp_def)
qed simp

lemma placed_nth: "j < length ls \<Longrightarrow> (of_nat (i + j) :: u16) = 0 \<Longrightarrow> placed i n ls ! j = (DfuVirtFlash, ucast (ls ! j))"
  by (induction ls arbitrary: i j n) (auto simp: Let_def nth_Cons algebra_simps split: nat.splits)

text \<open>A driver that starts, a host that downloads the blocks \<open>ls\<close>, and memory at the buffer.\<close>

definition usb_host :: "world \<Rightarrow> u16 list \<Rightarrow> fsbl \<Rightarrow> bool" where
  "usb_host W ls s \<longleftrightarrow> accepting W \<and> hosted W (dfu_session ls) \<and> DfuVirtFlash \<le> cfg_ddr_end W \<and>
     (\<forall>h. ext_ret W h (Usb UsbLookupConfig) \<noteq> 0) \<and> (\<forall>h. ext_ret W h (Usb UsbCfgInitialize) = XFSBL_SUCCESS) \<and>
     (\<forall>h. ext_ret W h (Usb UsbStart) = XFSBL_SUCCESS) \<and>
     DownloadDone s = 0 \<and> length (DfuReply s) = 6 \<and> handler_calls (trace s) = 0 \<and> (\<forall>l\<in>set ls. l \<noteq> 0)"

lemma UsbInit_places:
  assumes "usb_host W ls s"
  shows "ends (XFsbl_UsbInit W f) (\<lambda>x t. x = XFSBL_SUCCESS \<and> received (trace t) = received (trace s) @ placed 0 0 ls) s"
proof -
  note host = assms [unfolded usb_host_def, THEN conjunct1] assms [unfolded usb_host_def, THEN conjunct2, THEN conjunct1]
  have blocks: "\<forall>l\<in>set ls. l \<noteq> 0" using assms by (simp add: usb_host_def)
  have memory: "XFsbl_CheckTempDfuMemory W 0 = XFSBL_SUCCESS" "XFSBL_SUCCESS \<noteq> XFSBL_FAILURE"
    using assms by (simp_all add: XFsbl_CheckTempDfuMemory_def usb_host_def hw)
  have wait: "ends (iterM (\<lambda>_. UsbInit_turn W) ()) (\<lambda>_ t. DownloadDone t = XFSBL_DOWNLOAD_COMPLETE \<and>
      received (trace t) = received (trace s) @ placed 0 0 ls) u"
    if u: "DfuObj u = dfu_zero" "DownloadDone u = 0" "length (DfuReply u) = 6" "handler_calls (trace u) = 0"
      "received (trace u) = received (trace s)" for u
  proof (rule UsbInit_loop_ends [OF host(2), where i = 0])
    show "turns W (drop 0 (dfu_session ls)) (\<lambda>t. DownloadDone t = XFSBL_DOWNLOAD_COMPLETE \<and> received (trace t) = received (trace s) @ placed 0 0 ls) u"
      using dfu_session_turns [OF host(1) blocks u(3,2)] u(1,5) by (simp add: dfu_zero_def)
  qed (use u in simp_all)
  show ?thesis
    unfolding XFsbl_UsbInit_def
    using memory assms
    by (auto simp: usb_host_def ends_eq set_dfu_def intro!: ends_mono [OF wait])
qed

text \<open>C24: A host that sends the blocks of an image in order, up to 65536 of them, and asks for the status after each:
  the loader comes back with success and has put every block behind its predecessor in the download
  buffer.\<close>
lemma usb_download:
  assumes "usb_host W ls s" and "length ls \<le> 2 ^ 16" and "sum_list (map unat ls) < 2 ^ 32"
  shows "ends (XFsbl_UsbInit W f) (\<lambda>x t. x = XFSBL_SUCCESS \<and> received (trace t) = received (trace s) @
      map (\<lambda>j. (DfuVirtFlash + of_nat (sum_list (map unat (take j ls))), ucast (ls ! j))) [0..<length ls]) s"
  using UsbInit_places [OF assms(1)] placed_contiguous [of 0 ls 0] assms(2,3) by simp

text \<open>Block numbers have 16 bits and block 0 starts again: the 65537th block of an image overwrites the first one, and
  the download is reported as a success.\<close>
lemma usb_block_number_wraps:
  assumes "usb_host W ls s" and "2 ^ 16 < length ls"
  shows "ends (XFsbl_UsbInit W f) (\<lambda>x t. x = XFSBL_SUCCESS \<and>
      received (trace t) ! length (received (trace s)) = (DfuVirtFlash, ucast (ls ! 0)) \<and>
      received (trace t) ! (length (received (trace s)) + 2 ^ 16) = (DfuVirtFlash, ucast (ls ! (2 ^ 16)))) s"
proof (rule ends_mono [OF UsbInit_places [OF assms(1)]])
  fix x t assume t: "x = XFSBL_SUCCESS \<and> received (trace t) = received (trace s) @ placed 0 0 ls"
  have "placed 0 0 ls ! 0 = (DfuVirtFlash, ucast (ls ! 0))" using assms(2) by (intro placed_nth) auto
  moreover have "placed 0 0 ls ! (2 ^ 16) = (DfuVirtFlash, ucast (ls ! (2 ^ 16)))"
    using assms(2) by (intro placed_nth) (auto simp: word_unat_eq_iff)
  ultimately show "x = XFSBL_SUCCESS \<and> received (trace t) ! length (received (trace s)) = (DfuVirtFlash, ucast (ls ! 0)) \<and>
      received (trace t) ! (length (received (trace s)) + 2 ^ 16) = (DfuVirtFlash, ucast (ls ! (2 ^ 16)))"
    using t by (simp add: nth_append)
qed

text \<open>Only the address of the buffer is compared with the end of DDR: an image longer than the memory behind it is
  received beyond the end, and the download is reported as a success.\<close>
lemma usb_download_unbounded:
  assumes "usb_host W ls s" and "ls \<noteq> []" and "length ls \<le> 2 ^ 16" and "sum_list (map unat ls) < 2 ^ 32"
    and "unat (cfg_ddr_end W) < unat DfuVirtFlash + sum_list (map unat ls)"
  shows "ends (XFsbl_UsbInit W f) (\<lambda>x t. x = XFSBL_SUCCESS \<and>
      (\<exists>a n. (a, n) \<in> set (received (trace t)) \<and> unat (cfg_ddr_end W) < unat a + unat n)) s"
proof -
  let ?j = "length ls - 1"
  have split: "sum_list (map unat ls) = sum_list (map unat (take ?j ls)) + unat (ls ! ?j)"
  proof -
    have "ls = take ?j ls @ [ls ! ?j]" using assms(2) by (simp add: take_Suc_conv_app_nth [symmetric])
    then have "map unat ls = map unat (take ?j ls) @ [unat (ls ! ?j)]" by (metis list.simps(8,9) map_append)
    then show ?thesis by simp
  qed
  let ?a = "DfuVirtFlash + of_nat (sum_list (map unat (take ?j ls)))"
  have "unat ?a = unat DfuVirtFlash + sum_list (map unat (take ?j ls))"
    using split assms(4) by (simp add: unat_word_ariths unat_of_nat DfuVirtFlash_def hw)
  then have over: "unat (cfg_ddr_end W) < unat ?a + unat (ucast (ls ! ?j) :: u32)" using split assms(5) by (simp add: unat_u16)
  have mem: "(?a, ucast (ls ! ?j)) \<in> set (placed 0 0 ls)"
    using placed_contiguous [of 0 ls 0] assms(2-4) by (force simp: in_set_conv_nth)
  show ?thesis
    by (rule ends_mono [OF UsbInit_places [OF assms(1)]]) (use over mem in \<open>auto\<close>)
qed

definition usb_world :: "u16 list \<Rightarrow> world" where
  "usb_world ls = quiet_world\<lparr>ext_ret := (\<lambda>_ c. if c = Usb UsbLookupConfig then 1 else 0),
     usb_events := (\<lambda>h. if handler_calls h < length (dfu_session ls) then [dfu_session ls ! handler_calls h] else [])\<rparr>"

lemma usb_world_host: "(\<forall>l\<in>set ls. l \<noteq> 0) \<Longrightarrow> usb_host (usb_world ls) ls fsbl_init"
  by (simp add: usb_host_def usb_world_def quiet_world_def accepting_def hosted_def fsbl_init_def DfuVirtFlash_def hw)

lemma usb_download_witness:
  "ends (XFsbl_UsbInit (usb_world [1024, 1024, 512]) 0) (\<lambda>x t. x = XFSBL_SUCCESS \<and>
     received (trace t) = [(0x4000000, 1024), (0x4000400, 1024), (0x4000800, 512)]) fsbl_init"
  by (rule ends_mono [OF usb_download [OF usb_world_host]]) (auto simp: upt_rec DfuVirtFlash_def fsbl_init_def hw)

lemma usb_block_number_wraps_witness:
  "ends (XFsbl_UsbInit (usb_world (replicate 65537 1024)) 0) (\<lambda>x t. x = XFSBL_SUCCESS \<and>
     received (trace t) ! 65536 = (0x4000000, 1024)) fsbl_init"
  by (rule ends_mono [OF usb_block_number_wraps [OF usb_world_host]]) (auto simp: DfuVirtFlash_def fsbl_init_def hw)

lemma usb_download_unbounded_witness:
  "ends (XFsbl_UsbInit (usb_world (replicate 32768 65535)) 0) (\<lambda>x t. x = XFSBL_SUCCESS \<and>
     (\<exists>a n. (a, n) \<in> set (received (trace t)) \<and> 0x7FFFFFFF < unat a + unat n)) fsbl_init"
  by (rule ends_mono [OF usb_download_unbounded [OF usb_world_host, where ls = "replicate 32768 65535"]])
    (auto simp: DfuVirtFlash_def sum_list_replicate usb_world_def quiet_world_def hw)

section \<open>Requests in any order\<close>

definition dfu_states :: "u8 set" where
  "dfu_states = ucast ` {STATE_APP_IDLE, STATE_DFU_IDLE, STATE_DFU_DOWNLOAD_SYNC, STATE_DFU_DOWNLOAD_BUSY, STATE_DFU_DOWNLOAD_IDLE, STATE_DFU_ERROR}"

definition dfu_inv :: "fsbl \<Rightarrow> bool" where
  "dfu_inv s \<longleftrightarrow> CurrStatus (DfuObj s) = ucast DFU_STATUS_OK \<and> CurrState (DfuObj s) \<in> dfu_states \<and>
     length (UsbReply s) = 1024 \<and> length (DfuReply s) = 6"

interpretation usb: io_closed dfu_inv
  by unfold_locales (simp add: dfu_inv_def)

lemma WaitForReset_wp [wp_eq]:
  "wp XFsbl_DfuWaitForReset Q H s = Q () (s\<lparr>DfuObj := (DfuObj s)\<lparr>DfuWaitForInterrupt := 1\<rparr>\<rparr>)"
proof -
  have "ends XFsbl_DfuWaitForReset (\<lambda>_ t. t = s\<lparr>DfuObj := (DfuObj s)\<lparr>DfuWaitForInterrupt := 1\<rparr>\<rparr>) s"
    by (auto simp: XFsbl_DfuWaitForReset_def set_dfu_def ends_eq intro!: ends_iter)
  then show ?thesis by (auto simp: ends_def wp_def)
qed

lemma keeps_dfu: "(\<And>s. dfu_inv s \<Longrightarrow> dfu_inv (s\<lparr>DfuObj := f (DfuObj s)\<rparr>)) \<Longrightarrow> keeps E dfu_inv (set_dfu f)"
  unfolding set_dfu_def by (rule keeps_mod)

lemma keeps_stall [keeps_intro]: "keeps E dfu_inv (dfu_stall W)"
  unfolding dfu_stall_def by (intro keeps_intro keeps_dfu usb.io_keeps) (auto simp: dfu_inv_def dfu_states_def)

lemma keeps_SetState [keeps_intro]: "keeps E dfu_inv (XFsbl_DfuSetState W st)"
proof -
  have "keeps E dfu_inv (seqsM [set_dfu (\<lambda>d. d\<lparr>CurrState := ucast STATE_APP_DETACH, NextState := ucast STATE_DFU_IDLE\<rparr>),
      XFsbl_DfuWaitForReset, set_dfu (\<lambda>d. d\<lparr>RuntimeToDfu := 1\<rparr>), dfu_enter_idle])"
    "keeps E dfu_inv (seqsM [XFsbl_DfuWaitForReset,
      set_dfu (\<lambda>d. d\<lparr>CurrState := ucast STATE_APP_IDLE, NextState := ucast STATE_APP_DETACH, CurrStatus := ucast DFU_STATUS_OK\<rparr>)])"
    by (auto simp: keeps_def wp_eq set_dfu_def dfu_enter_idle_def dfu_inv_def dfu_states_def)
  note leave = this
  show ?thesis
    unfolding XFsbl_DfuSetState_def
    by (intro keeps_if keeps_bind keeps_get leave keeps_stall) (auto simp: dfu_enter_idle_def dfu_inv_def dfu_states_def intro!: keeps_dfu)
qed

text \<open>Requests that make the loader read behind a static array.\<close>

definition overreads :: "world \<Rightarrow> fsbl \<Rightarrow> usb_event \<Rightarrow> bool" where
  "overreads W s e = (case e of UsbReset \<Rightarrow> False | UsbSetup p \<Rightarrow>
     (ucast (bRequestType p) AND XFSBL_REQ_TYPE_MASK = XFSBL_CMD_CLASSREQ \<and> ucast (bRequest p) = DFU_GETSTATUS \<and> 6 < unat (wLength p)) \<or>
     (ucast (bRequestType p) AND XFSBL_REQ_TYPE_MASK = XFSBL_CMD_STDREQ \<and> ucast (bRequest p) = XFSBL_REQ_GET_DESCRIPTOR \<and>
      unat (wLength p) \<le> 1024 \<and> ucast (drop_bit 8 (wValue p) AND 0xFF) = XFSBL_TYPE_STRING_DESC \<and>
      6 \<le> unat (ucast (wValue p AND 0xFF) :: u8) \<and> unat (ucast (wValue p AND 0xFF) :: u8) < 12 \<and>
      ext_ret W (trace s) (Usb IsSuperSpeed) = XFSBL_SUCCESS))"

text \<open>The requests that return.\<close>

lemma keeps_reply [keeps_intro]: "length bs \<le> 1024 \<Longrightarrow> keeps E dfu_inv (set_reply bs)"
  unfolding set_reply_def by (rule keeps_mod) (simp add: dfu_inv_def)

lemma descriptor_lengths:
  "length (DDesc ss) = 18" "length Config3 = 62" "length Config2 = 50" "length BosDesc = 22" "length (le16 w) = 2"
  "length (std_cfg c) = 9" "length (std_bos c) = 5"
  by (simp_all add: DDesc_def Config3_def Config2_def BosDesc_def descriptor_def configuration_def std_bos_def Let_def
      std_cfg_def std_if_def std_ep_def ss_companion_def dfu_func_def le16_def)

lemma string_lengths: "i < length StringList \<Longrightarrow> length (string_descriptor (StringList ! i)) \<le> 50"
proof -
  have "length (string_descriptor str) = 2 * length str + 2" for str
    by (induction str) (simp_all add: string_descriptor_def le16_def)
  moreover have "list_all (\<lambda>str. length str \<le> 24) StringList" by (simp add: StringList_def)
  ultimately show "i < length StringList \<Longrightarrow> length (string_descriptor (StringList ! i)) \<le> 50"
    by (fastforce simp: list_all_length)
qed

abbreviation never_exits :: "exit \<Rightarrow> bool" where
  "never_exits \<equiv> \<lambda>_. False"

lemma keeps_send_reply [keeps_intro]: "n \<le> 1024 \<Longrightarrow> keeps never_exits dfu_inv (send_reply W n)"
  unfolding send_reply_def by (intro keeps_get_bind keeps_if usb.io_keeps) (simp add: dfu_inv_def)

lemma keeps_reply_with [keeps_intro]: "length bs \<le> 1024 \<Longrightarrow> keeps E dfu_inv (reply_with bs)"
  unfolding reply_with_def by (intro keeps_intro)

lemma keeps_super_speed [keeps_intro]: "(\<And>ss. keeps E dfu_inv (k ss)) \<Longrightarrow> keeps E dfu_inv (super_speed W k)"
  unfolding super_speed_def by (intro keeps_intro usb.io_keeps)

lemma keeps_Ch9 [keeps_intro]:
  "keeps never_exits dfu_inv (XFsbl_Ch9SetupDevDescReply W n)" "keeps never_exits dfu_inv (XFsbl_Ch9SetupCfgDescReply W n)"
  "keeps never_exits dfu_inv (XFsbl_Ch9SetupBosDescReply n)"
  unfolding XFsbl_Ch9SetupDevDescReply_def XFsbl_Ch9SetupCfgDescReply_def XFsbl_Ch9SetupBosDescReply_def
  by (intro keeps_intro; simp add: descriptor_lengths)+

lemma keeps_send_descriptor [keeps_intro]:
  assumes "unat (wLength p) \<le> 1024" and "keeps never_exits dfu_inv reply" and "\<And>n. keeps never_exits dfu_inv (patch n)"
  shows "keeps never_exits dfu_inv (send_descriptor W p reply patch)"
proof -
  have "unat (if n > ucast (wLength p) then ucast (wLength p) else n :: u32) \<le> 1024" for n
    using assms(1) by (auto simp: word_less_nat_alt unat_u16 not_less)
  then show ?thesis
    unfolding send_descriptor_def Let_def by (intro keeps_bind keeps_seq keeps_send_reply assms(2,3))
qed

lemma keeps_request_status [keeps_intro]:
  "unat (wLength p) \<le> 1024 \<Longrightarrow> keeps never_exits dfu_inv (request_status W p ep dir)"
  unfolding request_status_def Let_def by (intro keeps_intro usb.io_keeps) (simp_all add: descriptor_lengths)

lemma keeps_SetConfiguration [keeps_intro]: "keeps never_exits dfu_inv (XFsbl_SetConfiguration W p)"
  unfolding XFsbl_SetConfiguration_def by (intro keeps_intro usb.io_keeps) (auto split: usb_state.split intro!: keeps_intro usb.io_keeps)

lemma keeps_SetIntf [keeps_intro]: "keeps never_exits dfu_inv (XFsbl_DfuSetIntf W p)"
  unfolding XFsbl_DfuSetIntf_def by (intro keeps_intro keeps_dfu) (auto simp: dfu_inv_def)

lemma keeps_download [keeps_intro]: "keeps never_exits dfu_inv (dfu_download W p)"
  unfolding dfu_download_def Let_def
  by (intro keeps_intro keeps_iter keeps_dfu usb.io_keeps) (auto simp: dfu_inv_def dfu_states_def)

lemma keeps_modM_usb:
  "keeps E dfu_inv (modM (\<lambda>s. s\<lparr>DownloadDone := DownloadDone s + 1\<rparr>))"
  "keeps E dfu_inv (modM (\<lambda>s. s\<lparr>DfuReply := (DfuReply s)[0 := CurrStatus (DfuObj s), 4 := CurrState (DfuObj s)]\<rparr>))"
  by (auto intro!: keeps_mod simp: dfu_inv_def)

lemma keeps_get_status [keeps_intro]:
  assumes "unat (wLength p) \<le> 6"
  shows "keeps never_exits dfu_inv (dfu_get_status W p)"
proof -
  have turn: "keeps never_exits dfu_inv (bindM (getM DfuReply) (\<lambda>bs. if unat (wLength p) > length bs then haltM OutOfBounds
      else bindM (extM W (Usb (EpBufferSend (take (unat (wLength p)) bs)))) (\<lambda>Result. retM (if Result \<noteq> XFSBL_SUCCESS then Inr () else Inl ()))))"
    using assms by (intro keeps_get_bind keeps_intro usb.io_keeps) (simp add: dfu_inv_def)
  show ?thesis
    unfolding dfu_get_status_def
    by (intro keeps_seqs_Cons keeps_seqs_Nil keeps_iter [OF turn] keeps_bind keeps_get keeps_if keeps_seq keeps_when keeps_modM_usb keeps_dfu)
      (auto simp: dfu_inv_def dfu_states_def)
qed

text \<open>The two requests that do not.\<close>

lemma get_status_overread:
  assumes "dfu_inv s" and "6 < unat (wLength p)"
  shows "wp (dfu_get_status W p) (\<lambda>_ _. False) (\<lambda>x _. x = OutOfBounds) s"
proof -
  have loop: "wp (iterM (\<lambda>_. bindM (getM DfuReply) (\<lambda>bs. if unat (wLength p) > length bs then haltM OutOfBounds
      else bindM (extM W (Usb (EpBufferSend (take (unat (wLength p)) bs)))) (\<lambda>Result. retM (if Result \<noteq> XFSBL_SUCCESS then Inr () else Inl ()))))
      ()) Q (\<lambda>x _. x = OutOfBounds) t" if "length (DfuReply t) = 6" for t Q
    by (rule iterM_wp [where I = "\<lambda>_ u. length (DfuReply u) = 6"]) (use that assms(2) in \<open>simp_all add: wp_eq\<close>)
  show ?thesis
    using assms(1) unfolding dfu_get_status_def by (auto simp: wp_eq set_dfu_def dfu_inv_def intro!: loop)
qed

lemma string_request:
  assumes "dfu_inv s" and "i = unat Index"
  shows "wp (XFsbl_Ch9SetupStrDescReply W STRING_SIZE Index) (\<lambda>_ t. \<not> (ext_ret W (trace s) (Usb IsSuperSpeed) = XFSBL_SUCCESS \<and> 6 \<le> i \<and> i < 12) \<and> dfu_inv t)
     (\<lambda>x _. (ext_ret W (trace s) (Usb IsSuperSpeed) = XFSBL_SUCCESS \<and> 6 \<le> i \<and> i < 12) \<and> x = OutOfBounds) s"
proof -
  let ?ss = "ext_ret W (trace s) (Usb IsSuperSpeed) = XFSBL_SUCCESS"
  have i: "unat (ucast Index :: u32) = i"
    using assms(2) unsigned_less [of Index, where 'a = nat] by (simp add: unsigned_ucast_eq take_bit_eq_mod)
  then have test: "(ucast Index :: u32) \<ge> USB_MODES_NUM * STRING_DESCRIPTORS_NUM \<longleftrightarrow> 12 \<le> i"
    by (simp add: word_le_nat_alt hw)
  have len: "length StringList = 12" by (simp add: StringList_def)
  have desc: "keeps never_exits dfu_inv (let desc = (if Index = 0 then [4, 3] @ le16 0x0409 else string_descriptor (StringList ! j))
      in if of_nat (length desc) > (n :: u32) then retM 0 else reply_with desc)" if "j < 12" for j n
    using string_lengths [of j] that len unfolding Let_def by (intro keeps_intro) (auto simp: descriptor_lengths)
  show ?thesis
  proof (cases "12 \<le> i")
    case True
    then show ?thesis using assms(1) test by (simp add: XFsbl_Ch9SetupStrDescReply_def wp_eq)
  next
    case False
    let ?j = "(if ?ss then 6 else 0) + i"
    have t: "dfu_inv (s\<lparr>trace := Ext (Usb IsSuperSpeed) v # trace s\<rparr>)" for v using assms(1) by (simp add: dfu_inv_def)
    have six: "unat STRING_DESCRIPTORS_NUM = 6" by (simp add: hw)
    show ?thesis
    proof (cases "?ss \<and> 6 \<le> i")
      case True
      then show ?thesis
        using False test assms(2) len six by (simp add: XFsbl_Ch9SetupStrDescReply_def super_speed_def wp_eq Let_def)
    next
      case inside: False
      then have j: "?j < 12" using False by auto
      have "wp (let desc = (if Index = 0 then [4, 3] @ le16 0x0409 else string_descriptor (StringList ! ?j))
          in if of_nat (length desc) > STRING_SIZE then retM 0 else reply_with desc) (\<lambda>_. dfu_inv) (\<lambda>_ _. False)
          (s\<lparr>trace := Ext (Usb IsSuperSpeed) (ext_ret W (trace s) (Usb IsSuperSpeed)) # trace s\<rparr>)"
        using desc [OF j] t by (auto simp: keeps_def elim: wp_mono)
      then have "wp (let i' = (if ?ss then 6 else 0) + unat Index in if i' \<ge> length StringList then haltM OutOfBounds
           else let desc = (if Index = 0 then [4, 3] @ le16 0x0409 else string_descriptor (StringList ! i'))
                in if of_nat (length desc) > STRING_SIZE then retM 0 else reply_with desc)
          (\<lambda>_ t. \<not> (?ss \<and> 6 \<le> i \<and> i < 12) \<and> dfu_inv t) (\<lambda>x _. (?ss \<and> 6 \<le> i \<and> i < 12) \<and> x = OutOfBounds)
          (s\<lparr>trace := Ext (Usb IsSuperSpeed) (ext_ret W (trace s) (Usb IsSuperSpeed)) # trace s\<rparr>)"
        using inside j unfolding Let_def assms(2) [symmetric] len if_not_P [OF j [unfolded not_le [symmetric]]]
        by (auto elim!: wp_mono split del: if_split)
      then show ?thesis
        using False test six unfolding XFsbl_Ch9SetupStrDescReply_def super_speed_def six by (simp add: wp_bind wp_ext split del: if_split)
    qed
  qed
qed

lemma keeps_wp: "keeps never_exits dfu_inv m \<Longrightarrow> dfu_inv s \<Longrightarrow> \<not> P \<Longrightarrow> wp m (\<lambda>_ t. \<not> P \<and> dfu_inv t) (\<lambda>x _. P \<and> x = OutOfBounds) s"
  by (auto simp: keeps_def elim: wp_mono)

lemma keeps_wp_never: "keeps never_exits dfu_inv m \<Longrightarrow> dfu_inv s \<Longrightarrow> wp m (\<lambda>_. dfu_inv) (\<lambda>_ _. False) s"
  by (auto simp: keeps_def elim: wp_mono)

lemma usb_codes:
  "XFSBL_CMD_STDREQ \<noteq> XFSBL_CMD_CLASSREQ" "XFSBL_REQ_GET_DESCRIPTOR \<noteq> XFSBL_REQ_GET_STATUS" "XFSBL_REQ_GET_DESCRIPTOR \<noteq> XFSBL_REQ_SET_ADDRESS"
  "XFSBL_TYPE_STRING_DESC \<noteq> XFSBL_TYPE_DEVICE_DESC" "XFSBL_TYPE_STRING_DESC \<noteq> XFSBL_TYPE_DEVICE_QUALIFIER" "XFSBL_TYPE_STRING_DESC \<noteq> XFSBL_TYPE_CONFIG_DESC"
  "DFU_GETSTATUS \<noteq> DFU_DETACH" "DFU_GETSTATUS \<noteq> DFU_DNLOAD"
  by (simp_all add: hw)

lemma small_request: "\<not> ucast (wLength p) > XFSBL_REQ_REPLY_LEN \<longleftrightarrow> unat (wLength p) \<le> 1024"
  by (auto simp: word_less_nat_alt unat_u16 hw)

definition string_overread :: "world \<Rightarrow> fsbl \<Rightarrow> SetupPacket \<Rightarrow> bool" where
  "string_overread W s p \<longleftrightarrow> ext_ret W (trace s) (Usb IsSuperSpeed) = XFSBL_SUCCESS \<and>
     6 \<le> unat (ucast (wValue p AND 0xFF) :: u8) \<and> unat (ucast (wValue p AND 0xFF) :: u8) < 12"

lemma request_string:
  assumes "dfu_inv s" and "unat (wLength p) \<le> 1024"
  shows "wp (send_descriptor W p (XFsbl_Ch9SetupStrDescReply W STRING_SIZE (ucast (wValue p AND 0xFF))) (\<lambda>_. retM ()))
     (\<lambda>_ t. \<not> string_overread W s p \<and> dfu_inv t) (\<lambda>x _. string_overread W s p \<and> x = OutOfBounds) s"
proof -
  have "unat (if n > ucast (wLength p) then ucast (wLength p) else n) \<le> 1024" for n :: u32
    using assms(2) by (auto simp: word_less_nat_alt unat_u16 not_less)
  note small = this
  have send: "keeps never_exits dfu_inv (let ReplyLen = (if n > ucast (wLength p) then ucast (wLength p) else n)
       in seqM (retM ()) (send_reply W (unat ReplyLen)))" for n :: u32
    unfolding Let_def by (intro keeps_seq keeps_ret keeps_send_reply small)
  show ?thesis
    unfolding send_descriptor_def wp_bind
  proof (rule wp_mono [OF string_request [where W = W and Index = "ucast (wValue p AND 0xFF)", OF assms(1) refl, folded string_overread_def]])
    fix n :: u32 and t assume "\<not> string_overread W s p \<and> dfu_inv t"
    then show "wp (let ReplyLen = (if n > ucast (wLength p) then ucast (wLength p) else n) in seqM (retM ()) (send_reply W (unat ReplyLen)))
       (\<lambda>_ t. \<not> string_overread W s p \<and> dfu_inv t) (\<lambda>x _. string_overread W s p \<and> x = OutOfBounds) t"
      by (intro keeps_wp [OF send]) simp_all
  qed simp
qed

lemma StdDevReq_bounds:
  assumes "dfu_inv s"
  shows "wp (XFsbl_StdDevReq W p)
     (\<lambda>_ t. \<not> (ucast (bRequest p) = XFSBL_REQ_GET_DESCRIPTOR \<and> unat (wLength p) \<le> 1024 \<and>
        ucast (drop_bit 8 (wValue p) AND 0xFF) = XFSBL_TYPE_STRING_DESC \<and> string_overread W s p) \<and> dfu_inv t)
     (\<lambda>x _. (ucast (bRequest p) = XFSBL_REQ_GET_DESCRIPTOR \<and> unat (wLength p) \<le> 1024 \<and>
        ucast (drop_bit 8 (wValue p) AND 0xFF) = XFSBL_TYPE_STRING_DESC \<and> string_overread W s p) \<and> x = OutOfBounds) s"
proof -
  let ?string = "ucast (bRequest p) = XFSBL_REQ_GET_DESCRIPTOR \<and> unat (wLength p) \<le> 1024 \<and> ucast (drop_bit 8 (wValue p) AND 0xFF) = XFSBL_TYPE_STRING_DESC"
  have stall: "keeps never_exits dfu_inv (whenM (x = XST_FAILURE W) (callM W (Usb (EpSetStall 0 0))))" for x
    by (intro keeps_intro usb.io_keeps)
  show ?thesis
  proof (cases ?string)
    case True
    have "wp (send_descriptor W p (XFsbl_Ch9SetupStrDescReply W STRING_SIZE (ucast (wValue p AND 0xFF))) (\<lambda>_. retM ()))
      (\<lambda>x. wp (whenM (x = XST_FAILURE W) (callM W (Usb (EpSetStall 0 0)))) (\<lambda>_ t. \<not> string_overread W s p \<and> dfu_inv t)
         (\<lambda>x _. string_overread W s p \<and> x = OutOfBounds)) (\<lambda>x _. string_overread W s p \<and> x = OutOfBounds) s"
      by (rule wp_mono [OF request_string [OF assms conjunct1 [OF conjunct2 [OF True]]]]) (auto intro: keeps_wp_never [OF stall])
    then show ?thesis
      using True usb_codes small_request [of p]
      by (simp add: XFsbl_StdDevReq_def request_descriptor_def Let_def wp_bind)
  next
    case False
    have "keeps never_exits dfu_inv (XFsbl_StdDevReq W p)"
    proof (cases "ucast (wLength p) > XFSBL_REQ_REPLY_LEN")
      case True
      then show ?thesis unfolding XFsbl_StdDevReq_def Let_def if_P [OF True] by (intro keeps_bind stall keeps_ret)
    next
      case small: False
      have len: "unat (wLength p) \<le> 1024" by (rule small_request [THEN iffD1, OF small])
      have no_string: "\<not> ucast (drop_bit 8 (wValue p) AND 0xFF) = XFSBL_TYPE_STRING_DESC" if "ucast (bRequest p) = XFSBL_REQ_GET_DESCRIPTOR"
        using False len that by simp
      have "keeps never_exits dfu_inv (request_descriptor W p)" if "ucast (bRequest p) = XFSBL_REQ_GET_DESCRIPTOR"
        unfolding request_descriptor_def Let_def if_not_P [OF no_string [OF that]]
        by (intro keeps_if keeps_ret keeps_send_descriptor [OF len] keeps_Ch9 keeps_when keeps_reply) simp_all
      then show ?thesis
        unfolding XFsbl_StdDevReq_def Let_def if_not_P [OF small]
        by (intro keeps_bind stall keeps_if keeps_seq keeps_when keeps_ret keeps_request_status [OF len] keeps_SetConfiguration keeps_SetIntf usb.io_keeps)
    qed
    with False assms show ?thesis by (auto intro!: keeps_wp keeps_wp_never)
  qed
qed

lemma handle_event_wp:
  assumes "dfu_inv s"
  shows "wp (handle_event W e) (\<lambda>_ t. \<not> overreads W s e \<and> dfu_inv t) (\<lambda>x _. overreads W s e \<and> x = OutOfBounds) s"
proof (cases e)
  case UsbReset
  have "keeps never_exits dfu_inv XFsbl_DfuReset"
    unfolding XFsbl_DfuReset_def by (intro keeps_intro keeps_dfu) (simp add: dfu_inv_def)
  with UsbReset assms show ?thesis by (simp add: handle_event_def overreads_def keeps_wp_never)
next
  case (UsbSetup p)
  let ?kind = "ucast (bRequestType p) AND XFSBL_REQ_TYPE_MASK"
  show ?thesis
  proof (cases "?kind = XFSBL_CMD_STDREQ")
    case True
    then show ?thesis
      using StdDevReq_bounds [OF assms, of W p] usb_codes(1)
      by (auto simp: UsbSetup handle_event_def XFsbl_Ch9Handler_def Let_def overreads_def string_overread_def elim!: wp_mono)
  next
    case std: False
    show ?thesis
    proof (cases "?kind = XFSBL_CMD_CLASSREQ \<and> ucast (bRequest p) = DFU_GETSTATUS \<and> 6 < unat (wLength p)")
      case True
      then show ?thesis
        using get_status_overread [OF assms, of p W] std usb_codes
        by (auto simp: UsbSetup handle_event_def XFsbl_Ch9Handler_def XFsbl_DfuClassReq_def Let_def overreads_def elim!: wp_mono)
    next
      case False
      then have "keeps never_exits dfu_inv (XFsbl_Ch9Handler W p)"
        using std unfolding XFsbl_Ch9Handler_def XFsbl_DfuClassReq_def Let_def
        by (auto intro!: keeps_intro usb.io_keeps)
      with False std assms show ?thesis by (auto simp: UsbSetup handle_event_def overreads_def intro!: keeps_wp keeps_wp_never)
    qed
  qed
qed

text \<open>C25: In every state the requests of the host leave the loader in, exactly two kinds of requests read behind a static
  array: a firmware status of more than six bytes, and on a super-speed bus a string with an index from 6 to 11.\<close>
lemma usb_overreads:
  assumes "dfu_inv s"
  shows "wp (handle_event W e) (\<lambda>_ t. \<not> overreads W s e \<and> dfu_inv t) (\<lambda>x _. overreads W s e \<and> x = OutOfBounds) s"
  using assms by (rule handle_event_wp)

lemma dfu_inv_init: "dfu_inv fsbl_init"
  by (simp add: dfu_inv_def dfu_states_def fsbl_init_def hw)

lemma usb_overreads_witness:
  "wp (handle_event quiet_world (getstatus 7)) (\<lambda>_ _. False) (\<lambda>x _. x = OutOfBounds) fsbl_init \<and>
   wp (handle_event quiet_world (getstatus 6)) (\<lambda>_. dfu_inv) (\<lambda>_ _. False) fsbl_init"
proof -
  have "overreads quiet_world fsbl_init (getstatus 7)" "\<not> overreads quiet_world fsbl_init (getstatus 6)"
    by (simp_all add: overreads_def getstatus_def hw)
  then show ?thesis
    using usb_overreads [OF dfu_inv_init, of quiet_world "getstatus 7"] usb_overreads [OF dfu_inv_init, of quiet_world "getstatus 6"] by simp
qed

text \<open>The states of the download: any events, with any steps of the history between them.\<close>

inductive usb_reaches :: "world \<Rightarrow> fsbl \<Rightarrow> bool" for W where
  usb_start: "DfuObj s = dfu_zero \<Longrightarrow> length (UsbReply s) = 1024 \<Longrightarrow> length (DfuReply s) = 6 \<Longrightarrow> usb_reaches W s"
| usb_step: "usb_reaches W s \<Longrightarrow> handle_event W e (s\<lparr>trace := h\<rparr>) = Some (Ret (), t) \<Longrightarrow> usb_reaches W t"

lemma usb_reaches_inv: "usb_reaches W s \<Longrightarrow> dfu_inv s"
proof (induction rule: usb_reaches.induct)
  case (usb_start s)
  then show ?case by (simp add: dfu_inv_def dfu_states_def dfu_zero_def hw)
next
  case (usb_step s e h t)
  have "dfu_inv (s\<lparr>trace := h\<rparr>)" using usb_step.IH by (simp add: dfu_inv_def)
  from wp_Ret [OF handle_event_wp [OF this] usb_step.hyps(2)] show ?case by simp
qed

text \<open>C26: In every state that the requests of a host can lead to, the download state is one of six and the status is
  \<open>OK\<close>; so the loop that waits for the download, which looks for an error in the status, ends only when
  the download has been counted as complete, never because of an error.\<close>
lemma usb_error_unnoticed:
  assumes "usb_reaches W s"
  shows "CurrState (DfuObj s) \<in> dfu_states \<and> CurrStatus (DfuObj s) = ucast DFU_STATUS_OK \<and>
    (UsbInit_turn W s = Some (Ret (Inl ()), t) \<longrightarrow> \<not> DownloadDone s < XFSBL_DOWNLOAD_COMPLETE)"
proof -
  have inv: "dfu_inv s" using assms by (rule usb_reaches_inv)
  have "wp (UsbInit_turn W) (\<lambda>z _. z = Inl () \<longrightarrow> \<not> DownloadDone s < XFSBL_DOWNLOAD_COMPLETE) (\<lambda>_ _. True) s"
  proof (cases "DownloadDone s < XFSBL_DOWNLOAD_COMPLETE")
    case True
    have "CurrStatus (DfuObj s) = 0" using inv by (simp add: dfu_inv_def hw)
    moreover have "(0 :: u32) \<noteq> STATE_DFU_ERROR" by (simp add: hw)
    ultimately show ?thesis
      using True by (auto simp: UsbInit_turn_def wp_bind [of "getM f" for f] wp_get wp_ret intro!: wp_seq_any)
  next
    case False
    then show ?thesis by (auto simp: UsbInit_turn_def wp_bind wp_get wp_ret)
  qed
  then show ?thesis using inv by (auto simp: dfu_inv_def dest: wp_Ret)
qed

lemma usb_error_unnoticed_witness:
  "\<exists>s. usb_reaches quiet_world s \<and> CurrState (DfuObj s) = ucast STATE_DFU_ERROR \<and> CurrStatus (DfuObj s) = ucast DFU_STATUS_OK"
proof -
  have start: "usb_reaches quiet_world fsbl_init"
    by (rule usb_start) (simp_all add: fsbl_init_def dfu_zero_def)
  let ?e = "UsbSetup \<lparr>bRequestType = 0x21, bRequest = 9, wValue = 0, wIndex = 0, wLength = 0\<rparr>"
  have "ends (handle_event quiet_world ?e) (\<lambda>_ t. CurrState (DfuObj t) = ucast STATE_DFU_ERROR) (fsbl_init\<lparr>trace := []\<rparr>)"
    by (simp add: handle_event_def XFsbl_Ch9Handler_def XFsbl_DfuClassReq_def dfu_stall_def set_dfu_def ends_eq Let_def hw)
  then obtain t where "handle_event quiet_world ?e (fsbl_init\<lparr>trace := []\<rparr>) = Some (Ret (), t)" "CurrState (DfuObj t) = ucast STATE_DFU_ERROR"
    by (auto simp: ends_def)
  note run = this
  have "usb_reaches quiet_world t" by (rule usb_step [OF start run(1)])
  from this usb_error_unnoticed [OF this] run(2) show ?thesis by blast
qed

section \<open>The copy\<close>

text \<open>The end of a copy from the download buffer is computed in 32 bits: a length that wraps around (that of a short
  signed partition, for one) is accepted, and the DMA is asked to read beyond the end of DDR.\<close>
lemma UsbCopy_wraps:
  assumes "2 ^ 32 \<le> unat SrcAddress + unat Len" and "DfuVirtFlash + zx (SrcAddress + Len) \<le> cfg_ddr_end W" and "unat (cfg_ddr_end W) < 2 ^ 32"
  shows "ends (XFsbl_UsbCopy W SrcAddress Dest Len) (\<lambda>x t. x = XFSBL_SUCCESS \<and>
    (\<exists>a n v. Ext (Usb (UsbDmaSrc a n)) v \<in> set (trace t) \<and> unat (cfg_ddr_end W) < unat a + 4 * unat n)) s"
proof -
  have small: "unat SrcAddress < 2 ^ 32" using unsigned_less [of SrcAddress, where 'a = nat] by simp
  have ok: "XFsbl_CheckTempDfuMemory W (SrcAddress + Len) \<noteq> XFSBL_FAILURE"
    using assms(2) by (simp add: XFsbl_CheckTempDfuMemory_def hw)
  have a: "unat (DfuVirtFlash + zx SrcAddress) = 0x4000000 + unat SrcAddress"
    using small by (simp add: unat_word_ariths unat_zx DfuVirtFlash_def hw)
  have "unat Len \<le> 4 * (unat Len div 4) + 3" by simp
  then have over: "unat (cfg_ddr_end W) < unat (DfuVirtFlash + zx SrcAddress) + 4 * unat (Len div 4)"
    unfolding a using assms(1,3) by (simp add: unat_div)
  show ?thesis
    using ok over by (auto simp: XFsbl_UsbCopy_def ends_eq)
qed

lemma UsbCopy_wraps_witness:
  "ends (XFsbl_UsbCopy quiet_world 0x1000 0x100000 0xFFFFFFF0) (\<lambda>x t. x = XFSBL_SUCCESS \<and>
    (\<exists>a n v. Ext (Usb (UsbDmaSrc a n)) v \<in> set (trace t) \<and> 0x7FFFFFFF < unat a + 4 * unat n)) fsbl_init"
  by (rule ends_mono [OF UsbCopy_wraps]) (auto simp: quiet_world_def DfuVirtFlash_def hw)

end
