(* ===== verification/Fsbl_Board.thy ===== *)
theory Fsbl_Board
  imports Fsbl_Machine
begin

text \<open>
  The evaluation boards (\<open>xfsbl_board.c\<close>): the I/O expander and the multiplexer of the lanes of the ZCU102, the regulator
  of the mezzanine card, whose voltage is chosen from the card's EEPROM on the ZCU104, and the PCIe reset.  The board is
  a macro of the build, here an argument; without one of the four \<open>XFsbl_BoardInit\<close> does nothing.  The rest of the loader
  calls it as \<open>Dev BoardInit\<close>.
\<close>

datatype board = ZCU102 | ZCU104 | ZCU106 | ZCU111 | Other_Board

section \<open>The bus\<close>

text \<open>\<open>while (XIicPs_BusIsBusy(..) == TRUE);\<close>\<close>

definition bus_wait :: "world \<Rightarrow> unit prog" where
  "bus_wait W = iterM (\<lambda>_. bindM (extM W (Iic IicBusIsBusy)) (\<lambda>v. retM (if v = 1 then Inr () else Inl ()))) ()"

text \<open>A message, the check of its status and the wait; the bytes are stored in an array of \<open>u8\<close>.\<close>

definition board_message :: "u32 list \<Rightarrow> u32 \<Rightarrow> ext" where
  "board_message bs SlaveAddr = Iic (IicMasterSendPolled (map ucast bs) SlaveAddr)"

definition board_send :: "world \<Rightarrow> u32 list \<Rightarrow> u32 \<Rightarrow> u32 prog" where
  "board_send W bs SlaveAddr = bindM (extM W (board_message bs SlaveAddr)) (\<lambda>Status.
     if Status \<noteq> 0 then retM XFSBL_ERROR_I2C_WRITE else retM XFSBL_SUCCESS)"

definition board_send_wait :: "world \<Rightarrow> u32 list \<Rightarrow> u32 \<Rightarrow> u32 prog" where
  "board_send_wait W bs SlaveAddr = tryM (board_send W bs SlaveAddr) (seqM (bus_wait W) (retM XFSBL_SUCCESS))"

section \<open>The voltage of the mezzanine card\<close>

text \<open>The search for the load record of the card's output 0 in the multi-record area of the EEPROM.  \<open>None\<close> is an
  access outside of the 32 bytes that were read; the inner option is the place of the data, if a record was found.\<close>

function vadj_record :: "u8 list \<Rightarrow> nat \<Rightarrow> nat option option" where
  "vadj_record B off =
     (if off + 2 < length B then
        if ucast (B ! off) = DC_LOAD \<and> \<not> off + 5 < length B then None
        else if ucast (B ! off) = DC_LOAD \<and> B ! (off + 5) AND 0x0F = 0 then Some (Some (off + unat MULTIRECORD_HEADER_SIZE))
        else if B ! (off + 1) AND 0x80 = 0 then vadj_record B (off + unat (B ! (off + 2)) + 5)
        else Some None
      else None)"
  by pat_completeness auto
termination by (relation "measure (\<lambda>(B, off). length B - off)") auto

declare vadj_record.simps [simp del]

text \<open>A voltage of the record, in units of 10 mV, as millivolts.\<close>

definition millivolts :: "u8 list \<Rightarrow> nat \<Rightarrow> u32" where
  "millivolts B Count = ((push_bit 8 (ucast (B ! (Count + 1))) AND 0xFF00) OR ucast (B ! Count)) * 10"

definition vadj_limits :: "u8 list \<Rightarrow> (u32 \<times> u32) option" where
  "vadj_limits B =
     (if B ! 0 = 1 \<and> B ! 5 \<noteq> 0 then
        case vadj_record B (unat (B ! 5) * 8) of
          None \<Rightarrow> None
        | Some None \<Rightarrow> Some (0, 0)
        | Some (Some d) \<Rightarrow> if d + 6 < length B then Some (millivolts B (d + 3), millivolts B (d + 5)) else None
      else Some (0, 0))"

definition XFsbl_ReadMinMaxEepromVadj :: "world \<Rightarrow> (u32 + u32 \<times> u32) prog" where
  "XFsbl_ReadMinMaxEepromVadj W =
     bindM (board_send_wait W [1] TCA9548A_ADDR) (\<lambda>UStatus. if UStatus \<noteq> XFSBL_SUCCESS then retM (Inl UStatus) else
     bindM (copyM W (Iic (IicMasterRecvPolled MAX_SIZE 0x54))) (\<lambda>(Status, b).
     if Status \<noteq> 0 then retM (Inl XFSBL_FAILURE) else seqM (bus_wait W)
       (case vadj_limits (map b [0..<unat MAX_SIZE]) of None \<Rightarrow> haltM OutOfBounds | Some r \<Rightarrow> retM (Inr r))))"

definition XFsbl_CalVadj :: "u16 \<Rightarrow> u16 \<Rightarrow> u32" where
  "XFsbl_CalVadj MinVoltage MaxVoltage =
     (if MinVoltage \<le> 1800 \<and> MaxVoltage \<ge> 1800 then SET_VADJ_1V8
      else if MinVoltage \<le> 1500 \<and> MaxVoltage \<ge> 1500 then SET_VADJ_1V5
      else if MinVoltage \<le> 1200 \<and> MaxVoltage \<ge> 1200 then SET_VADJ_1V2
      else SET_VADJ_0V0)"

record XVoutCommands =
  VoutCmdL :: u32
  VoutCmdH :: u32
  VoutOvWarnL :: u32
  VoutOvWarnH :: u32
  VoutOvFaultL :: u32
  VoutOvFaultH :: u32
  VoutUvWarnL :: u32
  VoutUvWarnH :: u32
  VoutUvFaultL :: u32
  VoutUvFaultH :: u32

definition LookupTable :: "XVoutCommands list" where
  "LookupTable =
     [\<lparr>VoutCmdL = VOUT_CMDL_1V2, VoutCmdH = VOUT_CMDH_1V2, VoutOvWarnL = VOUT_OV_WARNL_1V2, VoutOvWarnH = VOUT_OV_WARNH_1V2,
       VoutOvFaultL = VOUT_OV_FAULTL_1V2, VoutOvFaultH = VOUT_OV_FAULTH_1V2, VoutUvWarnL = VOUT_UV_WARNL_1V2,
       VoutUvWarnH = VOUT_UV_WARNH_1V2, VoutUvFaultL = VOUT_UV_FAULTL_1V2, VoutUvFaultH = VOUT_UV_FAULTH_1V2\<rparr>,
      \<lparr>VoutCmdL = VOUT_CMDL_1V2, VoutCmdH = VOUT_CMDH_1V2, VoutOvWarnL = VOUT_OV_WARNL_1V2, VoutOvWarnH = VOUT_OV_WARNH_1V2,
       VoutOvFaultL = VOUT_OV_FAULTL_1V2, VoutOvFaultH = VOUT_OV_FAULTH_1V2, VoutUvWarnL = VOUT_UV_WARNL_1V2,
       VoutUvWarnH = VOUT_UV_WARNH_1V2, VoutUvFaultL = VOUT_UV_FAULTL_1V2, VoutUvFaultH = VOUT_UV_FAULTH_1V2\<rparr>,
      \<lparr>VoutCmdL = VOUT_CMDL_1V5, VoutCmdH = VOUT_CMDH_1V5, VoutOvWarnL = VOUT_OV_WARNL_1V5, VoutOvWarnH = VOUT_OV_WARNH_1V5,
       VoutOvFaultL = VOUT_OV_FAULTL_1V5, VoutOvFaultH = VOUT_OV_FAULTH_1V5, VoutUvWarnL = VOUT_UV_WARNL_1V5,
       VoutUvWarnH = VOUT_UV_WARNH_1V5, VoutUvFaultL = VOUT_UV_FAULTL_1V5, VoutUvFaultH = VOUT_UV_FAULTH_1V5\<rparr>,
      \<lparr>VoutCmdL = VOUT_CMDL_1V8, VoutCmdH = VOUT_CMDH_1V8, VoutOvWarnL = VOUT_OV_WARNL_1V8, VoutOvWarnH = VOUT_OV_WARNH_1V8,
       VoutOvFaultL = VOUT_OV_FAULTL_1V8, VoutOvFaultH = VOUT_OV_FAULTH_1V8, VoutUvWarnL = VOUT_UV_WARNL_1V8,
       VoutUvWarnH = VOUT_UV_WARNH_1V8, VoutUvFaultL = VOUT_UV_FAULTL_1V8, VoutUvFaultH = VOUT_UV_FAULTH_1V8\<rparr>]"

text \<open>The messages that program the regulator, each checked; after that of the over-voltage fault limit the code does
  not wait for the bus.\<close>

definition program_regulator :: "world \<Rightarrow> u32 \<Rightarrow> u32 \<Rightarrow> XVoutCommands \<Rightarrow> u32 prog" where
  "program_regulator W DATA_PAGE SlaveAddr V =
     tryM (board_send_wait W [CMD_PAGE_CFG, DATA_PAGE] SlaveAddr)
     (tryM (board_send_wait W [CMD_OPERATION_CFG, OPERATION_VAL] SlaveAddr)
     (tryM (board_send_wait W [CMD_VOUT_MODE_CFG, DATA_VOUT_MODE_VAL] SlaveAddr)
     (tryM (board_send_wait W [CMD_VOUT_MAX_CFG, DATA_VOUT_MAX_VAL_L, DATA_VOUT_MAX_VAL_H] SlaveAddr)
     (tryM (board_send_wait W [CMD_VOUT_CMD_CFG, VoutCmdL V, VoutCmdH V] SlaveAddr)
     (tryM (board_send_wait W [CMD_VOUT_OV_WARN_LIMIT, VoutOvWarnL V, VoutOvWarnH V] SlaveAddr)
     (tryM (board_send W [CMD_VOUT_OV_FAULT_LIMIT, VoutOvFaultL V, VoutOvFaultH V] SlaveAddr)
     (tryM (board_send_wait W [CMD_VOUT_UV_WARN_LIMIT, VoutUvWarnL V, VoutUvWarnH V] SlaveAddr)
     (tryM (board_send_wait W [CMD_VOUT_UV_FAULT_LIMIT, VoutUvFaultL V, VoutUvFaultH V] SlaveAddr)
     (retM XFSBL_SUCCESS)))))))))"

text \<open>\<open>mig\<close>: memory in the logic (\<open>XPAR_MIG_0_BASEADDR\<close>).\<close>

definition XFsbl_FMCEnable :: "world \<Rightarrow> board \<Rightarrow> bool \<Rightarrow> u32 prog" where
  "XFsbl_FMCEnable W brd mig =
     bindM (extM W (Iic (IicSetSClk IIC_SCLK_RATE_I2CMUX))) (\<lambda>Status. if Status \<noteq> 0 then retM XFSBL_ERROR_I2C_SET_SCLK else
     bindM (if brd = ZCU104 then XFsbl_ReadMinMaxEepromVadj W else retM (Inr (0, 0))) (\<lambda>r. case r of
       Inl UStatus \<Rightarrow> retM UStatus
     | Inr (LpcMin, LpcMax) \<Rightarrow>
        (let VadjSetting = (if brd = ZCU104 then XFsbl_CalVadj (ucast LpcMin) (ucast LpcMax) else SET_VADJ_0V0)
         in tryM (if brd = ZCU104 then board_send_wait W [CMD_CH_2_REG_IRPS] TCA9548A_ADDR else board_send_wait W [CMD_CH_2_REG] PCA9544A_ADDR)
           (if brd = ZCU102 \<or> brd = ZCU106 then
              if mig then board_send_wait W [CMD_ON_OFF_CFG, ON_OFF_CFG_VAL] MAX15301_ADDR else retM XFSBL_SUCCESS
            else if brd = ZCU104 then program_regulator W DATA_SWD_CFG IRPS5401_ADDR (LookupTable ! unat VadjSetting)
            else program_regulator W DATA_SWC_CFG IRPS5401_SWC_ADDR (LookupTable ! unat VadjSetting)))))"

section \<open>The lanes\<close>

text \<open>Which of the lanes are not PCIe, as bits of the I/O expander; \<open>None\<close> for a combination that the board does not have.\<close>

definition lane_bits :: "u32 \<Rightarrow> u32 \<Rightarrow> u32 \<Rightarrow> u32 \<Rightarrow> u32 option" where
  "lane_bits L0 L1 L2 L3 =
     (if (L0 \<noteq> ICM_CFG_VAL_PCIE \<and> L0 \<noteq> ICM_CFG_VAL_DP \<and> L0 \<noteq> ICM_CFG_VAL_PWRDN) \<or>
         (L1 \<noteq> ICM_CFG_VAL_PCIE \<and> L1 \<noteq> ICM_CFG_VAL_DP \<and> L1 \<noteq> ICM_CFG_VAL_PWRDN) \<or>
         (L2 \<noteq> ICM_CFG_VAL_PCIE \<and> L2 \<noteq> ICM_CFG_VAL_USB \<and> L2 \<noteq> ICM_CFG_VAL_PWRDN) \<or>
         (L3 \<noteq> ICM_CFG_VAL_PCIE \<and> L3 \<noteq> ICM_CFG_VAL_SATA \<and> L3 \<noteq> ICM_CFG_VAL_PWRDN) then None
      else Some ((((DATA_COMMON_CFG OR (if L0 = ICM_CFG_VAL_DP then DATA_GT_L0_DP_CFG else 0))
         OR (if L1 = ICM_CFG_VAL_DP then DATA_GT_L1_DP_CFG else 0))
         OR (if L2 = ICM_CFG_VAL_USB then DATA_GT_L2_USB_CFG else 0))
         OR (if L3 = ICM_CFG_VAL_SATA then DATA_GT_L3_SATA_CFG else 0)))"

definition read_lanes :: "world \<Rightarrow> u32 option prog" where
  "read_lanes W =
     bindM (XFsbl_In32 W SERDES_ICM_CFG0) (\<lambda>a. bindM (XFsbl_In32 W SERDES_ICM_CFG0) (\<lambda>b.
     bindM (XFsbl_In32 W SERDES_ICM_CFG1) (\<lambda>c. bindM (XFsbl_In32 W SERDES_ICM_CFG1) (\<lambda>d.
     retM (lane_bits (a AND SERDES_ICM_CFG0_L0_ICM_CFG_MASK)
       (drop_bit (unat SERDES_ICM_CFG0_L1_ICM_CFG_SHIFT) (b AND SERDES_ICM_CFG0_L1_ICM_CFG_MASK))
       (c AND SERDES_ICM_CFG1_L2_ICM_CFG_MASK)
       (drop_bit (unat SERDES_ICM_CFG1_L3_ICM_CFG_SHIFT) (d AND SERDES_ICM_CFG1_L3_ICM_CFG_MASK)))))))"

definition configure_expander :: "world \<Rightarrow> board \<Rightarrow> u32 prog" where
  "configure_expander W brd =
     bindM (extM W (Iic (IicSetSClk IIC_SCLK_RATE_IOEXP))) (\<lambda>Status. if Status \<noteq> 0 then retM XFSBL_ERROR_I2C_SET_SCLK else
     tryM (board_send_wait W [CMD_CFG_0_REG, DATA_OUTPUT] IOEXPANDER1_ADDR)
     (bindM (if brd = ZCU102 then read_lanes W else retM (Some DATA_COMMON_CFG)) (\<lambda>r. case r of
        None \<Rightarrow> retM XFSBL_ERROR_GT_LANE_SELECTION
      | Some data \<Rightarrow> board_send_wait W [CMD_OUTPUT_0_REG, data] IOEXPANDER1_ADDR)))"

section \<open>The initialisation\<close>

text \<open>A failure to enable the mezzanine card is only printed.\<close>

definition XFsbl_BoardConfig :: "world \<Rightarrow> board \<Rightarrow> bool \<Rightarrow> u32 prog" where
  "XFsbl_BoardConfig W brd mig =
     bindM (extM W (Iic IicLookupConfig)) (\<lambda>I2c0CfgPtr. if I2c0CfgPtr = 0 then retM XFSBL_ERROR_I2C_INIT else
     bindM (extM W (Iic IicCfgInitialize)) (\<lambda>Status. if Status \<noteq> 0 then retM XFSBL_ERROR_I2C_INIT else
     tryM (if brd = ZCU102 \<or> brd = ZCU106 then configure_expander W brd else retM XFSBL_SUCCESS)
       (seqM (XFsbl_FMCEnable W brd mig) (retM XFSBL_SUCCESS))))"

definition XFsbl_PcieReset :: "world \<Rightarrow> unit prog" where
  "XFsbl_PcieReset W =
     bindM (XFsbl_In32 W SERDES_ICM_CFG0) (\<lambda>v. whenM (v AND SERDES_ICM_CFG0_L0_ICM_CFG_MASK = ICM_CFG_VAL_PCIE) (seqsM
       [XFsbl_Out32 GPIO_DIRM_1 GPIO_MIO31_MASK, XFsbl_Out32 GPIO_OEN_1 GPIO_MIO31_MASK,
        rmwM W GPIO_DATA_1 (\<lambda>RegVal. RegVal OR GPIO_MIO31_MASK), callM W (Bsp (Usleep DELAY_1_US)),
        rmwM W GPIO_DATA_1 (\<lambda>RegVal. RegVal AND NOT GPIO_MIO31_MASK), callM W (Bsp (Usleep DELAY_5_US)),
        rmwM W GPIO_DATA_1 (\<lambda>RegVal. RegVal OR GPIO_MIO31_MASK)]))"

definition XFsbl_BoardInit :: "world \<Rightarrow> board \<Rightarrow> bool \<Rightarrow> u32 prog" where
  "XFsbl_BoardInit W brd mig =
     (if brd = Other_Board then retM XFSBL_SUCCESS
      else tryM (XFsbl_BoardConfig W brd mig) (seqM (whenM (brd = ZCU102) (XFsbl_PcieReset W)) (retM XFSBL_SUCCESS)))"

end
