(* ===== verification/Fsbl_Board_Runs.thy ===== *)
theory Fsbl_Board_Runs
  imports Fsbl_Board
begin

text \<open>
  What the initialisation of the evaluation boards sends on a bus that works: the voltage that is programmed, the lanes that
  are selected, and where the EEPROM of the card is read outside of the buffer.
\<close>

section \<open>Messages\<close>

definition sent :: "io \<Rightarrow> (u32 \<times> u8 list) list" where
  "sent e = (case e of Ext c v \<Rightarrow> (case c of Iic i \<Rightarrow> (case i of IicMasterSendPolled bs a \<Rightarrow> [(a, bs)] | _ \<Rightarrow> []) | _ \<Rightarrow> []) | _ \<Rightarrow> [])"

lemma sent_simps [simp]:
  "sent (Ext (board_message bs a) v) = [(a, map ucast bs)]" "sent (Ext (Iic IicBusIsBusy) v) = []" "sent (Ext (Iic IicLookupConfig) v) = []"
  "sent (Ext (Iic IicCfgInitialize) v) = []" "sent (Ext (Iic (IicSetSClk r)) v) = []" "sent (Ext (Iic (IicMasterRecvPolled n r)) v) = []"
  "sent (Rd r v) = []" "sent (Wr r v) = []" "sent (Ext (Bsp c) v) = []"
  by (simp_all add: sent_def board_message_def)

text \<open>The last value written to the register \<open>c\<close> of the chip at \<open>a\<close>.\<close>

primrec last_sent :: "u32 \<Rightarrow> u8 \<Rightarrow> io list \<Rightarrow> u8 list option" where
  "last_sent a c [] = None"
| "last_sent a c (e # h) = (case sent e of [] \<Rightarrow> last_sent a c h | m # ms \<Rightarrow>
     if fst m = a \<and> take 1 (snd m) = [c] then Some (tl (snd m)) else last_sent a c h)"

text \<open>A bus that is idle and on which every call succeeds.\<close>

definition idle_bus :: "world \<Rightarrow> bool" where
  "idle_bus W \<longleftrightarrow> (\<forall>h c. ext_ret W h (Iic c) = (if c = IicLookupConfig then 1 else 0))"

lemma idle_simps:
  assumes "idle_bus W"
  shows "ext_ret W h (Iic IicLookupConfig) = 1" "ext_ret W h (Iic IicCfgInitialize) = 0" "ext_ret W h (Iic (IicSetSClk r)) = 0"
    "ext_ret W h (board_message bs a) = 0" "ext_ret W h (Iic (IicMasterRecvPolled n a)) = 0" "ext_ret W h (Iic IicBusIsBusy) = 0"
  using assms by (simp_all add: idle_bus_def board_message_def)

lemma ends_bus_wait: "idle_bus W \<Longrightarrow> ends (bus_wait W) Q s = Q () (s\<lparr>trace := Ext (Iic IicBusIsBusy) 0 # trace s\<rparr>)"
proof -
  assume W: "idle_bus W"
  have "bus_wait W s = Some (Ret (), s\<lparr>trace := Ext (Iic IicBusIsBusy) 0 # trace s\<rparr>)"
    unfolding bus_wait_def
    by (subst iterM.simps) (simp add: bindM_def extM_def seqM_def getM_def logM_def modM_def retM_def idle_simps [OF W])
  then show ?thesis by (simp add: ends_def)
qed

lemma ends_send:
  assumes "idle_bus W"
  shows "ends (board_send W bs a) Q s = Q XFSBL_SUCCESS (s\<lparr>trace := Ext (board_message bs a) 0 # trace s\<rparr>)"
    and "ends (board_send_wait W bs a) Q s = Q XFSBL_SUCCESS (s\<lparr>trace := Ext (Iic IicBusIsBusy) 0 # Ext (board_message bs a) 0 # trace s\<rparr>)"
  by (simp_all add: board_send_def board_send_wait_def ends_eq idle_simps [OF assms] ends_bus_wait [OF assms] hw)

section \<open>The voltage\<close>

text \<open>The output voltage in millivolts, from the two bytes of its register in units of \<open>2 ^ -12\<close> volts.\<close>

definition output_mV :: "io list \<Rightarrow> nat option" where
  "output_mV h = (case last_sent IRPS5401_ADDR (ucast CMD_VOUT_CMD_CFG) h of
     Some [l, u] \<Rightarrow> Some (((unat u * 256 + unat l) * 1000 + 2048) div 4096) | _ \<Rightarrow> None)"

definition best_voltage :: "nat \<Rightarrow> nat \<Rightarrow> nat" where
  "best_voltage lo hi = (if lo \<le> 1800 \<and> 1800 \<le> hi then 1800 else if lo \<le> 1500 \<and> 1500 \<le> hi then 1500 else 1200)"

lemma CalVadj_cases:
  "XFsbl_CalVadj lo hi \<in> {SET_VADJ_0V0, SET_VADJ_1V2, SET_VADJ_1V5, SET_VADJ_1V8}"
  by (simp add: XFsbl_CalVadj_def)

lemma row_voltage:
  "output_mV (Ext (board_message [CMD_VOUT_CMD_CFG, VoutCmdL (LookupTable ! unat (XFsbl_CalVadj lo hi)),
     VoutCmdH (LookupTable ! unat (XFsbl_CalVadj lo hi))] IRPS5401_ADDR) v # h) = Some (best_voltage (unat lo) (unat hi))"
  by (simp add: output_mV_def XFsbl_CalVadj_def best_voltage_def LookupTable_def word_le_nat_alt hw)

lemma output_other: "bs \<noteq> [] \<Longrightarrow> ucast (hd bs) \<noteq> (ucast CMD_VOUT_CMD_CFG :: u8) \<Longrightarrow> output_mV (Ext (board_message bs a) v # h) = output_mV h"
  by (cases bs) (auto simp: output_mV_def)

lemma output_idle: "sent e = [] \<Longrightarrow> output_mV (e # h) = output_mV h"
  by (simp add: output_mV_def)

lemma other_commands:
  "ucast CMD_PAGE_CFG \<noteq> (ucast CMD_VOUT_CMD_CFG :: u8)" "ucast CMD_OPERATION_CFG \<noteq> (ucast CMD_VOUT_CMD_CFG :: u8)"
  "ucast CMD_VOUT_OV_WARN_LIMIT \<noteq> (ucast CMD_VOUT_CMD_CFG :: u8)" "ucast CMD_VOUT_OV_FAULT_LIMIT \<noteq> (ucast CMD_VOUT_CMD_CFG :: u8)"
  "ucast CMD_VOUT_UV_WARN_LIMIT \<noteq> (ucast CMD_VOUT_CMD_CFG :: u8)" "ucast CMD_VOUT_UV_FAULT_LIMIT \<noteq> (ucast CMD_VOUT_CMD_CFG :: u8)"
  by (simp_all add: hw)

lemma regulator_programmed:
  assumes "idle_bus W"
  shows "ends (program_regulator W DATA_SWD_CFG IRPS5401_ADDR (LookupTable ! unat (XFsbl_CalVadj lo hi)))
     (\<lambda>Status t. Status = XFSBL_SUCCESS \<and> output_mV (trace t) = Some (best_voltage (unat lo) (unat hi))) s"
  unfolding program_regulator_def
  by (simp add: ends_eq ends_send [OF assms] output_idle output_other row_voltage other_commands)

lemma limits_read:
  assumes "idle_bus W" and "\<And>h. map (ext_byte W h (Iic (IicMasterRecvPolled MAX_SIZE 0x54))) [0..<unat MAX_SIZE] = B"
    and "vadj_limits B = Some r"
  shows "\<exists>t. XFsbl_ReadMinMaxEepromVadj W s = Some (Ret (Inr r), t)"
proof -
  have "ends (XFsbl_ReadMinMaxEepromVadj W) (\<lambda>x _. x = Inr r) s"
    unfolding XFsbl_ReadMinMaxEepromVadj_def
    by (simp add: ends_eq ends_send [OF assms(1)] idle_simps [OF assms(1)] ends_bus_wait [OF assms(1)] assms(2,3))
  then show ?thesis by (auto simp: ends_def)
qed

text \<open>C22: on the ZCU104, with a bus that works and load limits \<open>lo\<close> and \<open>hi\<close> in the EEPROM of the card, the regulator is set to the
  highest of 1.8 V, 1.5 V and 1.2 V that lies within the limits, and to 1.2 V when none of them does, even if the card takes less
  or needs more.  The limits are cut to 16 bits.\<close>

theorem vadj_programmed:
  assumes "idle_bus W" and "\<And>h. map (ext_byte W h (Iic (IicMasterRecvPolled MAX_SIZE 0x54))) [0..<unat MAX_SIZE] = B"
    and "vadj_limits B = Some (lo, hi)"
  shows "ends (XFsbl_FMCEnable W ZCU104 mig) (\<lambda>Status t. Status = XFSBL_SUCCESS \<and>
     output_mV (trace t) = Some (best_voltage (unat lo mod 65536) (unat hi mod 65536))) s"
proof -
  have cut: "unat (ucast v :: u16) = unat v mod 65536" for v :: u32 by (simp add: unsigned_ucast_eq take_bit_eq_mod)
  obtain t where run: "XFsbl_ReadMinMaxEepromVadj W (s\<lparr>trace := Ext (Iic (IicSetSClk IIC_SCLK_RATE_I2CMUX)) 0 # trace s\<rparr>) = Some (Ret (Inr (lo, hi)), t)"
    using limits_read [OF assms] by blast
  then show ?thesis
    unfolding XFsbl_FMCEnable_def
    by (simp add: ends_eq idle_simps [OF assms(1)] ends_send [OF assms(1)] ends_def [of "XFsbl_ReadMinMaxEepromVadj W"] Let_def
        regulator_programmed [OF assms(1), of "ucast lo" "ucast hi", unfolded cut])
qed

text \<open>A card for 1.4 V to 1.6 V.\<close>

definition card :: "u8 list" where
  "card = (replicate 32 0)[0 := 1, 5 := 1, 8 := 2, 9 := 0x80, 10 := 13, 16 := 140, 18 := 160]"

definition card_world :: "u8 list \<Rightarrow> world" where
  "card_world B = quiet_world\<lparr>ext_ret := (\<lambda>_ c. if c = Iic IicLookupConfig then 1 else 0), ext_byte := (\<lambda>_ _ k. if k < 32 then B ! k else 0)\<rparr>"

lemma card_world_bus: "idle_bus (card_world B)"
  by (simp add: idle_bus_def card_world_def)

lemma card_world_bytes: "length B = 32 \<Longrightarrow> map (ext_byte (card_world B) h c) [0..<unat MAX_SIZE] = B"
  by (rule nth_equalityI) (simp_all add: card_world_def hw)

lemma vadj_programmed_witness:
  "ends (XFsbl_FMCEnable (card_world card) ZCU104 False) (\<lambda>Status t. Status = XFSBL_SUCCESS \<and> output_mV (trace t) = Some 1500) fsbl_init"
proof -
  have limits: "vadj_limits card = Some (1400, 1600)"
    by (simp add: vadj_limits_def vadj_record.simps millivolts_def card_def hw)
  have "length card = 32" by (simp add: card_def)
  from vadj_programmed [OF card_world_bus card_world_bytes [OF this] limits, of False fsbl_init]
  show ?thesis by (simp add: best_voltage_def)
qed

section \<open>The EEPROM\<close>

lemma wp_bus_wait: "idle_bus W \<Longrightarrow> wp (bus_wait W) Q H s = Q () (s\<lparr>trace := Ext (Iic IicBusIsBusy) 0 # trace s\<rparr>)"
  using ends_bus_wait [of W "\<lambda>_ t. t = s\<lparr>trace := Ext (Iic IicBusIsBusy) 0 # trace s\<rparr>" s] by (auto simp: ends_def wp_def)

lemma wp_send_wait:
  assumes "idle_bus W"
  shows "wp (board_send_wait W bs a) Q H s = Q XFSBL_SUCCESS (s\<lparr>trace := Ext (Iic IicBusIsBusy) 0 # Ext (board_message bs a) 0 # trace s\<rparr>)"
  using ends_send(2) [OF assms, of bs a "\<lambda>x t. x = XFSBL_SUCCESS \<and> t = s\<lparr>trace := Ext (Iic IicBusIsBusy) 0 # Ext (board_message bs a) 0 # trace s\<rparr>" s]
  by (auto simp: ends_def wp_def)

lemma returns_board:
  assumes "idle_bus W"
  shows "returns (bus_wait W)" "returns (board_send W bs a)" "returns (board_send_wait W bs a)" "returns (program_regulator W p a V)"
    "returns (XFsbl_ReadMinMaxEepromVadj W)" "returns (XFsbl_FMCEnable W brd mig)"
    "returns (XFsbl_PcieReset W)"
proof -
  show wait: "returns (bus_wait W)"
    using ends_bus_wait [OF assms, of "\<lambda>_ _. True"] by (fastforce simp: ends_def returns_def)
  show send: "returns (board_send W bs a)" for bs a unfolding board_send_def by (intro returns_intro)
  show send_wait: "returns (board_send_wait W bs a)" for bs a unfolding board_send_wait_def by (intro returns_intro send wait)
  show prog: "returns (program_regulator W p a V)" for p a V unfolding program_regulator_def by (intro returns_intro send send_wait)
  show read: "returns (XFsbl_ReadMinMaxEepromVadj W)" unfolding XFsbl_ReadMinMaxEepromVadj_def
    by (intro returns_intro send_wait wait)
  show "returns (XFsbl_FMCEnable W brd mig)" unfolding XFsbl_FMCEnable_def Let_def
    by (intro returns_intro send_wait prog read)
  show "returns (XFsbl_PcieReset W)" unfolding XFsbl_PcieReset_def rmwM_def
    by (simp, intro returns_intro)
qed

text \<open>C27: a card whose EEPROM has its multi-record area at 32 bytes or later, as most have, makes the loader read outside of the
  32 bytes that it has received: nothing compares the place of the area with their number.\<close>

theorem card_overread:
  assumes "idle_bus W" and "\<And>h. map (ext_byte W h (Iic (IicMasterRecvPolled MAX_SIZE 0x54))) [0..<unat MAX_SIZE] = B"
    and "B ! 0 = 1" and "4 \<le> B ! 5"
  shows "\<exists>t. XFsbl_BoardInit W ZCU104 mig s = Some (Halted OutOfBounds, t)"
proof -
  have len: "length B = 32" using assms(2) [of undefined] by (auto simp: hw simp del: upt_rec_numeral)
  have "32 \<le> unat (B ! 5) * 8" using assms(4) by (simp add: word_le_nat_alt)
  then have none: "vadj_limits B = None"
    using assms(3,4) len by (auto simp: vadj_limits_def vadj_record.simps word_le_nat_alt)
  have never: "wp (XFsbl_ReadMinMaxEepromVadj W) (\<lambda>_ _. False) (\<lambda>e _. e = OutOfBounds) u" for u
    unfolding XFsbl_ReadMinMaxEepromVadj_def
    by (simp add: wp_eq idle_simps [OF assms(1)] wp_bus_wait [OF assms(1)] wp_send_wait [OF assms(1)] assms(2) none)
  have "wp (XFsbl_BoardInit W ZCU104 mig) (\<lambda>_ _. False) (\<lambda>e _. e = OutOfBounds) s"
    unfolding XFsbl_BoardInit_def XFsbl_BoardConfig_def XFsbl_FMCEnable_def
    by (simp add: wp_eq idle_simps [OF assms(1)] hw, rule wp_mono [OF never], simp_all)
  moreover have "returns (XFsbl_BoardInit W ZCU104 mig)"
    unfolding XFsbl_BoardInit_def XFsbl_BoardConfig_def by (simp, intro returns_intro returns_board [OF assms(1)])
  ultimately show ?thesis using leaves_total by blast
qed

lemma card_overread_witness:
  "\<exists>t. XFsbl_BoardInit (card_world ((replicate 32 0)[0 := 1, 5 := 16])) ZCU104 False fsbl_init = Some (Halted OutOfBounds, t)"
  by (rule card_overread [OF card_world_bus card_world_bytes]) simp_all

section \<open>The lanes of the ZCU102\<close>

definition lanes :: "u32 \<Rightarrow> u32 \<Rightarrow> u32 list" where
  "lanes c0 c1 = [c0 AND 7, drop_bit 4 c0 AND 7, c1 AND 7, drop_bit 4 c1 AND 7]"

text \<open>The function of a lane that is not PCIe.\<close>

definition lane_use :: "u32 list" where
  "lane_use = [ICM_CFG_VAL_DP, ICM_CFG_VAL_DP, ICM_CFG_VAL_USB, ICM_CFG_VAL_SATA]"

definition lanes_supported :: "u32 list \<Rightarrow> bool" where
  "lanes_supported ls = list_all2 (\<lambda>l u. l \<in> {ICM_CFG_VAL_PWRDN, ICM_CFG_VAL_PCIE, u}) ls lane_use"

definition selects :: "u8 \<Rightarrow> u32 list \<Rightarrow> bool" where
  "selects b ls \<longleftrightarrow> drop_bit 4 b = 0xE \<and>
     map (\<lambda>i. drop_bit i b AND 1) [0, 1, 2, 3] = map2 (\<lambda>l u. if l = u then 1 else 0) ls lane_use"

lemma lane_fields:
  "v AND SERDES_ICM_CFG0_L0_ICM_CFG_MASK = v AND 7" "v AND SERDES_ICM_CFG1_L2_ICM_CFG_MASK = v AND 7"
  "drop_bit (unat SERDES_ICM_CFG0_L1_ICM_CFG_SHIFT) (v AND SERDES_ICM_CFG0_L1_ICM_CFG_MASK) = drop_bit 4 v AND 7"
  "drop_bit (unat SERDES_ICM_CFG1_L3_ICM_CFG_SHIFT) (v AND SERDES_ICM_CFG1_L3_ICM_CFG_MASK) = drop_bit 4 v AND 7"
  by (simp_all add: hw drop_bit_and)

lemma read_lanes_eq:
  "read_lanes W =
     bindM (XFsbl_In32 W SERDES_ICM_CFG0) (\<lambda>a. bindM (XFsbl_In32 W SERDES_ICM_CFG0) (\<lambda>b.
     bindM (XFsbl_In32 W SERDES_ICM_CFG1) (\<lambda>c. bindM (XFsbl_In32 W SERDES_ICM_CFG1) (\<lambda>d.
     retM (lane_bits (a AND 7) (drop_bit 4 b AND 7) (c AND 7) (drop_bit 4 d AND 7))))))"
  unfolding read_lanes_def lane_fields ..

abbreviation data_word :: "bool \<Rightarrow> bool \<Rightarrow> bool \<Rightarrow> bool \<Rightarrow> u32" where
  "data_word p q r s \<equiv> (((0xE0 OR (if p then 1 else 0)) OR (if q then 2 else 0)) OR (if r then 4 else 0)) OR (if s then 8 else 0)"

lemma data_byte:
  "drop_bit 4 (ucast (data_word p q r s) :: u8) = 0xE"
  "map (\<lambda>i. drop_bit i (ucast (data_word p q r s) :: u8) AND 1) [0, 1, 2, 3] =
     [if p then 1 else 0, if q then 1 else 0, if r then 1 else 0, if s then 1 else 0]"
  by (cases p; cases q; cases r; cases s; simp)+

lemma lane_bits_word:
  "lane_bits a b c d = (if lanes_supported [a, b, c, d] then Some (data_word (a = 4) (b = 4) (c = 3) (d = 2)) else None)"
proof -
  have "lanes_supported [a, b, c, d] \<longleftrightarrow> (a = 0 \<or> a = 1 \<or> a = 4) \<and> (b = 0 \<or> b = 1 \<or> b = 4) \<and> (c = 0 \<or> c = 1 \<or> c = 3) \<and> (d = 0 \<or> d = 1 \<or> d = 2)"
    by (simp add: lanes_supported_def lane_use_def hw)
  then show ?thesis by (cases "lanes_supported [a, b, c, d]") (simp only: lane_bits_def hw if_True if_False; rule if_not_P if_P; blast)+
qed

lemma lane_bits_selects:
  "lanes_supported [a, b, c, d] \<Longrightarrow> \<exists>w. lane_bits a b c d = Some w \<and> selects (ucast w) [a, b, c, d]"
  "\<not> lanes_supported [a, b, c, d] \<Longrightarrow> lane_bits a b c d = None"
  by (simp_all only: lane_bits_word if_True if_False option.inject selects_def data_byte) (simp add: lane_use_def hw)

lemma last_sent_simps:
  "last_sent a c (Ext (board_message (b # bs) x) v # h) = (if x = a \<and> ucast b = c then Some (map ucast bs) else last_sent a c h)"
  "sent e = [] \<Longrightarrow> last_sent a c (e # h) = last_sent a c h"
  by simp_all

text \<open>C23: on a ZCU102 whose bus works, the data byte sent to the I/O expander has, above the fixed upper half, a one exactly for
  the lanes that the processor uses for DisplayPort, USB or SATA; lanes that are PCIe or off have a zero.  A lane with a function
  that the board does not have ends the initialisation with an error, and no data byte is sent.\<close>

theorem lanes_selected:
  assumes "idle_bus W" and "\<And>h. reg_in W h SERDES_ICM_CFG0 = c0" and "\<And>h. reg_in W h SERDES_ICM_CFG1 = c1"
  shows "ends (XFsbl_BoardInit W ZCU102 mig) (\<lambda>Status t.
     if lanes_supported (lanes c0 c1)
     then Status = XFSBL_SUCCESS \<and> (\<exists>b. last_sent IOEXPANDER1_ADDR (ucast CMD_OUTPUT_0_REG) (trace t) = Some [b] \<and> selects b (lanes c0 c1))
     else Status = XFSBL_ERROR_GT_LANE_SELECTION \<and>
       last_sent IOEXPANDER1_ADDR (ucast CMD_OUTPUT_0_REG) (trace t) = last_sent IOEXPANDER1_ADDR (ucast CMD_OUTPUT_0_REG) (trace s)) s"
proof -
  note run = ends_eq idle_simps [OF assms(1)] ends_send [OF assms(1)] assms(2,3) last_sent_simps Let_def
  have other: "IOEXPANDER1_ADDR \<noteq> PCA9544A_ADDR" "IOEXPANDER1_ADDR \<noteq> MAX15301_ADDR" "ucast CMD_CFG_0_REG \<noteq> (ucast CMD_OUTPUT_0_REG :: u8)"
    "XFSBL_ERROR_GT_LANE_SELECTION \<noteq> XFSBL_SUCCESS"
    by (simp_all add: hw)
  show ?thesis
  proof (cases "lanes_supported (lanes c0 c1)")
    case True
    then obtain w where "lane_bits (c0 AND 7) (drop_bit 4 c0 AND 7) (c1 AND 7) (drop_bit 4 c1 AND 7) = Some w" "selects (ucast w) (lanes c0 c1)"
      unfolding lanes_def using lane_bits_selects(1) by blast
    then show ?thesis using True other
      unfolding XFsbl_BoardInit_def XFsbl_BoardConfig_def configure_expander_def read_lanes_eq XFsbl_FMCEnable_def XFsbl_PcieReset_def
      by (simp add: run)
  next
    case False
    then have "lane_bits (c0 AND 7) (drop_bit 4 c0 AND 7) (c1 AND 7) (drop_bit 4 c1 AND 7) = None"
      unfolding lanes_def by (rule lane_bits_selects(2))
    then show ?thesis using False other
      unfolding XFsbl_BoardInit_def XFsbl_BoardConfig_def configure_expander_def read_lanes_eq
      by (simp add: run)
  qed
qed

text \<open>Lane 0 for DisplayPort, lane 2 for USB, the others for PCIe.\<close>

definition lane_world :: world where
  "lane_world = quiet_world\<lparr>ext_ret := (\<lambda>_ c. if c = Iic IicLookupConfig then 1 else 0),
     reg_in := (\<lambda>_ a. if a = SERDES_ICM_CFG0 then 0x14 else if a = SERDES_ICM_CFG1 then 0x13 else 0)\<rparr>"

lemma lanes_selected_witness:
  "ends (XFsbl_BoardInit lane_world ZCU102 False) (\<lambda>Status t. Status = XFSBL_SUCCESS \<and>
     (\<exists>b. last_sent IOEXPANDER1_ADDR (ucast CMD_OUTPUT_0_REG) (trace t) = Some [b] \<and> selects b [4, 1, 3, 1])) fsbl_init"
proof -
  have bus: "idle_bus lane_world" by (simp add: idle_bus_def lane_world_def)
  have regs: "reg_in lane_world h SERDES_ICM_CFG0 = 0x14" "reg_in lane_world h SERDES_ICM_CFG1 = 0x13" for h
    by (simp_all add: lane_world_def, simp add: hw)
  have "lanes 0x14 0x13 = [4, 1, 3, 1]" "lanes_supported [4, 1, 3, 1]" by (simp_all add: lanes_def lanes_supported_def lane_use_def hw)
  with lanes_selected [OF bus regs, of False fsbl_init] show ?thesis by simp
qed

section \<open>The table of limits\<close>

definition level :: "u32 \<Rightarrow> u32 \<Rightarrow> u32" where
  "level l u = push_bit 8 u OR l"

text \<open>The limits of every row are in order but for those of 1.8 V: its under-voltage fault is above its warning.\<close>

lemma limits_in_order:
  "map (\<lambda>V. sorted [level (VoutUvFaultL V) (VoutUvFaultH V), level (VoutUvWarnL V) (VoutUvWarnH V), level (VoutCmdL V) (VoutCmdH V),
     level (VoutOvWarnL V) (VoutOvWarnH V), level (VoutOvFaultL V) (VoutOvFaultH V)]) LookupTable = [True, True, True, False]"
  by (simp add: LookupTable_def level_def hw)

end
