(* ===== verification/Proxy_Transfer.thy ===== *)
theory Proxy_Transfer
  imports Fsbl_Prelude
begin

text \<open>
  The transfers of the DMA proxy driver (\<open>dma-proxy.c\<close> under \<open>recipes-modules\<close>): the channel
  with its table of buffers, starting a transfer and waiting for it, and the \<open>ioctl\<close> entry
  point that applications use.

  The DMA engine and the completion of the kernel are outside the repository: they are a
  record of answers, each a function of the history of calls so far.  The history has its most
  recent call first.
\<close>

section \<open>Data (\<open>dma-proxy.h\<close>)\<close>

definition BUFFER_SIZE :: nat where "BUFFER_SIZE = 128 * 1024"

definition BUFFER_COUNT :: nat where "BUFFER_COUNT = 32"

text \<open>The request codes, as \<open>_IOW\<close> and \<open>_IOR\<close> build them for a pointer-sized argument.\<close>

definition FINISH_XFER :: u32 where "FINISH_XFER = 0x40086161"

definition START_XFER :: u32 where "START_XFER = 0x40086162"

definition XFER :: u32 where "XFER = 0x80086163"

datatype proxy_status = PROXY_NO_ERROR | PROXY_BUSY | PROXY_TIMEOUT | PROXY_ERROR

record channel_buffer =
  buffer :: "nat \<Rightarrow> u32"
  status :: proxy_status
  buf_length :: u32

text \<open>The structure is aligned to 1024 bytes; its data come first.\<close>

definition sizeof_channel_buffer :: nat where
  "sizeof_channel_buffer = (BUFFER_SIZE + 4 + 4 + 1023) div 1024 * 1024"

text \<open>A buffer descriptor; the completion object is in the hands of the kernel.\<close>

record proxy_bd =
  cookie :: int
  dma_handle :: u64
  sg_address :: u64
  sg_len :: u32

text \<open>
  A channel.  \<open>proxy_device_p\<close> is a pointer of the kernel: null, or a device, or an error
  pointer, which is not null either; \<open>class_p\<close> is a class or an error pointer.
\<close>

datatype dev_ptr = DevNull | DevOk nat | DevErr

datatype class_ptr = ClassNull | ClassOk nat | ClassErr

record dma_proxy_channel =
  buffer_table_p :: "channel_buffer list"
  buffer_phys_addr :: u64
  proxy_device_p :: dev_ptr
  dev_node :: nat
  class_p :: class_ptr
  bdtable :: "proxy_bd list"
  channel_p :: "nat option"
  direction :: nat
  bdindex :: int

section \<open>The DMA engine\<close>

datatype dma_status = DMA_COMPLETE | DMA_IN_PROGRESS | DMA_PAUSED | DMA_ERROR

datatype call =
    Ioctl u32 int
  | Prep "nat option" u64 u32 bool
  | InitCompletion nat
  | Submit "nat option" int
  | IssuePending "nat option"
  | WaitCompletion nat nat
  | TxStatus int dma_status

record dma_engine =
  prep_ok :: "call list \<Rightarrow> bool"
  submit_cookie :: "call list \<Rightarrow> int"
  time_left :: "call list \<Rightarrow> nat"
  tx_status :: "call list \<Rightarrow> int \<Rightarrow> dma_status"

section \<open>Transfers\<close>

text \<open>
  An index outside the two tables of the channel is an access outside allocated memory,
  which the model reports as \<open>None\<close>.
\<close>

definition in_table :: "int \<Rightarrow> bool" where
  "in_table i \<longleftrightarrow> 0 \<le> i \<and> i < int BUFFER_COUNT"

definition start_transfer ::
  "dma_engine \<Rightarrow> dma_proxy_channel \<Rightarrow> call list \<Rightarrow> (dma_proxy_channel \<times> call list) option" where
  "start_transfer K c h =
     (if \<not> in_table (bdindex c) then None
      else let n = nat (bdindex c);
               bd = (bdtable c ! n)\<lparr>sg_address := dma_handle (bdtable c ! n),
                      sg_len := buf_length (buffer_table_p c ! n)\<rparr>;
               ok = prep_ok K h;
               h1 = Prep (channel_p c) (sg_address bd) (sg_len bd) ok # h
           in if \<not> ok then Some (c\<lparr>bdtable := (bdtable c)[n := bd]\<rparr>, h1)
              else let h2 = InitCompletion n # h1;
                       ck = submit_cookie K h2;
                       c2 = c\<lparr>bdtable := (bdtable c)[n := bd\<lparr>cookie := ck\<rparr>]\<rparr>;
                       h3 = Submit (channel_p c) ck # h2
                   in if ck < 0 then Some (c2, h3) else Some (c2, IssuePending (channel_p c) # h3))"

definition set_status :: "nat \<Rightarrow> proxy_status \<Rightarrow> dma_proxy_channel \<Rightarrow> dma_proxy_channel" where
  "set_status n st c = c\<lparr>buffer_table_p := (buffer_table_p c)[n := (buffer_table_p c ! n)\<lparr>status := st\<rparr>]\<rparr>"

definition wait_for_transfer ::
  "dma_engine \<Rightarrow> dma_proxy_channel \<Rightarrow> call list \<Rightarrow> (dma_proxy_channel \<times> call list) option" where
  "wait_for_transfer K c h =
     (if \<not> in_table (bdindex c) then None
      else let n = nat (bdindex c);
               c1 = set_status n PROXY_BUSY c;
               timeout = time_left K h;
               h1 = WaitCompletion n timeout # h;
               ck = cookie (bdtable c ! n);
               st = tx_status K h1 ck;
               h2 = TxStatus ck st # h1
           in if timeout = 0 then Some (set_status n PROXY_TIMEOUT c1, h2)
              else if st \<noteq> DMA_COMPLETE then Some (set_status n PROXY_ERROR c1, h2)
              else Some (set_status n PROXY_NO_ERROR c1, h2))"

text \<open>
  The entry point.  \<open>arg\<close> is the value behind the user pointer; \<open>copy_from_user\<close> fills what it
  cannot read with zeros, and its result is not looked at.  The call always returns 0; the
  history records the request.
\<close>

definition copy_index :: "int option \<Rightarrow> dma_proxy_channel \<Rightarrow> dma_proxy_channel" where
  "copy_index arg c = c\<lparr>bdindex := (case arg of None \<Rightarrow> 0 | Some i \<Rightarrow> i)\<rparr>"

definition ioctl_command ::
  "dma_engine \<Rightarrow> u32 \<Rightarrow> dma_proxy_channel \<Rightarrow> call list \<Rightarrow> (dma_proxy_channel \<times> call list) option" where
  "ioctl_command K cmd c h =
     (if cmd = START_XFER then start_transfer K c h
      else if cmd = FINISH_XFER then wait_for_transfer K c h
      else if cmd = XFER then
        (case start_transfer K c h of None \<Rightarrow> None | Some (c1, h1) \<Rightarrow> wait_for_transfer K c1 h1)
      else Some (c, h))"

definition ioctl ::
  "dma_engine \<Rightarrow> u32 \<Rightarrow> int option \<Rightarrow> dma_proxy_channel \<Rightarrow> call list \<Rightarrow> (int \<times> dma_proxy_channel \<times> call list) option" where
  "ioctl K cmd arg c h =
     (case ioctl_command K cmd (copy_index arg c) (Ioctl cmd (bdindex (copy_index arg c)) # h) of None \<Rightarrow> None | Some (c1, h1) \<Rightarrow> Some (0, c1, h1))"

definition release :: "dma_proxy_channel \<Rightarrow> int \<times> dma_proxy_channel" where
  "release c = (0, c)"

text \<open>
  What \<open>create_channel\<close> sets up: the handles of the buffers of an allocation at \<open>phys\<close>, and
  index 0.
\<close>

definition init_handles :: "u64 \<Rightarrow> proxy_bd list \<Rightarrow> proxy_bd list" where
  "init_handles phys bds = map (\<lambda>n. (bds ! n)\<lparr>dma_handle := phys + of_nat (sizeof_channel_buffer * n)\<rparr>) [0..<BUFFER_COUNT]"

section \<open>The shape of a channel\<close>

text \<open>
  A channel whose buffers are at \<open>phys\<close>: both tables have their length and every handle points
  to the data of its buffer.
\<close>

definition channel_shape :: "u64 \<Rightarrow> dma_proxy_channel \<Rightarrow> bool" where
  "channel_shape phys c \<longleftrightarrow> length (buffer_table_p c) = BUFFER_COUNT \<and> length (bdtable c) = BUFFER_COUNT \<and>
     (\<forall>n<BUFFER_COUNT. dma_handle (bdtable c ! n) = phys + of_nat (sizeof_channel_buffer * n))"

section \<open>Requests and their outcome\<close>

text \<open>The requests in a history, in the order they were made.\<close>

definition requests :: "call list \<Rightarrow> (u32 \<times> int) list" where
  "requests h = rev (concat (map (\<lambda>e. case e of Ioctl cmd i \<Rightarrow> [(cmd, i)] | _ \<Rightarrow> []) h))"

lemma requests_simps [simp]:
  "requests [] = []" "requests (Ioctl cmd i # h) = requests h @ [(cmd, i)]"
  "requests (Prep k a n ok # h) = requests h" "requests (InitCompletion b # h) = requests h"
  "requests (Submit k ck # h) = requests h" "requests (IssuePending k # h) = requests h"
  "requests (WaitCompletion b t # h) = requests h" "requests (TxStatus ck st # h) = requests h"
  by (simp_all add: requests_def)

lemma in_table_nat [simp]: "in_table (int i) \<longleftrightarrow> i < BUFFER_COUNT"
  by (simp add: in_table_def)

lemma request_codes [simp]: "START_XFER \<noteq> FINISH_XFER" "FINISH_XFER \<noteq> START_XFER" "XFER \<noteq> START_XFER" "XFER \<noteq> FINISH_XFER"
  "START_XFER \<noteq> XFER" "FINISH_XFER \<noteq> XFER"
  by (simp_all add: START_XFER_def FINISH_XFER_def XFER_def)

lemma set_status_shape: "channel_shape phys c \<Longrightarrow> channel_shape phys (set_status n st c)"
  by (simp add: channel_shape_def set_status_def)

lemma channel_shape_update:
  "channel_shape phys c \<Longrightarrow> dma_handle bd = dma_handle (bdtable c ! n) \<Longrightarrow>
   channel_shape phys (c\<lparr>bdindex := i, bdtable := (bdtable c)[n := bd]\<rparr>)"
  by (auto simp: channel_shape_def) (metis nth_list_update_eq nth_list_update_neq)

lemma channel_shape_bdtable:
  "channel_shape phys c \<Longrightarrow> dma_handle bd = dma_handle (bdtable c ! n) \<Longrightarrow>
   channel_shape phys (c\<lparr>bdtable := (bdtable c)[n := bd]\<rparr>)"
  by (auto simp: channel_shape_def) (metis nth_list_update_eq nth_list_update_neq)

lemma channel_shape_index [simp]: "channel_shape phys (c\<lparr>bdindex := i\<rparr>) = channel_shape phys c"
  by (simp add: channel_shape_def)

text \<open>An engine that accepts every transfer and completes it in time.\<close>

definition reliable :: "dma_engine \<Rightarrow> bool" where
  "reliable K \<longleftrightarrow> (\<forall>h. prep_ok K h) \<and> (\<forall>h. 0 \<le> submit_cookie K h) \<and> (\<forall>h. 0 < time_left K h) \<and>
     (\<forall>h ck. tx_status K h ck = DMA_COMPLETE)"

lemma reliable_answers:
  assumes "reliable K"
  shows "prep_ok K h" "\<not> submit_cookie K h < 0" "(time_left K h = 0) = False" "tx_status K h ck = DMA_COMPLETE"
  using assms by (auto simp: reliable_def not_less dest: spec [of _ h])

lemma start_request:
  assumes "reliable K" and "channel_shape phys c" and "i < BUFFER_COUNT"
  shows "\<exists>c' h'. ioctl K START_XFER (Some (int i)) c h = Some (0, c', h') \<and> channel_shape phys c' \<and>
    requests h' = requests h @ [(START_XFER, int i)]"
  using assms(2-)
  by (auto simp: reliable_answers [OF assms(1)] ioctl_def copy_index_def ioctl_command_def start_transfer_def Let_def intro!: channel_shape_update)

lemma finish_request:
  assumes "reliable K" and "channel_shape phys c" and "i < BUFFER_COUNT"
  shows "\<exists>c' h'. ioctl K FINISH_XFER (Some (int i)) c h = Some (0, c', h') \<and> channel_shape phys c' \<and>
    requests h' = requests h @ [(FINISH_XFER, int i)] \<and> status (buffer_table_p c' ! i) = PROXY_NO_ERROR"
  using assms(2-)
  by (auto simp: reliable_answers [OF assms(1)] ioctl_def copy_index_def ioctl_command_def wait_for_transfer_def Let_def intro!: set_status_shape)
    (simp add: set_status_def channel_shape_def)

section \<open>The memory of a transfer\<close>

text \<open>The data of buffer \<open>n\<close>, and the memory an engine accesses for an address and a length.\<close>

definition data_area :: "u64 \<Rightarrow> nat \<Rightarrow> nat set" where
  "data_area phys n = {unat phys + sizeof_channel_buffer * n ..< unat phys + sizeof_channel_buffer * n + BUFFER_SIZE}"

definition dma_area :: "u64 \<Rightarrow> u32 \<Rightarrow> nat set" where
  "dma_area a len = {unat a ..< unat a + unat len}"

lemma sizes: "sizeof_channel_buffer = 132096" "BUFFER_SIZE = 131072" "BUFFER_COUNT = 32"
  by (simp_all add: sizeof_channel_buffer_def BUFFER_SIZE_def BUFFER_COUNT_def)

lemma data_area_disjoint:
  assumes "i \<noteq> j"
  shows "data_area phys i \<inter> data_area phys j = {}"
proof (cases "i < j")
  case True
  then have "Suc i \<le> j" by simp
  then have "sizeof_channel_buffer * Suc i \<le> sizeof_channel_buffer * j" by (rule mult_le_mono2)
  then show ?thesis by (auto simp: data_area_def sizes)
next
  case False
  then have "Suc j \<le> i" using assms by simp
  then have "sizeof_channel_buffer * Suc j \<le> sizeof_channel_buffer * i" by (rule mult_le_mono2)
  then show ?thesis by (auto simp: data_area_def sizes)
qed

lemma handle_unat:
  assumes "unat (phys :: u64) + sizeof_channel_buffer * BUFFER_COUNT \<le> 2 ^ 64" and "i < BUFFER_COUNT"
  shows "unat (phys + of_nat (sizeof_channel_buffer * i)) = unat phys + sizeof_channel_buffer * i"
proof -
  have "unat (of_nat (sizeof_channel_buffer * i) :: u64) = sizeof_channel_buffer * i"
    using assms(2) by (simp only: unat_of_nat, simp add: sizes)
  then show ?thesis
    using assms by (subst unat_plus_if_size) (auto simp: word_size sizes)
qed

lemma dma_area_iff:
  assumes "unat phys + sizeof_channel_buffer * BUFFER_COUNT \<le> 2 ^ 64" and "i < BUFFER_COUNT"
  shows "dma_area (phys + of_nat (sizeof_channel_buffer * i)) len \<subseteq> data_area phys i \<longleftrightarrow> unat len \<le> BUFFER_SIZE"
  unfolding dma_area_def data_area_def handle_unat [OF assms] by (auto simp: sizes)

text \<open>What a \<open>START_XFER\<close> hands to the engine.\<close>

lemma start_request_prep:
  assumes "channel_shape phys c" and "i < BUFFER_COUNT"
  shows "\<exists>ok c' t. ioctl K START_XFER (Some (int i)) c h = Some (0, c',
      t @ Prep (channel_p c) (phys + of_nat (sizeof_channel_buffer * i)) (buf_length (buffer_table_p c ! i)) ok # Ioctl START_XFER (int i) # h) \<and>
    channel_shape phys c'"
proof -
  have "dma_handle (bdtable c ! i) = phys + of_nat (sizeof_channel_buffer * i)"
    using assms by (simp add: channel_shape_def)
  then show ?thesis
    using assms by (auto simp: ioctl_def copy_index_def ioctl_command_def start_transfer_def Let_def intro!: channel_shape_update)
qed

text \<open>A channel whose buffers are at \<open>phys\<close>, and an engine that does all it is asked.\<close>

definition sample_channel :: "u64 \<Rightarrow> dma_proxy_channel" where
  "sample_channel phys = \<lparr>buffer_table_p = replicate BUFFER_COUNT \<lparr>buffer = (\<lambda>_. 0), status = PROXY_NO_ERROR, buf_length = 1024\<rparr>,
     buffer_phys_addr = phys, proxy_device_p = DevOk 0, dev_node = 0, class_p = ClassOk 0,
     bdtable = init_handles phys (replicate BUFFER_COUNT \<lparr>cookie = 0, dma_handle = 0, sg_address = 0, sg_len = 0\<rparr>),
     channel_p = Some 0, direction = 1, bdindex = 0\<rparr>"

lemma sample_shape: "channel_shape phys (sample_channel phys)"
  by (simp add: channel_shape_def sample_channel_def init_handles_def)

definition prompt_engine :: dma_engine where
  "prompt_engine = \<lparr>prep_ok = (\<lambda>_. True), submit_cookie = (\<lambda>h. int (length h)), time_left = (\<lambda>_. 1),
     tx_status = (\<lambda>_ _. DMA_COMPLETE)\<rparr>"

lemma prompt_reliable: "reliable prompt_engine"
  by (simp add: reliable_def prompt_engine_def)

definition refusing_engine :: dma_engine where
  "refusing_engine = prompt_engine\<lparr>prep_ok := (\<lambda>_. False)\<rparr>"

text \<open>\<open>START_XFER\<close> for buffer \<open>i\<close> of a channel hands the engine the address of the data of that buffer and
  the length that the application wrote beside it, whatever the length is: the memory that
  the engine accesses stays inside the data of the buffer exactly if the length is at most
  \<open>BUFFER_SIZE\<close>, and then it touches no other buffer.  The driver does not compare the length with anything.\<close>

theorem start_request_area:
  assumes "channel_shape phys c" and "unat phys + sizeof_channel_buffer * BUFFER_COUNT \<le> 2 ^ 64" and "i < BUFFER_COUNT"
    and "len = buf_length (buffer_table_p c ! i)"
  shows "\<exists>a ok c' t. ioctl K START_XFER (Some (int i)) c h = Some (0, c', t @ Prep (channel_p c) a len ok # Ioctl START_XFER (int i) # h) \<and>
    channel_shape phys c' \<and> (dma_area a len \<subseteq> data_area phys i \<longleftrightarrow> unat len \<le> BUFFER_SIZE) \<and>
    (\<forall>j. j \<noteq> i \<and> unat len \<le> BUFFER_SIZE \<longrightarrow> dma_area a len \<inter> data_area phys j = {})"
proof -
  let ?a = "phys + of_nat (sizeof_channel_buffer * i)"
  have sub: "dma_area ?a len \<subseteq> data_area phys i \<longleftrightarrow> unat len \<le> BUFFER_SIZE"
    using assms(2,3) by (rule dma_area_iff)
  have "dma_area ?a len \<inter> data_area phys j = {}" if "j \<noteq> i" "unat len \<le> BUFFER_SIZE" for j
    using that sub data_area_disjoint [of i j phys] by blast
  then show ?thesis using start_request_prep [OF assms(1,3), of K h] sub assms(4) by blast
qed

theorem start_request_area_witness:
  "\<exists>a ok c' t. ioctl prompt_engine START_XFER (Some (int 3)) (sample_channel 0x70000000) [] =
      Some (0, c', t @ Prep (channel_p (sample_channel 0x70000000)) a 1024 ok # Ioctl START_XFER (int 3) # []) \<and>
    channel_shape 0x70000000 c' \<and> (dma_area a 1024 \<subseteq> data_area 0x70000000 3 \<longleftrightarrow> unat (1024 :: u32) \<le> BUFFER_SIZE) \<and>
    (\<forall>j. j \<noteq> 3 \<and> unat (1024 :: u32) \<le> BUFFER_SIZE \<longrightarrow> dma_area a 1024 \<inter> data_area 0x70000000 j = {})"
  by (rule start_request_area [OF sample_shape]) (simp_all add: sizes sample_channel_def)

section \<open>The outcome of a blocking transfer\<close>

lemma status_set_status [simp]:
  "j < length (buffer_table_p c) \<Longrightarrow> status (buffer_table_p (set_status n st c) ! j) =
     (if j = n then st else status (buffer_table_p c ! j))"
  by (simp add: set_status_def nth_list_update)

lemma set_status_table [simp]:
  "length (buffer_table_p (set_status n st c)) = length (buffer_table_p c)"
  "bdtable (set_status n st c) = bdtable c" "bdindex (set_status n st c) = bdindex c"
  by (simp_all add: set_status_def)

definition outcome :: "nat \<Rightarrow> dma_status \<Rightarrow> proxy_status" where
  "outcome timeout st = (if timeout = 0 then PROXY_TIMEOUT else if st = DMA_COMPLETE then PROXY_NO_ERROR else PROXY_ERROR)"

lemma wait_outcome:
  assumes "channel_shape phys c" and "i < BUFFER_COUNT" and "bdindex c = int i"
  shows "\<exists>c' t st. wait_for_transfer K c h = Some (c', TxStatus (cookie (bdtable c ! i)) st # WaitCompletion i t # h) \<and>
    channel_shape phys c' \<and> (\<forall>j<BUFFER_COUNT. status (buffer_table_p c' ! j) =
      (if j = i then outcome t st else status (buffer_table_p c ! j)))"
proof -
  have "length (buffer_table_p c) = BUFFER_COUNT" using assms(1) by (simp add: channel_shape_def)
  then show ?thesis
    using assms
    by (auto simp: wait_for_transfer_def Let_def outcome_def intro!: set_status_shape)
qed

lemma start_keeps:
  assumes "channel_shape phys c" and "i < BUFFER_COUNT" and "bdindex c = int i"
  shows "\<exists>c' h'. start_transfer K c h = Some (c', h') \<and> channel_shape phys c' \<and> bdindex c' = int i \<and>
    buffer_table_p c' = buffer_table_p c"
  using assms by (auto simp: start_transfer_def Let_def intro!: channel_shape_bdtable)

lemma ioctl_xfer:
  assumes "channel_shape phys c" and "i < BUFFER_COUNT"
  shows "\<exists>c1 h1 c' t st. start_transfer K (copy_index (Some (int i)) c) (Ioctl XFER (int i) # h) = Some (c1, h1) \<and>
    ioctl K XFER (Some (int i)) c h = Some (0, c', TxStatus (cookie (bdtable c1 ! i)) st # WaitCompletion i t # h1) \<and>
    channel_shape phys c' \<and> (\<forall>j<BUFFER_COUNT. status (buffer_table_p c' ! j) =
      (if j = i then outcome t st else status (buffer_table_p c ! j)))"
proof -
  let ?c = "copy_index (Some (int i)) c"
  have shape: "channel_shape phys ?c" and index: "bdindex ?c = int i" and table: "buffer_table_p ?c = buffer_table_p c"
    using assms(1) by (simp_all add: copy_index_def)
  obtain c1 h1 where start: "start_transfer K ?c (Ioctl XFER (int i) # h) = Some (c1, h1)" "channel_shape phys c1"
      "bdindex c1 = int i" "buffer_table_p c1 = buffer_table_p c"
    using start_keeps [OF shape assms(2) index] table by metis
  show ?thesis
    using wait_outcome [OF start(2) assms(2) start(3), of K h1] start index
    by (auto simp: ioctl_def ioctl_command_def)
qed

text \<open>C39: \<open>XFER\<close> on a buffer of the channel always returns 0; what became of the transfer is in the status of
  the buffer, which is never left busy: a timeout if no time was left, no error if the engine reports
  the cookie complete, an error otherwise.  The status of the other buffers is unchanged.\<close>

theorem xfer_outcome:
  assumes "channel_shape phys c" and "i < BUFFER_COUNT"
  shows "\<exists>c' ck t st h1. ioctl K XFER (Some (int i)) c h = Some (0, c', TxStatus ck st # WaitCompletion i t # h1) \<and>
    channel_shape phys c' \<and> status (buffer_table_p c' ! i) = outcome t st \<and>
    (\<forall>j<BUFFER_COUNT. j \<noteq> i \<longrightarrow> status (buffer_table_p c' ! j) = status (buffer_table_p c ! j))"
  using ioctl_xfer [OF assms, of K h] assms(2) by (auto 4 4)

theorem xfer_outcome_witness:
  "\<exists>c' ck t st h1. ioctl prompt_engine XFER (Some (int 3)) (sample_channel 0) [] = Some (0, c', TxStatus ck st # WaitCompletion 3 t # h1) \<and>
    channel_shape 0 c' \<and> status (buffer_table_p c' ! 3) = outcome t st \<and>
    (\<forall>j<BUFFER_COUNT. j \<noteq> 3 \<longrightarrow> status (buffer_table_p c' ! j) = status (buffer_table_p (sample_channel 0) ! j))"
  by (rule xfer_outcome [OF sample_shape]) (simp add: sizes)

text \<open>When the engine refuses to prepare a descriptor, \<open>XFER\<close> still returns 0 and still waits: on the
  completion and the cookie that the last transfer of the buffer left behind, so that the status
  it writes is the outcome of that earlier transfer, possibly \<open>PROXY_NO_ERROR\<close>.\<close>

theorem refused_transfer_waits:
  assumes "channel_shape phys c" and "i < BUFFER_COUNT" and "\<not> prep_ok K (Ioctl XFER (int i) # h)"
  shows "\<exists>c' t st. ioctl K XFER (Some (int i)) c h =
      Some (0, c', TxStatus (cookie (bdtable c ! i)) st # WaitCompletion i t #
        Prep (channel_p c) (dma_handle (bdtable c ! i)) (buf_length (buffer_table_p c ! i)) False # Ioctl XFER (int i) # h) \<and>
    status (buffer_table_p c' ! i) = outcome t st"
proof -
  have "length (bdtable c) = BUFFER_COUNT" using assms(1) by (simp add: channel_shape_def)
  then show ?thesis
    using ioctl_xfer [OF assms(1,2), of K h] assms(2,3)
    by (auto simp: start_transfer_def copy_index_def Let_def)
qed

theorem refused_transfer_waits_witness:
  "\<exists>c' t st. ioctl refusing_engine XFER (Some (int 3)) (sample_channel 0) [] =
      Some (0, c', TxStatus (cookie (bdtable (sample_channel 0) ! 3)) st # WaitCompletion 3 t #
        Prep (channel_p (sample_channel 0)) (dma_handle (bdtable (sample_channel 0) ! 3))
          (buf_length (buffer_table_p (sample_channel 0) ! 3)) False # Ioctl XFER (int 3) # []) \<and>
    status (buffer_table_p c' ! 3) = outcome t st"
  by (rule refused_transfer_waits [OF sample_shape]) (simp_all add: sizes refusing_engine_def)

section \<open>Callers that share a channel\<close>

text \<open>
  Every process that has the device open works on the same channel.  Its call first copies the
  index into the channel and then acts on the index it finds there; \<open>XFER\<close> looks at the index
  again before it waits.
\<close>

datatype caller = Outside | Copied u32 int | Started int

record proxy_system =
  channel :: dma_proxy_channel
  calls :: "call list"
  callers :: "nat \<Rightarrow> caller"

inductive ioctl_step :: "dma_engine \<Rightarrow> proxy_system \<Rightarrow> nat \<Rightarrow> proxy_system \<Rightarrow> bool" for K where
  copy: "callers s u = Outside \<Longrightarrow>
    ioctl_step K s u (s\<lparr>channel := copy_index (Some i) (channel s), calls := Ioctl cmd i # calls s,
      callers := (callers s)(u := Copied cmd i)\<rparr>)"
| start: "callers s u = Copied cmd i \<Longrightarrow> cmd = START_XFER \<or> cmd = XFER \<Longrightarrow>
    start_transfer K (channel s) (calls s) = Some (c, h) \<Longrightarrow>
    ioctl_step K s u (s\<lparr>channel := c, calls := h,
      callers := (callers s)(u := if cmd = XFER then Started i else Outside)\<rparr>)"
| wait: "callers s u = Copied FINISH_XFER i \<or> callers s u = Started i \<Longrightarrow>
    wait_for_transfer K (channel s) (calls s) = Some (c, h) \<Longrightarrow>
    ioctl_step K s u (s\<lparr>channel := c, calls := h, callers := (callers s)(u := Outside)\<rparr>)"
| other: "callers s u = Copied cmd i \<Longrightarrow> cmd \<notin> {START_XFER, FINISH_XFER, XFER} \<Longrightarrow>
    ioctl_step K s u (s\<lparr>callers := (callers s)(u := Outside)\<rparr>)"

inductive_cases ioctl_stepE: "ioctl_step K s u s'"

text \<open>A run in which nobody enters while somebody is inside.\<close>

inductive exclusive :: "dma_engine \<Rightarrow> proxy_system \<Rightarrow> proxy_system \<Rightarrow> bool" for K where
  none: "exclusive K s s"
| more: "exclusive K s0 s \<Longrightarrow> \<forall>v. v \<noteq> u \<longrightarrow> callers s v = Outside \<Longrightarrow> ioctl_step K s u s' \<Longrightarrow> exclusive K s0 s'"

text \<open>The index that a caller asked for.\<close>

fun asked :: "caller \<Rightarrow> int option" where
  "asked Outside = None"
| "asked (Copied cmd i) = Some i"
| "asked (Started i) = Some i"

lemma transfers_keep_index:
  "start_transfer K c h = Some (c', h') \<Longrightarrow> bdindex c' = bdindex c"
  "wait_for_transfer K c h = Some (c', h') \<Longrightarrow> bdindex c' = bdindex c"
  by (auto simp: start_transfer_def wait_for_transfer_def Let_def split: if_splits)

text \<open>If no process enters the driver while another is inside, every process inside acts on the index it
  asked for.\<close>

theorem exclusive_index:
  assumes "exclusive K s0 s" and "\<forall>u. callers s0 u = Outside" and "asked (callers s u) = Some i"
  shows "bdindex (channel s) = i"
  using assms
proof (induction arbitrary: u i)
  case (more s0 s v s')
  have alone: "w = v" if "asked (callers s' w) \<noteq> None" for w
    using more.hyps(3,2) that by (cases rule: ioctl_step.cases) (auto split: if_splits)
  then have u: "u = v" using more.prems by simp
  from more.hyps(3) show ?case
  proof (cases rule: ioctl_step.cases)
    case (start cmd j c h)
    then have "bdindex (channel s) = j" using more.IH [of v j] more.prems(1) by simp
    then show ?thesis using start more.prems(2) u transfers_keep_index(1) [OF start(4)] by (auto split: if_splits)
  qed (use more u in \<open>auto simp: copy_index_def\<close>)
qed simp

theorem exclusive_index_witness:
  "bdindex (channel \<lparr>channel = copy_index (Some 5) (sample_channel 0), calls = [Ioctl XFER 5],
     callers = (\<lambda>_. Outside)(7 := Copied XFER 5)\<rparr>) = 5"
proof -
  let ?s = "\<lparr>channel = sample_channel 0, calls = [], callers = (\<lambda>_. Outside)\<rparr>"
  have "ioctl_step prompt_engine ?s 7 \<lparr>channel = copy_index (Some 5) (sample_channel 0), calls = [Ioctl XFER 5],
      callers = (\<lambda>_. Outside)(7 := Copied XFER 5)\<rparr>"
    using ioctl_step.copy [of ?s 7 prompt_engine XFER 5] by simp
  from exclusive.more [OF exclusive.none _ this] show ?thesis
    by (rule exclusive_index [where u = 7]) simp_all
qed

text \<open>What the engine was given to transfer, in the order of the preparations.\<close>

definition prepared :: "call list \<Rightarrow> u64 list" where
  "prepared h = rev (concat (map (\<lambda>e. case e of Prep k a n ok \<Rightarrow> [a] | _ \<Rightarrow> []) h))"

lemma prepared_simps [simp]:
  "prepared [] = []" "prepared (Ioctl cmd i # h) = prepared h"
  "prepared (Prep k a n ok # h) = prepared h @ [a]" "prepared (InitCompletion b # h) = prepared h"
  "prepared (Submit k ck # h) = prepared h" "prepared (IssuePending k # h) = prepared h"
  "prepared (WaitCompletion b t # h) = prepared h" "prepared (TxStatus ck st # h) = prepared h"
  by (simp_all add: prepared_def)

definition ioctl_run :: "dma_engine \<Rightarrow> proxy_system \<Rightarrow> proxy_system \<Rightarrow> bool" where
  "ioctl_run K = (\<lambda>s s'. \<exists>u. ioctl_step K s u s')\<^sup>*\<^sup>*"

lemma ioctl_run_step: "ioctl_step K s u s' \<Longrightarrow> ioctl_run K s' s'' \<Longrightarrow> ioctl_run K s s''"
  unfolding ioctl_run_def by (rule converse_rtranclp_into_rtranclp) blast

lemma ioctl_run_refl: "ioctl_run K s s"
  by (simp add: ioctl_run_def)

lemma start_prepares:
  assumes "channel_shape phys c" and "i < BUFFER_COUNT" and "bdindex c = int i"
  shows "\<exists>c' h'. start_transfer K c h = Some (c', h') \<and> channel_shape phys c' \<and> bdindex c' = int i \<and>
    requests h' = requests h \<and> prepared h' = prepared h @ [phys + of_nat (sizeof_channel_buffer * i)]"
proof -
  have "dma_handle (bdtable c ! i) = phys + of_nat (sizeof_channel_buffer * i)"
    using assms(1,2) by (simp add: channel_shape_def)
  then show ?thesis
    using assms by (auto simp: start_transfer_def Let_def intro!: channel_shape_bdtable)
qed

text \<open>C40: Two processes that start a transfer on one channel at the same time can both
  act on the index of the second: buffer \<open>j\<close> is handed to the engine twice and buffer \<open>i\<close> never, and both calls return.\<close>

theorem shared_index_race:
  fixes u v :: nat
  assumes "channel_shape phys c" and "i < BUFFER_COUNT" and "j < BUFFER_COUNT" and "u \<noteq> v"
  shows "\<exists>s. ioctl_run K \<lparr>channel = c, calls = h, callers = (\<lambda>_. Outside)\<rparr> s \<and>
    callers s = (\<lambda>_. Outside) \<and>
    requests (calls s) = requests h @ [(START_XFER, int i), (START_XFER, int j)] \<and>
    prepared (calls s) = prepared h @ [phys + of_nat (sizeof_channel_buffer * j), phys + of_nat (sizeof_channel_buffer * j)]"
proof -
  let ?s0 = "\<lparr>channel = c, calls = h, callers = (\<lambda>_. Outside)\<rparr>"
  let ?h1 = "Ioctl START_XFER (int i) # h" and ?h2 = "Ioctl START_XFER (int j) # Ioctl START_XFER (int i) # h"
  let ?c1 = "copy_index (Some (int i)) c" and ?c2 = "copy_index (Some (int j)) (copy_index (Some (int i)) c)"
  let ?u1 = "(\<lambda>_. Outside)(u := Copied START_XFER (int i))"
  let ?u2 = "?u1(v := Copied START_XFER (int j))"
  have shape: "channel_shape phys ?c2" and index: "bdindex ?c2 = int j"
    using assms(1) by (simp_all add: copy_index_def)
  obtain c3 h3 where first: "start_transfer K ?c2 ?h2 = Some (c3, h3)" "channel_shape phys c3" "bdindex c3 = int j"
      "requests h3 = requests ?h2" "prepared h3 = prepared ?h2 @ [phys + of_nat (sizeof_channel_buffer * j)]"
    using start_prepares [OF shape assms(3) index] by blast
  obtain c4 h4 where second: "start_transfer K c3 h3 = Some (c4, h4)"
      "requests h4 = requests h3" "prepared h4 = prepared h3 @ [phys + of_nat (sizeof_channel_buffer * j)]"
    using start_prepares [OF first(2) assms(3) first(3)] by blast
  have 1: "ioctl_step K ?s0 u \<lparr>channel = ?c1, calls = ?h1, callers = ?u1\<rparr>"
    using ioctl_step.copy [of ?s0 u K START_XFER "int i"] by simp
  have 2: "ioctl_step K \<lparr>channel = ?c1, calls = ?h1, callers = ?u1\<rparr> v \<lparr>channel = ?c2, calls = ?h2, callers = ?u2\<rparr>"
    using ioctl_step.copy [of "\<lparr>channel = ?c1, calls = ?h1, callers = ?u1\<rparr>" v K START_XFER "int j"] assms(4) by simp
  have 3: "ioctl_step K \<lparr>channel = ?c2, calls = ?h2, callers = ?u2\<rparr> u \<lparr>channel = c3, calls = h3, callers = ?u2(u := Outside)\<rparr>"
    using ioctl_step.start [of "\<lparr>channel = ?c2, calls = ?h2, callers = ?u2\<rparr>" u START_XFER "int i" K c3 h3] first(1) assms(4) by simp
  have 4: "ioctl_step K \<lparr>channel = c3, calls = h3, callers = ?u2(u := Outside)\<rparr> v
      \<lparr>channel = c4, calls = h4, callers = ?u2(u := Outside, v := Outside)\<rparr>"
    using ioctl_step.start [of "\<lparr>channel = c3, calls = h3, callers = ?u2(u := Outside)\<rparr>" v START_XFER "int j" K c4 h4] second(1) assms(4) by simp
  have out: "?u2(u := Outside, v := Outside) = (\<lambda>_. Outside)" by (auto simp: fun_eq_iff)
  show ?thesis
    by (rule exI, rule conjI, rule ioctl_run_step [OF 1], rule ioctl_run_step [OF 2], rule ioctl_run_step [OF 3],
      rule ioctl_run_step [OF 4], rule ioctl_run_refl) (use out first second in simp)
qed

theorem shared_index_race_witness:
  "\<exists>s. ioctl_run prompt_engine \<lparr>channel = sample_channel 0, calls = [], callers = (\<lambda>_. Outside)\<rparr> s \<and>
    callers s = (\<lambda>_. Outside) \<and>
    requests (calls s) = requests [] @ [(START_XFER, int 0), (START_XFER, int 1)] \<and>
    prepared (calls s) = prepared [] @ [0 + of_nat (sizeof_channel_buffer * 1), 0 + of_nat (sizeof_channel_buffer * 1)]"
  by (rule shared_index_race [OF sample_shape, of 0 1 "0 :: nat" 1]) (simp_all add: sizes)

end
