(* ===== verification/Proxy_App.thy ===== *)
theory Proxy_App
  imports Proxy_Transfer
begin

text \<open>
  The test application of the DMA proxy (\<open>LinuxApplication/dma-proxy_test/dma-proxy-test.c\<close>):
  the size of a transfer, and the transmit and the receive thread, which keep a ring of
  buffers in flight with the requests of the driver.

  Each thread works on the channel it has mapped.  \<open>num_transfers\<close> is a global that the
  transmit thread changes when the application is told to stop; the receive thread reads it as
  a function of the history.  Printing and the comparison of received data, which only
  prints, are left out.
\<close>

section \<open>Parameters\<close>

definition TX_BUFFER_COUNT :: nat where "TX_BUFFER_COUNT = 1"

definition RX_BUFFER_COUNT :: nat where "RX_BUFFER_COUNT = 32"

definition BUFFER_INCREMENT :: nat where "BUFFER_INCREMENT = 1"

text \<open>
  The size of a transfer from the command line, as \<open>main\<close> computes it: the argument is in
  KB, the bound it is compared with is in bytes.
\<close>

definition test_size :: "int \<Rightarrow> int" where
  "test_size arg = (if arg > int BUFFER_SIZE then int BUFFER_SIZE else arg) * 1024"

definition set_length :: "nat \<Rightarrow> int \<Rightarrow> dma_proxy_channel \<Rightarrow> dma_proxy_channel" where
  "set_length n xfer_len c = c\<lparr>buffer_table_p :=
     (buffer_table_p c)[n := (buffer_table_p c ! n)\<lparr>buf_length := of_int xfer_len\<rparr>]\<rparr>"

text \<open>
  The number of words that the transmit thread fills for verification: the signed size is
  converted to an unsigned long by the division.  More words than the buffer has would
  be written outside of it.
\<close>

definition pattern_words :: "int \<Rightarrow> nat" where
  "pattern_words xfer_len = nat (xfer_len mod 2 ^ 64) div 4"

text \<open>The first \<open>m\<close> words of buffer \<open>n\<close> become \<open>k, k + 1, ...\<close>.\<close>

definition set_pattern :: "nat \<Rightarrow> nat \<Rightarrow> int \<Rightarrow> dma_proxy_channel \<Rightarrow> dma_proxy_channel" where
  "set_pattern n m k c = c\<lparr>buffer_table_p := (buffer_table_p c)[n := (buffer_table_p c ! n)\<lparr>buffer :=
     (\<lambda>i. if i < m then of_int (int i + k) else buffer (buffer_table_p c ! n) i)\<rparr>]\<rparr>"

section \<open>The receive thread\<close>

text \<open>How a thread ends: by its own, with the number of completed transfers, or with \<open>exit(1)\<close>.\<close>

datatype thread_end = Done int | Exit int

primrec rx_start ::
  "dma_engine \<Rightarrow> (call list \<Rightarrow> int) \<Rightarrow> int \<Rightarrow> nat \<Rightarrow> nat \<Rightarrow> int \<Rightarrow> dma_proxy_channel \<Rightarrow> call list \<Rightarrow>
   (int \<times> dma_proxy_channel \<times> call list) option" where
  "rx_start K num_transfers xfer_len 0 buffer_id in_progress c h = Some (in_progress, c, h)"
| "rx_start K num_transfers xfer_len (Suc n) buffer_id in_progress c h =
     (case ioctl K START_XFER (Some (int buffer_id)) (set_length buffer_id xfer_len c) h of
        None \<Rightarrow> None
      | Some (rc, c1, h1) \<Rightarrow>
          if in_progress + 1 \<ge> num_transfers h1 then Some (in_progress + 1, c1, h1)
          else rx_start K num_transfers xfer_len n (buffer_id + BUFFER_INCREMENT) (in_progress + 1) c1 h1)"

partial_function (option) rx_loop ::
  "dma_engine \<Rightarrow> (call list \<Rightarrow> int) \<Rightarrow> nat \<Rightarrow> int \<Rightarrow> int \<Rightarrow> dma_proxy_channel \<Rightarrow> call list \<Rightarrow>
   (thread_end \<times> dma_proxy_channel \<times> call list) option" where
  "rx_loop K num_transfers buffer_id in_progress rx_counter c h =
     (case ioctl K FINISH_XFER (Some (int buffer_id)) c h of
        None \<Rightarrow> None
      | Some (rc, c1, h1) \<Rightarrow>
          if status (buffer_table_p c1 ! buffer_id) \<noteq> PROXY_NO_ERROR then Some (Exit 1, c1, h1)
          else if rx_counter + 1 \<ge> num_transfers h1 then Some (Done (rx_counter + 1), c1, h1)
          else if (rx_counter + 1) + (in_progress - 1) \<ge> num_transfers h1
          then rx_loop K num_transfers ((buffer_id + BUFFER_INCREMENT) mod RX_BUFFER_COUNT)
                 (in_progress - 1) (rx_counter + 1) c1 h1
          else (case ioctl K START_XFER (Some (int buffer_id)) c1 h1 of
                  None \<Rightarrow> None
                | Some (rc, c2, h2) \<Rightarrow>
                    rx_loop K num_transfers ((buffer_id + BUFFER_INCREMENT) mod RX_BUFFER_COUNT)
                      in_progress (rx_counter + 1) c2 h2))"

definition rx_thread ::
  "dma_engine \<Rightarrow> (call list \<Rightarrow> int) \<Rightarrow> int \<Rightarrow> dma_proxy_channel \<Rightarrow> call list \<Rightarrow>
   (thread_end \<times> dma_proxy_channel \<times> call list) option" where
  "rx_thread K num_transfers xfer_len c h =
     (case rx_start K num_transfers xfer_len RX_BUFFER_COUNT 0 0 c h of
        None \<Rightarrow> None
      | Some (in_progress, c1, h1) \<Rightarrow> rx_loop K num_transfers 0 in_progress 0 c1 h1)"

section \<open>The transmit thread\<close>

primrec tx_start ::
  "dma_engine \<Rightarrow> int \<Rightarrow> int \<Rightarrow> bool \<Rightarrow> nat \<Rightarrow> nat \<Rightarrow> int \<Rightarrow> dma_proxy_channel \<Rightarrow> call list \<Rightarrow>
   (int \<times> dma_proxy_channel \<times> call list) option" where
  "tx_start K num_transfers xfer_len verify 0 buffer_id in_progress c h = Some (in_progress, c, h)"
| "tx_start K num_transfers xfer_len verify (Suc n) buffer_id in_progress c h =
     (let c0 = set_length buffer_id xfer_len c;
          c0 = (if verify then set_pattern buffer_id 1 in_progress c0 else c0)
      in case ioctl K START_XFER (Some (int buffer_id)) c0 h of
           None \<Rightarrow> None
         | Some (rc, c1, h1) \<Rightarrow>
             if in_progress + 1 \<ge> num_transfers then Some (in_progress + 1, c1, h1)
             else tx_start K num_transfers xfer_len verify n (buffer_id + BUFFER_INCREMENT) (in_progress + 1) c1 h1)"

text \<open>
  The loop.  \<open>stop\<close> is the flag of the signal handler, read as a function of the history;
  the first time it is seen, the number of transfers is set to the completed ones and one
  round of receive buffers more.
\<close>

partial_function (option) tx_loop ::
  "dma_engine \<Rightarrow> (call list \<Rightarrow> bool) \<Rightarrow> int \<Rightarrow> bool \<Rightarrow> int \<Rightarrow> bool \<Rightarrow> nat \<Rightarrow> int \<Rightarrow> int \<Rightarrow> dma_proxy_channel \<Rightarrow> call list \<Rightarrow>
   (thread_end \<times> dma_proxy_channel \<times> call list) option" where
  "tx_loop K stop xfer_len verify num_transfers stop_in_progress buffer_id in_progress counter c h =
     (case ioctl K FINISH_XFER (Some (int buffer_id)) c h of
        None \<Rightarrow> None
      | Some (rc, c1, h1) \<Rightarrow>
          if counter + 1 \<ge> num_transfers then Some (Done (counter + 1), c1, h1)
          else let stopping = (stop h1 \<and> \<not> stop_in_progress);
                   num' = (if stopping then counter + 1 + int RX_BUFFER_COUNT else num_transfers);
                   next = (buffer_id + BUFFER_INCREMENT) mod TX_BUFFER_COUNT
               in if (counter + 1) + (in_progress - 1) \<ge> num'
                  then tx_loop K stop xfer_len verify num' (stop_in_progress \<or> stopping) next
                         (in_progress - 1) (counter + 1) c1 h1
                  else if verify \<and> pattern_words xfer_len > BUFFER_SIZE div 4 then None
                  else let c2 = (if verify then set_pattern buffer_id (pattern_words xfer_len)
                                   (int (TX_BUFFER_COUNT div BUFFER_INCREMENT) - 1 + (counter + 1)) c1 else c1)
                       in case ioctl K START_XFER (Some (int buffer_id)) c2 h1 of
                            None \<Rightarrow> None
                          | Some (rc, c3, h3) \<Rightarrow>
                              tx_loop K stop xfer_len verify num' (stop_in_progress \<or> stopping) next
                                in_progress (counter + 1) c3 h3)"

definition tx_thread ::
  "dma_engine \<Rightarrow> (call list \<Rightarrow> bool) \<Rightarrow> int \<Rightarrow> int \<Rightarrow> bool \<Rightarrow> dma_proxy_channel \<Rightarrow> call list \<Rightarrow>
   (thread_end \<times> dma_proxy_channel \<times> call list) option" where
  "tx_thread K stop num_transfers xfer_len verify c h =
     (case tx_start K num_transfers xfer_len verify TX_BUFFER_COUNT 0 0 c h of
        None \<Rightarrow> None
      | Some (in_progress, c1, h1) \<Rightarrow> tx_loop K stop xfer_len verify num_transfers False 0 in_progress 0 c1 h1)"

section \<open>The ring schedule\<close>

text \<open>
  The requests of a thread that moves \<open>N\<close> transfers through a ring of \<open>count\<close> buffers: the
  first buffers are started, then each is finished in turn and started again as long as
  transfers are left.
\<close>

definition ring_turn :: "nat \<Rightarrow> nat \<Rightarrow> nat \<Rightarrow> (u32 \<times> int) list" where
  "ring_turn count N k = (FINISH_XFER, int (k mod count)) #
     (if k + count < N then [(START_XFER, int (k mod count))] else [])"

definition ring_schedule :: "nat \<Rightarrow> nat \<Rightarrow> (u32 \<times> int) list" where
  "ring_schedule count N = map (\<lambda>b. (START_XFER, int b)) [0..<min N count] @
     concat (map (ring_turn count N) [0..<N])"

lemma set_length_shape: "channel_shape phys c \<Longrightarrow> channel_shape phys (set_length n m c)"
  by (simp add: channel_shape_def set_length_def)

lemma rx_start_schedule:
  assumes K: "reliable K" and "channel_shape phys c" and "b < min N RX_BUFFER_COUNT"
  shows "\<exists>c' h'. rx_start K (\<lambda>_. int N) len (RX_BUFFER_COUNT - b) b (int b) c h = Some (int (min N RX_BUFFER_COUNT), c', h') \<and>
    channel_shape phys c' \<and> requests h' = requests h @ map (\<lambda>b. (START_XFER, int b)) [b..<min N RX_BUFFER_COUNT]"
  using assms(2-)
proof (induction "RX_BUFFER_COUNT - b" arbitrary: b c h)
  case (Suc n)
  have b: "b < BUFFER_COUNT" "b < RX_BUFFER_COUNT" "b < N" using Suc.prems by (simp_all add: RX_BUFFER_COUNT_def BUFFER_COUNT_def)
  obtain c1 h1 where start: "ioctl K START_XFER (Some (int b)) (set_length b len c) h = Some (0, c1, h1)" "channel_shape phys c1"
      "requests h1 = requests h @ [(START_XFER, int b)]"
    using start_request [OF K set_length_shape [OF Suc.prems(1)] b(1)] by blast
  have n: "RX_BUFFER_COUNT - b = Suc n" "n = RX_BUFFER_COUNT - Suc b" using Suc.hyps(2) by simp_all
  have upt: "[b..<min N RX_BUFFER_COUNT] = b # [Suc b..<min N RX_BUFFER_COUNT]"
    using Suc.prems(2) by (simp add: upt_conv_Cons)
  show ?case
  proof (cases "Suc b < min N RX_BUFFER_COUNT")
    case True
    from Suc.hyps(1) [OF n(2) start(2) True, of h1] obtain c' h' where
      "rx_start K (\<lambda>_. int N) len n (Suc b) (int (Suc b)) c1 h1 = Some (int (min N RX_BUFFER_COUNT), c', h')"
      "channel_shape phys c'" "requests h' = requests h1 @ map (\<lambda>b. (START_XFER, int b)) [Suc b..<min N RX_BUFFER_COUNT]"
      using n(2) by auto
    then show ?thesis
      using True start n(1) upt by (simp add: BUFFER_INCREMENT_def add.commute)
  next
    case False
    then have last: "min N RX_BUFFER_COUNT = Suc b" using Suc.prems(2) by linarith
    show ?thesis
    proof (cases "N \<le> Suc b")
      case True
      then show ?thesis using start n(1) last by (simp add: upt)
    next
      case N: False
      then have "n = 0" using last n by linarith
      then show ?thesis using start n(1) last N upt by simp
    qed
  qed
qed simp

lemma rx_loop_schedule:
  assumes K: "reliable K" and "channel_shape phys c" and "cnt < N"
  shows "\<exists>c' h'. rx_loop K (\<lambda>_. int N) (cnt mod RX_BUFFER_COUNT) (int (min (N - cnt) RX_BUFFER_COUNT)) (int cnt) c h =
      Some (Done (int N), c', h') \<and> channel_shape phys c' \<and>
    requests h' = requests h @ concat (map (ring_turn RX_BUFFER_COUNT N) [cnt..<N])"
  using assms(2-)
proof (induction "N - cnt" arbitrary: cnt c h)
  case (Suc n)
  let ?b = "cnt mod RX_BUFFER_COUNT"
  have b: "?b < BUFFER_COUNT" by (simp add: RX_BUFFER_COUNT_def BUFFER_COUNT_def)
  obtain c1 h1 where fin: "ioctl K FINISH_XFER (Some (int ?b)) c h = Some (0, c1, h1)" "channel_shape phys c1"
      "requests h1 = requests h @ [(FINISH_XFER, int ?b)]" "status (buffer_table_p c1 ! ?b) = PROXY_NO_ERROR"
    using finish_request [OF K Suc.prems(1) b] by blast
  have upt: "[cnt..<N] = cnt # [Suc cnt..<N]" using Suc.prems(2) by (simp add: upt_conv_Cons)
  have flip: "(BUFFER_INCREMENT + ?b) mod RX_BUFFER_COUNT = Suc cnt mod RX_BUFFER_COUNT"
    by (simp add: BUFFER_INCREMENT_def mod_Suc_eq)
  show ?case
  proof (cases "Suc cnt < N")
    case False
    then have last: "N = Suc cnt" using Suc.prems(2) by simp
    then show ?thesis
      using fin by (subst rx_loop.simps) (simp add: ring_turn_def RX_BUFFER_COUNT_def)
  next
    case more: True
    have IH: "\<exists>c' h'. rx_loop K (\<lambda>_. int N) (Suc cnt mod RX_BUFFER_COUNT) (int (min (N - Suc cnt) RX_BUFFER_COUNT)) (int (Suc cnt)) c2 h2 =
        Some (Done (int N), c', h') \<and> channel_shape phys c' \<and>
      requests h' = requests h2 @ concat (map (ring_turn RX_BUFFER_COUNT N) [Suc cnt..<N])"
      if "channel_shape phys c2" for c2 h2
      by (rule Suc.hyps(1)) (use Suc.hyps(2) that more in auto)
    show ?thesis
    proof (cases "cnt + RX_BUFFER_COUNT < N")
      case True
      then have ip: "min (N - cnt) RX_BUFFER_COUNT = RX_BUFFER_COUNT" "min (N - Suc cnt) RX_BUFFER_COUNT = RX_BUFFER_COUNT" by auto
      obtain c2 h2 where start: "ioctl K START_XFER (Some (int ?b)) c1 h1 = Some (0, c2, h2)" "channel_shape phys c2"
          "requests h2 = requests h1 @ [(START_XFER, int ?b)]"
        using start_request [OF K fin(2) b] by blast
      from IH [OF start(2), of h2] obtain c' h' where
        "rx_loop K (\<lambda>_. int N) (Suc cnt mod RX_BUFFER_COUNT) (int RX_BUFFER_COUNT) (int (Suc cnt)) c2 h2 = Some (Done (int N), c', h')"
        "channel_shape phys c'" "requests h' = requests h2 @ concat (map (ring_turn RX_BUFFER_COUNT N) [Suc cnt..<N])"
        unfolding ip by blast
      then show ?thesis
        using fin start more True ip upt
        by (subst rx_loop.simps) (simp add: flip ring_turn_def add.commute)
    next
      case False
      then have ip: "min (N - cnt) RX_BUFFER_COUNT = N - cnt" "min (N - Suc cnt) RX_BUFFER_COUNT = N - Suc cnt" by auto
      from IH [OF fin(2), of h1] obtain c' h' where
        "rx_loop K (\<lambda>_. int N) (Suc cnt mod RX_BUFFER_COUNT) (int (N - Suc cnt)) (int (Suc cnt)) c1 h1 = Some (Done (int N), c', h')"
        "channel_shape phys c'" "requests h' = requests h1 @ concat (map (ring_turn RX_BUFFER_COUNT N) [Suc cnt..<N])"
        unfolding ip by blast
      moreover have "int (N - cnt) - 1 = int (N - Suc cnt)" using more by simp
      ultimately show ?thesis
        using fin more False ip upt
        by (subst rx_loop.simps) (simp add: flip ring_turn_def add.commute of_nat_diff diff_diff_eq)
    qed
  qed
qed simp

lemma rx_thread_ring:
  assumes K: "reliable K" and "channel_shape phys c" and "0 < N"
  shows "\<exists>c' h'. rx_thread K (\<lambda>_. int N) len c h = Some (Done (int N), c', h') \<and> channel_shape phys c' \<and>
    requests h' = requests h @ ring_schedule RX_BUFFER_COUNT N"
proof -
  obtain c1 h1 where start: "rx_start K (\<lambda>_. int N) len RX_BUFFER_COUNT 0 0 c h = Some (int (min N RX_BUFFER_COUNT), c1, h1)"
      "channel_shape phys c1" "requests h1 = requests h @ map (\<lambda>b. (START_XFER, int b)) [0..<min N RX_BUFFER_COUNT]"
    using rx_start_schedule [OF K assms(2), of 0 N len h] assms(3) by (auto simp: RX_BUFFER_COUNT_def)
  from rx_loop_schedule [OF K start(2) assms(3), of h1] show ?thesis
    using start by (auto simp: rx_thread_def ring_schedule_def)
qed


text \<open>Both kinds of request go through the buffers of the ring in turn, one for every transfer.\<close>

definition buffers_of :: "u32 \<Rightarrow> (u32 \<times> int) list \<Rightarrow> int list" where
  "buffers_of cmd rs = map snd (filter (\<lambda>r. fst r = cmd) rs)"

lemma buffers_of_simps [simp]:
  "buffers_of cmd [] = []" "buffers_of cmd (r # rs) = (if fst r = cmd then [snd r] else []) @ buffers_of cmd rs"
  "buffers_of cmd (rs @ rs') = buffers_of cmd rs @ buffers_of cmd rs'"
  by (simp_all add: buffers_of_def)

lemma buffers_of_starts [simp]:
  "buffers_of START_XFER (map (\<lambda>b. (START_XFER, f b)) xs) = map f xs"
  "buffers_of FINISH_XFER (map (\<lambda>b. (START_XFER, f b)) xs) = []"
  by (induction xs) simp_all

lemma finished_turns: "buffers_of FINISH_XFER (concat (map (ring_turn count N) ks)) = map (\<lambda>k. int (k mod count)) ks"
  by (induction ks) (simp_all add: ring_turn_def)

lemma started_turns: "a + n = N \<Longrightarrow>
    buffers_of START_XFER (concat (map (ring_turn count N) [a..<N])) = map (\<lambda>k. int (k mod count)) [a + count..<N]"
proof (induction n arbitrary: a)
  case (Suc n)
  have a: "[a..<N] = a # [Suc a..<N]" using Suc.prems by (simp add: upt_conv_Cons)
  show ?case
  proof (cases "a + count < N")
    case True
    then have "[a + count..<N] = (a + count) # [Suc a + count..<N]" by (simp add: upt_conv_Cons)
    then show ?thesis using Suc.IH [of "Suc a"] Suc.prems True by (simp add: a ring_turn_def)
  next
    case False
    then show ?thesis using Suc.IH [of "Suc a"] Suc.prems by (simp add: a ring_turn_def)
  qed
qed simp

lemma ring_schedule_buffers:
  "buffers_of FINISH_XFER (ring_schedule count N) = map (\<lambda>k. int (k mod count)) [0..<N]"
  "0 < count \<Longrightarrow> buffers_of START_XFER (ring_schedule count N) = map (\<lambda>k. int (k mod count)) [0..<N]"
proof -
  show "buffers_of FINISH_XFER (ring_schedule count N) = map (\<lambda>k. int (k mod count)) [0..<N]"
    by (simp add: ring_schedule_def finished_turns)
  assume "0 < count"
  have first: "map int [0..<min N count] = map (\<lambda>k. int (k mod count)) [0..<min N count]" by simp
  have all: "[0..<N] = [0..<min N count] @ [count..<N]"
    using upt_add_eq_append [of 0 count "N - count"] by (cases "N \<le> count") (simp_all add: min_def)
  have turns: "buffers_of START_XFER (concat (map (ring_turn count N) [0..<N])) = map (\<lambda>k. int (k mod count)) [count..<N]"
    using started_turns [of 0 N N count] by simp
  have "map (\<lambda>k. int (k mod count)) [0..<N] = map int [0..<min N count] @ map (\<lambda>k. int (k mod count)) [count..<N]"
    using first arg_cong [OF all, of "map (\<lambda>k. int (k mod count))"] by (simp only: map_append)
  then show "buffers_of START_XFER (ring_schedule count N) = map (\<lambda>k. int (k mod count)) [0..<N]"
    unfolding ring_schedule_def by (simp only: buffers_of_simps(3) buffers_of_starts turns)
qed

section \<open>The transmit schedule\<close>

lemma set_pattern_shape: "channel_shape phys c \<Longrightarrow> channel_shape phys (set_pattern n m k c)"
  by (simp add: channel_shape_def set_pattern_def)

lemma tx_turn:
  assumes K: "reliable K" and "channel_shape phys c" and "pattern_words len \<le> BUFFER_SIZE div 4"
    and "\<And>h. stop h = seen (requests h)"
  shows "cnt + 1 \<ge> num \<Longrightarrow> \<exists>c' h'. tx_loop K stop len v num sip 0 1 cnt c h = Some (Done (cnt + 1), c', h') \<and>
      channel_shape phys c' \<and> requests h' = requests h @ [(FINISH_XFER, 0)]"
    and "sip \<or> \<not> seen (requests h @ [(FINISH_XFER, 0)]) \<Longrightarrow> cnt + 1 < num \<Longrightarrow>
      \<exists>c' h'. tx_loop K stop len v num sip 0 1 cnt c h = tx_loop K stop len v num sip 0 1 (cnt + 1) c' h' \<and>
      channel_shape phys c' \<and> requests h' = requests h @ [(FINISH_XFER, 0), (START_XFER, 0)]"
    and "\<not> sip \<Longrightarrow> seen (requests h @ [(FINISH_XFER, 0)]) \<Longrightarrow> cnt + 1 < num \<Longrightarrow>
      \<exists>c' h'. tx_loop K stop len v num sip 0 1 cnt c h =
        tx_loop K stop len v (cnt + 1 + int RX_BUFFER_COUNT) True 0 1 (cnt + 1) c' h' \<and>
      channel_shape phys c' \<and> requests h' = requests h @ [(FINISH_XFER, 0), (START_XFER, 0)]"
proof -
  have b: "0 < BUFFER_COUNT" by (simp add: BUFFER_COUNT_def)
  obtain c1 h1 where fin: "ioctl K FINISH_XFER (Some 0) c h = Some (0, c1, h1)" "channel_shape phys c1"
      "requests h1 = requests h @ [(FINISH_XFER, 0)]"
    using finish_request [OF K assms(2) b, of h] by auto
  have seen: "stop h1 = seen (requests h @ [(FINISH_XFER, 0)])" using assms(4) fin(3) by simp
  have start: "\<exists>c' h'. ioctl K START_XFER (Some 0) c2 h1 = Some (0, c', h') \<and> channel_shape phys c' \<and>
      requests h' = requests h @ [(FINISH_XFER, 0), (START_XFER, 0)]" if "channel_shape phys c2" for c2
    using start_request [OF K that b, of h1] fin(3) by auto
  let ?c2 = "if v then set_pattern 0 (pattern_words len) (int (TX_BUFFER_COUNT div BUFFER_INCREMENT) - 1 + (cnt + 1)) c1 else c1"
  have "channel_shape phys ?c2" using fin(2) set_pattern_shape by simp
  from start [OF this] obtain c3 h3 where again: "ioctl K START_XFER (Some 0) ?c2 h1 = Some (0, c3, h3)"
      "channel_shape phys c3" "requests h3 = requests h @ [(FINISH_XFER, 0), (START_XFER, 0)]"
    by blast
  have flip: "BUFFER_INCREMENT mod TX_BUFFER_COUNT = 0" by (simp add: TX_BUFFER_COUNT_def)
  have pattern: "\<not> BUFFER_SIZE div 4 < pattern_words len" using assms(3) by simp
  show "\<exists>c' h'. tx_loop K stop len v num sip 0 1 cnt c h = Some (Done (cnt + 1), c', h') \<and>
      channel_shape phys c' \<and> requests h' = requests h @ [(FINISH_XFER, 0)]" if "cnt + 1 \<ge> num"
    using fin that by (subst tx_loop.simps) simp
  show "\<exists>c' h'. tx_loop K stop len v num sip 0 1 cnt c h = tx_loop K stop len v num sip 0 1 (cnt + 1) c' h' \<and>
      channel_shape phys c' \<and> requests h' = requests h @ [(FINISH_XFER, 0), (START_XFER, 0)]"
    if "sip \<or> \<not> seen (requests h @ [(FINISH_XFER, 0)])" "cnt + 1 < num"
  proof -
    have "tx_loop K stop len v num sip 0 1 cnt c h = tx_loop K stop len v num sip 0 1 (cnt + 1) c3 h3"
      using fin(1) that seen again(1) flip pattern
      by (subst tx_loop.simps) (auto simp: Let_def)
    then show ?thesis using again(2,3) by blast
  qed
  show "\<exists>c' h'. tx_loop K stop len v num sip 0 1 cnt c h =
        tx_loop K stop len v (cnt + 1 + int RX_BUFFER_COUNT) True 0 1 (cnt + 1) c' h' \<and>
      channel_shape phys c' \<and> requests h' = requests h @ [(FINISH_XFER, 0), (START_XFER, 0)]"
    if "\<not> sip" "seen (requests h @ [(FINISH_XFER, 0)])" "cnt + 1 < num"
  proof -
    have "tx_loop K stop len v num sip 0 1 cnt c h =
        tx_loop K stop len v (cnt + 1 + int RX_BUFFER_COUNT) True 0 1 (cnt + 1) c3 h3"
      using fin(1) that seen again(1) flip pattern
      by (subst tx_loop.simps) (auto simp: Let_def RX_BUFFER_COUNT_def)
    then show ?thesis using again(2,3) by blast
  qed
qed

text \<open>A stop that arrives with the \<open>j\<close>-th completion after \<open>h0\<close>.\<close>

definition completions :: "(u32 \<times> int) list \<Rightarrow> nat" where
  "completions rs = length (buffers_of FINISH_XFER rs)"

lemma completions_simps [simp]:
  "completions [] = 0" "completions (r # rs) = (if fst r = FINISH_XFER then Suc (completions rs) else completions rs)"
  "completions (rs @ rs') = completions rs + completions rs'"
  by (simp_all add: completions_def)

definition stop_after :: "nat \<Rightarrow> call list \<Rightarrow> call list \<Rightarrow> bool" where
  "stop_after j h0 h \<longleftrightarrow> completions (requests h0) + j \<le> completions (requests h)"

lemma tx_loop_rest:
  assumes K: "reliable K" and "channel_shape phys c" and pattern: "pattern_words len \<le> BUFFER_SIZE div 4"
    and "cnt < N" and quiet: "sip \<or> N \<le> j" and "completions (requests h) = completions (requests h0) + cnt"
  shows "\<exists>c' h'. tx_loop K (stop_after j h0) len v (int N) sip 0 1 (int cnt) c h = Some (Done (int N), c', h') \<and>
    channel_shape phys c' \<and> requests h' = requests h @ concat (map (ring_turn TX_BUFFER_COUNT N) [cnt..<N])"
  using assms(2,4,6)
proof (induction "N - cnt" arbitrary: cnt c h)
  case (Suc n)
  note turn = tx_turn [where stop = "stop_after j h0" and cnt = "int cnt" and num = "int N" and v = v and sip = sip and h = h,
    OF K Suc.prems(1) pattern stop_after_def]
  have upt: "[cnt..<N] = cnt # [Suc cnt..<N]" using Suc.prems(2) by (simp add: upt_conv_Cons)
  show ?case
  proof (cases "Suc cnt < N")
    case True
    have "sip \<or> \<not> completions (requests h0) + j \<le> completions (requests h @ [(FINISH_XFER, 0)])"
      using quiet True Suc.prems(3) by auto
    from turn(2) [OF this] True obtain c1 h1 where
      step: "tx_loop K (stop_after j h0) len v (int N) sip 0 1 (int cnt) c h =
        tx_loop K (stop_after j h0) len v (int N) sip 0 1 (int (Suc cnt)) c1 h1" "channel_shape phys c1"
        "requests h1 = requests h @ [(FINISH_XFER, 0), (START_XFER, 0)]"
      by (auto simp: add.commute)
    from Suc.hyps(1) [OF _ step(2) True, of h1] Suc.hyps(2) Suc.prems(3) step(1,3) show ?thesis
      using True by (auto simp: upt ring_turn_def TX_BUFFER_COUNT_def)
  next
    case False
    then have "N = Suc cnt" using Suc.prems(2) by simp
    with turn(1) show ?thesis by (auto simp: ring_turn_def TX_BUFFER_COUNT_def add.commute)
  qed
qed simp

lemma tx_loop_stopped:
  assumes K: "reliable K" and "channel_shape phys c" and pattern: "pattern_words len \<le> BUFFER_SIZE div 4"
    and "cnt < j" and "j < N" and "completions (requests h) = completions (requests h0) + cnt"
  shows "\<exists>c' h'. tx_loop K (stop_after j h0) len v (int N) False 0 1 (int cnt) c h = Some (Done (int (j + RX_BUFFER_COUNT)), c', h') \<and>
    channel_shape phys c' \<and>
    requests h' = requests h @ concat (map (ring_turn TX_BUFFER_COUNT (j + RX_BUFFER_COUNT)) [cnt..<j + RX_BUFFER_COUNT])"
  using assms(2,4,6)
proof (induction "j - cnt" arbitrary: cnt c h)
  case (Suc n)
  note turn = tx_turn [where stop = "stop_after j h0" and cnt = "int cnt" and num = "int N" and v = v and sip = False and h = h,
    OF K Suc.prems(1) pattern stop_after_def]
  have upt: "[cnt..<j + RX_BUFFER_COUNT] = cnt # [Suc cnt..<j + RX_BUFFER_COUNT]"
    using Suc.prems(2) by (simp add: upt_conv_Cons)
  have more: "int cnt + 1 < int N" using Suc.prems(2) assms(5) by simp
  have first: "ring_turn TX_BUFFER_COUNT (j + RX_BUFFER_COUNT) cnt = [(FINISH_XFER, 0), (START_XFER, 0)]"
    using Suc.prems(2) by (simp add: ring_turn_def TX_BUFFER_COUNT_def RX_BUFFER_COUNT_def)
  show ?case
  proof (cases "Suc cnt < j")
    case True
    then have "\<not> completions (requests h0) + j \<le> completions (requests h @ [(FINISH_XFER, 0)])"
      using Suc.prems(3) by simp
    with turn(2) more obtain c1 h1 where
      step: "tx_loop K (stop_after j h0) len v (int N) False 0 1 (int cnt) c h =
        tx_loop K (stop_after j h0) len v (int N) False 0 1 (int (Suc cnt)) c1 h1" "channel_shape phys c1"
        "requests h1 = requests h @ [(FINISH_XFER, 0), (START_XFER, 0)]"
      by (auto simp: add.commute)
    from Suc.hyps(1) [OF _ step(2) True, of h1] Suc.hyps(2) Suc.prems(3) step(1,3) show ?thesis
      by (auto simp: upt first)
  next
    case False
    then have j: "j = Suc cnt" using Suc.prems(2) by simp
    then have upt': "[cnt..<33 + cnt] = cnt # [Suc cnt..<33 + cnt]"
      and first': "ring_turn TX_BUFFER_COUNT (33 + cnt) cnt = [(FINISH_XFER, 0), (START_XFER, 0)]"
      using upt first by (simp_all add: RX_BUFFER_COUNT_def add.commute)
    from j have "completions (requests h0) + j \<le> completions (requests h @ [(FINISH_XFER, 0)])"
      using Suc.prems(3) by simp
    with turn(3) more obtain c1 h1 where
      step: "tx_loop K (stop_after j h0) len v (int N) False 0 1 (int cnt) c h =
        tx_loop K (stop_after j h0) len v (int (j + RX_BUFFER_COUNT)) True 0 1 (int j) c1 h1" "channel_shape phys c1"
        "requests h1 = requests h @ [(FINISH_XFER, 0), (START_XFER, 0)]"
      by (auto simp: add_ac j)
    from tx_loop_rest [OF K step(2) pattern, of j "j + RX_BUFFER_COUNT" True j h1 h0] step(1,3) Suc.prems(3) show ?thesis
      using j by (auto simp: upt' first' RX_BUFFER_COUNT_def)
  qed
qed simp

section \<open>Properties\<close>

text \<open>C36: The receive thread, on an engine that completes every transfer, ends after exactly \<open>N\<close> transfers.  It
  starts and finishes the buffers of its ring in turn, transfer \<open>k\<close> in buffer \<open>k mod RX_BUFFER_COUNT\<close>, and
  finishes every transfer that it started; its requests are the ring schedule, in which a buffer is finished before
  it is started again.\<close>

theorem rx_thread_schedule:
  assumes "reliable K" and "channel_shape phys c" and "0 < N"
  shows "\<exists>c' h' rs. rx_thread K (\<lambda>_. int N) len c h = Some (Done (int N), c', h') \<and> channel_shape phys c' \<and>
    requests h' = requests h @ rs \<and> rs = ring_schedule RX_BUFFER_COUNT N \<and>
    buffers_of START_XFER rs = map (\<lambda>k. int (k mod RX_BUFFER_COUNT)) [0..<N] \<and>
    buffers_of FINISH_XFER rs = map (\<lambda>k. int (k mod RX_BUFFER_COUNT)) [0..<N]"
proof -
  have "0 < RX_BUFFER_COUNT" by (simp add: RX_BUFFER_COUNT_def)
  then show ?thesis
    using rx_thread_ring [OF assms, of len h] ring_schedule_buffers by auto
qed

theorem rx_thread_schedule_witness:
  "\<exists>c' h' rs. rx_thread prompt_engine (\<lambda>_. int 40) 1024 (sample_channel 0) [] = Some (Done (int 40), c', h') \<and> channel_shape 0 c' \<and>
    requests h' = requests [] @ rs \<and> rs = ring_schedule RX_BUFFER_COUNT 40 \<and>
    buffers_of START_XFER rs = map (\<lambda>k. int (k mod RX_BUFFER_COUNT)) [0..<40] \<and>
    buffers_of FINISH_XFER rs = map (\<lambda>k. int (k mod RX_BUFFER_COUNT)) [0..<40]"
  by (rule rx_thread_schedule [OF prompt_reliable sample_shape]) simp

text \<open>C37: The transmit thread, with the stop seen after the \<open>j\<close>-th completed transfer: it ends after \<open>N\<close> transfers
  when the stop comes too late, and after \<open>j + RX_BUFFER_COUNT\<close> transfers otherwise, however small \<open>N\<close> is;
  its requests are the ring schedule of that many transfers, so that everything it started it has also finished.\<close>

theorem tx_thread_schedule:
  assumes K: "reliable K" and "channel_shape phys c" and "pattern_words len \<le> BUFFER_SIZE div 4" and "0 < N" and "0 < j"
    and "n = (if j < N then j + RX_BUFFER_COUNT else N)"
  shows "\<exists>c' h'. tx_thread K (stop_after j h) (int N) len v c h = Some (Done (int n), c', h') \<and> channel_shape phys c' \<and>
    requests h' = requests h @ ring_schedule TX_BUFFER_COUNT n"
proof -
  let ?c = "if v then set_pattern 0 1 0 (set_length 0 len c) else set_length 0 len c"
  have "channel_shape phys ?c" using assms(2) by (simp add: set_length_shape set_pattern_shape)
  from start_request [OF K this, of 0 h] obtain c1 h1 where
    start: "ioctl K START_XFER (Some 0) ?c h = Some (0, c1, h1)" "channel_shape phys c1" "requests h1 = requests h @ [(START_XFER, 0)]"
    by (auto simp: BUFFER_COUNT_def)
  have one: "min n 1 = 1" using assms(4,6) by (auto simp: RX_BUFFER_COUNT_def)
  have "tx_thread K (stop_after j h) (int N) len v c h = tx_loop K (stop_after j h) len v (int N) False 0 1 (int 0) c1 h1"
    using start(1) by (simp add: tx_thread_def TX_BUFFER_COUNT_def Let_def)
  moreover have "\<exists>c' h'. tx_loop K (stop_after j h) len v (int N) False 0 1 (int 0) c1 h1 = Some (Done (int n), c', h') \<and>
      channel_shape phys c' \<and> requests h' = requests h1 @ concat (map (ring_turn TX_BUFFER_COUNT n) [0..<n])"
  proof (cases "j < N")
    case True
    then show ?thesis using tx_loop_stopped [OF K start(2) assms(3,5) True, of h1 h v] start(3) assms(6) by simp
  next
    case False
    then show ?thesis using tx_loop_rest [OF K start(2) assms(3,4), of False j h1 h v] start(3) assms(6) by simp
  qed
  ultimately show ?thesis using start(3) one by (simp add: ring_schedule_def TX_BUFFER_COUNT_def)
qed

theorem tx_thread_schedule_witness:
  "\<exists>c' h'. tx_thread prompt_engine (stop_after 2 []) (int 5) 1024 False (sample_channel 0) [] = Some (Done (int 34), c', h') \<and>
    channel_shape 0 c' \<and> requests h' = requests [] @ ring_schedule TX_BUFFER_COUNT 34"
  by (rule tx_thread_schedule [OF prompt_reliable sample_shape])
    (simp_all add: pattern_words_def BUFFER_SIZE_def RX_BUFFER_COUNT_def)

text \<open>The size that the application takes from its command line, in KB, keeps a transfer inside its buffer exactly
  if it is at most 128: sizes from 129 on are not cut down to the size of the
  buffer, because the number of KB is compared with the size in bytes, and the engine is told to go past the buffer.\<close>

theorem command_line_size:
  assumes "channel_shape phys c" and "unat phys + sizeof_channel_buffer * BUFFER_COUNT \<le> 2 ^ 64" and "i < BUFFER_COUNT"
    and "0 \<le> arg"
  shows "\<exists>a len ok c' t. ioctl K START_XFER (Some (int i)) (set_length i (test_size arg) c) h =
      Some (0, c', t @ Prep (channel_p c) a len ok # Ioctl START_XFER (int i) # h) \<and>
    (dma_area a len \<subseteq> data_area phys i \<longleftrightarrow> arg \<le> 128)"
proof -
  have "0 \<le> test_size arg" "test_size arg < 2 ^ 32"
    using assms(4) by (auto simp: test_size_def BUFFER_SIZE_def)
  then have len: "unat (of_int (test_size arg) :: u32) = nat (test_size arg)"
    by (simp add: unsigned_of_int take_bit_int_eq_self)
  have "buf_length (buffer_table_p (set_length i (test_size arg) c) ! i) = of_int (test_size arg)"
    using assms(1,3) by (simp add: set_length_def channel_shape_def)
  moreover have "channel_p (set_length i (test_size arg) c) = channel_p c" by (simp add: set_length_def)
  moreover have "dma_area (phys + of_nat (sizeof_channel_buffer * i)) (of_int (test_size arg)) \<subseteq> data_area phys i \<longleftrightarrow> arg \<le> 128"
    unfolding dma_area_iff [OF assms(2,3)] len by (auto simp: test_size_def BUFFER_SIZE_def)
  ultimately show ?thesis
    using start_request_prep [OF set_length_shape [OF assms(1)] assms(3), of K i "test_size arg" h] by (metis (no_types))
qed

theorem command_line_size_witness:
  "\<exists>a len ok c' t. ioctl prompt_engine START_XFER (Some (int 3)) (set_length 3 (test_size 256) (sample_channel 0x70000000)) [] =
      Some (0, c', t @ Prep (channel_p (sample_channel 0x70000000)) a len ok # Ioctl START_XFER (int 3) # []) \<and>
    (dma_area a len \<subseteq> data_area 0x70000000 3 \<longleftrightarrow> (256 :: int) \<le> 128)"
  by (rule command_line_size [OF sample_shape]) (simp_all add: sizes)

end
