(* ===== verification/Proxy_Device.thy ===== *)
theory Proxy_Device
  imports Proxy_Transfer
begin

text \<open>
  The life of the devices of the DMA proxy driver (\<open>dma-proxy.c\<close>): creating the channels when
  the platform device is probed, and taking them down when it is removed.

  The kernel is outside the repository: it is a record of answers, each a function of the
  history of calls, most recent call first.  Memory from \<open>devm_kmalloc\<close> is not cleared, so
  the channels start with any content.  The internal test of the driver, off by default, is
  not modelled.
\<close>

section \<open>The kernel\<close>

datatype kcall =
    AllocRegion int nat
  | CdevAdd nat int
  | ClassCreate class_ptr
  | DeviceCreate class_ptr nat dev_ptr
  | DeviceDestroy class_ptr nat
  | ClassDestroy class_ptr
  | CdevDel nat
  | UnregisterRegion nat
  | RequestChannel "nat option"
  | TerminateAll nat
  | ReleaseChannel nat
  | AllocCoherent "u64 option"

text \<open>
  \<open>kmalloc_ok n\<close> answers the \<open>n\<close>-th allocation of \<open>probe\<close>; \<open>parent_class\<close> is the class of the
  platform device; \<open>dma_names\<close> answers the question for the number of names, or is an error,
  and \<open>names_rc\<close> the result of reading the names.
\<close>

record kernel =
  kmalloc_ok :: "nat \<Rightarrow> bool"
  dma_names :: "int + string list"
  names_rc :: int
  region_answer :: "kcall list \<Rightarrow> int \<times> nat"
  cdev_answer :: "kcall list \<Rightarrow> int"
  class_answer :: "kcall list \<Rightarrow> class_ptr"
  device_answer :: "kcall list \<Rightarrow> dev_ptr"
  parent_class :: class_ptr
  channel_answer :: "kcall list \<Rightarrow> nat option"
  memory_answer :: "kcall list \<Rightarrow> u64 option"

text \<open>The two static variables of the module.\<close>

record driver =
  total_count :: int
  local_class_p :: class_ptr

record dma_proxy =
  channel_count :: int
  channels :: "dma_proxy_channel list"

section \<open>Character devices\<close>

text \<open>
  The device name is built in an array of 32 characters that holds the 9 characters of
  \<open>dma_proxy\<close> already; a longer name is written behind it, which the model reports as \<open>None\<close>.
\<close>

definition name_fits :: "string \<Rightarrow> bool" where
  "name_fits name \<longleftrightarrow> length ''dma_proxy'' + length name + 1 \<le> 32"

text \<open>
  \<open>rc\<close> is 0 when \<open>device_create\<close> fails, and the function returns it.  The check after
  \<open>class_create\<close> looks at the class of the parent, not at the new class.
\<close>

definition cdevice_init ::
  "kernel \<Rightarrow> string \<Rightarrow> dma_proxy_channel \<Rightarrow> driver \<Rightarrow> kcall list \<Rightarrow>
   (int \<times> dma_proxy_channel \<times> driver \<times> kcall list) option" where
  "cdevice_init K name c d h =
     (let (rc, node) = region_answer K h;
          h = AllocRegion rc node # h
      in if rc \<noteq> 0 then Some (rc, c, d, h)
         else let c = c\<lparr>dev_node := node\<rparr>;
                  rc = cdev_answer K h;
                  h = CdevAdd node rc # h
              in if rc \<noteq> 0 then Some (rc, c, d, UnregisterRegion node # h)
                 else let create = (local_class_p d = ClassNull);
                          cls = (if create then class_answer K h else local_class_p d);
                          h = (if create then ClassCreate cls # h else h);
                          d = d\<lparr>local_class_p := cls\<rparr>
                      in if create \<and> parent_class K = ClassErr
                         then Some (-1, c, d, UnregisterRegion node # CdevDel node # h)
                         else if \<not> name_fits name then None
                         else let dev = device_answer K h;
                                  c = c\<lparr>class_p := cls, proxy_device_p := dev\<rparr>;
                                  h = DeviceCreate cls node dev # h
                              in if dev = DevErr
                                 then Some (rc, c, d, UnregisterRegion node # CdevDel node # ClassDestroy cls # h)
                                 else Some (0, c, d, h))"

definition cdevice_exit :: "dma_proxy_channel \<Rightarrow> driver \<Rightarrow> kcall list \<Rightarrow> kcall list" where
  "cdevice_exit c d h =
     (if proxy_device_p c \<noteq> DevNull
      then let h = DeviceDestroy (class_p c) (dev_node c) # h;
               h = (if total_count d = 1 then ClassDestroy (class_p c) # h else h)
           in UnregisterRegion (dev_node c) # CdevDel (dev_node c) # h
      else h)"

section \<open>Channels\<close>

text \<open>
  The buffers come zeroed from \<open>dmam_alloc_coherent\<close>; a table that could not be allocated is
  empty.  Its handles are computed before the failure is noticed.
\<close>

definition fresh_buffers :: "channel_buffer list" where
  "fresh_buffers = replicate BUFFER_COUNT \<lparr>buffer = (\<lambda>_. 0), status = PROXY_NO_ERROR, buf_length = 0\<rparr>"

definition alloc_buffers :: "u64 option \<Rightarrow> dma_proxy_channel \<Rightarrow> dma_proxy_channel" where
  "alloc_buffers mem c =
     (let c = (case mem of None \<Rightarrow> c\<lparr>buffer_table_p := []\<rparr>
               | Some phys \<Rightarrow> c\<lparr>buffer_table_p := fresh_buffers, buffer_phys_addr := phys\<rparr>)
      in c\<lparr>bdtable := init_handles (buffer_phys_addr c) (bdtable c), bdindex := 0\<rparr>)"

definition create_channel ::
  "kernel \<Rightarrow> string \<Rightarrow> nat \<Rightarrow> dma_proxy_channel \<Rightarrow> driver \<Rightarrow> kcall list \<Rightarrow>
   (int \<times> dma_proxy_channel \<times> driver \<times> kcall list) option" where
  "create_channel K name dir c d h =
     (let ch = channel_answer K h;
          c = c\<lparr>channel_p := ch\<rparr>;
          h = RequestChannel ch # h
      in if ch = None then Some (-1, c, d, h)
         else case cdevice_init K name c d h of
             None \<Rightarrow> None
           | Some (rc, c, d, h) \<Rightarrow>
               if rc \<noteq> 0 then Some (rc, c, d, h)
               else let mem = memory_answer K h;
                        h = AllocCoherent mem # h;
                        c = alloc_buffers mem (c\<lparr>direction := dir\<rparr>)
                    in if mem = None then Some (-1, c, d, h) else Some (0, c, d, h))"

definition DMA_MEM_TO_DEV :: nat where "DMA_MEM_TO_DEV = 1"

text \<open>
  The loop of \<open>probe\<close> over the names and the allocated channels: the channels it has been
  through come out in order, the last one with the error, the others untouched.
\<close>

fun create_channels ::
  "kernel \<Rightarrow> string list \<Rightarrow> dma_proxy_channel list \<Rightarrow> driver \<Rightarrow> kcall list \<Rightarrow>
   (int \<times> dma_proxy_channel list \<times> driver \<times> kcall list) option" where
  "create_channels K (name # names) (c # cs) d h =
     (case create_channel K name DMA_MEM_TO_DEV c d h of
        None \<Rightarrow> None
      | Some (rc, c, d, h) \<Rightarrow>
          if rc \<noteq> 0 then Some (rc, c # cs, d, h)
          else (case create_channels K names cs (d\<lparr>total_count := total_count d + 1\<rparr>) h of
                  None \<Rightarrow> None
                | Some (rc, cs, d, h) \<Rightarrow> Some (rc, c # cs, d, h)))"
| "create_channels K _ cs d h = Some (0, cs, d, h)"

section \<open>Probe and remove\<close>

text \<open>
  \<open>mem\<close> is what the uninitialised memory of the channels holds.  The result has the private data
  of the device, if there are any yet.
\<close>

definition ENOMEM :: int where "ENOMEM = 12"

definition dma_proxy_probe ::
  "kernel \<Rightarrow> (nat \<Rightarrow> dma_proxy_channel) \<Rightarrow> driver \<Rightarrow> kcall list \<Rightarrow>
   (int \<times> dma_proxy option \<times> driver \<times> kcall list) option" where
  "dma_proxy_probe K mem d h =
     (if \<not> kmalloc_ok K 0 then Some (- ENOMEM, None, d, h)
      else let count = (case dma_names K of Inl e \<Rightarrow> e | Inr names \<Rightarrow> int (length names));
               names = (case dma_names K of Inl e \<Rightarrow> [] | Inr names \<Rightarrow> names);
               cs = map mem [0..<nat count];
               lp = \<lparr>channel_count = count, channels = cs\<rparr>
           in if count \<le> 0 then Some (0, Some lp, d, h)
              else if \<not> kmalloc_ok K 1 then Some (- ENOMEM, Some lp, d, h)
              else if names_rc K < 0 then Some (names_rc K, Some lp, d, h)
              else if \<not> kmalloc_ok K 2 then Some (- ENOMEM, Some lp, d, h)
              else case create_channels K names cs d h of
                  None \<Rightarrow> None
                | Some (rc, cs, d, h) \<Rightarrow> Some (rc, Some (lp\<lparr>channels := cs\<rparr>), d, h))"

text \<open>The two loops of \<open>remove\<close>.\<close>

fun remove_devices :: "dma_proxy_channel list \<Rightarrow> driver \<Rightarrow> kcall list \<Rightarrow> driver \<times> kcall list" where
  "remove_devices [] d h = (d, h)"
| "remove_devices (c # cs) d h =
     (let h = (if proxy_device_p c \<noteq> DevNull then cdevice_exit c d h else h)
      in remove_devices cs (d\<lparr>total_count := total_count d - 1\<rparr>) h)"

fun release_channels :: "dma_proxy_channel list \<Rightarrow> kcall list \<Rightarrow> kcall list" where
  "release_channels [] h = h"
| "release_channels (c # cs) h =
     release_channels cs (case channel_p c of None \<Rightarrow> h | Some ch \<Rightarrow> ReleaseChannel ch # TerminateAll ch # h)"

definition dma_proxy_remove :: "dma_proxy \<Rightarrow> driver \<Rightarrow> kcall list \<Rightarrow> int \<times> driver \<times> kcall list" where
  "dma_proxy_remove lp d h =
     (let cs = take (nat (channel_count lp)) (channels lp);
          (d, h) = remove_devices cs d h
      in (0, d, release_channels cs h))"

section \<open>What the driver holds\<close>

datatype resource = Region nat | Cdev nat | Device class_ptr nat | Class class_ptr | Channel nat

text \<open>The number of times a resource was acquired less the times it was released.\<close>

fun call_balance :: "kcall \<Rightarrow> resource \<Rightarrow> int" where
  "call_balance (AllocRegion rc node) r = of_bool (rc = 0 \<and> r = Region node)"
| "call_balance (CdevAdd node rc) r = of_bool (rc = 0 \<and> r = Cdev node)"
| "call_balance (ClassCreate cls) r = of_bool (cls \<noteq> ClassErr \<and> r = Class cls)"
| "call_balance (DeviceCreate cls node dev) r = of_bool (dev \<noteq> DevErr \<and> r = Device cls node)"
| "call_balance (DeviceDestroy cls node) r = - of_bool (r = Device cls node)"
| "call_balance (ClassDestroy cls) r = - of_bool (r = Class cls)"
| "call_balance (CdevDel node) r = - of_bool (r = Cdev node)"
| "call_balance (UnregisterRegion node) r = - of_bool (r = Region node)"
| "call_balance (RequestChannel ch) r = of_bool (\<exists>n. ch = Some n \<and> r = Channel n)"
| "call_balance (TerminateAll ch) r = 0"
| "call_balance (ReleaseChannel ch) r = - of_bool (r = Channel ch)"
| "call_balance (AllocCoherent mem) r = 0"

definition balance :: "kcall list \<Rightarrow> resource \<Rightarrow> int" where
  "balance h r = sum_list (map (\<lambda>e. call_balance e r) h)"

lemma balance_simps [simp]: "balance [] r = 0" "balance (e # h) r = call_balance e r + balance h r"
  by (simp_all add: balance_def)

text \<open>The resources of a created channel, apart from the class.\<close>

definition owns :: "dma_proxy_channel \<Rightarrow> resource \<Rightarrow> int" where
  "owns c r = of_bool (r = Region (dev_node c)) + of_bool (r = Cdev (dev_node c)) +
     of_bool (r = Device (class_p c) (dev_node c)) + of_bool (\<exists>n. channel_p c = Some n \<and> r = Channel n)"

text \<open>A kernel that grants all that the driver asks for.\<close>

definition obliging :: "kernel \<Rightarrow> bool" where
  "obliging K \<longleftrightarrow> (\<forall>n. kmalloc_ok K n) \<and> (\<forall>h. fst (region_answer K h) = 0) \<and> (\<forall>h. cdev_answer K h = 0) \<and>
     (\<forall>h. \<exists>n. class_answer K h = ClassOk n) \<and> (\<forall>h. \<exists>n. device_answer K h = DevOk n) \<and> parent_class K = ClassNull \<and>
     (\<forall>h. channel_answer K h \<noteq> None) \<and> (\<forall>h. memory_answer K h \<noteq> None)"

definition named :: "kernel \<Rightarrow> bool" where
  "named K \<longleftrightarrow> 0 \<le> names_rc K \<and> (\<exists>names. dma_names K = Inr names \<and> names \<noteq> [] \<and> (\<forall>name\<in>set names. name_fits name))"

text \<open>The state between probes and removes: a class exists exactly if there are channels.\<close>

definition driver_ok :: "driver \<Rightarrow> bool" where
  "driver_ok d \<longleftrightarrow> total_count d = 0 \<and> local_class_p d = ClassNull \<or> 0 < total_count d \<and> (\<exists>n. local_class_p d = ClassOk n)"

section \<open>Creating and taking down channels\<close>

definition device_owns :: "dma_proxy_channel \<Rightarrow> resource \<Rightarrow> int" where
  "device_owns c r = of_bool (r = Region (dev_node c)) + of_bool (r = Cdev (dev_node c)) +
     of_bool (r = Device (class_p c) (dev_node c))"

definition channel_owns :: "dma_proxy_channel \<Rightarrow> resource \<Rightarrow> int" where
  "channel_owns c r = of_bool (\<exists>n. channel_p c = Some n \<and> r = Channel n)"

lemma owns_split: "owns c r = device_owns c r + channel_owns c r"
  by (simp add: owns_def device_owns_def channel_owns_def)

text \<open>A channel as a successful creation leaves it.\<close>

definition created :: "class_ptr \<Rightarrow> dma_proxy_channel \<Rightarrow> bool" where
  "created cls c \<longleftrightarrow> (\<exists>n. proxy_device_p c = DevOk n) \<and> class_p c = cls \<and> channel_p c \<noteq> None \<and>
     channel_shape (buffer_phys_addr c) c \<and> bdindex c = 0"

lemma alloc_buffers_shape:
  "channel_shape (buffer_phys_addr (alloc_buffers (Some phys) c)) (alloc_buffers (Some phys) c)"
  by (simp add: alloc_buffers_def channel_shape_def fresh_buffers_def init_handles_def Let_def)

lemma alloc_buffers_simps [simp]:
  "proxy_device_p (alloc_buffers mem c) = proxy_device_p c" "class_p (alloc_buffers mem c) = class_p c"
  "channel_p (alloc_buffers mem c) = channel_p c" "dev_node (alloc_buffers mem c) = dev_node c"
  "bdindex (alloc_buffers mem c) = 0"
  by (simp_all add: alloc_buffers_def Let_def split: option.splits)

lemma obliging_answers:
  assumes "obliging K"
  shows "\<exists>ch. channel_answer K h = Some ch" "\<exists>node. region_answer K h = (0, node)" "cdev_answer K h = 0"
    "\<exists>n. class_answer K h = ClassOk n" "\<exists>n. device_answer K h = DevOk n" "parent_class K = ClassNull"
    "\<exists>phys. memory_answer K h = Some phys" "kmalloc_ok K n"
  using assms surjective_pairing [of "region_answer K h"] unfolding obliging_def by (metis not_None_eq)+

text \<open>The class that a creation works with: the one there is, or a new one.\<close>

lemma create_channel_obliging:
  assumes "obliging K" and "name_fits name" and "local_class_p d = ClassNull \<or> (\<exists>n. local_class_p d = ClassOk n)"
  shows "\<exists>c' d' h'. create_channel K name dir c d h = Some (0, c', d', h') \<and> created (local_class_p d') c' \<and>
    (\<exists>n. local_class_p d' = ClassOk n) \<and> (local_class_p d \<noteq> ClassNull \<longrightarrow> local_class_p d' = local_class_p d) \<and>
    total_count d' = total_count d \<and>
    (\<forall>r. balance h' r = balance h r + owns c' r + of_bool (local_class_p d = ClassNull \<and> r = Class (local_class_p d')))"
proof -
  let ?h1 = "RequestChannel (channel_answer K h) # h"
  note answer = obliging_answers [OF assms(1)]
  obtain ch where ch: "channel_answer K h = Some ch" using answer(1) by blast
  obtain node where node: "region_answer K ?h1 = (0, node)" using answer(2) by blast
  let ?h2 = "CdevAdd node 0 # AllocRegion 0 node # ?h1"
  obtain cls where cls: "class_answer K ?h2 = ClassOk cls" using answer(4) by blast
  have parent: "parent_class K \<noteq> ClassErr" using answer(6) by simp
  note cdev = answer(3) and dev = answer(5,7)
  show ?thesis
  proof (cases "local_class_p d = ClassNull")
    case True
    obtain dv where dv: "device_answer K (ClassCreate (ClassOk cls) # ?h2) = DevOk dv" using dev by blast
    obtain m where "memory_answer K (DeviceCreate (ClassOk cls) node (DevOk dv) # ClassCreate (ClassOk cls) # ?h2) = Some m"
      using dev by blast
    then show ?thesis
      using True ch node cdev cls dv parent assms(2)
      by (auto simp: create_channel_def cdevice_init_def Let_def created_def alloc_buffers_shape owns_def)
  next
    case False
    then obtain k where k: "local_class_p d = ClassOk k" using assms(3) by blast
    obtain dv where dv: "device_answer K ?h2 = DevOk dv" using dev by blast
    obtain m where "memory_answer K (DeviceCreate (ClassOk k) node (DevOk dv) # ?h2) = Some m" using dev by blast
    then show ?thesis
      using k ch node cdev dv parent assms(2)
      by (auto simp: create_channel_def cdevice_init_def Let_def created_def alloc_buffers_shape owns_def)
  qed
qed

lemma create_channels_obliging:
  assumes "obliging K" and "\<forall>name\<in>set names. name_fits name" and "length cs = length names"
    and "local_class_p d = ClassNull \<or> (\<exists>n. local_class_p d = ClassOk n)"
  shows "\<exists>cs' d' h'. create_channels K names cs d h = Some (0, cs', d', h') \<and> length cs' = length names \<and>
    (\<forall>c\<in>set cs'. created (local_class_p d') c) \<and> total_count d' = total_count d + int (length names) \<and>
    (names \<noteq> [] \<longrightarrow> (\<exists>n. local_class_p d' = ClassOk n)) \<and>
    (local_class_p d \<noteq> ClassNull \<longrightarrow> local_class_p d' = local_class_p d) \<and>
    (\<forall>r. balance h' r = balance h r + (\<Sum>c\<leftarrow>cs'. owns c r) +
       of_bool (names \<noteq> [] \<and> local_class_p d = ClassNull \<and> r = Class (local_class_p d')))"
  using assms(2-)
proof (induction names arbitrary: cs d h)
  case (Cons name names)
  obtain c cs0 where cs: "cs = c # cs0" "length cs0 = length names" using Cons.prems(2) by (cases cs) auto
  have fits: "name_fits name" "\<forall>name\<in>set names. name_fits name" using Cons.prems(1) by auto
  from create_channel_obliging [OF assms(1) fits(1) Cons.prems(3), of DMA_MEM_TO_DEV c h]
  obtain c1 d1 h1 n where one: "create_channel K name DMA_MEM_TO_DEV c d h = Some (0, c1, d1, h1)"
      "created (local_class_p d1) c1" "local_class_p d1 = ClassOk n"
      "local_class_p d \<noteq> ClassNull \<longrightarrow> local_class_p d1 = local_class_p d" "total_count d1 = total_count d"
      "\<And>r. balance h1 r = balance h r + owns c1 r + of_bool (local_class_p d = ClassNull \<and> r = Class (local_class_p d1))"
    by blast
  let ?d = "d1\<lparr>total_count := total_count d1 + 1\<rparr>"
  have "local_class_p ?d = ClassNull \<or> (\<exists>n. local_class_p ?d = ClassOk n)" using one(3) by simp
  from Cons.IH [OF fits(2) cs(2) this, of h1] obtain cs' d' h' where
    rest: "create_channels K names cs0 ?d h1 = Some (0, cs', d', h')" "length cs' = length names"
      "\<forall>c\<in>set cs'. created (local_class_p d') c" "total_count d' = total_count ?d + int (length names)"
      "local_class_p d' = local_class_p d1"
      "\<And>r. balance h' r = balance h1 r + (\<Sum>c\<leftarrow>cs'. owns c r)"
    using one(3) by auto
  then show ?case using one cs(1) by auto
qed simp

lemma cdevice_exit_balance:
  assumes "created cls c"
  shows "balance (cdevice_exit c d h) r = balance h r - device_owns c r - of_bool (total_count d = 1 \<and> r = Class cls)"
  using assms by (auto simp: cdevice_exit_def created_def device_owns_def Let_def)

lemma remove_devices_balance:
  assumes "\<forall>c\<in>set cs. created cls c" and "remove_devices cs d h = (d', h')"
  shows "total_count d' = total_count d - int (length cs) \<and> local_class_p d' = local_class_p d \<and>
    balance h' r = balance h r - (\<Sum>c\<leftarrow>cs. device_owns c r) -
      of_bool (1 \<le> total_count d \<and> total_count d \<le> int (length cs) \<and> r = Class cls)"
  using assms
proof (induction cs arbitrary: d h)
  case (Cons c cs)
  let ?d = "d\<lparr>total_count := total_count d - 1\<rparr>"
  have c: "created cls c" "proxy_device_p c \<noteq> DevNull" and cs: "\<forall>c\<in>set cs. created cls c"
    using Cons.prems(1) by (auto simp: created_def)
  have rest: "remove_devices cs ?d (cdevice_exit c d h) = (d', h')" using Cons.prems(2) c by simp
  then show ?case using Cons.IH [OF cs rest] cdevice_exit_balance [OF c(1), of d h r] by auto
qed simp

lemma release_channels_balance:
  "balance (release_channels cs h) r = balance h r - (\<Sum>c\<leftarrow>cs. channel_owns c r)"
  by (induction cs arbitrary: h) (auto simp: channel_owns_def split: option.splits)

lemma sum_owns: "(\<Sum>c\<leftarrow>cs. owns c r) = (\<Sum>c\<leftarrow>cs. device_owns c r) + (\<Sum>c\<leftarrow>cs. channel_owns c r)"
  by (simp add: owns_split sum_list_addf)

lemma probe_create:
  assumes "dma_names K = Inr names" and "names \<noteq> []" and "\<not> names_rc K < 0" and "\<And>n. kmalloc_ok K n"
  shows "dma_proxy_probe K mem d h = (case create_channels K names (map mem [0..<length names]) d h of None \<Rightarrow> None
    | Some (rc, cs, d, h) \<Rightarrow> Some (rc, Some \<lparr>channel_count = int (length names), channels = cs\<rparr>, d, h))"
  using assms by (simp add: dma_proxy_probe_def Let_def case_prod_beta split: option.split)

lemma probe_obliging:
  assumes "obliging K" and "named K" and "local_class_p d = ClassNull \<or> (\<exists>n. local_class_p d = ClassOk n)"
  shows "\<exists>lp d' h' cls. dma_proxy_probe K mem d h = Some (0, Some lp, d', h') \<and>
    channel_count lp = int (length (channels lp)) \<and> channels lp \<noteq> [] \<and>
    local_class_p d' = ClassOk cls \<and> (local_class_p d \<noteq> ClassNull \<longrightarrow> local_class_p d' = local_class_p d) \<and>
    (\<forall>c\<in>set (channels lp). created (ClassOk cls) c) \<and> total_count d' = total_count d + channel_count lp \<and>
    (\<forall>r. balance h' r = balance h r + (\<Sum>c\<leftarrow>channels lp. owns c r) +
       of_bool (local_class_p d = ClassNull \<and> r = Class (ClassOk cls)))"
proof -
  obtain names where names: "dma_names K = Inr names" "names \<noteq> []" "\<forall>name\<in>set names. name_fits name" "0 \<le> names_rc K"
    using assms(2) by (auto simp: named_def)
  have "length (map mem [0..<length names]) = length names" by simp
  from create_channels_obliging [OF assms(1) names(3) this assms(3), of h, unfolded eqTrueI [OF names(2)] simp_thms]
  obtain cs' d' h' n where
    made: "create_channels K names (map mem [0..<length names]) d h = Some (0, cs', d', h')" "length cs' = length names"
    "\<forall>c\<in>set cs'. created (local_class_p d') c" "total_count d' = total_count d + int (length names)"
    "local_class_p d' = ClassOk n" "local_class_p d \<noteq> ClassNull \<longrightarrow> local_class_p d' = local_class_p d"
    "\<forall>r. balance h' r = balance h r + (\<Sum>c\<leftarrow>cs'. owns c r) + of_bool (local_class_p d = ClassNull \<and> r = Class (local_class_p d'))"
    by blast
  let ?lp = "\<lparr>channel_count = int (length names), channels = cs'\<rparr>"
  have "dma_proxy_probe K mem d h = Some (0, Some ?lp, d', h')"
    using names made(1) obliging_answers(8) [OF assms(1)] by (simp add: probe_create)
  then show ?thesis
  proof (intro exI conjI)
    show "channel_count ?lp = int (length (channels ?lp))" "channels ?lp \<noteq> []" "total_count d' = total_count d + channel_count ?lp"
      using made(2,4) names(2) by auto
    show "local_class_p d' = ClassOk n" "local_class_p d \<noteq> ClassNull \<longrightarrow> local_class_p d' = local_class_p d"
      by (fact made)+
    show "\<forall>c\<in>set (channels ?lp). created (ClassOk n) c"
      "\<forall>r. balance h' r = balance h r + (\<Sum>c\<leftarrow>channels ?lp. owns c r) + of_bool (local_class_p d = ClassNull \<and> r = Class (ClassOk n))"
      using made(3,7) unfolding made(5) by simp_all
  qed
qed

lemma remove_obliging:
  assumes "\<forall>c\<in>set (channels lp). created cls c" and "channel_count lp = int (length (channels lp))"
  shows "\<exists>d' h'. dma_proxy_remove lp d h = (0, d', h') \<and> total_count d' = total_count d - channel_count lp \<and>
    local_class_p d' = local_class_p d \<and>
    (\<forall>r. balance h' r = balance h r - (\<Sum>c\<leftarrow>channels lp. owns c r) -
       of_bool (1 \<le> total_count d \<and> total_count d \<le> channel_count lp \<and> r = Class cls))"
proof -
  obtain d' h' where remove: "remove_devices (channels lp) d h = (d', h')" by fastforce
  from remove_devices_balance [OF assms(1) remove] remove assms(2) show ?thesis
    by (simp add: dma_proxy_remove_def release_channels_balance sum_owns)
qed

lemma probe_remove:
  assumes "obliging K" and "named K" and "driver_ok d"
  shows "\<exists>lp d1 h1 d2 h2. dma_proxy_probe K mem d h = Some (0, Some lp, d1, h1) \<and> driver_ok d1 \<and>
    (\<forall>c\<in>set (channels lp). channel_shape (buffer_phys_addr c) c) \<and>
    dma_proxy_remove lp d1 h1 = (0, d2, h2) \<and> (\<forall>r. balance h2 r = balance h r) \<and> total_count d2 = total_count d \<and>
    (\<exists>n. local_class_p d2 = ClassOk n)"
proof -
  have some: "local_class_p d = ClassNull \<or> (\<exists>n. local_class_p d = ClassOk n)" using assms(3) by (auto simp: driver_ok_def)
  obtain lp d1 h1 cls where probe: "dma_proxy_probe K mem d h = Some (0, Some lp, d1, h1)"
      "channel_count lp = int (length (channels lp))" "channels lp \<noteq> []" "local_class_p d1 = ClassOk cls"
      "\<forall>c\<in>set (channels lp). created (ClassOk cls) c" "total_count d1 = total_count d + channel_count lp"
      "\<And>r. balance h1 r = balance h r + (\<Sum>c\<leftarrow>channels lp. owns c r) +
         of_bool (local_class_p d = ClassNull \<and> r = Class (ClassOk cls))"
    using probe_obliging [OF assms(1,2) some] by blast
  obtain d2 h2 where gone: "dma_proxy_remove lp d1 h1 = (0, d2, h2)" "total_count d2 = total_count d1 - channel_count lp"
      "local_class_p d2 = local_class_p d1"
      "\<And>r. balance h2 r = balance h1 r - (\<Sum>c\<leftarrow>channels lp. owns c r) -
         of_bool (1 \<le> total_count d1 \<and> total_count d1 \<le> channel_count lp \<and> r = Class (ClassOk cls))"
    using remove_obliging [OF probe(5,2), of d1 h1] by blast
  have "0 < length (channels lp)" using probe(3) by simp
  then have "1 \<le> total_count d1 \<and> total_count d1 \<le> channel_count lp \<longleftrightarrow> local_class_p d = ClassNull" and "driver_ok d1"
    using assms(3) probe(2,4,6) by (auto simp: driver_ok_def Suc_le_eq)
  then show ?thesis
    using probe gone by (auto simp: created_def)
qed

text \<open>A kernel with two channels that grants everything.\<close>

definition willing_kernel :: kernel where
  "willing_kernel = \<lparr>kmalloc_ok = (\<lambda>_. True), dma_names = Inr [''tx'', ''rx''], names_rc = 2,
     region_answer = (\<lambda>h. (0, length h)), cdev_answer = (\<lambda>_. 0), class_answer = (\<lambda>_. ClassOk 0),
     device_answer = (\<lambda>h. DevOk (length h)), parent_class = ClassNull, channel_answer = (\<lambda>h. Some (length h)),
     memory_answer = (\<lambda>_. Some 0x70000000)\<rparr>"

definition unloaded :: driver where
  "unloaded = \<lparr>total_count = 0, local_class_p = ClassNull\<rparr>"

lemma willing_kernel_ok: "obliging willing_kernel" "named willing_kernel" "driver_ok unloaded"
  by (simp_all add: obliging_def named_def willing_kernel_def name_fits_def driver_ok_def unloaded_def)

text \<open>C38: On a kernel that grants every request, probing a device with \<open>n\<close> channels and removing it again
  gives every resource back: regions, character devices, device nodes, DMA channels and, with the last channel
  of the module, the class, exactly as often as they were taken; in between every channel has its buffer tables and handles.
  Devices of other instances of the driver may be present before and after.\<close>

theorem probe_remove_balanced:
  assumes "obliging K" and "named K" and "driver_ok d"
  shows "\<exists>lp d1 h1 d2 h2. dma_proxy_probe K mem d h = Some (0, Some lp, d1, h1) \<and> driver_ok d1 \<and>
    (\<forall>c\<in>set (channels lp). channel_shape (buffer_phys_addr c) c) \<and>
    dma_proxy_remove lp d1 h1 = (0, d2, h2) \<and> (\<forall>r. balance h2 r = balance h r) \<and> total_count d2 = total_count d"
  using probe_remove [OF assms] by blast

theorem probe_remove_balanced_witness:
  "\<exists>lp d1 h1 d2 h2. dma_proxy_probe willing_kernel (\<lambda>_. sample_channel 0) unloaded [] = Some (0, Some lp, d1, h1) \<and> driver_ok d1 \<and>
    (\<forall>c\<in>set (channels lp). channel_shape (buffer_phys_addr c) c) \<and>
    dma_proxy_remove lp d1 h1 = (0, d2, h2) \<and> (\<forall>r. balance h2 r = balance [] r) \<and> total_count d2 = total_count unloaded"
  by (rule probe_remove_balanced [OF willing_kernel_ok])

text \<open>After the last channel is removed the module still remembers the class it destroyed: a device that is
  probed then puts its device nodes into a class that is not there any more, without creating a new one.\<close>

theorem second_probe_destroyed_class:
  assumes "obliging K" and "named K" and "d = \<lparr>total_count = 0, local_class_p = ClassNull\<rparr>"
  shows "\<exists>lp d1 h1 d2 h2 lp' d3 h3. dma_proxy_probe K mem d [] = Some (0, Some lp, d1, h1) \<and>
    dma_proxy_remove lp d1 h1 = (0, d2, h2) \<and> (\<forall>r. balance h2 r = 0) \<and>
    dma_proxy_probe K mem d2 h2 = Some (0, Some lp', d3, h3) \<and> channels lp' \<noteq> [] \<and>
    (\<forall>c\<in>set (channels lp'). 0 < balance h3 (Device (class_p c) (dev_node c)) \<and> balance h3 (Class (class_p c)) = 0)"
proof -
  obtain lp d1 h1 d2 h2 n where first: "dma_proxy_probe K mem d [] = Some (0, Some lp, d1, h1)"
      "dma_proxy_remove lp d1 h1 = (0, d2, h2)" "\<And>r. balance h2 r = 0" "local_class_p d2 = ClassOk n"
    using probe_remove [OF assms(1,2), of d mem "[]"] assms(3) by (auto simp: driver_ok_def)
  obtain lp' d3 h3 where again: "dma_proxy_probe K mem d2 h2 = Some (0, Some lp', d3, h3)" "channels lp' \<noteq> []"
      "\<forall>c\<in>set (channels lp'). created (ClassOk n) c" "\<And>r. balance h3 r = balance h2 r + (\<Sum>c\<leftarrow>channels lp'. owns c r)"
    using probe_obliging [OF assms(1,2), of d2 mem h2] first(4) by auto
  have "0 < balance h3 (Device (class_p c) (dev_node c)) \<and> balance h3 (Class (class_p c)) = 0" if "c \<in> set (channels lp')" for c
  proof
    have "owns c (Device (class_p c) (dev_node c)) = 1" by (auto simp: owns_def)
    moreover have "owns c (Device (class_p c) (dev_node c)) \<le> (\<Sum>c'\<leftarrow>channels lp'. owns c' (Device (class_p c) (dev_node c)))"
      using that by (intro member_le_sum_list) (auto simp: owns_def)
    ultimately show "0 < balance h3 (Device (class_p c) (dev_node c))" using again(4) first(3) by simp
    show "balance h3 (Class (class_p c)) = 0" using again(4) first(3) by (simp add: owns_def)
  qed
  then show ?thesis using first again(1,2) by blast
qed

theorem second_probe_destroyed_class_witness:
  "\<exists>lp d1 h1 d2 h2 lp' d3 h3. dma_proxy_probe willing_kernel (\<lambda>_. sample_channel 0) unloaded [] = Some (0, Some lp, d1, h1) \<and>
    dma_proxy_remove lp d1 h1 = (0, d2, h2) \<and> (\<forall>r. balance h2 r = 0) \<and>
    dma_proxy_probe willing_kernel (\<lambda>_. sample_channel 0) d2 h2 = Some (0, Some lp', d3, h3) \<and> channels lp' \<noteq> [] \<and>
    (\<forall>c\<in>set (channels lp'). 0 < balance h3 (Device (class_p c) (dev_node c)) \<and> balance h3 (Class (class_p c)) = 0)"
  by (rule second_probe_destroyed_class [OF willing_kernel_ok(1,2) unloaded_def])

text \<open>When \<open>device_create\<close> fails, creating the channel still reports success: the region and the
  character device have been given back, the error pointer stays in the channel, and taking the channel down gives both back a second time.\<close>

theorem device_error_reported_as_success:
  assumes "obliging K0" and "K = K0\<lparr>device_answer := (\<lambda>_. DevErr)\<rparr>" and "name_fits name" and "driver_ok d"
  shows "\<exists>c' d' h'. create_channel K name dir c d h = Some (0, c', d', h') \<and> proxy_device_p c' = DevErr \<and>
    (\<forall>r\<in>{Region (dev_node c'), Cdev (dev_node c')}.
       balance h' r = balance h r \<and> balance (cdevice_exit c' d' h') r = balance h r - 1)"
proof -
  note answer = obliging_answers [OF assms(1)]
  let ?h1 = "RequestChannel (channel_answer K0 h) # h"
  obtain ch where ch: "channel_answer K0 h = Some ch" using answer(1) by blast
  obtain node where node: "region_answer K0 ?h1 = (0, node)" using answer(2) by blast
  have some: "local_class_p d = ClassNull \<or> (\<exists>n. local_class_p d = ClassOk n)" using assms(4) by (auto simp: driver_ok_def)
  let ?h2 = "CdevAdd node 0 # AllocRegion 0 node # ?h1"
  obtain h3 c3 d3 where h3: "cdevice_init K name (c\<lparr>channel_p := Some ch\<rparr>) d ?h1 = Some (0, c3, d3, h3)"
      "proxy_device_p c3 = DevErr" "dev_node c3 = node" "\<forall>r\<in>{Region node, Cdev node}. balance h3 r = balance h r"
    using ch node answer(3,6) assms(2,3) some
    by (cases "local_class_p d = ClassNull") (auto simp: cdevice_init_def Let_def)
  obtain m where "memory_answer K0 h3 = Some m" using answer(7) by blast
  with h3 ch assms(2) show ?thesis
    by (intro exI [of _ "alloc_buffers (Some m) (c3\<lparr>direction := dir\<rparr>)"] exI [of _ d3] exI [of _ "AllocCoherent (Some m) # h3"])
      (auto simp: create_channel_def Let_def cdevice_exit_def)
qed

theorem device_error_reported_as_success_witness:
  "\<exists>c' d' h'. create_channel (willing_kernel\<lparr>device_answer := (\<lambda>_. DevErr)\<rparr>) ''tx'' 1 (sample_channel 0) unloaded [] = Some (0, c', d', h') \<and>
    proxy_device_p c' = DevErr \<and> (\<forall>r\<in>{Region (dev_node c'), Cdev (dev_node c')}.
       balance h' r = balance [] r \<and> balance (cdevice_exit c' d' h') r = balance [] r - 1)"
  by (rule device_error_reported_as_success [OF willing_kernel_ok(1) refl _ willing_kernel_ok(3)]) (simp add: name_fits_def)

lemma cdevice_init_channel_answer [simp]: "cdevice_init (K\<lparr>channel_answer := f\<rparr>) = cdevice_init K"
proof (cases K)
  case fields
  show ?thesis
    unfolding cdevice_init_def fields kernel.update_convs kernel.select_convs by (rule refl)
qed

text \<open>When the second channel cannot be created, probing fails and the first one stays as it
  is: its region, character device, device node and DMA channel are still held, and it is counted.\<close>

theorem failed_probe_leaks:
  assumes "obliging K0" and "K = K0\<lparr>channel_answer := (\<lambda>h'. if h' = h then channel_answer K0 h else None)\<rparr>"
    and "dma_names K0 = Inr (a # b # names)" and "named K0" and "driver_ok d"
  shows "\<exists>lp c d' h'. dma_proxy_probe K mem d h = Some (-1, Some lp, d', h') \<and> hd (channels lp) = c \<and>
    total_count d' = total_count d + 1 \<and>
    (\<forall>r. balance h' r = balance h r + owns c r + of_bool (local_class_p d = ClassNull \<and> r = Class (local_class_p d')))"
proof -
  have fits: "name_fits a" and rc: "\<not> names_rc K0 < 0" using assms(3,4) by (auto simp: named_def)
  have some: "local_class_p d = ClassNull \<or> (\<exists>n. local_class_p d = ClassOk n)" using assms(5) by (auto simp: driver_ok_def)
  have same: "create_channel K a DMA_MEM_TO_DEV (mem 0) d h = create_channel K0 a DMA_MEM_TO_DEV (mem 0) d h"
    using assms(2) by (simp add: create_channel_def Let_def case_prod_beta split: option.split)
  obtain c d1 h1 where one: "create_channel K a DMA_MEM_TO_DEV (mem 0) d h = Some (0, c, d1, h1)" "total_count d1 = total_count d"
      "\<And>r. balance h1 r = balance h r + owns c r + of_bool (local_class_p d = ClassNull \<and> r = Class (local_class_p d1))"
    unfolding same using create_channel_obliging [OF assms(1) fits some, of DMA_MEM_TO_DEV "mem 0" h] by blast
  have "owns c (Region (dev_node c)) = 1" by (simp add: owns_def)
  then have "h1 \<noteq> h" using one(3) [of "Region (dev_node c)"] by auto
  then have two: "create_channel K b DMA_MEM_TO_DEV (mem 1) (d1\<lparr>total_count := total_count d1 + 1\<rparr>) h1 =
      Some (-1, (mem 1)\<lparr>channel_p := None\<rparr>, d1\<lparr>total_count := total_count d1 + 1\<rparr>, RequestChannel None # h1)"
    using assms(2) by (simp add: create_channel_def)
  let ?rest = "map mem [2..<length names + 2]"
  have "map mem [0..<length names + 2] = mem 0 # mem 1 # ?rest"
    by (simp add: upt_conv_Cons numeral_2_eq_2 del: upt_Suc)
  then have "create_channels K (a # b # names) (map mem [0..<length names + 2]) d h =
      Some (-1, c # (mem 1)\<lparr>channel_p := None\<rparr> # ?rest, d1\<lparr>total_count := total_count d1 + 1\<rparr>, RequestChannel None # h1)"
    using one(1) two by simp
  then have "dma_proxy_probe K mem d h = Some (-1, Some \<lparr>channel_count = int (length (a # b # names)),
      channels = c # (mem 1)\<lparr>channel_p := None\<rparr> # ?rest\<rparr>, d1\<lparr>total_count := total_count d1 + 1\<rparr>, RequestChannel None # h1)"
    using probe_create [of K "a # b # names" mem d h] assms(2,3) rc obliging_answers(8) [OF assms(1)]
    by (simp del: upt_Suc create_channels.simps)
  then show ?thesis using one(2,3) by auto
qed

theorem failed_probe_leaks_witness:
  "\<exists>lp c d' h'. dma_proxy_probe (willing_kernel\<lparr>channel_answer := (\<lambda>h'. if h' = [] then channel_answer willing_kernel [] else None)\<rparr>)
      (\<lambda>_. sample_channel 0) unloaded [] = Some (-1, Some lp, d', h') \<and> hd (channels lp) = c \<and>
    total_count d' = total_count unloaded + 1 \<and>
    (\<forall>r. balance h' r = balance [] r + owns c r + of_bool (local_class_p unloaded = ClassNull \<and> r = Class (local_class_p d')))"
  by (rule failed_probe_leaks [OF willing_kernel_ok(1) refl, of "''tx''" "''rx''" "[]"])
    (simp_all add: willing_kernel_ok willing_kernel_def [THEN arg_cong, of dma_names])

end
