(* ===== verification/Spec2Isabelle.thy ===== *)
theory Spec2Isabelle
  imports Fsbl_Progress Ddr_Progress Ddr_Writes Fsbl_Bitstream Fsbl_Boot_Device Fsbl_Dfu Fsbl_Board_Runs Proxy_App Proxy_Device
begin

text \<open>
  Lilac UxB: a verification of the two programs of the repository that are written in C.

  \<^bold>\<open>The programs.\<close>  \<open>src/SDK/FSBL\<close> is the first stage boot loader of a Zynq UltraScale+
  board.  After a reset it initialises the processor, reads an image header from the boot
  device, loads every partition of the image to its destination (with checksum,
  authentication and decryption), programs the logic, and hands the machine over to the
  loaded applications.  \<open>dma-proxy.c\<close> (under \<open>recipes-modules\<close>) is a Linux driver that lets
  applications move data through DMA channels; \<open>dma-proxy-test.c\<close> is the application
  around it.

  \<^bold>\<open>The boot loader: state and effects.\<close>  \<open>Fsbl_Machine\<close> has the global \<open>FsblInstance\<close> as the
  record \<open>XFsblPs\<close>, extended by the static variables of the C files and by the history of
  register accesses and external calls (\<open>trace\<close>).  A function of the C code becomes a
  \<open>prog\<close>: from a state to a result and a state.  A result is a return value or \<open>Halted e\<close>,
  where \<open>e\<close> says how the loader was left: the jump to an application, the soft reset, the
  endless wait of an APU-only restart, or a memory access that the C code would make outside
  of an array of the instance (\<open>OutOfBounds\<close>) or of \<open>ReadBuffer\<close> (\<open>BufferOverflow\<close>).  \<open>None\<close>
  is a run that never ends.  Registers, the board support package, \<open>psu_init\<close>, the
  crypto engines and the flash chips are a \<open>world\<close>: functions from the history to an
  answer.  No law is assumed of a world, so a register may change between two reads and every
  call may fail.  Status values, masks and addresses have their C width and wrap.

  \<^bold>\<open>The boot loader: theories.\<close>  In the order of the calls, from the bottom:
  \<^item> \<open>Fsbl_Prelude\<close>: word types, the collections \<open>hw\<close>, \<open>frame\<close> and others, lemmas on lists and words;
  \<^item> \<open>Fsbl_Hw\<close>: the constants of the headers, by the name of their macro;
  \<^item> \<open>Fsbl_Machine\<close>: state, world, monad, weakest preconditions (\<open>wp\<close>), the frame calculus
    (\<open>keeps\<close>, locales \<open>io_closed\<close>, \<open>io_stable\<close>, \<open>quiet_io\<close>, \<open>buffers_closed\<close>), what a success establishes
    (\<open>establishes\<close>), what the history contains (\<open>since\<close>, \<open>contains\<close>), termination (\<open>returns\<close>);
  \<^item> \<open>Fsbl_Image_Header\<close> (\<open>xfsbl_image_header.c\<close>): parsing, checksums and validation of the image
    header table and the partition headers, the structure for the trusted firmware;
  \<^item> \<open>Fsbl_Misc\<close> (\<open>xfsbl_misc.c\<close>, \<open>xfsbl_misc_drivers.c\<close>, \<open>xfsbl_hooks.c\<close>): strings, power islands,
    isolation, watchdog, hooks;
  \<^item> \<open>Fsbl_Bs\<close> (\<open>xfsbl_bs.c\<close>, \<open>xfsbl_csu_dma.c\<close>): download of a bitstream;
  \<^item> \<open>Fsbl_Flash\<close> (\<open>xfsbl_qspi.c\<close>, \<open>xfsbl_nand.c\<close>, \<open>xfsbl_sd.c\<close>): the boot devices; a transfer is a list of
    messages in the history;
  \<^item> \<open>Fsbl_Flash_Read\<close>: what a history of transfers reads from the chips (selection, bank registers,
    commands), and one turn of the copy loop;
  \<^item> \<open>Fsbl_Boot_Device\<close>: the contract of a boot device (locale \<open>boot_device\<close>), both QSPI drivers as
    instances of it, and the cases in which other bytes are read;
  \<^item> \<open>Fsbl_Usb\<close> (\<open>xfsbl_usb.c\<close>, \<open>xfsbl_dfu_util.c\<close>): boot over USB: the requests of a host, the firmware download
    and its copy;
  \<^item> \<open>Fsbl_Dfu\<close>: what a download by a host gives, and what any requests of a host can do;
  \<^item> \<open>Fsbl_Board\<close> (\<open>xfsbl_board.c\<close>): the evaluation boards, with the board as an argument in place of its macro; the
    rest of the loader calls \<open>Dev BoardInit\<close>, as on a board without a macro;
  \<^item> \<open>Fsbl_Board_Runs\<close>: the messages that this initialisation sends;
  \<^item> \<open>Fsbl_Tcm\<close> (\<open>XFsbl_PowerUpMemory\<close>, \<open>XFsbl_EccInit\<close> and its callers): tightly coupled memories;
  \<^item> \<open>Fsbl_Auth\<close> (\<open>xfsbl_authentication.c\<close>, \<open>xfsbl_rsa_sha.c\<close>): keys, revocation, signatures;
  \<^item> \<open>Fsbl_Pl_Partition\<close> (\<open>xfsbl_plpartition_valid.c\<close>): bitstreams that are authenticated in blocks, each
    read twice, and the decryption of their chunks;
  \<^item> \<open>Fsbl_Partition_Load\<close> (\<open>xfsbl_partition_load.c\<close>): the life of one partition;
  \<^item> \<open>Fsbl_Bitstream\<close>: what the validation of a signed bitstream guarantees, with an example run;
  \<^item> \<open>Fsbl_Handoff\<close> (\<open>xfsbl_handoff.c\<close>): release of the cores and exit;
  \<^item> \<open>Fsbl_Init\<close> (\<open>xfsbl_initialization.c\<close>): stages 1 and 2;
  \<^item> \<open>Fsbl_Main\<close> (\<open>xfsbl_main.c\<close>): the stage machine, error lock-down and fallback;
  \<^item> \<open>Fsbl_Boot\<close>: the boot as a whole against an abstract machine of phases, and the devices that are initialised;
  \<^item> \<open>Fsbl_Progress\<close>: hardware that answers, and the properties of whole runs.

  \<^bold>\<open>The memory initialisation: theories.\<close>  \<open>xfsbl_ddr_init.c\<close> sets up the memory controller and its PHY from the data
  of the memory module.  It is compiled only with \<open>XPAR_DYNAMIC_DDR_ENABLED\<close>; the theories \<open>Ddr_...\<close> are modelled for
  that switch, with the board variant, the self-refresh switch and the settings of the design as the record \<open>ddr_config\<close>:
  \<^item> \<open>Ddr_Hw\<close>: the constants, the bytes of the module data and the indices of the two arrays of values, by their C names;
  \<^item> \<open>Ddr_Float\<close>: rationals rounded to the 24 or 53 binary digits of \<open>float\<close> and \<open>double\<close> (nearest, ties to even), with infinities
    and no number; overflow and subnormal numbers do not occur for these arguments and are left out; \<open>XFsbl_Ceil\<close>, \<open>XFsbl_Round\<close>;
  \<^item> \<open>Ddr_Dimm\<close>: the parameters of a module; \<open>Ddr_Spd\<close>: from the data of DDR3, DDR4, LPDDR3 and LPDDR4 modules; \<open>Ddr_Params\<close>:
    from the design (\<open>XFsbl_InitilizeDdrParams\<close>).  A conversion that C leaves undefined is \<open>None\<close>, and then \<open>OutOfBounds\<close> in a run;
  \<^item> \<open>Ddr_Fields\<close>: words made of fields; \<open>Ddr_Address_Map\<close>: the address map, with the unbounded searches of the code as \<open>None\<close>;
  \<^item> \<open>Ddr_Addressing\<close>: the map read back from its registers, against the order the code lists the bits in;
  \<^item> \<open>Ddr_Controller\<close>, \<open>Ddr_Controller_Init\<close>, \<open>Ddr_Registers\<close>: the values of the controller, for each type of memory, and its
    registers; \<open>Ddr_Phy_Values\<close>, \<open>Ddr_Phy\<close>: the same of the PHY; a long function is a chain of definitions in the order of its lines;
  \<^item> \<open>Ddr_Writes\<close>: what the register writes leave behind;
  \<^item> \<open>Ddr_Training\<close>: the training sequence; \<open>Ddr_Init\<close>: the module data over I2C, and \<open>XFsbl_DdrInit\<close>;
  \<^item> \<open>Ddr_Progress\<close>: the initialisation as a whole.

  \<^bold>\<open>The boot loader: what is proved.\<close>
  Whole runs (\<open>Fsbl_Progress\<close>): no run returns from \<open>main\<close> or indexes an array of the instance out
  of its bounds, for any world; on a world whose polled registers eventually answer
  (locale \<open>responsive_hardware\<close>) every run ends; the turns of \<open>main\<close> refine the phases start, system
  up, partition \<open>k\<close>, handoff, failed, and there are at most 99 of them (three for each of up to 32
  partitions with their early handoffs, and the stages around them).
  Security: a partition, or an image, that must be authenticated is accepted only after the
  signatures were verified over the data at its address, keys first, each against the hash that the engine gave for it; the primary key is accepted
  exactly if its hash is in the fuses and it is not revoked; a chunk of a signed bitstream
  reaches the logic only if its running hash is one of those of the first reading, whose signature
  was verified.
  Image header: exactly the acceptable headers are accepted, corrupted tables are found, the entries for the trusted firmware are the eligible
  partitions.  Handoff: the table of CPUs has no duplicates and stays in bounds (locale
  \<open>handoff_table\<close>), a core has its vector before it leaves reset.  Memories, names, waits:
  the chunks of the ECC initialisation tile the range, the digits of the file name, bounded waits.
  Boot devices: after its initialisation the QSPI driver reads exactly the bytes asked for, across
  banks and chips, for every maker whose banks it can select; every copy ends.
  USB: the blocks of a download arrive one behind the other, up to the block numbers that wrap and the end of
  the memory that is not checked; which requests leave a static array; the states of the download.
  Memory: on a 64-bit bus the address map sends the bits of the module one to one to those of an address; on a 32-bit bus
  it loses the columns, and two mappings have no second bank group.  No two fields of a register overlap, so each reads back
  as it was written.  The two variants of the initialisation agree on DDR4 modules; it fails exactly when a call that reads the module fails, before any register is touched;
  the training succeeds whenever its waits end, whether the PLLs of the byte lanes have locked or not; with read DBI it never does.
  Boards: the voltage that is programmed is the highest one within the limits of the card, with 1.2 V when there is none; the
  lanes that are selected; a card whose records lie behind the bytes that were read.
  Errors: what the code does on the paths where it does not do what it means to is stated as it is
  and proved; the manifest lists these as findings.

  \<^bold>\<open>The DMA proxy.\<close>
  \<^item> \<open>Proxy_Transfer\<close>: the channel, \<open>start_transfer\<close>, \<open>wait_for_transfer\<close> and \<open>ioctl\<close>, on an engine
    that is a record of answers; concurrent callers of one channel as a step relation
    (\<open>ioctl_step\<close>) whose steps are the copy of the index, the start and the wait.  Proved: the memory
    handed to the engine, the outcome of a blocking transfer for any engine, what a refused
    transfer reports, that callers that exclude each other use their own index and that callers that do
    not may use one another's.
  \<^item> \<open>Proxy_App\<close>: the two threads of the application.  Proved: on a reliable engine their requests are
    the ring schedule of exactly \<open>N\<close> transfers (more for a stopped transmitter), and the sizes for
    which a transfer stays inside its buffer.
  \<^item> \<open>Proxy_Device\<close>: probe and remove with a ledger of the kernel resources (\<open>balance\<close>).  Proved: they
    balance on a kernel that grants everything, and three error paths on which they do not.
  An index outside of the tables and a device name that overruns its array are the value \<open>None\<close>
  there.  The ring loops are partial functions; the schedules are stated as \<open>Some\<close>, so they end.

  \<^bold>\<open>Build configuration.\<close>  The code is modelled for \<open>ARMA53_64\<close> with \<open>XFSBL_SECURE\<close>, \<open>XFSBL_BS\<close>,
  \<open>XFSBL_PS_DDR\<close>, \<open>XFSBL_OCM\<close> and \<open>XFSBL_FORCE_ENC\<close> defined, and without \<open>XFSBL_PERF\<close>,
  \<open>XFSBL_PL_CLEAR\<close>, \<open>XFSBL_PROT_BYPASS\<close>, \<open>XFSBL_ENABLE_DDR_SR\<close>, \<open>XFSBL_A53_TCM_ECC\<close>, \<open>XFSBL_PL_DDR\<close>,
  \<open>XPAR_DYNAMIC_DDR_ENABLED\<close> (outside of the theories \<open>Ddr_...\<close>), \<open>ENABLE_POS\<close> and \<open>FSBL_PARTITION_LOAD_EXCLUDE\<close>.  \<open>XFSBL_USB\<close> is defined only
  for \<open>Fsbl_Usb\<close>: the initialisation does not know the USB boot mode.  What the generated
  \<open>xparameters.h\<close> decides (flash controllers, end of DDR, high DDR, watchdog, ECC, power management)
  and early handoff are fields \<open>cfg_...\<close> of the world.  A run starts from \<open>fsbl_init\<close>; saving and
  restoring the data section are steps of the history.  Functions that are polled without a
  bound in C are partial functions here, without fuel; loops over a fixed number of
  elements are primitive recursive in that number.

  \<^bold>\<open>Not modelled.\<close>  Printing and measuring; the exit routine (assembly); code compiled for the
  Cortex-R5 or for the switches above; the composition of the
  flash drivers with the callers of \<open>DeviceInit\<close> and \<open>DeviceCopy\<close>, which are external calls there; the
  calls of the board and the memory initialisation from the rest of the loader; the generated
  \<open>psu_init\<close> files; the internal test, \<open>mmap\<close> and \<open>open\<close> of the driver; the hardware design, device
  trees and scripts.  The partition headers of an authenticated image are taken from \<open>ReadBuffer\<close> without
  a check of their offset, which the model does not report: the values behind the buffer are unspecified.  \<open>XFsbl_SetTlbAttributes\<close> is
  an external call.  Certificates are read from \<open>AuthBuffer\<close>, where every caller has copied them.
\<close>

end
